(* ===== verification/Prelude.thy ===== *)
theory Prelude
  imports Main "HOL-Library.Word" "HOL-Library.Code_Target_Nat" "HOL-Library.Code_Target_Int"
begin

text \<open>
  Shared vocabulary of the development: the exceptions the C++ code throws, the result
  type of code that can throw, the state-and-exception monad the IR builder and the x86
  translators are written in, and small facts about them.

  A C++ statement sequence that may throw and mutates an object of type \<open>'s\<close> is a value
  of type \<open>('s, 'a) prog\<close>: it takes the object and returns either the exception or the
  result with the updated object.  \<open>bnd m f\<close> is \<open>auto x = m; f(x)\<close>, \<open>ret x\<close> is a result,
  \<open>throw e\<close> is \<open>throw e\<close>, and \<open>andthen m m'\<close> is \<open>m; m'\<close>.
\<close>

unbundle bit_operations_syntax

named_theorems prog_simps \<open>evaluation rules of the state-and-exception monad\<close>
named_theorems vt_defs \<open>definitions of the fixed value types\<close>

text \<open>
  What can be thrown: \<open>std::runtime_error\<close>, \<open>std::logic_error\<close>, \<open>ir_exception\<close> (each with
  the fixed part of its message), \<open>std::out_of_range\<close> from \<open>.at()\<close>.  Behaviour the C++
  standard leaves undefined (a null dereference, a read through a wrong downcast) is the
  value \<open>Undefined_behaviour\<close>, so that no theorem can rely on it; so is a call of LLVM's
  builder outside its contract.  \<open>Not_modelled\<close> marks a construct that this development
  leaves out (floating-point values, atomic accesses, calls into the runtime).
  \<open>Assertion_failed\<close> is the abort of a failed \<open>ASSERT\<close> or \<open>FATAL\<close>.
\<close>

datatype exn =
    Runtime_error string
  | Logic_error string
  | Ir_exception string
  | Out_of_range
  | Undefined_behaviour string
  | Not_modelled string
  | Assertion_failed string

type_synonym 'a res = "exn + 'a"
type_synonym ('s, 'a) prog = "'s \<Rightarrow> exn + ('a \<times> 's)"

definition ret :: "'a \<Rightarrow> ('s, 'a) prog" where
  "ret x s = Inr (x, s)"

definition throw :: "exn \<Rightarrow> ('s, 'a) prog" where
  "throw e s = Inl e"

definition bnd :: "('s, 'a) prog \<Rightarrow> ('a \<Rightarrow> ('s, 'b) prog) \<Rightarrow> ('s, 'b) prog" where
  "bnd m f s = (case m s of Inl e \<Rightarrow> Inl e | Inr (x, s') \<Rightarrow> f x s')"

definition andthen :: "('s, 'a) prog \<Rightarrow> ('s, 'b) prog \<Rightarrow> ('s, 'b) prog" where
  "andthen m m' = bnd m (\<lambda>_. m')"

definition get :: "('s, 's) prog" where
  "get s = Inr (s, s)"

definition lift_res :: "'a res \<Rightarrow> ('s, 'a) prog" where
  "lift_res r s = (case r of Inl e \<Rightarrow> Inl e | Inr x \<Rightarrow> Inr (x, s))"

fun for_each :: "'a list \<Rightarrow> ('a \<Rightarrow> ('s, unit) prog) \<Rightarrow> ('s, unit) prog" where
  "for_each [] f = ret ()"
| "for_each (x # xs) f = andthen (f x) (for_each xs f)"

text \<open>A loop that carries a local variable through its iterations.\<close>

fun fold_prog :: "'a list \<Rightarrow> ('a \<Rightarrow> 'b \<Rightarrow> ('s, 'b) prog) \<Rightarrow> 'b \<Rightarrow> ('s, 'b) prog" where
  "fold_prog [] f b = ret b"
| "fold_prog (x # xs) f b = bnd (f x b) (fold_prog xs f)"

lemma ret_apply [prog_simps]: "ret x s = Inr (x, s)"
  by (simp add: ret_def)

lemma throw_apply [prog_simps]: "throw e s = Inl e"
  by (simp add: throw_def)

lemma bnd_Inr [prog_simps]: "m s = Inr (x, s') \<Longrightarrow> bnd m f s = f x s'"
  by (simp add: bnd_def)

lemma bnd_Inl [prog_simps]: "m s = Inl e \<Longrightarrow> bnd m f s = Inl e"
  by (simp add: bnd_def)

lemma andthen_Inr [prog_simps]: "m s = Inr (x, s') \<Longrightarrow> andthen m m' s = m' s'"
  by (simp add: andthen_def bnd_def)

lemma andthen_Inl [prog_simps]: "m s = Inl e \<Longrightarrow> andthen m m' s = Inl e"
  by (simp add: andthen_def bnd_def)

lemma get_apply [prog_simps]: "get s = Inr (s, s)"
  by (simp add: get_def)

lemma lift_res_simps [prog_simps]:
  "lift_res (Inl e) s = Inl e" "lift_res (Inr x) s = Inr (x, s)"
  by (simp_all add: lift_res_def)

lemma bnd_InrE:
  assumes "bnd m f s = Inr (y, s'')"
  obtains x s' where "m s = Inr (x, s')" and "f x s' = Inr (y, s'')"
  using assms by (auto simp: bnd_def split: sum.splits)

lemma andthen_InrE:
  assumes "andthen m m' s = Inr (y, s'')"
  obtains x s' where "m s = Inr (x, s')" and "m' s' = Inr (y, s'')"
  using assms by (auto simp: andthen_def elim: bnd_InrE)

text \<open>
  A property of the state that every step of a program keeps: the shape of all the
  builder's invariants.  \<open>keeps P m\<close> says nothing of runs that throw.
\<close>

definition keeps :: "('s \<Rightarrow> 's \<Rightarrow> bool) \<Rightarrow> ('s, 'a) prog \<Rightarrow> bool" where
  "keeps R m \<longleftrightarrow> (\<forall>s x s'. m s = Inr (x, s') \<longrightarrow> R s s')"

named_theorems keeps_intros \<open>programs that keep a reflexive, transitive relation on states\<close>

lemma keepsD: "keeps R m \<Longrightarrow> m s = Inr (x, s') \<Longrightarrow> R s s'"
  by (auto simp: keeps_def)

lemma keeps_ret: "reflp R \<Longrightarrow> keeps R (ret x)"
  by (auto simp: keeps_def ret_def reflp_def)

lemma keeps_throw [simp]: "keeps R (throw e)"
  by (auto simp: keeps_def throw_def)

lemma keeps_get: "reflp R \<Longrightarrow> keeps R get"
  by (auto simp: keeps_def get_def reflp_def)

lemma keeps_lift_res: "reflp R \<Longrightarrow> keeps R (lift_res r)"
  by (auto simp: keeps_def lift_res_def reflp_def split: sum.splits)

lemma keeps_bnd:
  "transp R \<Longrightarrow> keeps R m \<Longrightarrow> (\<And>x. keeps R (f x)) \<Longrightarrow> keeps R (bnd m f)"
  unfolding keeps_def by (metis bnd_InrE transpD)

lemma keeps_andthen:
  "transp R \<Longrightarrow> keeps R m \<Longrightarrow> keeps R m' \<Longrightarrow> keeps R (andthen m m')"
  by (simp add: andthen_def keeps_bnd)

lemma keeps_for_each:
  "reflp R \<Longrightarrow> transp R \<Longrightarrow> (\<And>x. keeps R (f x)) \<Longrightarrow> keeps R (for_each xs f)"
  by (induction xs) (auto intro: keeps_ret keeps_andthen)

lemma keeps_fold_prog:
  "reflp R \<Longrightarrow> transp R \<Longrightarrow> (\<And>x b. keeps R (f x b)) \<Longrightarrow> keeps R (fold_prog xs f b)"
  by (induction xs arbitrary: b) (auto intro: keeps_ret keeps_bnd)

text \<open>Strings as the messages and the formatters build them.\<close>

fun show_nat_aux :: "nat \<Rightarrow> nat \<Rightarrow> string" where
  "show_nat_aux 0 n = []"
| "show_nat_aux (Suc f) n =
     (if n < 10 then [char_of (48 + n)]
      else show_nat_aux f (n div 10) @ [char_of (48 + n mod 10)])"

definition show_nat :: "nat \<Rightarrow> string" where
  "show_nat n = show_nat_aux (Suc n) n"

definition read_digit :: "char \<Rightarrow> nat" where
  "read_digit c = of_char c - 48"

definition read_nat :: "string \<Rightarrow> nat" where
  "read_nat cs = foldl (\<lambda>a c. 10 * a + read_digit c) 0 cs"

lemma read_digit_char [simp]: "d < 10 \<Longrightarrow> read_digit (char_of (48 + d)) = d"
  by (simp add: read_digit_def)

lemma read_show_nat_aux: "n < f \<Longrightarrow> read_nat (show_nat_aux f n) = n"
proof (induction f n rule: show_nat_aux.induct)
  case (2 f n)
  show ?case
  proof (cases "n < 10")
    case False
    then have "n div 10 < f" using "2.prems" by simp
    with False "2.IH" have "read_nat (show_nat_aux f (n div 10)) = n div 10" by simp
    with False show ?thesis by (simp add: read_nat_def)
  qed (simp add: read_nat_def)
qed simp

lemma read_show_nat [simp]: "read_nat (show_nat n) = n"
  unfolding show_nat_def by (rule read_show_nat_aux) simp

lemma show_nat_inject [simp]: "show_nat m = show_nat n \<longleftrightarrow> m = n"
  by (metis read_show_nat)

lemma show_nat_aux_digits:
  "c \<in> set (show_nat_aux f n) \<Longrightarrow> 48 \<le> (of_char c :: nat) \<and> (of_char c :: nat) < 58"
proof (induction f n rule: show_nat_aux.induct)
  case (2 f n)
  then show ?case by (cases "n < 10") auto
qed simp

lemma show_nat_digits:
  "c \<in> set (show_nat n) \<Longrightarrow> 48 \<le> (of_char c :: nat) \<and> (of_char c :: nat) < 58"
  unfolding show_nat_def by (rule show_nat_aux_digits)

lemma underscore_notin_show_nat [simp]: "CHR ''_'' \<notin> set (show_nat n)"
  using show_nat_digits [of "CHR ''_''" n] by auto

end
