(* ===== verification/Value_Type.thy ===== *)
theory Value_Type
  imports Prelude
begin

text \<open>
  The types of IR values (\<open>inc/arancini/ir/value-type.h\<close>): a class, the width of an
  element in bits and the number of elements.  \<open>std::size_t\<close> widths are natural numbers
  here: no operation of the class subtracts, and the largest product is bounded by the
  few widths the translators use.
\<close>

datatype value_type_class = none | signed_integer | unsigned_integer | floating_point

record value_type =
  tclass :: value_type_class
  element_width :: nat
  nr_elements :: nat

definition mk_value_type :: "value_type_class \<Rightarrow> nat \<Rightarrow> nat \<Rightarrow> value_type" where
  "mk_value_type tc w n = \<lparr>tclass = tc, element_width = w, nr_elements = n\<rparr>"

abbreviation scalar_type :: "value_type_class \<Rightarrow> nat \<Rightarrow> value_type" where
  "scalar_type tc w \<equiv> mk_value_type tc w 1"

definition v :: value_type where [vt_defs]: "v = mk_value_type none 0 1"
definition u1 :: value_type where [vt_defs]: "u1 = mk_value_type unsigned_integer 1 1"
definition u8 :: value_type where [vt_defs]: "u8 = mk_value_type unsigned_integer 8 1"
definition u16 :: value_type where [vt_defs]: "u16 = mk_value_type unsigned_integer 16 1"
definition u32 :: value_type where [vt_defs]: "u32 = mk_value_type unsigned_integer 32 1"
definition u64 :: value_type where [vt_defs]: "u64 = mk_value_type unsigned_integer 64 1"
definition u80 :: value_type where [vt_defs]: "u80 = mk_value_type unsigned_integer 80 1"
definition u128 :: value_type where [vt_defs]: "u128 = mk_value_type unsigned_integer 128 1"
definition u256 :: value_type where [vt_defs]: "u256 = mk_value_type unsigned_integer 256 1"
definition u512 :: value_type where [vt_defs]: "u512 = mk_value_type unsigned_integer 512 1"
definition s8 :: value_type where [vt_defs]: "s8 = mk_value_type signed_integer 8 1"
definition s16 :: value_type where [vt_defs]: "s16 = mk_value_type signed_integer 16 1"
definition s32 :: value_type where [vt_defs]: "s32 = mk_value_type signed_integer 32 1"
definition s64 :: value_type where [vt_defs]: "s64 = mk_value_type signed_integer 64 1"
definition s128 :: value_type where [vt_defs]: "s128 = mk_value_type signed_integer 128 1"
definition f32 :: value_type where [vt_defs]: "f32 = mk_value_type floating_point 32 1"
definition f64 :: value_type where [vt_defs]: "f64 = mk_value_type floating_point 64 1"
definition f80 :: value_type where [vt_defs]: "f80 = mk_value_type floating_point 80 1"

definition vector_type :: "value_type \<Rightarrow> nat \<Rightarrow> value_type" where
  "vector_type t n = mk_value_type (tclass t) (element_width t) n"

definition is_vector :: "value_type \<Rightarrow> bool" where
  "is_vector t \<longleftrightarrow> nr_elements t > 1"

definition width :: "value_type \<Rightarrow> nat" where
  "width t = element_width t * nr_elements t"

definition is_floating_point :: "value_type \<Rightarrow> bool" where
  "is_floating_point t \<longleftrightarrow> tclass t = floating_point"

definition is_integer :: "value_type \<Rightarrow> bool" where
  "is_integer t \<longleftrightarrow> tclass t = signed_integer \<or> tclass t = unsigned_integer"

definition element_type :: "value_type \<Rightarrow> value_type" where
  "element_type t = mk_value_type (tclass t) (element_width t) 1"

definition get_opposite_signedness :: "value_type \<Rightarrow> value_type res" where
  "get_opposite_signedness t =
     (if tclass t = signed_integer
      then Inr (mk_value_type unsigned_integer (element_width t) (nr_elements t))
      else if tclass t = unsigned_integer
      then Inr (mk_value_type signed_integer (element_width t) (nr_elements t))
      else Inl (Logic_error ''Initial type must be an integer''))"

definition get_signed_type :: "value_type \<Rightarrow> value_type res" where
  "get_signed_type t =
     (if tclass t = signed_integer \<or> tclass t = unsigned_integer
      then Inr (mk_value_type signed_integer (element_width t) (nr_elements t))
      else Inl (Logic_error ''Initial type must be an integer''))"

definition get_unsigned_type :: "value_type \<Rightarrow> value_type res" where
  "get_unsigned_type t =
     (if tclass t = signed_integer \<or> tclass t = unsigned_integer
      then Inr (mk_value_type unsigned_integer (element_width t) (nr_elements t))
      else Inl (Logic_error ''Initial type must be an integer''))"

definition value_type_eq :: "value_type \<Rightarrow> value_type \<Rightarrow> bool" where
  "value_type_eq v1 v2 \<longleftrightarrow>
     element_width v1 = element_width v2 \<and> tclass v1 = tclass v2 \<and>
     nr_elements v1 = nr_elements v2"

record function_type =
  return_type :: value_type
  parameter_types :: "value_type list"

text \<open>The formatter used in every exception message and graph dump.\<close>

definition format_value_type :: "value_type \<Rightarrow> string" where
  "format_value_type t =
     (if nr_elements t > 1 then ''v'' @ show_nat (nr_elements t) @ ''_'' else []) @
     (case tclass t of
        none \<Rightarrow> ''none''
      | signed_integer \<Rightarrow> ''s'' @ show_nat (element_width t)
      | unsigned_integer \<Rightarrow> ''u'' @ show_nat (element_width t)
      | floating_point \<Rightarrow> ''f'' @ show_nat (element_width t))"

lemma mk_value_type_sel [simp]:
  "tclass (mk_value_type tc w n) = tc"
  "element_width (mk_value_type tc w n) = w"
  "nr_elements (mk_value_type tc w n) = n"
  "mk_value_type tc w n = mk_value_type tc' w' n' \<longleftrightarrow> tc = tc' \<and> w = w' \<and> n = n'"
  by (auto simp: mk_value_type_def)

lemma width_mk [simp]: "width (mk_value_type tc w n) = w * n"
  by (simp add: width_def)

lemma value_type_eq_iff [simp]: "value_type_eq a b \<longleftrightarrow> a = b"
  by (cases a, cases b) (auto simp: value_type_eq_def)

lemma type_predicates_mk [simp]:
  "is_vector (mk_value_type tc w n) \<longleftrightarrow> n > 1"
  "is_floating_point (mk_value_type tc w n) \<longleftrightarrow> tc = floating_point"
  "is_integer (mk_value_type tc w n) \<longleftrightarrow> tc = signed_integer \<or> tc = unsigned_integer"
  "element_type (mk_value_type tc w n) = mk_value_type tc w 1"
  "vector_type (mk_value_type tc w n) m = mk_value_type tc w m"
  by (simp_all add: is_vector_def is_floating_point_def is_integer_def element_type_def
        vector_type_def)

text \<open>Where the formatter's output splits: at its first underscore, if it has one.\<close>

lemma append_sep_inject:
  assumes "x \<notin> set as" and "x \<notin> set bs" and "as @ x # cs = bs @ x # ds"
  shows "as = bs \<and> cs = ds"
  using assms
proof (induction as arbitrary: bs)
  case Nil
  then show ?case by (cases bs) auto
next
  case (Cons a as)
  then show ?case by (cases bs) auto
qed

end
