(* ===== verification/IR_Node.thy ===== *)
theory IR_Node
  imports Value_Type
begin

text \<open>
  The nodes and ports of the IR (\<open>inc/arancini/ir/node.h\<close>, \<open>port.h\<close>).  Nodes are C++
  objects that refer to one another by address, so the model keeps them in a heap: a node
  is a natural number (its address), a port is the node it belongs to together with its
  kind, and the heap maps addresses to node contents and ports to their target sets
  (\<open>port::targets_\<close>).  Each C++ class is one constructor of \<open>node_data\<close> with the fields
  of the class, and each C++ constructor is one definition: given the address of the
  object (\<open>this\<close>) it throws, or returns the heap with the object in place and registered
  as a target of the ports it uses, as the C++ constructor bodies do.

  \<open>unsigned long\<close> and \<open>std::size_t\<close> fields are \<open>64 word\<close>; a \<open>double\<close> is its IEEE bit
  pattern.
\<close>

datatype port_kinds =
  P_value | P_constant | P_zero | P_negative | P_overflow | P_carry | P_operation_value

datatype node_kinds =
    K_label | K_read_pc | K_write_pc | K_constant | K_unary_arith | K_binary_arith
  | K_ternary_arith | K_unary_atomic | K_binary_atomic | K_ternary_atomic | K_read_reg
  | K_read_mem | K_write_reg | K_write_mem | K_cast | K_csel | K_bit_shift | K_br | K_cond_br
  | K_bit_extract | K_bit_insert | K_vector_extract | K_vector_insert | K_read_local
  | K_write_local | K_internal_call

datatype br_type = Br_none | Br_sys | Br_br | Br_csel | Br_call | Br_ret

datatype shift_op = Lsl | Lsr | Asr
datatype cast_op = Bitcast | Zx | Sx | Trunc | Convert
datatype fp_convert_type = Fp_none | Fp_round | Fp_trunc
datatype unary_arith_op = U_bnot | U_neg | U_complement | U_sqrt
datatype binary_arith_op =
    B_add | B_sub | B_mul | B_div | B_mod | B_band | B_bor | B_bxor
  | B_cmpeq | B_cmpne | B_cmpgt
  | B_cmpoeq | B_cmpolt | B_cmpole | B_cmpueq | B_cmpult | B_cmpune | B_cmpunlt | B_cmpunle
  | B_cmpo | B_cmpu
datatype ternary_arith_op = T_adc | T_sbb
datatype unary_atomic_op = UA_neg | UA_bnot
datatype binary_atomic_op =
    BA_add | BA_sub | BA_band | BA_bor | BA_xadd | BA_bxor | BA_btc | BA_btr | BA_bts | BA_xchg
datatype ternary_atomic_op = TA_adc | TA_sbb | TA_cmpxchg

type_synonym node_id = nat
type_synonym ulong = "64 word"

datatype port = Port (powner: node_id) (pkind: port_kinds)

record local_var =
  lv_id :: nat
  lv_type :: value_type

record internal_function =
  if_name :: string
  if_sig :: function_type

datatype node_data =
    Label string bool
  | Br "node_id option"
  | Cond_br port "node_id option"
  | Read_pc
  | Write_pc port br_type ulong
  | Constant_i ulong
  | Constant_f ulong
  | Read_reg nat nat string
  | Read_mem port
  | Write_reg nat nat string port
  | Write_mem port port
  | Csel port port port
  | Bit_shift shift_op port port
  | Cast cast_op value_type port fp_convert_type
  | Unary_arith unary_arith_op port
  | Binary_arith binary_arith_op port port
  | Ternary_arith ternary_arith_op port port port
  | Unary_atomic unary_atomic_op port
  | Binary_atomic binary_atomic_op port port
  | Ternary_atomic ternary_atomic_op port port port
  | Bit_extract port ulong ulong
  | Bit_insert port port ulong ulong
  | Vector_extract port nat
  | Vector_insert port nat port
  | Read_local local_var
  | Write_local local_var port
  | Internal_call internal_function "port list"

record node =
  n_vt :: value_type
  n_data :: node_data

record heap =
  nodes :: "node_id \<rightharpoonup> node"
  next_id :: node_id
  targets :: "port \<Rightarrow> node_id set"

definition mk_node :: "value_type \<Rightarrow> node_data \<Rightarrow> node" where
  "mk_node vt d = \<lparr>n_vt = vt, n_data = d\<rparr>"

lemma mk_node_sel [simp]: "n_vt (mk_node vt d) = vt" "n_data (mk_node vt d) = d"
  by (simp_all add: mk_node_def)

fun kind :: "node_data \<Rightarrow> node_kinds" where
  "kind (Label _ _) = K_label"
| "kind (Br _) = K_br"
| "kind (Cond_br _ _) = K_cond_br"
| "kind Read_pc = K_read_pc"
| "kind (Write_pc _ _ _) = K_write_pc"
| "kind (Constant_i _) = K_constant"
| "kind (Constant_f _) = K_constant"
| "kind (Read_reg _ _ _) = K_read_reg"
| "kind (Read_mem _) = K_read_mem"
| "kind (Write_reg _ _ _ _) = K_write_reg"
| "kind (Write_mem _ _) = K_write_mem"
| "kind (Csel _ _ _) = K_csel"
| "kind (Bit_shift _ _ _) = K_bit_shift"
| "kind (Cast _ _ _ _) = K_cast"
| "kind (Unary_arith _ _) = K_unary_arith"
| "kind (Binary_arith _ _ _) = K_binary_arith"
| "kind (Ternary_arith _ _ _ _) = K_ternary_arith"
| "kind (Unary_atomic _ _) = K_unary_atomic"
| "kind (Binary_atomic _ _ _) = K_binary_atomic"
| "kind (Ternary_atomic _ _ _ _) = K_ternary_atomic"
| "kind (Bit_extract _ _ _) = K_bit_extract"
| "kind (Bit_insert _ _ _ _) = K_bit_insert"
| "kind (Vector_extract _ _) = K_vector_extract"
| "kind (Vector_insert _ _ _) = K_vector_insert"
| "kind (Read_local _) = K_read_local"
| "kind (Write_local _ _) = K_write_local"
| "kind (Internal_call _ _) = K_internal_call"

text \<open>The subclasses of \<open>action_node\<close>: \<open>is_action()\<close> is true on exactly these.\<close>

definition is_action :: "node_data \<Rightarrow> bool" where
  "is_action d \<longleftrightarrow> kind d \<in> {K_label, K_br, K_cond_br, K_write_pc, K_write_reg, K_write_mem,
     K_unary_atomic, K_binary_atomic, K_ternary_atomic, K_write_local, K_internal_call}"

fun node_updates_pc :: "node_data \<Rightarrow> br_type" where
  "node_updates_pc (Write_pc _ bt _) = bt"
| "node_updates_pc (Internal_call _ _) = Br_sys"
| "node_updates_pc _ = Br_none"

text \<open>The operand ports of a node, in the order of its fields.\<close>

fun operands :: "node_data \<Rightarrow> port list" where
  "operands (Cond_br c _) = [c]"
| "operands (Write_pc p _ _) = [p]"
| "operands (Read_mem p) = [p]"
| "operands (Write_reg _ _ _ p) = [p]"
| "operands (Write_mem a p) = [a, p]"
| "operands (Csel c t f) = [c, t, f]"
| "operands (Bit_shift _ i a) = [i, a]"
| "operands (Cast _ _ p _) = [p]"
| "operands (Unary_arith _ p) = [p]"
| "operands (Binary_arith _ l r) = [l, r]"
| "operands (Ternary_arith _ l r t) = [l, r, t]"
| "operands (Unary_atomic _ p) = [p]"
| "operands (Binary_atomic _ a r) = [a, r]"
| "operands (Ternary_atomic _ a r t) = [a, r, t]"
| "operands (Bit_extract p _ _) = [p]"
| "operands (Bit_insert p b _ _) = [p, b]"
| "operands (Vector_extract p _) = [p]"
| "operands (Vector_insert p _ x) = [p, x]"
| "operands (Write_local _ p) = [p]"
| "operands (Internal_call _ ps) = ps"
| "operands _ = []"

text \<open>Which ports an object of a class has, and their types.\<close>

definition has_port :: "node_data \<Rightarrow> port_kinds \<Rightarrow> bool" where
  "has_port d k \<longleftrightarrow>
     k = P_value
     \<or> kind d \<in> {K_unary_arith, K_binary_arith, K_ternary_arith, K_unary_atomic, K_binary_atomic,
          K_ternary_atomic} \<and> k \<in> {P_zero, P_negative, P_overflow, P_carry}
     \<or> kind d \<in> {K_unary_atomic, K_binary_atomic, K_ternary_atomic} \<and> k = P_operation_value
     \<or> kind d = K_bit_shift \<and> k \<in> {P_zero, P_negative}"

definition port_vt :: "node \<Rightarrow> port_kinds \<Rightarrow> value_type" where
  "port_vt n k = (if k \<in> {P_zero, P_negative, P_overflow, P_carry} then u1 else n_vt n)"

text \<open>
  \<open>port::type()\<close>.  A C++ reference always refers to an object; the case of an address
  without an object does not arise on well-formed heaps (\<open>wf_heap\<close> below) and gives the
  void type.
\<close>

definition port_type :: "heap \<Rightarrow> port \<Rightarrow> value_type" where
  "port_type h p = (case nodes h (powner p) of None \<Rightarrow> v | Some n \<Rightarrow> port_vt n (pkind p))"

definition val :: "node_id \<Rightarrow> port" where
  "val n = Port n P_value"

lemma val_sel [simp]: "powner (val n) = n" "pkind (val n) = P_value" "val m = val n \<longleftrightarrow> m = n"
  by (simp_all add: val_def)

section \<open>Object construction\<close>

definition add_target :: "port \<Rightarrow> node_id \<Rightarrow> heap \<Rightarrow> heap" where
  "add_target p n h = h\<lparr>targets := (targets h)(p := insert n (targets h p))\<rparr>"

definition remove_target :: "port \<Rightarrow> node_id \<Rightarrow> heap \<Rightarrow> heap" where
  "remove_target p n h = h\<lparr>targets := (targets h)(p := targets h p - {n})\<rparr>"

definition place :: "node_id \<Rightarrow> node \<Rightarrow> port list \<Rightarrow> heap \<Rightarrow> heap" where
  "place this n ps h = fold (\<lambda>p. add_target p this) ps (h\<lparr>nodes := (nodes h)(this \<mapsto> n)\<rparr>)"

type_synonym ctor = "node_id \<Rightarrow> heap \<Rightarrow> heap res"

definition action_vt :: value_type where
  "action_vt = mk_value_type none 0 0"

definition label_node :: "string \<Rightarrow> ctor" where
  "label_node name this h = Inr (place this (mk_node action_vt (Label name False)) [] h)"

text \<open>\<open>label_node::add_use\<close>: a label may be the target of one jump only.\<close>

definition add_use :: "node_id \<Rightarrow> heap \<Rightarrow> heap res" where
  "add_use l h =
     (case nodes h l of
        Some n \<Rightarrow>
          (case n_data n of
             Label name used \<Rightarrow>
               if used then Inl (Ir_exception ''Label node used by multiple jumps'')
               else Inr (h\<lparr>nodes := (nodes h)(l \<mapsto> n\<lparr>n_data := Label name True\<rparr>)\<rparr>)
           | _ \<Rightarrow> Inl (Undefined_behaviour ''not a label''))
      | None \<Rightarrow> Inl (Undefined_behaviour ''dangling label''))"

definition add_use_opt :: "node_id option \<Rightarrow> heap \<Rightarrow> heap res" where
  "add_use_opt t h = (case t of None \<Rightarrow> Inr h | Some l \<Rightarrow> add_use l h)"

definition br_node :: "node_id option \<Rightarrow> ctor" where
  "br_node target this h =
     (case add_use_opt target h of
        Inl e \<Rightarrow> Inl e
      | Inr h' \<Rightarrow> Inr (place this (mk_node action_vt (Br target)) [] h'))"

definition cond_br_node :: "port \<Rightarrow> node_id option \<Rightarrow> ctor" where
  "cond_br_node cond target this h =
     (case add_use_opt target h of
        Inl e \<Rightarrow> Inl e
      | Inr h' \<Rightarrow> Inr (place this (mk_node action_vt (Cond_br cond target)) [cond] h'))"

text \<open>\<open>br_node::add_br_target\<close> and \<open>cond_br_node::add_br_target\<close>.\<close>

definition add_br_target :: "node_id \<Rightarrow> node_id \<Rightarrow> heap \<Rightarrow> heap res" where
  "add_br_target b l h =
     (case nodes h b of
        Some n \<Rightarrow>
          (case n_data n of
             Br _ \<Rightarrow> add_use l (h\<lparr>nodes := (nodes h)(b \<mapsto> n\<lparr>n_data := Br (Some l)\<rparr>)\<rparr>)
           | Cond_br c _ \<Rightarrow> add_use l (h\<lparr>nodes := (nodes h)(b \<mapsto> n\<lparr>n_data := Cond_br c (Some l)\<rparr>)\<rparr>)
           | _ \<Rightarrow> Inl (Undefined_behaviour ''not a branch''))
      | None \<Rightarrow> Inl (Undefined_behaviour ''dangling branch''))"

definition read_pc_node :: ctor where
  "read_pc_node this h = Inr (place this (mk_node u64 Read_pc) [] h)"

definition write_pc_node :: "port \<Rightarrow> br_type \<Rightarrow> ulong \<Rightarrow> ctor" where
  "write_pc_node p bt target this h =
     Inr (place this (mk_node action_vt (Write_pc p bt target)) [p] h)"

definition constant_node_i :: "value_type \<Rightarrow> ulong \<Rightarrow> ctor" where
  "constant_node_i vt cv this h =
     (if tclass vt \<noteq> signed_integer \<and> tclass vt \<noteq> unsigned_integer
      then Inl (Ir_exception ''constructing a constant node with an integer for a non-integer value type'')
      else Inr (place this (mk_node vt (Constant_i cv)) [] h))"

definition constant_node_f :: "value_type \<Rightarrow> ulong \<Rightarrow> ctor" where
  "constant_node_f vt cv this h =
     (if tclass vt \<noteq> floating_point
      then Inl (Ir_exception ''constructing a constant node with a float for a non-float value type'')
      else Inr (place this (mk_node vt (Constant_f cv)) [] h))"

text \<open>
  \<open>constant_node::is_zero\<close>: the float branch compares the \<open>double\<close> with 0, which both
  zeroes satisfy.
\<close>

definition is_zero :: "node \<Rightarrow> bool" where
  "is_zero n =
     (case n_data n of
        Constant_i cv \<Rightarrow> if is_floating_point (n_vt n) then cv = 0 \<or> cv = 0x8000000000000000 else cv = 0
      | Constant_f cv \<Rightarrow> if is_floating_point (n_vt n) then cv = 0 \<or> cv = 0x8000000000000000 else cv = 0
      | _ \<Rightarrow> False)"

definition read_reg_node :: "value_type \<Rightarrow> nat \<Rightarrow> nat \<Rightarrow> string \<Rightarrow> ctor" where
  "read_reg_node vt regoff regidx regname this h =
     Inr (place this (mk_node vt (Read_reg regoff regidx regname)) [] h)"

definition read_mem_node :: "value_type \<Rightarrow> port \<Rightarrow> ctor" where
  "read_mem_node vt addr this h = Inr (place this (mk_node vt (Read_mem addr)) [addr] h)"

definition write_reg_node :: "nat \<Rightarrow> nat \<Rightarrow> string \<Rightarrow> port \<Rightarrow> ctor" where
  "write_reg_node regoff regidx regname p this h =
     Inr (place this (mk_node action_vt (Write_reg regoff regidx regname p)) [p] h)"

definition write_mem_node :: "port \<Rightarrow> port \<Rightarrow> ctor" where
  "write_mem_node addr p this h =
     Inr (place this (mk_node action_vt (Write_mem addr p)) [addr, p] h)"

definition csel_node :: "port \<Rightarrow> port \<Rightarrow> port \<Rightarrow> ctor" where
  "csel_node condition trueval falseval this h =
     Inr (place this (mk_node (port_type h trueval) (Csel condition trueval falseval))
            [condition, trueval, falseval] h)"

definition bit_shift_node :: "shift_op \<Rightarrow> port \<Rightarrow> port \<Rightarrow> ctor" where
  "bit_shift_node op input amount this h =
     Inr (place this (mk_node (port_type h input) (Bit_shift op input amount)) [input, amount] h)"

definition cast_node :: "cast_op \<Rightarrow> value_type \<Rightarrow> port \<Rightarrow> fp_convert_type \<Rightarrow> ctor" where
  "cast_node op target_type source convert_type this h =
     (let st = port_type h source in
      if op = Bitcast \<and> width target_type \<noteq> width st
      then Inl (Ir_exception ''cannot bitcast between types with different sizes'')
      else if op = Convert \<and> tclass target_type \<noteq> floating_point \<and> tclass st \<noteq> floating_point
              \<and> tclass target_type = tclass st
      then Inl (Ir_exception ''cannot convert between the same non-FP type classes'')
      else if op \<noteq> Bitcast \<and> op \<noteq> Convert \<and> op \<noteq> Zx \<and> tclass target_type \<noteq> tclass st
      then Inl (Ir_exception ''cannot cast between type classes'')
      else if convert_type \<noteq> Fp_none \<and> op \<noteq> Convert
      then Inl (Ir_exception ''convert type should be none if the cast_op is not convert'')
      else Inr (place this (mk_node target_type (Cast op target_type source convert_type)) [source] h))"

definition unary_arith_node :: "unary_arith_op \<Rightarrow> port \<Rightarrow> ctor" where
  "unary_arith_node op lhs this h =
     Inr (place this (mk_node (port_type h lhs) (Unary_arith op lhs)) [lhs] h)"

definition binary_arith_node :: "binary_arith_op \<Rightarrow> port \<Rightarrow> port \<Rightarrow> ctor" where
  "binary_arith_node op lhs rhs this h =
     (if op \<in> {B_band, B_bor, B_bxor} \<and> width (port_type h lhs) \<noteq> width (port_type h rhs)
      then Inl (Ir_exception ''incompatible types in binary arith node'')
      else Inr (place this (mk_node (port_type h lhs) (Binary_arith op lhs rhs)) [lhs, rhs] h))"

definition ternary_arith_node :: "ternary_arith_op \<Rightarrow> port \<Rightarrow> port \<Rightarrow> port \<Rightarrow> ctor" where
  "ternary_arith_node op lhs rhs tp this h =
     Inr (place this (mk_node (port_type h lhs) (Ternary_arith op lhs rhs tp)) [lhs, rhs, tp] h)"

definition unary_atomic_node :: "unary_atomic_op \<Rightarrow> port \<Rightarrow> ctor" where
  "unary_atomic_node op lhs this h =
     Inr (place this (mk_node (port_type h lhs) (Unary_atomic op lhs)) [lhs] h)"

definition binary_atomic_node :: "binary_atomic_op \<Rightarrow> port \<Rightarrow> port \<Rightarrow> ctor" where
  "binary_atomic_node op address operand this h =
     Inr (place this (mk_node (port_type h operand) (Binary_atomic op address operand))
            [address, operand] h)"

definition ternary_atomic_node :: "ternary_atomic_op \<Rightarrow> port \<Rightarrow> port \<Rightarrow> port \<Rightarrow> ctor" where
  "ternary_atomic_node op address rhs tp this h =
     Inr (place this (mk_node (port_type h rhs) (Ternary_atomic op address rhs tp))
            [address, rhs, tp] h)"

text \<open>
  The range checks of \<open>bit_extract_node\<close> and \<open>bit_insert_node\<close> are \<open>std::size_t\<close>
  arithmetic, so they wrap; \<open>bit_insert_node\<close> registers itself with the value only.
\<close>

definition bit_extract_node :: "port \<Rightarrow> ulong \<Rightarrow> ulong \<Rightarrow> ctor" where
  "bit_extract_node p from len this h =
     (if from + len - 1 > of_nat (width (port_type h p)) - 1
      then Inl (Ir_exception ''bit extract range is out of bound from source value'')
      else Inr (place this (mk_node (mk_value_type unsigned_integer (unat len) 1)
             (Bit_extract p from len)) [p] h))"

definition bit_insert_node :: "port \<Rightarrow> port \<Rightarrow> ulong \<Rightarrow> ulong \<Rightarrow> ctor" where
  "bit_insert_node p bits to len this h =
     (let w = (of_nat (width (port_type h p)) :: ulong) in
      if width (port_type h bits) > width (port_type h p)
      then Inl (Ir_exception ''width of type of incoming bits cannot be greater than type of value'')
      else if len > w
      then Inl (Ir_exception ''width of type of incoming bits cannot be smaller than requested length'')
      else if to + len - 1 > w - 1
      then Inl (Ir_exception ''bit insert range is out of bounds in target value'')
      else Inr (place this (mk_node (port_type h p) (Bit_insert p bits to len)) [p] h))"

definition vector_extract_node :: "port \<Rightarrow> nat \<Rightarrow> ctor" where
  "vector_extract_node vct index this h =
     Inr (place this (mk_node (element_type (port_type h vct)) (Vector_extract vct index)) [] h)"

definition vector_insert_node :: "port \<Rightarrow> nat \<Rightarrow> port \<Rightarrow> ctor" where
  "vector_insert_node vct index x this h =
     Inr (place this (mk_node (port_type h vct) (Vector_insert vct index x)) [] h)"

definition read_local_node :: "local_var \<Rightarrow> ctor" where
  "read_local_node lv this h = Inr (place this (mk_node (lv_type lv) (Read_local lv)) [] h)"

definition write_local_node :: "local_var \<Rightarrow> port \<Rightarrow> ctor" where
  "write_local_node lv p this h = Inr (place this (mk_node action_vt (Write_local lv p)) [] h)"

definition internal_call_node :: "internal_function \<Rightarrow> port list \<Rightarrow> ctor" where
  "internal_call_node fn args this h =
     Inr (place this (mk_node (return_type (if_sig fn)) (Internal_call fn args)) [] h)"

lemmas ctor_defs = label_node_def br_node_def cond_br_node_def read_pc_node_def write_pc_node_def
  constant_node_i_def constant_node_f_def read_reg_node_def read_mem_node_def write_reg_node_def
  write_mem_node_def csel_node_def bit_shift_node_def cast_node_def unary_arith_node_def
  binary_arith_node_def ternary_arith_node_def unary_atomic_node_def binary_atomic_node_def
  ternary_atomic_node_def bit_extract_node_def bit_insert_node_def vector_extract_node_def
  vector_insert_node_def read_local_node_def write_local_node_def internal_call_node_def


section \<open>Well-formed heaps\<close>

text \<open>
  What C++ guarantees by construction: a node is built from ports that already exist, so
  operands are older than the node and the graph is acyclic; jumps go to labels; the
  conditions the constructors check hold of every node in the heap; a node registered as a
  target of a port uses that port.
\<close>

definition valid_port :: "heap \<Rightarrow> port \<Rightarrow> bool" where
  "valid_port h p \<longleftrightarrow> (\<exists>n. nodes h (powner p) = Some n \<and> has_port (n_data n) (pkind p))"

definition is_label :: "heap \<Rightarrow> node_id \<Rightarrow> bool" where
  "is_label h l \<longleftrightarrow> (\<exists>n. nodes h l = Some n \<and> kind (n_data n) = K_label)"

fun jump_target :: "node_data \<Rightarrow> node_id option" where
  "jump_target (Br t) = t"
| "jump_target (Cond_br _ t) = t"
| "jump_target _ = None"

fun typed_node :: "heap \<Rightarrow> value_type \<Rightarrow> node_data \<Rightarrow> bool" where
  "typed_node h vt (Constant_i _) = is_integer vt"
| "typed_node h vt (Constant_f _) = is_floating_point vt"
| "typed_node h vt (Csel c t f) = (vt = port_type h t)"
| "typed_node h vt (Bit_shift _ i a) = (vt = port_type h i)"
| "typed_node h vt (Cast op t p c) =
     (vt = t \<and> (op = Bitcast \<longrightarrow> width t = width (port_type h p))
      \<and> (op = Sx \<or> op = Trunc \<longrightarrow> tclass t = tclass (port_type h p))
      \<and> (c \<noteq> Fp_none \<longrightarrow> op = Convert))"
| "typed_node h vt (Unary_arith _ p) = (vt = port_type h p)"
| "typed_node h vt (Binary_arith op l r) =
     (vt = port_type h l
      \<and> (op \<in> {B_band, B_bor, B_bxor} \<longrightarrow> width (port_type h l) = width (port_type h r)))"
| "typed_node h vt (Ternary_arith _ l _ _) = (vt = port_type h l)"
| "typed_node h vt (Bit_extract p from len) =
     (from + len - 1 \<le> of_nat (width (port_type h p)) - 1 \<and> width vt = unat len)"
| "typed_node h vt (Bit_insert p b to len) =
     (vt = port_type h p \<and> width (port_type h b) \<le> width (port_type h p)
      \<and> to + len - 1 \<le> of_nat (width (port_type h p)) - 1)"
| "typed_node h vt (Vector_extract p _) = (vt = element_type (port_type h p))"
| "typed_node h vt (Vector_insert p _ _) = (vt = port_type h p)"
| "typed_node h vt _ = True"

definition wf_node :: "heap \<Rightarrow> node_id \<Rightarrow> node \<Rightarrow> bool" where
  "wf_node h i n \<longleftrightarrow>
     (\<forall>p \<in> set (operands (n_data n)). powner p < i \<and> valid_port h p)
     \<and> (\<forall>l. jump_target (n_data n) = Some l \<longrightarrow> is_label h l)
     \<and> typed_node h (n_vt n) (n_data n)"

definition wf_heap :: "heap \<Rightarrow> bool" where
  "wf_heap h \<longleftrightarrow>
     dom (nodes h) = {..<next_id h}
     \<and> (\<forall>i n. nodes h i = Some n \<longrightarrow> wf_node h i n)
     \<and> (\<forall>p i. i \<in> targets h p \<longrightarrow> (\<exists>n. nodes h i = Some n \<and> p \<in> set (operands (n_data n))))"

text \<open>
  How the heap grows: nodes stay where they are, with their type and operands; only a
  label's use mark and a branch's target may change.
\<close>

definition node_ext :: "node \<Rightarrow> node \<Rightarrow> bool" where
  "node_ext n n' \<longleftrightarrow>
     n_vt n = n_vt n' \<and> kind (n_data n) = kind (n_data n') \<and>
     operands (n_data n) = operands (n_data n') \<and>
     (kind (n_data n) \<notin> {K_label, K_br, K_cond_br} \<longrightarrow> n_data n = n_data n')"

definition heap_ext :: "heap \<Rightarrow> heap \<Rightarrow> bool" where
  "heap_ext h h' \<longleftrightarrow>
     next_id h \<le> next_id h' \<and>
     (\<forall>i n. nodes h i = Some n \<longrightarrow> (\<exists>n'. nodes h' i = Some n' \<and> node_ext n n'))"

lemma node_ext_refl [simp]: "node_ext n n"
  by (simp add: node_ext_def)

lemma node_ext_trans: "node_ext a b \<Longrightarrow> node_ext b c \<Longrightarrow> node_ext a c"
  unfolding node_ext_def by metis

lemma heap_ext_refl [simp]: "heap_ext h h"
  by (auto simp: heap_ext_def)

lemma heap_ext_trans: "heap_ext a b \<Longrightarrow> heap_ext b c \<Longrightarrow> heap_ext a c"
  unfolding heap_ext_def by (meson le_trans node_ext_trans)

lemma has_port_kind: "kind d = kind d' \<Longrightarrow> has_port d k = has_port d' k"
  by (simp add: has_port_def)

lemma has_port_value [simp]: "has_port d P_value"
  by (simp add: has_port_def)

lemma valid_port_ext: "valid_port h p \<Longrightarrow> heap_ext h h' \<Longrightarrow> valid_port h' p"
  unfolding valid_port_def heap_ext_def node_ext_def by (metis has_port_kind)

lemma is_label_ext: "is_label h l \<Longrightarrow> heap_ext h h' \<Longrightarrow> is_label h' l"
  unfolding is_label_def heap_ext_def node_ext_def by metis

lemma port_vt_ext: "node_ext n n' \<Longrightarrow> port_vt n k = port_vt n' k"
  by (simp add: node_ext_def port_vt_def)

lemma port_type_ext:
  assumes "valid_port h p" and "heap_ext h h'"
  shows "port_type h' p = port_type h p"
proof -
  obtain n where "nodes h (powner p) = Some n" using assms(1) by (auto simp: valid_port_def)
  moreover from this assms(2) obtain n' where "nodes h' (powner p) = Some n'" "node_ext n n'"
    by (auto simp: heap_ext_def)
  ultimately show ?thesis by (simp add: port_type_def port_vt_ext)
qed

lemma typed_node_ext:
  assumes "\<forall>p \<in> set (operands d). valid_port h p" and "heap_ext h h'"
  shows "typed_node h' vt d = typed_node h vt d"
proof -
  have "port_type h' p = port_type h p" if "p \<in> set (operands d)" for p
    using that assms port_type_ext by blast
  then show ?thesis by (cases d) auto
qed

end
