(* ===== verification/IR_Builder.thy ===== *)
theory IR_Builder
  imports IR_Node
begin

text \<open>
  The IR builder: \<open>packet.h\<close>, \<open>chunk.h\<close>, \<open>ir-builder.h\<close>, \<open>default-ir-builder.{h,cpp}\<close>
  and \<open>internal-function-resolver.h\<close>.  The state of a \<open>default_ir_builder\<close> is the record
  \<open>builder\<close>: the heap its allocator hands nodes out of, the chunk and the packet in
  progress, the completion flag, the local variables allocated so far, the debug metadata
  and the functions the resolver it refers to has created.  Each member function is a
  program over that state; \<open>create_and_insert\<close> is the template every \<open>insert_\<close> function
  goes through.
\<close>

datatype packet_type = Normal | End_of_block

datatype metadata = Text_value string | Numeric_value "64 word"

record packet =
  address :: "64 word"
  disasm :: string
  locals :: "local_var list"
  actions :: "node_id list"

record chunk =
  c_name :: string
  packets :: "packet list"

record builder =
  b_heap :: heap
  allocator :: bool
  current_chunk :: "chunk option"
  current_pkt :: "packet option"
  chunk_complete :: bool
  debug :: bool
  next_local :: nat
  node_metadata :: "node_id \<Rightarrow> string \<rightharpoonup> metadata"
  ifr_functions :: "string \<rightharpoonup> internal_function"

definition mk_packet :: "64 word \<Rightarrow> string \<Rightarrow> packet" where
  "mk_packet a d = \<lparr>address = a, disasm = d, locals = [], actions = []\<rparr>"

definition append_action :: "node_id \<Rightarrow> packet \<Rightarrow> packet" where
  "append_action n p = p\<lparr>actions := actions p @ [n]\<rparr>"

definition set_actions :: "node_id list \<Rightarrow> packet \<Rightarrow> packet" where
  "set_actions as p = p\<lparr>actions := as\<rparr>"

fun br_type_rank :: "br_type \<Rightarrow> nat" where
  "br_type_rank Br_none = 0"
| "br_type_rank Br_sys = 1"
| "br_type_rank Br_br = 2"
| "br_type_rank Br_csel = 3"
| "br_type_rank Br_call = 4"
| "br_type_rank Br_ret = 5"

definition action_updates_pc :: "heap \<Rightarrow> node_id \<Rightarrow> br_type" where
  "action_updates_pc h a = (case nodes h a of None \<Rightarrow> Br_none | Some n \<Rightarrow> node_updates_pc (n_data n))"

fun updates_pc_loop :: "heap \<Rightarrow> br_type \<Rightarrow> node_id list \<Rightarrow> br_type" where
  "updates_pc_loop h mx [] = mx"
| "updates_pc_loop h mx (a # as) =
     updates_pc_loop h
       (if br_type_rank (action_updates_pc h a) > br_type_rank mx then action_updates_pc h a else mx) as"

definition packet_updates_pc :: "heap \<Rightarrow> packet \<Rightarrow> br_type" where
  "packet_updates_pc h p = updates_pc_loop h Br_none (actions p)"

definition add_packet :: "packet \<Rightarrow> chunk \<Rightarrow> chunk" where
  "add_packet p c = c\<lparr>packets := packets c @ [p]\<rparr>"

section \<open>The internal function resolver\<close>

definition resolve ::
  "(string \<Rightarrow> internal_function option) \<Rightarrow> string \<Rightarrow> (string \<rightharpoonup> internal_function)
    \<Rightarrow> (internal_function \<times> (string \<rightharpoonup> internal_function)) res" where
  "resolve create name fs =
     (case fs name of
        Some f \<Rightarrow> Inr (f, fs)
      | None \<Rightarrow>
          (case create name of
             None \<Rightarrow> Inl (Runtime_error ''unable to resolve internal function'')
           | Some f \<Rightarrow> Inr (f, fs(name \<mapsto> f))))"

text \<open>
  The interface a resolver's clients rely on: a subclass supplies \<open>create\<close>, which names the
  functions it makes after the name it is asked for.
\<close>

locale function_resolver =
  fixes create :: "string \<Rightarrow> internal_function option"
  assumes create_name: "create n = Some f \<Longrightarrow> if_name f = n"
begin

definition cached :: "(string \<rightharpoonup> internal_function) \<Rightarrow> bool" where
  "cached fs \<longleftrightarrow> (\<forall>n f. fs n = Some f \<longrightarrow> create n = Some f)"

lemma cached_empty: "cached Map.empty"
  by (simp add: cached_def)

lemma resolve_cached: "cached fs \<Longrightarrow> resolve create n fs = Inr (f, fs') \<Longrightarrow> cached fs'"
  by (auto simp: cached_def resolve_def split: option.splits if_splits)

lemma resolve_name: "cached fs \<Longrightarrow> resolve create n fs = Inr (f, fs') \<Longrightarrow> if_name f = n"
  by (auto simp: cached_def resolve_def create_name split: option.splits)

lemma resolve_again:
  "resolve create n fs = Inr (f, fs') \<Longrightarrow> resolve create n fs' = Inr (f, fs')"
  by (auto simp: resolve_def split: option.splits)

lemma resolve_total: "cached fs \<Longrightarrow> create n \<noteq> None \<longleftrightarrow> (\<exists>r. resolve create n fs = Inr r)"
  by (auto simp: cached_def resolve_def split: option.splits)

end

section \<open>\<open>default_ir_builder\<close>\<close>

definition begin_chunk :: "string \<Rightarrow> (builder, unit) prog" where
  "begin_chunk name b =
     (let b = b\<lparr>allocator := True\<rparr> in
      if current_chunk b \<noteq> None then Inl (Runtime_error ''chunk already in progress'')
      else Inr ((), b\<lparr>current_chunk := Some \<lparr>c_name = name, packets = []\<rparr>\<rparr>))"

definition end_chunk :: "(builder, unit) prog" where
  "end_chunk b =
     (let b = b\<lparr>allocator := False\<rparr> in
      if current_pkt b \<noteq> None then Inl (Runtime_error ''packet in progress'')
      else if current_chunk b = None then Inl (Runtime_error ''chunk not in progress'')
      else if chunk_complete b then Inl (Runtime_error ''chunk already completed'')
      else Inr ((), b\<lparr>chunk_complete := True\<rparr>))"

definition begin_packet :: "64 word \<Rightarrow> string \<Rightarrow> (builder, unit) prog" where
  "begin_packet addr dis b =
     (if current_chunk b = None then Inl (Runtime_error ''chunk not in progress'')
      else if chunk_complete b then Inl (Runtime_error ''chunk is completed'')
      else if current_pkt b \<noteq> None then Inl (Runtime_error ''packet already in progress'')
      else Inr ((), b\<lparr>current_pkt := Some (mk_packet addr dis)\<rparr>))"

definition end_packet :: "(builder, packet_type) prog" where
  "end_packet b =
     (case current_pkt b of
        None \<Rightarrow> Inl (Runtime_error ''packet not in progress'')
      | Some p \<Rightarrow>
          (case current_chunk b of
             None \<Rightarrow> Inl (Undefined_behaviour ''null chunk'')
           | Some c \<Rightarrow>
               Inr (if packet_updates_pc (b_heap b) p \<noteq> Br_none then End_of_block else Normal,
                    b\<lparr>current_chunk := Some (add_packet p c), current_pkt := None\<rparr>)))"

definition get_chunk :: "(builder, chunk) prog" where
  "get_chunk b =
     (case current_chunk b of
        None \<Rightarrow> Inl (Runtime_error ''cannot get chunk when it is incomplete'')
      | Some c \<Rightarrow>
          if \<not> chunk_complete b then Inl (Runtime_error ''cannot get chunk when it is incomplete'')
          else Inr (c, b))"

definition alloc_local :: "value_type \<Rightarrow> (builder, local_var) prog" where
  "alloc_local vt b =
     (case current_pkt b of
        None \<Rightarrow> Inl (Runtime_error ''cannot allocate local variable without packet'')
      | Some p \<Rightarrow>
          let l = \<lparr>lv_id = next_local b, lv_type = vt\<rparr> in
          Inr (l, b\<lparr>next_local := Suc (next_local b),
                    current_pkt := Some (p\<lparr>locals := locals p @ [l]\<rparr>)\<rparr>))"

definition insert_action :: "node_id \<Rightarrow> (builder, unit) prog" where
  "insert_action n b =
     (case current_pkt b of
        None \<Rightarrow> Inl (Runtime_error ''packet not in progress'')
      | Some p \<Rightarrow> Inr ((), b\<lparr>current_pkt := Some (append_action n p)\<rparr>))"

definition process_node :: "node_id \<Rightarrow> (builder, unit) prog" where
  "process_node n b =
     (case current_pkt b of
        Some p \<Rightarrow>
          if debug b
          then Inr ((), b\<lparr>node_metadata := (node_metadata b)
                 (n := (node_metadata b n)(''guest-address'' \<mapsto> Numeric_value (address p)))\<rparr>)
          else Inr ((), b)
      | None \<Rightarrow> Inr ((), b))"

definition node_is_action :: "heap \<Rightarrow> node_id \<Rightarrow> bool" where
  "node_is_action h n = (case nodes h n of None \<Rightarrow> False | Some nd \<Rightarrow> is_action (n_data nd))"

text \<open>\<open>ir_builder::insert\<close>.\<close>

definition insert_node :: "node_id \<Rightarrow> (builder, node_id) prog" where
  "insert_node n b =
     bnd (process_node n) (\<lambda>_ b'.
       (if node_is_action (b_heap b') n then andthen (insert_action n) (ret n) b' else Inr (n, b'))) b"

text \<open>
  \<open>new (allocator->allocate<T>()) T(args...)\<close> followed by \<open>insert\<close>.  The arena is never
  freed while nodes are alive, so the next free address is the next number; without a
  chunk the allocator is a null pointer.
\<close>

definition create :: "ctor \<Rightarrow> (builder, node_id) prog" where
  "create c b =
     (if \<not> allocator b then Inl (Undefined_behaviour ''null allocator'')
      else
        let n = next_id (b_heap b) in
        case c n (b_heap b) of
          Inl e \<Rightarrow> Inl e
        | Inr h \<Rightarrow> Inr (n, b\<lparr>b_heap := h\<lparr>next_id := Suc n\<rparr>\<rparr>))"

definition create_and_insert :: "ctor \<Rightarrow> (builder, node_id) prog" where
  "create_and_insert c = bnd (create c) insert_node"

definition b_port_type :: "port \<Rightarrow> builder \<Rightarrow> value_type" where
  "b_port_type p b = port_type (b_heap b) p"

section \<open>The \<open>insert_\<close> functions of \<open>ir_builder\<close>\<close>

definition insert_constant_i :: "value_type \<Rightarrow> ulong \<Rightarrow> (builder, node_id) prog" where
  "insert_constant_i vt cv = create_and_insert (constant_node_i vt cv)"

definition insert_constant_f :: "value_type \<Rightarrow> ulong \<Rightarrow> (builder, node_id) prog" where
  "insert_constant_f vt cv = create_and_insert (constant_node_f vt cv)"

text \<open>The parameter types truncate: \<open>unsigned char\<close>, \<open>unsigned short\<close>, \<open>unsigned int\<close>
  zero-extend into \<open>unsigned long\<close>, \<open>signed int\<close> sign-extends.\<close>

definition insert_constant_u1 :: "8 word \<Rightarrow> (builder, node_id) prog" where
  "insert_constant_u1 cv = create_and_insert (constant_node_i u1 (ucast cv))"
definition insert_constant_u8 :: "8 word \<Rightarrow> (builder, node_id) prog" where
  "insert_constant_u8 cv = create_and_insert (constant_node_i u8 (ucast cv))"
definition insert_constant_s8 :: "32 word \<Rightarrow> (builder, node_id) prog" where
  "insert_constant_s8 cv = create_and_insert (constant_node_i s8 (scast cv))"
definition insert_constant_u16 :: "16 word \<Rightarrow> (builder, node_id) prog" where
  "insert_constant_u16 cv = create_and_insert (constant_node_i u16 (ucast cv))"
definition insert_constant_s16 :: "32 word \<Rightarrow> (builder, node_id) prog" where
  "insert_constant_s16 cv = create_and_insert (constant_node_i s16 (scast cv))"
definition insert_constant_u32 :: "32 word \<Rightarrow> (builder, node_id) prog" where
  "insert_constant_u32 cv = create_and_insert (constant_node_i u32 (ucast cv))"
definition insert_constant_s32 :: "32 word \<Rightarrow> (builder, node_id) prog" where
  "insert_constant_s32 cv = create_and_insert (constant_node_i s32 (scast cv))"
definition insert_constant_u64 :: "ulong \<Rightarrow> (builder, node_id) prog" where
  "insert_constant_u64 cv = create_and_insert (constant_node_i u64 cv)"
definition insert_constant_u80 :: "ulong \<Rightarrow> (builder, node_id) prog" where
  "insert_constant_u80 cv = create_and_insert (constant_node_i u80 cv)"
definition insert_constant_s64 :: "ulong \<Rightarrow> (builder, node_id) prog" where
  "insert_constant_s64 cv = create_and_insert (constant_node_i s64 cv)"
definition insert_constant_u128 :: "ulong \<Rightarrow> (builder, node_id) prog" where
  "insert_constant_u128 cv = create_and_insert (constant_node_i u128 cv)"
definition insert_constant_f32 :: "ulong \<Rightarrow> (builder, node_id) prog" where
  "insert_constant_f32 cv = create_and_insert (constant_node_f f32 cv)"
definition insert_constant_f64 :: "ulong \<Rightarrow> (builder, node_id) prog" where
  "insert_constant_f64 cv = create_and_insert (constant_node_f f64 cv)"

definition insert_label :: "string \<Rightarrow> (builder, node_id) prog" where
  "insert_label name = create_and_insert (label_node name)"
definition insert_br :: "node_id option \<Rightarrow> (builder, node_id) prog" where
  "insert_br target = create_and_insert (br_node target)"
definition insert_cond_br :: "port \<Rightarrow> node_id option \<Rightarrow> (builder, node_id) prog" where
  "insert_cond_br cond target = create_and_insert (cond_br_node cond target)"
definition insert_read_pc :: "(builder, node_id) prog" where
  "insert_read_pc = create_and_insert read_pc_node"
definition insert_write_pc :: "port \<Rightarrow> br_type \<Rightarrow> ulong \<Rightarrow> (builder, node_id) prog" where
  "insert_write_pc p bt target = create_and_insert (write_pc_node p bt target)"
definition insert_read_reg :: "value_type \<Rightarrow> nat \<Rightarrow> nat \<Rightarrow> string \<Rightarrow> (builder, node_id) prog" where
  "insert_read_reg vt off idx name = create_and_insert (read_reg_node vt off idx name)"
definition insert_write_reg :: "nat \<Rightarrow> nat \<Rightarrow> string \<Rightarrow> port \<Rightarrow> (builder, node_id) prog" where
  "insert_write_reg off idx name p = create_and_insert (write_reg_node off idx name p)"
definition insert_read_mem :: "value_type \<Rightarrow> port \<Rightarrow> (builder, node_id) prog" where
  "insert_read_mem vt addr = create_and_insert (read_mem_node vt addr)"
definition insert_write_mem :: "port \<Rightarrow> port \<Rightarrow> (builder, node_id) prog" where
  "insert_write_mem addr p = create_and_insert (write_mem_node addr p)"

definition insert_binop :: "binary_arith_op \<Rightarrow> port \<Rightarrow> port \<Rightarrow> (builder, node_id) prog" where
  "insert_binop op lhs rhs = create_and_insert (binary_arith_node op lhs rhs)"
definition insert_add :: "port \<Rightarrow> port \<Rightarrow> (builder, node_id) prog" where
  "insert_add lhs rhs = create_and_insert (binary_arith_node B_add lhs rhs)"
definition insert_adc :: "port \<Rightarrow> port \<Rightarrow> port \<Rightarrow> (builder, node_id) prog" where
  "insert_adc lhs rhs tp = create_and_insert (ternary_arith_node T_adc lhs rhs tp)"
definition insert_sub :: "port \<Rightarrow> port \<Rightarrow> (builder, node_id) prog" where
  "insert_sub lhs rhs = create_and_insert (binary_arith_node B_sub lhs rhs)"
definition insert_sbb :: "port \<Rightarrow> port \<Rightarrow> port \<Rightarrow> (builder, node_id) prog" where
  "insert_sbb lhs rhs tp = create_and_insert (ternary_arith_node T_sbb lhs rhs tp)"
definition insert_mul :: "port \<Rightarrow> port \<Rightarrow> (builder, node_id) prog" where
  "insert_mul lhs rhs = create_and_insert (binary_arith_node B_mul lhs rhs)"
definition insert_div :: "port \<Rightarrow> port \<Rightarrow> (builder, node_id) prog" where
  "insert_div lhs rhs = create_and_insert (binary_arith_node B_div lhs rhs)"
definition insert_mod :: "port \<Rightarrow> port \<Rightarrow> (builder, node_id) prog" where
  "insert_mod lhs rhs = create_and_insert (binary_arith_node B_mod lhs rhs)"
definition insert_sqrt :: "port \<Rightarrow> (builder, node_id) prog" where
  "insert_sqrt lhs = create_and_insert (unary_arith_node U_sqrt lhs)"
definition insert_and :: "port \<Rightarrow> port \<Rightarrow> (builder, node_id) prog" where
  "insert_and lhs rhs = create_and_insert (binary_arith_node B_band lhs rhs)"
definition insert_or :: "port \<Rightarrow> port \<Rightarrow> (builder, node_id) prog" where
  "insert_or lhs rhs = create_and_insert (binary_arith_node B_bor lhs rhs)"
definition insert_xor :: "port \<Rightarrow> port \<Rightarrow> (builder, node_id) prog" where
  "insert_xor lhs rhs = create_and_insert (binary_arith_node B_bxor lhs rhs)"
definition insert_not :: "port \<Rightarrow> (builder, node_id) prog" where
  "insert_not lhs = create_and_insert (unary_arith_node U_bnot lhs)"
definition insert_cmpeq :: "port \<Rightarrow> port \<Rightarrow> (builder, node_id) prog" where
  "insert_cmpeq lhs rhs = create_and_insert (binary_arith_node B_cmpeq lhs rhs)"
definition insert_cmpne :: "port \<Rightarrow> port \<Rightarrow> (builder, node_id) prog" where
  "insert_cmpne lhs rhs = create_and_insert (binary_arith_node B_cmpne lhs rhs)"
definition insert_cmpgt :: "port \<Rightarrow> port \<Rightarrow> (builder, node_id) prog" where
  "insert_cmpgt lhs rhs = create_and_insert (binary_arith_node B_cmpgt lhs rhs)"
definition insert_atomic_binop :: "binary_atomic_op \<Rightarrow> port \<Rightarrow> port \<Rightarrow> (builder, node_id) prog" where
  "insert_atomic_binop op mem reg = create_and_insert (binary_atomic_node op mem reg)"
definition insert_atomic_xadd :: "port \<Rightarrow> port \<Rightarrow> (builder, node_id) prog" where
  "insert_atomic_xadd mem reg = create_and_insert (binary_atomic_node BA_xadd mem reg)"
definition insert_atomic_xchg :: "port \<Rightarrow> port \<Rightarrow> (builder, node_id) prog" where
  "insert_atomic_xchg mem reg = create_and_insert (binary_atomic_node BA_xchg mem reg)"
definition insert_atomic_cmpxchg :: "port \<Rightarrow> port \<Rightarrow> port \<Rightarrow> (builder, node_id) prog" where
  "insert_atomic_cmpxchg dst acc src =
     create_and_insert (ternary_atomic_node TA_cmpxchg dst acc src)"

text \<open>\<open>insert_zx\<close> and \<open>insert_sx\<close> return the owner of the port when the widths agree.\<close>

definition insert_zx :: "value_type \<Rightarrow> port \<Rightarrow> (builder, node_id) prog" where
  "insert_zx target_type p b =
     (if width target_type = width (b_port_type p b) then Inr (powner p, b)
      else create_and_insert (cast_node Zx target_type p Fp_none) b)"
definition insert_sx :: "value_type \<Rightarrow> port \<Rightarrow> (builder, node_id) prog" where
  "insert_sx target_type p b =
     (if width target_type = width (b_port_type p b) then Inr (powner p, b)
      else create_and_insert (cast_node Sx target_type p Fp_none) b)"
definition insert_trunc :: "value_type \<Rightarrow> port \<Rightarrow> (builder, node_id) prog" where
  "insert_trunc target_type p = create_and_insert (cast_node Trunc target_type p Fp_none)"
definition insert_bitcast :: "value_type \<Rightarrow> port \<Rightarrow> (builder, node_id) prog" where
  "insert_bitcast target_type p = create_and_insert (cast_node Bitcast target_type p Fp_none)"
definition insert_convert :: "value_type \<Rightarrow> port \<Rightarrow> fp_convert_type \<Rightarrow> (builder, node_id) prog" where
  "insert_convert target_type p ct = create_and_insert (cast_node Convert target_type p ct)"
definition insert_csel :: "port \<Rightarrow> port \<Rightarrow> port \<Rightarrow> (builder, node_id) prog" where
  "insert_csel c t f = create_and_insert (csel_node c t f)"
definition insert_lsl :: "port \<Rightarrow> port \<Rightarrow> (builder, node_id) prog" where
  "insert_lsl input amount = create_and_insert (bit_shift_node Lsl input amount)"
definition insert_lsr :: "port \<Rightarrow> port \<Rightarrow> (builder, node_id) prog" where
  "insert_lsr input amount = create_and_insert (bit_shift_node Lsr input amount)"
definition insert_asr :: "port \<Rightarrow> port \<Rightarrow> (builder, node_id) prog" where
  "insert_asr input amount = create_and_insert (bit_shift_node Asr input amount)"
definition insert_bit_extract :: "port \<Rightarrow> 32 word \<Rightarrow> 32 word \<Rightarrow> (builder, node_id) prog" where
  "insert_bit_extract p from len = create_and_insert (bit_extract_node p (scast from) (scast len))"
definition insert_bit_insert :: "port \<Rightarrow> port \<Rightarrow> 32 word \<Rightarrow> 32 word \<Rightarrow> (builder, node_id) prog" where
  "insert_bit_insert p bits to len =
     create_and_insert (bit_insert_node p bits (scast to) (scast len))"
definition insert_vector_extract :: "port \<Rightarrow> nat \<Rightarrow> (builder, node_id) prog" where
  "insert_vector_extract p index = create_and_insert (vector_extract_node p index)"
definition insert_vector_insert :: "port \<Rightarrow> nat \<Rightarrow> port \<Rightarrow> (builder, node_id) prog" where
  "insert_vector_insert p index x = create_and_insert (vector_insert_node p index x)"
definition insert_read_local :: "local_var \<Rightarrow> (builder, node_id) prog" where
  "insert_read_local lv = create_and_insert (read_local_node lv)"
definition insert_write_local :: "local_var \<Rightarrow> port \<Rightarrow> (builder, node_id) prog" where
  "insert_write_local lv p = create_and_insert (write_local_node lv p)"
definition insert_internal_call :: "internal_function \<Rightarrow> port list \<Rightarrow> (builder, node_id) prog" where
  "insert_internal_call fn args = create_and_insert (internal_call_node fn args)"

lemmas insert_defs = insert_constant_i_def insert_constant_f_def insert_constant_u1_def
  insert_constant_u8_def insert_constant_s8_def insert_constant_u16_def insert_constant_s16_def
  insert_constant_u32_def insert_constant_s32_def insert_constant_u64_def insert_constant_u80_def
  insert_constant_s64_def insert_constant_u128_def insert_constant_f32_def insert_constant_f64_def
  insert_label_def insert_br_def insert_cond_br_def insert_read_pc_def insert_write_pc_def
  insert_read_reg_def insert_write_reg_def insert_read_mem_def insert_write_mem_def
  insert_binop_def insert_add_def insert_adc_def insert_sub_def insert_sbb_def insert_mul_def
  insert_div_def insert_mod_def insert_sqrt_def insert_and_def insert_or_def insert_xor_def
  insert_not_def insert_cmpeq_def insert_cmpne_def insert_cmpgt_def insert_atomic_binop_def
  insert_atomic_xadd_def insert_atomic_xchg_def insert_atomic_cmpxchg_def insert_zx_def
  insert_sx_def insert_trunc_def insert_bitcast_def insert_convert_def insert_csel_def
  insert_lsl_def insert_lsr_def insert_asr_def insert_bit_extract_def insert_bit_insert_def
  insert_vector_extract_def insert_vector_insert_def insert_read_local_def insert_write_local_def
  insert_internal_call_def

definition builder_add_br_target :: "node_id \<Rightarrow> node_id \<Rightarrow> (builder, unit) prog" where
  "builder_add_br_target br l b =
     (case add_br_target br l (b_heap b) of
        Inl e \<Rightarrow> Inl e | Inr h \<Rightarrow> Inr ((), b\<lparr>b_heap := h\<rparr>))"

definition builder_resolve ::
  "(string \<Rightarrow> internal_function option) \<Rightarrow> string \<Rightarrow> (builder, internal_function) prog" where
  "builder_resolve cr name b =
     (case resolve cr name (ifr_functions b) of
        Inl e \<Rightarrow> Inl e | Inr (f, fs) \<Rightarrow> Inr (f, b\<lparr>ifr_functions := fs\<rparr>))"

definition initial_builder :: "bool \<Rightarrow> builder" where
  "initial_builder dbg =
     \<lparr>b_heap = \<lparr>nodes = Map.empty, next_id = 0, targets = (\<lambda>_. {})\<rparr>, allocator = False,
      current_chunk = None, current_pkt = None, chunk_complete = False, debug = dbg,
      next_local = 0, node_metadata = (\<lambda>_. Map.empty), ifr_functions = Map.empty\<rparr>"

end
