(* ===== verification/Builder_Invariant.thy ===== *)
theory Builder_Invariant
  imports IR_Builder
begin

text \<open>
  The invariant of the IR builder: its heap is well formed (every operand of a node is an
  older node, jumps go to labels, the conditions the constructors check hold), and the
  actions of the packets are action nodes of the heap.  The first part shows that every
  node constructor keeps a well-formed heap well formed; the second lifts this to the
  builder's operations, as rules about triples \<open>safe\<close> that the translators' proofs
  compose.
\<close>

named_theorems safe_intros \<open>builder operations keep the builder's invariant\<close>

section \<open>Constructors\<close>

lemma fold_add_target:
  "nodes (fold (\<lambda>p. add_target p i) ps h) = nodes h"
  "next_id (fold (\<lambda>p. add_target p i) ps h) = next_id h"
  "targets (fold (\<lambda>p. add_target p i) ps h) q =
     (if q \<in> set ps then insert i (targets h q) else targets h q)"
  by (induction ps arbitrary: h) (auto simp: add_target_def)

lemma place_sel [simp]:
  "nodes (place i n ps h) = (nodes h)(i \<mapsto> n)"
  "next_id (place i n ps h) = next_id h"
  "targets (place i n ps h) q = (if q \<in> set ps then insert i (targets h q) else targets h q)"
  by (simp_all add: place_def fold_add_target)

definition push :: "heap \<Rightarrow> node \<Rightarrow> port list \<Rightarrow> heap" where
  "push h n ps = (place (next_id h) n ps h)\<lparr>next_id := Suc (next_id h)\<rparr>"

lemma push_sel [simp]:
  "nodes (push h n ps) = (nodes h)(next_id h \<mapsto> n)"
  "next_id (push h n ps) = Suc (next_id h)"
  "targets (push h n ps) q = (if q \<in> set ps then insert (next_id h) (targets h q) else targets h q)"
  by (simp_all add: push_def)

lemma wf_heap_fresh: "wf_heap h \<Longrightarrow> nodes h (next_id h) = None"
  unfolding wf_heap_def by (metis domIff lessThan_iff less_irrefl)

lemma wf_heap_valid_port_lt: "wf_heap h \<Longrightarrow> valid_port h p \<Longrightarrow> powner p < next_id h"
  unfolding wf_heap_def valid_port_def by (metis domI lessThan_iff)

lemma push_ext: "wf_heap h \<Longrightarrow> heap_ext h (push h n ps)"
  using wf_heap_fresh [of h] by (auto simp: heap_ext_def)

lemma wf_node_ext:
  assumes "wf_node h i n" and "heap_ext h h'" shows "wf_node h' i n"
  using assms typed_node_ext [of "n_data n" h h' "n_vt n"]
  unfolding wf_node_def by (meson is_label_ext valid_port_ext)

lemma push_wf:
  assumes wf: "wf_heap h"
    and ports: "\<forall>p \<in> set (operands d). valid_port h p"
    and jump: "\<forall>l. jump_target d = Some l \<longrightarrow> is_label h l"
    and typed: "typed_node h vt d"
    and tgts: "set ps \<subseteq> set (operands d)"
  shows "wf_heap (push h (mk_node vt d) ps)"
proof -
  let ?h' = "push h (mk_node vt d) ps"
  have ext: "heap_ext h ?h'" by (rule push_ext [OF wf])
  have new: "wf_node h (next_id h) (mk_node vt d)"
    using ports jump typed wf_heap_valid_port_lt [OF wf] by (simp add: wf_node_def)
  have "wf_node ?h' i n" if "nodes ?h' i = Some n" for i n
  proof (cases "i = next_id h")
    case True
    with that new ext show ?thesis by (auto intro: wf_node_ext)
  next
    case False
    with that wf have "wf_node h i n" by (auto simp: wf_heap_def)
    then show ?thesis using ext by (rule wf_node_ext)
  qed
  moreover have "\<exists>n. nodes ?h' i = Some n \<and> p \<in> set (operands (n_data n))"
    if "i \<in> targets ?h' p" for p i
  proof (cases "i = next_id h \<and> p \<in> set ps")
    case True
    with tgts show ?thesis by auto
  next
    case False
    with that have "i \<in> targets h p" by (auto split: if_splits)
    with wf obtain n where "nodes h i = Some n" "p \<in> set (operands (n_data n))"
      unfolding wf_heap_def by blast
    with wf_heap_fresh [OF wf] show ?thesis by (intro exI [of _ n]) auto
  qed
  moreover have "dom (nodes ?h') = {..<next_id ?h'}"
    using wf by (auto simp: wf_heap_def)
  ultimately show ?thesis by (auto simp: wf_heap_def)
qed

text \<open>Changing a label's mark or a branch's target keeps the heap well formed.\<close>

lemma wf_heap_patch:
  assumes wf: "wf_heap h" and n: "nodes h i = Some n"
    and same: "kind d = kind (n_data n)" "operands d = operands (n_data n)"
    and k: "kind d \<in> {K_label, K_br, K_cond_br}"
    and jump: "\<forall>l. jump_target d = Some l \<longrightarrow> is_label h l"
  shows "wf_heap (h\<lparr>nodes := (nodes h)(i \<mapsto> n\<lparr>n_data := d\<rparr>)\<rparr>)"
    and "heap_ext h (h\<lparr>nodes := (nodes h)(i \<mapsto> n\<lparr>n_data := d\<rparr>)\<rparr>)"
proof -
  let ?h' = "h\<lparr>nodes := (nodes h)(i \<mapsto> n\<lparr>n_data := d\<rparr>)\<rparr>"
  show ext: "heap_ext h ?h'"
    using n same k by (auto simp: heap_ext_def node_ext_def)
  have "wf_node ?h' j m" if m: "nodes ?h' j = Some m" for j m
  proof (cases "j = i")
    case True
    have "wf_node h i n" using wf n by (auto simp: wf_heap_def)
    then have "wf_node h i (n\<lparr>n_data := d\<rparr>)"
      using same k jump by (auto simp: wf_node_def) (cases d; simp)+
    with m True ext show ?thesis by (auto intro: wf_node_ext)
  next
    case False
    with m wf have "wf_node h j m" by (auto simp: wf_heap_def)
    then show ?thesis using ext by (rule wf_node_ext)
  qed
  moreover have "dom (nodes ?h') = {..<next_id ?h'}"
    using wf n by (auto simp: wf_heap_def dom_def)
  moreover have "\<exists>m. nodes ?h' j = Some m \<and> p \<in> set (operands (n_data m))"
    if j: "j \<in> targets ?h' p" for p j
  proof -
    from j have "j \<in> targets h p" by simp
    with wf obtain m where "nodes h j = Some m" "p \<in> set (operands (n_data m))"
      unfolding wf_heap_def by blast
    with n same show ?thesis by (cases "j = i") auto
  qed
  ultimately show "wf_heap ?h'" unfolding wf_heap_def by blast
qed

lemma add_use_wf:
  assumes "wf_heap h" and "add_use l h = Inr h'"
  shows "wf_heap h' \<and> heap_ext h h' \<and> next_id h' = next_id h \<and> is_label h l"
proof -
  obtain n name where n: "nodes h l = Some n" "n_data n = Label name False"
    and h': "h' = h\<lparr>nodes := (nodes h)(l \<mapsto> n\<lparr>n_data := Label name True\<rparr>)\<rparr>"
    using assms(2) by (auto simp: add_use_def split: option.splits node_data.splits if_splits)
  show ?thesis
    using wf_heap_patch [OF assms(1) n(1), of "Label name True"] n
    by (auto simp: h' is_label_def)
qed

lemma add_use_opt_wf:
  assumes "wf_heap h" and "add_use_opt t h = Inr h'"
  shows "wf_heap h' \<and> heap_ext h h' \<and> next_id h' = next_id h
    \<and> (\<forall>l. t = Some l \<longrightarrow> is_label h' l)"
  using assms add_use_wf is_label_ext
  by (cases t) (fastforce simp: add_use_opt_def)+

lemma add_br_target_wf:
  assumes wf: "wf_heap h" and ok: "add_br_target b l h = Inr h'" and l: "is_label h l"
  shows "wf_heap h' \<and> heap_ext h h' \<and> next_id h' = next_id h"
proof -
  obtain n where n: "nodes h b = Some n"
    using ok by (auto simp: add_br_target_def split: option.splits)
  have "\<exists>d. kind d = kind (n_data n) \<and> operands d = operands (n_data n) \<and>
      kind d \<in> {K_br, K_cond_br} \<and> jump_target d = Some l \<and>
      add_use l (h\<lparr>nodes := (nodes h)(b \<mapsto> n\<lparr>n_data := d\<rparr>)\<rparr>) = Inr h'"
  proof (cases "n_data n")
    case (Br t)
    with ok n show ?thesis by (intro exI [of _ "Br (Some l)"]) (simp add: add_br_target_def)
  next
    case (Cond_br c t)
    with ok n show ?thesis by (intro exI [of _ "Cond_br c (Some l)"]) (simp add: add_br_target_def)
  qed (use ok n in \<open>simp_all add: add_br_target_def\<close>)
  then obtain d where d: "kind d = kind (n_data n)" "operands d = operands (n_data n)"
      "kind d \<in> {K_br, K_cond_br}" "jump_target d = Some l"
    and use: "add_use l (h\<lparr>nodes := (nodes h)(b \<mapsto> n\<lparr>n_data := d\<rparr>)\<rparr>) = Inr h'"
    by blast
  have p: "wf_heap (h\<lparr>nodes := (nodes h)(b \<mapsto> n\<lparr>n_data := d\<rparr>)\<rparr>)"
      "heap_ext h (h\<lparr>nodes := (nodes h)(b \<mapsto> n\<lparr>n_data := d\<rparr>)\<rparr>)"
    using wf_heap_patch [OF wf n, of d] d l by auto
  show ?thesis using add_use_wf [OF p(1) use] p(2) heap_ext_trans by auto
qed

text \<open>What a constructor promises of the heap with the finished object.\<close>

definition ctor_ok :: "ctor \<Rightarrow> heap \<Rightarrow> bool" where
  "ctor_ok c h \<longleftrightarrow> (\<forall>h'. c (next_id h) h = Inr h' \<longrightarrow>
     wf_heap (h'\<lparr>next_id := Suc (next_id h)\<rparr>) \<and> heap_ext h (h'\<lparr>next_id := Suc (next_id h)\<rparr>) \<and>
     nodes h' (next_id h) \<noteq> None)"

lemma ctor_ok_place:
  assumes "wf_heap h"
    and "\<And>h'. c (next_id h) h = Inr h' \<Longrightarrow>
      \<exists>h1 vt d ps. wf_heap h1 \<and> heap_ext h h1 \<and> next_id h1 = next_id h
        \<and> h' = place (next_id h) (mk_node vt d) ps h1
        \<and> (\<forall>p \<in> set (operands d). valid_port h1 p)
        \<and> (\<forall>l. jump_target d = Some l \<longrightarrow> is_label h1 l)
        \<and> typed_node h1 vt d \<and> set ps \<subseteq> set (operands d)"
  shows "ctor_ok c h"
  unfolding ctor_ok_def
proof (intro allI impI)
  fix h' assume c: "c (next_id h) h = Inr h'"
  obtain h1 vt d ps where *: "wf_heap h1" "heap_ext h h1" "next_id h1 = next_id h"
      "h' = place (next_id h) (mk_node vt d) ps h1" "\<forall>p \<in> set (operands d). valid_port h1 p"
      "\<forall>l. jump_target d = Some l \<longrightarrow> is_label h1 l" "typed_node h1 vt d"
      "set ps \<subseteq> set (operands d)"
    using assms(2) [OF c] by metis
  have eq: "h'\<lparr>next_id := Suc (next_id h)\<rparr> = push h1 (mk_node vt d) ps"
    using * by (simp add: push_def)
  show "wf_heap (h'\<lparr>next_id := Suc (next_id h)\<rparr>) \<and> heap_ext h (h'\<lparr>next_id := Suc (next_id h)\<rparr>)
        \<and> nodes h' (next_id h) \<noteq> None"
    unfolding eq using push_wf [OF *(1) *(5) *(6) *(7) *(8)]
      heap_ext_trans [OF *(2) push_ext [OF *(1)]] *(4) by simp
qed

lemma ctor_ok_simple:
  assumes "wf_heap h"
    and "\<And>h'. c (next_id h) h = Inr h' \<Longrightarrow>
      h' = place (next_id h) (mk_node vt d) ps h
        \<and> (\<forall>p \<in> set (operands d). valid_port h p)
        \<and> jump_target d = None \<and> typed_node h vt d \<and> set ps \<subseteq> set (operands d)"
  shows "ctor_ok c h"
proof (rule ctor_ok_place [OF assms(1)], goal_cases)
  case (1 h')
  with assms show ?case
    by (intro exI [of _ h] exI [of _ vt] exI [of _ d] exI [of _ ps]) simp
qed

lemma bit_range_le:
  fixes a b :: "64 word" assumes "\<not> b < a" shows "a \<le> b"
  using assms by simp

lemma ctor_ok_label: "wf_heap h \<Longrightarrow> ctor_ok (label_node nm) h"
  by (rule ctor_ok_simple [where d = "Label nm False" and vt = action_vt and ps = "[]"])
     (auto simp: label_node_def)

lemma ctor_ok_br:
  assumes wf: "wf_heap h" shows "ctor_ok (br_node t) h"
proof (rule ctor_ok_place [OF wf], goal_cases)
  case (1 h')
  then obtain h1 where h1: "add_use_opt t h = Inr h1"
      "h' = place (next_id h) (mk_node action_vt (Br t)) [] h1"
    by (auto simp: br_node_def split: sum.splits)
  with add_use_opt_wf [OF wf h1(1)] show ?case
    by (intro exI [of _ h1] exI [of _ action_vt] exI [of _ "Br t"] exI [of _ "[]"]) auto
qed

lemma ctor_ok_cond_br:
  assumes wf: "wf_heap h" and p: "valid_port h p" shows "ctor_ok (cond_br_node p t) h"
proof (rule ctor_ok_place [OF wf], goal_cases)
  case (1 h')
  then obtain h1 where h1: "add_use_opt t h = Inr h1"
      "h' = place (next_id h) (mk_node action_vt (Cond_br p t)) [p] h1"
    by (auto simp: cond_br_node_def split: sum.splits)
  with add_use_opt_wf [OF wf h1(1)] valid_port_ext [OF p] show ?case
    by (intro exI [of _ h1] exI [of _ action_vt] exI [of _ "Cond_br p t"] exI [of _ "[p]"]) auto
qed

text \<open>
  The classes without a jump: each is a placement of fixed data, so the rule instance is
  determined by the class.
\<close>

lemma ctor_ok_leaf:
  assumes "wf_heap h"
  shows "ctor_ok read_pc_node h" "ctor_ok (constant_node_i vt cv) h"
    "ctor_ok (constant_node_f vt cv) h" "ctor_ok (read_reg_node vt off idx nm) h"
    "ctor_ok (read_local_node lv) h"
  subgoal by (rule ctor_ok_simple [OF assms, where d = Read_pc and vt = u64 and ps = "[]"])
    (auto simp: read_pc_node_def)
  subgoal by (rule ctor_ok_simple [OF assms, where d = "Constant_i cv" and vt = vt and ps = "[]"])
    (auto simp: constant_node_i_def is_integer_def split: if_splits)
  subgoal by (rule ctor_ok_simple [OF assms, where d = "Constant_f cv" and vt = vt and ps = "[]"])
    (auto simp: constant_node_f_def is_floating_point_def split: if_splits)
  subgoal by (rule ctor_ok_simple [OF assms, where d = "Read_reg off idx nm" and vt = vt and ps = "[]"])
    (auto simp: read_reg_node_def)
  subgoal by (rule ctor_ok_simple [OF assms, where d = "Read_local lv" and vt = "lv_type lv" and ps = "[]"])
    (auto simp: read_local_node_def)
  done

lemma ctor_ok_unary:
  assumes wf: "wf_heap h" and p: "valid_port h p"
  shows "ctor_ok (write_pc_node p bt t) h" "ctor_ok (read_mem_node vt p) h"
    "ctor_ok (write_reg_node off idx nm p) h" "ctor_ok (unary_arith_node uop p) h"
    "ctor_ok (unary_atomic_node aop p) h" "ctor_ok (vector_extract_node p i) h"
    "ctor_ok (write_local_node lv p) h" "ctor_ok (cast_node cop vt p ct) h"
    "ctor_ok (bit_extract_node p from len) h"
  subgoal by (rule ctor_ok_simple [OF wf, where d = "Write_pc p bt t" and vt = action_vt and ps = "[p]"])
    (use p in \<open>auto simp: write_pc_node_def\<close>)
  subgoal by (rule ctor_ok_simple [OF wf, where d = "Read_mem p" and vt = vt and ps = "[p]"])
    (use p in \<open>auto simp: read_mem_node_def\<close>)
  subgoal by (rule ctor_ok_simple [OF wf, where d = "Write_reg off idx nm p" and vt = action_vt and ps = "[p]"])
    (use p in \<open>auto simp: write_reg_node_def\<close>)
  subgoal by (rule ctor_ok_simple [OF wf, where d = "Unary_arith uop p" and vt = "port_type h p" and ps = "[p]"])
    (use p in \<open>auto simp: unary_arith_node_def\<close>)
  subgoal by (rule ctor_ok_simple [OF wf, where d = "Unary_atomic aop p" and vt = "port_type h p" and ps = "[p]"])
    (use p in \<open>auto simp: unary_atomic_node_def\<close>)
  subgoal by (rule ctor_ok_simple [OF wf, where d = "Vector_extract p i"
        and vt = "element_type (port_type h p)" and ps = "[]"])
    (use p in \<open>auto simp: vector_extract_node_def\<close>)
  subgoal by (rule ctor_ok_simple [OF wf, where d = "Write_local lv p" and vt = action_vt and ps = "[]"])
    (use p in \<open>auto simp: write_local_node_def\<close>)
  subgoal by (rule ctor_ok_simple [OF wf, where d = "Cast cop vt p ct" and vt = vt and ps = "[p]"])
    (use p in \<open>auto simp: cast_node_def Let_def split: if_splits\<close>)
  subgoal by (rule ctor_ok_simple [OF wf, where d = "Bit_extract p from len"
        and vt = "mk_value_type unsigned_integer (unat len) 1" and ps = "[p]"])
    (use p in \<open>auto simp: bit_extract_node_def bit_range_le split: if_splits\<close>)
  done

lemma ctor_ok_binary:
  assumes wf: "wf_heap h" and p: "valid_port h p" and q: "valid_port h q"
  shows "ctor_ok (write_mem_node p q) h" "ctor_ok (bit_shift_node sop p q) h"
    "ctor_ok (binary_arith_node bop p q) h" "ctor_ok (binary_atomic_node aop p q) h"
    "ctor_ok (vector_insert_node p i q) h" "ctor_ok (bit_insert_node p q to len) h"
  subgoal by (rule ctor_ok_simple [OF wf, where d = "Write_mem p q" and vt = action_vt and ps = "[p, q]"])
    (use p q in \<open>auto simp: write_mem_node_def\<close>)
  subgoal by (rule ctor_ok_simple [OF wf, where d = "Bit_shift sop p q" and vt = "port_type h p" and ps = "[p, q]"])
    (use p q in \<open>auto simp: bit_shift_node_def\<close>)
  subgoal by (rule ctor_ok_simple [OF wf, where d = "Binary_arith bop p q" and vt = "port_type h p" and ps = "[p, q]"])
    (use p q in \<open>auto simp: binary_arith_node_def split: if_splits\<close>)
  subgoal by (rule ctor_ok_simple [OF wf, where d = "Binary_atomic aop p q" and vt = "port_type h q" and ps = "[p, q]"])
    (use p q in \<open>auto simp: binary_atomic_node_def\<close>)
  subgoal by (rule ctor_ok_simple [OF wf, where d = "Vector_insert p i q" and vt = "port_type h p" and ps = "[]"])
    (use p q in \<open>auto simp: vector_insert_node_def\<close>)
  subgoal by (rule ctor_ok_simple [OF wf, where d = "Bit_insert p q to len" and vt = "port_type h p" and ps = "[p]"])
    (use p q in \<open>auto simp: bit_insert_node_def bit_range_le Let_def split: if_splits\<close>)
  done

lemma ctor_ok_ternary:
  assumes wf: "wf_heap h" and p: "valid_port h p" and q: "valid_port h q" and r: "valid_port h r"
  shows "ctor_ok (csel_node p q r) h" "ctor_ok (ternary_arith_node tnop p q r) h"
    "ctor_ok (ternary_atomic_node taop p q r) h"
  subgoal by (rule ctor_ok_simple [OF wf, where d = "Csel p q r" and vt = "port_type h q" and ps = "[p, q, r]"])
    (use p q r in \<open>auto simp: csel_node_def\<close>)
  subgoal by (rule ctor_ok_simple [OF wf, where d = "Ternary_arith tnop p q r" and vt = "port_type h p"
        and ps = "[p, q, r]"])
    (use p q r in \<open>auto simp: ternary_arith_node_def\<close>)
  subgoal by (rule ctor_ok_simple [OF wf, where d = "Ternary_atomic taop p q r" and vt = "port_type h q"
        and ps = "[p, q, r]"])
    (use p q r in \<open>auto simp: ternary_atomic_node_def\<close>)
  done

lemma ctor_ok_call:
  "wf_heap h \<Longrightarrow> \<forall>p \<in> set args. valid_port h p \<Longrightarrow> ctor_ok (internal_call_node fn args) h"
  by (rule ctor_ok_simple [where d = "Internal_call fn args" and vt = "return_type (if_sig fn)" and ps = "[]"])
     (auto simp: internal_call_node_def)

lemmas ctor_ok_rules = ctor_ok_label ctor_ok_br ctor_ok_cond_br ctor_ok_leaf ctor_ok_unary
  ctor_ok_binary ctor_ok_ternary ctor_ok_call


section \<open>The builder's invariant\<close>

definition actions_ok :: "heap \<Rightarrow> packet \<Rightarrow> bool" where
  "actions_ok h p \<longleftrightarrow>
     (\<forall>a \<in> set (actions p). node_is_action h a) \<and> sorted (actions p) \<and> distinct (actions p)"

definition builder_packets :: "builder \<Rightarrow> packet set" where
  "builder_packets b =
     (case current_chunk b of None \<Rightarrow> {} | Some c \<Rightarrow> set (packets c)) \<union> set_option (current_pkt b)"

definition wf_builder :: "builder \<Rightarrow> bool" where
  "wf_builder b \<longleftrightarrow>
     wf_heap (b_heap b) \<and> (\<forall>p \<in> builder_packets b. actions_ok (b_heap b) p)
     \<and> (current_pkt b \<noteq> None \<longrightarrow> current_chunk b \<noteq> None \<and> \<not> chunk_complete b)"

text \<open>
  What a translator may change: the heap grows, the packet in progress gets more actions,
  and the chunk's finished packets stay.
\<close>

definition packet_ext :: "packet \<Rightarrow> packet \<Rightarrow> bool" where
  "packet_ext p p' \<longleftrightarrow>
     address p' = address p \<and> disasm p' = disasm p \<and> take (length (actions p)) (actions p') = actions p"

definition b_ext :: "builder \<Rightarrow> builder \<Rightarrow> bool" where
  "b_ext b b' \<longleftrightarrow>
     heap_ext (b_heap b) (b_heap b') \<and> current_chunk b' = current_chunk b
     \<and> chunk_complete b' = chunk_complete b \<and> allocator b' = allocator b
     \<and> rel_option packet_ext (current_pkt b) (current_pkt b')"

definition vnode :: "builder \<Rightarrow> node_id \<Rightarrow> bool" where
  "vnode b n \<longleftrightarrow> nodes (b_heap b) n \<noteq> None"

definition vport :: "builder \<Rightarrow> port \<Rightarrow> bool" where
  "vport b p \<longleftrightarrow> valid_port (b_heap b) p"

text \<open>
  \<open>safe m Q b\<close>: from \<open>b\<close>, if \<open>m\<close> does not throw, the invariant holds afterwards, the heap
  has only grown, and the result satisfies \<open>Q\<close>.
\<close>

definition safe :: "(builder, 'a) prog \<Rightarrow> ('a \<Rightarrow> builder \<Rightarrow> bool) \<Rightarrow> builder \<Rightarrow> bool" where
  "safe m Q b \<longleftrightarrow> (\<forall>x b'. m b = Inr (x, b') \<longrightarrow> wf_builder b' \<and> b_ext b b' \<and> Q x b')"

lemma packet_ext_refl [simp]: "packet_ext p p"
  by (simp add: packet_ext_def)

lemma packet_ext_append [simp]: "packet_ext p (append_action n p)"
  by (simp add: packet_ext_def append_action_def)

lemma packet_ext_trans:
  assumes "packet_ext p q" and "packet_ext q r"
  shows "packet_ext p r"
proof -
  have "length (actions p) \<le> length (actions q)"
    using assms(1) unfolding packet_ext_def by (metis length_take min.cobounded1)
  then have "take (length (actions p)) (take (length (actions q)) (actions r))
      = take (length (actions p)) (actions r)" by (simp add: min_absorb1)
  with assms show ?thesis by (simp add: packet_ext_def)
qed

lemma b_ext_heap: "b_ext b b' \<Longrightarrow> heap_ext (b_heap b) (b_heap b')"
  by (simp add: b_ext_def)

lemma b_ext_refl [simp]: "b_ext b b"
  by (simp add: b_ext_def option.rel_refl)

lemma b_ext_trans: "b_ext a b \<Longrightarrow> b_ext b c \<Longrightarrow> b_ext a c"
  unfolding b_ext_def
  by (auto intro: heap_ext_trans packet_ext_trans simp: option_rel_Some1 rel_option_iff split: option.splits)

lemma vnode_ext: "vnode b n \<Longrightarrow> b_ext b b' \<Longrightarrow> vnode b' n"
  by (auto simp: vnode_def b_ext_def heap_ext_def)

lemma vport_ext: "vport b p \<Longrightarrow> b_ext b b' \<Longrightarrow> vport b' p"
  using valid_port_ext by (auto simp: vport_def b_ext_def)

lemma vport_val: "vport b (val n) \<longleftrightarrow> vnode b n"
  by (auto simp: vport_def vnode_def valid_port_def)

lemma node_is_action_ext: "node_is_action h n \<Longrightarrow> heap_ext h h' \<Longrightarrow> node_is_action h' n"
  by (fastforce simp: node_is_action_def heap_ext_def node_ext_def is_action_def
        split: option.splits)

lemma actions_ok_ext: "actions_ok h p \<Longrightarrow> heap_ext h h' \<Longrightarrow> actions_ok h' p"
  using node_is_action_ext by (auto simp: actions_ok_def)

lemma safe_ret: "wf_builder b \<Longrightarrow> Q x b \<Longrightarrow> safe (ret x) Q b"
  by (simp add: safe_def ret_def)

lemma safe_throw: "safe (throw e) Q b"
  by (simp add: safe_def throw_def)

lemma safe_bnd:
  assumes "safe m Q' b"
    and "\<And>x b'. wf_builder b' \<Longrightarrow> b_ext b b' \<Longrightarrow> Q' x b' \<Longrightarrow> safe (f x) Q b'"
  shows "safe (bnd m f) Q b"
  unfolding safe_def
proof (intro allI impI)
  fix y b2 assume "bnd m f b = Inr (y, b2)"
  then obtain x b1 where "m b = Inr (x, b1)" "f x b1 = Inr (y, b2)" by (rule bnd_InrE)
  with assms(1) have 1: "wf_builder b1" "b_ext b b1" "Q' x b1" by (auto simp: safe_def)
  then have "safe (f x) Q b1" by (rule assms(2))
  with \<open>f x b1 = Inr (y, b2)\<close> have "wf_builder b2" "b_ext b1 b2" "Q y b2"
    unfolding safe_def by blast+
  with 1 show "wf_builder b2 \<and> b_ext b b2 \<and> Q y b2" using b_ext_trans by blast
qed

lemma safe_andthen:
  assumes "safe m Q' b"
    and "\<And>x b'. wf_builder b' \<Longrightarrow> b_ext b b' \<Longrightarrow> Q' x b' \<Longrightarrow> safe m' Q b'"
  shows "safe (andthen m m') Q b"
  unfolding andthen_def using assms by (rule safe_bnd)

lemma safe_weaken: "safe m Q b \<Longrightarrow> (\<And>x b'. Q x b' \<Longrightarrow> Q' x b') \<Longrightarrow> safe m Q' b"
  by (auto simp: safe_def)

lemma safe_if: "(c \<Longrightarrow> safe m Q b) \<Longrightarrow> (\<not> c \<Longrightarrow> safe m' Q b) \<Longrightarrow> safe (if c then m else m') Q b"
  by simp

lemma wf_builder_heap: "wf_builder b \<Longrightarrow> wf_heap (b_heap b)"
  by (simp add: wf_builder_def)

lemma wf_builder_grow:
  assumes "wf_builder b" and "wf_heap h" and "heap_ext (b_heap b) h"
  shows "wf_builder (b\<lparr>b_heap := h\<rparr>)"
proof -
  have "actions_ok h p" if "actions_ok (b_heap b) p" for p
    using that assms(3) by (rule actions_ok_ext)
  then show ?thesis using assms(1,2) by (simp add: wf_builder_def builder_packets_def)
qed

lemma safe_create:
  assumes wf: "wf_builder b" and ok: "ctor_ok c (b_heap b)"
  shows "safe (create c) (\<lambda>n b'. vnode b' n \<and> n = next_id (b_heap b)
            \<and> current_pkt b' = current_pkt b) b"
  unfolding safe_def
proof (intro allI impI)
  fix n b' assume r: "create c b = Inr (n, b')"
  then have al: "allocator b" by (simp add: create_def split: if_splits)
  obtain h where h: "c (next_id (b_heap b)) (b_heap b) = Inr h"
    using r al by (cases "c (next_id (b_heap b)) (b_heap b)") (simp_all add: create_def Let_def)
  have b': "b' = b\<lparr>b_heap := h\<lparr>next_id := Suc (next_id (b_heap b))\<rparr>\<rparr>"
    and n: "n = next_id (b_heap b)"
    using r al h by (auto simp: create_def Let_def)
  from ok h have *: "wf_heap (h\<lparr>next_id := Suc n\<rparr>)" "heap_ext (b_heap b) (h\<lparr>next_id := Suc n\<rparr>)"
      "nodes h n \<noteq> None"
    by (auto simp: ctor_ok_def n)
  show "wf_builder b' \<and> b_ext b b' \<and> vnode b' n \<and> n = next_id (b_heap b)
      \<and> current_pkt b' = current_pkt b"
    using wf_builder_grow [OF wf *(1,2)] * n by (simp add: b' b_ext_def vnode_def option.rel_refl)
qed

lemma actions_ok_lt:
  assumes "wf_heap h" and "actions_ok h p" and "a \<in> set (actions p)"
  shows "a < next_id h"
proof -
  from assms(2,3) have "nodes h a \<noteq> None"
    by (auto simp: actions_ok_def node_is_action_def split: option.splits)
  with assms(1) show ?thesis unfolding wf_heap_def by blast
qed

lemma safe_insert_node:
  assumes wf: "wf_builder b" and n: "vnode b n"
    and fresh: "\<And>p a. current_pkt b = Some p \<Longrightarrow> a \<in> set (actions p) \<Longrightarrow> a < n"
  shows "safe (insert_node n) (\<lambda>m b'. m = n \<and> vnode b' n) b"
  unfolding safe_def
proof (intro allI impI)
  fix m b' assume r: "insert_node n b = Inr (m, b')"
  obtain b1 where b1: "process_node n b = Inr ((), b1)" "b_heap b1 = b_heap b"
      "current_pkt b1 = current_pkt b" "current_chunk b1 = current_chunk b"
      "chunk_complete b1 = chunk_complete b" "allocator b1 = allocator b"
    by (cases "current_pkt b"; cases "debug b") (auto simp: process_node_def)
  then have wf1: "wf_builder b1" using wf by (simp add: wf_builder_def builder_packets_def)
  show "wf_builder b' \<and> b_ext b b' \<and> m = n \<and> vnode b' n"
  proof (cases "node_is_action (b_heap b1) n")
    case False
    with r b1 n wf1 show ?thesis by (auto simp: insert_node_def bnd_def vnode_def b_ext_def option.rel_refl)
  next
    case True
    with r b1 obtain p where p: "current_pkt b1 = Some p" "m = n"
        "b' = b1\<lparr>current_pkt := Some (append_action n p)\<rparr>"
      by (auto simp: insert_node_def bnd_def andthen_def insert_action_def ret_def
          split: option.splits)
    have "actions_ok (b_heap b1) (append_action n p)"
      using wf1 p True fresh [of p] b1
      by (force simp: wf_builder_def builder_packets_def actions_ok_def append_action_def
          sorted_append intro: less_imp_le)
    with wf1 p n b1 show ?thesis
      by (auto simp: wf_builder_def builder_packets_def vnode_def b_ext_def)
  qed
qed

lemma safe_create_and_insert:
  assumes wf: "wf_builder b" and ok: "ctor_ok c (b_heap b)"
  shows "safe (create_and_insert c) (\<lambda>n b'. vnode b' n) b"
  unfolding create_and_insert_def
proof (rule safe_bnd [OF safe_create [OF assms]])
  fix n b' assume b': "wf_builder b'" "b_ext b b'"
    "vnode b' n \<and> n = next_id (b_heap b) \<and> current_pkt b' = current_pkt b"
  have "a < n" if "current_pkt b' = Some p" "a \<in> set (actions p)" for p a
    using that b' wf actions_ok_lt [OF wf_builder_heap [OF wf], of p a]
    by (simp add: wf_builder_def builder_packets_def)
  then show "safe (insert_node n) (\<lambda>n b'. vnode b' n) b'"
    using safe_insert_node [of b' n] b' safe_weaken by (metis (mono_tags, lifting))
qed

text \<open>Every \<open>insert_\<close> function on valid ports: one rule per arity.\<close>

lemma vport_heap: "vport b p \<Longrightarrow> valid_port (b_heap b) p"
  by (simp add: vport_def)

lemma vport_owner: "vport b p \<Longrightarrow> vnode b (powner p)"
  by (auto simp: vport_def vnode_def valid_port_def)

lemmas safe_ins = safe_create_and_insert ctor_ok_rules wf_builder_heap vport_heap

lemma safe_insert_leaf:
  assumes "wf_builder b"
  shows "safe (insert_constant_i vt cv) (\<lambda>n b'. vnode b' n) b"
    "safe (insert_constant_f vt cv) (\<lambda>n b'. vnode b' n) b"
    "safe (insert_constant_u1 c8) (\<lambda>n b'. vnode b' n) b"
    "safe (insert_constant_u8 c8) (\<lambda>n b'. vnode b' n) b"
    "safe (insert_constant_s8 c32) (\<lambda>n b'. vnode b' n) b"
    "safe (insert_constant_u16 c16) (\<lambda>n b'. vnode b' n) b"
    "safe (insert_constant_s16 c32) (\<lambda>n b'. vnode b' n) b"
    "safe (insert_constant_u32 c32) (\<lambda>n b'. vnode b' n) b"
    "safe (insert_constant_s32 c32) (\<lambda>n b'. vnode b' n) b"
    "safe (insert_constant_u64 cv) (\<lambda>n b'. vnode b' n) b"
    "safe (insert_constant_s64 cv) (\<lambda>n b'. vnode b' n) b"
    "safe (insert_constant_u80 cv) (\<lambda>n b'. vnode b' n) b"
    "safe (insert_constant_u128 cv) (\<lambda>n b'. vnode b' n) b"
    "safe (insert_constant_f32 cv) (\<lambda>n b'. vnode b' n) b"
    "safe (insert_constant_f64 cv) (\<lambda>n b'. vnode b' n) b"
    "safe (insert_label nm) (\<lambda>n b'. vnode b' n) b"
    "safe (insert_br t) (\<lambda>n b'. vnode b' n) b"
    "safe insert_read_pc (\<lambda>n b'. vnode b' n) b"
    "safe (insert_read_reg vt off idx nm) (\<lambda>n b'. vnode b' n) b"
    "safe (insert_read_local lv) (\<lambda>n b'. vnode b' n) b"
  unfolding insert_defs using assms by (auto intro!: safe_ins)

lemma safe_insert_unary:
  assumes "wf_builder b" and "vport b p"
  shows "safe (insert_cond_br p t) (\<lambda>n b'. vnode b' n) b"
    "safe (insert_write_pc p bt tgt) (\<lambda>n b'. vnode b' n) b"
    "safe (insert_write_reg off idx nm p) (\<lambda>n b'. vnode b' n) b"
    "safe (insert_read_mem vt p) (\<lambda>n b'. vnode b' n) b"
    "safe (insert_sqrt p) (\<lambda>n b'. vnode b' n) b"
    "safe (insert_not p) (\<lambda>n b'. vnode b' n) b"
    "safe (insert_trunc vt p) (\<lambda>n b'. vnode b' n) b"
    "safe (insert_bitcast vt p) (\<lambda>n b'. vnode b' n) b"
    "safe (insert_convert vt p ct) (\<lambda>n b'. vnode b' n) b"
    "safe (insert_bit_extract p from len) (\<lambda>n b'. vnode b' n) b"
    "safe (insert_vector_extract p i) (\<lambda>n b'. vnode b' n) b"
    "safe (insert_write_local lv p) (\<lambda>n b'. vnode b' n) b"
  unfolding insert_defs using assms by (auto intro!: safe_ins)

lemma safe_insert_ext:
  assumes "wf_builder b" and "vport b p"
  shows "safe (insert_zx vt p) (\<lambda>n b'. vnode b' n) b"
    "safe (insert_sx vt p) (\<lambda>n b'. vnode b' n) b"
  using assms safe_ret [of b "\<lambda>n b'. vnode b' n" "powner p"]
    safe_create_and_insert [OF assms(1) ctor_ok_unary(8) [OF wf_builder_heap vport_heap]]
  by (auto simp: safe_def insert_zx_def insert_sx_def ret_def vport_owner split: if_splits)

lemma safe_insert_binary:
  assumes "wf_builder b" and "vport b p" and "vport b q"
  shows "safe (insert_write_mem p q) (\<lambda>n b'. vnode b' n) b"
    "safe (insert_binop op p q) (\<lambda>n b'. vnode b' n) b"
    "safe (insert_add p q) (\<lambda>n b'. vnode b' n) b"
    "safe (insert_sub p q) (\<lambda>n b'. vnode b' n) b"
    "safe (insert_mul p q) (\<lambda>n b'. vnode b' n) b"
    "safe (insert_div p q) (\<lambda>n b'. vnode b' n) b"
    "safe (insert_mod p q) (\<lambda>n b'. vnode b' n) b"
    "safe (insert_and p q) (\<lambda>n b'. vnode b' n) b"
    "safe (insert_or p q) (\<lambda>n b'. vnode b' n) b"
    "safe (insert_xor p q) (\<lambda>n b'. vnode b' n) b"
    "safe (insert_cmpeq p q) (\<lambda>n b'. vnode b' n) b"
    "safe (insert_cmpne p q) (\<lambda>n b'. vnode b' n) b"
    "safe (insert_cmpgt p q) (\<lambda>n b'. vnode b' n) b"
    "safe (insert_atomic_binop aop p q) (\<lambda>n b'. vnode b' n) b"
    "safe (insert_atomic_xadd p q) (\<lambda>n b'. vnode b' n) b"
    "safe (insert_atomic_xchg p q) (\<lambda>n b'. vnode b' n) b"
    "safe (insert_lsl p q) (\<lambda>n b'. vnode b' n) b"
    "safe (insert_lsr p q) (\<lambda>n b'. vnode b' n) b"
    "safe (insert_asr p q) (\<lambda>n b'. vnode b' n) b"
    "safe (insert_bit_insert p q to len) (\<lambda>n b'. vnode b' n) b"
    "safe (insert_vector_insert p i q) (\<lambda>n b'. vnode b' n) b"
  unfolding insert_defs using assms by (auto intro!: safe_ins)

lemma safe_insert_ternary:
  assumes "wf_builder b" and "vport b p" and "vport b q" and "vport b r"
  shows "safe (insert_csel p q r) (\<lambda>n b'. vnode b' n) b"
    "safe (insert_adc p q r) (\<lambda>n b'. vnode b' n) b"
    "safe (insert_sbb p q r) (\<lambda>n b'. vnode b' n) b"
    "safe (insert_atomic_cmpxchg p q r) (\<lambda>n b'. vnode b' n) b"
  unfolding insert_defs using assms by (auto intro!: safe_ins)

lemma safe_insert_call:
  "wf_builder b \<Longrightarrow> \<forall>p \<in> set args. vport b p \<Longrightarrow>
   safe (insert_internal_call fn args) (\<lambda>n b'. vnode b' n) b"
  unfolding insert_defs by (auto intro!: safe_ins)

lemmas safe_inserts = safe_insert_leaf safe_insert_unary safe_insert_ext
  safe_insert_binary safe_insert_ternary safe_insert_call

section \<open>The chunk and packet protocol\<close>

text \<open>
  The four protocol operations replace the chunk or the packet in progress, so they are
  not \<open>safe\<close>; \<open>holds m Q b\<close> only says that a run of \<open>m\<close> that does not throw ends in \<open>Q\<close>.
\<close>

definition holds :: "('s, 'a) prog \<Rightarrow> ('a \<Rightarrow> 's \<Rightarrow> bool) \<Rightarrow> 's \<Rightarrow> bool" where
  "holds m Q b \<longleftrightarrow> (\<forall>x b'. m b = Inr (x, b') \<longrightarrow> Q x b')"

lemma holdsD: "holds m Q b \<Longrightarrow> m b = Inr (x, b') \<Longrightarrow> Q x b'"
  by (simp add: holds_def)

lemma holds_safe: "safe m Q b \<Longrightarrow> holds m (\<lambda>x b'. wf_builder b' \<and> b_ext b b' \<and> Q x b') b"
  by (simp add: holds_def safe_def)

lemma holds_ret: "Q x b \<Longrightarrow> holds (ret x) Q b"
  by (simp add: holds_def ret_def)

lemma holds_throw [simp]: "holds (throw e) Q b"
  by (simp add: holds_def throw_def)

lemma holds_bnd:
  assumes "holds m Q' b" and "\<And>x b'. Q' x b' \<Longrightarrow> holds (f x) Q b'"
  shows "holds (bnd m f) Q b"
  using assms unfolding holds_def by (metis bnd_InrE)

lemma holds_andthen:
  assumes "holds m Q' b" and "\<And>x b'. Q' x b' \<Longrightarrow> holds m' Q b'"
  shows "holds (andthen m m') Q b"
  unfolding andthen_def using assms by (rule holds_bnd)

lemma holds_weaken: "holds m Q b \<Longrightarrow> (\<And>x b'. Q x b' \<Longrightarrow> Q' x b') \<Longrightarrow> holds m Q' b"
  by (auto simp: holds_def)

lemma wf_initial_builder: "wf_builder (initial_builder dbg)"
  by (simp add: wf_builder_def initial_builder_def wf_heap_def builder_packets_def)

lemma begin_chunk_wf:
  "wf_builder b \<Longrightarrow> holds (begin_chunk nm) (\<lambda>_ b'. wf_builder b' \<and> current_chunk b = None
      \<and> current_pkt b = None
      \<and> b' = b\<lparr>allocator := True, current_chunk := Some \<lparr>c_name = nm, packets = []\<rparr>\<rparr>) b"
  by (auto simp: holds_def begin_chunk_def Let_def wf_builder_def builder_packets_def)

lemma end_chunk_wf:
  "wf_builder b \<Longrightarrow> holds end_chunk (\<lambda>_ b'. wf_builder b' \<and> current_pkt b = None \<and> \<not> chunk_complete b
      \<and> current_chunk b \<noteq> None \<and> b' = b\<lparr>allocator := False, chunk_complete := True\<rparr>) b"
  by (auto simp: holds_def end_chunk_def Let_def wf_builder_def builder_packets_def)

lemma begin_packet_wf:
  "wf_builder b \<Longrightarrow> holds (begin_packet a d) (\<lambda>_ b'. wf_builder b' \<and> current_chunk b \<noteq> None
      \<and> \<not> chunk_complete b \<and> current_pkt b = None \<and> b' = b\<lparr>current_pkt := Some (mk_packet a d)\<rparr>) b"
  by (auto simp: holds_def begin_packet_def wf_builder_def builder_packets_def
      actions_ok_def mk_packet_def split: if_splits)

lemma end_packet_wf:
  "wf_builder b \<Longrightarrow> holds end_packet (\<lambda>t b'. wf_builder b' \<and> (\<exists>p c. current_pkt b = Some p
      \<and> current_chunk b = Some c \<and> b' = b\<lparr>current_chunk := Some (add_packet p c), current_pkt := None\<rparr>
      \<and> t = (if packet_updates_pc (b_heap b) p \<noteq> Br_none then End_of_block else Normal))) b"
  by (auto simp: holds_def end_packet_def wf_builder_def builder_packets_def add_packet_def
      split: option.splits)

lemma safe_alloc_local: "wf_builder b \<Longrightarrow> safe (alloc_local vt) (\<lambda>_ _. True) b"
  by (auto simp: safe_def alloc_local_def Let_def wf_builder_def builder_packets_def b_ext_def
      actions_ok_def packet_ext_def split: option.splits)

lemma safe_builder_resolve: "wf_builder b \<Longrightarrow> safe (builder_resolve cr nm) (\<lambda>_ _. True) b"
  by (auto simp: safe_def builder_resolve_def wf_builder_def builder_packets_def b_ext_def
      option.rel_refl split: sum.splits)

lemma safe_add_br_target:
  assumes "wf_builder b" and "is_label (b_heap b) l"
  shows "safe (builder_add_br_target br l) (\<lambda>_ _. True) b"
  unfolding safe_def
proof (intro allI impI)
  fix x b' assume "builder_add_br_target br l b = Inr (x, b')"
  then obtain h where h: "add_br_target br l (b_heap b) = Inr h" "b' = b\<lparr>b_heap := h\<rparr>"
    by (auto simp: builder_add_br_target_def split: sum.splits)
  with add_br_target_wf [OF wf_builder_heap [OF assms(1)] h(1) assms(2)]
    wf_builder_grow [OF assms(1), of h]
  show "wf_builder b' \<and> b_ext b b' \<and> True" by (simp add: b_ext_def option.rel_refl)
qed

text \<open>What kind of object a constructor leaves at its address.\<close>

definition knode :: "node_kinds set \<Rightarrow> builder \<Rightarrow> node_id \<Rightarrow> bool" where
  "knode K b n \<longleftrightarrow> (\<exists>nd. nodes (b_heap b) n = Some nd \<and> kind (n_data nd) \<in> K)"

lemma knode_ext: "knode K b n \<Longrightarrow> b_ext b b' \<Longrightarrow> knode K b' n"
  by (fastforce simp: knode_def b_ext_def heap_ext_def node_ext_def)

lemma knode_vnode: "knode K b n \<Longrightarrow> vnode b n"
  by (auto simp: knode_def vnode_def)

lemma knode_label: "knode {K_label} b n \<Longrightarrow> is_label (b_heap b) n"
  by (auto simp: knode_def is_label_def)

lemma insert_node_heap: "insert_node n b = Inr (m, b') \<Longrightarrow> b_heap b' = b_heap b \<and> m = n"
  by (auto simp: insert_node_def bnd_def andthen_def insert_action_def ret_def process_node_def
      split: option.splits if_splits)

lemma safe_create_kind:
  assumes wf: "wf_builder b" and ok: "ctor_ok c (b_heap b)"
    and k: "\<And>h'. c (next_id (b_heap b)) (b_heap b) = Inr h' \<Longrightarrow>
        \<exists>nd. nodes h' (next_id (b_heap b)) = Some nd \<and> kind (n_data nd) \<in> K"
  shows "safe (create_and_insert c) (\<lambda>n b'. knode K b' n) b"
  unfolding safe_def
proof (intro allI impI)
  fix n b' assume r: "create_and_insert c b = Inr (n, b')"
  obtain m b1 where b1: "create c b = Inr (m, b1)" "insert_node m b1 = Inr (n, b')"
    using r unfolding create_and_insert_def by (rule bnd_InrE)
  then have "knode K b' n"
    using k insert_node_heap [OF b1(2)]
    by (auto simp: create_def Let_def knode_def split: if_splits sum.splits)
  then show "wf_builder b' \<and> b_ext b b' \<and> knode K b' n"
    using safe_create_and_insert [OF wf ok] r by (auto simp: safe_def)
qed

lemma safe_insert_label:
  assumes "wf_builder b"
  shows "safe (insert_label nm) (\<lambda>n b'. knode {K_label} b' n) b"
  unfolding insert_defs
  by (rule safe_create_kind [OF assms ctor_ok_label [OF wf_builder_heap [OF assms]]])
     (auto simp: label_node_def)

end
