(* ===== verification/Registers.thy ===== *)
theory Registers
  imports Prelude
begin

text \<open>
  The guest register file: the fields of the packed \<open>struct x86_cpu_state\<close> in the order
  \<open>reg.def\<close> lists them, the offset of each (\<open>X86_OFFSET_OF\<close>), and the three lookups of
  \<open>inc/arancini/input/registers.h\<close>: offset to index, offset to name, index to name.
  The lemmas show that the lookups agree with one another on every register and that the
  offsets are laid out without overlap.
\<close>

definition zmm_defs :: "(string \<times> nat) list" where
  "zmm_defs = map (\<lambda>i. (''ZMM'' @ show_nat i, 64)) [0..<32]"

definition reg_def :: "(string \<times> nat) list" where
  "reg_def =
     [(''PC'', 8),
      (''RAX'', 8), (''RCX'', 8), (''RDX'', 8), (''RBX'', 8),
      (''RSP'', 8), (''RBP'', 8), (''RSI'', 8), (''RDI'', 8),
      (''R8'', 8), (''R9'', 8), (''R10'', 8), (''R11'', 8),
      (''R12'', 8), (''R13'', 8), (''R14'', 8), (''R15'', 8),
      (''ZF'', 1), (''CF'', 1), (''OF'', 1), (''SF'', 1), (''PF'', 1), (''DF'', 1),
      (''unused2'', 1), (''unused3'', 1),
      (''FS'', 8), (''GS'', 8),
      (''X87_STACK_BASE'', 8), (''X87_CTRL'', 2), (''X87_STS'', 2), (''X87_TAG'', 2),
      (''X87_OPCODE'', 2)]
     @ zmm_defs @ [(''XCR0'', 8)]"

text \<open>\<open>__builtin_offsetof\<close> of a field of a packed struct: the sizes before it.\<close>

fun struct_offset :: "(string \<times> nat) list \<Rightarrow> string \<Rightarrow> nat option" where
  "struct_offset [] n = None"
| "struct_offset ((m, sz) # ds) n =
     (if m = n then Some 0 else map_option (\<lambda>k. sz + k) (struct_offset ds n))"

definition x86_offset_of :: "string \<Rightarrow> nat option" where
  "x86_offset_of n = struct_offset reg_def n"

fun struct_layout :: "nat \<Rightarrow> (string \<times> nat) list \<Rightarrow> (nat \<times> string \<times> nat) list" where
  "struct_layout off [] = []"
| "struct_layout off ((m, sz) # ds) = (off, m, sz) # struct_layout (off + sz) ds"

text \<open>The layout as one table (offset, name, size), index by index.\<close>

definition reg_layout :: "(nat \<times> string \<times> nat) list" where
  "reg_layout = struct_layout 0 reg_def"

definition off_to_idx :: "(nat \<times> nat) list" where
  "off_to_idx = zip (map fst reg_layout) [0..<length reg_layout]"

definition off_to_name :: "(nat \<times> string) list" where
  "off_to_name = map (\<lambda>(off, n, sz). (off, n)) reg_layout"

definition regnames :: "string list" where
  "regnames = map fst reg_def"

definition offset_to_idx :: "nat \<Rightarrow> nat res" where
  "offset_to_idx off = (case map_of off_to_idx off of None \<Rightarrow> Inl Out_of_range | Some i \<Rightarrow> Inr i)"

definition offset_to_name :: "nat \<Rightarrow> string res" where
  "offset_to_name off = (case map_of off_to_name off of None \<Rightarrow> Inl Out_of_range | Some n \<Rightarrow> Inr n)"

definition idx_to_reg_name :: "int \<Rightarrow> string" where
  "idx_to_reg_name i =
     (if 0 \<le> i \<and> nat i < length regnames then regnames ! nat i else ''guestreg'')"

text \<open>The values of the \<open>reg_offsets\<close> enumeration the translators name.\<close>

definition off_PC :: nat where "off_PC = 0"
definition off_RAX :: nat where "off_RAX = 8"
definition off_RCX :: nat where "off_RCX = 16"
definition off_RDX :: nat where "off_RDX = 24"
definition off_RBX :: nat where "off_RBX = 32"
definition off_RSP :: nat where "off_RSP = 40"
definition off_RBP :: nat where "off_RBP = 48"
definition off_RSI :: nat where "off_RSI = 56"
definition off_RDI :: nat where "off_RDI = 64"
definition off_R8 :: nat where "off_R8 = 72"
definition off_R9 :: nat where "off_R9 = 80"
definition off_ZF :: nat where "off_ZF = 136"
definition off_CF :: nat where "off_CF = 137"
definition off_OF :: nat where "off_OF = 138"
definition off_SF :: nat where "off_SF = 139"
definition off_PF :: nat where "off_PF = 140"
definition off_DF :: nat where "off_DF = 141"
definition off_FS :: nat where "off_FS = 144"
definition off_GS :: nat where "off_GS = 152"
definition off_X87_STACK_BASE :: nat where "off_X87_STACK_BASE = 160"
definition off_X87_CTRL :: nat where "off_X87_CTRL = 168"
definition off_X87_STS :: nat where "off_X87_STS = 170"
definition off_X87_TAG :: nat where "off_X87_TAG = 172"
definition off_X87_OPCODE :: nat where "off_X87_OPCODE = 174"
definition off_ZMM0 :: nat where "off_ZMM0 = 176"
definition off_XCR0 :: nat where "off_XCR0 = 2224"

lemmas reg_offset_defs = off_PC_def off_RAX_def off_RCX_def off_RDX_def off_RBX_def
  off_RSP_def off_RBP_def off_RSI_def off_RDI_def off_R8_def off_R9_def off_ZF_def
  off_CF_def off_OF_def off_SF_def off_PF_def off_DF_def off_FS_def off_GS_def
  off_X87_STACK_BASE_def off_X87_CTRL_def off_X87_STS_def off_X87_TAG_def off_X87_OPCODE_def off_ZMM0_def
  off_XCR0_def

lemma reg_layout_eval:
  "take 32 reg_layout =
     [(0, ''PC'', 8), (8, ''RAX'', 8), (16, ''RCX'', 8), (24, ''RDX'', 8), (32, ''RBX'', 8),
      (40, ''RSP'', 8), (48, ''RBP'', 8), (56, ''RSI'', 8), (64, ''RDI'', 8), (72, ''R8'', 8),
      (80, ''R9'', 8), (88, ''R10'', 8), (96, ''R11'', 8), (104, ''R12'', 8), (112, ''R13'', 8),
      (120, ''R14'', 8), (128, ''R15'', 8), (136, ''ZF'', 1), (137, ''CF'', 1), (138, ''OF'', 1),
      (139, ''SF'', 1), (140, ''PF'', 1), (141, ''DF'', 1), (142, ''unused2'', 1),
      (143, ''unused3'', 1), (144, ''FS'', 8), (152, ''GS'', 8), (160, ''X87_STACK_BASE'', 8),
      (168, ''X87_CTRL'', 2), (170, ''X87_STS'', 2), (172, ''X87_TAG'', 2),
      (174, ''X87_OPCODE'', 2)]"
  by code_simp

text \<open>Facts about the layout of any packed struct with positive field sizes.\<close>

lemma struct_layout_fst_ge: "e \<in> set (struct_layout off ds) \<Longrightarrow> off \<le> fst e"
  by (induction off ds rule: struct_layout.induct) fastforce+

lemma length_struct_layout [simp]: "length (struct_layout off ds) = length ds"
  by (induction off ds rule: struct_layout.induct) auto

lemma struct_layout_names: "map (\<lambda>(off, n, sz). n) (struct_layout off ds) = map fst ds"
  by (induction off ds rule: struct_layout.induct) auto

lemma struct_layout_disjoint:
  assumes "i < j" and "j < length ds"
  shows "fst (struct_layout off ds ! i) + snd (snd (struct_layout off ds ! i))
         \<le> fst (struct_layout off ds ! j)"
  using assms
proof (induction off ds arbitrary: i j rule: struct_layout.induct)
  case (2 off m sz ds)
  then obtain j' where j: "j = Suc j'" by (cases j) auto
  show ?case
  proof (cases i)
    case 0
    have "struct_layout (off + sz) ds ! j' \<in> set (struct_layout (off + sz) ds)"
      using "2.prems" j by simp
    then show ?thesis using 0 j struct_layout_fst_ge by fastforce
  next
    case (Suc i')
    then show ?thesis using "2.IH" [of i' j'] "2.prems" j by simp
  qed
qed simp

lemma struct_layout_offset:
  "i < length ds \<Longrightarrow> distinct (map fst ds) \<Longrightarrow>
   struct_offset ds (fst (ds ! i)) = Some (fst (struct_layout 0 ds ! i))"
proof -
  have "i < length ds \<Longrightarrow> distinct (map fst ds) \<Longrightarrow>
    map_option (\<lambda>k. off + k) (struct_offset ds (fst (ds ! i))) =
      Some (fst (struct_layout off ds ! i))" for off
  proof (induction off ds arbitrary: i rule: struct_layout.induct)
    case (2 off m sz ds)
    show ?case
    proof (cases i)
      case (Suc i')
      then have "fst (ds ! i') \<in> fst ` set ds" using "2.prems" by simp
      with "2.prems" have "m \<noteq> fst (ds ! i')" by auto
      with Suc "2.IH" [of i'] "2.prems" show ?thesis
        by (auto simp: option.map_comp comp_def add.assoc)
    qed simp
  qed simp
  from this [of 0] show "i < length ds \<Longrightarrow> distinct (map fst ds) \<Longrightarrow> ?thesis"
    by (simp add: option.map_id0 [unfolded id_def])
qed

lemma struct_layout_distinct:
  assumes "\<forall>d \<in> set ds. 0 < snd d"
  shows "distinct (map fst (struct_layout off ds))"
  using assms
proof (induction off ds rule: struct_layout.induct)
  case (2 off m sz ds)
  then show ?case using struct_layout_fst_ge [of _ "off + sz" ds] by fastforce
qed simp

text \<open>The register file instance.\<close>

lemma reg_def_sizes: "\<forall>d \<in> set reg_def. 0 < snd d"
  by code_simp

lemma reg_def_distinct: "distinct (map fst reg_def)"
  by code_simp

lemma length_reg_def: "length reg_def = 65"
  by code_simp

lemma reg_layout_distinct: "distinct (map fst reg_layout)"
  unfolding reg_layout_def by (rule struct_layout_distinct [OF reg_def_sizes])

lemma length_reg_layout: "length reg_layout = 65"
  by (simp add: reg_layout_def length_reg_def)

lemma map_of_zip_nth':
  assumes "distinct xs" and "length xs = length ys" and "i < length xs"
  shows "map_of (zip xs ys) (xs ! i) = Some (ys ! i)"
  using assms by (simp add: map_of_zip_nth)

lemma offset_to_idx_layout:
  assumes "i < length reg_layout"
  shows "offset_to_idx (fst (reg_layout ! i)) = Inr i"
proof -
  have "map_of off_to_idx (map fst reg_layout ! i) = Some ([0..<length reg_layout] ! i)"
    unfolding off_to_idx_def using assms
    by (intro map_of_zip_nth' reg_layout_distinct) auto
  with assms show ?thesis by (simp add: offset_to_idx_def)
qed

lemma offset_to_name_layout:
  assumes "i < length reg_layout"
  shows "offset_to_name (fst (reg_layout ! i)) = Inr (fst (snd (reg_layout ! i)))"
proof -
  have eq: "off_to_name = zip (map fst reg_layout) (map (\<lambda>(off, n, sz). n) reg_layout)"
    by (auto simp: off_to_name_def zip_map_map split_beta zip_same_conv_map)
  have "map_of off_to_name (map fst reg_layout ! i) = Some (map (\<lambda>(off, n, sz). n) reg_layout ! i)"
    unfolding eq using assms by (intro map_of_zip_nth' reg_layout_distinct) auto
  with assms show ?thesis by (simp add: offset_to_name_def split_beta)
qed

lemma regnames_nth: "i < length reg_layout \<Longrightarrow> regnames ! i = fst (snd (reg_layout ! i))"
  using arg_cong [where f = "\<lambda>xs. xs ! i", OF struct_layout_names [of 0 reg_def]]
  by (simp add: regnames_def reg_layout_def split_beta)

lemma reg_layout_nth_le32: "i < 32 \<Longrightarrow> reg_layout ! i = take 32 reg_layout ! i"
  by simp

text \<open>The tables written out, which evaluation uses.\<close>

lemma reg_layout_table [code]:
  "reg_layout =
     [(0, ''PC'', 8), (8, ''RAX'', 8), (16, ''RCX'', 8), (24, ''RDX'', 8), (32, ''RBX'', 8),
     (40, ''RSP'', 8), (48, ''RBP'', 8), (56, ''RSI'', 8), (64, ''RDI'', 8), (72, ''R8'', 8),
     (80, ''R9'', 8), (88, ''R10'', 8), (96, ''R11'', 8), (104, ''R12'', 8), (112, ''R13'', 8),
     (120, ''R14'', 8), (128, ''R15'', 8), (136, ''ZF'', 1), (137, ''CF'', 1), (138, ''OF'', 1),
     (139, ''SF'', 1), (140, ''PF'', 1), (141, ''DF'', 1), (142, ''unused2'', 1),
     (143, ''unused3'', 1), (144, ''FS'', 8), (152, ''GS'', 8), (160, ''X87_STACK_BASE'', 8),
     (168, ''X87_CTRL'', 2), (170, ''X87_STS'', 2), (172, ''X87_TAG'', 2),
     (174, ''X87_OPCODE'', 2), (176, ''ZMM0'', 64), (240, ''ZMM1'', 64), (304, ''ZMM2'', 64),
     (368, ''ZMM3'', 64), (432, ''ZMM4'', 64), (496, ''ZMM5'', 64), (560, ''ZMM6'', 64),
     (624, ''ZMM7'', 64), (688, ''ZMM8'', 64), (752, ''ZMM9'', 64), (816, ''ZMM10'', 64),
     (880, ''ZMM11'', 64), (944, ''ZMM12'', 64), (1008, ''ZMM13'', 64), (1072, ''ZMM14'', 64),
     (1136, ''ZMM15'', 64), (1200, ''ZMM16'', 64), (1264, ''ZMM17'', 64), (1328, ''ZMM18'', 64),
     (1392, ''ZMM19'', 64), (1456, ''ZMM20'', 64), (1520, ''ZMM21'', 64), (1584, ''ZMM22'', 64),
     (1648, ''ZMM23'', 64), (1712, ''ZMM24'', 64), (1776, ''ZMM25'', 64), (1840, ''ZMM26'', 64),
     (1904, ''ZMM27'', 64), (1968, ''ZMM28'', 64), (2032, ''ZMM29'', 64), (2096, ''ZMM30'', 64),
     (2160, ''ZMM31'', 64), (2224, ''XCR0'', 8)]"
  by code_simp

lemma off_to_idx_table [code]:
  "off_to_idx =
     [(0, 0), (8, 1), (16, 2), (24, 3), (32, 4), (40, 5), (48, 6), (56, 7), (64, 8), (72, 9),
     (80, 10), (88, 11), (96, 12), (104, 13), (112, 14), (120, 15), (128, 16), (136, 17),
     (137, 18), (138, 19), (139, 20), (140, 21), (141, 22), (142, 23), (143, 24), (144, 25),
     (152, 26), (160, 27), (168, 28), (170, 29), (172, 30), (174, 31), (176, 32), (240, 33),
     (304, 34), (368, 35), (432, 36), (496, 37), (560, 38), (624, 39), (688, 40), (752, 41),
     (816, 42), (880, 43), (944, 44), (1008, 45), (1072, 46), (1136, 47), (1200, 48), (1264, 49),
     (1328, 50), (1392, 51), (1456, 52), (1520, 53), (1584, 54), (1648, 55), (1712, 56),
     (1776, 57), (1840, 58), (1904, 59), (1968, 60), (2032, 61), (2096, 62), (2160, 63),
     (2224, 64)]"
  by code_simp

lemma off_to_name_table [code]:
  "off_to_name =
     [(0, ''PC''), (8, ''RAX''), (16, ''RCX''), (24, ''RDX''), (32, ''RBX''), (40, ''RSP''),
     (48, ''RBP''), (56, ''RSI''), (64, ''RDI''), (72, ''R8''), (80, ''R9''), (88, ''R10''),
     (96, ''R11''), (104, ''R12''), (112, ''R13''), (120, ''R14''), (128, ''R15''),
     (136, ''ZF''), (137, ''CF''), (138, ''OF''), (139, ''SF''), (140, ''PF''), (141, ''DF''),
     (142, ''unused2''), (143, ''unused3''), (144, ''FS''), (152, ''GS''),
     (160, ''X87_STACK_BASE''), (168, ''X87_CTRL''), (170, ''X87_STS''), (172, ''X87_TAG''),
     (174, ''X87_OPCODE''), (176, ''ZMM0''), (240, ''ZMM1''), (304, ''ZMM2''), (368, ''ZMM3''),
     (432, ''ZMM4''), (496, ''ZMM5''), (560, ''ZMM6''), (624, ''ZMM7''), (688, ''ZMM8''),
     (752, ''ZMM9''), (816, ''ZMM10''), (880, ''ZMM11''), (944, ''ZMM12''), (1008, ''ZMM13''),
     (1072, ''ZMM14''), (1136, ''ZMM15''), (1200, ''ZMM16''), (1264, ''ZMM17''),
     (1328, ''ZMM18''), (1392, ''ZMM19''), (1456, ''ZMM20''), (1520, ''ZMM21''),
     (1584, ''ZMM22''), (1648, ''ZMM23''), (1712, ''ZMM24''), (1776, ''ZMM25''),
     (1840, ''ZMM26''), (1904, ''ZMM27''), (1968, ''ZMM28''), (2032, ''ZMM29''),
     (2096, ''ZMM30''), (2160, ''ZMM31''), (2224, ''XCR0'')]"
  by code_simp

lemma regnames_table [code]:
  "regnames =
     [''PC'', ''RAX'', ''RCX'', ''RDX'', ''RBX'', ''RSP'', ''RBP'', ''RSI'', ''RDI'', ''R8'',
     ''R9'', ''R10'', ''R11'', ''R12'', ''R13'', ''R14'', ''R15'', ''ZF'', ''CF'', ''OF'',
     ''SF'', ''PF'', ''DF'', ''unused2'', ''unused3'', ''FS'', ''GS'', ''X87_STACK_BASE'',
     ''X87_CTRL'', ''X87_STS'', ''X87_TAG'', ''X87_OPCODE'', ''ZMM0'', ''ZMM1'', ''ZMM2'',
     ''ZMM3'', ''ZMM4'', ''ZMM5'', ''ZMM6'', ''ZMM7'', ''ZMM8'', ''ZMM9'', ''ZMM10'', ''ZMM11'',
     ''ZMM12'', ''ZMM13'', ''ZMM14'', ''ZMM15'', ''ZMM16'', ''ZMM17'', ''ZMM18'', ''ZMM19'',
     ''ZMM20'', ''ZMM21'', ''ZMM22'', ''ZMM23'', ''ZMM24'', ''ZMM25'', ''ZMM26'', ''ZMM27'',
     ''ZMM28'', ''ZMM29'', ''ZMM30'', ''ZMM31'', ''XCR0'']"
  by code_simp

end
