(* ===== verification/X86_Translator.thy ===== *)
theory X86_Translator
  imports Builder_Invariant Registers
begin

text \<open>
  The base class of the x86 translators (\<open>input/x86/translators/translator.cpp\<close>): access to
  the operands of the decoded instruction, effective addresses, register and flag writes,
  condition codes and width conversion, all as programs over the IR builder.

  The decoder is Intel XED, a library that is not part of the repository.  What the
  translators ask it about an instruction is the record \<open>xed_inst\<close>: one field per query.
  Registers are asked for their class, their width, the distance of the largest enclosing
  register from \<open>XED_REG_RAX\<close> or \<open>XED_REG_ZMM0\<close> and its width, their distance from
  \<open>XED_REG_ST0\<close>, and whether they lie between AL and R15B; a few are compared with one
  named register (\<open>x_sel\<close>).  Arguments of one C++ call are built left to right, an order
  the language leaves open; it only affects the numbering of nodes.
\<close>

datatype xed_reg_class =
  RC_gpr | RC_xmm | RC_ymm | RC_zmm | RC_x87 | RC_pseudox87 | RC_other

datatype xed_reg_sel = R_plain | R_rip | R_fs | R_gs | R_x87control | R_x87status

datatype xed_operand =
  Op_REG0 | Op_REG1 | Op_REG2 | Op_REG3 | Op_MEM0 | Op_MEM1 | Op_IMM0 | Op_IMM1 | Op_RELBR | Op_other

record xreg =
  x_class :: xed_reg_class
  x_bits :: nat
  x_gpr :: nat
  x_zmm :: nat
  x_encl_bits :: nat
  x_st :: int
  x_low8 :: bool
  x_sel :: xed_reg_sel

record xmem =
  xm_base :: "xreg option"
  xm_index :: "xreg option"
  xm_scale :: nat
  xm_disp :: "64 word"
  xm_seg :: "xreg option"
  xm_len :: nat

record xed_inst =
  iclass :: string
  op_names :: "xed_operand list"
  op_reg :: "xed_operand \<Rightarrow> xreg"
  imm_signed :: bool
  imm_bits :: nat
  imm_s :: "32 word"
  imm_u :: "64 word"
  x_mem :: "nat \<Rightarrow> xmem"
  branch_disp :: "64 word"
  inst_len :: "32 word"
  classify_sse :: bool
  masked_vector :: bool

type_synonym 'a tr = "(builder, 'a) prog"

definition op_name :: "xed_inst \<Rightarrow> nat \<Rightarrow> xed_operand res" where
  "op_name x n = (if n < length (op_names x) then Inr (op_names x ! n)
                  else Inl (Undefined_behaviour ''no such operand''))"

section \<open>Registers\<close>

definition xedreg_to_offset :: "xreg \<Rightarrow> nat res" where
  "xedreg_to_offset r =
     (case x_class r of
        RC_gpr \<Rightarrow> Inr (x_gpr r * 8 + off_RAX)
      | RC_xmm \<Rightarrow> Inr (x_zmm r * 64 + off_ZMM0)
      | RC_ymm \<Rightarrow> Inr (x_zmm r * 64 + off_ZMM0)
      | RC_zmm \<Rightarrow> Inr (x_zmm r * 64 + off_ZMM0)
      | _ \<Rightarrow> Inl (Runtime_error ''unsupported register class when computing offset from xed''))"

definition write_reg :: "nat \<Rightarrow> port \<Rightarrow> node_id tr" where
  "write_reg reg p =
     bnd (lift_res (offset_to_idx reg)) (\<lambda>idx.
     bnd (lift_res (offset_to_name reg)) (\<lambda>name.
     insert_write_reg reg idx name p))"

definition read_reg :: "value_type \<Rightarrow> nat \<Rightarrow> node_id tr" where
  "read_reg vt reg =
     bnd (lift_res (offset_to_idx reg)) (\<lambda>idx.
     bnd (lift_res (offset_to_name reg)) (\<lambda>name.
     insert_read_reg vt reg idx name))"

definition read_xreg :: "value_type \<Rightarrow> xreg \<Rightarrow> node_id tr" where
  "read_xreg vt r = bnd (lift_res (xedreg_to_offset r)) (read_reg vt)"

definition write_xreg :: "xreg \<Rightarrow> port \<Rightarrow> node_id tr" where
  "write_xreg r p = bnd (lift_res (xedreg_to_offset r)) (\<lambda>off. write_reg off p)"

definition type_of_port :: "port \<Rightarrow> value_type tr" where
  "type_of_port p b = Inr (b_port_type p b, b)"

section \<open>Effective addresses\<close>

definition scale_shift :: "nat \<Rightarrow> ulong" where
  "scale_shift s = (if s = 1 then 0 else if s = 2 then 1 else if s = 4 then 2 else if s = 8 then 3 else 0)"

definition address_base :: "xed_inst \<Rightarrow> xreg option \<Rightarrow> (node_id option) tr" where
  "address_base x br =
     (case br of
        None \<Rightarrow> ret None
      | Some r \<Rightarrow>
          if x_sel r = R_rip then
            bnd insert_read_pc (\<lambda>pc.
            bnd (insert_constant_u64 (ucast (inst_len x))) (\<lambda>l.
            bnd (insert_add (val pc) (val l)) (\<lambda>a. ret (Some a))))
          else bnd (read_xreg u64 r) (\<lambda>a. ret (Some a)))"

definition scaled_index :: "xreg \<Rightarrow> nat \<Rightarrow> node_id tr" where
  "scaled_index r scale =
     (let i = scale_shift scale in
      if i \<noteq> 0 then
        bnd (read_xreg u64 r) (\<lambda>ix.
        bnd (insert_constant_u64 i) (\<lambda>c. insert_lsl (val ix) (val c)))
      else read_xreg u64 r)"

text \<open>\<open>if (!address_base) address_base = n; else address_base = insert_add(...)\<close>.\<close>

definition add_to_base :: "node_id option \<Rightarrow> node_id \<Rightarrow> node_id tr" where
  "add_to_base base n =
     (case base of None \<Rightarrow> ret n | Some a \<Rightarrow> insert_add (val a) (val n))"

definition add_index :: "xmem \<Rightarrow> node_id option \<Rightarrow> (node_id option) tr" where
  "add_index m base =
     (case xm_index m of
        None \<Rightarrow> ret base
      | Some r \<Rightarrow> bnd (scaled_index r (xm_scale m)) (\<lambda>i.
                  bnd (add_to_base base i) (\<lambda>a. ret (Some a))))"

definition add_displacement :: "xmem \<Rightarrow> node_id option \<Rightarrow> (node_id option) tr" where
  "add_displacement m base =
     (if xm_disp m \<noteq> 0
      then bnd (insert_constant_u64 (xm_disp m)) (\<lambda>d.
           bnd (add_to_base base d) (\<lambda>a. ret (Some a)))
      else ret base)"

definition address_or_zero :: "node_id option \<Rightarrow> node_id tr" where
  "address_or_zero base = (case base of None \<Rightarrow> insert_constant_u64 0 | Some a \<Rightarrow> ret a)"

definition add_segment :: "xmem \<Rightarrow> node_id \<Rightarrow> node_id tr" where
  "add_segment m a =
     (case xm_seg m of
        None \<Rightarrow> ret a
      | Some sg \<Rightarrow>
          if x_sel sg = R_fs then bnd (read_reg u64 off_FS) (\<lambda>f. insert_add (val a) (val f))
          else if x_sel sg = R_gs then bnd (read_reg u64 off_GS) (\<lambda>g. insert_add (val a) (val g))
          else ret a)"

definition compute_address :: "xed_inst \<Rightarrow> nat \<Rightarrow> node_id tr" where
  "compute_address x mem_idx =
     (let m = x_mem x mem_idx in
      if (case xm_base m of None \<Rightarrow> False | Some r \<Rightarrow> x_bits r \<noteq> 64)
      then throw (Runtime_error ''base reg invalid size'')
      else
        bnd (address_base x (xm_base m)) (\<lambda>base.
        bnd (add_index m base) (\<lambda>base.
        bnd (add_displacement m base) (\<lambda>base.
        bnd (address_or_zero base) (add_segment m)))))"

section \<open>The x87 stack\<close>

definition fpu_get_instruction_index :: "xed_inst \<Rightarrow> nat \<Rightarrow> int res" where
  "fpu_get_instruction_index x i =
     (case op_name x i of Inl e \<Rightarrow> Inl e | Inr nm \<Rightarrow> Inr (x_st (op_reg x nm)))"

definition fpu_compute_stack_index :: "int \<Rightarrow> node_id tr" where
  "fpu_compute_stack_index stack_idx =
     bnd (read_reg u16 off_X87_STS) (\<lambda>sts.
     bnd (insert_bit_extract (val sts) 11 3) (\<lambda>ex.
     bnd (insert_zx u64 (val ex)) (\<lambda>tp.
     if stack_idx \<noteq> 0 then
       bnd (insert_constant_u64 (of_int stack_idx)) (\<lambda>ofs.
       bnd (insert_add (val tp) (val ofs)) (\<lambda>t.
       bnd (insert_constant_u64 8) (\<lambda>c. insert_mod (val t) (val c))))
     else ret tp)))"

definition fpu_compute_stack_addr :: "int \<Rightarrow> node_id tr" where
  "fpu_compute_stack_addr stack_idx =
     bnd (read_reg u64 off_X87_STACK_BASE) (\<lambda>base.
     bnd (fpu_compute_stack_index stack_idx) (\<lambda>tp.
     bnd (insert_constant_u64 8) (\<lambda>c.
     bnd (insert_mul (val tp) (val c)) (\<lambda>ofs. insert_add (val base) (val ofs)))))"

definition fpu_stack_get :: "int \<Rightarrow> node_id tr" where
  "fpu_stack_get stack_idx =
     bnd (fpu_compute_stack_addr stack_idx) (\<lambda>a.
     bnd (insert_read_mem f64 (val a)) (\<lambda>st. insert_bitcast f64 (val st)))"

definition fpu_stack_set :: "int \<Rightarrow> port \<Rightarrow> node_id tr" where
  "fpu_stack_set stack_idx p =
     bnd (fpu_compute_stack_addr stack_idx) (\<lambda>a. insert_write_mem (val a) p)"

definition fpu_tag_get :: "int \<Rightarrow> node_id tr" where
  "fpu_tag_get stack_idx =
     bnd (read_reg u16 off_X87_TAG) (\<lambda>tag.
     bnd (fpu_compute_stack_index stack_idx) (\<lambda>tp.
     bnd (insert_constant_u1 1) (\<lambda>one.
     bnd (insert_lsl (val tp) (val one)) (\<lambda>sh.
     bnd (insert_lsr (val tag) (val sh)) (\<lambda>res.
     bnd (insert_constant_u16 3) (\<lambda>m. insert_and (val res) (val m)))))))"

definition fpu_tag_set :: "int \<Rightarrow> port \<Rightarrow> node_id tr" where
  "fpu_tag_set stack_idx p =
     bnd (read_reg u16 off_X87_TAG) (\<lambda>tag.
     bnd (fpu_compute_stack_index stack_idx) (\<lambda>tp.
     bnd (insert_constant_u1 1) (\<lambda>one.
     bnd (insert_lsl (val tp) (val one)) (\<lambda>sh.
     bnd (insert_constant_u16 3) (\<lambda>c3.
     bnd (insert_lsl (val c3) (val sh)) (\<lambda>m.
     bnd (insert_not (val m)) (\<lambda>clear.
     bnd (insert_and (val tag) (val clear)) (\<lambda>t1.
     bnd (insert_lsl p (val sh)) (\<lambda>vm.
     bnd (insert_or (val t1) (val vm)) (\<lambda>t2.
     write_reg off_X87_TAG (val t2)))))))))))"

definition fpu_stack_index_move :: "int \<Rightarrow> node_id tr" where
  "fpu_stack_index_move d =
     (if d \<noteq> 1 \<and> d \<noteq> -1 then throw (Logic_error ''Cannot move the FPU stack. Must be 1 or -1.'')
      else
        bnd (read_reg u16 off_X87_STS) (\<lambda>sts.
        bnd (insert_bit_extract (val sts) 11 3) (\<lambda>ex.
        bnd (insert_zx u8 (val ex)) (\<lambda>tp.
        bnd (type_of_port (val tp)) (\<lambda>ty.
        bnd (insert_constant_i ty (of_int d)) (\<lambda>c.
        bnd (insert_add (val tp) (val c)) (\<lambda>t1.
        bnd (insert_constant_u8 7) (\<lambda>c7.
        bnd (insert_and (val t1) (val c7)) (\<lambda>t2.
        bnd (insert_bit_insert (val sts) (val t2) 11 3) (\<lambda>s2.
        write_reg off_X87_STS (val s2)))))))))))"

definition fpu_push :: "port \<Rightarrow> node_id tr" where
  "fpu_push p =
     bnd (insert_bitcast f64 p) (\<lambda>orig.
     bnd (fpu_tag_get 7) (\<lambda>old_tag.
     bnd (insert_constant_u16 3) (\<lambda>c3.
     bnd (insert_cmpeq (val old_tag) (val c3)) (\<lambda>ovf.
     bnd (insert_bitcast u64 p) (\<lambda>pi.
     bnd (insert_constant_u64 0x7FFFFFFFFFFFFFFF) (\<lambda>msk.
     bnd (insert_and (val pi) (val msk)) (\<lambda>norm.
     bnd (insert_constant_u64 0) (\<lambda>c0.
     bnd (insert_cmpeq (val norm) (val c0)) (\<lambda>tdef0.
     bnd (insert_zx u16 (val tdef0)) (\<lambda>tdef.
     bnd (insert_constant_u16 0) (\<lambda>c1_default.
     bnd (insert_constant_u16 2) (\<lambda>tovf.
     bnd (insert_constant_u64 0xFFF8000000000000) (\<lambda>vu.
     bnd (insert_bitcast f64 (val vu)) (\<lambda>vovf.
     bnd (insert_constant_u16 1) (\<lambda>c1_overflow.
     bnd (insert_csel (val ovf) (val tdef) (val tovf)) (\<lambda>tag.
     andthen (fpu_tag_set 7 (val tag))
     (bnd (insert_csel (val ovf) (val orig) (val vovf)) (\<lambda>sv.
     andthen (fpu_stack_set 7 (val sv))
     (bnd (insert_csel (val ovf) (val c1_default) (val c1_overflow)) (\<lambda>c1.
     bnd (read_reg u16 off_X87_STS) (\<lambda>sts.
     bnd (insert_bit_insert (val sts) (val c1) 9 1) (\<lambda>s2.
     andthen (write_reg off_X87_STS (val s2))
     (fpu_stack_index_move (-1))))))))))))))))))))))))"

definition fpu_pop :: "node_id tr" where
  "fpu_pop =
     bnd (insert_constant_u16 3) (\<lambda>c.
     andthen (fpu_tag_set 0 (val c)) (fpu_stack_index_move 1))"

section \<open>Operands\<close>

definition write_gpr :: "xreg \<Rightarrow> port \<Rightarrow> node_id tr" where
  "write_gpr r p =
     bnd (type_of_port p) (\<lambda>ty.
     if width ty = 64 then
       (if tclass ty = signed_integer
        then bnd (insert_bitcast u64 p) (\<lambda>c. write_xreg r (val c))
        else write_xreg r p)
     else if width ty = 32 then bnd (insert_zx u64 p) (\<lambda>z. write_xreg r (val z))
     else if width ty = 16 then
       bnd (read_xreg u64 r) (\<lambda>orig.
       bnd (insert_bit_insert (val orig) p 0 16) (\<lambda>res. write_xreg r (val res)))
     else if width ty = 8 then
       bnd (read_xreg u64 r) (\<lambda>orig.
       bnd (insert_bit_insert (val orig) p (if x_low8 r then 0 else 8) 8) (\<lambda>res.
       write_xreg r (val res)))
     else throw (Runtime_error ''unsupported general purpose register size''))"

text \<open>The unsigned type of a vector register or of a value written to one.\<close>

definition flat_type :: "nat \<Rightarrow> value_type option" where
  "flat_type w =
     (if w = 32 then Some u32 else if w = 64 then Some u64 else if w = 128 then Some u128
      else if w = 256 then Some u256 else if w = 512 then Some u512 else None)"

text \<open>
  A write to a vector register: without SSE semantics the rest of the enclosing register
  is zeroed, with them it is kept.  The switches over the width of the enclosing register
  have no default; for another width the C++ code uses an uninitialised pointer.
\<close>

definition write_vec_zeroing :: "xreg \<Rightarrow> port \<Rightarrow> value_type \<Rightarrow> value_type \<Rightarrow> node_id tr" where
  "write_vec_zeroing r p vt et =
     bnd (insert_bitcast vt p) (\<lambda>flat.
     bnd (insert_zx et (val flat)) (\<lambda>z. write_xreg r (val z)))"

definition write_vec_merging :: "xreg \<Rightarrow> port \<Rightarrow> nat \<Rightarrow> value_type \<Rightarrow> node_id tr" where
  "write_vec_merging r p val_len et =
     bnd (read_xreg et r) (\<lambda>enc.
     case flat_type val_len of
       None \<Rightarrow> write_xreg r (val enc)
     | Some vt \<Rightarrow>
         bnd (insert_bitcast vt p) (\<lambda>orig.
         bnd (insert_bitcast (vector_type vt (width et div val_len)) (val enc)) (\<lambda>ev.
         bnd (insert_vector_insert (val ev) 0 (val orig)) (\<lambda>ev2.
         write_xreg r (val ev2)))))"

definition write_vec :: "xed_inst \<Rightarrow> xreg \<Rightarrow> port \<Rightarrow> node_id tr" where
  "write_vec x r p =
     bnd (type_of_port p) (\<lambda>ty.
     if \<not> classify_sse x then
       (case flat_type (width ty) of
          None \<Rightarrow> throw (Runtime_error ''unsupported value width when writing X/Y/ZMM registers'')
        | Some vt \<Rightarrow>
            if x_encl_bits r \<in> {128, 256, 512}
            then write_vec_zeroing r p vt (the (flat_type (x_encl_bits r)))
            else throw (Undefined_behaviour ''enclosing register width''))
     else if x_encl_bits r \<in> {128, 256, 512}
     then write_vec_merging r p (width ty) (the (flat_type (x_encl_bits r)))
     else throw (Undefined_behaviour ''enclosing register width''))"

definition is_vec_class :: "xed_reg_class \<Rightarrow> bool" where
  "is_vec_class c \<longleftrightarrow> c \<in> {RC_xmm, RC_ymm, RC_zmm}"

definition write_operand :: "xed_inst \<Rightarrow> nat \<Rightarrow> port \<Rightarrow> node_id tr" where
  "write_operand x n p =
     bnd (lift_res (op_name x n)) (\<lambda>nm.
     if nm \<in> {Op_REG0, Op_REG1, Op_REG2} then
       (let r = op_reg x nm in
        if x_class r = RC_gpr then write_gpr r p
        else if is_vec_class (x_class r) then write_vec x r p
        else if x_class r = RC_x87 then
          (if 0 \<le> x_st r \<and> x_st r \<le> 7 then fpu_stack_set (x_st r) p
           else throw (Runtime_error ''unsupported x87 register type''))
        else throw (Runtime_error ''unsupported register class''))
     else if nm = Op_MEM0 then bnd (compute_address x 0) (\<lambda>a. insert_write_mem (val a) p)
     else throw (Logic_error ''unsupported write operand type''))"

definition read_reg_operand :: "xreg \<Rightarrow> node_id tr" where
  "read_reg_operand r =
     (case x_class r of
        RC_gpr \<Rightarrow>
          (if x_bits r = 8 then read_xreg u8 r
           else if x_bits r = 16 then read_xreg u16 r
           else if x_bits r = 32 then read_xreg u32 r
           else if x_bits r = 64 then read_xreg u64 r
           else throw (Runtime_error ''unsupported register size''))
      | RC_xmm \<Rightarrow> read_xreg u128 r
      | RC_ymm \<Rightarrow> read_xreg u256 r
      | RC_zmm \<Rightarrow> read_xreg u512 r
      | RC_x87 \<Rightarrow>
          (if 0 \<le> x_st r \<and> x_st r \<le> 7 then fpu_stack_get (x_st r)
           else throw (Runtime_error ''unsupported x87 register type''))
      | RC_pseudox87 \<Rightarrow>
          (if x_sel r = R_x87control then read_reg u16 off_X87_CTRL
           else if x_sel r = R_x87status then read_reg u16 off_X87_STS
           else throw (Runtime_error ''unsupported pseudoX87 register type''))
      | RC_other \<Rightarrow> throw (Runtime_error ''unsupported register class''))"

definition read_immediate :: "xed_inst \<Rightarrow> node_id tr" where
  "read_immediate x =
     (if imm_signed x then
        (if imm_bits x = 8 then insert_constant_s8 (imm_s x)
         else if imm_bits x = 16 then insert_constant_s16 (imm_s x)
         else if imm_bits x = 32 then insert_constant_s32 (imm_s x)
         else if imm_bits x = 64 then insert_constant_s64 (scast (imm_s x))
         else throw (Runtime_error ''unsupported immediate width''))
      else
        (if imm_bits x = 8 then insert_constant_u8 (ucast (imm_u x))
         else if imm_bits x = 16 then insert_constant_u16 (ucast (imm_u x))
         else if imm_bits x = 32 then insert_constant_u32 (ucast (imm_u x))
         else if imm_bits x = 64 then insert_constant_u64 (imm_u x)
         else throw (Runtime_error ''unsupported immediate width'')))"

definition mem_type :: "nat \<Rightarrow> value_type option" where
  "mem_type len =
     (if len = 1 then Some u8 else if len = 2 then Some u16 else if len = 4 then Some u32
      else if len = 8 then Some u64 else if len = 10 then Some f80 else if len = 16 then Some u128
      else None)"

definition read_memory :: "xed_inst \<Rightarrow> nat \<Rightarrow> node_id tr" where
  "read_memory x idx =
     bnd (compute_address x idx) (\<lambda>a.
     case mem_type (xm_len (x_mem x idx)) of
       None \<Rightarrow> throw (Runtime_error ''invalid memory width in read'')
     | Some ty \<Rightarrow> insert_read_mem ty (val a))"

definition read_operand :: "xed_inst \<Rightarrow> nat \<Rightarrow> node_id tr" where
  "read_operand x n =
     bnd (lift_res (op_name x n)) (\<lambda>nm.
     if nm \<in> {Op_REG0, Op_REG1, Op_REG2, Op_REG3} then read_reg_operand (op_reg x nm)
     else if nm = Op_IMM0 then read_immediate x
     else if nm = Op_MEM0 then read_memory x 0
     else if nm = Op_MEM1 then read_memory x 1
     else if nm = Op_RELBR then insert_constant_u64 (scast (ucast (branch_disp x) :: 32 word))
     else throw (Logic_error ''unsupported read operand type''))"

definition get_operand_width :: "xed_inst \<Rightarrow> nat \<Rightarrow> nat res" where
  "get_operand_width x n =
     (case op_name x n of
        Inl e \<Rightarrow> Inl e
      | Inr nm \<Rightarrow>
          if nm \<in> {Op_REG0, Op_REG1, Op_REG2} then Inr (x_bits (op_reg x nm))
          else if nm = Op_IMM0 then Inr (imm_bits x)
          else if nm = Op_MEM0 then Inr (8 * xm_len (x_mem x 0))
          else if nm = Op_MEM1 then Inr (8 * xm_len (x_mem x 1))
          else Inl (Runtime_error ''unsupported operand width query''))"

definition is_memory_operand :: "xed_inst \<Rightarrow> nat \<Rightarrow> bool res" where
  "is_memory_operand x n = map_sum id (\<lambda>nm. nm \<in> {Op_MEM0, Op_MEM1}) (op_name x n)"

definition is_immediate_operand :: "xed_inst \<Rightarrow> nat \<Rightarrow> bool res" where
  "is_immediate_operand x n = map_sum id (\<lambda>nm. nm \<in> {Op_IMM0, Op_IMM1}) (op_name x n)"

definition type_of_operand :: "xed_inst \<Rightarrow> nat \<Rightarrow> value_type res" where
  "type_of_operand x n =
     (case op_name x n of
        Inl e \<Rightarrow> Inl e
      | Inr nm \<Rightarrow>
          if nm \<in> {Op_REG0, Op_REG1} then
            (case x_class (op_reg x nm) of
               RC_gpr \<Rightarrow> Inr (mk_value_type unsigned_integer (x_bits (op_reg x nm)) 1)
             | RC_xmm \<Rightarrow> Inr (mk_value_type unsigned_integer 128 1)
             | _ \<Rightarrow> Inl (Runtime_error ''unsupported register class''))
          else if nm = Op_IMM0 then Inr (mk_value_type signed_integer (imm_bits x) 1)
          else Inl (Logic_error ''unsupported operand type''))"

definition auto_cast :: "value_type \<Rightarrow> node_id \<Rightarrow> node_id tr" where
  "auto_cast target n =
     bnd (type_of_port (val n)) (\<lambda>vt.
     if width target = width vt then
       (if tclass target \<noteq> tclass vt then insert_bitcast target (val n) else ret n)
     else
       bnd (if width target < width vt
            then insert_trunc (mk_value_type (tclass vt) (width target) 1) (val n)
            else if tclass vt = signed_integer
            then insert_sx (mk_value_type signed_integer (width target) 1) (val n)
            else if tclass vt = unsigned_integer
            then insert_zx (mk_value_type unsigned_integer (width target) 1) (val n)
            else throw (Runtime_error ''auto cast not supported'')) (\<lambda>r.
       if tclass target \<noteq> tclass vt then insert_bitcast target (val r) else ret r))"

section \<open>Flags and conditions\<close>

datatype flag_op = Ignore | Set0 | Set1 | Update

text \<open>
  The switch over one flag: which node kinds can update it, and through which port.  A
  constant operand gives a constant flag (\<open>is_zero()\<close> for ZF; for SF the unsigned
  \<open>const_val_i() < 0\<close>, which is never true).  The null pointer is dereferenced only to
  update.
\<close>

definition const_flag :: "nat \<Rightarrow> ulong \<Rightarrow> unit tr" where
  "const_flag reg c = bnd (insert_constant_i u1 c) (\<lambda>n. andthen (write_reg reg (val n)) (ret ()))"

definition node_at :: "node_id \<Rightarrow> node tr" where
  "node_at n b =
     (case nodes (b_heap b) n of
        None \<Rightarrow> Inl (Undefined_behaviour ''dangling node'')
      | Some nd \<Rightarrow> Inr (nd, b))"

definition update_flag ::
  "nat \<Rightarrow> node_kinds set \<Rightarrow> port_kinds \<Rightarrow> (node \<Rightarrow> ulong) option \<Rightarrow> node_id option \<Rightarrow> unit tr" where
  "update_flag reg ks k constant op =
     (case op of
        None \<Rightarrow> throw (Undefined_behaviour ''null operation node'')
      | Some n \<Rightarrow>
          bnd (node_at n) (\<lambda>nd.
          if kind (n_data nd) \<in> ks then andthen (write_reg reg (Port n k)) (ret ())
          else if kind (n_data nd) = K_constant \<and> constant \<noteq> None
          then const_flag reg (the constant nd)
          else throw (Runtime_error ''unsupported operation node type for a flag'')))"

definition write_flag ::
  "nat \<Rightarrow> node_kinds set \<Rightarrow> port_kinds \<Rightarrow> (node \<Rightarrow> ulong) option \<Rightarrow> node_id option \<Rightarrow> flag_op \<Rightarrow> unit tr" where
  "write_flag reg ks k constant op f =
     (case f of
        Ignore \<Rightarrow> ret ()
      | Set0 \<Rightarrow> const_flag reg 0
      | Set1 \<Rightarrow> const_flag reg 1
      | Update \<Rightarrow> update_flag reg ks k constant op)"

definition arith_kinds :: "node_kinds set" where
  "arith_kinds = {K_unary_arith, K_binary_arith, K_ternary_arith,
                  K_unary_atomic, K_binary_atomic, K_ternary_atomic}"

definition carry_kinds :: "node_kinds set" where
  "carry_kinds = {K_binary_arith, K_ternary_arith, K_binary_atomic, K_ternary_atomic}"

definition write_flags ::
  "node_id option \<Rightarrow> flag_op \<Rightarrow> flag_op \<Rightarrow> flag_op \<Rightarrow> flag_op \<Rightarrow> flag_op \<Rightarrow> flag_op \<Rightarrow> unit tr" where
  "write_flags op zf cf ovf sf pf af =
     andthen (write_flag off_ZF (insert K_bit_shift arith_kinds) P_zero
                (Some (\<lambda>nd. if is_zero nd then 1 else 0)) op zf)
     (andthen (write_flag off_CF carry_kinds P_carry None op cf)
     (andthen (write_flag off_OF carry_kinds P_overflow None op ovf)
     (write_flag off_SF (insert K_bit_shift arith_kinds) P_negative (Some (\<lambda>nd. 0)) op sf)))"

datatype cond_type =
    C_nbe | C_nb | C_b | C_be | C_z | C_nle | C_nl | C_l | C_le | C_nz
  | C_no | C_np | C_ns | C_o | C_p | C_s

definition flag_is_clear :: "nat \<Rightarrow> node_id tr" where
  "flag_is_clear f = bnd (read_reg u1 f) (\<lambda>n. insert_not (val n))"

definition compute_cond :: "cond_type \<Rightarrow> node_id tr" where
  "compute_cond ct =
     (case ct of
        C_nbe \<Rightarrow> bnd (flag_is_clear off_CF) (\<lambda>ncf.
                 bnd (flag_is_clear off_ZF) (\<lambda>nzf. insert_and (val ncf) (val nzf)))
      | C_nb \<Rightarrow> flag_is_clear off_CF
      | C_b \<Rightarrow> read_reg u1 off_CF
      | C_be \<Rightarrow> bnd (read_reg u1 off_CF) (\<lambda>cf.
                bnd (read_reg u1 off_ZF) (\<lambda>zf. insert_or (val cf) (val zf)))
      | C_z \<Rightarrow> read_reg u1 off_ZF
      | C_nle \<Rightarrow> bnd (flag_is_clear off_ZF) (\<lambda>nzf.
                 bnd (read_reg u1 off_SF) (\<lambda>sf.
                 bnd (read_reg u1 off_OF) (\<lambda>ovf.
                 bnd (insert_cmpeq (val sf) (val ovf)) (\<lambda>eq. insert_and (val nzf) (val eq)))))
      | C_nl \<Rightarrow> bnd (read_reg u1 off_SF) (\<lambda>sf.
                bnd (read_reg u1 off_OF) (\<lambda>ovf. insert_cmpeq (val sf) (val ovf)))
      | C_l \<Rightarrow> bnd (read_reg u1 off_SF) (\<lambda>sf.
               bnd (read_reg u1 off_OF) (\<lambda>ovf. insert_cmpne (val sf) (val ovf)))
      | C_le \<Rightarrow> bnd (read_reg u1 off_ZF) (\<lambda>zf.
                bnd (read_reg u1 off_SF) (\<lambda>sf.
                bnd (read_reg u1 off_OF) (\<lambda>ovf.
                bnd (insert_cmpne (val sf) (val ovf)) (\<lambda>ne. insert_or (val zf) (val ne)))))
      | C_nz \<Rightarrow> flag_is_clear off_ZF
      | C_no \<Rightarrow> flag_is_clear off_OF
      | C_np \<Rightarrow> flag_is_clear off_PF
      | C_ns \<Rightarrow> flag_is_clear off_SF
      | C_o \<Rightarrow> read_reg u1 off_OF
      | C_p \<Rightarrow> read_reg u1 off_PF
      | C_s \<Rightarrow> read_reg u1 off_SF)"

end
