(* ===== verification/X86_Translator_Safe.thy ===== *)
theory X86_Translator_Safe
  imports X86_Translator
begin

text \<open>
  The helpers of the translators keep the builder's invariant and return nodes of the
  heap.  The rules are written to be chained: a goal \<open>safe m Q b\<close> is reduced by the
  shape of \<open>m\<close>, and what was known of earlier nodes is transported along the growing heap.
\<close>

named_theorems tr_safe \<open>translator helpers keep the builder's invariant\<close>

abbreviation okn :: "node_id \<Rightarrow> builder \<Rightarrow> bool" where
  "okn \<equiv> \<lambda>n b. vnode b n"

definition vopt :: "builder \<Rightarrow> node_id option \<Rightarrow> bool" where
  "vopt b o' \<longleftrightarrow> (\<forall>n. o' = Some n \<longrightarrow> vnode b n)"

lemma vopt_simps [simp]: "vopt b None" "vopt b (Some n) \<longleftrightarrow> vnode b n"
  by (simp_all add: vopt_def)

lemma vnode_trans: "b_ext b b' \<Longrightarrow> vnode b n \<Longrightarrow> vnode b' n"
  by (rule vnode_ext)

lemma vport_trans: "b_ext b b' \<Longrightarrow> vport b p \<Longrightarrow> vport b' p"
  by (rule vport_ext)

lemma vopt_trans: "b_ext b b' \<Longrightarrow> vopt b p \<Longrightarrow> vopt b' p"
  by (auto simp: vopt_def intro: vnode_ext)

lemma vport_valI: "vnode b n \<Longrightarrow> vport b (val n)"
  by (simp add: vport_val)

lemma vopt_SomeI: "vnode b n \<Longrightarrow> vopt b (Some n)"
  by simp

lemma knode_trans: "b_ext b b' \<Longrightarrow> knode K b n \<Longrightarrow> knode K b' n"
  by (rule knode_ext)

lemma safe_lift_res: "wf_builder b \<Longrightarrow> safe (lift_res r) (\<lambda>x b'. r = Inr x) b"
  by (auto simp: safe_def lift_res_def split: sum.splits)

lemma safe_type_of_port: "wf_builder b \<Longrightarrow> safe (type_of_port p) (\<lambda>_ _. True) b"
  by (simp add: safe_def type_of_port_def)

lemma safe_node_at: "wf_builder b \<Longrightarrow> safe (node_at n) (\<lambda>nd b'. nodes (b_heap b') n = Some nd) b"
  by (auto simp: safe_def node_at_def split: option.splits)

lemma safe_Let: "safe (f x) Q b \<Longrightarrow> safe (let y = x in f y) Q b"
  by simp

lemma safe_case_option:
  "(r = None \<Longrightarrow> safe m Q b) \<Longrightarrow> (\<And>x. r = Some x \<Longrightarrow> safe (f x) Q b) \<Longrightarrow>
   safe (case r of None \<Rightarrow> m | Some x \<Rightarrow> f x) Q b"
  by (cases r) auto

lemma safe_ret_unit: "wf_builder b \<Longrightarrow> safe (ret ()) (\<lambda>_ _. True) b"
  by (rule safe_ret) auto

lemma safe_ret_node: "wf_builder b \<Longrightarrow> vnode b n \<Longrightarrow> safe (ret n) okn b"
  by (rule safe_ret) auto

lemma safe_ret_opt: "wf_builder b \<Longrightarrow> vopt b n \<Longrightarrow> safe (ret n) (\<lambda>x b'. vopt b' x) b"
  by (rule safe_ret) auto

lemma safe_True: "safe m Q b \<Longrightarrow> safe m (\<lambda>_ _. True) b"
  by (erule safe_weaken) simp

lemma safe_for_each:
  assumes "wf_builder b" and "I b" and "\<And>b b'. b_ext b b' \<Longrightarrow> I b \<Longrightarrow> I b'"
    and "\<And>x b. x \<in> set xs \<Longrightarrow> wf_builder b \<Longrightarrow> I b \<Longrightarrow> safe (f x) (\<lambda>_ _. True) b"
  shows "safe (for_each xs f) (\<lambda>_ _. True) b"
  using assms
proof (induction xs arbitrary: b)
  case Nil
  then show ?case by (simp add: safe_ret)
next
  case (Cons x xs)
  show ?case
    by simp (rule safe_andthen, rule Cons.prems(4), simp_all add: Cons.prems Cons.IH Cons.prems(3))
qed

lemma safe_fold_prog:
  assumes "wf_builder b" and "I a b"
    and "\<And>x a b. x \<in> set xs \<Longrightarrow> wf_builder b \<Longrightarrow> I a b \<Longrightarrow> safe (f x a) I b"
  shows "safe (fold_prog xs f a) I b"
  using assms
proof (induction xs arbitrary: a b)
  case Nil
  then show ?case by (simp add: safe_ret)
next
  case (Cons x xs)
  show ?case
    by simp (rule safe_bnd, rule Cons.prems(3), simp_all add: Cons.prems Cons.IH)
qed

lemmas [tr_safe] = safe_inserts safe_lift_res safe_type_of_port safe_node_at safe_throw
  safe_ret_unit safe_ret_node safe_ret_opt

lemmas safe_shape = safe_bnd safe_andthen safe_if safe_Let safe_case_option

lemmas safe_trans = vnode_trans vport_trans vopt_trans knode_trans

lemmas safe_port = vport_valI vopt_SomeI

section \<open>Registers and addresses\<close>

lemma safe_read_reg [tr_safe]: "wf_builder b \<Longrightarrow> safe (read_reg vt off) okn b"
  unfolding read_reg_def
  by (assumption | rule safe_shape tr_safe safe_port | erule safe_trans)+

lemma safe_write_reg [tr_safe]: "wf_builder b \<Longrightarrow> vport b p \<Longrightarrow> safe (write_reg off p) okn b"
  unfolding write_reg_def
  by (assumption | rule safe_shape tr_safe safe_port | erule safe_trans)+

lemma safe_read_xreg [tr_safe]: "wf_builder b \<Longrightarrow> safe (read_xreg vt r) okn b"
  unfolding read_xreg_def
  by (assumption | rule safe_shape tr_safe safe_port | erule safe_trans)+

lemma safe_write_xreg [tr_safe]: "wf_builder b \<Longrightarrow> vport b p \<Longrightarrow> safe (write_xreg r p) okn b"
  unfolding write_xreg_def
  by (assumption | rule safe_shape tr_safe safe_port | erule safe_trans)+

lemma safe_address_base [tr_safe]:
  "wf_builder b \<Longrightarrow> safe (address_base x r) (\<lambda>r b'. vopt b' r) b"
  unfolding address_base_def
  by (assumption | rule safe_shape tr_safe safe_port vopt_simps(1) | erule safe_trans)+

lemma safe_scaled_index [tr_safe]: "wf_builder b \<Longrightarrow> safe (scaled_index r s) okn b"
  unfolding scaled_index_def
  by (assumption | rule safe_shape tr_safe safe_port | erule safe_trans)+

lemma safe_add_to_base [tr_safe]:
  "wf_builder b \<Longrightarrow> vopt b base \<Longrightarrow> vnode b n \<Longrightarrow> safe (add_to_base base n) okn b"
  unfolding add_to_base_def
  by (cases base) (simp_all, (assumption | rule safe_shape tr_safe safe_port | erule safe_trans)+)

lemma safe_add_index [tr_safe]:
  "wf_builder b \<Longrightarrow> vopt b base \<Longrightarrow> safe (add_index m base) (\<lambda>r b'. vopt b' r) b"
  unfolding add_index_def
  by (assumption | rule safe_shape tr_safe safe_port | erule safe_trans)+

lemma safe_add_displacement [tr_safe]:
  "wf_builder b \<Longrightarrow> vopt b base \<Longrightarrow> safe (add_displacement m base) (\<lambda>r b'. vopt b' r) b"
  unfolding add_displacement_def
  by (assumption | rule safe_shape tr_safe safe_port | erule safe_trans)+

lemma safe_address_or_zero [tr_safe]:
  "wf_builder b \<Longrightarrow> vopt b base \<Longrightarrow> safe (address_or_zero base) okn b"
  unfolding address_or_zero_def
  by (cases base) (simp_all, (assumption | rule tr_safe)+)

lemma safe_add_segment [tr_safe]:
  "wf_builder b \<Longrightarrow> vnode b a \<Longrightarrow> safe (add_segment m a) okn b"
  unfolding add_segment_def
  by (assumption | rule safe_shape tr_safe safe_port | erule safe_trans)+

lemma safe_compute_address [tr_safe]:
  "wf_builder b \<Longrightarrow> safe (compute_address x i) okn b"
  unfolding compute_address_def
  by (assumption | rule safe_shape tr_safe safe_port | erule safe_trans)+

section \<open>The x87 stack\<close>

lemma safe_fpu_compute_stack_index [tr_safe]:
  "wf_builder b \<Longrightarrow> safe (fpu_compute_stack_index i) okn b"
  unfolding fpu_compute_stack_index_def
  by (assumption | rule safe_shape tr_safe safe_port | erule safe_trans)+

lemma safe_fpu_compute_stack_addr [tr_safe]:
  "wf_builder b \<Longrightarrow> safe (fpu_compute_stack_addr i) okn b"
  unfolding fpu_compute_stack_addr_def
  by (assumption | rule safe_shape tr_safe safe_port | erule safe_trans)+

lemma safe_fpu_stack_get [tr_safe]:
  "wf_builder b \<Longrightarrow> safe (fpu_stack_get i) okn b"
  unfolding fpu_stack_get_def
  by (assumption | rule safe_shape tr_safe safe_port | erule safe_trans)+

lemma safe_fpu_stack_set [tr_safe]:
  "wf_builder b \<Longrightarrow> vport b p \<Longrightarrow> safe (fpu_stack_set i p) okn b"
  unfolding fpu_stack_set_def
  by (assumption | rule safe_shape tr_safe safe_port | erule safe_trans)+

lemma safe_fpu_tag_get [tr_safe]:
  "wf_builder b \<Longrightarrow> safe (fpu_tag_get i) okn b"
  unfolding fpu_tag_get_def
  by (assumption | rule safe_shape tr_safe safe_port | erule safe_trans)+

lemma safe_fpu_tag_set [tr_safe]:
  "wf_builder b \<Longrightarrow> vport b p \<Longrightarrow> safe (fpu_tag_set i p) okn b"
  unfolding fpu_tag_set_def
  by (assumption | rule safe_shape tr_safe safe_port | erule safe_trans)+

lemma safe_fpu_stack_index_move [tr_safe]:
  "wf_builder b \<Longrightarrow> safe (fpu_stack_index_move d) okn b"
  unfolding fpu_stack_index_move_def
  by (assumption | rule safe_shape tr_safe safe_port | erule safe_trans)+

lemma safe_fpu_push [tr_safe]:
  "wf_builder b \<Longrightarrow> vport b p \<Longrightarrow> safe (fpu_push p) okn b"
  unfolding fpu_push_def
  by (assumption | rule safe_shape tr_safe safe_port | erule safe_trans)+

lemma safe_fpu_pop [tr_safe]:
  "wf_builder b \<Longrightarrow> safe fpu_pop okn b"
  unfolding fpu_pop_def
  by (assumption | rule safe_shape tr_safe safe_port | erule safe_trans)+

section \<open>Operands\<close>

lemma safe_write_gpr [tr_safe]:
  "wf_builder b \<Longrightarrow> vport b p \<Longrightarrow> safe (write_gpr r p) okn b"
  unfolding write_gpr_def
  by (assumption | rule safe_shape tr_safe safe_port | erule safe_trans)+

lemma safe_write_vec_zeroing [tr_safe]:
  "wf_builder b \<Longrightarrow> vport b p \<Longrightarrow> safe (write_vec_zeroing r p vt et) okn b"
  unfolding write_vec_zeroing_def
  by (assumption | rule safe_shape tr_safe safe_port | erule safe_trans)+

lemma safe_write_vec_merging [tr_safe]:
  "wf_builder b \<Longrightarrow> vport b p \<Longrightarrow> safe (write_vec_merging r p l et) okn b"
  unfolding write_vec_merging_def
  by (assumption | rule safe_shape tr_safe safe_port | erule safe_trans)+

lemma safe_write_vec [tr_safe]:
  "wf_builder b \<Longrightarrow> vport b p \<Longrightarrow> safe (write_vec x r p) okn b"
  unfolding write_vec_def
  by (assumption | rule safe_shape tr_safe safe_port | erule safe_trans)+

lemma safe_write_operand [tr_safe]:
  "wf_builder b \<Longrightarrow> vport b p \<Longrightarrow> safe (write_operand x n p) okn b"
  unfolding write_operand_def
  by (assumption | rule safe_shape tr_safe safe_port | erule safe_trans)+

lemma safe_read_reg_operand [tr_safe]: "wf_builder b \<Longrightarrow> safe (read_reg_operand r) okn b"
  unfolding read_reg_operand_def
  by (cases "x_class r") (simp_all only: xed_reg_class.case,
      (assumption | rule safe_shape tr_safe safe_port | erule safe_trans)+)

lemma safe_read_immediate [tr_safe]:
  "wf_builder b \<Longrightarrow> safe (read_immediate x) okn b"
  unfolding read_immediate_def
  by (assumption | rule safe_shape tr_safe safe_port | erule safe_trans)+

lemma safe_read_memory [tr_safe]:
  "wf_builder b \<Longrightarrow> safe (read_memory x i) okn b"
  unfolding read_memory_def
  by (assumption | rule safe_shape tr_safe safe_port | erule safe_trans)+

lemma safe_read_operand [tr_safe]:
  "wf_builder b \<Longrightarrow> safe (read_operand x n) okn b"
  unfolding read_operand_def
  by (assumption | rule safe_shape tr_safe safe_port | erule safe_trans)+

lemma safe_auto_cast [tr_safe]:
  "wf_builder b \<Longrightarrow> vnode b n \<Longrightarrow> safe (auto_cast t n) okn b"
  unfolding auto_cast_def
  by (assumption | rule safe_shape tr_safe safe_port | erule safe_trans)+

section \<open>Flags and conditions\<close>

lemma safe_const_flag [tr_safe]:
  "wf_builder b \<Longrightarrow> safe (const_flag reg c) (\<lambda>_ _. True) b"
  unfolding const_flag_def
  by (assumption | rule safe_shape tr_safe safe_port | erule safe_trans)+

text \<open>The kinds that update a flag have the port the flag is read from.\<close>

lemma flag_port:
  assumes "nodes (b_heap b) n = Some nd" and "kind (n_data nd) \<in> ks"
    and "ks \<subseteq> arith_kinds \<and> k \<in> {P_zero, P_negative, P_overflow, P_carry}
       \<or> ks \<subseteq> insert K_bit_shift arith_kinds \<and> k \<in> {P_zero, P_negative}"
  shows "vport b (Port n k)"
  using assms by (auto simp: vport_def valid_port_def has_port_def arith_kinds_def)

lemma safe_update_flag:
  assumes "wf_builder b" and "vopt b op"
    and k: "ks \<subseteq> arith_kinds \<and> k \<in> {P_zero, P_negative, P_overflow, P_carry}
       \<or> ks \<subseteq> insert K_bit_shift arith_kinds \<and> k \<in> {P_zero, P_negative}"
  shows "safe (update_flag reg ks k c op) (\<lambda>_ _. True) b"
proof (cases op)
  case None
  then show ?thesis by (simp add: update_flag_def safe_throw)
next
  case (Some n)
  show ?thesis
    unfolding update_flag_def Some option.case
    by (rule safe_bnd [OF safe_node_at [OF assms(1)]])
       (use flag_port k in \<open>auto intro!: safe_if safe_andthen [OF safe_write_reg] safe_ret safe_throw
          safe_const_flag\<close>)
qed

lemma safe_write_flag:
  assumes "wf_builder b" and "vopt b op"
    and "ks \<subseteq> arith_kinds \<and> k \<in> {P_zero, P_negative, P_overflow, P_carry}
       \<or> ks \<subseteq> insert K_bit_shift arith_kinds \<and> k \<in> {P_zero, P_negative}"
  shows "safe (write_flag reg ks k c op f) (\<lambda>_ _. True) b"
  using safe_update_flag [OF assms] safe_const_flag [OF assms(1)] safe_ret_unit [OF assms(1)]
  by (cases f) (simp_all add: write_flag_def)

lemma safe_write_flags [tr_safe]:
  assumes "wf_builder b" and "vopt b op"
  shows "safe (write_flags op zf cf ovf sf pf af) (\<lambda>_ _. True) b"
proof -
  have w: "safe (write_flag r (insert K_bit_shift arith_kinds) P_zero c op f) (\<lambda>_ _. True) b"
    "safe (write_flag r carry_kinds P_carry c op f) (\<lambda>_ _. True) b"
    "safe (write_flag r carry_kinds P_overflow c op f) (\<lambda>_ _. True) b"
    "safe (write_flag r (insert K_bit_shift arith_kinds) P_negative c op f) (\<lambda>_ _. True) b"
    if "wf_builder b" "vopt b op" for r c f b
    using that by (auto simp: arith_kinds_def carry_kinds_def intro!: safe_write_flag)
  show ?thesis
    unfolding write_flags_def
    by (insert assms) (assumption | rule safe_andthen w | erule vopt_trans)+
qed

lemma safe_flag_is_clear [tr_safe]:
  "wf_builder b \<Longrightarrow> safe (flag_is_clear f) okn b"
  unfolding flag_is_clear_def
  by (assumption | rule safe_shape tr_safe safe_port | erule safe_trans)+

lemma safe_compute_cond [tr_safe]: "wf_builder b \<Longrightarrow> safe (compute_cond ct) okn b"
  unfolding compute_cond_def
  by (cases ct) (simp_all only: cond_type.case,
      (assumption | rule safe_shape tr_safe safe_port | erule safe_trans)+)

end
