(* ===== verification/X86_Internal_Functions.thy ===== *)
theory X86_Internal_Functions
  imports IR_Builder
begin

text \<open>
  The runtime functions x86 code can call
  (\<open>src/input/x86/x86-internal-functions.cpp\<close>): \<open>create\<close> knows ten names and makes a
  function of that name with a fixed signature.  It provides the interface of the
  internal-function resolver.
\<close>

definition mk_function :: "string \<Rightarrow> value_type \<Rightarrow> value_type list \<Rightarrow> internal_function option" where
  "mk_function name r ps = Some \<lparr>if_name = name, if_sig = \<lparr>return_type = r, parameter_types = ps\<rparr>\<rparr>"

definition x86_create :: "string \<Rightarrow> internal_function option" where
  "x86_create name =
     (if name = ''handle_int'' then mk_function ''handle_int'' v [u32]
      else if name = ''handle_syscall'' then mk_function ''handle_syscall'' v []
      else if name = ''handle_poison'' then mk_function ''handle_poison'' v [v]
      else if name = ''hlt'' then mk_function ''hlt'' v []
      else if name = ''sin'' then mk_function ''sin'' f64 [f64]
      else if name = ''cos'' then mk_function ''cos'' f64 [f64]
      else if name = ''tan'' then mk_function ''tan'' f64 [f64]
      else if name = ''atan'' then mk_function ''atan'' f64 [f64]
      else if name = ''pow'' then mk_function ''pow'' f64 [f64, f64]
      else if name = ''log2'' then mk_function ''log2'' f64 [f64]
      else None)"

definition x86_function_names :: "string list" where
  "x86_function_names = [''handle_int'', ''handle_syscall'', ''handle_poison'', ''hlt'', ''sin'',
     ''cos'', ''tan'', ''atan'', ''pow'', ''log2'']"

interpretation x86_ifr: function_resolver x86_create
  by unfold_locales (auto simp: x86_create_def mk_function_def split: if_splits)

lemma x86_create_names: "x86_create n \<noteq> None \<longleftrightarrow> n \<in> set x86_function_names"
  by (auto simp: x86_create_def x86_function_names_def mk_function_def)

end
