(* ===== verification/X86_Control_Flow.thy ===== *)
theory X86_Control_Flow
  imports X86_Translator X86_Internal_Functions
begin

text \<open>
  The translators for conditional and unconditional control flow, the stack, system calls
  and traps, and the control flags: \<open>jcc.cpp\<close>, \<open>setcc.cpp\<close>, \<open>cmov.cpp\<close>, \<open>branch.cpp\<close>,
  \<open>stack.cpp\<close>, \<open>interrupt.cpp\<close>, \<open>control.cpp\<close>, \<open>nop.cpp\<close>, \<open>io.cpp\<close> and \<open>unimplemented.cpp\<close>.
  Each \<open>do_translate\<close> is one definition; XED's instruction classes are their names.
\<close>

section \<open>Conditions\<close>

definition jcc_table :: "(string \<times> cond_type) list" where
  "jcc_table =
     [(''JNBE'', C_nbe), (''JNB'', C_nb), (''JB'', C_b), (''JBE'', C_be), (''JZ'', C_z),
      (''JNLE'', C_nle), (''JNL'', C_nl), (''JL'', C_l), (''JLE'', C_le), (''JNZ'', C_nz),
      (''JNO'', C_no), (''JNP'', C_np), (''JNS'', C_ns), (''JO'', C_o), (''JP'', C_p), (''JS'', C_s)]"

definition setcc_table :: "(string \<times> cond_type) list" where
  "setcc_table =
     [(''SETNBE'', C_nbe), (''SETNB'', C_nb), (''SETB'', C_b), (''SETBE'', C_be), (''SETZ'', C_z),
      (''SETNLE'', C_nle), (''SETNL'', C_nl), (''SETL'', C_l), (''SETLE'', C_le), (''SETNZ'', C_nz),
      (''SETNO'', C_no), (''SETNP'', C_np), (''SETNS'', C_ns), (''SETO'', C_o), (''SETP'', C_p),
      (''SETS'', C_s)]"

definition cmov_table :: "(string \<times> cond_type) list" where
  "cmov_table =
     [(''FCMOVNBE'', C_nbe), (''CMOVNBE'', C_nbe), (''FCMOVNB'', C_nb), (''CMOVNB'', C_nb),
      (''FCMOVB'', C_b), (''CMOVB'', C_b), (''FCMOVBE'', C_be), (''CMOVBE'', C_be),
      (''FCMOVE'', C_z), (''CMOVZ'', C_z), (''CMOVNLE'', C_nle), (''CMOVNL'', C_nl),
      (''CMOVL'', C_l), (''CMOVLE'', C_le), (''FCMOVNE'', C_nz), (''CMOVNZ'', C_nz),
      (''CMOVNO'', C_no), (''FCMOVNU'', C_np), (''CMOVNP'', C_np), (''CMOVNS'', C_ns),
      (''CMOVO'', C_o), (''FCMOVU'', C_p), (''CMOVP'', C_p), (''CMOVS'', C_s)]"

text \<open>\<open>int64_t\<close> displacement plus the unsigned instruction length.\<close>

definition branch_target :: "xed_inst \<Rightarrow> ulong" where
  "branch_target x = branch_disp x + ucast (inst_len x)"

definition jcc_translate :: "xed_inst \<Rightarrow> unit tr" where
  "jcc_translate x =
     (case map_of jcc_table (iclass x) of
        None \<Rightarrow> throw (Runtime_error ''unhandled cond jump instruction'')
      | Some ct \<Rightarrow>
          bnd (compute_cond ct) (\<lambda>cond.
          bnd insert_read_pc (\<lambda>pc.
          bnd (insert_constant_u64 (ucast (inst_len x))) (\<lambda>l.
          bnd (insert_add (val pc) (val l)) (\<lambda>fallthrough.
          bnd insert_read_pc (\<lambda>pc2.
          bnd (insert_constant_u64 (branch_target x)) (\<lambda>bt.
          bnd (insert_add (val pc2) (val bt)) (\<lambda>target.
          bnd (insert_csel (val cond) (val target) (val fallthrough)) (\<lambda>sel.
          andthen (insert_write_pc (val sel) Br_csel 0) (ret ()))))))))))"

definition setcc_translate :: "xed_inst \<Rightarrow> unit tr" where
  "setcc_translate x =
     (case map_of setcc_table (iclass x) of
        None \<Rightarrow> throw (Runtime_error ''unhandled setcc instruction'')
      | Some ct \<Rightarrow>
          bnd (compute_cond ct) (\<lambda>cond.
          bnd (insert_zx u8 (val cond)) (\<lambda>z.
          andthen (write_operand x 0 (val z)) (ret ()))))"

definition fcmov_classes :: "string list" where
  "fcmov_classes = [''FCMOVE'', ''FCMOVNE'', ''FCMOVB'', ''FCMOVBE'', ''FCMOVNB'', ''FCMOVNBE'',
     ''FCMOVU'', ''FCMOVNU'']"

definition cmov_translate :: "xed_inst \<Rightarrow> unit tr" where
  "cmov_translate x =
     (case map_of cmov_table (iclass x) of
        None \<Rightarrow> throw (Runtime_error ''unhandled cond mov instruction'')
      | Some ct \<Rightarrow>
          bnd (compute_cond ct) (\<lambda>cond.
          bnd (read_operand x 1) (\<lambda>src.
          bnd (read_operand x 0) (\<lambda>dst.
          bnd (insert_csel (val cond) (val src) (val dst)) (\<lambda>res.
          andthen (write_operand x 0 (val res))
          (if iclass x \<in> set fcmov_classes then
             bnd (lift_res (fpu_get_instruction_index x 1)) (\<lambda>i.
             bnd (fpu_tag_get i) (\<lambda>t1.
             bnd (fpu_tag_get 0) (\<lambda>t0.
             bnd (insert_csel (val cond) (val t1) (val t0)) (\<lambda>tag.
             andthen (fpu_tag_set 0 (val tag)) (ret ())))))
           else ret ()))))))"

section \<open>The stack\<close>

definition push_translate :: "xed_inst \<Rightarrow> unit tr" where
  "push_translate x =
     bnd (read_reg u64 off_RSP) (\<lambda>rsp.
     bnd (insert_constant_u64 8) (\<lambda>c8.
     bnd (insert_sub (val rsp) (val c8)) (\<lambda>new_rsp.
     bnd (read_operand x 0) (\<lambda>op.
     andthen (insert_write_mem (val new_rsp) (val op))
     (andthen (write_reg off_RSP (val new_rsp)) (ret ()))))))"

definition pop_translate :: "xed_inst \<Rightarrow> unit tr" where
  "pop_translate x =
     bnd (read_reg u64 off_RSP) (\<lambda>rsp.
     bnd (insert_read_mem u64 (val rsp)) (\<lambda>m.
     andthen (write_operand x 0 (val m))
     (bnd (insert_constant_u64 8) (\<lambda>c8.
     bnd (insert_add (val rsp) (val c8)) (\<lambda>new_rsp.
     andthen (write_reg off_RSP (val new_rsp)) (ret ()))))))"

definition leave_translate :: "unit tr" where
  "leave_translate =
     bnd (read_reg u64 off_RBP) (\<lambda>rbp.
     andthen (write_reg off_RSP (val rbp))
     (bnd (read_reg u64 off_RSP) (\<lambda>rsp.
     bnd (insert_read_mem u64 (val rsp)) (\<lambda>m.
     andthen (write_reg off_RBP (val m))
     (bnd (insert_constant_u64 8) (\<lambda>c8.
     bnd (insert_add (val rsp) (val c8)) (\<lambda>new_rsp.
     andthen (write_reg off_RSP (val new_rsp)) (ret ()))))))))"

definition stack_translate :: "xed_inst \<Rightarrow> unit tr" where
  "stack_translate x =
     (if iclass x = ''PUSH'' then push_translate x
      else if iclass x = ''POP'' then pop_translate x
      else if iclass x = ''LEAVE'' then leave_translate
      else throw (Runtime_error ''unsupported stack operation''))"

section \<open>Branches\<close>

definition constant_value :: "node \<Rightarrow> ulong option" where
  "constant_value nd = (case n_data nd of Constant_i c \<Rightarrow> Some c | Constant_f c \<Rightarrow> Some c | _ \<Rightarrow> None)"

definition call_translate :: "xed_inst \<Rightarrow> unit tr" where
  "call_translate x =
     bnd (read_reg u64 off_RSP) (\<lambda>rsp.
     bnd (insert_constant_u64 8) (\<lambda>c8.
     bnd (insert_sub (val rsp) (val c8)) (\<lambda>new_rsp.
     andthen (write_reg off_RSP (val new_rsp))
     (bnd insert_read_pc (\<lambda>pc.
     bnd (insert_constant_u64 (ucast (inst_len x))) (\<lambda>l.
     bnd (insert_add (val pc) (val l)) (\<lambda>next.
     andthen (insert_write_mem (val new_rsp) (val next))
     (bnd (read_operand x 0) (\<lambda>target.
     bnd (node_at target) (\<lambda>nd.
     case constant_value nd of
       Some const_val \<Rightarrow>
         bnd (insert_constant_u64 (ucast (inst_len x))) (\<lambda>l2.
         bnd (insert_add (val target) (val l2)) (\<lambda>call_target.
         bnd insert_read_pc (\<lambda>pc2.
         bnd (insert_add (val pc2) (val call_target)) (\<lambda>t.
         andthen (insert_write_pc (val t) Br_call (const_val + ucast (inst_len x))) (ret ())))))
     | None \<Rightarrow> andthen (insert_write_pc (val target) Br_call 0) (ret ())))))))))))"

definition ret_translate :: "unit tr" where
  "ret_translate =
     bnd (read_reg u64 off_RSP) (\<lambda>rsp.
     bnd (insert_read_mem u64 (val rsp)) (\<lambda>retaddr.
     bnd (insert_constant_u64 8) (\<lambda>c8.
     bnd (insert_add (val rsp) (val c8)) (\<lambda>new_rsp.
     andthen (write_reg off_RSP (val new_rsp))
     (andthen (insert_write_pc (val retaddr) Br_ret 0) (ret ()))))))"

definition jmp_translate :: "xed_inst \<Rightarrow> unit tr" where
  "jmp_translate x =
     bnd (read_operand x 0) (\<lambda>target.
     bnd (node_at target) (\<lambda>nd.
     bnd (case constant_value nd of
            Some _ \<Rightarrow>
              bnd (insert_constant_u64 (ucast (inst_len x))) (\<lambda>l.
              bnd (insert_add (val target) (val l)) (\<lambda>bt.
              bnd insert_read_pc (\<lambda>pc. insert_add (val pc) (val bt))))
          | None \<Rightarrow> ret target) (\<lambda>t.
     andthen (insert_write_pc (val t) Br_br 0) (ret ()))))"

definition branch_translate :: "xed_inst \<Rightarrow> unit tr" where
  "branch_translate x =
     (if iclass x \<in> {''CALL_FAR'', ''CALL_NEAR''} then call_translate x
      else if iclass x \<in> {''RET_FAR'', ''RET_NEAR''} then ret_translate
      else if iclass x = ''JMP'' then jmp_translate x
      else throw (Runtime_error ''unsupported branch operation''))"

section \<open>Traps, system calls, control flags\<close>

definition call_internal :: "string \<Rightarrow> port list \<Rightarrow> unit tr" where
  "call_internal name args =
     bnd (builder_resolve x86_create name) (\<lambda>f. andthen (insert_internal_call f args) (ret ()))"

definition trap :: "32 word \<Rightarrow> unit tr" where
  "trap n = bnd (insert_constant_u32 n) (\<lambda>c. call_internal ''handle_int'' [val c])"

definition interrupt_translate :: "xed_inst \<Rightarrow> unit tr" where
  "interrupt_translate x =
     (if iclass x = ''INT'' then trap (ucast (imm_u x))
      else if iclass x = ''INT3'' then trap 3
      else if iclass x = ''SYSCALL'' then
        bnd insert_read_pc (\<lambda>pc.
        bnd (insert_constant_u64 2) (\<lambda>c.
        bnd (insert_add (val pc) (val c)) (\<lambda>next.
        andthen (write_reg off_PC (val next)) (call_internal ''handle_syscall'' []))))
      else if iclass x \<in> {''UD0'', ''UD1'', ''UD2''} then trap 6
      else if iclass x = ''HLT'' then call_internal ''hlt'' []
      else throw (Runtime_error ''unsupported interrupt operation''))"

definition set_flag_reg :: "nat \<Rightarrow> 8 word \<Rightarrow> unit tr" where
  "set_flag_reg reg c = bnd (insert_constant_u1 c) (\<lambda>n. andthen (write_reg reg (val n)) (ret ()))"

definition control_translate :: "xed_inst \<Rightarrow> unit tr" where
  "control_translate x =
     (if iclass x = ''XGETBV'' then
        bnd (read_reg u64 off_XCR0) (\<lambda>xcr0.
        bnd (insert_bit_extract (val xcr0) 0 32) (\<lambda>eax.
        bnd (insert_bit_extract (val xcr0) 32 32) (\<lambda>edx.
        andthen (write_operand x 1 (val edx))
        (andthen (write_operand x 2 (val eax)) (ret ())))))
      else if iclass x = ''STD'' then set_flag_reg off_DF 1
      else if iclass x = ''CLD'' then set_flag_reg off_DF 0
      else if iclass x = ''STC'' then set_flag_reg off_CF 1
      else if iclass x = ''CLC'' then set_flag_reg off_CF 0
      else throw (Runtime_error ''unhandled control register instruction''))"

definition nop_translate :: "unit tr" where
  "nop_translate = ret ()"

definition io_translate :: "unit tr" where
  "io_translate = throw (Runtime_error ''unsupported io operation'')"

definition unimplemented_translate :: "xed_inst \<Rightarrow> unit tr" where
  "unimplemented_translate x =
     bnd (insert_label (iclass x)) (\<lambda>l. call_internal ''handle_poison'' [val l])"

end
