(* ===== verification/X86_Binop.thy ===== *)
theory X86_Binop
  imports X86_Translator
begin

text \<open>
  The two-operand instructions (\<open>input/x86/translators/binop.cpp\<close>) and the one-operand ones
  (\<open>unop.cpp\<close>): integer and bitwise arithmetic with flags, packed arithmetic and
  comparison, bit tests and scans, scalar floating-point comparison.
\<close>

section \<open>Packed operations\<close>

definition vec_binop ::
  "(port \<Rightarrow> port \<Rightarrow> node_id tr) \<Rightarrow> value_type \<Rightarrow> nat \<Rightarrow> node_id \<Rightarrow> node_id \<Rightarrow> node_id tr" where
  "vec_binop ins ty n op0 op1 =
     bnd (insert_bitcast (vector_type ty n) (val op0)) (\<lambda>lhs.
     bnd (insert_bitcast (vector_type ty n) (val op1)) (\<lambda>rhs.
     ins (val lhs) (val rhs)))"

definition vec_andn :: "value_type \<Rightarrow> nat \<Rightarrow> node_id \<Rightarrow> node_id \<Rightarrow> node_id tr" where
  "vec_andn ty n op0 op1 =
     bnd (insert_bitcast (vector_type ty n) (val op0)) (\<lambda>a.
     bnd (insert_not (val a)) (\<lambda>na.
     bnd (insert_bitcast (vector_type ty n) (val op1)) (\<lambda>b.
     insert_and (val na) (val b))))"

text \<open>One step of the element loops: compare, select, insert.\<close>

definition vec_select_step ::
  "(port \<Rightarrow> port \<Rightarrow> node_id tr) \<Rightarrow> node_id \<Rightarrow> node_id \<Rightarrow> node_id \<Rightarrow> nat \<Rightarrow> node_id \<Rightarrow> node_id tr" where
  "vec_select_step cmp rhs cst_1 cst_0 i lhs =
     bnd (insert_vector_extract (val lhs) i) (\<lambda>l.
     bnd (insert_vector_extract (val rhs) i) (\<lambda>r.
     bnd (cmp (val l) (val r)) (\<lambda>c.
     bnd (insert_csel (val c) (val cst_1) (val cst_0)) (\<lambda>res.
     insert_vector_insert (val lhs) i (val res)))))"

definition pcmpeq_constants :: "string \<Rightarrow> (value_type \<times> node_id \<times> node_id) tr" where
  "pcmpeq_constants ic =
     (if ic = ''PCMPEQB'' then
        bnd (insert_constant_u8 0) (\<lambda>c0. bnd (insert_constant_u8 0xFF) (\<lambda>c1. ret (u8, c0, c1)))
      else if ic = ''PCMPEQW'' then
        bnd (insert_constant_u16 0) (\<lambda>c0. bnd (insert_constant_u16 0xFFFF) (\<lambda>c1. ret (u16, c0, c1)))
      else
        bnd (insert_constant_u32 0) (\<lambda>c0.
        bnd (insert_constant_u32 0xFFFFFFFF) (\<lambda>c1. ret (u32, c0, c1))))"

definition pcmpeq :: "xed_inst \<Rightarrow> node_id tr" where
  "pcmpeq x =
     bnd (read_operand x 0) (\<lambda>lhs0.
     bnd (read_operand x 1) (\<lambda>rhs0.
     bnd (type_of_port (val lhs0)) (\<lambda>lt.
     bnd (pcmpeq_constants (iclass x)) (\<lambda>k.
     (let ty = fst k; cst_0 = fst (snd k); cst_1 = snd (snd k); n = width lt div width ty in
     bnd (insert_bitcast (vector_type ty n) (val lhs0)) (\<lambda>lhs.
     bnd (insert_bitcast (vector_type ty n) (val rhs0)) (\<lambda>rhs.
     fold_prog [0..<n] (vec_select_step insert_cmpeq rhs cst_1 cst_0) lhs)))))))"

definition pcmpgt_ones :: "string \<Rightarrow> node_id tr" where
  "pcmpgt_ones ic =
     (if ic = ''PCMPGTB'' then insert_constant_u8 0xFF
      else if ic = ''PCMPGTW'' then insert_constant_u16 0xFFFF
      else insert_constant_u32 0xFFFFFFFF)"

definition pcmpgt :: "xed_inst \<Rightarrow> node_id tr" where
  "pcmpgt x =
     bnd (read_operand x 0) (\<lambda>lhs0.
     bnd (read_operand x 1) (\<lambda>rhs0.
     bnd (type_of_port (val lhs0)) (\<lambda>lt.
     (let ic = iclass x;
          base = (if ic = ''PCMPGTB'' then 8 else if ic = ''PCMPGTW'' then 4 else 2);
          n = (if width lt = 128 then base * 2 else base);
          ty = (if ic = ''PCMPGTB'' then u8 else if ic = ''PCMPGTW'' then u16 else u32) in
     bnd (insert_bitcast (vector_type ty n) (val lhs0)) (\<lambda>lhs.
     bnd (insert_bitcast (vector_type ty n) (val rhs0)) (\<lambda>rhs.
     bnd (type_of_port (val lhs)) (\<lambda>vt.
     bnd (insert_constant_i (mk_value_type unsigned_integer (width vt div n) 1) 0) (\<lambda>cst_0.
     bnd (pcmpgt_ones ic) (\<lambda>cst_1.
     fold_prog [0..<n] (vec_select_step insert_cmpgt rhs cst_1 cst_0) lhs)))))))))"

section \<open>Exchange and add, bit tests, bit scans\<close>

definition xadd_translate :: "xed_inst \<Rightarrow> unit tr" where
  "xadd_translate x =
     bnd (read_operand x 0) (\<lambda>dst.
     bnd (read_operand x 1) (\<lambda>src.
     bnd (insert_add (val src) (val dst)) (\<lambda>sum.
     andthen (write_flags (Some sum) Update Update Update Update Update Update)
     (andthen (write_operand x 1 (val dst))
     (andthen (write_operand x 0 (val sum)) (ret ()))))))"

definition bit_test_translate :: "xed_inst \<Rightarrow> unit tr" where
  "bit_test_translate x =
     bnd (read_operand x 0) (\<lambda>src.
     bnd (read_operand x 1) (\<lambda>pos0.
     bnd (type_of_port (val src)) (\<lambda>ty.
     bnd (insert_zx ty (val pos0)) (\<lambda>pos1.
     bnd (insert_bitcast ty (val pos1)) (\<lambda>pos.
     bnd (type_of_port (val pos)) (\<lambda>pty.
     bnd (insert_constant_i pty 1) (\<lambda>one.
     bnd (insert_lsl (val one) (val pos)) (\<lambda>shift.
     bnd (insert_and (val src) (val shift)) (\<lambda>and_node.
     bnd (insert_lsr (val and_node) (val pos)) (\<lambda>r.
     bnd (insert_trunc u1 (val r)) (\<lambda>rslt.
     andthen (write_reg off_CF (val rslt))
     (if iclass x = ''BTS'' then
        bnd (insert_or (val src) (val shift)) (\<lambda>or_node.
        andthen (write_operand x 0 (val or_node)) (ret ()))
      else if iclass x = ''BTR'' then
        bnd (insert_not (val shift)) (\<lambda>nshift.
        bnd (insert_and (val src) (val nshift)) (\<lambda>and_not.
        andthen (write_operand x 0 (val and_not)) (ret ())))
      else ret ()))))))))))))"

text \<open>
  The loops of BSR and BSF carry the index and the mask.  BSF computes its first mask as
  \<open>1 << width - 1\<close> in \<open>int\<close>: undefined for 64-bit operands, and sign-extended into the
  constant for 32-bit ones.
\<close>

definition scan_step ::
  "value_type \<Rightarrow> node_id \<Rightarrow> (port \<Rightarrow> port \<Rightarrow> node_id tr) \<Rightarrow> nat \<Rightarrow> node_id \<times> node_id
    \<Rightarrow> (node_id \<times> node_id) tr" where
  "scan_step ty src shift i im =
     bnd (insert_and (val src) (val (snd im))) (\<lambda>tmp.
     bnd (insert_cmpeq (val tmp) (val (snd im))) (\<lambda>is_set.
     bnd (insert_constant_i ty (of_nat i)) (\<lambda>ci.
     bnd (insert_csel (val is_set) (val ci) (val (fst im))) (\<lambda>idx.
     bnd (insert_constant_i ty 1) (\<lambda>one.
     bnd (shift (val (snd im)) (val one)) (\<lambda>mask. ret (idx, mask)))))))"

definition scan_finish :: "xed_inst \<Rightarrow> value_type \<Rightarrow> node_id \<Rightarrow> node_id \<Rightarrow> unit tr" where
  "scan_finish x ty src idx =
     bnd (insert_constant_i ty 0) (\<lambda>z.
     bnd (insert_cmpeq (val src) (val z)) (\<lambda>is_z.
     andthen (write_reg off_ZF (val is_z))
     (andthen (write_operand x 0 (val idx)) (ret ()))))"

definition bsr_translate :: "xed_inst \<Rightarrow> unit tr" where
  "bsr_translate x =
     bnd (read_operand x 1) (\<lambda>src.
     bnd (type_of_port (val src)) (\<lambda>ty.
     bnd (insert_constant_i ty 1) (\<lambda>mask.
     bnd (insert_constant_i ty 0) (\<lambda>idx.
     bnd (fold_prog [0..<width ty] (scan_step ty src insert_lsl) (idx, mask)) (\<lambda>im.
     scan_finish x ty src (fst im))))))"

definition bsf_mask :: "nat \<Rightarrow> ulong res" where
  "bsf_mask w =
     (if w = 0 \<or> w > 32 then Inl (Undefined_behaviour ''shift of int by the width or more'')
      else Inr (scast (push_bit (w - 1) 1 :: 32 word)))"

definition bsf_translate :: "xed_inst \<Rightarrow> unit tr" where
  "bsf_translate x =
     bnd (read_operand x 1) (\<lambda>src.
     bnd (type_of_port (val src)) (\<lambda>ty.
     bnd (lift_res (bsf_mask (width ty))) (\<lambda>m.
     bnd (insert_constant_i ty m) (\<lambda>mask.
     bnd (insert_constant_i ty (of_nat (width ty - 1))) (\<lambda>idx.
     bnd (fold_prog (rev [0..<width ty]) (scan_step ty src insert_lsr) (idx, mask)) (\<lambda>im.
     scan_finish x ty src (fst im)))))))"

section \<open>Scalar floating-point comparison\<close>

definition comis_flag :: "nat \<Rightarrow> string \<Rightarrow> node_id \<Rightarrow> unit tr" where
  "comis_flag off name cond =
     bnd (insert_constant_i u1 1) (\<lambda>one.
     bnd (insert_constant_i u1 0) (\<lambda>zero.
     bnd (insert_csel (val cond) (val one) (val zero)) (\<lambda>f.
     bnd (lift_res (offset_to_idx off)) (\<lambda>idx.
     andthen (insert_write_reg off idx name (val f)) (ret ())))))"

definition comis_translate :: "xed_inst \<Rightarrow> unit tr" where
  "comis_translate x =
     (let single = iclass x \<in> {''UCOMISS'', ''COMISS''};
          ety = (if single then f32 else f64); n = (if single then 4 else 2) in
     bnd (read_operand x 0) (\<lambda>a0.
     bnd (read_operand x 1) (\<lambda>b0.
     bnd (insert_bitcast (vector_type ety n) (val a0)) (\<lambda>av.
     bnd (insert_vector_extract (val av) 0) (\<lambda>a.
     bnd (type_of_port (val b0)) (\<lambda>bt.
     bnd (if width bt = 128
          then bnd (insert_bitcast (vector_type ety n) (val b0)) (\<lambda>bv. insert_vector_extract (val bv) 0)
          else insert_bitcast ety (val b0)) (\<lambda>b.
     bnd (insert_binop B_cmpu (val a) (val b)) (\<lambda>is_nan.
     bnd (insert_binop B_cmpueq (val a) (val b)) (\<lambda>is_nan_or_eq.
     bnd (insert_binop B_cmpult (val a) (val b)) (\<lambda>is_nan_or_lt.
     andthen (comis_flag off_ZF ''ZF'' is_nan_or_eq)
     (andthen (comis_flag off_PF ''PF'' is_nan)
     (andthen (comis_flag off_CF ''CF'' is_nan_or_lt)
     (write_flags None Ignore Ignore Set0 Set0 Ignore Set0)))))))))))))"

definition cmps_op :: "ulong \<Rightarrow> binary_arith_op res" where
  "cmps_op c =
     (if c = 0 then Inr B_cmpoeq else if c = 1 then Inr B_cmpolt else if c = 2 then Inr B_cmpole
      else if c = 3 then Inr B_cmpu else if c = 4 then Inr B_cmpune else if c = 5 then Inr B_cmpunlt
      else if c = 6 then Inr B_cmpunle else if c = 7 then Inr B_cmpo
      else Inl (Undefined_behaviour ''uninitialised condition''))"

definition constant_of :: "node \<Rightarrow> ulong res" where
  "constant_of nd =
     (case n_data nd of
        Constant_i c \<Rightarrow> Inr c
      | Constant_f c \<Rightarrow> Inr c
      | _ \<Rightarrow> Inl (Undefined_behaviour ''downcast to constant_node''))"

text \<open>The doubles are \<open>(float)0xFFFFFFFF\<close> and \<open>(float)0xFFFFFFFFFFFFFFFF\<close>, 2^32 and 2^64.\<close>

definition cmps_translate :: "xed_inst \<Rightarrow> unit tr" where
  "cmps_translate x =
     (let single = iclass x = ''CMPSS'';
          vt = (if single then vector_type f32 4 else vector_type f64 2) in
     bnd (read_operand x 0) (\<lambda>dest0.
     bnd (read_operand x 0) (\<lambda>a0.
     bnd (read_operand x 1) (\<lambda>b0.
     bnd (read_operand x 2) (\<lambda>op2.
     bnd (if single then insert_constant_f32 0x41F0000000000000
          else insert_constant_f64 0x43F0000000000000) (\<lambda>true_val.
     bnd (if single then insert_constant_f32 0 else insert_constant_f64 0) (\<lambda>false_val.
     bnd (insert_constant_u8 3) (\<lambda>_.
     bnd (insert_bitcast vt (val dest0)) (\<lambda>dest.
     bnd (insert_bitcast vt (val a0)) (\<lambda>av.
     bnd (insert_vector_extract (val av) 0) (\<lambda>a.
     bnd (insert_bitcast vt (val b0)) (\<lambda>bv.
     bnd (insert_vector_extract (val bv) 0) (\<lambda>b.
     bnd (node_at op2) (\<lambda>nd.
     bnd (lift_res (constant_of nd)) (\<lambda>c.
     bnd (lift_res (cmps_op c)) (\<lambda>op.
     bnd (insert_binop op (val a) (val b)) (\<lambda>cond.
     bnd (insert_csel (val cond) (val true_val) (val false_val)) (\<lambda>res.
     bnd (insert_vector_insert (val dest) 0 (val res)) (\<lambda>out.
     andthen (write_operand x 0 (val out)) (ret ()))))))))))))))))))))"

section \<open>\<open>binop_translator::do_translate\<close>\<close>

text \<open>
  The instructions that leave their result to the common tail, and those that write their
  own results in the first switch (\<open>None\<close>).
\<close>

definition carry_in :: "node_id \<Rightarrow> node_id tr" where
  "carry_in op0 =
     bnd (type_of_port (val op0)) (\<lambda>ty. bnd (read_reg u1 off_CF) (\<lambda>cf. auto_cast ty cf))"

definition packed_table ::
  "(string \<times> ((port \<Rightarrow> port \<Rightarrow> node_id tr) \<times> value_type \<times> nat)) list" where
  "packed_table =
     [(''ANDPS'', insert_and, f32, 4), (''ANDPD'', insert_and, f64, 2),
      (''ORPS'', insert_or, f32, 4), (''ORPD'', insert_or, f64, 2),
      (''ADDPS'', insert_add, f32, 4),
      (''PADDQ'', insert_add, u64, 2), (''PADDD'', insert_add, u32, 4),
      (''PADDW'', insert_add, u16, 8), (''PADDB'', insert_add, u8, 16),
      (''PSUBQ'', insert_sub, u64, 2), (''PSUBD'', insert_sub, u32, 4),
      (''PSUBW'', insert_sub, u16, 8), (''PSUBB'', insert_sub, u8, 16)]"

definition binop_result :: "xed_inst \<Rightarrow> node_id \<Rightarrow> node_id \<Rightarrow> node_id tr" where
  "binop_result x op0 op1 =
     (let ic = iclass x in
      if ic \<in> {''XOR'', ''PXOR''} then insert_xor (val op0) (val op1)
      else if ic \<in> {''AND'', ''PAND'', ''TEST''} then insert_and (val op0) (val op1)
      else if ic \<in> {''OR'', ''POR''} then insert_or (val op0) (val op1)
      else if ic = ''ADD'' then insert_add (val op0) (val op1)
      else if ic \<in> {''SUB'', ''CMP''} then insert_sub (val op0) (val op1)
      else if ic = ''ADC'' then bnd (carry_in op0) (\<lambda>c. insert_adc (val op0) (val op1) (val c))
      else if ic = ''SBB'' then bnd (carry_in op0) (\<lambda>c. insert_sbb (val op0) (val op1) (val c))
      else if ic = ''ANDNPS'' then vec_andn f32 4 op0 op1
      else if ic = ''ANDNPD'' then vec_andn f64 2 op0 op1
      else if ic \<in> {''PCMPEQB'', ''PCMPEQW'', ''PCMPEQD''} then pcmpeq x
      else if ic \<in> {''PCMPGTB'', ''PCMPGTW'', ''PCMPGTD''} then pcmpgt x
      else case map_of packed_table ic of
             Some (ins, ty, n) \<Rightarrow> vec_binop ins ty n op0 op1
           | None \<Rightarrow> throw (Runtime_error ''unsupported binop''))"

definition binop_own :: "xed_inst \<Rightarrow> unit tr option" where
  "binop_own x =
     (let ic = iclass x in
      if ic = ''XADD'' then Some (xadd_translate x)
      else if ic \<in> {''BT'', ''BTS'', ''BTR''} then Some (bit_test_translate x)
      else if ic = ''BSR'' then Some (bsr_translate x)
      else if ic = ''BSF'' then Some (bsf_translate x)
      else if ic \<in> {''COMISS'', ''COMISD'', ''UCOMISS'', ''UCOMISD''} then Some (comis_translate x)
      else if ic \<in> {''CMPSD_XMM'', ''CMPSS''} then Some (cmps_translate x)
      else None)"

definition binop_flags :: "xed_inst \<Rightarrow> node_id \<Rightarrow> unit tr" where
  "binop_flags x rslt =
     (if iclass x \<in> {''XOR'', ''AND'', ''TEST'', ''OR''}
      then write_flags (Some rslt) Update Set0 Set0 Update Update Ignore
      else if iclass x \<in> {''ADD'', ''ADC'', ''SUB'', ''SBB'', ''CMP''}
      then write_flags (Some rslt) Update Update Update Update Update Update
      else ret ())"

definition binop_translate :: "xed_inst \<Rightarrow> unit tr" where
  "binop_translate x =
     bnd (read_operand x 0) (\<lambda>op0.
     bnd (type_of_port (val op0)) (\<lambda>ty.
     bnd (read_operand x 1) (\<lambda>op1r.
     bnd (auto_cast ty op1r) (\<lambda>op1.
     case binop_own x of
       Some m \<Rightarrow> m
     | None \<Rightarrow>
         bnd (binop_result x op0 op1) (\<lambda>rslt.
         andthen (if iclass x \<in> {''CMP'', ''TEST''} then ret ()
                  else andthen (write_operand x 0 (val rslt)) (ret ()))
         (binop_flags x rslt))))))"

section \<open>\<open>unop_translator::do_translate\<close>\<close>

definition neg_result :: "node_id \<Rightarrow> node_id tr" where
  "neg_result op0 =
     bnd (type_of_port (val op0)) (\<lambda>ty.
     bnd (insert_constant_i ty 0) (\<lambda>zero.
     bnd (insert_cmpne (val op0) (val zero)) (\<lambda>cmpz0.
     bnd (insert_trunc u1 (val cmpz0)) (\<lambda>cmpz.
     bnd (insert_sub (val zero) (val op0)) (\<lambda>rslt.
     andthen (write_reg off_CF (val cmpz)) (ret rslt))))))"

definition bswap_result :: "xed_inst \<Rightarrow> node_id tr" where
  "bswap_result x =
     bnd (read_operand x 0) (\<lambda>src0.
     bnd (type_of_port (val src0)) (\<lambda>ty.
     (let nr_bytes = (if width ty = 32 then 4 else 8) in
     bnd (insert_bitcast (vector_type u8 nr_bytes) (val src0)) (\<lambda>src.
     bnd (fold_prog [0..<nr_bytes] (\<lambda>i rslt.
            bnd (insert_vector_extract (val src) (nr_bytes - i - 1)) (\<lambda>e.
            insert_vector_insert (val rslt) i (val e))) src) (\<lambda>rslt.
     insert_bitcast ty (val rslt))))))"

definition pmovmskb_result :: "xed_inst \<Rightarrow> node_id tr" where
  "pmovmskb_result x =
     bnd (read_operand x 1) (\<lambda>src.
     bnd (type_of_port (val src)) (\<lambda>ty.
     (let nr_bytes = (if width ty = 64 then 8 else 16 :: nat) in
     bnd (if nr_bytes = 8 then insert_constant_i u8 0 else insert_constant_i u16 0) (\<lambda>z.
     bnd (fold_prog [0..<nr_bytes] (\<lambda>i rslt.
            bnd (insert_bit_extract (val src) (of_nat ((i + 1) * 8 - 1)) 1) (\<lambda>top_bit.
            insert_bit_insert (val rslt) (val top_bit) (of_nat i) 1)) z) (\<lambda>rslt.
     bnd (lift_res (get_operand_width x 0)) (\<lambda>w.
     insert_zx (mk_value_type unsigned_integer w 1) (val rslt)))))))"

definition sqrtsd_result :: "xed_inst \<Rightarrow> node_id tr" where
  "sqrtsd_result x =
     bnd (read_operand x 1) (\<lambda>src.
     bnd (type_of_port (val src)) (\<lambda>ty.
     if width ty = 64 then bnd (insert_bitcast f64 (val src)) (\<lambda>f. insert_sqrt (val f))
     else
       bnd (insert_bitcast (vector_type f64 2) (val src)) (\<lambda>vv.
       bnd (insert_vector_extract (val vv) 0) (\<lambda>e. insert_sqrt (val e)))))"

definition unop_result :: "xed_inst \<Rightarrow> node_id \<Rightarrow> node_id tr" where
  "unop_result x op0 =
     (let ic = iclass x in
      if ic = ''INC'' then
        bnd (type_of_port (val op0)) (\<lambda>ty.
        bnd (insert_constant_i ty 1) (\<lambda>one. insert_add (val op0) (val one)))
      else if ic = ''DEC'' then
        bnd (type_of_port (val op0)) (\<lambda>ty.
        bnd (insert_constant_i ty 1) (\<lambda>one. insert_sub (val op0) (val one)))
      else if ic = ''NOT'' then insert_not (val op0)
      else if ic = ''NEG'' then neg_result op0
      else if ic = ''BSWAP'' then bswap_result x
      else if ic = ''PMOVMSKB'' then pmovmskb_result x
      else if ic = ''SQRTSD'' then sqrtsd_result x
      else throw (Runtime_error ''unsupported unop''))"

definition unop_translate :: "xed_inst \<Rightarrow> unit tr" where
  "unop_translate x =
     bnd (read_operand x 0) (\<lambda>op0.
     bnd (unop_result x op0) (\<lambda>rslt.
     andthen (write_operand x 0 (val rslt))
     (if iclass x \<in> {''INC'', ''DEC'', ''NEG''}
      then write_flags (Some rslt) Update Ignore Update Update Update Update
      else ret ())))"

end
