(* ===== verification/X86_Shifts.thy ===== *)
theory X86_Shifts
  imports X86_Translator X86_Binop
begin

text \<open>
  Shifts and rotates (\<open>input/x86/translators/shifts.cpp\<close>) and the repeated string
  instructions (\<open>rep.cpp\<close>).  Both use jumps inside the packet.  Where the C++ code casts
  the shift amount to \<open>constant_node\<close>, the model asks whether it is one
  (\<open>constant_of\<close>); the value and length arguments of bit extracts and inserts are
  \<open>unsigned long\<close> sums converted to \<open>int\<close>.
\<close>

section \<open>SAR, SHR, SHL\<close>

definition masked_amount :: "node_id \<Rightarrow> node_id \<Rightarrow> node_id tr" where
  "masked_amount src amt =
     bnd (type_of_port (val src)) (\<lambda>st.
     bnd (type_of_port (val amt)) (\<lambda>at.
     bnd (insert_constant_i at (if width st = 64 then 0x3F else 0x1F)) (\<lambda>m.
     insert_and (val amt) (val m))))"

definition shift_by :: "string \<Rightarrow> port \<Rightarrow> port \<Rightarrow> node_id tr" where
  "shift_by ic s a =
     (if ic \<in> {''SAR''} then insert_asr s a
      else if ic \<in> {''SHR'', ''SHRD''} then insert_lsr s a
      else insert_lsl s a)"

text \<open>OF after a shift by one.\<close>

definition shift_of :: "string \<Rightarrow> node_id \<Rightarrow> node_id \<Rightarrow> node_id \<Rightarrow> unit tr" where
  "shift_of ic src shift last_bit =
     bnd (type_of_port (val shift)) (\<lambda>ht.
     bnd (type_of_port (val src)) (\<lambda>st.
     if ic = ''SHL'' then
       bnd (insert_bit_extract (val shift) (of_nat (width ht) - 1) 1) (\<lambda>msb.
       bnd (insert_xor (val last_bit) (val msb)) (\<lambda>f.
       andthen (write_reg off_OF (val f)) (ret ())))
     else if ic = ''SAR'' then
       bnd (insert_constant_u1 0) (\<lambda>z. andthen (write_reg off_OF (val z)) (ret ()))
     else
       bnd (insert_bit_extract (val src) (of_nat (width st) - 1) 1) (\<lambda>msb.
       andthen (write_reg off_OF (val msb)) (ret ()))))"

definition shift_immediate :: "xed_inst \<Rightarrow> node_id \<Rightarrow> node_id \<Rightarrow> unit tr" where
  "shift_immediate x src amt =
     bnd (node_at amt) (\<lambda>nd.
     bnd (lift_res (constant_of nd)) (\<lambda>rot_val.
     if rot_val \<noteq> 0 then
       bnd (shift_by (iclass x) (val src) (val amt)) (\<lambda>shift.
       andthen (write_operand x 0 (val shift))
       (bnd (type_of_port (val src)) (\<lambda>st.
       bnd (insert_bit_extract (val src)
              (if iclass x = ''SHL'' then ucast (of_nat (width st) - rot_val) else ucast (rot_val - 1)) 1)
         (\<lambda>last_bit.
       andthen (write_reg off_CF (val last_bit))
       (andthen (if rot_val = 1 then shift_of (iclass x) src shift last_bit else ret ())
       (write_flags (Some shift) Update Ignore Ignore Update Update Ignore))))))
     else ret ()))"

definition end_labels :: "node_id \<Rightarrow> node_id \<Rightarrow> unit tr" where
  "end_labels zero_br one_br =
     bnd (insert_label ''end'') (\<lambda>l1.
     bnd (insert_label ''end'') (\<lambda>l2.
     andthen (builder_add_br_target zero_br l1) (builder_add_br_target one_br l2)))"

text \<open>The bit shifted out last, from the operand shifted by one place less.\<close>

definition last_shifted_bit :: "bool \<Rightarrow> node_id \<Rightarrow> node_id \<Rightarrow> node_id tr" where
  "last_shifted_bit left src amt =
     bnd (type_of_port (val amt)) (\<lambda>at.
     bnd (insert_constant_i at 1) (\<lambda>one.
     bnd (insert_sub (val amt) (val one)) (\<lambda>amt_min_1.
     bnd (type_of_port (val src)) (\<lambda>st.
     if left then
       bnd (insert_lsl (val src) (val amt_min_1)) (\<lambda>t.
       insert_bit_extract (val t) (of_nat (width st) - 1) 1)
     else
       bnd (insert_lsr (val src) (val amt_min_1)) (\<lambda>t. insert_bit_extract (val t) 0 1)))))"

definition cond_br_if :: "(port \<Rightarrow> port \<Rightarrow> node_id tr) \<Rightarrow> node_id \<Rightarrow> ulong \<Rightarrow> node_id tr" where
  "cond_br_if cmp amt c =
     bnd (type_of_port (val amt)) (\<lambda>at.
     bnd (insert_constant_i at c) (\<lambda>k.
     bnd (cmp (val amt) (val k)) (\<lambda>t. insert_cond_br (val t) None)))"

definition shift_register :: "xed_inst \<Rightarrow> node_id \<Rightarrow> node_id \<Rightarrow> unit tr" where
  "shift_register x src amt =
     bnd (cond_br_if insert_cmpeq amt 0) (\<lambda>zero_br.
     bnd (shift_by (iclass x) (val src) (val amt)) (\<lambda>shift.
     andthen (write_operand x 0 (val shift))
     (andthen (write_flags (Some shift) Update Ignore Ignore Update Update Ignore)
     (bnd (last_shifted_bit (iclass x = ''SHL'') src amt) (\<lambda>last_bit.
     andthen (write_reg off_CF (val last_bit))
     (bnd (cond_br_if insert_cmpne amt 1) (\<lambda>one_br.
     andthen (shift_of (iclass x) src shift last_bit)
     (end_labels zero_br one_br))))))))"

section \<open>SHRD, SHLD\<close>

definition double_immediate :: "xed_inst \<Rightarrow> node_id \<Rightarrow> node_id \<Rightarrow> node_id \<Rightarrow> unit tr" where
  "double_immediate x src inp amt =
     bnd (node_at amt) (\<lambda>nd.
     bnd (lift_res (constant_of nd)) (\<lambda>sv.
     if sv \<noteq> 0 then
       bnd (shift_by (iclass x) (val src) (val amt)) (\<lambda>s0.
       bnd (type_of_port (val inp)) (\<lambda>it.
       bnd (if iclass x = ''SHRD'' then
              bnd (insert_bit_extract (val inp) (ucast (of_nat (width it) - sv)) (ucast sv)) (\<lambda>e.
              insert_bit_insert (val s0) (val e) (ucast (of_nat (width it) - sv)) (ucast sv))
            else
              bnd (insert_bit_extract (val inp) 0 (ucast sv)) (\<lambda>e.
              insert_bit_insert (val s0) (val e) 0 (ucast sv))) (\<lambda>shift.
       andthen (write_operand x 0 (val shift))
       (bnd (type_of_port (val src)) (\<lambda>st.
       bnd (insert_bit_extract (val src)
              (if iclass x = ''SHRD'' then ucast (sv - 1) else ucast (of_nat (width st) - sv)) 1)
         (\<lambda>last_bit.
       andthen (write_reg off_CF (val last_bit))
       (andthen
         (if sv = 1 then
            bnd (type_of_port (val shift)) (\<lambda>ht.
            bnd (if iclass x = ''SHRD'' then
                   bnd (insert_bit_extract (val src) (of_nat (width st) - 1) 1) (\<lambda>msb.
                   bnd (insert_bit_extract (val shift) (of_nat (width ht) - 1) 1) (\<lambda>new_msb.
                   insert_xor (val new_msb) (val msb)))
                 else
                   bnd (insert_bit_extract (val shift) (of_nat (width ht) - 1) 1) (\<lambda>msb.
                   insert_xor (val last_bit) (val msb))) (\<lambda>f.
            andthen (write_reg off_OF (val f)) (ret ())))
          else ret ())
       (write_flags (Some shift) Update Ignore Ignore Update Update Ignore))))))))
     else ret ()))"

definition double_register :: "xed_inst \<Rightarrow> node_id \<Rightarrow> node_id \<Rightarrow> node_id \<Rightarrow> unit tr" where
  "double_register x src inp amt =
     (let right = (iclass x = ''SHRD'') in
     bnd (cond_br_if insert_cmpeq amt 0) (\<lambda>zero_br.
     bnd (type_of_port (val inp)) (\<lambda>it.
     bnd (insert_constant_i it (of_nat (width it))) (\<lambda>w.
     bnd (insert_sub (val w) (val amt)) (\<lambda>to_clear.
     bnd (shift_by (iclass x) (val src) (val amt)) (\<lambda>s0.
     bnd (if right then insert_lsr (val inp) (val to_clear)
          else insert_lsl (val inp) (val to_clear)) (\<lambda>in1.
     bnd (if right then insert_lsl (val in1) (val to_clear)
          else insert_lsr (val in1) (val to_clear)) (\<lambda>in2.
     bnd (insert_or (val s0) (val in2)) (\<lambda>shift.
     andthen (write_operand x 0 (val shift))
     (andthen (write_flags (Some shift) Update Ignore Ignore Update Update Ignore)
     (bnd (last_shifted_bit (\<not> right) src amt) (\<lambda>last_bit.
     andthen (write_reg off_CF (val last_bit))
     (bnd (cond_br_if insert_cmpne amt 1) (\<lambda>one_br.
     bnd (type_of_port (val shift)) (\<lambda>ht.
     bnd (insert_bit_extract (val shift) (of_nat (width ht) - 1) 1) (\<lambda>msb.
     bnd (if right then
            bnd (insert_bit_extract (val src) (of_nat (width ht) - 1) 1) (\<lambda>old_msb.
            insert_xor (val old_msb) (val msb))
          else insert_xor (val last_bit) (val msb)) (\<lambda>f.
     andthen (write_reg off_OF (val f))
     (end_labels zero_br one_br))))))))))))))))))"

section \<open>Packed shifts and rotates\<close>

definition psrl_translate :: "xed_inst \<Rightarrow> node_id \<Rightarrow> node_id \<Rightarrow> unit tr" where
  "psrl_translate x src amt =
     (let ic = iclass x;
          ty = (if ic = ''PSRLW'' then u16 else if ic = ''PSRLD'' then u32 else u64) in
     bnd (type_of_port (val src)) (\<lambda>st.
     (let half = (if ic = ''PSRLW'' then 4 else if ic = ''PSRLD'' then 2 else 1);
          n = (if width st = 64 then half else 2 * half) in
     bnd (insert_bitcast (vector_type ty n) (val src)) (\<lambda>v0.
     bnd (fold_prog [0..<n] (\<lambda>i sv.
            bnd (insert_vector_extract (val sv) i) (\<lambda>e.
            bnd (insert_lsr (val e) (val amt)) (\<lambda>s. insert_vector_insert (val sv) i (val s)))) v0) (\<lambda>sv.
     andthen (write_operand x 0 (val sv)) (ret ()))))))"

definition shift_bytes :: "xed_inst \<Rightarrow> (port \<Rightarrow> port \<Rightarrow> node_id tr) \<Rightarrow> node_id \<Rightarrow> node_id \<Rightarrow> unit tr" where
  "shift_bytes x ins src amt =
     bnd (node_at amt) (\<lambda>nd.
     bnd (lift_res (constant_of nd)) (\<lambda>c.
     if c > 15 then
       bnd (insert_constant_u128 0) (\<lambda>z. andthen (write_operand x 0 (val z)) (ret ()))
     else
       bnd (insert_constant_u32 (ucast (c * 8))) (\<lambda>k.
       bnd (ins (val src) (val k)) (\<lambda>s. andthen (write_operand x 0 (val s)) (ret ())))))"

definition rotate_translate :: "xed_inst \<Rightarrow> bool \<Rightarrow> unit tr" where
  "rotate_translate x left =
     bnd (read_operand x 0) (\<lambda>v0.
     bnd (read_operand x 1) (\<lambda>rot.
     bnd (node_at rot) (\<lambda>nd.
     bnd (lift_res (constant_of nd)) (\<lambda>rv.
     if rv \<noteq> 0 then
       bnd (type_of_port (val v0)) (\<lambda>vt.
       bnd (insert_bit_extract (val v0) (if left then ucast (of_nat (width vt) - rv) else 0) (ucast rv))
         (\<lambda>bits.
       bnd (if left then insert_lsl (val v0) (val rot) else insert_lsr (val v0) (val rot)) (\<lambda>shift.
       bnd (insert_bit_insert (val shift) (val bits)
              (if left then 0 else ucast (of_nat (width vt) - rv)) (ucast rv)) (\<lambda>res.
       andthen (write_operand x 0 (val res))
       (bnd (type_of_port (val res)) (\<lambda>rt.
       bnd (insert_bit_extract (val res) (if left then 0 else of_nat (width rt) - 1) 1) (\<lambda>cf.
       andthen (write_reg off_CF (val cf))
       (if rv = 1 then
          bnd (insert_bit_extract (val res) (of_nat (width rt) - (if left then 1 else 2)) 1) (\<lambda>tb.
          bnd (if left then insert_xor (val tb) (val cf) else insert_xor (val cf) (val tb)) (\<lambda>f.
          andthen (write_reg off_OF (val f)) (ret ())))
        else ret ()))))))))
     else ret ()))))"

text \<open>PSLLD shifts the four lanes and drops the result.\<close>

definition pslld_translate :: "xed_inst \<Rightarrow> unit tr" where
  "pslld_translate x =
     bnd (read_operand x 0) (\<lambda>v0.
     bnd (read_operand x 1) (\<lambda>by_amt.
     bnd (insert_bitcast (vector_type u32 4) (val v0)) (\<lambda>v1.
     bnd (fold_prog [0..<4] (\<lambda>i vv.
            bnd (insert_vector_extract (val vv) i) (\<lambda>d.
            bnd (insert_lsl (val d) (val by_amt)) (\<lambda>r. insert_vector_insert (val vv) i (val r)))) v1) (\<lambda>_.
     ret ()))))"

definition shifts_translate :: "xed_inst \<Rightarrow> unit tr" where
  "shifts_translate x =
     bnd (read_operand x 0) (\<lambda>src.
     bnd (read_operand x 1) (\<lambda>amt0.
     (let ic = iclass x in
      if ic \<in> {''SAR'', ''SHR'', ''SHL''} then
        bnd (masked_amount src amt0) (\<lambda>amt.
        bnd (lift_res (is_immediate_operand x 1)) (\<lambda>imm.
        if imm then shift_immediate x src amt else shift_register x src amt))
      else if ic \<in> {''SHRD'', ''SHLD''} then
        bnd (read_operand x 2) (\<lambda>amt1.
        bnd (masked_amount src amt1) (\<lambda>amt.
        bnd (lift_res (is_immediate_operand x 1)) (\<lambda>imm.
        if imm then double_immediate x src amt0 amt else double_register x src amt0 amt)))
      else if ic \<in> {''PSRLW'', ''PSRLD'', ''PSRLQ''} then psrl_translate x src amt0
      else if ic = ''PSLLDQ'' then shift_bytes x insert_lsl src amt0
      else if ic = ''PSRLDQ'' then shift_bytes x insert_lsr src amt0
      else if ic = ''ROR'' then rotate_translate x False
      else if ic = ''ROL'' then rotate_translate x True
      else if ic = ''PSLLD'' then pslld_translate x
      else throw (Runtime_error ''unsupported shift instruction''))))"

section \<open>Repeated string instructions\<close>

definition repe_cmpsb_translate :: "unit tr" where
  "repe_cmpsb_translate =
     bnd (insert_label ''rep_loop_start'') (\<lambda>loop_start.
     bnd (read_reg u64 off_RSI) (\<lambda>rsi.
     bnd (insert_read_mem u8 (val rsi)) (\<lambda>deref_rsi.
     bnd (read_reg u64 off_RDI) (\<lambda>rdi.
     bnd (insert_read_mem u8 (val rdi)) (\<lambda>deref_rdi.
     bnd (insert_sub (val deref_rsi) (val deref_rdi)) (\<lambda>rslt.
     andthen (write_flags (Some rslt) Update Update Update Update Update Update)
     (bnd (read_reg u32 off_RCX) (\<lambda>ecx.
     bnd (insert_constant_u32 8) (\<lambda>c8.
     bnd (insert_sub (val ecx) (val c8)) (\<lambda>new_ecx.
     bnd (insert_zx u64 (val new_ecx)) (\<lambda>z.
     andthen (write_reg off_RCX (val z))
     (bnd (insert_constant_u32 0) (\<lambda>c0.
     bnd (insert_cmpeq (val new_ecx) (val c0)) (\<lambda>ecx_eq_0.
     bnd (read_reg u1 off_ZF) (\<lambda>zf.
     bnd (insert_trunc u1 (val ecx_eq_0)) (\<lambda>t.
     bnd (insert_not (val zf)) (\<lambda>nzf.
     bnd (insert_or (val t) (val nzf)) (\<lambda>termcond.
     bnd (insert_not (val termcond)) (\<lambda>nt.
     andthen (insert_cond_br (val nt) (Some loop_start)) (ret ()))))))))))))))))))))"

definition rep_align :: "(string \<times> nat) list" where
  "rep_align =
     [(''REP_STOSQ'', 8), (''REP_STOSD'', 4), (''REP_STOSW'', 2), (''REP_STOSB'', 1),
      (''REP_MOVSQ'', 8), (''REP_MOVSD'', 4), (''REP_MOVSW'', 2), (''REP_MOVSB'', 1),
      (''MOVSQ'', 8), (''MOVSD'', 4), (''MOVSW'', 2), (''MOVSB'', 1)]"

definition align_type :: "nat \<Rightarrow> value_type" where
  "align_type a = (if a = 8 then u64 else if a = 4 then u32 else if a = 2 then u16 else u8)"

definition step_reg ::
  "nat \<Rightarrow> (port \<Rightarrow> port \<Rightarrow> node_id tr) \<Rightarrow> node_id \<Rightarrow> node_id \<Rightarrow> unit tr" where
  "step_reg reg ins r c = bnd (ins (val r) (val c)) (\<lambda>n. andthen (write_reg reg (val n)) (ret ()))"

definition df_is_set :: "node_id tr" where
  "df_is_set =
     bnd (read_reg u1 off_DF) (\<lambda>df.
     bnd (insert_constant_i u1 0) (\<lambda>z. insert_cmpne (val df) (val z)))"

definition rep_stos_translate :: "xed_inst \<Rightarrow> nat \<Rightarrow> unit tr" where
  "rep_stos_translate x addr_align =
     bnd (insert_constant_u64 0) (\<lambda>cst_0.
     bnd (insert_constant_u64 1) (\<lambda>cst_1.
     bnd (insert_constant_u64 (of_nat addr_align)) (\<lambda>cst_align.
     bnd (insert_label ''while'') (\<lambda>loop_start.
     bnd (read_reg u64 off_RCX) (\<lambda>rcx.
     bnd (insert_cmpeq (val rcx) (val cst_0)) (\<lambda>rcx_test.
     bnd (insert_cond_br (val rcx_test) None) (\<lambda>br_loop.
     bnd (read_operand x 2) (\<lambda>rax.
     bnd (read_reg u64 off_RDI) (\<lambda>rdi.
     andthen (insert_write_mem (val rdi) (val rax))
     (bnd df_is_set (\<lambda>df_test.
     bnd (insert_cond_br (val df_test) None) (\<lambda>br_df.
     andthen (step_reg off_RDI insert_add rdi cst_align)
     (bnd (insert_br None) (\<lambda>br_then.
     bnd (insert_label ''else'') (\<lambda>else_label.
     andthen (builder_add_br_target br_df else_label)
     (andthen (step_reg off_RDI insert_sub rdi cst_align)
     (bnd (insert_label ''endif'') (\<lambda>endif_label.
     andthen (builder_add_br_target br_then endif_label)
     (andthen (step_reg off_RCX insert_sub rcx cst_1)
     (andthen (insert_br (Some loop_start))
     (bnd (insert_label ''end'') (\<lambda>loop_end.
     builder_add_br_target br_loop loop_end))))))))))))))))))))))"

definition rep_movs_translate :: "nat \<Rightarrow> unit tr" where
  "rep_movs_translate addr_align =
     bnd (insert_constant_u64 0) (\<lambda>cst_0.
     bnd (insert_constant_u64 1) (\<lambda>cst_1.
     bnd (insert_constant_u64 (of_nat addr_align)) (\<lambda>cst_align.
     bnd (insert_label ''while'') (\<lambda>loop_start.
     bnd (read_reg u64 off_RCX) (\<lambda>rcx.
     bnd (insert_cmpeq (val rcx) (val cst_0)) (\<lambda>rcx_test.
     bnd df_is_set (\<lambda>df_test.
     bnd (insert_cond_br (val rcx_test) None) (\<lambda>br_loop.
     bnd (read_reg u64 off_RSI) (\<lambda>rsi.
     bnd (insert_read_mem (align_type addr_align) (val rsi)) (\<lambda>rsi_val.
     bnd (read_reg u64 off_RDI) (\<lambda>rdi.
     andthen (insert_write_mem (val rdi) (val rsi_val))
     (bnd (insert_sub (val rsi) (val cst_align)) (\<lambda>sub_rsi.
     bnd (insert_sub (val rdi) (val cst_align)) (\<lambda>sub_rdi.
     bnd (insert_add (val rsi) (val cst_align)) (\<lambda>add_rsi.
     bnd (insert_add (val rdi) (val cst_align)) (\<lambda>add_rdi.
     bnd (insert_csel (val df_test) (val sub_rdi) (val add_rdi)) (\<lambda>s1.
     andthen (write_reg off_RDI (val s1))
     (bnd (insert_csel (val df_test) (val sub_rsi) (val add_rsi)) (\<lambda>s2.
     andthen (write_reg off_RSI (val s2))
     (andthen (step_reg off_RCX insert_sub rcx cst_1)
     (andthen (insert_br (Some loop_start))
     (bnd (insert_label ''end'') (\<lambda>loop_end.
     builder_add_br_target br_loop loop_end)))))))))))))))))))))))"

definition rep_translate :: "xed_inst \<Rightarrow> unit tr" where
  "rep_translate x =
     (let ic = iclass x in
      if ic = ''REPE_CMPSB'' then repe_cmpsb_translate
      else if ic \<in> {''REP_STOSB'', ''REP_STOSD'', ''REP_STOSW'', ''REP_STOSQ''}
      then rep_stos_translate x (the (map_of rep_align ic))
      else if ic \<in> {''REP_MOVSB'', ''REP_MOVSD'', ''REP_MOVSW'', ''REP_MOVSQ''}
      then rep_movs_translate (the (map_of rep_align ic))
      else throw (Runtime_error ''unsupported rep instruction''))"

end
