(* ===== verification/X86_Mov.thy ===== *)
theory X86_Mov
  imports X86_Shifts
begin

text \<open>
  Data movement (\<open>input/x86/translators/mov.cpp\<close>) and the locked and exchanging
  instructions (\<open>atomic.cpp\<close>).
\<close>

section \<open>\<open>mov_translator::do_translate\<close>\<close>

definition lea_translate :: "xed_inst \<Rightarrow> unit tr" where
  "lea_translate x =
     bnd (compute_address x 0) (\<lambda>a. andthen (write_operand x 0 (val a)) (ret ()))"

text \<open>The second condition is evaluated only for an immediate source.\<close>

definition widen_immediate :: "xed_inst \<Rightarrow> node_id \<Rightarrow> node_id tr" where
  "widen_immediate x op1 =
     bnd (lift_res (is_immediate_operand x 1)) (\<lambda>imm.
     if imm then
       bnd (lift_res (get_operand_width x 1)) (\<lambda>w1.
       bnd (lift_res (get_operand_width x 0)) (\<lambda>w0.
       if w1 < w0 then insert_zx u64 (val op1) else ret op1))
     else ret op1)"

definition plain_mov_translate :: "xed_inst \<Rightarrow> unit tr" where
  "plain_mov_translate x =
     bnd (lift_res (op_name x 0)) (\<lambda>nm.
     bnd (lift_res (type_of_operand x (if nm = Op_MEM0 then 1 else 0))) (\<lambda>tt.
     bnd (read_operand x 1) (\<lambda>src.
     bnd (auto_cast tt src) (\<lambda>op1.
     bnd (widen_immediate x op1) (\<lambda>op1w.
     andthen (write_operand x 0 (val op1w)) (ret ()))))))"

text \<open>CWD and CQO: the upper half of the sign-extended accumulator.\<close>

definition sign_half ::
  "value_type \<Rightarrow> value_type \<Rightarrow> 32 word \<Rightarrow> unit tr" where
  "sign_half st wt half =
     bnd (read_reg st off_RAX) (\<lambda>ax.
     bnd (insert_sx wt (val ax)) (\<lambda>sx.
     bnd (insert_bit_extract (val sx) half half) (\<lambda>hi.
     andthen (write_reg off_RDX (val hi)) (ret ()))))"

definition cdq_translate :: "xed_inst \<Rightarrow> unit tr" where
  "cdq_translate x =
     bnd (read_operand x 1) (\<lambda>op.
     bnd (insert_bitcast s32 (val op)) (\<lambda>eax.
     bnd (insert_sx s64 (val eax)) (\<lambda>sx.
     bnd (insert_bit_extract (val sx) 32 32) (\<lambda>hi.
     andthen (write_operand x 0 (val hi)) (ret ())))))"

definition cdqe_translate :: "xed_inst \<Rightarrow> unit tr" where
  "cdqe_translate x =
     bnd (read_operand x 1) (\<lambda>op.
     bnd (insert_bitcast s32 (val op)) (\<lambda>eax.
     bnd (insert_sx s64 (val eax)) (\<lambda>rax.
     andthen (write_operand x 0 (val rax)) (ret ()))))"

text \<open>The low 64 bits of a 128-bit source.\<close>

definition low_quad :: "node_id \<Rightarrow> node_id tr" where
  "low_quad src =
     bnd (type_of_port (val src)) (\<lambda>st.
     if width st = 128 then insert_bit_extract (val src) 0 64 else ret src)"

definition movq_translate :: "xed_inst \<Rightarrow> unit tr" where
  "movq_translate x =
     bnd (read_operand x 1) (\<lambda>src0.
     bnd (low_quad src0) (\<lambda>src1.
     bnd (lift_res (get_operand_width x 0)) (\<lambda>w.
     bnd (if w = 128 then insert_zx u128 (val src1) else ret src1) (\<lambda>src.
     andthen (write_operand x 0 (val src)) (ret ())))))"

definition movsxd_translate :: "xed_inst \<Rightarrow> unit tr" where
  "movsxd_translate x =
     bnd (read_operand x 1) (\<lambda>i0.
     bnd (type_of_port (val i0)) (\<lambda>ty.
     bnd (insert_bitcast (mk_value_type signed_integer (width ty) 1) (val i0)) (\<lambda>i1.
     bnd (insert_sx s64 (val i1)) (\<lambda>c.
     andthen (write_operand x 0 (val c)) (ret ())))))"

definition movzx_translate :: "xed_inst \<Rightarrow> unit tr" where
  "movzx_translate x =
     bnd (read_operand x 1) (\<lambda>i.
     bnd (insert_zx u64 (val i)) (\<lambda>c. andthen (write_operand x 0 (val c)) (ret ())))"

definition movsx_translate :: "xed_inst \<Rightarrow> unit tr" where
  "movsx_translate x =
     bnd (read_operand x 1) (\<lambda>i.
     bnd (read_operand x 0) (\<lambda>d.
     bnd (type_of_port (val d)) (\<lambda>ty.
     bnd (insert_sx ty (val i)) (\<lambda>c. andthen (write_operand x 0 (val c)) (ret ())))))"

definition movd_translate :: "xed_inst \<Rightarrow> unit tr" where
  "movd_translate x =
     bnd (read_operand x 1) (\<lambda>i.
     bnd (lift_res (get_operand_width x 0)) (\<lambda>dst_width.
     bnd (type_of_port (val i)) (\<lambda>ty.
     bnd (if dst_width = 32 then insert_bit_extract (val i) 0 32
          else if width ty = 32 then insert_zx u128 (val i)
          else ret i) (\<lambda>r.
     andthen (write_operand x 0 (val r)) (ret ())))))"

text \<open>For MOVSD between registers the merged value is built and then dropped.\<close>

definition movsd_xmm_translate :: "xed_inst \<Rightarrow> unit tr" where
  "movsd_xmm_translate x =
     bnd (read_operand x 1) (\<lambda>src.
     bnd (lift_res (get_operand_width x 0)) (\<lambda>dst_width.
     bnd (type_of_port (val src)) (\<lambda>ty.
     bnd (if dst_width = 64 then insert_bit_extract (val src) 0 64
          else if width ty = 64 then insert_zx u128 (val src)
          else
            bnd (read_operand x 0) (\<lambda>dst.
            bnd (insert_bit_extract (val src) 0 64) (\<lambda>low.
            bnd (insert_bit_insert (val dst) (val low) 0 64) (\<lambda>_. ret low)))) (\<lambda>r.
     andthen (write_operand x 0 (val r)) (ret ())))))"

definition movs_translate :: "nat \<Rightarrow> unit tr" where
  "movs_translate addr_align =
     bnd (insert_constant_u64 (of_nat addr_align)) (\<lambda>cst_align.
     bnd (read_reg u64 off_RSI) (\<lambda>rsi.
     bnd (read_reg u64 off_RDI) (\<lambda>rdi.
     bnd (insert_read_mem (align_type addr_align) (val rsi)) (\<lambda>rsi_val.
     andthen (insert_write_mem (val rdi) (val rsi_val))
     (bnd df_is_set (\<lambda>df_test.
     bnd (insert_cond_br (val df_test) None) (\<lambda>br_df.
     andthen (step_reg off_RDI insert_add rdi cst_align)
     (andthen (step_reg off_RSI insert_add rsi cst_align)
     (bnd (insert_br None) (\<lambda>br_then.
     bnd (insert_label ''else'') (\<lambda>else_label.
     andthen (builder_add_br_target br_df else_label)
     (andthen (step_reg off_RDI insert_sub rdi cst_align)
     (andthen (step_reg off_RSI insert_sub rsi cst_align)
     (bnd (insert_label ''endif'') (\<lambda>endif_label.
     builder_add_br_target br_then endif_label)))))))))))))))"

definition copy_translate :: "xed_inst \<Rightarrow> unit tr" where
  "copy_translate x = bnd (read_operand x 1) (\<lambda>src. andthen (write_operand x 0 (val src)) (ret ()))"

text \<open>MOVLPS/MOVLPD (\<open>at = 0\<close>) and MOVHPS/MOVHPD (\<open>at = 64\<close>).\<close>

definition mov_half_translate :: "xed_inst \<Rightarrow> 32 word \<Rightarrow> unit tr" where
  "mov_half_translate x at =
     bnd (read_operand x 1) (\<lambda>src0.
     bnd (low_quad src0) (\<lambda>src.
     bnd (lift_res (get_operand_width x 0)) (\<lambda>w.
     if w = 64 then andthen (write_operand x 0 (val src)) (ret ())
     else
       bnd (read_operand x 0) (\<lambda>dst.
       bnd (insert_bit_insert (val dst) (val src) at 64) (\<lambda>r.
       andthen (write_operand x 0 (val r)) (ret ()))))))"

text \<open>
  MOVSS: \<open>src\<close> is the bitcast source in both cases, so the test for a 32-bit element
  width holds for a register source too.
\<close>

definition movss_source :: "node_id \<Rightarrow> (node_id \<times> node_id) tr" where
  "movss_source s0 =
     bnd (type_of_port (val s0)) (\<lambda>ty.
     if element_width ty = 128 then
       bnd (insert_bitcast (vector_type f32 4) (val s0)) (\<lambda>src.
       bnd (insert_vector_extract (val src) 0) (\<lambda>e. ret (src, e)))
     else bnd (insert_bitcast f32 (val s0)) (\<lambda>src. ret (src, src)))"

definition movss_zero_rest :: "node_id \<Rightarrow> node_id tr" where
  "movss_zero_rest dst =
     bnd (insert_constant_f f32 0) (\<lambda>z.
     bnd (insert_vector_insert (val dst) 1 (val z)) (\<lambda>d1.
     bnd (insert_vector_insert (val d1) 2 (val z)) (\<lambda>d2.
     insert_vector_insert (val d2) 3 (val z))))"

definition movss_translate :: "xed_inst \<Rightarrow> unit tr" where
  "movss_translate x =
     bnd (read_operand x 0) (\<lambda>dst0.
     bnd (read_operand x 1) (\<lambda>s0.
     bnd (movss_source s0) (\<lambda>sv.
     bnd (type_of_port (val dst0)) (\<lambda>dt.
     bnd (if element_width dt = 128 then
            bnd (insert_bitcast (vector_type f32 4) (val dst0)) (\<lambda>dst1.
            bnd (type_of_port (val (fst sv))) (\<lambda>st.
            bnd (if element_width st = 32 then movss_zero_rest dst1 else ret dst1) (\<lambda>dst.
            insert_vector_insert (val dst) 0 (val (snd sv)))))
          else ret (snd sv)) (\<lambda>rslt.
     andthen (write_operand x 0 (val rslt)) (ret ()))))))"

definition mov_translate :: "xed_inst \<Rightarrow> unit tr" where
  "mov_translate x =
     (let ic = iclass x in
      if ic = ''LEA'' then lea_translate x
      else if ic = ''MOV'' then plain_mov_translate x
      else if ic = ''CWD'' then sign_half s16 s32 16
      else if ic = ''CQO'' then sign_half s64 s128 64
      else if ic = ''CDQ'' then cdq_translate x
      else if ic = ''CDQE'' then cdqe_translate x
      else if ic = ''MOVQ'' then movq_translate x
      else if ic = ''MOVSXD'' then movsxd_translate x
      else if ic = ''MOVZX'' then movzx_translate x
      else if ic = ''MOVSX'' then movsx_translate x
      else if ic = ''MOVD'' then movd_translate x
      else if ic = ''MOVSD_XMM'' then movsd_xmm_translate x
      else if ic \<in> {''MOVSB'', ''MOVSD'', ''MOVSW'', ''MOVSQ''}
      then movs_translate (the (map_of rep_align ic))
      else if ic \<in> {''MOVUPS'', ''MOVAPS'', ''MOVDQA'', ''MOVDQU'', ''MOVAPD''} then copy_translate x
      else if ic \<in> {''MOVLPS'', ''MOVLPD''} then mov_half_translate x 0
      else if ic \<in> {''MOVHPS'', ''MOVHPD''} then mov_half_translate x 64
      else if ic = ''MOVSS'' then movss_translate x
      else throw (Runtime_error ''unsupported mov operation''))"

section \<open>\<open>atomic_translator::do_translate\<close>\<close>

definition xadd_lock_translate :: "xed_inst \<Rightarrow> unit tr" where
  "xadd_lock_translate x =
     bnd (compute_address x 0) (\<lambda>dst.
     bnd (read_operand x 1) (\<lambda>src.
     bnd (insert_atomic_xadd (val dst) (val src)) (\<lambda>xadd.
     andthen (write_operand x 1 (val xadd))
     (write_flags (Some xadd) Update Update Update Update Update Update))))"

definition xchg_memory :: "xed_inst \<Rightarrow> nat \<Rightarrow> nat \<Rightarrow> unit tr" where
  "xchg_memory x mem_op reg_op =
     bnd (compute_address x mem_op) (\<lambda>a.
     bnd (read_operand x reg_op) (\<lambda>r.
     bnd (insert_atomic_xchg (val a) (val r)) (\<lambda>xchg.
     andthen (write_operand x reg_op (val xchg)) (ret ()))))"

definition xchg_registers :: "xed_inst \<Rightarrow> unit tr" where
  "xchg_registers x =
     bnd (read_operand x 0) (\<lambda>op0.
     bnd (type_of_port (val op0)) (\<lambda>ty.
     bnd (alloc_local ty) (\<lambda>tmp.
     andthen (insert_write_local tmp (val op0))
     (bnd (read_operand x 1) (\<lambda>op1.
     andthen (write_operand x 0 (val op1))
     (bnd (insert_read_local tmp) (\<lambda>t.
     andthen (write_operand x 1 (val t)) (ret ()))))))))"

definition xchg_translate :: "xed_inst \<Rightarrow> unit tr" where
  "xchg_translate x =
     bnd (lift_res (is_memory_operand x 0)) (\<lambda>m0.
     if m0 then xchg_memory x 0 1
     else
       bnd (lift_res (is_memory_operand x 1)) (\<lambda>m1.
       if m1 then xchg_memory x 1 0 else xchg_registers x))"

definition cmpxchg_lock_translate :: "xed_inst \<Rightarrow> unit tr" where
  "cmpxchg_lock_translate x =
     bnd (compute_address x 0) (\<lambda>dst.
     bnd (read_operand x 2) (\<lambda>acc.
     bnd (read_operand x 1) (\<lambda>src.
     bnd (insert_atomic_cmpxchg (val dst) (val acc) (val src)) (\<lambda>res.
     write_flags (Some res) Update Update Update Update Update Update))))"

definition atomic_binop_translate ::
  "xed_inst \<Rightarrow> binary_atomic_op \<Rightarrow> flag_op \<Rightarrow> flag_op \<Rightarrow> flag_op \<Rightarrow> unit tr" where
  "atomic_binop_translate x op cf ovf af =
     bnd (compute_address x 0) (\<lambda>dst.
     bnd (read_operand x 1) (\<lambda>src.
     bnd (insert_atomic_binop op (val dst) (val src)) (\<lambda>res.
     write_flags (Some res) Update cf ovf Update Update af)))"

definition atomic_step_translate :: "xed_inst \<Rightarrow> binary_atomic_op \<Rightarrow> unit tr" where
  "atomic_step_translate x op =
     bnd (compute_address x 0) (\<lambda>src.
     bnd (type_of_port (val src)) (\<lambda>ty.
     bnd (insert_constant_i ty 1) (\<lambda>one.
     bnd (insert_atomic_binop op (val src) (val one)) (\<lambda>res.
     write_flags (Some res) Update Ignore Update Update Update Update))))"

definition atomic_translate :: "xed_inst \<Rightarrow> unit tr" where
  "atomic_translate x =
     (let ic = iclass x in
      if ic = ''XADD_LOCK'' then xadd_lock_translate x
      else if ic = ''XCHG'' then xchg_translate x
      else if ic = ''CMPXCHG_LOCK'' then cmpxchg_lock_translate x
      else if ic = ''ADD_LOCK'' then atomic_binop_translate x BA_add Update Update Update
      else if ic = ''AND_LOCK'' then atomic_binop_translate x BA_band Set0 Set0 Ignore
      else if ic = ''OR_LOCK'' then atomic_binop_translate x BA_bor Set0 Set0 Ignore
      else if ic = ''INC_LOCK'' then atomic_step_translate x BA_add
      else if ic = ''DEC_LOCK'' then atomic_step_translate x BA_sub
      else throw (Runtime_error ''unsupported atomic instruction''))"

end
