(* ===== verification/X86_Integer_Safe.thy ===== *)
theory X86_Integer_Safe
  imports X86_Translator_Safe X86_Control_Flow X86_Mov
begin

text \<open>
  The integer, control-flow, shift, move and atomic translators keep the builder's invariant:
  whatever the decoder answers, a translator that does not throw leaves a well-formed heap,
  refers only to nodes that exist, jumps only to labels, and adds only action nodes to the
  packet.
\<close>

lemma safe_add_br:
  "wf_builder b \<Longrightarrow> knode {K_label} b l \<Longrightarrow> safe (builder_add_br_target br l) (\<lambda>_ _. True) b"
  by (intro safe_add_br_target knode_label)

lemma safe_node_at': "wf_builder b \<Longrightarrow> safe (node_at n) (\<lambda>_ _. True) b"
  by (rule safe_True [OF safe_node_at])

lemmas [tr_safe] = safe_alloc_local safe_builder_resolve

text \<open>Loops that carry one node, or an index and a mask.\<close>

lemma safe_fold_node:
  assumes "wf_builder b" and "vnode b a"
    and "\<And>x a b'. wf_builder b' \<Longrightarrow> b_ext b b' \<Longrightarrow> vnode b' a \<Longrightarrow> safe (f x a) okn b'"
  shows "safe (fold_prog xs f a) okn b"
proof -
  have "safe (fold_prog xs f a) (\<lambda>a b'. vnode b' a \<and> b_ext b b') b"
  proof (rule safe_fold_prog)
    fix x a b' assume b': "wf_builder b'" "vnode b' a \<and> b_ext b b'"
    with assms(3) [of b' a x] show "safe (f x a) (\<lambda>a b'. vnode b' a \<and> b_ext b b') b'"
      by (auto simp: safe_def intro: b_ext_trans)
  qed (use assms in auto)
  then show ?thesis by (rule safe_weaken) simp
qed

abbreviation okp :: "node_id \<times> node_id \<Rightarrow> builder \<Rightarrow> bool" where
  "okp \<equiv> \<lambda>p b. vnode b (fst p) \<and> vnode b (snd p)"

lemma safe_fold_pair:
  assumes "wf_builder b" and "vnode b a1" and "vnode b a2"
    and "\<And>x a b'. wf_builder b' \<Longrightarrow> b_ext b b' \<Longrightarrow> vnode b' (fst a) \<Longrightarrow> vnode b' (snd a) \<Longrightarrow> safe (f x a) okp b'"
  shows "safe (fold_prog xs f (a1, a2)) okp b"
proof -
  have "safe (fold_prog xs f (a1, a2)) (\<lambda>a b'. okp a b' \<and> b_ext b b') b"
  proof (rule safe_fold_prog)
    fix x a b' assume b': "wf_builder b'" "okp a b' \<and> b_ext b b'"
    with assms(4) [of b' a x] show "safe (f x a) (\<lambda>a b'. okp a b' \<and> b_ext b b') b'"
      by (auto simp: safe_def intro: b_ext_trans)
  qed (use assms in auto)
  then show ?thesis by (rule safe_weaken) simp
qed

lemma safe_ret_pair: "wf_builder b \<Longrightarrow> vnode b m \<Longrightarrow> vnode b n \<Longrightarrow> safe (ret (m, n)) okp b"
  by (rule safe_ret) auto

lemmas [tr_safe] = safe_fold_node safe_fold_pair safe_ret_pair

section \<open>Control flow\<close>

lemma safe_jcc_translate [tr_safe]:
  "wf_builder b \<Longrightarrow> safe (jcc_translate x) (\<lambda>_ _. True) b"
  unfolding jcc_translate_def
  by (assumption | rule safe_insert_label safe_add_br safe_shape tr_safe safe_port | erule safe_trans)+

lemma safe_setcc_translate [tr_safe]:
  "wf_builder b \<Longrightarrow> safe (setcc_translate x) (\<lambda>_ _. True) b"
  unfolding setcc_translate_def
  by (assumption | rule safe_insert_label safe_add_br safe_shape tr_safe safe_port | erule safe_trans)+

lemma safe_cmov_translate [tr_safe]:
  "wf_builder b \<Longrightarrow> safe (cmov_translate x) (\<lambda>_ _. True) b"
  unfolding cmov_translate_def
  by (assumption | rule safe_insert_label safe_add_br safe_shape tr_safe safe_port | erule safe_trans)+

lemma safe_push_translate [tr_safe]:
  "wf_builder b \<Longrightarrow> safe (push_translate x) (\<lambda>_ _. True) b"
  unfolding push_translate_def
  by (assumption | rule safe_insert_label safe_add_br safe_shape tr_safe safe_port | erule safe_trans)+

lemma safe_pop_translate [tr_safe]:
  "wf_builder b \<Longrightarrow> safe (pop_translate x) (\<lambda>_ _. True) b"
  unfolding pop_translate_def
  by (assumption | rule safe_insert_label safe_add_br safe_shape tr_safe safe_port | erule safe_trans)+

lemma safe_leave_translate [tr_safe]:
  "wf_builder b \<Longrightarrow> safe (leave_translate) (\<lambda>_ _. True) b"
  unfolding leave_translate_def
  by (assumption | rule safe_insert_label safe_add_br safe_shape tr_safe safe_port | erule safe_trans)+

lemma safe_stack_translate [tr_safe]:
  "wf_builder b \<Longrightarrow> safe (stack_translate x) (\<lambda>_ _. True) b"
  unfolding stack_translate_def
  by (assumption | rule safe_insert_label safe_add_br safe_shape tr_safe safe_port | erule safe_trans)+

lemma safe_call_translate [tr_safe]:
  "wf_builder b \<Longrightarrow> safe (call_translate x) (\<lambda>_ _. True) b"
  unfolding call_translate_def
  by (assumption | rule safe_insert_label safe_add_br safe_shape tr_safe safe_port | erule safe_trans)+

lemma safe_ret_translate [tr_safe]:
  "wf_builder b \<Longrightarrow> safe (ret_translate) (\<lambda>_ _. True) b"
  unfolding ret_translate_def
  by (assumption | rule safe_insert_label safe_add_br safe_shape tr_safe safe_port | erule safe_trans)+

lemma safe_jmp_translate [tr_safe]:
  "wf_builder b \<Longrightarrow> safe (jmp_translate x) (\<lambda>_ _. True) b"
  unfolding jmp_translate_def
  by (assumption | rule safe_insert_label safe_add_br safe_shape tr_safe safe_port | erule safe_trans)+

lemma safe_branch_translate [tr_safe]:
  "wf_builder b \<Longrightarrow> safe (branch_translate x) (\<lambda>_ _. True) b"
  unfolding branch_translate_def
  by (assumption | rule safe_insert_label safe_add_br safe_shape tr_safe safe_port | erule safe_trans)+

section \<open>Traps, system calls, control flags\<close>

lemma safe_call_internal [tr_safe]:
  "wf_builder b \<Longrightarrow> \<forall>p \<in> set args. vport b p \<Longrightarrow> safe (call_internal nm args) (\<lambda>_ _. True) b"
  unfolding call_internal_def
  by (rule safe_bnd [OF safe_builder_resolve], assumption)
     (rule safe_andthen [OF safe_insert_call], auto intro: vport_ext safe_ret)

lemma ports_one: "vnode b n \<Longrightarrow> \<forall>p \<in> set [val n]. vport b p"
  by (simp add: vport_val)

lemma ports_none: "\<forall>p \<in> set []. vport b p"
  by simp

lemma safe_trap [tr_safe]:
  "wf_builder b \<Longrightarrow> safe (trap n) (\<lambda>_ _. True) b"
  unfolding trap_def
  by (assumption | erule conjE | rule safe_insert_label safe_add_br safe_shape tr_safe safe_port ports_one ports_none | erule safe_trans knode_vnode)+

lemma safe_interrupt_translate [tr_safe]:
  "wf_builder b \<Longrightarrow> safe (interrupt_translate x) (\<lambda>_ _. True) b"
  unfolding interrupt_translate_def
  by (assumption | erule conjE | rule safe_insert_label safe_add_br safe_shape tr_safe safe_port ports_one ports_none | erule safe_trans knode_vnode)+

lemma safe_set_flag_reg [tr_safe]:
  "wf_builder b \<Longrightarrow> safe (set_flag_reg r c) (\<lambda>_ _. True) b"
  unfolding set_flag_reg_def
  by (assumption | erule conjE | rule safe_insert_label safe_add_br safe_shape tr_safe safe_port ports_one ports_none | erule safe_trans knode_vnode)+

lemma safe_control_translate [tr_safe]:
  "wf_builder b \<Longrightarrow> safe (control_translate x) (\<lambda>_ _. True) b"
  unfolding control_translate_def
  by (assumption | erule conjE | rule safe_insert_label safe_add_br safe_shape tr_safe safe_port ports_one ports_none | erule safe_trans knode_vnode)+

lemma safe_nop_translate [tr_safe]:
  "wf_builder b \<Longrightarrow> safe nop_translate (\<lambda>_ _. True) b"
  unfolding nop_translate_def
  by (assumption | erule conjE | rule safe_insert_label safe_add_br safe_shape tr_safe safe_port ports_one ports_none | erule safe_trans knode_vnode)+

lemma safe_unimplemented_translate [tr_safe]:
  "wf_builder b \<Longrightarrow> safe (unimplemented_translate x) (\<lambda>_ _. True) b"
  unfolding unimplemented_translate_def
  by (assumption | erule conjE | rule safe_insert_label safe_add_br safe_shape tr_safe safe_port ports_one ports_none | erule safe_trans knode_vnode)+

section \<open>Two-operand and one-operand instructions\<close>

lemma safe_vec_binop [tr_safe]:
  assumes "wf_builder b" and "vnode b m" and "vnode b n"
    and "\<And>p q b. wf_builder b \<Longrightarrow> vport b p \<Longrightarrow> vport b q \<Longrightarrow> safe (ins p q) okn b"
  shows "safe (vec_binop ins ty k m n) okn b"
  unfolding vec_binop_def
  by (insert assms(1-3)) (assumption | rule safe_shape tr_safe safe_port assms(4) | erule safe_trans)+

lemma safe_vec_andn [tr_safe]:
  "wf_builder b \<Longrightarrow> vnode b m \<Longrightarrow> vnode b n \<Longrightarrow> safe (vec_andn ty k m n) okn b"
  unfolding vec_andn_def
  by (assumption | erule conjE | rule safe_insert_label safe_add_br safe_shape tr_safe safe_port | erule safe_trans)+

lemma safe_vec_select_step:
  assumes "wf_builder b" and "vnode b rhs" and "vnode b c1" and "vnode b c0" and "vnode b lhs"
    and "\<And>p q b. wf_builder b \<Longrightarrow> vport b p \<Longrightarrow> vport b q \<Longrightarrow> safe (cmp p q) okn b"
  shows "safe (vec_select_step cmp rhs c1 c0 i lhs) okn b"
  unfolding vec_select_step_def
  by (insert assms(1-5)) (assumption | rule safe_shape tr_safe safe_port assms(6) | erule safe_trans)+

lemma safe_ret_triple:
  "wf_builder b \<Longrightarrow> vnode b m \<Longrightarrow> vnode b n \<Longrightarrow>
   safe (ret (ty, m, n)) (\<lambda>k b. vnode b (fst (snd k)) \<and> vnode b (snd (snd k))) b"
  by (rule safe_ret) auto

lemma safe_pcmpeq_constants [tr_safe]:
  "wf_builder b \<Longrightarrow>
   safe (pcmpeq_constants ic) (\<lambda>k b. vnode b (fst (snd k)) \<and> vnode b (snd (snd k))) b"
  unfolding pcmpeq_constants_def
  by (assumption | rule safe_shape safe_ret_triple tr_safe safe_port | erule safe_trans)+

lemma safe_pcmpeq [tr_safe]: "wf_builder b \<Longrightarrow> safe (pcmpeq x) okn b"
  unfolding pcmpeq_def Let_def
  by (assumption | erule conjE | rule safe_shape safe_vec_select_step tr_safe safe_port | erule safe_trans)+

lemma safe_pcmpgt_ones [tr_safe]:
  "wf_builder b \<Longrightarrow> safe (pcmpgt_ones ic) okn b"
  unfolding pcmpgt_ones_def
  by (assumption | erule conjE | rule safe_insert_label safe_add_br safe_shape tr_safe safe_port | erule safe_trans)+

lemma safe_pcmpgt [tr_safe]: "wf_builder b \<Longrightarrow> safe (pcmpgt x) okn b"
  unfolding pcmpgt_def Let_def
  by (assumption | rule safe_shape safe_vec_select_step tr_safe safe_port | erule safe_trans)+

lemma safe_xadd_translate [tr_safe]:
  "wf_builder b \<Longrightarrow> safe (xadd_translate x) (\<lambda>_ _. True) b"
  unfolding xadd_translate_def
  by (assumption | erule conjE | rule safe_insert_label safe_add_br safe_shape tr_safe safe_port | erule safe_trans)+

lemma safe_bit_test_translate [tr_safe]:
  "wf_builder b \<Longrightarrow> safe (bit_test_translate x) (\<lambda>_ _. True) b"
  unfolding bit_test_translate_def
  by (assumption | erule conjE | rule safe_insert_label safe_add_br safe_shape tr_safe safe_port | erule safe_trans)+

lemma safe_scan_finish [tr_safe]:
  "wf_builder b \<Longrightarrow> vnode b s \<Longrightarrow> vnode b i \<Longrightarrow> safe (scan_finish x ty s i) (\<lambda>_ _. True) b"
  unfolding scan_finish_def
  by (assumption | erule conjE | rule safe_insert_label safe_add_br safe_shape tr_safe safe_port | erule safe_trans)+

lemma safe_bsr_translate [tr_safe]:
  "wf_builder b \<Longrightarrow> safe (bsr_translate x) (\<lambda>_ _. True) b"
  unfolding bsr_translate_def scan_step_def
  by (assumption | erule conjE | rule safe_insert_label safe_add_br safe_shape tr_safe safe_port | erule safe_trans)+

lemma safe_bsf_translate [tr_safe]:
  "wf_builder b \<Longrightarrow> safe (bsf_translate x) (\<lambda>_ _. True) b"
  unfolding bsf_translate_def scan_step_def
  by (assumption | erule conjE | rule safe_insert_label safe_add_br safe_shape tr_safe safe_port | erule safe_trans)+

lemma safe_comis_flag [tr_safe]:
  "wf_builder b \<Longrightarrow> vnode b n \<Longrightarrow> safe (comis_flag off nm n) (\<lambda>_ _. True) b"
  unfolding comis_flag_def
  by (assumption | erule conjE | rule safe_insert_label safe_add_br safe_shape tr_safe safe_port | erule safe_trans)+

lemma safe_comis_translate [tr_safe]: "wf_builder b \<Longrightarrow> safe (comis_translate x) (\<lambda>_ _. True) b"
  unfolding comis_translate_def
  by (assumption | rule safe_shape tr_safe safe_port vopt_simps(1) | erule safe_trans)+

lemma safe_cmps_translate [tr_safe]:
  "wf_builder b \<Longrightarrow> safe (cmps_translate x) (\<lambda>_ _. True) b"
  unfolding cmps_translate_def
  by (assumption | erule conjE | rule safe_node_at' safe_insert_label safe_add_br safe_shape tr_safe safe_port | erule safe_trans)+

lemma safe_carry_in [tr_safe]:
  "wf_builder b \<Longrightarrow> vnode b n \<Longrightarrow> safe (carry_in n) okn b"
  unfolding carry_in_def
  by (assumption | erule conjE | rule safe_insert_label safe_add_br safe_shape tr_safe safe_port | erule safe_trans)+

lemma packed_table_ins:
  assumes "map_of packed_table ic = Some (ins, ty, n)"
    and "wf_builder b" and "vport b p" and "vport b q"
  shows "safe (ins p q) okn b"
proof -
  have "ins \<in> {insert_and, insert_or, insert_add, insert_sub}"
    using map_of_SomeD [OF assms(1)] by (auto simp: packed_table_def)
  with assms(2-) show ?thesis by (auto intro: tr_safe)
qed

lemma safe_binop_result [tr_safe]:
  assumes "wf_builder b" and "vnode b m" and "vnode b n"
  shows "safe (binop_result x m n) okn b"
proof -
  have packed: "safe (case map_of packed_table (iclass x) of
      Some (ins, ty, k) \<Rightarrow> vec_binop ins ty k m n
    | None \<Rightarrow> throw (Runtime_error ''unsupported binop'')) okn b"
    using assms packed_table_ins
    by (auto intro: safe_throw safe_vec_binop split: option.split)
  show ?thesis
    unfolding binop_result_def
    by (insert assms) (assumption | rule safe_shape(3,4) packed safe_shape tr_safe safe_port | erule safe_trans)+
qed

lemma safe_binop_own:
  "wf_builder b \<Longrightarrow> binop_own x = Some m \<Longrightarrow> safe m (\<lambda>_ _. True) b"
  by (auto simp: binop_own_def Let_def split: if_splits intro: tr_safe)

lemma safe_binop_flags [tr_safe]:
  "wf_builder b \<Longrightarrow> vnode b n \<Longrightarrow> safe (binop_flags x n) (\<lambda>_ _. True) b"
  unfolding binop_flags_def
  by (assumption | erule conjE | rule safe_insert_label safe_add_br safe_shape tr_safe safe_port | erule safe_trans)+

lemma safe_binop_translate [tr_safe]: "wf_builder b \<Longrightarrow> safe (binop_translate x) (\<lambda>_ _. True) b"
  unfolding binop_translate_def
  by (assumption | rule safe_shape tr_safe safe_port | erule safe_binop_own [rotated] | erule safe_trans)+

lemma safe_neg_result [tr_safe]:
  "wf_builder b \<Longrightarrow> vnode b n \<Longrightarrow> safe (neg_result n) okn b"
  unfolding neg_result_def
  by (assumption | erule conjE | rule safe_insert_label safe_add_br safe_shape tr_safe safe_port | erule safe_trans)+

lemma safe_bswap_result [tr_safe]:
  "wf_builder b \<Longrightarrow> safe (bswap_result x) okn b"
  unfolding bswap_result_def
  by (assumption | erule conjE | rule safe_insert_label safe_add_br safe_shape tr_safe safe_port | erule safe_trans)+

lemma safe_pmovmskb_result [tr_safe]:
  "wf_builder b \<Longrightarrow> safe (pmovmskb_result x) okn b"
  unfolding pmovmskb_result_def
  by (assumption | erule conjE | rule safe_insert_label safe_add_br safe_shape tr_safe safe_port | erule safe_trans)+

lemma safe_sqrtsd_result [tr_safe]:
  "wf_builder b \<Longrightarrow> safe (sqrtsd_result x) okn b"
  unfolding sqrtsd_result_def
  by (assumption | erule conjE | rule safe_insert_label safe_add_br safe_shape tr_safe safe_port | erule safe_trans)+

lemma safe_unop_result [tr_safe]:
  "wf_builder b \<Longrightarrow> vnode b n \<Longrightarrow> safe (unop_result x n) okn b"
  unfolding unop_result_def
  by (assumption | erule conjE | rule safe_insert_label safe_add_br safe_shape tr_safe safe_port | erule safe_trans)+

lemma safe_unop_translate [tr_safe]:
  "wf_builder b \<Longrightarrow> safe (unop_translate x) (\<lambda>_ _. True) b"
  unfolding unop_translate_def
  by (assumption | erule conjE | rule safe_insert_label safe_add_br safe_shape tr_safe safe_port | erule safe_trans)+

section \<open>Shifts, rotates and repeated strings\<close>

lemma safe_masked_amount [tr_safe]:
  "wf_builder b \<Longrightarrow> vnode b s \<Longrightarrow> vnode b a \<Longrightarrow> safe (masked_amount s a) okn b"
  unfolding masked_amount_def
  by (assumption | erule conjE | rule safe_insert_label safe_add_br safe_shape tr_safe safe_port safe_node_at' vopt_SomeI | erule safe_trans)+

lemma safe_shift_by [tr_safe]:
  "wf_builder b \<Longrightarrow> vport b p \<Longrightarrow> vport b q \<Longrightarrow> safe (shift_by ic p q) okn b"
  unfolding shift_by_def
  by (assumption | erule conjE | rule safe_insert_label safe_add_br safe_shape tr_safe safe_port safe_node_at' vopt_SomeI | erule safe_trans)+

lemma safe_shift_of [tr_safe]:
  "wf_builder b \<Longrightarrow> vnode b s \<Longrightarrow> vnode b h \<Longrightarrow> vnode b l \<Longrightarrow> safe (shift_of ic s h l) (\<lambda>_ _. True) b"
  unfolding shift_of_def
  by (assumption | erule conjE | rule safe_insert_label safe_add_br safe_shape tr_safe safe_port safe_node_at' vopt_SomeI | erule safe_trans)+

lemma safe_shift_immediate [tr_safe]:
  "wf_builder b \<Longrightarrow> vnode b s \<Longrightarrow> vnode b a \<Longrightarrow> safe (shift_immediate x s a) (\<lambda>_ _. True) b"
  unfolding shift_immediate_def
  by (assumption | erule conjE | rule safe_insert_label safe_add_br safe_shape tr_safe safe_port safe_node_at' vopt_SomeI | erule safe_trans)+

lemma safe_end_labels [tr_safe]:
  "wf_builder b \<Longrightarrow> safe (end_labels z o') (\<lambda>_ _. True) b"
  unfolding end_labels_def
  by (assumption | erule conjE | rule safe_insert_label safe_add_br safe_shape tr_safe safe_port safe_node_at' vopt_SomeI | erule safe_trans)+

lemma safe_last_shifted_bit [tr_safe]:
  "wf_builder b \<Longrightarrow> vnode b s \<Longrightarrow> vnode b a \<Longrightarrow> safe (last_shifted_bit lft s a) okn b"
  unfolding last_shifted_bit_def
  by (assumption | erule conjE | rule safe_insert_label safe_add_br safe_shape tr_safe safe_port safe_node_at' vopt_SomeI | erule safe_trans)+

lemma safe_shift_register [tr_safe]:
  "wf_builder b \<Longrightarrow> vnode b s \<Longrightarrow> vnode b a \<Longrightarrow> safe (shift_register x s a) (\<lambda>_ _. True) b"
  unfolding shift_register_def cond_br_if_def
  by (assumption | erule conjE | rule safe_insert_label safe_add_br safe_shape tr_safe safe_port safe_node_at' vopt_SomeI | erule safe_trans)+

lemma safe_double_immediate [tr_safe]:
  "wf_builder b \<Longrightarrow> vnode b s \<Longrightarrow> vnode b i \<Longrightarrow> vnode b a \<Longrightarrow> safe (double_immediate x s i a) (\<lambda>_ _. True) b"
  unfolding double_immediate_def
  by (assumption | erule conjE | rule safe_insert_label safe_add_br safe_shape tr_safe safe_port safe_node_at' vopt_SomeI | erule safe_trans)+

lemma safe_double_register [tr_safe]:
  "wf_builder b \<Longrightarrow> vnode b s \<Longrightarrow> vnode b i \<Longrightarrow> vnode b a \<Longrightarrow> safe (double_register x s i a) (\<lambda>_ _. True) b"
  unfolding double_register_def cond_br_if_def Let_def
  by (assumption | erule conjE | rule safe_insert_label safe_add_br safe_shape tr_safe safe_port safe_node_at' vopt_SomeI | erule safe_trans)+

lemma safe_psrl_translate [tr_safe]:
  "wf_builder b \<Longrightarrow> vnode b s \<Longrightarrow> vnode b a \<Longrightarrow> safe (psrl_translate x s a) (\<lambda>_ _. True) b"
  unfolding psrl_translate_def Let_def
  by (assumption | erule conjE | rule safe_insert_label safe_add_br safe_shape tr_safe safe_port safe_node_at' vopt_SomeI | erule safe_trans)+

lemma safe_shift_bytes [tr_safe]:
  assumes "wf_builder b" and "vnode b s" and "vnode b a"
    and "\<And>p q b. wf_builder b \<Longrightarrow> vport b p \<Longrightarrow> vport b q \<Longrightarrow> safe (ins p q) okn b"
  shows "safe (shift_bytes x ins s a) (\<lambda>_ _. True) b"
  unfolding shift_bytes_def
  by (insert assms(1-3)) (assumption | rule safe_shape tr_safe safe_port safe_node_at' assms(4) | erule safe_trans)+

lemma safe_rotate_translate [tr_safe]:
  "wf_builder b \<Longrightarrow> safe (rotate_translate x lft) (\<lambda>_ _. True) b"
  unfolding rotate_translate_def
  by (assumption | erule conjE | rule safe_insert_label safe_add_br safe_shape tr_safe safe_port safe_node_at' vopt_SomeI | erule safe_trans)+

lemma safe_pslld_translate [tr_safe]:
  "wf_builder b \<Longrightarrow> safe (pslld_translate x) (\<lambda>_ _. True) b"
  unfolding pslld_translate_def
  by (assumption | erule conjE | rule safe_insert_label safe_add_br safe_shape tr_safe safe_port safe_node_at' vopt_SomeI | erule safe_trans)+

lemma safe_shifts_translate [tr_safe]:
  "wf_builder b \<Longrightarrow> safe (shifts_translate x) (\<lambda>_ _. True) b"
  unfolding shifts_translate_def Let_def
  by (assumption | erule conjE | rule safe_insert_label safe_add_br safe_shape tr_safe safe_port safe_node_at' vopt_SomeI | erule safe_trans)+

lemma safe_repe_cmpsb_translate [tr_safe]:
  "wf_builder b \<Longrightarrow> safe repe_cmpsb_translate (\<lambda>_ _. True) b"
  unfolding repe_cmpsb_translate_def
  by (assumption | erule conjE | rule safe_insert_label safe_add_br safe_shape tr_safe safe_port safe_node_at' vopt_SomeI | erule safe_trans)+

lemma safe_df_is_set [tr_safe]:
  "wf_builder b \<Longrightarrow> safe df_is_set okn b"
  unfolding df_is_set_def
  by (assumption | erule conjE | rule safe_insert_label safe_add_br safe_shape tr_safe safe_port safe_node_at' vopt_SomeI | erule safe_trans)+

lemma safe_rep_stos_translate [tr_safe]:
  "wf_builder b \<Longrightarrow> safe (rep_stos_translate x k) (\<lambda>_ _. True) b"
  unfolding rep_stos_translate_def step_reg_def
  by (assumption | erule conjE | rule safe_insert_label safe_add_br safe_shape tr_safe safe_port safe_node_at' vopt_SomeI | erule safe_trans)+

lemma safe_rep_movs_translate [tr_safe]:
  "wf_builder b \<Longrightarrow> safe (rep_movs_translate k) (\<lambda>_ _. True) b"
  unfolding rep_movs_translate_def step_reg_def
  by (assumption | erule conjE | rule safe_insert_label safe_add_br safe_shape tr_safe safe_port safe_node_at' vopt_SomeI | erule safe_trans)+

lemma safe_rep_translate [tr_safe]:
  "wf_builder b \<Longrightarrow> safe (rep_translate x) (\<lambda>_ _. True) b"
  unfolding rep_translate_def Let_def
  by (assumption | erule conjE | rule safe_insert_label safe_add_br safe_shape tr_safe safe_port safe_node_at' vopt_SomeI | erule safe_trans)+

section \<open>Data movement and atomics\<close>

lemma safe_lea_translate [tr_safe]:
  "wf_builder b \<Longrightarrow> safe (lea_translate x) (\<lambda>_ _. True) b"
  unfolding lea_translate_def
  by (assumption | erule conjE | rule safe_insert_label safe_add_br safe_shape tr_safe safe_port safe_node_at' vopt_SomeI | erule safe_trans)+

lemma safe_widen_immediate [tr_safe]:
  "wf_builder b \<Longrightarrow> vnode b n \<Longrightarrow> safe (widen_immediate x n) okn b"
  unfolding widen_immediate_def
  by (assumption | erule conjE | rule safe_insert_label safe_add_br safe_shape tr_safe safe_port safe_node_at' vopt_SomeI | erule safe_trans)+

lemma safe_plain_mov_translate [tr_safe]:
  "wf_builder b \<Longrightarrow> safe (plain_mov_translate x) (\<lambda>_ _. True) b"
  unfolding plain_mov_translate_def
  by (assumption | erule conjE | rule safe_insert_label safe_add_br safe_shape tr_safe safe_port safe_node_at' vopt_SomeI | erule safe_trans)+

lemma safe_sign_half [tr_safe]:
  "wf_builder b \<Longrightarrow> safe (sign_half st wt h) (\<lambda>_ _. True) b"
  unfolding sign_half_def
  by (assumption | erule conjE | rule safe_insert_label safe_add_br safe_shape tr_safe safe_port safe_node_at' vopt_SomeI | erule safe_trans)+

lemma safe_cdq_translate [tr_safe]:
  "wf_builder b \<Longrightarrow> safe (cdq_translate x) (\<lambda>_ _. True) b"
  unfolding cdq_translate_def
  by (assumption | erule conjE | rule safe_insert_label safe_add_br safe_shape tr_safe safe_port safe_node_at' vopt_SomeI | erule safe_trans)+

lemma safe_cdqe_translate [tr_safe]:
  "wf_builder b \<Longrightarrow> safe (cdqe_translate x) (\<lambda>_ _. True) b"
  unfolding cdqe_translate_def
  by (assumption | erule conjE | rule safe_insert_label safe_add_br safe_shape tr_safe safe_port safe_node_at' vopt_SomeI | erule safe_trans)+

lemma safe_low_quad [tr_safe]:
  "wf_builder b \<Longrightarrow> vnode b n \<Longrightarrow> safe (low_quad n) okn b"
  unfolding low_quad_def
  by (assumption | erule conjE | rule safe_insert_label safe_add_br safe_shape tr_safe safe_port safe_node_at' vopt_SomeI | erule safe_trans)+

lemma safe_movq_translate [tr_safe]:
  "wf_builder b \<Longrightarrow> safe (movq_translate x) (\<lambda>_ _. True) b"
  unfolding movq_translate_def
  by (assumption | erule conjE | rule safe_insert_label safe_add_br safe_shape tr_safe safe_port safe_node_at' vopt_SomeI | erule safe_trans)+

lemma safe_movsxd_translate [tr_safe]:
  "wf_builder b \<Longrightarrow> safe (movsxd_translate x) (\<lambda>_ _. True) b"
  unfolding movsxd_translate_def
  by (assumption | erule conjE | rule safe_insert_label safe_add_br safe_shape tr_safe safe_port safe_node_at' vopt_SomeI | erule safe_trans)+

lemma safe_movzx_translate [tr_safe]:
  "wf_builder b \<Longrightarrow> safe (movzx_translate x) (\<lambda>_ _. True) b"
  unfolding movzx_translate_def
  by (assumption | erule conjE | rule safe_insert_label safe_add_br safe_shape tr_safe safe_port safe_node_at' vopt_SomeI | erule safe_trans)+

lemma safe_movsx_translate [tr_safe]:
  "wf_builder b \<Longrightarrow> safe (movsx_translate x) (\<lambda>_ _. True) b"
  unfolding movsx_translate_def
  by (assumption | erule conjE | rule safe_insert_label safe_add_br safe_shape tr_safe safe_port safe_node_at' vopt_SomeI | erule safe_trans)+

lemma safe_movd_translate [tr_safe]:
  "wf_builder b \<Longrightarrow> safe (movd_translate x) (\<lambda>_ _. True) b"
  unfolding movd_translate_def
  by (assumption | erule conjE | rule safe_insert_label safe_add_br safe_shape tr_safe safe_port safe_node_at' vopt_SomeI | erule safe_trans)+

lemma safe_movsd_xmm_translate [tr_safe]:
  "wf_builder b \<Longrightarrow> safe (movsd_xmm_translate x) (\<lambda>_ _. True) b"
  unfolding movsd_xmm_translate_def
  by (assumption | erule conjE | rule safe_insert_label safe_add_br safe_shape tr_safe safe_port safe_node_at' vopt_SomeI | erule safe_trans)+

lemma safe_movs_translate [tr_safe]:
  "wf_builder b \<Longrightarrow> safe (movs_translate k) (\<lambda>_ _. True) b"
  unfolding movs_translate_def step_reg_def
  by (assumption | erule conjE | rule safe_insert_label safe_add_br safe_shape tr_safe safe_port safe_node_at' vopt_SomeI | erule safe_trans)+

lemma safe_copy_translate [tr_safe]:
  "wf_builder b \<Longrightarrow> safe (copy_translate x) (\<lambda>_ _. True) b"
  unfolding copy_translate_def
  by (assumption | erule conjE | rule safe_insert_label safe_add_br safe_shape tr_safe safe_port safe_node_at' vopt_SomeI | erule safe_trans)+

lemma safe_mov_half_translate [tr_safe]:
  "wf_builder b \<Longrightarrow> safe (mov_half_translate x at) (\<lambda>_ _. True) b"
  unfolding mov_half_translate_def
  by (assumption | erule conjE | rule safe_insert_label safe_add_br safe_shape tr_safe safe_port safe_node_at' vopt_SomeI | erule safe_trans)+

lemma safe_movss_source [tr_safe]:
  "wf_builder b \<Longrightarrow> vnode b n \<Longrightarrow> safe (movss_source n) okp b"
  unfolding movss_source_def
  by (assumption | erule conjE | rule safe_insert_label safe_add_br safe_shape tr_safe safe_port safe_node_at' vopt_SomeI | erule safe_trans)+

lemma safe_movss_zero_rest [tr_safe]:
  "wf_builder b \<Longrightarrow> vnode b n \<Longrightarrow> safe (movss_zero_rest n) okn b"
  unfolding movss_zero_rest_def
  by (assumption | erule conjE | rule safe_insert_label safe_add_br safe_shape tr_safe safe_port safe_node_at' vopt_SomeI | erule safe_trans)+

lemma safe_movss_translate [tr_safe]:
  "wf_builder b \<Longrightarrow> safe (movss_translate x) (\<lambda>_ _. True) b"
  unfolding movss_translate_def
  by (assumption | erule conjE | rule safe_insert_label safe_add_br safe_shape tr_safe safe_port safe_node_at' vopt_SomeI | erule safe_trans)+

lemma safe_mov_translate [tr_safe]:
  "wf_builder b \<Longrightarrow> safe (mov_translate x) (\<lambda>_ _. True) b"
  unfolding mov_translate_def Let_def
  by (assumption | erule conjE | rule safe_insert_label safe_add_br safe_shape tr_safe safe_port safe_node_at' vopt_SomeI | erule safe_trans)+

lemma safe_xadd_lock_translate [tr_safe]:
  "wf_builder b \<Longrightarrow> safe (xadd_lock_translate x) (\<lambda>_ _. True) b"
  unfolding xadd_lock_translate_def
  by (assumption | erule conjE | rule safe_insert_label safe_add_br safe_shape tr_safe safe_port safe_node_at' vopt_SomeI | erule safe_trans)+

lemma safe_xchg_memory [tr_safe]:
  "wf_builder b \<Longrightarrow> safe (xchg_memory x i j) (\<lambda>_ _. True) b"
  unfolding xchg_memory_def
  by (assumption | erule conjE | rule safe_insert_label safe_add_br safe_shape tr_safe safe_port safe_node_at' vopt_SomeI | erule safe_trans)+

lemma safe_xchg_registers [tr_safe]:
  "wf_builder b \<Longrightarrow> safe (xchg_registers x) (\<lambda>_ _. True) b"
  unfolding xchg_registers_def
  by (assumption | erule conjE | rule safe_insert_label safe_add_br safe_shape tr_safe safe_port safe_node_at' vopt_SomeI | erule safe_trans)+

lemma safe_xchg_translate [tr_safe]:
  "wf_builder b \<Longrightarrow> safe (xchg_translate x) (\<lambda>_ _. True) b"
  unfolding xchg_translate_def
  by (assumption | erule conjE | rule safe_insert_label safe_add_br safe_shape tr_safe safe_port safe_node_at' vopt_SomeI | erule safe_trans)+

lemma safe_cmpxchg_lock_translate [tr_safe]:
  "wf_builder b \<Longrightarrow> safe (cmpxchg_lock_translate x) (\<lambda>_ _. True) b"
  unfolding cmpxchg_lock_translate_def
  by (assumption | erule conjE | rule safe_insert_label safe_add_br safe_shape tr_safe safe_port safe_node_at' vopt_SomeI | erule safe_trans)+

lemma safe_atomic_binop_translate [tr_safe]:
  "wf_builder b \<Longrightarrow> safe (atomic_binop_translate x op' cf ovf af) (\<lambda>_ _. True) b"
  unfolding atomic_binop_translate_def
  by (assumption | erule conjE | rule safe_insert_label safe_add_br safe_shape tr_safe safe_port safe_node_at' vopt_SomeI | erule safe_trans)+

lemma safe_atomic_step_translate [tr_safe]:
  "wf_builder b \<Longrightarrow> safe (atomic_step_translate x op') (\<lambda>_ _. True) b"
  unfolding atomic_step_translate_def
  by (assumption | erule conjE | rule safe_insert_label safe_add_br safe_shape tr_safe safe_port safe_node_at' vopt_SomeI | erule safe_trans)+

lemma safe_atomic_translate [tr_safe]:
  "wf_builder b \<Longrightarrow> safe (atomic_translate x) (\<lambda>_ _. True) b"
  unfolding atomic_translate_def Let_def
  by (assumption | erule conjE | rule safe_insert_label safe_add_br safe_shape tr_safe safe_port safe_node_at' vopt_SomeI | erule safe_trans)+

end
