(* ===== verification/X86_Vector.thy ===== *)
theory X86_Vector
  imports X86_Binop
begin

text \<open>
  Multiplication and division (\<open>input/x86/translators/muldiv.cpp\<close>), unpacking and packing
  (\<open>punpck.cpp\<close>), shuffles (\<open>shuffle.cpp\<close>) and floating-point vector arithmetic and
  conversions (\<open>fpvec.cpp\<close>).  The element loops run at translation time, so they are
  folds over the element indices.  Casts to \<open>constant_node\<close> ask \<open>constant_of\<close>.
\<close>

definition put_operand :: "xed_inst \<Rightarrow> nat \<Rightarrow> node_id \<Rightarrow> unit tr" where
  "put_operand x k n = andthen (write_operand x k (val n)) (ret ())"

definition select_constant :: "node_id \<Rightarrow> ulong tr" where
  "select_constant n = bnd (node_at n) (\<lambda>nd. lift_res (constant_of nd))"

definition as_vector :: "value_type \<Rightarrow> nat \<Rightarrow> node_id \<Rightarrow> node_id tr" where
  "as_vector t n s = insert_bitcast (vector_type t n) (val s)"

text \<open>\<open>insert_bitcast(type.get_signed_type(), val)\<close>.\<close>

definition as_signed :: "node_id \<Rightarrow> node_id tr" where
  "as_signed n =
     bnd (type_of_port (val n)) (\<lambda>t.
     bnd (lift_res (get_signed_type t)) (\<lambda>st.
     insert_bitcast st (val n)))"

definition double_type :: "value_type_class \<Rightarrow> value_type \<Rightarrow> value_type" where
  "double_type tc t = mk_value_type tc (element_width t * 2) (nr_elements t)"

section \<open>\<open>muldiv_translator::do_translate\<close>\<close>

text \<open>The operands but the last; with no operand the array has length \<open>UINT_MAX\<close>.\<close>

fun read_operands :: "xed_inst \<Rightarrow> nat list \<Rightarrow> node_id list tr" where
  "read_operands x [] = ret []"
| "read_operands x (i # is) =
     bnd (read_operand x i) (\<lambda>n. bnd (read_operands x is) (\<lambda>ns. ret (n # ns)))"

definition read_sources :: "xed_inst \<Rightarrow> node_id list tr" where
  "read_sources x =
     (if op_names x = [] then throw (Undefined_behaviour ''array of negative length'')
      else read_operands x [0..<length (op_names x) - 1])"

definition op_at :: "node_id list \<Rightarrow> nat \<Rightarrow> node_id tr" where
  "op_at ops k = (if k < length ops then ret (ops ! k) else throw (Undefined_behaviour ''array bounds''))"

text \<open>A double-width product goes to AX or to operands 1 and 2.\<close>

definition store_product :: "xed_inst \<Rightarrow> value_type \<Rightarrow> node_id \<Rightarrow> unit tr" where
  "store_product x t rslt =
     (if width t = 8 then andthen (write_reg off_RAX (val rslt)) (ret ())
      else
        bnd (insert_bit_extract (val rslt) 0 (of_nat (width t))) (\<lambda>low.
        bnd (insert_bit_extract (val rslt) (of_nat (width t)) (of_nat (width t))) (\<lambda>high.
        andthen (put_operand x 1 low)
        (put_operand x 2 high))))"

definition product_flags :: "node_id \<Rightarrow> unit tr" where
  "product_flags rslt = write_flags (Some rslt) Ignore Update Update Ignore Ignore Ignore"

definition mul_translate :: "xed_inst \<Rightarrow> node_id list \<Rightarrow> unit tr" where
  "mul_translate x ops =
     bnd (op_at ops 1) (\<lambda>o1.
     bnd (type_of_port (val o1)) (\<lambda>t1.
     bnd (insert_zx (double_type unsigned_integer t1) (val o1)) (\<lambda>ax.
     bnd (op_at ops 0) (\<lambda>o0.
     bnd (type_of_port (val ax)) (\<lambda>at.
     bnd (insert_zx at (val o0)) (\<lambda>castop.
     bnd (insert_mul (val ax) (val castop)) (\<lambda>rslt.
     bnd (type_of_port (val o0)) (\<lambda>t0.
     andthen (store_product x t0 rslt)
     (product_flags rslt)))))))))"

text \<open>The signed product of two operands at double width.\<close>

definition signed_product :: "node_id \<Rightarrow> node_id \<Rightarrow> node_id tr" where
  "signed_product l r =
     bnd (as_signed l) (\<lambda>lc.
     bnd (as_signed r) (\<lambda>rc.
     bnd (type_of_port (val lc)) (\<lambda>lt.
     bnd (insert_sx (double_type signed_integer lt) (val lc)) (\<lambda>le.
     bnd (insert_sx (double_type signed_integer lt) (val rc)) (\<lambda>re.
     insert_mul (val le) (val re))))))"

definition imul2_translate :: "xed_inst \<Rightarrow> node_id list \<Rightarrow> unit tr" where
  "imul2_translate x ops =
     bnd (op_at ops 0) (\<lambda>o0.
     bnd (op_at ops 1) (\<lambda>o1.
     bnd (signed_product o0 o1) (\<lambda>rslt.
     bnd (type_of_port (val o0)) (\<lambda>t0.
     bnd (lift_res (get_signed_type t0)) (\<lambda>st.
     bnd (insert_trunc st (val rslt)) (\<lambda>tr1.
     bnd (insert_bitcast t0 (val tr1)) (\<lambda>tr2.
     andthen (put_operand x 0 tr2)
     (product_flags rslt))))))))"

definition imul1_translate :: "xed_inst \<Rightarrow> node_id list \<Rightarrow> unit tr" where
  "imul1_translate x ops =
     bnd (op_at ops 0) (\<lambda>o0.
     bnd (op_at ops 1) (\<lambda>o1.
     bnd (as_signed o1) (\<lambda>ax0.
     bnd (type_of_port (val ax0)) (\<lambda>at.
     bnd (insert_bitcast at (val o0)) (\<lambda>c0.
     bnd (insert_sx (double_type signed_integer at) (val ax0)) (\<lambda>ax.
     bnd (insert_sx (double_type signed_integer at) (val c0)) (\<lambda>c1.
     bnd (insert_mul (val ax) (val c1)) (\<lambda>rslt.
     bnd (type_of_port (val o0)) (\<lambda>t0.
     andthen (store_product x t0 rslt)
     (product_flags rslt))))))))))"

definition imul3_translate :: "xed_inst \<Rightarrow> node_id list \<Rightarrow> unit tr" where
  "imul3_translate x ops =
     bnd (op_at ops 0) (\<lambda>o0.
     bnd (op_at ops 1) (\<lambda>o1.
     bnd (op_at ops 2) (\<lambda>o2.
     bnd (signed_product o1 o2) (\<lambda>rslt.
     bnd (type_of_port (val o0)) (\<lambda>t0.
     bnd (lift_res (get_signed_type t0)) (\<lambda>st.
     bnd (insert_trunc st (val rslt)) (\<lambda>tr1.
     bnd (insert_bitcast t0 (val tr1)) (\<lambda>tr2.
     andthen (put_operand x 0 tr2)
     (product_flags rslt)))))))))"

definition imul_translate :: "xed_inst \<Rightarrow> node_id list \<Rightarrow> unit tr" where
  "imul_translate x ops =
     (if length ops = 2 then imul2_translate x ops
      else if length ops = 3 then
        bnd (op_at ops 2) (\<lambda>o2.
        bnd (node_at o2) (\<lambda>nd.
        if kind (n_data nd) \<noteq> K_constant then imul1_translate x ops else imul3_translate x ops))
      else throw (Runtime_error ''unsupported number of operands for IMUL''))"

text \<open>The dividend of DIV and IDIV: operand 2 above operand 1.\<close>

definition dividend :: "node_id \<Rightarrow> node_id \<Rightarrow> node_id tr" where
  "dividend low high =
     bnd (type_of_port (val low)) (\<lambda>lt.
     bnd (insert_zx (mk_value_type unsigned_integer (element_width lt * 2) 1) (val low)) (\<lambda>d.
     insert_bit_insert (val d) (val high) (of_nat (element_width lt)) (of_nat (element_width lt))))"

definition div_results :: "xed_inst \<Rightarrow> value_type \<Rightarrow> node_id \<Rightarrow> node_id \<Rightarrow> unit tr" where
  "div_results x out_type num den =
     bnd (insert_div (val num) (val den)) (\<lambda>quo.
     bnd (insert_mod (val num) (val den)) (\<lambda>rem.
     bnd (insert_trunc out_type (val quo)) (\<lambda>quo1.
     bnd (insert_trunc out_type (val rem)) (\<lambda>rem1.
     andthen (put_operand x 1 quo1)
     (put_operand x 2 rem1)))))"

definition idiv_translate :: "xed_inst \<Rightarrow> node_id list \<Rightarrow> unit tr" where
  "idiv_translate x ops =
     bnd (op_at ops 1) (\<lambda>o1.
     bnd (op_at ops 2) (\<lambda>o2.
     bnd (dividend o1 o2) (\<lambda>d0.
     bnd (as_signed d0) (\<lambda>num.
     bnd (op_at ops 0) (\<lambda>o0.
     bnd (as_signed o0) (\<lambda>den0.
     bnd (type_of_port (val den0)) (\<lambda>out_type.
     bnd (type_of_port (val num)) (\<lambda>nt.
     bnd (insert_sx nt (val den0)) (\<lambda>den.
     div_results x out_type num den)))))))))"

definition div_translate :: "xed_inst \<Rightarrow> node_id list \<Rightarrow> unit tr" where
  "div_translate x ops =
     bnd (op_at ops 1) (\<lambda>o1.
     bnd (type_of_port (val o1)) (\<lambda>t1.
     bnd (op_at ops 2) (\<lambda>o2.
     bnd (dividend o1 o2) (\<lambda>num.
     bnd (op_at ops 0) (\<lambda>o0.
     bnd (insert_zx (mk_value_type unsigned_integer (element_width t1 * 2) 1) (val o0)) (\<lambda>den.
     div_results x t1 num den))))))"

text \<open>One 32 by 32 bit product of PMULUDQ.\<close>

definition lane_product :: "node_id \<Rightarrow> node_id \<Rightarrow> nat \<Rightarrow> node_id tr" where
  "lane_product dv sv i =
     bnd (insert_vector_extract (val dv) i) (\<lambda>a.
     bnd (insert_zx u64 (val a)) (\<lambda>az.
     bnd (insert_vector_extract (val sv) i) (\<lambda>b.
     bnd (insert_zx u64 (val b)) (\<lambda>bz.
     insert_mul (val az) (val bz)))))"

definition pmuludq_mmx :: "xed_inst \<Rightarrow> node_id \<Rightarrow> node_id \<Rightarrow> unit tr" where
  "pmuludq_mmx x dst src =
     bnd (insert_bit_extract (val dst) 0 32) (\<lambda>dl.
     bnd (insert_zx u64 (val dl)) (\<lambda>dz.
     bnd (insert_bit_extract (val src) 0 32) (\<lambda>sl.
     bnd (insert_zx u64 (val sl)) (\<lambda>sz.
     bnd (insert_mul (val dz) (val sz)) (\<lambda>m.
     put_operand x 0 m)))))"

definition pmuludq_xmm :: "xed_inst \<Rightarrow> node_id \<Rightarrow> node_id \<Rightarrow> unit tr" where
  "pmuludq_xmm x dst src =
     bnd (as_vector u32 4 dst) (\<lambda>dv.
     bnd (as_vector u32 4 src) (\<lambda>sv.
     bnd (lane_product dv sv 0) (\<lambda>m0.
     bnd (lane_product dv sv 2) (\<lambda>m1.
     bnd (insert_bit_insert (val dst) (val m0) 0 64) (\<lambda>d1.
     bnd (insert_bit_insert (val d1) (val m1) 64 64) (\<lambda>d2.
     put_operand x 0 d2))))))"

definition pmuludq_translate :: "xed_inst \<Rightarrow> unit tr" where
  "pmuludq_translate x =
     bnd (read_operand x 0) (\<lambda>dst.
     bnd (read_operand x 1) (\<lambda>src.
     bnd (type_of_port (val dst)) (\<lambda>dt.
     if width dt = 64 then pmuludq_mmx x dst src else pmuludq_xmm x dst src)))"

definition pmullw_step :: "node_id \<Rightarrow> nat \<Rightarrow> node_id \<Rightarrow> node_id tr" where
  "pmullw_step src i dst =
     bnd (insert_vector_extract (val dst) i) (\<lambda>d.
     bnd (insert_sx s32 (val d)) (\<lambda>de.
     bnd (insert_vector_extract (val src) i) (\<lambda>s.
     bnd (insert_sx s32 (val s)) (\<lambda>se.
     bnd (insert_mul (val de) (val se)) (\<lambda>m.
     bnd (insert_bit_extract (val m) 0 16) (\<lambda>r.
     insert_vector_insert (val dst) i (val r)))))))"

definition pmullw_translate :: "xed_inst \<Rightarrow> unit tr" where
  "pmullw_translate x =
     bnd (read_operand x 0) (\<lambda>dst0.
     bnd (read_operand x 1) (\<lambda>src0.
     bnd (type_of_port (val dst0)) (\<lambda>dt.
     bnd (as_vector s16 (width dt div 16) dst0) (\<lambda>dst.
     bnd (as_vector s16 (width dt div 16) src0) (\<lambda>src.
     bnd (fold_prog [0..<width dt div 16] (pmullw_step src) dst) (\<lambda>res.
     put_operand x 0 res))))))"

definition muldiv_translate :: "xed_inst \<Rightarrow> unit tr" where
  "muldiv_translate x =
     bnd (read_sources x) (\<lambda>ops.
     (let ic = iclass x in
      if ic = ''MUL'' then mul_translate x ops
      else if ic = ''IMUL'' then imul_translate x ops
      else if ic = ''IDIV'' then idiv_translate x ops
      else if ic = ''DIV'' then div_translate x ops
      else if ic = ''PMULUDQ'' then pmuludq_translate x
      else if ic = ''PMULLW'' then pmullw_translate x
      else throw (Runtime_error ''unsupported mul/div operation'')))"

section \<open>\<open>punpck_translator::do_translate\<close>\<close>

text \<open>The case of UNPCKHPD has no \<open>break\<close>: it goes on with the code of PUNPCKLQDQ.\<close>

definition unpckhpd_part :: "xed_inst \<Rightarrow> node_id \<Rightarrow> node_id \<Rightarrow> unit tr" where
  "unpckhpd_part x op0 op1 =
     bnd (as_vector f64 2 op0) (\<lambda>v0.
     bnd (as_vector f64 2 op1) (\<lambda>v1.
     bnd (insert_vector_extract (val v0) 1) (\<lambda>e0.
     bnd (insert_vector_extract (val v1) 1) (\<lambda>e1.
     bnd (as_vector f64 2 op0) (\<lambda>dst.
     bnd (insert_vector_insert (val dst) 0 (val e0)) (\<lambda>d1.
     bnd (insert_vector_insert (val d1) 1 (val e1)) (\<lambda>d2.
     put_operand x 0 d2)))))))"

definition unpack_size :: "string \<Rightarrow> nat" where
  "unpack_size ic =
     (if ic \<in> {''PUNPCKLBW'', ''PUNPCKHBW''} then 8
      else if ic \<in> {''PUNPCKLWD'', ''PUNPCKHWD''} then 16
      else if ic \<in> {''PUNPCKLDQ'', ''PUNPCKHDQ''} then 32 else 64)"

text \<open>Elements \<open>i + base\<close> of both sources, interleaved.\<close>

definition interleave_step :: "nat \<Rightarrow> node_id \<Rightarrow> node_id \<Rightarrow> nat \<Rightarrow> node_id \<Rightarrow> node_id tr" where
  "interleave_step base v0 v1 i dst =
     bnd (insert_vector_extract (val v0) (i + base)) (\<lambda>e0.
     bnd (insert_vector_insert (val dst) (i * 2) (val e0)) (\<lambda>d1.
     bnd (insert_vector_extract (val v1) (i + base)) (\<lambda>e1.
     insert_vector_insert (val d1) (i * 2 + 1) (val e1))))"

definition unpack_translate :: "xed_inst \<Rightarrow> bool \<Rightarrow> node_id \<Rightarrow> node_id \<Rightarrow> unit tr" where
  "unpack_translate x high op0 op1 =
     bnd (type_of_port (val op0)) (\<lambda>t0.
     (let sz = unpack_size (iclass x); n = width t0 div sz; et = mk_value_type unsigned_integer sz 1 in
     bnd (as_vector et n op0) (\<lambda>v0.
     bnd (as_vector et n op1) (\<lambda>v1.
     bnd (fold_prog [0..<n div 2] (interleave_step (if high then n div 2 else 0) v0 v1) v0) (\<lambda>dst.
     put_operand x 0 dst)))))"

text \<open>One byte of PACKUSWB.  The three insertions follow each other in the graph: each
  starts from the result of the one before.\<close>

definition packuswb_step :: "nat \<Rightarrow> node_id \<Rightarrow> node_id \<Rightarrow> nat \<Rightarrow> node_id \<Rightarrow> node_id tr" where
  "packuswb_step n dst src i bytes =
     bnd (if i < n then insert_vector_extract (val dst) i else insert_vector_extract (val src) (i - n)) (\<lambda>word.
     bnd (insert_constant_s16 0) (\<lambda>z.
     bnd (insert_cmpgt (val z) (val word)) (\<lambda>neg.
     bnd (insert_cond_br (val neg) None) (\<lambda>br_neg.
     bnd (insert_constant_s16 0xFF00) (\<lambda>m.
     bnd (insert_and (val word) (val m)) (\<lambda>hi.
     bnd (insert_constant_s16 0) (\<lambda>z2.
     bnd (insert_cmpne (val hi) (val z2)) (\<lambda>ovf.
     bnd (insert_cond_br (val ovf) None) (\<lambda>br_of.
     bnd (insert_bitcast u16 (val word)) (\<lambda>uns.
     bnd (insert_trunc u8 (val uns)) (\<lambda>low.
     bnd (insert_vector_insert (val bytes) i (val low)) (\<lambda>b1.
     bnd (insert_br None) (\<lambda>br_end.
     bnd (insert_label ''negative'') (\<lambda>neg_label.
     andthen (builder_add_br_target br_neg neg_label)
     (bnd (insert_constant_u8 0) (\<lambda>c0.
     bnd (insert_vector_insert (val b1) i (val c0)) (\<lambda>b2.
     bnd (insert_br None) (\<lambda>br_end2.
     bnd (insert_label ''overflow'') (\<lambda>of_label.
     andthen (builder_add_br_target br_of of_label)
     (bnd (insert_constant_u8 0xFF) (\<lambda>cF.
     bnd (insert_vector_insert (val b2) i (val cF)) (\<lambda>b3.
     bnd (insert_label ''end'') (\<lambda>end_label.
     bnd (insert_label ''end'') (\<lambda>end_label1.
     andthen (builder_add_br_target br_end end_label)
     (andthen (builder_add_br_target br_end2 end_label1)
     (ret b3))))))))))))))))))))))))))"

definition packuswb_translate :: "xed_inst \<Rightarrow> node_id \<Rightarrow> node_id \<Rightarrow> unit tr" where
  "packuswb_translate x op0 op1 =
     bnd (type_of_port (val op0)) (\<lambda>t0.
     (let n = (if width t0 = 64 then 4 else 8) in
     bnd (as_vector s16 n op0) (\<lambda>dst.
     bnd (as_vector s16 n op1) (\<lambda>src.
     bnd (as_vector s8 (n * 2) op0) (\<lambda>bytes.
     bnd (fold_prog [0..<n * 2] (packuswb_step n dst src) bytes) (\<lambda>res.
     put_operand x 0 res))))))"

definition packss_step ::
  "nat \<Rightarrow> value_type \<Rightarrow> node_id \<Rightarrow> node_id \<Rightarrow> node_id list \<Rightarrow> nat \<Rightarrow> node_id \<Rightarrow> node_id tr" where
  "packss_step n pst_ty dst src cs i res =
     bnd (if i < n then insert_vector_extract (val dst) i else insert_vector_extract (val src) (i - n)) (\<lambda>t.
     bnd (insert_cmpgt (val t) (val (cs ! 0))) (\<lambda>gt_max.
     bnd (insert_cmpgt (val (cs ! 1)) (val t)) (\<lambda>lt_min.
     bnd (insert_trunc pst_ty (val t)) (\<lambda>t1.
     bnd (insert_csel (val lt_min) (val (cs ! 3)) (val t1)) (\<lambda>t2.
     bnd (insert_csel (val gt_max) (val (cs ! 2)) (val t2)) (\<lambda>t3.
     insert_vector_insert (val res) i (val t3)))))))"

text \<open>The constants \<open>cmp_max\<close>, \<open>cmp_min\<close>, \<open>ins_max\<close>, \<open>ins_min\<close>.\<close>

definition packss_constants :: "string \<Rightarrow> node_id list tr" where
  "packss_constants ic =
     (if ic = ''PACKSSDW'' then
        bnd (insert_constant_s32 0x7FFF) (\<lambda>a. bnd (insert_constant_s32 0xFFFF8000) (\<lambda>b.
        bnd (insert_constant_s16 0x7FFF) (\<lambda>c. bnd (insert_constant_s16 0x8000) (\<lambda>d.
        ret [a, b, c, d]))))
      else
        bnd (insert_constant_s16 0x7F) (\<lambda>a. bnd (insert_constant_s16 0xFF80) (\<lambda>b.
        bnd (insert_constant_s8 0x7F) (\<lambda>c. bnd (insert_constant_s8 0x80) (\<lambda>d.
        ret [a, b, c, d])))))"

definition packss_translate :: "xed_inst \<Rightarrow> node_id \<Rightarrow> node_id \<Rightarrow> unit tr" where
  "packss_translate x op0 op1 =
     bnd (type_of_port (val op0)) (\<lambda>t0.
     bnd (packss_constants (iclass x)) (\<lambda>cs.
     (let pre = (if iclass x = ''PACKSSDW'' then s32 else s16); pst = (if iclass x = ''PACKSSDW'' then s16 else s8) in
     bnd (as_vector pre (width t0 div width pre) op0) (\<lambda>dst.
     bnd (as_vector pre (width t0 div width pre) op1) (\<lambda>src.
     bnd (as_vector pst (width t0 div width pst) op0) (\<lambda>r0.
     bnd (fold_prog [0..<width t0 div width pst] (packss_step (width t0 div width pre) pst dst src cs) r0) (\<lambda>r.
     put_operand x 0 r)))))))"

definition pextrw_translate :: "xed_inst \<Rightarrow> node_id \<Rightarrow> unit tr" where
  "pextrw_translate x op1 =
     bnd (read_operand x 2) (\<lambda>index.
     bnd (select_constant index) (\<lambda>c.
     bnd (as_vector u16 8 op1) (\<lambda>src.
     bnd (insert_vector_extract (val src) (unat (c AND 7))) (\<lambda>res.
     put_operand x 0 res))))"

definition punpck_translate :: "xed_inst \<Rightarrow> unit tr" where
  "punpck_translate x =
     bnd (read_operand x 0) (\<lambda>op0.
     bnd (read_operand x 1) (\<lambda>op1.
     (let ic = iclass x in
      if ic = ''UNPCKHPD'' then andthen (unpckhpd_part x op0 op1) (unpack_translate x False op0 op1)
      else if ic \<in> {''PUNPCKLBW'', ''PUNPCKLWD'', ''PUNPCKLDQ'', ''PUNPCKLQDQ''}
      then unpack_translate x False op0 op1
      else if ic \<in> {''PUNPCKHBW'', ''PUNPCKHWD'', ''PUNPCKHDQ'', ''PUNPCKHQDQ''}
      then unpack_translate x True op0 op1
      else if ic = ''PACKUSWB'' then packuswb_translate x op0 op1
      else if ic \<in> {''PACKSSDW'', ''PACKSSWB''} then packss_translate x op0 op1
      else if ic = ''PEXTRW'' then pextrw_translate x op1
      else throw (Runtime_error ''unsupported punpck operation''))))"

section \<open>\<open>shuffle_translator::do_translate\<close>\<close>

text \<open>One element moved: the destination index and the source index.\<close>

definition move_element :: "node_id \<Rightarrow> nat \<times> nat \<Rightarrow> node_id \<Rightarrow> node_id tr" where
  "move_element src m dst =
     bnd (insert_vector_extract (val src) (snd m)) (\<lambda>e. insert_vector_insert (val dst) (fst m) (val e))"

text \<open>Field \<open>i\<close> of the selector, \<open>bits\<close> wide.\<close>

definition selector :: "nat \<Rightarrow> ulong \<Rightarrow> nat \<Rightarrow> nat" where
  "selector bits c i = unat (drop_bit (bits * i) c AND mask bits)"

definition pshufhw_moves :: "ulong \<Rightarrow> (nat \<times> nat) list" where
  "pshufhw_moves c = map (\<lambda>i. (i + 4, selector 2 c i + 4)) [0..<4] @ map (\<lambda>i. (i, i)) [0..<4]"

definition pshuflw_moves :: "ulong \<Rightarrow> (nat \<times> nat) list" where
  "pshuflw_moves c = map (\<lambda>i. (i, selector 2 c i)) [0..<4] @ map (\<lambda>i. (i, i)) [4..<8]"

definition pshufd_moves :: "ulong \<Rightarrow> (nat \<times> nat) list" where
  "pshufd_moves c = map (\<lambda>i. (i, selector 2 c i)) [0..<4]"

definition pshufw_translate :: "xed_inst \<Rightarrow> (ulong \<Rightarrow> (nat \<times> nat) list) \<Rightarrow> unit tr" where
  "pshufw_translate x moves =
     bnd (read_operand x 0) (\<lambda>r0.
     bnd (as_vector u16 8 r0) (\<lambda>dst.
     bnd (read_operand x 1) (\<lambda>r1.
     bnd (as_vector u16 8 r1) (\<lambda>src.
     bnd (read_operand x 2) (\<lambda>r2.
     bnd (select_constant r2) (\<lambda>c.
     bnd (fold_prog (moves c) (move_element src) dst) (\<lambda>res.
     put_operand x 0 res)))))))"

definition pshufd_translate :: "xed_inst \<Rightarrow> unit tr" where
  "pshufd_translate x =
     bnd (read_operand x 2) (\<lambda>r2.
     bnd (select_constant r2) (\<lambda>c.
     bnd (read_operand x 0) (\<lambda>r0.
     bnd (as_vector u32 4 r0) (\<lambda>dst.
     bnd (read_operand x 1) (\<lambda>r1.
     bnd (as_vector u32 4 r1) (\<lambda>src.
     bnd (fold_prog (pshufd_moves c) (move_element src) dst) (\<lambda>res.
     put_operand x 0 res)))))))"

text \<open>SHUFPS and SHUFPD: the source is chosen by the selected index, not by the position.\<close>

definition shufp_step :: "nat \<Rightarrow> nat \<Rightarrow> ulong \<Rightarrow> node_id \<Rightarrow> node_id \<Rightarrow> nat \<Rightarrow> node_id \<Rightarrow> node_id tr" where
  "shufp_step n bits c src1 src2 i dst =
     bnd (insert_vector_extract (val (if selector bits c i < n div 2 then src1 else src2)) (selector bits c i)) (\<lambda>e.
     insert_vector_insert (val dst) i (val e))"

definition shufp_translate :: "xed_inst \<Rightarrow> unit tr" where
  "shufp_translate x =
     bnd (read_operand x 0) (\<lambda>dst.
     (let vt = (if iclass x = ''SHUFPS'' then vector_type f32 4 else vector_type f64 2); bits = (if iclass x = ''SHUFPS'' then 2 else 1) in
     bnd (read_operand x 0) (\<lambda>r0.
     bnd (auto_cast vt r0) (\<lambda>src1.
     bnd (read_operand x 1) (\<lambda>r1.
     bnd (auto_cast vt r1) (\<lambda>src2.
     bnd (read_operand x 2) (\<lambda>r2.
     bnd (select_constant r2) (\<lambda>c.
     bnd (fold_prog [0..<nr_elements vt] (shufp_step (nr_elements vt) bits c src1 src2) dst) (\<lambda>res.
     put_operand x 0 res)))))))))"

definition shuffle_translate :: "xed_inst \<Rightarrow> unit tr" where
  "shuffle_translate x =
     (let ic = iclass x in
      if ic = ''PSHUFHW'' then pshufw_translate x pshufhw_moves
      else if ic = ''PSHUFLW'' then pshufw_translate x pshuflw_moves
      else if ic = ''PSHUFD'' then pshufd_translate x
      else if ic \<in> {''SHUFPS'', ''SHUFPD''} then shufp_translate x
      else throw (Runtime_error ''unsupported shuffle instruction''))"

section \<open>\<open>fpvec_translator::do_translate\<close>\<close>

text \<open>Instructions whose operands are destination and source only; the rest of the table
  names two sources.\<close>

definition fp_scalar_single :: "string list" where
  "fp_scalar_single = [''ADDSS'', ''SUBSS'', ''DIVSS'', ''MULSS'', ''VADDSS'', ''VSUBSS'', ''VDIVSS'', ''VMULSS'']"

definition fp_scalar_double :: "string list" where
  "fp_scalar_double = [''ADDSD'', ''SUBSD'', ''DIVSD'', ''MULSD'', ''VADDSD'', ''VSUBSD'', ''VDIVSD'', ''VMULSD'']"

definition fp_two_operand :: "string list" where
  "fp_two_operand = [''SUBPD'', ''ADDPD'', ''ADDSD'', ''SUBSD'', ''DIVSD'', ''MULSD'', ''ADDSS'', ''SUBSS'',
     ''DIVSS'', ''MULSS'']"

text \<open>Element 0 of a 128-bit operand (\<open>w\<close> its width), or the operand itself as a float.\<close>

definition scalar_of :: "value_type \<Rightarrow> nat \<Rightarrow> nat \<Rightarrow> node_id \<Rightarrow> node_id tr" where
  "scalar_of ft n w s =
     (if w = 128 then bnd (as_vector ft n s) (\<lambda>vn. insert_vector_extract (val vn) 0)
      else insert_bitcast ft (val s))"

definition fp_scalar_prepare ::
  "value_type \<Rightarrow> nat \<Rightarrow> node_id \<Rightarrow> node_id \<Rightarrow> node_id \<Rightarrow> (node_id \<times> node_id \<times> node_id) tr" where
  "fp_scalar_prepare ft n dest src1 src2 =
     bnd (as_vector ft n dest) (\<lambda>d.
     bnd (as_vector ft n src1) (\<lambda>v1.
     bnd (insert_vector_extract (val v1) 0) (\<lambda>s1.
     bnd (type_of_port (val src2)) (\<lambda>t2.
     bnd (scalar_of ft n (width t2) src2) (\<lambda>s2.
     ret (d, s1, s2))))))"

definition fp_packed_prepare ::
  "value_type \<Rightarrow> nat \<Rightarrow> node_id \<Rightarrow> node_id \<Rightarrow> node_id \<Rightarrow> (node_id \<times> node_id \<times> node_id) tr" where
  "fp_packed_prepare ft n dest src1 src2 =
     bnd (as_vector ft n dest) (\<lambda>d.
     bnd (as_vector ft n src1) (\<lambda>s1.
     bnd (as_vector ft n src2) (\<lambda>s2.
     ret (d, s1, s2))))"

text \<open>The second switch; the two conversions from integers return from inside it.\<close>

definition fp_prepare ::
  "string \<Rightarrow> node_id \<Rightarrow> node_id \<Rightarrow> node_id \<Rightarrow> (node_id \<times> node_id \<times> node_id) tr" where
  "fp_prepare ic dest src1 src2 =
     (if ic = ''XORPS'' then fp_packed_prepare f32 4 dest src1 src2
      else if ic \<in> {''SUBPD'', ''ADDPD'', ''XORPD''} then fp_packed_prepare f64 2 dest src1 src2
      else if ic \<in> set fp_scalar_single then fp_scalar_prepare f32 4 dest src1 src2
      else if ic \<in> set fp_scalar_double then fp_scalar_prepare f64 2 dest src1 src2
      else if ic \<in> {''CVTSD2SS'', ''CVTSD2SI'', ''CVTTSD2SI''} then
        bnd (type_of_port (val src1)) (\<lambda>t.
        bnd (scalar_of f64 2 (element_width t) src1) (\<lambda>s1. ret (dest, s1, src2)))
      else if ic \<in> {''CVTSS2SD'', ''CVTSS2SI'', ''CVTTSS2SI''} then
        bnd (type_of_port (val src1)) (\<lambda>t.
        bnd (scalar_of f32 4 (element_width t) src1) (\<lambda>s1. ret (dest, s1, src2)))
      else throw (Runtime_error ''Unknown fpvec instruction''))"

definition cvtsi_translate :: "xed_inst \<Rightarrow> value_type \<Rightarrow> node_id \<Rightarrow> node_id \<Rightarrow> unit tr" where
  "cvtsi_translate x ft dest src1 =
     bnd (insert_convert ft (val src1) Fp_round) (\<lambda>s.
     bnd (insert_bit_insert (val dest) (val s) 0 (of_nat (width ft))) (\<lambda>d.
     put_operand x 0 d))"

definition fp_arith_op :: "string \<Rightarrow> binary_arith_op option" where
  "fp_arith_op ic =
     (if ic \<in> {''ADDSS'', ''ADDSD'', ''VADDSS'', ''VADDSD''} then Some B_add
      else if ic \<in> {''SUBSS'', ''SUBSD'', ''VSUBSS'', ''VSUBSD''} then Some B_sub
      else if ic \<in> {''DIVSS'', ''DIVSD'', ''VDIVSS'', ''VDIVSD''} then Some B_div
      else if ic \<in> {''MULSS'', ''MULSD'', ''VMULSS'', ''VMULSD''} then Some B_mul
      else None)"

definition fp_packed_op :: "string \<Rightarrow> binary_arith_op option" where
  "fp_packed_op ic =
     (if ic \<in> {''XORPD'', ''XORPS''} then Some B_bxor
      else if ic = ''ADDPD'' then Some B_add
      else if ic = ''SUBPD'' then Some B_sub
      else None)"

definition fp_convert :: "xed_inst \<Rightarrow> node_id \<Rightarrow> node_id \<Rightarrow> unit tr" where
  "fp_convert x dest src1 =
     (if iclass x \<in> {''CVTSD2SI'', ''CVTSD2SS''} then
        bnd (insert_convert f32 (val src1) Fp_round) (\<lambda>r.
        bnd (insert_vector_insert (val dest) 0 (val r)) (\<lambda>d. put_operand x 0 d))
      else if iclass x \<in> {''CVTTSD2SI'', ''CVTTSS2SI''} then
        bnd (type_of_port (val dest)) (\<lambda>t.
        bnd (insert_convert t (val src1) Fp_trunc) (\<lambda>d. put_operand x 0 d))
      else if iclass x \<in> {''CVTSS2SI'', ''CVTSS2SD''} then
        bnd (type_of_port (val dest)) (\<lambda>t.
        bnd (insert_convert t (val src1) Fp_none) (\<lambda>d. put_operand x 0 d))
      else throw (Runtime_error ''Unknown fpvec instruction''))"

definition fp_compute :: "xed_inst \<Rightarrow> node_id \<times> node_id \<times> node_id \<Rightarrow> unit tr" where
  "fp_compute x k =
     (let dest = fst k; src1 = fst (snd k); src2 = snd (snd k) in
      case fp_packed_op (iclass x) of
        Some op \<Rightarrow> bnd (insert_binop op (val src1) (val src2)) (\<lambda>r. put_operand x 0 r)
      | None \<Rightarrow>
         (case fp_arith_op (iclass x) of
            Some op \<Rightarrow>
              bnd (insert_binop op (val src1) (val src2)) (\<lambda>r.
              bnd (insert_vector_insert (val dest) 0 (val r)) (\<lambda>d. put_operand x 0 d))
          | None \<Rightarrow> fp_convert x dest src1))"

definition fpvec_translate :: "xed_inst \<Rightarrow> unit tr" where
  "fpvec_translate x =
     (if masked_vector x then throw (Runtime_error ''Masked instructions not supported'')
      else
        bnd (read_operand x 0) (\<lambda>dest.
        bnd (read_operand x 1) (\<lambda>op1.
        bnd (read_operand x 2) (\<lambda>op2.
        (let two = iclass x \<in> set fp_two_operand;
             src1 = (if two then dest else op1); src2 = (if two then op1 else op2) in
         if iclass x = ''CVTSI2SS'' then cvtsi_translate x f32 dest src1
         else if iclass x = ''CVTSI2SD'' then cvtsi_translate x f64 dest src1
         else bnd (fp_prepare (iclass x) dest src1 src2) (fp_compute x))))))"

end
