(* ===== verification/X86_Vector_Safe.thy ===== *)
theory X86_Vector_Safe
  imports X86_Integer_Safe X86_Vector
begin

text \<open>The translators of \<open>X86_Vector\<close> keep the builder's invariant.\<close>

lemmas safe_steps = safe_insert_label safe_add_br safe_shape safe_port safe_node_at' ports_one ports_none

definition oks :: "builder \<Rightarrow> node_id list \<Rightarrow> bool" where
  "oks b ns \<longleftrightarrow> (\<forall>n \<in> set ns. vnode b n)"

definition okc :: "builder \<Rightarrow> node_id list \<Rightarrow> bool" where
  "okc b cs \<longleftrightarrow> length cs = 4 \<and> oks b cs"

abbreviation okt :: "node_id \<times> node_id \<times> node_id \<Rightarrow> builder \<Rightarrow> bool" where
  "okt \<equiv> \<lambda>k b. vnode b (fst k) \<and> vnode b (fst (snd k)) \<and> vnode b (snd (snd k))"

lemma oks_trans: "b_ext b b' \<Longrightarrow> oks b ns \<Longrightarrow> oks b' ns"
  by (auto simp: oks_def intro: vnode_ext)

lemma okc_trans: "b_ext b b' \<Longrightarrow> okc b ns \<Longrightarrow> okc b' ns"
  by (auto simp: okc_def intro: oks_trans)

lemma vnode_if: "vnode b m \<Longrightarrow> vnode b n \<Longrightarrow> vnode b (if c then m else n)"
  by simp

lemma safe_select_constant [tr_safe]: "wf_builder b \<Longrightarrow> safe (select_constant n) (\<lambda>_ _. True) b"
  unfolding select_constant_def
  by (assumption | rule safe_steps safe_True [OF safe_lift_res])+

lemma safe_put_operand [tr_safe]:
  "wf_builder b \<Longrightarrow> vnode b x3 \<Longrightarrow> safe (put_operand x1 x2 x3) (\<lambda>_ _. True) b"
  unfolding put_operand_def
  by (assumption | erule conjE | rule safe_steps tr_safe | erule safe_trans)+

lemma safe_as_vector [tr_safe]:
  "wf_builder b \<Longrightarrow> vnode b x3 \<Longrightarrow> safe (as_vector x1 x2 x3) okn b"
  unfolding as_vector_def
  by (assumption | erule conjE | rule safe_steps tr_safe | erule safe_trans)+

lemma safe_as_signed [tr_safe]:
  "wf_builder b \<Longrightarrow> vnode b x1 \<Longrightarrow> safe (as_signed x1) okn b"
  unfolding as_signed_def
  by (assumption | erule conjE | rule safe_steps tr_safe | erule safe_trans)+

lemma safe_read_operands: "wf_builder b \<Longrightarrow> safe (read_operands x is) (\<lambda>ns b'. oks b' ns) b"
proof (induction "is" arbitrary: b)
  case (Cons i "is")
  show ?case
    unfolding read_operands.simps
    by (rule safe_bnd [OF safe_read_operand [OF Cons.prems]], rule safe_bnd, rule Cons.IH, assumption)
       (auto intro!: safe_ret simp: oks_def intro: vnode_ext)
qed (simp add: safe_ret oks_def)

lemma safe_read_sources [tr_safe]: "wf_builder b \<Longrightarrow> safe (read_sources x) (\<lambda>ns b'. oks b' ns) b"
  unfolding read_sources_def by (simp add: safe_read_operands safe_throw)

lemma safe_op_at [tr_safe]: "wf_builder b \<Longrightarrow> oks b ops \<Longrightarrow> safe (op_at ops k) okn b"
  unfolding op_at_def by (auto simp: oks_def intro: safe_ret_node safe_throw)

lemma safe_store_product [tr_safe]:
  "wf_builder b \<Longrightarrow> vnode b x3 \<Longrightarrow> safe (store_product x1 x2 x3) (\<lambda>_ _. True) b"
  unfolding store_product_def
  by (assumption | erule conjE | rule safe_steps tr_safe | erule safe_trans)+

lemma safe_product_flags [tr_safe]:
  "wf_builder b \<Longrightarrow> vnode b x1 \<Longrightarrow> safe (product_flags x1) (\<lambda>_ _. True) b"
  unfolding product_flags_def
  by (assumption | erule conjE | rule safe_steps tr_safe | erule safe_trans)+

lemma safe_mul_translate [tr_safe]:
  "wf_builder b \<Longrightarrow> oks b ops \<Longrightarrow> safe (mul_translate x ops) (\<lambda>_ _. True) b"
  unfolding mul_translate_def
  by (assumption | erule conjE | rule safe_steps tr_safe | erule safe_trans oks_trans)+

lemma safe_signed_product [tr_safe]:
  "wf_builder b \<Longrightarrow> vnode b x1 \<Longrightarrow> vnode b x2 \<Longrightarrow> safe (signed_product x1 x2) okn b"
  unfolding signed_product_def
  by (assumption | erule conjE | rule safe_steps tr_safe | erule safe_trans)+

lemma safe_imul2_translate [tr_safe]:
  "wf_builder b \<Longrightarrow> oks b ops \<Longrightarrow> safe (imul2_translate x ops) (\<lambda>_ _. True) b"
  unfolding imul2_translate_def
  by (assumption | erule conjE | rule safe_steps tr_safe | erule safe_trans oks_trans)+

lemma safe_imul1_translate [tr_safe]:
  "wf_builder b \<Longrightarrow> oks b ops \<Longrightarrow> safe (imul1_translate x ops) (\<lambda>_ _. True) b"
  unfolding imul1_translate_def
  by (assumption | erule conjE | rule safe_steps tr_safe | erule safe_trans oks_trans)+

lemma safe_imul3_translate [tr_safe]:
  "wf_builder b \<Longrightarrow> oks b ops \<Longrightarrow> safe (imul3_translate x ops) (\<lambda>_ _. True) b"
  unfolding imul3_translate_def
  by (assumption | erule conjE | rule safe_steps tr_safe | erule safe_trans oks_trans)+

lemma safe_imul_translate [tr_safe]:
  "wf_builder b \<Longrightarrow> oks b ops \<Longrightarrow> safe (imul_translate x ops) (\<lambda>_ _. True) b"
  unfolding imul_translate_def
  by (assumption | erule conjE | rule safe_steps tr_safe | erule safe_trans oks_trans)+

lemma safe_dividend [tr_safe]:
  "wf_builder b \<Longrightarrow> vnode b x1 \<Longrightarrow> vnode b x2 \<Longrightarrow> safe (dividend x1 x2) okn b"
  unfolding dividend_def
  by (assumption | erule conjE | rule safe_steps tr_safe | erule safe_trans)+

lemma safe_div_results [tr_safe]:
  "wf_builder b \<Longrightarrow> vnode b x3 \<Longrightarrow> vnode b x4 \<Longrightarrow> safe (div_results x1 x2 x3 x4) (\<lambda>_ _. True) b"
  unfolding div_results_def
  by (assumption | erule conjE | rule safe_steps tr_safe | erule safe_trans)+

lemma safe_idiv_translate [tr_safe]:
  "wf_builder b \<Longrightarrow> oks b ops \<Longrightarrow> safe (idiv_translate x ops) (\<lambda>_ _. True) b"
  unfolding idiv_translate_def
  by (assumption | erule conjE | rule safe_steps tr_safe | erule safe_trans oks_trans)+

lemma safe_div_translate [tr_safe]:
  "wf_builder b \<Longrightarrow> oks b ops \<Longrightarrow> safe (div_translate x ops) (\<lambda>_ _. True) b"
  unfolding div_translate_def
  by (assumption | erule conjE | rule safe_steps tr_safe | erule safe_trans oks_trans)+

lemma safe_lane_product [tr_safe]:
  "wf_builder b \<Longrightarrow> vnode b x1 \<Longrightarrow> vnode b x2 \<Longrightarrow> safe (lane_product x1 x2 x3) okn b"
  unfolding lane_product_def
  by (assumption | erule conjE | rule safe_steps tr_safe | erule safe_trans)+

lemma safe_pmuludq_mmx [tr_safe]:
  "wf_builder b \<Longrightarrow> vnode b x2 \<Longrightarrow> vnode b x3 \<Longrightarrow> safe (pmuludq_mmx x1 x2 x3) (\<lambda>_ _. True) b"
  unfolding pmuludq_mmx_def
  by (assumption | erule conjE | rule safe_steps tr_safe | erule safe_trans)+

lemma safe_pmuludq_xmm [tr_safe]:
  "wf_builder b \<Longrightarrow> vnode b x2 \<Longrightarrow> vnode b x3 \<Longrightarrow> safe (pmuludq_xmm x1 x2 x3) (\<lambda>_ _. True) b"
  unfolding pmuludq_xmm_def
  by (assumption | erule conjE | rule safe_steps tr_safe | erule safe_trans)+

lemma safe_pmuludq_translate [tr_safe]:
  "wf_builder b \<Longrightarrow> safe (pmuludq_translate x1) (\<lambda>_ _. True) b"
  unfolding pmuludq_translate_def
  by (assumption | erule conjE | rule safe_steps tr_safe | erule safe_trans)+

lemma safe_pmullw_step [tr_safe]:
  "wf_builder b \<Longrightarrow> vnode b x1 \<Longrightarrow> vnode b x3 \<Longrightarrow> safe (pmullw_step x1 x2 x3) okn b"
  unfolding pmullw_step_def
  by (assumption | erule conjE | rule safe_steps tr_safe | erule safe_trans)+

lemma safe_pmullw_translate [tr_safe]:
  "wf_builder b \<Longrightarrow> safe (pmullw_translate x1) (\<lambda>_ _. True) b"
  unfolding pmullw_translate_def
  by (assumption | erule conjE | rule safe_steps tr_safe | erule safe_trans)+

lemma safe_muldiv_translate [tr_safe]:
  "wf_builder b \<Longrightarrow> safe (muldiv_translate x) (\<lambda>_ _. True) b"
  unfolding muldiv_translate_def
  by (assumption | erule conjE | rule safe_steps tr_safe | erule safe_trans oks_trans)+

lemma safe_unpckhpd_part [tr_safe]:
  "wf_builder b \<Longrightarrow> vnode b x2 \<Longrightarrow> vnode b x3 \<Longrightarrow> safe (unpckhpd_part x1 x2 x3) (\<lambda>_ _. True) b"
  unfolding unpckhpd_part_def
  by (assumption | erule conjE | rule safe_steps tr_safe | erule safe_trans)+

lemma safe_interleave_step [tr_safe]:
  "wf_builder b \<Longrightarrow> vnode b x2 \<Longrightarrow> vnode b x3 \<Longrightarrow> vnode b x5 \<Longrightarrow> safe (interleave_step x1 x2 x3 x4 x5) okn b"
  unfolding interleave_step_def
  by (assumption | erule conjE | rule safe_steps tr_safe | erule safe_trans)+

lemma safe_unpack_translate [tr_safe]:
  "wf_builder b \<Longrightarrow> vnode b x3 \<Longrightarrow> vnode b x4 \<Longrightarrow> safe (unpack_translate x1 x2 x3 x4) (\<lambda>_ _. True) b"
  unfolding unpack_translate_def
  by (assumption | erule conjE | rule safe_steps tr_safe | erule safe_trans)+

lemma safe_packuswb_step [tr_safe]:
  "wf_builder b \<Longrightarrow> vnode b x2 \<Longrightarrow> vnode b x3 \<Longrightarrow> vnode b x5 \<Longrightarrow> safe (packuswb_step x1 x2 x3 x4 x5) okn b"
  unfolding packuswb_step_def
  by (assumption | erule conjE | rule safe_steps tr_safe | erule safe_trans)+

lemma safe_packuswb_translate [tr_safe]:
  "wf_builder b \<Longrightarrow> vnode b x2 \<Longrightarrow> vnode b x3 \<Longrightarrow> safe (packuswb_translate x1 x2 x3) (\<lambda>_ _. True) b"
  unfolding packuswb_translate_def
  by (assumption | erule conjE | rule safe_steps tr_safe | erule safe_trans)+

lemma okc_nth: "okc b cs \<Longrightarrow> k < 4 \<Longrightarrow> vnode b (cs ! k)"
  by (simp add: okc_def oks_def)

lemma okc_ports:
  "okc b cs \<Longrightarrow> vport b (val (cs ! 0))" "okc b cs \<Longrightarrow> vport b (val (cs ! 1))"
  "okc b cs \<Longrightarrow> vport b (val (cs ! 2))" "okc b cs \<Longrightarrow> vport b (val (cs ! 3))"
  by (simp_all add: okc_nth vport_valI del: One_nat_def)

lemma safe_packss_step [tr_safe]:
  "wf_builder b \<Longrightarrow> vnode b d \<Longrightarrow> vnode b s \<Longrightarrow> okc b cs \<Longrightarrow> vnode b r \<Longrightarrow> safe (packss_step n ty d s cs i r) okn b"
  unfolding packss_step_def
  by (assumption | rule safe_shape okc_ports tr_safe safe_port | erule safe_trans okc_trans)+

lemma safe_ret_four:
  "wf_builder b \<Longrightarrow> vnode b n1 \<Longrightarrow> vnode b n2 \<Longrightarrow> vnode b n3 \<Longrightarrow> vnode b n4 \<Longrightarrow>
   safe (ret [n1, n2, n3, n4]) (\<lambda>cs b'. okc b' cs) b"
  by (rule safe_ret) (auto simp: okc_def oks_def)

lemma safe_packss_constants [tr_safe]:
  "wf_builder b \<Longrightarrow> safe (packss_constants ic) (\<lambda>cs b'. okc b' cs) b"
  unfolding packss_constants_def
  by (assumption | rule safe_shape safe_ret_four tr_safe safe_port | erule safe_trans)+

lemma safe_packss_translate [tr_safe]:
  "wf_builder b \<Longrightarrow> vnode b m \<Longrightarrow> vnode b n \<Longrightarrow> safe (packss_translate x m n) (\<lambda>_ _. True) b"
  unfolding packss_translate_def
  by (assumption | rule safe_steps tr_safe | erule safe_trans okc_trans)+

lemma safe_pextrw_translate [tr_safe]:
  "wf_builder b \<Longrightarrow> vnode b x2 \<Longrightarrow> safe (pextrw_translate x1 x2) (\<lambda>_ _. True) b"
  unfolding pextrw_translate_def
  by (assumption | erule conjE | rule safe_steps tr_safe | erule safe_trans)+

lemma safe_punpck_translate [tr_safe]:
  "wf_builder b \<Longrightarrow> safe (punpck_translate x1) (\<lambda>_ _. True) b"
  unfolding punpck_translate_def
  by (assumption | erule conjE | rule safe_steps tr_safe | erule safe_trans)+

lemma safe_move_element [tr_safe]:
  "wf_builder b \<Longrightarrow> vnode b x1 \<Longrightarrow> vnode b x3 \<Longrightarrow> safe (move_element x1 x2 x3) okn b"
  unfolding move_element_def
  by (assumption | erule conjE | rule safe_steps tr_safe | erule safe_trans)+

lemma safe_pshufw_translate [tr_safe]:
  "wf_builder b \<Longrightarrow> safe (pshufw_translate x1 x2) (\<lambda>_ _. True) b"
  unfolding pshufw_translate_def
  by (assumption | erule conjE | rule safe_steps tr_safe | erule safe_trans)+

lemma safe_pshufd_translate [tr_safe]:
  "wf_builder b \<Longrightarrow> safe (pshufd_translate x1) (\<lambda>_ _. True) b"
  unfolding pshufd_translate_def
  by (assumption | erule conjE | rule safe_steps tr_safe | erule safe_trans)+

lemma safe_shufp_step [tr_safe]:
  "wf_builder b \<Longrightarrow> vnode b x4 \<Longrightarrow> vnode b x5 \<Longrightarrow> vnode b x7 \<Longrightarrow> safe (shufp_step x1 x2 x3 x4 x5 x6 x7) okn b"
  unfolding shufp_step_def
  by (assumption | erule conjE | rule safe_steps vnode_if tr_safe | erule safe_trans)+

lemma safe_shufp_translate [tr_safe]:
  "wf_builder b \<Longrightarrow> safe (shufp_translate x1) (\<lambda>_ _. True) b"
  unfolding shufp_translate_def
  by (assumption | erule conjE | rule safe_steps tr_safe | erule safe_trans)+

lemma safe_shuffle_translate [tr_safe]:
  "wf_builder b \<Longrightarrow> safe (shuffle_translate x1) (\<lambda>_ _. True) b"
  unfolding shuffle_translate_def
  by (assumption | erule conjE | rule safe_steps tr_safe | erule safe_trans)+

lemma safe_scalar_of [tr_safe]:
  "wf_builder b \<Longrightarrow> vnode b x4 \<Longrightarrow> safe (scalar_of x1 x2 x3 x4) okn b"
  unfolding scalar_of_def
  by (assumption | erule conjE | rule safe_steps tr_safe | erule safe_trans)+

lemma safe_ret_three:
  "wf_builder b \<Longrightarrow> vnode b n1 \<Longrightarrow> vnode b n2 \<Longrightarrow> vnode b n3 \<Longrightarrow> safe (ret (n1, n2, n3)) okt b"
  by (rule safe_ret) auto

lemma safe_fp_scalar_prepare [tr_safe]:
  "wf_builder b \<Longrightarrow> vnode b d \<Longrightarrow> vnode b s1 \<Longrightarrow> vnode b s2 \<Longrightarrow> safe (fp_scalar_prepare ft n d s1 s2) okt b"
  unfolding fp_scalar_prepare_def
  by (assumption | erule conjE | rule safe_steps tr_safe safe_ret_three | erule safe_trans oks_trans)+

lemma safe_fp_packed_prepare [tr_safe]:
  "wf_builder b \<Longrightarrow> vnode b d \<Longrightarrow> vnode b s1 \<Longrightarrow> vnode b s2 \<Longrightarrow> safe (fp_packed_prepare ft n d s1 s2) okt b"
  unfolding fp_packed_prepare_def
  by (assumption | erule conjE | rule safe_steps tr_safe safe_ret_three | erule safe_trans oks_trans)+

lemma safe_fp_prepare [tr_safe]:
  "wf_builder b \<Longrightarrow> vnode b d \<Longrightarrow> vnode b s1 \<Longrightarrow> vnode b s2 \<Longrightarrow> safe (fp_prepare ic d s1 s2) okt b"
  unfolding fp_prepare_def
  by (assumption | erule conjE | rule safe_steps tr_safe safe_ret_three | erule safe_trans oks_trans)+

lemma safe_cvtsi_translate [tr_safe]:
  "wf_builder b \<Longrightarrow> vnode b x3 \<Longrightarrow> vnode b x4 \<Longrightarrow> safe (cvtsi_translate x1 x2 x3 x4) (\<lambda>_ _. True) b"
  unfolding cvtsi_translate_def
  by (assumption | erule conjE | rule safe_steps tr_safe | erule safe_trans)+

lemma safe_fp_convert [tr_safe]:
  "wf_builder b \<Longrightarrow> vnode b x2 \<Longrightarrow> vnode b x3 \<Longrightarrow> safe (fp_convert x1 x2 x3) (\<lambda>_ _. True) b"
  unfolding fp_convert_def
  by (assumption | erule conjE | rule safe_steps tr_safe | erule safe_trans)+

lemma safe_fp_compute [tr_safe]:
  "wf_builder b \<Longrightarrow> vnode b (fst k) \<and> vnode b (fst (snd k)) \<and> vnode b (snd (snd k)) \<Longrightarrow>
   safe (fp_compute x k) (\<lambda>_ _. True) b"
  unfolding fp_compute_def
  by (assumption | erule conjE | rule safe_steps tr_safe | erule safe_trans)+

lemma safe_fpvec_translate [tr_safe]: "wf_builder b \<Longrightarrow> safe (fpvec_translate x) (\<lambda>_ _. True) b"
  unfolding fpvec_translate_def Let_def
  by (assumption | rule safe_steps vnode_if tr_safe | erule safe_trans)+

end
