(* ===== verification/X86_Fpu.thy ===== *)
theory X86_Fpu
  imports X86_Vector X86_Control_Flow
begin

text \<open>
  The x87 instructions (\<open>input/x86/translators/fpu.cpp\<close>).  The stack and its tags are
  reached through the operations of the base class (\<open>fpu_stack_get\<close>, \<open>fpu_push\<close>, ...).
  Values on the stack are doubles; their constants are given by their bit patterns.
\<close>

section \<open>Pieces\<close>

text \<open>The macros \<open>SET_C1_BIT\<close> (bit 9) and \<open>SET_C2_BIT\<close> (bit 10).\<close>

definition set_status_bit :: "32 word \<Rightarrow> 16 word \<Rightarrow> unit tr" where
  "set_status_bit pos b =
     bnd (read_reg u16 off_X87_STS) (\<lambda>status.
     bnd (insert_constant_u16 b) (\<lambda>c.
     bnd (insert_bit_insert (val status) (val c) pos 1) (\<lambda>s.
     andthen (write_reg off_X87_STS (val s))
     (ret ()))))"

definition set_c1 :: "16 word \<Rightarrow> unit tr" where "set_c1 b = set_status_bit 9 b"
definition set_c2 :: "16 word \<Rightarrow> unit tr" where "set_c2 b = set_status_bit 10 b"

definition push_value :: "node_id \<Rightarrow> unit tr" where
  "push_value n = andthen (fpu_push (val n)) (ret ())"

definition pop_if :: "bool \<Rightarrow> unit tr" where
  "pop_if p = (if p then andthen fpu_pop (ret ()) else ret ())"

definition call_function :: "string \<Rightarrow> port list \<Rightarrow> node_id tr" where
  "call_function name args =
     bnd (builder_resolve x86_create name) (\<lambda>f. insert_internal_call f args)"

text \<open>A bitwise operation with a constant, the constant built second.\<close>

definition and_u64 :: "node_id \<Rightarrow> ulong \<Rightarrow> node_id tr" where
  "and_u64 n c = bnd (insert_constant_u64 c) (\<lambda>k. insert_and (val n) (val k))"

definition and_u16 :: "node_id \<Rightarrow> 16 word \<Rightarrow> node_id tr" where
  "and_u16 n c = bnd (insert_constant_u16 c) (\<lambda>k. insert_and (val n) (val k))"

definition shift_u64 :: "(port \<Rightarrow> port \<Rightarrow> node_id tr) \<Rightarrow> node_id \<Rightarrow> ulong \<Rightarrow> node_id tr" where
  "shift_u64 ins n c = bnd (insert_constant_u64 c) (\<lambda>k. ins (val n) (val k))"

text \<open>Conversions of a source operand to a double, by its width.\<close>

definition float_source :: "string \<Rightarrow> node_id \<Rightarrow> node_id tr" where
  "float_source msg n =
     bnd (type_of_port (val n)) (\<lambda>t.
     if width t = 32 then
       bnd (insert_bitcast f32 (val n)) (\<lambda>m. insert_convert f64 (val m) Fp_none)
     else if width t = 64 then insert_bitcast f64 (val n)
     else throw (Runtime_error msg))"

definition int_source :: "string \<Rightarrow> node_id \<Rightarrow> node_id tr" where
  "int_source msg n =
     bnd (type_of_port (val n)) (\<lambda>t.
     bnd (if width t = 16 then insert_bitcast s16 (val n)
          else if width t = 32 then insert_bitcast s32 (val n)
          else throw (Runtime_error msg)) (\<lambda>m.
     insert_convert f64 (val m) Fp_none))"

section \<open>Data transfer\<close>

text \<open>The 80-bit format to a double: sign and sign of the exponent, the low ten exponent
  bits, the high 52 bits of the fraction.\<close>

definition fld_extended :: "node_id \<Rightarrow> node_id tr" where
  "fld_extended n =
     bnd (insert_bitcast u80 (val n)) (\<lambda>e.
     bnd (insert_bit_extract (val e) 78 2) (\<lambda>sign_s.
     bnd (insert_bit_extract (val e) 64 10) (\<lambda>expo.
     bnd (insert_bit_extract (val e) 11 52) (\<lambda>frac.
     bnd (insert_constant_f64 0) (\<lambda>z.
     bnd (insert_bit_insert (val z) (val sign_s) 62 2) (\<lambda>v1.
     bnd (insert_bit_insert (val v1) (val expo) 52 10) (\<lambda>v2.
     insert_bit_insert (val v2) (val frac) 0 52)))))))"

definition fld_translate :: "xed_inst \<Rightarrow> unit tr" where
  "fld_translate x =
     bnd (read_operand x 1) (\<lambda>n.
     bnd (type_of_port (val n)) (\<lambda>t.
     bnd (if width t = 80 then fld_extended n else float_source ''unsupported X87 value size'' n) (\<lambda>d.
     push_value d)))"

definition fst_extended :: "node_id \<Rightarrow> node_id tr" where
  "fst_extended st0 =
     bnd (insert_bitcast u64 (val st0)) (\<lambda>s.
     bnd (and_u64 s 0x000FFFFFFFFFFFFF) (\<lambda>f1.
     bnd (shift_u64 insert_lsl f1 11) (\<lambda>f2.
     bnd (insert_zx u80 (val f2)) (\<lambda>frac.
     bnd (and_u64 s 0x3FF0000000000000) (\<lambda>e1.
     bnd (insert_zx u80 (val e1)) (\<lambda>e2.
     bnd (shift_u64 insert_lsl e2 12) (\<lambda>expo.
     bnd (and_u64 s 0xC000000000000000) (\<lambda>s1.
     bnd (insert_zx u80 (val s1)) (\<lambda>s2.
     bnd (shift_u64 insert_lsl s2 16) (\<lambda>s3.
     bnd (insert_or (val s3) (val frac)) (\<lambda>s4.
     insert_or (val s4) (val expo))))))))))))"

text \<open>FST and FSTP.  The 64-bit case with an immediate operand has no \<open>break\<close>: it goes on
  with the 80-bit case.\<close>

definition fst_store :: "xed_inst \<Rightarrow> node_id \<Rightarrow> nat \<Rightarrow> unit tr" where
  "fst_store x st0 w =
     (let extended = bnd (fst_extended st0) (\<lambda>s. put_operand x 0 s) in
      if w = 32 then bnd (insert_convert f32 (val st0) Fp_none) (\<lambda>s. put_operand x 0 s)
      else if w = 64 then
        bnd (lift_res (is_immediate_operand x 0)) (\<lambda>imm.
        if imm then
          bnd (lift_res (fpu_get_instruction_index x 0)) (\<lambda>i.
          andthen (fpu_stack_set i (val st0))
          (bnd (fpu_tag_get 0) (\<lambda>tag. andthen (fpu_tag_set i (val tag)) extended)))
        else put_operand x 0 st0)
      else if w = 80 then extended
      else throw (Runtime_error ''unsupported X87 FST/FSTP value size''))"

definition fst_translate :: "xed_inst \<Rightarrow> unit tr" where
  "fst_translate x =
     bnd (read_operand x 0) (\<lambda>dst.
     bnd (fpu_stack_get 0) (\<lambda>st0.
     bnd (type_of_port (val dst)) (\<lambda>t.
     andthen (fst_store x st0 (width t))
     (pop_if (iclass x = ''FSTP'')))))"

definition fild_translate :: "xed_inst \<Rightarrow> unit tr" where
  "fild_translate x =
     bnd (read_operand x 1) (\<lambda>n.
     bnd (type_of_port (val n)) (\<lambda>t.
     bnd (insert_bitcast (mk_value_type signed_integer (width t) 1) (val n)) (\<lambda>i.
     bnd (insert_convert f64 (val i) Fp_none) (\<lambda>d.
     andthen (set_c1 0)
     (push_value d)))))"

definition fist_translate :: "xed_inst \<Rightarrow> unit tr" where
  "fist_translate x =
     bnd (fpu_stack_get 0) (\<lambda>st0.
     bnd (lift_res (get_operand_width x 0)) (\<lambda>w.
     bnd (insert_convert (mk_value_type signed_integer w 1) (val st0) Fp_none) (\<lambda>i.
     andthen (put_operand x 0 i)
     (andthen (set_c1 0)
     (pop_if (iclass x = ''FISTP''))))))"

definition fxch_translate :: "xed_inst \<Rightarrow> unit tr" where
  "fxch_translate x =
     bnd (lift_res (fpu_get_instruction_index x 1)) (\<lambda>j.
     bnd (fpu_stack_get 0) (\<lambda>st0.
     bnd (fpu_stack_get j) (\<lambda>sti.
     bnd (fpu_tag_get 0) (\<lambda>tag0.
     bnd (fpu_tag_get j) (\<lambda>tagi.
     bnd (type_of_port (val st0)) (\<lambda>st.
     bnd (alloc_local st) (\<lambda>st0_tmp.
     bnd (type_of_port (val tag0)) (\<lambda>tt.
     bnd (alloc_local tt) (\<lambda>tag0_tmp.
     andthen (insert_write_local st0_tmp (val st0))
     (andthen (insert_write_local tag0_tmp (val tag0))
     (andthen (fpu_stack_set 0 (val sti))
     (bnd (insert_read_local st0_tmp) (\<lambda>r1.
     andthen (fpu_stack_set j (val r1))
     (andthen (fpu_tag_set 0 (val tagi))
     (bnd (insert_read_local tag0_tmp) (\<lambda>r2.
     andthen (fpu_tag_set j (val r2))
     (set_c1 0)))))))))))))))))"

section \<open>Arithmetic\<close>

definition fpu_float_arith :: "string list" where
  "fpu_float_arith = [''FADD'', ''FADDP'', ''FSUB'', ''FSUBP'', ''FSUBR'', ''FSUBRP'', ''FMUL'', ''FMULP'',
     ''FDIV'', ''FDIVP'', ''FDIVR'', ''FDIVRP'']"

definition fpu_int_arith :: "string list" where
  "fpu_int_arith = [''FIADD'', ''FISUB'', ''FISUBR'', ''FIMUL'', ''FIDIV'', ''FIDIVR'']"

definition fpu_popping_arith :: "string list" where
  "fpu_popping_arith = [''FADDP'', ''FSUBP'', ''FSUBRP'', ''FMULP'', ''FDIVP'', ''FDIVRP'']"

definition fpu_compute :: "string \<Rightarrow> port \<Rightarrow> port \<Rightarrow> node_id tr" where
  "fpu_compute ic p q =
     (if ic \<in> {''FADD'', ''FADDP'', ''FIADD''} then insert_add p q
      else if ic \<in> {''FSUB'', ''FSUBP'', ''FISUB''} then insert_sub p q
      else if ic \<in> {''FSUBR'', ''FSUBRP'', ''FISUBR''} then insert_sub q p
      else if ic \<in> {''FMUL'', ''FMULP'', ''FIMUL''} then insert_mul p q
      else if ic \<in> {''FDIV'', ''FDIVP'', ''FIDIV''} then insert_div p q
      else if ic \<in> {''FDIVR'', ''FDIVRP'', ''FIDIVR''} then insert_div q p
      else throw (Runtime_error ''unsupported X87 FADD/FSUB... instruction2''))"

definition farith_translate :: "xed_inst \<Rightarrow> unit tr" where
  "farith_translate x =
     bnd (read_operand x 0) (\<lambda>v0.
     bnd (read_operand x 1) (\<lambda>r1.
     bnd (if iclass x \<in> set fpu_float_arith then float_source ''unsupported X87 FADD/FSUB... float width'' r1
       else int_source ''unsupported X87 FIADD/FISUB... int width'' r1) (\<lambda>v1.
     bnd (fpu_compute (iclass x) (val v0) (val v1)) (\<lambda>res.
     bnd (lift_res (fpu_get_instruction_index x 0)) (\<lambda>i.
     andthen (fpu_stack_set i (val res))
     (bnd (insert_constant_u16 0) (\<lambda>c.
     andthen (fpu_tag_set i (val c))
     (pop_if (iclass x \<in> set fpu_popping_arith)))))))))"

definition fprem_translate :: "xed_inst \<Rightarrow> unit tr" where
  "fprem_translate x =
     bnd (read_operand x 0) (\<lambda>st0.
     bnd (read_operand x 1) (\<lambda>st1.
     bnd (insert_mod (val st0) (val st1)) (\<lambda>res.
     put_operand x 0 res)))"

definition fprem1_translate :: "xed_inst \<Rightarrow> unit tr" where
  "fprem1_translate x =
     bnd (read_operand x 0) (\<lambda>st0.
     bnd (read_operand x 1) (\<lambda>st1.
     bnd (insert_mod (val st0) (val st1)) (\<lambda>r1.
     bnd (insert_sub (val r1) (val st1)) (\<lambda>r2.
     bnd (insert_constant_u64 0x7FFFFFFFFFFFFFFF) (\<lambda>m.
     bnd (insert_and (val r1) (val m)) (\<lambda>a1.
     bnd (insert_and (val r2) (val m)) (\<lambda>a2.
     bnd (insert_cmpgt (val a1) (val a2)) (\<lambda>g.
     bnd (insert_csel (val g) (val r2) (val r1)) (\<lambda>res.
     put_operand x 0 res)))))))))"

definition fabs_translate :: "xed_inst \<Rightarrow> unit tr" where
  "fabs_translate x =
     bnd (insert_constant_u64 0x7FFFFFFFFFFFFFFF) (\<lambda>m.
     bnd (read_operand x 0) (\<lambda>st0.
     bnd (insert_and (val st0) (val m)) (\<lambda>r.
     andthen (put_operand x 0 r)
     (set_c1 0))))"

definition fchs_translate :: "xed_inst \<Rightarrow> unit tr" where
  "fchs_translate x =
     bnd (insert_constant_u64 0x7FFFFFFFFFFFFFFF) (\<lambda>m.
     bnd (insert_constant_u64 0x8000000000000000) (\<lambda>mi.
     bnd (read_operand x 0) (\<lambda>st0.
     bnd (insert_and (val st0) (val m)) (\<lambda>r.
     bnd (insert_not (val st0)) (\<lambda>n.
     bnd (insert_and (val n) (val mi)) (\<lambda>ns.
     bnd (insert_or (val r) (val ns)) (\<lambda>r2.
     andthen (put_operand x 0 r2)
     (set_c1 0))))))))"

definition frndint_translate :: "xed_inst \<Rightarrow> unit tr" where
  "frndint_translate x =
     bnd (read_operand x 0) (\<lambda>st0.
     bnd (insert_constant_f64 0x3FE0000000000000) (\<lambda>zpf.
     bnd (insert_bitcast u64 (val st0)) (\<lambda>b.
     bnd (insert_bit_extract (val b) 63 1) (\<lambda>neg_bit.
     bnd (insert_bitcast u64 (val zpf)) (\<lambda>zb.
     bnd (insert_bit_insert (val zb) (val neg_bit) 63 1) (\<lambda>zi.
     bnd (insert_bitcast f64 (val zi)) (\<lambda>zf.
     bnd (insert_add (val st0) (val zf)) (\<lambda>fix'.
     bnd (insert_convert s128 (val fix') Fp_none) (\<lambda>i.
     bnd (insert_convert f64 (val i) Fp_none) (\<lambda>r.
     put_operand x 0 r))))))))))"

definition fscale_translate :: "unit tr" where
  "fscale_translate =
     bnd (fpu_stack_get 0) (\<lambda>g0.
     bnd (insert_bitcast u64 (val g0)) (\<lambda>st0.
     bnd (fpu_stack_get 1) (\<lambda>g1.
     bnd (insert_convert u64 (val g1) Fp_none) (\<lambda>st1.
     bnd (shift_u64 insert_lsr st0 52) (\<lambda>e1.
     bnd (insert_constant_u64 0x7FF) (\<lambda>m.
     bnd (insert_and (val e1) (val m)) (\<lambda>e2.
     bnd (insert_add (val e2) (val st1)) (\<lambda>e3.
     bnd (shift_u64 insert_lsl e3 52) (\<lambda>e4.
     bnd (insert_constant_u64 0x7FF0000000000000) (\<lambda>em.
     bnd (insert_constant_u64 0x800FFFFFFFFFFFFF) (\<lambda>emi.
     bnd (insert_and (val e4) (val em)) (\<lambda>e5.
     bnd (insert_and (val st0) (val emi)) (\<lambda>s.
     bnd (insert_or (val e5) (val s)) (\<lambda>r.
     andthen (fpu_stack_set 0 (val r))
     (ret ())))))))))))))))"

definition fsqrt_translate :: "unit tr" where
  "fsqrt_translate =
     bnd (fpu_stack_get 0) (\<lambda>st0.
     bnd (insert_sqrt (val st0)) (\<lambda>r.
     andthen (fpu_stack_set 0 (val r))
     (ret ())))"

definition fxtract_translate :: "unit tr" where
  "fxtract_translate =
     bnd (fpu_stack_get 0) (\<lambda>g0.
     bnd (insert_bitcast u64 (val g0)) (\<lambda>st0.
     bnd (shift_u64 insert_lsr st0 52) (\<lambda>e1.
     bnd (insert_constant_u64 0x7FF) (\<lambda>m.
     bnd (insert_and (val e1) (val m)) (\<lambda>e2.
     bnd (insert_constant_u64 1023) (\<lambda>bias.
     bnd (insert_sub (val e2) (val bias)) (\<lambda>e3.
     bnd (insert_convert f64 (val e3) Fp_none) (\<lambda>e4.
     bnd (insert_constant_u64 0x3FF0000000000000) (\<lambda>tz.
     bnd (insert_constant_u64 0x800FFFFFFFFFFFFF) (\<lambda>tm.
     bnd (insert_and (val st0) (val tm)) (\<lambda>s1.
     bnd (insert_or (val s1) (val tz)) (\<lambda>s2.
     andthen (fpu_stack_set 0 (val e4))
     (push_value s2)))))))))))))"

section \<open>Comparison\<close>

definition fcom_source :: "xed_inst \<Rightarrow> node_id tr" where
  "fcom_source x =
     (if iclass x = ''FTST'' then insert_constant_f64 0
      else
        bnd (read_operand x 1) (\<lambda>src.
        if iclass x \<in> {''FICOM'', ''FICOMP''} then int_source ''unsupported X87 FICOM/FICOMP int width'' src
        else float_source ''unsupported X87 FCOM/FCOMP... float width'' src))"

definition fcom_translate :: "xed_inst \<Rightarrow> unit tr" where
  "fcom_translate x =
     bnd (fpu_stack_get 0) (\<lambda>st0.
     bnd (fcom_source x) (\<lambda>src.
     bnd (read_reg u16 off_X87_STS) (\<lambda>sts0.
     bnd (and_u16 sts0 0xB8FF) (\<lambda>sts1.
     bnd (insert_cmpgt (val src) (val st0)) (\<lambda>lt.
     bnd (insert_zx u16 (val lt)) (\<lambda>c0.
     bnd (insert_bit_insert (val sts1) (val c0) 8 1) (\<lambda>sts2.
     bnd (insert_cmpeq (val src) (val st0)) (\<lambda>eq.
     bnd (insert_zx u16 (val eq)) (\<lambda>c3.
     bnd (insert_bit_insert (val sts2) (val c3) 14 1) (\<lambda>sts3.
     andthen (write_reg off_X87_STS (val sts3))
     (andthen (pop_if (iclass x \<in> {''FCOMPP'', ''FUCOMPP''}))
     (pop_if (iclass x \<in> {''FCOMPP'', ''FUCOMPP'', ''FCOMP'', ''FUCOMP'', ''FICOMP''})))))))))))))"

definition fcomi_translate :: "xed_inst \<Rightarrow> unit tr" where
  "fcomi_translate x =
     bnd (read_operand x 0) (\<lambda>st0.
     bnd (read_operand x 1) (\<lambda>sti.
     bnd (insert_cmpeq (val sti) (val st0)) (\<lambda>zf.
     bnd (insert_cmpgt (val sti) (val st0)) (\<lambda>cf.
     bnd (insert_constant_i u1 0) (\<lambda>pf.
     andthen (write_reg off_ZF (val zf))
     (andthen (write_reg off_CF (val cf))
     (andthen (write_reg off_PF (val pf))
     (pop_if (iclass x \<in> {''FCOMIP'', ''FUCOMIP''})))))))))"

text \<open>FXAM: one of the codes of the classes, the later tests overriding the earlier.\<close>

definition fxam_select :: "node_id \<Rightarrow> 16 word \<Rightarrow> node_id \<Rightarrow> node_id tr" where
  "fxam_select c k other =
     bnd (insert_constant_u16 k) (\<lambda>n. insert_csel (val c) (val n) (val other))"

definition fxam_class :: "node_id \<Rightarrow> node_id tr" where
  "fxam_class st0 =
     bnd (and_u64 st0 0xFFFFFFFFFFFFF) (\<lambda>mantissa.
     bnd (and_u64 st0 0x7FF0000000000000) (\<lambda>expo.
     bnd (insert_constant_u64 0) (\<lambda>z1.
     bnd (insert_cmpeq (val mantissa) (val z1)) (\<lambda>m0.
     bnd (insert_not (val m0)) (\<lambda>mn0.
     bnd (insert_constant_u64 0) (\<lambda>z2.
     bnd (insert_cmpeq (val expo) (val z2)) (\<lambda>e0.
     bnd (insert_constant_u64 0x7FF0000000000000) (\<lambda>f.
     bnd (insert_cmpeq (val expo) (val f)) (\<lambda>eF.
     bnd (insert_constant_u16 0x400) (\<lambda>normal.
     bnd (insert_and (val e0) (val m0)) (\<lambda>bz.
     bnd (fxam_select bz 0x4000 normal) (\<lambda>cz.
     bnd (insert_and (val eF) (val m0)) (\<lambda>bi.
     bnd (fxam_select bi 0x500 cz) (\<lambda>ci.
     bnd (insert_and (val e0) (val mn0)) (\<lambda>bd.
     bnd (fxam_select bd 0x4400 ci) (\<lambda>cd.
     bnd (insert_and (val eF) (val mn0)) (\<lambda>bn.
     bnd (fxam_select bn 0x100 cd) (\<lambda>cn.
     bnd (fpu_tag_get 0) (\<lambda>tag.
     bnd (insert_constant_u16 3) (\<lambda>c3.
     bnd (insert_cmpeq (val tag) (val c3)) (\<lambda>be.
     fxam_select be 0x4100 cn)))))))))))))))))))))"

definition fxam_translate :: "unit tr" where
  "fxam_translate =
     bnd (read_reg u16 off_X87_STS) (\<lambda>sts0.
     bnd (and_u16 sts0 0xB8FF) (\<lambda>sts1.
     bnd (fpu_stack_get 0) (\<lambda>g.
     bnd (insert_bitcast u64 (val g)) (\<lambda>st0.
     bnd (insert_constant_u16 54) (\<lambda>c54.
     bnd (insert_lsr (val st0) (val c54)) (\<lambda>sg1.
     bnd (insert_trunc u16 (val sg1)) (\<lambda>sg2.
     bnd (and_u16 sg2 0x0200) (\<lambda>sg3.
     bnd (insert_or (val sts1) (val sg3)) (\<lambda>sts2.
     bnd (fxam_class st0) (\<lambda>c.
     bnd (insert_or (val sts2) (val c)) (\<lambda>sts3.
     andthen (write_reg off_X87_STS (val sts3))
     (ret ()))))))))))))"

section \<open>Transcendental functions and constants\<close>

definition fsin_translate :: "string \<Rightarrow> unit tr" where
  "fsin_translate name =
     bnd (fpu_stack_get 0) (\<lambda>st0.
     bnd (call_function name [val st0]) (\<lambda>res.
     andthen (fpu_pop)
     (andthen (push_value res)
     (set_c2 0))))"

definition fsincos_translate :: "unit tr" where
  "fsincos_translate =
     bnd (fpu_stack_get 0) (\<lambda>st0.
     bnd (call_function ''sin'' [val st0]) (\<lambda>sn.
     bnd (call_function ''cos'' [val st0]) (\<lambda>cs.
     andthen (fpu_pop)
     (andthen (push_value sn)
     (andthen (push_value cs)
     (set_c2 0))))))"

definition fptan_translate :: "unit tr" where
  "fptan_translate =
     bnd (fpu_stack_get 0) (\<lambda>st0.
     bnd (call_function ''tan'' [val st0]) (\<lambda>res.
     andthen (fpu_pop)
     (andthen (push_value res)
     (bnd (insert_constant_f64 0x3FF0000000000000) (\<lambda>one.
     andthen (push_value one)
     (set_c2 0))))))"

definition fpatan_translate :: "unit tr" where
  "fpatan_translate =
     andthen (fpu_pop)
     (bnd (fpu_stack_get 7) (\<lambda>st0.
     bnd (fpu_stack_get 0) (\<lambda>st1.
     bnd (insert_div (val st1) (val st0)) (\<lambda>q.
     bnd (call_function ''atan'' [val q]) (\<lambda>res.
     andthen (fpu_pop)
     (push_value res))))))"

definition f2xm1_translate :: "unit tr" where
  "f2xm1_translate =
     bnd (insert_constant_f64 0x3FF0000000000000) (\<lambda>one.
     bnd (insert_constant_f64 0x4000000000000000) (\<lambda>two.
     bnd (fpu_stack_get 0) (\<lambda>st0.
     bnd (call_function ''pow'' [val two, val st0]) (\<lambda>pw.
     bnd (insert_sub (val pw) (val one)) (\<lambda>res.
     andthen (fpu_pop)
     (push_value res))))))"

definition fyl2x_translate :: "unit tr" where
  "fyl2x_translate =
     andthen (fpu_pop)
     (bnd (fpu_stack_get 7) (\<lambda>st0.
     bnd (fpu_stack_get 0) (\<lambda>st1.
     bnd (call_function ''log2'' [val st0]) (\<lambda>lg.
     bnd (insert_mul (val st1) (val lg)) (\<lambda>res.
     andthen (fpu_pop)
     (push_value res))))))"

definition fyl2xp1_translate :: "unit tr" where
  "fyl2xp1_translate =
     bnd (insert_constant_f64 0x3FF0000000000000) (\<lambda>one.
     andthen (fpu_pop)
     (bnd (fpu_stack_get 7) (\<lambda>st0.
     bnd (fpu_stack_get 0) (\<lambda>st1.
     bnd (insert_add (val st0) (val one)) (\<lambda>p1.
     bnd (call_function ''log2'' [val p1]) (\<lambda>lg.
     bnd (insert_mul (val st1) (val lg)) (\<lambda>res.
     andthen (fpu_pop)
     (push_value res))))))))"

definition fpu_constants :: "(string \<times> ulong) list" where
  "fpu_constants =
     [(''FLD1'', 0x3FF0000000000000), (''FLDZ'', 0), (''FLDPI'', 0x400921FB54442D18),
      (''FLDL2E'', 0x3FF71547652B82FE), (''FLDLN2'', 0x3FE62E42FEFA39EF),
      (''FLDL2T'', 0x400A934F0979A371), (''FLDLG2'', 0x3FD34413509F79FF)]"

definition fld_constant_translate :: "ulong \<Rightarrow> unit tr" where
  "fld_constant_translate c = andthen (set_c1 0) (bnd (insert_constant_f64 c) push_value)"

section \<open>Control\<close>

definition fstp_move_translate :: "int \<Rightarrow> unit tr" where
  "fstp_move_translate d = andthen (fpu_stack_index_move d) (set_c1 0)"

definition ffree_translate :: "xed_inst \<Rightarrow> unit tr" where
  "ffree_translate x =
     bnd (lift_res (fpu_get_instruction_index x 0)) (\<lambda>i.
     bnd (insert_constant_u16 3) (\<lambda>c.
     andthen (fpu_tag_set i (val c))
     (ret ())))"

definition write_u16 :: "nat \<Rightarrow> 16 word \<Rightarrow> unit tr" where
  "write_u16 off c = bnd (insert_constant_u16 c) (\<lambda>n. andthen (write_reg off (val n)) (ret ()))"

definition fninit_translate :: "unit tr" where
  "fninit_translate =
     andthen (write_u16 off_X87_CTRL 0x037F)
     (andthen (write_u16 off_X87_STS 0)
     (andthen (write_u16 off_X87_TAG 0xFFFF) (write_u16 off_X87_OPCODE 0)))"

definition fnclex_translate :: "unit tr" where
  "fnclex_translate =
     bnd (read_reg u16 off_X87_STS) (\<lambda>sts.
     bnd (and_u16 sts 0x7F80) (\<lambda>r.
     andthen (write_reg off_X87_STS (val r))
     (ret ())))"

definition fnst_translate :: "xed_inst \<Rightarrow> nat \<Rightarrow> unit tr" where
  "fnst_translate x off = bnd (read_reg u16 off) (\<lambda>n. put_operand x 0 n)"

definition fldcw_translate :: "xed_inst \<Rightarrow> unit tr" where
  "fldcw_translate x =
     bnd (read_operand x 0) (\<lambda>n. andthen (write_reg off_X87_CTRL (val n)) (ret ()))"

section \<open>\<open>fpu_translator::do_translate\<close>\<close>

definition fpu_transfer :: "xed_inst \<Rightarrow> unit tr option" where
  "fpu_transfer x =
     (let ic = iclass x in
      if ic = ''FLD'' then Some (fld_translate x)
      else if ic \<in> {''FST'', ''FSTP''} then Some (fst_translate x)
      else if ic = ''FILD'' then Some (fild_translate x)
      else if ic \<in> {''FIST'', ''FISTP''} then Some (fist_translate x)
      else if ic = ''FXCH'' then Some (fxch_translate x)
      else None)"

definition fpu_arith :: "xed_inst \<Rightarrow> unit tr option" where
  "fpu_arith x =
     (let ic = iclass x in
      if ic \<in> set fpu_float_arith \<or> ic \<in> set fpu_int_arith then Some (farith_translate x)
      else if ic = ''FPREM'' then Some (fprem_translate x)
      else if ic = ''FPREM1'' then Some (fprem1_translate x)
      else if ic = ''FABS'' then Some (fabs_translate x)
      else if ic = ''FCHS'' then Some (fchs_translate x)
      else if ic = ''FRNDINT'' then Some (frndint_translate x)
      else if ic = ''FSCALE'' then Some fscale_translate
      else if ic = ''FSQRT'' then Some fsqrt_translate
      else if ic = ''FXTRACT'' then Some fxtract_translate
      else None)"

definition fpu_compare :: "xed_inst \<Rightarrow> unit tr option" where
  "fpu_compare x =
     (let ic = iclass x in
      if ic \<in> {''FCOM'', ''FCOMP'', ''FCOMPP'', ''FUCOM'', ''FUCOMP'', ''FUCOMPP'', ''FICOM'', ''FICOMP'', ''FTST''}
      then Some (fcom_translate x)
      else if ic \<in> {''FCOMI'', ''FCOMIP'', ''FUCOMI'', ''FUCOMIP''} then Some (fcomi_translate x)
      else if ic = ''FXAM'' then Some fxam_translate
      else None)"

definition fpu_transcendental :: "xed_inst \<Rightarrow> unit tr option" where
  "fpu_transcendental x =
     (let ic = iclass x in
      if ic = ''FSIN'' then Some (fsin_translate ''sin'')
      else if ic = ''FCOS'' then Some (fsin_translate ''cos'')
      else if ic = ''FSINCOS'' then Some fsincos_translate
      else if ic = ''FPTAN'' then Some fptan_translate
      else if ic = ''FPATAN'' then Some fpatan_translate
      else if ic = ''F2XM1'' then Some f2xm1_translate
      else if ic = ''FYL2X'' then Some fyl2x_translate
      else if ic = ''FYL2XP1'' then Some fyl2xp1_translate
      else None)"

definition fpu_control :: "xed_inst \<Rightarrow> unit tr option" where
  "fpu_control x =
     (let ic = iclass x in
      if ic = ''FINCSTP'' then Some (fstp_move_translate 1)
      else if ic = ''FDECSTP'' then Some (fstp_move_translate (-1))
      else if ic = ''FFREE'' then Some (ffree_translate x)
      else if ic = ''FNINIT'' then Some fninit_translate
      else if ic = ''FNCLEX'' then Some fnclex_translate
      else if ic = ''FNSTCW'' then Some (fnst_translate x off_X87_CTRL)
      else if ic = ''FLDCW'' then Some (fldcw_translate x)
      else if ic = ''FNSTSW'' then Some (fnst_translate x off_X87_STS)
      else if ic \<in> {''FWAIT'', ''FNOP''} then Some (ret ())
      else None)"

definition fpu_constant :: "xed_inst \<Rightarrow> unit tr option" where
  "fpu_constant x = map_option fld_constant_translate (map_of fpu_constants (iclass x))"

text \<open>The classes of the groups are disjoint, so their order does not matter.\<close>

definition fpu_translate :: "xed_inst \<Rightarrow> unit tr" where
  "fpu_translate x =
     (case List.map_filter (\<lambda>f. f x)
             [fpu_transfer, fpu_arith, fpu_compare, fpu_transcendental, fpu_constant, fpu_control] of
        m # _ \<Rightarrow> m
      | [] \<Rightarrow> throw (Runtime_error ''unsupported fpu operation''))"

end
