(* ===== verification/X86_Fpu_Safe.thy ===== *)
theory X86_Fpu_Safe
  imports X86_Vector_Safe X86_Fpu
begin

text \<open>The x87 translators keep the builder's invariant.\<close>

lemma ports_two: "vnode b m \<Longrightarrow> vnode b n \<Longrightarrow> \<forall>p \<in> set [val m, val n]. vport b p"
  by (simp add: vport_val)

lemmas fpu_steps = safe_steps ports_two

lemma safe_set_status_bit [tr_safe]:
  "wf_builder b \<Longrightarrow> safe (set_status_bit x1 x2) (\<lambda>_ _. True) b"
  unfolding set_status_bit_def
  by (assumption | erule conjE | rule fpu_steps tr_safe | erule safe_trans)+

lemma safe_set_c [tr_safe]:
  "wf_builder b \<Longrightarrow> safe (set_c1 c) (\<lambda>_ _. True) b" "wf_builder b \<Longrightarrow> safe (set_c2 c) (\<lambda>_ _. True) b"
  unfolding set_c1_def set_c2_def by (rule safe_set_status_bit, assumption)+

lemma safe_push_value [tr_safe]:
  "wf_builder b \<Longrightarrow> vnode b x1 \<Longrightarrow> safe (push_value x1) (\<lambda>_ _. True) b"
  unfolding push_value_def
  by (assumption | erule conjE | rule fpu_steps tr_safe | erule safe_trans)+

lemma safe_pop_if [tr_safe]:
  "wf_builder b \<Longrightarrow> safe (pop_if x1) (\<lambda>_ _. True) b"
  unfolding pop_if_def
  by (assumption | erule conjE | rule fpu_steps tr_safe | erule safe_trans)+

lemma safe_call_function [tr_safe]:
  "wf_builder b \<Longrightarrow> \<forall>p \<in> set args. vport b p \<Longrightarrow> safe (call_function nm args) okn b"
  unfolding call_function_def
  by (rule safe_bnd [OF safe_builder_resolve], assumption)
     (auto intro!: safe_insert_call intro: vport_ext)

lemma safe_and_u64 [tr_safe]:
  "wf_builder b \<Longrightarrow> vnode b x1 \<Longrightarrow> safe (and_u64 x1 x2) okn b"
  unfolding and_u64_def
  by (assumption | erule conjE | rule fpu_steps tr_safe | erule safe_trans)+

lemma safe_and_u16 [tr_safe]:
  "wf_builder b \<Longrightarrow> vnode b x1 \<Longrightarrow> safe (and_u16 x1 x2) okn b"
  unfolding and_u16_def
  by (assumption | erule conjE | rule fpu_steps tr_safe | erule safe_trans)+

lemma safe_shift_u64:
  assumes "wf_builder b" and "vnode b n"
    and "\<And>p q b. wf_builder b \<Longrightarrow> vport b p \<Longrightarrow> vport b q \<Longrightarrow> safe (ins p q) okn b"
  shows "safe (shift_u64 ins n c) okn b"
  unfolding shift_u64_def
  by (insert assms(1,2)) (assumption | rule safe_shape tr_safe safe_port assms(3) | erule safe_trans)+

lemmas safe_shifts_u64 [tr_safe] = safe_shift_u64 [where ins = insert_lsl] safe_shift_u64 [where ins = insert_lsr]

lemma safe_float_source [tr_safe]:
  "wf_builder b \<Longrightarrow> vnode b x2 \<Longrightarrow> safe (float_source x1 x2) okn b"
  unfolding float_source_def
  by (assumption | erule conjE | rule fpu_steps tr_safe | erule safe_trans)+

lemma safe_int_source [tr_safe]:
  "wf_builder b \<Longrightarrow> vnode b x2 \<Longrightarrow> safe (int_source x1 x2) okn b"
  unfolding int_source_def
  by (assumption | erule conjE | rule fpu_steps tr_safe | erule safe_trans)+

lemma safe_fld_extended [tr_safe]:
  "wf_builder b \<Longrightarrow> vnode b x1 \<Longrightarrow> safe (fld_extended x1) okn b"
  unfolding fld_extended_def
  by (assumption | erule conjE | rule fpu_steps tr_safe | erule safe_trans)+

lemma safe_fld_translate [tr_safe]:
  "wf_builder b \<Longrightarrow> safe (fld_translate x1) (\<lambda>_ _. True) b"
  unfolding fld_translate_def
  by (assumption | erule conjE | rule fpu_steps tr_safe | erule safe_trans)+

lemma safe_fst_extended [tr_safe]:
  "wf_builder b \<Longrightarrow> vnode b x1 \<Longrightarrow> safe (fst_extended x1) okn b"
  unfolding fst_extended_def
  by (assumption | erule conjE | rule fpu_steps tr_safe | erule safe_trans)+

lemma safe_fst_store [tr_safe]:
  "wf_builder b \<Longrightarrow> vnode b x2 \<Longrightarrow> safe (fst_store x1 x2 x3) (\<lambda>_ _. True) b"
  unfolding fst_store_def
  by (assumption | erule conjE | rule fpu_steps tr_safe | erule safe_trans)+

lemma safe_fst_translate [tr_safe]:
  "wf_builder b \<Longrightarrow> safe (fst_translate x1) (\<lambda>_ _. True) b"
  unfolding fst_translate_def
  by (assumption | erule conjE | rule fpu_steps tr_safe | erule safe_trans)+

lemma safe_fild_translate [tr_safe]:
  "wf_builder b \<Longrightarrow> safe (fild_translate x1) (\<lambda>_ _. True) b"
  unfolding fild_translate_def
  by (assumption | erule conjE | rule fpu_steps tr_safe | erule safe_trans)+

lemma safe_fist_translate [tr_safe]:
  "wf_builder b \<Longrightarrow> safe (fist_translate x1) (\<lambda>_ _. True) b"
  unfolding fist_translate_def
  by (assumption | erule conjE | rule fpu_steps tr_safe | erule safe_trans)+

lemma safe_fxch_translate [tr_safe]:
  "wf_builder b \<Longrightarrow> safe (fxch_translate x1) (\<lambda>_ _. True) b"
  unfolding fxch_translate_def
  by (assumption | erule conjE | rule fpu_steps tr_safe | erule safe_trans)+

lemma safe_fpu_compute [tr_safe]:
  "wf_builder b \<Longrightarrow> vport b x2 \<Longrightarrow> vport b x3 \<Longrightarrow> safe (fpu_compute x1 x2 x3) okn b"
  unfolding fpu_compute_def
  by (assumption | erule conjE | rule fpu_steps tr_safe | erule safe_trans)+

lemma safe_farith_translate [tr_safe]:
  "wf_builder b \<Longrightarrow> safe (farith_translate x1) (\<lambda>_ _. True) b"
  unfolding farith_translate_def
  by (assumption | erule conjE | rule fpu_steps tr_safe | erule safe_trans)+

lemma safe_fprem_translate [tr_safe]:
  "wf_builder b \<Longrightarrow> safe (fprem_translate x1) (\<lambda>_ _. True) b"
  unfolding fprem_translate_def
  by (assumption | erule conjE | rule fpu_steps tr_safe | erule safe_trans)+

lemma safe_fprem1_translate [tr_safe]:
  "wf_builder b \<Longrightarrow> safe (fprem1_translate x1) (\<lambda>_ _. True) b"
  unfolding fprem1_translate_def
  by (assumption | erule conjE | rule fpu_steps tr_safe | erule safe_trans)+

lemma safe_fabs_translate [tr_safe]:
  "wf_builder b \<Longrightarrow> safe (fabs_translate x1) (\<lambda>_ _. True) b"
  unfolding fabs_translate_def
  by (assumption | erule conjE | rule fpu_steps tr_safe | erule safe_trans)+

lemma safe_fchs_translate [tr_safe]:
  "wf_builder b \<Longrightarrow> safe (fchs_translate x1) (\<lambda>_ _. True) b"
  unfolding fchs_translate_def
  by (assumption | erule conjE | rule fpu_steps tr_safe | erule safe_trans)+

lemma safe_frndint_translate [tr_safe]:
  "wf_builder b \<Longrightarrow> safe (frndint_translate x1) (\<lambda>_ _. True) b"
  unfolding frndint_translate_def
  by (assumption | erule conjE | rule fpu_steps tr_safe | erule safe_trans)+

lemma safe_fscale_translate [tr_safe]:
  "wf_builder b \<Longrightarrow> safe fscale_translate (\<lambda>_ _. True) b"
  unfolding fscale_translate_def
  by (assumption | erule conjE | rule fpu_steps tr_safe | erule safe_trans)+

lemma safe_fsqrt_translate [tr_safe]:
  "wf_builder b \<Longrightarrow> safe fsqrt_translate (\<lambda>_ _. True) b"
  unfolding fsqrt_translate_def
  by (assumption | erule conjE | rule fpu_steps tr_safe | erule safe_trans)+

lemma safe_fxtract_translate [tr_safe]:
  "wf_builder b \<Longrightarrow> safe fxtract_translate (\<lambda>_ _. True) b"
  unfolding fxtract_translate_def
  by (assumption | erule conjE | rule fpu_steps tr_safe | erule safe_trans)+

lemma safe_fcom_source [tr_safe]:
  "wf_builder b \<Longrightarrow> safe (fcom_source x1) okn b"
  unfolding fcom_source_def
  by (assumption | erule conjE | rule fpu_steps tr_safe | erule safe_trans)+

lemma safe_fcom_translate [tr_safe]:
  "wf_builder b \<Longrightarrow> safe (fcom_translate x1) (\<lambda>_ _. True) b"
  unfolding fcom_translate_def
  by (assumption | erule conjE | rule fpu_steps tr_safe | erule safe_trans)+

lemma safe_fcomi_translate [tr_safe]:
  "wf_builder b \<Longrightarrow> safe (fcomi_translate x1) (\<lambda>_ _. True) b"
  unfolding fcomi_translate_def
  by (assumption | erule conjE | rule fpu_steps tr_safe | erule safe_trans)+

lemma safe_fxam_select [tr_safe]:
  "wf_builder b \<Longrightarrow> vnode b x1 \<Longrightarrow> vnode b x3 \<Longrightarrow> safe (fxam_select x1 x2 x3) okn b"
  unfolding fxam_select_def
  by (assumption | erule conjE | rule fpu_steps tr_safe | erule safe_trans)+

lemma safe_fxam_class [tr_safe]:
  "wf_builder b \<Longrightarrow> vnode b x1 \<Longrightarrow> safe (fxam_class x1) okn b"
  unfolding fxam_class_def
  by (assumption | erule conjE | rule fpu_steps tr_safe | erule safe_trans)+

lemma safe_fxam_translate [tr_safe]:
  "wf_builder b \<Longrightarrow> safe fxam_translate (\<lambda>_ _. True) b"
  unfolding fxam_translate_def
  by (assumption | erule conjE | rule fpu_steps tr_safe | erule safe_trans)+

lemma safe_fsin_translate [tr_safe]:
  "wf_builder b \<Longrightarrow> safe (fsin_translate x1) (\<lambda>_ _. True) b"
  unfolding fsin_translate_def
  by (assumption | erule conjE | rule fpu_steps tr_safe | erule safe_trans)+

lemma safe_fsincos_translate [tr_safe]:
  "wf_builder b \<Longrightarrow> safe fsincos_translate (\<lambda>_ _. True) b"
  unfolding fsincos_translate_def
  by (assumption | erule conjE | rule fpu_steps tr_safe | erule safe_trans)+

lemma safe_fptan_translate [tr_safe]:
  "wf_builder b \<Longrightarrow> safe fptan_translate (\<lambda>_ _. True) b"
  unfolding fptan_translate_def
  by (assumption | erule conjE | rule fpu_steps tr_safe | erule safe_trans)+

lemma safe_fpatan_translate [tr_safe]:
  "wf_builder b \<Longrightarrow> safe fpatan_translate (\<lambda>_ _. True) b"
  unfolding fpatan_translate_def
  by (assumption | erule conjE | rule fpu_steps tr_safe | erule safe_trans)+

lemma safe_f2xm1_translate [tr_safe]:
  "wf_builder b \<Longrightarrow> safe f2xm1_translate (\<lambda>_ _. True) b"
  unfolding f2xm1_translate_def
  by (assumption | erule conjE | rule fpu_steps tr_safe | erule safe_trans)+

lemma safe_fyl2x_translate [tr_safe]:
  "wf_builder b \<Longrightarrow> safe fyl2x_translate (\<lambda>_ _. True) b"
  unfolding fyl2x_translate_def
  by (assumption | erule conjE | rule fpu_steps tr_safe | erule safe_trans)+

lemma safe_fyl2xp1_translate [tr_safe]:
  "wf_builder b \<Longrightarrow> safe fyl2xp1_translate (\<lambda>_ _. True) b"
  unfolding fyl2xp1_translate_def
  by (assumption | erule conjE | rule fpu_steps tr_safe | erule safe_trans)+

lemma safe_fld_constant_translate [tr_safe]:
  "wf_builder b \<Longrightarrow> safe (fld_constant_translate x1) (\<lambda>_ _. True) b"
  unfolding fld_constant_translate_def
  by (assumption | erule conjE | rule fpu_steps tr_safe | erule safe_trans)+

lemma safe_fstp_move_translate [tr_safe]:
  "wf_builder b \<Longrightarrow> safe (fstp_move_translate x1) (\<lambda>_ _. True) b"
  unfolding fstp_move_translate_def
  by (assumption | erule conjE | rule fpu_steps tr_safe | erule safe_trans)+

lemma safe_ffree_translate [tr_safe]:
  "wf_builder b \<Longrightarrow> safe (ffree_translate x1) (\<lambda>_ _. True) b"
  unfolding ffree_translate_def
  by (assumption | erule conjE | rule fpu_steps tr_safe | erule safe_trans)+

lemma safe_write_u16 [tr_safe]:
  "wf_builder b \<Longrightarrow> safe (write_u16 x1 x2) (\<lambda>_ _. True) b"
  unfolding write_u16_def
  by (assumption | erule conjE | rule fpu_steps tr_safe | erule safe_trans)+

lemma safe_fninit_translate [tr_safe]:
  "wf_builder b \<Longrightarrow> safe fninit_translate (\<lambda>_ _. True) b"
  unfolding fninit_translate_def
  by (assumption | erule conjE | rule fpu_steps tr_safe | erule safe_trans)+

lemma safe_fnclex_translate [tr_safe]:
  "wf_builder b \<Longrightarrow> safe fnclex_translate (\<lambda>_ _. True) b"
  unfolding fnclex_translate_def
  by (assumption | erule conjE | rule fpu_steps tr_safe | erule safe_trans)+

lemma safe_fnst_translate [tr_safe]:
  "wf_builder b \<Longrightarrow> safe (fnst_translate x1 x2) (\<lambda>_ _. True) b"
  unfolding fnst_translate_def
  by (assumption | erule conjE | rule fpu_steps tr_safe | erule safe_trans)+

lemma safe_fldcw_translate [tr_safe]:
  "wf_builder b \<Longrightarrow> safe (fldcw_translate x1) (\<lambda>_ _. True) b"
  unfolding fldcw_translate_def
  by (assumption | erule conjE | rule fpu_steps tr_safe | erule safe_trans)+

lemma safe_fpu_groups:
  assumes "wf_builder b"
  shows "f x = Some m \<Longrightarrow> f \<in> {fpu_transfer, fpu_arith, fpu_compare, fpu_transcendental, fpu_constant, fpu_control} \<Longrightarrow>
         safe m (\<lambda>_ _. True) b"
  using assms
  by (auto simp: fpu_transfer_def fpu_arith_def fpu_compare_def fpu_transcendental_def fpu_constant_def
        fpu_control_def Let_def split: if_splits intro: tr_safe)

lemma safe_fpu_translate [tr_safe]: "wf_builder b \<Longrightarrow> safe (fpu_translate x) (\<lambda>_ _. True) b"
  unfolding fpu_translate_def
  by (auto split: list.split simp: map_filter_simps safe_throw intro: safe_fpu_groups
        dest!: arg_cong [where f = set] split: option.splits if_splits)

end
