(* ===== verification/X86_Input_Arch.thy ===== *)
theory X86_Input_Arch
  imports X86_Control_Flow X86_Mov X86_Fpu
begin

text \<open>
  The x86 front end (\<open>src/input/x86/x86-input-arch.cpp\<close>): the choice of a translator for an
  instruction class (\<open>get_translator\<close>), the translation of one instruction into one packet
  (\<open>translator::translate\<close>), the loop over the code of a chunk (\<open>translate_chunk\<close>) and the
  wrappers around native library functions (\<open>gen_wrapper\<close>).

  The decoder is a parameter: \<open>decode off\<close> is the answer of \<open>xed_decode\<close> on the code from
  \<open>off\<close> on, \<open>None\<close> when it reports an error.  XED documents that a decoded instruction is
  1 to 15 bytes long; with length 0 the C++ loop would not end, which the model makes
  \<open>Undefined_behaviour\<close>.  \<open>dis\<close> is the disassembler, asked only in debug mode.
\<close>

datatype translator_class =
    TR_mov | TR_setcc | TR_jcc | TR_cmov | TR_nop | TR_binop | TR_stack | TR_branch | TR_shifts
  | TR_unop | TR_muldiv | TR_rep | TR_punpck | TR_fpvec | TR_shuffle | TR_atomic | TR_control
  | TR_fpu | TR_interrupt | TR_unimplemented

definition translator_table :: "(translator_class \<times> string list) list" where
  "translator_table =
     [(TR_mov,
        [''MOV'', ''LEA'', ''MOVQ'', ''MOVD'', ''MOVSX'', ''MOVSXD'', ''MOVSD_XMM'', ''MOVSB'',
         ''MOVSW'', ''MOVSD'', ''MOVSQ'', ''MOVZX'', ''MOVHPS'', ''MOVUPS'', ''MOVAPS'',
         ''MOVDQA'', ''MOVAPD'', ''MOVLPS'', ''MOVLPD'', ''MOVHPD'', ''MOVSS'', ''MOVDQU'',
         ''CQO'', ''CWD'', ''CDQ'', ''CDQE'']),
      (TR_setcc,
        [''SETNBE'', ''SETNB'', ''SETB'', ''SETBE'', ''SETZ'', ''SETNLE'', ''SETNL'', ''SETL'',
         ''SETLE'', ''SETNZ'', ''SETNO'', ''SETNP'', ''SETNS'', ''SETO'', ''SETP'', ''SETS'']),
      (TR_jcc,
        [''JNBE'', ''JNB'', ''JB'', ''JBE'', ''JZ'', ''JNLE'', ''JNL'', ''JL'', ''JLE'', ''JNZ'',
         ''JNO'', ''JNP'', ''JNS'', ''JO'', ''JP'', ''JS'']),
      (TR_cmov,
        [''CMOVNBE'', ''CMOVNB'', ''CMOVB'', ''CMOVBE'', ''CMOVZ'', ''CMOVNLE'', ''CMOVNL'',
         ''CMOVL'', ''CMOVLE'', ''CMOVNZ'', ''CMOVNO'', ''CMOVNP'', ''CMOVNS'', ''CMOVO'',
         ''CMOVP'', ''CMOVS'', ''FCMOVE'', ''FCMOVNE'', ''FCMOVB'', ''FCMOVBE'', ''FCMOVNB'',
         ''FCMOVNBE'', ''FCMOVU'', ''FCMOVNU'']),
      (TR_nop,
        [''NOP'', ''CPUID'', ''PREFETCHNTA'', ''PAUSE'']),
      (TR_binop,
        [''XOR'', ''PXOR'', ''AND'', ''PAND'', ''ANDPS'', ''ANDPD'', ''ANDNPS'', ''ANDNPD'',
         ''OR'', ''POR'', ''ORPS'', ''ORPD'', ''ADD'', ''ADDPS'', ''ADC'', ''SUB'', ''SBB'',
         ''CMP'', ''TEST'', ''XADD'', ''BT'', ''BTS'', ''BTR'', ''BSR'', ''BSF'', ''COMISS'',
         ''COMISD'', ''UCOMISS'', ''UCOMISD'', ''PADDQ'', ''PADDD'', ''PADDW'', ''PADDB'',
         ''PSUBQ'', ''PSUBD'', ''PSUBW'', ''PSUBB'', ''PCMPEQB'', ''PCMPEQW'', ''PCMPEQD'',
         ''PCMPGTB'', ''PCMPGTW'', ''PCMPGTD'', ''CMPSS'', ''CMPSD_XMM'']),
      (TR_stack,
        [''PUSH'', ''POP'', ''LEAVE'']),
      (TR_branch,
        [''CALL_FAR'', ''CALL_NEAR'', ''RET_FAR'', ''RET_NEAR'', ''JMP'']),
      (TR_shifts,
        [''SAR'', ''SHR'', ''SHL'', ''SHRD'', ''SHLD'', ''ROR'', ''ROL'', ''PSRLW'', ''PSRLD'',
         ''PSRLQ'', ''PSLLDQ'', ''PSRLDQ'', ''PSLLD'']),
      (TR_unop,
        [''INC'', ''DEC'', ''NOT'', ''NEG'', ''BSWAP'', ''PMOVMSKB'', ''SQRTSD'']),
      (TR_muldiv,
        [''MUL'', ''IMUL'', ''DIV'', ''IDIV'', ''PMULUDQ'', ''PMULLW'']),
      (TR_rep,
        [''REPE_CMPSB'', ''REP_STOSB'', ''REP_STOSD'', ''REP_STOSW'', ''REP_STOSQ'',
         ''REP_MOVSB'', ''REP_MOVSD'', ''REP_MOVSW'', ''REP_MOVSQ'']),
      (TR_punpck,
        [''UNPCKHPD'', ''PUNPCKLBW'', ''PUNPCKLWD'', ''PUNPCKLDQ'', ''PUNPCKLQDQ'',
         ''PUNPCKHBW'', ''PUNPCKHWD'', ''PUNPCKHDQ'', ''PUNPCKHQDQ'', ''PACKUSWB'', ''PACKSSWB'',
         ''PACKSSDW'', ''PEXTRW'']),
      (TR_fpvec,
        [''SUBPD'', ''ADDPD'', ''XORPD'', ''XORPS'', ''VADDSS'', ''ADDSS'', ''VSUBSS'',
         ''SUBSS'', ''VDIVSS'', ''DIVSS'', ''VMULSS'', ''MULSS'', ''VADDSD'', ''ADDSD'',
         ''VSUBSD'', ''SUBSD'', ''VDIVSD'', ''DIVSD'', ''VMULSD'', ''MULSD'', ''CVTSD2SI'',
         ''CVTSD2SS'', ''CVTSS2SD'', ''CVTSS2SI'', ''CVTSI2SS'', ''CVTSI2SD'', ''CVTTSS2SI'',
         ''CVTTSD2SI'']),
      (TR_shuffle,
        [''PSHUFD'', ''SHUFPS'', ''SHUFPD'', ''PSHUFLW'', ''PSHUFHW'']),
      (TR_atomic,
        [''XADD_LOCK'', ''XCHG'', ''CMPXCHG_LOCK'', ''ADD_LOCK'', ''AND_LOCK'', ''OR_LOCK'',
         ''INC_LOCK'', ''DEC_LOCK'']),
      (TR_control,
        [''XGETBV'', ''STD'', ''CLD'', ''STC'', ''CLC'']),
      (TR_fpu,
        [''FLD'', ''FST'', ''FSTP'', ''FILD'', ''FIST'', ''FISTP'', ''FXCH'', ''FADD'',
         ''FADDP'', ''FIADD'', ''FSUB'', ''FSUBP'', ''FISUB'', ''FSUBR'', ''FSUBRP'', ''FISUBR'',
         ''FMUL'', ''FMULP'', ''FIMUL'', ''FDIV'', ''FDIVP'', ''FIDIV'', ''FDIVR'', ''FDIVRP'',
         ''FIDIVR'', ''FPREM'', ''FPREM1'', ''FABS'', ''FCHS'', ''FRNDINT'', ''FSCALE'',
         ''FSQRT'', ''FXTRACT'', ''FCOM'', ''FCOMP'', ''FCOMPP'', ''FUCOM'', ''FUCOMP'',
         ''FUCOMPP'', ''FICOM'', ''FICOMP'', ''FCOMI'', ''FUCOMI'', ''FCOMIP'', ''FUCOMIP'',
         ''FTST'', ''FXAM'', ''FSIN'', ''FCOS'', ''FSINCOS'', ''FPTAN'', ''FPATAN'', ''F2XM1'',
         ''FYL2X'', ''FYL2XP1'', ''FLD1'', ''FLDZ'', ''FLDPI'', ''FLDL2E'', ''FLDLN2'',
         ''FLDL2T'', ''FLDLG2'', ''FINCSTP'', ''FDECSTP'', ''FFREE'', ''FNINIT'', ''FNCLEX'',
         ''FNSTCW'', ''FLDCW'', ''FNSTSW'', ''FWAIT'', ''FNOP'']),
      (TR_interrupt,
        [''HLT'', ''INT'', ''INT3'', ''SYSCALL'', ''UD0'', ''UD1'', ''UD2''])]"

definition get_translator :: "string \<Rightarrow> translator_class" where
  "get_translator ic =
     (case find (\<lambda>e. ic \<in> set (snd e)) translator_table of
        None \<Rightarrow> TR_unimplemented | Some e \<Rightarrow> fst e)"

definition do_translate :: "xed_inst \<Rightarrow> unit tr" where
  "do_translate x =
     (case get_translator (iclass x) of
        TR_mov \<Rightarrow> mov_translate x
      | TR_setcc \<Rightarrow> setcc_translate x
      | TR_jcc \<Rightarrow> jcc_translate x
      | TR_cmov \<Rightarrow> cmov_translate x
      | TR_nop \<Rightarrow> nop_translate
      | TR_binop \<Rightarrow> binop_translate x
      | TR_stack \<Rightarrow> stack_translate x
      | TR_branch \<Rightarrow> branch_translate x
      | TR_shifts \<Rightarrow> shifts_translate x
      | TR_unop \<Rightarrow> unop_translate x
      | TR_rep \<Rightarrow> rep_translate x
      | TR_atomic \<Rightarrow> atomic_translate x
      | TR_control \<Rightarrow> control_translate x
      | TR_interrupt \<Rightarrow> interrupt_translate x
      | TR_unimplemented \<Rightarrow> unimplemented_translate x
      | TR_muldiv \<Rightarrow> muldiv_translate x
      | TR_punpck \<Rightarrow> punpck_translate x
      | TR_fpvec \<Rightarrow> fpvec_translate x
      | TR_shuffle \<Rightarrow> shuffle_translate x
      | TR_fpu \<Rightarrow> fpu_translate x)"

section \<open>One instruction\<close>

datatype translation_result = TRes_normal | TRes_noop | TRes_end_of_block

definition noop_classes :: "string list" where
  "noop_classes = [''CPUID'', ''PREFETCHNTA'', ''PAUSE'', ''NOP'']"

definition result_of :: "translation_result \<Rightarrow> packet_type \<Rightarrow> translation_result" where
  "result_of r t = (if t = End_of_block then TRes_end_of_block else r)"

definition translate :: "64 word \<Rightarrow> xed_inst \<Rightarrow> string \<Rightarrow> translation_result tr" where
  "translate addr x dstr =
     andthen (begin_packet addr dstr)
     (if iclass x \<in> set noop_classes then bnd end_packet (\<lambda>t. ret (result_of TRes_noop t))
      else andthen (do_translate x) (bnd end_packet (\<lambda>t. ret (result_of TRes_normal t))))"

section \<open>A chunk\<close>

type_synonym decoder = "nat \<Rightarrow> xed_inst option"

function translate_loop ::
  "decoder \<Rightarrow> (64 word \<Rightarrow> xed_inst \<Rightarrow> string) \<Rightarrow> bool \<Rightarrow> bool \<Rightarrow> nat \<Rightarrow> nat \<Rightarrow> 64 word \<Rightarrow> string
    \<Rightarrow> translation_result option \<Rightarrow> (64 word \<times> translation_result option) tr" where
  "translate_loop decode dis dbg basic_block code_size off addr dstr r =
     (if off < code_size then
        (case decode off of
           None \<Rightarrow> throw (Runtime_error ''unable to decode instruction'')
         | Some x \<Rightarrow>
             (let len = unat (inst_len x); dstr' = (if dbg then dis addr x else dstr) in
              if len = 0 then throw (Undefined_behaviour ''instruction of length 0'')
              else
                bnd (translate addr x dstr') (\<lambda>r'.
                if r' = TRes_end_of_block \<and> basic_block then ret (addr, Some r')
                else translate_loop decode dis dbg basic_block code_size (off + len)
                       (addr + of_nat len) dstr' (Some r'))))
      else ret (addr, r))"
  by pat_completeness auto
termination
  by (relation "measure (\<lambda>(decode, dis, dbg, bb, code_size, off, addr, dstr, r). code_size - off)") auto

declare translate_loop.simps [simp del]

definition continue_at :: "64 word \<Rightarrow> unit tr" where
  "continue_at addr =
     andthen (begin_packet 0 [])
     (bnd (insert_constant_u64 addr) (\<lambda>c.
     andthen (insert_write_pc (val c) Br_br 0)
     (andthen end_packet (ret ()))))"

definition translate_chunk ::
  "decoder \<Rightarrow> (64 word \<Rightarrow> xed_inst \<Rightarrow> string) \<Rightarrow> bool \<Rightarrow> 64 word \<Rightarrow> nat \<Rightarrow> bool \<Rightarrow> string \<Rightarrow> unit tr" where
  "translate_chunk decode dis dbg base_address code_size basic_block name =
     andthen (begin_chunk name)
     (bnd (translate_loop decode dis dbg basic_block code_size 0 base_address [] None) (\<lambda>ar.
     case snd ar of
       None \<Rightarrow> throw (Undefined_behaviour ''uninitialised translation result'')
     | Some r \<Rightarrow>
         andthen (if r = TRes_normal then continue_at (fst ar) else ret ()) end_chunk))"

section \<open>Native library wrappers\<close>

definition gpr_arg_regoff :: "nat list" where
  "gpr_arg_regoff = [off_RDI, off_RSI, off_RDX, off_RCX, off_R8, off_R9]"

definition gpr_arg_regname :: "string list" where
  "gpr_arg_regname = [''RDI'', ''RSI'', ''RCX'', ''RDX'', ''R8'', ''R9'']"

text \<open>\<open>reg_idx::R\<close> is the position of the register in \<open>reg.def\<close>.\<close>

definition reg_idx :: "string \<Rightarrow> nat" where
  "reg_idx n = the (map_of (zip regnames [0..<length regnames]) n)"

definition gpr_arg_regidx :: "nat list" where
  "gpr_arg_regidx = map reg_idx [''RDI'', ''RSI'', ''RCX'', ''RDX'', ''R8'', ''R9'']"

fun wrapper_args :: "value_type list \<Rightarrow> nat \<Rightarrow> (port list) tr" where
  "wrapper_args [] gri = ret []"
| "wrapper_args (item # items) gri =
     (case tclass item of
        none \<Rightarrow> wrapper_args items gri
      | floating_point \<Rightarrow> throw (Runtime_error ''Float args unsupported in native lib wrapper.'')
      | _ \<Rightarrow>
          if gri \<ge> 6 then throw (Runtime_error ''Stack args unsupported in native lib wrapper.'')
          else
            bnd (insert_read_reg item (gpr_arg_regoff ! gri) (gpr_arg_regidx ! gri)
                   (gpr_arg_regname ! gri)) (\<lambda>n.
            bnd (wrapper_args items (gri + 1)) (\<lambda>ps. ret (val n # ps))))"

definition wrapper_return :: "value_type \<Rightarrow> node_id \<Rightarrow> unit tr" where
  "wrapper_return retty call =
     (case tclass retty of
        none \<Rightarrow> ret ()
      | floating_point \<Rightarrow> throw (Runtime_error ''Float return types unsupported in native lib wrapper.'')
      | _ \<Rightarrow>
          if element_width retty \<le> 64
          then andthen (insert_write_reg off_RAX (reg_idx ''RAX'') ''RAX'' (val call)) (ret ())
          else throw (Runtime_error ''Return types > 64bit unsupported in native lib wrapper.''))"

definition wrapper_ret_packet :: "unit tr" where
  "wrapper_ret_packet =
     andthen (begin_packet 1 [])
     (bnd (insert_read_reg u64 off_RSP (reg_idx ''RSP'') ''RSP'') (\<lambda>rsp.
     bnd (insert_read_mem u64 (val rsp)) (\<lambda>retaddr.
     bnd (insert_constant_u64 8) (\<lambda>c8.
     bnd (insert_add (val rsp) (val c8)) (\<lambda>new_rsp.
     andthen (insert_write_reg off_RSP (reg_idx ''RSP'') ''RSP'' (val new_rsp))
     (andthen (insert_write_pc (val retaddr) Br_ret 0)
     (andthen end_packet (ret ()))))))))"

definition gen_wrapper :: "string \<Rightarrow> function_type \<Rightarrow> unit tr" where
  "gen_wrapper fname sig =
     andthen (begin_chunk (''__arancini__'' @ fname @ ''_wrapper''))
     (andthen (begin_packet 0 [])
     (bnd (wrapper_args (parameter_types sig) 0) (\<lambda>args.
     bnd (insert_internal_call \<lparr>if_name = fname, if_sig = sig\<rparr> args) (\<lambda>call.
     andthen (wrapper_return (return_type sig) call)
     (andthen end_packet
     (andthen wrapper_ret_packet end_chunk))))))"

end
