(* ===== verification/X86_Safe.thy ===== *)
theory X86_Safe
  imports X86_Integer_Safe X86_Vector_Safe X86_Fpu_Safe X86_Input_Arch
begin

text \<open>
  Every translator, and the wrappers of native functions, keep the builder's invariant.
\<close>

section \<open>The front end\<close>

lemma safe_do_translate [tr_safe]: "wf_builder b \<Longrightarrow> safe (do_translate x) (\<lambda>_ _. True) b"
  unfolding do_translate_def
  by (cases "get_translator (iclass x)") (simp_all only: translator_class.case, (assumption | rule tr_safe)+)

lemma safe_wrapper_args:
  "wf_builder b \<Longrightarrow> safe (wrapper_args ts k) (\<lambda>ps b'. \<forall>p \<in> set ps. vport b' p) b"
proof (induction ts arbitrary: k b)
  case Nil
  then show ?case by (simp add: safe_ret)
next
  case (Cons t ts)
  have step: "safe (bnd (insert_read_reg t (gpr_arg_regoff ! k) (gpr_arg_regidx ! k) (gpr_arg_regname ! k))
      (\<lambda>n. bnd (wrapper_args ts (k + 1)) (\<lambda>ps. ret (val n # ps)))) (\<lambda>ps b'. \<forall>p \<in> set ps. vport b' p) b"
    by (rule safe_bnd [OF safe_insert_leaf(19) [OF Cons.prems]], rule safe_bnd, rule Cons.IH, assumption)
       (auto intro!: safe_ret vport_valI intro: vnode_ext)
  show ?case
    using step Cons.IH [OF Cons.prems, of k] safe_throw by (auto split: value_type_class.split)
qed

lemma safe_wrapper_return [tr_safe]:
  "wf_builder b \<Longrightarrow> vnode b n \<Longrightarrow> safe (wrapper_return t n) (\<lambda>_ _. True) b"
  unfolding wrapper_return_def
  by (cases "tclass t") (simp_all only: value_type_class.case, (assumption | rule safe_shape tr_safe safe_port)+)

end
