(* ===== verification/X86_Chunks.thy ===== *)
theory X86_Chunks
  imports X86_Safe
begin

text \<open>
  What the front end appends to the chunk: \<open>translate\<close> one packet for one instruction,
  \<open>translate_loop\<close> one packet per decoded instruction with the instruction's address, and
  \<open>translate_chunk\<close> a finished chunk of these, closed by a packet that continues at the
  next address where it is needed.
\<close>

text \<open>Between packets: the invariant, an open chunk with the packets \<open>ps\<close>, no packet.\<close>

definition between :: "string \<Rightarrow> packet list \<Rightarrow> builder \<Rightarrow> bool" where
  "between nm ps b \<longleftrightarrow>
     wf_builder b \<and> current_pkt b = None \<and> current_chunk b = Some \<lparr>c_name = nm, packets = ps\<rparr>
     \<and> \<not> chunk_complete b"

text \<open>Inside a packet with the given address.\<close>

definition inside :: "string \<Rightarrow> packet list \<Rightarrow> 64 word \<Rightarrow> builder \<Rightarrow> bool" where
  "inside nm ps addr b \<longleftrightarrow>
     wf_builder b \<and> (\<exists>p. current_pkt b = Some p \<and> address p = addr)
     \<and> current_chunk b = Some \<lparr>c_name = nm, packets = ps\<rparr> \<and> \<not> chunk_complete b"

lemma holds_conj: "holds m P b \<Longrightarrow> holds m Q b \<Longrightarrow> holds m (\<lambda>x b'. P x b' \<and> Q x b') b"
  by (simp add: holds_def)

lemma begin_packet_between:
  assumes "between nm ps b"
  shows "holds (begin_packet a d) (\<lambda>_ b'. inside nm ps a b' \<and> b_heap b' = b_heap b) b"
proof -
  have "wf_builder b" using assms by (simp add: between_def)
  from begin_packet_wf [OF this, of a d] show ?thesis
    by (rule holds_weaken) (use assms in \<open>auto simp: between_def inside_def mk_packet_def\<close>)
qed

lemma begin_packet_current:
  "holds (begin_packet a d) (\<lambda>_ b'. current_pkt b' = Some (mk_packet a d)) b"
  by (simp add: holds_def begin_packet_def)

lemma safe_inside:
  assumes "inside nm ps a b" and "safe m Q b"
  shows "holds m (\<lambda>x b'. inside nm ps a b' \<and> heap_ext (b_heap b) (b_heap b') \<and> Q x b') b"
  using holds_safe [OF assms(2)]
proof (rule holds_weaken)
  fix x b' assume "wf_builder b' \<and> b_ext b b' \<and> Q x b'"
  with assms(1) show "inside nm ps a b' \<and> heap_ext (b_heap b) (b_heap b') \<and> Q x b'"
    by (auto simp: inside_def b_ext_def packet_ext_def option_rel_Some1)
qed

lemma end_packet_inside:
  assumes "inside nm ps a b"
  shows "holds end_packet (\<lambda>t b'. b_heap b' = b_heap b \<and> (\<exists>p. address p = a \<and> between nm (ps @ [p]) b'
      \<and> t = (if packet_updates_pc (b_heap b') p \<noteq> Br_none then End_of_block else Normal))) b"
proof -
  have "wf_builder b" using assms by (simp add: inside_def)
  from end_packet_wf [OF this] show ?thesis
    by (rule holds_weaken) (use assms in \<open>auto simp: between_def inside_def add_packet_def\<close>)
qed

text \<open>The result of translating an instruction into the packet \<open>p\<close>.\<close>

definition packet_result :: "heap \<Rightarrow> xed_inst \<Rightarrow> packet \<Rightarrow> translation_result" where
  "packet_result h x p =
     (if packet_updates_pc h p \<noteq> Br_none then TRes_end_of_block
      else if iclass x \<in> set noop_classes then TRes_noop else TRes_normal)"

lemma translate_holds:
  assumes "between nm ps b"
  shows "holds (translate addr x d) (\<lambda>r b'. heap_ext (b_heap b) (b_heap b')
      \<and> (\<exists>p. address p = addr \<and> between nm (ps @ [p]) b' \<and> r = packet_result (b_heap b') x p)) b"
  unfolding translate_def
proof (rule holds_andthen [OF begin_packet_between [OF assms]])
  let ?Q = "\<lambda>r b'. heap_ext (b_heap b) (b_heap b')
      \<and> (\<exists>p. address p = addr \<and> between nm (ps @ [p]) b' \<and> r = packet_result (b_heap b') x p)"
  fix u b1 assume b1: "inside nm ps addr b1 \<and> b_heap b1 = b_heap b"
  have fin: "holds (bnd end_packet (\<lambda>t. ret (result_of r t))) ?Q b2"
    if "inside nm ps addr b2" "heap_ext (b_heap b) (b_heap b2)"
      "r = (if iclass x \<in> set noop_classes then TRes_noop else TRes_normal)" for b2 r
    by (rule holds_bnd [OF end_packet_inside [OF that(1)]])
       (use that in \<open>auto intro!: holds_ret simp: result_of_def packet_result_def\<close>)
  show "holds (if iclass x \<in> set noop_classes then bnd end_packet (\<lambda>t. ret (result_of TRes_noop t))
        else andthen (do_translate x) (bnd end_packet (\<lambda>t. ret (result_of TRes_normal t)))) ?Q b1"
  proof (cases "iclass x \<in> set noop_classes")
    case True
    with fin [of b1 TRes_noop] b1 show ?thesis by simp
  next
    case False
    have "safe (do_translate x) (\<lambda>_ _. True) b1"
      using b1 by (intro safe_do_translate) (simp add: inside_def)
    with b1 have h: "holds (do_translate x)
        (\<lambda>_ b'. inside nm ps addr b' \<and> heap_ext (b_heap b) (b_heap b') \<and> True) b1"
      using safe_inside [of nm ps addr b1 "do_translate x" "\<lambda>_ _. True"] by simp
    have "holds (andthen (do_translate x) (bnd end_packet (\<lambda>t. ret (result_of TRes_normal t)))) ?Q b1"
    proof (rule holds_andthen [OF h])
      fix u b2 assume "inside nm ps addr b2 \<and> heap_ext (b_heap b) (b_heap b2) \<and> True"
      with False show "holds (bnd end_packet (\<lambda>t. ret (result_of TRes_normal t))) ?Q b2"
        by (intro fin) simp_all
    qed
    with False show ?thesis by simp
  qed
qed

text \<open>The packet that continues at an address: one write of a constant to the PC.\<close>

definition continues_at :: "heap \<Rightarrow> packet \<Rightarrow> 64 word \<Rightarrow> bool" where
  "continues_at h p a \<longleftrightarrow>
     (\<exists>n m nd md. actions p = [n] \<and> nodes h n = Some nd \<and> n_data nd = Write_pc (val m) Br_br 0
        \<and> nodes h m = Some md \<and> n_data md = Constant_i a \<and> n_vt md = u64)"

lemma safe_continue [tr_safe]:
  "wf_builder b \<Longrightarrow> safe (bnd (insert_constant_u64 a) (\<lambda>c. insert_write_pc (val c) Br_br 0)) okn b"
  by (assumption | rule safe_shape tr_safe safe_port | erule safe_trans)+

lemma create_and_insert_result:
  assumes "create_and_insert c b = Inr (n, b')"
  shows "n = next_id (b_heap b) \<and> (\<exists>h. c n (b_heap b) = Inr h \<and> b_heap b' = h\<lparr>next_id := Suc n\<rparr>)
    \<and> current_pkt b' = (if node_is_action (b_heap b') n
                         then map_option (append_action n) (current_pkt b) else current_pkt b)"
  using assms
  by (auto simp: create_and_insert_def bnd_def create_def Let_def insert_node_def process_node_def
      insert_action_def andthen_def ret_def split: sum.splits option.splits if_splits)

lemma insert_continue_pc:
  assumes "current_pkt b = Some p" and "actions p = []"
  shows "holds (bnd (insert_constant_u64 a) (\<lambda>c. insert_write_pc (val c) Br_br 0))
    (\<lambda>_ b'. \<exists>p'. current_pkt b' = Some p' \<and> continues_at (b_heap b') p' a) b"
  unfolding holds_def
proof (intro allI impI)
  fix n b2 assume r: "bnd (insert_constant_u64 a) (\<lambda>c. insert_write_pc (val c) Br_br 0) b = Inr (n, b2)"
  obtain m b1 where 1: "create_and_insert (constant_node_i u64 a) b = Inr (m, b1)"
      "create_and_insert (write_pc_node (val m) Br_br 0) b1 = Inr (n, b2)"
    using r unfolding insert_constant_u64_def insert_write_pc_def by (rule bnd_InrE)
  note c1 = create_and_insert_result [OF 1(1)]
  note c2 = create_and_insert_result [OF 1(2)]
  have i: "is_action (Constant_i a) = False" "is_action (Write_pc (val m) Br_br 0) = True"
    by (simp_all add: is_action_def)
  have h1: "nodes (b_heap b1) = (nodes (b_heap b))(m \<mapsto> mk_node u64 (Constant_i a))" "next_id (b_heap b1) = Suc m"
    using c1 by (auto simp: constant_node_i_def split: if_splits)
  have h2: "nodes (b_heap b2) = (nodes (b_heap b1))(n \<mapsto> mk_node action_vt (Write_pc (val m) Br_br 0))" "n = Suc m"
    using c2 h1(2) by (auto simp: write_pc_node_def)
  have "current_pkt b1 = Some p"
    using c1 h1 i(1) assms(1) by (simp add: node_is_action_def mk_node_def)
  moreover have "node_is_action (b_heap b2) n" using h2 i(2) by (simp add: node_is_action_def mk_node_def)
  ultimately have "current_pkt b2 = Some (append_action n p)" using c2 by simp
  then show "\<exists>p'. current_pkt b2 = Some p' \<and> continues_at (b_heap b2) p' a"
    using h1(1) h2 assms(2) by (auto simp: continues_at_def append_action_def mk_node_def)
qed

lemma continue_at_holds:
  assumes "between nm ps b"
  shows "holds (continue_at a) (\<lambda>_ b'. heap_ext (b_heap b) (b_heap b')
      \<and> (\<exists>p. address p = 0 \<and> continues_at (b_heap b') p a \<and> between nm (ps @ [p]) b')) b"
proof -
  let ?m = "bnd (insert_constant_u64 a) (\<lambda>c. insert_write_pc (val c) Br_br 0)"
  let ?Q = "\<lambda>_ b'. heap_ext (b_heap b) (b_heap b')
      \<and> (\<exists>p. address p = 0 \<and> continues_at (b_heap b') p a \<and> between nm (ps @ [p]) b')"
  have eq: "continue_at a = andthen (begin_packet 0 []) (andthen ?m (andthen end_packet (ret ())))"
    by (auto simp: continue_at_def bnd_def andthen_def fun_eq_iff split: sum.split)
  show ?thesis
    unfolding eq
  proof (rule holds_andthen)
    show "holds (begin_packet 0 []) (\<lambda>_ b'. inside nm ps 0 b' \<and> b_heap b' = b_heap b
        \<and> current_pkt b' = Some (mk_packet 0 [])) b"
      by (rule holds_weaken [OF holds_conj [OF begin_packet_between [OF assms] begin_packet_current]]) simp
  next
    fix u b1 assume b1: "inside nm ps 0 b1 \<and> b_heap b1 = b_heap b \<and> current_pkt b1 = Some (mk_packet 0 [])"
    have 1: "holds ?m (\<lambda>n b'. inside nm ps 0 b' \<and> heap_ext (b_heap b1) (b_heap b') \<and> okn n b') b1"
      using b1 by (intro safe_inside safe_continue) (auto simp: inside_def)
    have 2: "holds ?m (\<lambda>_ b'. \<exists>p'. current_pkt b' = Some p' \<and> continues_at (b_heap b') p' a) b1"
      using b1 by (intro insert_continue_pc) (auto simp: mk_packet_def)
    show "holds (andthen ?m (andthen end_packet (ret ()))) ?Q b1"
    proof (rule holds_andthen [OF holds_conj [OF 1 2]])
      fix n b2 assume b2: "(inside nm ps 0 b2 \<and> heap_ext (b_heap b1) (b_heap b2) \<and> okn n b2)
        \<and> (\<exists>p'. current_pkt b2 = Some p' \<and> continues_at (b_heap b2) p' a)"
      then have "wf_builder b2" by (simp add: inside_def)
      then show "holds (andthen end_packet (ret ())) ?Q b2"
      proof (rule holds_andthen [OF end_packet_wf])
        fix t b3 assume b3: "wf_builder b3 \<and> (\<exists>p c. current_pkt b2 = Some p \<and> current_chunk b2 = Some c
          \<and> b3 = b2\<lparr>current_chunk := Some (add_packet p c), current_pkt := None\<rparr>
          \<and> t = (if packet_updates_pc (b_heap b2) p \<noteq> Br_none then End_of_block else Normal))"
        with b2 obtain p where p: "current_pkt b2 = Some p" "continues_at (b_heap b2) p a" "address p = 0"
            "b3 = b2\<lparr>current_chunk := Some \<lparr>c_name = nm, packets = ps @ [p]\<rparr>, current_pkt := None\<rparr>"
          by (auto simp: inside_def add_packet_def)
        have "between nm (ps @ [p]) b3" using b2 b3 p(4) by (simp add: between_def inside_def)
        then have "?Q () b3" using p b1 b2 by auto
        then show "holds (ret ()) ?Q b3" by (rule holds_ret)
      qed
    qed
  qed
qed

section \<open>The loop\<close>

text \<open>
  \<open>loop_trace\<close> specifies the loop: \<open>ps\<close> are packets at the addresses of the instructions
  that lie one after the other from \<open>off\<close> on, and the loop ends at or past the end of the
  code, or in a basic block with the first packet that updates the PC.  \<open>r'\<close> is the result
  for the last packet and \<open>addr'\<close> the address reached.
\<close>

fun loop_trace :: "decoder \<Rightarrow> bool \<Rightarrow> nat \<Rightarrow> heap \<Rightarrow> nat \<Rightarrow> 64 word \<Rightarrow> packet list
    \<Rightarrow> translation_result option \<Rightarrow> 64 word \<Rightarrow> translation_result option \<Rightarrow> bool" where
  "loop_trace decode bb sz h off addr [] r addr' r' \<longleftrightarrow> sz \<le> off \<and> addr' = addr \<and> r' = r"
| "loop_trace decode bb sz h off addr (p # ps) r addr' r' \<longleftrightarrow>
     off < sz \<and> address p = addr
     \<and> (case decode off of
          None \<Rightarrow> False
        | Some x \<Rightarrow>
            inst_len x \<noteq> 0
            \<and> (if packet_result h x p = TRes_end_of_block \<and> bb
               then ps = [] \<and> addr' = addr \<and> r' = Some TRes_end_of_block
               else loop_trace decode bb sz h (off + unat (inst_len x))
                      (addr + of_nat (unat (inst_len x))) ps (Some (packet_result h x p)) addr' r'))"

lemma action_updates_pc_ext:
  assumes "heap_ext h h'" and "nodes h a \<noteq> None"
  shows "action_updates_pc h' a = action_updates_pc h a"
proof -
  obtain n where n: "nodes h a = Some n" using assms(2) by auto
  with assms(1) obtain n' where "nodes h' a = Some n'" "node_ext n n'"
    unfolding heap_ext_def by blast
  with n show ?thesis
    by (cases "n_data n"; cases "n_data n'") (auto simp: action_updates_pc_def node_ext_def)
qed

lemma updates_pc_loop_ext:
  "heap_ext h h' \<Longrightarrow> \<forall>a \<in> set as. nodes h a \<noteq> None \<Longrightarrow>
   updates_pc_loop h' m as = updates_pc_loop h m as"
  by (induction as arbitrary: m) (simp_all add: action_updates_pc_ext)

lemma packet_result_ext:
  assumes "wf_builder b" and "p \<in> builder_packets b" and "heap_ext (b_heap b) h'"
  shows "packet_result h' x p = packet_result (b_heap b) x p"
proof -
  have "\<forall>a \<in> set (actions p). nodes (b_heap b) a \<noteq> None"
    using assms(1,2) by (auto simp: wf_builder_def actions_ok_def node_is_action_def split: option.splits)
  with assms(3) show ?thesis
    by (simp add: packet_result_def packet_updates_pc_def updates_pc_loop_ext)
qed

lemma loop_trace_ext:
  assumes "wf_builder b" and "set qs \<subseteq> builder_packets b" and "heap_ext (b_heap b) h'"
  shows "loop_trace decode bb sz h' off addr qs r addr' r' = loop_trace decode bb sz (b_heap b) off addr qs r addr' r'"
  using assms(2) packet_result_ext [OF assms(1) _ assms(3)]
  by (induction qs arbitrary: off addr r) (auto split: option.split)

lemma translate_loop_holds:
  "between nm ps b \<Longrightarrow>
   holds (translate_loop decode dis dbg bb sz off addr d r)
     (\<lambda>(addr', r') b'. heap_ext (b_heap b) (b_heap b')
        \<and> (\<exists>qs. between nm (ps @ qs) b' \<and> loop_trace decode bb sz (b_heap b') off addr qs r addr' r')) b"
proof (induction decode dis dbg bb sz off addr d r arbitrary: b ps rule: translate_loop.induct)
  case (1 decode dis dbg bb sz off addr d r)
  let ?Q = "\<lambda>(addr', r') b'. heap_ext (b_heap b) (b_heap b')
        \<and> (\<exists>qs. between nm (ps @ qs) b' \<and> loop_trace decode bb sz (b_heap b') off addr qs r addr' r')"
  have fin: "between nm (ps @ []) b" using 1(2) by simp
  show ?case
  proof (cases "off < sz \<and> (\<exists>x. decode off = Some x \<and> inst_len x \<noteq> 0)")
    case False
    with fin show ?thesis
      by (auto simp: translate_loop.simps [of decode dis dbg bb sz off] Let_def unat_eq_0
          intro!: holds_ret exI [of _ "[]"] split: option.split)
  next
    case True
    then obtain x where x: "off < sz" "decode off = Some x" "unat (inst_len x) \<noteq> 0"
      by (auto simp: unat_eq_0)
    define d' where "d' = (if dbg then dis addr x else d)"
    have step: "holds (bnd (translate addr x d') (\<lambda>r'. if r' = TRes_end_of_block \<and> bb
        then ret (addr, Some r')
        else translate_loop decode dis dbg bb sz (off + unat (inst_len x))
               (addr + of_nat (unat (inst_len x))) d' (Some r'))) ?Q b"
    proof (rule holds_bnd [OF translate_holds [OF 1(2)]])
      fix r1 b1 assume a: "heap_ext (b_heap b) (b_heap b1)
        \<and> (\<exists>p. address p = addr \<and> between nm (ps @ [p]) b1 \<and> r1 = packet_result (b_heap b1) x p)"
      then obtain p where p: "address p = addr" "between nm (ps @ [p]) b1"
          "r1 = packet_result (b_heap b1) x p" "heap_ext (b_heap b) (b_heap b1)" by blast
      then have pin: "wf_builder b1" "p \<in> builder_packets b1"
        by (auto simp: between_def builder_packets_def)
      show "holds (if r1 = TRes_end_of_block \<and> bb then ret (addr, Some r1)
          else translate_loop decode dis dbg bb sz (off + unat (inst_len x))
               (addr + of_nat (unat (inst_len x))) d' (Some r1)) ?Q b1"
      proof (cases "r1 = TRes_end_of_block \<and> bb")
        case True
        with p x show ?thesis by (auto intro!: holds_ret exI [of _ "[p]"] simp: unat_eq_0)
      next
        case False
        have "holds (translate_loop decode dis dbg bb sz (off + unat (inst_len x))
               (addr + of_nat (unat (inst_len x))) d' (Some r1)) ?Q b1"
        proof (rule holds_weaken [OF 1(1) [OF x(1,2) refl d'_def x(3) False p(2)]])
          fix ar b2
          assume \<open>(case ar of (addr', r') \<Rightarrow> \<lambda>b'. heap_ext (b_heap b1) (b_heap b')
            \<and> (\<exists>qs. between nm ((ps @ [p]) @ qs) b' \<and> loop_trace decode bb sz (b_heap b')
                 (off + unat (inst_len x)) (addr + of_nat (unat (inst_len x))) qs (Some r1) addr' r')) b2\<close>
          then obtain qs where qs: "heap_ext (b_heap b1) (b_heap b2)" "between nm (ps @ p # qs) b2"
              "loop_trace decode bb sz (b_heap b2) (off + unat (inst_len x))
                 (addr + of_nat (unat (inst_len x))) qs (Some r1) (fst ar) (snd ar)"
            by (auto split: prod.splits)
          have "r1 = packet_result (b_heap b2) x p"
            using p(3) packet_result_ext [OF pin qs(1)] by simp
          with qs p(1) x False heap_ext_trans [OF p(4) qs(1)] show "?Q ar b2"
            by (auto split: prod.splits intro!: exI [of _ "p # qs"] simp: unat_eq_0)
        qed
        then show ?thesis by (simp only: if_not_P [OF False])
      qed
    qed
    with x show ?thesis
      by (simp add: translate_loop.simps [of decode dis dbg bb sz off] Let_def d'_def [symmetric])
  qed
qed

section \<open>The chunk\<close>

lemma translate_chunk_holds:
  assumes "wf_builder b" and "\<not> chunk_complete b"
  shows "holds (translate_chunk decode dis dbg base sz bb nm)
    (\<lambda>_ b'. wf_builder b' \<and> heap_ext (b_heap b) (b_heap b') \<and> chunk_complete b' \<and> current_pkt b' = None
      \<and> (\<exists>qs addr' r. loop_trace decode bb sz (b_heap b') 0 base qs None addr' (Some r)
        \<and> (if r = TRes_normal
            then \<exists>p. address p = 0 \<and> continues_at (b_heap b') p addr'
                   \<and> current_chunk b' = Some \<lparr>c_name = nm, packets = qs @ [p]\<rparr>
            else current_chunk b' = Some \<lparr>c_name = nm, packets = qs\<rparr>))) b"
proof -
  let ?Q = "\<lambda>_ b'. wf_builder b' \<and> heap_ext (b_heap b) (b_heap b') \<and> chunk_complete b' \<and> current_pkt b' = None
      \<and> (\<exists>qs addr' r. loop_trace decode bb sz (b_heap b') 0 base qs None addr' (Some r)
        \<and> (if r = TRes_normal
            then \<exists>p. address p = 0 \<and> continues_at (b_heap b') p addr'
                   \<and> current_chunk b' = Some \<lparr>c_name = nm, packets = qs @ [p]\<rparr>
            else current_chunk b' = Some \<lparr>c_name = nm, packets = qs\<rparr>))"
  have fin: "holds end_chunk ?Q b2"
    if "between nm ps b2" and "heap_ext (b_heap b) (b_heap b2)"
      and "loop_trace decode bb sz (b_heap b2) 0 base qs None addr' (Some r)"
      and "if r = TRes_normal then \<exists>p. address p = 0 \<and> continues_at (b_heap b2) p addr' \<and> ps = qs @ [p]
           else ps = qs" for b2 ps qs addr' r
  proof -
    have "wf_builder b2" using that(1) by (simp add: between_def)
    from end_chunk_wf [OF this] show ?thesis
    proof (rule holds_weaken)
      fix u b3 assume "wf_builder b3 \<and> current_pkt b2 = None \<and> \<not> chunk_complete b2
        \<and> current_chunk b2 \<noteq> None \<and> b3 = b2\<lparr>allocator := False, chunk_complete := True\<rparr>"
      then show "?Q u b3"
        using that by (auto simp: between_def split: if_splits)
    qed
  qed
  show ?thesis
    unfolding translate_chunk_def
  proof (rule holds_andthen [OF begin_chunk_wf [OF assms(1)]])
    fix u b1 assume b1: "wf_builder b1 \<and> current_chunk b = None \<and> current_pkt b = None
      \<and> b1 = b\<lparr>allocator := True, current_chunk := Some \<lparr>c_name = nm, packets = []\<rparr>\<rparr>"
    then have bt: "between nm [] b1" and h1: "b_heap b1 = b_heap b"
      using assms(2) by (auto simp: between_def)
    show "holds (bnd (translate_loop decode dis dbg bb sz 0 base [] None) (\<lambda>ar.
       case snd ar of
         None \<Rightarrow> throw (Undefined_behaviour ''uninitialised translation result'')
       | Some r \<Rightarrow> andthen (if r = TRes_normal then continue_at (fst ar) else ret ()) end_chunk)) ?Q b1"
    proof (rule holds_bnd [OF translate_loop_holds [OF bt]])
      fix ar b2
      assume "(case ar of (addr', r') \<Rightarrow> \<lambda>b'. heap_ext (b_heap b1) (b_heap b')
        \<and> (\<exists>qs. between nm ([] @ qs) b' \<and> loop_trace decode bb sz (b_heap b') 0 base qs None addr' r')) b2"
      then obtain qs where qs: "heap_ext (b_heap b) (b_heap b2)" "between nm qs b2"
          "loop_trace decode bb sz (b_heap b2) 0 base qs None (fst ar) (snd ar)"
        using h1 by (auto split: prod.splits)
      show "holds (case snd ar of
         None \<Rightarrow> throw (Undefined_behaviour ''uninitialised translation result'')
       | Some r \<Rightarrow> andthen (if r = TRes_normal then continue_at (fst ar) else ret ()) end_chunk) ?Q b2"
      proof (cases "snd ar")
        case (Some r)
        have nn: "holds (andthen (continue_at (fst ar)) end_chunk) ?Q b2" if "r = TRes_normal"
        proof (rule holds_andthen [OF continue_at_holds [OF qs(2)]])
          fix u b3 assume b3: "heap_ext (b_heap b2) (b_heap b3) \<and> (\<exists>p. address p = 0
            \<and> continues_at (b_heap b3) p (fst ar) \<and> between nm (qs @ [p]) b3)"
          then obtain p where p: "address p = 0" "continues_at (b_heap b3) p (fst ar)"
              "between nm (qs @ [p]) b3" by blast
          have "loop_trace decode bb sz (b_heap b3) 0 base qs None (fst ar) (Some r)"
            using loop_trace_ext [of b2 qs "b_heap b3"] qs b3 Some by (auto simp: between_def builder_packets_def)
          with fin [OF p(3)] p heap_ext_trans [OF qs(1)] b3 that show "holds end_chunk ?Q b3" by auto
        qed
        have "holds (andthen (ret ()) end_chunk) ?Q b2" if "r \<noteq> TRes_normal"
          using fin [OF qs(2,1)] qs(3) Some that by (intro holds_andthen [of _ "\<lambda>_ b'. b' = b2"] holds_ret) auto
        with nn Some show ?thesis by simp
      qed simp
    qed
  qed
qed

end
