(* ===== verification/IR_Visitor.thy ===== *)
theory IR_Visitor
  imports Builder_Invariant
begin

text \<open>
  The default visitor (\<open>inc/arancini/ir/default-visitor.h\<close>) with the \<open>accept\<close> functions of
  the node classes.  A visit is the sequence of nodes whose own \<open>visit_\<close> callback runs, in
  order, together with the set \<open>seen_\<close> it leaves.  \<open>visit_port\<close> marks the owner of the port
  before it visits it; the \<open>accept\<close> of the atomic and internal-call classes returns at
  once for a marked node, every other \<open>accept\<close> runs its callback.
\<close>

definition accept_checks_seen :: "node_data \<Rightarrow> bool" where
  "accept_checks_seen d \<longleftrightarrow>
     kind d \<in> {K_unary_atomic, K_binary_atomic, K_ternary_atomic, K_internal_call}"

function (sequential)
  accept :: "heap \<Rightarrow> node_id \<Rightarrow> node_id set \<Rightarrow> node_id set \<times> node_id list" and
  visit_ports :: "heap \<Rightarrow> node_id \<Rightarrow> port list \<Rightarrow> node_id set \<Rightarrow> node_id set \<times> node_id list" where
  "accept h n seen =
     (case nodes h n of
        None \<Rightarrow> (seen, [])
      | Some nd \<Rightarrow>
          if accept_checks_seen (n_data nd) \<and> n \<in> seen then (seen, [])
          else (case visit_ports h n (operands (n_data nd)) seen of (seen', l) \<Rightarrow> (seen', n # l)))"
| "visit_ports h n [] seen = (seen, [])"
| "visit_ports h n (p # ps) seen =
     (if powner p \<in> seen \<or> \<not> powner p < n then visit_ports h n ps seen
      else case accept h (powner p) (insert (powner p) seen) of
             (seen1, l1) \<Rightarrow>
               (case visit_ports h n ps seen1 of (seen2, l2) \<Rightarrow> (seen2, l1 @ l2)))"
  by pat_completeness auto
termination
  by (relation "measures
        [\<lambda>x. case x of Inl (h, n, seen) \<Rightarrow> 2 * n + 1 | Inr (h, n, ps, seen) \<Rightarrow> 2 * n,
         \<lambda>x. case x of Inl _ \<Rightarrow> 0 | Inr (h, n, ps, seen) \<Rightarrow> length ps]") auto

declare accept.simps [simp del] visit_ports.simps [simp del]

text \<open>Visiting the actions of a packet in the given order.\<close>

fun visit_actions :: "heap \<Rightarrow> node_id list \<Rightarrow> node_id set \<Rightarrow> node_id set \<times> node_id list" where
  "visit_actions h [] seen = (seen, [])"
| "visit_actions h (a # as) seen =
     (case accept h a seen of
        (seen1, l1) \<Rightarrow> (case visit_actions h as seen1 of (seen2, l2) \<Rightarrow> (seen2, l1 @ l2)))"

fun visit_packets :: "heap \<Rightarrow> packet list \<Rightarrow> node_id set \<Rightarrow> node_id set \<times> node_id list" where
  "visit_packets h [] seen = (seen, [])"
| "visit_packets h (p # ps) seen =
     (case visit_actions h (actions p) seen of
        (seen1, l1) \<Rightarrow> (case visit_packets h ps seen1 of (seen2, l2) \<Rightarrow> (seen2, l1 @ l2)))"

text \<open>The nodes a node's value depends on, the visitor's specification.\<close>

inductive_set reach :: "heap \<Rightarrow> node_id \<Rightarrow> node_id set" for h n where
  reach_self: "nodes h n \<noteq> None \<Longrightarrow> n \<in> reach h n"
| reach_step: "m \<in> reach h n \<Longrightarrow> nodes h m = Some nd \<Longrightarrow> p \<in> set (operands (n_data nd))
     \<Longrightarrow> nodes h (powner p) \<noteq> None \<Longrightarrow> powner p \<in> reach h n"

lemma reach_refl_node: "nodes h n = Some nd \<Longrightarrow> n \<in> reach h n"
  by (auto intro: reach_self)

lemma reach_trans: "m \<in> reach h n \<Longrightarrow> k \<in> reach h m \<Longrightarrow> k \<in> reach h n"
  by (rotate_tac, induction rule: reach.induct) (auto intro: reach.intros)

lemma reach_operand:
  "nodes h n = Some nd \<Longrightarrow> p \<in> set (operands (n_data nd)) \<Longrightarrow> m \<in> reach h (powner p) \<Longrightarrow> m \<in> reach h n"
proof -
  assume a: "nodes h n = Some nd" "p \<in> set (operands (n_data nd))" "m \<in> reach h (powner p)"
  from a(3) have "nodes h (powner p) \<noteq> None" by (induction rule: reach.induct) auto
  with a(1,2) have "powner p \<in> reach h n" by (auto intro: reach.intros)
  then show ?thesis using a(3) by (rule reach_trans)
qed

lemma reach_cases_operand:
  assumes "m \<in> reach h n"
  shows "m = n \<or> (\<exists>nd p. nodes h n = Some nd \<and> p \<in> set (operands (n_data nd)) \<and> m \<in> reach h (powner p))"
  using assms
proof (induction rule: reach.induct)
  case (reach_step m nd p)
  then show ?case by (metis (no_types, lifting) reach.reach_self reach.reach_step)
qed simp

lemma accept_mono: "seen \<subseteq> fst (accept h n seen)"
  and visit_ports_mono: "seen \<subseteq> fst (visit_ports h n ps seen)"
proof (induction h n seen and h n ps seen rule: accept_visit_ports.induct)
  case (1 h n seen)
  then show ?case by (auto simp: accept.simps [of h n seen] split: option.splits prod.splits if_splits)
next
  case (3 h n p ps seen)
  show ?case
  proof (cases "powner p \<in> seen \<or> \<not> powner p < n")
    case True
    with 3 show ?thesis by (simp add: visit_ports.simps)
  next
    case False
    obtain s1 l1 where a: "accept h (powner p) (insert (powner p) seen) = (s1, l1)" by fastforce
    obtain s2 l2 where b: "visit_ports h n ps s1 = (s2, l2)" by fastforce
    from 3(2) [OF False] 3(3) [OF False a [symmetric]] a b False show ?thesis
      by (auto simp: visit_ports.simps)
  qed
qed (simp add: visit_ports.simps)

text \<open>Everything visited is reachable from where the visit started.\<close>

lemma accept_sound: "m \<in> set (snd (accept h n seen)) \<Longrightarrow> m \<in> reach h n"
  and visit_ports_sound:
    "m \<in> set (snd (visit_ports h n ps seen)) \<Longrightarrow> \<exists>p \<in> set ps. m \<in> reach h (powner p)"
proof (induction h n seen and h n ps seen rule: accept_visit_ports.induct)
  case (1 h n seen)
  then obtain nd where nd: "nodes h n = Some nd"
    by (auto simp: accept.simps [of h n seen] split: option.splits)
  with 1 have "m = n \<or> m \<in> set (snd (visit_ports h n (operands (n_data nd)) seen))"
    and "\<not> (accept_checks_seen (n_data nd) \<and> n \<in> seen)"
    by (auto simp: accept.simps [of h n seen] split: prod.splits if_splits)
  with 1(1) [OF nd] nd show ?case using reach_operand reach_refl_node by metis
next
  case (2 h n seen)
  then show ?case by (simp add: visit_ports.simps)
next
  case (3 h n p ps seen)
  show ?case
  proof (cases "powner p \<in> seen \<or> \<not> powner p < n")
    case True
    with 3 show ?thesis by (auto simp: visit_ports.simps)
  next
    case False
    obtain s1 l1 where a: "accept h (powner p) (insert (powner p) seen) = (s1, l1)" by fastforce
    obtain s2 l2 where b: "visit_ports h n ps s1 = (s2, l2)" by fastforce
    from 3(4) False a b have "m \<in> set l1 \<or> m \<in> set l2" by (auto simp: visit_ports.simps)
    with 3(2) [OF False] 3(3) [OF False a [symmetric]] a b show ?thesis by auto
  qed
qed

text \<open>
  Conversely everything reachable is visited, provided no node on the way is of a class
  whose \<open>accept\<close> returns early, and nothing of it had been visited before.
\<close>

definition early_return_free :: "heap \<Rightarrow> node_id set \<Rightarrow> bool" where
  "early_return_free h ns \<longleftrightarrow>
     (\<forall>m \<in> ns. \<forall>nd. nodes h m = Some nd \<longrightarrow> \<not> accept_checks_seen (n_data nd))"

definition operands_seen :: "heap \<Rightarrow> node_id set \<Rightarrow> node_id \<Rightarrow> bool" where
  "operands_seen h S m \<longleftrightarrow>
     (\<forall>nd. nodes h m = Some nd \<longrightarrow> (\<forall>p \<in> set (operands (n_data nd)). powner p \<in> S))"

lemma operands_seen_mono: "operands_seen h S m \<Longrightarrow> S \<subseteq> S' \<Longrightarrow> operands_seen h S' m"
  by (auto simp: operands_seen_def)

lemma early_return_free_mono: "early_return_free h B \<Longrightarrow> A \<subseteq> B \<Longrightarrow> early_return_free h A"
  by (auto simp: early_return_free_def)

lemma wf_heap_operand:
  "wf_heap h \<Longrightarrow> nodes h n = Some nd \<Longrightarrow> p \<in> set (operands (n_data nd)) \<Longrightarrow>
   powner p < n \<and> (\<exists>nd'. nodes h (powner p) = Some nd')"
  by (fastforce simp: wf_heap_def wf_node_def valid_port_def)

lemma accept_complete:
    "wf_heap h \<Longrightarrow> accept h n seen = (S, l) \<Longrightarrow> nodes h n \<noteq> None \<Longrightarrow>
     early_return_free h (reach h n) \<Longrightarrow>
     n \<in> set l \<and> S \<subseteq> seen \<union> set l \<and> (\<forall>m \<in> set l. operands_seen h S m)"
  and visit_ports_complete:
    "wf_heap h \<Longrightarrow> visit_ports h n ps seen = (S, l) \<Longrightarrow>
     \<forall>p \<in> set ps. powner p < n \<and> nodes h (powner p) \<noteq> None \<and> early_return_free h (reach h (powner p)) \<Longrightarrow>
     powner ` set ps \<subseteq> S \<and> S \<subseteq> seen \<union> set l \<and> (\<forall>m \<in> set l. operands_seen h S m)"
proof (induction h n seen and h n ps seen arbitrary: S l and S l rule: accept_visit_ports.induct)
  case (1 h n seen)
  then obtain nd where nd: "nodes h n = Some nd" by auto
  have "\<not> accept_checks_seen (n_data nd)"
    using 1(5) nd reach_refl_node [OF nd] by (auto simp: early_return_free_def)
  then have c: "\<not> (accept_checks_seen (n_data nd) \<and> n \<in> seen)" by simp
  obtain S1 l1 where v: "visit_ports h n (operands (n_data nd)) seen = (S1, l1)" by fastforce
  have sl: "S = S1" "l = n # l1" using 1(3) nd c v by (auto simp: accept.simps [of h n seen])
  have ops: "\<forall>p \<in> set (operands (n_data nd)). powner p < n \<and> nodes h (powner p) \<noteq> None
      \<and> early_return_free h (reach h (powner p))"
    using wf_heap_operand [OF 1(2) nd] reach_operand [OF nd] 1(5)
    by (fastforce simp: early_return_free_def)
  from 1(1) [OF nd c 1(2) v ops] sl nd show ?case
    by (auto simp: operands_seen_def)
next
  case (2 h n seen)
  then show ?case by (simp add: visit_ports.simps)
next
  case (3 h n p ps seen)
  show ?case
  proof (cases "powner p \<in> seen \<or> \<not> powner p < n")
    case True
    with 3(5,6) have "powner p \<in> seen" "visit_ports h n ps seen = (S, l)"
      by (auto simp: visit_ports.simps)
    with 3(1) [OF True 3(4)] 3(6) visit_ports_mono [of seen h n ps] show ?thesis by auto
  next
    case False
    obtain s1 l1 where a: "accept h (powner p) (insert (powner p) seen) = (s1, l1)" by fastforce
    obtain s2 l2 where b: "visit_ports h n ps s1 = (s2, l2)" by fastforce
    have sl: "S = s2" "l = l1 @ l2" using 3(5) False a b by (auto simp: visit_ports.simps)
    have A: "powner p \<in> set l1 \<and> s1 \<subseteq> insert (powner p) seen \<union> set l1
        \<and> (\<forall>m \<in> set l1. operands_seen h s1 m)"
      using 3(2) [OF False 3(4) a] 3(6) by simp
    have B: "powner ` set ps \<subseteq> s2 \<and> s2 \<subseteq> s1 \<union> set l2 \<and> (\<forall>m \<in> set l2. operands_seen h s2 m)"
      using 3(3) [OF False a [symmetric] 3(4) b] 3(6) by simp
    have "s1 \<subseteq> s2" using visit_ports_mono [of s1 h n ps] b by simp
    moreover have "powner p \<in> s1" using accept_mono [of "insert (powner p) seen" h "powner p"] a by auto
    ultimately show ?thesis using A B sl operands_seen_mono by (auto 0 3)
  qed
qed

lemma visit_actions_mono: "seen \<subseteq> fst (visit_actions h as seen)"
proof (induction as arbitrary: seen)
  case (Cons a as)
  obtain s1 l1 where "accept h a seen = (s1, l1)" by fastforce
  with accept_mono [of seen h a] Cons [of s1] show ?case by (auto split: prod.splits)
qed simp

lemma visit_actions_sound:
  "m \<in> set (snd (visit_actions h as seen)) \<Longrightarrow> \<exists>a \<in> set as. m \<in> reach h a"
proof (induction as arbitrary: seen)
  case (Cons a as)
  obtain s1 l1 where a: "accept h a seen = (s1, l1)" by fastforce
  with Cons.prems have "m \<in> set l1 \<or> m \<in> set (snd (visit_actions h as s1))"
    by (auto split: prod.splits)
  with Cons.IH [of s1] accept_sound [of m h a seen] a show ?case by auto
qed simp

lemma visit_actions_complete:
  assumes "wf_heap h" and "\<forall>a \<in> set as. nodes h a \<noteq> None \<and> early_return_free h (reach h a)"
    and "visit_actions h as seen = (S, l)"
  shows "set as \<subseteq> set l \<and> S \<subseteq> seen \<union> set l \<and> (\<forall>m \<in> set l. operands_seen h S m)"
  using assms(2,3)
proof (induction as arbitrary: seen S l)
  case (Cons a as)
  obtain s1 l1 where a: "accept h a seen = (s1, l1)" by fastforce
  obtain s2 l2 where b: "visit_actions h as s1 = (s2, l2)" by fastforce
  have sl: "S = s2" "l = l1 @ l2" using Cons.prems a b by auto
  have A: "a \<in> set l1 \<and> s1 \<subseteq> seen \<union> set l1 \<and> (\<forall>m \<in> set l1. operands_seen h s1 m)"
    using accept_complete [OF assms(1) a] Cons.prems by simp
  have B: "set as \<subseteq> set l2 \<and> s2 \<subseteq> s1 \<union> set l2 \<and> (\<forall>m \<in> set l2. operands_seen h s2 m)"
    using Cons.IH [OF _ b] Cons.prems by simp
  have "s1 \<subseteq> s2" using visit_actions_mono [of s1 h as] b by simp
  with A B sl operands_seen_mono show ?case by (auto 0 3)
qed simp

lemma visit_actions_reach:
  assumes "wf_heap h" and "\<forall>a \<in> set as. nodes h a \<noteq> None \<and> early_return_free h (reach h a)"
    and "visit_actions h as seen = (S, l)" and "a \<in> set as" and "reach h a \<inter> seen = {}"
  shows "reach h a \<subseteq> set l"
proof
  fix m assume "m \<in> reach h a"
  then show "m \<in> set l"
  proof (induction rule: reach.induct)
    case reach_self
    then show ?case using visit_actions_complete [OF assms(1-3)] assms(4) by auto
  next
    case (reach_step m nd p)
    then have "powner p \<in> S"
      using visit_actions_complete [OF assms(1-3)] by (auto simp: operands_seen_def)
    moreover have "powner p \<in> reach h a" using reach_step by (auto intro: reach.intros)
    ultimately show ?case using visit_actions_complete [OF assms(1-3)] assms(5) by auto
  qed
qed

text \<open>The reachable nodes as a list, by recursion on the operands.\<close>

function (sequential)
  deps :: "heap \<Rightarrow> node_id \<Rightarrow> node_id list" and
  deps_list :: "heap \<Rightarrow> node_id \<Rightarrow> port list \<Rightarrow> node_id list" where
  "deps h n = (case nodes h n of None \<Rightarrow> [] | Some nd \<Rightarrow> n # deps_list h n (operands (n_data nd)))"
| "deps_list h n [] = []"
| "deps_list h n (p # ps) = (if powner p < n then deps h (powner p) else []) @ deps_list h n ps"
  by pat_completeness auto
termination
  by (relation "measures
        [\<lambda>x. case x of Inl (h, n) \<Rightarrow> 2 * n + 1 | Inr (h, n, ps) \<Rightarrow> 2 * n,
         \<lambda>x. case x of Inl _ \<Rightarrow> 0 | Inr (h, n, ps) \<Rightarrow> length ps]") auto

declare deps.simps [simp del] deps_list.simps [simp del]

lemma deps_list_set: "set (deps_list h n ps) = (\<Union>p \<in> {p \<in> set ps. powner p < n}. set (deps h (powner p)))"
  by (induction ps) (auto simp: deps_list.simps)

lemma deps_reach: "wf_heap h \<Longrightarrow> set (deps h n) = reach h n"
proof (induction n rule: less_induct)
  case (less n)
  show ?case
  proof (cases "nodes h n")
    case None
    have "m \<notin> reach h n" for m
    proof
      assume "m \<in> reach h n"
      then show False by (induction rule: reach.induct) (use None in auto)
    qed
    with None show ?thesis by (auto simp: deps.simps)
  next
    case (Some nd)
    have op: "powner p < n" if "p \<in> set (operands (n_data nd))" for p
      using wf_heap_operand [OF less.prems Some that] by simp
    have "set (deps h n) = insert n (\<Union>p \<in> set (operands (n_data nd)). reach h (powner p))"
      using Some op less.IH [OF _ less.prems] by (auto simp: deps.simps [of h n] deps_list_set)
    moreover have "reach h n = insert n (\<Union>p \<in> set (operands (n_data nd)). reach h (powner p))"
      using Some reach_refl_node [OF Some] reach_operand [OF Some] reach_cases_operand [of _ h n]
      by fastforce
    ultimately show ?thesis by simp
  qed
qed

end
