(* ===== verification/Dead_Flags.thy ===== *)
theory Dead_Flags
  imports IR_Visitor Registers
begin

text \<open>
  The dead-flags pass (\<open>inc/arancini/ir/opt.h\<close>, \<open>deadflags_opt_visitor\<close>): a default visitor
  that walks the packets of a chunk and the actions of each packet backwards, deletes the
  register writes of flags that a later packet overwrites before any read, and unlinks
  each deleted write from the port that produced the flag.  The callbacks are applied to
  the visit sequence of \<open>IR_Visitor\<close>, in its order.
\<close>

definition flag_regs_offsets :: "nat set" where
  "flag_regs_offsets = {off_ZF, off_CF, off_OF, off_SF, off_PF}"

record deadflags =
  delete_nodes :: "node_id list"
  live_flags :: "nat set"
  new_live_flags :: "nat set"
  current_packet :: "packet option"
  last_se_packets :: "nat \<rightharpoonup> packet option"
  seen_nodes :: "node_id set"
  nr_flags :: "32 word"
  nr_flags_opt :: "32 word"
  nr_flags_total :: "32 word"
  nr_flags_opt_total :: "32 word"

definition initial_deadflags :: deadflags where
  "initial_deadflags =
     \<lparr>delete_nodes = [], live_flags = {}, new_live_flags = {}, current_packet = None,
      last_se_packets = Map.empty, seen_nodes = {}, nr_flags = 0, nr_flags_opt = 0,
      nr_flags_total = 0, nr_flags_opt_total = 0\<rparr>"

definition visit_read_reg_node :: "nat \<Rightarrow> deadflags \<Rightarrow> deadflags" where
  "visit_read_reg_node off st =
     (if off \<notin> flag_regs_offsets then st
      else st\<lparr>new_live_flags := insert off (new_live_flags st)\<rparr>)"

definition visit_write_reg_node :: "node_id \<Rightarrow> nat \<Rightarrow> deadflags \<Rightarrow> deadflags" where
  "visit_write_reg_node n off st =
     (if off \<in> flag_regs_offsets then
        (let st = st\<lparr>nr_flags := nr_flags st + 1\<rparr> in
         if last_se_packets st off = None
         then st\<lparr>last_se_packets := (last_se_packets st)(off \<mapsto> current_packet st),
                 live_flags := live_flags st - {off}\<rparr>
         else if off \<in> live_flags st then st\<lparr>live_flags := live_flags st - {off}\<rparr>
         else st\<lparr>delete_nodes := delete_nodes st @ [n]\<rparr>)
      else st)"

definition visit_one :: "heap \<Rightarrow> node_id \<Rightarrow> deadflags \<Rightarrow> deadflags" where
  "visit_one h n st =
     (case nodes h n of
        None \<Rightarrow> st
      | Some nd \<Rightarrow>
          (case n_data nd of
             Read_reg off _ _ \<Rightarrow> visit_read_reg_node off st
           | Write_reg off _ _ _ \<Rightarrow> visit_write_reg_node n off st
           | _ \<Rightarrow> st))"

text \<open>
  \<open>strncmp(wr_node->regname(), "ZF", 2)\<close> compares the first two characters.  The port that
  is unlinked is chosen by the register's name, whatever port the write reads.
\<close>

definition regname_starts :: "string \<Rightarrow> string \<Rightarrow> bool" where
  "regname_starts nm pre \<longleftrightarrow> take 2 nm = pre"

definition flag_port_kind :: "string \<Rightarrow> port_kinds res" where
  "flag_port_kind nm =
     (if regname_starts nm ''ZF'' then Inr P_zero
      else if regname_starts nm ''CF'' then Inr P_carry
      else if regname_starts nm ''OF'' then Inr P_overflow
      else if regname_starts nm ''SF'' then Inr P_negative
      else Inl (Runtime_error ''unsupported flag for flag optimisation''))"

definition unlink :: "node_id \<Rightarrow> heap \<Rightarrow> heap res" where
  "unlink n h =
     (case nodes h n of
        Some wr \<Rightarrow>
          (case n_data wr of
             Write_reg _ _ nm p \<Rightarrow>
               (case nodes h (powner p) of
                  None \<Rightarrow> Inl (Undefined_behaviour ''dangling port'')
                | Some op \<Rightarrow>
                    if kind (n_data op) \<in> {K_unary_arith, K_binary_arith, K_ternary_arith,
                         K_unary_atomic, K_binary_atomic, K_ternary_atomic}
                    then (case flag_port_kind nm of
                            Inl e \<Rightarrow> Inl e
                          | Inr k \<Rightarrow> Inr (remove_target (Port (powner p) k) n h))
                    else Inr h)
           | _ \<Rightarrow> Inl (Undefined_behaviour ''not a write_reg node''))
      | None \<Rightarrow> Inl (Undefined_behaviour ''dangling node''))"

text \<open>The deletion loop of \<open>visit_packet\<close>: unlink, drop from the actions, count.\<close>

fun delete_loop ::
  "node_id list \<Rightarrow> node_id list \<Rightarrow> 32 word \<Rightarrow> heap \<Rightarrow> (heap \<times> node_id list \<times> 32 word) res" where
  "delete_loop [] as c h = Inr (h, as, c)"
| "delete_loop (n # ns) as c h =
     (case unlink n h of
        Inl e \<Rightarrow> Inl e
      | Inr h' \<Rightarrow> delete_loop ns (filter (\<lambda>a. a \<noteq> n) as) (c + 1) h')"

definition sweep_packet :: "heap \<Rightarrow> packet \<Rightarrow> deadflags \<Rightarrow> deadflags" where
  "sweep_packet h p st =
     (case visit_actions h (rev (actions p)) (seen_nodes st) of
        (seen', l) \<Rightarrow>
          (fold (visit_one h) l (st\<lparr>current_packet := Some p\<rparr>))\<lparr>seen_nodes := seen'\<rparr>)"

definition merge_live :: "deadflags \<Rightarrow> deadflags" where
  "merge_live st = st\<lparr>live_flags := live_flags st \<union> new_live_flags st, new_live_flags := {}\<rparr>"

definition visit_packet :: "packet \<Rightarrow> heap \<times> deadflags \<Rightarrow> (packet \<times> heap \<times> deadflags) res" where
  "visit_packet p hst =
     (let h = fst hst; st = sweep_packet h p (snd hst) in
      if delete_nodes st \<noteq> [] then
        (case delete_loop (delete_nodes st) (actions p) (nr_flags_opt st) h of
           Inl e \<Rightarrow> Inl e
         | Inr (h', as, c) \<Rightarrow>
             Inr (set_actions as p, h', merge_live (st\<lparr>nr_flags_opt := c, delete_nodes := []\<rparr>)))
      else Inr (p, h, merge_live st))"

text \<open>The packets from the last to the first; the result is in the chunk's order.\<close>

fun visit_packets_rev ::
  "packet list \<Rightarrow> heap \<times> deadflags \<Rightarrow> (packet list \<times> heap \<times> deadflags) res" where
  "visit_packets_rev [] hst = Inr ([], hst)"
| "visit_packets_rev (p # ps) hst =
     (case visit_packets_rev ps hst of
        Inl e \<Rightarrow> Inl e
      | Inr (ps', hst1) \<Rightarrow>
          (case visit_packet p hst1 of
             Inl e \<Rightarrow> Inl e | Inr (p', hst2) \<Rightarrow> Inr (p' # ps', hst2)))"

definition visit_chunk :: "chunk \<Rightarrow> heap \<times> deadflags \<Rightarrow> (chunk \<times> heap \<times> deadflags) res" where
  "visit_chunk c hst =
     (let st = (snd hst)\<lparr>nr_flags := 0, nr_flags_opt := 0, last_se_packets := Map.empty,
                        live_flags := {}\<rparr> in
      case visit_packets_rev (packets c) (fst hst, st) of
        Inl e \<Rightarrow> Inl e
      | Inr (ps, h, st') \<Rightarrow>
          Inr (c\<lparr>packets := ps\<rparr>, h,
               st'\<lparr>nr_flags_total := nr_flags_total st' + nr_flags st',
                   nr_flags_opt_total := nr_flags_opt_total st' + nr_flags_opt st'\<rparr>))"


text \<open>
  \<open>default_visitor::reset\<close>, which the dynamic engine calls before it visits a chunk, and
  \<open>txlat_engine::optimise\<close>, which visits all chunks of the static engine with one visitor.
\<close>

definition reset :: "deadflags \<Rightarrow> deadflags" where
  "reset st = st\<lparr>seen_nodes := {}\<rparr>"

fun optimise :: "chunk list \<Rightarrow> heap \<times> deadflags \<Rightarrow> (chunk list \<times> heap \<times> deadflags) res" where
  "optimise [] hst = Inr ([], hst)"
| "optimise (c # cs) hst =
     (case visit_chunk c hst of
        Inl e \<Rightarrow> Inl e
      | Inr (c', hst1) \<Rightarrow>
          (case optimise cs hst1 of Inl e \<Rightarrow> Inl e | Inr (cs', hst2) \<Rightarrow> Inr (c' # cs', hst2)))"


section \<open>What the pass deletes\<close>

definition writes_flag :: "heap \<Rightarrow> node_id \<Rightarrow> nat option" where
  "writes_flag h n =
     (case nodes h n of
        None \<Rightarrow> None
      | Some nd \<Rightarrow>
          (case n_data nd of
             Write_reg off _ _ _ \<Rightarrow> if off \<in> flag_regs_offsets then Some off else None
           | _ \<Rightarrow> None))"

definition reads_flag :: "heap \<Rightarrow> node_id \<Rightarrow> nat option" where
  "reads_flag h n =
     (case nodes h n of
        None \<Rightarrow> None
      | Some nd \<Rightarrow>
          (case n_data nd of
             Read_reg off _ _ \<Rightarrow> if off \<in> flag_regs_offsets then Some off else None
           | _ \<Rightarrow> None))"

text \<open>
  A flag is alive when a later packet reads it before it is written, or when no later
  packet writes it (it may be read after the chunk).
\<close>

definition alive :: "deadflags \<Rightarrow> nat set" where
  "alive st = live_flags st \<union> (flag_regs_offsets - dom (last_se_packets st))"

lemma visit_one_cases:
  "visit_one h n st =
     (case writes_flag h n of
        Some f \<Rightarrow> visit_write_reg_node n f st
      | None \<Rightarrow>
          (case reads_flag h n of
             Some f \<Rightarrow> st\<lparr>new_live_flags := insert f (new_live_flags st)\<rparr> | None \<Rightarrow> st))"
  by (auto simp: visit_one_def writes_flag_def reads_flag_def visit_read_reg_node_def
      visit_write_reg_node_def split: option.splits node_data.splits)

lemma writes_flag_mem: "writes_flag h n = Some f \<Longrightarrow> f \<in> flag_regs_offsets"
  by (auto simp: writes_flag_def split: option.splits node_data.splits if_splits)

lemma reads_flag_mem: "reads_flag h n = Some f \<Longrightarrow> f \<in> flag_regs_offsets"
  by (auto simp: reads_flag_def split: option.splits node_data.splits if_splits)

lemma writes_not_reads: "writes_flag h n = Some f \<Longrightarrow> reads_flag h n = None"
  by (auto simp: writes_flag_def reads_flag_def split: option.splits node_data.splits if_splits)

lemma writes_flag_cong: "nodes h = nodes h' \<Longrightarrow> writes_flag h n = writes_flag h' n"
  by (simp add: writes_flag_def)

lemma visit_write_reg_node_effect:
  assumes "f \<in> flag_regs_offsets"
  shows "alive (visit_write_reg_node n f st) = alive st - {f}"
    "delete_nodes (visit_write_reg_node n f st) = delete_nodes st @ (if f \<in> alive st then [] else [n])"
    "new_live_flags (visit_write_reg_node n f st) = new_live_flags st"
    "nr_flags (visit_write_reg_node n f st) = nr_flags st + 1"
    "nr_flags_opt (visit_write_reg_node n f st) = nr_flags_opt st"
    "seen_nodes (visit_write_reg_node n f st) = seen_nodes st"
  using assms by (auto simp: visit_write_reg_node_def alive_def Let_def)

text \<open>
  The sweep over a visit sequence as a function of the liveness alone: \<open>dead_writes\<close> is
  what it deletes and \<open>alive_after\<close> what is alive when it is done.
\<close>

fun dead_writes :: "heap \<Rightarrow> node_id list \<Rightarrow> nat set \<Rightarrow> node_id list" where
  "dead_writes h [] A = []"
| "dead_writes h (n # ns) A =
     (case writes_flag h n of
        None \<Rightarrow> dead_writes h ns A
      | Some f \<Rightarrow> (if f \<in> A then [] else [n]) @ dead_writes h ns (A - {f}))"

definition flags_written :: "heap \<Rightarrow> node_id list \<Rightarrow> nat set" where
  "flags_written h ns = {f. \<exists>n \<in> set ns. writes_flag h n = Some f}"

definition flags_read :: "heap \<Rightarrow> node_id list \<Rightarrow> nat set" where
  "flags_read h ns = {f. \<exists>n \<in> set ns. reads_flag h n = Some f}"

lemma flags_written_simps [simp]:
  "flags_written h [] = {}"
  "flags_written h (n # ns) = set_option (writes_flag h n) \<union> flags_written h ns"
  by (auto simp: flags_written_def)

lemma flags_read_simps [simp]:
  "flags_read h [] = {}"
  "flags_read h (n # ns) = set_option (reads_flag h n) \<union> flags_read h ns"
  by (auto simp: flags_read_def)

lemma fold_visit_one:
  "delete_nodes (fold (visit_one h) l st) = delete_nodes st @ dead_writes h l (alive st)"
  "alive (fold (visit_one h) l st) = alive st - flags_written h l"
  "new_live_flags (fold (visit_one h) l st) = new_live_flags st \<union> flags_read h l"
  "nr_flags (fold (visit_one h) l st)
     = nr_flags st + of_nat (length (filter (\<lambda>n. writes_flag h n \<noteq> None) l))"
  "nr_flags_opt (fold (visit_one h) l st) = nr_flags_opt st"
proof (induction l arbitrary: st)
  case (Cons n l)
  note eff = visit_write_reg_node_effect [OF writes_flag_mem]
  { case 1 show ?case using Cons.IH eff [of h n]
      by (auto simp: visit_one_cases alive_def split: option.splits) }
  { case 2 show ?case using Cons.IH eff [of h n]
      by (auto simp: visit_one_cases alive_def split: option.splits) }
  { case 3 show ?case using Cons.IH eff [of h n] writes_not_reads [of h n]
      by (auto simp: visit_one_cases split: option.splits) }
  { case 4 show ?case using Cons.IH eff [of h n]
      by (auto simp: visit_one_cases split: option.splits) }
  { case 5 show ?case using Cons.IH eff [of h n]
      by (auto simp: visit_one_cases split: option.splits) }
qed simp_all

lemma sweep_packet_effect:
  assumes "visit_actions h (rev (actions p)) (seen_nodes st) = (S, l)"
  shows "delete_nodes (sweep_packet h p st) = delete_nodes st @ dead_writes h l (alive st)"
    "alive (sweep_packet h p st) = alive st - flags_written h l"
    "new_live_flags (sweep_packet h p st) = new_live_flags st \<union> flags_read h l"
    "nr_flags (sweep_packet h p st)
       = nr_flags st + of_nat (length (filter (\<lambda>n. writes_flag h n \<noteq> None) l))"
    "nr_flags_opt (sweep_packet h p st) = nr_flags_opt st"
    "seen_nodes (sweep_packet h p st) = S"
  using fold_visit_one [of h l "st\<lparr>current_packet := Some p\<rparr>"] assms
  by (simp_all add: sweep_packet_def alive_def)

lemma unlink_nodes: "unlink n h = Inr h' \<Longrightarrow> nodes h' = nodes h \<and> next_id h' = next_id h"
  by (auto simp: unlink_def remove_target_def split: option.splits node_data.splits if_splits sum.splits)

lemma delete_loop_effect:
  "delete_loop ns as c h = Inr (h', as', c') \<Longrightarrow>
     nodes h' = nodes h \<and> next_id h' = next_id h \<and> as' = filter (\<lambda>a. a \<notin> set ns) as
     \<and> c' = c + of_nat (length ns)"
proof (induction ns arbitrary: as c h)
  case (Cons n ns)
  then obtain h1 where h1: "unlink n h = Inr h1"
      "delete_loop ns (filter (\<lambda>a. a \<noteq> n) as) (c + 1) h1 = Inr (h', as', c')"
    by (auto split: sum.splits)
  from Cons.IH [OF h1(2)] unlink_nodes [OF h1(1)] show ?case
    by (auto simp: conj_commute intro: filter_cong)
qed simp

lemma alive_update [simp]:
  "alive (st\<lparr>delete_nodes := x\<rparr>) = alive st" "alive (st\<lparr>nr_flags_opt := c\<rparr>) = alive st"
  by (simp_all add: alive_def)

lemma merge_live_sel [simp]:
  "delete_nodes (merge_live st) = delete_nodes st" "new_live_flags (merge_live st) = {}"
  "alive (merge_live st) = alive st \<union> new_live_flags st" "nr_flags (merge_live st) = nr_flags st"
  "nr_flags_opt (merge_live st) = nr_flags_opt st" "seen_nodes (merge_live st) = seen_nodes st"
  by (auto simp: merge_live_def alive_def)

text \<open>One packet: what is deleted, what is alive before it, and the counters.\<close>

lemma visit_packet_effect:
  assumes "visit_packet p (h, st) = Inr (p', h', st')"
    and "delete_nodes st = []" "new_live_flags st = {}"
    and "visit_actions h (rev (actions p)) (seen_nodes st) = (S, l)"
  shows "nodes h' = nodes h" "delete_nodes st' = []" "new_live_flags st' = {}" "seen_nodes st' = S"
    "p' = set_actions (filter (\<lambda>a. a \<notin> set (dead_writes h l (alive st))) (actions p)) p"
    "alive st' = (alive st - flags_written h l) \<union> flags_read h l"
    "nr_flags st' = nr_flags st + of_nat (length (filter (\<lambda>n. writes_flag h n \<noteq> None) l))"
    "nr_flags_opt st' = nr_flags_opt st + of_nat (length (dead_writes h l (alive st)))"
proof -
  note sw = sweep_packet_effect [OF assms(4)]
  have "set_actions (actions p) p = p" by (simp add: set_actions_def)
  then show "nodes h' = nodes h" "delete_nodes st' = []" "new_live_flags st' = {}" "seen_nodes st' = S"
    "p' = set_actions (filter (\<lambda>a. a \<notin> set (dead_writes h l (alive st))) (actions p)) p"
    "alive st' = (alive st - flags_written h l) \<union> flags_read h l"
    "nr_flags st' = nr_flags st + of_nat (length (filter (\<lambda>n. writes_flag h n \<noteq> None) l))"
    "nr_flags_opt st' = nr_flags_opt st + of_nat (length (dead_writes h l (alive st)))"
    using assms sw
    by (auto simp: visit_packet_def Let_def merge_live_def alive_def dest!: delete_loop_effect
        split: if_splits sum.splits)
qed

end
