(* ===== verification/LLVM_Lowering.thy ===== *)
theory LLVM_Lowering
  imports IR_Builder Registers
begin

text \<open>
  The meaning the static output engine gives to the IR
  (\<open>src/output/static/llvm/llvm-static-output-engine.cpp\<close>).  The engine turns every port
  into one LLVM value the first time an action needs it (\<open>lower_port\<close>,
  \<open>node_ports_to_llvm_values_\<close>) and every action into the LLVM instructions that perform
  it (\<open>lower_node\<close>), in the order of the packet.  The definitions here compute the value
  that the emitted LLVM code has at run time: \<open>lval\<close> is a typed LLVM value, an integer of
  some width or a vector of integers, and the definitions follow \<open>materialise_port\<close> and
  \<open>lower_node\<close> case by case.  LLVM's own instructions (\<open>CreateAdd\<close>, \<open>CreateShl\<close>, ...) have
  their documented meaning: two's complement arithmetic modulo the width, poison (here
  \<open>Undefined_behaviour\<close>) for shifts by the width or more, and operands of one type.
  Floating-point values, atomic nodes and internal calls give \<open>Not_modelled\<close>.
\<close>

datatype lval = Iv nat nat | Vv nat "nat list"

record mstate =
  m_regs :: "nat \<Rightarrow> nat"
  m_mem :: "nat \<Rightarrow> nat"
  m_locals :: "nat \<rightharpoonup> lval"

type_synonym env = "port \<rightharpoonup> lval"

section \<open>LLVM instructions on integers of a width\<close>

definition sval :: "nat \<Rightarrow> nat \<Rightarrow> int" where
  "sval w x = (if w = 0 then 0 else if x < 2 ^ (w - 1) then int x else int x - 2 ^ w)"

definition sext_nat :: "nat \<Rightarrow> nat \<Rightarrow> nat \<Rightarrow> nat" where
  "sext_nat w w' x = nat (sval w x mod 2 ^ w')"

definition lnot :: "nat \<Rightarrow> nat \<Rightarrow> nat" where
  "lnot w x = 2 ^ w - 1 - x"

definition ladd :: "nat \<Rightarrow> nat \<Rightarrow> nat \<Rightarrow> nat" where "ladd w x y = (x + y) mod 2 ^ w"
definition lsub :: "nat \<Rightarrow> nat \<Rightarrow> nat \<Rightarrow> nat" where "lsub w x y = (x + (2 ^ w - y)) mod 2 ^ w"
definition lmul :: "nat \<Rightarrow> nat \<Rightarrow> nat \<Rightarrow> nat" where "lmul w x y = (x * y) mod 2 ^ w"
definition lneg :: "nat \<Rightarrow> nat \<Rightarrow> nat" where "lneg w x = lsub w 0 x"

definition b1 :: "bool \<Rightarrow> lval" where "b1 c = Iv 1 (if c then 1 else 0)"
definition b8 :: "bool \<Rightarrow> lval" where "b8 c = Iv 8 (if c then 1 else 0)"

abbreviation type_mismatch :: "'a res" where
  "type_mismatch \<equiv> Inl (Undefined_behaviour ''llvm operand types differ'')"

abbreviation poison :: "'a res" where
  "poison \<equiv> Inl (Undefined_behaviour ''poison value'')"

section \<open>Memory: little-endian bytes\<close>

fun load_bytes :: "(nat \<Rightarrow> nat) \<Rightarrow> nat \<Rightarrow> nat \<Rightarrow> nat" where
  "load_bytes m addr 0 = 0"
| "load_bytes m addr (Suc n) = m (addr mod 2 ^ 64) mod 256 + 256 * load_bytes m (addr + 1) n"

fun store_bytes :: "(nat \<Rightarrow> nat) \<Rightarrow> nat \<Rightarrow> nat \<Rightarrow> nat \<Rightarrow> (nat \<Rightarrow> nat)" where
  "store_bytes m addr 0 x = m"
| "store_bytes m addr (Suc n) x =
     store_bytes (m(addr mod 2 ^ 64 := x mod 256)) (addr + 1) n (x div 256)"

section \<open>\<open>materialise_port\<close>, class by class\<close>

definition lo_constant :: "value_type \<Rightarrow> ulong \<Rightarrow> lval res" where
  "lo_constant vt cv =
     (let w = width vt in
      if w = 1 \<or> w = 3 \<or> w = 8 then Inr (Iv 8 (unat cv mod 2 ^ 8))
      else if w = 16 \<or> w = 32 \<or> w = 64 then Inr (Iv w (unat cv mod 2 ^ w))
      else if w = 80 then Inl (Not_modelled ''f80 constant'')
      else Inl (Runtime_error ''unsupported constant width''))"

definition lo_read_mem :: "value_type \<Rightarrow> lval \<Rightarrow> mstate \<Rightarrow> lval res" where
  "lo_read_mem vt addr s =
     (case addr of
        Iv wa x \<Rightarrow>
          if width vt \<in> {8, 16, 32, 64, 128} then Inr (Iv (width vt) (load_bytes (m_mem s) x (width vt div 8)))
          else if width vt = 80 then Inl (Not_modelled ''f80 load'')
          else Inl (Runtime_error ''unsupported memory load width'')
      | Vv _ _ \<Rightarrow> type_mismatch)"

text \<open>The stack slot of a register (\<open>reg_to_alloca_\<close>) has the register's type.\<close>

definition reg_alloca_width :: "nat \<Rightarrow> nat option" where
  "reg_alloca_width off = map_option (\<lambda>(n, sz). 8 * sz) (map_of reg_layout off)"

definition lo_read_reg :: "value_type \<Rightarrow> nat \<Rightarrow> mstate \<Rightarrow> lval res" where
  "lo_read_reg vt off s =
     (case reg_alloca_width off of
        None \<Rightarrow> Inl Out_of_range
      | Some rw \<Rightarrow>
          if width vt \<notin> {1, 8, 16, 32, 64, 128, 256, 512}
          then Inl (Runtime_error ''unsupported register width in load'')
          else if width vt > rw then Inl (Undefined_behaviour ''load past the register slot'')
          else Inr (Iv (width vt) (m_regs s off mod 2 ^ width vt)))"

text \<open>The integer operations behind \<open>CreateAdd\<close> and its kin, lifted to vectors.\<close>

definition lift2 :: "(nat \<Rightarrow> nat \<Rightarrow> nat \<Rightarrow> nat) \<Rightarrow> lval \<Rightarrow> lval \<Rightarrow> lval res" where
  "lift2 f l r =
     (case (l, r) of
        (Iv w x, Iv w' y) \<Rightarrow> if w = w' then Inr (Iv w (f w x y)) else type_mismatch
      | (Vv w xs, Vv w' ys) \<Rightarrow>
          if w = w' \<and> length xs = length ys then Inr (Vv w (map2 (f w) xs ys)) else type_mismatch
      | _ \<Rightarrow> type_mismatch)"

definition icmp :: "(nat \<Rightarrow> nat \<Rightarrow> nat \<Rightarrow> bool) \<Rightarrow> lval \<Rightarrow> lval \<Rightarrow> bool res" where
  "icmp f l r =
     (case (l, r) of
        (Iv w x, Iv w' y) \<Rightarrow> if w = w' then Inr (f w x y) else type_mismatch
      | _ \<Rightarrow> Inl (Not_modelled ''vector comparison''))"

definition sgt :: "nat \<Rightarrow> nat \<Rightarrow> nat \<Rightarrow> bool" where "sgt w x y \<longleftrightarrow> sval w x > sval w y"
definition sge :: "nat \<Rightarrow> nat \<Rightarrow> nat \<Rightarrow> bool" where "sge w x y \<longleftrightarrow> sval w x \<ge> sval w y"
definition slt :: "nat \<Rightarrow> nat \<Rightarrow> nat \<Rightarrow> bool" where "slt w x y \<longleftrightarrow> sval w x < sval w y"

definition srem :: "nat \<Rightarrow> nat \<Rightarrow> nat \<Rightarrow> nat" where
  "srem w x y = nat ((sgn (sval w x) * (\<bar>sval w x\<bar> mod \<bar>sval w y\<bar>)) mod 2 ^ w)"

text \<open>Operand extension at the head of the \<open>binary_arith\<close> case: the narrower side is
  sign-extended.\<close>

definition extend_operands :: "lval \<Rightarrow> lval \<Rightarrow> lval \<times> lval" where
  "extend_operands l r =
     (case (l, r) of
        (Iv w x, Iv w' y) \<Rightarrow>
          if w > w' then (Iv w x, Iv w (sext_nat w' w y))
          else if w < w' then (Iv w' (sext_nat w w' x), Iv w' y)
          else (l, r)
      | _ \<Rightarrow> (l, r))"

text \<open>
  \<open>IntegerType::getSignBit()\<close> is the mask of the sign bit, which is never zero, so the
  comparison and the remainder are signed for every integer type.
\<close>

definition lo_binary_value :: "binary_arith_op \<Rightarrow> lval \<Rightarrow> lval \<Rightarrow> lval res" where
  "lo_binary_value op l0 r0 =
     (let (l, r) = extend_operands l0 r0 in
      case op of
        B_bxor \<Rightarrow> lift2 (\<lambda>_ x y. x XOR y) l r
      | B_band \<Rightarrow> lift2 (\<lambda>_ x y. x AND y) l r
      | B_bor \<Rightarrow> lift2 (\<lambda>_ x y. x OR y) l r
      | B_add \<Rightarrow> lift2 ladd l r
      | B_sub \<Rightarrow> lift2 lsub l r
      | B_mul \<Rightarrow> lift2 lmul l r
      | B_div \<Rightarrow>
          (case (l, r) of
             (Iv w x, Iv w' y) \<Rightarrow>
               if w \<noteq> w' then type_mismatch
               else if y = 0 then Inl (Undefined_behaviour ''udiv by zero'') else Inr (Iv w (x div y))
           | _ \<Rightarrow> Inl (Not_modelled ''vector division''))
      | B_mod \<Rightarrow>
          (case (l, r) of
             (Iv w x, Iv w' y) \<Rightarrow>
               if w \<noteq> w' then type_mismatch
               else if y = 0 \<or> sval w y = -1 \<and> x = 2 ^ (w - 1)
               then Inl (Undefined_behaviour ''srem overflow'') else Inr (Iv w (srem w x y))
           | _ \<Rightarrow> Inl (Not_modelled ''vector remainder''))
      | B_cmpeq \<Rightarrow> map_sum id b1 (icmp (\<lambda>_ x y. x = y) l r)
      | B_cmpne \<Rightarrow> map_sum id b1 (icmp (\<lambda>_ x y. x \<noteq> y) l r)
      | B_cmpgt \<Rightarrow> map_sum id b1 (icmp sgt l r)
      | _ \<Rightarrow> Inl (Not_modelled ''floating-point comparison''))"

definition lo_binary_zero :: "binary_arith_op \<Rightarrow> lval \<Rightarrow> lval res" where
  "lo_binary_zero op x =
     (case x of
        Vv _ _ \<Rightarrow> type_mismatch
      | Iv w n \<Rightarrow>
          if op \<in> {B_band, B_mod, B_bor, B_bxor, B_sub, B_add} then Inr (b8 (n = 0))
          else if op = B_cmpeq then Inr (b8 (n = 1))
          else Inl (Runtime_error ''unsupported binary operator for zero flag''))"

definition lo_negative :: "lval \<Rightarrow> lval res" where
  "lo_negative x = (case x of Vv _ _ \<Rightarrow> type_mismatch | Iv w n \<Rightarrow> Inr (b8 (slt w n 0)))"

definition lo_binary_carry :: "binary_arith_op \<Rightarrow> lval \<Rightarrow> lval \<Rightarrow> lval \<Rightarrow> lval res" where
  "lo_binary_carry op l r x =
     (case op of
        B_sub \<Rightarrow> map_sum id b8 (icmp (\<lambda>_ a b. a < b) l r)
      | B_add \<Rightarrow> map_sum id b8 (icmp (\<lambda>_ a b. a > b) l x)
      | _ \<Rightarrow> Inr (Iv 8 0))"

definition lo_binary_overflow :: "binary_arith_op \<Rightarrow> lval \<Rightarrow> lval \<Rightarrow> lval \<Rightarrow> lval res" where
  "lo_binary_overflow op l r x =
     (case (op, l, r, x) of
        (B_sub, Iv w a, Iv w' b', Iv wx c) \<Rightarrow>
          if w \<noteq> w' \<or> w \<noteq> wx then type_mismatch
          else
            let b = lneg w b'; sum = ladd w a b in
            Inr (b8 ((sge w a 0 \<and> sge w b 0 \<and> slt w sum 0) \<or> (slt w a 0 \<and> slt w b 0 \<and> sge w sum 0)))
      | (B_add, Iv w a, Iv w' b, Iv wx c) \<Rightarrow>
          if w \<noteq> w' \<or> w \<noteq> wx then type_mismatch
          else Inr (b8 ((sgt w a 0 \<and> sgt w b 0 \<and> slt w c 0) \<or> (slt w a 0 \<and> slt w b 0 \<and> sge w c 0)))
      | (B_sub, _, _, _) \<Rightarrow> type_mismatch
      | (B_add, _, _, _) \<Rightarrow> type_mismatch
      | _ \<Rightarrow> Inr (Iv 8 0))"

definition lo_binary_flag :: "port_kinds \<Rightarrow> binary_arith_op \<Rightarrow> lval \<Rightarrow> lval \<Rightarrow> lval \<Rightarrow> lval res" where
  "lo_binary_flag k op l r x =
     (case k of
        P_zero \<Rightarrow> lo_binary_zero op x
      | P_negative \<Rightarrow> lo_negative x
      | P_carry \<Rightarrow> lo_binary_carry op l r x
      | P_overflow \<Rightarrow> lo_binary_overflow op l r x
      | _ \<Rightarrow> Inl (Runtime_error ''unsupported port kind''))"

fun flatten :: "nat \<Rightarrow> nat list \<Rightarrow> nat" where
  "flatten w [] = 0"
| "flatten w (x # xs) = x + 2 ^ w * flatten w xs"

fun unflatten :: "nat \<Rightarrow> nat \<Rightarrow> nat \<Rightarrow> nat list" where
  "unflatten w 0 x = []"
| "unflatten w (Suc n) x = x mod 2 ^ w # unflatten w n (x div 2 ^ w)"

definition lbits :: "lval \<Rightarrow> nat" where
  "lbits x = (case x of Iv w n \<Rightarrow> n | Vv w xs \<Rightarrow> flatten w xs)"

definition lwidth :: "lval \<Rightarrow> nat" where
  "lwidth x = (case x of Iv w n \<Rightarrow> w | Vv w xs \<Rightarrow> w * length xs)"

definition lo_zx :: "value_type \<Rightarrow> lval \<Rightarrow> lval res" where
  "lo_zx t x =
     (if width t \<notin> {8, 16, 32, 64, 80, 128, 256, 512} then Inl (Runtime_error ''unsupported zx width'')
      else case x of Iv w n \<Rightarrow> Inr (Iv (width t) (n mod 2 ^ width t)) | Vv _ _ \<Rightarrow> type_mismatch)"

definition lo_sx :: "value_type \<Rightarrow> lval \<Rightarrow> lval res" where
  "lo_sx t x =
     (if width t \<notin> {16, 32, 64, 128} then Inl (Runtime_error ''unsupported sx width'')
      else case x of
             Iv w n \<Rightarrow> if w \<le> width t then Inr (Iv (width t) (sext_nat w (width t) n)) else type_mismatch
           | Vv _ _ \<Rightarrow> type_mismatch)"

definition lo_trunc :: "value_type \<Rightarrow> lval \<Rightarrow> lval res" where
  "lo_trunc t x =
     (if width t \<notin> {1, 8, 16, 32, 64} then Inl (Runtime_error ''unsupported trunc width'')
      else case x of
             Iv w n \<Rightarrow> if width t \<le> w then Inr (Iv (width t) (n mod 2 ^ width t)) else type_mismatch
           | Vv _ _ \<Rightarrow> type_mismatch)"

definition lo_bitcast :: "value_type \<Rightarrow> lval \<Rightarrow> lval res" where
  "lo_bitcast t x =
     (if is_floating_point t then Inl (Not_modelled ''bitcast to a float type'')
      else if is_vector t then
        (if element_width t \<notin> {1, 8, 16, 32, 64, 128}
         then Inl (Runtime_error ''unsupported bitcast vector element width'')
         else if lwidth x \<noteq> width t then type_mismatch
         else Inr (Vv (element_width t) (unflatten (element_width t) (nr_elements t) (lbits x))))
      else
        (if width t \<notin> {1, 8, 16, 32, 64, 80, 128, 256, 512}
         then Inl (Runtime_error ''unsupported bitcast element width'')
         else if lwidth x \<noteq> width t then type_mismatch
         else Inr (Iv (width t) (lbits x))))"

definition lo_cast :: "cast_op \<Rightarrow> value_type \<Rightarrow> lval \<Rightarrow> lval res" where
  "lo_cast op t x =
     (case op of
        Zx \<Rightarrow> lo_zx t x
      | Sx \<Rightarrow> lo_sx t x
      | Trunc \<Rightarrow> lo_trunc t x
      | Bitcast \<Rightarrow> lo_bitcast t x
      | Convert \<Rightarrow> Inl (Not_modelled ''floating-point conversion''))"

definition same_ltype :: "lval \<Rightarrow> lval \<Rightarrow> bool" where
  "same_ltype x y =
     (case (x, y) of
        (Iv w _, Iv w' _) \<Rightarrow> w = w'
      | (Vv w xs, Vv w' ys) \<Rightarrow> w = w' \<and> length xs = length ys
      | _ \<Rightarrow> False)"

definition lo_csel :: "lval \<Rightarrow> lval \<Rightarrow> lval \<Rightarrow> lval res" where
  "lo_csel c t f =
     (case c of
        Iv w n \<Rightarrow>
          if w \<noteq> 1 \<or> \<not> same_ltype t f then type_mismatch
          else Inr (if n \<noteq> 0 then t else f)
      | Vv _ _ \<Rightarrow> type_mismatch)"

definition lo_unary_value :: "unary_arith_op \<Rightarrow> lval \<Rightarrow> lval res" where
  "lo_unary_value op x =
     (case op of
        U_bnot \<Rightarrow> (case x of Iv w n \<Rightarrow> Inr (Iv w (lnot w n)) | Vv w xs \<Rightarrow> Inr (Vv w (map (lnot w) xs)))
      | U_sqrt \<Rightarrow> Inl (Not_modelled ''square root'')
      | _ \<Rightarrow> Inl (Runtime_error ''unsupported unary operator''))"

text \<open>The flags of a unary node are computed from its operand.\<close>

definition lo_unary_flag :: "port_kinds \<Rightarrow> lval \<Rightarrow> lval res" where
  "lo_unary_flag k x =
     (case k of
        P_zero \<Rightarrow> (case x of Iv w n \<Rightarrow> Inr (b8 (n = 0)) | Vv _ _ \<Rightarrow> type_mismatch)
      | P_negative \<Rightarrow> lo_negative x
      | _ \<Rightarrow> Inr (Iv 8 0))"

definition lo_shift_value :: "shift_op \<Rightarrow> lval \<Rightarrow> lval \<Rightarrow> lval res" where
  "lo_shift_value op i a =
     (case (i, a) of
        (Iv w x, Iv wa n0) \<Rightarrow>
          (let n = n0 mod 2 ^ w in
           if n \<ge> w then poison
           else case op of
                  Asr \<Rightarrow> Inr (Iv w (nat ((sval w x div 2 ^ n) mod 2 ^ w)))
                | Lsr \<Rightarrow> Inr (Iv w (x div 2 ^ n))
                | Lsl \<Rightarrow> Inr (Iv w ((x * 2 ^ n) mod 2 ^ w)))
      | _ \<Rightarrow> Inl (Not_modelled ''vector shift''))"

definition lo_shift_flag :: "port_kinds \<Rightarrow> lval \<Rightarrow> lval res" where
  "lo_shift_flag k x =
     (case k of
        P_zero \<Rightarrow> (case x of Iv w n \<Rightarrow> Inr (b8 (n = 0)) | Vv _ _ \<Rightarrow> type_mismatch)
      | P_negative \<Rightarrow> lo_negative x
      | _ \<Rightarrow> Inl (Not_modelled ''carry and overflow of a shift node''))"

definition lo_ternary_value :: "ternary_arith_op \<Rightarrow> lval \<Rightarrow> lval \<Rightarrow> lval \<Rightarrow> lval res" where
  "lo_ternary_value op l r t =
     (case lift2 ladd r t of
        Inl e \<Rightarrow> Inl e
      | Inr rt \<Rightarrow> (case op of T_adc \<Rightarrow> lift2 ladd l rt | T_sbb \<Rightarrow> lift2 lsub l rt))"

definition lo_bit_extract :: "lval \<Rightarrow> ulong \<Rightarrow> ulong \<Rightarrow> lval res" where
  "lo_bit_extract x from len =
     (case x of
        Vv _ _ \<Rightarrow> Inl (Not_modelled ''bit extract from a vector'')
      | Iv w n \<Rightarrow>
          (let f = unat from; l = unat len in
           if l = 0 \<or> w < f + l then poison
           else
             let t1 = (n * 2 ^ (w - (f + l))) mod 2 ^ w;
                 t2 = nat ((sval w t1 div 2 ^ (w - l)) mod 2 ^ w) in
             Inr (Iv l (t2 mod 2 ^ l))))"

definition lo_bit_insert :: "lval \<Rightarrow> lval \<Rightarrow> ulong \<Rightarrow> ulong \<Rightarrow> lval res" where
  "lo_bit_insert d x to len =
     (case d of
        Vv _ _ \<Rightarrow> Inl (Not_modelled ''bit insert into a vector'')
      | Iv w n \<Rightarrow>
          (let t = unat to; l = unat len in
           if l \<ge> w \<or> t \<ge> w then poison
           else
             let ones = lsub w ((1 * 2 ^ l) mod 2 ^ w) 1;
                 mask = (ones * 2 ^ t) mod 2 ^ w;
                 inv_mask = mask XOR (2 ^ w - 1);
                 ins = (((lbits x mod 2 ^ w) * 2 ^ t) mod 2 ^ w) AND mask in
             Inr (Iv w ((n AND inv_mask) OR ins))))"

definition lo_vector_extract :: "lval \<Rightarrow> nat \<Rightarrow> lval res" where
  "lo_vector_extract x i =
     (case x of
        Vv w xs \<Rightarrow> if i < length xs then Inr (Iv w (xs ! i)) else poison
      | Iv _ _ \<Rightarrow> type_mismatch)"

definition lo_vector_insert :: "lval \<Rightarrow> nat \<Rightarrow> lval \<Rightarrow> lval res" where
  "lo_vector_insert vec i x =
     (case x of
        Vv _ _ \<Rightarrow> type_mismatch
      | Iv we e \<Rightarrow>
          (let (w, xs) = (case vec of Vv w xs \<Rightarrow> (w, xs) | Iv w n \<Rightarrow> (we, unflatten we (w div we) n)) in
           if w \<noteq> we then type_mismatch
           else if i < length xs then Inr (Vv w (xs[i := e])) else poison))"

definition lo_read_local :: "local_var \<Rightarrow> mstate \<Rightarrow> lval res" where
  "lo_read_local lv s =
     (case m_locals s (lv_id lv) of
        None \<Rightarrow> Inl Out_of_range
      | Some x \<Rightarrow>
          if is_floating_point (lv_type lv) then Inl (Not_modelled ''float local'')
          else if width (lv_type lv) \<notin> {8, 16, 32, 64} then Inl (Runtime_error ''unsupported read_local width'')
          else Inr x)"


section \<open>\<open>lower_port\<close>: lazy, memoised evaluation\<close>

text \<open>
  Which ports \<open>materialise_port\<close> lowers before it emits the value of a port: the operands
  of the node, except that the flags of a ternary node are constants; and then, for the
  flags of binary and shift nodes, the value port of the node itself.
\<close>

definition needs_operands :: "node_data \<Rightarrow> port_kinds \<Rightarrow> bool" where
  "needs_operands d k \<longleftrightarrow> k = P_value \<or> kind d \<noteq> K_ternary_arith"

definition needs_value :: "node_data \<Rightarrow> port_kinds \<Rightarrow> bool" where
  "needs_value d k \<longleftrightarrow> k \<noteq> P_value \<and> kind d \<in> {K_binary_arith, K_bit_shift}"

definition materialise_value :: "node \<Rightarrow> ulong \<Rightarrow> mstate \<Rightarrow> lval list \<Rightarrow> lval res" where
  "materialise_value n addr s xs =
     (case (n_data n, xs) of
        (Constant_i cv, []) \<Rightarrow> lo_constant (n_vt n) cv
      | (Constant_f cv, []) \<Rightarrow> Inl (Not_modelled ''float constant'')
      | (Read_mem _, [a]) \<Rightarrow> lo_read_mem (n_vt n) a s
      | (Read_reg off _ _, []) \<Rightarrow> lo_read_reg (n_vt n) off s
      | (Binary_arith op _ _, [l, r]) \<Rightarrow> lo_binary_value op l r
      | (Read_pc, []) \<Rightarrow> Inr (Iv 64 (unat addr))
      | (Cast op t _ _, [x]) \<Rightarrow> lo_cast op t x
      | (Csel _ _ _, [c, t, f]) \<Rightarrow> lo_csel c t f
      | (Unary_arith op _, [x]) \<Rightarrow> lo_unary_value op x
      | (Bit_shift op _ _, [i, a]) \<Rightarrow> lo_shift_value op i a
      | (Ternary_arith op _ _ _, [l, r, t]) \<Rightarrow> lo_ternary_value op l r t
      | (Bit_extract _ from len, [x]) \<Rightarrow> lo_bit_extract x from len
      | (Bit_insert _ _ to len, [d, x]) \<Rightarrow> lo_bit_insert d x to len
      | (Vector_extract _ i, [x]) \<Rightarrow> lo_vector_extract x i
      | (Vector_insert _ i _, [vec, x]) \<Rightarrow> lo_vector_insert vec i x
      | (Read_local lv, []) \<Rightarrow> lo_read_local lv s
      | (Unary_atomic _ _, _) \<Rightarrow> Inl (Not_modelled ''atomic node'')
      | (Binary_atomic _ _ _, _) \<Rightarrow> Inl (Not_modelled ''atomic node'')
      | (Ternary_atomic _ _ _ _, _) \<Rightarrow> Inl (Not_modelled ''atomic node'')
      | (Internal_call _ _, _) \<Rightarrow> Inl (Not_modelled ''internal call'')
      | _ \<Rightarrow> Inl (Runtime_error ''materialize_port: unsupported port node kind''))"

definition materialise_flag :: "node \<Rightarrow> port_kinds \<Rightarrow> lval list \<Rightarrow> lval option \<Rightarrow> lval res" where
  "materialise_flag n k xs x =
     (case (n_data n, xs, x) of
        (Binary_arith op _ _, [l, r], Some y) \<Rightarrow> lo_binary_flag k op l r y
      | (Unary_arith op _, [y], None) \<Rightarrow> lo_unary_flag k y
      | (Bit_shift op _ _, [i, a], Some y) \<Rightarrow> lo_shift_flag k y
      | (Ternary_arith _ _ _ _, [], None) \<Rightarrow> Inr (Iv 8 0)
      | _ \<Rightarrow> Inl (Not_modelled ''flags of an atomic node''))"

text \<open>
  \<open>lower_port\<close> and the lowering of the operand list of a node.  Operands are older than
  their node in every heap the builder makes (\<open>wf_heap\<close>), so the recursion ends; the
  test on the node numbers only makes the definition total.
\<close>

function (sequential)
  lower_port :: "heap \<Rightarrow> ulong \<Rightarrow> mstate \<Rightarrow> port \<Rightarrow> (env, lval) prog" and
  lower_list :: "heap \<Rightarrow> ulong \<Rightarrow> mstate \<Rightarrow> node_id \<Rightarrow> port list \<Rightarrow> (env, lval list) prog" where
  "lower_port h addr s p env =
     (case env p of
        Some x \<Rightarrow> Inr (x, env)
      | None \<Rightarrow>
          (case nodes h (powner p) of
             None \<Rightarrow> Inl (Undefined_behaviour ''dangling port'')
           | Some n \<Rightarrow>
               (case (if needs_operands (n_data n) (pkind p)
                      then lower_list h addr s (powner p) (operands (n_data n)) env
                      else Inr ([], env)) of
                  Inl e \<Rightarrow> Inl e
                | Inr (xs, env1) \<Rightarrow>
                    if pkind p = P_value then
                      (case materialise_value n addr s xs of
                         Inl e \<Rightarrow> Inl e | Inr x \<Rightarrow> Inr (x, env1(p \<mapsto> x)))
                    else if needs_value (n_data n) (pkind p) then
                      (case lower_port h addr s (val (powner p)) env1 of
                         Inl e \<Rightarrow> Inl e
                       | Inr (y, env2) \<Rightarrow>
                           (case materialise_flag n (pkind p) xs (Some y) of
                              Inl e \<Rightarrow> Inl e | Inr x \<Rightarrow> Inr (x, env2(p \<mapsto> x))))
                    else
                      (case materialise_flag n (pkind p) xs None of
                         Inl e \<Rightarrow> Inl e | Inr x \<Rightarrow> Inr (x, env1(p \<mapsto> x))))))"
| "lower_list h addr s n [] env = Inr ([], env)"
| "lower_list h addr s n (p # ps) env =
     (if powner p < n then
        (case lower_port h addr s p env of
           Inl e \<Rightarrow> Inl e
         | Inr (x, env1) \<Rightarrow>
             (case lower_list h addr s n ps env1 of
                Inl e \<Rightarrow> Inl e
              | Inr (xs, env2) \<Rightarrow> Inr (x # xs, env2)))
      else Inl (Undefined_behaviour ''cyclic node''))"
  by pat_completeness auto
termination
  by (relation "measures
        [\<lambda>x. case x of Inl (h, a, s, p, env) \<Rightarrow> powner p | Inr (h, a, s, n, ps, env) \<Rightarrow> n,
         \<lambda>x. case x of Inl (h, a, s, p, env) \<Rightarrow> (if pkind p = P_value then 1 else 2) | Inr _ \<Rightarrow> 0,
         \<lambda>x. case x of Inl _ \<Rightarrow> 0 | Inr (h, a, s, n, ps, env) \<Rightarrow> length ps]") auto

declare lower_port.simps [simp del] lower_list.simps [simp del]

section \<open>\<open>lower_node\<close>: actions\<close>

definition lo_write_reg :: "nat \<Rightarrow> lval \<Rightarrow> mstate \<Rightarrow> mstate res" where
  "lo_write_reg off x s =
     (case reg_alloca_width off of
        None \<Rightarrow> Inl Out_of_range
      | Some rw \<Rightarrow>
          if lwidth x > rw then type_mismatch
          else Inr (s\<lparr>m_regs := (m_regs s)(off := lbits x)\<rparr>))"

definition lo_write_mem :: "lval \<Rightarrow> lval \<Rightarrow> mstate \<Rightarrow> mstate res" where
  "lo_write_mem addr x s =
     (case addr of
        Iv w a \<Rightarrow> Inr (s\<lparr>m_mem := store_bytes (m_mem s) a (lwidth x div 8) (lbits x)\<rparr>)
      | Vv _ _ \<Rightarrow> type_mismatch)"

definition lo_write_pc :: "lval \<Rightarrow> mstate \<Rightarrow> mstate res" where
  "lo_write_pc x s = Inr (s\<lparr>m_regs := (m_regs s)(off_PC := lbits x)\<rparr>)"

definition lo_write_local :: "local_var \<Rightarrow> value_type \<Rightarrow> lval \<Rightarrow> mstate \<Rightarrow> mstate res" where
  "lo_write_local lv t x s =
     (if is_floating_point (lv_type lv) then Inl (Not_modelled ''float local'')
      else if width t \<notin> {8, 16, 32, 64} then Inl (Runtime_error ''unsupported alloca width'')
      else Inr (s\<lparr>m_locals := (m_locals s)(lv_id lv \<mapsto> x)\<rparr>))"

text \<open>
  The effect of an action other than a jump, given the values of its operands; \<open>Label\<close>
  has none.
\<close>

definition lower_action :: "heap \<Rightarrow> node_data \<Rightarrow> lval list \<Rightarrow> mstate \<Rightarrow> mstate res" where
  "lower_action h d xs s =
     (case (d, xs) of
        (Label _ _, []) \<Rightarrow> Inr s
      | (Write_reg off _ _ _, [x]) \<Rightarrow> lo_write_reg off x s
      | (Write_mem _ _, [a, x]) \<Rightarrow> lo_write_mem a x s
      | (Write_pc _ _ _, [x]) \<Rightarrow> lo_write_pc x s
      | (Write_local lv p, [x]) \<Rightarrow> lo_write_local lv (port_type h p) x s
      | (Unary_atomic _ _, _) \<Rightarrow> Inl (Not_modelled ''atomic node'')
      | (Binary_atomic _ _ _, _) \<Rightarrow> Inl (Not_modelled ''atomic node'')
      | (Ternary_atomic _ _ _ _, _) \<Rightarrow> Inl (Not_modelled ''atomic node'')
      | (Internal_call _ _, _) \<Rightarrow> Inl (Not_modelled ''internal call'')
      | _ \<Rightarrow> Inl (Runtime_error ''lower_node: unsupported node kind''))"

definition exec_action :: "heap \<Rightarrow> ulong \<Rightarrow> node_id \<Rightarrow> (mstate \<times> env) \<Rightarrow> (mstate \<times> env) res" where
  "exec_action h addr a se =
     (case nodes h a of
        None \<Rightarrow> Inl (Undefined_behaviour ''dangling action'')
      | Some n \<Rightarrow>
          (case lower_list h addr (fst se) a (operands (n_data n)) (snd se) of
             Inl e \<Rightarrow> Inl e
           | Inr (xs, env) \<Rightarrow>
               (case lower_action h (n_data n) xs (fst se) of
                  Inl e \<Rightarrow> Inl e | Inr s \<Rightarrow> Inr (s, env))))"

fun exec_actions :: "heap \<Rightarrow> ulong \<Rightarrow> node_id list \<Rightarrow> (mstate \<times> env) \<Rightarrow> (mstate \<times> env) res" where
  "exec_actions h addr [] se = Inr se"
| "exec_actions h addr (a # as) se =
     (case exec_action h addr a se of Inl e \<Rightarrow> Inl e | Inr se' \<Rightarrow> exec_actions h addr as se')"

text \<open>
  A packet without jumps, in an executable (\<open>is_exec\<close>): the PC reads as the address of the packet; in a
  library the engine adds \<open>guest_base\<close>, which \<open>Chunk_Execution\<close> has.  \<open>exec_packets\<close> runs the packets of a
  basic block one after the other; it does not look at the PC, so that it is the meaning of a chunk only if no
  packet but the last writes the PC.  \<open>Chunk_Execution\<close> has the dispatch between the packets of any chunk.
\<close>

definition exec_packet :: "heap \<Rightarrow> packet \<Rightarrow> mstate \<Rightarrow> mstate res" where
  "exec_packet h p s = map_sum id fst (exec_actions h (address p) (actions p) (s, Map.empty))"

fun exec_packets :: "heap \<Rightarrow> packet list \<Rightarrow> mstate \<Rightarrow> mstate res" where
  "exec_packets h [] s = Inr s"
| "exec_packets h (p # ps) s =
     (case exec_packet h p s of Inl e \<Rightarrow> Inl e | Inr s' \<Rightarrow> exec_packets h ps s')"

section \<open>Jumps inside a packet\<close>

fun index_of :: "node_id \<Rightarrow> node_id list \<Rightarrow> nat option" where
  "index_of l [] = None"
| "index_of l (a # as) = (if a = l then Some 0 else map_option Suc (index_of l as))"

text \<open>
  \<open>br\<close> and \<open>cond_br\<close> go to the block of their label.  The LLVM value of a port is emitted
  once, where the first action in packet order needs it; running that block again after
  a jump back computes it again.  So a jump to a label that has been passed restores the
  values known when it was passed (\<open>snaps\<close>), and a jump forward keeps them.  One unit of
  fuel is one action.
\<close>

record run =
  r_state :: mstate
  r_env :: env
  r_snaps :: "node_id \<rightharpoonup> env"

definition jump_to ::
  "node_id list \<Rightarrow> node_id option \<Rightarrow> run \<Rightarrow> (nat \<times> run) res" where
  "jump_to as t r =
     (case t of
        None \<Rightarrow> Inl (Undefined_behaviour ''null jump target'')
      | Some l \<Rightarrow>
          (case index_of l as of
             None \<Rightarrow> Inl (Undefined_behaviour ''label outside the packet'')
           | Some i \<Rightarrow>
               Inr (i, r\<lparr>r_env := (case r_snaps r l of None \<Rightarrow> r_env r | Some e \<Rightarrow> e)\<rparr>)))"

definition run_step :: "heap \<Rightarrow> ulong \<Rightarrow> node_id list \<Rightarrow> nat \<Rightarrow> run \<Rightarrow> (nat \<times> run) res" where
  "run_step h addr as i r =
     (case nodes h (as ! i) of
        None \<Rightarrow> Inl (Undefined_behaviour ''dangling action'')
      | Some n \<Rightarrow>
          (case n_data n of
             Br t \<Rightarrow> jump_to as t r
           | Cond_br c t \<Rightarrow>
               (case lower_list h addr (r_state r) (as ! i) [c] (r_env r) of
                  Inl e \<Rightarrow> Inl e
                | Inr (xs, env) \<Rightarrow>
                    (case xs of
                       [Iv w x] \<Rightarrow>
                         if w \<noteq> 1 then type_mismatch
                         else if x \<noteq> 0 then jump_to as t (r\<lparr>r_env := env\<rparr>)
                         else Inr (Suc i, r\<lparr>r_env := env\<rparr>)
                     | _ \<Rightarrow> type_mismatch))
           | _ \<Rightarrow>
               (case exec_action h addr (as ! i) (r_state r, r_env r) of
                  Inl e \<Rightarrow> Inl e
                | Inr (s, env) \<Rightarrow>
                    Inr (Suc i, r\<lparr>r_state := s, r_env := env,
                           r_snaps := (if kind (n_data n) = K_label
                                       then (r_snaps r)(as ! i \<mapsto> env) else r_snaps r)\<rparr>))))"

fun run_from :: "nat \<Rightarrow> heap \<Rightarrow> ulong \<Rightarrow> node_id list \<Rightarrow> nat \<Rightarrow> run \<Rightarrow> mstate res option" where
  "run_from 0 h addr as i r = None"
| "run_from (Suc fuel) h addr as i r =
     (if i \<ge> length as then Some (Inr (r_state r))
      else case run_step h addr as i r of
             Inl e \<Rightarrow> Some (Inl e) | Inr (j, r') \<Rightarrow> run_from fuel h addr as j r')"

definition run_packet :: "nat \<Rightarrow> heap \<Rightarrow> packet \<Rightarrow> mstate \<Rightarrow> mstate res option" where
  "run_packet fuel h p s =
     run_from fuel h (address p) (actions p) 0
       \<lparr>r_state = s, r_env = Map.empty, r_snaps = Map.empty\<rparr>"

fun run_packets :: "nat \<Rightarrow> heap \<Rightarrow> packet list \<Rightarrow> mstate \<Rightarrow> mstate res option" where
  "run_packets fuel h [] s = Some (Inr s)"
| "run_packets fuel h (p # ps) s =
     (case run_packet fuel h p s of
        None \<Rightarrow> None
      | Some (Inl e) \<Rightarrow> Some (Inl e)
      | Some (Inr s') \<Rightarrow> run_packets fuel h ps s')"

end
