(* ===== verification/Snapshot.thy ===== *)
theory Snapshot
  imports LLVM_Lowering IR_Visitor
begin

text \<open>
  Packets that read the machine state as it was when they started.  The engine evaluates
  a port when an action first needs it and keeps the value, so an action that follows a
  register write may still see the old register, or the new one, depending on what was
  evaluated before.  \<open>eval_port\<close> evaluates a port in one fixed state without remembering
  anything; the main result (\<open>exec_actions_snapshot\<close>) is that for the packets
  \<open>snapshot_actions\<close> accepts, the lazy evaluation gives what \<open>eval_port\<close> gives in the
  state at the start of the packet, also when some of its flag writes are left out.
\<close>

section \<open>Evaluation without memory\<close>

function (sequential)
  eval_port :: "heap \<Rightarrow> ulong \<Rightarrow> mstate \<Rightarrow> port \<Rightarrow> lval res" and
  eval_list :: "heap \<Rightarrow> ulong \<Rightarrow> mstate \<Rightarrow> node_id \<Rightarrow> port list \<Rightarrow> lval list res" where
  "eval_port h addr s p =
     (case nodes h (powner p) of
        None \<Rightarrow> Inl (Undefined_behaviour ''dangling port'')
      | Some n \<Rightarrow>
          (case (if needs_operands (n_data n) (pkind p)
                 then eval_list h addr s (powner p) (operands (n_data n)) else Inr []) of
             Inl e \<Rightarrow> Inl e
           | Inr xs \<Rightarrow>
               if pkind p = P_value then materialise_value n addr s xs
               else if needs_value (n_data n) (pkind p) then
                 (case eval_port h addr s (val (powner p)) of
                    Inl e \<Rightarrow> Inl e | Inr y \<Rightarrow> materialise_flag n (pkind p) xs (Some y))
               else materialise_flag n (pkind p) xs None))"
| "eval_list h addr s n [] = Inr []"
| "eval_list h addr s n (p # ps) =
     (if powner p < n then
        (case eval_port h addr s p of
           Inl e \<Rightarrow> Inl e
         | Inr x \<Rightarrow> (case eval_list h addr s n ps of Inl e \<Rightarrow> Inl e | Inr xs \<Rightarrow> Inr (x # xs)))
      else Inl (Undefined_behaviour ''cyclic node''))"
  by pat_completeness auto
termination
  by (relation "measures
        [\<lambda>x. case x of Inl (h, a, s, p) \<Rightarrow> powner p | Inr (h, a, s, n, ps) \<Rightarrow> n,
         \<lambda>x. case x of Inl (h, a, s, p) \<Rightarrow> (if pkind p = P_value then 1 else 2) | Inr _ \<Rightarrow> 0,
         \<lambda>x. case x of Inl _ \<Rightarrow> 0 | Inr (h, a, s, n, ps) \<Rightarrow> length ps]") auto

declare eval_port.simps [simp del] eval_list.simps [simp del]

text \<open>The ports whose values are computed on the way to the value of a port.\<close>

function (sequential)
  demands :: "heap \<Rightarrow> port \<Rightarrow> port list" and
  demands_list :: "heap \<Rightarrow> node_id \<Rightarrow> port list \<Rightarrow> port list" where
  "demands h p =
     (case nodes h (powner p) of
        None \<Rightarrow> []
      | Some n \<Rightarrow>
          (if needs_operands (n_data n) (pkind p)
           then demands_list h (powner p) (operands (n_data n)) else [])
          @ (if needs_value (n_data n) (pkind p) \<and> pkind p \<noteq> P_value
             then demands h (val (powner p)) else [])
          @ [p])"
| "demands_list h n [] = []"
| "demands_list h n (p # ps) = (if powner p < n then demands h p @ demands_list h n ps else [])"
  by pat_completeness auto
termination
  by (relation "measures
        [\<lambda>x. case x of Inl (h, p) \<Rightarrow> powner p | Inr (h, n, ps) \<Rightarrow> n,
         \<lambda>x. case x of Inl (h, p) \<Rightarrow> (if pkind p = P_value then 1 else 2) | Inr _ \<Rightarrow> 0,
         \<lambda>x. case x of Inl _ \<Rightarrow> 0 | Inr (h, n, ps) \<Rightarrow> length ps]") auto

declare demands.simps [simp del] demands_list.simps [simp del]

text \<open>Only the value ports of the three reading classes look at the machine state.\<close>

definition same_reads :: "heap \<Rightarrow> ulong \<Rightarrow> mstate \<Rightarrow> mstate \<Rightarrow> port \<Rightarrow> bool" where
  "same_reads h addr s s' q \<longleftrightarrow>
     (pkind q = P_value \<longrightarrow>
      (\<forall>n xs. nodes h (powner q) = Some n \<longrightarrow> materialise_value n addr s xs = materialise_value n addr s' xs))"

lemma same_reads_refl [simp]: "same_reads h addr s s q"
  by (simp add: same_reads_def)

lemma needs_value_not_value [simp]: "needs_value d P_value = False"
  by (simp add: needs_value_def)

lemma eval_port_same:
    "\<forall>q \<in> set (demands h p). same_reads h addr s s' q \<Longrightarrow> eval_port h addr s p = eval_port h addr s' p"
  and eval_list_same:
    "\<forall>q \<in> set (demands_list h n ps). same_reads h addr s s' q \<Longrightarrow>
     eval_list h addr s n ps = eval_list h addr s' n ps"
proof (induction h p and h n ps rule: demands_demands_list.induct)
  case (1 h p)
  show ?case
  proof (cases "nodes h (powner p)")
    case None
    then show ?thesis by (simp add: eval_port.simps)
  next
    case (Some n)
    from 1(3) Some have ops: "needs_operands (n_data n) (pkind p) \<Longrightarrow>
        eval_list h addr s (powner p) (operands (n_data n)) = eval_list h addr s' (powner p) (operands (n_data n))"
      by (intro 1(1)) (auto simp: demands.simps [of h p])
    from 1(3) Some have v: "needs_value (n_data n) (pkind p) \<and> pkind p \<noteq> P_value \<Longrightarrow>
        eval_port h addr s (val (powner p)) = eval_port h addr s' (val (powner p))"
      by (intro 1(2)) (auto simp: demands.simps [of h p])
    from 1(3) Some have "same_reads h addr s s' p" by (auto simp: demands.simps [of h p])
    with Some ops v show ?thesis
      by (auto simp: eval_port.simps [of h addr _ p] same_reads_def split: sum.splits)
  qed
next
  case (3 h n p ps)
  then show ?case
    by (cases "powner p < n") (simp_all add: eval_list.simps demands_list.simps split: sum.splits)
qed (simp add: eval_list.simps)

section \<open>The lazy evaluation agrees with it\<close>

definition consistent :: "heap \<Rightarrow> ulong \<Rightarrow> mstate \<Rightarrow> env \<Rightarrow> bool" where
  "consistent h addr s0 env \<longleftrightarrow>
     (\<forall>q x. env q = Some x \<longrightarrow> eval_port h addr s0 q = Inr x)
     \<and> (\<forall>q \<in> dom env. set (demands h q) \<subseteq> dom env)"

lemma consistent_empty [simp]: "consistent h addr s0 Map.empty"
  by (simp add: consistent_def)

definition lowered_as ::
  "heap \<Rightarrow> ulong \<Rightarrow> mstate \<Rightarrow> env \<Rightarrow> port set \<Rightarrow> 'a res \<Rightarrow> ('a \<times> env) res \<Rightarrow> bool" where
  "lowered_as h addr s0 env D r r' \<longleftrightarrow>
     (case r of
        Inl e \<Rightarrow> r' = Inl e
      | Inr x \<Rightarrow> (\<exists>env'. r' = Inr (x, env') \<and> consistent h addr s0 env' \<and> dom env' = dom env \<union> D))"

lemma lowered_asE:
  assumes "lowered_as h addr s0 env D r r'"
  obtains e where "r = Inl e" "r' = Inl e"
  | x env' where "r = Inr x" "r' = Inr (x, env')" "consistent h addr s0 env'" "dom env' = dom env \<union> D"
  using assms by (auto simp: lowered_as_def split: sum.splits)

lemma consistent_upd:
  assumes "consistent h addr s0 env" and "eval_port h addr s0 p = Inr x"
    and "set (demands h p) \<subseteq> insert p (dom env)"
  shows "consistent h addr s0 (env(p \<mapsto> x))"
  using assms unfolding consistent_def by (auto split: if_splits)

lemma demands_self: "nodes h (powner p) = Some n \<Longrightarrow> p \<in> set (demands h p)"
  by (simp add: demands.simps [of h p])

lemma lower_port_eval:
    "consistent h addr s0 env \<Longrightarrow> \<forall>q \<in> set (demands h p). q \<in> dom env \<or> same_reads h addr s0 s q \<Longrightarrow>
     lowered_as h addr s0 env (set (demands h p)) (eval_port h addr s0 p) (lower_port h addr s p env)"
  and lower_list_eval:
    "consistent h addr s0 env \<Longrightarrow> \<forall>q \<in> set (demands_list h n ps). q \<in> dom env \<or> same_reads h addr s0 s q \<Longrightarrow>
     lowered_as h addr s0 env (set (demands_list h n ps)) (eval_list h addr s0 n ps)
       (lower_list h addr s n ps env)"
proof (induction h addr s p env and h addr s n ps env rule: lower_port_lower_list.induct)
  case (1 h addr s p env)
  show ?case
  proof (cases "env p")
    case (Some x)
    with "1.prems"(1) have "eval_port h addr s0 p = Inr x" "set (demands h p) \<subseteq> dom env"
      by (auto simp: consistent_def)
    with Some "1.prems"(1) show ?thesis by (auto simp: lowered_as_def lower_port.simps)
  next
    case None
    show ?thesis
    proof (cases "nodes h (powner p)")
      case None
      with \<open>env p = None\<close> show ?thesis
        by (simp add: lowered_as_def lower_port.simps eval_port.simps)
    next
      case (Some n)
      let ?ops = "if needs_operands (n_data n) (pkind p)
        then eval_list h addr s0 (powner p) (operands (n_data n)) else Inr []"
      let ?low = "if needs_operands (n_data n) (pkind p)
        then lower_list h addr s (powner p) (operands (n_data n)) env else Inr ([], env)"
      let ?D = "if needs_operands (n_data n) (pkind p)
        then set (demands_list h (powner p) (operands (n_data n))) else {}"
      have d: "set (demands h p) = ?D
          \<union> (if needs_value (n_data n) (pkind p) \<and> pkind p \<noteq> P_value
             then set (demands h (val (powner p))) else {}) \<union> {p}"
        using Some by (auto simp: demands.simps [of h p])
      have ops: "lowered_as h addr s0 env ?D ?ops ?low"
        using 1(1) [OF None Some _ "1.prems"(1)] "1.prems" d by (auto simp: lowered_as_def)
      show ?thesis
        using ops
      proof (cases rule: lowered_asE)
        case (1 e)
        with None Some show ?thesis
          by (simp add: lowered_as_def lower_port.simps [of h addr s p] eval_port.simps [of h addr s0 p])
      next
        case (2 xs env1)
        show ?thesis
        proof (cases "pkind p = P_value")
          case True
          have "p \<notin> dom env" using None by auto
          with "1.prems"(2) d have "same_reads h addr s0 s p" by auto
          with True Some have m: "materialise_value n addr s xs = materialise_value n addr s0 xs"
            by (simp add: same_reads_def)
          have e: "eval_port h addr s0 p = materialise_value n addr s0 xs"
            using Some 2(1) True by (simp add: eval_port.simps [of h addr s0 p])
          have l: "lower_port h addr s p env =
              (case materialise_value n addr s0 xs of Inl e \<Rightarrow> Inl e | Inr x \<Rightarrow> Inr (x, env1(p \<mapsto> x)))"
            using None Some 2(2) True m by (simp add: lower_port.simps [of h addr s p])
          have sub: "set (demands h p) \<subseteq> insert p (dom env1)" using d 2(4) True by auto
          show ?thesis
            using 2(4) d True consistent_upd [OF 2(3) _ sub] e
            by (auto simp: lowered_as_def e l split: sum.splits)
        next
          case False
          show ?thesis
          proof (cases "needs_value (n_data n) (pkind p)")
            case nv: True
            have "\<forall>q \<in> set (demands h (val (powner p))). q \<in> dom env1 \<or> same_reads h addr s0 s q"
              using "1.prems"(2) d nv False 2(4) by auto
            with 1(2) [OF None Some 2(2) _ False nv] 2(3)
            have v: "lowered_as h addr s0 env1 (set (demands h (val (powner p))))
                (eval_port h addr s0 (val (powner p))) (lower_port h addr s (val (powner p)) env1)"
              by auto
            then show ?thesis
            proof (cases rule: lowered_asE)
              case (1 e)
              with None Some False nv 2 show ?thesis
                by (simp add: lowered_as_def lower_port.simps [of h addr s p] eval_port.simps [of h addr s0 p])
            next
              case v: (2 y env2)
              have e: "eval_port h addr s0 p = materialise_flag n (pkind p) xs (Some y)"
                using Some 2(1) v(1) False nv by (simp add: eval_port.simps [of h addr s0 p])
              have l: "lower_port h addr s p env = (case materialise_flag n (pkind p) xs (Some y) of
                  Inl e \<Rightarrow> Inl e | Inr x \<Rightarrow> Inr (x, env2(p \<mapsto> x)))"
                using None Some 2(2) v(2) False nv by (simp add: lower_port.simps [of h addr s p])
              have sub: "set (demands h p) \<subseteq> insert p (dom env2)" using d 2(4) v(4) nv False by auto
              show ?thesis
                using v(4) 2(4) d False nv consistent_upd [OF v(3) _ sub] e
                by (auto simp: lowered_as_def e l split: sum.splits)
            qed
          next
            case nv: False
            have e: "eval_port h addr s0 p = materialise_flag n (pkind p) xs None"
              using Some 2(1) False nv by (simp add: eval_port.simps [of h addr s0 p])
            have l: "lower_port h addr s p env = (case materialise_flag n (pkind p) xs None of
                Inl e \<Rightarrow> Inl e | Inr x \<Rightarrow> Inr (x, env1(p \<mapsto> x)))"
              using None Some 2(2) False nv by (simp add: lower_port.simps [of h addr s p])
            have sub: "set (demands h p) \<subseteq> insert p (dom env1)" using d 2(4) nv False by auto
            show ?thesis
              using 2(4) d False nv consistent_upd [OF 2(3) _ sub] e
              by (auto simp: lowered_as_def e l split: sum.splits)
          qed
        qed
      qed
    qed
  qed
next
  case (2 h addr s n env)
  then show ?case by (simp add: lowered_as_def eval_list.simps lower_list.simps demands_list.simps)
next
  case (3 h addr s n p ps env)
  show ?case
  proof (cases "powner p < n")
    case False
    then show ?thesis
      by (simp add: lowered_as_def eval_list.simps lower_list.simps)
  next
    case True
    with 3(4) have "\<forall>q \<in> set (demands h p). q \<in> dom env \<or> same_reads h addr s0 s q"
      by (simp add: demands_list.simps)
    from 3(1) [OF True 3(3) this] show ?thesis
    proof (cases rule: lowered_asE)
      case (1 e)
      with True show ?thesis by (simp add: lowered_as_def eval_list.simps lower_list.simps)
    next
      case p: (2 x env1)
      have "\<forall>q \<in> set (demands_list h n ps). q \<in> dom env1 \<or> same_reads h addr s0 s q"
        using 3(4) True p(4) by (auto simp: demands_list.simps)
      from 3(2) [OF True p(2) refl p(3) this] show ?thesis
      proof (cases rule: lowered_asE)
        case (1 e)
        with True p show ?thesis by (simp add: lowered_as_def eval_list.simps lower_list.simps)
      next
        case (2 xs env2)
        with True p show ?thesis
          by (auto simp: lowered_as_def eval_list.simps lower_list.simps demands_list.simps)
      qed
    qed
  qed
qed

section \<open>Packets that read their initial state\<close>

text \<open>What an action writes that a later read in the packet could see.\<close>

definition clobbers :: "heap \<Rightarrow> node_id \<Rightarrow> node_data \<Rightarrow> bool" where
  "clobbers h b rd =
     (case nodes h b of
        None \<Rightarrow> False
      | Some nd \<Rightarrow>
          (case (n_data nd, rd) of
             (Write_reg off _ _ _, Read_reg off' _ _) \<Rightarrow> off = off'
           | (Write_pc _ _ _, Read_reg off' _ _) \<Rightarrow> off' = off_PC
           | (Write_mem _ _, Read_mem _) \<Rightarrow> True
           | (Write_local lv _, Read_local lv') \<Rightarrow> lv_id lv = lv_id lv'
           | _ \<Rightarrow> False))"

definition conflict :: "heap \<Rightarrow> node_id list \<Rightarrow> port \<Rightarrow> bool" where
  "conflict h before q =
     (pkind q = P_value
      \<and> (case nodes h (powner q) of None \<Rightarrow> False | Some nd \<Rightarrow> \<exists>b \<in> set before. clobbers h b (n_data nd)))"

definition action_demands :: "heap \<Rightarrow> node_id \<Rightarrow> port list" where
  "action_demands h a =
     (case nodes h a of None \<Rightarrow> [] | Some nd \<Rightarrow> demands_list h a (operands (n_data nd)))"

text \<open>
  \<open>optional\<close> are the actions that may be left out.  Every read an action needs must either
  not be clobbered by an earlier action, or have been evaluated by an earlier action that
  stays (\<open>firm\<close>).
\<close>

fun snapshot_actions :: "heap \<Rightarrow> (node_id \<Rightarrow> bool) \<Rightarrow> node_id list \<Rightarrow> port set \<Rightarrow> node_id list \<Rightarrow> bool" where
  "snapshot_actions h optional before firm [] = True"
| "snapshot_actions h optional before firm (a # as) =
     ((\<forall>q \<in> set (action_demands h a). q \<in> firm \<or> \<not> conflict h before q)
      \<and> snapshot_actions h optional (before @ [a])
          (if optional a then firm else firm \<union> set (action_demands h a)) as)"

text \<open>The actions with all operands evaluated in the state \<open>s0\<close>.\<close>

fun snap_exec :: "heap \<Rightarrow> ulong \<Rightarrow> mstate \<Rightarrow> node_id list \<Rightarrow> mstate \<Rightarrow> mstate res" where
  "snap_exec h addr s0 [] s = Inr s"
| "snap_exec h addr s0 (a # as) s =
     (case nodes h a of
        None \<Rightarrow> Inl (Undefined_behaviour ''dangling action'')
      | Some n \<Rightarrow>
          (case eval_list h addr s0 a (operands (n_data n)) of
             Inl e \<Rightarrow> Inl e
           | Inr xs \<Rightarrow>
               (case lower_action h (n_data n) xs s of
                  Inl e \<Rightarrow> Inl e | Inr s' \<Rightarrow> snap_exec h addr s0 as s')))"

definition unclobbered :: "heap \<Rightarrow> ulong \<Rightarrow> mstate \<Rightarrow> node_id list \<Rightarrow> mstate \<Rightarrow> bool" where
  "unclobbered h addr s0 before s \<longleftrightarrow> (\<forall>q. \<not> conflict h before q \<longrightarrow> same_reads h addr s0 s q)"

lemma unclobbered_refl [simp]: "unclobbered h addr s [] s"
  by (simp add: unclobbered_def)

lemma conflict_append [simp]: "conflict h (bs @ cs) q \<longleftrightarrow> conflict h bs q \<or> conflict h cs q"
  by (auto simp: conflict_def split: option.splits)

lemma unclobbered_skip: "unclobbered h addr s0 bs s \<Longrightarrow> unclobbered h addr s0 (bs @ cs) s"
  by (simp add: unclobbered_def)

lemma lower_action_cases:
  assumes "lower_action h d xs s = Inr s'"
  shows "(\<exists>nm u. d = Label nm u \<and> s' = s)
    \<or> (\<exists>off i nm p x. d = Write_reg off i nm p \<and> xs = [x] \<and> s' = s\<lparr>m_regs := (m_regs s)(off := lbits x)\<rparr>)
    \<or> (\<exists>p bt t x. d = Write_pc p bt t \<and> xs = [x] \<and> s' = s\<lparr>m_regs := (m_regs s)(off_PC := lbits x)\<rparr>)
    \<or> (\<exists>a p m. d = Write_mem a p \<and> s' = s\<lparr>m_mem := m\<rparr>)
    \<or> (\<exists>lv p x. d = Write_local lv p \<and> xs = [x] \<and> s' = s\<lparr>m_locals := (m_locals s)(lv_id lv \<mapsto> x)\<rparr>)"
  using assms
  by (cases d; cases xs; cases "tl xs")
     (auto simp: lower_action_def lo_write_reg_def lo_write_pc_def lo_write_mem_def lo_write_local_def
        split: option.splits prod.splits if_splits list.splits lval.splits)

lemma materialise_value_stateless:
  "kind (n_data n) \<notin> {K_read_reg, K_read_mem, K_read_local} \<Longrightarrow>
   materialise_value n addr s' ys = materialise_value n addr s ys"
  by (cases "n_data n") (simp_all add: materialise_value_def)

lemma lo_read_same:
  "m_regs s' off = m_regs s off \<Longrightarrow> lo_read_reg vt off s' = lo_read_reg vt off s"
  "m_mem s' = m_mem s \<Longrightarrow> lo_read_mem vt a s' = lo_read_mem vt a s"
  "m_locals s' (lv_id lv) = m_locals s (lv_id lv) \<Longrightarrow> lo_read_local lv s' = lo_read_local lv s"
  by (simp_all add: lo_read_reg_def lo_read_mem_def lo_read_local_def split: option.split lval.split)

lemma lower_action_keeps:
  assumes "nodes h b = Some nd" and "lower_action h (n_data nd) xs s = Inr s'"
  shows "\<not> clobbers h b (Read_reg off idx nm) \<Longrightarrow> m_regs s' off = m_regs s off"
    "\<not> clobbers h b (Read_mem p) \<Longrightarrow> m_mem s' = m_mem s"
    "\<not> clobbers h b (Read_local lv) \<Longrightarrow> m_locals s' (lv_id lv) = m_locals s (lv_id lv)"
  subgoal
    using lower_action_cases [OF assms(2)] assms(1)
    by (elim disjE exE conjE) (simp_all add: clobbers_def)
  subgoal
    using lower_action_cases [OF assms(2)] assms(1)
    by (elim disjE exE conjE) (simp_all add: clobbers_def)
  subgoal
    using lower_action_cases [OF assms(2)] assms(1)
    by (elim disjE exE conjE) (simp_all add: clobbers_def)
  done

lemma materialise_value_frame:
  assumes "nodes h b = Some nd" and "lower_action h (n_data nd) xs s = Inr s'"
    and "\<not> clobbers h b (n_data n)"
  shows "materialise_value n addr s' ys = materialise_value n addr s ys"
proof (cases "n_data n")
  case (Read_reg off idx nm)
  with lower_action_keeps(1) [OF assms(1,2)] assms(3) have "m_regs s' off = m_regs s off" by metis
  with Read_reg show ?thesis by (cases ys) (simp_all add: materialise_value_def lo_read_same(1) [of s' off s])
next
  case (Read_mem p)
  with lower_action_keeps(2) [OF assms(1,2)] assms(3) have "m_mem s' = m_mem s" by metis
  with Read_mem show ?thesis
    by (simp add: materialise_value_def lo_read_same(2) [of s' s] split: list.split)
next
  case (Read_local lv)
  with lower_action_keeps(3) [OF assms(1,2)] assms(3)
  have "m_locals s' (lv_id lv) = m_locals s (lv_id lv)" by metis
  with Read_local show ?thesis by (cases ys) (simp_all add: materialise_value_def lo_read_same(3) [of s' lv s])
qed (simp_all add: materialise_value_stateless)

lemma unclobbered_step:
  assumes "unclobbered h addr s0 before s" and "nodes h a = Some nd"
    and "lower_action h (n_data nd) xs s = Inr s'"
  shows "unclobbered h addr s0 (before @ [a]) s'"
  unfolding unclobbered_def
proof (intro allI impI)
  fix q assume q: "\<not> conflict h (before @ [a]) q"
  show "same_reads h addr s0 s' q"
    unfolding same_reads_def
  proof (intro impI allI)
    fix n ys assume n: "pkind q = P_value" "nodes h (powner q) = Some n"
    have "same_reads h addr s0 s q" using q assms(1) by (simp add: unclobbered_def)
    moreover have "\<not> clobbers h a (n_data n)" using q n by (auto simp: conflict_def)
    ultimately show "materialise_value n addr s0 ys = materialise_value n addr s' ys"
      using n materialise_value_frame [OF assms(2,3)] by (simp add: same_reads_def)
  qed
qed

theorem exec_actions_snapshot:
  assumes "snapshot_actions h optional before firm as" and "unclobbered h addr s0 before s"
    and "consistent h addr s0 env" and "firm \<subseteq> dom env"
    and "\<forall>a \<in> set as. \<not> keep a \<longrightarrow> optional a"
  shows "map_sum id fst (exec_actions h addr (filter keep as) (s, env))
         = snap_exec h addr s0 (filter keep as) s"
  using assms
proof (induction as arbitrary: before firm s env)
  case (Cons a as)
  note sn = Cons.prems(1)
  show ?case
  proof (cases "keep a")
    case False
    with Cons.prems(5) have "optional a" by simp
    with Cons.IH [OF _ unclobbered_skip [OF Cons.prems(2), of "[a]"] Cons.prems(3,4)] sn Cons.prems(5) False
    show ?thesis by simp
  next
    case keep: True
    show ?thesis
    proof (cases "nodes h a")
      case None
      with keep show ?thesis by (simp add: exec_action_def)
    next
      case (Some nd)
      let ?ps = "operands (n_data nd)"
      have D: "set (action_demands h a) = set (demands_list h a ?ps)"
        using Some by (simp add: action_demands_def)
      have "\<forall>q \<in> set (demands_list h a ?ps). q \<in> dom env \<or> same_reads h addr s0 s q"
        using sn Cons.prems(2,4) D by (auto simp: unclobbered_def)
      from lower_list_eval [OF Cons.prems(3) this] show ?thesis
      proof (cases rule: lowered_asE)
        case (1 e)
        with Some keep show ?thesis by (simp add: exec_action_def)
      next
        case (2 xs env1)
        show ?thesis
        proof (cases "lower_action h (n_data nd) xs s")
          case (Inl e)
          with Some keep 2 show ?thesis by (simp add: exec_action_def)
        next
          case (Inr s')
          have "map_sum id fst (exec_actions h addr (filter keep as) (s', env1))
              = snap_exec h addr s0 (filter keep as) s'"
            using sn Cons.prems(4,5) 2(3,4) D unclobbered_step [OF Cons.prems(2) Some Inr]
            by (intro Cons.IH [where before = "before @ [a]" and
                  firm = "if optional a then firm else firm \<union> set (action_demands h a)"])
               (auto split: if_splits)
          with Some keep 2 Inr show ?thesis by (simp add: exec_action_def id_def)
        qed
      qed
    qed
  qed
qed simp

end
