(* ===== verification/Chunk_Execution.thy ===== *)
theory Chunk_Execution
  imports LLVM_Lowering
begin

text \<open>
  The function that the LLVM engine builds from a chunk (\<open>lower_chunk\<close>,
  \<open>create_static_br\<close>, \<open>create_static_condbr\<close> and \<open>get_static_fn\<close>): one block per packet, which falls
  through to the next packet unless the packet writes the PC.  A jump goes to the packet whose
  address the PC holds, or leaves the function for the dispatcher when there is none; a call runs
  the called function or the dispatcher and falls through; a return leaves the function.  The
  branches that the engine resolves statically go to the block the switch would select.

  \<open>base\<close> is the address of \<open>guest_base\<close>, to which the engine adds the address of a packet where
  the PC is read and which it subtracts before the switch: 0 for an executable (\<open>is_exec\<close>).
\<close>

definition run_packet_at :: "nat \<Rightarrow> ulong \<Rightarrow> heap \<Rightarrow> packet \<Rightarrow> mstate \<Rightarrow> mstate res option" where
  "run_packet_at fuel base h p s =
     run_from fuel h (base + address p) (actions p) 0 \<lparr>r_state = s, r_env = Map.empty, r_snaps = Map.empty\<rparr>"

text \<open>The map \<open>blocks\<close> from addresses to packets.\<close>

definition block_at :: "packet list \<Rightarrow> ulong \<Rightarrow> nat option" where
  "block_at ps a = find (\<lambda>i. address (ps ! i) = a) [0..<length ps]"

text \<open>The constant target of the last call of a packet; 0 stands for none.\<close>

fun last_call :: "heap \<Rightarrow> ulong \<Rightarrow> node_id list \<Rightarrow> ulong" where
  "last_call h t [] = t"
| "last_call h t (a # as) =
     last_call h
       (case nodes h a of
          Some n \<Rightarrow> (case n_data n of Write_pc _ Br_call t' \<Rightarrow> t' | _ \<Rightarrow> t)
        | None \<Rightarrow> t) as"

definition call_target :: "heap \<Rightarrow> packet \<Rightarrow> ulong option" where
  "call_target h p = (let t = last_call h 0 (actions p) in if t \<noteq> 0 then Some (t + address p) else None)"

datatype chunk_exit = Returns mstate | To_dispatcher mstate

text \<open>The code behind a call: the function at the constant target if there is one, or the dispatcher.\<close>

type_synonym calls = "ulong option \<Rightarrow> mstate \<Rightarrow> mstate res"

fun run_chunk ::
  "calls \<Rightarrow> ulong \<Rightarrow> heap \<Rightarrow> packet list \<Rightarrow> nat \<Rightarrow> nat \<Rightarrow> mstate \<Rightarrow> chunk_exit res option" where
  "run_chunk call base h ps 0 i s = None"
| "run_chunk call base h ps (Suc fuel) i s =
     (if i \<ge> length ps then Some (Inr (Returns s))
      else
        case run_packet_at fuel base h (ps ! i) s of
          None \<Rightarrow> None
        | Some (Inl e) \<Rightarrow> Some (Inl e)
        | Some (Inr s1) \<Rightarrow>
            (case packet_updates_pc h (ps ! i) of
               Br_none \<Rightarrow> run_chunk call base h ps fuel (Suc i) s1
             | Br_sys \<Rightarrow> run_chunk call base h ps fuel (Suc i) s1
             | Br_call \<Rightarrow>
                 (case call (call_target h (ps ! i)) s1 of
                    Inl e \<Rightarrow> Some (Inl e)
                  | Inr s2 \<Rightarrow> run_chunk call base h ps fuel (Suc i) s2)
             | Br_ret \<Rightarrow> Some (Inr (Returns s1))
             | _ \<Rightarrow>
                 (case block_at ps (of_nat (m_regs s1 off_PC) - base) of
                    None \<Rightarrow> Some (Inr (To_dispatcher s1))
                  | Some j \<Rightarrow> run_chunk call base h ps fuel j s1)))"

text \<open>Two packets at one address share a block, which the model leaves out; a chunk without packets has no first address.\<close>

definition execute_chunk :: "calls \<Rightarrow> ulong \<Rightarrow> nat \<Rightarrow> heap \<Rightarrow> chunk \<Rightarrow> mstate \<Rightarrow> chunk_exit res option" where
  "execute_chunk call base fuel h c s =
     (if packets c = [] then Some (Inl (Undefined_behaviour ''chunk without packets''))
      else if \<not> distinct (map address (packets c)) then Some (Inl (Not_modelled ''two packets at one address''))
      else run_chunk call base h (packets c) fuel 0 s)"

section \<open>Packets without jumps\<close>

definition packet_effect :: "ulong \<Rightarrow> heap \<Rightarrow> packet \<Rightarrow> mstate \<Rightarrow> mstate res" where
  "packet_effect base h p s = map_sum id fst (exec_actions h (base + address p) (actions p) (s, Map.empty))"

definition no_jump :: "heap \<Rightarrow> node_id \<Rightarrow> bool" where
  "no_jump h a \<longleftrightarrow> (\<exists>n. nodes h a = Some n \<and> kind (n_data n) \<noteq> K_br \<and> kind (n_data n) \<noteq> K_cond_br)"

lemma run_step_no_jump:
  assumes "no_jump h (as ! i)"
  shows "\<exists>sn. run_step h addr as i r = (case exec_action h addr (as ! i) (r_state r, r_env r) of
    Inl e \<Rightarrow> Inl e | Inr (s, env) \<Rightarrow> Inr (Suc i, r\<lparr>r_state := s, r_env := env, r_snaps := sn env\<rparr>))"
proof -
  obtain n where n: "nodes h (as ! i) = Some n" "kind (n_data n) \<noteq> K_br" "kind (n_data n) \<noteq> K_cond_br"
    using assms by (auto simp: no_jump_def)
  then show ?thesis
    by (intro exI [of _ "\<lambda>env. if kind (n_data n) = K_label then (r_snaps r)(as ! i \<mapsto> env) else r_snaps r"])
       (cases "n_data n"; simp add: run_step_def split: sum.split prod.split)
qed

lemma run_from_no_jump:
  assumes "\<forall>a\<in>set as. no_jump h a" and "i \<le> length as"
  shows "run_from fuel h addr as i r = Some (Inr s) \<longleftrightarrow>
    length as - i < fuel \<and> map_sum id fst (exec_actions h addr (drop i as) (r_state r, r_env r)) = Inr s"
  using assms(2)
proof (induction fuel arbitrary: i r)
  case (Suc fuel)
  show ?case
  proof (cases "i < length as")
    case False
    then show ?thesis using Suc.prems by auto
  next
    case True
    have d: "drop i as = as ! i # drop (Suc i) as" using True by (simp add: Cons_nth_drop_Suc)
    have "no_jump h (as ! i)" using assms(1) True by simp
    then obtain sn where st: "run_step h addr as i r = (case exec_action h addr (as ! i) (r_state r, r_env r) of
      Inl e \<Rightarrow> Inl e | Inr (s, env) \<Rightarrow> Inr (Suc i, r\<lparr>r_state := s, r_env := env, r_snaps := sn env\<rparr>))"
      using run_step_no_jump [of h as i addr r] by blast
    show ?thesis
      using True Suc.IH [of "Suc i"] unfolding d run_from.simps st by (auto split: sum.splits)
  qed
qed simp

lemma run_packet_at_no_jump:
  "\<forall>a\<in>set (actions p). no_jump h a \<Longrightarrow> run_packet_at fuel base h p s = Some (Inr s') \<longleftrightarrow>
    length (actions p) < fuel \<and> packet_effect base h p s = Inr s'"
  using run_from_no_jump [of "actions p" h 0] by (simp add: run_packet_at_def packet_effect_def)

end
