(* ===== verification/Dead_Flags_Correct.thy ===== *)
theory Dead_Flags_Correct
  imports Dead_Flags Snapshot Chunk_Execution
begin

text \<open>
  When the dead-flags pass is right: on chunks of straight-line packets that read the
  machine state as it was at their start and share no nodes, the function built from the
  optimised chunk does the same as that of the original one, as long as every flag is live where
  control may go elsewhere than to the next packet (\<open>optimise_correct\<close>).  The liveness argument is
  made once over evaluated actions (\<open>snap_live\<close>) and lifted through the visitor.
\<close>

section \<open>The heap enters only through its nodes\<close>

lemma accept_cong: "nodes h = nodes h' \<Longrightarrow> accept h n seen = accept h' n seen"
  and visit_ports_cong: "nodes h = nodes h' \<Longrightarrow> visit_ports h n ps seen = visit_ports h' n ps seen"
proof (induction h n seen and h n ps seen rule: accept_visit_ports.induct)
  case (1 h n seen)
  then show ?case
    by (auto simp: accept.simps [of _ n seen] split: option.splits)
next
  case (3 h n p ps seen)
  then show ?case by (auto simp: visit_ports.simps split: prod.splits)
qed (simp add: visit_ports.simps)

lemma visit_actions_cong: "nodes h = nodes h' \<Longrightarrow> visit_actions h as seen = visit_actions h' as seen"
  by (induction as arbitrary: seen) (simp_all add: accept_cong [of h h'])

lemma lower_port_cong:
    "nodes h = nodes h' \<Longrightarrow> lower_port h addr s p env = lower_port h' addr s p env"
  and lower_list_cong:
    "nodes h = nodes h' \<Longrightarrow> lower_list h addr s n ps env = lower_list h' addr s n ps env"
proof (induction h addr s p env and h addr s n ps env rule: lower_port_lower_list.induct)
  case (1 h addr s p env)
  then show ?case
    by (auto simp: lower_port.simps [of _ addr s p env] split: option.splits sum.splits)
next
  case (3 h addr s n p ps env)
  then show ?case by (cases "powner p < n") (auto simp: lower_list.simps split: sum.splits)
qed (simp add: lower_list.simps)

lemma lower_action_cong: "nodes h = nodes h' \<Longrightarrow> lower_action h d xs s = lower_action h' d xs s"
  by (simp add: lower_action_def port_type_def split: node_data.split list.split)

lemma exec_actions_cong:
  "nodes h = nodes h' \<Longrightarrow> exec_actions h addr as se = exec_actions h' addr as se"
proof (induction as arbitrary: se)
  case (Cons a as)
  have "exec_action h addr a se = exec_action h' addr a se"
    using Cons.prems lower_list_cong [OF Cons.prems] lower_action_cong [OF Cons.prems]
    by (simp add: exec_action_def split: option.split sum.split)
  with Cons show ?case by (simp split: sum.splits)
qed simp

lemma exec_packets_cong: "nodes h = nodes h' \<Longrightarrow> exec_packets h ps s = exec_packets h' ps s"
  by (induction ps arbitrary: s)
     (simp_all add: exec_packet_def exec_actions_cong [of h h'] split: sum.splits)

lemma dead_writes_cong: "nodes h = nodes h' \<Longrightarrow> dead_writes h l A = dead_writes h' l A"
  by (induction l arbitrary: A) (simp_all add: writes_flag_cong [of h h'] split: option.split)

section \<open>Machine states that agree but for some registers\<close>

definition agree :: "nat set \<Rightarrow> mstate \<Rightarrow> mstate \<Rightarrow> bool" where
  "agree X s t \<longleftrightarrow>
     m_mem s = m_mem t \<and> m_locals s = m_locals t \<and> (\<forall>off. off \<notin> X \<longrightarrow> m_regs s off = m_regs t off)"

lemma agree_refl [simp]: "agree X s s"
  by (simp add: agree_def)

lemma agree_mono: "agree X s t \<Longrightarrow> X \<subseteq> Y \<Longrightarrow> agree Y s t"
  by (auto simp: agree_def)

lemma agree_empty: "agree {} s t \<Longrightarrow> s = t"
  by (cases s; cases t) (auto simp: agree_def)

lemma lower_action_agree:
  assumes "lower_action h d xs s = Inr s'" and "agree X s t"
  shows "\<exists>t'. lower_action h d xs t = Inr t' \<and> agree X s' t'"
  using assms
  by (cases d; cases xs; cases "tl xs")
     (auto simp: lower_action_def lo_write_reg_def lo_write_pc_def lo_write_mem_def lo_write_local_def
        agree_def split: option.splits if_splits lval.splits list.splits)

lemma lower_write_reg_agree:
  assumes "lower_action h (Write_reg off idx nm p) xs s = Inr s'" and "agree X s t"
  shows "\<exists>t'. lower_action h (Write_reg off idx nm p) xs t = Inr t' \<and> agree (X - {off}) s' t'"
    and "agree (insert off X) s' t"
  using assms
  by (cases xs; cases "tl xs";
      auto simp: lower_action_def lo_write_reg_def agree_def split: option.splits if_splits)+

section \<open>Leaving out dead flag writes\<close>

lemma dead_writes_append:
  "dead_writes h (xs @ ys) A = dead_writes h xs A @ dead_writes h ys (A - flags_written h xs)"
  by (induction xs arbitrary: A) (auto split: option.splits simp: Diff_insert2 [symmetric] Un_commute
      intro!: arg_cong [where f = "dead_writes h ys"])

lemma dead_writes_subset: "set (dead_writes h l A) \<subseteq> {n \<in> set l. writes_flag h n \<noteq> None}"
  by (induction l arbitrary: A) (auto split: option.splits if_splits)

lemma flags_written_rev [simp]: "flags_written h (rev l) = flags_written h l"
  by (auto simp: flags_written_def)

lemma writes_flagE:
  assumes "writes_flag h a = Some f"
  obtains nd idx nm p where "nodes h a = Some nd" "n_data nd = Write_reg f idx nm p" "f \<in> flag_regs_offsets"
  using assms by (auto simp: writes_flag_def split: option.splits node_data.splits if_splits)

lemma distinct_dead_writes: "distinct l \<Longrightarrow> distinct (dead_writes h l A)"
  using dead_writes_subset by (induction l arbitrary: A) (fastforce split: option.splits)+

theorem snap_live:
  assumes "snap_exec h addr s0 as s = Inr s'" and "distinct as"
    and "agree (flag_regs_offsets - (A - flags_written h as)) s t"
  shows "\<exists>t'. snap_exec h addr s0 (filter (\<lambda>a. a \<notin> set (dead_writes h (rev as) A)) as) t = Inr t'
             \<and> agree (flag_regs_offsets - A) s' t'"
  using assms
proof (induction as arbitrary: s t)
  case (Cons a as)
  let ?dead = "set (dead_writes h (rev as) A)"
  obtain nd xs s1 where nd: "nodes h a = Some nd"
      and xs: "eval_list h addr s0 a (operands (n_data nd)) = Inr xs"
      and s1: "lower_action h (n_data nd) xs s = Inr s1" and rest: "snap_exec h addr s0 as s1 = Inr s'"
    using Cons.prems(1) by (auto split: option.splits sum.splits)
  have a: "a \<notin> ?dead" using dead_writes_subset [of h "rev as" A] Cons.prems(2) by auto
  have same: "filter (\<lambda>b. b \<notin> insert a ?dead) as = filter (\<lambda>b. b \<notin> ?dead) as"
    using Cons.prems(2) by (auto intro: filter_cong)
  show ?case
  proof (cases "writes_flag h a")
    case None
    from lower_action_agree [OF s1 Cons.prems(3)] None obtain t1
      where t1: "lower_action h (n_data nd) xs t = Inr t1"
        "agree (flag_regs_offsets - (A - flags_written h as)) s1 t1" by auto
    have "dead_writes h (rev as @ [a]) A = dead_writes h (rev as) A"
      using None by (simp add: dead_writes_append)
    with Cons.IH [OF rest _ t1(2)] Cons.prems(2) nd xs t1(1) a show ?thesis by simp
  next
    case (Some f)
    then obtain idx nm p where wr: "n_data nd = Write_reg f idx nm p" "f \<in> flag_regs_offsets"
      using nd by (auto elim!: writes_flagE)
    show ?thesis
    proof (cases "f \<in> A - flags_written h as")
      case True
      from lower_write_reg_agree(1) [OF s1 [unfolded wr(1)] Cons.prems(3)] wr obtain t1
        where t1: "lower_action h (n_data nd) xs t = Inr t1"
          "agree (flag_regs_offsets - (A - flags_written h (a # as)) - {f}) s1 t1" by auto
      have ag: "agree (flag_regs_offsets - (A - flags_written h as)) s1 t1"
        by (rule agree_mono [OF t1(2)]) (use Some in auto)
      moreover have "dead_writes h (rev as @ [a]) A = dead_writes h (rev as) A"
        using Some True by (simp add: dead_writes_append)
      ultimately show ?thesis using Cons.IH [OF rest _ ag] Cons.prems(2) nd xs a t1(1)
        by simp
    next
      case False
      have "agree (insert f (flag_regs_offsets - (A - flags_written h (a # as)))) s1 t"
        by (rule lower_write_reg_agree(2) [OF s1 [unfolded wr(1)] Cons.prems(3)])
      then have ag: "agree (flag_regs_offsets - (A - flags_written h as)) s1 t"
        by (rule agree_mono) (use Some False wr(2) in auto)
      moreover have "dead_writes h (rev as @ [a]) A = dead_writes h (rev as) A @ [a]"
        using Some False by (auto simp: dead_writes_append)
      ultimately show ?thesis using Cons.IH [OF rest _ ag] Cons.prems(2) same
        by (simp add: conj_commute)
    qed
  qed
qed auto

section \<open>Packets\<close>

text \<open>
  The packets the result is about: actions without jumps, calls and atomic accesses, whose
  operands do not reach other actions, and whose reads see the initial state.
\<close>

definition straight_action :: "heap \<Rightarrow> node_id \<Rightarrow> bool" where
  "straight_action h a \<longleftrightarrow>
     (case nodes h a of
        None \<Rightarrow> False
      | Some nd \<Rightarrow> kind (n_data nd) \<in> {K_label, K_write_pc, K_write_reg, K_write_mem, K_write_local})
     \<and> (\<forall>m \<in> set (tl (deps h a)). \<not> node_is_action h m)"

definition optimisable_packet :: "heap \<Rightarrow> packet \<Rightarrow> bool" where
  "optimisable_packet h p \<longleftrightarrow>
     distinct (actions p) \<and> (\<forall>a \<in> set (actions p). straight_action h a)
     \<and> snapshot_actions h (\<lambda>a. writes_flag h a \<noteq> None) [] {} (actions p)"

definition packet_deps :: "heap \<Rightarrow> packet \<Rightarrow> node_id set" where
  "packet_deps h p = set (concat (map (deps h) (actions p)))"

fun independent_packets :: "heap \<Rightarrow> packet list \<Rightarrow> bool" where
  "independent_packets h [] = True"
| "independent_packets h (p # ps) =
     (packet_deps h p \<inter> \<Union> (set (map (packet_deps h) ps)) = {} \<and> independent_packets h ps)"

lemma packet_deps_reach: "wf_heap h \<Longrightarrow> packet_deps h p = (\<Union>a \<in> set (actions p). reach h a)"
  by (simp add: packet_deps_def deps_reach)

lemma straight_actionD:
  assumes "straight_action h a" and "wf_heap h"
  shows "\<exists>nd. nodes h a = Some nd \<and> \<not> accept_checks_seen (n_data nd)"
    "m \<in> reach h a \<Longrightarrow> m = a \<or> \<not> node_is_action h m"
    "early_return_free h (reach h a)"
proof -
  obtain nd where nd: "nodes h a = Some nd"
      "kind (n_data nd) \<in> {K_label, K_write_pc, K_write_reg, K_write_mem, K_write_local}"
    using assms(1) by (auto simp: straight_action_def split: option.splits)
  then show 1: "\<exists>nd. nodes h a = Some nd \<and> \<not> accept_checks_seen (n_data nd)"
    by (auto simp: accept_checks_seen_def)
  have "reach h a = insert a (set (tl (deps h a)))"
    using deps_reach [OF assms(2), of a] nd by (simp add: deps.simps [of h a])
  then show 2: "m \<in> reach h a \<Longrightarrow> m = a \<or> \<not> node_is_action h m" for m
    using assms(1) by (auto simp: straight_action_def)
  have "\<not> accept_checks_seen (n_data md)" if "nodes h m = Some md" "m \<in> reach h a" for m md
    using 1 2 [OF that(2)] that(1) nd(1)
    by (auto simp: accept_checks_seen_def node_is_action_def is_action_def)
  then show "early_return_free h (reach h a)" by (simp add: early_return_free_def)
qed

lemma writes_flag_action: "writes_flag h m \<noteq> None \<Longrightarrow> node_is_action h m"
  by (auto simp: writes_flag_def node_is_action_def is_action_def
      split: option.splits node_data.splits)

abbreviation flag_writes :: "heap \<Rightarrow> node_id list \<Rightarrow> node_id list" where
  "flag_writes h l \<equiv> filter (\<lambda>n. writes_flag h n \<noteq> None) l"

lemma accept_flag_writes:
  assumes wf: "wf_heap h" and st: "straight_action h a"
  shows "flag_writes h (snd (accept h a seen)) = flag_writes h [a]"
proof -
  obtain nd where nd: "nodes h a = Some nd" "\<not> accept_checks_seen (n_data nd)"
    using straight_actionD(1) [OF st wf] by blast
  have "writes_flag h m = None"
    if m: "m \<in> set (snd (visit_ports h a (operands (n_data nd)) seen))" for m
  proof -
    obtain p where p: "p \<in> set (operands (n_data nd))" "m \<in> reach h (powner p)"
      using visit_ports_sound [OF m] by blast
    have "m \<le> powner p" using p(2)
      by (induction rule: reach.induct) (use wf_heap_operand [OF wf] in fastforce)+
    then have "m \<noteq> a" using wf_heap_operand [OF wf nd(1) p(1)] by auto
    with straight_actionD(2) [OF st wf reach_operand [OF nd(1) p]] writes_flag_action
    show ?thesis by blast
  qed
  then show ?thesis using nd
    by (auto simp: accept.simps [of h a] filter_empty_conv split: prod.splits)
qed

lemma visit_actions_flag_writes:
  assumes "wf_heap h" and "\<forall>a \<in> set as. straight_action h a"
  shows "flag_writes h (snd (visit_actions h as seen)) = flag_writes h as"
  using assms(2)
proof (induction as arbitrary: seen)
  case (Cons a as)
  obtain s1 l1 where a: "accept h a seen = (s1, l1)" by fastforce
  obtain s2 l2 where b: "visit_actions h as s1 = (s2, l2)" by fastforce
  from Cons.IH [of s1] accept_flag_writes [OF assms(1), of a seen] Cons.prems a b show ?case
    by (simp split: if_splits)
qed simp

lemma dead_writes_flag_writes: "dead_writes h (flag_writes h l) A = dead_writes h l A"
  by (induction l arbitrary: A) (auto split: option.splits)

lemma flags_written_flag_writes: "flags_written h (flag_writes h l) = flags_written h l"
  by (auto simp: flags_written_def)

lemma demands_reach:
    "wf_heap h \<Longrightarrow> q \<in> set (demands h p) \<Longrightarrow> powner q \<in> reach h (powner p)"
  and demands_list_reach:
    "wf_heap h \<Longrightarrow> q \<in> set (demands_list h n ps) \<Longrightarrow> \<exists>p \<in> set ps. powner q \<in> reach h (powner p)"
proof (induction h p and h n ps rule: demands_demands_list.induct)
  case (1 h p)
  obtain nd where nd: "nodes h (powner p) = Some nd"
    using 1(4) by (cases "nodes h (powner p)") (simp_all add: demands.simps [of h p])
  consider "q = p"
    | "needs_operands (n_data nd) (pkind p)" "q \<in> set (demands_list h (powner p) (operands (n_data nd)))"
    | "needs_value (n_data nd) (pkind p) \<and> pkind p \<noteq> P_value" "q \<in> set (demands h (val (powner p)))"
    using 1(4) nd by (auto simp: demands.simps [of h p] split: if_splits)
  then show ?case
  proof cases
    case 1
    then show ?thesis using nd by (simp add: reach_refl_node)
  next
    case 2
    then show ?thesis using "1.IH"(1) [OF nd _ 1(3)] reach_operand [OF nd] by blast
  next
    case 3
    then show ?thesis using "1.IH"(2) [OF nd _ 1(3)] by simp
  qed
next
  case (3 h n p ps)
  then show ?case by (auto simp: demands_list.simps split: if_splits)
qed (simp add: demands_list.simps)

lemma action_demands_reach:
  assumes "wf_heap h" and "q \<in> set (action_demands h a)"
  shows "powner q \<in> reach h a"
proof (cases "nodes h a")
  case (Some nd)
  with assms(2) have "q \<in> set (demands_list h a (operands (n_data nd)))"
    by (simp add: action_demands_def)
  with demands_list_reach [OF assms(1)] reach_operand [OF Some] show ?thesis by blast
qed (use assms(2) in \<open>simp add: action_demands_def\<close>)

lemma snap_exec_same:
  assumes "\<forall>a \<in> set as. \<forall>q \<in> set (action_demands h a). same_reads h addr s0 t0 q"
  shows "snap_exec h addr s0 as s = snap_exec h addr t0 as s"
  using assms
proof (induction as arbitrary: s)
  case (Cons a as)
  show ?case
  proof (cases "nodes h a")
    case (Some nd)
    then have "eval_list h addr s0 a (operands (n_data nd)) = eval_list h addr t0 a (operands (n_data nd))"
      using Cons.prems by (intro eval_list_same) (simp add: action_demands_def)
    with Some Cons show ?thesis by (simp split: sum.split)
  qed simp
qed simp

text \<open>Two states that agree on the flags a packet reads give its reads the same values.\<close>

lemma agree_same_reads:
  assumes "agree X s t" and "X \<subseteq> flag_regs_offsets"
    and "\<And>f. reads_flag h (powner q) = Some f \<Longrightarrow> f \<notin> X"
  shows "same_reads h addr s t q"
  unfolding same_reads_def
proof (intro impI allI)
  fix n xs assume n: "nodes h (powner q) = Some n"
  show "materialise_value n addr s xs = materialise_value n addr t xs"
  proof (cases "n_data n")
    case (Read_reg off idx nm)
    with n assms have "m_regs s off = m_regs t off"
      by (cases "off \<in> flag_regs_offsets") (auto simp: reads_flag_def agree_def)
    with Read_reg show ?thesis
      by (cases xs) (simp_all add: materialise_value_def lo_read_same(1) [of s off t])
  next
    case (Read_mem p)
    with assms(1) show ?thesis
      by (simp add: materialise_value_def agree_def lo_read_same(2) [of s t] split: list.split)
  next
    case (Read_local lv)
    with assms(1) show ?thesis
      by (cases xs) (simp_all add: materialise_value_def agree_def lo_read_same(3) [of s lv t])
  qed (simp_all add: materialise_value_stateless)
qed

theorem packet_correct:
  assumes wf: "wf_heap h" and p: "optimisable_packet h p"
    and v: "visit_actions h (rev (actions p)) seen = (S, l)" and fresh: "packet_deps h p \<inter> seen = {}"
    and ex: "packet_effect base h p s = Inr s'"
    and ag: "agree (flag_regs_offsets - ((A - flags_written h l) \<union> flags_read h l)) s t"
  shows "\<exists>t'. packet_effect base h (set_actions (filter (\<lambda>a. a \<notin> set (dead_writes h l A)) (actions p)) p) t
            = Inr t' \<and> agree (flag_regs_offsets - A) s' t'"
proof -
  let ?as = "actions p" and ?addr = "base + address p"
  let ?keep = "\<lambda>a. a \<notin> set (dead_writes h l A)"
  have st: "\<forall>a \<in> set (rev ?as). straight_action h a" and dist: "distinct ?as"
    and sn: "snapshot_actions h (\<lambda>a. writes_flag h a \<noteq> None) [] {} ?as"
    using p by (simp_all add: optimisable_packet_def)
  have fw: "flag_writes h l = flag_writes h (rev ?as)"
    using visit_actions_flag_writes [OF wf st, of seen] v by simp
  have dw: "dead_writes h l A = dead_writes h (rev ?as) A"
    using fw dead_writes_flag_writes by metis
  have wr: "flags_written h l = flags_written h ?as"
    using fw flags_written_flag_writes flags_written_rev by metis
  have st': "\<forall>a \<in> set (rev ?as). nodes h a \<noteq> None \<and> early_return_free h (reach h a)"
    using st straight_actionD [OF _ wf] by (metis option.distinct(1))
  have l: "reach h a \<subseteq> set l" if "a \<in> set ?as" for a
    using visit_actions_reach [OF wf st' v, of a] that fresh by (auto simp: packet_deps_reach [OF wf])
  have same: "\<forall>a \<in> set as. \<forall>q \<in> set (action_demands h a). same_reads h ?addr s t q"
    if sub: "set as \<subseteq> set ?as" for as
  proof (intro ballI)
    fix a q assume a: "a \<in> set as" and q: "q \<in> set (action_demands h a)"
    have "powner q \<in> set l" using action_demands_reach [OF wf q] l sub a by blast
    then show "same_reads h ?addr s t q"
      by (intro agree_same_reads [OF ag]) (auto simp: flags_read_def)
  qed
  have dead: "\<forall>a \<in> set ?as. \<not> ?keep a \<longrightarrow> writes_flag h a \<noteq> None"
    using dead_writes_subset [of h l A] by auto
  have "snap_exec h ?addr s ?as s = Inr s'"
    using exec_actions_snapshot [OF sn unclobbered_refl consistent_empty, where keep = "\<lambda>_. True"] ex
    by (simp add: packet_effect_def)
  from snap_live [OF this dist agree_mono [OF ag]] obtain t' where t':
      "snap_exec h ?addr s (filter ?keep ?as) t = Inr t'" "agree (flag_regs_offsets - A) s' t'"
    unfolding dw wr by auto
  have "snap_exec h ?addr t (filter ?keep ?as) t = Inr t'"
    using snap_exec_same [OF same, of "filter ?keep ?as" t] t'(1) by auto
  moreover have "map_sum id fst (exec_actions h ?addr (filter ?keep ?as) (t, Map.empty))
      = snap_exec h ?addr t (filter ?keep ?as) t"
    by (rule exec_actions_snapshot [OF sn]) (use dead in auto)
  ultimately show ?thesis using t'(2) by (simp add: packet_effect_def set_actions_def)
qed

section \<open>What a flag write does not touch\<close>

lemma writes_flag_data:
  assumes "writes_flag h a \<noteq> None"
  shows "action_updates_pc h a = Br_none" "last_call h t (a # as) = last_call h t as"
proof -
  obtain n off i nm p where "nodes h a = Some n" "n_data n = Write_reg off i nm p"
    using assms by (auto simp: writes_flag_def split: option.splits node_data.splits)
  then show "action_updates_pc h a = Br_none" "last_call h t (a # as) = last_call h t as"
    by (simp_all add: action_updates_pc_def)
qed

lemma filter_flag_writes:
  assumes "\<forall>a\<in>set as. \<not> P a \<longrightarrow> writes_flag h a \<noteq> None"
  shows "updates_pc_loop h m (filter P as) = updates_pc_loop h m as" "last_call h t (filter P as) = last_call h t as"
  using assms
proof (induction as arbitrary: m t)
  case (Cons a as)
  { case 1 with Cons show ?case using writes_flag_data(1) [of h a] by (cases "P a") auto }
  { case 2 with Cons show ?case using writes_flag_data(2) [of h a t as] by (cases "P a") auto }
qed simp_all

section \<open>Liveness in program order\<close>

text \<open>The flags whose value may be read from a position on, when every flag is live at the end.\<close>

fun live_before :: "heap \<Rightarrow> packet list \<Rightarrow> nat set" where
  "live_before h [] = flag_regs_offsets"
| "live_before h (p # ps) =
     (live_before h ps - {f. \<exists>a\<in>set (actions p). writes_flag h a = Some f})
     \<union> {f. \<exists>n\<in>packet_deps h p. reads_flag h n = Some f}"

text \<open>Packets after which control does not simply continue with the next one; there every flag must be live.\<close>

definition transfers_control :: "heap \<Rightarrow> packet \<Rightarrow> bool" where
  "transfers_control h p \<longleftrightarrow> packet_updates_pc h p \<notin> {Br_none, Br_sys}"

definition flags_live_at_transfers :: "heap \<Rightarrow> packet list \<Rightarrow> bool" where
  "flags_live_at_transfers h ps \<longleftrightarrow>
     (\<forall>k < length ps. transfers_control h (ps ! k) \<longrightarrow> live_before h (drop (Suc k) ps) = flag_regs_offsets)"

text \<open>A basic block transfers control in its last packet at most.\<close>

lemma basic_block_flags_live:
  "\<forall>k < length ps - 1. \<not> transfers_control h (ps ! k) \<Longrightarrow> flags_live_at_transfers h ps"
  unfolding flags_live_at_transfers_def
proof (intro allI impI)
  fix k assume a: "\<forall>k < length ps - 1. \<not> transfers_control h (ps ! k)" "k < length ps" "transfers_control h (ps ! k)"
  then have "Suc k = length ps" by (cases "k < length ps - 1") auto
  then show "live_before h (drop (Suc k) ps) = flag_regs_offsets" by simp
qed

section \<open>Chunks\<close>

definition idle :: "deadflags \<Rightarrow> bool" where
  "idle st \<longleftrightarrow> delete_nodes st = [] \<and> new_live_flags st = {}"

definition chunk_deps :: "heap \<Rightarrow> packet list \<Rightarrow> node_id set" where
  "chunk_deps h ps = \<Union> (set (map (packet_deps h) ps))"

lemma chunk_deps_simps [simp]:
  "chunk_deps h [] = {}" "chunk_deps h (p # ps) = packet_deps h p \<union> chunk_deps h ps"
  "chunk_deps h (ps @ qs) = chunk_deps h ps \<union> chunk_deps h qs"
  by (auto simp: chunk_deps_def)

lemma independent_append:
  "independent_packets h (ps @ qs) \<longleftrightarrow>
     independent_packets h ps \<and> independent_packets h qs \<and> chunk_deps h ps \<inter> chunk_deps h qs = {}"
  by (induction ps) (auto simp: chunk_deps_def)

lemma set_actions_address [simp]: "address (set_actions as p) = address p"
  "actions (set_actions as p) = as"
  by (simp_all add: set_actions_def)

lemma visit_actions_seen:
  assumes "wf_heap h" and "optimisable_packet h p"
    and "visit_actions h (rev (actions p)) seen = (S, l)"
  shows "S \<subseteq> seen \<union> packet_deps h p"
proof -
  have st': "\<forall>a \<in> set (rev (actions p)). nodes h a \<noteq> None \<and> early_return_free h (reach h a)"
    using assms(2) straight_actionD [OF _ assms(1)]
    by (auto simp: optimisable_packet_def) blast
  from visit_actions_complete [OF assms(1) st' assms(3)] have "S \<subseteq> seen \<union> set l" by simp
  moreover have "set l \<subseteq> packet_deps h p"
    using visit_actions_sound [of _ h "rev (actions p)" seen] assms(3)
    by (auto simp: packet_deps_reach [OF assms(1)])
  ultimately show ?thesis by blast
qed

lemma visited_nodes:
  assumes wf: "wf_heap h" and p: "optimisable_packet h p"
    and v: "visit_actions h (rev (actions p)) seen = (S, l)" and fresh: "packet_deps h p \<inter> seen = {}"
  shows "set l = packet_deps h p" "flags_written h l = {f. \<exists>a\<in>set (actions p). writes_flag h a = Some f}"
    "flags_read h l = {f. \<exists>n\<in>packet_deps h p. reads_flag h n = Some f}"
proof -
  have st: "\<forall>a \<in> set (rev (actions p)). straight_action h a"
    using p by (simp add: optimisable_packet_def)
  then have st': "\<forall>a \<in> set (rev (actions p)). nodes h a \<noteq> None \<and> early_return_free h (reach h a)"
    using straight_actionD [OF _ wf] by (metis option.distinct(1))
  have "packet_deps h p \<subseteq> set l"
    using visit_actions_reach [OF wf st' v] fresh by (auto simp: packet_deps_reach [OF wf])
  moreover have "set l \<subseteq> packet_deps h p"
    using visit_actions_sound [of _ h "rev (actions p)" seen] v by (auto simp: packet_deps_reach [OF wf])
  ultimately show l: "set l = packet_deps h p" by blast
  have "flag_writes h l = flag_writes h (rev (actions p))"
    using visit_actions_flag_writes [OF wf st, of seen] v by simp
  then show "flags_written h l = {f. \<exists>a\<in>set (actions p). writes_flag h a = Some f}"
    using flags_written_flag_writes flags_written_rev by (metis flags_written_def)
  show "flags_read h l = {f. \<exists>n\<in>packet_deps h p. reads_flag h n = Some f}"
    by (simp add: flags_read_def l)
qed

text \<open>One packet of the optimised chunk simulates its original, up to flags that are dead.\<close>

definition simulates :: "heap \<Rightarrow> nat set \<Rightarrow> nat set \<Rightarrow> packet \<Rightarrow> packet \<Rightarrow> bool" where
  "simulates h L L' p p' \<longleftrightarrow>
     (\<exists>D. (\<forall>a\<in>D. writes_flag h a \<noteq> None) \<and> p' = set_actions (filter (\<lambda>a. a \<notin> D) (actions p)) p)
     \<and> (\<forall>base s t s1. packet_effect base h p s = Inr s1 \<longrightarrow> agree (flag_regs_offsets - L) s t \<longrightarrow>
         (\<exists>t1. packet_effect base h p' t = Inr t1 \<and> agree (flag_regs_offsets - L') s1 t1))"

fun simulate_all :: "heap \<Rightarrow> packet list \<Rightarrow> packet list \<Rightarrow> bool" where
  "simulate_all h [] ps' \<longleftrightarrow> ps' = []"
| "simulate_all h (p # ps) ps' \<longleftrightarrow>
     (case ps' of [] \<Rightarrow> False
      | p' # ps1 \<Rightarrow> simulates h (live_before h (p # ps)) (live_before h ps) p p' \<and> simulate_all h ps ps1)"

lemma visit_packets_rev_correct:
  assumes wf: "wf_heap h" and "\<forall>p \<in> set ps. optimisable_packet h p" and "independent_packets h ps"
    and "seen_nodes st \<inter> chunk_deps h ps = {}" and "idle st" and al: "alive st = flag_regs_offsets"
    and g: "nodes g = nodes h"
    and "visit_packets_rev ps (g, st) = Inr (ps', h', st')"
  shows "nodes h' = nodes h \<and> idle st' \<and> seen_nodes st' \<subseteq> seen_nodes st \<union> chunk_deps h ps
    \<and> alive st' = live_before h ps \<and> simulate_all h ps ps'"
  using assms(2-5,8)
proof (induction ps arbitrary: ps' h' st')
  case Nil
  then show ?case using g al by auto
next
  case (Cons p ps)
  obtain ps1 h1 st1 p' where rev: "visit_packets_rev ps (g, st) = Inr (ps1, h1, st1)"
      and vp: "visit_packet p (h1, st1) = Inr (p', h', st')" and ps': "ps' = p' # ps1"
    using Cons.prems(5) by (auto split: sum.splits)
  have IH: "nodes h1 = nodes h" "idle st1" "seen_nodes st1 \<subseteq> seen_nodes st \<union> chunk_deps h ps"
      "alive st1 = live_before h ps" "simulate_all h ps ps1"
    using Cons.IH [OF _ _ _ Cons.prems(4) rev] Cons.prems by auto
  obtain S l where v: "visit_actions h (rev (actions p)) (seen_nodes st1) = (S, l)" by fastforce
  then have v1: "visit_actions h1 (rev (actions p)) (seen_nodes st1) = (S, l)"
    using visit_actions_cong [OF IH(1)] by simp
  note eff = visit_packet_effect [OF vp _ _ v1]
  have n': "nodes h' = nodes h" and idle': "idle st'" and S: "seen_nodes st' = S"
    and p': "p' = set_actions (filter (\<lambda>a. a \<notin> set (dead_writes h l (alive st1))) (actions p)) p"
    and al: "alive st' = (alive st1 - flags_written h l) \<union> flags_read h l"
    using eff IH(1,2) dead_writes_cong [OF IH(1)]
    by (auto simp: idle_def flags_written_def flags_read_def writes_flag_def reads_flag_def)
  have opt: "optimisable_packet h p" using Cons.prems by simp
  have fresh: "packet_deps h p \<inter> seen_nodes st1 = {}"
    using IH(3) Cons.prems(2,3) by (auto simp: chunk_deps_def)
  have "S \<subseteq> seen_nodes st1 \<union> packet_deps h p"
    using visit_actions_seen [OF wf opt v] .
  moreover have al': "alive st' = live_before h (p # ps)"
    using al IH(4) visited_nodes [OF wf opt v fresh] by simp
  moreover have "simulates h (live_before h (p # ps)) (live_before h ps) p p'"
    unfolding simulates_def p' al' [symmetric] IH(4) [symmetric] al
    using dead_writes_subset [of h l "alive st1"] packet_correct [OF wf opt v fresh]
    by (intro conjI exI [of _ "set (dead_writes h l (alive st1))"] refl) auto
  ultimately show ?case using n' idle' S IH(3,5) by (auto simp: ps')
qed

section \<open>The function of a chunk\<close>

lemma simulate_all_nth:
  "simulate_all h ps ps' \<Longrightarrow> length ps' = length ps
    \<and> (\<forall>k<length ps. simulates h (live_before h (drop k ps)) (live_before h (drop (Suc k) ps)) (ps ! k) (ps' ! k))"
proof (induction ps arbitrary: ps')
  case (Cons p ps)
  then obtain p' ps1 where ps': "ps' = p' # ps1" "simulates h (live_before h (p # ps)) (live_before h ps) p p'"
    "simulate_all h ps ps1" by (auto split: list.splits)
  with Cons.IH [OF ps'(3)] show ?case by (auto simp: nth_Cons split: nat.split)
qed simp

lemma simulatesD:
  assumes "simulates h L L' p p'"
  shows "packet_updates_pc h p' = packet_updates_pc h p" "call_target h p' = call_target h p"
    "address p' = address p" "set (actions p') \<subseteq> set (actions p)" "length (actions p') \<le> length (actions p)"
proof -
  obtain D where D: "\<forall>a\<in>D. writes_flag h a \<noteq> None" "p' = set_actions (filter (\<lambda>a. a \<notin> D) (actions p)) p"
    using assms by (auto simp: simulates_def)
  have "\<forall>a\<in>set (actions p). \<not> a \<notin> D \<longrightarrow> writes_flag h a \<noteq> None" using D(1) by blast
  note f = filter_flag_writes [OF this]
  show "packet_updates_pc h p' = packet_updates_pc h p" "call_target h p' = call_target h p"
    "address p' = address p" "set (actions p') \<subseteq> set (actions p)" "length (actions p') \<le> length (actions p)"
    unfolding D(2) by (auto simp: packet_updates_pc_def call_target_def f Let_def)
qed

lemma run_chunk_simulates:
  assumes ps: "\<forall>p\<in>set ps. \<forall>a\<in>set (actions p). no_jump h a" and all: "simulate_all h ps ps'"
    and live: "flags_live_at_transfers h ps"
  shows "run_chunk call base h ps fuel i s = Some (Inr r) \<Longrightarrow>
    agree (flag_regs_offsets - live_before h (drop i ps)) s t \<Longrightarrow> run_chunk call base h ps' fuel i t = Some (Inr r)"
proof (induction fuel arbitrary: i s t)
  case (Suc fuel)
  note n = simulate_all_nth [OF all]
  have eq: "agree (flag_regs_offsets - flag_regs_offsets) x y \<Longrightarrow> x = y" for x y using agree_empty by simp
  have blocks: "block_at ps' a = block_at ps a" for a
  proof -
    have "find (\<lambda>i. address (ps' ! i) = a) xs = find (\<lambda>i. address (ps ! i) = a) xs" if "set xs \<subseteq> {..<length ps}" for xs
      using that n simulatesD(3) by (induction xs) auto
    then show ?thesis using n by (auto simp: block_at_def lessThan_atLeast0)
  qed
  show ?case
  proof (cases "i < length ps")
    case False
    then show ?thesis using Suc.prems n eq by auto
  next
    case True
    let ?p = "ps ! i" and ?p' = "ps' ! i" and ?L = "live_before h (drop (Suc i) ps)"
    have sim: "simulates h (live_before h (drop i ps)) ?L ?p ?p'" using n True by blast
    note same = simulatesD [OF sim]
    have jumps: "\<forall>a\<in>set (actions ?p). no_jump h a" "\<forall>a\<in>set (actions ?p'). no_jump h a"
      using ps True same(4) by (meson nth_mem subsetD)+
    obtain s1 where s1: "run_packet_at fuel base h ?p s = Some (Inr s1)"
      using Suc.prems(1) True by (auto split: option.splits sum.splits)
    then have e: "length (actions ?p) < fuel" "packet_effect base h ?p s = Inr s1"
      using run_packet_at_no_jump [OF jumps(1)] by auto
    obtain t1 where t1: "packet_effect base h ?p' t = Inr t1" "agree (flag_regs_offsets - ?L) s1 t1"
      using sim e(2) Suc.prems(2) unfolding simulates_def by blast
    have t1': "run_packet_at fuel base h ?p' t = Some (Inr t1)"
      using run_packet_at_no_jump [OF jumps(2)] e(1) t1(1) same(5) by auto
    show ?thesis
    proof (cases "transfers_control h ?p")
      case False
      then have u: "packet_updates_pc h ?p = Br_none \<or> packet_updates_pc h ?p = Br_sys"
        by (auto simp: transfers_control_def)
      then have "run_chunk call base h ps fuel (Suc i) s1 = Some (Inr r)" using Suc.prems(1) True s1 by auto
      from Suc.IH [OF this t1(2)] show ?thesis using u True n t1' same(1) by auto
    next
      case tr: True
      then have "?L = flag_regs_offsets" using live True by (simp add: flags_live_at_transfers_def)
      then have "s1 = t1" using t1(2) by (intro eq) simp
      then have t1s: "t1 = s1" by (rule sym)
      have IH: "run_chunk call base h ps fuel j x = Some (Inr r) \<Longrightarrow> run_chunk call base h ps' fuel j x = Some (Inr r)" for j x
        using Suc.IH agree_refl by blast
      show ?thesis
        using Suc.prems(1) True tr s1 t1' same(1,2) n IH
        by (auto simp: t1s blocks transfers_control_def split: br_type.splits option.splits sum.splits)
    qed
  qed
qed simp

lemma straight_no_jump: "straight_action h a \<Longrightarrow> no_jump h a"
  by (auto simp: straight_action_def no_jump_def split: option.splits)

lemma visit_chunk_correct:
  assumes wf: "wf_heap h" and opt: "\<forall>p \<in> set (packets c). optimisable_packet h p"
    and "independent_packets h (packets c)"
    and "seen_nodes st \<inter> chunk_deps h (packets c) = {}" and "idle st"
    and g: "nodes g = nodes h" and "visit_chunk c (g, st) = Inr (c', h', st')"
  shows "nodes h' = nodes h \<and> idle st' \<and> seen_nodes st' \<subseteq> seen_nodes st \<union> chunk_deps h (packets c)
    \<and> (flags_live_at_transfers h (packets c) \<longrightarrow> (\<forall>call base fuel s r.
        execute_chunk call base fuel h c s = Some (Inr r) \<longrightarrow> execute_chunk call base fuel h c' s = Some (Inr r)))"
proof -
  let ?st = "st\<lparr>nr_flags := 0, nr_flags_opt := 0, last_se_packets := Map.empty, live_flags := {}\<rparr>"
  obtain ps st1 where r: "visit_packets_rev (packets c) (g, ?st) = Inr (ps, h', st1)"
      and c': "packets c' = ps" and st': "idle st' = idle st1" "seen_nodes st' = seen_nodes st1"
    using assms(7) by (auto simp: visit_chunk_def Let_def idle_def split: sum.splits)
  have "idle ?st" "seen_nodes ?st \<inter> chunk_deps h (packets c) = {}" "alive ?st = flag_regs_offsets"
    using assms(4,5) by (auto simp: idle_def alive_def)
  note * = visit_packets_rev_correct [OF wf assms(2,3) this(2,1,3) g r]
  then have all: "simulate_all h (packets c) ps" by simp
  note n = simulate_all_nth [OF all]
  have "map address ps = map address (packets c)"
    using n simulatesD(3) by (intro nth_equalityI) auto
  moreover have "ps = [] \<longleftrightarrow> packets c = []" using n by auto
  moreover have "\<forall>p\<in>set (packets c). \<forall>a\<in>set (actions p). no_jump h a"
    using opt straight_no_jump by (auto simp: optimisable_packet_def)
  ultimately have "execute_chunk call base fuel h c' s = Some (Inr r)"
    if "flags_live_at_transfers h (packets c)" "execute_chunk call base fuel h c s = Some (Inr r)" for call base fuel s r
    using run_chunk_simulates [OF _ all that(1), of call base fuel 0 s r s] that(2)
    unfolding execute_chunk_def c' by (auto split: if_splits)
  then have "flags_live_at_transfers h (packets c) \<longrightarrow> (\<forall>call base fuel s r.
      execute_chunk call base fuel h c s = Some (Inr r) \<longrightarrow> execute_chunk call base fuel h c' s = Some (Inr r))"
    by blast
  with * st' show ?thesis by simp
qed

lemma optimise_correct:
  assumes wf: "wf_heap h" and "\<forall>c \<in> set cs. \<forall>p \<in> set (packets c). optimisable_packet h p"
    and "independent_packets h (concat (map packets cs))"
    and "seen_nodes st \<inter> chunk_deps h (concat (map packets cs)) = {}" and "idle st"
    and "nodes g = nodes h" and "optimise cs (g, st) = Inr (cs', h', st')"
  shows "nodes h' = nodes h \<and> length cs' = length cs \<and> (\<forall>i call base fuel s r. i < length cs \<longrightarrow>
    flags_live_at_transfers h (packets (cs ! i)) \<longrightarrow>
    execute_chunk call base fuel h (cs ! i) s = Some (Inr r) \<longrightarrow> execute_chunk call base fuel h (cs' ! i) s = Some (Inr r))"
  using assms(2-)
proof (induction cs arbitrary: g st cs')
  case (Cons c cs)
  obtain c1 h1 st1 cs1 where v: "visit_chunk c (g, st) = Inr (c1, h1, st1)"
      and o: "optimise cs (h1, st1) = Inr (cs1, h', st')" and cs': "cs' = c1 # cs1"
    using Cons.prems(6) by (auto split: sum.splits)
  have pre: "\<forall>p \<in> set (packets c). optimisable_packet h p" "independent_packets h (packets c)"
      "seen_nodes st \<inter> chunk_deps h (packets c) = {}"
    using Cons.prems(1-3) by (auto simp: independent_append)
  have c: "nodes h1 = nodes h" "idle st1" "seen_nodes st1 \<subseteq> seen_nodes st \<union> chunk_deps h (packets c)"
      "\<And>call base fuel s r. flags_live_at_transfers h (packets c) \<Longrightarrow>
        execute_chunk call base fuel h c s = Some (Inr r) \<Longrightarrow> execute_chunk call base fuel h c1 s = Some (Inr r)"
    using visit_chunk_correct [OF wf pre Cons.prems(4,5) v] by simp_all
  have "seen_nodes st1 \<inter> chunk_deps h (concat (map packets cs)) = {}"
    using c(3) Cons.prems(2,3) by (auto simp: independent_append)
  note IH = Cons.IH [OF _ _ this c(2,1) o]
  have IH: "nodes h' = nodes h" "length cs1 = length cs" "\<And>i call base fuel s r. i < length cs \<Longrightarrow>
    flags_live_at_transfers h (packets (cs ! i)) \<Longrightarrow>
    execute_chunk call base fuel h (cs ! i) s = Some (Inr r) \<Longrightarrow> execute_chunk call base fuel h (cs1 ! i) s = Some (Inr r)"
    using IH Cons.prems(1,2) by (auto simp: independent_append)
  have "execute_chunk call base fuel h (cs' ! i) s = Some (Inr r)"
    if "i < length (c # cs)" "flags_live_at_transfers h (packets ((c # cs) ! i))"
      "execute_chunk call base fuel h ((c # cs) ! i) s = Some (Inr r)" for i call base fuel s r
    using that IH(3) c(4) by (cases i) (auto simp: cs')
  with IH cs' show ?case by simp
qed simp

text \<open>The heap of the optimised chunk has the same nodes.\<close>

lemma run_from_cong: "nodes h = nodes h' \<Longrightarrow> run_from fuel h addr as i r = run_from fuel h' addr as i r"
proof (induction fuel arbitrary: i r)
  case (Suc fuel)
  have e: "exec_action h addr a se = exec_action h' addr a se" for a se
    using Suc.prems lower_list_cong [OF Suc.prems] lower_action_cong [OF Suc.prems]
    by (simp add: exec_action_def split: option.split sum.split)
  have "run_step h addr as i r = run_step h' addr as i r"
    unfolding run_step_def e lower_list_cong [OF Suc.prems] Suc.prems by (rule refl)
  then show ?case using Suc.IH [OF Suc.prems] by (simp split: sum.split)
qed simp

lemma updates_pc_cong: "nodes h = nodes h' \<Longrightarrow> updates_pc_loop h m as = updates_pc_loop h' m as"
  by (induction as arbitrary: m) (simp_all add: action_updates_pc_def)

lemma last_call_cong: "nodes h = nodes h' \<Longrightarrow> last_call h t as = last_call h' t as"
  by (induction as arbitrary: t) simp_all

lemma execute_chunk_cong:
  assumes "nodes h = nodes h'"
  shows "execute_chunk call base fuel h c s = execute_chunk call base fuel h' c s"
proof -
  have "run_chunk call base h ps fuel i s = run_chunk call base h' ps fuel i s" for ps i s
    by (induction fuel arbitrary: i s)
       (simp_all add: run_packet_at_def run_from_cong [OF assms] packet_updates_pc_def updates_pc_cong [OF assms]
          call_target_def last_call_cong [OF assms] split: option.split sum.split br_type.split)
  then show ?thesis by (simp add: execute_chunk_def)
qed

end
