(* ===== verification/Dead_Flags_Theorems.thy ===== *)
theory Dead_Flags_Theorems
  imports Dead_Flags_Correct
begin

text \<open>
  What the dead-flags pass leaves in place: the shape of the optimised packets, the last
  write of every flag, and the counters.
\<close>

section \<open>Which writes stay\<close>

definition writes_of :: "heap \<Rightarrow> nat \<Rightarrow> packet list \<Rightarrow> node_id list" where
  "writes_of h f ps = filter (\<lambda>a. writes_flag h a = Some f) (concat (map actions ps))"

definition straight_packets :: "heap \<Rightarrow> packet list \<Rightarrow> bool" where
  "straight_packets h ps \<longleftrightarrow>
     (\<forall>p \<in> set ps. distinct (actions p) \<and> (\<forall>a \<in> set (actions p). straight_action h a))"

lemma writes_of_simps [simp]:
  "writes_of h f [] = []"
  "writes_of h f (p # ps) = filter (\<lambda>a. writes_flag h a = Some f) (actions p) @ writes_of h f ps"
  by (simp_all add: writes_of_def)

lemma straight_packets_Cons:
  "straight_packets h (p # ps) \<longleftrightarrow>
     distinct (actions p) \<and> (\<forall>a \<in> set (actions p). straight_action h a) \<and> straight_packets h ps"
  by (auto simp: straight_packets_def)

lemma in_dead_writes_conv:
  "distinct as \<Longrightarrow> f \<in> A \<Longrightarrow> filter (\<lambda>a. writes_flag h a = Some f) as \<noteq> [] \<Longrightarrow>
   hd (filter (\<lambda>a. writes_flag h a = Some f) as) \<notin> set (dead_writes h as A)"
proof (induction as arbitrary: A)
  case (Cons a as)
  let ?P = "\<lambda>a. writes_flag h a = Some f"
  show ?case
  proof (cases "?P a")
    case True
    with Cons.prems dead_writes_subset [of h as "A - {f}"] show ?thesis by auto
  next
    case False
    then have ne: "filter ?P as \<noteq> []" using Cons.prems by simp
    have "hd (filter ?P as) \<noteq> a"
      using Cons.prems(1) hd_in_set [OF ne] by auto
    with False Cons.prems ne Cons.IH show ?thesis
      by (auto split: option.splits)
  qed
qed simp

lemma last_write_kept_packet:
  assumes "distinct as" and "f \<in> A" and "filter (\<lambda>a. writes_flag h a = Some f) as \<noteq> []"
  shows "last (filter (\<lambda>a. writes_flag h a = Some f) as) \<notin> set (dead_writes h (rev as) A)"
  using in_dead_writes_conv [of "rev as" f A h] assms
  by (simp add: rev_filter [symmetric] hd_rev)

lemma visit_packets_rev_shape:
  assumes wf: "wf_heap h" and "straight_packets h ps" and "idle st" and g: "nodes g = nodes h"
    and "visit_packets_rev ps (g, st) = Inr (ps', h', st')"
  shows "nodes h' = nodes h \<and> idle st'
    \<and> list_all2 (\<lambda>p p'. \<exists>D. D \<subseteq> {a. writes_flag h a \<noteq> None}
          \<and> p' = set_actions (filter (\<lambda>a. a \<notin> D) (actions p)) p) ps ps'
    \<and> nr_flags st' = nr_flags st
        + of_nat (length (filter (\<lambda>a. writes_flag h a \<noteq> None) (concat (map actions ps))))
    \<and> nr_flags_opt st' = nr_flags_opt st
        + of_nat (length (concat (map actions ps)) - length (concat (map actions ps')))
    \<and> length (concat (map actions ps')) \<le> length (concat (map actions ps))
    \<and> (\<forall>f \<in> alive st. if writes_of h f ps = [] then f \<in> alive st'
         else last (writes_of h f ps) \<in> set (concat (map actions ps')))"
  using assms(2,3,5)
proof (induction ps arbitrary: ps' h' st')
  case Nil
  then show ?case using g by auto
next
  case (Cons p ps)
  obtain ps1 h1 st1 p' where rev: "visit_packets_rev ps (g, st) = Inr (ps1, h1, st1)"
      and vp: "visit_packet p (h1, st1) = Inr (p', h', st')" and ps': "ps' = p' # ps1"
    using Cons.prems(3) by (auto split: sum.splits)
  have st: "straight_packets h ps" and dist: "distinct (actions p)"
    and straight: "\<forall>a \<in> set (rev (actions p)). straight_action h a"
    using Cons.prems(1) by (simp_all add: straight_packets_Cons)
  note IH = Cons.IH [OF st Cons.prems(2) rev]
  obtain S l where v: "visit_actions h (rev (actions p)) (seen_nodes st1) = (S, l)" by fastforce
  have n1: "nodes h1 = nodes h" using IH by simp
  then have v1: "visit_actions h1 (rev (actions p)) (seen_nodes st1) = (S, l)"
    using v visit_actions_cong by metis
  note eff = visit_packet_effect [OF vp _ _ v1]
  have fw: "flag_writes h l = flag_writes h (rev (actions p))"
    using visit_actions_flag_writes [OF wf straight, of "seen_nodes st1"] v by simp
  let ?D = "set (dead_writes h (rev (actions p)) (alive st1))"
  have wf1: "writes_flag h1 = writes_flag h" using writes_flag_cong [OF n1] by blast
  have dw: "dead_writes h1 l A = dead_writes h (rev (actions p)) A" for A
    using fw dead_writes_flag_writes dead_writes_cong [OF n1] by metis
  have wr: "flags_written h1 l = flags_written h (actions p)"
    using fw flags_written_flag_writes flags_written_rev wf1 by (metis flags_written_def)
  have p': "p' = set_actions (filter (\<lambda>a. a \<notin> ?D) (actions p)) p"
    and al: "alive st' = (alive st1 - flags_written h (actions p)) \<union> flags_read h1 l"
    and nf: "nr_flags st' = nr_flags st1 + of_nat (length (flag_writes h (actions p)))"
    and no: "nr_flags_opt st' = nr_flags_opt st1
        + of_nat (length (dead_writes h (rev (actions p)) (alive st1)))"
    and n': "nodes h' = nodes h" and id': "idle st'"
    using eff IH fw by (auto simp: idle_def dw wr wf1 rev_filter [symmetric])
  have dsub: "?D \<subseteq> {a \<in> set (actions p). writes_flag h a \<noteq> None}"
    using dead_writes_subset [of h "rev (actions p)"] by auto
  have "distinct (dead_writes h (rev (actions p)) (alive st1))"
    using dist distinct_rev [of "actions p"] distinct_dead_writes by metis
  then have "length (dead_writes h (rev (actions p)) (alive st1)) = card ?D"
    by (simp add: distinct_card)
  also have "card ?D = length (filter (\<lambda>a. a \<in> ?D) (actions p))"
  proof -
    have "set (filter (\<lambda>a. a \<in> ?D) (actions p)) = ?D" using dsub by auto
    then show ?thesis using dist distinct_card distinct_filter by metis
  qed
  finally have len: "length (dead_writes h (rev (actions p)) (alive st1)) + length (actions p')
      = length (actions p)"
    using sum_length_filter_compl [of "\<lambda>a. a \<in> ?D" "actions p"] p' by simp
  have lens: "length (concat (map actions (p # ps))) - length (concat (map actions ps'))
      = (length (concat (map actions ps)) - length (concat (map actions ps1)))
        + length (dead_writes h (rev (actions p)) (alive st1))"
    using len IH ps' by simp
  have keep: "if writes_of h f (p # ps) = [] then f \<in> alive st'
        else last (writes_of h f (p # ps)) \<in> set (concat (map actions ps'))"
    if f: "f \<in> alive st" for f
  proof (cases "writes_of h f ps = []")
    case True
    with IH f have f1: "f \<in> alive st1" by auto
    show ?thesis
    proof (cases "filter (\<lambda>a. writes_flag h a = Some f) (actions p) = []")
      case e: True
      then have "f \<notin> flags_written h (actions p)"
        by (auto simp: flags_written_def filter_empty_conv)
      with True e f1 al show ?thesis by simp
    next
      case ne: False
      have "last (filter (\<lambda>a. writes_flag h a = Some f) (actions p)) \<in> set (actions p)"
        using last_in_set [OF ne] by simp
      with True ne last_write_kept_packet [OF dist f1 ne] p' ps' show ?thesis by simp
    qed
  next
    case False
    with IH f ps' show ?thesis by auto
  qed
  have shape: "\<exists>D. D \<subseteq> {a. writes_flag h a \<noteq> None}
      \<and> p' = set_actions (filter (\<lambda>a. a \<notin> D) (actions p)) p"
    using p' dsub by blast
  have counts: "nr_flags st' = nr_flags st
        + of_nat (length (filter (\<lambda>a. writes_flag h a \<noteq> None) (concat (map actions (p # ps)))))"
    "nr_flags_opt st' = nr_flags_opt st
        + of_nat (length (concat (map actions (p # ps))) - length (concat (map actions ps')))"
    unfolding lens using nf no IH by simp_all
  have shorter: "length (concat (map actions ps')) \<le> length (concat (map actions (p # ps)))"
    using IH ps' len by simp
  show ?case
    using n' id' counts shorter ballI [OF keep] IH shape unfolding ps'
    by (intro conjI list.rel_intros) (simp_all only:)
qed

text \<open>The totals only change at the end of a chunk.\<close>

lemma visit_packet_totals:
  assumes "visit_packet p (h, st) = Inr (p', h', st')"
  shows "nr_flags_total st' = nr_flags_total st \<and> nr_flags_opt_total st' = nr_flags_opt_total st"
proof -
  have one: "nr_flags_total (visit_one h n st) = nr_flags_total st
      \<and> nr_flags_opt_total (visit_one h n st) = nr_flags_opt_total st" for n st
    by (auto simp: visit_one_def visit_read_reg_node_def visit_write_reg_node_def Let_def
        split: option.split node_data.split)
  have "nr_flags_total (fold (visit_one h) l st) = nr_flags_total st
      \<and> nr_flags_opt_total (fold (visit_one h) l st) = nr_flags_opt_total st" for l st
    by (induction l arbitrary: st) (simp_all add: one)
  then show ?thesis using assms
    by (auto simp: visit_packet_def sweep_packet_def merge_live_def Let_def
        split: if_splits sum.splits prod.splits)
qed

lemma visit_packets_rev_totals:
  "visit_packets_rev ps (h, st) = Inr (ps', h', st') \<Longrightarrow>
   nr_flags_total st' = nr_flags_total st \<and> nr_flags_opt_total st' = nr_flags_opt_total st"
  by (induction ps arbitrary: ps' h' st') (auto split: sum.splits dest!: visit_packet_totals)

end
