(* ===== verification/Sample_Inputs.thy ===== *)
theory Sample_Inputs
  imports X86_Input_Arch
begin

text \<open>
  Concrete decoder answers for the examples: general purpose and vector registers, a few
  instruction shapes, and the result of translating a list of instructions as one chunk.
\<close>

definition gpr :: "nat \<Rightarrow> nat \<Rightarrow> xreg" where
  "gpr n w = \<lparr>x_class = RC_gpr, x_bits = w, x_gpr = n, x_zmm = 0, x_encl_bits = 64, x_st = 0,
              x_low8 = True, x_sel = R_plain\<rparr>"

definition xmm :: "nat \<Rightarrow> xreg" where
  "xmm n = \<lparr>x_class = RC_xmm, x_bits = 128, x_gpr = 0, x_zmm = n, x_encl_bits = 512, x_st = 0,
            x_low8 = False, x_sel = R_plain\<rparr>"

definition no_mem :: xmem where
  "no_mem = \<lparr>xm_base = None, xm_index = None, xm_scale = 0, xm_disp = 0, xm_seg = None, xm_len = 0\<rparr>"

definition mem_at :: "nat \<Rightarrow> 64 word \<Rightarrow> nat \<Rightarrow> xmem" where
  "mem_at r d len = \<lparr>xm_base = Some (gpr r 64), xm_index = None, xm_scale = 0, xm_disp = d,
                     xm_seg = None, xm_len = len\<rparr>"

definition instr :: "string \<Rightarrow> xed_inst" where
  "instr ic = \<lparr>iclass = ic, op_names = [], op_reg = (\<lambda>_. gpr 0 64), imm_signed = False, imm_bits = 0,
               imm_s = 0, imm_u = 0, x_mem = (\<lambda>_. no_mem), branch_disp = 0, inst_len = 3,
               classify_sse = False, masked_vector = False\<rparr>"

definition reg_reg :: "string \<Rightarrow> xreg \<Rightarrow> xreg \<Rightarrow> xed_inst" where
  "reg_reg ic r1 r2 = (instr ic)\<lparr>op_names := [Op_REG0, Op_REG1],
     op_reg := (\<lambda>x. if x = Op_REG0 then r1 else r2)\<rparr>"

definition relbr :: "string \<Rightarrow> 64 word \<Rightarrow> xed_inst" where
  "relbr ic d = (instr ic)\<lparr>op_names := [Op_RELBR], branch_disp := d, inst_len := 2\<rparr>"

definition reg_imm8 :: "string \<Rightarrow> xreg \<Rightarrow> 64 word \<Rightarrow> xed_inst" where
  "reg_imm8 ic r i = (instr ic)\<lparr>op_names := [Op_REG0, Op_IMM0], op_reg := (\<lambda>_. r),
     imm_bits := 8, imm_u := i\<rparr>"

text \<open>A decoder for a list of three-byte instructions.\<close>

definition decode_list :: "xed_inst list \<Rightarrow> decoder" where
  "decode_list xs off = (if off div 3 < length xs then Some ((xs ! (off div 3))\<lparr>inst_len := 3\<rparr>) else None)"

definition translated :: "xed_inst list \<Rightarrow> builder res" where
  "translated xs =
     map_sum id snd (translate_chunk (decode_list xs) (\<lambda>_ _. []) False 0x1000 (3 * length xs) True
       ''sample'' (initial_builder False))"

definition chunk_of :: "builder \<Rightarrow> chunk" where
  "chunk_of b = (case current_chunk b of None \<Rightarrow> \<lparr>c_name = [], packets = []\<rparr> | Some c \<Rightarrow> c)"

end
