(* ===== verification/Opt_Properties.thy ===== *)
theory Opt_Properties
  imports Dead_Flags_Theorems Sample_Inputs X86_Chunks
begin

text \<open>
  The properties of the dead-flags pass, with the translation of \<open>add rax, rbx; sub rax, rcx\<close>
  as their example.
\<close>

section \<open>The example\<close>

lemma translated_wf: "translated xs = Inr b \<Longrightarrow> wf_heap (b_heap b)"
proof -
  assume "translated xs = Inr b"
  then obtain x where "translate_chunk (decode_list xs) (\<lambda>_ _. []) False 0x1000 (3 * length xs) True
      ''sample'' (initial_builder False) = Inr (x, b)"
    by (cases "translate_chunk (decode_list xs) (\<lambda>_ _. []) False 0x1000 (3 * length xs) True
      ''sample'' (initial_builder False)") (auto simp: translated_def)
  moreover have "\<not> chunk_complete (initial_builder False)" by (simp add: initial_builder_def)
  ultimately show ?thesis
    using holdsD [OF translate_chunk_holds [OF wf_initial_builder]] unfolding wf_builder_def by blast
qed

definition add_sub :: "xed_inst list" where
  "add_sub = [reg_reg ''ADD'' (gpr 0 64) (gpr 3 64), reg_reg ''SUB'' (gpr 0 64) (gpr 1 64)]"

definition passes_on :: "(builder \<Rightarrow> bool) \<Rightarrow> xed_inst list \<Rightarrow> bool" where
  "passes_on P xs \<longleftrightarrow> (case translated xs of Inl _ \<Rightarrow> False | Inr b \<Rightarrow> P b)"

definition optimised_actions :: "builder \<Rightarrow> node_id list list" where
  "optimised_actions b =
     (case optimise [chunk_of b] (b_heap b, initial_deadflags) of
        Inl _ \<Rightarrow> [] | Inr (cs, _) \<Rightarrow> map actions (concat (map packets cs)))"

definition sample_state :: mstate where
  "sample_state = \<lparr>m_regs = (\<lambda>off. if off = off_RAX then 2 ^ 64 - 5 else if off = off_RBX then 7 else 1),
                   m_mem = (\<lambda>_. 0), m_locals = Map.empty\<rparr>"

definition runs :: "builder \<Rightarrow> mstate \<Rightarrow> nat list \<Rightarrow> nat list \<Rightarrow> bool" where
  "runs b s offs vs \<longleftrightarrow>
     (case exec_packets (b_heap b) (packets (chunk_of b)) s of
        Inl _ \<Rightarrow> False | Inr s' \<Rightarrow> map (m_regs s') offs = vs)"

lemma passes_onE:
  assumes "passes_on P xs"
  obtains b where "translated xs = Inr b" and "wf_heap (b_heap b)" and "P b"
  using assms translated_wf by (auto simp: passes_on_def split: sum.splits)

definition demo_add_sub :: "builder \<Rightarrow> bool" where
  "demo_add_sub b \<longleftrightarrow>
     list_all (optimisable_packet (b_heap b)) (packets (chunk_of b))
     \<and> independent_packets (b_heap b) (packets (chunk_of b))
     \<and> map actions (packets (chunk_of b)) = [[3, 4, 5, 6, 7], [11, 12, 13, 14, 15], [17]]
     \<and> optimised_actions b = [[3], [11, 12, 13, 14, 15], [17]]
     \<and> writes_of (b_heap b) off_ZF (packets (chunk_of b)) = [4, 12]
     \<and> runs b sample_state [off_RAX, off_ZF, off_CF, off_PC] [1, 0, 0, 0x1006]"

lemma add_sub_example:
  "passes_on demo_add_sub add_sub"
  by code_simp

section \<open>Properties\<close>


definition leaves_rax :: "builder \<Rightarrow> mstate \<Rightarrow> nat \<Rightarrow> bool" where
  "leaves_rax b s x \<longleftrightarrow>
     (case execute_chunk (\<lambda>_. Inr) 0 20 (b_heap b) (chunk_of b) s of
        Some (Inr (To_dispatcher s')) \<Rightarrow> m_regs s' off_RAX = x | _ \<Rightarrow> False)"

lemma add_sub_runs: "passes_on (\<lambda>b. demo_add_sub b \<and> leaves_rax b sample_state 1
    \<and> (\<forall>k\<in>{0, 1}. \<not> transfers_control (b_heap b) (packets (chunk_of b) ! k))) add_sub"
  by code_simp


lemma visit_chunk_shape:
  assumes "wf_heap h" and "straight_packets h (packets c)" and "idle st"
    and "visit_chunk c (h, st) = Inr (c', h', st')"
  obtains st0 st1 where "idle st0" and "alive st0 = flag_regs_offsets"
    and "nr_flags st0 = 0" and "nr_flags_opt st0 = 0"
    and "nr_flags_total st0 = nr_flags_total st" and "nr_flags_opt_total st0 = nr_flags_opt_total st"
    and "visit_packets_rev (packets c) (h, st0) = Inr (packets c', h', st1)"
    and "st' = st1\<lparr>nr_flags_total := nr_flags_total st1 + nr_flags st1,
                   nr_flags_opt_total := nr_flags_opt_total st1 + nr_flags_opt st1\<rparr>"
proof
  let ?st = "st\<lparr>nr_flags := 0, nr_flags_opt := 0, last_se_packets := Map.empty, live_flags := {}\<rparr>"
  let ?st1 = "snd (snd (projr (visit_packets_rev (packets c) (h, ?st))))"
  show "idle ?st" "alive ?st = flag_regs_offsets" "nr_flags ?st = 0" "nr_flags_opt ?st = 0"
    "nr_flags_total ?st = nr_flags_total st" "nr_flags_opt_total ?st = nr_flags_opt_total st"
    using assms(3) by (simp_all add: idle_def alive_def)
  show "visit_packets_rev (packets c) (h, ?st) = Inr (packets c', h', ?st1)"
    "st' = ?st1\<lparr>nr_flags_total := nr_flags_total ?st1 + nr_flags ?st1,
                   nr_flags_opt_total := nr_flags_opt_total ?st1 + nr_flags_opt ?st1\<rparr>"
    using assms(4) by (auto simp: visit_chunk_def Let_def split: sum.splits)
qed


lemma add_sub_straight:
  "demo_add_sub b \<Longrightarrow> straight_packets (b_heap b) (packets (chunk_of b))"
  by (auto simp: demo_add_sub_def straight_packets_def list_all_iff optimisable_packet_def)

lemma idle_initial: "idle initial_deadflags"
  by (simp add: idle_def initial_deadflags_def)

lemma add_sub_visit:
  assumes "demo_add_sub b"
  obtains c' h' st' where "visit_chunk (chunk_of b) (b_heap b, initial_deadflags) = Inr (c', h', st')"
    and "map actions (packets c') = [[3], [11, 12, 13, 14, 15], [17]]"
  using assms by (auto simp: demo_add_sub_def optimised_actions_def split: sum.splits)




section \<open>Where the pass is not sound\<close>

text \<open>
  \<open>xadd rax, rbx\<close> reads both registers before it writes them because its flag writes come
  first.  When a later instruction makes these dead and the pass removes them, the sum is
  computed after \<open>rbx\<close> has been overwritten.
\<close>

definition xadd_sub :: "xed_inst list" where
  "xadd_sub = [reg_reg ''XADD'' (gpr 0 64) (gpr 3 64), reg_reg ''SUB'' (gpr 1 64) (gpr 2 64)]"

definition optimised_rax :: "builder \<Rightarrow> nat option" where
  "optimised_rax b =
     (case optimise [chunk_of b] (b_heap b, initial_deadflags) of
        Inl _ \<Rightarrow> None
      | Inr (cs, h, _) \<Rightarrow>
          (case exec_packets h (concat (map packets cs)) sample_state of
             Inl _ \<Rightarrow> None | Inr s \<Rightarrow> Some (m_regs s off_RAX)))"

text \<open>On \<open>xadd rax, rbx; sub rcx, rdx\<close> with rax = -5 and rbx = 7 the translated code leaves 2 in rax, the
  optimised code leaves -10.\<close>

lemma dead_flags_breaks_xadd:
  "passes_on (\<lambda>b. runs b sample_state [off_RAX] [2] \<and> optimised_rax b = Some (2 ^ 64 - 10)) xadd_sub"
  by code_simp

end
