(* ===== verification/Front_Properties.thy ===== *)
theory Front_Properties
  imports X86_Chunks Opt_Properties
begin

text \<open>
  The properties of the x86 front end: the IR graph it builds is well formed, a chunk has
  one packet per instruction at the instruction's address, and basic blocks end at the
  first instruction that updates the PC.
\<close>

section \<open>The chunk that is built\<close>

lemma translate_chunk_result:
  assumes "translate_chunk decode dis dbg base sz bb nm (initial_builder g) = Inr ((), b)"
  obtains qs addr' r rest where "wf_builder b" and "chunk_complete b" and "current_pkt b = None"
    and "loop_trace decode bb sz (b_heap b) 0 base qs None addr' (Some r)"
    and "current_chunk b = Some \<lparr>c_name = nm, packets = qs @ rest\<rparr>"
    and "if r = TRes_normal then \<exists>p. rest = [p] \<and> address p = 0 \<and> continues_at (b_heap b) p addr'
         else rest = []"
proof -
  have "\<not> chunk_complete (initial_builder g)" by (simp add: initial_builder_def)
  from holdsD [OF translate_chunk_holds [OF wf_initial_builder this] assms]
  obtain qs addr' r where *: "wf_builder b" "chunk_complete b" "current_pkt b = None"
    "loop_trace decode bb sz (b_heap b) 0 base qs None addr' (Some r)"
    "if r = TRes_normal
     then \<exists>p. address p = 0 \<and> continues_at (b_heap b) p addr'
            \<and> current_chunk b = Some \<lparr>c_name = nm, packets = qs @ [p]\<rparr>
     else current_chunk b = Some \<lparr>c_name = nm, packets = qs\<rparr>"
    by blast
  show ?thesis
  proof (cases "r = TRes_normal")
    case True
    with *(5) obtain p where "address p = 0" "continues_at (b_heap b) p addr'"
      "current_chunk b = Some \<lparr>c_name = nm, packets = qs @ [p]\<rparr>" by auto
    with * True that [of qs addr' r "[p]"] show ?thesis by simp
  next
    case False
    with * that [of qs addr' r "[]"] show ?thesis by simp
  qed
qed

lemma translated_add_sub:
  obtains b where "translate_chunk (decode_list add_sub) (\<lambda>_ _. []) False 0x1000 6 True ''sample''
      (initial_builder False) = Inr ((), b)" and "translated add_sub = Inr b" and "demo_add_sub b"
proof -
  obtain b where b: "translated add_sub = Inr b" "demo_add_sub b"
    using add_sub_example by (rule passes_onE)
  have "length add_sub = 2" by (simp add: add_sub_def)
  with b that show ?thesis
    by (cases "translate_chunk (decode_list add_sub) (\<lambda>_ _. []) False 0x1000 6 True ''sample''
      (initial_builder False)") (auto simp: translated_def)
qed

text \<open>C6: whatever the decoder answers, a chunk that is translated without an exception is a
  well-formed IR graph: operands exist, are older than their users and have the types the
  constructors demand, jumps go to labels, packets hold distinct action nodes in the order
  of their creation.\<close>

theorem translate_chunk_well_formed:
  assumes "translate_chunk decode dis dbg base sz bb nm (initial_builder g) = Inr ((), b)"
  shows "wf_heap (b_heap b) \<and> (\<exists>c. get_chunk b = Inr (c, b) \<and> c_name c = nm
     \<and> (\<forall>p \<in> set (packets c). actions_ok (b_heap b) p))"
proof -
  obtain qs rest where b: "wf_builder b" "chunk_complete b"
      "current_chunk b = Some \<lparr>c_name = nm, packets = qs @ rest\<rparr>"
    using assms by (rule translate_chunk_result)
  then have "get_chunk b = Inr (\<lparr>c_name = nm, packets = qs @ rest\<rparr>, b)" by (simp add: get_chunk_def)
  with b show ?thesis by (auto simp: wf_builder_def builder_packets_def)
qed

theorem translate_chunk_well_formed_witness:
  "\<exists>b c. translated add_sub = Inr b \<and> wf_heap (b_heap b) \<and> get_chunk b = Inr (c, b)
     \<and> map actions (packets c) = [[3, 4, 5, 6, 7], [11, 12, 13, 14, 15], [17]]"
proof -
  obtain b where b: "translate_chunk (decode_list add_sub) (\<lambda>_ _. []) False 0x1000 6 True ''sample''
      (initial_builder False) = Inr ((), b)" "translated add_sub = Inr b" "demo_add_sub b"
    by (rule translated_add_sub)
  from translate_chunk_well_formed [OF b(1)] obtain c where c: "wf_heap (b_heap b)" "get_chunk b = Inr (c, b)"
    by blast
  then have "chunk_of b = c" by (auto simp: get_chunk_def chunk_of_def split: option.splits if_splits)
  with b(3) have "map actions (packets c) = [[3, 4, 5, 6, 7], [11, 12, 13, 14, 15], [17]]"
    by (simp add: demo_add_sub_def)
  with b(2) c show ?thesis by - (intro exI conjI, assumption+)
qed

text \<open>C15: the packets of a chunk are those of the instructions that lie one after the other
  from the base address; after an ordinary last instruction one more packet writes the
  address behind it to the PC.\<close>

theorem translate_chunk_structure:
  assumes "translate_chunk decode dis dbg base sz bb nm (initial_builder g) = Inr ((), b)"
  shows "\<exists>qs rest addr' r. current_chunk b = Some \<lparr>c_name = nm, packets = qs @ rest\<rparr>
     \<and> loop_trace decode bb sz (b_heap b) 0 base qs None addr' (Some r)
     \<and> (if r = TRes_normal then \<exists>p. rest = [p] \<and> address p = 0 \<and> continues_at (b_heap b) p addr'
        else rest = [])"
  using translate_chunk_result [OF assms] by metis

theorem translate_chunk_structure_witness:
  "\<exists>b qs p addr'. translated add_sub = Inr b \<and> packets (chunk_of b) = qs @ [p]
     \<and> map address qs = [0x1000, 0x1003] \<and> continues_at (b_heap b) p 0x1006"
proof -
  obtain b where b: "translate_chunk (decode_list add_sub) (\<lambda>_ _. []) False 0x1000 6 True ''sample''
      (initial_builder False) = Inr ((), b)" "translated add_sub = Inr b" "demo_add_sub b"
    by (rule translated_add_sub)
  from translate_chunk_structure [OF b(1)] obtain qs rest addr' r where
    c: "current_chunk b = Some \<lparr>c_name = ''sample'', packets = qs @ rest\<rparr>"
      "loop_trace (decode_list add_sub) True 6 (b_heap b) 0 0x1000 qs None addr' (Some r)"
      "if r = TRes_normal then \<exists>p. rest = [p] \<and> address p = 0 \<and> continues_at (b_heap b) p addr' else rest = []"
    by blast
  have l: "length (packets (chunk_of b)) = 3"
    using b(3) arg_cong [of _ _ length] by (fastforce simp: demo_add_sub_def)
  then have "length qs + length rest = 3" using c(1) by (simp add: chunk_of_def)
  moreover have "length qs \<le> 2 \<and> (length qs = 2 \<longrightarrow> map address qs = [0x1000, 0x1003]
      \<and> (addr' = 0x1006 \<or> r \<noteq> TRes_normal))"
    using c(2) by (cases qs; cases "tl qs"; cases "tl (tl qs)")
      (auto simp: decode_list_def add_sub_def reg_reg_def instr_def split: if_splits)
  moreover have "length rest \<le> 1" using c(3) by (auto split: if_splits)
  ultimately have "length qs = 2" "length rest = 1" "map address qs = [0x1000, 0x1003]"
      "addr' = 0x1006 \<or> r \<noteq> TRes_normal"
    by auto
  with c b(2) show ?thesis by (fastforce simp: chunk_of_def split: if_splits)
qed

end
