(* ===== verification/IR_Semantics.thy ===== *)
theory IR_Semantics
  imports Dead_Flags_Correct X86_Translator_Safe
begin

text \<open>
  A calculus for what a program over the IR builder produces.  \<open>dn b p t w f R\<close>: in the heap
  of \<open>b\<close> the port \<open>p\<close> has IR type \<open>t\<close> and evaluates, in every machine state, to the
  integer of LLVM width \<open>w\<close> that \<open>f\<close> gives; its evaluation reads at most the registers,
  memory and locals named by \<open>R\<close>.  \<open>inpkt b a A\<close>: a packet at address \<open>a\<close> is in progress and
  its actions have the meanings \<open>A\<close>.  \<open>does m Q b\<close> is total: \<open>m\<close> returns, keeps the builder's
  invariant, only extends the heap, and its result satisfies \<open>Q\<close>.
\<close>

section \<open>Evaluation does not change when the heap grows\<close>

lemma node_ext_kind: "node_ext n n' \<Longrightarrow> kind (n_data n') = kind (n_data n)"
  and node_ext_operands: "node_ext n n' \<Longrightarrow> operands (n_data n') = operands (n_data n)"
  and node_ext_data: "node_ext n n' \<Longrightarrow> kind (n_data n) \<notin> {K_label, K_br, K_cond_br} \<Longrightarrow> n_data n' = n_data n"
  and node_ext_vt: "node_ext n n' \<Longrightarrow> n_vt n' = n_vt n"
  unfolding node_ext_def by metis+

lemma node_ext_same:
  "node_ext n n' \<Longrightarrow> kind (n_data n) \<notin> {K_label, K_br, K_cond_br} \<Longrightarrow> n' = n"
  using node_ext_data [of n n'] node_ext_vt [of n n'] by (cases n, cases n') simp

lemma materialise_jump:
  "kind (n_data n) \<in> {K_label, K_br, K_cond_br} \<Longrightarrow>
     materialise_value n addr s xs = Inl (Runtime_error ''materialize_port: unsupported port node kind'')"
  "kind (n_data n) \<in> {K_label, K_br, K_cond_br} \<Longrightarrow>
     materialise_flag n k xs y = Inl (Not_modelled ''flags of an atomic node'')"
  by (cases "n_data n"; simp add: materialise_value_def materialise_flag_def)+

lemma materialise_ext:
  assumes "node_ext n n'"
  shows "materialise_value n' addr s xs = materialise_value n addr s xs"
    "materialise_flag n' k xs y = materialise_flag n k xs y"
proof -
  have k: "kind (n_data n') = kind (n_data n)" using assms by (rule node_ext_kind)
  show "materialise_value n' addr s xs = materialise_value n addr s xs"
  proof (cases "kind (n_data n) \<in> {K_label, K_br, K_cond_br}")
    case True
    then show ?thesis using materialise_jump(1) [of n] materialise_jump(1) [of n'] by (simp only: k)
  next
    case False
    then show ?thesis using node_ext_same [OF assms] by metis
  qed
  show "materialise_flag n' k xs y = materialise_flag n k xs y"
  proof (cases "kind (n_data n) \<in> {K_label, K_br, K_cond_br}")
    case True
    then show ?thesis using materialise_jump(2) [of n] materialise_jump(2) [of n'] by (simp only: k)
  next
    case False
    then show ?thesis using node_ext_same [OF assms] by metis
  qed
qed

lemma needs_ext:
  assumes "node_ext n n'"
  shows "needs_operands (n_data n') k = needs_operands (n_data n) k"
    "needs_value (n_data n') k = needs_value (n_data n) k"
  by (simp_all only: needs_operands_def needs_value_def node_ext_kind [OF assms])

lemma eval_port_ext:
    "wf_heap h \<Longrightarrow> heap_ext h h' \<Longrightarrow> nodes h (powner p) \<noteq> None \<Longrightarrow>
     eval_port h' addr s p = eval_port h addr s p"
  and eval_list_ext:
    "wf_heap h \<Longrightarrow> heap_ext h h' \<Longrightarrow> \<forall>p \<in> set ps. nodes h (powner p) \<noteq> None \<Longrightarrow>
     eval_list h' addr s n ps = eval_list h addr s n ps"
proof (induction h addr s p and h addr s n ps rule: eval_port_eval_list.induct)
  case (1 h addr s p)
  then obtain n where n: "nodes h (powner p) = Some n" by auto
  with 1(4) obtain n' where n': "nodes h' (powner p) = Some n'" "node_ext n n'"
    by (auto simp: heap_ext_def)
  have ops: "\<forall>q \<in> set (operands (n_data n)). nodes h (powner q) \<noteq> None"
    using wf_heap_operand [OF 1(3) n] by blast
  have l: "needs_operands (n_data n) (pkind p) \<Longrightarrow>
      eval_list h' addr s (powner p) (operands (n_data n)) = eval_list h addr s (powner p) (operands (n_data n))"
    using 1(1) [OF n _ 1(3,4) ops] by simp
  have vv: "\<not> pkind p = P_value \<Longrightarrow> needs_value (n_data n) (pkind p) \<Longrightarrow>
      (if needs_operands (n_data n) (pkind p)
       then eval_list h addr s (powner p) (operands (n_data n)) else Inr []) = Inr xs \<Longrightarrow>
      eval_port h' addr s (val (powner p)) = eval_port h addr s (val (powner p))" for xs
    using 1(2) [OF n _ _ _ 1(3,4)] n by simp
  show ?case
    using n n' l vv
    by (auto simp: eval_port.simps [of _ addr s p] needs_ext [OF n'(2)] materialise_ext [OF n'(2)]
        node_ext_operands [OF n'(2)] split: sum.split)
next
  case (3 h addr s n p ps)
  then show ?case by (cases "powner p < n") (simp_all add: eval_list.simps split: sum.split)
qed (simp add: eval_list.simps)

lemma demands_ext:
    "wf_heap h \<Longrightarrow> heap_ext h h' \<Longrightarrow> nodes h (powner p) \<noteq> None \<Longrightarrow> demands h' p = demands h p"
  and demands_list_ext:
    "wf_heap h \<Longrightarrow> heap_ext h h' \<Longrightarrow> \<forall>p \<in> set ps. nodes h (powner p) \<noteq> None \<Longrightarrow>
     demands_list h' n ps = demands_list h n ps"
proof (induction h p and h n ps rule: demands_demands_list.induct)
  case (1 h p)
  then obtain n where n: "nodes h (powner p) = Some n" by auto
  with 1(4) obtain n' where n': "nodes h' (powner p) = Some n'" "node_ext n n'"
    by (auto simp: heap_ext_def)
  have ops: "\<forall>q \<in> set (operands (n_data n)). nodes h (powner q) \<noteq> None"
    using wf_heap_operand [OF 1(3) n] by blast
  have l: "needs_operands (n_data n) (pkind p) \<Longrightarrow>
      demands_list h' (powner p) (operands (n_data n)) = demands_list h (powner p) (operands (n_data n))"
    using 1(1) [OF n _ 1(3,4) ops] by simp
  have vv: "needs_value (n_data n) (pkind p) \<and> pkind p \<noteq> P_value \<Longrightarrow>
      demands h' (val (powner p)) = demands h (val (powner p))"
    using 1(2) [OF n _ 1(3,4)] n by simp
  show ?case using n n'(1) l vv
    by (simp add: demands.simps [of _ p] needs_ext [OF n'(2)] node_ext_operands [OF n'(2)])
next
  case (3 h n p ps)
  then show ?case by (cases "powner p < n") (simp_all add: demands_list.simps)
qed (simp add: demands_list.simps)

section \<open>What a port reads\<close>

datatype place = L_reg nat | L_mem | L_local nat

fun reads :: "node_data \<Rightarrow> place set" where
  "reads (Read_reg off _ _) = {L_reg off}"
| "reads (Read_mem _) = {L_mem}"
| "reads (Read_local lv) = {L_local (lv_id lv)}"
| "reads _ = {}"

definition reads_of :: "heap \<Rightarrow> port \<Rightarrow> place set" where
  "reads_of h p = {l. \<exists>q \<in> set (demands h p). pkind q = P_value
      \<and> (\<exists>nd. nodes h (powner q) = Some nd \<and> l \<in> reads (n_data nd))}"

lemma reads_jump: "kind d \<in> {K_label, K_br, K_cond_br} \<Longrightarrow> reads d = {}"
  by (cases d) simp_all

lemma demands_nodes:
    "wf_heap h \<Longrightarrow> q \<in> set (demands h p) \<Longrightarrow> nodes h (powner q) \<noteq> None"
  using demands_reach [of h q p]
  by (metis option.distinct(1) reach.cases)

lemma reads_node_ext:
  assumes "wf_heap h" and "heap_ext h h'" and q: "q \<in> set (demands h p)"
  shows "(\<exists>nd. nodes h' (powner q) = Some nd \<and> x \<in> reads (n_data nd))
      \<longleftrightarrow> (\<exists>nd. nodes h (powner q) = Some nd \<and> x \<in> reads (n_data nd))"
proof -
  obtain n where n: "nodes h (powner q) = Some n" using demands_nodes [OF assms(1) q] by auto
  with assms(2) obtain n' where n': "nodes h' (powner q) = Some n'" "node_ext n n'"
    unfolding heap_ext_def by blast
  have "reads (n_data n') = reads (n_data n)"
  proof (cases "kind (n_data n) \<in> {K_label, K_br, K_cond_br}")
    case True
    then show ?thesis using reads_jump node_ext_kind [OF n'(2)] by metis
  next
    case False
    then show ?thesis using node_ext_data [OF n'(2)] by simp
  qed
  with n n'(1) show ?thesis by simp
qed

lemma reads_of_ext:
  assumes "wf_heap h" and "heap_ext h h'" and "nodes h (powner p) \<noteq> None"
  shows "reads_of h' p = reads_of h p"
proof -
  have d: "demands h' p = demands h p" by (rule demands_ext [OF assms])
  show ?thesis unfolding reads_of_def d using reads_node_ext [OF assms(1,2)] by blast
qed

text \<open>The reads of a value port: those of its operands, and the node itself if it reads.\<close>

lemma reads_of_value:
  assumes "wf_heap h" and "nodes h n = Some nd"
  shows "reads_of h (val n) = (\<Union>p \<in> set (operands (n_data nd)). reads_of h p) \<union> reads (n_data nd)"
proof -
  have ops: "powner p < n" if "p \<in> set (operands (n_data nd))" for p
    using wf_heap_operand [OF assms that] by simp
  have l: "set (demands_list h n ps) = (\<Union>p \<in> set ps. set (demands h p))"
    if "\<forall>p \<in> set ps. powner p < n" for ps
    using that by (induction ps) (auto simp: demands_list.simps)
  have d: "set (demands h (val n)) = insert (val n) (\<Union>p \<in> set (operands (n_data nd)). set (demands h p))"
    using assms(2) ops l [of "operands (n_data nd)"]
    by (auto simp: demands.simps [of h "val n"] needs_operands_def)
  show ?thesis unfolding reads_of_def d using assms(2) by auto
qed

section \<open>Denotations and triples\<close>

type_synonym sem = "ulong \<Rightarrow> mstate \<Rightarrow> nat"

definition dn :: "builder \<Rightarrow> port \<Rightarrow> value_type \<Rightarrow> nat \<Rightarrow> sem \<Rightarrow> place set \<Rightarrow> bool" where
  "dn b p t w f R \<longleftrightarrow>
     vport b p \<and> b_port_type p b = t \<and> reads_of (b_heap b) p \<subseteq> R
     \<and> (\<forall>a s. eval_port (b_heap b) a s p = Inr (Iv w (f a s)))"

text \<open>
  The meaning of an action.  What is evaluated once keeps its value in the rest of the
  packet: \<open>D\<close> are ports the action evaluates, and \<open>R\<close> bounds the places it reads when
  the ports in \<open>E\<close> have been evaluated before.
\<close>

definition reads_except :: "heap \<Rightarrow> port \<Rightarrow> port set \<Rightarrow> place set" where
  "reads_except h p E = {l. \<exists>q \<in> set (demands h p). q \<notin> (\<Union>e \<in> E. set (demands h e)) \<and> pkind q = P_value
      \<and> (\<exists>nd. nodes h (powner q) = Some nd \<and> l \<in> reads (n_data nd))}"

definition present :: "heap \<Rightarrow> port set \<Rightarrow> bool" where
  "present h E \<longleftrightarrow> (\<forall>e \<in> E. nodes h (powner e) \<noteq> None)"

lemma reads_except_empty [simp]: "reads_except h p {} = reads_of h p" "present h {}"
  by (simp_all add: reads_except_def reads_of_def present_def)

lemma present_insert [simp]: "present h (insert e E) \<longleftrightarrow> nodes h (powner e) \<noteq> None \<and> present h E"
  by (auto simp: present_def)

lemma reads_except_subset: "reads_except h p E \<subseteq> reads_of h p"
  by (auto simp: reads_except_def reads_of_def)

lemma reads_except_ext:
  assumes "wf_heap h" and "heap_ext h h'" and "nodes h (powner p) \<noteq> None" and "present h E"
  shows "reads_except h' p E = reads_except h p E"
proof -
  have d: "demands h' p = demands h p" by (rule demands_ext [OF assms(1-3)])
  have e: "(\<Union>e \<in> E. set (demands h' e)) = (\<Union>e \<in> E. set (demands h e))"
    using demands_ext [OF assms(1,2)] assms(4) by (auto simp: present_def)
  show ?thesis
    unfolding reads_except_def d e by (simp add: reads_node_ext [OF assms(1,2)] cong: bex_cong)
qed

lemma present_ext: "heap_ext h h' \<Longrightarrow> present h E \<Longrightarrow> present h' E"
  unfolding present_def heap_ext_def by fastforce

datatype asem =
    A_reg port "port set" "port set" nat nat sem "place set"
  | A_mem port "port set" "port set" sem nat sem "place set"
  | A_pc br_type "port set" nat sem "place set"

definition act_is :: "builder \<Rightarrow> node_id \<Rightarrow> asem \<Rightarrow> bool" where
  "act_is b n A \<longleftrightarrow>
     (case A of
        A_reg p D E off w f R \<Rightarrow> \<exists>nd i nm t R0. nodes (b_heap b) n = Some nd
          \<and> n_data nd = Write_reg off i nm p \<and> dn b p t w f R0 \<and> D \<subseteq> set (demands (b_heap b) p)
          \<and> reads_except (b_heap b) p E \<subseteq> R \<and> present (b_heap b) E
      | A_mem q D E fa w f R \<Rightarrow> \<exists>nd p t t' R1 R2. nodes (b_heap b) n = Some nd
          \<and> n_data nd = Write_mem p q \<and> dn b p t 64 fa R1 \<and> dn b q t' w f R2
          \<and> D \<subseteq> set (demands (b_heap b) p) \<union> set (demands (b_heap b) q)
          \<and> reads_except (b_heap b) p E \<union> reads_except (b_heap b) q E \<subseteq> R \<and> present (b_heap b) E
      | A_pc bt E w f R \<Rightarrow> \<exists>nd p tg t R0. nodes (b_heap b) n = Some nd
          \<and> n_data nd = Write_pc p bt tg \<and> dn b p t w f R0
          \<and> reads_except (b_heap b) p E \<subseteq> R \<and> present (b_heap b) E)"

definition inpkt :: "builder \<Rightarrow> ulong \<Rightarrow> asem list \<Rightarrow> bool" where
  "inpkt b a A \<longleftrightarrow>
     wf_builder b \<and> allocator b \<and> current_chunk b \<noteq> None
     \<and> (\<exists>P. current_pkt b = Some P \<and> address P = a \<and> list_all2 (act_is b) (actions P) A)"

definition does :: "(builder, 'a) prog \<Rightarrow> ('a \<Rightarrow> builder \<Rightarrow> bool) \<Rightarrow> builder \<Rightarrow> bool" where
  "does m Q b \<longleftrightarrow> (\<exists>x b'. m b = Inr (x, b') \<and> b_ext b b' \<and> Q x b')"

lemma does_ret: "Q x b \<Longrightarrow> does (ret x) Q b"
  by (simp add: does_def ret_def)

lemma does_bnd:
  assumes "does m Q' b" and "\<And>x b'. b_ext b b' \<Longrightarrow> Q' x b' \<Longrightarrow> does (f x) Q b'"
  shows "does (bnd m f) Q b"
  using assms unfolding does_def bnd_def by (fastforce intro: b_ext_trans)

lemma does_andthen:
  assumes "does m Q' b" and "\<And>x b'. b_ext b b' \<Longrightarrow> Q' x b' \<Longrightarrow> does m' Q b'"
  shows "does (andthen m m') Q b"
  unfolding andthen_def using assms by (rule does_bnd)

lemma does_weaken: "does m Q b \<Longrightarrow> (\<And>x b'. b_ext b b' \<Longrightarrow> Q x b' \<Longrightarrow> Q' x b') \<Longrightarrow> does m Q' b"
  unfolding does_def by blast

lemma does_lift_res: "r = Inr x \<Longrightarrow> Q x b \<Longrightarrow> does (lift_res r) Q b"
  by (simp add: does_def lift_res_def)

lemma inpkt_wf: "inpkt b a A \<Longrightarrow> wf_builder b"
  by (simp add: inpkt_def)

lemma vport_node: "vport b p \<Longrightarrow> nodes (b_heap b) (powner p) \<noteq> None"
  by (auto simp: vport_def valid_port_def)

lemma dn_ext:
  assumes "dn b p t w f R" and "wf_builder b" and "b_ext b b'"
  shows "dn b' p t w f R"
proof -
  have v: "vport b p" and h: "wf_heap (b_heap b)" and e: "heap_ext (b_heap b) (b_heap b')"
    using assms by (simp_all add: dn_def wf_builder_heap b_ext_heap)
  have n: "nodes (b_heap b) (powner p) \<noteq> None" using v by (rule vport_node)
  have "vport b' p" using v assms(3) by (rule vport_ext)
  moreover have "b_port_type p b' = t"
    using assms(1) port_type_ext [OF _ e, of p] v by (simp add: dn_def b_port_type_def vport_def)
  moreover have "reads_of (b_heap b') p \<subseteq> R"
    using assms(1) reads_of_ext [OF h e n] by (simp add: dn_def)
  moreover have "eval_port (b_heap b') a s p = Inr (Iv w (f a s))" for a s
    using assms(1) eval_port_ext [OF h e n] by (simp add: dn_def)
  ultimately show ?thesis by (simp add: dn_def)
qed

lemma dn_vport: "dn b p t w f R \<Longrightarrow> vport b p"
  by (simp add: dn_def)

lemma dn_mono: "dn b p t w f R \<Longrightarrow> R \<subseteq> R' \<Longrightarrow> dn b p t w f R'"
  by (auto simp: dn_def)

lemma dn_cong: "dn b p t w f R \<Longrightarrow> (\<And>a s. f a s = g a s) \<Longrightarrow> dn b p t w g R"
  by (simp add: dn_def)

lemma act_is_ext:
  assumes "act_is b n A" and "wf_builder b" and "b_ext b b'"
  shows "act_is b' n A"
proof -
  have dd: "dn b p t w f R \<Longrightarrow> dn b' p t w f R" for p t w f R
    using dn_ext assms(2,3) by blast
  have nn: "\<exists>nd'. nodes (b_heap b') n = Some nd' \<and> n_data nd' = n_data nd"
    if "nodes (b_heap b) n = Some nd" "kind (n_data nd) \<notin> {K_label, K_br, K_cond_br}" for nd
    using that b_ext_heap [OF assms(3)] node_ext_data unfolding heap_ext_def by blast
  note h = wf_builder_heap [OF assms(2)] b_ext_heap [OF assms(3)]
  have de: "dn b p t w f R \<Longrightarrow> demands (b_heap b') p = demands (b_heap b) p" for p t w f R
    using demands_ext [OF h] vport_node by (auto simp: dn_def)
  have re: "dn b p t w f R \<Longrightarrow> present (b_heap b) E \<Longrightarrow>
      reads_except (b_heap b') p E = reads_except (b_heap b) p E" for p t w f R E
    using reads_except_ext [OF h] vport_node by (auto simp: dn_def)
  note pr = present_ext [OF h(2)]
  show ?thesis
  proof (cases A)
    case (A_reg p D E off w f R)
    with assms(1) obtain nd i nm t R0 where 1: "nodes (b_heap b) n = Some nd"
        "n_data nd = Write_reg off i nm p" "dn b p t w f R0" "D \<subseteq> set (demands (b_heap b) p)"
        "reads_except (b_heap b) p E \<subseteq> R" "present (b_heap b) E"
      by (auto simp: act_is_def)
    obtain nd' where "nodes (b_heap b') n = Some nd'" "n_data nd' = Write_reg off i nm p"
      using nn [OF 1(1)] 1(2) by auto
    with 1 dd [OF 1(3)] de [OF 1(3)] re [OF 1(3,6)] pr [OF 1(6)]
    have "act_is b' n (A_reg p D E off w f R)" unfolding act_is_def asem.case by (metis (no_types))
    with A_reg show ?thesis by simp
  next
    case (A_mem q D E fa w f R)
    with assms(1) obtain nd p t t' R1 R2 where 1: "nodes (b_heap b) n = Some nd"
        "n_data nd = Write_mem p q" "dn b p t 64 fa R1" "dn b q t' w f R2"
        "D \<subseteq> set (demands (b_heap b) p) \<union> set (demands (b_heap b) q)"
        "reads_except (b_heap b) p E \<union> reads_except (b_heap b) q E \<subseteq> R" "present (b_heap b) E"
      by (auto simp: act_is_def)
    obtain nd' where nd': "nodes (b_heap b') n = Some nd'" "n_data nd' = Write_mem p q"
      using nn [OF 1(1)] 1(2) by auto
    have D: "D \<subseteq> set (demands (b_heap b') p) \<union> set (demands (b_heap b') q)"
      using 1(5) de [OF 1(3)] de [OF 1(4)] by simp
    have E: "reads_except (b_heap b') p E \<union> reads_except (b_heap b') q E \<subseteq> R"
      using 1(6) re [OF 1(3,7)] re [OF 1(4,7)] by simp
    have "act_is b' n (A_mem q D E fa w f R)" unfolding act_is_def asem.case
      by (intro exI conjI, rule nd'(1), rule nd'(2), rule dd [OF 1(3)], rule dd [OF 1(4)], rule D, rule E,
          rule pr [OF 1(7)])
    with A_mem show ?thesis by simp
  next
    case (A_pc bt E w f R)
    with assms(1) obtain nd p tg t R0 where 1: "nodes (b_heap b) n = Some nd"
        "n_data nd = Write_pc p bt tg" "dn b p t w f R0" "reads_except (b_heap b) p E \<subseteq> R"
        "present (b_heap b) E" by (auto simp: act_is_def)
    obtain nd' where "nodes (b_heap b') n = Some nd'" "n_data nd' = Write_pc p bt tg"
      using nn [OF 1(1)] 1(2) by auto
    with 1 dd [OF 1(3)] re [OF 1(3,5)] pr [OF 1(5)]
    have "act_is b' n (A_pc bt E w f R)" unfolding act_is_def asem.case by (metis (no_types))
    with A_pc show ?thesis by simp
  qed
qed

section \<open>Creating nodes\<close>

lemma create_and_insert_total:
  assumes "allocator b" and "current_pkt b = Some P" and "c (next_id (b_heap b)) (b_heap b) = Inr h"
    and "nodes h (next_id (b_heap b)) = Some nd"
  shows "\<exists>b'. create_and_insert c b = Inr (next_id (b_heap b), b')
    \<and> b_heap b' = h\<lparr>next_id := Suc (next_id (b_heap b))\<rparr>
    \<and> current_pkt b' = Some (if is_action (n_data nd) then append_action (next_id (b_heap b)) P else P)"
  using assms
  by (simp add: create_and_insert_def bnd_def create_def Let_def insert_node_def process_node_def
      insert_action_def andthen_def ret_def node_is_action_def)

lemma eval_list_vals:
  "list_all2 (\<lambda>p x. eval_port h a s p = Inr x) ps xs \<Longrightarrow> \<forall>p \<in> set ps. powner p < n \<Longrightarrow>
   eval_list h a s n ps = Inr xs"
  by (induction ps xs rule: list_all2_induct) (simp_all add: eval_list.simps)

lemma inpkt_ext:
  assumes "inpkt b a A" and "wf_builder b'" and "b_ext b b'" and "current_pkt b' = current_pkt b"
  shows "inpkt b' a A"
proof -
  obtain P where P: "current_pkt b = Some P" "address P = a" "list_all2 (act_is b) (actions P) A"
    using assms(1) by (auto simp: inpkt_def)
  have "list_all2 (act_is b') (actions P) A"
    using P(3) by (rule list_all2_mono) (use act_is_ext [OF _ inpkt_wf [OF assms(1)] assms(3)] in blast)
  with assms P show ?thesis by (auto simp: inpkt_def b_ext_def)
qed

text \<open>A node that is no action: the packet stays, the new value port has the node's meaning.\<close>

lemma does_value:
  assumes pk: "inpkt b a A" and ok: "ctor_ok c (b_heap b)"
    and c: "c (next_id (b_heap b)) (b_heap b) = Inr (place (next_id (b_heap b)) (mk_node vt d) ps (b_heap b))"
    and nact: "\<not> is_action d"
    and ops: "\<And>p. p \<in> set (operands d) \<Longrightarrow> vport b p \<and> reads_of (b_heap b) p \<subseteq> R"
    and rd: "reads d \<subseteq> R"
    and ev: "\<And>a s. \<exists>xs. list_all2 (\<lambda>p x. eval_port (b_heap b) a s p = Inr x) (operands d) xs
        \<and> materialise_value (mk_node vt d) a s xs = Inr (Iv w (f a s))"
  shows "does (create_and_insert c) (\<lambda>n b'. inpkt b' a A \<and> dn b' (val n) vt w f R
    \<and> nodes (b_heap b') n = Some (mk_node vt d)) b"
proof -
  let ?n = "next_id (b_heap b)"
  obtain P where P: "current_pkt b = Some P" using pk by (auto simp: inpkt_def)
  have al: "allocator b" and wf: "wf_builder b" using pk by (simp_all add: inpkt_def)
  obtain b' where b': "create_and_insert c b = Inr (?n, b')" "current_pkt b' = Some P"
      "nodes (b_heap b') ?n = Some (mk_node vt d)"
    using create_and_insert_total [where c = c and nd = "mk_node vt d", OF al P _, OF c] nact
    by (auto simp: mk_node_def)
  from safe_create_and_insert [OF wf ok] b'(1)
  have ext: "wf_builder b'" "b_ext b b'" by (auto simp: safe_def)
  note h = wf_builder_heap [OF ext(1)] wf_builder_heap [OF wf] b_ext_heap [OF ext(2)]
  have lt: "powner p < ?n" if "p \<in> set (operands d)" for p
    using ops [OF that] wf_heap_valid_port_lt [OF h(2)] by (simp add: vport_def)
  have ds: "n_data (mk_node vt d) = d" "n_vt (mk_node vt d) = vt" by (simp_all add: mk_node_def)
  have "inpkt b' a A" using inpkt_ext [OF pk ext] b'(2) P by simp
  moreover have "dn b' (val ?n) vt w f R"
    unfolding dn_def
  proof (intro conjI allI)
    show "vport b' (val ?n)" using b'(3) by (simp add: vport_val vnode_def)
    show "b_port_type (val ?n) b' = vt"
      using b'(3) by (simp add: b_port_type_def port_type_def port_vt_def ds)
    have "reads_of (b_heap b') p \<subseteq> R" if "p \<in> set (operands d)" for p
      using ops [OF that] reads_of_ext [OF h(2,3)] vport_node by blast
    then show "reads_of (b_heap b') (val ?n) \<subseteq> R"
      using reads_of_value [OF h(1) b'(3)] rd by (auto simp: ds)
    fix a' s
    obtain xs where xs: "list_all2 (\<lambda>p x. eval_port (b_heap b) a' s p = Inr x) (operands d) xs"
        "materialise_value (mk_node vt d) a' s xs = Inr (Iv w (f a' s))" using ev by blast
    have "eval_port (b_heap b') a' s p = eval_port (b_heap b) a' s p" if "p \<in> set (operands d)" for p
      using ops [OF that] eval_port_ext [OF h(2,3)] vport_node by blast
    then have "list_all2 (\<lambda>p x. eval_port (b_heap b') a' s p = Inr x) (operands d) xs"
      using xs(1) by (simp add: list_all2_conv_all_nth)
    then have "eval_list (b_heap b') a' s ?n (operands d) = Inr xs"
      using lt by (intro eval_list_vals) auto
    with xs(2) b'(3) show "eval_port (b_heap b') a' s (val ?n) = Inr (Iv w (f a' s))"
      by (simp add: eval_port.simps [of _ _ _ "val ?n"] ds needs_operands_def)
  qed
  ultimately show ?thesis using b' ext by (auto simp: does_def)
qed

text \<open>An action is appended to the packet.\<close>

lemma does_action:
  assumes pk: "inpkt b a A" and ok: "ctor_ok c (b_heap b)"
    and c: "c (next_id (b_heap b)) (b_heap b) = Inr (place (next_id (b_heap b)) (mk_node vt d) ps (b_heap b))"
    and act: "is_action d"
    and sem: "\<And>b' n. b_ext b b' \<Longrightarrow> nodes (b_heap b') n = Some (mk_node vt d) \<Longrightarrow> act_is b' n X"
  shows "does (create_and_insert c) (\<lambda>n b'. inpkt b' a (A @ [X])) b"
proof -
  let ?n = "next_id (b_heap b)"
  obtain P where P: "current_pkt b = Some P" "address P = a" "list_all2 (act_is b) (actions P) A"
    using pk by (auto simp: inpkt_def)
  have al: "allocator b" and wf: "wf_builder b" using pk by (simp_all add: inpkt_def)
  obtain b' where b': "create_and_insert c b = Inr (?n, b')" "current_pkt b' = Some (append_action ?n P)"
      "nodes (b_heap b') ?n = Some (mk_node vt d)"
    using create_and_insert_total [where c = c and nd = "mk_node vt d", OF al P(1) _, OF c] act
    by (auto simp: mk_node_def)
  from safe_create_and_insert [OF wf ok] b'(1)
  have ext: "wf_builder b'" "b_ext b b'" by (auto simp: safe_def)
  have "list_all2 (act_is b') (actions P) A"
    using P(3) by (rule list_all2_mono) (use act_is_ext [OF _ wf ext(2)] in blast)
  then have "list_all2 (act_is b') (actions P @ [?n]) (A @ [X])"
    using sem [OF ext(2) b'(3)] by (simp add: list_all2_appendI)
  then have "inpkt b' a (A @ [X])"
    using pk P b'(2) ext by (auto simp: inpkt_def append_action_def b_ext_def)
  then show ?thesis using b'(1) ext(2) by (auto simp: does_def)
qed

end
