(* ===== verification/IR_Rules.thy ===== *)
theory IR_Rules
  imports IR_Semantics
begin

text \<open>
  One rule per \<open>insert_\<close> function: from the meaning of the operand ports to the meaning of the
  new value port or action.  The rules are chained along the growing heap like those of
  \<open>X86_Translator_Safe\<close>; the result is the meaning of a whole translator.
\<close>

named_theorems does_rules \<open>the meaning of the nodes the insert functions create\<close>

lemma dn_trans: "b_ext b b' \<Longrightarrow> inpkt b a A \<Longrightarrow> dn b p t w f R \<Longrightarrow> dn b' p t w f R"
  by (rule dn_ext [OF _ inpkt_wf])

lemma dnD:
  assumes "dn b p t w f R"
  shows "vport b p" "port_type (b_heap b) p = t" "reads_of (b_heap b) p \<subseteq> R"
    "eval_port (b_heap b) a s p = Inr (Iv w (f a s))"
  using assms by (auto simp: dn_def b_port_type_def)

lemma inpkt_heap: "inpkt b a A \<Longrightarrow> wf_heap (b_heap b)"
  by (simp add: inpkt_def wf_builder_heap)

lemma does_ret_unit: "inpkt b a A \<Longrightarrow> does (ret ()) (\<lambda>_ b'. inpkt b' a A) b"
  by (rule does_ret)

lemma does_drop: "does m (\<lambda>x b'. P x b' \<and> Q x b' \<and> Q' x b') b \<Longrightarrow> does m (\<lambda>x b'. P x b' \<and> Q x b') b"
  by (erule does_weaken) blast

lemmas ev_simps = list_all2_Cons1 materialise_value_def mk_node_def

section \<open>Leaves\<close>

text \<open>A register the lookups know, with the width of its slot.\<close>

definition reg_ok :: "nat \<Rightarrow> nat \<Rightarrow> bool" where
  "reg_ok off rw \<longleftrightarrow>
     map_of off_to_idx off \<noteq> None \<and> map_of off_to_name off \<noteq> None \<and> reg_alloca_width off = Some rw"

lemma reg_oks:
  "reg_ok off_ZF 8" "reg_ok off_CF 8" "reg_ok off_OF 8" "reg_ok off_SF 8" "reg_ok off_PF 8"
  "reg_ok off_DF 8" "reg_ok off_RSP 64" "reg_ok off_RBP 64" "reg_ok off_RAX 64" "reg_ok off_RDX 64"
  "reg_ok off_PC 64" "reg_ok off_FS 64" "reg_ok off_GS 64"
  by code_simp+

lemma reg_ok_gpr: "n < 16 \<Longrightarrow> reg_ok (n * 8 + off_RAX) 64"
proof -
  have "list_all (\<lambda>n. reg_ok (n * 8 + off_RAX) 64) [0..<16]" by code_simp
  then show "n < 16 \<Longrightarrow> ?thesis" by (simp add: list_all_iff)
qed

lemma reg_okD:
  assumes "reg_ok off rw"
  obtains i nm where "offset_to_idx off = Inr i" and "offset_to_name off = Inr nm"
  using assms by (auto simp: reg_ok_def offset_to_idx_def offset_to_name_def)

definition load_width :: "nat \<Rightarrow> bool" where
  "load_width w \<longleftrightarrow> w \<in> {1, 8, 16, 32, 64, 128, 256, 512}"

lemma does_read_reg [does_rules]:
  assumes pk: "inpkt b a A" and r: "reg_ok off rw" and w: "load_width (width vt)" "width vt \<le> rw"
  shows "does (read_reg vt off) (\<lambda>n b'. inpkt b' a A
    \<and> dn b' (val n) vt (width vt) (\<lambda>a s. m_regs s off mod 2 ^ width vt) {L_reg off}) b"
proof -
  obtain i nm where l: "offset_to_idx off = Inr i" "offset_to_name off = Inr nm"
    using r by (rule reg_okD)
  have "does (insert_read_reg vt off i nm) (\<lambda>n b'. inpkt b' a A
    \<and> dn b' (val n) vt (width vt) (\<lambda>a s. m_regs s off mod 2 ^ width vt) {L_reg off}) b"
    unfolding insert_read_reg_def
  proof (rule does_drop, rule does_value [OF pk])
    show "ctor_ok (read_reg_node vt off i nm) (b_heap b)" by (rule ctor_ok_leaf [OF inpkt_heap [OF pk]])
    fix a s
    show "\<exists>xs. list_all2 (\<lambda>p x. eval_port (b_heap b) a s p = Inr x) (operands (Read_reg off i nm)) xs
      \<and> materialise_value (mk_node vt (Read_reg off i nm)) a s xs
          = Inr (Iv (width vt) (m_regs s off mod 2 ^ width vt))"
      using r w by (auto simp: ev_simps lo_read_reg_def reg_ok_def load_width_def)
  qed (simp_all add: read_reg_node_def is_action_def)
  with l show ?thesis by (simp add: read_reg_def does_def bnd_def lift_res_def)
qed

lemma does_constant_node:
  assumes pk: "inpkt b a A" and i: "is_integer vt" and l: "lo_constant vt cv = Inr (Iv w x)"
  shows "does (create_and_insert (constant_node_i vt cv)) (\<lambda>n b'. inpkt b' a A
    \<and> dn b' (val n) vt w (\<lambda>a s. x) {} \<and> nodes (b_heap b') n = Some (mk_node vt (Constant_i cv))) b"
proof (rule does_value [OF pk])
  show "ctor_ok (constant_node_i vt cv) (b_heap b)" by (rule ctor_ok_leaf [OF inpkt_heap [OF pk]])
  show "constant_node_i vt cv (next_id (b_heap b)) (b_heap b) =
      Inr (place (next_id (b_heap b)) (mk_node vt (Constant_i cv)) [] (b_heap b))"
    using i by (auto simp: constant_node_i_def is_integer_def)
  fix a s
  show "\<exists>xs. list_all2 (\<lambda>p x. eval_port (b_heap b) a s p = Inr x) (operands (Constant_i cv)) xs
      \<and> materialise_value (mk_node vt (Constant_i cv)) a s xs = Inr (Iv w x)"
    using l by (auto simp: ev_simps)
qed (simp_all add: is_action_def)

lemmas does_constant = does_constant_node [THEN does_drop]

lemma does_constant_u64 [does_rules]:
  assumes "inpkt b a A"
  shows "does (insert_constant_u64 c) (\<lambda>n b'. inpkt b' a A \<and> dn b' (val n) u64 64 (\<lambda>a s. unat c) {}) b"
  unfolding insert_constant_u64_def
  using unsigned_less [of c, where ?'a = nat]
  by (intro does_constant [OF assms]) (simp_all add: u64_def lo_constant_def)

lemma does_read_pc [does_rules]:
  assumes pk: "inpkt b a A"
  shows "does insert_read_pc (\<lambda>n b'. inpkt b' a A \<and> dn b' (val n) u64 64 (\<lambda>a s. unat a) {}) b"
  unfolding insert_read_pc_def
proof (rule does_drop, rule does_value [OF pk])
  show "ctor_ok read_pc_node (b_heap b)" by (rule ctor_ok_leaf [OF inpkt_heap [OF pk]])
  fix a s
  show "\<exists>xs. list_all2 (\<lambda>p x. eval_port (b_heap b) a s p = Inr x) (operands Read_pc) xs
      \<and> materialise_value (mk_node u64 Read_pc) a s xs = Inr (Iv 64 (unat a))"
    by (auto simp: ev_simps)
qed (simp_all add: read_pc_node_def is_action_def)

section \<open>Operations\<close>

lemma does_not [does_rules]:
  assumes pk: "inpkt b a A" and p: "dn b p t w f R"
  shows "does (insert_not p) (\<lambda>n b'. inpkt b' a A \<and> dn b' (val n) t w (\<lambda>a s. lnot w (f a s)) R) b"
  unfolding insert_not_def
proof (rule does_drop, rule does_value [OF pk])
  show "ctor_ok (unary_arith_node U_bnot p) (b_heap b)"
    using p by (intro ctor_ok_unary inpkt_heap [OF pk]) (simp add: dn_def vport_def)
  fix a s
  show "\<exists>xs. list_all2 (\<lambda>p x. eval_port (b_heap b) a s p = Inr x) (operands (Unary_arith U_bnot p)) xs
      \<and> materialise_value (mk_node t (Unary_arith U_bnot p)) a s xs = Inr (Iv w (lnot w (f a s)))"
    using dnD(4) [OF p] by (auto simp: ev_simps lo_unary_value_def)
qed (use dnD [OF p] in \<open>simp_all add: unary_arith_node_def is_action_def\<close>)

lemma does_binary:
  assumes pk: "inpkt b a A" and p: "dn b p t w f R" and q: "dn b q t' w' g R'"
    and ty: "op \<in> {B_band, B_bor, B_bxor} \<Longrightarrow> width t = width t'"
    and ev: "\<And>a s. lo_binary_value op (Iv w (f a s)) (Iv w' (g a s)) = Inr (Iv wr (r a s))"
  shows "does (create_and_insert (binary_arith_node op p q)) (\<lambda>n b'. inpkt b' a A
    \<and> dn b' (val n) t wr r (R \<union> R') \<and> nodes (b_heap b') n = Some (mk_node t (Binary_arith op p q))) b"
proof (rule does_value [OF pk])
  show "ctor_ok (binary_arith_node op p q) (b_heap b)"
    using p q by (intro ctor_ok_binary inpkt_heap [OF pk]) (simp_all add: dn_def vport_def)
  show "binary_arith_node op p q (next_id (b_heap b)) (b_heap b) =
      Inr (place (next_id (b_heap b)) (mk_node t (Binary_arith op p q)) [p, q] (b_heap b))"
    using ty dnD(2) [OF p] dnD(2) [OF q] by (auto simp: binary_arith_node_def)
  fix a s
  show "\<exists>xs. list_all2 (\<lambda>p x. eval_port (b_heap b) a s p = Inr x) (operands (Binary_arith op p q)) xs
      \<and> materialise_value (mk_node t (Binary_arith op p q)) a s xs = Inr (Iv wr (r a s))"
    using dnD(4) [OF p] dnD(4) [OF q] ev by (auto simp: ev_simps)
qed (use dnD(1,3) [OF p] dnD(1,3) [OF q] in \<open>auto simp: is_action_def\<close>)

lemma lo_binary_same:
  "lo_binary_value B_band (Iv w x) (Iv w y) = Inr (Iv w (x AND y))"
  "lo_binary_value B_bor (Iv w x) (Iv w y) = Inr (Iv w (x OR y))"
  "lo_binary_value B_bxor (Iv w x) (Iv w y) = Inr (Iv w (x XOR y))"
  "lo_binary_value B_add (Iv w x) (Iv w y) = Inr (Iv w (ladd w x y))"
  "lo_binary_value B_sub (Iv w x) (Iv w y) = Inr (Iv w (lsub w x y))"
  "lo_binary_value B_cmpeq (Iv w x) (Iv w y) = Inr (Iv 1 (if x = y then 1 else 0))"
  "lo_binary_value B_cmpne (Iv w x) (Iv w y) = Inr (Iv 1 (if x \<noteq> y then 1 else 0))"
  by (simp_all add: lo_binary_value_def extend_operands_def lift2_def icmp_def b1_def)

lemma does_bitwise [does_rules]:
  assumes "inpkt b a A" and "dn b p t w f R" and "dn b q t' w g R'" and "width t = width t'"
  shows "does (insert_and p q) (\<lambda>n b'. inpkt b' a A \<and> dn b' (val n) t w (\<lambda>a s. f a s AND g a s) (R \<union> R')) b"
    "does (insert_or p q) (\<lambda>n b'. inpkt b' a A \<and> dn b' (val n) t w (\<lambda>a s. f a s OR g a s) (R \<union> R')) b"
    "does (insert_xor p q) (\<lambda>n b'. inpkt b' a A \<and> dn b' (val n) t w (\<lambda>a s. f a s XOR g a s) (R \<union> R')) b"
  unfolding insert_and_def insert_or_def insert_xor_def
  by (rule does_drop, rule does_binary [OF assms(1-3)], simp_all add: assms(4) lo_binary_same)+

lemma does_add_sub [does_rules]:
  assumes "inpkt b a A" and "dn b p t w f R" and "dn b q t' w g R'"
  shows "does (insert_add p q) (\<lambda>n b'. inpkt b' a A \<and> dn b' (val n) t w (\<lambda>a s. ladd w (f a s) (g a s)) (R \<union> R')) b"
    "does (insert_sub p q) (\<lambda>n b'. inpkt b' a A \<and> dn b' (val n) t w (\<lambda>a s. lsub w (f a s) (g a s)) (R \<union> R')) b"
  unfolding insert_add_def insert_sub_def
  by (rule does_drop, rule does_binary [OF assms], simp_all add: lo_binary_same)+

lemma does_cmp [does_rules]:
  assumes "inpkt b a A" and "dn b p t w f R" and "dn b q t' w g R'"
  shows "does (insert_cmpeq p q) (\<lambda>n b'. inpkt b' a A
      \<and> dn b' (val n) t 1 (\<lambda>a s. if f a s = g a s then 1 else 0) (R \<union> R')) b"
    "does (insert_cmpne p q) (\<lambda>n b'. inpkt b' a A
      \<and> dn b' (val n) t 1 (\<lambda>a s. if f a s \<noteq> g a s then 1 else 0) (R \<union> R')) b"
  unfolding insert_cmpeq_def insert_cmpne_def
  by (rule does_drop, rule does_binary [OF assms], simp_all add: lo_binary_same)+

lemma does_csel [does_rules]:
  assumes pk: "inpkt b a A" and c: "dn b c t0 1 h R0" and p: "dn b p t w f R" and q: "dn b q t' w g R'"
  shows "does (insert_csel c p q) (\<lambda>n b'. inpkt b' a A
    \<and> dn b' (val n) t w (\<lambda>a s. if h a s \<noteq> 0 then f a s else g a s) (R0 \<union> R \<union> R')) b"
  unfolding insert_csel_def
proof (rule does_drop, rule does_value [OF pk])
  show "ctor_ok (csel_node c p q) (b_heap b)"
    using c p q by (intro ctor_ok_ternary inpkt_heap [OF pk]) (simp_all add: dn_def vport_def)
  show "csel_node c p q (next_id (b_heap b)) (b_heap b) =
      Inr (place (next_id (b_heap b)) (mk_node t (Csel c p q)) [c, p, q] (b_heap b))"
    using dnD(2) [OF p] by (simp add: csel_node_def)
  fix a s
  show "\<exists>xs. list_all2 (\<lambda>p x. eval_port (b_heap b) a s p = Inr x) (operands (Csel c p q)) xs
      \<and> materialise_value (mk_node t (Csel c p q)) a s xs = Inr (Iv w (if h a s \<noteq> 0 then f a s else g a s))"
    using dnD(4) [OF p] dnD(4) [OF q] dnD(4) [OF c] by (auto simp: ev_simps lo_csel_def same_ltype_def)
qed (use dnD(1,3) [OF p] dnD(1,3) [OF q] dnD(1,3) [OF c] in \<open>auto simp: is_action_def\<close>)

text \<open>A node evaluates its operands.\<close>

lemma demands_operand:
  assumes "wf_heap h" and "nodes h n = Some nd" and "p \<in> set (operands (n_data nd))"
    and "nodes h (powner p) \<noteq> None"
  shows "p \<in> set (demands h (val n))"
proof -
  have "p \<in> set (demands_list h n ps)" if "p \<in> set ps" "\<forall>p \<in> set ps. powner p < n" for ps
    using that assms(4) demands_self by (induction ps) (auto simp: demands_list.simps)
  with assms(2,3) wf_heap_operand [OF assms(1,2)] show ?thesis
    by (auto simp: demands.simps [of h "val n"] needs_operands_def)
qed

lemma does_forcing:
  assumes "does m (\<lambda>n b'. inpkt b' a A \<and> dn b' (val n) t w f R \<and> nodes (b_heap b') n = Some (mk_node vt d)) b"
    and "p \<in> set (operands d)"
  shows "does m (\<lambda>n b'. inpkt b' a A \<and> dn b' (val n) t w f R \<and> p \<in> set (demands (b_heap b') (val n))) b"
  using assms(1)
proof (rule does_weaken, elim conjE, intro conjI)
  fix n b' assume "inpkt b' a A" and n: "nodes (b_heap b') n = Some (mk_node vt d)"
  then have wf: "wf_heap (b_heap b')" by (simp add: inpkt_heap)
  have "p \<in> set (operands (n_data (mk_node vt d)))" using assms(2) by (simp add: mk_node_def)
  with wf_heap_operand [OF wf n] demands_operand [OF wf n] show "p \<in> set (demands (b_heap b') (val n))"
    by blast
qed

lemma does_zx_forcing:
  assumes pk: "inpkt b a A" and p: "dn b p t w f R" and ty: "width t \<noteq> width vt"
    and w: "width vt \<in> {8, 16, 32, 64, 80, 128, 256, 512}"
  shows "does (insert_zx vt p) (\<lambda>n b'. inpkt b' a A
    \<and> dn b' (val n) vt (width vt) (\<lambda>a s. f a s mod 2 ^ width vt) R \<and> p \<in> set (demands (b_heap b') (val n))) b"
proof -
  have "does (create_and_insert (cast_node Zx vt p Fp_none)) (\<lambda>n b'. inpkt b' a A
    \<and> dn b' (val n) vt (width vt) (\<lambda>a s. f a s mod 2 ^ width vt) R \<and> p \<in> set (demands (b_heap b') (val n))) b"
  proof (rule does_forcing, rule does_value [OF pk])
    show "ctor_ok (cast_node Zx vt p Fp_none) (b_heap b)"
      using p by (intro ctor_ok_unary inpkt_heap [OF pk]) (simp add: dn_def vport_def)
    show "cast_node Zx vt p Fp_none (next_id (b_heap b)) (b_heap b) =
      Inr (place (next_id (b_heap b)) (mk_node vt (Cast Zx vt p Fp_none)) [p] (b_heap b))"
      by (simp add: cast_node_def Let_def)
    fix a s
    show "\<exists>xs. list_all2 (\<lambda>p x. eval_port (b_heap b) a s p = Inr x) (operands (Cast Zx vt p Fp_none)) xs
      \<and> materialise_value (mk_node vt (Cast Zx vt p Fp_none)) a s xs = Inr (Iv (width vt) (f a s mod 2 ^ width vt))"
      using dnD(4) [OF p] w by (auto simp: ev_simps lo_cast_def lo_zx_def)
  qed (use dnD(1,3) [OF p] in \<open>simp_all add: is_action_def\<close>)
  then show ?thesis using dnD(2) [OF p] ty by (auto simp: insert_zx_def b_port_type_def does_def)
qed

lemmas does_zx [does_rules] = does_zx_forcing [THEN does_drop]

end
