(* ===== verification/IR_Execution.thy ===== *)
theory IR_Execution
  imports IR_Rules
begin

text \<open>
  The actions, and what a packet of actions does when it is run.  \<open>apply_asem\<close> is the effect
  of one action whose operands are read in the state \<open>s0\<close> the packet started in;
  \<open>hazard_free\<close> says that no action reads a place an earlier action of the packet wrote, and
  \<open>exec_packet_asem\<close> that then the lowered packet is the fold of its actions' effects.
\<close>

section \<open>Memory and actions\<close>

lemma does_read_mem_node:
  assumes pk: "inpkt b a A" and p: "dn b p t 64 f R" and w: "width vt \<in> {8, 16, 32, 64, 128}"
  shows "does (insert_read_mem vt p) (\<lambda>n b'. inpkt b' a A
    \<and> dn b' (val n) vt (width vt) (\<lambda>a s. load_bytes (m_mem s) (f a s) (width vt div 8)) (insert L_mem R)
    \<and> nodes (b_heap b') n = Some (mk_node vt (Read_mem p))) b"
  unfolding insert_read_mem_def
proof (rule does_value [OF pk])
  show "ctor_ok (read_mem_node vt p) (b_heap b)"
    using p by (intro ctor_ok_unary inpkt_heap [OF pk]) (simp add: dn_def vport_def)
  fix a s
  show "\<exists>xs. list_all2 (\<lambda>p x. eval_port (b_heap b) a s p = Inr x) (operands (Read_mem p)) xs
      \<and> materialise_value (mk_node vt (Read_mem p)) a s xs
        = Inr (Iv (width vt) (load_bytes (m_mem s) (f a s) (width vt div 8)))"
    using dnD(4) [OF p] w by (auto simp: ev_simps lo_read_mem_def)
qed (use dnD(1,3) [OF p] in \<open>auto simp: is_action_def read_mem_node_def\<close>)

lemmas does_read_mem [does_rules] = does_read_mem_node [THEN does_drop]

lemma dn_demands_self: "dn b p t w f R \<Longrightarrow> p \<in> set (demands (b_heap b) p)"
  using vport_node [of b p] demands_self by (auto simp: dn_def)

lemma demands_dn_ext:
  assumes "b_ext b b'" and "inpkt b a A" and "dn b p t w f R"
  shows "demands (b_heap b') p = demands (b_heap b) p"
  using assms demands_ext [OF inpkt_heap [OF assms(2)] b_ext_heap [OF assms(1)]] vport_node
  by (auto simp: dn_def)

text \<open>The general forms: the values in \<open>E\<close> are known to be evaluated by an earlier action.\<close>

lemma reads_dn_ext:
  assumes "b_ext b b'" and "inpkt b a A" and "dn b p t w f R" and "present (b_heap b) E"
  shows "reads_except (b_heap b') p E = reads_except (b_heap b) p E" "present (b_heap b') E"
  using reads_except_ext [OF inpkt_heap [OF assms(2)] b_ext_heap [OF assms(1)] _ assms(4)]
    present_ext [OF b_ext_heap [OF assms(1)] assms(4)] assms(3) vport_node
  by (auto simp: dn_def)

lemma does_write_reg_forcing:
  assumes pk: "inpkt b a A" and r: "reg_ok off rw" and p: "dn b p t w f R0"
    and D: "D \<subseteq> set (demands (b_heap b) p)" and E: "reads_except (b_heap b) p E \<subseteq> R" "present (b_heap b) E"
  shows "does (write_reg off p) (\<lambda>n b'. inpkt b' a (A @ [A_reg p D E off w f R])) b"
proof -
  obtain i nm where l: "offset_to_idx off = Inr i" "offset_to_name off = Inr nm"
    using r by (rule reg_okD)
  have "does (insert_write_reg off i nm p) (\<lambda>n b'. inpkt b' a (A @ [A_reg p D E off w f R])) b"
    unfolding insert_write_reg_def
  proof (rule does_action [OF pk])
    show "ctor_ok (write_reg_node off i nm p) (b_heap b)"
      using p by (intro ctor_ok_unary inpkt_heap [OF pk]) (simp add: dn_def vport_def)
    fix b' n
    assume e: "b_ext b b'" "nodes (b_heap b') n = Some (mk_node action_vt (Write_reg off i nm p))"
    have "D \<subseteq> set (demands (b_heap b') p)" using D demands_dn_ext [OF e(1) pk p] by simp
    with e(2) dn_trans [OF e(1) pk p] reads_dn_ext [OF e(1) pk p E(2)] E(1)
    show "act_is b' n (A_reg p D E off w f R)"
      unfolding act_is_def asem.case by (auto simp: mk_node_def)
  qed (simp_all add: write_reg_node_def is_action_def)
  with l show ?thesis by (simp add: write_reg_def does_def bnd_def lift_res_def)
qed

lemma does_write_reg [does_rules]:
  assumes "inpkt b a A" and "reg_ok off rw" and p: "dn b p t w f R"
  shows "does (write_reg off p) (\<lambda>n b'. inpkt b' a (A @ [A_reg p {p} {} off w f R])) b"
  using dn_demands_self [OF p] dnD(3) [OF p] by (intro does_write_reg_forcing [OF assms]) simp_all

lemma does_write_mem_forcing:
  assumes pk: "inpkt b a A" and p: "dn b p t 64 fa R1" and q: "dn b q t' w f R2"
    and D: "D \<subseteq> set (demands (b_heap b) p) \<union> set (demands (b_heap b) q)"
    and E: "reads_except (b_heap b) p E \<subseteq> R" "reads_except (b_heap b) q E \<subseteq> R" "present (b_heap b) E"
  shows "does (insert_write_mem p q) (\<lambda>n b'. inpkt b' a (A @ [A_mem q D E fa w f R])) b"
  unfolding insert_write_mem_def
proof (rule does_action [OF pk])
  show "ctor_ok (write_mem_node p q) (b_heap b)"
    using p q by (intro ctor_ok_binary inpkt_heap [OF pk]) (simp_all add: dn_def vport_def)
  fix b' n
  assume e: "b_ext b b'" "nodes (b_heap b') n = Some (mk_node action_vt (Write_mem p q))"
  have D': "D \<subseteq> set (demands (b_heap b') p) \<union> set (demands (b_heap b') q)"
    using D demands_dn_ext [OF e(1) pk p] demands_dn_ext [OF e(1) pk q] by simp
  have E': "reads_except (b_heap b') p E \<union> reads_except (b_heap b') q E \<subseteq> R"
    using E reads_dn_ext(1) [OF e(1) pk p E(3)] reads_dn_ext(1) [OF e(1) pk q E(3)] by simp
  show "act_is b' n (A_mem q D E fa w f R)"
    unfolding act_is_def asem.case
    by (intro exI conjI, rule e(2), simp add: mk_node_def, rule dn_trans [OF e(1) pk p],
        rule dn_trans [OF e(1) pk q], rule D', rule E', rule reads_dn_ext(2) [OF e(1) pk p E(3)])
qed (simp_all add: write_mem_node_def is_action_def)

lemma does_write_mem [does_rules]:
  assumes pk: "inpkt b a A" and p: "dn b p t 64 fa R" and q: "dn b q t' w f R'"
  shows "does (insert_write_mem p q) (\<lambda>n b'. inpkt b' a (A @ [A_mem q {q} {} fa w f (R \<union> R')])) b"
  using dn_demands_self [OF q] dnD(3) [OF p] dnD(3) [OF q]
  by (intro does_write_mem_forcing [OF assms]) auto

lemma does_write_pc_forcing:
  assumes pk: "inpkt b a A" and p: "dn b p t w f R0"
    and E: "reads_except (b_heap b) p E \<subseteq> R" "present (b_heap b) E"
  shows "does (insert_write_pc p bt tg) (\<lambda>n b'. inpkt b' a (A @ [A_pc bt E w f R])) b"
  unfolding insert_write_pc_def
proof (rule does_action [OF pk])
  show "ctor_ok (write_pc_node p bt tg) (b_heap b)"
    using p by (intro ctor_ok_unary inpkt_heap [OF pk]) (simp add: dn_def vport_def)
  fix b' n
  assume e: "b_ext b b'" "nodes (b_heap b') n = Some (mk_node action_vt (Write_pc p bt tg))"
  with dn_trans [OF e(1) pk p] reads_dn_ext [OF e(1) pk p E(2)] E(1) show "act_is b' n (A_pc bt E w f R)"
    unfolding act_is_def asem.case by (auto simp: mk_node_def)
qed (simp_all add: write_pc_node_def is_action_def)

lemma does_write_pc [does_rules]:
  assumes pk: "inpkt b a A" and p: "dn b p t w f R"
  shows "does (insert_write_pc p bt tg) (\<lambda>n b'. inpkt b' a (A @ [A_pc bt {} w f R])) b"
  using dnD(3) [OF p] by (intro does_write_pc_forcing [OF assms]) simp_all

section \<open>Running a packet\<close>

fun pc_type :: "asem \<Rightarrow> br_type" where
  "pc_type (A_pc bt E w f R) = bt"
| "pc_type _ = Br_none"

fun apply_asem :: "ulong \<Rightarrow> mstate \<Rightarrow> asem \<Rightarrow> mstate \<Rightarrow> mstate" where
  "apply_asem a s0 (A_reg p D E off w f R) s = s\<lparr>m_regs := (m_regs s)(off := f a s0)\<rparr>"
| "apply_asem a s0 (A_mem q D E fa w f R) s =
     s\<lparr>m_mem := store_bytes (m_mem s) (fa a s0) (w div 8) (f a s0)\<rparr>"
| "apply_asem a s0 (A_pc bt E w f R) s = s\<lparr>m_regs := (m_regs s)(off_PC := f a s0)\<rparr>"

fun asem_reads :: "asem \<Rightarrow> place set" where
  "asem_reads (A_reg p D E off w f R) = R"
| "asem_reads (A_mem q D E fa w f R) = R"
| "asem_reads (A_pc bt E w f R) = R"

fun asem_writes :: "asem \<Rightarrow> place set" where
  "asem_writes (A_reg p D E off w f R) = {L_reg off}"
| "asem_writes (A_mem q D E fa w f R) = {L_mem}"
| "asem_writes (A_pc bt E w f R) = {L_reg off_PC}"

fun asem_fits :: "asem \<Rightarrow> bool" where
  "asem_fits (A_reg p D E off w f R) = (\<exists>rw. reg_alloca_width off = Some rw \<and> w \<le> rw)"
| "asem_fits _ = True"

fun asem_forces :: "asem \<Rightarrow> port set" where
  "asem_forces (A_reg p D E off w f R) = D"
| "asem_forces (A_mem q D E fa w f R) = D"
| "asem_forces (A_pc bt E w f R) = {}"

fun asem_except :: "asem \<Rightarrow> port set" where
  "asem_except (A_reg p D E off w f R) = E"
| "asem_except (A_mem q D E fa w f R) = E"
| "asem_except (A_pc bt E w f R) = E"

text \<open>\<open>W\<close> is what has been written, \<open>V\<close> are ports that have been evaluated.\<close>

fun hazard_free :: "place set \<Rightarrow> port set \<Rightarrow> asem list \<Rightarrow> bool" where
  "hazard_free W V [] = True"
| "hazard_free W V (A # As) =
     (asem_fits A \<and> asem_reads A \<inter> W = {} \<and> asem_except A \<subseteq> V
      \<and> hazard_free (asem_writes A \<union> W) (asem_forces A \<union> V) As)"

fun apply_all :: "ulong \<Rightarrow> mstate \<Rightarrow> asem list \<Rightarrow> mstate \<Rightarrow> mstate" where
  "apply_all a s0 [] s = s"
| "apply_all a s0 (A # As) s = apply_all a s0 As (apply_asem a s0 A s)"

lemma reg_ok_fits: "reg_ok off rw \<Longrightarrow> w \<le> rw \<Longrightarrow> asem_fits (A_reg p D E off w f R)"
  by (auto simp: reg_ok_def)

lemma reads_clobbered:
  assumes "act_is b n A" and "nodes (b_heap b) m = Some nd" and "clobbers (b_heap b) n (n_data nd)"
  shows "reads (n_data nd) \<inter> asem_writes A \<noteq> {}"
  using assms by (cases A; cases "n_data nd") (auto simp: act_is_def clobbers_def)

lemma act_is_node:
  assumes "act_is b n A"
  obtains nd where "nodes (b_heap b) n = Some nd"
    "\<And>p. p \<in> set (operands (n_data nd)) \<Longrightarrow> vport b p \<and> reads_except (b_heap b) p (asem_except A) \<subseteq> asem_reads A"
    "\<And>a s. \<exists>xs. list_all2 (\<lambda>p x. eval_port (b_heap b) a s p = Inr x) (operands (n_data nd)) xs
       \<and> (asem_fits A \<longrightarrow> (\<forall>s'. lower_action (b_heap b) (n_data nd) xs s' = Inr (apply_asem a s A s')))"
proof (cases A)
  case (A_reg p D E off w f R)
  with assms obtain nd i nm t R0 where *: "nodes (b_heap b) n = Some nd"
      "n_data nd = Write_reg off i nm p" "dn b p t w f R0" "reads_except (b_heap b) p E \<subseteq> R"
    by (auto simp: act_is_def)
  show thesis
    by (rule that [OF *(1)])
       (use dnD [OF *(3)] *(4) A_reg in \<open>auto simp: *(2) list_all2_Cons1 lower_action_def lo_write_reg_def
          lwidth_def lbits_def\<close>)
next
  case (A_mem q D E fa w f R)
  with assms obtain nd p t t' R1 R2 where *: "nodes (b_heap b) n = Some nd"
      "n_data nd = Write_mem p q" "dn b p t 64 fa R1" "dn b q t' w f R2"
      "reads_except (b_heap b) p E \<union> reads_except (b_heap b) q E \<subseteq> R"
    by (auto simp: act_is_def)
  show thesis
    by (rule that [OF *(1)])
       (use dnD [OF *(3)] dnD [OF *(4)] *(5) A_mem in \<open>auto simp: *(2) list_all2_Cons1 lower_action_def
          lo_write_mem_def lwidth_def lbits_def\<close>)
next
  case (A_pc bt E w f R)
  with assms obtain nd p tg t R0 where *: "nodes (b_heap b) n = Some nd"
      "n_data nd = Write_pc p bt tg" "dn b p t w f R0" "reads_except (b_heap b) p E \<subseteq> R"
    by (auto simp: act_is_def)
  show thesis
    by (rule that [OF *(1)])
       (use dnD [OF *(3)] *(4) A_pc in \<open>auto simp: *(2) list_all2_Cons1 lower_action_def lo_write_pc_def
          lbits_def\<close>)
qed

lemma demands_list_set:
  "q \<in> set (demands_list h n ps) \<Longrightarrow> \<exists>p \<in> set ps. powner p < n \<and> q \<in> set (demands h p)"
  by (induction ps) (auto simp: demands_list.simps split: if_splits)

lemma demands_trans:
    "q \<in> set (demands h p) \<Longrightarrow> r \<in> set (demands h q) \<Longrightarrow> r \<in> set (demands h p)"
  and demands_list_trans:
    "q \<in> set (demands_list h n ps) \<Longrightarrow> r \<in> set (demands h q) \<Longrightarrow> r \<in> set (demands_list h n ps)"
proof (induction h p and h n ps rule: demands_demands_list.induct)
  case (1 h p)
  show ?case
  proof (cases "q = p")
    case False
    with 1 show ?thesis
      by (cases "nodes h (powner p)") (auto simp: demands.simps [of h p] split: if_splits)
  qed (use 1 in simp)
qed (auto simp: demands_list.simps split: if_splits)

text \<open>A flag of a node reads nothing its value does not read.\<close>

lemma demands_flag:
  assumes "q \<in> set (demands h p)" and "pkind q = P_value"
  shows "q \<in> set (demands h (val (powner p)))"
proof (cases "nodes h (powner p)")
  case None
  with assms show ?thesis by (simp add: demands.simps [of h p])
next
  case (Some n)
  have p: "p = val (powner p)" if "pkind p = P_value" using that by (cases p) (simp add: val_def)
  show ?thesis
    using assms Some p by (cases "q = p")
      (auto simp: demands.simps [of h p] demands.simps [of h "val (powner p)"] needs_operands_def
        split: if_splits)
qed

lemma act_forces:
  assumes "wf_heap (b_heap b)" and "act_is b n A" and "q \<in> asem_forces A"
  shows "set (demands (b_heap b) q) \<subseteq> set (action_demands (b_heap b) n)"
proof -
  obtain nd p where nd: "nodes (b_heap b) n = Some nd" "p \<in> set (operands (n_data nd))"
      "q \<in> set (demands (b_heap b) p)"
    using assms(2,3) by (cases A) (force simp: act_is_def)+
  have "powner p < n" using wf_heap_operand [OF assms(1) nd(1,2)] by simp
  then have "set (demands (b_heap b) p) \<subseteq> set (demands_list (b_heap b) n ps)" if "p \<in> set ps"
    "\<forall>p \<in> set ps. powner p < n" for ps
    using that by (induction ps) (auto simp: demands_list.simps)
  with nd wf_heap_operand [OF assms(1) nd(1)]
  have "set (demands (b_heap b) p) \<subseteq> set (action_demands (b_heap b) n)"
    by (auto simp: action_demands_def)
  then show ?thesis using demands_trans [OF nd(3)] by blast
qed

lemma hazard_free_snapshot:
  assumes wf: "wf_heap (b_heap b)" and "list_all2 (act_is b) as As" and "hazard_free W V As"
    and "\<And>n. n \<in> set before \<Longrightarrow> \<exists>A. act_is b n A \<and> asem_writes A \<subseteq> W"
    and "\<And>p. p \<in> V \<Longrightarrow> set (demands (b_heap b) p) \<subseteq> firm"
  shows "snapshot_actions (b_heap b) (\<lambda>_. False) before firm as"
  using assms(2-)
proof (induction as As arbitrary: W V before firm rule: list_all2_induct)
  case (Cons x xs y ys)
  obtain nd where nd: "nodes (b_heap b) x = Some nd"
    "\<And>p. p \<in> set (operands (n_data nd)) \<Longrightarrow> vport b p \<and> reads_except (b_heap b) p (asem_except y) \<subseteq> asem_reads y"
    using Cons(1) by (rule act_is_node) blast
  have "q \<in> firm" if q: "q \<in> set (action_demands (b_heap b) x)" and c: "conflict (b_heap b) before q" for q
  proof -
    obtain m k where k: "pkind q = P_value" "nodes (b_heap b) (powner q) = Some k"
        "m \<in> set before" "clobbers (b_heap b) m (n_data k)"
      using c by (auto simp: conflict_def split: option.splits)
    from Cons.prems(2) [OF k(3)] obtain A where A: "act_is b m A" "asem_writes A \<subseteq> W" by blast
    obtain p where p: "p \<in> set (operands (n_data nd))" "q \<in> set (demands (b_heap b) p)"
      using q nd(1) demands_list_set by (force simp: action_demands_def)
    show ?thesis
    proof (cases "q \<in> (\<Union>e \<in> asem_except y. set (demands (b_heap b) e))")
      case True
      with Cons.prems(1,3) show ?thesis by fastforce
    next
      case False
      with p(2) k(1,2) have "reads (n_data k) \<subseteq> reads_except (b_heap b) p (asem_except y)"
        by (auto simp: reads_except_def)
      with reads_clobbered [OF A(1) k(2,4)] nd(2) [OF p(1)] A(2) Cons.prems(1) show ?thesis by auto
    qed
  qed
  moreover have "snapshot_actions (b_heap b) (\<lambda>_. False) (before @ [x])
      (firm \<union> set (action_demands (b_heap b) x)) xs"
  proof (rule Cons.IH)
    show "hazard_free (asem_writes y \<union> W) (asem_forces y \<union> V) ys" using Cons.prems(1) by simp
    show "\<exists>A. act_is b n A \<and> asem_writes A \<subseteq> asem_writes y \<union> W" if "n \<in> set (before @ [x])" for n
      using that Cons(1) Cons.prems(2) by fastforce
    show "set (demands (b_heap b) p) \<subseteq> firm \<union> set (action_demands (b_heap b) x)"
      if "p \<in> asem_forces y \<union> V" for p
      using that Cons.prems(3) act_forces [OF wf Cons(1)] by blast
  qed
  ultimately show ?case by auto
qed simp

lemma snap_exec_asem:
  assumes "wf_heap (b_heap b)" and "list_all2 (act_is b) as As" and "hazard_free W V As"
  shows "snap_exec (b_heap b) a s0 as s = Inr (apply_all a s0 As s)"
  using assms(2-)
proof (induction as As arbitrary: W V s rule: list_all2_induct)
  case (Cons x xs y ys)
  obtain nd where nd: "nodes (b_heap b) x = Some nd"
    "\<And>a s. \<exists>xs. list_all2 (\<lambda>p x. eval_port (b_heap b) a s p = Inr x) (operands (n_data nd)) xs
       \<and> (asem_fits y \<longrightarrow> (\<forall>s'. lower_action (b_heap b) (n_data nd) xs s' = Inr (apply_asem a s y s')))"
    using Cons(1) by (rule act_is_node) blast
  obtain vs where vs: "list_all2 (\<lambda>p x. eval_port (b_heap b) a s0 p = Inr x) (operands (n_data nd)) vs"
      "lower_action (b_heap b) (n_data nd) vs s = Inr (apply_asem a s0 y s)"
    using nd(2) [of a s0] Cons.prems by auto
  have "eval_list (b_heap b) a s0 x (operands (n_data nd)) = Inr vs"
    using vs(1) wf_heap_operand [OF assms(1) nd(1)] by (intro eval_list_vals) auto
  with nd(1) vs(2) Cons.IH [of "asem_writes y \<union> W" "asem_forces y \<union> V"] Cons.prems show ?case by simp
qed simp

lemma br_rank_none: "br_type_rank t > 0 \<longleftrightarrow> t \<noteq> Br_none"
  by (cases t) simp_all

lemma updates_pc_loop_none:
  "updates_pc_loop h mx as = Br_none \<longleftrightarrow> mx = Br_none \<and> (\<forall>a \<in> set as. action_updates_pc h a = Br_none)"
proof (induction as arbitrary: mx)
  case (Cons a as)
  show ?case
    using br_rank_none [of mx] br_rank_none [of "action_updates_pc h a"]
    by (auto simp: Cons.IH)
qed simp

lemma packet_updates_asem:
  assumes "list_all2 (act_is b) (actions P) As"
  shows "packet_updates_pc (b_heap b) P = Br_none \<longleftrightarrow> (\<forall>A \<in> set As. pc_type A = Br_none)"
proof -
  have one: "action_updates_pc (b_heap b) n = pc_type A" if "act_is b n A" for n A
    using that by (cases A) (auto simp: act_is_def action_updates_pc_def)
  have "list_all2 (act_is b) as As \<Longrightarrow> (\<forall>a \<in> set as. action_updates_pc (b_heap b) a = Br_none)
      \<longleftrightarrow> (\<forall>A \<in> set As. pc_type A = Br_none)" for as
    by (induction as As rule: list_all2_induct) (auto simp: one)
  with assms show ?thesis by (simp add: packet_updates_pc_def updates_pc_loop_none)
qed

theorem exec_packet_asem:
  assumes "inpkt b a As" and "hazard_free {} {} As"
  obtains P where "current_pkt b = Some P" and "address P = a"
    and "\<And>s. exec_packet (b_heap b) P s = Inr (apply_all a s As s)"
    and "packet_updates_pc (b_heap b) P = Br_none \<longleftrightarrow> (\<forall>A \<in> set As. pc_type A = Br_none)"
proof -
  obtain P where P: "current_pkt b = Some P" "address P = a" "list_all2 (act_is b) (actions P) As"
    using assms(1) by (auto simp: inpkt_def)
  note wf = inpkt_heap [OF assms(1)]
  have "snapshot_actions (b_heap b) (\<lambda>_. False) [] {} (actions P)"
    by (rule hazard_free_snapshot [OF wf P(3) assms(2)]) simp_all
  from exec_actions_snapshot [OF this unclobbered_refl consistent_empty, where keep = "\<lambda>_. True"]
    snap_exec_asem [OF wf P(3) assms(2)]
  have "exec_packet (b_heap b) P s = Inr (apply_all a s As s)" for s
    by (simp add: exec_packet_def P(2))
  with P packet_updates_asem [OF P(3)] show thesis by (intro that)
qed

end
