(* ===== verification/X86_Execution.thy ===== *)
theory X86_Execution
  imports IR_Execution X86_Chunks
begin

text \<open>
  What translated instructions do.  A translator is run inside a fresh packet and the packet
  it leaves is executed with the semantics of the LLVM engine; the result is compared with
  the architecture's description of the instruction: the condition codes, the address of
  the next instruction, the stack, and the rules for writes to partial registers.
\<close>

section \<open>Conditions\<close>

definition flag_set :: "mstate \<Rightarrow> nat \<Rightarrow> bool" where
  "flag_set s f \<longleftrightarrow> odd (m_regs s f)"

text \<open>The condition codes as the architecture defines them.\<close>

fun cond_holds :: "cond_type \<Rightarrow> mstate \<Rightarrow> bool" where
  "cond_holds C_nbe s = (\<not> flag_set s off_CF \<and> \<not> flag_set s off_ZF)"
| "cond_holds C_nb s = (\<not> flag_set s off_CF)"
| "cond_holds C_b s = flag_set s off_CF"
| "cond_holds C_be s = (flag_set s off_CF \<or> flag_set s off_ZF)"
| "cond_holds C_z s = flag_set s off_ZF"
| "cond_holds C_nle s = (\<not> flag_set s off_ZF \<and> flag_set s off_SF = flag_set s off_OF)"
| "cond_holds C_nl s = (flag_set s off_SF = flag_set s off_OF)"
| "cond_holds C_l s = (flag_set s off_SF \<noteq> flag_set s off_OF)"
| "cond_holds C_le s = (flag_set s off_ZF \<or> flag_set s off_SF \<noteq> flag_set s off_OF)"
| "cond_holds C_nz s = (\<not> flag_set s off_ZF)"
| "cond_holds C_no s = (\<not> flag_set s off_OF)"
| "cond_holds C_np s = (\<not> flag_set s off_PF)"
| "cond_holds C_ns s = (\<not> flag_set s off_SF)"
| "cond_holds C_o s = flag_set s off_OF"
| "cond_holds C_p s = flag_set s off_PF"
| "cond_holds C_s s = flag_set s off_SF"

definition flag_places :: "place set" where
  "flag_places = L_reg ` {off_ZF, off_CF, off_OF, off_SF, off_PF}"

lemma flag_bit: "(m_regs s f mod 2 = 0) = (\<not> flag_set s f)" "(m_regs s f mod 2 = Suc 0) = flag_set s f"
  "m_regs s f mod 2 = (if flag_set s f then 1 else 0)"
  by (auto simp: flag_set_def even_iff_mod_2_eq_zero odd_iff_mod_2_eq_one)

lemma one_bit:
  "lnot (Suc 0) 0 = Suc 0" "lnot (Suc 0) (Suc 0) = 0"
  by (simp_all add: lnot_def)

lemma width_u1: "width u1 = 1" "load_width 1" "load_width (width u1)"
  by (simp_all add: u1_def load_width_def)

text \<open>Rules for the monad, and the step that threads a denotation along the heap.\<close>

lemma does_final:
  assumes "does m (\<lambda>n b'. inpkt b' a A \<and> dn b' (val n) t w f R) b"
    and "\<And>a s. f a s = g a s" and "R \<subseteq> R'"
  shows "does m (\<lambda>n b'. inpkt b' a A \<and> dn b' (val n) t w g R') b"
  using assms(1) by (rule does_weaken) (use assms(2,3) in \<open>auto simp: dn_def\<close>)

lemma does_bnd_dn:
  assumes "does m (\<lambda>n b'. inpkt b' a A \<and> dn b' (val n) t w f R) b"
    and "\<And>x b'. b_ext b b' \<Longrightarrow> inpkt b' a A \<Longrightarrow> dn b' (val x) t w f R \<Longrightarrow> does (k x) Q b'"
  shows "does (bnd m k) Q b"
  using assms(1) by (rule does_bnd) (use assms(2) in blast)

lemma does_act:
  assumes "does m (\<lambda>n b'. inpkt b' a A) b"
    and "\<And>b'. b_ext b b' \<Longrightarrow> inpkt b' a A \<Longrightarrow> does k Q b'"
  shows "does (andthen m k) Q b"
  using assms(1) by (rule does_andthen) (use assms(2) in blast)

lemma does_read_flag:
  assumes pk: "inpkt b a A" and f: "reg_ok f 8"
  shows "does (read_reg u1 f) (\<lambda>n b'. inpkt b' a A
    \<and> dn b' (val n) u1 1 (\<lambda>a s. if flag_set s f then 1 else 0) {L_reg f}) b"
  using does_read_reg [OF pk f, of u1]
  by (rule does_weaken) (auto simp: width_u1 u1_def [THEN arg_cong [where f = width]] flag_bit load_width_def
      dest: width_u1(1) [THEN subst])

lemma does_flag_is_clear:
  assumes pk: "inpkt b a A" and f: "reg_ok f 8"
  shows "does (flag_is_clear f) (\<lambda>n b'. inpkt b' a A
    \<and> dn b' (val n) u1 1 (\<lambda>a s. if flag_set s f then 0 else 1) {L_reg f}) b"
  unfolding flag_is_clear_def
proof (rule does_bnd [OF does_read_flag [OF assms]], elim conjE)
  fix n b' assume *: "inpkt b' a A" "dn b' (val n) u1 1 (\<lambda>a s. if flag_set s f then 1 else 0) {L_reg f}"
  show "does (insert_not (val n)) (\<lambda>n b'. inpkt b' a A
    \<and> dn b' (val n) u1 1 (\<lambda>a s. if flag_set s f then 0 else 1) {L_reg f}) b'"
    using does_not [OF *] by (rule does_weaken) (auto simp: dn_def one_bit)
qed


lemmas flag_reads = does_read_flag [OF _ reg_oks(1)] does_read_flag [OF _ reg_oks(2)]
  does_read_flag [OF _ reg_oks(3)] does_read_flag [OF _ reg_oks(4)] does_read_flag [OF _ reg_oks(5)]
lemmas flags_clear = does_flag_is_clear [OF _ reg_oks(1)] does_flag_is_clear [OF _ reg_oks(2)]
  does_flag_is_clear [OF _ reg_oks(3)] does_flag_is_clear [OF _ reg_oks(4)]
  does_flag_is_clear [OF _ reg_oks(5)]

lemma does_compute_cond:
  assumes "inpkt b a A"
  shows "does (compute_cond ct) (\<lambda>n b'. inpkt b' a A
    \<and> dn b' (val n) u1 1 (\<lambda>a s. if cond_holds ct s then 1 else 0) flag_places) b"
  apply (cases ct; simp only: compute_cond_def cond_type.case; rule does_final,
      (assumption | rule refl does_bnd_dn flag_reads flags_clear does_bitwise does_cmp | erule dn_trans | rule assms)+)
  apply (auto simp: flag_places_def)
  done


section \<open>Whole instructions\<close>

text \<open>
  Translating \<open>x\<close> at any address \<open>a\<close> succeeds with the result \<open>r\<close>, appends one packet with that
  address to the chunk, and running the packet in a state \<open>s\<close> gives \<open>F a s\<close>.
\<close>

definition executes :: "xed_inst \<Rightarrow> translation_result \<Rightarrow> (ulong \<Rightarrow> mstate \<Rightarrow> mstate) \<Rightarrow> bool" where
  "executes x r F \<longleftrightarrow>
     (\<forall>b nm ps a d. between nm ps b \<and> allocator b \<longrightarrow>
        (\<exists>b' p. translate a x d b = Inr (r, b') \<and> between nm (ps @ [p]) b' \<and> allocator b'
          \<and> heap_ext (b_heap b) (b_heap b') \<and> address p = a
          \<and> (\<forall>s. exec_packet (b_heap b') p s = Inr (F a s))))"

text \<open>The packet in progress: its actions run without hazards and amount to \<open>G\<close>.\<close>

definition yields :: "translation_result \<Rightarrow> ulong \<Rightarrow> (mstate \<Rightarrow> mstate) \<Rightarrow> builder \<Rightarrow> bool" where
  "yields r a G b \<longleftrightarrow> (\<exists>As. inpkt b a As \<and> hazard_free {} {} As
      \<and> r = (if \<forall>A \<in> set As. pc_type A = Br_none then TRes_normal else TRes_end_of_block)
      \<and> (\<forall>s. apply_all a s As s = G s))"

lemma executesI:
  assumes tr: "\<And>b a. inpkt b a [] \<Longrightarrow> does (do_translate x) (\<lambda>_. yields r a (F a)) b"
    and nop: "iclass x \<notin> set noop_classes"
  shows "executes x r F"
  unfolding executes_def
proof (intro allI impI, elim conjE)
  fix b nm ps a d assume b: "between nm ps b" "allocator b"
  let ?b = "b\<lparr>current_pkt := Some (mk_packet a d)\<rparr>"
  have c: "current_chunk b = Some \<lparr>c_name = nm, packets = ps\<rparr>" "\<not> chunk_complete b"
      "current_pkt b = None" "wf_builder b"
    using b by (simp_all add: between_def)
  have bp: "begin_packet a d b = Inr ((), ?b)" using c by (simp add: begin_packet_def)
  have "wf_builder ?b" using holdsD [OF begin_packet_between [OF b(1)] bp] by (simp add: inside_def)
  then have "inpkt ?b a []" using b(2) c by (simp add: inpkt_def mk_packet_def)
  from tr [OF this] obtain b1 As where b1: "do_translate x ?b = Inr ((), b1)" "b_ext ?b b1" "inpkt b1 a As"
      "hazard_free {} {} As" "r = (if \<forall>A \<in> set As. pc_type A = Br_none then TRes_normal else TRes_end_of_block)"
      "\<And>s. apply_all a s As s = F a s"
    by (auto simp: does_def yields_def)
  obtain P where P: "current_pkt b1 = Some P" "address P = a"
      "\<And>s. exec_packet (b_heap b1) P s = Inr (apply_all a s As s)"
      "packet_updates_pc (b_heap b1) P = Br_none \<longleftrightarrow> (\<forall>A \<in> set As. pc_type A = Br_none)"
    using exec_packet_asem [OF b1(3,4)] by blast
  have c1: "current_chunk b1 = Some \<lparr>c_name = nm, packets = ps\<rparr>" "\<not> chunk_complete b1" "allocator b1"
    using b1(2,3) c by (auto simp: b_ext_def inpkt_def)
  let ?b' = "b1\<lparr>current_chunk := Some (add_packet P \<lparr>c_name = nm, packets = ps\<rparr>), current_pkt := None\<rparr>"
  have t: "translate a x d b = Inr (r, ?b')"
    using nop bp b1(1,5) P(1,4) c1
    by (simp add: translate_def andthen_def bnd_def end_packet_def ret_def result_of_def)
  then obtain p where "between nm (ps @ [p]) ?b'" "heap_ext (b_heap b) (b_heap ?b')"
    using holdsD [OF translate_holds [OF b(1)] t] by blast
  then have "between nm (ps @ [P]) ?b'" "heap_ext (b_heap b) (b_heap ?b')"
    by (auto simp: between_def add_packet_def)
  with t P(2,3) c1 b1(6) show "\<exists>b' p. translate a x d b = Inr (r, b') \<and> between nm (ps @ [p]) b' \<and> allocator b'
          \<and> heap_ext (b_heap b) (b_heap b') \<and> address p = a
          \<and> (\<forall>s. exec_packet (b_heap b') p s = Inr (F a s))"
    by (intro exI [of _ ?b'] exI [of _ P]) simp
qed

text \<open>The end of a translator: the actions so far are all there are.\<close>

lemma does_end:
  assumes "inpkt b a As" and "hazard_free {} {} As"
    and "r = (if \<forall>A \<in> set As. pc_type A = Br_none then TRes_normal else TRes_end_of_block)"
    and "\<And>s. apply_all a s As s = G s"
  shows "does (ret ()) (\<lambda>_. yields r a G) b"
  by (rule does_ret) (use assms in \<open>auto simp: yields_def\<close>)

end
