(* ===== verification/X86_Operand_Meaning.thy ===== *)
theory X86_Operand_Meaning
  imports X86_Execution
begin

text \<open>
  The meaning of the operands: 64-bit values as machine words, effective addresses as the
  architecture computes them, and reads and writes of registers and memory.
\<close>

section \<open>64-bit values as words\<close>

definition reg64 :: "mstate \<Rightarrow> nat \<Rightarrow> ulong" where
  "reg64 s off = of_nat (m_regs s off)"

definition load64 :: "mstate \<Rightarrow> ulong \<Rightarrow> ulong" where
  "load64 s A = of_nat (load_bytes (m_mem s) (unat A) 8)"

abbreviation dnw :: "builder \<Rightarrow> port \<Rightarrow> (ulong \<Rightarrow> mstate \<Rightarrow> ulong) \<Rightarrow> place set \<Rightarrow> bool" where
  "dnw b p F R \<equiv> dn b p u64 64 (\<lambda>a s. unat (F a s)) R"

lemma width_u64 [simp]: "width u64 = 64" "load_width 64" "load_width (width u64)"
  by (simp_all add: u64_def load_width_def)

lemma tclass_u [simp]: "tclass u64 = unsigned_integer" "tclass u8 = unsigned_integer" "width u8 = 8"
  by (simp_all add: u64_def u8_def)

lemma load_bytes_less: "load_bytes m a n < 2 ^ (8 * n)"
proof (induction n arbitrary: a)
  case (Suc n)
  have "m (a mod 2 ^ 64) mod 256 < 256" by simp
  with Suc [of "a + 1"] show ?case by (simp add: power_add)
qed simp

lemma unat_load64: "unat (load64 s A) = load_bytes (m_mem s) (unat A) 8"
  using load_bytes_less [of "m_mem s" "unat A" 8]
  by (simp add: load64_def unat_of_nat take_bit_nat_def)

lemma unat_reg64: "unat (reg64 s off) = m_regs s off mod 2 ^ 64"
  by (simp add: reg64_def unat_of_nat take_bit_nat_def)

lemma ladd_words: "ladd 64 (unat a) (unat b) = unat (a + b :: ulong)"
  by (simp add: ladd_def unat_word_ariths)

lemma lsub_words: "lsub 64 (unat a) (unat b) = unat (a - b :: ulong)"
  using unsigned_less [of a, where ?'a = nat] unsigned_less [of b, where ?'a = nat]
  by (auto simp: lsub_def unat_sub_if' mod_if)

lemma w_read_reg:
  assumes "inpkt b a A" and "reg_ok off 64"
  shows "does (read_reg u64 off) (\<lambda>n b'. inpkt b' a A \<and> dnw b' (val n) (\<lambda>a s. reg64 s off) {L_reg off}) b"
  using does_read_reg [OF assms, of u64] by (simp add: unat_reg64)

lemma w_arith:
  assumes "inpkt b a A" and "dnw b p F R" and "dnw b q G R'"
  shows "does (insert_add p q) (\<lambda>n b'. inpkt b' a A \<and> dnw b' (val n) (\<lambda>a s. F a s + G a s) (R \<union> R')) b"
    "does (insert_sub p q) (\<lambda>n b'. inpkt b' a A \<and> dnw b' (val n) (\<lambda>a s. F a s - G a s) (R \<union> R')) b"
  using does_add_sub [OF assms] by (simp_all only: ladd_words lsub_words)

lemma w_read_mem:
  assumes "inpkt b a A" and "dnw b p F R"
  shows "does (insert_read_mem u64 p) (\<lambda>n b'. inpkt b' a A
    \<and> dnw b' (val n) (\<lambda>a s. load64 s (F a s)) (insert L_mem R)) b"
  using does_read_mem [OF assms, of u64] by (simp add: unat_load64)

lemma w_csel:
  assumes "inpkt b a A" and "dn b c t0 1 (\<lambda>a s. if P a s then 1 else 0) R0"
    and "dnw b p F R" and "dnw b q G R'"
  shows "does (insert_csel c p q) (\<lambda>n b'. inpkt b' a A
    \<and> dnw b' (val n) (\<lambda>a s. if P a s then F a s else G a s) (R0 \<union> R \<union> R')) b"
  using does_csel [OF assms] by (rule does_weaken) (auto simp: dn_def)

lemma w_lsl:
  assumes pk: "inpkt b a A" and p: "dnw b p F R" and q: "dnw b q (\<lambda>a s. c) R'" and c: "unat c < 64"
  shows "does (insert_lsl p q) (\<lambda>n b'. inpkt b' a A
    \<and> dnw b' (val n) (\<lambda>a s. push_bit (unat c) (F a s)) (R \<union> R')) b"
  unfolding insert_lsl_def
proof (rule does_drop, rule does_value [OF pk])
  show "ctor_ok (bit_shift_node Lsl p q) (b_heap b)"
    using p q by (intro ctor_ok_binary inpkt_heap [OF pk]) (simp_all add: dn_def vport_def)
  show "bit_shift_node Lsl p q (next_id (b_heap b)) (b_heap b) =
      Inr (place (next_id (b_heap b)) (mk_node u64 (Bit_shift Lsl p q)) [p, q] (b_heap b))"
    using dnD(2) [OF p] by (simp add: bit_shift_node_def)
  fix a s
  have "unat (push_bit (unat c) (F a s)) = (unat (F a s) * 2 ^ unat c) mod 2 ^ 64"
    by (simp add: unsigned_push_bit_eq push_bit_nat_def take_bit_nat_def)
  then show "\<exists>xs. list_all2 (\<lambda>p x. eval_port (b_heap b) a s p = Inr x) (operands (Bit_shift Lsl p q)) xs
      \<and> materialise_value (mk_node u64 (Bit_shift Lsl p q)) a s xs = Inr (Iv 64 (unat (push_bit (unat c) (F a s))))"
    using dnD(4) [OF p] dnD(4) [OF q] c by (auto simp: ev_simps lo_shift_value_def Let_def)
qed (use dnD(1,3) [OF p] dnD(1,3) [OF q] in \<open>auto simp: is_action_def\<close>)

lemmas w_rules = refl does_bnd_dn does_act w_read_reg w_arith w_read_mem w_csel
  does_read_pc does_constant_u64 does_write_reg does_write_mem does_write_pc


section \<open>Effective addresses\<close>

definition addr_reg :: "xreg \<Rightarrow> bool" where
  "addr_reg r \<longleftrightarrow> x_class r = RC_gpr \<and> x_gpr r < 16"

definition gpr_off :: "xreg \<Rightarrow> nat" where
  "gpr_off r = x_gpr r * 8 + off_RAX"

text \<open>Base, index, scale, displacement and segment base, modulo \<open>2 ^ 64\<close>; \<open>rip\<close> is the address of
  the next instruction.\<close>

definition base_value :: "xed_inst \<Rightarrow> xmem \<Rightarrow> ulong \<Rightarrow> mstate \<Rightarrow> ulong" where
  "base_value x m a s =
     (case xm_base m of
        None \<Rightarrow> 0
      | Some r \<Rightarrow> if x_sel r = R_rip then a + ucast (inst_len x) else reg64 s (gpr_off r))"

definition index_value :: "xmem \<Rightarrow> mstate \<Rightarrow> ulong" where
  "index_value m s = (case xm_index m of None \<Rightarrow> 0 | Some r \<Rightarrow> of_nat (xm_scale m) * reg64 s (gpr_off r))"

definition segment_value :: "xmem \<Rightarrow> mstate \<Rightarrow> ulong" where
  "segment_value m s =
     (case xm_seg m of
        None \<Rightarrow> 0
      | Some r \<Rightarrow> if x_sel r = R_fs then reg64 s off_FS else if x_sel r = R_gs then reg64 s off_GS else 0)"

definition effective_address :: "xed_inst \<Rightarrow> xmem \<Rightarrow> ulong \<Rightarrow> mstate \<Rightarrow> ulong" where
  "effective_address x m a s = base_value x m a s + index_value m s + xm_disp m + segment_value m s"

definition addressable :: "xmem \<Rightarrow> bool" where
  "addressable m \<longleftrightarrow>
     (case xm_base m of None \<Rightarrow> True | Some r \<Rightarrow> x_bits r = 64 \<and> (x_sel r = R_rip \<or> addr_reg r))
     \<and> (case xm_index m of None \<Rightarrow> True | Some r \<Rightarrow> addr_reg r \<and> xm_scale m \<in> {1, 2, 4, 8})"

text \<open>The registers an address depends on.\<close>

definition address_places :: "xmem \<Rightarrow> place set" where
  "address_places m =
     (case xm_base m of None \<Rightarrow> {} | Some r \<Rightarrow> if x_sel r = R_rip then {} else {L_reg (gpr_off r)})
     \<union> (case xm_index m of None \<Rightarrow> {} | Some r \<Rightarrow> {L_reg (gpr_off r)})
     \<union> (case xm_seg m of None \<Rightarrow> {} | Some r \<Rightarrow>
          if x_sel r = R_fs then {L_reg off_FS} else if x_sel r = R_gs then {L_reg off_GS} else {})"

lemma reg_ok_gpr_off: "x_gpr r < 16 \<Longrightarrow> reg_ok (gpr_off r) 64"
  unfolding gpr_off_def by (rule reg_ok_gpr)

lemma w_read_xreg:
  assumes "inpkt b a A" and "addr_reg r"
  shows "does (read_xreg u64 r) (\<lambda>n b'. inpkt b' a A
    \<and> dnw b' (val n) (\<lambda>a s. reg64 s (gpr_off r)) {L_reg (gpr_off r)}) b"
  using w_read_reg [OF assms(1) reg_ok_gpr_off, of r] assms(2)
  by (simp add: addr_reg_def read_xreg_def xedreg_to_offset_def lift_res_def bnd_def does_def gpr_off_def)

lemma does_weaken_w:
  assumes "does m (\<lambda>n b'. inpkt b' a A \<and> dnw b' (val n) F R) b"
    and "\<And>a s. F a s = G a s" and "R \<subseteq> R'"
  shows "does m (\<lambda>n b'. inpkt b' a A \<and> dnw b' (val n) G R') b"
  using assms(1) by (rule does_final) (simp_all add: assms(2,3))

lemma bnd_assoc: "bnd (bnd m f) g = bnd m (\<lambda>x. bnd (f x) g)"
  by (simp add: bnd_def fun_eq_iff split: sum.split)

definition dno :: "builder \<Rightarrow> node_id option \<Rightarrow> (ulong \<Rightarrow> mstate \<Rightarrow> ulong) \<Rightarrow> place set \<Rightarrow> bool" where
  "dno b no F R \<longleftrightarrow> (case no of None \<Rightarrow> \<forall>a s. F a s = 0 | Some n \<Rightarrow> dnw b (val n) F R)"

lemma w_scaled_index:
  assumes pk: "inpkt b a A" and r: "addr_reg r" "xm_scale m \<in> {1, 2, 4, 8}" "xm_index m = Some r"
  shows "does (scaled_index r (xm_scale m)) (\<lambda>n b'. inpkt b' a A
    \<and> dnw b' (val n) (\<lambda>a s. index_value m s) {L_reg (gpr_off r)}) b"
proof (cases "xm_scale m = 1")
  case True
  then show ?thesis
    using w_read_xreg [OF pk r(1)] r(3) by (simp add: scaled_index_def scale_shift_def index_value_def)
next
  case False
  then have sc: "scale_shift (xm_scale m) \<noteq> 0" "unat (scale_shift (xm_scale m)) < 64"
      "push_bit (unat (scale_shift (xm_scale m))) v = of_nat (xm_scale m) * v" for v :: ulong
    using r(2) by (auto simp: scale_shift_def push_bit_eq_mult)
  show ?thesis
    unfolding scaled_index_def Let_def if_P [OF sc(1)]
    by (rule does_weaken_w, (assumption | rule refl does_bnd_dn w_read_xreg does_constant_u64 w_lsl pk r sc(2)
          | erule dn_trans)+)
       (simp_all add: sc(3) index_value_def r(3))
qed

lemma dno_Some: "dnw b (val n) F R \<Longrightarrow> dno b (Some n) F R"
  by (simp add: dno_def)

lemma dno_mono: "dno b no F R \<Longrightarrow> (\<And>a s. F a s = G a s) \<Longrightarrow> R \<subseteq> R' \<Longrightarrow> dno b no G R'"
  by (auto simp: dno_def dn_def split: option.splits)

lemma dno_trans: "b_ext b b' \<Longrightarrow> inpkt b a A \<Longrightarrow> dno b no F R \<Longrightarrow> dno b' no F R"
  by (auto simp: dno_def split: option.splits intro: dn_trans)

lemma does_some:
  assumes "does m (\<lambda>n b'. inpkt b' a A \<and> dnw b' (val n) F R) b"
  shows "does (bnd m (\<lambda>n. ret (Some n))) (\<lambda>no b'. inpkt b' a A \<and> dno b' no F R) b"
  using assms by (rule does_bnd_dn) (auto intro: does_ret simp: dno_def)

lemma does_address_base:
  assumes "inpkt b a A" and "addressable m" and "br = xm_base m"
  shows "does (address_base x br) (\<lambda>no b'. inpkt b' a A
    \<and> dno b' no (base_value x m) (address_places m)) b"
proof (cases "xm_base m")
  case None
  with assms show ?thesis
    by (auto simp: address_base_def dno_def base_value_def intro!: does_ret)
next
  case (Some r)
  show ?thesis
  proof (cases "x_sel r = R_rip")
    case True
    have "does (bnd insert_read_pc (\<lambda>pc. bnd (insert_constant_u64 (ucast (inst_len x)))
        (\<lambda>l. insert_add (val pc) (val l)))) (\<lambda>n b'. inpkt b' a A
        \<and> dnw b' (val n) (base_value x m) (address_places m)) b"
      by (rule does_weaken_w, (assumption | rule refl does_bnd_dn does_read_pc does_constant_u64 w_arith
            assms(1) | erule dn_trans)+)
         (simp_all add: base_value_def Some True)
    from does_some [OF this] True Some assms(3) show ?thesis
      by (simp add: address_base_def bnd_assoc)
  next
    case False
    then have "addr_reg r" using assms(2) Some by (simp add: addressable_def)
    from does_some [OF does_weaken_w [OF w_read_xreg [OF assms(1) this],
          of "base_value x m" "address_places m"]] False Some assms(3)
    show ?thesis by (simp add: address_base_def base_value_def [abs_def] address_places_def)
  qed
qed

lemma does_add_to_base:
  assumes "inpkt b a A" and "dno b base F R" and "dnw b (val n) G R'" and "R' \<subseteq> R"
  shows "does (add_to_base base n) (\<lambda>n b'. inpkt b' a A \<and> dnw b' (val n) (\<lambda>a s. F a s + G a s) R) b"
proof (cases base)
  case None
  with assms show ?thesis
    by (auto simp: add_to_base_def dno_def dn_def intro!: does_ret)
next
  case (Some k)
  with assms(2) have k: "dnw b (val k) F R" by (simp add: dno_def)
  show ?thesis
    using does_weaken_w [OF w_arith(1) [OF assms(1) k assms(3)] refl, of R] assms(4) Some
    by (simp add: add_to_base_def)
qed

lemma does_add_index:
  assumes "inpkt b a A" and "addressable m" and "dno b base F R" and "address_places m \<subseteq> R"
  shows "does (add_index m base) (\<lambda>no b'. inpkt b' a A \<and> dno b' no (\<lambda>a s. F a s + index_value m s) R) b"
proof (cases "xm_index m")
  case None
  with assms show ?thesis by (simp add: add_index_def index_value_def does_ret)
next
  case (Some r)
  with assms(2) have r: "addr_reg r" "xm_scale m \<in> {1, 2, 4, 8}" by (simp_all add: addressable_def)
  have R: "{L_reg (gpr_off r)} \<subseteq> R" using assms(4) Some by (auto simp: address_places_def)
  have "does (bnd (scaled_index r (xm_scale m)) (add_to_base base))
      (\<lambda>n b'. inpkt b' a A \<and> dnw b' (val n) (\<lambda>a s. F a s + index_value m s) R) b"
    by (rule does_bnd_dn [OF w_scaled_index [OF assms(1) r Some]])
       (rule does_add_to_base [OF _ dno_trans [OF _ assms(1,3)] _ R])
  from does_some [OF this] show ?thesis by (simp add: add_index_def Some bnd_assoc)
qed

lemma does_add_displacement:
  assumes "inpkt b a A" and "dno b base F R"
  shows "does (add_displacement m base) (\<lambda>no b'. inpkt b' a A \<and> dno b' no (\<lambda>a s. F a s + xm_disp m) R) b"
proof (cases "xm_disp m = 0")
  case True
  with assms show ?thesis by (simp add: add_displacement_def does_ret)
next
  case False
  have "does (bnd (insert_constant_u64 (xm_disp m)) (add_to_base base))
      (\<lambda>n b'. inpkt b' a A \<and> dnw b' (val n) (\<lambda>a s. F a s + xm_disp m) R) b"
    by (rule does_bnd_dn [OF does_constant_u64 [OF assms(1)]])
       (rule does_add_to_base [OF _ dno_trans [OF _ assms] _ empty_subsetI])
  from does_some [OF this] False show ?thesis by (simp add: add_displacement_def bnd_assoc)
qed

lemma does_address_or_zero:
  assumes "inpkt b a A" and "dno b base F R"
  shows "does (address_or_zero base) (\<lambda>n b'. inpkt b' a A \<and> dnw b' (val n) F R) b"
proof (cases base)
  case None
  with assms(2) have z: "F a s = 0" for a s by (simp add: dno_def)
  show ?thesis
    unfolding address_or_zero_def None option.case
    by (rule does_weaken_w [OF does_constant_u64 [OF assms(1)]]) (simp_all add: z)
next
  case (Some n)
  with assms show ?thesis by (simp add: address_or_zero_def dno_def does_ret)
qed

lemma does_add_segment:
  assumes "inpkt b a A" and "dnw b (val n) F R" and "address_places m \<subseteq> R"
  shows "does (add_segment m n) (\<lambda>n b'. inpkt b' a A \<and> dnw b' (val n) (\<lambda>a s. F a s + segment_value m s) R) b"
proof (cases "xm_seg m")
  case None
  with assms show ?thesis by (simp add: add_segment_def segment_value_def does_ret)
next
  case (Some sg)
  have one: "does (bnd (read_reg u64 off) (\<lambda>f. insert_add (val n) (val f)))
      (\<lambda>n b'. inpkt b' a A \<and> dnw b' (val n) (\<lambda>a s. F a s + reg64 s off) R) b"
    if "reg_ok off 64" "L_reg off \<in> R" for off
    by (rule does_weaken_w, (assumption | rule refl does_bnd_dn w_read_reg w_arith that assms(1,2) | erule dn_trans)+)
       (use that in auto)
  from Some assms one [OF reg_oks(12)] one [OF reg_oks(13)] show ?thesis
    by (auto simp: add_segment_def segment_value_def address_places_def does_ret split: if_splits)
qed

theorem does_compute_address:
  assumes "inpkt b a A" and "addressable (x_mem x i)"
  shows "does (compute_address x i) (\<lambda>n b'. inpkt b' a A
    \<and> dnw b' (val n) (effective_address x (x_mem x i)) (address_places (x_mem x i))) b"
proof -
  let ?m = "x_mem x i"
  have ok: "\<not> (case xm_base ?m of None \<Rightarrow> False | Some r \<Rightarrow> x_bits r \<noteq> 64)"
    using assms(2) by (auto simp: addressable_def split: option.splits)
  have step: "does m (\<lambda>no b'. inpkt b' a A \<and> dno b' no F R) b \<Longrightarrow>
      (\<And>no b'. inpkt b' a A \<Longrightarrow> dno b' no F R \<Longrightarrow> does (k no) Q b') \<Longrightarrow> does (bnd m k) Q b" for m F R k Q b
    by (erule does_bnd) auto
  show ?thesis
    unfolding compute_address_def Let_def if_not_P [OF ok]
    by (rule step [OF does_address_base [OF assms refl]], rule step [OF does_add_index [OF _ assms(2) _ subset_refl]],
        assumption, assumption, rule step [OF does_add_displacement], assumption, assumption,
        rule does_bnd_dn [OF does_address_or_zero], assumption, assumption,
        rule does_weaken_w [OF does_add_segment [OF _ _ subset_refl]], assumption, assumption)
       (simp_all add: effective_address_def)
qed

section \<open>Registers and memory\<close>

text \<open>The value of a general purpose register operand; the high byte registers are left out,
  the code reads their low bytes.\<close>

definition gpr_operand :: "xreg \<Rightarrow> bool" where
  "gpr_operand r \<longleftrightarrow> x_class r = RC_gpr \<and> x_gpr r < 16 \<and> x_bits r \<in> {8, 16, 32, 64}"

text \<open>A write of \<open>w\<close> bits to a register: 32 bits clear the upper half, 8 and 16 bits keep the rest.\<close>

definition merge_bits :: "nat \<Rightarrow> nat \<Rightarrow> ulong \<Rightarrow> ulong \<Rightarrow> ulong" where
  "merge_bits t l old y = (old AND NOT (push_bit t (mask l))) OR push_bit t (take_bit l y)"

definition gpr_merge :: "xreg \<Rightarrow> nat \<Rightarrow> ulong \<Rightarrow> ulong \<Rightarrow> ulong" where
  "gpr_merge r w old y =
     (if w = 64 then y
      else if w = 32 then take_bit 32 y
      else if w = 16 then merge_bits 0 16 old y
      else merge_bits (if x_low8 r then 0 else 8) 8 old y)"

lemma nat_of_words:
  fixes x y :: ulong
  shows "unat (x AND y) = unat x AND unat y" "unat (x OR y) = unat x OR unat y"
    "unat (push_bit t x) = (unat x * 2 ^ t) mod 2 ^ 64" "unat (take_bit l x) = unat x mod 2 ^ l"
    "unat (NOT x) = unat x XOR (2 ^ 64 - 1)" "l < 64 \<Longrightarrow> unat (mask l :: ulong) = 2 ^ l - 1"
  subgoal by (simp add: unsigned_and_eq)
  subgoal by (simp add: unsigned_or_eq)
  subgoal by (simp add: unsigned_push_bit_eq push_bit_nat_def take_bit_nat_def)
  subgoal by (simp add: unsigned_take_bit_eq take_bit_nat_def)
  subgoal
  proof -
    have "NOT x = x XOR (-1)" by simp
    then have "unat (NOT x) = unat x XOR unat (-1 :: ulong)" by (simp only: unsigned_xor_eq)
    then show ?thesis by (simp add: unsigned_minus_1_eq_mask mask_nat_def)
  qed
  subgoal
  proof -
    assume "l < 64"
    then have "unat (take_bit l (-1) :: ulong) = mask l"
      by (simp only: unsigned_take_bit_eq unsigned_minus_1_eq_mask take_bit_of_mask) simp
    then show ?thesis by (simp add: take_bit_minus_one_eq_mask mask_nat_def)
  qed
  done

lemma lo_bit_insert_words:
  assumes t: "unat to < 64" and l: "unat len < 64" and w: "unat len \<le> w"
  shows "lo_bit_insert (Iv 64 (unat old)) (Iv w (unat y mod 2 ^ w)) to len
    = Inr (Iv 64 (unat (merge_bits (unat to) (unat len) old y)))"
proof -
  let ?t = "unat to" and ?l = "unat len"
  have m: "lsub 64 (2 ^ ?l mod 2 ^ 64) 1 = unat (mask ?l :: ulong)"
  proof -
    have "(2 :: nat) ^ ?l < 2 ^ 64" using l by (intro power_strict_increasing) simp_all
    moreover have "(1 :: nat) \<le> 2 ^ ?l" by simp
    ultimately show ?thesis using l by (simp add: nat_of_words(6) lsub_def mod_if)
  qed
  have e: "unat y mod 2 ^ w mod 2 ^ 64 = unat (take_bit w y)"
  proof -
    have "unat (take_bit w y) < 2 ^ 64"
      using unsigned_less [of "take_bit w y", where ?'a = nat] by simp
    then show ?thesis by (simp only: nat_of_words(4) mod_less)
  qed
  have "unat (push_bit ?t (take_bit w y)) AND unat (push_bit ?t (mask ?l) :: ulong)
      = unat (push_bit ?t (take_bit w y AND mask ?l))"
    by (simp only: nat_of_words(1) [symmetric] push_bit_and)
  also have "take_bit w y AND mask ?l = take_bit ?l y"
    using w by (simp add: take_bit_eq_mask [symmetric])
  finally have k: "unat y mod 2 ^ w mod 2 ^ 64 * 2 ^ ?t mod 2 ^ 64 AND unat (mask ?l :: ulong) * 2 ^ ?t mod 2 ^ 64
      = unat (push_bit ?t (take_bit ?l y))"
    by (simp only: e nat_of_words(3) [symmetric])
  have "lo_bit_insert (Iv 64 (unat old)) (Iv w (unat y mod 2 ^ w)) to len
      = Inr (Iv 64 (unat old AND (unat (mask ?l :: ulong) * 2 ^ ?t mod 2 ^ 64 XOR (2 ^ 64 - 1))
          OR (unat y mod 2 ^ w mod 2 ^ 64 * 2 ^ ?t mod 2 ^ 64 AND unat (mask ?l :: ulong) * 2 ^ ?t mod 2 ^ 64)))"
    using t l by (simp only: lo_bit_insert_def Let_def lbits_def lval.case m mult_1 not_le [symmetric] if_False simp_thms)
  then show ?thesis
    by (simp only: k [unfolded nat_of_words(3)] merge_bits_def nat_of_words(1,2,3,5))
qed

text \<open>A port that holds the low \<open>w\<close> bits of a word.\<close>

abbreviation dnv :: "builder \<Rightarrow> port \<Rightarrow> value_type \<Rightarrow> nat \<Rightarrow> (ulong \<Rightarrow> mstate \<Rightarrow> ulong) \<Rightarrow> place set \<Rightarrow> bool" where
  "dnv b p t w F R \<equiv> dn b p t w (\<lambda>a s. unat (F a s) mod 2 ^ w) R"

definition utype :: "nat \<Rightarrow> value_type" where
  "utype w = mk_value_type unsigned_integer w 1"

lemma utypes: "utype 8 = u8" "utype 16 = u16" "utype 32 = u32" "utype 64 = u64"
  by (simp_all add: utype_def vt_defs)

lemma utype_simps [simp]: "width (utype w) = w" "tclass (utype w) = unsigned_integer"
  by (simp_all add: utype_def)

lemma mod_word: "unat (y :: ulong) mod 2 ^ 64 = unat y"
  using unsigned_less [of y, where ?'a = nat] by simp

lemma dnv_64: "dnv b p t 64 F R \<longleftrightarrow> dn b p t 64 (\<lambda>a s. unat (F a s)) R"
  by (simp only: mod_word)

lemma reg64_mod: "w \<le> 64 \<Longrightarrow> unat (reg64 s off) mod 2 ^ w = m_regs s off mod 2 ^ w"
  by (simp only: unat_reg64 mod_mod_cancel le_imp_power_dvd)

lemma does_weaken_v:
  assumes "does m (\<lambda>n b'. inpkt b' a A \<and> dn b' (val n) t w f R) b"
    and "\<And>a s. f a s = unat (F a s) mod 2 ^ w" and "R \<subseteq> R'"
  shows "does m (\<lambda>n b'. inpkt b' a A \<and> dnv b' (val n) t w F R') b"
  using assms(1) by (rule does_final) (simp_all add: assms(2,3))

lemma does_read_gpr:
  assumes pk: "inpkt b a A" and r: "gpr_operand r"
  shows "does (read_reg_operand r) (\<lambda>n b'. inpkt b' a A
    \<and> dnv b' (val n) (utype (x_bits r)) (x_bits r) (\<lambda>a s. reg64 s (gpr_off r)) {L_reg (gpr_off r)}) b"
proof -
  have w: "x_bits r \<le> 64" "load_width (width (utype (x_bits r)))" "width (utype (x_bits r)) \<le> 64"
    using r by (auto simp: gpr_operand_def load_width_def)
  have m: "does (read_reg (utype (x_bits r)) (gpr_off r)) (\<lambda>n b'. inpkt b' a A
    \<and> dnv b' (val n) (utype (x_bits r)) (x_bits r) (\<lambda>a s. reg64 s (gpr_off r)) {L_reg (gpr_off r)}) b"
    using does_read_reg [OF pk reg_ok_gpr_off w(2,3)] r w(1)
    by (simp add: gpr_operand_def reg64_mod)
  have "read_reg_operand r = read_reg (utype (x_bits r)) (gpr_off r)"
    using r by (auto simp: gpr_operand_def read_reg_operand_def read_xreg_def xedreg_to_offset_def
        gpr_off_def utypes lift_res_def bnd_def fun_eq_iff)
  with m show ?thesis by simp
qed

lemma does_zx_64:
  assumes "inpkt b a A" and "dnv b p t 32 F R" and "width t = 32"
  shows "does (insert_zx u64 p) (\<lambda>n b'. inpkt b' a A \<and> dnw b' (val n) (\<lambda>a s. take_bit 32 (F a s)) R
    \<and> p \<in> set (demands (b_heap b') (val n))) b"
proof -
  have m: "unat y mod 2 ^ 32 mod 2 ^ 64 = unat (take_bit 32 y)" for y :: ulong
    by (subst nat_of_words(4) [symmetric], rule mod_word)
  show ?thesis
    using does_zx_forcing [OF assms(1,2), of u64] assms(3) by (simp only: m width_u64) simp
qed

lemma does_bitcast_64:
  assumes pk: "inpkt b a A" and p: "dn b p t 64 f R" and t: "width t = 64"
  shows "does (insert_bitcast u64 p) (\<lambda>n b'. inpkt b' a A \<and> dn b' (val n) u64 64 f R
    \<and> p \<in> set (demands (b_heap b') (val n))) b"
  unfolding insert_bitcast_def
proof (rule does_forcing, rule does_value [OF pk])
  show "ctor_ok (cast_node Bitcast u64 p Fp_none) (b_heap b)"
    using p by (intro ctor_ok_unary inpkt_heap [OF pk]) (simp add: dn_def vport_def)
  show "cast_node Bitcast u64 p Fp_none (next_id (b_heap b)) (b_heap b) =
      Inr (place (next_id (b_heap b)) (mk_node u64 (Cast Bitcast u64 p Fp_none)) [p] (b_heap b))"
    using t dnD(2) [OF p] by (simp add: cast_node_def Let_def)
  fix a s
  show "\<exists>xs. list_all2 (\<lambda>p x. eval_port (b_heap b) a s p = Inr x) (operands (Cast Bitcast u64 p Fp_none)) xs
      \<and> materialise_value (mk_node u64 (Cast Bitcast u64 p Fp_none)) a s xs = Inr (Iv 64 (f a s))"
    using dnD(4) [OF p]
    by (auto simp: ev_simps lo_cast_def lo_bitcast_def is_floating_point_def is_vector_def lwidth_def
        lbits_def u64_def)
qed (use dnD(1,3) [OF p] in \<open>simp_all add: is_action_def\<close>)

lemma does_bit_insert:
  assumes pk: "inpkt b a A" and p: "dnw b p F R" and q: "dnv b q t w G R'"
    and w: "width t = w" "w \<le> 64"
    and tl: "unat (scast to :: ulong) = t0" "unat (scast len :: ulong) = l0" "0 < l0" "l0 \<le> w" "t0 + l0 < 64"
  shows "does (insert_bit_insert p q to len) (\<lambda>n b'. inpkt b' a A
    \<and> dnw b' (val n) (\<lambda>a s. merge_bits t0 l0 (F a s) (G a s)) (R \<union> R')
    \<and> q \<in> set (demands (b_heap b') (val n))) b"
  unfolding insert_bit_insert_def
proof (rule does_forcing, rule does_value [OF pk])
  let ?to = "scast to :: ulong" and ?len = "scast len :: ulong"
  show "ctor_ok (bit_insert_node p q ?to ?len) (b_heap b)"
    using p q by (intro ctor_ok_binary inpkt_heap [OF pk]) (simp_all add: dn_def vport_def)
  have s: "unat (?to + ?len) = t0 + l0"
    using tl unat_add_lem [of ?to ?len] by simp
  have "?to + ?len - 1 \<le> 63 \<and> ?len \<le> 64"
  proof -
    have "unat (?to + ?len) \<noteq> 0" using s tl(3) by simp
    then have "unat (?to + ?len - 1) = t0 + l0 - 1"
      using s by (subst unat_minus_one) auto
    with tl show ?thesis by (auto simp: word_le_nat_alt)
  qed
  then show "bit_insert_node p q ?to ?len (next_id (b_heap b)) (b_heap b) =
      Inr (place (next_id (b_heap b)) (mk_node u64 (Bit_insert p q ?to ?len)) [p] (b_heap b))"
    using dnD(2) [OF p] dnD(2) [OF q] w by (auto simp: bit_insert_node_def Let_def)
  fix a s
  have "lo_bit_insert (Iv 64 (unat (F a s))) (Iv w (unat (G a s) mod 2 ^ w)) ?to ?len
      = Inr (Iv 64 (unat (merge_bits t0 l0 (F a s) (G a s))))"
    using lo_bit_insert_words [of ?to ?len w] tl by simp
  then show "\<exists>xs. list_all2 (\<lambda>p x. eval_port (b_heap b) a s p = Inr x) (operands (Bit_insert p q ?to ?len)) xs
      \<and> materialise_value (mk_node u64 (Bit_insert p q ?to ?len)) a s xs
        = Inr (Iv 64 (unat (merge_bits t0 l0 (F a s) (G a s))))"
    using dnD(4) [OF p] dnD(4) [OF q] by (auto simp: ev_simps)
qed (use dnD(1,3) [OF p] dnD(1,3) [OF q] in \<open>auto simp: is_action_def\<close>)


text \<open>\<open>write_operand\<close> on a register: one write of the merged 64-bit value.\<close>

lemma does_bnd_forcing:
  assumes "does m (\<lambda>n b'. inpkt b' a A \<and> dn b' (val n) t w f R \<and> p \<in> set (demands (b_heap b') (val n))) b"
    and "\<And>x b'. inpkt b' a A \<Longrightarrow> dn b' (val x) t w f R \<Longrightarrow> {p} \<subseteq> set (demands (b_heap b') (val x))
      \<Longrightarrow> does (k x) Q b'"
  shows "does (bnd m k) Q b"
  using assms(1) by (rule does_bnd) (use assms(2) in auto)

definition wrote :: "builder \<Rightarrow> ulong \<Rightarrow> asem list \<Rightarrow> port \<Rightarrow> nat \<Rightarrow> sem \<Rightarrow> place set \<Rightarrow> bool" where
  "wrote b a A p off f R \<longleftrightarrow> (\<exists>q R'. R' \<subseteq> R \<and> inpkt b a (A @ [A_reg q {p} {} off 64 f R']))"

lemma does_write_gpr:
  assumes pk: "inpkt b a A" and r: "x_gpr r < 16" "x_class r = RC_gpr" and p: "dnv b p t w F R"
    and w: "w \<in> {8, 16, 32, 64}" "width t = w" "tclass t \<noteq> floating_point"
  shows "does (write_gpr r p) (\<lambda>_ b'. wrote b' a A p (gpr_off r)
    (\<lambda>a s. unat (gpr_merge r w (reg64 s (gpr_off r)) (F a s))) (insert (L_reg (gpr_off r)) R)) b"
proof -
  have wr: "write_xreg r q = write_reg (gpr_off r) q" for q
    using r(2) by (simp add: write_xreg_def xedreg_to_offset_def gpr_off_def lift_res_def bnd_def fun_eq_iff)
  have ty: "type_of_port p b = Inr (t, b)" using p by (simp add: dn_def type_of_port_def)
  note ok = reg_ok_gpr_off [OF r(1)]
  let ?W = "\<lambda>f _ b'. wrote b' a A p (gpr_off r) f (insert (L_reg (gpr_off r)) R)"
  have wd: "does (write_xreg r (val n)) (?W f) b1"
    if "inpkt b1 a A" "dn b1 (val n) t' 64 f R'" "{p} \<subseteq> set (demands (b_heap b1) (val n))"
      "R' \<subseteq> insert (L_reg (gpr_off r)) R" for b1 n t' f R'
    unfolding wr
    by (rule does_weaken [OF does_write_reg_forcing [OF that(1) ok that(2,3), of "{}" R']])
       (use that(4) dnD(3) [OF that(2)] in \<open>auto simp: wrote_def\<close>)
  have old: "does (read_xreg u64 r) (\<lambda>n b'. inpkt b' a A
      \<and> dnw b' (val n) (\<lambda>a s. reg64 s (gpr_off r)) {L_reg (gpr_off r)}) b"
    using r by (intro w_read_xreg pk) (simp add: addr_reg_def)
  have ins: "does (bnd (read_xreg u64 r) (\<lambda>orig. bnd (insert_bit_insert (val orig) p to len)
      (\<lambda>res. write_xreg r (val res)))) (?W (\<lambda>a s. unat (merge_bits t0 w (reg64 s (gpr_off r)) (F a s)))) b"
    if "unat (scast to :: ulong) = t0" "unat (scast len :: ulong) = w" "w < 32" "t0 < 32" for to len t0
    by (rule does_bnd_dn [OF old], rule does_bnd_forcing, rule does_bit_insert, assumption, assumption,
        erule dn_trans [OF _ pk p]) (use that w in \<open>auto intro: wd\<close>)
  have s: "unat (scast (0 :: 32 word) :: ulong) = 0" "unat (scast (16 :: 32 word) :: ulong) = 16"
      "unat (scast (8 :: 32 word) :: ulong) = 8"
    by code_simp+
  consider "w = 64" | "w = 32" | "w = 16" | "w = 8" using w(1) by auto
  then show ?thesis
  proof cases
    case 1
    have p': "dn b p t 64 (\<lambda>a s. unat (F a s)) R" using p 1 by (simp only: mod_word)
    have "width t = 64" using 1 w by simp
    note bc = does_bitcast_64 [OF pk p' this]
    have "does (if tclass t = signed_integer then bnd (insert_bitcast u64 p) (\<lambda>c. write_xreg r (val c))
        else write_xreg r p) (?W (\<lambda>a s. unat (F a s))) b"
    proof (cases "tclass t = signed_integer")
      case True
      have "does (bnd (insert_bitcast u64 p) (\<lambda>c. write_xreg r (val c))) (?W (\<lambda>a s. unat (F a s))) b"
        by (rule does_bnd_forcing [OF bc]) (auto intro: wd)
      with True show ?thesis by simp
    next
      case False
      have "does (write_xreg r p) (?W (\<lambda>a s. unat (F a s))) b"
        unfolding wr by (rule does_weaken [OF does_write_reg [OF pk ok p']]) (auto simp: wrote_def)
      with False show ?thesis by simp
    qed
    with 1 w ty show ?thesis
      by (auto simp: write_gpr_def does_def bnd_def gpr_merge_def)
  next
    case 2
    have "does (bnd (insert_zx u64 p) (\<lambda>z. write_xreg r (val z))) (?W (\<lambda>a s. unat (take_bit 32 (F a s)))) b"
      by (rule does_bnd_forcing [OF does_zx_64 [OF pk]]) (use p 2 w in \<open>auto intro: wd\<close>)
    with 2 w ty show ?thesis
      by (auto simp: write_gpr_def does_def bnd_def gpr_merge_def)
  next
    case 3
    with ins [of 0 0 16] s w ty show ?thesis
      by (simp add: write_gpr_def does_def bnd_def [of "type_of_port p"] gpr_merge_def)
  next
    case 4
    with ins [of 0 0 8] ins [of 8 8 8] s w ty show ?thesis
      by (simp add: write_gpr_def does_def bnd_def [of "type_of_port p"] gpr_merge_def)
  qed
qed

section \<open>Operands of an instruction\<close>

text \<open>The value, type and source of an operand as the architecture defines them.\<close>

definition readable :: "xed_inst \<Rightarrow> nat \<Rightarrow> bool" where
  "readable x n \<longleftrightarrow> n < length (op_names x)
     \<and> (case op_names x ! n of
          Op_MEM0 \<Rightarrow> addressable (x_mem x 0) \<and> xm_len (x_mem x 0) \<in> {1, 2, 4, 8}
        | Op_IMM0 \<Rightarrow> imm_bits x \<in> {8, 16, 32, 64}
        | Op_RELBR \<Rightarrow> True
        | nm \<Rightarrow> nm \<in> {Op_REG0, Op_REG1, Op_REG2, Op_REG3} \<and> gpr_operand (op_reg x nm)
              \<and> (x_bits (op_reg x nm) = 8 \<longrightarrow> x_low8 (op_reg x nm)))"

definition operand_type :: "xed_inst \<Rightarrow> nat \<Rightarrow> value_type" where
  "operand_type x n =
     (case op_names x ! n of
        Op_MEM0 \<Rightarrow> utype (8 * xm_len (x_mem x 0))
      | Op_IMM0 \<Rightarrow> mk_value_type (if imm_signed x then signed_integer else unsigned_integer) (imm_bits x) 1
      | Op_RELBR \<Rightarrow> u64
      | nm \<Rightarrow> utype (x_bits (op_reg x nm)))"

definition operand_value :: "xed_inst \<Rightarrow> nat \<Rightarrow> ulong \<Rightarrow> mstate \<Rightarrow> ulong" where
  "operand_value x n a s =
     (case op_names x ! n of
        Op_MEM0 \<Rightarrow> of_nat (load_bytes (m_mem s) (unat (effective_address x (x_mem x 0) a s)) (xm_len (x_mem x 0)))
      | Op_IMM0 \<Rightarrow> if imm_signed x then scast (imm_s x) else imm_u x
      | Op_RELBR \<Rightarrow> scast (ucast (branch_disp x) :: 32 word)
      | nm \<Rightarrow> reg64 s (gpr_off (op_reg x nm)))"

definition operand_places :: "xed_inst \<Rightarrow> nat \<Rightarrow> place set" where
  "operand_places x n =
     (case op_names x ! n of
        Op_MEM0 \<Rightarrow> insert L_mem (address_places (x_mem x 0))
      | Op_IMM0 \<Rightarrow> {}
      | Op_RELBR \<Rightarrow> {}
      | nm \<Rightarrow> {L_reg (gpr_off (op_reg x nm))})"

lemma does_read_memory:
  assumes pk: "inpkt b a A" and m: "addressable (x_mem x 0)" "xm_len (x_mem x 0) \<in> {1, 2, 4, 8}"
  shows "does (read_memory x 0) (\<lambda>n b'. inpkt b' a A
    \<and> dnv b' (val n) (utype (8 * xm_len (x_mem x 0))) (8 * xm_len (x_mem x 0))
        (\<lambda>a s. of_nat (load_bytes (m_mem s) (unat (effective_address x (x_mem x 0) a s)) (xm_len (x_mem x 0))))
        (insert L_mem (address_places (x_mem x 0)))) b"
proof -
  let ?l = "xm_len (x_mem x 0)"
  have t: "mem_type ?l = Some (utype (8 * ?l))" using m(2) by (auto simp: mem_type_def utypes)
  have v: "load_bytes q u ?l = unat (of_nat (load_bytes q u ?l) :: ulong) mod 2 ^ (8 * ?l)" for q u
  proof -
    have "8 * ?l \<le> 64" using m(2) by auto
    then have "load_bytes q u ?l mod 2 ^ 64 mod 2 ^ (8 * ?l) = load_bytes q u ?l mod 2 ^ (8 * ?l)"
      by (simp only: mod_mod_cancel le_imp_power_dvd)
    also have "\<dots> = load_bytes q u ?l" using load_bytes_less [of q u ?l] by simp
    finally show ?thesis by (simp add: unat_of_nat)
  qed
  have "does (bnd (compute_address x 0) (\<lambda>ad. insert_read_mem (utype (8 * ?l)) (val ad))) (\<lambda>n b'. inpkt b' a A
    \<and> dnv b' (val n) (utype (8 * ?l)) (8 * ?l)
        (\<lambda>a s. of_nat (load_bytes (m_mem s) (unat (effective_address x (x_mem x 0) a s)) ?l))
        (insert L_mem (address_places (x_mem x 0)))) b"
    apply (rule does_bnd_dn [OF does_compute_address [OF pk m(1)]])
    subgoal for n b'
      using does_read_mem [of b' a A "val n" u64 _ _ "utype (8 * ?l)"] m(2)
      by (intro does_weaken_v) (auto simp: v [symmetric])
    done
  then show ?thesis by (simp add: read_memory_def t)
qed

lemma does_read_immediate:
  assumes pk: "inpkt b a A" and w: "imm_bits x \<in> {8, 16, 32, 64}"
  shows "does (read_immediate x) (\<lambda>n b'. inpkt b' a A
    \<and> dnv b' (val n) (mk_value_type (if imm_signed x then signed_integer else unsigned_integer) (imm_bits x) 1)
        (imm_bits x) (\<lambda>a s. if imm_signed x then scast (imm_s x) else imm_u x) {}) b"
proof -
  have c: "does (create_and_insert (constant_node_i vt cv)) (\<lambda>n b'. inpkt b' a A
      \<and> dn b' (val n) vt (imm_bits x) (\<lambda>a s. unat cv mod 2 ^ imm_bits x) {}) b"
    if "vt = mk_value_type c (imm_bits x) 1" "c \<in> {signed_integer, unsigned_integer}" for vt c cv
    by (rule does_constant [OF pk]) (use that w in \<open>auto simp: lo_constant_def is_integer_def\<close>)
  have u: "ucast (ucast y :: 8 word) = take_bit 8 y" "ucast (ucast y :: 16 word) = take_bit 16 y"
    "ucast (ucast y :: 32 word) = take_bit 32 y" "take_bit 64 y = y" for y :: ulong
    by (simp_all add: unsigned_ucast_eq take_bit_word_eq_self)
  let ?t = "mk_value_type (if imm_signed x then signed_integer else unsigned_integer) (imm_bits x) 1"
  let ?c = "if imm_signed x then scast (imm_s x) else take_bit (imm_bits x) (imm_u x) :: ulong"
  have r: "read_immediate x = create_and_insert (constant_node_i ?t ?c)"
    using w by (auto simp: read_immediate_def insert_defs vt_defs u)
  have f: "unat ?c mod 2 ^ imm_bits x
      = unat (if imm_signed x then scast (imm_s x) else imm_u x :: ulong) mod 2 ^ imm_bits x"
    by (simp add: nat_of_words(4))
  show ?thesis
    unfolding r by (rule does_weaken_v, rule c [OF refl]) (simp_all only: f, simp_all)
qed

text \<open>\<open>read_operand\<close> has the operand's value.\<close>

theorem does_read_operand:
  assumes pk: "inpkt b a A" and r: "readable x n"
  shows "does (read_operand x n) (\<lambda>nd b'. inpkt b' a A
    \<and> dnv b' (val nd) (operand_type x n) (width (operand_type x n)) (operand_value x n) (operand_places x n)) b"
proof -
  have nm: "op_name x n = Inr (op_names x ! n)" using r by (simp add: readable_def op_name_def)
  have lift: "read_operand x n = m" if "\<And>b. bnd (lift_res (op_name x n)) (\<lambda>nm.
     if nm \<in> {Op_REG0, Op_REG1, Op_REG2, Op_REG3} then read_reg_operand (op_reg x nm)
     else if nm = Op_IMM0 then read_immediate x
     else if nm = Op_MEM0 then read_memory x 0
     else if nm = Op_MEM1 then read_memory x 1
     else if nm = Op_RELBR then insert_constant_u64 (scast (ucast (branch_disp x) :: 32 word))
     else throw (Logic_error ''unsupported read operand type'')) b = m b" for m
    using that by (simp add: read_operand_def fun_eq_iff)
  note eq = nm bnd_def lift_res_def
  note val = operand_type_def operand_value_def [abs_def] operand_places_def
  have reg: ?thesis if "op_names x ! n \<in> {Op_REG0, Op_REG1, Op_REG2, Op_REG3}"
    and g: "gpr_operand (op_reg x (op_names x ! n))"
  proof -
    have "read_operand x n = read_reg_operand (op_reg x (op_names x ! n))"
      using that(1) by (intro lift) (simp add: eq)
    with does_read_gpr [OF pk g] that(1) show ?thesis by (auto simp: val)
  qed
  show ?thesis
  proof (cases "op_names x ! n")
    case Op_MEM0
    with r have "read_operand x n = read_memory x 0" by (intro lift) (simp add: eq)
    with does_read_memory [OF pk, of x] r Op_MEM0 show ?thesis
      by (auto simp: readable_def val)
  next
    case Op_IMM0
    with r have "read_operand x n = read_immediate x" by (intro lift) (simp add: eq)
    with does_read_immediate [OF pk, of x] r Op_IMM0 show ?thesis
      by (simp add: readable_def val)
  next
    case Op_RELBR
    with r have "read_operand x n = insert_constant_u64 (scast (ucast (branch_disp x) :: 32 word))"
      by (intro lift) (simp add: eq)
    moreover have "does (insert_constant_u64 c) (\<lambda>n b'. inpkt b' a A \<and> dnv b' (val n) u64 64 (\<lambda>a s. c) {}) b" for c
      by (rule does_weaken_v [OF does_constant_u64 [OF pk]]) (simp_all only: mod_word subset_refl)
    ultimately show ?thesis using Op_RELBR by (simp add: val)
  qed (use r in \<open>auto simp: readable_def intro!: reg\<close>)
qed

text \<open>\<open>write_operand\<close> on a general purpose register and on memory.\<close>

definition gpr_dest :: "xed_inst \<Rightarrow> nat \<Rightarrow> xreg \<Rightarrow> bool" where
  "gpr_dest x n r \<longleftrightarrow> n < length (op_names x) \<and> op_names x ! n \<in> {Op_REG0, Op_REG1, Op_REG2}
     \<and> op_reg x (op_names x ! n) = r \<and> x_class r = RC_gpr \<and> x_gpr r < 16"

definition mem_dest :: "xed_inst \<Rightarrow> nat \<Rightarrow> bool" where
  "mem_dest x n \<longleftrightarrow> n < length (op_names x) \<and> op_names x ! n = Op_MEM0 \<and> addressable (x_mem x 0)"

definition set_reg :: "nat \<Rightarrow> ulong \<Rightarrow> mstate \<Rightarrow> mstate" where
  "set_reg off y s = s\<lparr>m_regs := (m_regs s)(off := unat y)\<rparr>"

definition set_mem :: "ulong \<Rightarrow> nat \<Rightarrow> ulong \<Rightarrow> mstate \<Rightarrow> mstate" where
  "set_mem ad n y s = s\<lparr>m_mem := store_bytes (m_mem s) (unat ad) n (unat y)\<rparr>"

lemma write_operand_cases:
  assumes "n < length (op_names x)"
  shows "gpr_dest x n r \<Longrightarrow> write_operand x n p = write_gpr r p"
    "op_names x ! n = Op_MEM0 \<Longrightarrow>
      write_operand x n p = bnd (compute_address x 0) (\<lambda>a. insert_write_mem (val a) p)"
  using assms by (auto simp: gpr_dest_def write_operand_def op_name_def bnd_def lift_res_def fun_eq_iff Let_def)

lemma does_write_dest_reg:
  assumes "inpkt b a A" and d: "gpr_dest x n r" and "dnv b p t w F R"
    and "w \<in> {8, 16, 32, 64}" "width t = w" "tclass t \<noteq> floating_point"
  shows "does (write_operand x n p) (\<lambda>_ b'. wrote b' a A p (gpr_off r)
    (\<lambda>a s. unat (gpr_merge r w (reg64 s (gpr_off r)) (F a s))) (insert (L_reg (gpr_off r)) R)) b"
proof -
  have "n < length (op_names x)" "x_gpr r < 16" "x_class r = RC_gpr" using d by (simp_all add: gpr_dest_def)
  with does_write_gpr [OF assms(1) this(2,3) assms(3-6)] show ?thesis
    by (simp only: write_operand_cases(1) [OF _ d])
qed

lemma does_write_dest_mem:
  assumes pk: "inpkt b a A" and d: "mem_dest x n" and p: "dn b p t w f R"
  shows "does (write_operand x n p) (\<lambda>_ b'. inpkt b' a (A @ [A_mem p {p} {}
    (\<lambda>a s. unat (effective_address x (x_mem x 0) a s)) w f (address_places (x_mem x 0) \<union> R)])) b"
proof -
  have m: "op_names x ! n = Op_MEM0" "n < length (op_names x)" "addressable (x_mem x 0)"
    using d by (simp_all add: mem_dest_def)
  show ?thesis
    unfolding write_operand_cases(2) [OF m(2,1)]
    by (rule does_bnd_dn [OF does_compute_address [OF pk m(3)]])
       (rule does_write_mem, assumption, assumption, erule dn_trans [OF _ pk p])
qed

text \<open>A load through an address that has been evaluated reads only memory.\<close>

lemma reads_except_forced: "p \<in> E \<Longrightarrow> reads_except h p E = {}"
  by (auto simp: reads_except_def)

lemma reads_except_value:
  assumes "wf_heap h" and "nodes h n = Some nd"
  shows "reads_except h (val n) E \<subseteq> (\<Union>p \<in> set (operands (n_data nd)). reads_except h p E) \<union> reads (n_data nd)"
proof -
  have l: "set (demands_list h n ps) \<subseteq> (\<Union>p \<in> set ps. set (demands h p))" for ps
    by (induction ps) (auto simp: demands_list.simps)
  have "set (demands h (val n)) \<subseteq> insert (val n) (\<Union>p \<in> set (operands (n_data nd)). set (demands h p))"
    using assms(2) l [of "operands (n_data nd)"] by (auto simp: demands.simps [of h "val n"])
  then show ?thesis unfolding reads_except_def using assms(2) by fastforce
qed

lemma reads_except_flag:
  "reads_except h (Port n k) {val n} = {}"
  using demands_flag [of _ h "Port n k"] by (auto simp: reads_except_def)

lemma w_read_mem_forced:
  assumes pk: "inpkt b a A" and p: "dnw b p F R"
  shows "does (insert_read_mem u64 p) (\<lambda>n b'. inpkt b' a A
    \<and> dnw b' (val n) (\<lambda>a s. load64 s (F a s)) (insert L_mem R)
    \<and> (\<forall>E. p \<in> E \<longrightarrow> reads_except (b_heap b') (val n) E \<subseteq> {L_mem})) b"
proof -
  have "does (insert_read_mem u64 p) (\<lambda>n b'. inpkt b' a A
    \<and> dnw b' (val n) (\<lambda>a s. load64 s (F a s)) (insert L_mem R) \<and> nodes (b_heap b') n = Some (mk_node u64 (Read_mem p))) b"
    using does_read_mem_node [OF assms, of u64] by (simp add: unat_load64)
  then show ?thesis
  proof (rule does_weaken, elim conjE, intro conjI allI impI)
    fix n b' E assume *: "inpkt b' a A" "nodes (b_heap b') n = Some (mk_node u64 (Read_mem p))" "p \<in> E"
    show "reads_except (b_heap b') (val n) E \<subseteq> {L_mem}"
      using reads_except_value [OF inpkt_heap [OF *(1)] *(2), of E] reads_except_forced [OF *(3)]
      by (simp add: mk_node_def)
  qed
qed

lemma w_add_forcing:
  assumes pk: "inpkt b a A" and p: "dnw b p F R" and q: "dnw b q G R'"
  shows "does (insert_add p q) (\<lambda>n b'. inpkt b' a A \<and> dnw b' (val n) (\<lambda>a s. F a s + G a s) (R \<union> R')
    \<and> p \<in> set (demands (b_heap b') (val n))) b"
  unfolding insert_add_def
  by (rule does_forcing, rule does_binary [OF assms]) (simp_all add: lo_binary_same ladd_words)

lemma forced_trans:
  assumes "b_ext b b'" and "inpkt b a A" and "dn b p t w f R" and "present (b_heap b) E"
    and "reads_except (b_heap b) p E \<subseteq> R0"
  shows "reads_except (b_heap b') p E \<subseteq> R0"
  using reads_dn_ext(1) [OF assms(1-4)] assms(5) by simp

lemma dn_present: "dn b p t w f R \<Longrightarrow> present (b_heap b) {p}"
  using vport_node [of b p] by (simp add: dn_def)

text \<open>A store to an address that has been evaluated.\<close>

lemma does_write_mem_at:
  assumes pk: "inpkt b a A" and p: "dnw b p F R" and q: "dn b q t w g R'"
  shows "does (insert_write_mem p q) (\<lambda>n b'. inpkt b' a (A @ [A_mem q {} {p} (\<lambda>a s. unat (F a s)) w g R'])) b"
  using dnD(3) [OF q] reads_except_subset [of "b_heap b" q "{p}"] reads_except_forced [of p "{p}" "b_heap b"]
    dn_present [OF p]
  by (intro does_write_mem_forcing [OF pk p q]) auto

end
