(* ===== verification/X86_Arith_Meaning.thy ===== *)
theory X86_Arith_Meaning
  imports X86_Operand_Meaning
begin

text \<open>
  The meaning of the flag ports of an arithmetic node, of \<open>write_flags\<close> and of the width
  conversion \<open>auto_cast\<close>.
\<close>

section \<open>Flags of a binary node\<close>

definition flag_ports :: "port_kinds set" where
  "flag_ports = {P_zero, P_negative, P_overflow, P_carry}"

lemma reads_of_flag: "reads_of h (Port n k) \<subseteq> reads_of h (val n)"
  using demands_flag [of _ h "Port n k"] by (auto simp: reads_of_def)

text \<open>A flag port of a binary node, from the meanings of the operands and of the result.\<close>

lemma dn_binary_flag:
  assumes wf: "wf_heap (b_heap b)" and n: "nodes (b_heap b) n = Some (mk_node t (Binary_arith op p q))"
    and p: "dn b p t1 w1 f R1" and q: "dn b q t2 w2 g R2" and r: "dn b (val n) t' w r R"
    and k: "k \<in> flag_ports"
    and fl: "\<And>a s. lo_binary_flag k op (Iv w1 (f a s)) (Iv w2 (g a s)) (Iv w (r a s))
      = Inr (Iv 8 (if fl a s then 1 else 0))"
  shows "dn b (Port n k) u1 8 (\<lambda>a s. if fl a s then 1 else 0) R"
  unfolding dn_def
proof (intro conjI allI)
  have d: "n_data (mk_node t (Binary_arith op p q)) = Binary_arith op p q" by (simp add: mk_node_def)
  have kv: "k \<noteq> P_value" using k by (auto simp: flag_ports_def)
  show "vport b (Port n k)" using n k
    by (auto simp: vport_def valid_port_def d has_port_def flag_ports_def)
  show "b_port_type (Port n k) b = u1"
    using n k by (simp add: b_port_type_def port_type_def port_vt_def flag_ports_def)
  show "reads_of (b_heap b) (Port n k) \<subseteq> R" using reads_of_flag dnD(3) [OF r] by blast
  fix a s
  have "eval_list (b_heap b) a s n [p, q] = Inr [Iv w1 (f a s), Iv w2 (g a s)]"
    using dnD(4) [OF p] dnD(4) [OF q] wf_heap_operand [OF wf n] d
    by (intro eval_list_vals) auto
  then show "eval_port (b_heap b) a s (Port n k) = Inr (Iv 8 (if fl a s then 1 else 0))"
    using n dnD(4) [OF r] fl kv
    by (simp add: eval_port.simps [of _ _ _ "Port n k"] d needs_operands_def needs_value_def materialise_flag_def)
qed

text \<open>The flags as the architecture defines them, for unsigned operands below \<open>2 ^ w\<close>.\<close>

definition sign_bit :: "nat \<Rightarrow> nat \<Rightarrow> bool" where
  "sign_bit w x \<longleftrightarrow> sval w x < 0"

definition signed_fits :: "nat \<Rightarrow> int \<Rightarrow> bool" where
  "signed_fits w i \<longleftrightarrow> - (2 ^ (w - 1)) \<le> i \<and> i < 2 ^ (w - 1)"

lemma sval_zero: "0 < w \<Longrightarrow> sval w 0 = 0"
  by (simp add: sval_def)

lemma sval_range: "0 < w \<Longrightarrow> x < 2 ^ w \<Longrightarrow> - (2 ^ (w - 1)) \<le> sval w x \<and> sval w x < 2 ^ (w - 1)"
proof -
  assume w: "0 < w" and x: "x < 2 ^ w"
  have e: "(2 :: int) ^ w = 2 * 2 ^ (w - 1)" using w by (metis power_eq_if not_gr_zero)
  have xi: "int x < 2 ^ w" using x by (metis of_nat_less_iff of_nat_power of_nat_numeral)
  show ?thesis
  proof (cases "x < 2 ^ (w - 1)")
    case True
    then have "int x < 2 ^ (w - 1)" by (metis of_nat_less_iff of_nat_power of_nat_numeral)
    then show ?thesis using True w by (auto simp: sval_def intro: order.trans [of _ 0])
  next
    case False
    then have "\<not> int x < 2 ^ (w - 1)" by (metis of_nat_less_iff of_nat_power of_nat_numeral)
    then show ?thesis using False w xi e by (simp add: sval_def)
  qed
qed

lemma sval_ladd:
  assumes w: "0 < w" and x: "x < 2 ^ w" and y: "y < 2 ^ w"
  obtains k :: int where "sval w (ladd w x y) = sval w x + sval w y + k * 2 ^ w"
proof -
  have m: "\<exists>k. sval w z = int z + k * 2 ^ w" if "z < 2 ^ w" for z
    using w by (auto simp: sval_def intro: exI [of _ 0] exI [of _ "-1"])
  have "ladd w x y < 2 ^ w" by (simp add: ladd_def)
  from m [OF this] m [OF x] m [OF y] obtain k1 k2 k3 where
    k: "sval w (ladd w x y) = int (ladd w x y) + k1 * 2 ^ w" "sval w x = int x + k2 * 2 ^ w"
       "sval w y = int y + k3 * 2 ^ w" by blast
  have "int (ladd w x y) = (int x + int y) mod 2 ^ w" by (simp add: ladd_def zmod_int)
  then have "int (ladd w x y) = int x + int y - (int x + int y) div 2 ^ w * 2 ^ w"
    by (simp add: minus_div_mult_eq_mod)
  with k have "sval w (ladd w x y) = sval w x + sval w y + (k1 - k2 - k3 - (int x + int y) div 2 ^ w) * 2 ^ w"
    by (simp add: algebra_simps)
  then show thesis by (rule that)
qed

text \<open>The sum of two signed values wraps by at most one modulus.\<close>

lemma sval_ladd_cases:
  assumes w: "0 < w" and x: "x < 2 ^ w" and y: "y < 2 ^ w" and P: "P = (2 :: int) ^ (w - 1)"
  obtains "sval w (ladd w x y) = sval w x + sval w y"
  | "sval w (ladd w x y) = sval w x + sval w y - 2 * P"
  | "sval w (ladd w x y) = sval w x + sval w y + 2 * P"
proof -
  obtain k :: int where k: "sval w (ladd w x y) = sval w x + sval w y + k * 2 ^ w"
    using w x y by (rule sval_ladd)
  have e: "(2 :: int) ^ w = 2 * P" using w unfolding P by (metis power_eq_if not_gr_zero)
  have l: "ladd w x y < 2 ^ w" by (simp add: ladd_def)
  have P0: "P > 0" by (simp add: P)
  note r = sval_range [OF w x, folded P] sval_range [OF w y, folded P] sval_range [OF w l, folded P]
  have k': "sval w (ladd w x y) = sval w x + sval w y + 2 * (k * P)" using k e by simp
  have "k \<le> -2 \<or> k = -1 \<or> k = 0 \<or> k = 1 \<or> k \<ge> 2" by arith
  then have "k = -1 \<or> k = 0 \<or> k = 1"
  proof (elim disjE)
    assume "k \<le> -2"
    then have "k * P \<le> -2 * P" using P0 by (intro mult_right_mono) auto
    with r k' show ?thesis by linarith
  next
    assume "k \<ge> 2"
    then have "k * P \<ge> 2 * P" using P0 by (intro mult_right_mono) auto
    with r k' show ?thesis by linarith
  qed auto
  with k' that show thesis by auto
qed

lemma wrap_overflow:
  fixes a b c P :: int
  assumes c: "c = a + b \<or> c = a + b - 2 * P \<or> c = a + b + 2 * P"
    and r: "- P \<le> a" "a < P" "- P \<le> b" "b < P" "- P \<le> c" "c < P"
  shows "(a > 0 \<and> b > 0 \<and> c < 0) \<or> (a < 0 \<and> b < 0 \<and> c \<ge> 0) \<longleftrightarrow> \<not> (- P \<le> a + b \<and> a + b < P)" (is ?A)
    and "(a \<ge> 0 \<and> b \<ge> 0 \<and> c < 0) \<or> (a < 0 \<and> b < 0 \<and> c \<ge> 0) \<longleftrightarrow> \<not> (- P \<le> a + b \<and> a + b < P)" (is ?B)
proof -
  from c consider "c = a + b" | "c = a + b - 2 * P" | "c = a + b + 2 * P" by blast
  then have "?A \<and> ?B"
  proof cases
    case 1
    with r show ?thesis by auto
  next
    case 2
    with r have "0 < a" "0 < b" "c < 0" "P \<le> a + b" by linarith+
    then show ?thesis by simp
  next
    case 3
    with r have "a < 0" "b < 0" "0 \<le> c" "a + b < - P" by linarith+
    then show ?thesis by simp
  qed
  then show ?A ?B by blast+
qed
lemma add_overflow_spec:
  assumes w: "0 < w" and x: "x < 2 ^ w" and y: "y < 2 ^ w"
  shows "(sgt w x 0 \<and> sgt w y 0 \<and> slt w (ladd w x y) 0) \<or> (slt w x 0 \<and> slt w y 0 \<and> sge w (ladd w x y) 0)
      \<longleftrightarrow> \<not> signed_fits w (sval w x + sval w y)" (is ?A)
    "(sge w x 0 \<and> sge w y 0 \<and> slt w (ladd w x y) 0) \<or> (slt w x 0 \<and> slt w y 0 \<and> sge w (ladd w x y) 0)
      \<longleftrightarrow> \<not> signed_fits w (sval w x + sval w y)" (is ?B)
proof -
  define P where "P = (2 :: int) ^ (w - 1)"
  have l: "ladd w x y < 2 ^ w" by (simp add: ladd_def)
  note r = sval_range [OF w x, folded P_def] sval_range [OF w y, folded P_def] sval_range [OF w l, folded P_def]
  have d: "sval w (ladd w x y) = sval w x + sval w y \<or> sval w (ladd w x y) = sval w x + sval w y - 2 * P
      \<or> sval w (ladd w x y) = sval w x + sval w y + 2 * P"
    by (rule sval_ladd_cases [OF w x y P_def]) auto
  note wrap = wrap_overflow [OF d, OF r(1) [THEN conjunct1] r(1) [THEN conjunct2] r(2) [THEN conjunct1]
      r(2) [THEN conjunct2] r(3) [THEN conjunct1] r(3) [THEN conjunct2]]
  show ?A ?B
    using wrap unfolding sgt_def sge_def slt_def signed_fits_def P_def [symmetric] sval_zero [OF w] by simp_all
qed

lemma sval_lneg:
  assumes w: "0 < w" and y: "y < 2 ^ w"
  shows "sval w (lneg w y) = (if y = 2 ^ (w - 1) then sval w y else - sval w y)"
proof -
  define Q where "Q = (2 :: nat) ^ (w - 1)"
  have e: "(2 :: nat) ^ w = 2 * Q" using w unfolding Q_def by (metis power_eq_if not_gr_zero)
  then have e': "(2 :: int) ^ w = 2 * int Q" by (metis of_nat_mult of_nat_numeral of_nat_power)
  have "Q > 0" by (simp add: Q_def)
  moreover have "lneg w y = (if y = 0 then 0 else 2 * Q - y)"
    using y by (simp add: lneg_def lsub_def e)
  moreover have z: "sval w z = (if z < Q then int z else int z - 2 * int Q)" for z
    using w by (simp only: sval_def Q_def [symmetric] e') simp
  moreover have "y < 2 * Q" using y e by simp
  ultimately show ?thesis
    unfolding z Q_def [symmetric] by presburger
qed

text \<open>The engine's overflow flag of a subtraction is right except for the smallest subtrahend,
  where it is the negation.\<close>

lemma sub_overflow_spec:
  assumes w: "0 < w" and x: "x < 2 ^ w" and y: "y < 2 ^ w"
  shows "(let b = lneg w y; sum = ladd w x b in
       (sge w x 0 \<and> sge w b 0 \<and> slt w sum 0) \<or> (slt w x 0 \<and> slt w b 0 \<and> sge w sum 0))
    \<longleftrightarrow> (signed_fits w (sval w x - sval w y) \<longleftrightarrow> y = 2 ^ (w - 1))"
proof -
  define P where "P = (2 :: int) ^ (w - 1)"
  have b: "lneg w y < 2 ^ w" by (simp add: lneg_def lsub_def)
  note r = sval_range [OF w x, folded P_def] sval_range [OF w y, folded P_def]
  have m: "sval w y = - P" if "y = 2 ^ (w - 1)"
  proof -
    have "(2 :: int) ^ w = 2 * P" using w unfolding P_def by (metis power_eq_if not_gr_zero)
    with that w show ?thesis by (simp add: sval_def P_def)
  qed
  have e: "\<not> signed_fits w (X + Y) \<longleftrightarrow> signed_fits w (X - Y)" if "Y = - P" "- P \<le> X" "X < P" for X Y
    using that unfolding signed_fits_def P_def [symmetric] by presburger
  show ?thesis
  proof (cases "y = 2 ^ (w - 1)")
    case True
    with e [OF m [OF True], of "sval w x"] r show ?thesis
      unfolding Let_def add_overflow_spec(2) [OF w x b] sval_lneg [OF w y] if_P [OF True] by blast
  next
    case False
    then show ?thesis
      unfolding Let_def add_overflow_spec(2) [OF w x b] sval_lneg [OF w y] if_not_P [OF False] by simp
  qed
qed

lemma carry_spec:
  assumes "x < 2 ^ w" and "y < 2 ^ w"
  shows "ladd w x y < x \<longleftrightarrow> x + y \<ge> 2 ^ w"
proof (cases "x + y < 2 ^ w")
  case False
  then have "(x + y) mod 2 ^ w = x + y - 2 ^ w"
    using assms by (simp add: mod_if)
  with False assms show ?thesis by (simp add: ladd_def)
qed (simp add: ladd_def)

end
