(* ===== verification/X86_Binop_Meaning.thy ===== *)
theory X86_Binop_Meaning
  imports X86_Arith_Meaning
begin

text \<open>
  The two-operand integer instructions: width conversion of the second operand, the result,
  and the flags, for register and memory destinations of 8 to 64 bits.
\<close>

section \<open>Width conversion\<close>

text \<open>The low \<open>w\<close> bits of a word, sign- or zero-extended to 64 bits.\<close>

definition widened :: "value_type_class \<Rightarrow> nat \<Rightarrow> ulong \<Rightarrow> ulong" where
  "widened c w y = (if c = signed_integer then word_of_int (sval w (unat y mod 2 ^ w)) else take_bit w y)"

lemma mod_pow_le: "w \<le> w' \<Longrightarrow> (x :: nat) mod 2 ^ w mod 2 ^ w' = x mod 2 ^ w"
proof -
  assume "w \<le> w'"
  have "x mod 2 ^ w < 2 ^ w" by simp
  also have "(2 :: nat) ^ w \<le> 2 ^ w'" using \<open>w \<le> w'\<close> by (simp add: power_increasing)
  finally show ?thesis by simp
qed

lemma sval_mod: "x < 2 ^ w \<Longrightarrow> nat (sval w x mod 2 ^ w) = x"
proof (cases "w = 0")
  case False
  assume x: "x < 2 ^ w"
  have m: "int x mod 2 ^ w = int x" using x by (simp flip: zmod_int of_nat_power)
  have "(int x - 2 ^ w) mod 2 ^ w = int x mod 2 ^ w" by (simp add: mod_diff_right_eq [symmetric])
  with m False show ?thesis by (simp add: sval_def)
qed (simp add: sval_def)

lemma unat_word_of_int: "w' \<le> 64 \<Longrightarrow> unat (word_of_int i :: ulong) mod 2 ^ w' = nat (i mod 2 ^ w')"
proof -
  assume w: "w' \<le> 64"
  have "unat (word_of_int i :: ulong) = nat (i mod 2 ^ 64)" by (simp add: unsigned_of_int take_bit_int_def)
  then have "int (unat (word_of_int i :: ulong) mod 2 ^ w') = i mod 2 ^ 64 mod 2 ^ w'"
    by (simp add: zmod_int)
  also have "\<dots> = i mod 2 ^ w'" using w by (simp only: mod_mod_cancel le_imp_power_dvd)
  finally show ?thesis by simp
qed

lemma widened_signed: "w' \<le> 64 \<Longrightarrow> unat (widened signed_integer w y) mod 2 ^ w' = sext_nat w w' (unat y mod 2 ^ w)"
  by (simp add: widened_def sext_nat_def unat_word_of_int)

lemma widened_unsigned:
  "w \<le> w' \<Longrightarrow> c \<noteq> signed_integer \<Longrightarrow> unat (widened c w y) mod 2 ^ w' = unat y mod 2 ^ w mod 2 ^ w'"
  by (simp only: widened_def if_False nat_of_words(4))

lemma widened_same: "w \<le> 64 \<Longrightarrow> unat (widened c w y) mod 2 ^ w = unat y mod 2 ^ w"
  by (cases "c = signed_integer") (simp_all add: widened_signed widened_unsigned sext_nat_def sval_mod)

definition int_width :: "nat \<Rightarrow> bool" where
  "int_width w \<longleftrightarrow> w \<in> {8, 16, 32, 64}"

lemma does_bitcast_u:
  assumes pk: "inpkt b a A" and p: "dn b p t w f R" and t: "width t = w" and w: "int_width w"
  shows "does (insert_bitcast (utype w) p) (\<lambda>n b'. inpkt b' a A \<and> dn b' (val n) (utype w) w f R) b"
  unfolding insert_bitcast_def
proof (rule does_drop, rule does_value [OF pk])
  let ?t = "utype w"
  show "ctor_ok (cast_node Bitcast ?t p Fp_none) (b_heap b)"
    using p by (intro ctor_ok_unary inpkt_heap [OF pk]) (simp add: dn_def vport_def)
  show "cast_node Bitcast ?t p Fp_none (next_id (b_heap b)) (b_heap b) =
      Inr (place (next_id (b_heap b)) (mk_node ?t (Cast Bitcast ?t p Fp_none)) [p] (b_heap b))"
    using t dnD(2) [OF p] by (simp add: cast_node_def Let_def)
  fix a s
  show "\<exists>xs. list_all2 (\<lambda>p x. eval_port (b_heap b) a s p = Inr x) (operands (Cast Bitcast ?t p Fp_none)) xs
      \<and> materialise_value (mk_node ?t (Cast Bitcast ?t p Fp_none)) a s xs = Inr (Iv w (f a s))"
    using dnD(4) [OF p] w
    by (auto simp: ev_simps lo_cast_def lo_bitcast_def is_floating_point_def is_vector_def lwidth_def
        lbits_def int_width_def utype_def)
qed (use dnD(1,3) [OF p] in \<open>simp_all add: is_action_def\<close>)

lemma does_sx:
  assumes pk: "inpkt b a A" and p: "dn b p t w f R" and t: "width t = w" "tclass t = signed_integer"
    and w: "w < w'" "w' \<in> {16, 32, 64}"
  shows "does (insert_sx (mk_value_type signed_integer w' 1) p) (\<lambda>n b'. inpkt b' a A
    \<and> dn b' (val n) (mk_value_type signed_integer w' 1) w' (\<lambda>a s. sext_nat w w' (f a s)) R) b"
proof -
  let ?t = "mk_value_type signed_integer w' 1"
  have "does (create_and_insert (cast_node Sx ?t p Fp_none)) (\<lambda>n b'. inpkt b' a A
    \<and> dn b' (val n) ?t w' (\<lambda>a s. sext_nat w w' (f a s)) R) b"
  proof (rule does_drop, rule does_value [OF pk])
    show "ctor_ok (cast_node Sx ?t p Fp_none) (b_heap b)"
      using p by (intro ctor_ok_unary inpkt_heap [OF pk]) (simp add: dn_def vport_def)
    show "cast_node Sx ?t p Fp_none (next_id (b_heap b)) (b_heap b) =
      Inr (place (next_id (b_heap b)) (mk_node ?t (Cast Sx ?t p Fp_none)) [p] (b_heap b))"
      using t dnD(2) [OF p] by (simp add: cast_node_def Let_def)
    fix a s
    show "\<exists>xs. list_all2 (\<lambda>p x. eval_port (b_heap b) a s p = Inr x) (operands (Cast Sx ?t p Fp_none)) xs
      \<and> materialise_value (mk_node ?t (Cast Sx ?t p Fp_none)) a s xs = Inr (Iv w' (sext_nat w w' (f a s)))"
      using dnD(4) [OF p] w by (auto simp: ev_simps lo_cast_def lo_sx_def)
  qed (use dnD(1,3) [OF p] in \<open>simp_all add: is_action_def\<close>)
  then show ?thesis using dnD(2) [OF p] t w by (auto simp: insert_sx_def b_port_type_def does_def)
qed

text \<open>\<open>auto_cast\<close> to an unsigned type that is at least as wide.\<close>

lemma does_auto_cast:
  assumes pk: "inpkt b a A" and p: "dnv b (val n) t w F R" and t: "t = mk_value_type c w 1"
    and c: "c \<in> {signed_integer, unsigned_integer}" and w: "int_width w" "int_width w'" "w \<le> w'"
  shows "does (auto_cast (utype w') n) (\<lambda>m b'. inpkt b' a A
    \<and> dnv b' (val m) (utype w') w' (\<lambda>a s. widened c w (F a s)) R) b"
proof -
  have ty: "type_of_port (val n) b = Inr (t, b)" using p by (simp add: dn_def type_of_port_def)
  have tw: "width t = w" "tclass t = c" by (simp_all add: t)
  have w64: "w \<le> 64" "w' \<le> 64" using w by (auto simp: int_width_def)
  consider "w = w'" "c = unsigned_integer" | "w = w'" "c = signed_integer"
    | "w < w'" "c = unsigned_integer" | "w < w'" "c = signed_integer" using c w(3) by force
  then show ?thesis
  proof cases
    case 1
    have "does (ret n) (\<lambda>m b'. inpkt b' a A \<and> dnv b' (val m) (utype w') w' (\<lambda>a s. widened c w (F a s)) R) b"
      using pk p 1 t w64 by (intro does_ret) (simp add: widened_same utype_def)
    with 1 ty tw show ?thesis by (simp add: auto_cast_def does_def bnd_def [of "type_of_port (val n)"])
  next
    case 2
    have "does (insert_bitcast (utype w') (val n))
        (\<lambda>m b'. inpkt b' a A \<and> dnv b' (val m) (utype w') w' (\<lambda>a s. widened c w (F a s)) R) b"
      by (rule does_weaken_v, rule does_bitcast_u [OF pk, of "val n" t]) (use p 2 tw w w64 in \<open>auto simp: widened_same\<close>)
    with 2 ty tw show ?thesis by (simp add: auto_cast_def does_def bnd_def [of "type_of_port (val n)"])
  next
    case 3
    have zx: "does (insert_zx (utype w') (val n))
        (\<lambda>m b'. inpkt b' a A \<and> dnv b' (val m) (utype w') w' (\<lambda>a s. widened c w (F a s)) R) b"
    proof (rule does_weaken_v)
      show "does (insert_zx (utype w') (val n)) (\<lambda>m b'. inpkt b' a A
          \<and> dn b' (val m) (utype w') w' (\<lambda>a s. unat (F a s) mod 2 ^ w mod 2 ^ w') R) b"
        using does_zx [OF pk p, of "utype w'"] tw 3 w(2) by (auto simp: int_width_def)
    qed (use 3 w64 in \<open>simp_all add: widened_unsigned\<close>)
    with 3 ty tw show ?thesis
      by (auto simp: auto_cast_def does_def bnd_def utype_def ret_def)
  next
    case 4
    let ?s = "mk_value_type signed_integer w' 1"
    have w': "w' \<in> {16, 32, 64}" using w 4 by (auto simp: int_width_def)
    have "does (bnd (insert_sx ?s (val n)) (\<lambda>r. insert_bitcast (utype w') (val r)))
        (\<lambda>m b'. inpkt b' a A \<and> dnv b' (val m) (utype w') w' (\<lambda>a s. widened c w (F a s)) R) b"
    proof (rule does_bnd_dn [OF does_sx [OF pk p tw(1)]])
      fix m b' assume "inpkt b' a A" "dn b' (val m) ?s w' (\<lambda>a s. sext_nat w w' (unat (F a s) mod 2 ^ w)) R"
      then show "does (insert_bitcast (utype w') (val m))
        (\<lambda>m b'. inpkt b' a A \<and> dnv b' (val m) (utype w') w' (\<lambda>a s. widened c w (F a s)) R) b'"
        by (intro does_weaken_v [OF does_bitcast_u]) (use w w64 4 in \<open>auto simp: widened_signed\<close>)
    qed (use tw 4 w' in auto)
    with 4 ty tw show ?thesis
      by (simp add: auto_cast_def does_def bnd_def [of "type_of_port (val n)"])
  qed
qed

section \<open>Writing flags\<close>

definition set_flag :: "nat \<Rightarrow> bool \<Rightarrow> mstate \<Rightarrow> mstate" where
  "set_flag off c s = s\<lparr>m_regs := (m_regs s)(off := if c then 1 else 0)\<rparr>"

text \<open>A node whose value and flags are known.\<close>

definition flagged :: "builder \<Rightarrow> node_id \<Rightarrow> (port_kinds \<Rightarrow> ulong \<Rightarrow> mstate \<Rightarrow> bool) \<Rightarrow> place set \<Rightarrow> bool" where
  "flagged b n fl R \<longleftrightarrow>
     (\<exists>t op p q. nodes (b_heap b) n = Some (mk_node t (Binary_arith op p q)))
     \<and> (\<forall>k \<in> flag_ports. dn b (Port n k) u1 8 (\<lambda>a s. if fl k a s then 1 else 0) R)"

lemma flagged_trans:
  assumes e: "b_ext b b'" and pk: "inpkt b a A" and f: "flagged b n fl R"
  shows "flagged b' n fl R"
proof -
  obtain t op p q where n: "nodes (b_heap b) n = Some (mk_node t (Binary_arith op p q))"
    using f by (auto simp: flagged_def)
  then obtain nd' where nd': "nodes (b_heap b') n = Some nd'" "node_ext (mk_node t (Binary_arith op p q)) nd'"
    using b_ext_heap [OF e] unfolding heap_ext_def by blast
  have "nd' = mk_node t (Binary_arith op p q)"
    using node_ext_same [OF nd'(2)] by (simp add: mk_node_def)
  with nd'(1) f dn_trans [OF e pk] show ?thesis by (auto simp: flagged_def)
qed

lemma does_update_flag:
  assumes pk: "inpkt b a A" and f: "flagged b n fl R" and k: "k \<in> flag_ports" and off: "reg_ok off 8"
    and ks: "K_binary_arith \<in> ks"
    and E: "E = {} \<and> R' = R \<or> E = {val n} \<and> R' = {}"
  shows "does (write_flag off ks k c (Some n) Update) (\<lambda>_ b'. inpkt b' a
    (A @ [A_reg (Port n k) {val n} E off 8 (\<lambda>a s. if fl k a s then 1 else 0) R'])) b"
proof -
  obtain t op p q where n: "nodes (b_heap b) n = Some (mk_node t (Binary_arith op p q))"
    using f by (auto simp: flagged_def)
  have d: "dn b (Port n k) u1 8 (\<lambda>a s. if fl k a s then 1 else 0) R"
    using f k by (simp add: flagged_def)
  have v: "val n \<in> set (demands (b_heap b) (Port n k))"
    using n k demands_self [of "b_heap b" "val n"]
    by (auto simp: demands.simps [of _ "Port n k"] needs_value_def mk_node_def flag_ports_def)
  have r: "reads_except (b_heap b) (Port n k) E \<subseteq> R'" "present (b_heap b) E"
    using E dnD(3) [OF d] reads_except_flag [of "b_heap b" n k] n by (auto simp: present_def)
  have w: "does (write_reg off (Port n k)) (\<lambda>_ b'. inpkt b' a
    (A @ [A_reg (Port n k) {val n} E off 8 (\<lambda>a s. if fl k a s then 1 else 0) R'])) b"
    by (rule does_write_reg_forcing [OF pk off d _ r]) (simp add: v)
  have "does (andthen (write_reg off (Port n k)) (ret ())) (\<lambda>_ b'. inpkt b' a
    (A @ [A_reg (Port n k) {val n} E off 8 (\<lambda>a s. if fl k a s then 1 else 0) R'])) b"
    by (rule does_act [OF w]) (rule does_ret)
  with n ks show ?thesis
    by (simp add: write_flag_def update_flag_def does_def bnd_def [of "node_at n"] node_at_def mk_node_def)
qed

lemma does_const_flag:
  assumes pk: "inpkt b a A" and off: "reg_ok off 8" and c: "c \<in> {0, 1}"
  shows "does (const_flag off c) (\<lambda>_ b'. \<exists>q. inpkt b' a
    (A @ [A_reg q {q} {} off 8 (\<lambda>a s. if c = 1 then 1 else 0) {}])) b"
proof -
  have "does (insert_constant_i u1 c) (\<lambda>n b'. inpkt b' a A \<and> dn b' (val n) u1 8 (\<lambda>a s. if c = 1 then 1 else 0) {}) b"
    unfolding insert_constant_i_def
    by (rule does_constant [OF pk]) (use c in \<open>auto simp: u1_def lo_constant_def is_integer_def\<close>)
  then show ?thesis
    unfolding const_flag_def
    by (rule does_bnd_dn) (rule does_act, rule does_write_reg [OF _ off], assumption, assumption, rule does_ret, blast)
qed

section \<open>The operations\<close>

text \<open>Result, carry and overflow of the operation on \<open>w\<close>-bit operands, as the architecture defines
  them.\<close>

fun alu_result :: "binary_arith_op \<Rightarrow> nat \<Rightarrow> nat \<Rightarrow> nat \<Rightarrow> nat" where
  "alu_result B_add w x y = (x + y) mod 2 ^ w"
| "alu_result B_sub w x y = (x + (2 ^ w - y)) mod 2 ^ w"
| "alu_result B_band w x y = x AND y"
| "alu_result B_bor w x y = x OR y"
| "alu_result B_bxor w x y = x XOR y"
| "alu_result _ w x y = 0"

fun alu_carry :: "binary_arith_op \<Rightarrow> nat \<Rightarrow> nat \<Rightarrow> nat \<Rightarrow> bool" where
  "alu_carry B_add w x y = (x + y \<ge> 2 ^ w)"
| "alu_carry B_sub w x y = (x < y)"
| "alu_carry _ w x y = False"

fun alu_overflow :: "binary_arith_op \<Rightarrow> nat \<Rightarrow> nat \<Rightarrow> nat \<Rightarrow> bool" where
  "alu_overflow B_add w x y = (\<not> signed_fits w (sval w x + sval w y))"
| "alu_overflow B_sub w x y = (\<not> signed_fits w (sval w x - sval w y))"
| "alu_overflow _ w x y = False"

text \<open>The engine computes the overflow of a subtraction from the negated subtrahend; the smallest integer
  has no negation, and the flag comes out inverted.\<close>

definition overflow_inverted :: "binary_arith_op \<Rightarrow> nat \<Rightarrow> nat \<Rightarrow> bool" where
  "overflow_inverted op w y \<longleftrightarrow> op = B_sub \<and> y = 2 ^ (w - 1)"

definition alu_op :: "binary_arith_op \<Rightarrow> bool" where
  "alu_op op \<longleftrightarrow> op \<in> {B_add, B_sub, B_band, B_bor, B_bxor}"

text \<open>The value of a flag port of the node.\<close>

definition alu_flag :: "port_kinds \<Rightarrow> binary_arith_op \<Rightarrow> nat \<Rightarrow> nat \<Rightarrow> nat \<Rightarrow> bool" where
  "alu_flag k op w x y =
     (case k of
        P_zero \<Rightarrow> alu_result op w x y = 0
      | P_negative \<Rightarrow> sign_bit w (alu_result op w x y)
      | P_carry \<Rightarrow> alu_carry op w x y
      | P_overflow \<Rightarrow> alu_overflow op w x y \<noteq> overflow_inverted op w y
      | _ \<Rightarrow> False)"

lemma b8_eq: "b8 c = Iv 8 (if c then 1 else 0)"
  by (simp add: b8_def)

lemma alu_value:
  "alu_op op \<Longrightarrow> lo_binary_value op (Iv w x) (Iv w y) = Inr (Iv w (alu_result op w x y))"
  by (auto simp: alu_op_def lo_binary_same ladd_def lsub_def)

lemma alu_flags:
  assumes op: "alu_op op" and w: "0 < w" and x: "x < 2 ^ w" and y: "y < 2 ^ w" and k: "k \<in> flag_ports"
  shows "lo_binary_flag k op (Iv w x) (Iv w y) (Iv w (alu_result op w x y))
    = Inr (Iv 8 (if alu_flag k op w x y then 1 else 0))"
proof -
  have a: "(x + y) mod 2 ^ w = ladd w x y" by (simp add: ladd_def)
  have "lo_binary_carry op (Iv w x) (Iv w y) (Iv w (alu_result op w x y))
      = Inr (Iv 8 (if alu_carry op w x y then 1 else 0))"
    using op carry_spec [OF x y] by (auto simp: alu_op_def lo_binary_carry_def icmp_def b8_eq a)
  moreover have "lo_binary_overflow op (Iv w x) (Iv w y) (Iv w (alu_result op w x y))
      = Inr (Iv 8 (if alu_overflow op w x y \<noteq> overflow_inverted op w y then 1 else 0))"
  proof -
    consider "op = B_add" | "op = B_sub" | "op \<in> {B_band, B_bor, B_bxor}" using op by (auto simp: alu_op_def)
    then show ?thesis
    proof cases
      case 1
      show ?thesis
        unfolding 1 alu_result.simps alu_overflow.simps a add_overflow_spec(1) [OF w x y, symmetric]
        by (simp add: lo_binary_overflow_def b8_eq overflow_inverted_def)
    next
      case 2
      show ?thesis
        using sub_overflow_spec [OF w x y]
        by (simp add: 2 overflow_inverted_def lo_binary_overflow_def b8_eq Let_def)
    next
      case 3
      then show ?thesis by (auto simp: lo_binary_overflow_def overflow_inverted_def)
    qed
  qed
  moreover have "lo_binary_zero op (Iv w r) = Inr (Iv 8 (if r = 0 then 1 else 0))" for r
    using op by (auto simp: alu_op_def lo_binary_zero_def b8_eq)
  moreover have "lo_negative (Iv w r) = Inr (Iv 8 (if sign_bit w r then 1 else 0))" for r
    by (simp add: lo_negative_def slt_def sval_zero [OF w] sign_bit_def b8_eq)
  ultimately show ?thesis
    using k by (auto simp: flag_ports_def lo_binary_flag_def alu_flag_def)
qed

lemma does_alu:
  assumes pk: "inpkt b a A" and p: "dnv b p t w F R" and q: "dnv b q t' w G R'"
    and tt: "width t = width t'" and op: "alu_op op" and w: "0 < w"
  shows "does (create_and_insert (binary_arith_node op p q)) (\<lambda>n b'. inpkt b' a A
    \<and> dn b' (val n) t w (\<lambda>a s. alu_result op w (unat (F a s) mod 2 ^ w) (unat (G a s) mod 2 ^ w)) (R \<union> R')
    \<and> flagged b' n (\<lambda>k a s. alu_flag k op w (unat (F a s) mod 2 ^ w) (unat (G a s) mod 2 ^ w)) (R \<union> R')) b"
proof (rule does_weaken [OF does_binary [OF pk p q tt alu_value [OF op]]], elim conjE, intro conjI)
  fix n b'
  assume e: "b_ext b b'" and pk': "inpkt b' a A" and n: "nodes (b_heap b') n = Some (mk_node t (Binary_arith op p q))"
    and d: "dn b' (val n) t w (\<lambda>a s. alu_result op w (unat (F a s) mod 2 ^ w) (unat (G a s) mod 2 ^ w)) (R \<union> R')"
  show "flagged b' n (\<lambda>k a s. alu_flag k op w (unat (F a s) mod 2 ^ w) (unat (G a s) mod 2 ^ w)) (R \<union> R')"
    unfolding flagged_def
  proof (intro conjI ballI)
    show "\<exists>t op p q. nodes (b_heap b') n = Some (mk_node t (Binary_arith op p q))" using n by blast
    fix k assume k: "k \<in> flag_ports"
    show "dn b' (Port n k) u1 8
        (\<lambda>a s. if alu_flag k op w (unat (F a s) mod 2 ^ w) (unat (G a s) mod 2 ^ w) then 1 else 0) (R \<union> R')"
      by (rule dn_binary_flag [OF inpkt_heap [OF pk'] n dn_trans [OF e pk p] dn_trans [OF e pk q] d k])
         (rule alu_flags [OF op w _ _ k]; simp)
  qed
qed

section \<open>All flags of an operation\<close>

definition alu_flag_actions :: "node_id \<Rightarrow> port set \<Rightarrow> place set \<Rightarrow> (port_kinds \<Rightarrow> ulong \<Rightarrow> mstate \<Rightarrow> bool) \<Rightarrow> asem list" where
  "alu_flag_actions n E R fl =
     [A_reg (Port n P_zero) {val n} E off_ZF 8 (\<lambda>a s. if fl P_zero a s then 1 else 0) R,
      A_reg (Port n P_carry) {val n} {val n} off_CF 8 (\<lambda>a s. if fl P_carry a s then 1 else 0) {},
      A_reg (Port n P_overflow) {val n} {val n} off_OF 8 (\<lambda>a s. if fl P_overflow a s then 1 else 0) {},
      A_reg (Port n P_negative) {val n} {val n} off_SF 8 (\<lambda>a s. if fl P_negative a s then 1 else 0) {}]"

lemma does_write_flags:
  assumes pk: "inpkt b a A" and f: "flagged b n fl R" and E: "E = {} \<and> R' = R \<or> E = {val n} \<and> R' = {}"
  shows "does (write_flags (Some n) Update Update Update Update pf af)
    (\<lambda>_ b'. inpkt b' a (A @ alu_flag_actions n E R' fl)) b"
proof -
  have ks: "K_binary_arith \<in> insert K_bit_shift arith_kinds" "K_binary_arith \<in> carry_kinds"
      "{P_zero, P_negative, P_carry, P_overflow} \<subseteq> flag_ports"
    by (auto simp: arith_kinds_def carry_kinds_def flag_ports_def)
  have E': "{val n} = {} \<and> ({} :: place set) = R \<or> {val n} = {val n} \<and> ({} :: place set) = {}" by simp
  show ?thesis
    unfolding write_flags_def
    apply (rule does_act, rule does_update_flag [OF pk f _ reg_oks(1) ks(1) E], use ks(3) in simp)
    apply (rule does_act, rule does_update_flag [OF _ _ _ reg_oks(2) ks(2) E'], assumption,
        erule flagged_trans [OF _ pk f], use ks(3) in simp)
    apply (rule does_act, rule does_update_flag [OF _ _ _ reg_oks(3) ks(2) E'], assumption,
        erule flagged_trans, assumption, erule flagged_trans [OF _ pk f], use ks(3) in simp)
    apply (rule does_weaken, rule does_update_flag [OF _ _ _ reg_oks(4) ks(1) E'], assumption,
        erule flagged_trans, assumption, erule flagged_trans, assumption, erule flagged_trans [OF _ pk f], use ks(3) in simp)
    apply (simp add: alu_flag_actions_def)
    done
qed

section \<open>Destinations\<close>

definition dest_effect :: "xed_inst \<Rightarrow> nat \<Rightarrow> ulong \<Rightarrow> ulong \<Rightarrow> mstate \<Rightarrow> mstate \<Rightarrow> mstate" where
  "dest_effect x w y a s0 s =
     (if op_names x ! 0 = Op_MEM0
      then set_mem (effective_address x (x_mem x 0) a s0) (w div 8) (take_bit w y) s
      else (let r = op_reg x (op_names x ! 0) in set_reg (gpr_off r) (gpr_merge r w (reg64 s0 (gpr_off r)) y) s))"

definition writable :: "xed_inst \<Rightarrow> bool" where
  "writable x \<longleftrightarrow> mem_dest x 0 \<or> (\<exists>r. gpr_dest x 0 r)"

text \<open>One action whose effect is the architecture's write of the low \<open>w\<close> bits of \<open>F\<close>.\<close>

definition dest_action :: "xed_inst \<Rightarrow> nat \<Rightarrow> port \<Rightarrow> (ulong \<Rightarrow> mstate \<Rightarrow> ulong) \<Rightarrow> asem \<Rightarrow> bool" where
  "dest_action x w p F X \<longleftrightarrow> asem_forces X = {p} \<and> asem_except X = {} \<and> pc_type X = Br_none \<and> asem_fits X
     \<and> (\<forall>a s0 s. apply_asem a s0 X s = dest_effect x w (F a s0) a s0 s)"

lemma does_write_dest:
  assumes pk: "inpkt b a A" and d: "writable x" and p: "dnv b p t w F R" and w: "int_width w"
    and t: "width t = w" "tclass t \<noteq> floating_point"
  shows "does (write_operand x 0 p) (\<lambda>_ b'. \<exists>X. dest_action x w p F X \<and> inpkt b' a (A @ [X])) b"
proof -
  consider (mem) "mem_dest x 0" | (reg) r where "gpr_dest x 0 r" using d by (auto simp: writable_def)
  then show ?thesis
  proof cases
    case mem
    show ?thesis
    proof (rule does_weaken [OF does_write_dest_mem [OF pk mem p]])
      fix n b' assume "inpkt b' a (A @ [A_mem p {p} {} (\<lambda>a s. unat (effective_address x (x_mem x 0) a s)) w
          (\<lambda>a s. unat (F a s) mod 2 ^ w) (address_places (x_mem x 0) \<union> R)])"
      with mem show "\<exists>X. dest_action x w p F X \<and> inpkt b' a (A @ [X])"
        by (intro exI conjI) (auto simp: dest_action_def dest_effect_def mem_dest_def set_mem_def nat_of_words(4))
    qed
  next
    case (reg r)
    then have r: "op_names x ! 0 \<noteq> Op_MEM0" "op_reg x (op_names x ! 0) = r" "x_gpr r < 16"
      by (auto simp: gpr_dest_def)
    have w': "w \<in> {8, 16, 32, 64}" using w by (simp add: int_width_def)
    show ?thesis
    proof (rule does_weaken [OF does_write_dest_reg [OF pk reg p w' t]])
      fix n b' assume "wrote b' a A p (gpr_off r) (\<lambda>a s. unat (gpr_merge r w (reg64 s (gpr_off r)) (F a s)))
          (insert (L_reg (gpr_off r)) R)"
      then obtain q R' where "inpkt b' a (A @ [A_reg q {p} {} (gpr_off r) 64
          (\<lambda>a s. unat (gpr_merge r w (reg64 s (gpr_off r)) (F a s))) R'])" by (auto simp: wrote_def)
      with r reg_ok_fits [OF reg_ok_gpr_off [OF r(3)], of 64]
      show "\<exists>X. dest_action x w p F X \<and> inpkt b' a (A @ [X])"
        by (intro exI conjI) (auto simp: dest_action_def dest_effect_def set_reg_def Let_def)
    qed
  qed
qed

section \<open>The instructions\<close>

definition alu_table :: "(string \<times> binary_arith_op) list" where
  "alu_table = [(''ADD'', B_add), (''SUB'', B_sub), (''CMP'', B_sub), (''AND'', B_band), (''TEST'', B_band),
     (''OR'', B_bor), (''XOR'', B_bxor)]"

definition alu_effect :: "binary_arith_op \<Rightarrow> nat \<Rightarrow> nat \<Rightarrow> nat \<Rightarrow> mstate \<Rightarrow> mstate" where
  "alu_effect op w x y s =
     set_flag off_SF (alu_flag P_negative op w x y) (set_flag off_OF (alu_flag P_overflow op w x y)
     (set_flag off_CF (alu_flag P_carry op w x y) (set_flag off_ZF (alu_flag P_zero op w x y) s)))"

text \<open>The flags of the architecture.\<close>

definition arch_flags :: "binary_arith_op \<Rightarrow> nat \<Rightarrow> nat \<Rightarrow> nat \<Rightarrow> mstate \<Rightarrow> mstate" where
  "arch_flags op w x y s =
     set_flag off_SF (sign_bit w (alu_result op w x y)) (set_flag off_OF (alu_overflow op w x y)
     (set_flag off_CF (alu_carry op w x y) (set_flag off_ZF (alu_result op w x y = 0) s)))"

lemma alu_effect_arch:
  "alu_effect op w x y s =
     (if overflow_inverted op w y then set_flag off_OF (\<not> alu_overflow op w x y) (arch_flags op w x y s)
      else arch_flags op w x y s)"
  by (auto simp: alu_effect_def arch_flags_def alu_flag_def set_flag_def reg_offset_defs fun_upd_twist)

text \<open>The operands of an instruction of \<open>w\<close> bits: the second is extended to the width of the first.\<close>

definition alu_lhs :: "xed_inst \<Rightarrow> ulong \<Rightarrow> mstate \<Rightarrow> nat" where
  "alu_lhs x a s = unat (operand_value x 0 a s) mod 2 ^ width (operand_type x 0)"

definition alu_rhs :: "xed_inst \<Rightarrow> ulong \<Rightarrow> mstate \<Rightarrow> nat" where
  "alu_rhs x a s = unat (widened (tclass (operand_type x 1)) (width (operand_type x 1)) (operand_value x 1 a s))
     mod 2 ^ width (operand_type x 0)"

lemma alu_result_less:
  assumes "alu_op op" and "x < 2 ^ w" and "y < 2 ^ w"
  shows "alu_result op w x y < 2 ^ w"
proof -
  have t: "take_bit w x = x" "take_bit w y = y" using assms(2,3) by (simp_all add: take_bit_nat_eq_self)
  have "x AND y < 2 ^ w" "x OR y < 2 ^ w" "x XOR y < 2 ^ w"
    using take_bit_and [of w x y] take_bit_or [of w x y] take_bit_xor [of w x y] unfolding t
    by (metis take_bit_nat_less_exp)+
  with assms(1) show ?thesis by (auto simp: alu_op_def)
qed

lemma alu_table_facts:
  assumes "map_of alu_table (iclass x) = Some op"
  shows "get_translator (iclass x) = TR_binop" "iclass x \<notin> set noop_classes" "binop_own x = None" "alu_op op"
    "binop_result x = (\<lambda>op0 op1. create_and_insert (binary_arith_node op (val op0) (val op1)))"
    "binop_flags x = (\<lambda>n. if op \<in> {B_add, B_sub} then write_flags (Some n) Update Update Update Update Update Update
        else write_flags (Some n) Update Set0 Set0 Update Update Ignore)"
proof -
  have t: "get_translator ''ADD'' = TR_binop" "get_translator ''SUB'' = TR_binop" "get_translator ''CMP'' = TR_binop"
    "get_translator ''AND'' = TR_binop" "get_translator ''TEST'' = TR_binop" "get_translator ''OR'' = TR_binop"
    "get_translator ''XOR'' = TR_binop"
    by code_simp+
  have c: "(iclass x, op) \<in> set alu_table" using assms by (rule map_of_SomeD)
  show "get_translator (iclass x) = TR_binop" using c t by (auto simp: alu_table_def)
  show "iclass x \<notin> set noop_classes" using c by (auto simp: alu_table_def noop_classes_def)
  show "binop_own x = None" using c by (auto simp: alu_table_def binop_own_def)
  show "alu_op op" using c by (auto simp: alu_table_def alu_op_def)
  show "binop_result x = (\<lambda>op0 op1. create_and_insert (binary_arith_node op (val op0) (val op1)))"
    using c by (auto simp: alu_table_def binop_result_def fun_eq_iff insert_add_def insert_sub_def
        insert_and_def insert_or_def insert_xor_def)
  show "binop_flags x = (\<lambda>n. if op \<in> {B_add, B_sub} then write_flags (Some n) Update Update Update Update Update Update
        else write_flags (Some n) Update Set0 Set0 Update Update Ignore)"
    using c by (auto simp: alu_table_def binop_flags_def fun_eq_iff)
qed

lemma does_write_logic_flags:
  assumes pk: "inpkt b a A" and f: "flagged b n fl R" and E: "E = {} \<and> R' = R \<or> E = {val n} \<and> R' = {}"
  shows "does (write_flags (Some n) Update Set0 Set0 Update pf af)
    (\<lambda>_ b'. \<exists>q q'. inpkt b' a (A @
      [A_reg (Port n P_zero) {val n} E off_ZF 8 (\<lambda>a s. if fl P_zero a s then 1 else 0) R',
       A_reg q {q} {} off_CF 8 (\<lambda>a s. if (0 :: ulong) = 1 then 1 else 0) {},
       A_reg q' {q'} {} off_OF 8 (\<lambda>a s. if (0 :: ulong) = 1 then 1 else 0) {},
       A_reg (Port n P_negative) {val n} {val n} off_SF 8 (\<lambda>a s. if fl P_negative a s then 1 else 0) {}])) b"
proof -
  have ks: "K_binary_arith \<in> insert K_bit_shift arith_kinds" "{P_zero, P_negative} \<subseteq> flag_ports" "(0 :: ulong) \<in> {0, 1}"
    by (auto simp: arith_kinds_def flag_ports_def)
  have E': "{val n} = {} \<and> ({} :: place set) = R \<or> {val n} = {val n} \<and> ({} :: place set) = {}" by simp
  have s0: "write_flag off k p c op Set0 = const_flag off 0" for off k p c op by (simp add: write_flag_def)
  show ?thesis
    unfolding write_flags_def s0
    apply (rule does_act, rule does_update_flag [OF pk f _ reg_oks(1) ks(1) E], use ks(2) in simp)
    apply (rule does_andthen, rule does_const_flag [OF _ reg_oks(2) ks(3)], assumption, elim exE)
    apply (rule does_andthen, rule does_const_flag [OF _ reg_oks(3) ks(3)], assumption, elim exE)
    apply (rule does_weaken, rule does_update_flag [OF _ _ _ reg_oks(4) ks(1) E'], assumption,
        erule flagged_trans, assumption, erule flagged_trans, assumption, erule flagged_trans [OF _ pk f], use ks(2) in simp)
    apply (intro exI, simp only: append_assoc append_Cons append_Nil)
    done
qed

text \<open>Both variants of the flags, after the destination has been written or not.\<close>

lemma does_alu_flags:
  assumes pk: "inpkt b a A" and f: "flagged b n (\<lambda>k a s. alu_flag k op w (X a s) (Y a s)) R" and op: "alu_op op"
    and A: "A = [] \<or> A = [D] \<and> asem_forces D = {val n} \<and> asem_except D = {} \<and> pc_type D = Br_none \<and> asem_fits D"
    and R: "L_reg ` {off_ZF, off_CF, off_OF, off_SF} \<inter> R = {}"
  shows "does (if op \<in> {B_add, B_sub} then write_flags (Some n) Update Update Update Update Update Update
        else write_flags (Some n) Update Set0 Set0 Update Update Ignore)
    (\<lambda>_. yields TRes_normal a (\<lambda>s. alu_effect op w (X a s) (Y a s) (apply_all a s A s))) b"
proof -
  define E where "E = (if A = [] then {} else {val n})"
  define R' where "R' = (if A = [] then R else {})"
  have E: "E = {} \<and> R' = R \<or> E = {val n} \<and> R' = {}" by (auto simp: E_def R'_def)
  have off: "off_ZF \<noteq> off_CF" "off_ZF \<noteq> off_OF" "off_ZF \<noteq> off_SF" "off_CF \<noteq> off_OF" "off_CF \<noteq> off_SF" "off_OF \<noteq> off_SF"
    by (simp_all add: reg_offset_defs)
  have al: "reg_alloca_width off_ZF = Some 8" "reg_alloca_width off_CF = Some 8"
      "reg_alloca_width off_OF = Some 8" "reg_alloca_width off_SF = Some 8"
    using reg_oks by (simp_all add: reg_ok_def)
  have y: "yields TRes_normal a (\<lambda>s. alu_effect op w (X a s) (Y a s) (apply_all a s A s)) b'"
    if "inpkt b' a (A @ [A_reg p1 {val n} E off_ZF 8 (\<lambda>a s. if alu_flag P_zero op w (X a s) (Y a s) then 1 else 0) R',
         A_reg p2 D2 E2 off_CF 8 (\<lambda>a s. if alu_flag P_carry op w (X a s) (Y a s) then 1 else 0) {},
         A_reg p3 D3 E3 off_OF 8 (\<lambda>a s. if alu_flag P_overflow op w (X a s) (Y a s) then 1 else 0) {},
         A_reg p4 D4 E4 off_SF 8 (\<lambda>a s. if alu_flag P_negative op w (X a s) (Y a s) then 1 else 0) {}])"
      "E2 \<subseteq> {val n}" "E3 \<subseteq> {val n}" "E4 \<subseteq> {val n}" for b' p1 p2 p3 p4 D2 D3 D4 E2 E3 E4
    unfolding yields_def
    by (intro exI conjI, rule that(1))
       (use that A R off al in \<open>auto simp: E_def R'_def alu_effect_def set_flag_def\<close>)
  show ?thesis
  proof (cases "op \<in> {B_add, B_sub}")
    case True
    have "does (write_flags (Some n) Update Update Update Update Update Update)
        (\<lambda>_. yields TRes_normal a (\<lambda>s. alu_effect op w (X a s) (Y a s) (apply_all a s A s))) b"
      by (rule does_weaken [OF does_write_flags [OF pk f E]]) (rule y, simp only: alu_flag_actions_def, (rule subset_refl)+)
    with True show ?thesis by simp
  next
    case False
    then have z: "alu_flag P_carry op w u v' = False" "alu_flag P_overflow op w u v' = False" for u v'
      using op by (auto simp: alu_op_def alu_flag_def overflow_inverted_def)
    have "does (write_flags (Some n) Update Set0 Set0 Update Update Ignore)
        (\<lambda>_. yields TRes_normal a (\<lambda>s. alu_effect op w (X a s) (Y a s) (apply_all a s A s))) b"
      by (rule does_weaken [OF does_write_logic_flags [OF pk f E]]) (elim exE, rule y [where ?E2.0 = "{}" and ?E3.0 = "{}" and ?E4.0 = "{val n}"], simp_all add: z)
    with False show ?thesis by simp
  qed
qed

text \<open>The operands of the supported forms: a register or memory destination of 8 to 64 bits and a
  second operand that is not wider.\<close>

definition alu_operands :: "xed_inst \<Rightarrow> bool" where
  "alu_operands x \<longleftrightarrow> writable x \<and> readable x 0 \<and> readable x 1
     \<and> width (operand_type x 1) \<le> width (operand_type x 0)"

lemma readable_type:
  assumes "readable x n"
  shows "int_width (width (operand_type x n))" "\<exists>c \<in> {signed_integer, unsigned_integer}.
    operand_type x n = mk_value_type c (width (operand_type x n)) 1"
  using assms by (cases "op_names x ! n"; force simp: readable_def operand_type_def int_width_def gpr_operand_def
      utype_def u64_def)+

lemma writable_type:
  assumes "writable x" and "readable x 0"
  shows "operand_type x 0 = utype (width (operand_type x 0))"
  using assms by (cases "op_names x ! 0") (auto simp: writable_def mem_dest_def gpr_dest_def operand_type_def)

lemma operand_places_flags:
  assumes "readable x n"
  shows "L_reg ` {off_ZF, off_CF, off_OF, off_SF} \<inter> operand_places x n = {}"
proof -
  define Fs where "Fs = L_reg ` {off_ZF, off_CF, off_OF, off_SF}"
  have g: "L_reg (gpr_off r) \<notin> Fs" if "x_gpr r < 16" for r
    using that by (auto simp: gpr_off_def reg_offset_defs Fs_def)
  have sg: "L_reg off_FS \<notin> Fs" "L_reg off_GS \<notin> Fs" by (auto simp: reg_offset_defs Fs_def)
  have m: "Fs \<inter> address_places m = {}" if ad: "addressable m" for m
  proof -
    have "(\<exists>r. x_gpr r < 16 \<and> l = L_reg (gpr_off r)) \<or> l = L_reg off_FS \<or> l = L_reg off_GS"
      if "l \<in> address_places m" for l
      using that ad by (auto simp: address_places_def addressable_def addr_reg_def split: option.splits if_splits)
    with g sg show ?thesis by blast
  qed
  have L_mem: "L_mem \<notin> Fs" by (auto simp: Fs_def)
  show ?thesis
    unfolding Fs_def [symmetric]
    using assms m [of "x_mem x 0"]
    by (cases "op_names x ! n") (simp_all add: readable_def gpr_operand_def operand_places_def g L_mem)
qed

lemma alu_meaning:
  assumes c: "map_of alu_table (iclass x) = Some op" and ops: "alu_operands x"
  shows "executes x TRes_normal (\<lambda>a s. alu_effect op (width (operand_type x 0)) (alu_lhs x a s) (alu_rhs x a s)
    (if iclass x \<in> {''CMP'', ''TEST''} then s
     else dest_effect x (width (operand_type x 0))
            (of_nat (alu_result op (width (operand_type x 0)) (alu_lhs x a s) (alu_rhs x a s))) a s s))"
  (is "executes x _ ?F")
proof (rule executesI)
  fix b a assume b: "inpkt b a []"
  let ?w = "width (operand_type x 0)" and ?t1 = "operand_type x 1"
  let ?r = "\<lambda>a s. alu_result op ?w (alu_lhs x a s) (alu_rhs x a s)"
  let ?R = "operand_places x 0 \<union> operand_places x 1"
  note facts = alu_table_facts [OF c]
  have rd: "readable x 0" "readable x 1" "writable x" "width ?t1 \<le> ?w" using ops by (simp_all add: alu_operands_def)
  have w: "int_width ?w" "int_width (width ?t1)" "0 < ?w" "?w \<le> 64"
    using readable_type(1) [OF rd(1)] readable_type(1) [OF rd(2)] by (auto simp: int_width_def)
  obtain k where k: "k \<in> {signed_integer, unsigned_integer}" "?t1 = mk_value_type k (width ?t1) 1"
    using readable_type(2) [OF rd(2)] by blast
  then have kt: "tclass ?t1 = k" by (metis mk_value_type_sel(1))
  have t0: "operand_type x 0 = utype ?w" by (rule writable_type [OF rd(3,1)])
  have rl: "?r a s < 2 ^ ?w" for a s
    by (rule alu_result_less [OF facts(4)]) (simp_all add: alu_lhs_def alu_rhs_def)
  have rw: "?r a s = unat (of_nat (?r a s) :: ulong) mod 2 ^ ?w" for a s
  proof -
    have "?r a s mod 2 ^ 64 mod 2 ^ ?w = ?r a s" using rl [of a s] w(4) by (simp only: mod_mod_cancel le_imp_power_dvd mod_less)
    then show ?thesis by (simp add: unat_of_nat)
  qed
  have tail: "does (andthen (if iclass x \<in> {''CMP'', ''TEST''} then ret ()
                  else andthen (write_operand x 0 (val n)) (ret ())) (binop_flags x n))
      (\<lambda>_. yields TRes_normal a (?F a)) b1"
    if b1: "inpkt b1 a []" and n: "dn b1 (val n) (operand_type x 0) ?w ?r ?R"
      and f: "flagged b1 n (\<lambda>k a s. alu_flag k op ?w (alu_lhs x a s) (alu_rhs x a s)) ?R" for b1 n
  proof -
    have R: "L_reg ` {off_ZF, off_CF, off_OF, off_SF} \<inter> ?R = {}"
      using operand_places_flags [OF rd(1)] operand_places_flags [OF rd(2)] by (simp add: Int_Un_distrib)
    show ?thesis
    proof (cases "iclass x \<in> {''CMP'', ''TEST''}")
      case True
      have "does (binop_flags x n) (\<lambda>_. yields TRes_normal a (?F a)) b1"
        using does_alu_flags [OF b1 f facts(4) _ R] True unfolding facts(6) by simp
      then have "does (andthen (ret ()) (binop_flags x n)) (\<lambda>_. yields TRes_normal a (?F a)) b1"
        by (simp add: does_def andthen_def bnd_def ret_def)
      with True show ?thesis by (simp only: if_True)
    next
      case False
      have n': "dnv b1 (val n) (operand_type x 0) ?w (\<lambda>a s. of_nat (?r a s)) ?R"
        using n by (rule dn_cong) (rule rw)
      have cl: "tclass (operand_type x 0) \<noteq> floating_point" by (subst t0) simp
      have "does (andthen (andthen (write_operand x 0 (val n)) (ret ())) (binop_flags x n))
          (\<lambda>_. yields TRes_normal a (?F a)) b1"
      proof (rule does_andthen)
        show "does (andthen (write_operand x 0 (val n)) (ret ())) (\<lambda>_ b'. \<exists>X. dest_action x ?w (val n)
            (\<lambda>a s. of_nat (?r a s)) X \<and> inpkt b' a [X]) b1"
          by (rule does_andthen, rule does_write_dest [OF b1 rd(3) n' w(1) refl cl]) (rule does_ret, simp)
        fix u b2 assume e: "b_ext b1 b2" and "\<exists>X. dest_action x ?w (val n) (\<lambda>a s. of_nat (?r a s)) X \<and> inpkt b2 a [X]"
        then obtain X where X: "dest_action x ?w (val n) (\<lambda>a s. of_nat (?r a s)) X" "inpkt b2 a [X]" by blast
        have "apply_all a s [X] s = dest_effect x ?w (of_nat (?r a s)) a s s" for s
          using X(1) by (simp add: dest_action_def)
        with does_alu_flags [OF X(2) flagged_trans [OF e b1 f] facts(4) _ R, of X] X(1) False
        show "does (binop_flags x n) (\<lambda>_. yields TRes_normal a (?F a)) b2"
          unfolding facts(6) by (simp add: dest_action_def)
      qed
      with False show ?thesis by (simp only: if_False)
    qed
  qed
  have "does (bnd (read_operand x 0) (\<lambda>op0. bnd (type_of_port (val op0)) (\<lambda>ty.
      bnd (read_operand x 1) (\<lambda>op1r. bnd (auto_cast ty op1r) (\<lambda>op1.
      bnd (binop_result x op0 op1) (\<lambda>rslt.
        andthen (if iclass x \<in> {''CMP'', ''TEST''} then ret ()
                  else andthen (write_operand x 0 (val rslt)) (ret ()))
         (binop_flags x rslt))))))) (\<lambda>_. yields TRes_normal a (?F a)) b"
  proof (rule does_bnd_dn [OF does_read_operand [OF b rd(1)]])
    fix op0 b1
    assume b1: "inpkt b1 a []" and p: "dnv b1 (val op0) (operand_type x 0) ?w (operand_value x 0) (operand_places x 0)"
    have ty: "type_of_port (val op0) b1 = Inr (utype ?w, b1)" using p t0 by (simp add: dn_def type_of_port_def)
    have "does (bnd (read_operand x 1) (\<lambda>op1r. bnd (auto_cast (utype ?w) op1r) (\<lambda>op1.
      bnd (binop_result x op0 op1) (\<lambda>rslt.
        andthen (if iclass x \<in> {''CMP'', ''TEST''} then ret ()
                  else andthen (write_operand x 0 (val rslt)) (ret ()))
         (binop_flags x rslt))))) (\<lambda>_. yields TRes_normal a (?F a)) b1"
    proof (rule does_bnd_dn [OF does_read_operand [OF b1 rd(2)]], rule does_bnd_dn,
        rule does_auto_cast [OF _ _ k(2,1) w(2,1) rd(4)], assumption, assumption)
      fix op1r b2 op1 b3
      assume e: "b_ext b1 b2" "b_ext b2 b3" and b2: "inpkt b2 a []" and b3: "inpkt b3 a []"
        and q: "dnv b3 (val op1) (utype ?w) ?w (\<lambda>a s. widened k (width ?t1) (operand_value x 1 a s)) (operand_places x 1)"
      have p3: "dnv b3 (val op0) (operand_type x 0) ?w (operand_value x 0) (operand_places x 0)"
        by (rule dn_trans [OF e(2) b2 dn_trans [OF e(1) b1 p]])
      show "does (bnd (binop_result x op0 op1) (\<lambda>rslt. andthen (if iclass x \<in> {''CMP'', ''TEST''} then ret ()
                  else andthen (write_operand x 0 (val rslt)) (ret ())) (binop_flags x rslt)))
          (\<lambda>_. yields TRes_normal a (?F a)) b3"
        unfolding facts(5)
        by (rule does_bnd [OF does_alu [OF b3 p3 q _ facts(4) w(3)]], simp, elim conjE, rule tail)
           (simp_all only: alu_lhs_def alu_rhs_def kt)
    qed
    with ty show "does (bnd (type_of_port (val op0)) (\<lambda>ty. bnd (read_operand x 1) (\<lambda>op1r. bnd (auto_cast ty op1r) (\<lambda>op1.
      bnd (binop_result x op0 op1) (\<lambda>rslt.
        andthen (if iclass x \<in> {''CMP'', ''TEST''} then ret ()
                  else andthen (write_operand x 0 (val rslt)) (ret ()))
         (binop_flags x rslt)))))) (\<lambda>_. yields TRes_normal a (?F a)) b1"
      by (simp only: does_def bnd_def [of "type_of_port (val op0)"] sum.case prod.case)
  qed
  then show "does (do_translate x) (\<lambda>_. yields TRes_normal a (?F a)) b"
    by (simp only: do_translate_def facts(1) translator_class.case binop_translate_def facts(3) option.case)
qed (rule alu_table_facts(2) [OF c])


end
