(* ===== verification/X86_Blocks.thy ===== *)
theory X86_Blocks
  imports X86_Execution Sample_Inputs
begin

text \<open>
  From instructions to blocks: a packet that was built keeps its meaning while the heap grows,
  so the packets of a chunk run one after the other do what the instructions do one after
  the other.
\<close>

section \<open>Packets in a growing heap\<close>

lemma lower_port_ext:
    "wf_heap h \<Longrightarrow> heap_ext h h' \<Longrightarrow> nodes h (powner p) \<noteq> None \<Longrightarrow>
     lower_port h' addr s p env = lower_port h addr s p env"
  and lower_list_ext:
    "wf_heap h \<Longrightarrow> heap_ext h h' \<Longrightarrow> \<forall>p \<in> set ps. nodes h (powner p) \<noteq> None \<Longrightarrow>
     lower_list h' addr s n ps env = lower_list h addr s n ps env"
proof (induction h addr s p env and h addr s n ps env rule: lower_port_lower_list.induct)
  case (1 h addr s p env)
  show ?case
  proof (cases "env p")
    case (Some x)
    then show ?thesis by (simp add: lower_port.simps)
  next
    case None
    obtain n where n: "nodes h (powner p) = Some n" using 1(5) by auto
    with 1(4) obtain n' where n': "nodes h' (powner p) = Some n'" "node_ext n n'"
      by (auto simp: heap_ext_def)
    have ops: "\<forall>q \<in> set (operands (n_data n)). nodes h (powner q) \<noteq> None"
      using wf_heap_operand [OF 1(3) n] by blast
    have l: "needs_operands (n_data n) (pkind p) \<Longrightarrow>
        lower_list h' addr s (powner p) (operands (n_data n)) env
        = lower_list h addr s (powner p) (operands (n_data n)) env"
      using 1(1) [OF None n _ 1(3,4) ops] by simp
    have vv: "pkind p \<noteq> P_value \<Longrightarrow> needs_value (n_data n) (pkind p) \<Longrightarrow>
        (if needs_operands (n_data n) (pkind p)
         then lower_list h addr s (powner p) (operands (n_data n)) env else Inr ([], env)) = Inr (xs, env1) \<Longrightarrow>
        lower_port h' addr s (val (powner p)) env1 = lower_port h addr s (val (powner p)) env1" for xs env1
      using 1(2) [OF None n _ _ _ _ 1(3,4)] n by simp
    show ?thesis
      using None n n' l vv
      by (auto simp: lower_port.simps [of _ addr s p env] needs_ext [OF n'(2)] materialise_ext [OF n'(2)]
          node_ext_operands [OF n'(2)] split: sum.split prod.split)
  qed
next
  case (3 h addr s n p ps env)
  then show ?case
    by (cases "powner p < n") (auto simp: lower_list.simps split: sum.split prod.split)
qed (simp add: lower_list.simps)

lemma wf_heap_valid_port:
  "wf_heap h \<Longrightarrow> nodes h n = Some nd \<Longrightarrow> p \<in> set (operands (n_data nd)) \<Longrightarrow> valid_port h p"
  unfolding wf_heap_def wf_node_def by blast

lemma lower_action_jump:
  "kind d \<in> {K_label, K_br, K_cond_br} \<Longrightarrow> lower_action h d xs s =
     (if kind d = K_label \<and> xs = [] then Inr s else Inl (Runtime_error ''lower_node: unsupported node kind''))"
  by (cases d; cases xs) (simp_all add: lower_action_def)

lemma exec_action_ext:
  assumes wf: "wf_heap h" and e: "heap_ext h h'" and a: "nodes h a \<noteq> None"
  shows "exec_action h' addr a se = exec_action h addr a se"
proof -
  obtain n where n: "nodes h a = Some n" using a by auto
  with e obtain n' where n': "nodes h' a = Some n'" "node_ext n n'" by (auto simp: heap_ext_def)
  have ops: "\<forall>q \<in> set (operands (n_data n)). nodes h (powner q) \<noteq> None"
    using wf_heap_operand [OF wf n] by blast
  have l: "lower_list h' addr (fst se) a (operands (n_data n')) (snd se)
      = lower_list h addr (fst se) a (operands (n_data n)) (snd se)"
    using lower_list_ext [OF wf e ops] by (simp add: node_ext_operands [OF n'(2)])
  have la: "lower_action h' (n_data n') xs s = lower_action h (n_data n) xs s" for xs s
  proof (cases "kind (n_data n) \<in> {K_label, K_br, K_cond_br}")
    case True
    with node_ext_kind [OF n'(2)] show ?thesis by (simp only: lower_action_jump)
  next
    case False
    have nn: "n' = n" using node_ext_same [OF n'(2) False] .
    have "port_type h' p = port_type h p" if "p \<in> set (operands (n_data n))" for p
      using wf_heap_valid_port [OF wf n that] port_type_ext [OF _ e] by blast
    then show ?thesis unfolding nn
      by (cases "n_data n"; cases xs; cases "tl xs") (auto simp: lower_action_def)
  qed
  show ?thesis using n n' l la by (auto simp: exec_action_def split: sum.split prod.split)
qed

lemma exec_actions_ext:
  assumes "wf_heap h" and "heap_ext h h'" and "\<forall>a \<in> set as. nodes h a \<noteq> None"
  shows "exec_actions h' addr as se = exec_actions h addr as se"
  using assms(3) by (induction as arbitrary: se) (simp_all add: exec_action_ext [OF assms(1,2)] split: sum.split)

lemma exec_packet_ext:
  assumes "wf_builder b" and "p \<in> builder_packets b" and "heap_ext (b_heap b) h'"
  shows "exec_packet h' p s = exec_packet (b_heap b) p s"
proof -
  have "\<forall>a \<in> set (actions p). nodes (b_heap b) a \<noteq> None"
    using assms(1,2) by (auto simp: wf_builder_def actions_ok_def node_is_action_def split: option.splits)
  then show ?thesis
    using exec_actions_ext [OF wf_builder_heap [OF assms(1)] assms(3)] by (simp add: exec_packet_def)
qed

lemma exec_packets_ext:
  assumes "wf_builder b" and "set ps \<subseteq> builder_packets b" and "heap_ext (b_heap b) h'"
  shows "exec_packets h' ps s = exec_packets (b_heap b) ps s"
  using assms(2)
proof (induction ps arbitrary: s)
  case (Cons p ps)
  then have p: "p \<in> builder_packets b" "set ps \<subseteq> builder_packets b" by auto
  show ?case
    by (simp add: exec_packet_ext [OF assms(1) p(1) assms(3)] Cons.IH [OF p(2)] split: sum.split)
qed simp

lemma exec_packets_append:
  "exec_packets h (ps @ qs) s = (case exec_packets h ps s of Inl e \<Rightarrow> Inl e | Inr s' \<Rightarrow> exec_packets h qs s')"
  by (induction ps arbitrary: s) (simp_all split: sum.split)

section \<open>Blocks\<close>

type_synonym insn = "xed_inst \<times> (ulong \<Rightarrow> mstate \<Rightarrow> mstate)"

text \<open>The decoder's answers from an offset on, the bytes they take, and the effect of the
  instructions one after the other.\<close>

fun decodes :: "decoder \<Rightarrow> nat \<Rightarrow> insn list \<Rightarrow> bool" where
  "decodes dec off [] = True"
| "decodes dec off ((x, F) # xs) =
     (dec off = Some x \<and> inst_len x \<noteq> 0 \<and> decodes dec (off + unat (inst_len x)) xs)"

fun block_size :: "insn list \<Rightarrow> nat" where
  "block_size [] = 0"
| "block_size ((x, F) # xs) = unat (inst_len x) + block_size xs"

fun block_effect :: "ulong \<Rightarrow> insn list \<Rightarrow> mstate \<Rightarrow> mstate" where
  "block_effect a [] s = s"
| "block_effect a ((x, F) # xs) s = block_effect (a + of_nat (unat (inst_len x))) xs (F a s)"

definition straight :: "insn list \<Rightarrow> bool" where
  "straight xs \<longleftrightarrow> (\<forall>(x, F) \<in> set xs. executes x TRes_normal F)"

text \<open>Between packets, with \<open>ps\<close> in the chunk, and what \<open>ps\<close> does.\<close>

definition built :: "string \<Rightarrow> builder \<Rightarrow> packet list \<Rightarrow> (mstate \<Rightarrow> mstate) \<Rightarrow> bool" where
  "built nm b ps G \<longleftrightarrow> between nm ps b \<and> allocator b \<and> (\<forall>s. exec_packets (b_heap b) ps s = Inr (G s))"

lemma built_snoc:
  assumes "built nm b ps G" and "between nm (ps @ [p]) b'" and "allocator b'"
    and "heap_ext (b_heap b) (b_heap b')" and "\<And>s. exec_packet (b_heap b') p s = Inr (H s)"
  shows "built nm b' (ps @ [p]) (\<lambda>s. H (G s))"
proof -
  have "wf_builder b" "set ps \<subseteq> builder_packets b"
    using assms(1) by (auto simp: built_def between_def builder_packets_def)
  with assms exec_packets_ext [OF this assms(4)] show ?thesis
    by (simp add: built_def exec_packets_append)
qed

lemma translate_built:
  assumes "built nm b ps G" and "executes x r F"
  obtains b' p where "translate a x d b = Inr (r, b')" and "built nm b' (ps @ [p]) (\<lambda>s. F a (G s))"
proof -
  have b: "between nm ps b" "allocator b" using assms(1) by (simp_all add: built_def)
  obtain b' p where t: "translate a x d b = Inr (r, b')" "between nm (ps @ [p]) b'" "allocator b'"
      "heap_ext (b_heap b) (b_heap b')" "\<And>s. exec_packet (b_heap b') p s = Inr (F a s)"
    using assms(2) b unfolding executes_def by metis
  from built_snoc [OF assms(1) t(2-5)] t(1) show thesis by (intro that)
qed

lemma loop_straight:
  assumes "built nm b ps G" and "decodes dec off xs" and "straight xs" and "off + block_size xs \<le> sz"
  shows "\<exists>b' ps' d'. translate_loop dec dis dbg bb sz off a d r b
      = translate_loop dec dis dbg bb sz (off + block_size xs) (a + of_nat (block_size xs)) d'
          (if xs = [] then r else Some TRes_normal) b'
    \<and> built nm b' ps' (\<lambda>s. block_effect a xs (G s))"
  using assms
proof (induction xs arbitrary: b ps G off a d r)
  case Nil
  then show ?case by auto
next
  case (Cons xF xs)
  obtain x F where xF: "xF = (x, F)" by (cases xF)
  have dec: "dec off = Some x" "unat (inst_len x) \<noteq> 0" "off < sz"
    using Cons.prems(2,4) unat_gt_0 [of "inst_len x"] by (auto simp: xF unat_eq_0)
  define d1 where "d1 = (if dbg then dis a x else d)"
  have ex: "executes x TRes_normal F" using Cons.prems(3) by (simp add: straight_def xF)
  obtain b1 p where t: "translate a x d1 b = Inr (TRes_normal, b1)" "built nm b1 (ps @ [p]) (\<lambda>s. F a (G s))"
    using translate_built [OF Cons.prems(1) ex] .
  have step: "translate_loop dec dis dbg bb sz off a d r b
      = translate_loop dec dis dbg bb sz (off + unat (inst_len x)) (a + of_nat (unat (inst_len x))) d1
          (Some TRes_normal) b1"
    using dec t(1) by (simp add: translate_loop.simps [of dec dis dbg bb sz off] Let_def d1_def bnd_def)
  have prems: "decodes dec (off + unat (inst_len x)) xs" "straight xs"
      "off + unat (inst_len x) + block_size xs \<le> sz"
    using Cons.prems(2-4) by (simp_all add: xF straight_def add.assoc)
  obtain b' ps' d' where "translate_loop dec dis dbg bb sz (off + unat (inst_len x)) (a + of_nat (unat (inst_len x))) d1
          (Some TRes_normal) b1
      = translate_loop dec dis dbg bb sz (off + unat (inst_len x) + block_size xs)
          (a + of_nat (unat (inst_len x)) + of_nat (block_size xs)) d'
          (if xs = [] then Some TRes_normal else Some TRes_normal) b'"
    "built nm b' ps' (\<lambda>s. block_effect (a + of_nat (unat (inst_len x))) xs (F a (G s)))"
    using Cons.IH [OF t(2) prems] by blast
  with step show ?case
    by (intro exI [of _ b'] exI [of _ ps'] exI [of _ d']) (simp add: xF add.assoc)
qed

section \<open>The chunk of a block\<close>

definition set_pc :: "ulong \<Rightarrow> mstate \<Rightarrow> mstate" where
  "set_pc a s = s\<lparr>m_regs := (m_regs s)(off_PC := unat a)\<rparr>"

lemma initial_built:
  obtains b where "begin_chunk nm (initial_builder g) = Inr ((), b)" and "built nm b [] (\<lambda>s. s)"
proof -
  let ?b = "(initial_builder g)\<lparr>allocator := True, current_chunk := Some \<lparr>c_name = nm, packets = []\<rparr>\<rparr>"
  have bc: "begin_chunk nm (initial_builder g) = Inr ((), ?b)"
    by (simp add: begin_chunk_def Let_def initial_builder_def)
  have "wf_builder ?b" using holdsD [OF begin_chunk_wf [OF wf_initial_builder] bc] by simp
  then have "built nm ?b [] (\<lambda>s. s)"
    by (simp add: built_def between_def initial_builder_def)
  with bc that show thesis by blast
qed

lemma end_chunk_built:
  assumes "built nm b ps G"
  obtains b' where "end_chunk b = Inr ((), b')" and "b_heap b' = b_heap b"
    and "current_chunk b' = Some \<lparr>c_name = nm, packets = ps\<rparr>"
  using assms that [of "b\<lparr>allocator := False, chunk_complete := True\<rparr>"]
  by (simp add: built_def between_def end_chunk_def Let_def)

lemma continue_at_built:
  assumes "built nm b ps G"
  obtains b' p where "continue_at a b = Inr ((), b')" and "built nm b' (ps @ [p]) (\<lambda>s. set_pc a (G s))"
proof -
  have b: "between nm ps b" "allocator b" using assms by (simp_all add: built_def)
  let ?b = "b\<lparr>current_pkt := Some (mk_packet 0 [])\<rparr>"
  have c: "current_chunk b = Some \<lparr>c_name = nm, packets = ps\<rparr>" "\<not> chunk_complete b"
      "current_pkt b = None" "wf_builder b"
    using b by (simp_all add: between_def)
  have bp: "begin_packet 0 [] b = Inr ((), ?b)" using c by (simp add: begin_packet_def)
  have "wf_builder ?b" using holdsD [OF begin_packet_between [OF b(1)] bp] by (simp add: inside_def)
  then have pk: "inpkt ?b 0 []" using b(2) c by (simp add: inpkt_def mk_packet_def)
  have "does (bnd (insert_constant_u64 a) (\<lambda>c. andthen (insert_write_pc (val c) Br_br 0) (ret ())))
      (\<lambda>_. yields TRes_end_of_block 0 (set_pc a)) ?b"
    by (rule does_bnd_dn [OF does_constant_u64 [OF pk]], rule does_act, rule does_write_pc, assumption,
        assumption, rule does_end, assumption) (simp_all add: set_pc_def)
  then obtain b1 where b1: "bnd (insert_constant_u64 a) (\<lambda>c. andthen (insert_write_pc (val c) Br_br 0) (ret ())) ?b
      = Inr ((), b1)" "b_ext ?b b1" "yields TRes_end_of_block 0 (set_pc a) b1"
    by (auto simp: does_def)
  obtain As where As: "inpkt b1 0 As" "hazard_free {} {} As" "\<And>s. apply_all 0 s As s = set_pc a s"
    using b1(3) by (auto simp: yields_def)
  obtain P where P: "current_pkt b1 = Some P" "\<And>s. exec_packet (b_heap b1) P s = Inr (apply_all 0 s As s)"
    by (rule exec_packet_asem [OF As(1,2)]) (erule that, simp)
  have c1: "current_chunk b1 = Some \<lparr>c_name = nm, packets = ps\<rparr>" "\<not> chunk_complete b1" "allocator b1"
    using b1(2) As(1) c by (simp_all add: b_ext_def inpkt_def)
  let ?b' = "b1\<lparr>current_chunk := Some (add_packet P \<lparr>c_name = nm, packets = ps\<rparr>), current_pkt := None\<rparr>"
  have t: "continue_at a b = Inr ((), ?b')"
  proof -
    let ?m = "bnd (insert_constant_u64 a) (\<lambda>c. andthen (insert_write_pc (val c) Br_br 0) (ret ()))"
    have "continue_at a = andthen (begin_packet 0 []) (andthen ?m (andthen end_packet (ret ())))"
      by (simp add: continue_at_def bnd_def andthen_def ret_def fun_eq_iff split: sum.split prod.split)
    then show ?thesis
      using bp b1(1) P(1) c1 by (simp add: andthen_def bnd_def [of "begin_packet 0 []"] bnd_def [of "bnd m k" for m k]
          bnd_def [of end_packet] end_packet_def ret_def)
  qed
  obtain p where "between nm (ps @ [p]) ?b'" "heap_ext (b_heap b) (b_heap ?b')"
    using holdsD [OF continue_at_holds [OF b(1)] t] by auto
  then have "between nm (ps @ [P]) ?b'" "heap_ext (b_heap b) (b_heap ?b')"
    by (auto simp: between_def add_packet_def)
  with built_snoc [OF assms this(1) _ this(2)] c1 P(2) As(3) have "built nm ?b' (ps @ [P]) (\<lambda>s. set_pc a (G s))" by simp
  with t show thesis by (rule that)
qed

text \<open>C5: the chunk of a straight-line block runs the instructions one after the other and
  continues at the address behind them.\<close>

theorem straight_block_executes:
  assumes "decodes dec 0 xs" and "straight xs" and "xs \<noteq> []"
  shows "\<exists>b c. translate_chunk dec dis dbg base (block_size xs) bb nm (initial_builder g) = Inr ((), b)
    \<and> current_chunk b = Some c
    \<and> (\<forall>s. exec_packets (b_heap b) (packets c) s
            = Inr (set_pc (base + of_nat (block_size xs)) (block_effect base xs s)))"
proof -
  let ?n = "block_size xs" and ?stop = "base + of_nat (block_size xs)"
  obtain b0 where b0: "begin_chunk nm (initial_builder g) = Inr ((), b0)" "built nm b0 [] (\<lambda>s. s)"
    by (rule initial_built)
  obtain b1 ps d' where b1: "translate_loop dec dis dbg bb ?n 0 base [] None b0
      = translate_loop dec dis dbg bb ?n ?n ?stop d' (Some TRes_normal) b1"
      "built nm b1 ps (\<lambda>s. block_effect base xs s)"
    using loop_straight [OF b0(2) assms(1,2), of ?n dis dbg bb base "[]" None] assms(3) by auto
  obtain b2 p where b2: "continue_at ?stop b1 = Inr ((), b2)"
      "built nm b2 (ps @ [p]) (\<lambda>s. set_pc ?stop (block_effect base xs s))"
    using b1(2) by (rule continue_at_built)
  obtain b3 where b3: "end_chunk b2 = Inr ((), b3)" "b_heap b3 = b_heap b2"
      "current_chunk b3 = Some \<lparr>c_name = nm, packets = ps @ [p]\<rparr>"
    using b2(2) by (rule end_chunk_built)
  have "translate_loop dec dis dbg bb ?n 0 base [] None b0 = Inr ((?stop, Some TRes_normal), b1)"
    unfolding b1(1) by (simp add: translate_loop.simps [of dec dis dbg bb ?n ?n] ret_def)
  then have "translate_chunk dec dis dbg base ?n bb nm (initial_builder g) = Inr ((), b3)"
    using b0(1) b2(1) b3(1) by (simp add: translate_chunk_def andthen_def bnd_def)
  moreover have "exec_packets (b_heap b3) (ps @ [p]) s = Inr (set_pc ?stop (block_effect base xs s))" for s
    using b2(2) by (simp add: b3(2) built_def)
  ultimately show ?thesis using b3(3) by (intro exI [of _ b3] exI) auto
qed

text \<open>C2: a basic block ends at its first branch, with the branch's effect; what follows in the
  code is not translated.\<close>

theorem basic_block_executes:
  assumes "decodes dec 0 (xs @ [(y, G)])" and "straight xs" and "executes y TRes_end_of_block G"
    and "block_size xs < sz"
  shows "\<exists>b c. translate_chunk dec dis dbg base sz True nm (initial_builder g) = Inr ((), b)
    \<and> current_chunk b = Some c
    \<and> (\<forall>s. exec_packets (b_heap b) (packets c) s
            = Inr (G (base + of_nat (block_size xs)) (block_effect base xs s)))"
proof -
  let ?n = "block_size xs" and ?stop = "base + of_nat (block_size xs)"
  have dec: "decodes dec off (us @ [(y, G)]) \<Longrightarrow> decodes dec off us \<and> dec (off + block_size us) = Some y
      \<and> inst_len y \<noteq> 0" for us off
    by (induction dec off us rule: decodes.induct) (simp_all add: add.assoc)
  note dec = dec [OF assms(1)]
  obtain b0 where b0: "begin_chunk nm (initial_builder g) = Inr ((), b0)" "built nm b0 [] (\<lambda>s. s)"
    by (rule initial_built)
  obtain b1 ps d' where b1: "translate_loop dec dis dbg True sz 0 base [] None b0
      = translate_loop dec dis dbg True sz ?n ?stop d' (if xs = [] then None else Some TRes_normal) b1"
      "built nm b1 ps (\<lambda>s. block_effect base xs s)"
    using loop_straight [OF b0(2) _ assms(2), of dec 0 sz dis dbg True base "[]" None] dec assms(4) by auto
  obtain b2 p where b2: "translate ?stop y (if dbg then dis ?stop y else d') b1 = Inr (TRes_end_of_block, b2)"
      "built nm b2 (ps @ [p]) (\<lambda>s. G ?stop (block_effect base xs s))"
    using b1(2) assms(3) by (rule translate_built)
  obtain b3 where b3: "end_chunk b2 = Inr ((), b3)" "b_heap b3 = b_heap b2"
      "current_chunk b3 = Some \<lparr>c_name = nm, packets = ps @ [p]\<rparr>"
    using b2(2) by (rule end_chunk_built)
  have "translate_loop dec dis dbg True sz 0 base [] None b0 = Inr ((?stop, Some TRes_end_of_block), b2)"
    unfolding b1(1) using dec assms(4) b2(1)
    by (simp add: translate_loop.simps [of dec dis dbg True sz ?n] Let_def bnd_def ret_def unat_eq_0)
  then have "translate_chunk dec dis dbg base sz True nm (initial_builder g) = Inr ((), b3)"
    using b0(1) b3(1) by (simp add: translate_chunk_def andthen_def bnd_def ret_def)
  moreover have "exec_packets (b_heap b3) (ps @ [p]) s = Inr (G ?stop (block_effect base xs s))" for s
    using b2(2) by (simp add: b3(2) built_def)
  ultimately show ?thesis using b3(3) by (intro exI [of _ b3] exI) auto
qed

end
