(* ===== verification/X86_Execution_Theorems.thy ===== *)
theory X86_Execution_Theorems
  imports X86_Binop_Meaning X86_Blocks
begin

text \<open>
  The execution theorems of the translated control-flow and stack instructions.
\<close>

lemma class_of_table:
  assumes "list_all (\<lambda>e. get_translator (fst e) = c \<and> fst e \<notin> set noop_classes) tab" and "map_of tab ic = Some y"
  shows "get_translator ic = c" "ic \<notin> set noop_classes"
  using assms by (force simp: list_all_iff dest: map_of_SomeD)+

lemma cond_classes:
  "list_all (\<lambda>e. get_translator (fst e) = TR_jcc \<and> fst e \<notin> set noop_classes) jcc_table"
  "list_all (\<lambda>e. get_translator (fst e) = TR_setcc \<and> fst e \<notin> set noop_classes) setcc_table"
  by code_simp+

lemmas jcc_class = class_of_table [OF cond_classes(1)]
lemmas setcc_class = class_of_table [OF cond_classes(2)]

lemma stack_classes:
  "get_translator ''PUSH'' = TR_stack" "get_translator ''POP'' = TR_stack" "get_translator ''LEAVE'' = TR_stack"
  "get_translator ''RET_NEAR'' = TR_branch" "get_translator ''CALL_NEAR'' = TR_branch"
  "get_translator ''JMP'' = TR_branch" "get_translator ''LEA'' = TR_mov"
  "set noop_classes \<inter> {''PUSH'', ''POP'', ''LEAVE'', ''RET_NEAR'', ''CALL_NEAR'', ''JMP'', ''LEA''} = {}"
  by code_simp+

lemma off_distinct: "off_RSP \<noteq> off_PC" "off_PC \<noteq> off_RSP" "off_RBP \<noteq> off_RSP" "off_RSP \<noteq> off_RBP"
  "gpr_off r \<noteq> off_PC"
  by (simp_all add: reg_offset_defs gpr_off_def)

lemma alloca_width [simp]:
  "reg_alloca_width off_RSP = Some 64" "reg_alloca_width off_RBP = Some 64"
  "reg_alloca_width off_ZF = Some 8" "reg_alloca_width off_CF = Some 8"
  "reg_alloca_width off_OF = Some 8" "reg_alloca_width off_SF = Some 8"
  "x_gpr r < 16 \<Longrightarrow> reg_alloca_width (gpr_off r) = Some 64"
  using reg_oks reg_ok_gpr_off [of r] by (simp_all add: reg_ok_def)

text \<open>C7: a conditional jump goes to the address of the next instruction, plus its displacement
  when the condition holds.\<close>

theorem jcc_executes:
  assumes "map_of jcc_table (iclass x) = Some ct"
  shows "executes x TRes_end_of_block (\<lambda>a s. set_reg off_PC
    (a + ucast (inst_len x) + (if cond_holds ct s then branch_disp x else 0)) s)"
  apply (rule executesI)
   apply (simp only: do_translate_def jcc_class [OF assms] translator_class.case jcc_translate_def assms option.case)
   apply ((assumption | rule w_rules does_compute_cond does_end | erule dn_trans)+)
    apply (simp_all add: set_reg_def branch_target_def ac_simps)
  by (rule jcc_class [OF assms])


lemma jcc_executes_witness:
  "executes (relbr ''JZ'' 0x10) TRes_end_of_block
     (\<lambda>a s. set_reg off_PC (a + 2 + (if flag_set s off_ZF then 0x10 else 0)) s)"
proof -
  have "map_of jcc_table (iclass (relbr ''JZ'' 0x10)) = Some C_z" by code_simp
  moreover have "branch_disp (relbr ''JZ'' 0x10) = 0x10" "inst_len (relbr ''JZ'' 0x10) = 2"
    by (simp_all add: relbr_def instr_def)
  ultimately show ?thesis using jcc_executes [of "relbr ''JZ'' 0x10" C_z] by (simp cong: if_cong)
qed

text \<open>C14: SETcc writes 0 or 1 to the byte register.\<close>

theorem setcc_executes:
  assumes "map_of setcc_table (iclass x) = Some ct" and "gpr_dest x 0 r"
  shows "executes x TRes_normal (\<lambda>a s. set_reg (gpr_off r)
    (gpr_merge r 8 (reg64 s (gpr_off r)) (if cond_holds ct s then 1 else 0)) s)"
  (is "executes x _ ?F")
proof (rule executesI)
  fix b a assume b: "inpkt b a []"
  have zx: "does (insert_zx u8 p) (\<lambda>n b'. inpkt b' a [] \<and> dnv b' (val n) u8 8
      (\<lambda>a s. if cond_holds ct s then 1 else 0) flag_places) b'"
    if "inpkt b' a []" "dn b' p u1 1 (\<lambda>a s. if cond_holds ct s then 1 else 0) flag_places" for b' p
  proof -
    have "width u1 \<noteq> width u8" "width u8 = 8" by (simp_all add: u1_def u8_def)
    with does_zx [OF that this(1)]
    have "does (insert_zx u8 p) (\<lambda>n b'. inpkt b' a [] \<and> dn b' (val n) u8 8
        (\<lambda>a s. (if cond_holds ct s then 1 else 0) mod 2 ^ 8) flag_places) b'" by simp
    then show ?thesis by (rule does_weaken_v) auto
  qed
  show "does (do_translate x) (\<lambda>_. yields TRes_normal a (?F a)) b"
    unfolding do_translate_def setcc_class(1) [OF assms(1)] translator_class.case setcc_translate_def assms(1) option.case
    apply (rule does_bnd_dn [OF does_compute_cond [OF b]], rule does_bnd_dn, rule zx, assumption, assumption)
    apply (rule does_andthen, rule does_write_dest_reg [OF _ assms(2)], assumption, assumption)
    by (auto simp: wrote_def u8_def set_reg_def assms(2) [unfolded gpr_dest_def] intro!: does_end)
qed (rule setcc_class [OF assms(1)])


lemma setcc_executes_witness:
  "executes (reg_reg ''SETZ'' (gpr 3 8) (gpr 3 8)) TRes_normal (\<lambda>a s. set_reg off_RBX
     (merge_bits 0 8 (reg64 s off_RBX) (if flag_set s off_ZF then 1 else 0)) s)"
proof -
  have c: "map_of setcc_table (iclass (reg_reg ''SETZ'' (gpr 3 8) (gpr 3 8))) = Some C_z" by code_simp
  have d: "gpr_dest (reg_reg ''SETZ'' (gpr 3 8) (gpr 3 8)) 0 (gpr 3 8)"
    by (simp add: gpr_dest_def reg_reg_def instr_def gpr_def)
  have "gpr_off (gpr 3 8) = off_RBX" "x_low8 (gpr 3 8)" by (simp_all add: gpr_off_def gpr_def reg_offset_defs)
  with setcc_executes [OF c d] show ?thesis by (simp add: gpr_merge_def)
qed

text \<open>C11: PUSH stores its operand below the stack pointer and moves the stack pointer by 8.\<close>

theorem push_executes:
  assumes "iclass x = ''PUSH''" and "readable x 0"
  shows "executes x TRes_normal (\<lambda>a s. set_reg off_RSP (reg64 s off_RSP - 8)
    (set_mem (reg64 s off_RSP - 8) (width (operand_type x 0) div 8)
      (take_bit (width (operand_type x 0)) (operand_value x 0 a s)) s))"
  apply (rule executesI)
   apply (simp only: do_translate_def assms(1) stack_classes translator_class.case stack_translate_def push_translate_def simp_thms if_True)
   apply ((assumption | rule w_rules reg_oks does_read_operand [OF _ assms(2)] does_end | erule dn_trans)+)
      apply (simp_all add: set_reg_def set_mem_def nat_of_words(4))
  by (simp add: assms stack_classes noop_classes_def)


lemma push_executes_witness:
  "executes (reg_reg ''PUSH'' (gpr 3 64) (gpr 3 64)) TRes_normal
     (\<lambda>a s. set_reg off_RSP (reg64 s off_RSP - 8)
       (set_mem (reg64 s off_RSP - 8) 8 (take_bit 64 (reg64 s off_RBX)) s))"
proof -
  let ?x = "reg_reg ''PUSH'' (gpr 3 64) (gpr 3 64)"
  have c: "iclass ?x = ''PUSH''" by (simp add: reg_reg_def instr_def)
  have r: "readable ?x 0" by (simp add: readable_def reg_reg_def instr_def gpr_def gpr_operand_def)
  have "width (operand_type ?x 0) = 64" "operand_value ?x 0 a s = reg64 s off_RBX" for a s
    by (simp_all add: operand_type_def operand_value_def reg_reg_def instr_def gpr_def gpr_off_def reg_offset_defs)
  with push_executes [OF c r] show ?thesis by simp
qed

text \<open>A sum of a value that has been evaluated and a constant reads nothing.\<close>

lemma w_add_evaluated:
  assumes pk: "inpkt b a A" and p: "dnw b p F R" and q: "dnw b q G {}"
  shows "does (insert_add p q) (\<lambda>n b'. inpkt b' a A \<and> dnw b' (val n) (\<lambda>a s. F a s + G a s) R
    \<and> reads_except (b_heap b') (val n) {p} \<subseteq> {}) b"
  unfolding insert_add_def
proof (rule does_weaken [OF does_binary [OF assms, where r = "\<lambda>a s. unat (F a s + G a s)" and op = B_add and wr = 64]])
  fix n b'
  assume e: "b_ext b b'" and n: "inpkt b' a A \<and> dn b' (val n) u64 64 (\<lambda>a s. unat (F a s + G a s)) (R \<union> {})
    \<and> nodes (b_heap b') n = Some (mk_node u64 (Binary_arith B_add p q))"
  have "reads_except (b_heap b') (val n) {p} \<subseteq> reads_except (b_heap b') q {p}"
    using reads_except_value [OF inpkt_heap, of b' a A n _ "{p}"] n reads_except_forced [of p "{p}"]
    by (fastforce simp: mk_node_def)
  also have "\<dots> \<subseteq> {}" using reads_except_subset dnD(3) [OF dn_trans [OF e pk q]] by blast
  finally show "inpkt b' a A \<and> dnw b' (val n) (\<lambda>a s. F a s + G a s) R
    \<and> reads_except (b_heap b') (val n) {p} \<subseteq> {}" using n by simp
qed (simp_all add: lo_binary_same ladd_words)

lemma does_pop_rsp:
  assumes b: "inpkt b a []" and sp: "dnw b sp (\<lambda>a s. reg64 s off_RSP) {L_reg off_RSP}"
    and m: "dnw b m (\<lambda>a s. load64 s (reg64 s off_RSP)) R" and d: "sp \<in> set (demands (b_heap b) m)"
  shows "does (andthen (write_reg off_RSP m) (bnd (insert_constant_u64 8) (\<lambda>c8.
      bnd (insert_add sp (val c8)) (\<lambda>new_rsp. andthen (write_reg off_RSP (val new_rsp)) (ret ())))))
    (\<lambda>_. yields TRes_normal a (\<lambda>s. set_reg off_RSP (reg64 s off_RSP + 8) s)) b"
proof (rule does_act)
  let ?A1 = "A_reg m {sp} {} off_RSP 64 (\<lambda>a s. unat (load64 s (reg64 s off_RSP))) R"
  show "does (write_reg off_RSP m) (\<lambda>n b'. inpkt b' a ([] @ [?A1])) b"
    using d dnD(3) [OF m] by (intro does_write_reg_forcing [OF b reg_oks(7) m]) simp_all
  fix b1 assume e1: "b_ext b b1" and b1: "inpkt b1 a ([] @ [?A1])"
  note sp1 = dn_trans [OF e1 b sp]
  show "does (bnd (insert_constant_u64 8) (\<lambda>c8. bnd (insert_add sp (val c8)) (\<lambda>new_rsp.
      andthen (write_reg off_RSP (val new_rsp)) (ret ()))))
    (\<lambda>_. yields TRes_normal a (\<lambda>s. set_reg off_RSP (reg64 s off_RSP + 8) s)) b1"
  proof (rule does_bnd_dn [OF does_constant_u64 [OF b1]])
    fix c8 b2 assume e2: "b_ext b1 b2" and b2: "inpkt b2 a ([] @ [?A1])" and c: "dnw b2 (val c8) (\<lambda>a s. 8) {}"
    note sp2 = dn_trans [OF e2 b1 sp1]
    show "does (bnd (insert_add sp (val c8)) (\<lambda>new_rsp. andthen (write_reg off_RSP (val new_rsp)) (ret ())))
      (\<lambda>_. yields TRes_normal a (\<lambda>s. set_reg off_RSP (reg64 s off_RSP + 8) s)) b2"
    proof (rule does_bnd [OF w_add_evaluated [OF b2 sp2 c]], elim conjE)
      fix n b3
      let ?A2 = "A_reg (val n) {} {sp} off_RSP 64 (\<lambda>a s. unat (reg64 s off_RSP + 8)) {}"
      assume e3: "b_ext b2 b3" and b3: "inpkt b3 a ([] @ [?A1])"
        and n: "dnw b3 (val n) (\<lambda>a s. reg64 s off_RSP + 8) {L_reg off_RSP}"
        and r: "reads_except (b_heap b3) (val n) {sp} \<subseteq> {}"
      show "does (andthen (write_reg off_RSP (val n)) (ret ()))
        (\<lambda>_. yields TRes_normal a (\<lambda>s. set_reg off_RSP (reg64 s off_RSP + 8) s)) b3"
      proof (rule does_act)
        show "does (write_reg off_RSP (val n)) (\<lambda>n b'. inpkt b' a (([] @ [?A1]) @ [?A2])) b3"
          using r dn_present [OF dn_trans [OF e3 b2 sp2]] by (intro does_write_reg_forcing [OF b3 reg_oks(7) n]) simp_all
      qed (rule does_end, assumption, simp_all add: set_reg_def)
    qed
  qed
qed

lemma write_gpr_u64:
  assumes "gpr_dest x n r" and "dnw b p F R"
  shows "write_operand x n p b = write_reg (gpr_off r) p b"
proof -
  have "n < length (op_names x)" "x_class r = RC_gpr" using assms(1) by (simp_all add: gpr_dest_def)
  moreover have "type_of_port p b = Inr (u64, b)" using assms(2) by (simp add: dn_def type_of_port_def)
  ultimately show ?thesis
    using write_operand_cases(1) [OF _ assms(1)]
    by (simp add: write_gpr_def write_xreg_def xedreg_to_offset_def gpr_off_def lift_res_def bnd_def u64_def)
qed

lemma w_read_mem_forcing:
  assumes "inpkt b a A" and "dnw b p F R"
  shows "does (insert_read_mem u64 p) (\<lambda>n b'. inpkt b' a A
    \<and> dnw b' (val n) (\<lambda>a s. load64 s (F a s)) (insert L_mem R) \<and> p \<in> set (demands (b_heap b') (val n))) b"
  using does_forcing [OF does_read_mem_node [OF assms, of u64], of p] by (simp add: unat_load64)

lemma pop_other:
  assumes "iclass x = ''POP''" and "gpr_dest x 0 r" and "gpr_off r \<noteq> off_RSP" and b: "inpkt b a []"
  shows "does (pop_translate x) (\<lambda>_. yields TRes_normal a (\<lambda>s. set_reg off_RSP (reg64 s off_RSP + 8)
    (set_reg (gpr_off r) (load64 s (reg64 s off_RSP)) s))) b"
  unfolding pop_translate_def
  apply (rule does_bnd_dn [OF w_read_reg [OF b reg_oks(7)]], rule does_bnd_dn, rule w_read_mem, assumption, assumption)
  apply (rule does_andthen, rule does_write_dest_reg [OF _ assms(2), where w = 64], assumption)
      apply (subst mod_word, assumption)
     apply (simp_all only: wrote_def, simp_all, elim exE conjE)
  apply ((assumption | rule w_rules reg_oks does_end | erule dn_trans)+)
     apply (use assms in \<open>auto simp: gpr_merge_def set_reg_def off_distinct gpr_dest_def\<close>)
  done

lemma pop_stack_pointer:
  assumes "gpr_dest x 0 r" and r: "gpr_off r = off_RSP" and b: "inpkt b a []"
  shows "does (pop_translate x) (\<lambda>_. yields TRes_normal a (\<lambda>s. set_reg off_RSP (reg64 s off_RSP + 8) s)) b"
  unfolding pop_translate_def
proof (rule does_bnd_dn [OF w_read_reg [OF b reg_oks(7)]])
  fix sp b1 assume e1: "b_ext b b1" and b1: "inpkt b1 a []" and sp: "dnw b1 (val sp) (\<lambda>a s. reg64 s off_RSP) {L_reg off_RSP}"
  let ?K = "\<lambda>m. bnd (insert_constant_u64 8) (\<lambda>c8. bnd (insert_add (val sp) (val c8)) (\<lambda>new_rsp.
    andthen (write_reg off_RSP (val new_rsp)) (ret ())))"
  show "does (bnd (insert_read_mem u64 (val sp)) (\<lambda>m. andthen (write_operand x 0 (val m)) (?K m)))
    (\<lambda>_. yields TRes_normal a (\<lambda>s. set_reg off_RSP (reg64 s off_RSP + 8) s)) b1"
  proof (rule does_bnd [OF w_read_mem_forcing [OF b1 sp]], elim conjE)
    fix m b2 assume e2: "b_ext b1 b2" and b2: "inpkt b2 a []"
      and m: "dnw b2 (val m) (\<lambda>a s. load64 s (reg64 s off_RSP)) {L_mem, L_reg off_RSP}"
      and d: "val sp \<in> set (demands (b_heap b2) (val m))"
    have "andthen (write_operand x 0 (val m)) (?K m) b2 = andthen (write_reg off_RSP (val m)) (?K m) b2"
      using write_gpr_u64 [OF assms(1) m] r by (simp add: andthen_def bnd_def)
    then show "does (andthen (write_operand x 0 (val m)) (?K m))
        (\<lambda>_. yields TRes_normal a (\<lambda>s. set_reg off_RSP (reg64 s off_RSP + 8) s)) b2"
      using does_pop_rsp [OF b2 dn_trans [OF e2 b1 sp] m d] unfolding does_def by (simp only: )
  qed
qed

text \<open>C12: POP loads the 64-bit register of its operand from the top of the stack, then sets the stack pointer
  to the value it had before plus 8, so that POP of RSP leaves that sum and not the loaded value.\<close>

theorem pop_executes:
  assumes "iclass x = ''POP''" and "gpr_dest x 0 r"
  shows "executes x TRes_normal (\<lambda>a s. set_reg off_RSP (reg64 s off_RSP + 8)
    (set_reg (gpr_off r) (load64 s (reg64 s off_RSP)) s))"
  (is "executes x _ ?F")
proof (rule executesI)
  fix b a assume b: "inpkt b a []"
  have "set_reg off_RSP y (set_reg off_RSP z s) = set_reg off_RSP y s" for y z s by (simp add: set_reg_def)
  then have "does (pop_translate x) (\<lambda>_. yields TRes_normal a (?F a)) b"
    using pop_other [OF assms _ b] pop_stack_pointer [OF assms(2) _ b] by (cases "gpr_off r = off_RSP") simp_all
  then show "does (do_translate x) (\<lambda>_. yields TRes_normal a (?F a)) b"
    unfolding do_translate_def assms(1) stack_classes translator_class.case stack_translate_def by simp
qed (simp add: assms noop_classes_def)

lemma pop_executes_witness:
  "executes (reg_reg ''POP'' (gpr 3 64) (gpr 3 64)) TRes_normal (\<lambda>a s. set_reg off_RSP (reg64 s off_RSP + 8)
     (set_reg off_RBX (load64 s (reg64 s off_RSP)) s))"
proof -
  let ?x = "reg_reg ''POP'' (gpr 3 64) (gpr 3 64)"
  have "iclass ?x = ''POP''" "gpr_dest ?x 0 (gpr 3 64)" "gpr_off (gpr 3 64) = off_RBX"
    by (simp_all add: gpr_dest_def reg_reg_def instr_def gpr_def gpr_off_def reg_offset_defs)
  then show ?thesis using pop_executes [of ?x "gpr 3 64"] by simp
qed

lemma does_return:
  assumes b: "inpkt b a []" and sp: "dnw b sp (\<lambda>a s. reg64 s off_RSP) {L_reg off_RSP}"
    and m: "dnw b m (\<lambda>a s. load64 s (reg64 s off_RSP)) R" "reads_except (b_heap b) m {sp} \<subseteq> {L_mem}"
    and c: "dnw b c (\<lambda>a s. 8) {}"
  shows "does (bnd (insert_add sp c) (\<lambda>new_rsp. andthen (write_reg off_RSP (val new_rsp))
      (andthen (insert_write_pc m Br_ret 0) (ret ()))))
    (\<lambda>_. yields TRes_end_of_block a (\<lambda>s. set_reg off_PC (load64 s (reg64 s off_RSP))
      (set_reg off_RSP (reg64 s off_RSP + 8) s))) b"
proof (rule does_bnd [OF w_add_forcing [OF b sp c]], elim conjE)
  fix new b1
  let ?A1 = "A_reg (val new) {sp} {} off_RSP 64 (\<lambda>a s. unat (reg64 s off_RSP + 8)) {L_reg off_RSP}"
  let ?A2 = "A_pc Br_ret {sp} 64 (\<lambda>a s. unat (load64 s (reg64 s off_RSP))) {L_mem}"
  assume e1: "b_ext b b1" and b1: "inpkt b1 a []" and n: "dnw b1 (val new) (\<lambda>a s. reg64 s off_RSP + 8) ({L_reg off_RSP} \<union> {})"
    and d: "sp \<in> set (demands (b_heap b1) (val new))"
  note m1 = dn_trans [OF e1 b m(1)] forced_trans [OF e1 b m(1) dn_present [OF sp] m(2)]
  show "does (andthen (write_reg off_RSP (val new)) (andthen (insert_write_pc m Br_ret 0) (ret ())))
      (\<lambda>_. yields TRes_end_of_block a (\<lambda>s. set_reg off_PC (load64 s (reg64 s off_RSP))
        (set_reg off_RSP (reg64 s off_RSP + 8) s))) b1"
  proof (rule does_act)
    show "does (write_reg off_RSP (val new)) (\<lambda>n b'. inpkt b' a ([] @ [?A1])) b1"
      using d dnD(3) [OF n] by (intro does_write_reg_forcing [OF b1 reg_oks(7) n]) simp_all
    fix b2 assume e2: "b_ext b1 b2" and b2: "inpkt b2 a ([] @ [?A1])"
    note sp1 = dn_trans [OF e1 b sp]
    note m2 = dn_trans [OF e2 b1 m1(1)] forced_trans [OF e2 b1 m1(1) dn_present [OF sp1] m1(2)]
    show "does (andthen (insert_write_pc m Br_ret 0) (ret ()))
        (\<lambda>_. yields TRes_end_of_block a (\<lambda>s. set_reg off_PC (load64 s (reg64 s off_RSP))
          (set_reg off_RSP (reg64 s off_RSP + 8) s))) b2"
    proof (rule does_act)
      show "does (insert_write_pc m Br_ret 0) (\<lambda>n b'. inpkt b' a (([] @ [?A1]) @ [?A2])) b2"
        using dn_present [OF dn_trans [OF e2 b1 sp1]] by (intro does_write_pc_forcing [OF b2 m2]) 
    qed (rule does_end, assumption, simp_all add: set_reg_def)
  qed
qed

text \<open>C9: RET loads the PC from the top of the stack and moves the stack pointer by 8.\<close>

theorem ret_executes:
  assumes "iclass x = ''RET_NEAR''"
  shows "executes x TRes_end_of_block (\<lambda>a s. set_reg off_PC (load64 s (reg64 s off_RSP))
    (set_reg off_RSP (reg64 s off_RSP + 8) s))"
  (is "executes x _ ?F")
proof (rule executesI)
  fix b a assume b: "inpkt b a []"
  show "does (do_translate x) (\<lambda>_. yields TRes_end_of_block a (?F a)) b"
    unfolding do_translate_def assms(1) stack_classes translator_class.case branch_translate_def ret_translate_def
    apply simp
    apply (rule does_bnd_dn [OF w_read_reg [OF b reg_oks(7)]])
    apply (rule does_bnd [OF w_read_mem_forced], assumption, assumption, elim conjE)
    apply (rule does_bnd_dn, rule does_constant_u64, assumption)
    apply (rule does_return, assumption)
       apply (erule dn_trans, assumption, erule dn_trans, assumption, assumption)
      apply (erule dn_trans, assumption, assumption)
     apply (erule forced_trans, assumption, assumption)
      apply (rule dn_present, erule dn_trans, assumption, assumption)
     apply simp
    apply simp
    done
qed (simp add: assms noop_classes_def)


lemma ret_executes_witness:
  "executes (instr ''RET_NEAR'') TRes_end_of_block (\<lambda>a s. set_reg off_PC (load64 s (reg64 s off_RSP))
     (set_reg off_RSP (reg64 s off_RSP + 8) s))"
  by (rule ret_executes) (simp add: instr_def)

text \<open>The immediate displacement of a direct branch: the operand is a constant node.\<close>

definition direct_branch :: "xed_inst \<Rightarrow> bool" where
  "direct_branch x \<longleftrightarrow> op_names x \<noteq> [] \<and> hd (op_names x) = Op_RELBR
     \<and> scast (ucast (branch_disp x) :: 32 word) = branch_disp x"

lemma read_direct_branch:
  assumes "inpkt b a A" and "direct_branch x"
  shows "does (read_operand x 0) (\<lambda>n b'. inpkt b' a A \<and> dnw b' (val n) (\<lambda>a s. branch_disp x) {}
    \<and> node_at n b' = Inr (mk_node u64 (Constant_i (branch_disp x)), b')) b"
proof -
  have "read_operand x 0 = insert_constant_u64 (branch_disp x)"
    using assms(2) by (cases "op_names x")
      (auto simp: direct_branch_def read_operand_def op_name_def bnd_def lift_res_def fun_eq_iff)
  moreover have "unat c mod 2 ^ 64 = unat c" for c :: ulong by (rule mod_word)
  then have "does (insert_constant_u64 (branch_disp x)) (\<lambda>n b'. inpkt b' a A
      \<and> dnw b' (val n) (\<lambda>a s. branch_disp x) {} \<and> nodes (b_heap b') n = Some (mk_node u64 (Constant_i (branch_disp x)))) b"
    unfolding insert_constant_u64_def
    by (intro does_constant_node [OF assms(1)]) (simp_all add: u64_def lo_constant_def is_integer_def)
  ultimately show ?thesis
    by (auto simp: node_at_def elim!: does_weaken)
qed

lemma jmp_meaning:
  assumes "iclass x = ''JMP''" and "direct_branch x"
  shows "executes x TRes_end_of_block
    (\<lambda>a s. set_reg off_PC (a + ucast (inst_len x) + branch_disp x) s)"
  (is "executes x _ ?F")
proof (rule executesI)
  fix b a assume b: "inpkt b a []"
  have tail: "does (bnd (node_at n) (\<lambda>nd. bnd (case constant_value nd of
            Some _ \<Rightarrow> bnd (insert_constant_u64 (ucast (inst_len x))) (\<lambda>l.
              bnd (insert_add (val n) (val l)) (\<lambda>bt.
              bnd insert_read_pc (\<lambda>pc. insert_add (val pc) (val bt))))
          | None \<Rightarrow> ret n) (\<lambda>t. andthen (insert_write_pc (val t) Br_br 0) (ret ()))))
      (\<lambda>_. yields TRes_end_of_block a (?F a)) b1"
    if "inpkt b1 a []" "dnw b1 (val n) (\<lambda>a s. branch_disp x) {}"
      "node_at n b1 = Inr (mk_node u64 (Constant_i (branch_disp x)), b1)" for n b1
  proof -
    have "does (bnd (insert_constant_u64 (ucast (inst_len x))) (\<lambda>l.
              bnd (insert_add (val n) (val l)) (\<lambda>bt.
              bnd insert_read_pc (\<lambda>pc. bnd (insert_add (val pc) (val bt))
                (\<lambda>t. andthen (insert_write_pc (val t) Br_br 0) (ret ()))))))
      (\<lambda>_. yields TRes_end_of_block a (?F a)) b1"
      apply ((assumption | rule w_rules does_end that(1,2) | erule dn_trans)+)
        apply (simp_all add: set_reg_def ac_simps)
      done
    with that(3) show ?thesis
      by (simp add: does_def bnd_def [of "node_at n"] constant_value_def mk_node_def bnd_assoc)
  qed
  show "does (do_translate x) (\<lambda>_. yields TRes_end_of_block a (?F a)) b"
    unfolding do_translate_def assms(1) stack_classes translator_class.case branch_translate_def jmp_translate_def
    by (simp, rule does_bnd [OF read_direct_branch [OF b assms(2)]], elim conjE, rule tail)
qed (simp add: assms noop_classes_def)


text \<open>C10: a direct JMP goes to its displacement after the instruction.\<close>

theorem jmp_executes:
  assumes "iclass x = ''JMP''" and "direct_branch x"
  shows "executes x TRes_end_of_block
    (\<lambda>a s. set_reg off_PC (a + ucast (inst_len x) + branch_disp x) s)"
  using assms by (rule jmp_meaning)

lemma jmp_executes_witness:
  "executes (relbr ''JMP'' (- 0x20)) TRes_end_of_block (\<lambda>a s. set_reg off_PC (a + 2 - 0x20) s)"
proof -
  have "iclass (relbr ''JMP'' (- 0x20)) = ''JMP''" by (simp add: relbr_def instr_def)
  moreover have "direct_branch (relbr ''JMP'' (- 0x20))" by code_simp
  ultimately show ?thesis using jmp_executes [of "relbr ''JMP'' (- 0x20)"] by (simp add: relbr_def instr_def)
qed

text \<open>C8: a direct CALL pushes the address of the next instruction and jumps.\<close>

theorem call_executes:
  assumes "iclass x = ''CALL_NEAR''" and "direct_branch x"
  shows "executes x TRes_end_of_block (\<lambda>a s. set_reg off_PC (a + ucast (inst_len x) + branch_disp x)
    (set_mem (reg64 s off_RSP - 8) 8 (a + ucast (inst_len x)) (set_reg off_RSP (reg64 s off_RSP - 8) s)))"
  (is "executes x _ ?F")
proof (rule executesI)
  fix b a assume b: "inpkt b a []"
  have tail: "does (bnd (node_at n) (\<lambda>nd.
      case constant_value nd of
       Some const_val \<Rightarrow>
         bnd (insert_constant_u64 (ucast (inst_len x))) (\<lambda>l2.
         bnd (insert_add (val n) (val l2)) (\<lambda>call_target.
         bnd insert_read_pc (\<lambda>pc2.
         bnd (insert_add (val pc2) (val call_target)) (\<lambda>t.
         andthen (insert_write_pc (val t) Br_call (const_val + ucast (inst_len x))) (ret ())))))
     | None \<Rightarrow> andthen (insert_write_pc (val n) Br_call 0) (ret ())))
      (\<lambda>_. yields TRes_end_of_block a (?F a)) b1"
    if "inpkt b1 a ([A_reg p {p} {} off_RSP 64 (\<lambda>a s. unat (reg64 s off_RSP - 8)) {L_reg off_RSP},
          A_mem q {} {p} (\<lambda>a s. unat (reg64 s off_RSP - 8)) 64 (\<lambda>a s. unat (a + ucast (inst_len x))) {}])"
      "dnw b1 (val n) (\<lambda>a s. branch_disp x) {}"
      "node_at n b1 = Inr (mk_node u64 (Constant_i (branch_disp x)), b1)" for n b1 p q
  proof -
    have "does (bnd (insert_constant_u64 (ucast (inst_len x))) (\<lambda>l2.
         bnd (insert_add (val n) (val l2)) (\<lambda>call_target.
         bnd insert_read_pc (\<lambda>pc2.
         bnd (insert_add (val pc2) (val call_target)) (\<lambda>t.
         andthen (insert_write_pc (val t) Br_call (branch_disp x + ucast (inst_len x))) (ret ()))))))
      (\<lambda>_. yields TRes_end_of_block a (?F a)) b1"
      apply ((assumption | rule w_rules does_end that(1,2) | erule dn_trans)+)
        apply (simp_all add: set_reg_def set_mem_def ac_simps)
      done
    with that(3) show ?thesis
      by (simp add: does_def bnd_def [of "node_at n"] constant_value_def mk_node_def)
  qed
  show "does (do_translate x) (\<lambda>_. yields TRes_end_of_block a (?F a)) b"
    unfolding do_translate_def assms(1) stack_classes translator_class.case branch_translate_def call_translate_def
    apply simp
    apply (rule does_bnd_dn [OF w_read_reg [OF b reg_oks(7)]])
    apply (rule does_bnd_dn, rule does_constant_u64, assumption)
    apply (rule does_bnd_dn, rule w_arith(2), assumption, (assumption | erule dn_trans)+)
    apply (rule does_act, rule does_write_reg [OF _ reg_oks(7)], assumption, assumption)
    apply (rule does_bnd_dn, rule does_read_pc, assumption)
    apply (rule does_bnd_dn, rule does_constant_u64, assumption)
    apply (rule does_bnd_dn, rule w_arith(1), assumption, (assumption | erule dn_trans)+)
    apply (rule does_act, rule does_write_mem_at, assumption, (assumption | erule dn_trans)+)
    apply (rule does_bnd, rule read_direct_branch [OF _ assms(2)], assumption, elim conjE)
    apply (rule tail)
      apply simp
     apply assumption+
    done
qed (simp add: assms noop_classes_def)


lemma call_executes_witness:
  "executes (relbr ''CALL_NEAR'' 0x40) TRes_end_of_block (\<lambda>a s. set_reg off_PC (a + 2 + 0x40)
     (set_mem (reg64 s off_RSP - 8) 8 (a + 2) (set_reg off_RSP (reg64 s off_RSP - 8) s)))"
proof -
  have "iclass (relbr ''CALL_NEAR'' 0x40) = ''CALL_NEAR''" by (simp add: relbr_def instr_def)
  moreover have "direct_branch (relbr ''CALL_NEAR'' 0x40)" by code_simp
  ultimately show ?thesis using call_executes [of "relbr ''CALL_NEAR'' 0x40"] by (simp add: relbr_def instr_def)
qed

text \<open>C13: LEA writes the effective address.\<close>

theorem lea_executes:
  assumes "iclass x = ''LEA''" and "gpr_dest x 0 r" and "addressable (x_mem x 0)"
  shows "executes x TRes_normal (\<lambda>a s. set_reg (gpr_off r) (effective_address x (x_mem x 0) a s) s)"
  (is "executes x _ ?F")
proof (rule executesI)
  fix b a assume b: "inpkt b a []"
  have "mov_translate x = lea_translate x" using assms(1) by (simp add: mov_translate_def)
  then show "does (do_translate x) (\<lambda>_. yields TRes_normal a (?F a)) b"
    unfolding do_translate_def assms(1) stack_classes translator_class.case lea_translate_def
    apply (simp only:)
    apply (rule does_bnd_dn [OF does_compute_address [OF b assms(3)]])
    apply (rule does_andthen, rule does_write_dest_reg [OF _ assms(2), where w = 64], assumption)
        apply (subst mod_word, assumption)
       apply (simp_all only: wrote_def, simp_all, elim exE conjE)
    apply (rule does_end, assumption)
      apply (use assms in \<open>auto simp: gpr_merge_def set_reg_def off_distinct gpr_dest_def\<close>)
    done
qed (simp add: assms noop_classes_def)

text \<open>A LEA of \<open>[rbx + 4 * rcx + 8]\<close> into \<open>rax\<close>.\<close>

definition lea_sample :: xed_inst where
  "lea_sample = (instr ''LEA'')\<lparr>op_names := [Op_REG0, Op_MEM0], op_reg := (\<lambda>_. gpr 0 64),
     x_mem := (\<lambda>_. (mem_at 3 8 8)\<lparr>xm_index := Some (gpr 1 64), xm_scale := 4\<rparr>)\<rparr>"

lemma lea_executes_witness:
  "executes lea_sample TRes_normal
     (\<lambda>a s. set_reg off_RAX (reg64 s off_RBX + 4 * reg64 s off_RCX + 8) s)"
proof -
  have "iclass lea_sample = ''LEA''" "gpr_dest lea_sample 0 (gpr 0 64)" "addressable (x_mem lea_sample 0)"
    "gpr_off (gpr 0 64) = off_RAX"
    by (simp_all add: lea_sample_def instr_def gpr_dest_def gpr_def addressable_def addr_reg_def mem_at_def
        gpr_off_def reg_offset_defs)
  moreover have "effective_address lea_sample (x_mem lea_sample 0) a s = reg64 s off_RBX + 4 * reg64 s off_RCX + 8" for a s
    by (simp add: lea_sample_def instr_def gpr_def mem_at_def effective_address_def base_value_def
        index_value_def segment_value_def gpr_off_def reg_offset_defs)
  ultimately show ?thesis using lea_executes [of lea_sample "gpr 0 64"] by simp
qed

text \<open>Samples of blocks: \<open>add rax, rbx\<close>, alone and before a jump.\<close>

definition add_sample :: xed_inst where
  "add_sample = reg_reg ''ADD'' (gpr 0 64) (gpr 3 64)"

lemma add_sample_ok: "map_of alu_table (iclass add_sample) = Some B_add" "alu_operands add_sample"
proof -
  show "map_of alu_table (iclass add_sample) = Some B_add" by code_simp
  have n: "op_names add_sample = [Op_REG0, Op_REG1]" "op_reg add_sample Op_REG0 = gpr 0 64"
    "op_reg add_sample Op_REG1 = gpr 3 64"
    by (simp_all add: add_sample_def reg_reg_def instr_def)
  then have "gpr_dest add_sample 0 (gpr 0 64)" by (simp add: gpr_dest_def gpr_def)
  then have "writable add_sample" by (auto simp: writable_def)
  moreover have "readable add_sample 0" "readable add_sample 1"
    by (simp_all add: n readable_def gpr_def gpr_operand_def)
  moreover have "width (operand_type add_sample 1) \<le> width (operand_type add_sample 0)"
    by (simp add: n operand_type_def gpr_def)
  ultimately show "alu_operands add_sample" by (simp add: alu_operands_def)
qed

definition add_sample_effect :: "ulong \<Rightarrow> mstate \<Rightarrow> mstate" where
  "add_sample_effect a s =
     (let x = alu_lhs add_sample a s; y = alu_rhs add_sample a s in
      alu_effect B_add 64 x y (dest_effect add_sample 64 (of_nat ((x + y) mod 2 ^ 64)) a s s))"

lemma alu_sample_effect:
  assumes "executes add_sample TRes_normal (\<lambda>a s.
    alu_effect B_add (width (operand_type add_sample 0)) (alu_lhs add_sample a s) (alu_rhs add_sample a s)
    (if iclass add_sample \<in> {''CMP'', ''TEST''} then s
     else dest_effect add_sample (width (operand_type add_sample 0))
            (of_nat (alu_result B_add (width (operand_type add_sample 0)) (alu_lhs add_sample a s)
              (alu_rhs add_sample a s))) a s s))"
  shows "executes add_sample TRes_normal add_sample_effect"
proof -
  have w: "width (operand_type add_sample 0) = 64" "iclass add_sample \<notin> {''CMP'', ''TEST''}"
    by (simp_all add: add_sample_def reg_reg_def instr_def operand_type_def gpr_def)
  show ?thesis
    using assms unfolding w(1) if_not_P [OF w(2)] alu_result.simps
    by (simp only: add_sample_effect_def [abs_def] Let_def)
qed


lemma add_sample_straight: "straight [(add_sample, add_sample_effect)]"
  using alu_sample_effect [OF alu_meaning [OF add_sample_ok]] by (simp add: straight_def)

lemma straight_block_executes_witness:
  "\<exists>b c. translate_chunk (\<lambda>off. if off = 0 then Some add_sample else None) (\<lambda>_ _. []) False 0x1000 3 True
      ''sample'' (initial_builder False) = Inr ((), b) \<and> current_chunk b = Some c
    \<and> (\<forall>s. exec_packets (b_heap b) (packets c) s = Inr (set_pc 0x1003 (add_sample_effect 0x1000 s)))"
proof -
  let ?d = "\<lambda>off :: nat. if off = 0 then Some add_sample else None"
  have l: "inst_len add_sample = 3" by (simp add: add_sample_def reg_reg_def instr_def)
  have "decodes ?d 0 [(add_sample, add_sample_effect)]" by (simp add: l)
  from straight_block_executes [OF this add_sample_straight, where dis = "\<lambda>_ _. []" and dbg = False and base = "0x1000"
      and bb = True and nm = "''sample''" and g = False]
  show ?thesis by (simp add: l)
qed

lemma basic_block_executes_witness:
  "\<exists>b c. translate_chunk (\<lambda>off. if off = 0 then Some add_sample else if off = 3 then Some (relbr ''JMP'' 5) else None)
      (\<lambda>_ _. []) False 0x1000 100 True ''sample'' (initial_builder False) = Inr ((), b) \<and> current_chunk b = Some c
    \<and> (\<forall>s. exec_packets (b_heap b) (packets c) s = Inr (set_reg off_PC 0x100A (add_sample_effect 0x1000 s)))"
proof -
  let ?d = "\<lambda>off :: nat. if off = 0 then Some add_sample else if off = 3 then Some (relbr ''JMP'' 5) else None"
  let ?j = "relbr ''JMP'' 5" and ?G = "\<lambda>a s. set_reg off_PC (a + ucast (inst_len (relbr ''JMP'' 5)) + branch_disp (relbr ''JMP'' 5)) s"
  have l: "inst_len add_sample = 3" "inst_len ?j = 2" "branch_disp ?j = 5"
    by (simp_all add: add_sample_def reg_reg_def relbr_def instr_def)
  have "iclass ?j = ''JMP''" by (simp add: relbr_def instr_def)
  moreover have "direct_branch ?j" by code_simp
  ultimately have j: "executes ?j TRes_end_of_block ?G" by (rule jmp_meaning)
  have "decodes ?d 0 ([(add_sample, add_sample_effect)] @ [(?j, ?G)])" by (simp add: l)
  from basic_block_executes [OF this add_sample_straight j, where sz = 100 and dis = "\<lambda>_ _. []" and dbg = False
      and base = "0x1000" and nm = "''sample''" and g = False]
  show ?thesis by (simp add: l)
qed

end
