(* ===== verification/Machine_Code.thy ===== *)
theory Machine_Code
  imports Prelude
begin

text \<open>
  Where the dynamic back ends put their code
  (\<open>inc/arancini/output/dynamic/machine-code-allocator.h\<close>, \<open>machine-code-writer.h\<close>,
  \<open>chain.h\<close>): the arena allocator, the growing writer, and the allocator and writer that
  overwrite existing code when blocks are chained.  Addresses and sizes are 64-bit words,
  memory is a function from addresses to bytes, \<open>nullptr\<close> is 0.  \<open>mmap\<close> is a parameter:
  an arena is the base and the size it returned.
\<close>

type_synonym addr = "64 word"
type_synonym memory = "addr \<Rightarrow> 8 word"

section \<open>Arena allocator\<close>

record arena =
  arena_base :: addr
  arena_size :: addr

record arena_allocator =
  the_arena :: arena
  next_allocation :: addr
  current_allocation :: addr
  current_allocation_size :: addr

definition new_arena_allocator :: "arena \<Rightarrow> arena_allocator" where
  "new_arena_allocator ar = \<lparr>the_arena = ar, next_allocation = arena_base ar, current_allocation = 0,
     current_allocation_size = 0\<rparr>"

definition align16 :: "addr \<Rightarrow> addr" where
  "align16 n = (n + 15) AND NOT 15"

definition arena_allocate :: "addr \<Rightarrow> addr \<Rightarrow> arena_allocator \<Rightarrow> exn + (addr \<times> arena_allocator)" where
  "arena_allocate original n a =
     (if original = 0 then
        (let nx = next_allocation a + align16 (current_allocation_size a) in
         if nx > arena_base (the_arena a) + arena_size (the_arena a)
         then Inl (Runtime_error ''out of memory'')
         else Inr (nx, a\<lparr>next_allocation := nx, current_allocation_size := n, current_allocation := nx\<rparr>))
      else if original \<noteq> current_allocation a
      then Inl (Runtime_error ''multiple allocations not supported'')
      else Inr (original, a\<lparr>current_allocation_size := n\<rparr>))"

text \<open>The allocator of chained code only checks the size, its whole state.\<close>

definition chain_allocate :: "addr \<Rightarrow> addr \<Rightarrow> addr \<Rightarrow> exn + (addr \<times> addr)" where
  "chain_allocate original n size' = Inr (if n \<le> size' then original else 0, size')"

section \<open>Writer\<close>

record writer =
  code_ptr :: addr
  code_size :: addr
  alloc_size :: addr

definition new_writer :: writer where
  "new_writer = \<lparr>code_ptr = 0, code_size = 0, alloc_size = 0\<rparr>"

type_synonym 's allocate_fun = "addr \<Rightarrow> addr \<Rightarrow> 's \<Rightarrow> exn + (addr \<times> 's)"

record 's code_state =
  wr :: writer
  al :: 's
  mem :: memory

definition ensure_capacity :: "'s allocate_fun \<Rightarrow> addr \<Rightarrow> 's code_state \<Rightarrow> exn + 's code_state" where
  "ensure_capacity alloc extra st =
     (let w = wr st in
      if code_size w + extra > alloc_size w then
        (let n = (if alloc_size w = 0 then 64 else alloc_size w * 2) in
         case alloc (code_ptr w) n (al st) of
           Inl e \<Rightarrow> Inl e
         | Inr (p, s) \<Rightarrow> Inr (st\<lparr>wr := w\<lparr>code_ptr := p, alloc_size := n\<rparr>, al := s\<rparr>))
      else Inr st)"

definition poke :: "addr \<Rightarrow> 8 word list \<Rightarrow> memory \<Rightarrow> memory" where
  "poke a bs m = (\<lambda>x. if unat (x - a) < length bs then bs ! unat (x - a) else m x)"

definition peek :: "memory \<Rightarrow> addr \<Rightarrow> nat \<Rightarrow> 8 word list" where
  "peek m a n = map (\<lambda>i. m (a + of_nat i)) [0..<n]"

definition copy_in :: "'s allocate_fun \<Rightarrow> 8 word list \<Rightarrow> 's code_state \<Rightarrow> exn + 's code_state" where
  "copy_in alloc bs st =
     (case ensure_capacity alloc (of_nat (length bs)) st of
        Inl e \<Rightarrow> Inl e
      | Inr st1 \<Rightarrow>
          (let w = wr st1 in
           Inr (st1\<lparr>mem := poke (code_ptr w + code_size w) bs (mem st1),
                    wr := w\<lparr>code_size := code_size w + of_nat (length bs)\<rparr>\<rparr>)))"

definition emit16 :: "'s allocate_fun \<Rightarrow> 16 word \<Rightarrow> 's code_state \<Rightarrow> exn + 's code_state" where
  "emit16 alloc c = copy_in alloc [ucast c, ucast (drop_bit 8 c)]"

definition emit32 :: "'s allocate_fun \<Rightarrow> 32 word \<Rightarrow> 's code_state \<Rightarrow> exn + 's code_state" where
  "emit32 alloc c =
     copy_in alloc [ucast c, ucast (drop_bit 8 c), ucast (drop_bit 16 c), ucast (drop_bit 24 c)]"

text \<open>\<open>shift\<close> moves \<open>code_size - offset\<close> bytes from behind the gap to its start.\<close>

definition shift_code :: "'s allocate_fun \<Rightarrow> addr \<Rightarrow> addr \<Rightarrow> 's code_state \<Rightarrow> exn + 's code_state" where
  "shift_code alloc offset n st =
     (case ensure_capacity alloc n st of
        Inl e \<Rightarrow> Inl e
      | Inr st1 \<Rightarrow>
          (let w = wr st1 in
           Inr (st1\<lparr>mem := poke (code_ptr w + offset)
                          (peek (mem st1) (code_ptr w + offset + n) (unat (code_size w - offset))) (mem st1),
                    wr := w\<lparr>code_size := code_size w + n\<rparr>\<rparr>)))"

definition finalise :: "'s allocate_fun \<Rightarrow> 's code_state \<Rightarrow> exn + 's code_state" where
  "finalise alloc st =
     (let w = wr st in
      case alloc (code_ptr w) (code_size w) (al st) of
        Inl e \<Rightarrow> Inl e
      | Inr (p, s) \<Rightarrow> Inr (st\<lparr>wr := w\<lparr>code_ptr := p, alloc_size := code_size w\<rparr>, al := s\<rparr>))"

definition reset_writer :: "'s code_state \<Rightarrow> 's code_state" where
  "reset_writer st = st\<lparr>wr := new_writer\<rparr>"

text \<open>The writer \<open>chain\<close> uses: it starts inside the 16-byte block of the target.\<close>

definition chain_writer :: "addr \<Rightarrow> addr \<Rightarrow> memory \<Rightarrow> addr code_state" where
  "chain_writer target n m =
     \<lparr>wr = \<lparr>code_ptr = target AND NOT 15, code_size = target AND 15, alloc_size = n + (target AND 15)\<rparr>,
      al = n + (target AND 15), mem = m\<rparr>"

section \<open>One block of code: \<open>create_translation\<close>\<close>

fun copy_all :: "'s allocate_fun \<Rightarrow> 8 word list list \<Rightarrow> 's code_state \<Rightarrow> exn + 's code_state" where
  "copy_all alloc [] st = Inr st"
| "copy_all alloc (bs # bss) st =
     (case copy_in alloc bs st of Inl e \<Rightarrow> Inl e | Inr st1 \<Rightarrow> copy_all alloc bss st1)"

text \<open>The pointer and size of a \<open>translation\<close>, and the state after \<open>writer.reset()\<close>.\<close>

definition write_block ::
  "'s allocate_fun \<Rightarrow> 8 word list list \<Rightarrow> 's code_state \<Rightarrow> exn + ((addr \<times> addr) \<times> 's code_state)" where
  "write_block alloc bss st =
     (case copy_all alloc bss st of
        Inl e \<Rightarrow> Inl e
      | Inr st1 \<Rightarrow>
          (case finalise alloc st1 of
             Inl e \<Rightarrow> Inl e
           | Inr st2 \<Rightarrow> Inr ((code_ptr (wr st2), code_size (wr st2)), reset_writer st2)))"

fun write_blocks ::
  "'s allocate_fun \<Rightarrow> 8 word list list list \<Rightarrow> 's code_state \<Rightarrow> exn + ((addr \<times> addr) list \<times> 's code_state)" where
  "write_blocks alloc [] st = Inr ([], st)"
| "write_blocks alloc (b # bs) st =
     (case write_block alloc b st of
        Inl e \<Rightarrow> Inl e
      | Inr (t, st1) \<Rightarrow>
          (case write_blocks alloc bs st1 of Inl e \<Rightarrow> Inl e | Inr (ts, st2) \<Rightarrow> Inr (t # ts, st2)))"

section \<open>Memory\<close>

lemma unat64: "n < 2 ^ 64 \<Longrightarrow> unat (of_nat n :: addr) = n"
  by (simp add: unsigned_of_nat take_bit_nat_eq_self)

lemma unat64_less: "unat (a :: addr) < 2 ^ 64"
  by (rule order_less_le_trans [OF unsigned_less]) simp

lemma unat64_add: "unat a + n < 2 ^ 64 \<Longrightarrow> unat (a + of_nat n :: addr) = unat a + n"
  by (simp add: unat_word_ariths unat64)

lemma length_peek [simp]: "length (peek m a n) = n"
  by (simp add: peek_def)

lemma peek_0 [simp]: "peek m a 0 = []"
  by (simp add: peek_def)

lemma peek_add: "peek m a (n + k) = peek m a n @ peek m (a + of_nat n) k"
  by (rule nth_equalityI) (auto simp: peek_def nth_append add.assoc simp flip: of_nat_add)

lemma peek_poke:
  assumes "length bs < 2 ^ 64"
  shows "peek (poke a bs m) a (length bs) = bs"
proof (rule nth_equalityI)
  fix i assume "i < length (peek (poke a bs m) a (length bs))"
  then have i: "i < length bs" by simp
  with assms have "unat (of_nat i :: addr) = i" by (simp add: unat64)
  with i show "peek (poke a bs m) a (length bs) ! i = bs ! i"
    by (simp add: peek_def poke_def)
qed simp

lemma unat64_diff_less: "unat x < unat b \<Longrightarrow> unat (x - b :: addr) = 2 ^ 64 + unat x - unat b"
  by (simp add: unat_sub_if_size word_size)

lemma unat64_diff: "unat b \<le> unat x \<Longrightarrow> unat (x - b :: addr) = unat x - unat b"
  by (simp add: unat_sub_if_size)

lemma poke_outside:
  assumes "k < 2 ^ 64" and "c + length bs \<le> 2 ^ 64" and "k < c \<or> c + length bs \<le> k"
  shows "poke (p + of_nat c) bs m (p + of_nat k) = m (p + of_nat k)"
proof -
  have d: "p + of_nat k - (p + of_nat c) = of_nat k - (of_nat c :: addr)" by simp
  have "length bs \<le> unat (of_nat k - of_nat c :: addr)"
  proof (cases "k < c")
    case True
    then show ?thesis
      using assms by (cases "c = 2 ^ 64") (simp_all add: unat64_diff_less unat64)
  next
    case False
    with assms show ?thesis
      by (cases "bs = []") (simp_all add: unat64_diff unat64)
  qed
  then show ?thesis by (simp add: poke_def d)
qed

lemma peek_poke_front:
  "c + length bs \<le> 2 ^ 64 \<Longrightarrow> n \<le> c \<Longrightarrow> peek (poke (p + of_nat c) bs m) p n = peek m p n"
  by (auto simp: peek_def intro!: poke_outside)

text \<open>The allocation size after \<open>ensure_capacity\<close>.\<close>

definition grown :: "addr \<Rightarrow> writer \<Rightarrow> addr" where
  "grown extra w = (if code_size w + extra > alloc_size w then (if alloc_size w = 0 then 64 else alloc_size w * 2)
     else alloc_size w)"

section \<open>What a writer promises over an allocator that can resize\<close>

text \<open>
  \<open>owns s p\<close>: \<open>p\<close> is the allocation that may be resized; \<open>fits s n\<close>: it may have \<open>n\<close> bytes.
\<close>

locale resizable_code =
  fixes alloc :: "'s allocate_fun"
    and inv :: "'s \<Rightarrow> bool"
    and owns :: "'s \<Rightarrow> addr \<Rightarrow> bool"
    and fits :: "'s \<Rightarrow> addr \<Rightarrow> bool"
  assumes resize: "inv s \<Longrightarrow> p \<noteq> 0 \<Longrightarrow> owns s p \<Longrightarrow> fits s n \<Longrightarrow>
      \<exists>s'. alloc p n s = Inr (p, s') \<and> inv s' \<and> owns s' p \<and> fits s' = fits s"
begin

definition opened :: "'s code_state \<Rightarrow> bool" where
  "opened st \<longleftrightarrow> inv (al st) \<and> code_ptr (wr st) \<noteq> 0 \<and> owns (al st) (code_ptr (wr st))"

definition room :: "addr \<Rightarrow> 's code_state \<Rightarrow> bool" where
  "room extra st \<longleftrightarrow> (code_size (wr st) + extra > alloc_size (wr st) \<longrightarrow>
     fits (al st) (if alloc_size (wr st) = 0 then 64 else alloc_size (wr st) * 2))"

lemma ensure_capacity_opened:
  assumes "opened st" and "room n st"
  obtains st1 where "ensure_capacity alloc n st = Inr st1" and "opened st1" and "mem st1 = mem st"
    and "code_ptr (wr st1) = code_ptr (wr st)" and "code_size (wr st1) = code_size (wr st)"
    and "fits (al st1) = fits (al st)"
    and "alloc_size (wr st1) = grown n (wr st)"
proof (cases "code_size (wr st) + n > alloc_size (wr st)")
  case True
  define n' where "n' = (if alloc_size (wr st) = 0 then 64 else alloc_size (wr st) * 2)"
  from True assms resize [of "al st" "code_ptr (wr st)" n'] obtain s' where
    s: "alloc (code_ptr (wr st)) n' (al st) = Inr (code_ptr (wr st), s')"
      "inv s'" "owns s' (code_ptr (wr st))" "fits s' = fits (al st)"
    unfolding opened_def room_def n'_def by blast
  let ?st = "st\<lparr>wr := (wr st)\<lparr>code_ptr := code_ptr (wr st), alloc_size := n'\<rparr>, al := s'\<rparr>"
  have "ensure_capacity alloc n st = Inr ?st"
    unfolding ensure_capacity_def Let_def n'_def [symmetric] using True s(1) by simp
  with s assms(1) True show thesis by (intro that [of ?st]) (simp_all add: opened_def grown_def n'_def)
next
  case False
  with assms show thesis by (intro that [of st]) (simp_all add: ensure_capacity_def opened_def Let_def grown_def)
qed

text \<open>Copying bytes in appends them to the code and touches nothing else.\<close>

lemma copy_in_appends:
  assumes "opened st" and "room (of_nat (length bs)) st"
    and "unat (code_size (wr st)) + length bs < 2 ^ 64"
  obtains st' where "copy_in alloc bs st = Inr st'" and "opened st'"
    and "code_ptr (wr st') = code_ptr (wr st)"
    and "unat (code_size (wr st')) = unat (code_size (wr st)) + length bs"
    and "peek (mem st') (code_ptr (wr st)) (unat (code_size (wr st')))
       = peek (mem st) (code_ptr (wr st)) (unat (code_size (wr st))) @ bs"
    and "mem st' = poke (code_ptr (wr st) + code_size (wr st)) bs (mem st)"
    and "fits (al st') = fits (al st)"
    and "alloc_size (wr st') = grown (of_nat (length bs)) (wr st)"
proof -
  obtain st1 where st1: "ensure_capacity alloc (of_nat (length bs)) st = Inr st1" "opened st1" "mem st1 = mem st"
      "code_ptr (wr st1) = code_ptr (wr st)" "code_size (wr st1) = code_size (wr st)"
      "fits (al st1) = fits (al st)" "alloc_size (wr st1) = grown (of_nat (length bs)) (wr st)"
    using assms(1,2) by (rule ensure_capacity_opened)
  define p where "p = code_ptr (wr st)"
  obtain c where c: "code_size (wr st) = of_nat c" "c < 2 ^ 64"
    by (metis of_nat_unat ucast_id unat64_less)
  have ub: "unat (of_nat c :: addr) = c" using c(2) by (rule unat64)
  with c(1) have uc: "unat (code_size (wr st)) = c" by simp
  let ?st = "st1\<lparr>mem := poke (p + of_nat c) bs (mem st), wr := (wr st1)\<lparr>code_size := of_nat c + of_nat (length bs)\<rparr>\<rparr>"
  have s: "unat (of_nat c + of_nat (length bs) :: addr) = c + length bs"
    using assms(3) c(2) unfolding uc by (simp only: unat64_add unat64)
  have "peek (mem ?st) p (c + length bs) = peek (mem st) p c @ bs"
    using assms(3) unfolding uc by (simp add: peek_add peek_poke_front peek_poke)
  with st1 s show thesis
    by (intro that [of ?st]) (simp_all add: copy_in_def opened_def Let_def c(1) p_def [symmetric] ub)
qed

end

text \<open>
  An allocator that also starts new allocations.  Allocations are handed out upwards:
  \<open>limit s\<close> is the address after the last one.
\<close>

locale code_allocator = resizable_code +
  fixes limit :: "'a \<Rightarrow> nat"
  assumes resize_limit: "inv s \<Longrightarrow> p \<noteq> 0 \<Longrightarrow> owns s p \<Longrightarrow> alloc p n s = Inr (p, s') \<Longrightarrow> limit s' = unat p + unat n"
    and in_range: "inv s \<Longrightarrow> owns s p \<Longrightarrow> fits s n \<Longrightarrow> unat p + unat n < 2 ^ 64"
    and fresh: "inv s \<Longrightarrow> fits s n \<Longrightarrow> alloc 0 n s = Inr (p, s') \<Longrightarrow>
      p \<noteq> 0 \<and> inv s' \<and> owns s' p \<and> fits s' = fits s \<and> limit s \<le> unat p \<and> limit s' = unat p + unat n"
begin

definition closed :: "'a code_state \<Rightarrow> bool" where
  "closed st \<longleftrightarrow> inv (al st) \<and> wr st = new_writer"

text \<open>A writer between blocks or inside one, working above address \<open>lo\<close>.\<close>

definition above :: "nat \<Rightarrow> 'a code_state \<Rightarrow> bool" where
  "above lo st \<longleftrightarrow> closed st \<and> lo \<le> limit (al st)
     \<or> opened st \<and> lo \<le> unat (code_ptr (wr st)) \<and> unat (alloc_size (wr st)) \<le> 64 + 2 * unat (code_size (wr st))"

definition roomy :: "nat \<Rightarrow> 'a code_state \<Rightarrow> bool" where
  "roomy k st \<longleftrightarrow> (\<forall>n. unat n \<le> k \<longrightarrow> fits (al st) n)"

definition contents :: "'a code_state \<Rightarrow> 8 word list" where
  "contents st = peek (mem st) (code_ptr (wr st)) (unat (code_size (wr st)))"

definition same_outside :: "addr \<Rightarrow> nat \<Rightarrow> memory \<Rightarrow> memory \<Rightarrow> bool" where
  "same_outside p n m m' \<longleftrightarrow> (\<forall>x. n \<le> unat (x - p) \<longrightarrow> m' x = m x)"

lemma same_outside_poke:
  assumes "c + length bs < 2 ^ 64" and "c + length bs \<le> n"
  shows "same_outside p n m (poke (p + of_nat c) bs m)"
  unfolding same_outside_def
proof (intro allI impI)
  fix x assume n: "n \<le> unat (x - p)"
  obtain k where k: "x - p = of_nat k" "k < 2 ^ 64" by (metis of_nat_unat ucast_id unat64_less)
  then have x: "x = p + of_nat k" by (metis add.commute diff_add_cancel)
  have "unat (of_nat k :: addr) = k" using k(2) by (rule unat64)
  with n k(1) assms(2) have "c + length bs \<le> k" by simp
  then show "poke (p + of_nat c) bs m x = m x"
    unfolding x using k(2) assms(1) by (intro poke_outside) auto
qed

lemma grown_bound:
  assumes "unat (alloc_size w) \<le> 64 + 2 * unat (code_size w)"
    and "unat (code_size w) + k < 2 ^ 64"
  shows "unat (grown (of_nat k) w) \<le> 64 + 2 * (unat (code_size w) + k)"
proof (cases "code_size w + of_nat k > alloc_size w")
  case True
  then have "unat (alloc_size w) < unat (code_size w) + k"
    using unat64_add [OF assms(2)] by (simp add: word_less_nat_alt)
  moreover have "unat (alloc_size w * 2) \<le> 2 * unat (alloc_size w)"
    by (simp add: unat_word_ariths)
  ultimately show ?thesis using True by (simp add: grown_def)
next
  case False
  with assms(1) show ?thesis by (simp add: grown_def)
qed

lemma opened_room:
  assumes "roomy k st" and "unat (code_size (wr st)) + n < 2 ^ 64" and "64 + 2 * (unat (code_size (wr st)) + n) \<le> k"
  shows "room (of_nat n) st"
  unfolding room_def
proof
  assume "code_size (wr st) + of_nat n > alloc_size (wr st)"
  then have "unat (alloc_size (wr st)) < unat (code_size (wr st)) + n"
    using unat64_add [OF assms(2)] by (simp add: word_less_nat_alt)
  moreover have "unat (alloc_size (wr st) * 2) \<le> 2 * unat (alloc_size (wr st))"
    by (simp add: unat_word_ariths)
  ultimately have "unat (if alloc_size (wr st) = 0 then 64 else alloc_size (wr st) * 2) \<le> k"
    using assms(3) by simp
  with assms(1) show "fits (al st) (if alloc_size (wr st) = 0 then 64 else alloc_size (wr st) * 2)"
    unfolding roomy_def by blast
qed

text \<open>Starting the first allocation of a block.\<close>

lemma copy_in_first:
  assumes "closed st" and "roomy k st" and "64 \<le> k" and "bs \<noteq> []" and "length bs < 2 ^ 64"
    and "copy_in alloc bs st = Inr st'"
  shows "opened st'" and "unat (code_size (wr st')) = length bs" and "mem st' = poke (code_ptr (wr st')) bs (mem st)"
    and "limit (al st) \<le> unat (code_ptr (wr st'))" and "fits (al st') = fits (al st)"
    and "unat (alloc_size (wr st')) = 64"
proof -
  have "(of_nat (length bs) :: addr) > 0"
    using assms(4,5) unat64 [of "length bs"] by (metis length_0_conv unat_0 word_gt_0)
  with assms(1,6) obtain p s' where p: "alloc 0 64 (al st) = Inr (p, s')"
    and st': "st' = st\<lparr>wr := \<lparr>code_ptr = p, code_size = of_nat (length bs), alloc_size = 64\<rparr>, al := s',
                      mem := poke p bs (mem st)\<rparr>"
    by (auto simp: copy_in_def ensure_capacity_def closed_def new_writer_def Let_def split: sum.splits)
  have "fits (al st) 64" using assms(2,3) by (simp add: roomy_def)
  with assms(1) fresh [OF _ _ p] have "p \<noteq> 0 \<and> inv s' \<and> owns s' p \<and> fits s' = fits (al st) \<and> limit (al st) \<le> unat p"
    unfolding closed_def by blast
  then show "opened st'" "unat (code_size (wr st')) = length bs" "mem st' = poke (code_ptr (wr st')) bs (mem st)"
    "limit (al st) \<le> unat (code_ptr (wr st'))" "fits (al st') = fits (al st)" "unat (alloc_size (wr st')) = 64"
    using assms(5) by (simp_all add: st' opened_def unat64)
qed

lemma copy_in_step:
  assumes a: "above lo st" and r: "roomy k st" and k: "64 + 2 * (unat (code_size (wr st)) + length bs) \<le> k" "k < 2 ^ 63"
    and c: "copy_in alloc bs st = Inr st'"
  shows "above lo st'" and "roomy k st'" and "unat (code_size (wr st')) = unat (code_size (wr st)) + length bs"
    and "contents st' = contents st @ bs" and "opened st \<Longrightarrow> code_ptr (wr st') = code_ptr (wr st)"
    and "same_outside (code_ptr (wr st')) (unat (code_size (wr st'))) (mem st) (mem st')"
    and "opened st \<or> bs \<noteq> [] \<Longrightarrow> opened st'"
proof -
  have len: "unat (code_size (wr st)) + length bs < 2 ^ 64" using k by simp
  have "above lo st' \<and> roomy k st' \<and> unat (code_size (wr st')) = unat (code_size (wr st)) + length bs
    \<and> contents st' = contents st @ bs \<and> (opened st \<longrightarrow> code_ptr (wr st') = code_ptr (wr st))
    \<and> same_outside (code_ptr (wr st')) (unat (code_size (wr st'))) (mem st) (mem st')
    \<and> (opened st \<or> bs \<noteq> [] \<longrightarrow> opened st')"
  proof (cases "opened st")
    case True
    from True opened_room [OF r len k(1)] len obtain st1 where s: "copy_in alloc bs st = Inr st1" "opened st1"
        "code_ptr (wr st1) = code_ptr (wr st)" "unat (code_size (wr st1)) = unat (code_size (wr st)) + length bs"
        "peek (mem st1) (code_ptr (wr st)) (unat (code_size (wr st1))) = contents st @ bs"
        "mem st1 = poke (code_ptr (wr st) + code_size (wr st)) bs (mem st)" "fits (al st1) = fits (al st)"
        "alloc_size (wr st1) = grown (of_nat (length bs)) (wr st)"
      unfolding contents_def by (rule copy_in_appends)
    have lo: "lo \<le> unat (code_ptr (wr st))" "unat (alloc_size (wr st)) \<le> 64 + 2 * unat (code_size (wr st))"
      using a True by (auto simp: above_def closed_def opened_def new_writer_def)
    have "same_outside (code_ptr (wr st)) (unat (code_size (wr st)) + length bs) (mem st) (mem st1)"
      using same_outside_poke [OF len le_refl, of "code_ptr (wr st)" "mem st"] by (simp add: s(6))
    with s c lo grown_bound [OF lo(2) len] r True show ?thesis
      by (simp add: above_def roomy_def contents_def)
  next
    case False
    with a have cl: "closed st" "lo \<le> limit (al st)" by (auto simp: above_def)
    then have z: "code_size (wr st) = 0" by (simp add: closed_def new_writer_def)
    show ?thesis
    proof (cases "bs = []")
      case True
      with c cl have "st' = st"
        by (auto simp: copy_in_def ensure_capacity_def closed_def new_writer_def Let_def poke_def
            intro!: code_state.equality)
      with a r True False show ?thesis by (simp add: same_outside_def)
    next
      case ne: False
      have k64: "64 \<le> k" and l: "length bs < 2 ^ 64" using k by simp_all
      note f = copy_in_first [OF cl(1) r k64 ne l c]
      have "contents st' = bs" using f(2,3) l by (simp add: contents_def peek_poke)
      moreover have "contents st = []" by (simp add: contents_def z)
      moreover have "same_outside (code_ptr (wr st')) (length bs) (mem st) (mem st')"
        using same_outside_poke [of 0 bs "length bs" "code_ptr (wr st')" "mem st"] l by (simp add: f(3))
      ultimately show ?thesis
        using f cl(2) r False ne by (simp add: above_def roomy_def z)
    qed
  qed
  then show "above lo st'" "roomy k st'" "unat (code_size (wr st')) = unat (code_size (wr st)) + length bs"
    "contents st' = contents st @ bs" "opened st \<Longrightarrow> code_ptr (wr st') = code_ptr (wr st)"
    "same_outside (code_ptr (wr st')) (unat (code_size (wr st'))) (mem st) (mem st')"
    "opened st \<or> bs \<noteq> [] \<Longrightarrow> opened st'" by blast+
qed

lemma same_outside_0: "same_outside p 0 m m' \<Longrightarrow> m' = m"
  by (auto simp: same_outside_def)

lemma same_outside_trans:
  "same_outside p n m m1 \<Longrightarrow> same_outside p n' m1 m2 \<Longrightarrow> n \<le> n' \<Longrightarrow> same_outside p n' m m2"
  by (auto simp: same_outside_def)

lemma closed_not_opened: "closed st \<Longrightarrow> \<not> opened st"
  by (simp add: closed_def opened_def new_writer_def)

lemma copy_all_appends:
  assumes "above lo st" and "roomy k st" and "64 + 2 * (unat (code_size (wr st)) + length (concat bss)) \<le> k"
    and "k < 2 ^ 63" and "copy_all alloc bss st = Inr st'"
  shows "above lo st' \<and> roomy k st' \<and> unat (code_size (wr st')) = unat (code_size (wr st)) + length (concat bss)
    \<and> contents st' = contents st @ concat bss \<and> (opened st \<longrightarrow> code_ptr (wr st') = code_ptr (wr st) \<and> opened st')
    \<and> same_outside (code_ptr (wr st')) (unat (code_size (wr st'))) (mem st) (mem st')"
  using assms
proof (induction bss arbitrary: st)
  case Nil
  then show ?case by (simp add: same_outside_def)
next
  case (Cons bs bss)
  from Cons.prems(5) obtain st1 where c: "copy_in alloc bs st = Inr st1" and r: "copy_all alloc bss st1 = Inr st'"
    by (auto split: sum.splits)
  have k: "64 + 2 * (unat (code_size (wr st)) + length bs) \<le> k" using Cons.prems(3) by simp
  note s = copy_in_step [OF Cons.prems(1,2) k Cons.prems(4) c]
  have pre: "64 + 2 * (unat (code_size (wr st1)) + length (concat bss)) \<le> k"
    using s(3) Cons.prems(3) by simp
  from Cons.IH [OF s(1,2) pre Cons.prems(4) r]
  have ih: "above lo st'" "roomy k st'" "unat (code_size (wr st')) = unat (code_size (wr st1)) + length (concat bss)"
    "contents st' = contents st1 @ concat bss" "opened st1 \<longrightarrow> code_ptr (wr st') = code_ptr (wr st1) \<and> opened st'"
    "same_outside (code_ptr (wr st')) (unat (code_size (wr st'))) (mem st1) (mem st')" by blast+
  have "same_outside (code_ptr (wr st')) (unat (code_size (wr st'))) (mem st) (mem st')"
  proof (cases "opened st1")
    case True
    with ih(5) s(6) same_outside_trans [OF _ ih(6)] ih(3) show ?thesis by simp
  next
    case False
    with s(1) have "unat (code_size (wr st1)) = 0" by (auto simp: above_def closed_def new_writer_def)
    with s(6) same_outside_0 have "mem st1 = mem st" by metis
    with ih(6) show ?thesis by simp
  qed
  with ih s show ?case by simp
qed

lemma below_outside:
  assumes "same_outside p n m m'" and "unat p + n < 2 ^ 64" and "unat x < unat p"
  shows "m' x = m x"
proof -
  have "n \<le> unat (x - p)" using unat64_diff_less [OF assms(3)] assms(2) by linarith
  with assms(1) show ?thesis by (simp add: same_outside_def)
qed

text \<open>One block: the code of the translation is the bytes copied in, above everything earlier.\<close>

lemma write_block_code:
  assumes cl: "closed st" and lo: "lo \<le> limit (al st)" and r: "roomy k st"
    and k: "64 + 2 * length (concat b) \<le> k" "k < 2 ^ 63" and w: "write_block alloc b st = Inr ((p, n), st')"
  shows "closed st'" and "roomy k st'" and "lo \<le> unat p" and "unat n = length (concat b)"
    and "peek (mem st') p (unat n) = concat b" and "limit (al st') = unat p + unat n"
    and "unat p + unat n < 2 ^ 64" and "same_outside p (unat n) (mem st) (mem st')"
proof -
  from w obtain st1 st2 where c: "copy_all alloc b st = Inr st1" and f: "finalise alloc st1 = Inr st2"
    and e: "p = code_ptr (wr st2)" "n = code_size (wr st2)" "st' = reset_writer st2"
    by (auto simp: write_block_def split: sum.splits)
  have z: "code_size (wr st) = 0" "contents st = []" using cl by (simp_all add: closed_def new_writer_def contents_def)
  have ab: "above lo st" using cl lo by (simp add: above_def)
  have k0: "64 + 2 * (unat (code_size (wr st)) + length (concat b)) \<le> k" using k by (simp add: z)
  note q = copy_all_appends [OF ab r k0 k(2) c]
  then have s: "above lo st1" "roomy k st1" "unat (code_size (wr st1)) = length (concat b)" "contents st1 = concat b"
    by (simp_all add: z)
  moreover have "same_outside (code_ptr (wr st1)) (unat (code_size (wr st1))) (mem st) (mem st1)" using q by blast
  ultimately have s: "above lo st1" "roomy k st1" "unat (code_size (wr st1)) = length (concat b)" "contents st1 = concat b"
    "same_outside (code_ptr (wr st1)) (length (concat b)) (mem st) (mem st1)" by simp_all
  have fit: "fits (al st1) (code_size (wr st1))" using s(2,3) k(1) by (simp add: roomy_def)
  from f obtain s' where a: "alloc (code_ptr (wr st1)) (code_size (wr st1)) (al st1) = Inr (p, s')"
    and st2: "al st2 = s'" "mem st2 = mem st1" "code_size (wr st2) = code_size (wr st1)"
    using e by (auto simp: finalise_def Let_def split: sum.splits)
  have n: "n = code_size (wr st1)" using e(2) st2(3) by simp
  have all: "inv s' \<and> owns s' p \<and> fits s' = fits (al st1) \<and> lo \<le> unat p \<and> limit s' = unat p + unat n
      \<and> same_outside p (unat n) (mem st) (mem st1) \<and> peek (mem st1) p (unat n) = concat b"
  proof (cases "opened st1")
    case True
    then have o': "inv (al st1)" "code_ptr (wr st1) \<noteq> 0" "owns (al st1) (code_ptr (wr st1))" by (simp_all add: opened_def)
    from resize [OF o' fit] a have p: "p = code_ptr (wr st1)" "inv s'" "owns s' p" "fits s' = fits (al st1)" by auto
    have "lo \<le> unat (code_ptr (wr st1))" using s(1) True closed_not_opened by (auto simp: above_def)
    with p resize_limit [OF o'] a s(3,4,5) show ?thesis by (simp add: n contents_def)
  next
    case False
    with s(1) have c1: "closed st1" "lo \<le> limit (al st1)" by (auto simp: above_def)
    then have z1: "code_ptr (wr st1) = 0" "code_size (wr st1) = 0" "inv (al st1)" by (simp_all add: closed_def new_writer_def)
    from z1(2) s(3) have "length (concat b) = 0" by simp
    with s(5) same_outside_0 have "mem st1 = mem st" by metis
    with fresh [OF z1(3) fit] a z1 c1(2) \<open>length (concat b) = 0\<close> show ?thesis
      by (auto simp: n same_outside_def)
  qed
  with in_range [of s' p n] fit n have "unat p + unat n < 2 ^ 64" by simp
  with all e st2 s n show "closed st'" "roomy k st'" "lo \<le> unat p" "unat n = length (concat b)"
    "peek (mem st') p (unat n) = concat b" "limit (al st') = unat p + unat n"
    "unat p + unat n < 2 ^ 64" "same_outside p (unat n) (mem st) (mem st')"
    by (simp_all add: closed_def reset_writer_def roomy_def)
qed

lemma peek_below:
  assumes "\<And>x. unat x < hi \<Longrightarrow> m' x = m x" and "unat p + n \<le> hi" and "unat p + n < 2 ^ 64"
  shows "peek m' p n = peek m p n"
  using assms by (auto simp: peek_def unat64_add)

text \<open>A sequence of blocks: every translation keeps its own code, the translations do not
  overlap, nothing below is touched.\<close>

lemma write_blocks_code:
  assumes "closed st" and "lo \<le> limit (al st)" and "roomy k st" and "k < 2 ^ 63"
    and "\<forall>b \<in> set bs. 64 + 2 * length (concat b) \<le> k" and "write_blocks alloc bs st = Inr (ts, st')"
  shows "list_all2 (\<lambda>b t. unat (snd t) = length (concat b) \<and> peek (mem st') (fst t) (unat (snd t)) = concat b) bs ts
    \<and> sorted_wrt (\<lambda>t u. unat (fst t) + unat (snd t) \<le> unat (fst u)) ts \<and> (\<forall>t \<in> set ts. lo \<le> unat (fst t))
    \<and> (\<forall>x. unat x < lo \<longrightarrow> mem st' x = mem st x)"
  using assms
proof (induction bs arbitrary: st lo ts)
  case (Cons b bs)
  from Cons.prems(6) obtain p n st1 us where w: "write_block alloc b st = Inr ((p, n), st1)"
    and r: "write_blocks alloc bs st1 = Inr (us, st')" and ts: "ts = (p, n) # us"
    by (auto split: sum.splits)
  have k: "64 + 2 * length (concat b) \<le> k" using Cons.prems(5) by simp
  note b = write_block_code [OF Cons.prems(1,2,3) k Cons.prems(4) w]
  from Cons.IH [OF b(1) _ b(2) Cons.prems(4) _ r, of "unat p + unat n"] Cons.prems(5)
  have ih: "list_all2 (\<lambda>b t. unat (snd t) = length (concat b) \<and> peek (mem st') (fst t) (unat (snd t)) = concat b) bs us"
    "sorted_wrt (\<lambda>t u. unat (fst t) + unat (snd t) \<le> unat (fst u)) us" "\<forall>t \<in> set us. unat p + unat n \<le> unat (fst t)"
    "\<And>x. unat x < unat p + unat n \<Longrightarrow> mem st' x = mem st1 x"
    by (simp_all add: b(6))
  have "peek (mem st') p (unat n) = concat b"
    using peek_below [OF ih(4) le_refl b(7)] b(5) by simp
  moreover have "mem st' x = mem st x" if "unat x < lo" for x
    using that b(3) ih(4) below_outside [OF b(8,7)] by simp
  ultimately show ?case using ih b(3,4) ts by (auto dest: bspec)
qed simp

end

section \<open>The arena\<close>

lemma align16_bounds:
  assumes "unat n + 15 < 2 ^ 64"
  shows "unat n \<le> unat (align16 n)" and "unat (align16 n) \<le> unat n + 15" and "align16 n AND 15 = 0"
proof -
  have m: "(15 :: addr) = mask 4" by (simp add: mask_eq_exp_minus_1)
  have e: "x AND NOT (mask 4) = push_bit 4 (drop_bit 4 x)" for x :: addr
    by (rule bit_word_eqI) (auto simp: bit_simps)
  have u: "unat (push_bit 4 (drop_bit 4 x)) = unat x div 16 * 16" for x :: addr
  proof -
    have "unat (push_bit 4 (drop_bit 4 x)) = take_bit 64 (push_bit 4 (drop_bit 4 (unat x)))"
      by (simp only: unsigned_push_bit_eq unsigned_drop_bit_eq) (simp add: take_bit_nat_eq_self [OF unat64_less])
    also have "\<dots> = unat x div 16 * 16 mod 2 ^ 64"
      by (simp only: push_bit_eq_mult drop_bit_eq_div take_bit_eq_mod) simp
    also have "\<dots> = unat x div 16 * 16"
      using unat64_less [of x] by (intro mod_less) linarith
    finally show ?thesis .
  qed
  have s: "unat (n + 15) = unat n + 15" using unat64_add [of n 15] assms by simp
  have "unat (align16 n) = (unat n + 15) div 16 * 16"
    unfolding align16_def m e u unfolding m [symmetric] s ..
  then show "unat n \<le> unat (align16 n)" "unat (align16 n) \<le> unat n + 15" by linarith+
  show "align16 n AND 15 = 0"
    unfolding align16_def by (rule bit_word_eqI) (auto simp: bit_simps)
qed

text \<open>
  The arena as the allocator knows it: not at address 0, the next allocation inside, and no
  allocation so large that the address space would end (\<open>arena_fits\<close>).
\<close>

definition arena_end :: "arena_allocator \<Rightarrow> addr" where
  "arena_end a = arena_base (the_arena a) + arena_size (the_arena a)"

definition arena_fits :: "arena_allocator \<Rightarrow> addr \<Rightarrow> bool" where
  "arena_fits a n \<longleftrightarrow> unat (arena_end a) + unat n + 16 < 2 ^ 64"

definition arena_owns :: "arena_allocator \<Rightarrow> addr \<Rightarrow> bool" where
  "arena_owns a p \<longleftrightarrow> current_allocation a = p"

definition arena_inv :: "arena_allocator \<Rightarrow> bool" where
  "arena_inv a \<longleftrightarrow> arena_base (the_arena a) \<noteq> 0 \<and> arena_base (the_arena a) \<le> next_allocation a
     \<and> next_allocation a \<le> arena_end a \<and> arena_fits a (current_allocation_size a)
     \<and> (current_allocation a = 0 \<or> current_allocation a = next_allocation a)"

definition arena_limit :: "arena_allocator \<Rightarrow> nat" where
  "arena_limit a = unat (next_allocation a) + unat (current_allocation_size a)"

lemma arena_next:
  assumes "arena_inv a"
  shows "unat (next_allocation a + align16 (current_allocation_size a))
       = unat (next_allocation a) + unat (align16 (current_allocation_size a))"
    and "unat (current_allocation_size a) \<le> unat (align16 (current_allocation_size a))"
proof -
  have c: "unat (current_allocation_size a) + 15 < 2 ^ 64" and e: "unat (next_allocation a) \<le> unat (arena_end a)"
    and f: "unat (arena_end a) + unat (current_allocation_size a) + 16 < 2 ^ 64"
    using assms by (auto simp: arena_inv_def arena_fits_def word_le_nat_alt)
  show "unat (current_allocation_size a) \<le> unat (align16 (current_allocation_size a))"
    using c by (rule align16_bounds)
  have "unat (next_allocation a) + unat (align16 (current_allocation_size a)) < 2 ^ 64"
    using align16_bounds(2) [OF c] e f by linarith
  from unat64_add [OF this]
  show "unat (next_allocation a + align16 (current_allocation_size a))
       = unat (next_allocation a) + unat (align16 (current_allocation_size a))" by simp
qed

interpretation arena: code_allocator arena_allocate arena_inv arena_owns arena_fits arena_limit
proof
  fix a p n
  assume "arena_inv a" "p \<noteq> 0" "arena_owns a p" "arena_fits a n"
  then show "\<exists>a'. arena_allocate p n a = Inr (p, a') \<and> arena_inv a' \<and> arena_owns a' p \<and> arena_fits a' = arena_fits a"
    by (auto simp: arena_allocate_def arena_inv_def arena_owns_def arena_fits_def arena_end_def)
next
  fix a p n a'
  assume "arena_inv a" "p \<noteq> 0" "arena_owns a p" "arena_allocate p n a = Inr (p, a')"
  then show "arena_limit a' = unat p + unat n"
    by (auto simp: arena_allocate_def arena_inv_def arena_owns_def arena_limit_def split: if_splits)
next
  fix a p n
  assume "arena_inv a" "arena_owns a p" "arena_fits a n"
  then show "unat p + unat n < 2 ^ 64"
    using unat64_less [of n] by (auto simp: arena_inv_def arena_owns_def arena_fits_def word_le_nat_alt)
next
  fix a n p a'
  assume a: "arena_inv a" "arena_fits a n" and f: "arena_allocate 0 n a = Inr (p, a')"
  from f have p: "p = next_allocation a + align16 (current_allocation_size a)" "p \<le> arena_end a"
      "a' = a\<lparr>next_allocation := p, current_allocation_size := n, current_allocation := p\<rparr>"
    by (auto simp: arena_allocate_def arena_end_def Let_def split: if_splits)
  note nx = arena_next [OF a(1)]
  have "unat (arena_base (the_arena a)) \<le> unat (next_allocation a)" "arena_base (the_arena a) \<noteq> 0"
    using a(1) by (simp_all add: arena_inv_def word_le_nat_alt)
  moreover from this(2) have "0 < unat (arena_base (the_arena a))" by (simp add: unat_gt_0)
  ultimately have "0 < unat p" "arena_base (the_arena a) \<le> p"
    using nx p(1) by (auto simp: word_le_nat_alt)
  then have "p \<noteq> 0" "arena_base (the_arena a) \<le> p" by auto
  with nx p a show "p \<noteq> 0 \<and> arena_inv a' \<and> arena_owns a' p \<and> arena_fits a' = arena_fits a
      \<and> arena_limit a \<le> unat p \<and> arena_limit a' = unat p + unat n"
    by (auto simp: arena_inv_def arena_owns_def arena_limit_def arena_fits_def arena_end_def)
qed

text \<open>The allocator of \<open>chain\<close> can only confirm a size up to its own.\<close>

interpretation chain: resizable_code chain_allocate "\<lambda>_. True" "\<lambda>_ _. True" "\<lambda>s n. n \<le> s"
  by unfold_locales (simp add: chain_allocate_def)

section \<open>Properties\<close>

definition fresh_code :: "arena \<Rightarrow> memory \<Rightarrow> arena_allocator code_state" where
  "fresh_code ar m = \<lparr>wr = new_writer, al = new_arena_allocator ar, mem = m\<rparr>"

text \<open>C23: however many blocks are written, each copied in piece by piece, every translation
  keeps the bytes of its own block, translations do not overlap, and nothing below the arena
  changes.\<close>

theorem translations_keep_their_code:
  assumes "arena_base ar \<noteq> 0" and "unat (arena_base ar) + unat (arena_size ar) + k + 16 < 2 ^ 64" and "k < 2 ^ 63"
    and "\<forall>b \<in> set bs. 64 + 2 * length (concat b) \<le> k"
    and "write_blocks arena_allocate bs (fresh_code ar m) = Inr (ts, st)"
  shows "list_all2 (\<lambda>b t. unat (snd t) = length (concat b) \<and> peek (mem st) (fst t) (unat (snd t)) = concat b) bs ts
    \<and> sorted_wrt (\<lambda>t u. unat (fst t) + unat (snd t) \<le> unat (fst u)) ts
    \<and> (\<forall>t \<in> set ts. unat (arena_base ar) \<le> unat (fst t))
    \<and> (\<forall>x. unat x < unat (arena_base ar) \<longrightarrow> mem st x = m x)"
proof -
  let ?st = "fresh_code ar m"
  have e: "unat (arena_base ar + arena_size ar) = unat (arena_base ar) + unat (arena_size ar)"
    using assms(2) unat64_add [of "arena_base ar" "unat (arena_size ar)"] by simp
  have "arena.closed ?st"
    using assms(1,2) by (simp add: arena.closed_def fresh_code_def arena_inv_def new_arena_allocator_def arena_fits_def
        arena_end_def e word_le_nat_alt)
  moreover have "unat (arena_base ar) \<le> arena_limit (al ?st)"
    by (simp add: fresh_code_def arena_limit_def new_arena_allocator_def)
  moreover have "arena.roomy k ?st"
    using assms(2) by (simp add: arena.roomy_def fresh_code_def new_arena_allocator_def arena_fits_def arena_end_def e)
  ultimately have "list_all2 (\<lambda>b t. unat (snd t) = length (concat b) \<and> peek (mem st) (fst t) (unat (snd t)) = concat b) bs ts
    \<and> sorted_wrt (\<lambda>t u. unat (fst t) + unat (snd t) \<le> unat (fst u)) ts
    \<and> (\<forall>t \<in> set ts. unat (arena_base ar) \<le> unat (fst t))
    \<and> (\<forall>x. unat x < unat (arena_base ar) \<longrightarrow> mem st x = mem ?st x)"
    using assms(3-5) by (rule arena.write_blocks_code)
  then show ?thesis by (simp add: fresh_code_def)
qed

definition sample_arena :: arena where
  "sample_arena = \<lparr>arena_base = 0x10000, arena_size = 0x1000\<rparr>"

definition sample_blocks :: "8 word list list list" where
  "sample_blocks = [[[0x48, 0x89], [0xC3]], [[0xC3]]]"

lemma translations_keep_their_code_witness:
  "\<exists>st. write_blocks arena_allocate sample_blocks (fresh_code sample_arena (\<lambda>_. 0))
      = Inr ([(0x10000, 3), (0x10010, 1)], st) \<and> peek (mem st) 0x10000 3 = [0x48, 0x89, 0xC3]
    \<and> peek (mem st) 0x10010 1 = [0xC3]"
proof -
  have n: "unat (0x10000 :: addr) = 65536" "unat (0x1000 :: addr) = 4096" by simp_all
  have e: "map_sum id fst (write_blocks arena_allocate sample_blocks (fresh_code sample_arena (\<lambda>_. 0)))
      = Inr [(0x10000, 3), (0x10010, 1)]"
    by code_simp
  then obtain st where st: "write_blocks arena_allocate sample_blocks (fresh_code sample_arena (\<lambda>_. 0))
      = Inr ([(0x10000, 3), (0x10010, 1)], st)"
    by (cases "write_blocks arena_allocate sample_blocks (fresh_code sample_arena (\<lambda>_. 0))") auto
  from translations_keep_their_code [OF _ _ _ _ this, of 1024] have
    "peek (mem st) 0x10000 3 = [0x48, 0x89, 0xC3] \<and> peek (mem st) 0x10010 1 = [0xC3]"
    by (simp add: sample_arena_def sample_blocks_def)
  with st show ?thesis by blast
qed

text \<open>C28: whatever the allocator, when a copy into a writer whose code fits its allocation succeeds (capacity
  and copy below 2 to the 62 bytes), the code ends behind the end of the new allocation exactly when it needs more
  than twice the capacity the writer had (more than 64 bytes if it had none), because the capacity is doubled only
  once; the bytes behind the end are then overwritten with the rest of the copy.\<close>

theorem writer_overruns_its_allocation:
  assumes "copy_in alloc bs st = Inr st'" and "code_size (wr st) \<le> alloc_size (wr st)"
    and "unat (alloc_size (wr st)) < 2 ^ 62" and "length bs < 2 ^ 62"
    and "room = (if alloc_size (wr st) = 0 then 64 else 2 * unat (alloc_size (wr st)))"
  shows "(code_size (wr st') > alloc_size (wr st') \<longleftrightarrow> unat (code_size (wr st)) + length bs > room)
    \<and> (\<forall>i. unat (alloc_size (wr st')) \<le> i \<and> i < unat (code_size (wr st)) + length bs \<longrightarrow>
         code_size (wr st') > alloc_size (wr st') \<longrightarrow>
         mem st' (code_ptr (wr st') + of_nat i) = bs ! (i - unat (code_size (wr st))))"
proof -
  let ?c = "code_size (wr st)" and ?a = "alloc_size (wr st)" and ?n = "of_nat (length bs) :: 64 word"
  have c: "unat ?c \<le> unat ?a" using assms(2) by (simp add: word_le_nat_alt)
  have n: "unat ?n = length bs" using assms(4) by (simp add: unat_of_nat)
  have cn: "unat (?c + ?n) = unat ?c + length bs" using assms(3,4) c n by (intro unat64_add) simp_all
  have d: "unat (?a * 2) = unat ?a * 2" using assms(3) by (simp add: unat_word_ariths)
  have g: "alloc_size (wr st') = grown ?n (wr st)" "code_size (wr st') = ?c + ?n"
    "mem st' = poke (code_ptr (wr st') + ?c) bs (mem st)"
    using assms(1) by (auto simp: copy_in_def ensure_capacity_def grown_def Let_def split: sum.splits if_splits)
  have room: "grown ?n (wr st) < ?c + ?n \<longleftrightarrow> room < unat ?c + length bs"
    unfolding grown_def word_less_nat_alt word_le_nat_alt using cn d c by (auto simp: assms(5) unat_eq_0)
  moreover have "mem st' (code_ptr (wr st') + of_nat i) = bs ! (i - unat ?c)"
    if i: "unat (alloc_size (wr st')) \<le> i" "i < unat ?c + length bs" and over: "code_size (wr st') > alloc_size (wr st')" for i
  proof -
    have "unat ?c \<le> unat (alloc_size (wr st'))"
      using c d unfolding g(1) grown_def by (auto simp: word_less_nat_alt unat_eq_0)
    then have ic: "unat ?c \<le> i" using i(1) by simp
    have "i < 2 ^ 64" using i(2) assms(3,4) c by simp
    then have iu: "unat (of_nat i :: 64 word) = i" by (simp add: unat_of_nat)
    have "code_ptr (wr st') + of_nat i - (code_ptr (wr st') + ?c) = of_nat i - ?c" by simp
    moreover have "unat (of_nat i - ?c) = i - unat ?c" using ic iu by (simp add: unat_sub word_le_nat_alt)
    moreover have "i - unat ?c < length bs" using i(2) ic by linarith
    ultimately show ?thesis unfolding g(3) poke_def by simp
  qed
  ultimately show ?thesis unfolding g(1,2) by blast
qed

lemma writer_overruns_its_allocation_witness:
  "\<exists>st. copy_in arena_allocate (replicate 65 0x90) (fresh_code sample_arena (\<lambda>_. 0)) = Inr st
     \<and> code_size (wr st) > alloc_size (wr st) \<and> mem st (code_ptr (wr st) + 64) = 0x90"
proof -
  let ?st = "fresh_code sample_arena (\<lambda>_. 0)"
  obtain st where st: "copy_in arena_allocate (replicate 65 0x90) ?st = Inr st"
    by (simp add: copy_in_def ensure_capacity_def fresh_code_def new_writer_def sample_arena_def
      new_arena_allocator_def arena_allocate_def align16_def Let_def)
  have "code_size (wr ?st) \<le> alloc_size (wr ?st)" "alloc_size (wr ?st) = 0" "code_size (wr ?st) = 0"
    by (simp_all add: fresh_code_def new_writer_def)
  from writer_overruns_its_allocation [OF st this(1) _ _ refl] this(2,3)
  have o: "code_size (wr st) > alloc_size (wr st)" and
    b: "unat (alloc_size (wr st)) \<le> 64 \<Longrightarrow> mem st (code_ptr (wr st) + of_nat 64) = replicate 65 0x90 ! 64"
    by auto
  have "alloc_size (wr st) = 64"
    using st by (auto simp: copy_in_def ensure_capacity_def fresh_code_def new_writer_def sample_arena_def
      new_arena_allocator_def arena_allocate_def align16_def Let_def split: if_splits)
  then have "mem st (code_ptr (wr st) + of_nat 64) = replicate 65 0x90 ! 64" by (intro b) simp
  then have "mem st (code_ptr (wr st) + 64) = 0x90" by (simp add: nth_replicate)
  with st o show ?thesis by blast
qed

text \<open>C29: the capacity is enough as long as no single copy is longer than 64 bytes.\<close>

theorem copies_up_to_64_bytes_fit:
  assumes "length bs \<le> 64" and "code_size (wr st) \<le> alloc_size (wr st)" and "alloc_size (wr st) = 0 \<or> 64 \<le> alloc_size (wr st)"
    and "unat (alloc_size (wr st)) < 2 ^ 62" and "copy_in alloc bs st = Inr st'"
  shows "code_size (wr st') \<le> alloc_size (wr st') \<and> (alloc_size (wr st') = 0 \<or> 64 \<le> alloc_size (wr st'))"
proof -
  have a: "unat (code_size (wr st)) \<le> unat (alloc_size (wr st))" "alloc_size (wr st) = 0 \<or> 64 \<le> unat (alloc_size (wr st))"
    using assms(2,3) by (auto simp: word_le_nat_alt)
  have c: "unat (code_size (wr st) + of_nat (length bs)) = unat (code_size (wr st)) + length bs"
    using assms(1,4) a(1) by (intro unat64_add) simp
  have d: "unat (alloc_size (wr st) * 2) = unat (alloc_size (wr st)) * 2"
    using assms(4) by (simp add: unat_word_ariths)
  from assms(5) have g: "alloc_size (wr st') = grown (of_nat (length bs)) (wr st)"
    "code_size (wr st') = code_size (wr st) + of_nat (length bs)"
    by (auto simp: copy_in_def ensure_capacity_def grown_def Let_def split: sum.splits if_splits)
  show ?thesis
    unfolding g grown_def word_le_nat_alt word_less_nat_alt
    using a assms(1) by (auto simp: c d)
qed

lemma copies_up_to_64_bytes_fit_witness:
  "\<exists>st'. copy_in arena_allocate [0x48, 0x89, 0xC3] (fresh_code sample_arena (\<lambda>_. 0)) = Inr st'
     \<and> code_size (wr st') \<le> alloc_size (wr st')"
proof -
  let ?st = "fresh_code sample_arena (\<lambda>_. 0)" and ?bs = "[0x48, 0x89, 0xC3] :: 8 word list"
  obtain st' where "copy_in arena_allocate ?bs ?st = Inr st'"
    by (simp add: copy_in_def ensure_capacity_def fresh_code_def new_writer_def sample_arena_def
        new_arena_allocator_def arena_allocate_def align16_def Let_def)
  with copies_up_to_64_bytes_fit [of ?bs ?st arena_allocate st'] show ?thesis
    by (simp add: fresh_code_def new_writer_def)
qed

end
