(* ===== verification/Riscv_Constants.thy ===== *)
theory Riscv_Constants
  imports Prelude
begin

text \<open>
  The instruction encoding of the RISC-V back end
  (\<open>inc/arancini/output/dynamic/riscv64/encoder/riscv64-constants.h\<close>, \<open>utils.h\<close>, with
  \<open>XLEN = 64\<close>): the enumerators, the predicates, encoders and decoders of every field and
  immediate.  \<open>uint32_t\<close> is a 32-bit word, \<open>intptr_t\<close> and \<open>intx_t\<close> are 64-bit words read
  as signed.  \<open>ASSERT\<close> is active, as \<open>assert.h\<close> makes it unless \<open>NDEBUG\<close> is given: an encoder
  whose assertion fails is \<open>Inl (Assertion_failed _)\<close>.
\<close>

named_theorems rv_consts \<open>values of the enumerators\<close>
named_theorems rv_codes \<open>encoders and decoders\<close>

type_synonym reg = "32 word"
type_synonym intptr = "64 word"

section \<open>Enumerators\<close>

text \<open>General and floating-point registers.\<close>

definition ZERO :: "reg" where [rv_consts]: "ZERO = 0"
definition RA :: "reg" where [rv_consts]: "RA = 1"
definition SP :: "reg" where [rv_consts]: "SP = 2"
definition GP :: "reg" where [rv_consts]: "GP = 3"
definition TP :: "reg" where [rv_consts]: "TP = 4"
definition T0 :: "reg" where [rv_consts]: "T0 = 5"
definition T1 :: "reg" where [rv_consts]: "T1 = 6"
definition T2 :: "reg" where [rv_consts]: "T2 = 7"
definition FP :: "reg" where [rv_consts]: "FP = 8"
definition S1 :: "reg" where [rv_consts]: "S1 = 9"
definition A0 :: "reg" where [rv_consts]: "A0 = 10"
definition A1 :: "reg" where [rv_consts]: "A1 = 11"
definition A2 :: "reg" where [rv_consts]: "A2 = 12"
definition A3 :: "reg" where [rv_consts]: "A3 = 13"
definition A4 :: "reg" where [rv_consts]: "A4 = 14"
definition A5 :: "reg" where [rv_consts]: "A5 = 15"
definition A6 :: "reg" where [rv_consts]: "A6 = 16"
definition A7 :: "reg" where [rv_consts]: "A7 = 17"
definition S2 :: "reg" where [rv_consts]: "S2 = 18"
definition S3 :: "reg" where [rv_consts]: "S3 = 19"
definition S4 :: "reg" where [rv_consts]: "S4 = 20"
definition S5 :: "reg" where [rv_consts]: "S5 = 21"
definition S6 :: "reg" where [rv_consts]: "S6 = 22"
definition S7 :: "reg" where [rv_consts]: "S7 = 23"
definition S8 :: "reg" where [rv_consts]: "S8 = 24"
definition S9 :: "reg" where [rv_consts]: "S9 = 25"
definition S10 :: "reg" where [rv_consts]: "S10 = 26"
definition S11 :: "reg" where [rv_consts]: "S11 = 27"
definition T3 :: "reg" where [rv_consts]: "T3 = 28"
definition T4 :: "reg" where [rv_consts]: "T4 = 29"
definition T5 :: "reg" where [rv_consts]: "T5 = 30"
definition T6 :: "reg" where [rv_consts]: "T6 = 31"

definition FT0 :: "reg" where [rv_consts]: "FT0 = 0"
definition FT1 :: "reg" where [rv_consts]: "FT1 = 1"
definition FT2 :: "reg" where [rv_consts]: "FT2 = 2"
definition FT3 :: "reg" where [rv_consts]: "FT3 = 3"
definition FT4 :: "reg" where [rv_consts]: "FT4 = 4"
definition FT5 :: "reg" where [rv_consts]: "FT5 = 5"
definition FT6 :: "reg" where [rv_consts]: "FT6 = 6"
definition FT7 :: "reg" where [rv_consts]: "FT7 = 7"
definition FS0 :: "reg" where [rv_consts]: "FS0 = 8"
definition FS1 :: "reg" where [rv_consts]: "FS1 = 9"
definition FA0 :: "reg" where [rv_consts]: "FA0 = 10"
definition FA1 :: "reg" where [rv_consts]: "FA1 = 11"
definition FA2 :: "reg" where [rv_consts]: "FA2 = 12"
definition FA3 :: "reg" where [rv_consts]: "FA3 = 13"
definition FA4 :: "reg" where [rv_consts]: "FA4 = 14"
definition FA5 :: "reg" where [rv_consts]: "FA5 = 15"
definition FA6 :: "reg" where [rv_consts]: "FA6 = 16"
definition FA7 :: "reg" where [rv_consts]: "FA7 = 17"
definition FS2 :: "reg" where [rv_consts]: "FS2 = 18"
definition FS3 :: "reg" where [rv_consts]: "FS3 = 19"
definition FS4 :: "reg" where [rv_consts]: "FS4 = 20"
definition FS5 :: "reg" where [rv_consts]: "FS5 = 21"
definition FS6 :: "reg" where [rv_consts]: "FS6 = 22"
definition FS7 :: "reg" where [rv_consts]: "FS7 = 23"
definition FS8 :: "reg" where [rv_consts]: "FS8 = 24"
definition FS9 :: "reg" where [rv_consts]: "FS9 = 25"
definition FS10 :: "reg" where [rv_consts]: "FS10 = 26"
definition FS11 :: "reg" where [rv_consts]: "FS11 = 27"
definition FT8 :: "reg" where [rv_consts]: "FT8 = 28"
definition FT9 :: "reg" where [rv_consts]: "FT9 = 29"
definition FT10 :: "reg" where [rv_consts]: "FT10 = 30"
definition FT11 :: "reg" where [rv_consts]: "FT11 = 31"

text \<open>Major opcodes, function codes, rounding modes.  Enumerators whose name is taken carry the field as suffix.\<close>

definition LUI :: "32 word" where [rv_consts]: "LUI = 0b110111"
definition AUIPC :: "32 word" where [rv_consts]: "AUIPC = 0b10111"
definition JAL :: "32 word" where [rv_consts]: "JAL = 0b1101111"
definition JALR :: "32 word" where [rv_consts]: "JALR = 0b1100111"
definition BRANCH :: "32 word" where [rv_consts]: "BRANCH = 0b1100011"
definition LOAD :: "32 word" where [rv_consts]: "LOAD = 0b11"
definition STORE :: "32 word" where [rv_consts]: "STORE = 0b100011"
definition OPIMM :: "32 word" where [rv_consts]: "OPIMM = 0b10011"
definition OP :: "32 word" where [rv_consts]: "OP = 0b110011"
definition MISCMEM :: "32 word" where [rv_consts]: "MISCMEM = 0b1111"
definition SYSTEM :: "32 word" where [rv_consts]: "SYSTEM = 0b1110011"
definition OP32 :: "32 word" where [rv_consts]: "OP32 = 0b111011"
definition OPIMM32 :: "32 word" where [rv_consts]: "OPIMM32 = 0b11011"
definition AMO :: "32 word" where [rv_consts]: "AMO = 0b101111"
definition LOADFP :: "32 word" where [rv_consts]: "LOADFP = 0b111"
definition STOREFP :: "32 word" where [rv_consts]: "STOREFP = 0b100111"
definition FMADD :: "32 word" where [rv_consts]: "FMADD = 0b1000011"
definition FMSUB :: "32 word" where [rv_consts]: "FMSUB = 0b1000111"
definition FNMSUB :: "32 word" where [rv_consts]: "FNMSUB = 0b1001011"
definition FNMADD :: "32 word" where [rv_consts]: "FNMADD = 0b1001111"
definition OPFP :: "32 word" where [rv_consts]: "OPFP = 0b1010011"

definition ECALL :: "32 word" where [rv_consts]: "ECALL = 0"
definition EBREAK :: "32 word" where [rv_consts]: "EBREAK = 1"

definition F3_0 :: "32 word" where [rv_consts]: "F3_0 = 0"
definition F3_1 :: "32 word" where [rv_consts]: "F3_1 = 1"
definition BEQ :: "32 word" where [rv_consts]: "BEQ = 0"
definition BNE :: "32 word" where [rv_consts]: "BNE = 1"
definition BLT :: "32 word" where [rv_consts]: "BLT = 0b100"
definition BGE :: "32 word" where [rv_consts]: "BGE = 0b101"
definition BLTU :: "32 word" where [rv_consts]: "BLTU = 0b110"
definition BGEU :: "32 word" where [rv_consts]: "BGEU = 0b111"
definition LB :: "32 word" where [rv_consts]: "LB = 0"
definition LH :: "32 word" where [rv_consts]: "LH = 1"
definition LW :: "32 word" where [rv_consts]: "LW = 0b10"
definition LBU :: "32 word" where [rv_consts]: "LBU = 0b100"
definition LHU :: "32 word" where [rv_consts]: "LHU = 0b101"
definition LWU :: "32 word" where [rv_consts]: "LWU = 0b110"
definition LD :: "32 word" where [rv_consts]: "LD = 0b11"
definition SB :: "32 word" where [rv_consts]: "SB = 0"
definition SH :: "32 word" where [rv_consts]: "SH = 1"
definition SW :: "32 word" where [rv_consts]: "SW = 0b10"
definition SD :: "32 word" where [rv_consts]: "SD = 0b11"
definition ADDI :: "32 word" where [rv_consts]: "ADDI = 0"
definition SLLI :: "32 word" where [rv_consts]: "SLLI = 1"
definition SLTI :: "32 word" where [rv_consts]: "SLTI = 0b10"
definition SLTIU :: "32 word" where [rv_consts]: "SLTIU = 0b11"
definition XORI :: "32 word" where [rv_consts]: "XORI = 0b100"
definition SRI :: "32 word" where [rv_consts]: "SRI = 0b101"
definition ORI :: "32 word" where [rv_consts]: "ORI = 0b110"
definition ANDI :: "32 word" where [rv_consts]: "ANDI = 0b111"
definition ADD :: "32 word" where [rv_consts]: "ADD = 0"
definition SLL :: "32 word" where [rv_consts]: "SLL = 1"
definition SLT :: "32 word" where [rv_consts]: "SLT = 0b10"
definition SLTU :: "32 word" where [rv_consts]: "SLTU = 0b11"
definition XOR_f3 :: "32 word" where [rv_consts]: "XOR_f3 = 0b100"
definition SR_f3 :: "32 word" where [rv_consts]: "SR_f3 = 0b101"
definition OR_f3 :: "32 word" where [rv_consts]: "OR_f3 = 0b110"
definition AND_f3 :: "32 word" where [rv_consts]: "AND_f3 = 0b111"
definition FENCE :: "32 word" where [rv_consts]: "FENCE = 0"
definition FENCEI :: "32 word" where [rv_consts]: "FENCEI = 1"
definition CSRRW :: "32 word" where [rv_consts]: "CSRRW = 1"
definition CSRRS :: "32 word" where [rv_consts]: "CSRRS = 0b10"
definition CSRRC :: "32 word" where [rv_consts]: "CSRRC = 0b11"
definition CSRRWI :: "32 word" where [rv_consts]: "CSRRWI = 0b101"
definition CSRRSI :: "32 word" where [rv_consts]: "CSRRSI = 0b110"
definition CSRRCI :: "32 word" where [rv_consts]: "CSRRCI = 0b111"
definition MUL :: "32 word" where [rv_consts]: "MUL = 0"
definition MULH :: "32 word" where [rv_consts]: "MULH = 1"
definition MULHSU :: "32 word" where [rv_consts]: "MULHSU = 0b10"
definition MULHU :: "32 word" where [rv_consts]: "MULHU = 0b11"
definition DIV :: "32 word" where [rv_consts]: "DIV = 0b100"
definition DIVU :: "32 word" where [rv_consts]: "DIVU = 0b101"
definition REM :: "32 word" where [rv_consts]: "REM = 0b110"
definition REMU :: "32 word" where [rv_consts]: "REMU = 0b111"
definition MULW :: "32 word" where [rv_consts]: "MULW = 0"
definition DIVW :: "32 word" where [rv_consts]: "DIVW = 0b100"
definition DIVUW :: "32 word" where [rv_consts]: "DIVUW = 0b101"
definition REMW :: "32 word" where [rv_consts]: "REMW = 0b110"
definition REMUW :: "32 word" where [rv_consts]: "REMUW = 0b111"
definition WIDTH32 :: "32 word" where [rv_consts]: "WIDTH32 = 0b10"
definition WIDTH64 :: "32 word" where [rv_consts]: "WIDTH64 = 0b11"
definition S_f3 :: "32 word" where [rv_consts]: "S_f3 = 0b10"
definition D_f3 :: "32 word" where [rv_consts]: "D_f3 = 0b11"
definition J_f3 :: "32 word" where [rv_consts]: "J_f3 = 0"
definition JN_f3 :: "32 word" where [rv_consts]: "JN_f3 = 1"
definition JX_f3 :: "32 word" where [rv_consts]: "JX_f3 = 0b10"
definition FMIN :: "32 word" where [rv_consts]: "FMIN = 0"
definition FMAX :: "32 word" where [rv_consts]: "FMAX = 1"
definition FEQ :: "32 word" where [rv_consts]: "FEQ = 0b10"
definition FLT :: "32 word" where [rv_consts]: "FLT = 1"
definition FLE :: "32 word" where [rv_consts]: "FLE = 0"
definition SH1ADD :: "32 word" where [rv_consts]: "SH1ADD = 0b10"
definition SH2ADD :: "32 word" where [rv_consts]: "SH2ADD = 0b100"
definition SH3ADD :: "32 word" where [rv_consts]: "SH3ADD = 0b110"
definition F3_COUNT :: "32 word" where [rv_consts]: "F3_COUNT = 1"
definition MAX_f3 :: "32 word" where [rv_consts]: "MAX_f3 = 0b110"
definition MAXU :: "32 word" where [rv_consts]: "MAXU = 0b111"
definition MIN_f3 :: "32 word" where [rv_consts]: "MIN_f3 = 0b100"
definition MINU :: "32 word" where [rv_consts]: "MINU = 0b101"
definition CLMUL :: "32 word" where [rv_consts]: "CLMUL = 1"
definition CLMULH :: "32 word" where [rv_consts]: "CLMULH = 0b11"
definition CLMULR :: "32 word" where [rv_consts]: "CLMULR = 0b10"
definition SEXT :: "32 word" where [rv_consts]: "SEXT = 1"
definition ZEXT :: "32 word" where [rv_consts]: "ZEXT = 0b100"
definition ROL :: "32 word" where [rv_consts]: "ROL = 1"
definition ROR :: "32 word" where [rv_consts]: "ROR = 0b101"
definition BCLR :: "32 word" where [rv_consts]: "BCLR = 1"
definition BEXT :: "32 word" where [rv_consts]: "BEXT = 0b101"
definition F3_BINV :: "32 word" where [rv_consts]: "F3_BINV = 1"
definition F3_BSET :: "32 word" where [rv_consts]: "F3_BSET = 1"

definition F7_0 :: "32 word" where [rv_consts]: "F7_0 = 0"
definition SRA :: "32 word" where [rv_consts]: "SRA = 0b100000"
definition SUB :: "32 word" where [rv_consts]: "SUB = 0b100000"
definition MULDIV :: "32 word" where [rv_consts]: "MULDIV = 1"
definition FADDS :: "32 word" where [rv_consts]: "FADDS = 0"
definition FSUBS :: "32 word" where [rv_consts]: "FSUBS = 0b100"
definition FMULS :: "32 word" where [rv_consts]: "FMULS = 0b1000"
definition FDIVS :: "32 word" where [rv_consts]: "FDIVS = 0b1100"
definition FSQRTS :: "32 word" where [rv_consts]: "FSQRTS = 0b101100"
definition FSGNJS :: "32 word" where [rv_consts]: "FSGNJS = 0b10000"
definition FMINMAXS :: "32 word" where [rv_consts]: "FMINMAXS = 0b10100"
definition FCMPS :: "32 word" where [rv_consts]: "FCMPS = 0b1010000"
definition FCLASSS :: "32 word" where [rv_consts]: "FCLASSS = 0b1110000"
definition FCVTintS :: "32 word" where [rv_consts]: "FCVTintS = 0b1100000"
definition FCVTSint :: "32 word" where [rv_consts]: "FCVTSint = 0b1101000"
definition FMVXW :: "32 word" where [rv_consts]: "FMVXW = 0b1110000"
definition FMVWX :: "32 word" where [rv_consts]: "FMVWX = 0b1111000"
definition FADDD :: "32 word" where [rv_consts]: "FADDD = 1"
definition FSUBD :: "32 word" where [rv_consts]: "FSUBD = 0b101"
definition FMULD :: "32 word" where [rv_consts]: "FMULD = 0b1001"
definition FDIVD :: "32 word" where [rv_consts]: "FDIVD = 0b1101"
definition FSQRTD :: "32 word" where [rv_consts]: "FSQRTD = 0b101101"
definition FSGNJD :: "32 word" where [rv_consts]: "FSGNJD = 0b10001"
definition FMINMAXD :: "32 word" where [rv_consts]: "FMINMAXD = 0b10101"
definition FCVTS :: "32 word" where [rv_consts]: "FCVTS = 0b100000"
definition FCVTD :: "32 word" where [rv_consts]: "FCVTD = 0b100001"
definition FCMPD :: "32 word" where [rv_consts]: "FCMPD = 0b1010001"
definition FCLASSD :: "32 word" where [rv_consts]: "FCLASSD = 0b1110001"
definition FCVTintD :: "32 word" where [rv_consts]: "FCVTintD = 0b1100001"
definition FCVTDint :: "32 word" where [rv_consts]: "FCVTDint = 0b1101001"
definition FMVXD :: "32 word" where [rv_consts]: "FMVXD = 0b1110001"
definition FMVDX :: "32 word" where [rv_consts]: "FMVDX = 0b1111001"
definition ADDUW :: "32 word" where [rv_consts]: "ADDUW = 0b100"
definition SHADD :: "32 word" where [rv_consts]: "SHADD = 0b10000"
definition SLLIUW :: "32 word" where [rv_consts]: "SLLIUW = 0b100"
definition COUNT :: "32 word" where [rv_consts]: "COUNT = 0b110000"
definition MINMAXCLMUL :: "32 word" where [rv_consts]: "MINMAXCLMUL = 0b101"
definition ROTATE :: "32 word" where [rv_consts]: "ROTATE = 0b110000"
definition BCLRBEXT :: "32 word" where [rv_consts]: "BCLRBEXT = 0b100100"
definition BINV :: "32 word" where [rv_consts]: "BINV = 0b110100"
definition BSET :: "32 word" where [rv_consts]: "BSET = 0b10100"

definition LR_f5 :: "32 word" where [rv_consts]: "LR_f5 = 0b10"
definition SC_f5 :: "32 word" where [rv_consts]: "SC_f5 = 0b11"
definition AMOSWAP :: "32 word" where [rv_consts]: "AMOSWAP = 1"
definition AMOADD :: "32 word" where [rv_consts]: "AMOADD = 0"
definition AMOXOR :: "32 word" where [rv_consts]: "AMOXOR = 0b100"
definition AMOAND :: "32 word" where [rv_consts]: "AMOAND = 0b1100"
definition AMOOR :: "32 word" where [rv_consts]: "AMOOR = 0b1000"
definition AMOMIN :: "32 word" where [rv_consts]: "AMOMIN = 0b10000"
definition AMOMAX :: "32 word" where [rv_consts]: "AMOMAX = 0b10100"
definition AMOMINU :: "32 word" where [rv_consts]: "AMOMINU = 0b11000"
definition AMOMAXU :: "32 word" where [rv_consts]: "AMOMAXU = 0b11100"

definition F2_S :: "32 word" where [rv_consts]: "F2_S = 0"
definition F2_D :: "32 word" where [rv_consts]: "F2_D = 1"

definition RNE :: "32 word" where [rv_consts]: "RNE = 0"
definition RTZ :: "32 word" where [rv_consts]: "RTZ = 1"
definition RDN :: "32 word" where [rv_consts]: "RDN = 0b10"
definition RUP :: "32 word" where [rv_consts]: "RUP = 0b11"
definition RMM :: "32 word" where [rv_consts]: "RMM = 0b100"
definition DYN :: "32 word" where [rv_consts]: "DYN = 0b111"

definition W_rs2 :: "32 word" where [rv_consts]: "W_rs2 = 0"
definition WU_rs2 :: "32 word" where [rv_consts]: "WU_rs2 = 1"
definition L_rs2 :: "32 word" where [rv_consts]: "L_rs2 = 0b10"
definition LU_rs2 :: "32 word" where [rv_consts]: "LU_rs2 = 0b11"

definition kWrite :: "32 word" where [rv_consts]: "kWrite = 1"
definition kRead :: "32 word" where [rv_consts]: "kRead = 2"
definition kOutput :: "32 word" where [rv_consts]: "kOutput = 4"
definition kInput :: "32 word" where [rv_consts]: "kInput = 8"
definition kMemory :: "32 word" where [rv_consts]: "kMemory = kWrite OR kRead"
definition kIO :: "32 word" where [rv_consts]: "kIO = kOutput OR kInput"
definition kAll :: "32 word" where [rv_consts]: "kAll = kMemory OR kIO"

text \<open>Opcodes of the 16-bit instructions.\<close>

definition C_OP_MASK :: "32 word" where [rv_consts]: "C_OP_MASK = 0b1110000000000011"
definition C_ADDI4SPN :: "32 word" where [rv_consts]: "C_ADDI4SPN = 0"
definition C_FLD :: "32 word" where [rv_consts]: "C_FLD = 0b10000000000000"
definition C_LW :: "32 word" where [rv_consts]: "C_LW = 0b100000000000000"
definition C_FLW :: "32 word" where [rv_consts]: "C_FLW = 0b110000000000000"
definition C_LD :: "32 word" where [rv_consts]: "C_LD = 0b110000000000000"
definition C_FSD :: "32 word" where [rv_consts]: "C_FSD = 0b1010000000000000"
definition C_SW :: "32 word" where [rv_consts]: "C_SW = 0b1100000000000000"
definition C_FSW :: "32 word" where [rv_consts]: "C_FSW = 0b1110000000000000"
definition C_SD :: "32 word" where [rv_consts]: "C_SD = 0b1110000000000000"
definition C_ADDI :: "32 word" where [rv_consts]: "C_ADDI = 1"
definition C_JAL :: "32 word" where [rv_consts]: "C_JAL = 0b10000000000001"
definition C_ADDIW :: "32 word" where [rv_consts]: "C_ADDIW = 0b10000000000001"
definition C_LI :: "32 word" where [rv_consts]: "C_LI = 0b100000000000001"
definition C_ADDI16SP :: "32 word" where [rv_consts]: "C_ADDI16SP = 0b110000000000001"
definition C_LUI :: "32 word" where [rv_consts]: "C_LUI = 0b110000000000001"
definition C_MISCALU :: "32 word" where [rv_consts]: "C_MISCALU = 0b1000000000000001"
definition C_MISCALU_MASK :: "32 word" where [rv_consts]: "C_MISCALU_MASK = 0b1110110000000011"
definition C_SRLI :: "32 word" where [rv_consts]: "C_SRLI = 0b1000000000000001"
definition C_SRAI :: "32 word" where [rv_consts]: "C_SRAI = 0b1000010000000001"
definition C_ANDI :: "32 word" where [rv_consts]: "C_ANDI = 0b1000100000000001"
definition C_RR :: "32 word" where [rv_consts]: "C_RR = 0b1000110000000001"
definition C_RR_MASK :: "32 word" where [rv_consts]: "C_RR_MASK = 0b1111110001100011"
definition C_SUB :: "32 word" where [rv_consts]: "C_SUB = 0b1000110000000001"
definition C_XOR :: "32 word" where [rv_consts]: "C_XOR = 0b1000110000100001"
definition C_OR :: "32 word" where [rv_consts]: "C_OR = 0b1000110001000001"
definition C_AND :: "32 word" where [rv_consts]: "C_AND = 0b1000110001100001"
definition C_SUBW :: "32 word" where [rv_consts]: "C_SUBW = 0b1001110000000001"
definition C_ADDW :: "32 word" where [rv_consts]: "C_ADDW = 0b1001110000100001"
definition C_J :: "32 word" where [rv_consts]: "C_J = 0b1010000000000001"
definition C_BEQZ :: "32 word" where [rv_consts]: "C_BEQZ = 0b1100000000000001"
definition C_BNEZ :: "32 word" where [rv_consts]: "C_BNEZ = 0b1110000000000001"
definition C_SLLI :: "32 word" where [rv_consts]: "C_SLLI = 0b10"
definition C_FLDSP :: "32 word" where [rv_consts]: "C_FLDSP = 0b10000000000010"
definition C_LWSP :: "32 word" where [rv_consts]: "C_LWSP = 0b100000000000010"
definition C_FLWSP :: "32 word" where [rv_consts]: "C_FLWSP = 0b110000000000010"
definition C_LDSP :: "32 word" where [rv_consts]: "C_LDSP = 0b110000000000010"
definition C_JR :: "32 word" where [rv_consts]: "C_JR = 0b1000000000000010"
definition C_MV :: "32 word" where [rv_consts]: "C_MV = 0b1000000000000010"
definition C_JALR :: "32 word" where [rv_consts]: "C_JALR = 0b1001000000000010"
definition C_ADD :: "32 word" where [rv_consts]: "C_ADD = 0b1001000000000010"
definition C_FSDSP :: "32 word" where [rv_consts]: "C_FSDSP = 0b1010000000000010"
definition C_SWSP :: "32 word" where [rv_consts]: "C_SWSP = 0b1100000000000010"
definition C_FSWSP :: "32 word" where [rv_consts]: "C_FSWSP = 0b1110000000000010"
definition C_SDSP :: "32 word" where [rv_consts]: "C_SDSP = 0b1110000000000010"
definition C_NOP :: "32 word" where [rv_consts]: "C_NOP = 1"
definition C_EBREAK :: "32 word" where [rv_consts]: "C_EBREAK = 0b1001000000000010"

text \<open>Extensions.\<close>

definition RV_I :: "32 word" where [rv_consts]: "RV_I = 0"
definition RV_M :: "32 word" where [rv_consts]: "RV_M = 1"
definition RV_A :: "32 word" where [rv_consts]: "RV_A = 2"
definition RV_F :: "32 word" where [rv_consts]: "RV_F = 3"
definition RV_D :: "32 word" where [rv_consts]: "RV_D = 4"
definition RV_C :: "32 word" where [rv_consts]: "RV_C = 5"
definition RV_Zba :: "32 word" where [rv_consts]: "RV_Zba = 6"
definition RV_Zbb :: "32 word" where [rv_consts]: "RV_Zbb = 7"
definition RV_Zbc :: "32 word" where [rv_consts]: "RV_Zbc = 8"
definition RV_Zbs :: "32 word" where [rv_consts]: "RV_Zbs = 9"

section \<open>Sets of registers and of extensions\<close>

text \<open>The classes of \<open>DEFINE_TYPED_ENUM_SET\<close>: a set is the word of its members' bits.\<close>

definition enum_set :: "32 word list \<Rightarrow> 32 word" where
  "enum_set rs = foldr (\<lambda>r s. push_bit (unat r) 1 OR s) rs 0"

definition Includes :: "32 word \<Rightarrow> 32 word \<Rightarrow> bool" where
  "Includes s r = (s AND push_bit (unat r) 1 \<noteq> 0)"

definition IncludesAll :: "32 word \<Rightarrow> 32 word \<Rightarrow> bool" where
  "IncludesAll s s' = (s AND s' = s')"

definition kVolatileRegisters :: "32 word" where
  "kVolatileRegisters = enum_set [RA, A0, A1, A2, A3, A4, A5, A6, A7, T0, T1, T2, T3, T4, T5, T6]"

definition kPreservedRegisters :: "32 word" where
  "kPreservedRegisters = enum_set [S1, S2, S3, S4, S5, S6, S7, S8, S9, S10, S11]"

definition kReservedRegisters :: "32 word" where
  "kReservedRegisters = enum_set [ZERO, SP, GP, TP, FP]"

definition RV_G :: "32 word" where
  "RV_G = enum_set [RV_I, RV_M, RV_A, RV_F, RV_D]"

definition RV_GC :: "32 word" where
  "RV_GC = RV_G OR enum_set [RV_C]"

definition RV_B :: "32 word" where
  "RV_B = enum_set [RV_Zba, RV_Zbb, RV_Zbc, RV_Zbs]"

definition RV_GCB :: "32 word" where
  "RV_GCB = RV_GC OR RV_B"

section \<open>Predicates of \<open>utils.h\<close>\<close>

definition IsAligned :: "intptr \<Rightarrow> intptr \<Rightarrow> bool" where
  "IsAligned x n = (x AND (n - 1) = 0)"

definition IsInt :: "nat \<Rightarrow> intptr \<Rightarrow> bool" where
  "IsInt N v = (let limit = push_bit (N - 1) 1 in - limit <=s v \<and> v <s limit)"

definition IsUint :: "nat \<Rightarrow> intptr \<Rightarrow> bool" where
  "IsUint N v = (0 <=s v \<and> v \<le> push_bit N 1 - 1)"

text \<open>\<open>SignExtend\<close> works on \<open>int32_t\<close>; its result is widened to \<open>intx_t\<close> by the callers.\<close>

definition SignExtend :: "nat \<Rightarrow> 32 word \<Rightarrow> 32 word" where
  "SignExtend N x = signed_drop_bit (32 - N) (push_bit (32 - N) x)"

definition check :: "bool \<Rightarrow> string \<Rightarrow> 'a \<Rightarrow> 'a res" where
  "check b s x = (if b then Inr x else Inl (Assertion_failed s))"

text \<open>\<open>((imm >> a) & m) << b\<close>, computed on 64 bits and truncated; the same on 32 bits.\<close>

definition put :: "nat \<Rightarrow> intptr \<Rightarrow> nat \<Rightarrow> intptr \<Rightarrow> 32 word" where
  "put a m b imm = ucast (push_bit b (signed_drop_bit a imm AND m))"

definition take_out :: "nat \<Rightarrow> 32 word \<Rightarrow> nat \<Rightarrow> 32 word \<Rightarrow> 32 word" where
  "take_out a m b e = push_bit b (drop_bit a e AND m)"

section \<open>Registers and function codes\<close>

text \<open>\<open>DEFINE_REG_ENCODING\<close>, \<open>DEFINE_REG_PRIME_ENCODING\<close>, \<open>DEFINE_FUNCT_ENCODING\<close>: one
  encoder and decoder per field.\<close>

definition encode_reg :: "nat \<Rightarrow> reg \<Rightarrow> 32 word res" where
  "encode_reg n r = check (r < 32) ''register'' (push_bit n r)"

definition decode_reg :: "nat \<Rightarrow> 32 word \<Rightarrow> reg" where
  "decode_reg n e = drop_bit n e AND 31"

definition is_reg_prime :: "reg \<Rightarrow> bool" where
  "is_reg_prime r = (8 \<le> r \<and> r < 16)"

definition encode_reg_prime :: "nat \<Rightarrow> reg \<Rightarrow> 32 word res" where
  "encode_reg_prime n r = check (is_reg_prime r) ''register prime'' (push_bit n (r AND 7))"

definition decode_reg_prime :: "nat \<Rightarrow> 32 word \<Rightarrow> reg" where
  "decode_reg_prime n e = (drop_bit n e AND 7) + 8"

definition encode_funct :: "nat \<Rightarrow> 32 word \<Rightarrow> 32 word \<Rightarrow> 32 word res" where
  "encode_funct n m f = check (f AND m = f) ''function code'' (push_bit n f)"

definition decode_funct :: "nat \<Rightarrow> 32 word \<Rightarrow> 32 word \<Rightarrow> 32 word" where
  "decode_funct n m e = drop_bit n e AND m"

definition EncodeRd :: "reg \<Rightarrow> 32 word res" where [rv_codes]: "EncodeRd = encode_reg 7"
definition DecodeRd :: "32 word \<Rightarrow> reg" where [rv_codes]: "DecodeRd = decode_reg 7"
definition EncodeRs1 :: "reg \<Rightarrow> 32 word res" where [rv_codes]: "EncodeRs1 = encode_reg 15"
definition DecodeRs1 :: "32 word \<Rightarrow> reg" where [rv_codes]: "DecodeRs1 = decode_reg 15"
definition EncodeRs2 :: "reg \<Rightarrow> 32 word res" where [rv_codes]: "EncodeRs2 = encode_reg 20"
definition DecodeRs2 :: "32 word \<Rightarrow> reg" where [rv_codes]: "DecodeRs2 = decode_reg 20"
definition EncodeFRd :: "reg \<Rightarrow> 32 word res" where [rv_codes]: "EncodeFRd = encode_reg 7"
definition DecodeFRd :: "32 word \<Rightarrow> reg" where [rv_codes]: "DecodeFRd = decode_reg 7"
definition EncodeFRs1 :: "reg \<Rightarrow> 32 word res" where [rv_codes]: "EncodeFRs1 = encode_reg 15"
definition DecodeFRs1 :: "32 word \<Rightarrow> reg" where [rv_codes]: "DecodeFRs1 = decode_reg 15"
definition EncodeFRs2 :: "reg \<Rightarrow> 32 word res" where [rv_codes]: "EncodeFRs2 = encode_reg 20"
definition DecodeFRs2 :: "32 word \<Rightarrow> reg" where [rv_codes]: "DecodeFRs2 = decode_reg 20"
definition EncodeFRs3 :: "reg \<Rightarrow> 32 word res" where [rv_codes]: "EncodeFRs3 = encode_reg 27"
definition DecodeFRs3 :: "32 word \<Rightarrow> reg" where [rv_codes]: "DecodeFRs3 = decode_reg 27"
definition EncodeCRd :: "reg \<Rightarrow> 32 word res" where [rv_codes]: "EncodeCRd = encode_reg 7"
definition DecodeCRd :: "32 word \<Rightarrow> reg" where [rv_codes]: "DecodeCRd = decode_reg 7"
definition EncodeCRs1 :: "reg \<Rightarrow> 32 word res" where [rv_codes]: "EncodeCRs1 = encode_reg 7"
definition DecodeCRs1 :: "32 word \<Rightarrow> reg" where [rv_codes]: "DecodeCRs1 = decode_reg 7"
definition EncodeCRs2 :: "reg \<Rightarrow> 32 word res" where [rv_codes]: "EncodeCRs2 = encode_reg 2"
definition DecodeCRs2 :: "32 word \<Rightarrow> reg" where [rv_codes]: "DecodeCRs2 = decode_reg 2"
definition EncodeCFRd :: "reg \<Rightarrow> 32 word res" where [rv_codes]: "EncodeCFRd = encode_reg 7"
definition DecodeCFRd :: "32 word \<Rightarrow> reg" where [rv_codes]: "DecodeCFRd = decode_reg 7"
definition EncodeCFRs1 :: "reg \<Rightarrow> 32 word res" where [rv_codes]: "EncodeCFRs1 = encode_reg 7"
definition DecodeCFRs1 :: "32 word \<Rightarrow> reg" where [rv_codes]: "DecodeCFRs1 = decode_reg 7"
definition EncodeCFRs2 :: "reg \<Rightarrow> 32 word res" where [rv_codes]: "EncodeCFRs2 = encode_reg 2"
definition DecodeCFRs2 :: "32 word \<Rightarrow> reg" where [rv_codes]: "DecodeCFRs2 = decode_reg 2"
definition IsCRdp :: "reg \<Rightarrow> bool" where [rv_codes]: "IsCRdp = is_reg_prime"
definition IsCRs1p :: "reg \<Rightarrow> bool" where [rv_codes]: "IsCRs1p = is_reg_prime"
definition IsCRs2p :: "reg \<Rightarrow> bool" where [rv_codes]: "IsCRs2p = is_reg_prime"
definition IsCFRdp :: "reg \<Rightarrow> bool" where [rv_codes]: "IsCFRdp = is_reg_prime"
definition IsCFRs1p :: "reg \<Rightarrow> bool" where [rv_codes]: "IsCFRs1p = is_reg_prime"
definition IsCFRs2p :: "reg \<Rightarrow> bool" where [rv_codes]: "IsCFRs2p = is_reg_prime"
definition EncodeCRdp :: "reg \<Rightarrow> 32 word res" where [rv_codes]: "EncodeCRdp = encode_reg_prime 2"
definition DecodeCRdp :: "32 word \<Rightarrow> reg" where [rv_codes]: "DecodeCRdp = decode_reg_prime 2"
definition EncodeCRs1p :: "reg \<Rightarrow> 32 word res" where [rv_codes]: "EncodeCRs1p = encode_reg_prime 7"
definition DecodeCRs1p :: "32 word \<Rightarrow> reg" where [rv_codes]: "DecodeCRs1p = decode_reg_prime 7"
definition EncodeCRs2p :: "reg \<Rightarrow> 32 word res" where [rv_codes]: "EncodeCRs2p = encode_reg_prime 2"
definition DecodeCRs2p :: "32 word \<Rightarrow> reg" where [rv_codes]: "DecodeCRs2p = decode_reg_prime 2"
definition EncodeCFRdp :: "reg \<Rightarrow> 32 word res" where [rv_codes]: "EncodeCFRdp = encode_reg_prime 2"
definition DecodeCFRdp :: "32 word \<Rightarrow> reg" where [rv_codes]: "DecodeCFRdp = decode_reg_prime 2"
definition EncodeCFRs1p :: "reg \<Rightarrow> 32 word res" where [rv_codes]: "EncodeCFRs1p = encode_reg_prime 7"
definition DecodeCFRs1p :: "32 word \<Rightarrow> reg" where [rv_codes]: "DecodeCFRs1p = decode_reg_prime 7"
definition EncodeCFRs2p :: "reg \<Rightarrow> 32 word res" where [rv_codes]: "EncodeCFRs2p = encode_reg_prime 2"
definition DecodeCFRs2p :: "32 word \<Rightarrow> reg" where [rv_codes]: "DecodeCFRs2p = decode_reg_prime 2"

definition EncodeOpcode :: "32 word \<Rightarrow> 32 word res" where [rv_codes]: "EncodeOpcode = encode_funct 0 0x7F"
definition DecodeOpcode :: "32 word \<Rightarrow> 32 word" where [rv_codes]: "DecodeOpcode = decode_funct 0 0x7F"
definition EncodeFunct2 :: "32 word \<Rightarrow> 32 word res" where [rv_codes]: "EncodeFunct2 = encode_funct 25 0x3"
definition DecodeFunct2 :: "32 word \<Rightarrow> 32 word" where [rv_codes]: "DecodeFunct2 = decode_funct 25 0x3"
definition EncodeFunct3 :: "32 word \<Rightarrow> 32 word res" where [rv_codes]: "EncodeFunct3 = encode_funct 12 0x7"
definition DecodeFunct3 :: "32 word \<Rightarrow> 32 word" where [rv_codes]: "DecodeFunct3 = decode_funct 12 0x7"
definition EncodeFunct5 :: "32 word \<Rightarrow> 32 word res" where [rv_codes]: "EncodeFunct5 = encode_funct 27 0x1F"
definition DecodeFunct5 :: "32 word \<Rightarrow> 32 word" where [rv_codes]: "DecodeFunct5 = decode_funct 27 0x1F"
definition EncodeFunct7 :: "32 word \<Rightarrow> 32 word res" where [rv_codes]: "EncodeFunct7 = encode_funct 25 0x7F"
definition DecodeFunct7 :: "32 word \<Rightarrow> 32 word" where [rv_codes]: "DecodeFunct7 = decode_funct 25 0x7F"
definition EncodeFunct12 :: "32 word \<Rightarrow> 32 word res" where [rv_codes]: "EncodeFunct12 = encode_funct 20 0xFFF"
definition DecodeFunct12 :: "32 word \<Rightarrow> 32 word" where [rv_codes]: "DecodeFunct12 = decode_funct 20 0xFFF"
definition EncodeShamt :: "32 word \<Rightarrow> 32 word res" where [rv_codes]: "EncodeShamt = encode_funct 20 0x3F"
definition DecodeShamt :: "32 word \<Rightarrow> 32 word" where [rv_codes]: "DecodeShamt = decode_funct 20 0x3F"
definition EncodeRoundingMode :: "32 word \<Rightarrow> 32 word res" where [rv_codes]: "EncodeRoundingMode = encode_funct 12 0x7"
definition DecodeRoundingMode :: "32 word \<Rightarrow> 32 word" where [rv_codes]: "DecodeRoundingMode = decode_funct 12 0x7"

section \<open>Immediates\<close>

definition IsBTypeImm :: "intptr \<Rightarrow> bool" where [rv_codes]:
  "IsBTypeImm imm = (IsInt 12 imm \<and> IsAligned imm 2)"

definition EncodeBTypeImm :: "intptr \<Rightarrow> 32 word res" where [rv_codes]:
  "EncodeBTypeImm imm = check (IsBTypeImm imm) ''BTypeImm'' (put 12 0x1 31 imm OR put 5 0x3f 25 imm OR
      put 1 0xf 8 imm OR put 11 0x1 7 imm)"

definition DecodeBTypeImm :: "32 word \<Rightarrow> intptr" where [rv_codes]:
  "DecodeBTypeImm e = scast (SignExtend 12 (take_out 31 0x1 12 e OR take_out 25 0x3f 5 e OR
      take_out 8 0xf 1 e OR take_out 7 0x1 11 e))"

definition IsJTypeImm :: "intptr \<Rightarrow> bool" where [rv_codes]:
  "IsJTypeImm imm = (IsInt 20 imm \<and> IsAligned imm 2)"

definition EncodeJTypeImm :: "intptr \<Rightarrow> 32 word res" where [rv_codes]:
  "EncodeJTypeImm imm = check (IsJTypeImm imm) ''JTypeImm'' (put 20 0x1 31 imm OR put 1 0x3ff 21 imm OR
      put 11 0x1 20 imm OR put 12 0xff 12 imm)"

definition DecodeJTypeImm :: "32 word \<Rightarrow> intptr" where [rv_codes]:
  "DecodeJTypeImm e = scast (SignExtend 20 (take_out 31 0x1 20 e OR take_out 21 0x3ff 1 e OR
      take_out 20 0x1 11 e OR take_out 12 0xff 12 e))"

definition IsITypeImm :: "intptr \<Rightarrow> bool" where [rv_codes]:
  "IsITypeImm imm = (IsInt 12 imm)"

definition EncodeITypeImm :: "intptr \<Rightarrow> 32 word res" where [rv_codes]:
  "EncodeITypeImm imm = check (IsITypeImm imm) ''ITypeImm'' (ucast (push_bit 20 imm))"

definition DecodeITypeImm :: "32 word \<Rightarrow> intptr" where [rv_codes]:
  "DecodeITypeImm e = scast (SignExtend 12 (drop_bit 20 e))"

definition IsUTypeImm :: "intptr \<Rightarrow> bool" where [rv_codes]:
  "IsUTypeImm imm = (IsInt 32 imm \<and> IsAligned imm 0x1000)"

definition EncodeUTypeImm :: "intptr \<Rightarrow> 32 word res" where [rv_codes]:
  "EncodeUTypeImm imm = check (IsUTypeImm imm) ''UTypeImm'' (ucast imm)"

definition DecodeUTypeImm :: "32 word \<Rightarrow> intptr" where [rv_codes]:
  "DecodeUTypeImm e = scast (SignExtend 32 (e AND NOT (push_bit 12 1 - 1)))"

definition IsSTypeImm :: "intptr \<Rightarrow> bool" where [rv_codes]:
  "IsSTypeImm imm = (IsInt 12 imm)"

definition EncodeSTypeImm :: "intptr \<Rightarrow> 32 word res" where [rv_codes]:
  "EncodeSTypeImm imm = check (IsSTypeImm imm) ''STypeImm'' (put 5 0x7f 25 imm OR put 0 0x1f 7 imm)"

definition DecodeSTypeImm :: "32 word \<Rightarrow> intptr" where [rv_codes]:
  "DecodeSTypeImm e = scast (SignExtend 12 (take_out 25 0x7f 5 e OR take_out 7 0x1f 0 e))"

definition IsCSPLoad4Imm :: "intptr \<Rightarrow> bool" where [rv_codes]:
  "IsCSPLoad4Imm imm = (IsUint 8 imm \<and> IsAligned imm 4)"

definition EncodeCSPLoad4Imm :: "intptr \<Rightarrow> 32 word res" where [rv_codes]:
  "EncodeCSPLoad4Imm imm = check (IsCSPLoad4Imm imm) ''CSPLoad4Imm'' (put 5 0x1 12 imm OR put 2 0x7 4 imm OR
      put 6 0x3 2 imm)"

definition DecodeCSPLoad4Imm :: "32 word \<Rightarrow> intptr" where [rv_codes]:
  "DecodeCSPLoad4Imm e = ucast (take_out 12 0x1 5 e OR take_out 4 0x7 2 e OR take_out 2 0x3 6 e)"

definition IsCSPLoad8Imm :: "intptr \<Rightarrow> bool" where [rv_codes]:
  "IsCSPLoad8Imm imm = (IsUint 9 imm \<and> IsAligned imm 8)"

definition EncodeCSPLoad8Imm :: "intptr \<Rightarrow> 32 word res" where [rv_codes]:
  "EncodeCSPLoad8Imm imm = check (IsCSPLoad8Imm imm) ''CSPLoad8Imm'' (put 5 0x1 12 imm OR put 3 0x3 5 imm OR
      put 6 0x7 2 imm)"

definition DecodeCSPLoad8Imm :: "32 word \<Rightarrow> intptr" where [rv_codes]:
  "DecodeCSPLoad8Imm e = ucast (take_out 12 0x1 5 e OR take_out 5 0x3 3 e OR take_out 2 0x7 6 e)"

definition IsCSPStore4Imm :: "intptr \<Rightarrow> bool" where [rv_codes]:
  "IsCSPStore4Imm imm = (IsUint 8 imm \<and> IsAligned imm 4)"

definition EncodeCSPStore4Imm :: "intptr \<Rightarrow> 32 word res" where [rv_codes]:
  "EncodeCSPStore4Imm imm = check (IsCSPStore4Imm imm) ''CSPStore4Imm'' (put 2 0xF 9 imm OR put 6 0x3 7 imm)"

definition DecodeCSPStore4Imm :: "32 word \<Rightarrow> intptr" where [rv_codes]:
  "DecodeCSPStore4Imm e = ucast (take_out 9 0xF 2 e OR take_out 7 0x3 6 e)"

definition IsCSPStore8Imm :: "intptr \<Rightarrow> bool" where [rv_codes]:
  "IsCSPStore8Imm imm = (IsUint 9 imm \<and> IsAligned imm 8)"

definition EncodeCSPStore8Imm :: "intptr \<Rightarrow> 32 word res" where [rv_codes]:
  "EncodeCSPStore8Imm imm = check (IsCSPStore8Imm imm) ''CSPStore8Imm'' (put 3 0x7 10 imm OR put 6 0x7 7 imm)"

definition DecodeCSPStore8Imm :: "32 word \<Rightarrow> intptr" where [rv_codes]:
  "DecodeCSPStore8Imm e = ucast (take_out 10 0x7 3 e OR take_out 7 0x7 6 e)"

definition IsCMem4Imm :: "intptr \<Rightarrow> bool" where [rv_codes]:
  "IsCMem4Imm imm = (IsUint 7 imm \<and> IsAligned imm 4)"

definition EncodeCMem4Imm :: "intptr \<Rightarrow> 32 word res" where [rv_codes]:
  "EncodeCMem4Imm imm = check (IsCMem4Imm imm) ''CMem4Imm'' (put 3 0x7 10 imm OR put 2 0x1 6 imm OR
      put 6 0x1 5 imm)"

definition DecodeCMem4Imm :: "32 word \<Rightarrow> intptr" where [rv_codes]:
  "DecodeCMem4Imm e = ucast (take_out 10 0x7 3 e OR take_out 6 0x1 2 e OR take_out 5 0x1 6 e)"

definition IsCMem8Imm :: "intptr \<Rightarrow> bool" where [rv_codes]:
  "IsCMem8Imm imm = (IsUint 8 imm \<and> IsAligned imm 8)"

definition EncodeCMem8Imm :: "intptr \<Rightarrow> 32 word res" where [rv_codes]:
  "EncodeCMem8Imm imm = check (IsCMem8Imm imm) ''CMem8Imm'' (put 3 0x7 10 imm OR put 6 0x3 5 imm)"

definition DecodeCMem8Imm :: "32 word \<Rightarrow> intptr" where [rv_codes]:
  "DecodeCMem8Imm e = ucast (take_out 10 0x7 3 e OR take_out 5 0x3 6 e)"

definition IsCJImm :: "intptr \<Rightarrow> bool" where [rv_codes]:
  "IsCJImm imm = (IsInt 11 imm \<and> IsAligned imm 2)"

definition EncodeCJImm :: "intptr \<Rightarrow> 32 word res" where [rv_codes]:
  "EncodeCJImm imm = check (IsCJImm imm) ''CJImm'' (put 11 0x1 12 imm OR put 4 0x1 11 imm OR
      put 8 0x3 9 imm OR put 10 0x1 8 imm OR put 6 0x1 7 imm OR put 7 0x1 6 imm OR put 1 0x7 3 imm OR
      put 5 0x1 2 imm)"

definition DecodeCJImm :: "32 word \<Rightarrow> intptr" where [rv_codes]:
  "DecodeCJImm e = scast (SignExtend 11 (take_out 12 0x1 11 e OR take_out 11 0x1 4 e OR take_out 9 0x3 8 e OR
      take_out 8 0x1 10 e OR take_out 7 0x1 6 e OR take_out 6 0x1 7 e OR take_out 3 0x7 1 e OR
      take_out 2 0x1 5 e))"

definition IsCBImm :: "intptr \<Rightarrow> bool" where [rv_codes]:
  "IsCBImm imm = (IsInt 8 imm \<and> IsAligned imm 2)"

definition EncodeCBImm :: "intptr \<Rightarrow> 32 word res" where [rv_codes]:
  "EncodeCBImm imm = check (IsCBImm imm) ''CBImm'' (put 8 0x1 12 imm OR put 3 0x3 10 imm OR
      put 6 0x3 5 imm OR put 1 0x3 3 imm OR put 5 0x1 2 imm)"

definition DecodeCBImm :: "32 word \<Rightarrow> intptr" where [rv_codes]:
  "DecodeCBImm e = scast (SignExtend 8 (take_out 12 0x1 8 e OR take_out 10 0x3 3 e OR take_out 5 0x3 6 e OR
      take_out 3 0x3 1 e OR take_out 2 0x1 5 e))"

definition IsCIImm :: "intptr \<Rightarrow> bool" where [rv_codes]:
  "IsCIImm imm = (IsInt 6 imm)"

definition EncodeCIImm :: "intptr \<Rightarrow> 32 word res" where [rv_codes]:
  "EncodeCIImm imm = check (IsCIImm imm) ''CIImm'' (put 5 0x1 12 imm OR put 0 0x1F 2 imm)"

definition DecodeCIImm :: "32 word \<Rightarrow> intptr" where [rv_codes]:
  "DecodeCIImm e = scast (SignExtend 6 (take_out 12 0x1 5 e OR take_out 2 0x1F 0 e))"

definition IsCUImm :: "intptr \<Rightarrow> bool" where [rv_codes]:
  "IsCUImm imm = (IsInt 17 imm \<and> IsAligned imm 0x1000)"

definition EncodeCUImm :: "intptr \<Rightarrow> 32 word res" where [rv_codes]:
  "EncodeCUImm imm = check (IsCUImm imm) ''CUImm'' (put 17 0x1 12 imm OR put 12 0x1F 2 imm)"

definition DecodeCUImm :: "32 word \<Rightarrow> intptr" where [rv_codes]:
  "DecodeCUImm e = scast (SignExtend 17 (take_out 12 0x1 17 e OR take_out 2 0x1F 12 e))"

definition IsCI16Imm :: "intptr \<Rightarrow> bool" where [rv_codes]:
  "IsCI16Imm imm = (IsInt 10 imm \<and> IsAligned imm 16)"

definition EncodeCI16Imm :: "intptr \<Rightarrow> 32 word res" where [rv_codes]:
  "EncodeCI16Imm imm = check (IsCI16Imm imm) ''CI16Imm'' (put 9 0x1 12 imm OR put 4 0x1 6 imm OR
      put 6 0x1 5 imm OR put 7 0x3 3 imm OR put 5 0x1 2 imm)"

definition DecodeCI16Imm :: "32 word \<Rightarrow> intptr" where [rv_codes]:
  "DecodeCI16Imm e = scast (SignExtend 10 (take_out 12 0x1 9 e OR take_out 6 0x1 4 e OR take_out 5 0x1 6 e OR
      take_out 3 0x3 7 e OR take_out 2 0x1 5 e))"

definition IsCI4SPNImm :: "intptr \<Rightarrow> bool" where [rv_codes]:
  "IsCI4SPNImm imm = (IsUint 9 imm \<and> IsAligned imm 4)"

definition EncodeCI4SPNImm :: "intptr \<Rightarrow> 32 word res" where [rv_codes]:
  "EncodeCI4SPNImm imm = check (IsCI4SPNImm imm) ''CI4SPNImm'' (put 4 0x3 11 imm OR put 6 0xF 7 imm OR
      put 2 0x1 6 imm OR put 3 0x1 5 imm)"

definition DecodeCI4SPNImm :: "32 word \<Rightarrow> intptr" where [rv_codes]:
  "DecodeCI4SPNImm e = ucast (take_out 11 0x3 4 e OR take_out 7 0xF 6 e OR take_out 6 0x1 2 e OR
      take_out 5 0x1 3 e)"


section \<open>Round trips\<close>

lemma IsInt_bit:
  assumes "IsInt N v" and "0 < N" and "N \<le> 64" and "N - 1 \<le> i" and "i < 64"
  shows "bit v i = bit v (N - 1)"
proof (cases "N = 64")
  case True
  with assms show ?thesis by (cases "i = 63") auto
next
  case False
  with assms have N: "N - 1 < 63" by simp
  have p: "(2 :: int) ^ (N - 1) < 2 ^ 63" using N by (rule power_strict_increasing) simp
  have w: "push_bit (N - 1) 1 = (of_int (2 ^ (N - 1)) :: intptr)" by (simp add: push_bit_of_1)
  have l: "sint (push_bit (N - 1) 1 :: intptr) = 2 ^ (N - 1)"
    unfolding w signed_of_int by (subst signed_take_bit_int_eq_self) (use p in \<open>auto intro: order_trans [of _ 0]\<close>)
  have m: "sint (- push_bit (N - 1) 1 :: intptr) = - (2 ^ (N - 1))"
    unfolding w of_int_minus [symmetric] signed_of_int
    by (subst signed_take_bit_int_eq_self) (use p in \<open>auto intro: order_le_less_trans [of _ 0]\<close>)
  from assms(1) have "- (2 ^ (N - 1)) \<le> sint v" "sint v < 2 ^ (N - 1)"
    unfolding IsInt_def Let_def word_sle_eq word_sless_alt l m by auto
  then have "signed_take_bit (N - 1) (sint v) = sint v"
    by (intro signed_take_bit_int_eq_self)
  then have "bit (sint v) i = bit (signed_take_bit (N - 1) (sint v)) i" by simp
  also have "\<dots> = bit (sint v) (N - 1)" using assms(4) by (auto simp: bit_signed_take_bit_iff min_def)
  finally show ?thesis using assms by (auto simp: bit_simps)
qed

lemma IsUint_bit:
  assumes "IsUint N v" and "N < 64" and "N \<le> i" and "i < 64"
  shows "\<not> bit v i"
proof -
  have p: "(2 :: int) ^ N < 2 ^ 64" using assms(2) by (rule power_strict_increasing) simp
  have "push_bit N 1 - 1 = (of_int (2 ^ N - 1) :: intptr)" by (simp add: push_bit_of_1)
  moreover have "uint (of_int (2 ^ N - 1) :: intptr) = 2 ^ N - 1"
    unfolding unsigned_of_int by (subst take_bit_int_eq_self) (use p in auto)
  ultimately have "uint v < 2 ^ N"
    using assms(1) by (simp add: IsUint_def word_le_def)
  then have "take_bit N (uint v) = uint v" by (intro take_bit_int_eq_self) auto
  then have "take_bit N v = v"
    using assms(2) by (simp add: word_uint_eq_iff unsigned_take_bit_eq)
  then have "bit v i = bit (take_bit N v) i" by simp
  then show ?thesis using assms(3) by (simp add: bit_take_bit_iff)
qed

lemma IsAligned_bit: "IsAligned v (push_bit k 1) \<Longrightarrow> i < k \<Longrightarrow> k < 64 \<Longrightarrow> \<not> bit v i"
proof -
  assume a: "IsAligned v (push_bit k 1)" and i: "i < k" "k < 64"
  then have "v AND mask k = 0" by (simp add: IsAligned_def mask_eq_exp_minus_1 push_bit_of_1)
  then have "\<not> bit (v AND mask k) i" by simp
  with i show ?thesis by (simp add: bit_simps)
qed

lemma IsAligned_bits:
  "IsAligned v 2 \<Longrightarrow> \<not> bit v 0"
  "IsAligned v 4 \<Longrightarrow> i < 2 \<Longrightarrow> \<not> bit v i"
  "IsAligned v 8 \<Longrightarrow> i < 3 \<Longrightarrow> \<not> bit v i"
  "IsAligned v 16 \<Longrightarrow> i < 4 \<Longrightarrow> \<not> bit v i"
  "IsAligned v 0x1000 \<Longrightarrow> i < 12 \<Longrightarrow> \<not> bit v i"
  using IsAligned_bit [of v 1 0] IsAligned_bit [of v 2 i] IsAligned_bit [of v 3 i] IsAligned_bit [of v 4 i]
    IsAligned_bit [of v 12 i]
  by (simp_all add: push_bit_of_1)

lemma check_Inr [simp]: "check b s x = Inr y \<longleftrightarrow> b \<and> y = x"
  by (auto simp: check_def)

lemma bit_put: "bit (put a m b imm) i \<longleftrightarrow> i < 32 \<and> b \<le> i \<and> bit m (i - b) \<and> bit imm (min 63 (a + (i - b)))"
  by (cases "a + (i - b) = 63") (auto simp: put_def bit_simps min_def not_le)

lemma put_code [code]: "put a m b imm = word_of_int (push_bit b (drop_bit a (sint imm) AND uint m))"
  by (rule bit_word_eqI) (auto simp: bit_put bit_simps min_def not_le)

lemma bit_take_out: "bit (take_out a m b e) i \<longleftrightarrow> i < 32 \<and> b \<le> i \<and> bit m (i - b) \<and> bit e (a + (i - b))"
  by (auto simp: take_out_def bit_simps)

lemma bit_SignExtend: "0 < N \<Longrightarrow> N \<le> 32 \<Longrightarrow> bit (SignExtend N x) i \<longleftrightarrow> i < 32 \<and> bit x (min (N - 1) i)"
  by (cases "i = N - 1") (auto simp: SignExtend_def bit_simps min_def not_le)


text \<open>A sign-extended or zero-extended immediate, bit by bit.\<close>

lemma sign_extend_eqI:
  assumes "IsInt N imm" and "0 < N" and "N \<le> 32" and "list_all (\<lambda>i. bit x i = bit imm i) [0..<N]"
  shows "scast (SignExtend N x) = imm"
proof (rule bit_word_eqI)
  fix i assume i: "i < LENGTH(64)"
  have x: "bit x k = bit imm k" if "k < N" for k using assms(4) that by (simp add: list_all_iff)
  show "bit (scast (SignExtend N x) :: intptr) i = bit imm i"
  proof (cases "i < N")
    case True
    then have "min (N - 1) i = i" "min 31 i = i" using assms(3) by auto
    with i True assms(2,3) show ?thesis by (auto simp: bit_simps bit_SignExtend x)
  next
    case False
    with i assms(1-3) IsInt_bit [of N imm i] show ?thesis
      by (auto simp: bit_simps bit_SignExtend x min_def)
  qed
qed

lemma zero_extend_eqI:
  assumes "IsUint N imm" and "N \<le> 32" and "list_all (\<lambda>i. bit x i = bit imm i) [0..<32]"
  shows "ucast (x :: 32 word) = imm"
proof (rule bit_word_eqI)
  fix i assume i: "i < LENGTH(64)"
  have x: "bit x k = bit imm k" if "k < 32" for k using assms(3) that by (simp add: list_all_iff)
  show "bit (ucast x :: intptr) i = bit imm i"
    using i IsUint_bit [OF assms(1), of i] assms(2) by (cases "i < 32") (auto simp: bit_simps x dest: bit_imp_le_length)
qed

lemma Suc_eq_numerals: "Suc (Suc 0) = 2" "Suc (Suc (Suc 0)) = 3"
  by simp_all

lemma upt_0:
  "[0..<6] = [0, 1, 2, 3, 4, 5]"
  "[0..<8] = [0, 1, 2, 3, 4, 5, 6, 7]"
  "[0..<10] = [0, 1, 2, 3, 4, 5, 6, 7, 8, 9]"
  "[0..<11] = [0, 1, 2, 3, 4, 5, 6, 7, 8, 9, 10]"
  "[0..<12] = [0, 1, 2, 3, 4, 5, 6, 7, 8, 9, 10, 11]"
  "[0..<17] = [0, 1, 2, 3, 4, 5, 6, 7, 8, 9, 10, 11, 12, 13, 14, 15, 16]"
  "[0..<20] = [0, 1, 2, 3, 4, 5, 6, 7, 8, 9, 10, 11, 12, 13, 14, 15, 16, 17, 18, 19]"
  "[0..<32] = [0, 1, 2, 3, 4, 5, 6, 7, 8, 9, 10, 11, 12, 13, 14, 15, 16, 17, 18, 19, 20, 21, 22, 23, 24,
      25, 26, 27, 28, 29, 30, 31]"
  by code_simp+

lemmas bits_of_codes = upt_0 bit_put bit_take_out bit_SignExtend bit_or_iff bit_and_iff bit_not_iff bit_push_bit_iff
  bit_drop_bit_eq bit_unsigned_iff bit_signed_iff IsAligned_bits

lemma BType_roundtrip: "EncodeBTypeImm imm = Inr e \<Longrightarrow> DecodeBTypeImm e = imm"
  by (auto simp: rv_codes bits_of_codes Suc_eq_numerals intro!: sign_extend_eqI)

lemma JType_roundtrip: "EncodeJTypeImm imm = Inr e \<Longrightarrow> DecodeJTypeImm e = imm"
  by (auto simp: rv_codes bits_of_codes Suc_eq_numerals intro!: sign_extend_eqI)

lemma IType_roundtrip: "EncodeITypeImm imm = Inr e \<Longrightarrow> DecodeITypeImm e = imm"
  by (auto simp: rv_codes bits_of_codes Suc_eq_numerals intro!: sign_extend_eqI)

lemma UType_roundtrip: "EncodeUTypeImm imm = Inr e \<Longrightarrow> DecodeUTypeImm e = imm"
  by (auto simp: rv_codes bits_of_codes Suc_eq_numerals intro!: sign_extend_eqI)

lemma SType_roundtrip: "EncodeSTypeImm imm = Inr e \<Longrightarrow> DecodeSTypeImm e = imm"
  by (auto simp: rv_codes bits_of_codes Suc_eq_numerals intro!: sign_extend_eqI)

lemma CSPLoad4_roundtrip: "EncodeCSPLoad4Imm imm = Inr e \<Longrightarrow> DecodeCSPLoad4Imm e = imm"
  by (auto simp: rv_codes bits_of_codes IsUint_bit Suc_eq_numerals intro!: zero_extend_eqI)

lemma CSPLoad8_roundtrip: "EncodeCSPLoad8Imm imm = Inr e \<Longrightarrow> DecodeCSPLoad8Imm e = imm"
  by (auto simp: rv_codes bits_of_codes IsUint_bit Suc_eq_numerals intro!: zero_extend_eqI)

lemma CSPStore4_roundtrip: "EncodeCSPStore4Imm imm = Inr e \<Longrightarrow> DecodeCSPStore4Imm e = imm"
  by (auto simp: rv_codes bits_of_codes IsUint_bit Suc_eq_numerals intro!: zero_extend_eqI)

lemma CSPStore8_roundtrip: "EncodeCSPStore8Imm imm = Inr e \<Longrightarrow> DecodeCSPStore8Imm e = imm"
  by (auto simp: rv_codes bits_of_codes IsUint_bit Suc_eq_numerals intro!: zero_extend_eqI)

lemma CMem4_roundtrip: "EncodeCMem4Imm imm = Inr e \<Longrightarrow> DecodeCMem4Imm e = imm"
  by (auto simp: rv_codes bits_of_codes IsUint_bit Suc_eq_numerals intro!: zero_extend_eqI)

lemma CMem8_roundtrip: "EncodeCMem8Imm imm = Inr e \<Longrightarrow> DecodeCMem8Imm e = imm"
  by (auto simp: rv_codes bits_of_codes IsUint_bit Suc_eq_numerals intro!: zero_extend_eqI)

lemma CJ_roundtrip: "EncodeCJImm imm = Inr e \<Longrightarrow> DecodeCJImm e = imm"
  by (auto simp: rv_codes bits_of_codes Suc_eq_numerals intro!: sign_extend_eqI)

lemma CB_roundtrip: "EncodeCBImm imm = Inr e \<Longrightarrow> DecodeCBImm e = imm"
  by (auto simp: rv_codes bits_of_codes Suc_eq_numerals intro!: sign_extend_eqI)

lemma CI_roundtrip: "EncodeCIImm imm = Inr e \<Longrightarrow> DecodeCIImm e = imm"
  by (auto simp: rv_codes bits_of_codes Suc_eq_numerals intro!: sign_extend_eqI)

lemma CU_roundtrip: "EncodeCUImm imm = Inr e \<Longrightarrow> DecodeCUImm e = imm"
  by (auto simp: rv_codes bits_of_codes Suc_eq_numerals intro!: sign_extend_eqI)

lemma CI16_roundtrip: "EncodeCI16Imm imm = Inr e \<Longrightarrow> DecodeCI16Imm e = imm"
  by (auto simp: rv_codes bits_of_codes Suc_eq_numerals intro!: sign_extend_eqI)

lemma CI4SPN_roundtrip: "EncodeCI4SPNImm imm = Inr e \<Longrightarrow> DecodeCI4SPNImm e = imm"
  by (auto simp: rv_codes bits_of_codes IsUint_bit Suc_eq_numerals intro!: zero_extend_eqI)

end
