(* ===== verification/Riscv_Assembler.thy ===== *)
theory Riscv_Assembler
  imports Riscv_Constants
begin

text \<open>
  The RISC-V assembler (\<open>encoder/riscv64-assembler.cpp\<close>, \<open>riscv64-assembler.h\<close>), built for
  \<open>XLEN = 64\<close> with active assertions.  Its state is the code written so far (the bytes the
  machine code writer holds; theory \<open>Machine_Code\<close> proves that a writer holds the bytes it was
  given), the instruction counters, the extensions, and the \<open>position_\<close> of every label; a
  \<open>Label *\<close> is a number.  One definition per method, compressed ones first; overloads on
  labels end in \<open>_label\<close>, overloads on floating-point registers name the register classes.
\<close>

named_theorems rv_emits \<open>definitions of the emitters\<close>
named_theorems rv_insns \<open>definitions of the instruction methods\<close>

record assembler =
  extensions :: "32 word"
  code :: "8 word list"
  instructions16 :: "64 word"
  instructions32 :: "64 word"
  label_position :: "nat \<Rightarrow> intptr"

type_synonym asm = "(assembler, unit) prog"

definition Assembler :: "32 word \<Rightarrow> assembler" where
  "Assembler exts = \<lparr>extensions = exts, code = [], instructions16 = 0, instructions32 = 0,
     label_position = (\<lambda>_. 0)\<rparr>"

record rv_address =
  addr_base :: reg
  addr_offset :: intptr

datatype memory_order = memory_order_relaxed | memory_order_consume | memory_order_acquire
  | memory_order_release | memory_order_acq_rel | memory_order_seq_cst

definition ASSERT :: "bool \<Rightarrow> string \<Rightarrow> asm" where
  "ASSERT b s = (if b then ret () else throw (Assertion_failed s))"

definition Supports :: "32 word \<Rightarrow> (assembler, bool) prog" where
  "Supports ext a = Inr (Includes (extensions a) ext, a)"

definition requires :: "32 word \<Rightarrow> asm" where
  "requires ext = bnd (Supports ext) (\<lambda>b. ASSERT b ''Supports'')"

section \<open>Bytes\<close>

definition bytes16 :: "16 word \<Rightarrow> 8 word list" where
  "bytes16 c = [ucast c, ucast (drop_bit 8 c)]"

definition bytes32 :: "32 word \<Rightarrow> 8 word list" where
  "bytes32 c = [ucast c, ucast (drop_bit 8 c), ucast (drop_bit 16 c), ucast (drop_bit 24 c)]"

definition Position :: "assembler \<Rightarrow> intptr" where
  "Position a = of_nat (length (code a))"

text \<open>The emitters take the encoded word, or the assertion that failed while encoding it.\<close>

fun or_all :: "32 word res list \<Rightarrow> 32 word res" where
  "or_all [] = Inr 0"
| "or_all (x # xs) =
     (case x of Inl e \<Rightarrow> Inl e | Inr v \<Rightarrow> (case or_all xs of Inl e \<Rightarrow> Inl e | Inr w \<Rightarrow> Inr (v OR w)))"

definition Emit16 :: "32 word res \<Rightarrow> asm" where
  "Emit16 r = bnd (lift_res r) (\<lambda>w a. Inr ((), a\<lparr>instructions16 := instructions16 a + 1,
     code := code a @ bytes16 (ucast w)\<rparr>))"

definition Emit32 :: "32 word res \<Rightarrow> asm" where
  "Emit32 r = bnd (lift_res r) (\<lambda>w a. Inr ((), a\<lparr>instructions32 := instructions32 a + 1,
     code := code a @ bytes32 w\<rparr>))"

text \<open>Reading and patching code at a position; outside the code the behaviour is undefined.\<close>

definition get16 :: "8 word list \<Rightarrow> nat \<Rightarrow> 16 word" where
  "get16 c n = ucast (c ! n) OR push_bit 8 (ucast (c ! (n + 1)))"

definition get32 :: "8 word list \<Rightarrow> nat \<Rightarrow> 32 word" where
  "get32 c n = ucast (c ! n) OR push_bit 8 (ucast (c ! (n + 1)))
     OR push_bit 16 (ucast (c ! (n + 2))) OR push_bit 24 (ucast (c ! (n + 3)))"

definition Read16 :: "intptr \<Rightarrow> (assembler, 16 word) prog" where
  "Read16 p a = (if unat p + 2 \<le> length (code a) then Inr (get16 (code a) (unat p), a)
     else Inl (Undefined_behaviour ''read outside the code''))"

definition Read32 :: "intptr \<Rightarrow> (assembler, 32 word) prog" where
  "Read32 p a = (if unat p + 4 \<le> length (code a) then Inr (get32 (code a) (unat p), a)
     else Inl (Undefined_behaviour ''read outside the code''))"

definition put_bytes :: "nat \<Rightarrow> 8 word list \<Rightarrow> 8 word list \<Rightarrow> 8 word list" where
  "put_bytes n bs xs = take n xs @ bs @ drop (n + length bs) xs"

definition Write16 :: "intptr \<Rightarrow> 16 word \<Rightarrow> asm" where
  "Write16 p w a = (if unat p + 2 \<le> length (code a)
     then Inr ((), a\<lparr>code := put_bytes (unat p) (bytes16 w) (code a)\<rparr>)
     else Inl (Undefined_behaviour ''write outside the code''))"

definition Write32 :: "intptr \<Rightarrow> 32 word \<Rightarrow> asm" where
  "Write32 p w a = (if unat p + 4 \<le> length (code a)
     then Inr ((), a\<lparr>code := put_bytes (unat p) (bytes32 w) (code a)\<rparr>)
     else Inl (Undefined_behaviour ''write outside the code''))"

section \<open>Labels\<close>

text \<open>\<open>position_\<close> is 0 when the label is unused, \<open>position + 8\<close> when the last branch to it is at
  \<open>position\<close>, \<open>-position - 8\<close> when it is bound there.\<close>

definition kWordSize :: intptr where
  "kWordSize = 8"

definition IsBound :: "intptr \<Rightarrow> bool" where
  "IsBound p = (p <s 0)"

definition IsUnused :: "intptr \<Rightarrow> bool" where
  "IsUnused p = (p = 0)"

definition IsLinked :: "intptr \<Rightarrow> bool" where
  "IsLinked p = (0 <s p)"

definition label_pos :: "nat \<Rightarrow> (assembler, intptr) prog" where
  "label_pos l a = (let p = label_position a l in
     if IsUnused p then Inl (Assertion_failed ''!IsUnused()'')
     else Inr (if IsBound p then - p - kWordSize else p - kWordSize, a))"

definition set_label :: "nat \<Rightarrow> intptr \<Rightarrow> asm" where
  "set_label l p a = Inr ((), a\<lparr>label_position := (label_position a)(l := p)\<rparr>)"

definition BindTo :: "nat \<Rightarrow> intptr \<Rightarrow> asm" where
  "BindTo l position a =
     andthen (ASSERT (\<not> IsBound (label_position a l)) ''!IsBound()'') (
     andthen (set_label l (- position - kWordSize)) (
     ASSERT (IsBound (- position - kWordSize)) ''IsBound()'')) a"

definition LinkTo :: "nat \<Rightarrow> intptr \<Rightarrow> asm" where
  "LinkTo l position a =
     andthen (ASSERT (\<not> IsBound (label_position a l)) ''!IsBound()'') (
     andthen (set_label l (position + kWordSize)) (
     ASSERT (IsLinked (position + kWordSize)) ''IsLinked()'')) a"

text \<open>The offset of a branch to a label: known when the label is bound, otherwise the link to
  the previous branch, and the label is linked to this one.\<close>

definition branch_offset :: "nat \<Rightarrow> (assembler, intptr) prog" where
  "branch_offset l a =
     (if IsBound (label_position a l)
      then bnd (label_pos l) (\<lambda>p. ret (p - Position a)) a
      else andthen (LinkTo l (Position a)) (ret (label_position a l)) a)"

section \<open>Emitters\<close>

definition EmitRType :: "32 word \<Rightarrow> reg \<Rightarrow> reg \<Rightarrow> 32 word \<Rightarrow> reg \<Rightarrow> 32 word \<Rightarrow> asm" where [rv_emits]:
  "EmitRType funct7 rs2 rs1 funct3 rd opcode = Emit32 (or_all [EncodeFunct7 funct7, EncodeRs2 rs2,
     EncodeRs1 rs1, EncodeFunct3 funct3, EncodeRd rd, EncodeOpcode opcode])"

definition EmitRType_fff :: "32 word \<Rightarrow> reg \<Rightarrow> reg \<Rightarrow> 32 word \<Rightarrow> reg \<Rightarrow> 32 word \<Rightarrow> asm" where [rv_emits]:
  "EmitRType_fff funct7 rs2 rs1 funct3 rd opcode = Emit32 (or_all [EncodeFunct7 funct7,
     EncodeFRs2 rs2, EncodeFRs1 rs1, EncodeFunct3 funct3, EncodeFRd rd, EncodeOpcode opcode])"

definition EmitRType_fff_round :: "32 word \<Rightarrow> reg \<Rightarrow> reg \<Rightarrow> 32 word \<Rightarrow> reg \<Rightarrow> 32 word \<Rightarrow> asm" where [rv_emits]:
  "EmitRType_fff_round funct7 rs2 rs1 round rd opcode = Emit32 (or_all [EncodeFunct7 funct7,
     EncodeFRs2 rs2, EncodeFRs1 rs1, EncodeRoundingMode round, EncodeFRd rd, EncodeOpcode opcode])"

definition EmitRType_fxf_round :: "32 word \<Rightarrow> reg \<Rightarrow> reg \<Rightarrow> 32 word \<Rightarrow> reg \<Rightarrow> 32 word \<Rightarrow> asm" where [rv_emits]:
  "EmitRType_fxf_round funct7 rs2 rs1 round rd opcode = Emit32 (or_all [EncodeFunct7 funct7,
     EncodeFRs2 rs2, EncodeRs1 rs1, EncodeRoundingMode round, EncodeFRd rd, EncodeOpcode opcode])"

definition EmitRType_fxf :: "32 word \<Rightarrow> reg \<Rightarrow> reg \<Rightarrow> 32 word \<Rightarrow> reg \<Rightarrow> 32 word \<Rightarrow> asm" where [rv_emits]:
  "EmitRType_fxf funct7 rs2 rs1 funct3 rd opcode = Emit32 (or_all [EncodeFunct7 funct7,
     EncodeFRs2 rs2, EncodeRs1 rs1, EncodeFunct3 funct3, EncodeFRd rd, EncodeOpcode opcode])"

definition EmitRType_ffx :: "32 word \<Rightarrow> reg \<Rightarrow> reg \<Rightarrow> 32 word \<Rightarrow> reg \<Rightarrow> 32 word \<Rightarrow> asm" where [rv_emits]:
  "EmitRType_ffx funct7 rs2 rs1 funct3 rd opcode = Emit32 (or_all [EncodeFunct7 funct7,
     EncodeFRs2 rs2, EncodeFRs1 rs1, EncodeFunct3 funct3, EncodeRd rd, EncodeOpcode opcode])"

definition EmitRType_ffx_round :: "32 word \<Rightarrow> reg \<Rightarrow> reg \<Rightarrow> 32 word \<Rightarrow> reg \<Rightarrow> 32 word \<Rightarrow> asm" where [rv_emits]:
  "EmitRType_ffx_round funct7 rs2 rs1 round rd opcode = Emit32 (or_all [EncodeFunct7 funct7,
     EncodeFRs2 rs2, EncodeFRs1 rs1, EncodeRoundingMode round, EncodeRd rd, EncodeOpcode opcode])"

definition EmitRType_shamt :: "32 word \<Rightarrow> intptr \<Rightarrow> reg \<Rightarrow> 32 word \<Rightarrow> reg \<Rightarrow> 32 word \<Rightarrow> asm" where [rv_emits]:
  "EmitRType_shamt funct7 shamt rs1 funct3 rd opcode = Emit32 (or_all [EncodeFunct7 funct7,
     EncodeShamt (ucast shamt), EncodeRs1 rs1, EncodeFunct3 funct3, EncodeRd rd, EncodeOpcode opcode])"

fun order_bits :: "memory_order \<Rightarrow> 32 word res" where
  "order_bits memory_order_acq_rel = Inr 0b11"
| "order_bits memory_order_acquire = Inr 0b10"
| "order_bits memory_order_release = Inr 1"
| "order_bits memory_order_relaxed = Inr 0"
| "order_bits _ = Inl (Assertion_failed ''Invalid memory order'')"

definition EmitRType_order :: "32 word \<Rightarrow> memory_order \<Rightarrow> reg \<Rightarrow> reg \<Rightarrow> 32 word \<Rightarrow> reg \<Rightarrow> 32 word \<Rightarrow> asm" where [rv_emits]:
  "EmitRType_order funct5 order rs2 rs1 funct3 rd opcode = bnd (lift_res (order_bits order)) (\<lambda>b.
     EmitRType (push_bit 2 funct5 OR b) rs2 rs1 funct3 rd opcode)"

definition EmitR4Type :: "reg \<Rightarrow> 32 word \<Rightarrow> reg \<Rightarrow> reg \<Rightarrow> 32 word \<Rightarrow> reg \<Rightarrow> 32 word \<Rightarrow> asm" where [rv_emits]:
  "EmitR4Type rs3 funct2 rs2 rs1 round rd opcode = Emit32 (or_all [EncodeFRs3 rs3, EncodeFunct2 funct2,
     EncodeFRs2 rs2, EncodeFRs1 rs1, EncodeRoundingMode round, EncodeFRd rd, EncodeOpcode opcode])"

definition EmitIType :: "intptr \<Rightarrow> reg \<Rightarrow> 32 word \<Rightarrow> reg \<Rightarrow> 32 word \<Rightarrow> asm" where [rv_emits]:
  "EmitIType imm rs1 funct3 rd opcode = Emit32 (or_all [EncodeITypeImm imm, EncodeRs1 rs1,
     EncodeFunct3 funct3, EncodeRd rd, EncodeOpcode opcode])"

definition EmitIType_f :: "intptr \<Rightarrow> reg \<Rightarrow> 32 word \<Rightarrow> reg \<Rightarrow> 32 word \<Rightarrow> asm" where [rv_emits]:
  "EmitIType_f imm rs1 funct3 rd opcode = Emit32 (or_all [EncodeITypeImm imm, EncodeRs1 rs1,
     EncodeFunct3 funct3, EncodeFRd rd, EncodeOpcode opcode])"

definition EmitSType :: "intptr \<Rightarrow> reg \<Rightarrow> reg \<Rightarrow> 32 word \<Rightarrow> 32 word \<Rightarrow> asm" where [rv_emits]:
  "EmitSType imm rs2 rs1 funct3 opcode = Emit32 (or_all [EncodeSTypeImm imm, EncodeRs2 rs2,
     EncodeRs1 rs1, EncodeFunct3 funct3, EncodeOpcode opcode])"

definition EmitSType_f :: "intptr \<Rightarrow> reg \<Rightarrow> reg \<Rightarrow> 32 word \<Rightarrow> 32 word \<Rightarrow> asm" where [rv_emits]:
  "EmitSType_f imm rs2 rs1 funct3 opcode = Emit32 (or_all [EncodeSTypeImm imm, EncodeFRs2 rs2,
     EncodeRs1 rs1, EncodeFunct3 funct3, EncodeOpcode opcode])"

definition EmitBType :: "intptr \<Rightarrow> reg \<Rightarrow> reg \<Rightarrow> 32 word \<Rightarrow> 32 word \<Rightarrow> asm" where [rv_emits]:
  "EmitBType imm rs2 rs1 funct3 opcode = Emit32 (or_all [EncodeBTypeImm imm, EncodeRs2 rs2,
     EncodeRs1 rs1, EncodeFunct3 funct3, EncodeOpcode opcode])"

definition EmitUType :: "intptr \<Rightarrow> reg \<Rightarrow> 32 word \<Rightarrow> asm" where [rv_emits]:
  "EmitUType imm rd opcode = Emit32 (or_all [EncodeUTypeImm imm, EncodeRd rd, EncodeOpcode opcode])"

definition EmitJType :: "intptr \<Rightarrow> reg \<Rightarrow> 32 word \<Rightarrow> asm" where [rv_emits]:
  "EmitJType imm rd opcode = Emit32 (or_all [EncodeJTypeImm imm, EncodeRd rd, EncodeOpcode opcode])"

definition EmitBranch :: "reg \<Rightarrow> reg \<Rightarrow> intptr \<Rightarrow> 32 word \<Rightarrow> asm" where [rv_emits]:
  "EmitBranch rs1 rs2 offset func = EmitBType offset rs2 rs1 func BRANCH"

definition EmitBranch_label :: "reg \<Rightarrow> reg \<Rightarrow> nat \<Rightarrow> 32 word \<Rightarrow> asm" where [rv_emits]:
  "EmitBranch_label rs1 rs2 label func = bnd (branch_offset label) (\<lambda>offset.
     EmitBType offset rs2 rs1 func BRANCH)"

text \<open>The opcode argument is ignored.\<close>

definition EmitJump :: "reg \<Rightarrow> intptr \<Rightarrow> 32 word \<Rightarrow> asm" where [rv_emits]:
  "EmitJump rd offset opcode = EmitJType offset rd JAL"

definition EmitJump_label :: "reg \<Rightarrow> nat \<Rightarrow> 32 word \<Rightarrow> asm" where [rv_emits]:
  "EmitJump_label rd label opcode = bnd (branch_offset label) (\<lambda>offset. EmitJType offset rd JAL)"

definition EmitCBranch :: "reg \<Rightarrow> intptr \<Rightarrow> 32 word \<Rightarrow> asm" where [rv_emits]:
  "EmitCBranch rs1p offset opcode = Emit16 (or_all [Inr opcode, EncodeCRs1p rs1p, EncodeCBImm offset])"

definition EmitCBranch_label :: "reg \<Rightarrow> nat \<Rightarrow> 32 word \<Rightarrow> asm" where [rv_emits]:
  "EmitCBranch_label rs1p label opcode = bnd (branch_offset label) (\<lambda>offset.
     Emit16 (or_all [Inr opcode, EncodeCRs1p rs1p, EncodeCBImm offset]))"

definition EmitCJump :: "intptr \<Rightarrow> 32 word \<Rightarrow> asm" where [rv_emits]:
  "EmitCJump offset opcode = Emit16 (or_all [Inr opcode, EncodeCJImm offset])"

definition EmitCJump_label :: "nat \<Rightarrow> 32 word \<Rightarrow> asm" where [rv_emits]:
  "EmitCJump_label label opcode = bnd (branch_offset label) (\<lambda>offset.
     Emit16 (or_all [Inr opcode, EncodeCJImm offset]))"

section \<open>Instructions\<close>

definition c_lwsp :: "reg \<Rightarrow> rv_address \<Rightarrow> asm" where [rv_insns]:
  "c_lwsp rd addr =
   andthen (ASSERT (rd \<noteq> ZERO) ''rd != ZERO'') (
   andthen (ASSERT (addr_base addr = SP) ''addr.base() == SP'') (
   andthen (requires RV_C) (
   Emit16 (or_all [Inr C_LWSP, EncodeCRd rd, EncodeCSPLoad4Imm (addr_offset addr)]))))"

definition c_ldsp :: "reg \<Rightarrow> rv_address \<Rightarrow> asm" where [rv_insns]:
  "c_ldsp rd addr =
   andthen (ASSERT (rd \<noteq> ZERO) ''rd != ZERO'') (
   andthen (ASSERT (addr_base addr = SP) ''addr.base() == SP'') (
   andthen (requires RV_C) (
   Emit16 (or_all [Inr C_LDSP, EncodeCRd rd, EncodeCSPLoad8Imm (addr_offset addr)]))))"

definition c_fldsp :: "reg \<Rightarrow> rv_address \<Rightarrow> asm" where [rv_insns]:
  "c_fldsp rd addr =
   andthen (ASSERT (addr_base addr = SP) ''addr.base() == SP'') (
   andthen (requires RV_C) (
   andthen (requires RV_D) (
   Emit16 (or_all [Inr C_FLDSP, EncodeCFRd rd, EncodeCSPLoad8Imm (addr_offset addr)]))))"

definition c_swsp :: "reg \<Rightarrow> rv_address \<Rightarrow> asm" where [rv_insns]:
  "c_swsp rs2 addr =
   andthen (ASSERT (addr_base addr = SP) ''addr.base() == SP'') (
   andthen (requires RV_C) (
   Emit16 (or_all [Inr C_SWSP, EncodeCRs2 rs2, EncodeCSPStore4Imm (addr_offset addr)])))"

definition c_sdsp :: "reg \<Rightarrow> rv_address \<Rightarrow> asm" where [rv_insns]:
  "c_sdsp rs2 addr =
   andthen (ASSERT (addr_base addr = SP) ''addr.base() == SP'') (
   andthen (requires RV_C) (
   Emit16 (or_all [Inr C_SDSP, EncodeCRs2 rs2, EncodeCSPStore8Imm (addr_offset addr)])))"

definition c_fsdsp :: "reg \<Rightarrow> rv_address \<Rightarrow> asm" where [rv_insns]:
  "c_fsdsp rs2 addr =
   andthen (ASSERT (addr_base addr = SP) ''addr.base() == SP'') (
   andthen (requires RV_C) (
   andthen (requires RV_D) (
   Emit16 (or_all [Inr C_FSDSP, EncodeCFRs2 rs2, EncodeCSPStore8Imm (addr_offset addr)]))))"

definition c_lw :: "reg \<Rightarrow> rv_address \<Rightarrow> asm" where [rv_insns]:
  "c_lw rd addr =
   andthen (requires RV_C) (
   Emit16 (or_all [Inr C_LW, EncodeCRdp rd, EncodeCRs1p (addr_base addr),
     EncodeCMem4Imm (addr_offset addr)]))"

definition c_ld :: "reg \<Rightarrow> rv_address \<Rightarrow> asm" where [rv_insns]:
  "c_ld rd addr =
   andthen (requires RV_C) (
   Emit16 (or_all [Inr C_LD, EncodeCRdp rd, EncodeCRs1p (addr_base addr),
     EncodeCMem8Imm (addr_offset addr)]))"

definition c_flw :: "reg \<Rightarrow> rv_address \<Rightarrow> asm" where [rv_insns]:
  "c_flw rd addr =
   andthen (requires RV_C) (
   andthen (requires RV_F) (
   Emit16 (or_all [Inr C_FLW, EncodeCFRdp rd, EncodeCRs1p (addr_base addr),
     EncodeCMem4Imm (addr_offset addr)])))"

definition c_fld :: "reg \<Rightarrow> rv_address \<Rightarrow> asm" where [rv_insns]:
  "c_fld rd addr =
   andthen (requires RV_C) (
   andthen (requires RV_D) (
   Emit16 (or_all [Inr C_FLD, EncodeCFRdp rd, EncodeCRs1p (addr_base addr),
     EncodeCMem8Imm (addr_offset addr)])))"

definition c_sw :: "reg \<Rightarrow> rv_address \<Rightarrow> asm" where [rv_insns]:
  "c_sw rs2 addr =
   andthen (requires RV_C) (
   Emit16 (or_all [Inr C_SW, EncodeCRs1p (addr_base addr), EncodeCRs2p rs2,
     EncodeCMem4Imm (addr_offset addr)]))"

definition c_sd :: "reg \<Rightarrow> rv_address \<Rightarrow> asm" where [rv_insns]:
  "c_sd rs2 addr =
   andthen (requires RV_C) (
   Emit16 (or_all [Inr C_SD, EncodeCRs1p (addr_base addr), EncodeCRs2p rs2,
     EncodeCMem8Imm (addr_offset addr)]))"

definition c_fsw :: "reg \<Rightarrow> rv_address \<Rightarrow> asm" where [rv_insns]:
  "c_fsw rs2 addr =
   andthen (requires RV_C) (
   andthen (requires RV_F) (
   Emit16 (or_all [Inr C_FSW, EncodeCRs1p (addr_base addr), EncodeCFRs2p rs2,
     EncodeCMem4Imm (addr_offset addr)])))"

definition c_fsd :: "reg \<Rightarrow> rv_address \<Rightarrow> asm" where [rv_insns]:
  "c_fsd rs2 addr =
   andthen (requires RV_C) (
   andthen (requires RV_D) (
   Emit16 (or_all [Inr C_FSD, EncodeCRs1p (addr_base addr), EncodeCFRs2p rs2,
     EncodeCMem8Imm (addr_offset addr)])))"

definition c_j_label :: "nat \<Rightarrow> asm" where [rv_insns]:
  "c_j_label label =
   andthen (requires RV_C) (
   EmitCJump_label label C_J)"

definition c_j :: "intptr \<Rightarrow> asm" where [rv_insns]:
  "c_j offset =
   andthen (requires RV_C) (
   EmitCJump offset C_J)"

definition c_jr :: "reg \<Rightarrow> asm" where [rv_insns]:
  "c_jr rs1 =
   andthen (requires RV_C) (
   andthen (ASSERT (rs1 \<noteq> ZERO) ''rs1 != ZERO'') (
   Emit16 (or_all [Inr C_JR, EncodeCRs1 rs1, EncodeCRs2 ZERO])))"

definition c_jalr :: "reg \<Rightarrow> asm" where [rv_insns]:
  "c_jalr rs1 =
   andthen (requires RV_C) (
   Emit16 (or_all [Inr C_JALR, EncodeCRs1 rs1, EncodeCRs2 ZERO]))"

definition c_beqz_label :: "reg \<Rightarrow> nat \<Rightarrow> asm" where [rv_insns]:
  "c_beqz_label rs1p label =
   andthen (requires RV_C) (
   EmitCBranch_label rs1p label C_BEQZ)"

definition c_beqz :: "reg \<Rightarrow> intptr \<Rightarrow> asm" where [rv_insns]:
  "c_beqz rs1p offset =
   andthen (requires RV_C) (
   EmitCBranch rs1p offset C_BEQZ)"

definition c_bnez_label :: "reg \<Rightarrow> nat \<Rightarrow> asm" where [rv_insns]:
  "c_bnez_label rs1p label =
   andthen (requires RV_C) (
   EmitCBranch_label rs1p label C_BNEZ)"

definition c_bnez :: "reg \<Rightarrow> intptr \<Rightarrow> asm" where [rv_insns]:
  "c_bnez rs1p offset =
   andthen (requires RV_C) (
   EmitCBranch rs1p offset C_BNEZ)"

definition c_li :: "reg \<Rightarrow> intptr \<Rightarrow> asm" where [rv_insns]:
  "c_li rd imm =
   andthen (requires RV_C) (
   andthen (ASSERT (rd \<noteq> ZERO) ''rd != ZERO'') (
   Emit16 (or_all [Inr C_LI, EncodeCRd rd, EncodeCIImm imm])))"

definition c_lui :: "reg \<Rightarrow> intptr \<Rightarrow> asm" where [rv_insns]:
  "c_lui rd imm =
   andthen (requires RV_C) (
   andthen (ASSERT (rd \<noteq> ZERO) ''rd != ZERO'') (
   andthen (ASSERT (rd \<noteq> SP) ''rd != SP'') (
   Emit16 (or_all [Inr C_LUI, EncodeCRd rd, EncodeCUImm imm]))))"

definition c_addi :: "reg \<Rightarrow> reg \<Rightarrow> intptr \<Rightarrow> asm" where [rv_insns]:
  "c_addi rd rs1 imm =
   andthen (requires RV_C) (
   andthen (ASSERT (imm \<noteq> 0) ''imm != 0'') (
   andthen (ASSERT (rd = rs1) ''rd == rs1'') (
   Emit16 (or_all [Inr C_ADDI, EncodeCRd rd, EncodeCIImm imm]))))"

definition c_addiw :: "reg \<Rightarrow> reg \<Rightarrow> intptr \<Rightarrow> asm" where [rv_insns]:
  "c_addiw rd rs1 imm =
   andthen (requires RV_C) (
   andthen (ASSERT (rd = rs1) ''rd == rs1'') (
   Emit16 (or_all [Inr C_ADDIW, EncodeCRd rd, EncodeCIImm imm])))"

definition c_addi16sp :: "reg \<Rightarrow> reg \<Rightarrow> intptr \<Rightarrow> asm" where [rv_insns]:
  "c_addi16sp rd rs1 imm =
   andthen (requires RV_C) (
   andthen (ASSERT (rd = rs1) ''rd == rs1'') (
   Emit16 (or_all [Inr C_ADDI16SP, EncodeCRd rd, EncodeCI16Imm imm])))"

definition c_addi4spn :: "reg \<Rightarrow> reg \<Rightarrow> intptr \<Rightarrow> asm" where [rv_insns]:
  "c_addi4spn rdp rs1 imm =
   andthen (requires RV_C) (
   andthen (ASSERT (rs1 = SP) ''rs1 == SP'') (
   andthen (ASSERT (imm \<noteq> 0) ''imm != 0'') (
   Emit16 (or_all [Inr C_ADDI4SPN, EncodeCRdp rdp, EncodeCI4SPNImm imm]))))"

definition c_slli :: "reg \<Rightarrow> reg \<Rightarrow> intptr \<Rightarrow> asm" where [rv_insns]:
  "c_slli rd rs1 imm =
   andthen (requires RV_C) (
   andthen (ASSERT (rd = rs1) ''rd == rs1'') (
   andthen (ASSERT (imm \<noteq> 0) ''imm != 0'') (
   let imm = scast (SignExtend 6 (ucast imm)) in Emit16 (or_all [Inr C_SLLI, EncodeCRd rd,
     EncodeCIImm imm]))))"

definition c_srli :: "reg \<Rightarrow> reg \<Rightarrow> intptr \<Rightarrow> asm" where [rv_insns]:
  "c_srli rd rs1 imm =
   andthen (requires RV_C) (
   andthen (ASSERT (rd = rs1) ''rd == rs1'') (
   andthen (ASSERT (imm \<noteq> 0) ''imm != 0'') (
   let imm = scast (SignExtend 6 (ucast imm)) in Emit16 (or_all [Inr C_SRLI, EncodeCRs1p rd,
     EncodeCIImm imm]))))"

definition c_srai :: "reg \<Rightarrow> reg \<Rightarrow> intptr \<Rightarrow> asm" where [rv_insns]:
  "c_srai rd rs1 imm =
   andthen (requires RV_C) (
   andthen (ASSERT (rd = rs1) ''rd == rs1'') (
   andthen (ASSERT (imm \<noteq> 0) ''imm != 0'') (
   let imm = scast (SignExtend 6 (ucast imm)) in Emit16 (or_all [Inr C_SRAI, EncodeCRs1p rd,
     EncodeCIImm imm]))))"

definition c_andi :: "reg \<Rightarrow> reg \<Rightarrow> intptr \<Rightarrow> asm" where [rv_insns]:
  "c_andi rd rs1 imm =
   andthen (requires RV_C) (
   andthen (ASSERT (rd = rs1) ''rd == rs1'') (
   Emit16 (or_all [Inr C_ANDI, EncodeCRs1p rd, EncodeCIImm imm])))"

definition c_mv :: "reg \<Rightarrow> reg \<Rightarrow> asm" where [rv_insns]:
  "c_mv rd rs2 =
   andthen (requires RV_C) (
   andthen (ASSERT (rd \<noteq> ZERO) ''rd != ZERO'') (
   andthen (ASSERT (rs2 \<noteq> ZERO) ''rs2 != ZERO'') (
   Emit16 (or_all [Inr C_MV, EncodeCRd rd, EncodeCRs2 rs2]))))"

definition c_add :: "reg \<Rightarrow> reg \<Rightarrow> reg \<Rightarrow> asm" where [rv_insns]:
  "c_add rd rs1 rs2 =
   andthen (requires RV_C) (
   andthen (ASSERT (rd \<noteq> ZERO) ''rd != ZERO'') (
   andthen (ASSERT (rd = rs1) ''rd == rs1'') (
   andthen (ASSERT (rs2 \<noteq> ZERO) ''rs2 != ZERO'') (
   Emit16 (or_all [Inr C_ADD, EncodeCRd rd, EncodeCRs2 rs2])))))"

definition c_and :: "reg \<Rightarrow> reg \<Rightarrow> reg \<Rightarrow> asm" where [rv_insns]:
  "c_and rd rs1 rs2 =
   andthen (requires RV_C) (
   andthen (ASSERT (rd = rs1) ''rd == rs1'') (
   Emit16 (or_all [Inr C_AND, EncodeCRs1p rs1, EncodeCRs2p rs2])))"

definition c_or :: "reg \<Rightarrow> reg \<Rightarrow> reg \<Rightarrow> asm" where [rv_insns]:
  "c_or rd rs1 rs2 =
   andthen (requires RV_C) (
   Emit16 (or_all [Inr C_OR, EncodeCRs1p rs1, EncodeCRs2p rs2]))"

definition c_xor :: "reg \<Rightarrow> reg \<Rightarrow> reg \<Rightarrow> asm" where [rv_insns]:
  "c_xor rd rs1 rs2 =
   andthen (requires RV_C) (
   Emit16 (or_all [Inr C_XOR, EncodeCRs1p rs1, EncodeCRs2p rs2]))"

definition c_sub :: "reg \<Rightarrow> reg \<Rightarrow> reg \<Rightarrow> asm" where [rv_insns]:
  "c_sub rd rs1 rs2 =
   andthen (requires RV_C) (
   Emit16 (or_all [Inr C_SUB, EncodeCRs1p rs1, EncodeCRs2p rs2]))"

definition c_addw :: "reg \<Rightarrow> reg \<Rightarrow> reg \<Rightarrow> asm" where [rv_insns]:
  "c_addw rd rs1 rs2 =
   andthen (requires RV_C) (
   Emit16 (or_all [Inr C_ADDW, EncodeCRs1p rs1, EncodeCRs2p rs2]))"

definition c_subw :: "reg \<Rightarrow> reg \<Rightarrow> reg \<Rightarrow> asm" where [rv_insns]:
  "c_subw rd rs1 rs2 =
   andthen (requires RV_C) (
   Emit16 (or_all [Inr C_SUBW, EncodeCRs1p rs1, EncodeCRs2p rs2]))"

definition c_nop :: "asm" where [rv_insns]:
  "c_nop =
   andthen (requires RV_C) (
   Emit16 (or_all [Inr C_NOP]))"

definition c_ebreak :: "asm" where [rv_insns]:
  "c_ebreak =
   andthen (requires RV_C) (
   Emit16 (or_all [Inr C_EBREAK]))"

definition lui :: "reg \<Rightarrow> intptr \<Rightarrow> asm" where [rv_insns]:
  "lui rd imm =
   andthen (requires RV_I) (
   bnd (Supports RV_C) (\<lambda>c.
     if c \<and> rd \<noteq> ZERO \<and> rd \<noteq> SP \<and> IsCUImm imm then c_lui rd imm
     else EmitUType imm rd LUI))"

definition auipc :: "reg \<Rightarrow> intptr \<Rightarrow> asm" where [rv_insns]:
  "auipc rd imm =
   andthen (requires RV_I) (
   EmitUType imm rd AUIPC)"

definition jal_label :: "reg \<Rightarrow> nat \<Rightarrow> bool \<Rightarrow> asm" where [rv_insns]:
  "jal_label rd label near =
   andthen (requires RV_I) (
   bnd (Supports RV_C) (\<lambda>c.
     if c \<and> near \<and> rd = ZERO then c_j_label label
     else EmitJump_label rd label JAL))"

definition jal :: "reg \<Rightarrow> intptr \<Rightarrow> asm" where [rv_insns]:
  "jal rd offset =
   andthen (requires RV_I) (
   bnd (Supports RV_C) (\<lambda>c.
     if c \<and> IsCJImm offset \<and> rd = ZERO then c_j offset
     else EmitJump rd offset JAL))"

definition jalr :: "reg \<Rightarrow> reg \<Rightarrow> intptr \<Rightarrow> asm" where [rv_insns]:
  "jalr rd rs1 offset =
   andthen (requires RV_I) (
   bnd (Supports RV_C) (\<lambda>c.
     if c \<and> rs1 \<noteq> ZERO \<and> offset = 0 \<and> rd = ZERO then c_jr rs1
     else if c \<and> rs1 \<noteq> ZERO \<and> offset = 0 \<and> rd = RA then c_jalr rs1
     else EmitIType offset rs1 F3_0 rd JALR))"

definition beq_label :: "reg \<Rightarrow> reg \<Rightarrow> nat \<Rightarrow> bool \<Rightarrow> asm"
  where [rv_insns]:
  "beq_label rs1 rs2 label near =
   andthen (requires RV_I) (
   bnd (Supports RV_C) (\<lambda>c.
     if c \<and> near \<and> rs1 = ZERO \<and> IsCRs1p rs2 then c_beqz_label rs2 label
     else if c \<and> near \<and> rs2 = ZERO \<and> IsCRs1p rs1 then c_beqz_label rs1 label
     else EmitBranch_label rs1 rs2 label BEQ))"

definition beq :: "reg \<Rightarrow> reg \<Rightarrow> intptr \<Rightarrow> asm" where [rv_insns]:
  "beq rs1 rs2 offset =
   andthen (requires RV_I) (
   bnd (Supports RV_C) (\<lambda>c.
     if c \<and> IsCBImm offset \<and> rs1 = ZERO \<and> IsCRs1p rs2 then c_beqz rs2 offset
     else if c \<and> IsCBImm offset \<and> rs2 = ZERO \<and> IsCRs1p rs1 then c_beqz rs1 offset
     else EmitBranch rs1 rs2 offset BEQ))"

definition bne_label :: "reg \<Rightarrow> reg \<Rightarrow> nat \<Rightarrow> bool \<Rightarrow> asm"
  where [rv_insns]:
  "bne_label rs1 rs2 label near =
   andthen (requires RV_I) (
   bnd (Supports RV_C) (\<lambda>c.
     if c \<and> near \<and> rs1 = ZERO \<and> IsCRs1p rs2 then c_bnez_label rs2 label
     else if c \<and> near \<and> rs2 = ZERO \<and> IsCRs1p rs1 then c_bnez_label rs1 label
     else EmitBranch_label rs1 rs2 label BNE))"

definition bne :: "reg \<Rightarrow> reg \<Rightarrow> intptr \<Rightarrow> asm" where [rv_insns]:
  "bne rs1 rs2 offset =
   andthen (requires RV_I) (
   bnd (Supports RV_C) (\<lambda>c.
     if c \<and> IsCBImm offset \<and> rs1 = ZERO \<and> IsCRs1p rs2 then c_bnez rs2 offset
     else if c \<and> IsCBImm offset \<and> rs2 = ZERO \<and> IsCRs1p rs1 then c_bnez rs1 offset
     else EmitBranch rs1 rs2 offset BNE))"

definition blt_label :: "reg \<Rightarrow> reg \<Rightarrow> nat \<Rightarrow> asm" where [rv_insns]:
  "blt_label rs1 rs2 label =
   andthen (requires RV_I) (
   EmitBranch_label rs1 rs2 label BLT)"

definition blt :: "reg \<Rightarrow> reg \<Rightarrow> intptr \<Rightarrow> asm" where [rv_insns]:
  "blt rs1 rs2 offset =
   andthen (requires RV_I) (
   EmitBranch rs1 rs2 offset BLT)"

definition bge_label :: "reg \<Rightarrow> reg \<Rightarrow> nat \<Rightarrow> asm" where [rv_insns]:
  "bge_label rs1 rs2 label =
   andthen (requires RV_I) (
   EmitBranch_label rs1 rs2 label BGE)"

definition bge :: "reg \<Rightarrow> reg \<Rightarrow> intptr \<Rightarrow> asm" where [rv_insns]:
  "bge rs1 rs2 offset =
   andthen (requires RV_I) (
   EmitBranch rs1 rs2 offset BGE)"

definition bltu_label :: "reg \<Rightarrow> reg \<Rightarrow> nat \<Rightarrow> asm" where [rv_insns]:
  "bltu_label rs1 rs2 label =
   andthen (requires RV_I) (
   EmitBranch_label rs1 rs2 label BLTU)"

definition bltu :: "reg \<Rightarrow> reg \<Rightarrow> intptr \<Rightarrow> asm" where [rv_insns]:
  "bltu rs1 rs2 offset =
   andthen (requires RV_I) (
   EmitBranch rs1 rs2 offset BLTU)"

definition bgeu_label :: "reg \<Rightarrow> reg \<Rightarrow> nat \<Rightarrow> asm" where [rv_insns]:
  "bgeu_label rs1 rs2 label =
   EmitBranch_label rs1 rs2 label BGEU"

definition bgeu :: "reg \<Rightarrow> reg \<Rightarrow> intptr \<Rightarrow> asm" where [rv_insns]:
  "bgeu rs1 rs2 offset =
   EmitBranch rs1 rs2 offset BGEU"

definition lb :: "reg \<Rightarrow> rv_address \<Rightarrow> asm" where [rv_insns]:
  "lb rd addr =
   andthen (requires RV_I) (
   EmitIType (addr_offset addr) (addr_base addr) LB rd LOAD)"

definition lh :: "reg \<Rightarrow> rv_address \<Rightarrow> asm" where [rv_insns]:
  "lh rd addr =
   andthen (requires RV_I) (
   EmitIType (addr_offset addr) (addr_base addr) LH rd LOAD)"

definition lw :: "reg \<Rightarrow> rv_address \<Rightarrow> asm" where [rv_insns]:
  "lw rd addr =
   andthen (requires RV_I) (
   bnd (Supports RV_C) (\<lambda>c.
     if c \<and> addr_base addr = SP \<and> IsCSPLoad4Imm (addr_offset addr) then c_lwsp rd addr
     else if c \<and> IsCRdp rd \<and> IsCRs1p (addr_base addr) \<and> IsCMem4Imm (addr_offset addr)
       then c_lw rd addr
     else EmitIType (addr_offset addr) (addr_base addr) LW rd LOAD))"

definition lbu :: "reg \<Rightarrow> rv_address \<Rightarrow> asm" where [rv_insns]:
  "lbu rd addr =
   andthen (requires RV_I) (
   EmitIType (addr_offset addr) (addr_base addr) LBU rd LOAD)"

definition lhu :: "reg \<Rightarrow> rv_address \<Rightarrow> asm" where [rv_insns]:
  "lhu rd addr =
   andthen (requires RV_I) (
   EmitIType (addr_offset addr) (addr_base addr) LHU rd LOAD)"

definition sb :: "reg \<Rightarrow> rv_address \<Rightarrow> asm" where [rv_insns]:
  "sb rs2 addr =
   andthen (requires RV_I) (
   EmitSType (addr_offset addr) rs2 (addr_base addr) SB STORE)"

definition sh :: "reg \<Rightarrow> rv_address \<Rightarrow> asm" where [rv_insns]:
  "sh rs2 addr =
   andthen (requires RV_I) (
   EmitSType (addr_offset addr) rs2 (addr_base addr) SH STORE)"

definition sw :: "reg \<Rightarrow> rv_address \<Rightarrow> asm" where [rv_insns]:
  "sw rs2 addr =
   andthen (requires RV_I) (
   bnd (Supports RV_C) (\<lambda>c.
     if c \<and> addr_base addr = SP \<and> IsCSPStore4Imm (addr_offset addr) then c_swsp rs2 addr
     else if c \<and> IsCRs2p rs2 \<and> IsCRs1p (addr_base addr) \<and> IsCMem4Imm (addr_offset addr)
       then c_sw rs2 addr
     else EmitSType (addr_offset addr) rs2 (addr_base addr) SW STORE))"

definition addi :: "reg \<Rightarrow> reg \<Rightarrow> intptr \<Rightarrow> bool \<Rightarrow> asm" where
  [rv_insns]:
  "addi rd rs1 imm force_big =
   andthen (requires RV_I) (
   bnd (Supports RV_C) (\<lambda>c.
     if c \<and> \<not> force_big \<and> rd \<noteq> ZERO \<and> rs1 = ZERO \<and> IsCIImm imm
       then c_li rd imm
     else if c \<and> \<not> force_big \<and> rd = rs1 \<and> IsCIImm imm \<and> imm \<noteq> 0
       then c_addi rd rs1 imm
     else if c \<and> \<not> force_big \<and> rd = SP \<and> rs1 = SP \<and> IsCI16Imm imm
       \<and> imm \<noteq> 0 then c_addi16sp rd rs1 imm
     else if c \<and> \<not> force_big \<and> IsCRdp rd \<and> rs1 = SP \<and> IsCI4SPNImm imm
       \<and> imm \<noteq> 0 then c_addi4spn rd rs1 imm
     else if c \<and> \<not> force_big \<and> imm = 0 \<and> rd = ZERO \<and> rs1 = ZERO then c_nop
     else if c \<and> \<not> force_big \<and> imm = 0 \<and> rd \<noteq> ZERO \<and> rs1 \<noteq> ZERO
       then c_mv rd rs1
     else EmitIType imm rs1 ADDI rd OPIMM))"

definition slti :: "reg \<Rightarrow> reg \<Rightarrow> intptr \<Rightarrow> asm" where [rv_insns]:
  "slti rd rs1 imm =
   andthen (requires RV_I) (
   EmitIType imm rs1 SLTI rd OPIMM)"

definition sltiu :: "reg \<Rightarrow> reg \<Rightarrow> intptr \<Rightarrow> asm" where [rv_insns]:
  "sltiu rd rs1 imm =
   andthen (requires RV_I) (
   EmitIType imm rs1 SLTIU rd OPIMM)"

definition xori :: "reg \<Rightarrow> reg \<Rightarrow> intptr \<Rightarrow> asm" where [rv_insns]:
  "xori rd rs1 imm =
   andthen (requires RV_I) (
   EmitIType imm rs1 XORI rd OPIMM)"

definition ori :: "reg \<Rightarrow> reg \<Rightarrow> intptr \<Rightarrow> asm" where [rv_insns]:
  "ori rd rs1 imm =
   andthen (requires RV_I) (
   EmitIType imm rs1 ORI rd OPIMM)"

definition andi :: "reg \<Rightarrow> reg \<Rightarrow> intptr \<Rightarrow> asm" where [rv_insns]:
  "andi rd rs1 imm =
   andthen (requires RV_I) (
   bnd (Supports RV_C) (\<lambda>c.
     if c \<and> rd = rs1 \<and> IsCRs1p rs1 \<and> IsCIImm imm then c_andi rd rs1 imm
     else EmitIType imm rs1 ANDI rd OPIMM))"

definition slli :: "reg \<Rightarrow> reg \<Rightarrow> intptr \<Rightarrow> asm" where [rv_insns]:
  "slli rd rs1 shamt =
   andthen (ASSERT (0 <s shamt \<and> shamt <s 64) ''(shamt > 0) && (shamt < XLEN)'') (
   andthen (requires RV_I) (
   bnd (Supports RV_C) (\<lambda>c.
     if c \<and> rd = rs1 \<and> shamt \<noteq> 0 then c_slli rd rs1 shamt
     else EmitRType_shamt F7_0 shamt rs1 SLLI rd OPIMM)))"

definition srli :: "reg \<Rightarrow> reg \<Rightarrow> intptr \<Rightarrow> asm" where [rv_insns]:
  "srli rd rs1 shamt =
   andthen (ASSERT (0 <s shamt \<and> shamt <s 64) ''(shamt > 0) && (shamt < XLEN)'') (
   andthen (requires RV_I) (
   bnd (Supports RV_C) (\<lambda>c.
     if c \<and> rd = rs1 \<and> IsCRs1p rs1 \<and> shamt \<noteq> 0 then c_srli rd rs1 shamt
     else EmitRType_shamt F7_0 shamt rs1 SRI rd OPIMM)))"

definition srai :: "reg \<Rightarrow> reg \<Rightarrow> intptr \<Rightarrow> asm" where [rv_insns]:
  "srai rd rs1 shamt =
   andthen (ASSERT (0 <s shamt \<and> shamt <s 64) ''(shamt > 0) && (shamt < XLEN)'') (
   andthen (requires RV_I) (
   bnd (Supports RV_C) (\<lambda>c.
     if c \<and> rd = rs1 \<and> IsCRs1p rs1 \<and> shamt \<noteq> 0 then c_srai rd rs1 shamt
     else EmitRType_shamt SRA shamt rs1 SRI rd OPIMM)))"

definition add :: "reg \<Rightarrow> reg \<Rightarrow> reg \<Rightarrow> asm" where [rv_insns]:
  "add rd rs1 rs2 =
   andthen (requires RV_I) (
   bnd (Supports RV_C) (\<lambda>c.
     if c \<and> rd = rs1 then (if rs2 = ZERO then c_mv rd rs1 else c_add rd rs1 rs2)
     else if c \<and> rd = rs2 then (if rs1 = ZERO then c_mv rd rs2 else c_add rd rs2 rs1)
     else EmitRType F7_0 rs2 rs1 ADD rd OP))"

definition sub :: "reg \<Rightarrow> reg \<Rightarrow> reg \<Rightarrow> asm" where [rv_insns]:
  "sub rd rs1 rs2 =
   andthen (requires RV_I) (
   bnd (Supports RV_C) (\<lambda>c.
     if c \<and> rd = rs1 \<and> IsCRs1p rs1 \<and> IsCRs2p rs2 then c_sub rd rs1 rs2
     else EmitRType SUB rs2 rs1 ADD rd OP))"

definition sll :: "reg \<Rightarrow> reg \<Rightarrow> reg \<Rightarrow> asm" where [rv_insns]:
  "sll rd rs1 rs2 =
   andthen (requires RV_I) (
   EmitRType F7_0 rs2 rs1 SLL rd OP)"

definition slt :: "reg \<Rightarrow> reg \<Rightarrow> reg \<Rightarrow> asm" where [rv_insns]:
  "slt rd rs1 rs2 =
   andthen (requires RV_I) (
   EmitRType F7_0 rs2 rs1 SLT rd OP)"

definition sltu :: "reg \<Rightarrow> reg \<Rightarrow> reg \<Rightarrow> asm" where [rv_insns]:
  "sltu rd rs1 rs2 =
   andthen (requires RV_I) (
   EmitRType F7_0 rs2 rs1 SLTU rd OP)"

definition xor_insn :: "reg \<Rightarrow> reg \<Rightarrow> reg \<Rightarrow> asm" where [rv_insns]:
  "xor_insn rd rs1 rs2 =
   andthen (requires RV_I) (
   bnd (Supports RV_C) (\<lambda>c.
     if c \<and> rd = rs1 \<and> IsCRs1p rs1 \<and> IsCRs2p rs2 then c_xor rd rs1 rs2
     else if c \<and> rd = rs2 \<and> IsCRs1p rs1 \<and> IsCRs2p rs2 then c_xor rd rs2 rs1
     else EmitRType F7_0 rs2 rs1 XOR_f3 rd OP))"

definition srl :: "reg \<Rightarrow> reg \<Rightarrow> reg \<Rightarrow> asm" where [rv_insns]:
  "srl rd rs1 rs2 =
   andthen (requires RV_I) (
   EmitRType F7_0 rs2 rs1 SR_f3 rd OP)"

definition sra :: "reg \<Rightarrow> reg \<Rightarrow> reg \<Rightarrow> asm" where [rv_insns]:
  "sra rd rs1 rs2 =
   andthen (requires RV_I) (
   EmitRType SRA rs2 rs1 SR_f3 rd OP)"

definition or_insn :: "reg \<Rightarrow> reg \<Rightarrow> reg \<Rightarrow> asm" where [rv_insns]:
  "or_insn rd rs1 rs2 =
   andthen (requires RV_I) (
   bnd (Supports RV_C) (\<lambda>c.
     if c \<and> rd = rs1 \<and> IsCRs1p rs1 \<and> IsCRs2p rs2 then c_or rd rs1 rs2
     else if c \<and> rd = rs2 \<and> IsCRs1p rs1 \<and> IsCRs2p rs2 then c_or rd rs2 rs1
     else EmitRType F7_0 rs2 rs1 OR_f3 rd OP))"

definition and_insn :: "reg \<Rightarrow> reg \<Rightarrow> reg \<Rightarrow> asm" where [rv_insns]:
  "and_insn rd rs1 rs2 =
   andthen (requires RV_I) (
   bnd (Supports RV_C) (\<lambda>c.
     if c \<and> rd = rs1 \<and> IsCRs1p rs1 \<and> IsCRs2p rs2 then c_and rd rs1 rs2
     else if c \<and> rd = rs2 \<and> IsCRs1p rs1 \<and> IsCRs2p rs2 then c_and rd rs2 rs1
     else EmitRType F7_0 rs2 rs1 AND_f3 rd OP))"

definition fence :: "32 word \<Rightarrow> 32 word \<Rightarrow> asm" where [rv_insns]:
  "fence predecessor successor =
   andthen (ASSERT (predecessor AND kAll = predecessor) ''(predecessor & kAll) == predecessor'') (
   andthen (ASSERT (successor AND kAll = successor) ''(successor & kAll) == successor'') (
   andthen (requires RV_I) (
   EmitIType (ucast (push_bit 4 predecessor OR successor)) ZERO FENCE ZERO MISCMEM)))"

definition fencei :: "asm" where [rv_insns]:
  "fencei =
   andthen (requires RV_I) (
   EmitIType 0 ZERO FENCEI ZERO MISCMEM)"

definition ecall :: "asm" where [rv_insns]:
  "ecall =
   andthen (requires RV_I) (
   EmitIType (ucast ECALL) ZERO F3_0 ZERO SYSTEM)"

definition ebreak :: "asm" where [rv_insns]:
  "ebreak =
   andthen (requires RV_I) (
   bnd (Supports RV_C) (\<lambda>c.
     if c then c_ebreak
     else EmitIType (ucast EBREAK) ZERO F3_0 ZERO SYSTEM))"

definition csrrw :: "reg \<Rightarrow> 32 word \<Rightarrow> reg \<Rightarrow> asm" where [rv_insns]:
  "csrrw rd csr rs1 =
   andthen (requires RV_I) (
   EmitIType (ucast csr) rs1 CSRRW rd SYSTEM)"

definition csrrs :: "reg \<Rightarrow> 32 word \<Rightarrow> reg \<Rightarrow> asm" where [rv_insns]:
  "csrrs rd csr rs1 =
   andthen (requires RV_I) (
   EmitIType (ucast csr) rs1 CSRRS rd SYSTEM)"

definition csrrc :: "reg \<Rightarrow> 32 word \<Rightarrow> reg \<Rightarrow> asm" where [rv_insns]:
  "csrrc rd csr rs1 =
   andthen (requires RV_I) (
   EmitIType (ucast csr) rs1 CSRRC rd SYSTEM)"

definition csrrwi :: "reg \<Rightarrow> 32 word \<Rightarrow> 32 word \<Rightarrow> asm" where [rv_insns]:
  "csrrwi rd csr imm =
   andthen (requires RV_I) (
   EmitIType (ucast csr) imm CSRRWI rd SYSTEM)"

definition csrrsi :: "reg \<Rightarrow> 32 word \<Rightarrow> 32 word \<Rightarrow> asm" where [rv_insns]:
  "csrrsi rd csr imm =
   andthen (requires RV_I) (
   EmitIType (ucast csr) imm CSRRSI rd SYSTEM)"

definition csrrci :: "reg \<Rightarrow> 32 word \<Rightarrow> 32 word \<Rightarrow> asm" where [rv_insns]:
  "csrrci rd csr imm =
   andthen (requires RV_I) (
   EmitIType (ucast csr) imm CSRRCI rd SYSTEM)"

definition trap :: "asm" where [rv_insns]:
  "trap =
   andthen (requires RV_I) (
   bnd (Supports RV_C) (\<lambda>c.
     (if c then Emit16 (or_all [Inr 0]) else Emit32 (Inr 0))))"

definition lwu :: "reg \<Rightarrow> rv_address \<Rightarrow> asm" where [rv_insns]:
  "lwu rd addr =
   andthen (requires RV_I) (
   EmitIType (addr_offset addr) (addr_base addr) LWU rd LOAD)"

definition ld :: "reg \<Rightarrow> rv_address \<Rightarrow> asm" where [rv_insns]:
  "ld rd addr =
   andthen (requires RV_I) (
   bnd (Supports RV_C) (\<lambda>c.
     if c \<and> addr_base addr = SP \<and> IsCSPLoad8Imm (addr_offset addr) then c_ldsp rd addr
     else if c \<and> IsCRdp rd \<and> IsCRs1p (addr_base addr) \<and> IsCMem8Imm (addr_offset addr)
       then c_ld rd addr
     else EmitIType (addr_offset addr) (addr_base addr) LD rd LOAD))"

definition sd :: "reg \<Rightarrow> rv_address \<Rightarrow> asm" where [rv_insns]:
  "sd rs2 addr =
   andthen (requires RV_I) (
   bnd (Supports RV_C) (\<lambda>c.
     if c \<and> addr_base addr = SP \<and> IsCSPStore8Imm (addr_offset addr) then c_sdsp rs2 addr
     else if c \<and> IsCRs2p rs2 \<and> IsCRs1p (addr_base addr) \<and> IsCMem8Imm (addr_offset addr)
       then c_sd rs2 addr
     else EmitSType (addr_offset addr) rs2 (addr_base addr) SD STORE))"

definition addiw :: "reg \<Rightarrow> reg \<Rightarrow> intptr \<Rightarrow> asm" where [rv_insns]:
  "addiw rd rs1 imm =
   andthen (requires RV_I) (
   bnd (Supports RV_C) (\<lambda>c.
     if c \<and> rd \<noteq> ZERO \<and> rs1 = ZERO \<and> IsCIImm imm then c_li rd imm
     else if c \<and> rd = rs1 \<and> rd \<noteq> ZERO \<and> IsCIImm imm then c_addiw rd rs1 imm
     else EmitIType imm rs1 ADDI rd OPIMM32))"

definition slliw :: "reg \<Rightarrow> reg \<Rightarrow> intptr \<Rightarrow> asm" where [rv_insns]:
  "slliw rd rs1 shamt =
   andthen (ASSERT (0 <s shamt \<and> shamt <s 32) ''(shamt > 0) && (shamt < 32)'') (
   andthen (requires RV_I) (
   EmitRType_shamt F7_0 shamt rs1 SLLI rd OPIMM32))"

definition srliw :: "reg \<Rightarrow> reg \<Rightarrow> intptr \<Rightarrow> asm" where [rv_insns]:
  "srliw rd rs1 shamt =
   andthen (ASSERT (0 <s shamt \<and> shamt <s 32) ''(shamt > 0) && (shamt < 32)'') (
   andthen (requires RV_I) (
   EmitRType_shamt F7_0 shamt rs1 SRI rd OPIMM32))"

definition sraiw :: "reg \<Rightarrow> reg \<Rightarrow> intptr \<Rightarrow> asm" where [rv_insns]:
  "sraiw rd rs1 shamt =
   andthen (ASSERT (0 <s shamt \<and> shamt <s 64) ''(shamt > 0) && (shamt < XLEN)'') (
   andthen (requires RV_I) (
   EmitRType_shamt SRA shamt rs1 SRI rd OPIMM32))"

definition addw :: "reg \<Rightarrow> reg \<Rightarrow> reg \<Rightarrow> asm" where [rv_insns]:
  "addw rd rs1 rs2 =
   andthen (requires RV_I) (
   bnd (Supports RV_C) (\<lambda>c.
     if c \<and> rd = rs1 \<and> IsCRs1p rs1 \<and> IsCRs2p rs2 then c_addw rd rs1 rs2
     else if c \<and> rd = rs2 \<and> IsCRs1p rs1 \<and> IsCRs2p rs2 then c_addw rd rs2 rs1
     else EmitRType F7_0 rs2 rs1 ADD rd OP32))"

definition subw :: "reg \<Rightarrow> reg \<Rightarrow> reg \<Rightarrow> asm" where [rv_insns]:
  "subw rd rs1 rs2 =
   andthen (requires RV_I) (
   bnd (Supports RV_C) (\<lambda>c.
     if c \<and> rd = rs1 \<and> IsCRs1p rs1 \<and> IsCRs2p rs2 then c_subw rd rs1 rs2
     else EmitRType SUB rs2 rs1 ADD rd OP32))"

definition sllw :: "reg \<Rightarrow> reg \<Rightarrow> reg \<Rightarrow> asm" where [rv_insns]:
  "sllw rd rs1 rs2 =
   andthen (requires RV_I) (
   EmitRType F7_0 rs2 rs1 SLL rd OP32)"

definition srlw :: "reg \<Rightarrow> reg \<Rightarrow> reg \<Rightarrow> asm" where [rv_insns]:
  "srlw rd rs1 rs2 =
   andthen (requires RV_I) (
   EmitRType F7_0 rs2 rs1 SR_f3 rd OP32)"

definition sraw :: "reg \<Rightarrow> reg \<Rightarrow> reg \<Rightarrow> asm" where [rv_insns]:
  "sraw rd rs1 rs2 =
   andthen (requires RV_I) (
   EmitRType SRA rs2 rs1 SR_f3 rd OP32)"

definition mul :: "reg \<Rightarrow> reg \<Rightarrow> reg \<Rightarrow> asm" where [rv_insns]:
  "mul rd rs1 rs2 =
   andthen (requires RV_M) (
   EmitRType MULDIV rs2 rs1 MUL rd OP)"

definition mulh :: "reg \<Rightarrow> reg \<Rightarrow> reg \<Rightarrow> asm" where [rv_insns]:
  "mulh rd rs1 rs2 =
   andthen (requires RV_M) (
   EmitRType MULDIV rs2 rs1 MULH rd OP)"

definition mulhsu :: "reg \<Rightarrow> reg \<Rightarrow> reg \<Rightarrow> asm" where [rv_insns]:
  "mulhsu rd rs1 rs2 =
   andthen (requires RV_M) (
   EmitRType MULDIV rs2 rs1 MULHSU rd OP)"

definition mulhu :: "reg \<Rightarrow> reg \<Rightarrow> reg \<Rightarrow> asm" where [rv_insns]:
  "mulhu rd rs1 rs2 =
   andthen (requires RV_M) (
   EmitRType MULDIV rs2 rs1 MULHU rd OP)"

definition div_insn :: "reg \<Rightarrow> reg \<Rightarrow> reg \<Rightarrow> asm" where [rv_insns]:
  "div_insn rd rs1 rs2 =
   andthen (requires RV_M) (
   EmitRType MULDIV rs2 rs1 DIV rd OP)"

definition divu :: "reg \<Rightarrow> reg \<Rightarrow> reg \<Rightarrow> asm" where [rv_insns]:
  "divu rd rs1 rs2 =
   andthen (requires RV_M) (
   EmitRType MULDIV rs2 rs1 DIVU rd OP)"

definition rem :: "reg \<Rightarrow> reg \<Rightarrow> reg \<Rightarrow> asm" where [rv_insns]:
  "rem rd rs1 rs2 =
   andthen (requires RV_M) (
   EmitRType MULDIV rs2 rs1 REM rd OP)"

definition remu :: "reg \<Rightarrow> reg \<Rightarrow> reg \<Rightarrow> asm" where [rv_insns]:
  "remu rd rs1 rs2 =
   andthen (requires RV_M) (
   EmitRType MULDIV rs2 rs1 REMU rd OP)"

definition mulw :: "reg \<Rightarrow> reg \<Rightarrow> reg \<Rightarrow> asm" where [rv_insns]:
  "mulw rd rs1 rs2 =
   andthen (requires RV_M) (
   EmitRType MULDIV rs2 rs1 MULW rd OP32)"

definition divw :: "reg \<Rightarrow> reg \<Rightarrow> reg \<Rightarrow> asm" where [rv_insns]:
  "divw rd rs1 rs2 =
   andthen (requires RV_M) (
   EmitRType MULDIV rs2 rs1 DIVW rd OP32)"

definition divuw :: "reg \<Rightarrow> reg \<Rightarrow> reg \<Rightarrow> asm" where [rv_insns]:
  "divuw rd rs1 rs2 =
   andthen (requires RV_M) (
   EmitRType MULDIV rs2 rs1 DIVUW rd OP32)"

definition remw :: "reg \<Rightarrow> reg \<Rightarrow> reg \<Rightarrow> asm" where [rv_insns]:
  "remw rd rs1 rs2 =
   andthen (requires RV_M) (
   EmitRType MULDIV rs2 rs1 REMW rd OP32)"

definition remuw :: "reg \<Rightarrow> reg \<Rightarrow> reg \<Rightarrow> asm" where [rv_insns]:
  "remuw rd rs1 rs2 =
   andthen (requires RV_M) (
   EmitRType MULDIV rs2 rs1 REMUW rd OP32)"

definition lrw :: "reg \<Rightarrow> rv_address \<Rightarrow> memory_order \<Rightarrow> asm" where
  [rv_insns]:
  "lrw rd addr order =
   andthen (ASSERT (addr_offset addr = 0) ''addr.offset() == 0'') (
   andthen (requires RV_A) (
   EmitRType_order LR_f5 order ZERO (addr_base addr) WIDTH32 rd AMO))"

definition scw :: "reg \<Rightarrow> reg \<Rightarrow> rv_address \<Rightarrow> memory_order \<Rightarrow>
  asm" where [rv_insns]:
  "scw rd rs2 addr order =
   andthen (ASSERT (addr_offset addr = 0) ''addr.offset() == 0'') (
   andthen (requires RV_A) (
   EmitRType_order SC_f5 order rs2 (addr_base addr) WIDTH32 rd AMO))"

definition amoswapw :: "reg \<Rightarrow> reg \<Rightarrow> rv_address \<Rightarrow> memory_order
  \<Rightarrow> asm" where [rv_insns]:
  "amoswapw rd rs2 addr order =
   andthen (ASSERT (addr_offset addr = 0) ''addr.offset() == 0'') (
   andthen (requires RV_A) (
   EmitRType_order AMOSWAP order rs2 (addr_base addr) WIDTH32 rd AMO))"

definition amoaddw :: "reg \<Rightarrow> reg \<Rightarrow> rv_address \<Rightarrow> memory_order
  \<Rightarrow> asm" where [rv_insns]:
  "amoaddw rd rs2 addr order =
   andthen (ASSERT (addr_offset addr = 0) ''addr.offset() == 0'') (
   andthen (requires RV_A) (
   EmitRType_order AMOADD order rs2 (addr_base addr) WIDTH32 rd AMO))"

definition amoxorw :: "reg \<Rightarrow> reg \<Rightarrow> rv_address \<Rightarrow> memory_order
  \<Rightarrow> asm" where [rv_insns]:
  "amoxorw rd rs2 addr order =
   andthen (ASSERT (addr_offset addr = 0) ''addr.offset() == 0'') (
   andthen (requires RV_A) (
   EmitRType_order AMOXOR order rs2 (addr_base addr) WIDTH32 rd AMO))"

definition amoandw :: "reg \<Rightarrow> reg \<Rightarrow> rv_address \<Rightarrow> memory_order
  \<Rightarrow> asm" where [rv_insns]:
  "amoandw rd rs2 addr order =
   andthen (ASSERT (addr_offset addr = 0) ''addr.offset() == 0'') (
   andthen (requires RV_A) (
   EmitRType_order AMOAND order rs2 (addr_base addr) WIDTH32 rd AMO))"

definition amoorw :: "reg \<Rightarrow> reg \<Rightarrow> rv_address \<Rightarrow> memory_order
  \<Rightarrow> asm" where [rv_insns]:
  "amoorw rd rs2 addr order =
   andthen (ASSERT (addr_offset addr = 0) ''addr.offset() == 0'') (
   andthen (requires RV_A) (
   EmitRType_order AMOOR order rs2 (addr_base addr) WIDTH32 rd AMO))"

definition amominw :: "reg \<Rightarrow> reg \<Rightarrow> rv_address \<Rightarrow> memory_order
  \<Rightarrow> asm" where [rv_insns]:
  "amominw rd rs2 addr order =
   andthen (ASSERT (addr_offset addr = 0) ''addr.offset() == 0'') (
   andthen (requires RV_A) (
   EmitRType_order AMOMIN order rs2 (addr_base addr) WIDTH32 rd AMO))"

definition amomaxw :: "reg \<Rightarrow> reg \<Rightarrow> rv_address \<Rightarrow> memory_order
  \<Rightarrow> asm" where [rv_insns]:
  "amomaxw rd rs2 addr order =
   andthen (ASSERT (addr_offset addr = 0) ''addr.offset() == 0'') (
   andthen (requires RV_A) (
   EmitRType_order AMOMAX order rs2 (addr_base addr) WIDTH32 rd AMO))"

definition amominuw :: "reg \<Rightarrow> reg \<Rightarrow> rv_address \<Rightarrow> memory_order
  \<Rightarrow> asm" where [rv_insns]:
  "amominuw rd rs2 addr order =
   andthen (ASSERT (addr_offset addr = 0) ''addr.offset() == 0'') (
   andthen (requires RV_A) (
   EmitRType_order AMOMINU order rs2 (addr_base addr) WIDTH32 rd AMO))"

definition amomaxuw :: "reg \<Rightarrow> reg \<Rightarrow> rv_address \<Rightarrow> memory_order
  \<Rightarrow> asm" where [rv_insns]:
  "amomaxuw rd rs2 addr order =
   andthen (ASSERT (addr_offset addr = 0) ''addr.offset() == 0'') (
   andthen (requires RV_A) (
   EmitRType_order AMOMAXU order rs2 (addr_base addr) WIDTH32 rd AMO))"

definition lrd :: "reg \<Rightarrow> rv_address \<Rightarrow> memory_order \<Rightarrow> asm" where
  [rv_insns]:
  "lrd rd addr order =
   andthen (ASSERT (addr_offset addr = 0) ''addr.offset() == 0'') (
   andthen (requires RV_A) (
   EmitRType_order LR_f5 order ZERO (addr_base addr) WIDTH64 rd AMO))"

definition scd :: "reg \<Rightarrow> reg \<Rightarrow> rv_address \<Rightarrow> memory_order \<Rightarrow>
  asm" where [rv_insns]:
  "scd rd rs2 addr order =
   andthen (ASSERT (addr_offset addr = 0) ''addr.offset() == 0'') (
   andthen (requires RV_A) (
   EmitRType_order SC_f5 order rs2 (addr_base addr) WIDTH64 rd AMO))"

definition amoswapd :: "reg \<Rightarrow> reg \<Rightarrow> rv_address \<Rightarrow> memory_order
  \<Rightarrow> asm" where [rv_insns]:
  "amoswapd rd rs2 addr order =
   andthen (ASSERT (addr_offset addr = 0) ''addr.offset() == 0'') (
   andthen (requires RV_A) (
   EmitRType_order AMOSWAP order rs2 (addr_base addr) WIDTH64 rd AMO))"

definition amoaddd :: "reg \<Rightarrow> reg \<Rightarrow> rv_address \<Rightarrow> memory_order
  \<Rightarrow> asm" where [rv_insns]:
  "amoaddd rd rs2 addr order =
   andthen (ASSERT (addr_offset addr = 0) ''addr.offset() == 0'') (
   andthen (requires RV_A) (
   EmitRType_order AMOADD order rs2 (addr_base addr) WIDTH64 rd AMO))"

definition amoxord :: "reg \<Rightarrow> reg \<Rightarrow> rv_address \<Rightarrow> memory_order
  \<Rightarrow> asm" where [rv_insns]:
  "amoxord rd rs2 addr order =
   andthen (ASSERT (addr_offset addr = 0) ''addr.offset() == 0'') (
   andthen (requires RV_A) (
   EmitRType_order AMOXOR order rs2 (addr_base addr) WIDTH64 rd AMO))"

definition amoandd :: "reg \<Rightarrow> reg \<Rightarrow> rv_address \<Rightarrow> memory_order
  \<Rightarrow> asm" where [rv_insns]:
  "amoandd rd rs2 addr order =
   andthen (ASSERT (addr_offset addr = 0) ''addr.offset() == 0'') (
   andthen (requires RV_A) (
   EmitRType_order AMOAND order rs2 (addr_base addr) WIDTH64 rd AMO))"

definition amoord :: "reg \<Rightarrow> reg \<Rightarrow> rv_address \<Rightarrow> memory_order
  \<Rightarrow> asm" where [rv_insns]:
  "amoord rd rs2 addr order =
   andthen (ASSERT (addr_offset addr = 0) ''addr.offset() == 0'') (
   andthen (requires RV_A) (
   EmitRType_order AMOOR order rs2 (addr_base addr) WIDTH64 rd AMO))"

definition amomind :: "reg \<Rightarrow> reg \<Rightarrow> rv_address \<Rightarrow> memory_order
  \<Rightarrow> asm" where [rv_insns]:
  "amomind rd rs2 addr order =
   andthen (ASSERT (addr_offset addr = 0) ''addr.offset() == 0'') (
   andthen (requires RV_A) (
   EmitRType_order AMOMIN order rs2 (addr_base addr) WIDTH64 rd AMO))"

definition amomaxd :: "reg \<Rightarrow> reg \<Rightarrow> rv_address \<Rightarrow> memory_order
  \<Rightarrow> asm" where [rv_insns]:
  "amomaxd rd rs2 addr order =
   andthen (ASSERT (addr_offset addr = 0) ''addr.offset() == 0'') (
   andthen (requires RV_A) (
   EmitRType_order AMOMAX order rs2 (addr_base addr) WIDTH64 rd AMO))"

definition amominud :: "reg \<Rightarrow> reg \<Rightarrow> rv_address \<Rightarrow> memory_order
  \<Rightarrow> asm" where [rv_insns]:
  "amominud rd rs2 addr order =
   andthen (ASSERT (addr_offset addr = 0) ''addr.offset() == 0'') (
   andthen (requires RV_A) (
   EmitRType_order AMOMINU order rs2 (addr_base addr) WIDTH64 rd AMO))"

definition amomaxud :: "reg \<Rightarrow> reg \<Rightarrow> rv_address \<Rightarrow> memory_order
  \<Rightarrow> asm" where [rv_insns]:
  "amomaxud rd rs2 addr order =
   andthen (ASSERT (addr_offset addr = 0) ''addr.offset() == 0'') (
   andthen (requires RV_A) (
   EmitRType_order AMOMAXU order rs2 (addr_base addr) WIDTH64 rd AMO))"

definition flw :: "reg \<Rightarrow> rv_address \<Rightarrow> asm" where [rv_insns]:
  "flw rd addr =
   andthen (requires RV_F) (
   EmitIType_f (addr_offset addr) (addr_base addr) S_f3 rd LOADFP)"

definition fsw :: "reg \<Rightarrow> rv_address \<Rightarrow> asm" where [rv_insns]:
  "fsw rs2 addr =
   andthen (requires RV_F) (
   EmitSType_f (addr_offset addr) rs2 (addr_base addr) S_f3 STOREFP)"

definition fmadds :: "reg \<Rightarrow> reg \<Rightarrow> reg \<Rightarrow> reg \<Rightarrow> 32 word
  \<Rightarrow> asm" where [rv_insns]:
  "fmadds rd rs1 rs2 rs3 rounding =
   andthen (requires RV_F) (
   EmitR4Type rs3 F2_S rs2 rs1 rounding rd FMADD)"

definition fmsubs :: "reg \<Rightarrow> reg \<Rightarrow> reg \<Rightarrow> reg \<Rightarrow> 32 word
  \<Rightarrow> asm" where [rv_insns]:
  "fmsubs rd rs1 rs2 rs3 rounding =
   andthen (requires RV_F) (
   EmitR4Type rs3 F2_S rs2 rs1 rounding rd FMSUB)"

definition fnmsubs :: "reg \<Rightarrow> reg \<Rightarrow> reg \<Rightarrow> reg \<Rightarrow> 32 word
  \<Rightarrow> asm" where [rv_insns]:
  "fnmsubs rd rs1 rs2 rs3 rounding =
   andthen (requires RV_F) (
   EmitR4Type rs3 F2_S rs2 rs1 rounding rd FNMSUB)"

definition fnmadds :: "reg \<Rightarrow> reg \<Rightarrow> reg \<Rightarrow> reg \<Rightarrow> 32 word
  \<Rightarrow> asm" where [rv_insns]:
  "fnmadds rd rs1 rs2 rs3 rounding =
   andthen (requires RV_F) (
   EmitR4Type rs3 F2_S rs2 rs1 rounding rd FNMADD)"

definition fadds :: "reg \<Rightarrow> reg \<Rightarrow> reg \<Rightarrow> 32 word \<Rightarrow> asm" where
  [rv_insns]:
  "fadds rd rs1 rs2 rounding =
   andthen (requires RV_F) (
   EmitRType_fff_round FADDS rs2 rs1 rounding rd OPFP)"

definition fsubs :: "reg \<Rightarrow> reg \<Rightarrow> reg \<Rightarrow> 32 word \<Rightarrow> asm" where
  [rv_insns]:
  "fsubs rd rs1 rs2 rounding =
   andthen (requires RV_F) (
   EmitRType_fff_round FSUBS rs2 rs1 rounding rd OPFP)"

definition fmuls :: "reg \<Rightarrow> reg \<Rightarrow> reg \<Rightarrow> 32 word \<Rightarrow> asm" where
  [rv_insns]:
  "fmuls rd rs1 rs2 rounding =
   andthen (requires RV_F) (
   EmitRType_fff_round FMULS rs2 rs1 rounding rd OPFP)"

definition fdivs :: "reg \<Rightarrow> reg \<Rightarrow> reg \<Rightarrow> 32 word \<Rightarrow> asm" where
  [rv_insns]:
  "fdivs rd rs1 rs2 rounding =
   andthen (requires RV_F) (
   EmitRType_fff_round FDIVS rs2 rs1 rounding rd OPFP)"

definition fsqrts :: "reg \<Rightarrow> reg \<Rightarrow> 32 word \<Rightarrow> asm" where [rv_insns]:
  "fsqrts rd rs1 rounding =
   andthen (requires RV_F) (
   EmitRType_fff_round FSQRTS 0 rs1 rounding rd OPFP)"

definition fsgnjs :: "reg \<Rightarrow> reg \<Rightarrow> reg \<Rightarrow> asm" where [rv_insns]:
  "fsgnjs rd rs1 rs2 =
   andthen (requires RV_F) (
   EmitRType_fff FSGNJS rs2 rs1 J_f3 rd OPFP)"

definition fsgnjns :: "reg \<Rightarrow> reg \<Rightarrow> reg \<Rightarrow> asm" where [rv_insns]:
  "fsgnjns rd rs1 rs2 =
   andthen (requires RV_F) (
   EmitRType_fff FSGNJS rs2 rs1 JN_f3 rd OPFP)"

definition fsgnjxs :: "reg \<Rightarrow> reg \<Rightarrow> reg \<Rightarrow> asm" where [rv_insns]:
  "fsgnjxs rd rs1 rs2 =
   andthen (requires RV_F) (
   EmitRType_fff FSGNJS rs2 rs1 JX_f3 rd OPFP)"

definition fmins :: "reg \<Rightarrow> reg \<Rightarrow> reg \<Rightarrow> asm" where [rv_insns]:
  "fmins rd rs1 rs2 =
   andthen (requires RV_F) (
   EmitRType_fff FMINMAXS rs2 rs1 FMIN rd OPFP)"

definition fmaxs :: "reg \<Rightarrow> reg \<Rightarrow> reg \<Rightarrow> asm" where [rv_insns]:
  "fmaxs rd rs1 rs2 =
   andthen (requires RV_F) (
   EmitRType_fff FMINMAXS rs2 rs1 FMAX rd OPFP)"

definition feqs :: "reg \<Rightarrow> reg \<Rightarrow> reg \<Rightarrow> asm" where [rv_insns]:
  "feqs rd rs1 rs2 =
   andthen (requires RV_F) (
   EmitRType_ffx FCMPS rs2 rs1 FEQ rd OPFP)"

definition flts :: "reg \<Rightarrow> reg \<Rightarrow> reg \<Rightarrow> asm" where [rv_insns]:
  "flts rd rs1 rs2 =
   andthen (requires RV_F) (
   EmitRType_ffx FCMPS rs2 rs1 FLT rd OPFP)"

definition fles :: "reg \<Rightarrow> reg \<Rightarrow> reg \<Rightarrow> asm" where [rv_insns]:
  "fles rd rs1 rs2 =
   andthen (requires RV_F) (
   EmitRType_ffx FCMPS rs2 rs1 FLE rd OPFP)"

definition fclasss :: "reg \<Rightarrow> reg \<Rightarrow> asm" where [rv_insns]:
  "fclasss rd rs1 =
   andthen (requires RV_F) (
   EmitRType_ffx FCLASSS 0 rs1 F3_1 rd OPFP)"

definition fcvtws :: "reg \<Rightarrow> reg \<Rightarrow> 32 word \<Rightarrow> asm" where [rv_insns]:
  "fcvtws rd rs1 rounding =
   andthen (requires RV_F) (
   EmitRType_ffx_round FCVTintS W_rs2 rs1 rounding rd OPFP)"

definition fcvtwus :: "reg \<Rightarrow> reg \<Rightarrow> 32 word \<Rightarrow> asm" where [rv_insns]:
  "fcvtwus rd rs1 rounding =
   andthen (requires RV_F) (
   EmitRType_ffx_round FCVTintS WU_rs2 rs1 rounding rd OPFP)"

definition fcvtsw :: "reg \<Rightarrow> reg \<Rightarrow> 32 word \<Rightarrow> asm" where [rv_insns]:
  "fcvtsw rd rs1 rounding =
   andthen (requires RV_F) (
   EmitRType_fxf_round FCVTSint W_rs2 rs1 rounding rd OPFP)"

definition fcvtswu :: "reg \<Rightarrow> reg \<Rightarrow> 32 word \<Rightarrow> asm" where [rv_insns]:
  "fcvtswu rd rs1 rounding =
   andthen (requires RV_F) (
   EmitRType_fxf_round FCVTSint WU_rs2 rs1 rounding rd OPFP)"

definition fmvxw :: "reg \<Rightarrow> reg \<Rightarrow> asm" where [rv_insns]:
  "fmvxw rd rs1 =
   andthen (requires RV_F) (
   EmitRType_ffx FMVXW 0 rs1 F3_0 rd OPFP)"

definition fmvwx :: "reg \<Rightarrow> reg \<Rightarrow> asm" where [rv_insns]:
  "fmvwx rd rs1 =
   andthen (requires RV_F) (
   EmitRType_fxf FMVWX 0 rs1 F3_0 rd OPFP)"

definition fcvtls :: "reg \<Rightarrow> reg \<Rightarrow> 32 word \<Rightarrow> asm" where [rv_insns]:
  "fcvtls rd rs1 rounding =
   andthen (requires RV_F) (
   EmitRType_ffx_round FCVTintS L_rs2 rs1 rounding rd OPFP)"

definition fcvtlus :: "reg \<Rightarrow> reg \<Rightarrow> 32 word \<Rightarrow> asm" where [rv_insns]:
  "fcvtlus rd rs1 rounding =
   andthen (requires RV_F) (
   EmitRType_ffx_round FCVTintS LU_rs2 rs1 rounding rd OPFP)"

definition fcvtsl :: "reg \<Rightarrow> reg \<Rightarrow> 32 word \<Rightarrow> asm" where [rv_insns]:
  "fcvtsl rd rs1 rounding =
   andthen (requires RV_F) (
   EmitRType_fxf_round FCVTSint L_rs2 rs1 rounding rd OPFP)"

definition fcvtslu :: "reg \<Rightarrow> reg \<Rightarrow> 32 word \<Rightarrow> asm" where [rv_insns]:
  "fcvtslu rd rs1 rounding =
   andthen (requires RV_F) (
   EmitRType_fxf_round FCVTSint LU_rs2 rs1 rounding rd OPFP)"

definition fld :: "reg \<Rightarrow> rv_address \<Rightarrow> asm" where [rv_insns]:
  "fld rd addr =
   andthen (requires RV_D) (
   bnd (Supports RV_C) (\<lambda>c.
     if c \<and> addr_base addr = SP \<and> IsCSPLoad8Imm (addr_offset addr) then c_fldsp rd addr
     else if c \<and> IsCFRdp rd \<and> IsCRs1p (addr_base addr) \<and> IsCMem8Imm (addr_offset addr)
       then c_fld rd addr
     else EmitIType_f (addr_offset addr) (addr_base addr) D_f3 rd LOADFP))"

definition fsd :: "reg \<Rightarrow> rv_address \<Rightarrow> asm" where [rv_insns]:
  "fsd rs2 addr =
   andthen (requires RV_D) (
   bnd (Supports RV_C) (\<lambda>c.
     if c \<and> addr_base addr = SP \<and> IsCSPStore8Imm (addr_offset addr) then c_fsdsp rs2 addr
     else if c \<and> IsCFRs2p rs2 \<and> IsCRs1p (addr_base addr)
       \<and> IsCMem8Imm (addr_offset addr) then c_fsd rs2 addr
     else EmitSType_f (addr_offset addr) rs2 (addr_base addr) D_f3 STOREFP))"

definition fmaddd :: "reg \<Rightarrow> reg \<Rightarrow> reg \<Rightarrow> reg \<Rightarrow> 32 word
  \<Rightarrow> asm" where [rv_insns]:
  "fmaddd rd rs1 rs2 rs3 rounding =
   andthen (requires RV_D) (
   EmitR4Type rs3 F2_D rs2 rs1 rounding rd FMADD)"

definition fmsubd :: "reg \<Rightarrow> reg \<Rightarrow> reg \<Rightarrow> reg \<Rightarrow> 32 word
  \<Rightarrow> asm" where [rv_insns]:
  "fmsubd rd rs1 rs2 rs3 rounding =
   andthen (requires RV_D) (
   EmitR4Type rs3 F2_D rs2 rs1 rounding rd FMSUB)"

definition fnmsubd :: "reg \<Rightarrow> reg \<Rightarrow> reg \<Rightarrow> reg \<Rightarrow> 32 word
  \<Rightarrow> asm" where [rv_insns]:
  "fnmsubd rd rs1 rs2 rs3 rounding =
   andthen (requires RV_D) (
   EmitR4Type rs3 F2_D rs2 rs1 rounding rd FNMSUB)"

definition fnmaddd :: "reg \<Rightarrow> reg \<Rightarrow> reg \<Rightarrow> reg \<Rightarrow> 32 word
  \<Rightarrow> asm" where [rv_insns]:
  "fnmaddd rd rs1 rs2 rs3 rounding =
   andthen (requires RV_D) (
   EmitR4Type rs3 F2_D rs2 rs1 rounding rd FNMADD)"

definition faddd :: "reg \<Rightarrow> reg \<Rightarrow> reg \<Rightarrow> 32 word \<Rightarrow> asm" where
  [rv_insns]:
  "faddd rd rs1 rs2 rounding =
   andthen (requires RV_D) (
   EmitRType_fff_round FADDD rs2 rs1 rounding rd OPFP)"

definition fsubd :: "reg \<Rightarrow> reg \<Rightarrow> reg \<Rightarrow> 32 word \<Rightarrow> asm" where
  [rv_insns]:
  "fsubd rd rs1 rs2 rounding =
   andthen (requires RV_D) (
   EmitRType_fff_round FSUBD rs2 rs1 rounding rd OPFP)"

definition fmuld :: "reg \<Rightarrow> reg \<Rightarrow> reg \<Rightarrow> 32 word \<Rightarrow> asm" where
  [rv_insns]:
  "fmuld rd rs1 rs2 rounding =
   andthen (requires RV_D) (
   EmitRType_fff_round FMULD rs2 rs1 rounding rd OPFP)"

definition fdivd :: "reg \<Rightarrow> reg \<Rightarrow> reg \<Rightarrow> 32 word \<Rightarrow> asm" where
  [rv_insns]:
  "fdivd rd rs1 rs2 rounding =
   andthen (requires RV_D) (
   EmitRType_fff_round FDIVD rs2 rs1 rounding rd OPFP)"

definition fsqrtd :: "reg \<Rightarrow> reg \<Rightarrow> 32 word \<Rightarrow> asm" where [rv_insns]:
  "fsqrtd rd rs1 rounding =
   andthen (requires RV_D) (
   EmitRType_fff_round FSQRTD 0 rs1 rounding rd OPFP)"

definition fsgnjd :: "reg \<Rightarrow> reg \<Rightarrow> reg \<Rightarrow> asm" where [rv_insns]:
  "fsgnjd rd rs1 rs2 =
   andthen (requires RV_D) (
   EmitRType_fff FSGNJD rs2 rs1 J_f3 rd OPFP)"

definition fsgnjnd :: "reg \<Rightarrow> reg \<Rightarrow> reg \<Rightarrow> asm" where [rv_insns]:
  "fsgnjnd rd rs1 rs2 =
   andthen (requires RV_D) (
   EmitRType_fff FSGNJD rs2 rs1 JN_f3 rd OPFP)"

definition fsgnjxd :: "reg \<Rightarrow> reg \<Rightarrow> reg \<Rightarrow> asm" where [rv_insns]:
  "fsgnjxd rd rs1 rs2 =
   andthen (requires RV_D) (
   EmitRType_fff FSGNJD rs2 rs1 JX_f3 rd OPFP)"

definition fmind :: "reg \<Rightarrow> reg \<Rightarrow> reg \<Rightarrow> asm" where [rv_insns]:
  "fmind rd rs1 rs2 =
   andthen (requires RV_D) (
   EmitRType_fff FMINMAXD rs2 rs1 FMIN rd OPFP)"

definition fmaxd :: "reg \<Rightarrow> reg \<Rightarrow> reg \<Rightarrow> asm" where [rv_insns]:
  "fmaxd rd rs1 rs2 =
   andthen (requires RV_D) (
   EmitRType_fff FMINMAXD rs2 rs1 FMAX rd OPFP)"

definition fcvtsd :: "reg \<Rightarrow> reg \<Rightarrow> 32 word \<Rightarrow> asm" where [rv_insns]:
  "fcvtsd rd rs1 rounding =
   andthen (requires RV_D) (
   EmitRType_fff_round FCVTS 1 rs1 rounding rd OPFP)"

definition fcvtds :: "reg \<Rightarrow> reg \<Rightarrow> 32 word \<Rightarrow> asm" where [rv_insns]:
  "fcvtds rd rs1 rounding =
   andthen (requires RV_D) (
   EmitRType_fff_round FCVTD 0 rs1 rounding rd OPFP)"

definition feqd :: "reg \<Rightarrow> reg \<Rightarrow> reg \<Rightarrow> asm" where [rv_insns]:
  "feqd rd rs1 rs2 =
   andthen (requires RV_D) (
   EmitRType_ffx FCMPD rs2 rs1 FEQ rd OPFP)"

definition fltd :: "reg \<Rightarrow> reg \<Rightarrow> reg \<Rightarrow> asm" where [rv_insns]:
  "fltd rd rs1 rs2 =
   andthen (requires RV_D) (
   EmitRType_ffx FCMPD rs2 rs1 FLT rd OPFP)"

definition fled :: "reg \<Rightarrow> reg \<Rightarrow> reg \<Rightarrow> asm" where [rv_insns]:
  "fled rd rs1 rs2 =
   andthen (requires RV_D) (
   EmitRType_ffx FCMPD rs2 rs1 FLE rd OPFP)"

definition fclassd :: "reg \<Rightarrow> reg \<Rightarrow> asm" where [rv_insns]:
  "fclassd rd rs1 =
   andthen (requires RV_D) (
   EmitRType_ffx FCLASSD 0 rs1 F3_1 rd OPFP)"

definition fcvtwd :: "reg \<Rightarrow> reg \<Rightarrow> 32 word \<Rightarrow> asm" where [rv_insns]:
  "fcvtwd rd rs1 rounding =
   andthen (requires RV_D) (
   EmitRType_ffx_round FCVTintD W_rs2 rs1 rounding rd OPFP)"

definition fcvtwud :: "reg \<Rightarrow> reg \<Rightarrow> 32 word \<Rightarrow> asm" where [rv_insns]:
  "fcvtwud rd rs1 rounding =
   andthen (requires RV_D) (
   EmitRType_ffx_round FCVTintD WU_rs2 rs1 rounding rd OPFP)"

definition fcvtdw :: "reg \<Rightarrow> reg \<Rightarrow> 32 word \<Rightarrow> asm" where [rv_insns]:
  "fcvtdw rd rs1 rounding =
   andthen (requires RV_D) (
   EmitRType_fxf_round FCVTDint W_rs2 rs1 rounding rd OPFP)"

definition fcvtdwu :: "reg \<Rightarrow> reg \<Rightarrow> 32 word \<Rightarrow> asm" where [rv_insns]:
  "fcvtdwu rd rs1 rounding =
   andthen (requires RV_D) (
   EmitRType_fxf_round FCVTDint WU_rs2 rs1 rounding rd OPFP)"

definition fcvtld :: "reg \<Rightarrow> reg \<Rightarrow> 32 word \<Rightarrow> asm" where [rv_insns]:
  "fcvtld rd rs1 rounding =
   andthen (requires RV_D) (
   EmitRType_ffx_round FCVTintD L_rs2 rs1 rounding rd OPFP)"

definition fcvtlud :: "reg \<Rightarrow> reg \<Rightarrow> 32 word \<Rightarrow> asm" where [rv_insns]:
  "fcvtlud rd rs1 rounding =
   andthen (requires RV_D) (
   EmitRType_ffx_round FCVTintD LU_rs2 rs1 rounding rd OPFP)"

definition fmvxd :: "reg \<Rightarrow> reg \<Rightarrow> asm" where [rv_insns]:
  "fmvxd rd rs1 =
   andthen (requires RV_D) (
   EmitRType_ffx FMVXD 0 rs1 F3_0 rd OPFP)"

definition fcvtdl :: "reg \<Rightarrow> reg \<Rightarrow> 32 word \<Rightarrow> asm" where [rv_insns]:
  "fcvtdl rd rs1 rounding =
   andthen (requires RV_D) (
   EmitRType_fxf_round FCVTDint L_rs2 rs1 rounding rd OPFP)"

definition fcvtdlu :: "reg \<Rightarrow> reg \<Rightarrow> 32 word \<Rightarrow> asm" where [rv_insns]:
  "fcvtdlu rd rs1 rounding =
   andthen (requires RV_D) (
   EmitRType_fxf_round FCVTDint LU_rs2 rs1 rounding rd OPFP)"

definition fmvdx :: "reg \<Rightarrow> reg \<Rightarrow> asm" where [rv_insns]:
  "fmvdx rd rs1 =
   andthen (requires RV_D) (
   EmitRType_fxf FMVDX 0 rs1 F3_0 rd OPFP)"

definition adduw :: "reg \<Rightarrow> reg \<Rightarrow> reg \<Rightarrow> asm" where [rv_insns]:
  "adduw rd rs1 rs2 =
   andthen (requires RV_Zba) (
   EmitRType ADDUW rs2 rs1 F3_0 rd OP32)"

definition sh1add :: "reg \<Rightarrow> reg \<Rightarrow> reg \<Rightarrow> asm" where [rv_insns]:
  "sh1add rd rs1 rs2 =
   andthen (requires RV_Zba) (
   EmitRType SHADD rs2 rs1 SH1ADD rd OP)"

definition sh1adduw :: "reg \<Rightarrow> reg \<Rightarrow> reg \<Rightarrow> asm" where [rv_insns]:
  "sh1adduw rd rs1 rs2 =
   andthen (requires RV_Zba) (
   EmitRType SHADD rs2 rs1 SH1ADD rd OP32)"

definition sh2add :: "reg \<Rightarrow> reg \<Rightarrow> reg \<Rightarrow> asm" where [rv_insns]:
  "sh2add rd rs1 rs2 =
   andthen (requires RV_Zba) (
   EmitRType SHADD rs2 rs1 SH2ADD rd OP)"

definition sh2adduw :: "reg \<Rightarrow> reg \<Rightarrow> reg \<Rightarrow> asm" where [rv_insns]:
  "sh2adduw rd rs1 rs2 =
   andthen (requires RV_Zba) (
   EmitRType SHADD rs2 rs1 SH2ADD rd OP32)"

definition sh3add :: "reg \<Rightarrow> reg \<Rightarrow> reg \<Rightarrow> asm" where [rv_insns]:
  "sh3add rd rs1 rs2 =
   andthen (requires RV_Zba) (
   EmitRType SHADD rs2 rs1 SH3ADD rd OP)"

definition sh3adduw :: "reg \<Rightarrow> reg \<Rightarrow> reg \<Rightarrow> asm" where [rv_insns]:
  "sh3adduw rd rs1 rs2 =
   andthen (requires RV_Zba) (
   EmitRType SHADD rs2 rs1 SH3ADD rd OP32)"

definition slliuw :: "reg \<Rightarrow> reg \<Rightarrow> intptr \<Rightarrow> asm" where [rv_insns]:
  "slliuw rd rs1 shamt =
   andthen (ASSERT (0 <s shamt \<and> shamt <s 32) ''(shamt > 0) && (shamt < 32)'') (
   andthen (requires RV_Zba) (
   EmitRType_shamt SLLIUW shamt rs1 SLLI rd OPIMM32))"

definition andn :: "reg \<Rightarrow> reg \<Rightarrow> reg \<Rightarrow> asm" where [rv_insns]:
  "andn rd rs1 rs2 =
   andthen (requires RV_Zbb) (
   EmitRType SUB rs2 rs1 AND_f3 rd OP)"

definition orn :: "reg \<Rightarrow> reg \<Rightarrow> reg \<Rightarrow> asm" where [rv_insns]:
  "orn rd rs1 rs2 =
   andthen (requires RV_Zbb) (
   EmitRType SUB rs2 rs1 OR_f3 rd OP)"

definition xnor :: "reg \<Rightarrow> reg \<Rightarrow> reg \<Rightarrow> asm" where [rv_insns]:
  "xnor rd rs1 rs2 =
   andthen (requires RV_Zbb) (
   EmitRType SUB rs2 rs1 XOR_f3 rd OP)"

definition clz :: "reg \<Rightarrow> reg \<Rightarrow> asm" where [rv_insns]:
  "clz rd rs1 =
   andthen (requires RV_Zbb) (
   EmitRType_shamt COUNT 0 rs1 F3_COUNT rd OPIMM)"

definition clzw :: "reg \<Rightarrow> reg \<Rightarrow> asm" where [rv_insns]:
  "clzw rd rs1 =
   andthen (requires RV_Zbb) (
   EmitRType_shamt COUNT 0 rs1 F3_COUNT rd OPIMM32)"

definition ctz :: "reg \<Rightarrow> reg \<Rightarrow> asm" where [rv_insns]:
  "ctz rd rs1 =
   andthen (requires RV_Zbb) (
   EmitRType_shamt COUNT 1 rs1 F3_COUNT rd OPIMM)"

definition ctzw :: "reg \<Rightarrow> reg \<Rightarrow> asm" where [rv_insns]:
  "ctzw rd rs1 =
   andthen (requires RV_Zbb) (
   EmitRType_shamt COUNT 1 rs1 F3_COUNT rd OPIMM32)"

definition cpop :: "reg \<Rightarrow> reg \<Rightarrow> asm" where [rv_insns]:
  "cpop rd rs1 =
   andthen (requires RV_Zbb) (
   EmitRType_shamt COUNT 0b10 rs1 F3_COUNT rd OPIMM)"

definition cpopw :: "reg \<Rightarrow> reg \<Rightarrow> asm" where [rv_insns]:
  "cpopw rd rs1 =
   andthen (requires RV_Zbb) (
   EmitRType_shamt COUNT 0b10 rs1 F3_COUNT rd OPIMM32)"

definition max_insn :: "reg \<Rightarrow> reg \<Rightarrow> reg \<Rightarrow> asm" where [rv_insns]:
  "max_insn rd rs1 rs2 =
   andthen (requires RV_Zbb) (
   EmitRType MINMAXCLMUL rs2 rs1 MAX_f3 rd OP)"

definition maxu :: "reg \<Rightarrow> reg \<Rightarrow> reg \<Rightarrow> asm" where [rv_insns]:
  "maxu rd rs1 rs2 =
   andthen (requires RV_Zbb) (
   EmitRType MINMAXCLMUL rs2 rs1 MAXU rd OP)"

definition min_insn :: "reg \<Rightarrow> reg \<Rightarrow> reg \<Rightarrow> asm" where [rv_insns]:
  "min_insn rd rs1 rs2 =
   andthen (requires RV_Zbb) (
   EmitRType MINMAXCLMUL rs2 rs1 MIN_f3 rd OP)"

definition minu :: "reg \<Rightarrow> reg \<Rightarrow> reg \<Rightarrow> asm" where [rv_insns]:
  "minu rd rs1 rs2 =
   andthen (requires RV_Zbb) (
   EmitRType MINMAXCLMUL rs2 rs1 MINU rd OP)"

definition sextb :: "reg \<Rightarrow> reg \<Rightarrow> asm" where [rv_insns]:
  "sextb rd rs1 =
   andthen (requires RV_Zbb) (
   EmitRType_shamt 0b110000 0b100 rs1 SEXT rd OPIMM)"

definition sexth :: "reg \<Rightarrow> reg \<Rightarrow> asm" where [rv_insns]:
  "sexth rd rs1 =
   andthen (requires RV_Zbb) (
   EmitRType_shamt 0b110000 0b101 rs1 SEXT rd OPIMM)"

definition zexth :: "reg \<Rightarrow> reg \<Rightarrow> asm" where [rv_insns]:
  "zexth rd rs1 =
   andthen (requires RV_Zbb) (
   EmitRType_shamt 0b100 0 rs1 ZEXT rd OP32)"

definition rol :: "reg \<Rightarrow> reg \<Rightarrow> reg \<Rightarrow> asm" where [rv_insns]:
  "rol rd rs1 rs2 =
   andthen (requires RV_Zbb) (
   EmitRType ROTATE rs2 rs1 ROL rd OP)"

definition rolw :: "reg \<Rightarrow> reg \<Rightarrow> reg \<Rightarrow> asm" where [rv_insns]:
  "rolw rd rs1 rs2 =
   andthen (requires RV_Zbb) (
   EmitRType ROTATE rs2 rs1 ROL rd OP32)"

definition ror :: "reg \<Rightarrow> reg \<Rightarrow> reg \<Rightarrow> asm" where [rv_insns]:
  "ror rd rs1 rs2 =
   andthen (requires RV_Zbb) (
   EmitRType ROTATE rs2 rs1 ROR rd OP)"

definition rori :: "reg \<Rightarrow> reg \<Rightarrow> intptr \<Rightarrow> asm" where [rv_insns]:
  "rori rd rs1 shamt =
   andthen (requires RV_Zbb) (
   EmitRType_shamt ROTATE shamt rs1 ROR rd OPIMM)"

definition roriw :: "reg \<Rightarrow> reg \<Rightarrow> intptr \<Rightarrow> asm" where [rv_insns]:
  "roriw rd rs1 shamt =
   andthen (requires RV_Zbb) (
   EmitRType_shamt ROTATE shamt rs1 ROR rd OPIMM32)"

definition rorw :: "reg \<Rightarrow> reg \<Rightarrow> reg \<Rightarrow> asm" where [rv_insns]:
  "rorw rd rs1 rs2 =
   andthen (requires RV_Zbb) (
   EmitRType ROTATE rs2 rs1 ROR rd OP32)"

definition orcb :: "reg \<Rightarrow> reg \<Rightarrow> asm" where [rv_insns]:
  "orcb rd rs1 =
   andthen (requires RV_Zbb) (
   EmitRType_shamt 0b10100 0b111 rs1 0b101 rd OPIMM)"

definition rev8 :: "reg \<Rightarrow> reg \<Rightarrow> asm" where [rv_insns]:
  "rev8 rd rs1 =
   andthen (requires RV_Zbb) (
   EmitRType_shamt 0b110101 0b11000 rs1 0b101 rd OPIMM)"

definition clmul :: "reg \<Rightarrow> reg \<Rightarrow> reg \<Rightarrow> asm" where [rv_insns]:
  "clmul rd rs1 rs2 =
   andthen (requires RV_Zbc) (
   EmitRType MINMAXCLMUL rs2 rs1 CLMUL rd OP)"

definition clmulh :: "reg \<Rightarrow> reg \<Rightarrow> reg \<Rightarrow> asm" where [rv_insns]:
  "clmulh rd rs1 rs2 =
   andthen (requires RV_Zbc) (
   EmitRType MINMAXCLMUL rs2 rs1 CLMULH rd OP)"

definition clmulr :: "reg \<Rightarrow> reg \<Rightarrow> reg \<Rightarrow> asm" where [rv_insns]:
  "clmulr rd rs1 rs2 =
   andthen (requires RV_Zbc) (
   EmitRType MINMAXCLMUL rs2 rs1 CLMULR rd OP)"

definition bclr :: "reg \<Rightarrow> reg \<Rightarrow> reg \<Rightarrow> asm" where [rv_insns]:
  "bclr rd rs1 rs2 =
   andthen (requires RV_Zbs) (
   EmitRType BCLRBEXT rs2 rs1 BCLR rd OP)"

definition bclri :: "reg \<Rightarrow> reg \<Rightarrow> intptr \<Rightarrow> asm" where [rv_insns]:
  "bclri rd rs1 shamt =
   andthen (requires RV_Zbs) (
   EmitRType_shamt BCLRBEXT shamt rs1 BCLR rd OPIMM)"

definition bext :: "reg \<Rightarrow> reg \<Rightarrow> reg \<Rightarrow> asm" where [rv_insns]:
  "bext rd rs1 rs2 =
   andthen (requires RV_Zbs) (
   EmitRType BCLRBEXT rs2 rs1 BEXT rd OP)"

definition bexti :: "reg \<Rightarrow> reg \<Rightarrow> intptr \<Rightarrow> asm" where [rv_insns]:
  "bexti rd rs1 shamt =
   andthen (requires RV_Zbs) (
   EmitRType_shamt BCLRBEXT shamt rs1 BEXT rd OPIMM)"

definition binv :: "reg \<Rightarrow> reg \<Rightarrow> reg \<Rightarrow> asm" where [rv_insns]:
  "binv rd rs1 rs2 =
   andthen (requires RV_Zbs) (
   EmitRType BINV rs2 rs1 F3_BINV rd OP)"

definition binvi :: "reg \<Rightarrow> reg \<Rightarrow> intptr \<Rightarrow> asm" where [rv_insns]:
  "binvi rd rs1 shamt =
   andthen (requires RV_Zbs) (
   EmitRType_shamt BINV shamt rs1 F3_BINV rd OPIMM)"

definition bset :: "reg \<Rightarrow> reg \<Rightarrow> reg \<Rightarrow> asm" where [rv_insns]:
  "bset rd rs1 rs2 =
   andthen (requires RV_Zbs) (
   EmitRType BSET rs2 rs1 F3_BSET rd OP)"

definition bseti :: "reg \<Rightarrow> reg \<Rightarrow> intptr \<Rightarrow> asm" where [rv_insns]:
  "bseti rd rs1 shamt =
   andthen (requires RV_Zbs) (
   EmitRType_shamt BSET shamt rs1 F3_BSET rd OPIMM)"
section \<open>Alignment\<close>

text \<open>The padding loops count a \<open>size_t\<close> down while a whole unit is left.\<close>

function pad_loop :: "64 word \<Rightarrow> 64 word \<Rightarrow> asm \<Rightarrow> (assembler, 64 word) prog" where
  "pad_loop misalignment n emit =
     (if n \<noteq> 0 \<and> misalignment div n \<noteq> 0
      then andthen emit (pad_loop (misalignment - n) n emit)
      else ret misalignment)"
  by pat_completeness auto

termination
proof (relation "measure (\<lambda>(m, _, _). unat m)")
  fix m n :: "64 word" and emit :: asm
  assume a: "n \<noteq> 0 \<and> m div n \<noteq> 0"
  have "\<not> unat m < unat n"
  proof
    assume "unat m < unat n"
    then have "unat (m div n) = 0" by (simp add: unat_div_distrib)
    with a show False by (simp only: unat_eq_zero)
  qed
  moreover have "0 < unat n" using a by (simp add: unat_gt_0)
  ultimately have "unat (m - n) < unat m" by (simp add: unat_sub word_le_nat_alt)
  then show "((m - n, n, emit), (m, n, emit)) \<in> measure (\<lambda>(m, _, _). unat m)" by simp
qed simp

declare pad_loop.simps [simp del]

definition Align :: "intptr \<Rightarrow> 32 word \<Rightarrow> 16 word \<Rightarrow> asm" where
  "Align alignByte pad32 pad16 =
     andthen (ASSERT (alignByte \<le>s 16) ''alignByte <= 16'') (
     bnd (\<lambda>a. Inr (Position a AND (alignByte - 1), a)) (\<lambda>misalignment.
     bnd (pad_loop misalignment 4 (Emit32 (Inr pad32))) (\<lambda>misalignment.
     bnd (pad_loop misalignment 2 (Emit16 (Inr (ucast pad16)))) (\<lambda>_.
     \<lambda>a. ASSERT (IsAligned (Position a) alignByte) ''IsAligned(Position(), alignByte)'' a))))"

definition Align_default :: "intptr \<Rightarrow> asm" where
  "Align_default alignByte = Align alignByte 0b10011 1"

section \<open>Binding labels\<close>

definition IsCInstruction :: "16 word \<Rightarrow> bool" where
  "IsCInstruction parcel = (parcel AND 3 \<noteq> 3)"

definition EncodeBranchOrJumpOffset :: "32 word \<Rightarrow> 32 word \<Rightarrow> 32 word res" where
  "EncodeBranchOrJumpOffset offset encoded =
     (if offset = 0 then Inl (Assertion_failed ''offset != 0'')
      else if DecodeOpcode encoded = BRANCH then
        or_all [EncodeRs2 (DecodeRs2 encoded), EncodeRs1 (DecodeRs1 encoded),
          EncodeFunct3 (DecodeFunct3 encoded), EncodeOpcode (DecodeOpcode encoded),
          EncodeBTypeImm (scast offset)]
      else if DecodeOpcode encoded = JAL then
        or_all [EncodeRd (DecodeRd encoded), EncodeOpcode (DecodeOpcode encoded),
          EncodeJTypeImm (scast offset)]
      else Inl (Assertion_failed ''unreachable code''))"

definition DecodeBranchOrJumpOffset :: "32 word \<Rightarrow> 32 word res" where
  "DecodeBranchOrJumpOffset encoded =
     (if DecodeOpcode encoded = BRANCH then Inr (ucast (DecodeBTypeImm encoded))
      else if DecodeOpcode encoded = JAL then Inr (ucast (DecodeJTypeImm encoded))
      else Inl (Assertion_failed ''unreachable code''))"

text \<open>A 16-bit instruction is read as \<open>uint16_t\<close> and widened; \<open>C_JAL\<close> stands for \<open>C_ADDIW\<close> too.\<close>

definition C_opcode :: "16 word \<Rightarrow> 32 word" where
  "C_opcode encoded = ucast encoded AND C_OP_MASK"

definition EncodeCBranchOrJumpOffset :: "32 word \<Rightarrow> 16 word \<Rightarrow> 32 word res" where
  "EncodeCBranchOrJumpOffset offset encoded =
     (let opcode = C_opcode encoded in
      if offset = 0 then Inl (Assertion_failed ''offset != 0'')
      else if opcode = C_BEQZ \<or> opcode = C_BNEZ then
        or_all [Inr opcode, EncodeCRs1p (DecodeCRs1p (ucast encoded)), EncodeCBImm (scast offset)]
      else if opcode = C_J \<or> opcode = C_JAL then or_all [Inr opcode, EncodeCJImm (scast offset)]
      else Inl (Assertion_failed ''unreachable code''))"

definition DecodeCBranchOrJumpOffset :: "16 word \<Rightarrow> 32 word res" where
  "DecodeCBranchOrJumpOffset encoded =
     (let opcode = C_opcode encoded in
      if opcode = C_BEQZ \<or> opcode = C_BNEZ then Inr (ucast (DecodeCBImm (ucast encoded)))
      else if opcode = C_J \<or> opcode = C_JAL then Inr (ucast (DecodeCJImm (ucast encoded)))
      else Inl (Assertion_failed ''unreachable code''))"

text \<open>One round of the loop of \<open>Bind\<close>: the last linked branch gets its offset, the label is
  linked to the branch before it.  Positions and offsets are \<open>int32_t\<close> here.\<close>

definition bind_step :: "nat \<Rightarrow> intptr \<Rightarrow> asm" where
  "bind_step l target_position =
     bnd (label_pos l) (\<lambda>p.
     let branch_position = scast (ucast p :: 32 word) :: intptr;
         offset = ucast (target_position - branch_position) :: 32 word in
     andthen (ASSERT (IsAligned branch_position 2) ''IsAligned(branch_position, 2)'') (
     andthen (ASSERT (IsAligned (scast offset) 2) ''IsAligned(offset, 2)'') (
     bnd (Read16 branch_position) (\<lambda>old_branch.
     if IsCInstruction old_branch then
       bnd (lift_res (EncodeCBranchOrJumpOffset offset old_branch)) (\<lambda>new_branch.
       andthen (Write16 branch_position (ucast new_branch)) (
       bnd (lift_res (DecodeCBranchOrJumpOffset old_branch)) (\<lambda>q. set_label l (scast q))))
     else
       bnd (Read32 branch_position) (\<lambda>old_branch.
       bnd (lift_res (EncodeBranchOrJumpOffset offset old_branch)) (\<lambda>new_branch.
       andthen (Write32 branch_position new_branch) (
       bnd (lift_res (DecodeBranchOrJumpOffset old_branch)) (\<lambda>q. set_label l (scast q)))))))))"

fun bind_loop :: "nat \<Rightarrow> nat \<Rightarrow> intptr \<Rightarrow> asm" where
  "bind_loop 0 l t = throw (Not_modelled ''out of fuel'')"
| "bind_loop (Suc n) l t =
     (\<lambda>a. if IsLinked (label_position a l) then andthen (bind_step l t) (bind_loop n l t) a else ret () a)"

text \<open>A chain of links visits each position of the code at most once.\<close>

definition Bind :: "nat \<Rightarrow> asm" where
  "Bind l a =
     andthen (ASSERT (\<not> IsBound (label_position a l)) ''!IsBound()'') (
     andthen (bind_loop (length (code a) + 1) l (Position a)) (
     BindTo l (Position a))) a"

end
