(* ===== verification/Riscv_Bind.thy ===== *)
theory Riscv_Bind
  imports Riscv_Assembler
begin

text \<open>
  Labels: the branches to an unbound label form a chain, each holding in its immediate the
  link to the one before it, and \<open>Bind\<close> gives every branch of the chain the offset of the
  bound position.  A branch at a position is what the instruction decoders make of the bytes there.
\<close>

section \<open>Bytes at positions\<close>

lemma word_eq_listI:
  "list_all (\<lambda>i. bit x i = bit y i) [0..<LENGTH('a)] \<Longrightarrow> x = (y :: 'a :: len word)"
  by (rule bit_word_eqI) (auto simp: list_all_iff)

lemma join32:
  "ucast (ucast w :: 8 word) OR push_bit 8 (ucast (ucast (drop_bit 8 w) :: 8 word))
    OR push_bit 16 (ucast (ucast (drop_bit 16 w) :: 8 word))
    OR push_bit 24 (ucast (ucast (drop_bit 24 w) :: 8 word)) = (w :: 32 word)"
  by (rule word_eq_listI) (simp add: bits_of_codes)

lemma join16:
  "ucast (ucast w :: 8 word) OR push_bit 8 (ucast (ucast (drop_bit 8 w) :: 8 word)) = (w :: 16 word)"
  by (rule bit_word_eqI) (auto simp: bit_simps)

lemma get32_bytes32: "n + 4 \<le> length c \<Longrightarrow> get32 (put_bytes n (bytes32 w) c) n = w"
  by (simp add: get32_def put_bytes_def bytes32_def nth_append min_def join32)

lemma get16_bytes16: "n + 2 \<le> length c \<Longrightarrow> get16 (put_bytes n (bytes16 w) c) n = w"
  by (simp add: get16_def put_bytes_def bytes16_def nth_append min_def join16)

lemma get16_get32: "get16 c n = ucast (get32 c n)"
  unfolding get16_def get32_def by (rule bit_word_eqI) (auto simp: bit_simps)

lemma length_put_bytes [simp]: "n + length bs \<le> length c \<Longrightarrow> length (put_bytes n bs c) = length c"
  by (simp add: put_bytes_def)

lemma put_bytes_outside:
  "n + length bs \<le> length c \<Longrightarrow> i < n \<or> n + length bs \<le> i \<Longrightarrow> put_bytes n bs c ! i = c ! i"
  by (auto simp: put_bytes_def nth_append)

lemma length_bytes [simp]: "length (bytes16 h) = 2" "length (bytes32 w) = 4"
  by (simp_all add: bytes16_def bytes32_def)

section \<open>Branches\<close>

datatype rv_branch = Branch reg reg "32 word" | Jump reg | CBranch "32 word" reg | CJump "32 word"

fun branch_size :: "rv_branch \<Rightarrow> nat" where
  "branch_size (Branch _ _ _) = 4"
| "branch_size (Jump _) = 4"
| "branch_size (CBranch _ _) = 2"
| "branch_size (CJump _) = 2"

fun reaches :: "rv_branch \<Rightarrow> intptr \<Rightarrow> bool" where
  "reaches (Branch _ _ _) d = IsBTypeImm d"
| "reaches (Jump _) d = IsJTypeImm d"
| "reaches (CBranch _ _) d = IsCBImm d"
| "reaches (CJump _) d = IsCJImm d"

text \<open>The instruction at a position, and its offset.\<close>

definition branch32 :: "32 word \<Rightarrow> (rv_branch \<times> intptr) option" where
  "branch32 w =
     (if DecodeOpcode w = BRANCH then Some (Branch (DecodeRs1 w) (DecodeRs2 w) (DecodeFunct3 w), DecodeBTypeImm w)
      else if DecodeOpcode w = JAL then Some (Jump (DecodeRd w), DecodeJTypeImm w)
      else None)"

definition branch16 :: "16 word \<Rightarrow> (rv_branch \<times> intptr) option" where
  "branch16 h =
     (if C_opcode h \<in> {C_BEQZ, C_BNEZ} then Some (CBranch (C_opcode h) (DecodeCRs1p (ucast h)), DecodeCBImm (ucast h))
      else if C_opcode h \<in> {C_J, C_JAL} then Some (CJump (C_opcode h), DecodeCJImm (ucast h))
      else None)"

definition branch_at :: "8 word list \<Rightarrow> nat \<Rightarrow> (rv_branch \<times> intptr) option" where
  "branch_at c n = (if IsCInstruction (get16 c n) then branch16 (get16 c n) else branch32 (get32 c n))"

lemma or_all_Inr:
  "or_all [] = Inr w \<longleftrightarrow> w = 0"
  "or_all (x # xs) = Inr w \<longleftrightarrow> (\<exists>u v. x = Inr u \<and> or_all xs = Inr v \<and> w = u OR v)"
  by (auto split: sum.splits)

lemma encoders_Inr:
  "encode_reg n r = Inr w \<longleftrightarrow> r < 32 \<and> w = push_bit n r"
  "encode_reg_prime n r = Inr w \<longleftrightarrow> is_reg_prime r \<and> w = push_bit n (r AND 7)"
  "encode_funct n m f = Inr w \<longleftrightarrow> f AND m = f \<and> w = push_bit n f"
  by (simp_all add: encode_reg_def encode_reg_prime_def encode_funct_def)

text \<open>Small registers and codes as words of their own width.\<close>

lemma less_32_bit: "r < (32 :: 32 word) \<Longrightarrow> 5 \<le> i \<Longrightarrow> \<not> bit r i"
proof -
  assume r: "r < 32" and i: "5 \<le> i"
  have "take_bit 5 (uint r) = uint r"
    using r by (intro take_bit_int_eq_self) (simp_all add: word_less_def)
  then have "take_bit 5 r = r" by (simp add: word_uint_eq_iff unsigned_take_bit_eq)
  then have "bit r i = bit (take_bit 5 r) i" by simp
  with i show ?thesis by (simp add: bit_take_bit_iff)
qed

lemma bit_numeral_masks:
  "bit (31 :: 32 word) i \<longleftrightarrow> i < 5" "bit (7 :: 32 word) i \<longleftrightarrow> i < 3" "bit (0x7F :: 32 word) i \<longleftrightarrow> i < 7"
  "bit (3 :: 16 word) i \<longleftrightarrow> i < 2"
proof -
  have m: "(31 :: 32 word) = mask 5" "(7 :: 32 word) = mask 3" "(0x7F :: 32 word) = mask 7" "(3 :: 16 word) = mask 2"
    by (simp_all add: mask_eq_exp_minus_1)
  show "bit (31 :: 32 word) i \<longleftrightarrow> i < 5" "bit (7 :: 32 word) i \<longleftrightarrow> i < 3" "bit (0x7F :: 32 word) i \<longleftrightarrow> i < 7"
    "bit (3 :: 16 word) i \<longleftrightarrow> i < 2"
    unfolding m by (auto simp: bit_simps)
qed


lemmas bits_of_fields = rv_codes encode_reg_def encode_reg_prime_def encode_funct_def decode_reg_def
  decode_reg_prime_def decode_funct_def

lemma encode_branch:
  assumes "EncodeBTypeImm d = Inr e" and "rs1 < 32" and "rs2 < 32" and "f AND 7 = f"
  shows "branch32 (e OR push_bit 20 rs2 OR push_bit 15 rs1 OR push_bit 12 f OR BRANCH) = Some (Branch rs1 rs2 f, d)"
proof -
  have e: "IsInt 12 d" "IsAligned d 2" "e = put 12 0x1 31 d OR put 5 0x3f 25 d OR put 1 0xf 8 d OR put 11 0x1 7 d"
    using assms(1) by (simp_all add: rv_codes)
  have f: "\<not> bit f i" if "3 \<le> i" for i
    using that assms(4) by (metis bit_and_iff bit_numeral_masks(2) not_le)
  note r = less_32_bit [OF assms(2)] less_32_bit [OF assms(3)] f
  let ?w = "e OR push_bit 20 rs2 OR push_bit 15 rs1 OR push_bit 12 f OR BRANCH"
  note bits = rv_consts bits_of_codes bits_of_fields r e(3)
  have "DecodeOpcode ?w = BRANCH" "DecodeRs1 ?w = rs1" "DecodeRs2 ?w = rs2" "DecodeFunct3 ?w = f"
    by (rule word_eq_listI; simp add: bits)+
  moreover have "DecodeBTypeImm ?w = d"
    unfolding rv_codes by (rule sign_extend_eqI [OF e(1)]) (use e(2) in \<open>simp_all add: bits Suc_eq_numerals\<close>)
  ultimately show ?thesis by (simp add: branch32_def)
qed


lemma encode_jump:
  assumes "EncodeJTypeImm d = Inr e" and "rd < 32"
  shows "branch32 (e OR push_bit 7 rd OR JAL) = Some (Jump rd, d)"
proof -
  have e: "IsInt 20 d" "IsAligned d 2" "e = put 20 0x1 31 d OR put 1 0x3ff 21 d OR put 11 0x1 20 d OR put 12 0xff 12 d"
    using assms(1) by (simp_all add: rv_codes)
  note r = less_32_bit [OF assms(2)]
  let ?w = "e OR push_bit 7 rd OR JAL"
  note bits = rv_consts bits_of_codes bits_of_fields r e(3)
  have "DecodeOpcode ?w = JAL" "DecodeRd ?w = rd"
    by (rule word_eq_listI; simp add: bits)+
  moreover have "DecodeJTypeImm ?w = d"
    unfolding rv_codes by (rule sign_extend_eqI [OF e(1)]) (use e(2) in \<open>simp_all add: bits Suc_eq_numerals\<close>)
  ultimately show ?thesis by (simp add: branch32_def rv_consts)
qed

text \<open>A compressed register is 8 plus its three bits.\<close>

lemma reg_prime_roundtrip: "is_reg_prime r \<Longrightarrow> (r AND 7) + 8 = r"
proof -
  assume "is_reg_prime r"
  then have "8 \<le> uint r" "uint r < 16" by (simp_all add: is_reg_prime_def word_le_def word_less_def)
  then have "uint r = 8 \<or> uint r = 9 \<or> uint r = 10 \<or> uint r = 11 \<or> uint r = 12 \<or> uint r = 13 \<or> uint r = 14 \<or> uint r = 15"
    by linarith
  then have "r = 8 \<or> r = 9 \<or> r = 10 \<or> r = 11 \<or> r = 12 \<or> r = 13 \<or> r = 14 \<or> r = 15"
    by (simp add: word_uint_eq_iff)
  then show ?thesis by auto
qed

lemma encode_cbranch:
  assumes "EncodeCBImm d = Inr e" and "is_reg_prime r" and "opc \<in> {C_BEQZ, C_BNEZ}"
  shows "branch16 (ucast (opc OR push_bit 7 (r AND 7) OR e)) = Some (CBranch opc r, d)"
proof -
  have e: "IsInt 8 d" "IsAligned d 2"
    "e = put 8 0x1 12 d OR put 3 0x3 10 d OR put 6 0x3 5 d OR put 1 0x3 3 d OR put 5 0x1 2 d"
    using assms(1) by (simp_all add: rv_codes)
  let ?h = "ucast (opc OR push_bit 7 (r AND 7) OR e) :: 16 word"
  note bits = rv_consts bits_of_codes bits_of_fields e(3) C_opcode_def
  have "C_opcode ?h = opc"
    by (rule word_eq_listI) (use assms(3) in \<open>auto simp: bits\<close>)
  moreover have "DecodeCRs1p (ucast ?h) = r"
  proof -
    have "drop_bit 7 (ucast ?h) AND 7 = r AND 7"
      by (rule word_eq_listI) (use assms(3) in \<open>auto simp: bits\<close>)
    with reg_prime_roundtrip [OF assms(2)] show ?thesis by (simp add: rv_codes decode_reg_prime_def)
  qed
  moreover have "DecodeCBImm (ucast ?h) = d"
    unfolding rv_codes by (rule sign_extend_eqI [OF e(1)]) (use e(2) assms(3) in \<open>auto simp: bits Suc_eq_numerals\<close>)
  ultimately show ?thesis using assms(3) by (simp add: branch16_def)
qed

lemma encode_cjump:
  assumes "EncodeCJImm d = Inr e" and "opc \<in> {C_J, C_JAL}"
  shows "branch16 (ucast (opc OR e)) = Some (CJump opc, d)"
proof -
  have e: "IsInt 11 d" "IsAligned d 2"
    "e = put 11 0x1 12 d OR put 4 0x1 11 d OR put 8 0x3 9 d OR put 10 0x1 8 d OR put 6 0x1 7 d OR put 7 0x1 6 d
       OR put 1 0x7 3 d OR put 5 0x1 2 d"
    using assms(1) by (simp_all add: rv_codes)
  let ?h = "ucast (opc OR e) :: 16 word"
  note bits = rv_consts bits_of_codes bits_of_fields e(3) C_opcode_def
  have "C_opcode ?h = opc"
    by (rule word_eq_listI) (use assms(2) in \<open>auto simp: bits\<close>)
  moreover have "DecodeCJImm (ucast ?h) = d"
    unfolding rv_codes by (rule sign_extend_eqI [OF e(1)]) (use e(2) assms(2) in \<open>auto simp: bits Suc_eq_numerals\<close>)
  ultimately show ?thesis using assms(2) by (auto simp: branch16_def rv_consts)
qed

text \<open>Branches and jumps are 32-bit instructions, their compressed forms are 16-bit ones.\<close>

lemma branch32_not_compressed: "branch32 w = Some x \<Longrightarrow> \<not> IsCInstruction (ucast w)"
proof -
  assume "branch32 w = Some x"
  then have "DecodeOpcode w = BRANCH \<or> DecodeOpcode w = JAL" by (auto simp: branch32_def split: if_splits)
  then have "bit (DecodeOpcode w) 0" "bit (DecodeOpcode w) 1" by (auto simp: rv_consts)
  then have "bit w 0" "bit w 1" by (simp_all add: bits_of_fields bit_simps)
  then have "ucast w AND 3 = (3 :: 16 word)"
    by (intro word_eq_listI) (simp add: bit_simps upt_rec bit_numeral_masks)
  then show ?thesis by (simp add: IsCInstruction_def)
qed

lemma branch16_compressed: "branch16 h = Some x \<Longrightarrow> IsCInstruction h"
proof -
  assume "branch16 h = Some x"
  then have "C_opcode h \<in> {C_BEQZ, C_BNEZ, C_J, C_JAL}" by (auto simp: branch16_def split: if_splits)
  then have "\<not> bit (C_opcode h) 1" by (auto simp: rv_consts)
  then have "\<not> bit h 1" by (simp add: C_opcode_def rv_consts bit_simps)
  moreover have "bit (3 :: 16 word) 1" by simp
  ultimately have "h AND 3 \<noteq> 3" by (metis bit_and_iff)
  then show ?thesis by (simp add: IsCInstruction_def)
qed


section \<open>Patching one branch\<close>

lemma masked_less_32: "x AND 31 < (32 :: 32 word)"
proof -
  have "x AND 31 \<le> (31 :: 32 word)" by (rule word_and_le1)
  also have "(31 :: 32 word) < 32" by simp
  finally show ?thesis .
qed

lemma decoded_reg_less: "DecodeRd w < 32" "DecodeRs1 w < 32" "DecodeRs2 w < 32"
  by (simp_all add: rv_codes decode_reg_def masked_less_32)

lemma decoded_reg_prime: "is_reg_prime (DecodeCRs1p w)"
proof -
  have "(x AND 7) + 8 < (16 :: 32 word) \<and> 8 \<le> (x AND 7) + 8" for x :: "32 word"
  proof -
    have "x AND 7 \<le> (7 :: 32 word)" by (rule word_and_le1)
    then have "unat (x AND 7) \<le> 7" by (simp add: word_le_nat_alt)
    then show ?thesis by (simp add: word_less_nat_alt word_le_nat_alt unat_word_ariths)
  qed
  then show ?thesis by (simp add: rv_codes decode_reg_prime_def is_reg_prime_def)
qed

lemma patch32:
  assumes "branch32 old = Some (b, q)" and "reaches b (scast off)" and "off \<noteq> 0"
  obtains new where "EncodeBranchOrJumpOffset off old = Inr new" and "branch32 new = Some (b, scast off)"
    and "branch_size b = 4" and "DecodeBranchOrJumpOffset old = Inr (ucast q)"
proof (cases "DecodeOpcode old = BRANCH")
  case True
  with assms(1) have b: "b = Branch (DecodeRs1 old) (DecodeRs2 old) (DecodeFunct3 old)" "q = DecodeBTypeImm old"
    by (auto simp: branch32_def)
  with assms(2) obtain e where e: "EncodeBTypeImm (scast off) = Inr e" by (simp add: EncodeBTypeImm_def)
  have "DecodeFunct3 old AND 7 = DecodeFunct3 old" by (simp add: rv_codes decode_funct_def ac_simps)
  note n = encode_branch [OF e decoded_reg_less(2,3) this]
  have "EncodeBranchOrJumpOffset off old = Inr (e OR push_bit 20 (DecodeRs2 old) OR push_bit 15 (DecodeRs1 old)
      OR push_bit 12 (DecodeFunct3 old) OR BRANCH)"
    using assms(3) True decoded_reg_less(2,3) [of old] e
    by (simp add: EncodeBranchOrJumpOffset_def EncodeRs1_def EncodeRs2_def EncodeFunct3_def EncodeOpcode_def
        encode_reg_def encode_funct_def check_def DecodeFunct3_def decode_funct_def BRANCH_def ac_simps)
  with n True b show thesis by (intro that) (simp_all add: DecodeBranchOrJumpOffset_def)
next
  case False
  with assms(1) have j: "DecodeOpcode old = JAL" by (auto simp: branch32_def split: if_splits)
  with False assms(1) have b: "b = Jump (DecodeRd old)" "q = DecodeJTypeImm old" by (auto simp: branch32_def)
  with assms(2) obtain e where e: "EncodeJTypeImm (scast off) = Inr e" by (simp add: EncodeJTypeImm_def)
  note n = encode_jump [OF e decoded_reg_less(1)]
  have "EncodeBranchOrJumpOffset off old = Inr (e OR push_bit 7 (DecodeRd old) OR JAL)"
    using assms(3) False j decoded_reg_less(1) [of old] e
    by (simp add: EncodeBranchOrJumpOffset_def EncodeRd_def EncodeOpcode_def
        encode_reg_def encode_funct_def check_def JAL_def BRANCH_def ac_simps)
  with n False j b show thesis by (intro that) (simp_all add: DecodeBranchOrJumpOffset_def)
qed

lemma patch16:
  assumes "branch16 old = Some (b, q)" and "reaches b (scast off)" and "off \<noteq> 0"
  obtains new where "EncodeCBranchOrJumpOffset off old = Inr new" and "branch16 (ucast new) = Some (b, scast off)"
    and "branch_size b = 2" and "DecodeCBranchOrJumpOffset old = Inr (ucast q)"
proof (cases "C_opcode old \<in> {C_BEQZ, C_BNEZ}")
  case True
  with assms(1) have b: "b = CBranch (C_opcode old) (DecodeCRs1p (ucast old))" "q = DecodeCBImm (ucast old)"
    by (auto simp: branch16_def)
  with assms(2) obtain e where e: "EncodeCBImm (scast off) = Inr e" by (simp add: EncodeCBImm_def)
  note n = encode_cbranch [OF e decoded_reg_prime True]
  have "EncodeCBranchOrJumpOffset off old = Inr (C_opcode old OR push_bit 7 (DecodeCRs1p (ucast old) AND 7) OR e)"
    using assms(3) True decoded_reg_prime [of "ucast old"] e
    by (simp add: EncodeCBranchOrJumpOffset_def EncodeCRs1p_def encode_reg_prime_def check_def Let_def)
  with n True b show thesis by (intro that) (auto simp: DecodeCBranchOrJumpOffset_def Let_def)
next
  case False
  with assms(1) have j: "C_opcode old \<in> {C_J, C_JAL}" by (auto simp: branch16_def split: if_splits)
  with False assms(1) have b: "b = CJump (C_opcode old)" "q = DecodeCJImm (ucast old)"
    by (auto simp: branch16_def)
  with assms(2) obtain e where e: "EncodeCJImm (scast off) = Inr e" by (simp add: EncodeCJImm_def)
  note n = encode_cjump [OF e j]
  have "EncodeCBranchOrJumpOffset off old = Inr (C_opcode old OR e)"
    using assms(3) False j e by (auto simp: EncodeCBranchOrJumpOffset_def Let_def)
  with n False j b show thesis by (intro that) (auto simp: DecodeCBranchOrJumpOffset_def Let_def)
qed

text \<open>Positions below $2^{31}$ survive the conversions to \<open>int32_t\<close>.\<close>

lemma scast_ucast_small: "n < 2 ^ 31 \<Longrightarrow> scast (ucast (of_nat n :: intptr) :: 32 word) = (of_nat n :: intptr)"
proof -
  assume n: "n < 2 ^ 31"
  have "bit (of_nat n :: intptr) i \<longleftrightarrow> i < 31 \<and> bit n i" for i
  proof -
    have "take_bit 31 n = n" using n by (simp add: take_bit_nat_eq_self)
    then have "bit n i \<longleftrightarrow> i < 31 \<and> bit n i" by (metis bit_take_bit_iff)
    then show ?thesis by (auto simp: bit_of_nat_iff)
  qed
  note b = this
  show ?thesis
  proof (rule bit_word_eqI)
    fix i assume "i < LENGTH(64)"
    then show "bit (scast (ucast (of_nat n :: intptr) :: 32 word) :: intptr) i = bit (of_nat n :: intptr) i"
      by (cases "i < 31") (simp_all add: bit_signed_iff bit_unsigned_iff b)
  qed
qed

lemma aligned_of_nat: "even n \<Longrightarrow> IsAligned (of_nat n) 2"
  by (elim evenE) (simp add: IsAligned_def and_one_eq mod_2_eq_odd)

lemma unat_small: "n < 2 ^ 31 \<Longrightarrow> unat (of_nat n :: intptr) = n"
  by (simp add: unat_of_nat)

lemma label_linked:
  "n < 2 ^ 32 \<Longrightarrow> 0 < n \<Longrightarrow> IsLinked (of_nat n)"
  "n < 2 ^ 32 \<Longrightarrow> \<not> IsBound (of_nat n)"
proof -
  assume n: "n < 2 ^ 32"
  then have "sint (of_nat n :: intptr) = int n"
    by (simp add: signed_of_nat signed_take_bit_int_eq_self)
  then show "0 < n \<Longrightarrow> IsLinked (of_nat n)" "\<not> IsBound (of_nat n)"
    by (simp_all add: IsLinked_def IsBound_def word_sless_alt)
qed


lemma label_pos_linked:
  "label_position a l = of_nat (p + 8) \<Longrightarrow> p < 2 ^ 31 \<Longrightarrow> label_pos l a = Inr (of_nat p, a)"
  using label_linked [of "p + 8"]
  by (auto simp: label_pos_def IsUnused_def kWordSize_def IsLinked_def Let_def)

text \<open>One round of \<open>Bind\<close> gives the last linked branch its offset, links the label to the branch
  before, and touches no other byte.\<close>

lemma bind_step_patches:
  assumes b: "branch_at (code a) p = Some (b, of_nat q)" and l: "label_position a l = of_nat (p + 8)"
    and r: "reaches b (of_nat (t - p))" and p: "p + branch_size b \<le> length (code a)" "p < t" "even p" "even t"
    and small: "length (code a) < 2 ^ 31" "t < 2 ^ 31" "q < 2 ^ 31"
  obtains c where "bind_step l (of_nat t) a = Inr ((), a\<lparr>code := c, label_position := (label_position a)(l := of_nat q)\<rparr>)"
    and "length c = length (code a)" and "branch_at c p = Some (b, of_nat (t - p))"
    and "\<forall>i. i < p \<or> p + branch_size b \<le> i \<longrightarrow> c ! i = code a ! i"
proof -
  define off :: "32 word" where "off = ucast (of_nat t - of_nat p :: intptr)"
  have p31: "p < 2 ^ 31" "t - p < 2 ^ 31" using p small by simp_all
  have d: "of_nat t - of_nat p = (of_nat (t - p) :: intptr)" using p(2) by simp
  have off: "scast off = (of_nat (t - p) :: intptr)" unfolding off_def d by (rule scast_ucast_small [OF p31(2)])
  have "off \<noteq> 0"
  proof
    assume "off = 0"
    then have "of_nat (t - p) = (0 :: intptr)" using off by simp
    then have "unat (of_nat (t - p) :: intptr) = 0" by simp
    with unat_small [OF p31(2)] p(2) show False by simp
  qed
  note pos = label_pos_linked [OF l p31(1)] scast_ucast_small [OF p31(1)] unat_small [OF p31(1)]
  have al: "IsAligned (of_nat p) 2" "IsAligned (scast off) 2"
    unfolding off by (rule aligned_of_nat, use p in simp)+
  note start = bind_step_def bnd_def andthen_def pos Let_def off_def [symmetric] al ASSERT_def
    ret_def Read16_def Read32_def Write16_def Write32_def lift_res_def set_label_def
  show thesis
  proof (cases "IsCInstruction (get16 (code a) p)")
    case True
    with b have b16: "branch16 (get16 (code a) p) = Some (b, of_nat q)" by (simp add: branch_at_def)
    from b16 r off \<open>off \<noteq> 0\<close> obtain new where n: "EncodeCBranchOrJumpOffset off (get16 (code a) p) = Inr new"
        "branch16 (ucast new) = Some (b, scast off)" "branch_size b = 2"
        "DecodeCBranchOrJumpOffset (get16 (code a) p) = Inr (ucast (of_nat q :: intptr))"
      by (metis patch16)
    let ?c = "put_bytes p (bytes16 (ucast new)) (code a)"
    have "bind_step l (of_nat t) a = Inr ((), a\<lparr>code := ?c, label_position := (label_position a)(l := of_nat q)\<rparr>)"
      using True n p by (simp add: start scast_ucast_small [OF small(3)])
    moreover have "branch_at ?c p = Some (b, of_nat (t - p))"
      using n p branch16_compressed [OF n(2)] by (simp add: branch_at_def get16_bytes16 off)
    ultimately show thesis
      using n(3) p(1) by (intro that [of ?c]) (simp_all add: put_bytes_outside)
  next
    case False
    with b have b32: "branch32 (get32 (code a) p) = Some (b, of_nat q)" by (simp add: branch_at_def)
    from b32 r off \<open>off \<noteq> 0\<close> obtain new where n: "EncodeBranchOrJumpOffset off (get32 (code a) p) = Inr new"
        "branch32 new = Some (b, scast off)" "branch_size b = 4"
        "DecodeBranchOrJumpOffset (get32 (code a) p) = Inr (ucast (of_nat q :: intptr))"
      by (metis patch32)
    let ?c = "put_bytes p (bytes32 new) (code a)"
    have "bind_step l (of_nat t) a = Inr ((), a\<lparr>code := ?c, label_position := (label_position a)(l := of_nat q)\<rparr>)"
      using False n p by (simp add: start scast_ucast_small [OF small(3)])
    moreover have "branch_at ?c p = Some (b, of_nat (t - p))"
      using n p branch32_not_compressed [OF n(2)] by (simp add: branch_at_def get16_get32 get32_bytes32 off)
    ultimately show thesis
      using n(3) p(1) by (intro that [of ?c]) (simp_all add: put_bytes_outside)
  qed
qed

section \<open>Chains of branches\<close>

text \<open>The branches to a label, last first, with the link each holds: \<open>position + 8\<close> of the one
  before, 0 at the first.\<close>

fun link :: "(nat \<times> rv_branch) list \<Rightarrow> nat" where
  "link [] = 0"
| "link ((p, b) # bs) = p + 8"

fun chained :: "8 word list \<Rightarrow> (nat \<times> rv_branch) list \<Rightarrow> bool" where
  "chained c [] = True"
| "chained c ((p, b) # bs) =
     (branch_at c p = Some (b, of_nat (link bs)) \<and> even p \<and> p + branch_size b \<le> length c
      \<and> (\<forall>(q, d) \<in> set bs. q + branch_size d \<le> p) \<and> chained c bs)"

lemma branch_at_cong:
  assumes "branch_at c p = Some (b, d)" and "\<And>i. p \<le> i \<Longrightarrow> i < p + branch_size b \<Longrightarrow> c' ! i = c ! i"
  shows "branch_at c' p = Some (b, d)"
proof (cases "IsCInstruction (get16 c p)")
  case True
  with assms(1) have b: "branch16 (get16 c p) = Some (b, d)" by (simp add: branch_at_def)
  then have "branch_size b = 2" by (auto simp: branch16_def split: if_splits)
  with assms(2) have "get16 c' p = get16 c p" by (simp add: get16_def)
  with True b show ?thesis by (simp add: branch_at_def)
next
  case False
  with assms(1) have b: "branch32 (get32 c p) = Some (b, d)" by (simp add: branch_at_def)
  then have "branch_size b = 4" by (auto simp: branch32_def split: if_splits)
  with assms(2) have "get32 c' p = get32 c p" by (simp add: get32_def)
  with False b show ?thesis by (simp add: branch_at_def get16_get32)
qed

lemma chained_cong:
  "chained c bs \<Longrightarrow> \<forall>(p, b) \<in> set bs. p + branch_size b \<le> n \<Longrightarrow> (\<And>i. i < n \<Longrightarrow> c' ! i = c ! i) \<Longrightarrow>
    n \<le> length c' \<Longrightarrow> chained c' bs"
proof (induction bs)
  case (Cons x bs)
  then show ?case by (cases x) (auto intro!: branch_at_cong [of c])
qed simp

lemma link_small: "chained c bs \<Longrightarrow> length c < 2 ^ 31 - 8 \<Longrightarrow> link bs < 2 ^ 31"
  by (cases bs rule: link.cases) auto


text \<open>The loop resolves the whole chain.\<close>

lemma bind_loop_resolves:
  assumes "chained (code a) bs" and "label_position a l = of_nat (link bs)" and "length (code a) \<le> t" and "even t"
    and "t < 2 ^ 31 - 8" and "\<forall>(p, b) \<in> set bs. reaches b (of_nat (t - p))" and "length bs < n"
  shows "\<exists>c. bind_loop n l (of_nat t) a = Inr ((), a\<lparr>code := c, label_position := (label_position a)(l := 0)\<rparr>)
    \<and> length c = length (code a) \<and> (\<forall>(p, b) \<in> set bs. branch_at c p = Some (b, of_nat (t - p)))
    \<and> (\<forall>i. (\<forall>(p, b) \<in> set bs. i < p \<or> p + branch_size b \<le> i) \<longrightarrow> c ! i = code a ! i)"
  using assms
proof (induction bs arbitrary: a n)
  case Nil
  then show ?case
    by (cases n) (auto simp: IsLinked_def ret_def fun_upd_idem intro!: exI [of _ "code a"])
next
  case (Cons x bs)
  obtain p b where x: "x = (p, b)" by (cases x)
  obtain m where n: "n = Suc m" "length bs < m" using Cons.prems(7) by (cases n) auto
  have c: "branch_at (code a) p = Some (b, of_nat (link bs))" "even p" "p + branch_size b \<le> length (code a)"
      "\<forall>(q, d) \<in> set bs. q + branch_size d \<le> p" "chained (code a) bs"
    using Cons.prems(1) x by auto
  have l: "label_position a l = of_nat (p + 8)" using Cons.prems(2) x by simp
  have q: "link bs < 2 ^ 31" using link_small [OF c(5)] Cons.prems(3,5) by simp
  have "branch_size b \<noteq> 0" by (cases b) simp_all
  with c(3) Cons.prems(3) have pt: "p < t" by simp
  obtain c1 where s: "bind_step l (of_nat t) a = Inr ((), a\<lparr>code := c1, label_position := (label_position a)(l := of_nat (link bs))\<rparr>)"
    "length c1 = length (code a)" "branch_at c1 p = Some (b, of_nat (t - p))"
    "\<forall>i. i < p \<or> p + branch_size b \<le> i \<longrightarrow> c1 ! i = code a ! i"
  proof (rule bind_step_patches [OF c(1) l _ c(3) pt c(2) Cons.prems(4)])
    show "reaches b (of_nat (t - p))" using Cons.prems(6) x by simp
  qed (use Cons.prems(3,5) q in auto)
  let ?a = "a\<lparr>code := c1, label_position := (label_position a)(l := of_nat (link bs))\<rparr>"
  have "chained (code ?a) bs"
    using chained_cong [OF c(5) c(4), of c1] s(2,4) c(3) by simp
  then have "\<exists>c. bind_loop m l (of_nat t) ?a = Inr ((), ?a\<lparr>code := c, label_position := (label_position ?a)(l := 0)\<rparr>)
    \<and> length c = length (code ?a) \<and> (\<forall>(p, b) \<in> set bs. branch_at c p = Some (b, of_nat (t - p)))
    \<and> (\<forall>i. (\<forall>(p, b) \<in> set bs. i < p \<or> p + branch_size b \<le> i) \<longrightarrow> c ! i = code ?a ! i)"
    by (rule Cons.IH) (use Cons.prems(3-6) s(2) n(2) in auto)
  then obtain c2 where i:
    "bind_loop m l (of_nat t) ?a = Inr ((), a\<lparr>code := c2, label_position := (label_position a)(l := 0)\<rparr>)"
    "length c2 = length c1" "\<forall>(p, b) \<in> set bs. branch_at c2 p = Some (b, of_nat (t - p))"
    "\<forall>i. (\<forall>(p, b) \<in> set bs. i < p \<or> p + branch_size b \<le> i) \<longrightarrow> c2 ! i = c1 ! i"
    by (simp del: split_paired_All) blast
  have "IsLinked (label_position a l)" using label_linked(1) [of "p + 8"] l c(3) Cons.prems(3,5) by simp
  then have r: "bind_loop n l (of_nat t) a = Inr ((), a\<lparr>code := c2, label_position := (label_position a)(l := 0)\<rparr>)"
    using s(1) i(1) by (simp add: n andthen_Inr)
  have len: "length c2 = length (code a)" using i(2) s(2) by simp
  have "c2 ! i = c1 ! i" if "p \<le> i" for i
  proof -
    have "\<forall>(q, d) \<in> set bs. i < q \<or> q + branch_size d \<le> i" using c(4) that by (auto intro: order_trans)
    with i(4) show ?thesis by blast
  qed
  then have "branch_at c2 p = Some (b, of_nat (t - p))" using branch_at_cong [OF s(3)] by simp
  with i(3) x have br: "\<forall>(p, b) \<in> set (x # bs). branch_at c2 p = Some (b, of_nat (t - p))" by simp
  have same: "\<forall>i. (\<forall>(p, b) \<in> set (x # bs). i < p \<or> p + branch_size b \<le> i) \<longrightarrow> c2 ! i = code a ! i"
    using i(4) s(4) x by auto
  from r len br same show ?case by blast
qed

section \<open>Emitting branches to an unbound label\<close>

text \<open>What a client emits between the first use of a label and \<open>Bind\<close>: branches to the label,
  and other code.\<close>

datatype piece = To rv_branch | Other "8 word list"

fun emit_branch :: "nat \<Rightarrow> rv_branch \<Rightarrow> asm" where
  "emit_branch l (Branch rs1 rs2 f) = EmitBranch_label rs1 rs2 l f"
| "emit_branch l (Jump rd) = EmitJump_label rd l JAL"
| "emit_branch l (CBranch opc r) = EmitCBranch_label r l opc"
| "emit_branch l (CJump opc) = EmitCJump_label l opc"

fun emit_piece :: "nat \<Rightarrow> piece \<Rightarrow> asm" where
  "emit_piece l (To b) = emit_branch l b"
| "emit_piece l (Other bytes) = (\<lambda>a. Inr ((), a\<lparr>code := code a @ bytes\<rparr>))"

text \<open>The opcodes of compressed branches and whole parcels.\<close>

fun proper_piece :: "piece \<Rightarrow> bool" where
  "proper_piece (To (CBranch opc _)) = (opc \<in> {C_BEQZ, C_BNEZ})"
| "proper_piece (To (CJump opc)) = (opc = C_J)"
| "proper_piece (To _) = True"
| "proper_piece (Other bytes) = even (length bytes)"

fun piece_size :: "piece \<Rightarrow> nat" where
  "piece_size (To b) = branch_size b"
| "piece_size (Other bytes) = length bytes"

text \<open>The branches of the pieces with their positions, last first.\<close>

fun branches_from :: "nat \<Rightarrow> piece list \<Rightarrow> (nat \<times> rv_branch) list" where
  "branches_from n [] = []"
| "branches_from n (x # xs) =
     branches_from (n + piece_size x) xs @ (case x of To b \<Rightarrow> [(n, b)] | Other _ \<Rightarrow> [])"


lemma length_code_emit: "branch_at c p = Some (b, d) \<Longrightarrow> c' = c @ bs \<Longrightarrow> p + branch_size b \<le> length c \<Longrightarrow>
    branch_at c' p = Some (b, d)"
  by (rule branch_at_cong) (auto simp: nth_append)

lemma get_at_end:
  "get32 (c @ bytes32 w) (length c) = w" "get16 (c @ bytes16 h) (length c) = h"
  by (simp_all add: get32_def get16_def bytes32_def bytes16_def nth_append join32 join16)

lemma emit32_branch:
  "branch32 w = Some (b, d) \<Longrightarrow> branch_at (c @ bytes32 w) (length c) = Some (b, d)"
  using branch32_not_compressed by (simp add: branch_at_def get16_get32 get_at_end)

lemma emit16_branch:
  "branch16 h = Some (b, d) \<Longrightarrow> branch_at (c @ bytes16 h) (length c) = Some (b, d)"
  using branch16_compressed by (simp add: branch_at_def get_at_end)

text \<open>Emitting a branch to an unbound label appends it with the old link and links the label to it.\<close>

lemma emit_branch_links:
  assumes "emit_branch l b a = Inr ((), a')" and "\<not> IsBound (label_position a l)" and "proper_piece (To b)"
  shows "\<exists>bs. code a' = code a @ bs \<and> length bs = branch_size b
    \<and> branch_at (code a') (length (code a)) = Some (b, label_position a l)
    \<and> label_position a' = (label_position a)(l := of_nat (length (code a) + 8))"
proof -
  have link: "branch_offset l a = Inr (q, a1) \<Longrightarrow> q = label_position a l \<and>
      a1 = a\<lparr>label_position := (label_position a)(l := of_nat (length (code a) + 8))\<rparr>" for q a1
    using assms(2) by (auto simp: branch_offset_def LinkTo_def andthen_def bnd_def ASSERT_def set_label_def
        ret_def throw_def Position_def kWordSize_def split: if_splits)
  show ?thesis
  proof (cases b)
    case (Branch rs1 rs2 f)
    with assms(1) obtain e where e: "EncodeBTypeImm (label_position a l) = Inr e" "rs1 < 32" "rs2 < 32" "f AND 7 = f"
      and a': "code a' = code a @ bytes32 (e OR push_bit 20 rs2 OR push_bit 15 rs1 OR push_bit 12 f OR BRANCH)"
        "label_position a' = (label_position a)(l := of_nat (length (code a) + 8))"
      by (auto simp: EmitBranch_label_def EmitBType_def Emit32_def lift_res_def or_all_Inr EncodeRs1_def EncodeRs2_def
          EncodeFunct3_def EncodeOpcode_def encoders_Inr bnd_def dest!: link split: sum.splits)
    with emit32_branch [OF encode_branch [OF e]] Branch show ?thesis by auto
  next
    case (Jump rd)
    with assms(1) obtain e where e: "EncodeJTypeImm (label_position a l) = Inr e" "rd < 32"
      and a': "code a' = code a @ bytes32 (e OR push_bit 7 rd OR JAL)"
        "label_position a' = (label_position a)(l := of_nat (length (code a) + 8))"
      by (auto simp: EmitJump_label_def EmitJType_def Emit32_def lift_res_def or_all_Inr EncodeRd_def
          EncodeOpcode_def encoders_Inr bnd_def dest!: link split: sum.splits)
    with emit32_branch [OF encode_jump [OF e]] Jump show ?thesis by auto
  next
    case (CBranch opc r)
    with assms(1) obtain e where e: "EncodeCBImm (label_position a l) = Inr e" "is_reg_prime r"
      and a': "code a' = code a @ bytes16 (ucast (opc OR push_bit 7 (r AND 7) OR e))"
        "label_position a' = (label_position a)(l := of_nat (length (code a) + 8))"
      by (auto simp: EmitCBranch_label_def Emit16_def lift_res_def or_all_Inr EncodeCRs1p_def
          encoders_Inr bnd_def dest!: link split: sum.splits)
    with emit16_branch [OF encode_cbranch [OF e]] CBranch assms(3) show ?thesis by auto
  next
    case (CJump opc)
    with assms(1) obtain e where e: "EncodeCJImm (label_position a l) = Inr e"
      and a': "code a' = code a @ bytes16 (ucast (opc OR e))"
        "label_position a' = (label_position a)(l := of_nat (length (code a) + 8))"
      by (auto simp: EmitCJump_label_def Emit16_def lift_res_def or_all_Inr bnd_def dest!: link split: sum.splits)
    with emit16_branch [OF encode_cjump [OF e]] CJump assms(3) show ?thesis by auto
  qed
qed


text \<open>Emitting pieces keeps the chain: every branch to the label joins it.\<close>

definition ends_within :: "8 word list \<Rightarrow> (nat \<times> rv_branch) list \<Rightarrow> bool" where
  "ends_within c bs \<longleftrightarrow> (\<forall>(p, b) \<in> set bs. p + branch_size b \<le> length c)"

lemma emit_pieces_length:
  "for_each xs (emit_piece l) a = Inr ((), a') \<Longrightarrow> list_all proper_piece xs \<Longrightarrow> \<not> IsBound (label_position a l) \<Longrightarrow>
    length (code a) + sum_list (map piece_size xs) < 2 ^ 31 \<Longrightarrow>
    length (code a') = length (code a) + sum_list (map piece_size xs)"
proof (induction xs arbitrary: a)
  case Nil
  then show ?case by (simp add: ret_def)
next
  case (Cons x xs)
  from Cons.prems(1) obtain a1 where a1: "emit_piece l x a = Inr ((), a1)" "for_each xs (emit_piece l) a1 = Inr ((), a')"
    by (auto elim!: andthen_InrE)
  show ?case
  proof (cases x)
    case (To b)
    with emit_branch_links [of l b a a1] a1(1) Cons.prems obtain bs where
      "code a1 = code a @ bs" "length bs = branch_size b" "label_position a1 l = of_nat (length (code a) + 8)"
      by auto
    with Cons.IH [OF a1(2)] Cons.prems To label_linked(2) [of "length (code a) + 8"] show ?thesis by simp
  next
    case (Other bytes)
    with a1(1) have "code a1 = code a @ bytes" "label_position a1 = label_position a" by auto
    with Cons.IH [OF a1(2)] Cons.prems Other show ?thesis by simp
  qed
qed

lemma emit_pieces_chain:
  assumes "for_each xs (emit_piece l) a = Inr ((), a')" and "list_all proper_piece xs"
    and "chained (code a) bs" and "ends_within (code a) bs" and "label_position a l = of_nat (link bs)"
    and "even (length (code a))" and "length (code a) + sum_list (map piece_size xs) < 2 ^ 31 - 8"
  shows "chained (code a') (branches_from (length (code a)) xs @ bs)
    \<and> ends_within (code a') (branches_from (length (code a)) xs @ bs)
    \<and> label_position a' l = of_nat (link (branches_from (length (code a)) xs @ bs)) \<and> even (length (code a'))"
  using assms
proof (induction xs arbitrary: a bs)
  case Nil
  then show ?case by (simp add: ret_def)
next
  case (Cons x xs)
  from Cons.prems(1) obtain a1 where a1: "emit_piece l x a = Inr ((), a1)" "for_each xs (emit_piece l) a1 = Inr ((), a')"
    by (auto elim!: andthen_InrE)
  have "link bs < 2 ^ 31" using link_small [OF Cons.prems(3)] Cons.prems(7) by simp
  with label_linked(2) [of "link bs"] Cons.prems(5) have unbound: "\<not> IsBound (label_position a l)" by simp
  let ?bs = "case x of To b \<Rightarrow> (length (code a), b) # bs | Other _ \<Rightarrow> bs"
  have "chained (code a1) ?bs \<and> ends_within (code a1) ?bs \<and> label_position a1 l = of_nat (link ?bs)
      \<and> even (length (code a1)) \<and> length (code a1) = length (code a) + piece_size x"
  proof (cases x)
    case (To b)
    have even: "even (branch_size b)" by (cases b) simp_all
    from To emit_branch_links [of l b a a1] a1(1) Cons.prems(2) unbound obtain bytes where e:
      "code a1 = code a @ bytes" "length bytes = branch_size b"
      "branch_at (code a1) (length (code a)) = Some (b, label_position a l)"
      "label_position a1 l = of_nat (length (code a) + 8)"
      by auto
    have "chained (code a1) bs"
      using chained_cong [OF Cons.prems(3), of "length (code a)" "code a1"] Cons.prems(4) e(1)
      by (simp add: ends_within_def nth_append)
    with To e Cons.prems(4-6) even show ?thesis by (auto simp: ends_within_def)
  next
    case (Other bytes)
    with a1(1) have e: "code a1 = code a @ bytes" "label_position a1 = label_position a" by auto
    have "chained (code a1) bs"
      using chained_cong [OF Cons.prems(3), of "length (code a)" "code a1"] Cons.prems(4) e(1)
      by (simp add: ends_within_def nth_append)
    with Other e Cons.prems(2,4-6) show ?thesis by (auto simp: ends_within_def)
  qed
  then have s: "chained (code a1) ?bs" "ends_within (code a1) ?bs" "label_position a1 l = of_nat (link ?bs)"
    "even (length (code a1))" "length (code a1) = length (code a) + piece_size x" by blast+
  have "chained (code a') (branches_from (length (code a1)) xs @ ?bs)
    \<and> ends_within (code a') (branches_from (length (code a1)) xs @ ?bs)
    \<and> label_position a' l = of_nat (link (branches_from (length (code a1)) xs @ ?bs)) \<and> even (length (code a'))"
    by (rule Cons.IH [OF a1(2) _ s(1-4)]) (use Cons.prems(2,7) s(5) in auto)
  then show ?case by (cases x) (simp_all add: s(5))
qed

lemma length_branches_from: "length (branches_from n xs) \<le> sum_list (map piece_size xs)"
proof (induction xs arbitrary: n)
  case (Cons x xs)
  show ?case
  proof (cases x)
    case (To b)
    have "1 \<le> branch_size b" by (cases b) simp_all
    with Cons.IH [of "n + piece_size x"] To show ?thesis by simp
  next
    case (Other bytes)
    with Cons.IH [of "n + piece_size x"] show ?thesis by simp
  qed
qed simp

lemma bound_label:
  assumes "n < 2 ^ 31"
  shows "IsBound (- of_nat n - kWordSize)" and "\<not> IsUnused (- of_nat n - kWordSize)"
proof -
  have "(- of_nat n - kWordSize :: intptr) = of_int (- int n - 8)" by (simp add: kWordSize_def)
  moreover have "sint (of_int (- int n - 8) :: intptr) = - int n - 8"
    unfolding signed_of_int using assms by (subst signed_take_bit_int_eq_self) auto
  ultimately have "sint (- of_nat n - kWordSize :: intptr) = - int n - 8" by simp
  then show "IsBound (- of_nat n - kWordSize)" "\<not> IsUnused (- of_nat n - kWordSize)"
    by (auto simp: IsBound_def IsUnused_def word_sless_alt)
qed

lemma BindTo_binds:
  assumes "label_position a l = 0" and "n < 2 ^ 31"
  obtains a' where "BindTo l (of_nat n) a = Inr ((), a')" and "IsBound (label_position a' l)"
    and "label_pos l a' = Inr (of_nat n, a')" and "code a' = code a"
proof -
  let ?a = "a\<lparr>label_position := (label_position a)(l := - of_nat n - kWordSize)\<rparr>"
  have "BindTo l (of_nat n) a = Inr ((), ?a)"
    using assms bound_label [of n]
    by (simp add: BindTo_def andthen_def bnd_def ASSERT_def ret_def set_label_def IsBound_def [of 0])
  then show thesis
    using bound_label [OF assms(2)] by (intro that [of ?a]) (simp_all add: label_pos_def)
qed

section \<open>Property\<close>

text \<open>C19: every branch and jump emitted to a label, 16-bit or 32-bit, before \<open>Bind\<close> reaches the position
  where the label is bound: \<open>Bind\<close> terminates without a failed assertion when each distance fits its
  branch, keeps the registers and function codes of the branches and every other byte, and binds the label.\<close>

theorem bind_resolves_branches:
  assumes "label_position a l = 0" and "even (length (code a))" and "list_all proper_piece xs"
    and "for_each xs (emit_piece l) a = Inr ((), a1)" and "length (code a) + sum_list (map piece_size xs) < 2 ^ 31 - 8"
    and "\<forall>(p, b) \<in> set (branches_from (length (code a)) xs). reaches b (of_nat (length (code a1) - p))"
  shows "\<exists>a2. Bind l a1 = Inr ((), a2) \<and> IsBound (label_position a2 l)
    \<and> label_pos l a2 = Inr (of_nat (length (code a1)), a2) \<and> length (code a2) = length (code a1)
    \<and> (\<forall>(p, b) \<in> set (branches_from (length (code a)) xs).
         branch_at (code a2) p = Some (b, of_nat (length (code a1) - p)))
    \<and> (\<forall>i. (\<forall>(p, b) \<in> set (branches_from (length (code a)) xs). i < p \<or> p + branch_size b \<le> i)
         \<longrightarrow> code a2 ! i = code a1 ! i)"
proof -
  let ?n = "length (code a1)" and ?bs = "branches_from (length (code a)) xs"
  have n: "?n = length (code a) + sum_list (map piece_size xs)"
    using emit_pieces_length [OF assms(4,3)] assms(1,5) by (simp add: IsBound_def)
  have c: "chained (code a1) ?bs" "label_position a1 l = of_nat (link ?bs)" "even ?n"
    using emit_pieces_chain [OF assms(4,3), of "[]"] assms(1,2,5) by (simp_all add: ends_within_def)
  have "length ?bs < ?n + 1" using length_branches_from [of "length (code a)" xs] n by simp
  moreover have "?n < 2 ^ 31 - 8" using assms(5) n by simp
  ultimately obtain c2 where
    r: "bind_loop (?n + 1) l (of_nat ?n) a1 = Inr ((), a1\<lparr>code := c2, label_position := (label_position a1)(l := 0)\<rparr>)"
    and c2: "length c2 = ?n" "\<forall>(p, b) \<in> set ?bs. branch_at c2 p = Some (b, of_nat (?n - p))"
      "\<forall>i. (\<forall>(p, b) \<in> set ?bs. i < p \<or> p + branch_size b \<le> i) \<longrightarrow> c2 ! i = code a1 ! i"
    using bind_loop_resolves [OF c(1,2) le_refl c(3) _ assms(6)] by blast
  let ?a = "a1\<lparr>code := c2, label_position := (label_position a1)(l := 0)\<rparr>"
  obtain a2 where a2: "BindTo l (of_nat ?n) ?a = Inr ((), a2)" "IsBound (label_position a2 l)"
    "label_pos l a2 = Inr (of_nat ?n, a2)" "code a2 = c2"
    using BindTo_binds [of ?a l ?n] assms(5) n by auto
  have "\<not> IsBound (label_position a1 l)"
    using label_linked(2) [of "link ?bs"] link_small [OF c(1)] assms(5) n c(2) by simp
  with r a2(1) have "Bind l a1 = Inr ((), a2)"
    by (simp add: Bind_def andthen_def bnd_def ASSERT_def ret_def Position_def del: bind_loop.simps)
  with a2 c2 show ?thesis by blast
qed

text \<open>Two branches and a jump to the label, with code between them, then the label.\<close>

definition sample_pieces :: "piece list" where
  "sample_pieces = [To (Branch 10 11 1), Other [0, 0], To (CBranch C_BEQZ 8), To (Jump 0)]"

text \<open>What each branch is encoded to, with a given offset or link.\<close>

fun encoding :: "rv_branch \<Rightarrow> intptr \<Rightarrow> 32 word res" where
  "encoding (Branch rs1 rs2 f) d = or_all [EncodeBTypeImm d, EncodeRs2 rs2, EncodeRs1 rs1, EncodeFunct3 f,
     EncodeOpcode BRANCH]"
| "encoding (Jump rd) d = or_all [EncodeJTypeImm d, EncodeRd rd, EncodeOpcode JAL]"
| "encoding (CBranch opc r) d = or_all [Inr opc, EncodeCRs1p r, EncodeCBImm d]"
| "encoding (CJump opc) d = or_all [Inr opc, EncodeCJImm d]"

lemma emits:
  assumes "label_position a l = of_nat q" and "q < 2 ^ 31" and "length (code a) < 2 ^ 30" and "encoding b (of_nat q) = Inr w"
  obtains a' where "emit_branch l b a = Inr ((), a')" and "length (code a') = length (code a) + branch_size b"
    and "label_position a' l = of_nat (length (code a) + 8)"
proof -
  have l: "\<not> IsBound (of_nat q)" "IsLinked (of_nat (length (code a) + 8))"
    using label_linked(2) [of q] label_linked(1) [of "length (code a) + 8"] assms(2,3) by simp_all
  let ?a = "a\<lparr>label_position := (label_position a)(l := of_nat (length (code a) + 8))\<rparr>"
  have b: "branch_offset l a = Inr (of_nat q, ?a)"
    using l assms(1)
    by (simp add: branch_offset_def LinkTo_def andthen_def bnd_def ASSERT_def set_label_def ret_def Position_def kWordSize_def)
  show thesis
  proof (cases "branch_size b = 4")
    case True
    with assms(4) have "emit_branch l b a = Inr ((), ?a\<lparr>instructions32 := instructions32 ?a + 1, code := code ?a @ bytes32 w\<rparr>)"
      by (cases b) (simp_all add: EmitBranch_label_def EmitJump_label_def EmitBType_def EmitJType_def Emit32_def
          b bnd_def lift_res_def del: or_all.simps)
    from that [OF this] True show thesis by simp
  next
    case False
    with assms(4) have "emit_branch l b a = Inr ((), ?a\<lparr>instructions16 := instructions16 ?a + 1, code := code ?a @ bytes16 (ucast w)\<rparr>)"
      by (cases b) (simp_all add: EmitCBranch_label_def EmitCJump_label_def Emit16_def
          b bnd_def lift_res_def del: or_all.simps)
    from that [OF this] False show thesis by (cases b) simp_all
  qed
qed

lemma bind_resolves_branches_witness:
  "\<exists>a1 a2. for_each sample_pieces (emit_piece 0) (Assembler RV_GC) = Inr ((), a1) \<and> Bind 0 a1 = Inr ((), a2)
     \<and> branch_at (code a2) 0 = Some (Branch 10 11 1, 12) \<and> branch_at (code a2) 6 = Some (CBranch C_BEQZ 8, 6)
     \<and> branch_at (code a2) 8 = Some (Jump 0, 4)"
proof -
  let ?a = "Assembler RV_GC"
  have r: "IsBTypeImm 0" "IsCBImm 8" "IsJTypeImm 14" "is_reg_prime 8"
    by (simp_all add: rv_codes IsInt_def IsAligned_def word_sle_eq word_sless_alt is_reg_prime_def)
  have e: "\<exists>w. encoding (Branch 10 11 1) 0 = Inr w" "\<exists>w. encoding (CBranch C_BEQZ 8) 8 = Inr w"
    "\<exists>w. encoding (Jump 0) 14 = Inr w"
    using r by (simp_all add: EncodeBTypeImm_def EncodeCBImm_def EncodeJTypeImm_def EncodeRs1_def EncodeRs2_def
        EncodeRd_def EncodeFunct3_def EncodeOpcode_def EncodeCRs1p_def encode_reg_def encode_reg_prime_def
        encode_funct_def check_def rv_consts)
  obtain a1 where a1: "emit_branch 0 (Branch 10 11 1) ?a = Inr ((), a1)" "length (code a1) = 4"
    "label_position a1 0 = of_nat 8"
    using emits [of ?a 0 0 "Branch 10 11 1"] e by (auto simp: Assembler_def)
  let ?a2 = "a1\<lparr>code := code a1 @ [0, 0]\<rparr>"
  obtain a3 where a3: "emit_branch 0 (CBranch C_BEQZ 8) ?a2 = Inr ((), a3)" "length (code a3) = 8"
    "label_position a3 0 = of_nat 14"
    using emits [of ?a2 0 8 "CBranch C_BEQZ 8"] e a1 by auto
  obtain a4 where a4: "emit_branch 0 (Jump 0) a3 = Inr ((), a4)" "length (code a4) = 12"
    using emits [of a3 0 14 "Jump 0"] e a3 by auto
  have a1: "for_each sample_pieces (emit_piece 0) ?a = Inr ((), a4)" "length (code a4) = 12"
    using a1 a3 a4 by (simp_all add: sample_pieces_def andthen_def bnd_def ret_def del: emit_branch.simps)
  have pieces: "list_all proper_piece sample_pieces" "sum_list (map piece_size sample_pieces) = 12"
    "branches_from 0 sample_pieces = [(8, Jump 0), (6, CBranch C_BEQZ 8), (0, Branch 10 11 1)]"
    by code_simp+
  have reach: "\<forall>(p, b) \<in> set (branches_from 0 sample_pieces). reaches b (of_nat (12 - p))"
    unfolding pieces(3)
    by (simp add: rv_codes IsInt_def IsAligned_def word_sle_eq word_sless_alt)
  from bind_resolves_branches [of ?a 0 sample_pieces a4] a1 pieces(1,2) reach obtain a2 where
    "Bind 0 a4 = Inr ((), a2)" "\<forall>(p, b) \<in> set (branches_from 0 sample_pieces). branch_at (code a2) p = Some (b, of_nat (12 - p))"
    by (auto simp: Assembler_def)
  with a1(1) pieces(3) show ?thesis by auto
qed

end
