(* ===== verification/Riscv_Align.thy ===== *)
theory Riscv_Align
  imports Riscv_Bind
begin

text \<open>
  Alignment of the code position (\<open>Assembler::Align\<close>, \<open>riscv64-assembler.cpp\<close>): the loops
  pad by the misalignment itself, not by what is missing to the next multiple.
\<close>

lemma Emit_length:
  "\<exists>b. Emit32 (Inr w) a = Inr ((), b) \<and> code b = code a @ bytes32 w"
  "\<exists>b. Emit16 (Inr w) a = Inr ((), b) \<and> code b = code a @ bytes16 (ucast w)"
  by (simp_all add: Emit32_def Emit16_def bnd_def lift_res_def)

text \<open>A loop of \<open>Align\<close> with an instruction of \<open>n\<close> bytes.\<close>

lemma pad_loop_pads:
  assumes n: "n \<noteq> 0" and e: "\<And>a. \<exists>b p. emit a = Inr ((), b) \<and> code b = code a @ p \<and> length p = unat n"
  shows "\<exists>b p. pad_loop m n emit a = Inr (m mod n, b) \<and> code b = code a @ p \<and> length p = unat (m - m mod n)"
proof (induction "unat m" arbitrary: m a rule: less_induct)
  case less
  show ?case
  proof (cases "n \<le> m")
    case False
    then have "m mod n = m" "m div n = 0" by (simp_all add: not_le mod_word_less div_word_less)
    then show ?thesis by (subst pad_loop.simps) (simp add: ret_def)
  next
    case True
    then have u: "unat (m - n) = unat m - unat n" by (rule unat_sub)
    have n0: "0 < unat n" using n by (simp add: unat_gt_0)
    have nm: "unat n \<le> unat m" using True by (simp add: word_le_nat_alt)
    have less: "unat (m - n) < unat m" using u n0 nm by linarith
    have "unat (m div n) \<noteq> 0" using n0 nm by (simp add: unat_div_distrib div_eq_0_iff)
    then have d: "m div n \<noteq> 0" by auto
    have "unat ((m - n) mod n) = unat (m mod n)"
      using nm by (simp add: unat_mod_distrib u le_mod_geq)
    then have md: "(m - n) mod n = m mod n" by (simp add: word_unat_eq_iff)
    obtain b p where b: "emit a = Inr ((), b)" "code b = code a @ p" "length p = unat n" using e by blast
    from less.hyps [OF less, of b] obtain b' q where q: "pad_loop (m - n) n emit b = Inr (m mod n, b')"
      "code b' = code b @ q" "length q = unat (m - n - m mod n)" unfolding md by blast
    have "m mod n \<le> m - n"
      using less nm by (simp add: word_le_nat_alt unat_mod_distrib u) (metis le_mod_geq mod_less_eq_dividend)
    then have "unat (m - n - m mod n) = unat m - unat n - unat (m mod n)" "unat (m - m mod n) = unat m - unat (m mod n)"
      using u nm unat_sub [of "m mod n" "m - n"] unat_sub [of "m mod n" m] by (simp_all add: word_le_nat_alt unat_mod_distrib)
    moreover have "unat (m mod n) \<le> unat m - unat n" using \<open>m mod n \<le> m - n\<close> u by (simp add: word_le_nat_alt)
    ultimately have "length (p @ q) = unat (m - m mod n)" using b(3) q(3) nm by simp
    moreover have "pad_loop m n emit a = Inr (m mod n, b')"
      using n d b(1) q(1) by (subst pad_loop.simps) (simp add: andthen_def bnd_def)
    ultimately show ?thesis using b(2) q(2) by auto
  qed
qed

lemma word_below:
  fixes m :: "64 word"
  assumes "unat m < n"
  shows "m \<in> set (map of_nat [0..<n])"
proof -
  have "of_nat (unat m) = m" by simp
  then show ?thesis using assms by (metis atLeastLessThan_iff image_eqI set_map set_upt zero_le)
qed

text \<open>Both loops together pad an even misalignment by itself.\<close>

lemma even_parts:
  fixes m :: "64 word"
  assumes "m < 16" "m AND 1 = 0"
  shows "m mod 4 mod 2 = 0" "unat (m - m mod 4) + unat (m mod 4 - m mod 4 mod 2) = unat m"
proof -
  have "m \<in> set (map of_nat [0..<16])" by (rule word_below) (use assms(1) in \<open>simp add: word_less_nat_alt\<close>)
  then show "m mod 4 mod 2 = 0" "unat (m - m mod 4) + unat (m mod 4 - m mod 4 mod 2) = unat m"
    using assms(2) by (auto simp: upt_rec)
qed

lemma aligned_after:
  fixes x m :: "64 word"
  assumes al: "al \<in> {4, 8, 16}" and m: "m = x AND (al - 1)"
  shows "IsAligned (x + m) al \<longleftrightarrow> m \<in> {0, al div 2}"
proof -
  have sum: "take_bit k (x + take_bit k x) = take_bit k (take_bit k x + take_bit k x)" if "k \<le> 64" for k
  proof -
    have "take_bit k ((i + j) mod 2 ^ 64) = take_bit k (take_bit k i + take_bit k j)" for i j :: int
      using that unfolding take_bit_eq_mod [of 64, symmetric] take_bit_take_bit by (simp add: take_bit_add min_def)
    then have add: "take_bit k (uint (y + z)) = take_bit k (take_bit k (uint y) + take_bit k (uint z))" for y z :: "64 word"
      by (simp add: uint_word_ariths(1))
    have "take_bit k (uint (x + take_bit k x)) = take_bit k (uint (take_bit k x + take_bit k x))"
      unfolding add by (simp only: unsigned_take_bit_eq take_bit_take_bit min.idem)
    then show ?thesis by (simp add: word_uint_eq_iff unsigned_take_bit_eq)
  qed
  have k: "x AND 3 = take_bit 2 x" "x AND 7 = take_bit 3 x" "x AND 15 = take_bit 4 x" for x :: "64 word"
    by (simp_all add: take_bit_eq_mask mask_eq_exp_minus_1)
  have below: "take_bit 2 x \<in> set (map of_nat [0..<4])" "take_bit 3 x \<in> set (map of_nat [0..<8])"
    "take_bit 4 x \<in> set (map of_nat [0..<16])"
    using take_bit_nat_less_exp [of 2 "unat x"] take_bit_nat_less_exp [of 3 "unat x"] take_bit_nat_less_exp [of 4 "unat x"]
    by (intro word_below; simp add: unsigned_take_bit_eq)+
  have double: "y \<in> set (map of_nat [0..<4]) \<Longrightarrow> take_bit 2 (y + y) = 0 \<longleftrightarrow> y \<in> {0, 2}"
    "y \<in> set (map of_nat [0..<8]) \<Longrightarrow> take_bit 3 (y + y) = 0 \<longleftrightarrow> y \<in> {0, 4}"
    "y \<in> set (map of_nat [0..<16]) \<Longrightarrow> take_bit 4 (y + y) = 0 \<longleftrightarrow> y \<in> {0, 8}" for y :: "64 word"
    by (auto simp: upt_rec)
  from al consider "al = 4" | "al = 8" | "al = 16" by blast
  then show ?thesis
  proof cases
    case 1
    then show ?thesis using double(1) [OF below(1)] sum [of 2] by (simp add: m IsAligned_def k)
  next
    case 2
    then show ?thesis using double(2) [OF below(2)] sum [of 3] by (simp add: m IsAligned_def k)
  next
    case 3
    then show ?thesis using double(3) [OF below(3)] sum [of 4] by (simp add: m IsAligned_def k)
  qed
qed

text \<open>C25: \<open>Align\<close> to 4, 8 or 16, from an even position, pads by the misalignment, not by what is
  missing to the next multiple.  If the misalignment is 0 or half of the alignment, it succeeds with
  exactly that many bytes of padding and the position is aligned; at every other position (which for
  an alignment of 4 do not exist) it aborts on its own final assertion.\<close>

theorem align_pads_by_misalignment:
  assumes "al \<in> {4, 8, 16}" and "IsAligned (Position a) 2"
  shows "let m = Position a AND (al - 1) in
    if m \<in> {0, al div 2}
    then \<exists>a' p. Align_default al a = Inr ((), a') \<and> code a' = code a @ p \<and> length p = unat m \<and> IsAligned (Position a') al
    else Align_default al a = Inl (Assertion_failed ''IsAligned(Position(), alignByte)'')"
proof -
  let ?m = "Position a AND (al - 1)"
  have e32: "\<exists>b p. Emit32 (Inr 0b10011) a = Inr ((), b) \<and> code b = code a @ p \<and> length p = unat (4 :: 64 word)" for a
    using Emit_length(1) [of "0b10011" a] by auto
  have e16: "\<exists>b p. Emit16 (Inr 1) a = Inr ((), b) \<and> code b = code a @ p \<and> length p = unat (2 :: 64 word)" for a
    using Emit_length(2) [of 1 a] by auto
  have "?m = take_bit 2 (Position a) \<or> ?m = take_bit 3 (Position a) \<or> ?m = take_bit 4 (Position a)"
    using assms(1) by (auto simp: take_bit_eq_mask mask_eq_exp_minus_1)
  then have "unat ?m < 16"
    using take_bit_nat_less_exp [of 2 "unat (Position a)"] take_bit_nat_less_exp [of 3 "unat (Position a)"]
      take_bit_nat_less_exp [of 4 "unat (Position a)"]
    by (auto simp: unsigned_take_bit_eq)
  moreover have "?m AND 1 = 0"
  proof -
    have "Position a AND 1 = 0" using assms(2) by (simp add: IsAligned_def)
    then show ?thesis by (simp add: and.commute [of _ 1] and.left_commute [of _ 1] and.assoc [symmetric])
  qed
  ultimately have m: "?m < 16" "?m AND 1 = 0" by (simp_all add: word_less_nat_alt)
  obtain b p where b: "pad_loop ?m 4 (Emit32 (Inr 0b10011)) a = Inr (?m mod 4, b)" "code b = code a @ p"
    "length p = unat (?m - ?m mod 4)"
    using pad_loop_pads [of 4, OF _ e32, of ?m a] by auto
  obtain c q where c: "pad_loop (?m mod 4) 2 (Emit16 (Inr 1)) b = Inr (?m mod 4 mod 2, c)" "code c = code b @ q"
    "length q = unat (?m mod 4 - ?m mod 4 mod 2)"
    using pad_loop_pads [of 2, OF _ e16, of "?m mod 4" b] by auto
  have pq: "code c = code a @ (p @ q)" "length (p @ q) = unat ?m"
    using b c even_parts(2) [OF m] by simp_all
  have "Position c = Position a + of_nat (length (p @ q))" by (simp add: Position_def pq(1))
  then have pos: "Position c = Position a + ?m" unfolding pq(2) by simp
  have al16: "al \<le>s 16" using assms(1) by (auto simp: word_sle_eq)
  have run: "Align_default al a = (if IsAligned (Position c) al then Inr ((), c)
      else Inl (Assertion_failed ''IsAligned(Position(), alignByte)''))"
    using al16 b(1) c(1) by (simp add: Align_default_def Align_def ASSERT_def andthen_def bnd_def ret_def throw_def)
  have "IsAligned (Position c) al \<longleftrightarrow> ?m \<in> {0, al div 2}"
    unfolding pos by (rule aligned_after [OF assms(1) refl])
  then show ?thesis using run pq by (auto simp: Let_def)
qed

lemma align_pads_by_misalignment_witness:
  "Align_default 8 (Assembler RV_GC\<lparr>code := [0, 0]\<rparr>) = Inl (Assertion_failed ''IsAligned(Position(), alignByte)'')
   \<and> (\<exists>a' p. Align_default 4 (Assembler RV_GC\<lparr>code := [0, 0]\<rparr>) = Inr ((), a') \<and> code a' = [0, 0] @ p \<and> length p = 2)"
proof -
  let ?a = "Assembler RV_GC\<lparr>code := [0, 0]\<rparr>"
  have p: "Position ?a = 2" by (simp add: Position_def)
  have "IsAligned (Position ?a) 2" by (simp add: p IsAligned_def)
  from align_pads_by_misalignment [of 8, OF _ this] align_pads_by_misalignment [of 4, OF _ this] show ?thesis
    by (simp add: p) blast
qed

end
