(* ===== verification/Riscv_Compressed.thy ===== *)
theory Riscv_Compressed
  imports Riscv_Bind
begin

text \<open>
  The compressed instructions the assembler chooses when the target has them.  The reference
  is \<open>expand\<close>, the 32-bit instruction a 16-bit one stands for, and \<open>effect\<close>, what the
  instructions do that have more than one encoding.
\<close>

declare or_all.simps [simp del]

section \<open>What a compressed instruction stands for\<close>

definition rtype :: "32 word \<Rightarrow> reg \<Rightarrow> reg \<Rightarrow> 32 word \<Rightarrow> reg \<Rightarrow> 32 word \<Rightarrow> 32 word res" where
  "rtype funct7 rs2 rs1 funct3 rd opcode = or_all [EncodeFunct7 funct7, EncodeRs2 rs2,
     EncodeRs1 rs1, EncodeFunct3 funct3, EncodeRd rd, EncodeOpcode opcode]"

definition shtype :: "32 word \<Rightarrow> intptr \<Rightarrow> reg \<Rightarrow> 32 word \<Rightarrow> reg \<Rightarrow> 32 word \<Rightarrow> 32 word res" where
  "shtype funct7 shamt rs1 funct3 rd opcode = or_all [EncodeFunct7 funct7, EncodeShamt (ucast shamt),
     EncodeRs1 rs1, EncodeFunct3 funct3, EncodeRd rd, EncodeOpcode opcode]"

definition itype :: "intptr \<Rightarrow> reg \<Rightarrow> 32 word \<Rightarrow> reg \<Rightarrow> 32 word \<Rightarrow> 32 word res" where
  "itype imm rs1 funct3 rd opcode = or_all [EncodeITypeImm imm, EncodeRs1 rs1, EncodeFunct3 funct3,
     EncodeRd rd, EncodeOpcode opcode]"

definition stype :: "intptr \<Rightarrow> reg \<Rightarrow> reg \<Rightarrow> 32 word \<Rightarrow> 32 word \<Rightarrow> 32 word res" where
  "stype imm rs2 rs1 funct3 opcode = or_all [EncodeSTypeImm imm, EncodeRs2 rs2, EncodeRs1 rs1,
     EncodeFunct3 funct3, EncodeOpcode opcode]"

definition btype :: "intptr \<Rightarrow> reg \<Rightarrow> reg \<Rightarrow> 32 word \<Rightarrow> 32 word \<Rightarrow> 32 word res" where
  "btype imm rs2 rs1 funct3 opcode = or_all [EncodeBTypeImm imm, EncodeRs2 rs2, EncodeRs1 rs1,
     EncodeFunct3 funct3, EncodeOpcode opcode]"

definition utype :: "intptr \<Rightarrow> reg \<Rightarrow> 32 word \<Rightarrow> 32 word res" where
  "utype imm rd opcode = or_all [EncodeUTypeImm imm, EncodeRd rd, EncodeOpcode opcode]"

definition jtype :: "intptr \<Rightarrow> reg \<Rightarrow> 32 word \<Rightarrow> 32 word res" where
  "jtype imm rd opcode = or_all [EncodeJTypeImm imm, EncodeRd rd, EncodeOpcode opcode]"

definition reserved :: "32 word res" where
  "reserved = Inl (Undefined_behaviour ''reserved encoding'')"

text \<open>The arithmetic quadrant and the register-register quadrant.\<close>

definition expand_alu :: "32 word \<Rightarrow> 32 word res" where
  "expand_alu e =
     (let r = DecodeCRs1p e; s = DecodeCRs2p e; imm = DecodeCIImm e; alu = e AND C_MISCALU_MASK; rr = e AND 0xFC63 in
      if alu = C_SRLI then shtype F7_0 (imm AND 0x3F) r SRI r OPIMM
      else if alu = C_SRAI then shtype SRA (imm AND 0x3F) r SRI r OPIMM
      else if alu = C_ANDI then itype imm r ANDI r OPIMM
      else if rr = C_SUB then rtype SUB s r ADD r OP
      else if rr = C_XOR then rtype F7_0 s r XOR_f3 r OP
      else if rr = C_OR then rtype F7_0 s r OR_f3 r OP
      else if rr = C_AND then rtype F7_0 s r AND_f3 r OP
      else if rr = C_SUBW then rtype SUB s r ADD r OP32
      else if rr = C_ADDW then rtype F7_0 s r ADD r OP32
      else reserved)"

definition expand_cr :: "32 word \<Rightarrow> 32 word res" where
  "expand_cr e =
     (let rd = DecodeCRd e; s = DecodeCRs2 e in
      if \<not> bit e 12 then
        (if s = 0 then (if rd = 0 then reserved else itype 0 rd F3_0 ZERO JALR) else rtype F7_0 s ZERO ADD rd OP)
      else if s = 0 then
        (if rd = 0 then itype (ucast EBREAK) ZERO F3_0 ZERO SYSTEM else itype 0 rd F3_0 RA JALR)
      else rtype F7_0 s rd ADD rd OP)"

definition expand :: "16 word \<Rightarrow> 32 word res" where
  "expand h =
     (let e = ucast h; opc = C_opcode h; rd = DecodeCRd e; s = DecodeCRs2 e; rp = DecodeCRs1p e; p2 = DecodeCRdp e in
      if opc = C_ADDI4SPN then
        (if DecodeCI4SPNImm e = 0 then reserved else itype (DecodeCI4SPNImm e) SP ADDI p2 OPIMM)
      else if opc = C_FLD then itype (DecodeCMem8Imm e) rp D_f3 p2 LOADFP
      else if opc = C_LW then itype (DecodeCMem4Imm e) rp LW p2 LOAD
      else if opc = C_LD then itype (DecodeCMem8Imm e) rp LD p2 LOAD
      else if opc = C_FSD then stype (DecodeCMem8Imm e) p2 rp D_f3 STOREFP
      else if opc = C_SW then stype (DecodeCMem4Imm e) p2 rp SW STORE
      else if opc = C_SD then stype (DecodeCMem8Imm e) p2 rp SD STORE
      else if opc = C_ADDI then itype (DecodeCIImm e) rd ADDI rd OPIMM
      else if opc = C_ADDIW then (if rd = 0 then reserved else itype (DecodeCIImm e) rd ADDI rd OPIMM32)
      else if opc = C_LI then itype (DecodeCIImm e) ZERO ADDI rd OPIMM
      else if opc = C_LUI then
        (if rd = SP then (if DecodeCI16Imm e = 0 then reserved else itype (DecodeCI16Imm e) SP ADDI SP OPIMM)
         else if DecodeCUImm e = 0 then reserved else utype (DecodeCUImm e) rd LUI)
      else if opc = C_MISCALU then expand_alu e
      else if opc = C_J then jtype (DecodeCJImm e) ZERO JAL
      else if opc = C_BEQZ then btype (DecodeCBImm e) ZERO rp BEQ BRANCH
      else if opc = C_BNEZ then btype (DecodeCBImm e) ZERO rp BNE BRANCH
      else if opc = C_SLLI then shtype F7_0 (DecodeCIImm e AND 0x3F) rd SLLI rd OPIMM
      else if opc = C_FLDSP then itype (DecodeCSPLoad8Imm e) SP D_f3 rd LOADFP
      else if opc = C_LWSP then (if rd = 0 then reserved else itype (DecodeCSPLoad4Imm e) SP LW rd LOAD)
      else if opc = C_LDSP then (if rd = 0 then reserved else itype (DecodeCSPLoad8Imm e) SP LD rd LOAD)
      else if opc = C_JR then expand_cr e
      else if opc = C_FSDSP then stype (DecodeCSPStore8Imm e) s SP D_f3 STOREFP
      else if opc = C_SWSP then stype (DecodeCSPStore4Imm e) s SP SW STORE
      else if opc = C_SDSP then stype (DecodeCSPStore8Imm e) s SP SD STORE
      else reserved)"

section \<open>What instructions do\<close>

text \<open>A register write or a conditional jump, for the instructions that occur in two forms.\<close>

datatype effect = Writes reg "64 word" | Goes_to bool intptr

definition effect :: "32 word \<Rightarrow> (reg \<Rightarrow> 64 word) \<Rightarrow> effect option" where
  "effect w x =
     (let rd = DecodeRd w; f3 = DecodeFunct3 w; f7 = DecodeFunct7 w; imm = DecodeITypeImm w;
          v1 = x (DecodeRs1 w); v2 = x (DecodeRs2 w); opc = DecodeOpcode w;
          sext32 = (\<lambda>v. scast (ucast v :: 32 word)) in
      if opc = OPIMM \<and> f3 = ADDI then Some (Writes rd (v1 + imm))
      else if opc = OPIMM32 \<and> f3 = ADDI then Some (Writes rd (sext32 (v1 + imm)))
      else if opc = OP \<and> f7 = F7_0 \<and> f3 = ADD then Some (Writes rd (v1 + v2))
      else if opc = OP \<and> f7 = F7_0 \<and> f3 = XOR_f3 then Some (Writes rd (v1 XOR v2))
      else if opc = OP \<and> f7 = F7_0 \<and> f3 = OR_f3 then Some (Writes rd (v1 OR v2))
      else if opc = OP \<and> f7 = F7_0 \<and> f3 = AND_f3 then Some (Writes rd (v1 AND v2))
      else if opc = OP32 \<and> f7 = F7_0 \<and> f3 = ADD then Some (Writes rd (sext32 (v1 + v2)))
      else if opc = BRANCH \<and> f3 = BEQ then Some (Goes_to (v1 = v2) (DecodeBTypeImm w))
      else if opc = BRANCH \<and> f3 = BNE then Some (Goes_to (v1 \<noteq> v2) (DecodeBTypeImm w))
      else None)"

text \<open>Two instructions are the same, or do the same in all register files.\<close>

definition same_effect :: "32 word \<Rightarrow> 32 word \<Rightarrow> bool" where
  "same_effect v w \<longleftrightarrow> v = w \<or> (\<forall>x. x 0 = 0 \<longrightarrow> effect v x \<noteq> None \<and> effect v x = effect w x)"


section \<open>Decoding the compressed formats\<close>

lemmas c_bits = rv_consts bits_of_codes bits_of_fields C_opcode_def Suc_eq_numerals

lemma prime_decode: "is_reg_prime r \<Longrightarrow> drop_bit n e AND 7 = r AND 7 \<Longrightarrow> decode_reg_prime n e = r"
  by (simp add: decode_reg_prime_def reg_prime_roundtrip)

text \<open>A register in bits 7 to 11 and a 6-bit immediate.\<close>

lemma ci_format:
  assumes "opc \<in> {C_ADDI, C_ADDIW, C_LI, C_SLLI}" and "rd < 32" and "EncodeCIImm imm = Inr i"
  defines "h \<equiv> ucast (opc OR (push_bit 7 rd OR i)) :: 16 word"
  shows "C_opcode h = opc \<and> DecodeCRd (ucast h) = rd \<and> DecodeCIImm (ucast h) = imm"
proof (intro conjI)
  have e: "IsInt 6 imm" "i = put 5 0x1 12 imm OR put 0 0x1F 2 imm" using assms(3) by (simp_all add: rv_codes)
  note bits = h_def e(2) c_bits less_32_bit [OF assms(2)]
  show "C_opcode h = opc" by (rule word_eq_listI) (use assms(1) in \<open>auto simp: bits\<close>)
  show "DecodeCRd (ucast h) = rd" by (rule word_eq_listI) (use assms(1) in \<open>auto simp: bits\<close>)
  show "DecodeCIImm (ucast h) = imm"
    unfolding rv_codes by (rule sign_extend_eqI [OF e(1)]) (use assms(1) in \<open>auto simp: bits\<close>)
qed

lemma cu_format:
  assumes "rd < 32" and "EncodeCUImm imm = Inr i"
  defines "h \<equiv> ucast (C_LUI OR (push_bit 7 rd OR i)) :: 16 word"
  shows "C_opcode h = C_LUI \<and> DecodeCRd (ucast h) = rd \<and> DecodeCUImm (ucast h) = imm"
proof (intro conjI)
  have e: "IsInt 17 imm" "IsAligned imm 0x1000" "i = put 17 0x1 12 imm OR put 12 0x1F 2 imm"
    using assms(2) by (simp_all add: rv_codes)
  note bits = h_def e(3) c_bits less_32_bit [OF assms(1)]
  show "C_opcode h = C_LUI" by (rule word_eq_listI) (auto simp: bits)
  show "DecodeCRd (ucast h) = rd" by (rule word_eq_listI) (auto simp: bits)
  show "DecodeCUImm (ucast h) = imm"
    unfolding rv_codes by (rule sign_extend_eqI [OF e(1)]) (use e(2) in \<open>auto simp: bits\<close>)
qed

lemma ci16_format:
  assumes "EncodeCI16Imm imm = Inr i"
  defines "h \<equiv> ucast (C_ADDI16SP OR (push_bit 7 SP OR i)) :: 16 word"
  shows "C_opcode h = C_LUI \<and> DecodeCRd (ucast h) = SP \<and> DecodeCI16Imm (ucast h) = imm"
proof (intro conjI)
  have e: "IsInt 10 imm" "IsAligned imm 16"
    "i = put 9 0x1 12 imm OR put 4 0x1 6 imm OR put 6 0x1 5 imm OR put 7 0x3 3 imm OR put 5 0x1 2 imm"
    using assms(1) by (simp_all add: rv_codes)
  note bits = h_def e(3) c_bits
  show "C_opcode h = C_LUI" by (rule word_eq_listI) (auto simp: bits)
  show "DecodeCRd (ucast h) = SP" by (rule word_eq_listI) (auto simp: bits)
  show "DecodeCI16Imm (ucast h) = imm"
    unfolding rv_codes by (rule sign_extend_eqI [OF e(1)]) (use e(2) in \<open>auto simp: bits\<close>)
qed

lemma ci4spn_format:
  assumes "is_reg_prime rd" and "EncodeCI4SPNImm imm = Inr i"
  defines "h \<equiv> ucast (C_ADDI4SPN OR (push_bit 2 (rd AND 7) OR i)) :: 16 word"
  shows "C_opcode h = C_ADDI4SPN \<and> DecodeCRdp (ucast h) = rd \<and> DecodeCI4SPNImm (ucast h) = imm"
proof (intro conjI)
  have e: "IsUint 9 imm" "IsAligned imm 4" "i = put 4 0x3 11 imm OR put 6 0xF 7 imm OR put 2 0x1 6 imm OR put 3 0x1 5 imm"
    using assms(2) by (simp_all add: rv_codes)
  note bits = h_def e(3) c_bits
  show "C_opcode h = C_ADDI4SPN" by (rule word_eq_listI) (auto simp: bits)
  show "DecodeCRdp (ucast h) = rd"
    unfolding DecodeCRdp_def by (rule prime_decode [OF assms(1)]) (rule word_eq_listI, auto simp: bits)
  show "DecodeCI4SPNImm (ucast h) = imm"
    unfolding rv_codes by (rule zero_extend_eqI [OF e(1)]) (use e(2) IsUint_bit [OF e(1)] in \<open>auto simp: bits\<close>)
qed

text \<open>Loads and stores on the stack.\<close>

lemma load4sp_format:
  assumes "rd < 32" and "EncodeCSPLoad4Imm imm = Inr i"
  defines "h \<equiv> ucast (C_LWSP OR (push_bit 7 rd OR i)) :: 16 word"
  shows "C_opcode h = C_LWSP \<and> DecodeCRd (ucast h) = rd \<and> DecodeCSPLoad4Imm (ucast h) = imm"
proof (intro conjI)
  have e: "IsUint 8 imm" "IsAligned imm 4" "i = put 5 0x1 12 imm OR put 2 0x7 4 imm OR put 6 0x3 2 imm"
    using assms(2) by (simp_all add: rv_codes)
  note bits = h_def e(3) c_bits less_32_bit [OF assms(1)]
  show "C_opcode h = C_LWSP" by (rule word_eq_listI) (auto simp: bits)
  show "DecodeCRd (ucast h) = rd" by (rule word_eq_listI) (auto simp: bits)
  show "DecodeCSPLoad4Imm (ucast h) = imm"
    unfolding rv_codes by (rule zero_extend_eqI [OF e(1)]) (use e(2) IsUint_bit [OF e(1)] in \<open>auto simp: bits\<close>)
qed

lemma load8sp_format:
  assumes "opc \<in> {C_LDSP, C_FLDSP}" and "rd < 32" and "EncodeCSPLoad8Imm imm = Inr i"
  defines "h \<equiv> ucast (opc OR (push_bit 7 rd OR i)) :: 16 word"
  shows "C_opcode h = opc \<and> DecodeCRd (ucast h) = rd \<and> DecodeCSPLoad8Imm (ucast h) = imm"
proof (intro conjI)
  have e: "IsUint 9 imm" "IsAligned imm 8" "i = put 5 0x1 12 imm OR put 3 0x3 5 imm OR put 6 0x7 2 imm"
    using assms(3) by (simp_all add: rv_codes)
  note bits = h_def e(3) c_bits less_32_bit [OF assms(2)]
  show "C_opcode h = opc" by (rule word_eq_listI) (use assms(1) in \<open>auto simp: bits\<close>)
  show "DecodeCRd (ucast h) = rd" by (rule word_eq_listI) (use assms(1) in \<open>auto simp: bits\<close>)
  show "DecodeCSPLoad8Imm (ucast h) = imm"
    unfolding rv_codes
    by (rule zero_extend_eqI [OF e(1)]) (use assms(1) e(2) IsUint_bit [OF e(1)] in \<open>auto simp: bits\<close>)
qed

lemma store4sp_format:
  assumes "rs2 < 32" and "EncodeCSPStore4Imm imm = Inr i"
  defines "h \<equiv> ucast (C_SWSP OR (push_bit 2 rs2 OR i)) :: 16 word"
  shows "C_opcode h = C_SWSP \<and> DecodeCRs2 (ucast h) = rs2 \<and> DecodeCSPStore4Imm (ucast h) = imm"
proof (intro conjI)
  have e: "IsUint 8 imm" "IsAligned imm 4" "i = put 2 0xF 9 imm OR put 6 0x3 7 imm"
    using assms(2) by (simp_all add: rv_codes)
  note bits = h_def e(3) c_bits less_32_bit [OF assms(1)]
  show "C_opcode h = C_SWSP" by (rule word_eq_listI) (auto simp: bits)
  show "DecodeCRs2 (ucast h) = rs2" by (rule word_eq_listI) (auto simp: bits)
  show "DecodeCSPStore4Imm (ucast h) = imm"
    unfolding rv_codes
    by (rule zero_extend_eqI [OF e(1)]) (use e(2) IsUint_bit [OF e(1)] in \<open>auto simp: bits\<close>)
qed

lemma store8sp_format:
  assumes "opc \<in> {C_SDSP, C_FSDSP}" and "rs2 < 32" and "EncodeCSPStore8Imm imm = Inr i"
  defines "h \<equiv> ucast (opc OR (push_bit 2 rs2 OR i)) :: 16 word"
  shows "C_opcode h = opc \<and> DecodeCRs2 (ucast h) = rs2 \<and> DecodeCSPStore8Imm (ucast h) = imm"
proof (intro conjI)
  have e: "IsUint 9 imm" "IsAligned imm 8" "i = put 3 0x7 10 imm OR put 6 0x7 7 imm"
    using assms(3) by (simp_all add: rv_codes)
  note bits = h_def e(3) c_bits less_32_bit [OF assms(2)]
  show "C_opcode h = opc" by (rule word_eq_listI) (use assms(1) in \<open>auto simp: bits\<close>)
  show "DecodeCRs2 (ucast h) = rs2" by (rule word_eq_listI) (use assms(1) in \<open>auto simp: bits\<close>)
  show "DecodeCSPStore8Imm (ucast h) = imm"
    unfolding rv_codes
    by (rule zero_extend_eqI [OF e(1)]) (use assms(1) e(2) IsUint_bit [OF e(1)] in \<open>auto simp: bits\<close>)
qed

text \<open>Loads and stores through a compressed register.\<close>

lemma mem4_format:
  assumes "opc \<in> {C_LW, C_SW}" and "is_reg_prime r" and "is_reg_prime b" and "EncodeCMem4Imm imm = Inr i"
  defines "h \<equiv> ucast (opc OR (push_bit 2 (r AND 7) OR (push_bit 7 (b AND 7) OR i))) :: 16 word"
  shows "C_opcode h = opc \<and> DecodeCRdp (ucast h) = r \<and> DecodeCRs1p (ucast h) = b \<and> DecodeCMem4Imm (ucast h) = imm"
proof (intro conjI)
  have e: "IsUint 7 imm" "IsAligned imm 4" "i = put 3 0x7 10 imm OR put 2 0x1 6 imm OR put 6 0x1 5 imm"
    using assms(4) by (simp_all add: rv_codes)
  note bits = h_def e(3) c_bits
  show "C_opcode h = opc" by (rule word_eq_listI) (use assms(1) in \<open>auto simp: bits\<close>)
  show "DecodeCRdp (ucast h) = r"
    unfolding DecodeCRdp_def by (rule prime_decode [OF assms(2)]) (rule word_eq_listI, use assms(1) in \<open>auto simp: bits\<close>)
  show "DecodeCRs1p (ucast h) = b"
    unfolding DecodeCRs1p_def by (rule prime_decode [OF assms(3)]) (rule word_eq_listI, use assms(1) in \<open>auto simp: bits\<close>)
  show "DecodeCMem4Imm (ucast h) = imm"
    unfolding rv_codes
    by (rule zero_extend_eqI [OF e(1)]) (use assms(1) e(2) IsUint_bit [OF e(1)] in \<open>auto simp: bits\<close>)
qed

lemma mem8_format:
  assumes "opc \<in> {C_LD, C_FLD, C_SD, C_FSD}" and "is_reg_prime r" and "is_reg_prime b" and "EncodeCMem8Imm imm = Inr i"
  defines "h \<equiv> ucast (opc OR (push_bit 2 (r AND 7) OR (push_bit 7 (b AND 7) OR i))) :: 16 word"
  shows "C_opcode h = opc \<and> DecodeCRdp (ucast h) = r \<and> DecodeCRs1p (ucast h) = b \<and> DecodeCMem8Imm (ucast h) = imm"
proof (intro conjI)
  have e: "IsUint 8 imm" "IsAligned imm 8" "i = put 3 0x7 10 imm OR put 6 0x3 5 imm"
    using assms(4) by (simp_all add: rv_codes)
  note bits = h_def e(3) c_bits
  show "C_opcode h = opc" by (rule word_eq_listI) (use assms(1) in \<open>auto simp: bits\<close>)
  show "DecodeCRdp (ucast h) = r"
    unfolding DecodeCRdp_def by (rule prime_decode [OF assms(2)]) (rule word_eq_listI, use assms(1) in \<open>auto simp: bits\<close>)
  show "DecodeCRs1p (ucast h) = b"
    unfolding DecodeCRs1p_def by (rule prime_decode [OF assms(3)]) (rule word_eq_listI, use assms(1) in \<open>auto simp: bits\<close>)
  show "DecodeCMem8Imm (ucast h) = imm"
    unfolding rv_codes
    by (rule zero_extend_eqI [OF e(1)]) (use assms(1) e(2) IsUint_bit [OF e(1)] in \<open>auto simp: bits\<close>)
qed

text \<open>Arithmetic.\<close>

lemma cb_format:
  assumes "opc \<in> {C_SRLI, C_SRAI, C_ANDI}" and "is_reg_prime r" and "EncodeCIImm imm = Inr i"
  defines "h \<equiv> ucast (opc OR (push_bit 7 (r AND 7) OR i)) :: 16 word"
  shows "C_opcode h = C_MISCALU \<and> ucast h AND C_MISCALU_MASK = opc \<and> DecodeCRs1p (ucast h) = r \<and> DecodeCIImm (ucast h) = imm"
proof (intro conjI)
  have e: "IsInt 6 imm" "i = put 5 0x1 12 imm OR put 0 0x1F 2 imm" using assms(3) by (simp_all add: rv_codes)
  note bits = h_def e(2) c_bits
  show "C_opcode h = C_MISCALU" by (rule word_eq_listI) (use assms(1) in \<open>auto simp: bits\<close>)
  show "ucast h AND C_MISCALU_MASK = opc" by (rule word_eq_listI) (use assms(1) in \<open>auto simp: bits\<close>)
  show "DecodeCRs1p (ucast h) = r"
    unfolding DecodeCRs1p_def by (rule prime_decode [OF assms(2)]) (rule word_eq_listI, use assms(1) in \<open>auto simp: bits\<close>)
  show "DecodeCIImm (ucast h) = imm"
    unfolding rv_codes by (rule sign_extend_eqI [OF e(1)]) (use assms(1) in \<open>auto simp: bits\<close>)
qed

lemma ca_format:
  assumes "opc \<in> {C_SUB, C_XOR, C_OR, C_AND, C_SUBW, C_ADDW}" and "is_reg_prime r" and "is_reg_prime s"
  defines "h \<equiv> ucast (opc OR (push_bit 7 (r AND 7) OR push_bit 2 (s AND 7))) :: 16 word"
  shows "C_opcode h = C_MISCALU \<and> ucast h AND 0xFC63 = opc \<and> ucast h AND C_MISCALU_MASK \<notin> {C_SRLI, C_SRAI, C_ANDI}
    \<and> DecodeCRs1p (ucast h) = r \<and> DecodeCRs2p (ucast h) = s"
proof (intro conjI)
  note bits = h_def c_bits
  show "C_opcode h = C_MISCALU" by (rule word_eq_listI) (use assms(1) in \<open>auto simp: bits\<close>)
  show "ucast h AND 0xFC63 = opc" by (rule word_eq_listI) (use assms(1) in \<open>auto simp: bits\<close>)
  have "bit (ucast h AND C_MISCALU_MASK) 10 \<and> bit (ucast h AND C_MISCALU_MASK) 11"
    using assms(1) by (auto simp: bits)
  then show "ucast h AND C_MISCALU_MASK \<notin> {C_SRLI, C_SRAI, C_ANDI}" by (auto simp: rv_consts)
  show "DecodeCRs1p (ucast h) = r"
    unfolding DecodeCRs1p_def by (rule prime_decode [OF assms(2)]) (rule word_eq_listI, use assms(1) in \<open>auto simp: bits\<close>)
  show "DecodeCRs2p (ucast h) = s"
    unfolding DecodeCRs2p_def by (rule prime_decode [OF assms(3)]) (rule word_eq_listI, use assms(1) in \<open>auto simp: bits\<close>)
qed

lemma cr_format:
  assumes "opc \<in> {C_JR, C_ADD}" and "rd < 32" and "s < 32"
  defines "h \<equiv> ucast (opc OR (push_bit 7 rd OR push_bit 2 s)) :: 16 word"
  shows "C_opcode h = C_JR \<and> bit (ucast h :: 32 word) 12 = (opc = C_ADD) \<and> DecodeCRd (ucast h) = rd \<and> DecodeCRs2 (ucast h) = s"
proof (intro conjI)
  note bits = h_def c_bits less_32_bit [OF assms(2)] less_32_bit [OF assms(3)]
  show "C_opcode h = C_JR" by (rule word_eq_listI) (use assms(1) in \<open>auto simp: bits\<close>)
  show "bit (ucast h :: 32 word) 12 = (opc = C_ADD)" using assms(1) by (auto simp: bits)
  show "DecodeCRd (ucast h) = rd" by (rule word_eq_listI) (use assms(1) in \<open>auto simp: bits\<close>)
  show "DecodeCRs2 (ucast h) = s" by (rule word_eq_listI) (use assms(1) in \<open>auto simp: bits\<close>)
qed


section \<open>Ranges\<close>

lemma sint_limit: "k < 63 \<Longrightarrow> sint (push_bit k 1 :: intptr) = 2 ^ k" "k < 63 \<Longrightarrow> sint (- push_bit k 1 :: intptr) = - (2 ^ k)"
proof -
  assume k: "k < 63"
  then have p: "(2 :: int) ^ k < 2 ^ 63" by (intro power_strict_increasing) auto
  have w: "push_bit k 1 = (of_int (2 ^ k) :: intptr)" by (simp add: push_bit_of_1)
  show "sint (push_bit k 1 :: intptr) = 2 ^ k"
    unfolding w signed_of_int by (subst signed_take_bit_int_eq_self) (use p in \<open>auto intro: order_trans [of _ 0]\<close>)
  show "sint (- push_bit k 1 :: intptr) = - (2 ^ k)"
    unfolding w of_int_minus [symmetric] signed_of_int
    by (subst signed_take_bit_int_eq_self) (use p in \<open>auto intro: order_le_less_trans [of _ 0]\<close>)
qed

lemma IsInt_iff: "0 < N \<Longrightarrow> N < 64 \<Longrightarrow> IsInt N v \<longleftrightarrow> - (2 ^ (N - 1)) \<le> sint v \<and> sint v < 2 ^ (N - 1)"
  unfolding IsInt_def Let_def word_sle_eq word_sless_alt by (subst sint_limit, simp)+ simp

lemma IsInt_mono: "IsInt N v \<Longrightarrow> 0 < N \<Longrightarrow> N \<le> M \<Longrightarrow> M < 64 \<Longrightarrow> IsInt M v"
proof -
  assume a: "IsInt N v" "0 < N" "N \<le> M" "M < 64"
  have "(2 :: int) ^ (N - 1) \<le> 2 ^ (M - 1)" using a by (intro power_increasing) auto
  with a IsInt_iff [of N v] IsInt_iff [of M v] show ?thesis by linarith
qed

lemma IsUint_IsInt: "IsUint N v \<Longrightarrow> N < M \<Longrightarrow> M < 64 \<Longrightarrow> IsInt M v"
proof -
  assume a: "IsUint N v" "N < M" "M < 64"
  have p: "(2 :: int) ^ N < 2 ^ 64" "(2 :: int) ^ N \<le> 2 ^ (M - 1)"
    by (rule power_strict_increasing power_increasing; use a in simp)+
  have "push_bit N 1 - 1 = (of_int (2 ^ N - 1) :: intptr)" by (simp add: push_bit_of_1)
  moreover have "uint (of_int (2 ^ N - 1) :: intptr) = 2 ^ N - 1"
    unfolding unsigned_of_int by (subst take_bit_int_eq_self) (use p in auto)
  ultimately have u: "uint v < 2 ^ N" using a(1) by (simp add: IsUint_def word_le_def)
  have "0 \<le> sint v" using a(1) by (simp add: IsUint_def word_sle_eq)
  moreover from this have "sint v = uint v"
    unfolding uint_sint by (intro take_bit_int_eq_self [symmetric]) (use sint_lt [of v] in auto)
  moreover have "IsInt M v \<longleftrightarrow> - (2 ^ (M - 1)) \<le> sint v \<and> sint v < 2 ^ (M - 1)" by (rule IsInt_iff) (use a in auto)
  ultimately show ?thesis using u p by linarith
qed


section \<open>Running the assembler\<close>

definition without_C :: "assembler \<Rightarrow> assembler" where
  "without_C a = a\<lparr>extensions := extensions a AND NOT (push_bit 5 1)\<rparr>"

text \<open>Method \<open>m\<close> writes exactly the bytes \<open>p\<close>.\<close>

definition emits_bytes :: "asm \<Rightarrow> assembler \<Rightarrow> 8 word list \<Rightarrow> bool" where
  "emits_bytes m a p \<longleftrightarrow> (\<exists>a'. m a = Inr ((), a') \<and> code a' = code a @ p)"

text \<open>Whenever \<open>m\<close> succeeds, \<open>m'\<close> emits one 32-bit instruction on the target without compression, and
  \<open>m\<close> emits it or a 16-bit instruction that stands for one with the same effect.\<close>

definition compresses_to :: "asm \<Rightarrow> asm \<Rightarrow> assembler \<Rightarrow> bool" where
  "compresses_to m m' a \<longleftrightarrow> (\<forall>a'. m a = Inr ((), a') \<longrightarrow> (\<exists>p w. code a' = code a @ p
     \<and> emits_bytes m' (without_C a) (bytes32 w)
     \<and> (p = bytes32 w \<or> (\<exists>h v. p = bytes16 h \<and> expand h = Inr v \<and> same_effect v w))))"

lemma Emit16_Inr: "Emit16 r a = Inr (u, a') \<longleftrightarrow> (\<exists>w. r = Inr w \<and> a' = a\<lparr>instructions16 := instructions16 a + 1,
     code := code a @ bytes16 (ucast w)\<rparr>)"
  by (auto simp: Emit16_def bnd_def lift_res_def split: sum.splits)

lemma Emit32_Inr: "Emit32 r a = Inr (u, a') \<longleftrightarrow> (\<exists>w. r = Inr w \<and> a' = a\<lparr>instructions32 := instructions32 a + 1,
     code := code a @ bytes32 w\<rparr>)"
  by (auto simp: Emit32_def bnd_def lift_res_def split: sum.splits)

lemma requires_Inr: "andthen (requires X) m a = Inr (u, a') \<longleftrightarrow> Includes (extensions a) X \<and> m a = Inr (u, a')"
  by (simp add: requires_def Supports_def ASSERT_def andthen_def bnd_def ret_def throw_def)

lemma ASSERT_Inr: "andthen (ASSERT b t) m a = Inr (u, a') \<longleftrightarrow> b \<and> m a = Inr (u, a')"
  by (simp add: ASSERT_def andthen_def bnd_def ret_def throw_def)

lemma Supports_run: "bnd (Supports X) f a = f (Includes (extensions a) X) a"
  by (simp add: Supports_def bnd_def)

lemmas run_simps = Emit16_Inr Emit32_Inr requires_Inr ASSERT_Inr Supports_run or_all_Inr

lemma without_C_simps:
  "code (without_C a) = code a" "\<not> Includes (extensions (without_C a)) RV_C"
  "X \<in> {RV_I, RV_F, RV_D} \<Longrightarrow> Includes (extensions (without_C a)) X = Includes (extensions a) X"
proof -
  have "(x AND NOT 32) AND 32 = (0 :: 32 word)" for x by (simp add: and.assoc)
  then show "\<not> Includes (extensions (without_C a)) RV_C"
    by (simp add: without_C_def Includes_def RV_C_def push_bit_of_1)
  have "(x AND NOT 32) AND 1 = x AND 1" "(x AND NOT 32) AND 8 = x AND 8" "(x AND NOT 32) AND 16 = x AND 16"
    for x :: "32 word"
    by (rule word_eq_listI; simp add: bits_of_codes)+
  then show "X \<in> {RV_I, RV_F, RV_D} \<Longrightarrow> Includes (extensions (without_C a)) X = Includes (extensions a) X"
    by (auto simp: without_C_def Includes_def rv_consts push_bit_of_1)
qed (simp add: without_C_def)

lemma compresses_to_same: "compresses_to (Emit32 r) (Emit32 r) a"
  by (auto simp: compresses_to_def emits_bytes_def Emit32_Inr without_C_def)

text \<open>Everything \<open>c\<close> emits is a 16-bit instruction with the effect of \<open>r\<close>.\<close>

definition stands_for :: "asm \<Rightarrow> assembler \<Rightarrow> 32 word res \<Rightarrow> bool" where
  "stands_for c a r \<longleftrightarrow> (\<forall>a'. c a = Inr ((), a') \<longrightarrow>
     (\<exists>h v w. code a' = code a @ bytes16 h \<and> expand h = Inr v \<and> r = Inr w \<and> same_effect v w))"

lemma compresses_to_c:
  assumes "stands_for c a r"
  shows "compresses_to c (Emit32 r) a"
  unfolding compresses_to_def
proof (intro allI impI)
  fix a' assume "c a = Inr ((), a')"
  with assms obtain h v w where "code a' = code a @ bytes16 h" "expand h = Inr v" "r = Inr w" "same_effect v w"
    unfolding stands_for_def by blast
  moreover from this have "emits_bytes (Emit32 r) (without_C a) (bytes32 w)"
    by (auto simp: emits_bytes_def Emit32_Inr without_C_def)
  ultimately show "\<exists>p w. code a' = code a @ p \<and> emits_bytes (Emit32 r) (without_C a) (bytes32 w)
      \<and> (p = bytes32 w \<or> (\<exists>h v. p = bytes16 h \<and> expand h = Inr v \<and> same_effect v w))" by blast
qed

lemma same_effect_trans: "same_effect u v \<Longrightarrow> same_effect v w \<Longrightarrow> same_effect u w"
  by (auto simp: same_effect_def)

lemma stands_for_same_effect:
  "stands_for c a r \<Longrightarrow> (\<And>v. r = Inr v \<Longrightarrow> \<exists>w. r' = Inr w \<and> same_effect v w) \<Longrightarrow> stands_for c a r'"
  unfolding stands_for_def by (meson same_effect_trans)

lemma compresses_to_if:
  "(b \<Longrightarrow> compresses_to m1 m' a) \<Longrightarrow> (\<not> b \<Longrightarrow> compresses_to m2 m' a) \<Longrightarrow> compresses_to (if b then m1 else m2) m' a"
  by simp

text \<open>A method checks an extension, then whether the target is compressed.\<close>

lemma compresses_method:
  assumes "X \<in> {RV_I, RV_F, RV_D}" and "m = andthen (requires X) (bnd (Supports RV_C) f)"
    and "Includes (extensions a) RV_C" and "compresses_to (f True) (f False) a"
  shows "compresses_to m m a"
  using assms(3,4) without_C_simps(2) [of a] without_C_simps(3) [OF assms(1), of a]
  unfolding assms(2) compresses_to_def emits_bytes_def requires_Inr Supports_run by simp

section \<open>Each compressed instruction\<close>

lemma types_ok:
  "IsITypeImm imm \<Longrightarrow> rs1 < 32 \<Longrightarrow> f3 AND 7 = f3 \<Longrightarrow> rd < 32 \<Longrightarrow> opc AND 0x7F = opc \<Longrightarrow> \<exists>w. itype imm rs1 f3 rd opc = Inr w"
  "IsSTypeImm imm \<Longrightarrow> rs2 < 32 \<Longrightarrow> rs1 < 32 \<Longrightarrow> f3 AND 7 = f3 \<Longrightarrow> opc AND 0x7F = opc \<Longrightarrow> \<exists>w. stype imm rs2 rs1 f3 opc = Inr w"
  "f7 AND 0x7F = f7 \<Longrightarrow> rs2 < 32 \<Longrightarrow> rs1 < 32 \<Longrightarrow> f3 AND 7 = f3 \<Longrightarrow> rd < 32 \<Longrightarrow> opc AND 0x7F = opc \<Longrightarrow> \<exists>w. rtype f7 rs2 rs1 f3 rd opc = Inr w"
  "f7 AND 0x7F = f7 \<Longrightarrow> IsUint 6 shamt \<Longrightarrow> rs1 < 32 \<Longrightarrow> f3 AND 7 = f3 \<Longrightarrow> rd < 32 \<Longrightarrow> opc AND 0x7F = opc \<Longrightarrow> \<exists>w. shtype f7 shamt rs1 f3 rd opc = Inr w"
  "IsUTypeImm imm \<Longrightarrow> rd < 32 \<Longrightarrow> opc AND 0x7F = opc \<Longrightarrow> \<exists>w. utype imm rd opc = Inr w"
  "IsBTypeImm imm \<Longrightarrow> rs2 < 32 \<Longrightarrow> rs1 < 32 \<Longrightarrow> f3 AND 7 = f3 \<Longrightarrow> opc AND 0x7F = opc \<Longrightarrow> \<exists>w. btype imm rs2 rs1 f3 opc = Inr w"
  "IsJTypeImm imm \<Longrightarrow> rd < 32 \<Longrightarrow> opc AND 0x7F = opc \<Longrightarrow> \<exists>w. jtype imm rd opc = Inr w"
proof -
  have shamt: "0x3F AND ucast shamt = (ucast shamt :: 32 word)" if "IsUint 6 shamt" for shamt :: intptr
    by (rule word_eq_listI) (use IsUint_bit [OF that] in \<open>simp add: bits_of_codes\<close>)
  show "f7 AND 0x7F = f7 \<Longrightarrow> IsUint 6 shamt \<Longrightarrow> rs1 < 32 \<Longrightarrow> f3 AND 7 = f3 \<Longrightarrow> rd < 32 \<Longrightarrow> opc AND 0x7F = opc \<Longrightarrow> \<exists>w. shtype f7 shamt rs1 f3 rd opc = Inr w"
    by (simp add: shtype_def or_all_Inr rv_codes encoders_Inr shamt and.commute [of _ "0x3F"])
qed (simp_all add: itype_def stype_def rtype_def utype_def btype_def jtype_def or_all_Inr encoders_Inr EncodeITypeImm_def
    EncodeSTypeImm_def EncodeUTypeImm_def EncodeBTypeImm_def EncodeJTypeImm_def EncodeRd_def EncodeRs1_def EncodeRs2_def
    EncodeFunct3_def EncodeFunct7_def EncodeOpcode_def)

lemma prime_less: "is_reg_prime r \<Longrightarrow> r < 32"
  by (auto simp: is_reg_prime_def word_less_def word_le_def)

lemma small_consts: "SP < 32" "ZERO < 32" "RA < 32" "(0 :: reg) < 32"
  by (simp_all add: rv_consts)

text \<open>A compressed instruction that stands for the very instruction the method would emit.\<close>

lemma same_instruction:
  "code a' = code a @ bytes16 h \<Longrightarrow> expand h = r \<Longrightarrow> \<exists>w. r = Inr w \<Longrightarrow>
    \<exists>h v w. code a' = code a @ bytes16 h \<and> expand h = Inr v \<and> r = Inr w \<and> same_effect v w"
  by (auto simp: same_effect_def)

lemmas leaf_simps = run_simps encoders_Inr EncodeCRd_def EncodeCRs1_def EncodeCRs2_def EncodeCFRd_def EncodeCFRs2_def
  EncodeCRdp_def EncodeCRs1p_def EncodeCRs2p_def EncodeCFRdp_def EncodeCFRs2p_def

lemmas expand_simps = expand_def expand_alu_def expand_cr_def Let_def rv_consts DecodeCRs2p_def DecodeCRdp_def

lemma c_lwsp_leaf:
  "stands_for (c_lwsp rd addr) a (itype (addr_offset addr) SP LW rd LOAD)"
  unfolding stands_for_def
proof (intro allI impI)
  fix a' assume "(c_lwsp rd addr) a = Inr ((), a')"
  then obtain i where g: "rd < 32" "rd \<noteq> ZERO" "EncodeCSPLoad4Imm (addr_offset addr) = Inr i"
      and c: "code a' = code a @ bytes16 (ucast (C_LWSP OR (push_bit 7 rd OR i)))"
    by (auto simp: c_lwsp_def leaf_simps)
  from load4sp_format [OF g(1) g(3)] c obtain h where h: "code a' = code a @ bytes16 h" "C_opcode h = C_LWSP" "DecodeCRd (ucast h) = rd" "DecodeCSPLoad4Imm (ucast h) = addr_offset addr"
    by blast
  have "\<exists>w. itype (addr_offset addr) SP LW rd LOAD = Inr w"
    using g small_consts by (intro types_ok) (auto simp: rv_codes rv_consts prime_less IsInt_iff [of 12 0] intro: IsInt_mono IsUint_IsInt)
  moreover have "expand h = itype (addr_offset addr) SP LW rd LOAD"
    unfolding expand_def expand_alu_def expand_cr_def Let_def h(2-)
    using g by (simp add: rv_consts)
  ultimately show "\<exists>h v w. code a' = code a @ bytes16 h \<and> expand h = Inr v \<and> itype (addr_offset addr) SP LW rd LOAD = Inr w \<and> same_effect v w"
    using h(1) by (intro same_instruction)
qed

lemma c_ldsp_leaf:
  "stands_for (c_ldsp rd addr) a (itype (addr_offset addr) SP LD rd LOAD)"
  unfolding stands_for_def
proof (intro allI impI)
  fix a' assume "(c_ldsp rd addr) a = Inr ((), a')"
  then obtain i where g: "rd < 32" "rd \<noteq> ZERO" "EncodeCSPLoad8Imm (addr_offset addr) = Inr i"
      and c: "code a' = code a @ bytes16 (ucast (C_LDSP OR (push_bit 7 rd OR i)))"
    by (auto simp: c_ldsp_def leaf_simps)
  have f: "C_LDSP \<in> {C_LDSP, C_FLDSP}" by simp
  from load8sp_format [OF f g(1) g(3)] c obtain h where h: "code a' = code a @ bytes16 h" "C_opcode h = C_LDSP" "DecodeCRd (ucast h) = rd" "DecodeCSPLoad8Imm (ucast h) = addr_offset addr"
    by blast
  have "\<exists>w. itype (addr_offset addr) SP LD rd LOAD = Inr w"
    using g small_consts by (intro types_ok) (auto simp: rv_codes rv_consts prime_less IsInt_iff [of 12 0] intro: IsInt_mono IsUint_IsInt)
  moreover have "expand h = itype (addr_offset addr) SP LD rd LOAD"
    unfolding expand_def expand_alu_def expand_cr_def Let_def h(2-)
    using g by (simp add: rv_consts)
  ultimately show "\<exists>h v w. code a' = code a @ bytes16 h \<and> expand h = Inr v \<and> itype (addr_offset addr) SP LD rd LOAD = Inr w \<and> same_effect v w"
    using h(1) by (intro same_instruction)
qed

lemma c_fldsp_leaf:
  "stands_for (c_fldsp rd addr) a (itype (addr_offset addr) SP D_f3 rd LOADFP)"
  unfolding stands_for_def
proof (intro allI impI)
  fix a' assume "(c_fldsp rd addr) a = Inr ((), a')"
  then obtain i where g: "rd < 32" "EncodeCSPLoad8Imm (addr_offset addr) = Inr i"
      and c: "code a' = code a @ bytes16 (ucast (C_FLDSP OR (push_bit 7 rd OR i)))"
    by (auto simp: c_fldsp_def leaf_simps)
  have f: "C_FLDSP \<in> {C_LDSP, C_FLDSP}" by simp
  from load8sp_format [OF f g(1) g(2)] c obtain h where h: "code a' = code a @ bytes16 h" "C_opcode h = C_FLDSP" "DecodeCRd (ucast h) = rd" "DecodeCSPLoad8Imm (ucast h) = addr_offset addr"
    by blast
  have "\<exists>w. itype (addr_offset addr) SP D_f3 rd LOADFP = Inr w"
    using g small_consts by (intro types_ok) (auto simp: rv_codes rv_consts prime_less IsInt_iff [of 12 0] intro: IsInt_mono IsUint_IsInt)
  moreover have "expand h = itype (addr_offset addr) SP D_f3 rd LOADFP"
    unfolding expand_def expand_alu_def expand_cr_def Let_def h(2-)
    using g by (simp add: rv_consts)
  ultimately show "\<exists>h v w. code a' = code a @ bytes16 h \<and> expand h = Inr v \<and> itype (addr_offset addr) SP D_f3 rd LOADFP = Inr w \<and> same_effect v w"
    using h(1) by (intro same_instruction)
qed

lemma c_swsp_leaf:
  "stands_for (c_swsp rs2 addr) a (stype (addr_offset addr) rs2 SP SW STORE)"
  unfolding stands_for_def
proof (intro allI impI)
  fix a' assume "(c_swsp rs2 addr) a = Inr ((), a')"
  then obtain i where g: "rs2 < 32" "EncodeCSPStore4Imm (addr_offset addr) = Inr i"
      and c: "code a' = code a @ bytes16 (ucast (C_SWSP OR (push_bit 2 rs2 OR i)))"
    by (auto simp: c_swsp_def leaf_simps)
  from store4sp_format [OF g] c obtain h where h: "code a' = code a @ bytes16 h" "C_opcode h = C_SWSP" "DecodeCRs2 (ucast h) = rs2" "DecodeCSPStore4Imm (ucast h) = addr_offset addr"
    by blast
  have "\<exists>w. stype (addr_offset addr) rs2 SP SW STORE = Inr w"
    using g small_consts by (intro types_ok) (auto simp: rv_codes rv_consts prime_less IsInt_iff [of 12 0] intro: IsInt_mono IsUint_IsInt)
  moreover have "expand h = stype (addr_offset addr) rs2 SP SW STORE"
    unfolding expand_def expand_alu_def expand_cr_def Let_def h(2-)
    using g by (simp add: rv_consts)
  ultimately show "\<exists>h v w. code a' = code a @ bytes16 h \<and> expand h = Inr v \<and> stype (addr_offset addr) rs2 SP SW STORE = Inr w \<and> same_effect v w"
    using h(1) by (intro same_instruction)
qed

lemma c_sdsp_leaf:
  "stands_for (c_sdsp rs2 addr) a (stype (addr_offset addr) rs2 SP SD STORE)"
  unfolding stands_for_def
proof (intro allI impI)
  fix a' assume "(c_sdsp rs2 addr) a = Inr ((), a')"
  then obtain i where g: "rs2 < 32" "EncodeCSPStore8Imm (addr_offset addr) = Inr i"
      and c: "code a' = code a @ bytes16 (ucast (C_SDSP OR (push_bit 2 rs2 OR i)))"
    by (auto simp: c_sdsp_def leaf_simps)
  have f: "C_SDSP \<in> {C_SDSP, C_FSDSP}" by simp
  from store8sp_format [OF f g] c obtain h where h: "code a' = code a @ bytes16 h" "C_opcode h = C_SDSP" "DecodeCRs2 (ucast h) = rs2" "DecodeCSPStore8Imm (ucast h) = addr_offset addr"
    by blast
  have "\<exists>w. stype (addr_offset addr) rs2 SP SD STORE = Inr w"
    using g small_consts by (intro types_ok) (auto simp: rv_codes rv_consts prime_less IsInt_iff [of 12 0] intro: IsInt_mono IsUint_IsInt)
  moreover have "expand h = stype (addr_offset addr) rs2 SP SD STORE"
    unfolding expand_def expand_alu_def expand_cr_def Let_def h(2-)
    using g by (simp add: rv_consts)
  ultimately show "\<exists>h v w. code a' = code a @ bytes16 h \<and> expand h = Inr v \<and> stype (addr_offset addr) rs2 SP SD STORE = Inr w \<and> same_effect v w"
    using h(1) by (intro same_instruction)
qed

lemma c_fsdsp_leaf:
  "stands_for (c_fsdsp rs2 addr) a (stype (addr_offset addr) rs2 SP D_f3 STOREFP)"
  unfolding stands_for_def
proof (intro allI impI)
  fix a' assume "(c_fsdsp rs2 addr) a = Inr ((), a')"
  then obtain i where g: "rs2 < 32" "EncodeCSPStore8Imm (addr_offset addr) = Inr i"
      and c: "code a' = code a @ bytes16 (ucast (C_FSDSP OR (push_bit 2 rs2 OR i)))"
    by (auto simp: c_fsdsp_def leaf_simps)
  have f: "C_FSDSP \<in> {C_SDSP, C_FSDSP}" by simp
  from store8sp_format [OF f g] c obtain h where h: "code a' = code a @ bytes16 h" "C_opcode h = C_FSDSP" "DecodeCRs2 (ucast h) = rs2" "DecodeCSPStore8Imm (ucast h) = addr_offset addr"
    by blast
  have "\<exists>w. stype (addr_offset addr) rs2 SP D_f3 STOREFP = Inr w"
    using g small_consts by (intro types_ok) (auto simp: rv_codes rv_consts prime_less IsInt_iff [of 12 0] intro: IsInt_mono IsUint_IsInt)
  moreover have "expand h = stype (addr_offset addr) rs2 SP D_f3 STOREFP"
    unfolding expand_def expand_alu_def expand_cr_def Let_def h(2-)
    using g by (simp add: rv_consts)
  ultimately show "\<exists>h v w. code a' = code a @ bytes16 h \<and> expand h = Inr v \<and> stype (addr_offset addr) rs2 SP D_f3 STOREFP = Inr w \<and> same_effect v w"
    using h(1) by (intro same_instruction)
qed

lemmas mem4_store_format = mem4_format [unfolded or.left_commute [of "push_bit 2 (r AND 7)" "push_bit 7 (b AND 7)" for r b :: reg]]
lemmas mem8_store_format = mem8_format [unfolded or.left_commute [of "push_bit 2 (r AND 7)" "push_bit 7 (b AND 7)" for r b :: reg]]

lemma c_lw_leaf:
  "stands_for (c_lw rd addr) a (itype (addr_offset addr) (addr_base addr) LW rd LOAD)"
  unfolding stands_for_def
proof (intro allI impI)
  fix a' assume "(c_lw rd addr) a = Inr ((), a')"
  then obtain i where g: "is_reg_prime rd" "is_reg_prime (addr_base addr)" "EncodeCMem4Imm (addr_offset addr) = Inr i"
      and c: "code a' = code a @ bytes16 (ucast (C_LW OR (push_bit 2 (rd AND 7) OR (push_bit 7 (addr_base addr AND 7) OR i))))"
    by (auto simp: c_lw_def leaf_simps)
  have f: "C_LW \<in> {C_LW, C_SW}" by simp
  from mem4_format [OF f g] c obtain h where h: "code a' = code a @ bytes16 h" "C_opcode h = C_LW" "DecodeCRdp (ucast h) = rd" "DecodeCRs1p (ucast h) = addr_base addr" "DecodeCMem4Imm (ucast h) = addr_offset addr"
    by blast
  have "\<exists>w. itype (addr_offset addr) (addr_base addr) LW rd LOAD = Inr w"
    using g small_consts by (intro types_ok) (auto simp: rv_codes rv_consts prime_less IsInt_iff [of 12 0] intro: IsInt_mono IsUint_IsInt)
  moreover have "expand h = itype (addr_offset addr) (addr_base addr) LW rd LOAD"
    unfolding expand_def expand_alu_def expand_cr_def Let_def h(2-)
    using g by (simp add: rv_consts)
  ultimately show "\<exists>h v w. code a' = code a @ bytes16 h \<and> expand h = Inr v \<and> itype (addr_offset addr) (addr_base addr) LW rd LOAD = Inr w \<and> same_effect v w"
    using h(1) by (intro same_instruction)
qed

lemma c_ld_leaf:
  "stands_for (c_ld rd addr) a (itype (addr_offset addr) (addr_base addr) LD rd LOAD)"
  unfolding stands_for_def
proof (intro allI impI)
  fix a' assume "(c_ld rd addr) a = Inr ((), a')"
  then obtain i where g: "is_reg_prime rd" "is_reg_prime (addr_base addr)" "EncodeCMem8Imm (addr_offset addr) = Inr i"
      and c: "code a' = code a @ bytes16 (ucast (C_LD OR (push_bit 2 (rd AND 7) OR (push_bit 7 (addr_base addr AND 7) OR i))))"
    by (auto simp: c_ld_def leaf_simps)
  have f: "C_LD \<in> {C_LD, C_FLD, C_SD, C_FSD}" by simp
  from mem8_format [OF f g] c obtain h where h: "code a' = code a @ bytes16 h" "C_opcode h = C_LD" "DecodeCRdp (ucast h) = rd" "DecodeCRs1p (ucast h) = addr_base addr" "DecodeCMem8Imm (ucast h) = addr_offset addr"
    by blast
  have "\<exists>w. itype (addr_offset addr) (addr_base addr) LD rd LOAD = Inr w"
    using g small_consts by (intro types_ok) (auto simp: rv_codes rv_consts prime_less IsInt_iff [of 12 0] intro: IsInt_mono IsUint_IsInt)
  moreover have "expand h = itype (addr_offset addr) (addr_base addr) LD rd LOAD"
    unfolding expand_def expand_alu_def expand_cr_def Let_def h(2-)
    using g by (simp add: rv_consts)
  ultimately show "\<exists>h v w. code a' = code a @ bytes16 h \<and> expand h = Inr v \<and> itype (addr_offset addr) (addr_base addr) LD rd LOAD = Inr w \<and> same_effect v w"
    using h(1) by (intro same_instruction)
qed

lemma c_fld_leaf:
  "stands_for (c_fld rd addr) a (itype (addr_offset addr) (addr_base addr) D_f3 rd LOADFP)"
  unfolding stands_for_def
proof (intro allI impI)
  fix a' assume "(c_fld rd addr) a = Inr ((), a')"
  then obtain i where g: "is_reg_prime rd" "is_reg_prime (addr_base addr)" "EncodeCMem8Imm (addr_offset addr) = Inr i"
      and c: "code a' = code a @ bytes16 (ucast (C_FLD OR (push_bit 2 (rd AND 7) OR (push_bit 7 (addr_base addr AND 7) OR i))))"
    by (auto simp: c_fld_def leaf_simps)
  have f: "C_FLD \<in> {C_LD, C_FLD, C_SD, C_FSD}" by simp
  from mem8_format [OF f g] c obtain h where h: "code a' = code a @ bytes16 h" "C_opcode h = C_FLD" "DecodeCRdp (ucast h) = rd" "DecodeCRs1p (ucast h) = addr_base addr" "DecodeCMem8Imm (ucast h) = addr_offset addr"
    by blast
  have "\<exists>w. itype (addr_offset addr) (addr_base addr) D_f3 rd LOADFP = Inr w"
    using g small_consts by (intro types_ok) (auto simp: rv_codes rv_consts prime_less IsInt_iff [of 12 0] intro: IsInt_mono IsUint_IsInt)
  moreover have "expand h = itype (addr_offset addr) (addr_base addr) D_f3 rd LOADFP"
    unfolding expand_def expand_alu_def expand_cr_def Let_def h(2-)
    using g by (simp add: rv_consts)
  ultimately show "\<exists>h v w. code a' = code a @ bytes16 h \<and> expand h = Inr v \<and> itype (addr_offset addr) (addr_base addr) D_f3 rd LOADFP = Inr w \<and> same_effect v w"
    using h(1) by (intro same_instruction)
qed

lemma c_sw_leaf:
  "stands_for (c_sw rs2 addr) a (stype (addr_offset addr) rs2 (addr_base addr) SW STORE)"
  unfolding stands_for_def
proof (intro allI impI)
  fix a' assume "(c_sw rs2 addr) a = Inr ((), a')"
  then obtain i where g: "is_reg_prime rs2" "is_reg_prime (addr_base addr)" "EncodeCMem4Imm (addr_offset addr) = Inr i"
      and c: "code a' = code a @ bytes16 (ucast (C_SW OR (push_bit 7 (addr_base addr AND 7) OR (push_bit 2 (rs2 AND 7) OR i))))"
    by (auto simp: c_sw_def leaf_simps)
  have f: "C_SW \<in> {C_LW, C_SW}" by simp
  from mem4_store_format [OF f g] c obtain h where h: "code a' = code a @ bytes16 h" "C_opcode h = C_SW" "DecodeCRdp (ucast h) = rs2" "DecodeCRs1p (ucast h) = addr_base addr" "DecodeCMem4Imm (ucast h) = addr_offset addr"
    by blast
  have "\<exists>w. stype (addr_offset addr) rs2 (addr_base addr) SW STORE = Inr w"
    using g small_consts by (intro types_ok) (auto simp: rv_codes rv_consts prime_less IsInt_iff [of 12 0] intro: IsInt_mono IsUint_IsInt)
  moreover have "expand h = stype (addr_offset addr) rs2 (addr_base addr) SW STORE"
    unfolding expand_def expand_alu_def expand_cr_def Let_def h(2-)
    using g by (simp add: rv_consts)
  ultimately show "\<exists>h v w. code a' = code a @ bytes16 h \<and> expand h = Inr v \<and> stype (addr_offset addr) rs2 (addr_base addr) SW STORE = Inr w \<and> same_effect v w"
    using h(1) by (intro same_instruction)
qed

lemma c_sd_leaf:
  "stands_for (c_sd rs2 addr) a (stype (addr_offset addr) rs2 (addr_base addr) SD STORE)"
  unfolding stands_for_def
proof (intro allI impI)
  fix a' assume "(c_sd rs2 addr) a = Inr ((), a')"
  then obtain i where g: "is_reg_prime rs2" "is_reg_prime (addr_base addr)" "EncodeCMem8Imm (addr_offset addr) = Inr i"
      and c: "code a' = code a @ bytes16 (ucast (C_SD OR (push_bit 7 (addr_base addr AND 7) OR (push_bit 2 (rs2 AND 7) OR i))))"
    by (auto simp: c_sd_def leaf_simps)
  have f: "C_SD \<in> {C_LD, C_FLD, C_SD, C_FSD}" by simp
  from mem8_store_format [OF f g] c obtain h where h: "code a' = code a @ bytes16 h" "C_opcode h = C_SD" "DecodeCRdp (ucast h) = rs2" "DecodeCRs1p (ucast h) = addr_base addr" "DecodeCMem8Imm (ucast h) = addr_offset addr"
    by blast
  have "\<exists>w. stype (addr_offset addr) rs2 (addr_base addr) SD STORE = Inr w"
    using g small_consts by (intro types_ok) (auto simp: rv_codes rv_consts prime_less IsInt_iff [of 12 0] intro: IsInt_mono IsUint_IsInt)
  moreover have "expand h = stype (addr_offset addr) rs2 (addr_base addr) SD STORE"
    unfolding expand_def expand_alu_def expand_cr_def Let_def h(2-)
    using g by (simp add: rv_consts)
  ultimately show "\<exists>h v w. code a' = code a @ bytes16 h \<and> expand h = Inr v \<and> stype (addr_offset addr) rs2 (addr_base addr) SD STORE = Inr w \<and> same_effect v w"
    using h(1) by (intro same_instruction)
qed

lemma c_fsd_leaf:
  "stands_for (c_fsd rs2 addr) a (stype (addr_offset addr) rs2 (addr_base addr) D_f3 STOREFP)"
  unfolding stands_for_def
proof (intro allI impI)
  fix a' assume "(c_fsd rs2 addr) a = Inr ((), a')"
  then obtain i where g: "is_reg_prime rs2" "is_reg_prime (addr_base addr)" "EncodeCMem8Imm (addr_offset addr) = Inr i"
      and c: "code a' = code a @ bytes16 (ucast (C_FSD OR (push_bit 7 (addr_base addr AND 7) OR (push_bit 2 (rs2 AND 7) OR i))))"
    by (auto simp: c_fsd_def leaf_simps)
  have f: "C_FSD \<in> {C_LD, C_FLD, C_SD, C_FSD}" by simp
  from mem8_store_format [OF f g] c obtain h where h: "code a' = code a @ bytes16 h" "C_opcode h = C_FSD" "DecodeCRdp (ucast h) = rs2" "DecodeCRs1p (ucast h) = addr_base addr" "DecodeCMem8Imm (ucast h) = addr_offset addr"
    by blast
  have "\<exists>w. stype (addr_offset addr) rs2 (addr_base addr) D_f3 STOREFP = Inr w"
    using g small_consts by (intro types_ok) (auto simp: rv_codes rv_consts prime_less IsInt_iff [of 12 0] intro: IsInt_mono IsUint_IsInt)
  moreover have "expand h = stype (addr_offset addr) rs2 (addr_base addr) D_f3 STOREFP"
    unfolding expand_def expand_alu_def expand_cr_def Let_def h(2-)
    using g by (simp add: rv_consts)
  ultimately show "\<exists>h v w. code a' = code a @ bytes16 h \<and> expand h = Inr v \<and> stype (addr_offset addr) rs2 (addr_base addr) D_f3 STOREFP = Inr w \<and> same_effect v w"
    using h(1) by (intro same_instruction)
qed

lemma c_addi_leaf:
  "stands_for (c_addi rd rd imm) a (itype imm rd ADDI rd OPIMM)"
  unfolding stands_for_def
proof (intro allI impI)
  fix a' assume "(c_addi rd rd imm) a = Inr ((), a')"
  then obtain i where g: "rd < 32" "EncodeCIImm imm = Inr i"
      and c: "code a' = code a @ bytes16 (ucast (C_ADDI OR (push_bit 7 rd OR i)))"
    by (auto simp: c_addi_def leaf_simps)
  have f: "C_ADDI \<in> {C_ADDI, C_ADDIW, C_LI, C_SLLI}" by simp
  from ci_format [OF f g(1,2)] c obtain h where h: "code a' = code a @ bytes16 h" "C_opcode h = C_ADDI" "DecodeCRd (ucast h) = rd" "DecodeCIImm (ucast h) = imm"
    by blast
  have "\<exists>w. itype imm rd ADDI rd OPIMM = Inr w"
    using g small_consts by (intro types_ok) (auto simp: rv_codes rv_consts prime_less IsInt_iff [of 12 0] intro: IsInt_mono IsUint_IsInt)
  moreover have "expand h = itype imm rd ADDI rd OPIMM"
    unfolding expand_def expand_alu_def expand_cr_def Let_def h(2-)
    using g by (simp add: rv_consts)
  ultimately show "\<exists>h v w. code a' = code a @ bytes16 h \<and> expand h = Inr v \<and> itype imm rd ADDI rd OPIMM = Inr w \<and> same_effect v w"
    using h(1) by (intro same_instruction)
qed

lemma c_addiw_leaf:
  assumes "rd \<noteq> ZERO"
  shows "stands_for (c_addiw rd rd imm) a (itype imm rd ADDI rd OPIMM32)"
  unfolding stands_for_def
proof (intro allI impI)
  fix a' assume "(c_addiw rd rd imm) a = Inr ((), a')"
  then obtain i where g: "rd < 32" "EncodeCIImm imm = Inr i"
      and c: "code a' = code a @ bytes16 (ucast (C_ADDIW OR (push_bit 7 rd OR i)))"
    by (auto simp: c_addiw_def leaf_simps)
  have f: "C_ADDIW \<in> {C_ADDI, C_ADDIW, C_LI, C_SLLI}" by simp
  from ci_format [OF f g(1,2)] c obtain h where h: "code a' = code a @ bytes16 h" "C_opcode h = C_ADDIW" "DecodeCRd (ucast h) = rd" "DecodeCIImm (ucast h) = imm"
    by blast
  have "\<exists>w. itype imm rd ADDI rd OPIMM32 = Inr w"
    using g assms small_consts by (intro types_ok) (auto simp: rv_codes rv_consts prime_less IsInt_iff [of 12 0] intro: IsInt_mono IsUint_IsInt)
  moreover have "expand h = itype imm rd ADDI rd OPIMM32"
    unfolding expand_def expand_alu_def expand_cr_def Let_def h(2-)
    using g assms by (simp add: rv_consts)
  ultimately show "\<exists>h v w. code a' = code a @ bytes16 h \<and> expand h = Inr v \<and> itype imm rd ADDI rd OPIMM32 = Inr w \<and> same_effect v w"
    using h(1) by (intro same_instruction)
qed

lemma c_li_leaf:
  "stands_for (c_li rd imm) a (itype imm ZERO ADDI rd OPIMM)"
  unfolding stands_for_def
proof (intro allI impI)
  fix a' assume "(c_li rd imm) a = Inr ((), a')"
  then obtain i where g: "rd < 32" "EncodeCIImm imm = Inr i"
      and c: "code a' = code a @ bytes16 (ucast (C_LI OR (push_bit 7 rd OR i)))"
    by (auto simp: c_li_def leaf_simps)
  have f: "C_LI \<in> {C_ADDI, C_ADDIW, C_LI, C_SLLI}" by simp
  from ci_format [OF f g(1,2)] c obtain h where h: "code a' = code a @ bytes16 h" "C_opcode h = C_LI" "DecodeCRd (ucast h) = rd" "DecodeCIImm (ucast h) = imm"
    by blast
  have "\<exists>w. itype imm ZERO ADDI rd OPIMM = Inr w"
    using g small_consts by (intro types_ok) (auto simp: rv_codes rv_consts prime_less IsInt_iff [of 12 0] intro: IsInt_mono IsUint_IsInt)
  moreover have "expand h = itype imm ZERO ADDI rd OPIMM"
    unfolding expand_def expand_alu_def expand_cr_def Let_def h(2-)
    using g by (simp add: rv_consts)
  ultimately show "\<exists>h v w. code a' = code a @ bytes16 h \<and> expand h = Inr v \<and> itype imm ZERO ADDI rd OPIMM = Inr w \<and> same_effect v w"
    using h(1) by (intro same_instruction)
qed

lemma c_lui_leaf:
  assumes "imm \<noteq> 0"
  shows "stands_for (c_lui rd imm) a (utype imm rd LUI)"
  unfolding stands_for_def
proof (intro allI impI)
  fix a' assume "(c_lui rd imm) a = Inr ((), a')"
  then obtain i where g: "rd < 32" "EncodeCUImm imm = Inr i" "rd \<noteq> SP"
      and c: "code a' = code a @ bytes16 (ucast (C_LUI OR (push_bit 7 rd OR i)))"
    by (auto simp: c_lui_def leaf_simps)
  from cu_format [OF g(1,2)] c obtain h where h: "code a' = code a @ bytes16 h" "C_opcode h = C_LUI" "DecodeCRd (ucast h) = rd" "DecodeCUImm (ucast h) = imm"
    by blast
  have "\<exists>w. utype imm rd LUI = Inr w"
    using g assms small_consts by (intro types_ok) (auto simp: rv_codes rv_consts prime_less IsInt_iff [of 12 0] intro: IsInt_mono IsUint_IsInt)
  moreover have "expand h = utype imm rd LUI"
    unfolding expand_def expand_alu_def expand_cr_def Let_def h(2-)
    using g assms by (simp add: rv_consts)
  ultimately show "\<exists>h v w. code a' = code a @ bytes16 h \<and> expand h = Inr v \<and> utype imm rd LUI = Inr w \<and> same_effect v w"
    using h(1) by (intro same_instruction)
qed

lemma c_addi16sp_leaf:
  assumes "imm \<noteq> 0"
  shows "stands_for (c_addi16sp SP SP imm) a (itype imm SP ADDI SP OPIMM)"
  unfolding stands_for_def
proof (intro allI impI)
  fix a' assume "(c_addi16sp SP SP imm) a = Inr ((), a')"
  then obtain i where g: "EncodeCI16Imm imm = Inr i"
      and c: "code a' = code a @ bytes16 (ucast (C_ADDI16SP OR (push_bit 7 SP OR i)))"
    by (auto simp: c_addi16sp_def leaf_simps)
  from ci16_format [OF g] c obtain h where h: "code a' = code a @ bytes16 h" "C_opcode h = C_LUI" "DecodeCRd (ucast h) = SP" "DecodeCI16Imm (ucast h) = imm"
    by blast
  have "\<exists>w. itype imm SP ADDI SP OPIMM = Inr w"
    using g assms small_consts by (intro types_ok) (auto simp: rv_codes rv_consts prime_less IsInt_iff [of 12 0] intro: IsInt_mono IsUint_IsInt)
  moreover have "expand h = itype imm SP ADDI SP OPIMM"
    unfolding expand_def expand_alu_def expand_cr_def Let_def h(2-)
    using g assms by (simp add: rv_consts)
  ultimately show "\<exists>h v w. code a' = code a @ bytes16 h \<and> expand h = Inr v \<and> itype imm SP ADDI SP OPIMM = Inr w \<and> same_effect v w"
    using h(1) by (intro same_instruction)
qed

lemma c_addi4spn_leaf:
  "stands_for (c_addi4spn rd SP imm) a (itype imm SP ADDI rd OPIMM)"
  unfolding stands_for_def
proof (intro allI impI)
  fix a' assume "(c_addi4spn rd SP imm) a = Inr ((), a')"
  then obtain i where g: "is_reg_prime rd" "EncodeCI4SPNImm imm = Inr i" "imm \<noteq> 0"
      and c: "code a' = code a @ bytes16 (ucast (C_ADDI4SPN OR (push_bit 2 (rd AND 7) OR i)))"
    by (auto simp: c_addi4spn_def leaf_simps)
  from ci4spn_format [OF g(1,2)] c obtain h where h: "code a' = code a @ bytes16 h" "C_opcode h = C_ADDI4SPN" "DecodeCRdp (ucast h) = rd" "DecodeCI4SPNImm (ucast h) = imm"
    by blast
  have "\<exists>w. itype imm SP ADDI rd OPIMM = Inr w"
    using g small_consts by (intro types_ok) (auto simp: rv_codes rv_consts prime_less IsInt_iff [of 12 0] intro: IsInt_mono IsUint_IsInt)
  moreover have "expand h = itype imm SP ADDI rd OPIMM"
    unfolding expand_def expand_alu_def expand_cr_def Let_def h(2-)
    using g by (simp add: rv_consts)
  ultimately show "\<exists>h v w. code a' = code a @ bytes16 h \<and> expand h = Inr v \<and> itype imm SP ADDI rd OPIMM = Inr w \<and> same_effect v w"
    using h(1) by (intro same_instruction)
qed

lemma c_andi_leaf:
  "stands_for (c_andi rd rd imm) a (itype imm rd ANDI rd OPIMM)"
  unfolding stands_for_def
proof (intro allI impI)
  fix a' assume "(c_andi rd rd imm) a = Inr ((), a')"
  then obtain i where g: "is_reg_prime rd" "EncodeCIImm imm = Inr i"
      and c: "code a' = code a @ bytes16 (ucast (C_ANDI OR (push_bit 7 (rd AND 7) OR i)))"
    by (auto simp: c_andi_def leaf_simps)
  have f: "C_ANDI \<in> {C_SRLI, C_SRAI, C_ANDI}" by simp
  from cb_format [OF f g(1,2)] c obtain h where h: "code a' = code a @ bytes16 h" "C_opcode h = C_MISCALU" "ucast h AND C_MISCALU_MASK = C_ANDI" "DecodeCRs1p (ucast h) = rd" "DecodeCIImm (ucast h) = imm"
    by blast
  have "\<exists>w. itype imm rd ANDI rd OPIMM = Inr w"
    using g small_consts by (intro types_ok) (auto simp: rv_codes rv_consts prime_less IsInt_iff [of 12 0] intro: IsInt_mono IsUint_IsInt)
  moreover have "expand h = itype imm rd ANDI rd OPIMM"
    unfolding expand_def expand_alu_def expand_cr_def Let_def h(2-)
    using g by (simp add: rv_consts)
  ultimately show "\<exists>h v w. code a' = code a @ bytes16 h \<and> expand h = Inr v \<and> itype imm rd ANDI rd OPIMM = Inr w \<and> same_effect v w"
    using h(1) by (intro same_instruction)
qed

lemma shift_amount:
  assumes "0 <s imm" and "imm <s (64 :: intptr)"
  shows "IsUint 6 imm" and "scast (SignExtend 6 (ucast imm)) AND 0x3F = imm"
proof -
  have s: "0 \<le> sint imm" "sint imm < 64" using assms by (simp_all add: word_sless_alt)
  have "sint imm = uint imm"
    unfolding uint_sint by (intro take_bit_int_eq_self [symmetric]) (use s in auto)
  with s show u: "IsUint 6 imm" by (simp add: IsUint_def word_sle_eq word_le_def push_bit_of_1)
  have m: "(0x3F :: intptr) = mask 6" by (simp add: mask_eq_exp_minus_1)
  show "scast (SignExtend 6 (ucast imm)) AND 0x3F = imm"
    unfolding m
  proof (rule bit_word_eqI)
    fix i assume "i < LENGTH(64)"
    then show "bit (scast (SignExtend 6 (ucast imm)) AND mask 6 :: intptr) i = bit imm i"
      using IsUint_bit [OF u, of i] by (cases "i < 6"; cases "i = 5") (auto simp: bit_simps bit_SignExtend min_def not_less)
  qed
qed

lemma c_slli_leaf:
  assumes "0 <s imm" and "imm <s 64"
  shows "stands_for (c_slli rd rd imm) a (shtype F7_0 imm rd SLLI rd OPIMM)"
  unfolding stands_for_def
proof (intro allI impI)
  fix a' assume "(c_slli rd rd imm) a = Inr ((), a')"
  then obtain i where g: "rd < 32" "EncodeCIImm (scast (SignExtend 6 (ucast imm))) = Inr i"
      and c: "code a' = code a @ bytes16 (ucast (C_SLLI OR (push_bit 7 rd OR i)))"
    by (auto simp: c_slli_def leaf_simps Let_def)
  have f: "C_SLLI \<in> {C_ADDI, C_ADDIW, C_LI, C_SLLI}" by simp
  from ci_format [OF f g(1,2)] c obtain h where h: "code a' = code a @ bytes16 h" "C_opcode h = C_SLLI" "DecodeCRd (ucast h) = rd" "DecodeCIImm (ucast h) = scast (SignExtend 6 (ucast imm))"
    by blast
  have "\<exists>w. shtype F7_0 imm rd SLLI rd OPIMM = Inr w"
    using g assms small_consts by (intro types_ok) (auto simp: rv_consts prime_less shift_amount)
  moreover have "expand h = shtype F7_0 imm rd SLLI rd OPIMM"
    unfolding expand_def expand_alu_def expand_cr_def Let_def h(2-)
    using g assms by (simp add: rv_consts shift_amount)
  ultimately show "\<exists>h v w. code a' = code a @ bytes16 h \<and> expand h = Inr v \<and> shtype F7_0 imm rd SLLI rd OPIMM = Inr w \<and> same_effect v w"
    using h(1) by (intro same_instruction)
qed

lemma c_srli_leaf:
  assumes "0 <s imm" and "imm <s 64"
  shows "stands_for (c_srli rd rd imm) a (shtype F7_0 imm rd SRI rd OPIMM)"
  unfolding stands_for_def
proof (intro allI impI)
  fix a' assume "(c_srli rd rd imm) a = Inr ((), a')"
  then obtain i where g: "is_reg_prime rd" "EncodeCIImm (scast (SignExtend 6 (ucast imm))) = Inr i"
      and c: "code a' = code a @ bytes16 (ucast (C_SRLI OR (push_bit 7 (rd AND 7) OR i)))"
    by (auto simp: c_srli_def leaf_simps Let_def)
  have f: "C_SRLI \<in> {C_SRLI, C_SRAI, C_ANDI}" by simp
  from cb_format [OF f g(1,2)] c obtain h where h: "code a' = code a @ bytes16 h" "C_opcode h = C_MISCALU" "ucast h AND C_MISCALU_MASK = C_SRLI" "DecodeCRs1p (ucast h) = rd" "DecodeCIImm (ucast h) = scast (SignExtend 6 (ucast imm))"
    by blast
  have "\<exists>w. shtype F7_0 imm rd SRI rd OPIMM = Inr w"
    using g assms small_consts by (intro types_ok) (auto simp: rv_consts prime_less shift_amount)
  moreover have "expand h = shtype F7_0 imm rd SRI rd OPIMM"
    unfolding expand_def expand_alu_def expand_cr_def Let_def h(2-)
    using g assms by (simp add: rv_consts shift_amount)
  ultimately show "\<exists>h v w. code a' = code a @ bytes16 h \<and> expand h = Inr v \<and> shtype F7_0 imm rd SRI rd OPIMM = Inr w \<and> same_effect v w"
    using h(1) by (intro same_instruction)
qed

lemma c_srai_leaf:
  assumes "0 <s imm" and "imm <s 64"
  shows "stands_for (c_srai rd rd imm) a (shtype SRA imm rd SRI rd OPIMM)"
  unfolding stands_for_def
proof (intro allI impI)
  fix a' assume "(c_srai rd rd imm) a = Inr ((), a')"
  then obtain i where g: "is_reg_prime rd" "EncodeCIImm (scast (SignExtend 6 (ucast imm))) = Inr i"
      and c: "code a' = code a @ bytes16 (ucast (C_SRAI OR (push_bit 7 (rd AND 7) OR i)))"
    by (auto simp: c_srai_def leaf_simps Let_def)
  have f: "C_SRAI \<in> {C_SRLI, C_SRAI, C_ANDI}" by simp
  from cb_format [OF f g(1,2)] c obtain h where h: "code a' = code a @ bytes16 h" "C_opcode h = C_MISCALU" "ucast h AND C_MISCALU_MASK = C_SRAI" "DecodeCRs1p (ucast h) = rd" "DecodeCIImm (ucast h) = scast (SignExtend 6 (ucast imm))"
    by blast
  have "\<exists>w. shtype SRA imm rd SRI rd OPIMM = Inr w"
    using g assms small_consts by (intro types_ok) (auto simp: rv_consts prime_less shift_amount)
  moreover have "expand h = shtype SRA imm rd SRI rd OPIMM"
    unfolding expand_def expand_alu_def expand_cr_def Let_def h(2-)
    using g assms by (simp add: rv_consts shift_amount)
  ultimately show "\<exists>h v w. code a' = code a @ bytes16 h \<and> expand h = Inr v \<and> shtype SRA imm rd SRI rd OPIMM = Inr w \<and> same_effect v w"
    using h(1) by (intro same_instruction)
qed

lemma c_sub_leaf:
  "stands_for (c_sub rd rd rs2) a (rtype SUB rs2 rd ADD rd OP)"
  unfolding stands_for_def
proof (intro allI impI)
  fix a' assume "(c_sub rd rd rs2) a = Inr ((), a')"
  then have g: "is_reg_prime rd" "is_reg_prime rs2"
      and c: "code a' = code a @ bytes16 (ucast (C_SUB OR (push_bit 7 (rd AND 7) OR push_bit 2 (rs2 AND 7))))"
    by (auto simp: c_sub_def leaf_simps)
  have f: "C_SUB \<in> {C_SUB, C_XOR, C_OR, C_AND, C_SUBW, C_ADDW}" by simp
  from ca_format [OF f g] c obtain h where h: "code a' = code a @ bytes16 h" "C_opcode h = C_MISCALU" "ucast h AND 0xFC63 = C_SUB" "ucast h AND C_MISCALU_MASK \<notin> {C_SRLI, C_SRAI, C_ANDI}" "DecodeCRs1p (ucast h) = rd" "DecodeCRs2p (ucast h) = rs2"
    by blast
  have "\<exists>w. rtype SUB rs2 rd ADD rd OP = Inr w"
    using g small_consts by (intro types_ok) (auto simp: rv_codes rv_consts prime_less IsInt_iff [of 12 0] intro: IsInt_mono IsUint_IsInt)
  moreover have "expand h = rtype SUB rs2 rd ADD rd OP"
    unfolding expand_def expand_alu_def expand_cr_def Let_def h(2-)
    using g h(4) by (simp add: rv_consts)
  ultimately show "\<exists>h v w. code a' = code a @ bytes16 h \<and> expand h = Inr v \<and> rtype SUB rs2 rd ADD rd OP = Inr w \<and> same_effect v w"
    using h(1) by (intro same_instruction)
qed

lemma c_xor_leaf:
  "stands_for (c_xor rd rd rs2) a (rtype F7_0 rs2 rd XOR_f3 rd OP)"
  unfolding stands_for_def
proof (intro allI impI)
  fix a' assume "(c_xor rd rd rs2) a = Inr ((), a')"
  then have g: "is_reg_prime rd" "is_reg_prime rs2"
      and c: "code a' = code a @ bytes16 (ucast (C_XOR OR (push_bit 7 (rd AND 7) OR push_bit 2 (rs2 AND 7))))"
    by (auto simp: c_xor_def leaf_simps)
  have f: "C_XOR \<in> {C_SUB, C_XOR, C_OR, C_AND, C_SUBW, C_ADDW}" by simp
  from ca_format [OF f g] c obtain h where h: "code a' = code a @ bytes16 h" "C_opcode h = C_MISCALU" "ucast h AND 0xFC63 = C_XOR" "ucast h AND C_MISCALU_MASK \<notin> {C_SRLI, C_SRAI, C_ANDI}" "DecodeCRs1p (ucast h) = rd" "DecodeCRs2p (ucast h) = rs2"
    by blast
  have "\<exists>w. rtype F7_0 rs2 rd XOR_f3 rd OP = Inr w"
    using g small_consts by (intro types_ok) (auto simp: rv_codes rv_consts prime_less IsInt_iff [of 12 0] intro: IsInt_mono IsUint_IsInt)
  moreover have "expand h = rtype F7_0 rs2 rd XOR_f3 rd OP"
    unfolding expand_def expand_alu_def expand_cr_def Let_def h(2-)
    using g h(4) by (simp add: rv_consts)
  ultimately show "\<exists>h v w. code a' = code a @ bytes16 h \<and> expand h = Inr v \<and> rtype F7_0 rs2 rd XOR_f3 rd OP = Inr w \<and> same_effect v w"
    using h(1) by (intro same_instruction)
qed

lemma c_or_leaf:
  "stands_for (c_or rd rd rs2) a (rtype F7_0 rs2 rd OR_f3 rd OP)"
  unfolding stands_for_def
proof (intro allI impI)
  fix a' assume "(c_or rd rd rs2) a = Inr ((), a')"
  then have g: "is_reg_prime rd" "is_reg_prime rs2"
      and c: "code a' = code a @ bytes16 (ucast (C_OR OR (push_bit 7 (rd AND 7) OR push_bit 2 (rs2 AND 7))))"
    by (auto simp: c_or_def leaf_simps)
  have f: "C_OR \<in> {C_SUB, C_XOR, C_OR, C_AND, C_SUBW, C_ADDW}" by simp
  from ca_format [OF f g] c obtain h where h: "code a' = code a @ bytes16 h" "C_opcode h = C_MISCALU" "ucast h AND 0xFC63 = C_OR" "ucast h AND C_MISCALU_MASK \<notin> {C_SRLI, C_SRAI, C_ANDI}" "DecodeCRs1p (ucast h) = rd" "DecodeCRs2p (ucast h) = rs2"
    by blast
  have "\<exists>w. rtype F7_0 rs2 rd OR_f3 rd OP = Inr w"
    using g small_consts by (intro types_ok) (auto simp: rv_codes rv_consts prime_less IsInt_iff [of 12 0] intro: IsInt_mono IsUint_IsInt)
  moreover have "expand h = rtype F7_0 rs2 rd OR_f3 rd OP"
    unfolding expand_def expand_alu_def expand_cr_def Let_def h(2-)
    using g h(4) by (simp add: rv_consts)
  ultimately show "\<exists>h v w. code a' = code a @ bytes16 h \<and> expand h = Inr v \<and> rtype F7_0 rs2 rd OR_f3 rd OP = Inr w \<and> same_effect v w"
    using h(1) by (intro same_instruction)
qed

lemma c_and_leaf:
  "stands_for (c_and rd rd rs2) a (rtype F7_0 rs2 rd AND_f3 rd OP)"
  unfolding stands_for_def
proof (intro allI impI)
  fix a' assume "(c_and rd rd rs2) a = Inr ((), a')"
  then have g: "is_reg_prime rd" "is_reg_prime rs2"
      and c: "code a' = code a @ bytes16 (ucast (C_AND OR (push_bit 7 (rd AND 7) OR push_bit 2 (rs2 AND 7))))"
    by (auto simp: c_and_def leaf_simps)
  have f: "C_AND \<in> {C_SUB, C_XOR, C_OR, C_AND, C_SUBW, C_ADDW}" by simp
  from ca_format [OF f g] c obtain h where h: "code a' = code a @ bytes16 h" "C_opcode h = C_MISCALU" "ucast h AND 0xFC63 = C_AND" "ucast h AND C_MISCALU_MASK \<notin> {C_SRLI, C_SRAI, C_ANDI}" "DecodeCRs1p (ucast h) = rd" "DecodeCRs2p (ucast h) = rs2"
    by blast
  have "\<exists>w. rtype F7_0 rs2 rd AND_f3 rd OP = Inr w"
    using g small_consts by (intro types_ok) (auto simp: rv_codes rv_consts prime_less IsInt_iff [of 12 0] intro: IsInt_mono IsUint_IsInt)
  moreover have "expand h = rtype F7_0 rs2 rd AND_f3 rd OP"
    unfolding expand_def expand_alu_def expand_cr_def Let_def h(2-)
    using g h(4) by (simp add: rv_consts)
  ultimately show "\<exists>h v w. code a' = code a @ bytes16 h \<and> expand h = Inr v \<and> rtype F7_0 rs2 rd AND_f3 rd OP = Inr w \<and> same_effect v w"
    using h(1) by (intro same_instruction)
qed

lemma c_subw_leaf:
  "stands_for (c_subw rd rd rs2) a (rtype SUB rs2 rd ADD rd OP32)"
  unfolding stands_for_def
proof (intro allI impI)
  fix a' assume "(c_subw rd rd rs2) a = Inr ((), a')"
  then have g: "is_reg_prime rd" "is_reg_prime rs2"
      and c: "code a' = code a @ bytes16 (ucast (C_SUBW OR (push_bit 7 (rd AND 7) OR push_bit 2 (rs2 AND 7))))"
    by (auto simp: c_subw_def leaf_simps)
  have f: "C_SUBW \<in> {C_SUB, C_XOR, C_OR, C_AND, C_SUBW, C_ADDW}" by simp
  from ca_format [OF f g] c obtain h where h: "code a' = code a @ bytes16 h" "C_opcode h = C_MISCALU" "ucast h AND 0xFC63 = C_SUBW" "ucast h AND C_MISCALU_MASK \<notin> {C_SRLI, C_SRAI, C_ANDI}" "DecodeCRs1p (ucast h) = rd" "DecodeCRs2p (ucast h) = rs2"
    by blast
  have "\<exists>w. rtype SUB rs2 rd ADD rd OP32 = Inr w"
    using g small_consts by (intro types_ok) (auto simp: rv_codes rv_consts prime_less IsInt_iff [of 12 0] intro: IsInt_mono IsUint_IsInt)
  moreover have "expand h = rtype SUB rs2 rd ADD rd OP32"
    unfolding expand_def expand_alu_def expand_cr_def Let_def h(2-)
    using g h(4) by (simp add: rv_consts)
  ultimately show "\<exists>h v w. code a' = code a @ bytes16 h \<and> expand h = Inr v \<and> rtype SUB rs2 rd ADD rd OP32 = Inr w \<and> same_effect v w"
    using h(1) by (intro same_instruction)
qed

lemma c_addw_leaf:
  "stands_for (c_addw rd rd rs2) a (rtype F7_0 rs2 rd ADD rd OP32)"
  unfolding stands_for_def
proof (intro allI impI)
  fix a' assume "(c_addw rd rd rs2) a = Inr ((), a')"
  then have g: "is_reg_prime rd" "is_reg_prime rs2"
      and c: "code a' = code a @ bytes16 (ucast (C_ADDW OR (push_bit 7 (rd AND 7) OR push_bit 2 (rs2 AND 7))))"
    by (auto simp: c_addw_def leaf_simps)
  have f: "C_ADDW \<in> {C_SUB, C_XOR, C_OR, C_AND, C_SUBW, C_ADDW}" by simp
  from ca_format [OF f g] c obtain h where h: "code a' = code a @ bytes16 h" "C_opcode h = C_MISCALU" "ucast h AND 0xFC63 = C_ADDW" "ucast h AND C_MISCALU_MASK \<notin> {C_SRLI, C_SRAI, C_ANDI}" "DecodeCRs1p (ucast h) = rd" "DecodeCRs2p (ucast h) = rs2"
    by blast
  have "\<exists>w. rtype F7_0 rs2 rd ADD rd OP32 = Inr w"
    using g small_consts by (intro types_ok) (auto simp: rv_codes rv_consts prime_less IsInt_iff [of 12 0] intro: IsInt_mono IsUint_IsInt)
  moreover have "expand h = rtype F7_0 rs2 rd ADD rd OP32"
    unfolding expand_def expand_alu_def expand_cr_def Let_def h(2-)
    using g h(4) by (simp add: rv_consts)
  ultimately show "\<exists>h v w. code a' = code a @ bytes16 h \<and> expand h = Inr v \<and> rtype F7_0 rs2 rd ADD rd OP32 = Inr w \<and> same_effect v w"
    using h(1) by (intro same_instruction)
qed

lemma c_add_leaf:
  "stands_for (c_add rd rd rs2) a (rtype F7_0 rs2 rd ADD rd OP)"
  unfolding stands_for_def
proof (intro allI impI)
  fix a' assume "(c_add rd rd rs2) a = Inr ((), a')"
  then have g: "rd < 32" "rs2 < 32" "rd \<noteq> ZERO" "rs2 \<noteq> ZERO"
      and c: "code a' = code a @ bytes16 (ucast (C_ADD OR (push_bit 7 rd OR push_bit 2 rs2)))"
    by (auto simp: c_add_def leaf_simps)
  have f: "C_ADD \<in> {C_JR, C_ADD}" by simp
  from cr_format [OF f g(1,2)] c obtain h where h: "code a' = code a @ bytes16 h" "C_opcode h = C_JR" "bit (ucast h :: 32 word) 12 = (C_ADD = C_ADD)" "DecodeCRd (ucast h) = rd" "DecodeCRs2 (ucast h) = rs2"
    by blast
  have "\<exists>w. rtype F7_0 rs2 rd ADD rd OP = Inr w"
    using g small_consts by (intro types_ok) (auto simp: rv_codes rv_consts prime_less IsInt_iff [of 12 0] intro: IsInt_mono IsUint_IsInt)
  moreover have "expand h = rtype F7_0 rs2 rd ADD rd OP"
    unfolding expand_def expand_alu_def expand_cr_def Let_def h(2-)
    using g by (simp add: rv_consts)
  ultimately show "\<exists>h v w. code a' = code a @ bytes16 h \<and> expand h = Inr v \<and> rtype F7_0 rs2 rd ADD rd OP = Inr w \<and> same_effect v w"
    using h(1) by (intro same_instruction)
qed

lemma c_jr_leaf:
  "stands_for (c_jr rs1) a (itype 0 rs1 F3_0 ZERO JALR)"
  unfolding stands_for_def
proof (intro allI impI)
  fix a' assume "(c_jr rs1) a = Inr ((), a')"
  then have g: "rs1 < 32" "ZERO < 32" "rs1 \<noteq> ZERO"
      and c: "code a' = code a @ bytes16 (ucast (C_JR OR (push_bit 7 rs1 OR push_bit 2 ZERO)))"
    by (auto simp: c_jr_def leaf_simps)
  have f: "C_JR \<in> {C_JR, C_ADD}" by simp
  from cr_format [OF f g(1,2)] c obtain h where h: "code a' = code a @ bytes16 h" "C_opcode h = C_JR" "bit (ucast h :: 32 word) 12 = (C_JR = C_ADD)" "DecodeCRd (ucast h) = rs1" "DecodeCRs2 (ucast h) = ZERO"
    by blast
  have "\<exists>w. itype 0 rs1 F3_0 ZERO JALR = Inr w"
    using g small_consts by (intro types_ok) (auto simp: rv_codes rv_consts prime_less IsInt_iff [of 12 0] intro: IsInt_mono IsUint_IsInt)
  moreover have "expand h = itype 0 rs1 F3_0 ZERO JALR"
    unfolding expand_def expand_alu_def expand_cr_def Let_def h(2-)
    using g by (simp add: rv_consts)
  ultimately show "\<exists>h v w. code a' = code a @ bytes16 h \<and> expand h = Inr v \<and> itype 0 rs1 F3_0 ZERO JALR = Inr w \<and> same_effect v w"
    using h(1) by (intro same_instruction)
qed

lemma c_jalr_leaf:
  assumes "rs1 \<noteq> ZERO"
  shows "stands_for (c_jalr rs1) a (itype 0 rs1 F3_0 RA JALR)"
  unfolding stands_for_def
proof (intro allI impI)
  fix a' assume "(c_jalr rs1) a = Inr ((), a')"
  then have g: "rs1 < 32" "ZERO < 32"
      and c: "code a' = code a @ bytes16 (ucast (C_JALR OR (push_bit 7 rs1 OR push_bit 2 ZERO)))"
    by (auto simp: c_jalr_def leaf_simps)
  have f: "C_JALR \<in> {C_JR, C_ADD}" by (simp add: rv_consts)
  from cr_format [OF f g] c obtain h where h: "code a' = code a @ bytes16 h" "C_opcode h = C_JR" "bit (ucast h :: 32 word) 12 = (C_JALR = C_ADD)" "DecodeCRd (ucast h) = rs1" "DecodeCRs2 (ucast h) = ZERO"
    by blast
  have "\<exists>w. itype 0 rs1 F3_0 RA JALR = Inr w"
    using g assms small_consts by (intro types_ok) (auto simp: rv_codes rv_consts prime_less IsInt_iff [of 12 0] intro: IsInt_mono IsUint_IsInt)
  moreover have "expand h = itype 0 rs1 F3_0 RA JALR"
    unfolding expand_def expand_alu_def expand_cr_def Let_def h(2-)
    using g assms by (simp add: rv_consts)
  ultimately show "\<exists>h v w. code a' = code a @ bytes16 h \<and> expand h = Inr v \<and> itype 0 rs1 F3_0 RA JALR = Inr w \<and> same_effect v w"
    using h(1) by (intro same_instruction)
qed

lemma c_mv_leaf:
  "stands_for (c_mv rd rs2) a (rtype F7_0 rs2 ZERO ADD rd OP)"
  unfolding stands_for_def
proof (intro allI impI)
  fix a' assume "(c_mv rd rs2) a = Inr ((), a')"
  then have g: "rd < 32" "rs2 < 32" "rd \<noteq> ZERO" "rs2 \<noteq> ZERO"
      and c: "code a' = code a @ bytes16 (ucast (C_MV OR (push_bit 7 rd OR push_bit 2 rs2)))"
    by (auto simp: c_mv_def leaf_simps)
  have f: "C_MV \<in> {C_JR, C_ADD}" by (simp add: rv_consts)
  from cr_format [OF f g(1,2)] c obtain h where h: "code a' = code a @ bytes16 h" "C_opcode h = C_JR" "bit (ucast h :: 32 word) 12 = (C_MV = C_ADD)" "DecodeCRd (ucast h) = rd" "DecodeCRs2 (ucast h) = rs2"
    by blast
  have "\<exists>w. rtype F7_0 rs2 ZERO ADD rd OP = Inr w"
    using g small_consts by (intro types_ok) (auto simp: rv_codes rv_consts prime_less IsInt_iff [of 12 0] intro: IsInt_mono IsUint_IsInt)
  moreover have "expand h = rtype F7_0 rs2 ZERO ADD rd OP"
    unfolding expand_def expand_alu_def expand_cr_def Let_def h(2-)
    using g by (simp add: rv_consts)
  ultimately show "\<exists>h v w. code a' = code a @ bytes16 h \<and> expand h = Inr v \<and> rtype F7_0 rs2 ZERO ADD rd OP = Inr w \<and> same_effect v w"
    using h(1) by (intro same_instruction)
qed

lemma c_ebreak_leaf: "stands_for c_ebreak a (itype (ucast EBREAK) ZERO F3_0 ZERO SYSTEM)"
  unfolding stands_for_def
proof (intro allI impI)
  fix a' assume "c_ebreak a = Inr ((), a')"
  then have "code a' = code a @ bytes16 (ucast C_EBREAK)" by (auto simp: c_ebreak_def leaf_simps)
  moreover have "expand (ucast C_EBREAK) = itype (ucast EBREAK) ZERO F3_0 ZERO SYSTEM"
    by (simp add: expand_def expand_cr_def Let_def C_opcode_def bits_of_fields rv_consts)
  moreover have "\<exists>w. itype (ucast EBREAK) ZERO F3_0 ZERO SYSTEM = Inr w"
    by (intro types_ok) (simp_all add: rv_consts rv_codes IsInt_iff)
  ultimately show "\<exists>h v w. code a' = code a @ bytes16 h \<and> expand h = Inr v
      \<and> itype (ucast EBREAK) ZERO F3_0 ZERO SYSTEM = Inr w \<and> same_effect v w"
    by (intro same_instruction)
qed

lemma c_nop_leaf: "stands_for c_nop a (itype 0 ZERO ADDI ZERO OPIMM)"
  unfolding stands_for_def
proof (intro allI impI)
  fix a' assume "c_nop a = Inr ((), a')"
  then have "code a' = code a @ bytes16 (ucast C_NOP)" by (auto simp: c_nop_def leaf_simps)
  moreover have "expand (ucast C_NOP) = itype 0 ZERO ADDI ZERO OPIMM"
    by (simp add: expand_def expand_cr_def Let_def C_opcode_def bits_of_fields take_out_def SignExtend_def rv_consts)
  moreover have "\<exists>w. itype 0 ZERO ADDI ZERO OPIMM = Inr w"
    by (intro types_ok) (simp_all add: rv_consts rv_codes IsInt_iff)
  ultimately show "\<exists>h v w. code a' = code a @ bytes16 h \<and> expand h = Inr v
      \<and> itype 0 ZERO ADDI ZERO OPIMM = Inr w \<and> same_effect v w"
    by (intro same_instruction)
qed

section \<open>The fields of the 32-bit formats\<close>

lemma bit_funct: "f AND 7 = f \<Longrightarrow> 3 \<le> i \<Longrightarrow> \<not> bit f i" "g AND 0x7F = g \<Longrightarrow> 7 \<le> i \<Longrightarrow> \<not> bit g i"
  for f g :: "32 word"
  by (metis bit_and_iff bit_numeral_masks(2) not_le) (metis bit_and_iff bit_numeral_masks(3) not_le)

lemma itype_fields:
  assumes "itype imm rs1 f3 rd opc = Inr w"
  shows "DecodeRs1 w = rs1 \<and> DecodeFunct3 w = f3 \<and> DecodeRd w = rd \<and> DecodeOpcode w = opc \<and> DecodeITypeImm w = imm"
proof -
  have r: "rs1 < 32" "rd < 32" "f3 AND 7 = f3" "opc AND 0x7F = opc"
    using assms by (auto simp: itype_def or_all_Inr encoders_Inr EncodeRd_def EncodeRs1_def EncodeRs2_def EncodeFunct3_def
        EncodeFunct7_def EncodeOpcode_def)
  have e: "IsInt 12 imm" "True"
    using assms by (auto simp: itype_def or_all_Inr EncodeITypeImm_def IsITypeImm_def)
  have w: "w = (ucast (push_bit 20 imm)) OR push_bit 15 rs1 OR push_bit 12 f3 OR push_bit 7 rd OR opc"
    using assms by (auto simp: itype_def or_all_Inr encoders_Inr EncodeRd_def EncodeRs1_def EncodeRs2_def EncodeFunct3_def
        EncodeFunct7_def EncodeOpcode_def EncodeITypeImm_def)
  note bits = w c_bits less_32_bit [OF r(1)] less_32_bit [OF r(2)] bit_funct(1) [OF r(3)] bit_funct(2) [OF r(4)]
  have "DecodeRs1 w = rs1" "DecodeFunct3 w = f3" "DecodeRd w = rd" "DecodeOpcode w = opc"
    by (rule word_eq_listI; simp add: bits)+
  moreover have "DecodeITypeImm w = imm"
    unfolding rv_codes by (rule sign_extend_eqI [OF e(1)]) (use e(2) in \<open>simp_all add: bits\<close>)
  ultimately show ?thesis by blast
qed

lemma stype_fields:
  assumes "stype imm rs2 rs1 f3 opc = Inr w"
  shows "DecodeRs2 w = rs2 \<and> DecodeRs1 w = rs1 \<and> DecodeFunct3 w = f3 \<and> DecodeOpcode w = opc \<and> DecodeSTypeImm w = imm"
proof -
  have r: "rs2 < 32" "rs1 < 32" "f3 AND 7 = f3" "opc AND 0x7F = opc"
    using assms by (auto simp: stype_def or_all_Inr encoders_Inr EncodeRd_def EncodeRs1_def EncodeRs2_def EncodeFunct3_def
        EncodeFunct7_def EncodeOpcode_def)
  have e: "IsInt 12 imm" "True"
    using assms by (auto simp: stype_def or_all_Inr EncodeSTypeImm_def IsSTypeImm_def)
  have w: "w = (put 5 0x7f 25 imm OR put 0 0x1f 7 imm) OR push_bit 20 rs2 OR push_bit 15 rs1 OR push_bit 12 f3 OR opc"
    using assms by (auto simp: stype_def or_all_Inr encoders_Inr EncodeRd_def EncodeRs1_def EncodeRs2_def EncodeFunct3_def
        EncodeFunct7_def EncodeOpcode_def EncodeSTypeImm_def)
  note bits = w c_bits less_32_bit [OF r(1)] less_32_bit [OF r(2)] bit_funct(1) [OF r(3)] bit_funct(2) [OF r(4)]
  have "DecodeRs2 w = rs2" "DecodeRs1 w = rs1" "DecodeFunct3 w = f3" "DecodeOpcode w = opc"
    by (rule word_eq_listI; simp add: bits)+
  moreover have "DecodeSTypeImm w = imm"
    unfolding rv_codes by (rule sign_extend_eqI [OF e(1)]) (use e(2) in \<open>simp_all add: bits\<close>)
  ultimately show ?thesis by blast
qed

lemma btype_fields:
  assumes "btype imm rs2 rs1 f3 opc = Inr w"
  shows "DecodeRs2 w = rs2 \<and> DecodeRs1 w = rs1 \<and> DecodeFunct3 w = f3 \<and> DecodeOpcode w = opc \<and> DecodeBTypeImm w = imm"
proof -
  have r: "rs2 < 32" "rs1 < 32" "f3 AND 7 = f3" "opc AND 0x7F = opc"
    using assms by (auto simp: btype_def or_all_Inr encoders_Inr EncodeRd_def EncodeRs1_def EncodeRs2_def EncodeFunct3_def
        EncodeFunct7_def EncodeOpcode_def)
  have e: "IsInt 12 imm" "IsAligned imm 2"
    using assms by (auto simp: btype_def or_all_Inr EncodeBTypeImm_def IsBTypeImm_def)
  have w: "w = (put 12 0x1 31 imm OR put 5 0x3f 25 imm OR put 1 0xf 8 imm OR put 11 0x1 7 imm) OR push_bit 20 rs2 OR push_bit 15 rs1 OR push_bit 12 f3 OR opc"
    using assms by (auto simp: btype_def or_all_Inr encoders_Inr EncodeRd_def EncodeRs1_def EncodeRs2_def EncodeFunct3_def
        EncodeFunct7_def EncodeOpcode_def EncodeBTypeImm_def)
  note bits = w c_bits less_32_bit [OF r(1)] less_32_bit [OF r(2)] bit_funct(1) [OF r(3)] bit_funct(2) [OF r(4)]
  have "DecodeRs2 w = rs2" "DecodeRs1 w = rs1" "DecodeFunct3 w = f3" "DecodeOpcode w = opc"
    by (rule word_eq_listI; simp add: bits)+
  moreover have "DecodeBTypeImm w = imm"
    unfolding rv_codes by (rule sign_extend_eqI [OF e(1)]) (use e(2) in \<open>simp_all add: bits\<close>)
  ultimately show ?thesis by blast
qed

lemma utype_fields:
  assumes "utype imm rd opc = Inr w"
  shows "DecodeRd w = rd \<and> DecodeOpcode w = opc \<and> DecodeUTypeImm w = imm"
proof -
  have r: "rd < 32" "opc AND 0x7F = opc"
    using assms by (auto simp: utype_def or_all_Inr encoders_Inr EncodeRd_def EncodeRs1_def EncodeRs2_def EncodeFunct3_def
        EncodeFunct7_def EncodeOpcode_def)
  have e: "IsInt 32 imm" "IsAligned imm 0x1000"
    using assms by (auto simp: utype_def or_all_Inr EncodeUTypeImm_def IsUTypeImm_def)
  have w: "w = (ucast imm) OR push_bit 7 rd OR opc"
    using assms by (auto simp: utype_def or_all_Inr encoders_Inr EncodeRd_def EncodeRs1_def EncodeRs2_def EncodeFunct3_def
        EncodeFunct7_def EncodeOpcode_def EncodeUTypeImm_def)
  note bits = w c_bits less_32_bit [OF r(1)] bit_funct(2) [OF r(2)] IsAligned_bits(5) [OF e(2)]
  have "DecodeRd w = rd" "DecodeOpcode w = opc"
    by (rule word_eq_listI; simp add: bits)+
  moreover have "DecodeUTypeImm w = imm"
    unfolding rv_codes by (rule sign_extend_eqI [OF e(1)]) (use e(2) in \<open>simp_all add: bits\<close>)
  ultimately show ?thesis by blast
qed

lemma jtype_fields:
  assumes "jtype imm rd opc = Inr w"
  shows "DecodeRd w = rd \<and> DecodeOpcode w = opc \<and> DecodeJTypeImm w = imm"
proof -
  have r: "rd < 32" "opc AND 0x7F = opc"
    using assms by (auto simp: jtype_def or_all_Inr encoders_Inr EncodeRd_def EncodeRs1_def EncodeRs2_def EncodeFunct3_def
        EncodeFunct7_def EncodeOpcode_def)
  have e: "IsInt 20 imm" "IsAligned imm 2"
    using assms by (auto simp: jtype_def or_all_Inr EncodeJTypeImm_def IsJTypeImm_def)
  have w: "w = (put 20 0x1 31 imm OR put 1 0x3ff 21 imm OR put 11 0x1 20 imm OR put 12 0xff 12 imm) OR push_bit 7 rd OR opc"
    using assms by (auto simp: jtype_def or_all_Inr encoders_Inr EncodeRd_def EncodeRs1_def EncodeRs2_def EncodeFunct3_def
        EncodeFunct7_def EncodeOpcode_def EncodeJTypeImm_def)
  note bits = w c_bits less_32_bit [OF r(1)] bit_funct(2) [OF r(2)]
  have "DecodeRd w = rd" "DecodeOpcode w = opc"
    by (rule word_eq_listI; simp add: bits)+
  moreover have "DecodeJTypeImm w = imm"
    unfolding rv_codes by (rule sign_extend_eqI [OF e(1)]) (use e(2) in \<open>simp_all add: bits\<close>)
  ultimately show ?thesis by blast
qed

lemma rtype_fields:
  assumes "rtype f7 rs2 rs1 f3 rd opc = Inr w"
  shows "DecodeFunct7 w = f7 \<and> DecodeRs2 w = rs2 \<and> DecodeRs1 w = rs1 \<and> DecodeFunct3 w = f3 \<and> DecodeRd w = rd \<and> DecodeOpcode w = opc"
proof -
  have r: "rs2 < 32" "rs1 < 32" "rd < 32" "f3 AND 7 = f3" "f7 AND 0x7F = f7" "opc AND 0x7F = opc"
    using assms by (auto simp: rtype_def or_all_Inr encoders_Inr EncodeRd_def EncodeRs1_def EncodeRs2_def EncodeFunct3_def
        EncodeFunct7_def EncodeOpcode_def)
  have w: "w = push_bit 25 f7 OR push_bit 20 rs2 OR push_bit 15 rs1 OR push_bit 12 f3 OR push_bit 7 rd OR opc"
    using assms by (auto simp: rtype_def or_all_Inr encoders_Inr EncodeRd_def EncodeRs1_def EncodeRs2_def EncodeFunct3_def
        EncodeFunct7_def EncodeOpcode_def)
  note bits = w c_bits less_32_bit [OF r(1)] less_32_bit [OF r(2)] less_32_bit [OF r(3)] bit_funct(1) [OF r(4)] bit_funct(2) [OF r(5)] bit_funct(2) [OF r(6)]
  have "DecodeFunct7 w = f7" "DecodeRs2 w = rs2" "DecodeRs1 w = rs1" "DecodeFunct3 w = f3" "DecodeRd w = rd" "DecodeOpcode w = opc"
    by (rule word_eq_listI; simp add: bits)+
  then show ?thesis by blast
qed

section \<open>Jumps, branches and other forms\<close>

lemma c_j_leaf: "stands_for (c_j offset) a (jtype offset ZERO JAL)"
  unfolding stands_for_def
proof (intro allI impI)
  fix a' assume "c_j offset a = Inr ((), a')"
  then obtain i where g: "EncodeCJImm offset = Inr i" and c: "code a' = code a @ bytes16 (ucast (C_J OR i))"
    by (auto simp: c_j_def EmitCJump_def leaf_simps)
  have "C_J \<in> {C_J, C_JAL}" by simp
  from encode_cjump [OF g this] c obtain h where h: "code a' = code a @ bytes16 h" "branch16 h = Some (CJump C_J, offset)"
    by blast
  have "\<exists>w. jtype offset ZERO JAL = Inr w"
    using g by (intro types_ok) (auto simp: rv_codes rv_consts intro: IsInt_mono)
  moreover have "C_opcode h = C_J" "DecodeCJImm (ucast h) = offset"
    using h(2) by (auto simp: branch16_def split: if_splits)
  then have "expand h = jtype offset ZERO JAL"
    unfolding expand_def Let_def by (simp add: rv_consts)
  ultimately show "\<exists>h v w. code a' = code a @ bytes16 h \<and> expand h = Inr v \<and> jtype offset ZERO JAL = Inr w \<and> same_effect v w"
    using h(1) by (intro same_instruction)
qed

lemma c_branch_leaf:
  assumes "(c, opc, f3) \<in> {(c_beqz, C_BEQZ, BEQ), (c_bnez, C_BNEZ, BNE)}"
  shows "stands_for (c r offset) a (btype offset ZERO r f3 BRANCH)"
  unfolding stands_for_def
proof (intro allI impI)
  fix a' assume "c r offset a = Inr ((), a')"
  then obtain i where g: "EncodeCBImm offset = Inr i" "is_reg_prime r" and c: "code a' = code a @ bytes16 (ucast (opc OR push_bit 7 (r AND 7) OR i))"
    using assms by (auto simp: c_beqz_def c_bnez_def EmitCBranch_def leaf_simps)
  have o: "opc \<in> {C_BEQZ, C_BNEZ}" using assms by auto
  from encode_cbranch [OF g o] c obtain h where h: "code a' = code a @ bytes16 h" "branch16 h = Some (CBranch opc r, offset)"
    by blast
  have "\<exists>w. btype offset ZERO r f3 BRANCH = Inr w"
    using g assms by (intro types_ok) (auto simp: rv_codes rv_consts prime_less intro: IsInt_mono)
  moreover have "C_opcode h = opc" "DecodeCRs1p (ucast h) = r" "DecodeCBImm (ucast h) = offset"
    using h(2) by (auto simp: branch16_def split: if_splits)
  note d = this
  have "opc = C_BEQZ \<and> f3 = BEQ \<or> opc = C_BNEZ \<and> f3 = BNE" using assms by auto
  then have "expand h = btype offset ZERO r f3 BRANCH"
    unfolding expand_def Let_def d by (elim disjE conjE) (simp_all only:, simp_all add: rv_consts)
  ultimately show "\<exists>h v w. code a' = code a @ bytes16 h \<and> expand h = Inr v \<and> btype offset ZERO r f3 BRANCH = Inr w \<and> same_effect v w"
    using h(1) by (intro same_instruction)
qed

text \<open>The effects of the formats.\<close>

lemma effect_itype:
  "itype imm rs1 ADDI rd OPIMM = Inr w \<Longrightarrow> effect w x = Some (Writes rd (x rs1 + imm))"
  "itype imm rs1 ADDI rd OPIMM32 = Inr w \<Longrightarrow> effect w x = Some (Writes rd (scast (ucast (x rs1 + imm) :: 32 word)))"
  using itype_fields [of imm rs1 ADDI rd OPIMM w] itype_fields [of imm rs1 ADDI rd OPIMM32 w]
  by (simp_all add: effect_def Let_def rv_consts)

lemma effect_rtype:
  "rtype F7_0 rs2 rs1 ADD rd OP = Inr w \<Longrightarrow> effect w x = Some (Writes rd (x rs1 + x rs2))"
  "rtype F7_0 rs2 rs1 XOR_f3 rd OP = Inr w \<Longrightarrow> effect w x = Some (Writes rd (x rs1 XOR x rs2))"
  "rtype F7_0 rs2 rs1 OR_f3 rd OP = Inr w \<Longrightarrow> effect w x = Some (Writes rd (x rs1 OR x rs2))"
  "rtype F7_0 rs2 rs1 AND_f3 rd OP = Inr w \<Longrightarrow> effect w x = Some (Writes rd (x rs1 AND x rs2))"
  "rtype F7_0 rs2 rs1 ADD rd OP32 = Inr w \<Longrightarrow> effect w x = Some (Writes rd (scast (ucast (x rs1 + x rs2) :: 32 word)))"
  using rtype_fields [of F7_0 rs2 rs1 ADD rd OP w] rtype_fields [of F7_0 rs2 rs1 XOR_f3 rd OP w]
    rtype_fields [of F7_0 rs2 rs1 OR_f3 rd OP w] rtype_fields [of F7_0 rs2 rs1 AND_f3 rd OP w]
    rtype_fields [of F7_0 rs2 rs1 ADD rd OP32 w]
  by (simp_all add: effect_def Let_def rv_consts)

lemma effect_btype:
  "btype imm rs2 rs1 BEQ BRANCH = Inr w \<Longrightarrow> effect w x = Some (Goes_to (x rs1 = x rs2) imm)"
  "btype imm rs2 rs1 BNE BRANCH = Inr w \<Longrightarrow> effect w x = Some (Goes_to (x rs1 \<noteq> x rs2) imm)"
  using btype_fields [of imm rs2 rs1 BEQ BRANCH w] btype_fields [of imm rs2 rs1 BNE BRANCH w]
  by (simp_all add: effect_def Let_def rv_consts)

text \<open>The operands of a format are in range when it could be encoded.\<close>

lemma rtype_range: "rtype f7 rs2 rs1 f3 rd opc = Inr w \<Longrightarrow>
    f7 AND 0x7F = f7 \<and> rs2 < 32 \<and> rs1 < 32 \<and> f3 AND 7 = f3 \<and> rd < 32 \<and> opc AND 0x7F = opc"
  by (auto simp: rtype_def or_all_Inr encoders_Inr EncodeRd_def EncodeRs1_def EncodeRs2_def EncodeFunct3_def
        EncodeFunct7_def EncodeOpcode_def)

lemma btype_range: "btype imm rs2 rs1 f3 opc = Inr w \<Longrightarrow>
    IsBTypeImm imm \<and> rs2 < 32 \<and> rs1 < 32 \<and> f3 AND 7 = f3 \<and> opc AND 0x7F = opc"
  by (auto simp: btype_def or_all_Inr encoders_Inr EncodeRs1_def EncodeRs2_def EncodeFunct3_def EncodeOpcode_def
        EncodeBTypeImm_def)

text \<open>Operands of commutative instructions may be exchanged, and so may those of \<open>beq\<close> and \<open>bne\<close>.\<close>

lemma commuted_rtype:
  assumes "(f3, opc) \<in> {(ADD, OP), (XOR_f3, OP), (OR_f3, OP), (AND_f3, OP), (ADD, OP32)}"
    and "rtype F7_0 rs2 rs1 f3 rd opc = Inr v"
  shows "\<exists>w. rtype F7_0 rs1 rs2 f3 rd opc = Inr w \<and> same_effect v w"
proof -
  obtain w where w: "rtype F7_0 rs1 rs2 f3 rd opc = Inr w"
    using types_ok(3) [of F7_0 rs1 rs2 f3 rd opc] rtype_range [OF assms(2)] by blast
  with assms show ?thesis by (auto simp: same_effect_def effect_rtype ac_simps)
qed

lemma commuted_btype:
  assumes "f3 \<in> {BEQ, BNE}" and "btype imm rs2 rs1 f3 BRANCH = Inr v"
  shows "\<exists>w. btype imm rs1 rs2 f3 BRANCH = Inr w \<and> same_effect v w"
proof -
  obtain w where w: "btype imm rs1 rs2 f3 BRANCH = Inr w"
    using types_ok(6) [of imm rs1 rs2 f3 BRANCH] btype_range [OF assms(2)] by blast
  with assms show ?thesis by (auto simp: same_effect_def effect_btype)
qed

text \<open>A move is an addition of 0, and a small constant is its own 32-bit sign extension.\<close>

lemma move_itype:
  assumes "rtype F7_0 rs2 ZERO ADD rd OP = Inr v"
  shows "\<exists>w. itype 0 rs2 ADDI rd OPIMM = Inr w \<and> same_effect v w"
proof -
  obtain w where w: "itype 0 rs2 ADDI rd OPIMM = Inr w"
    using types_ok(1) [of 0 rs2 ADDI rd OPIMM] rtype_range [OF assms(1)] by (auto simp: rv_consts rv_codes IsInt_iff)
  with assms show ?thesis by (simp add: same_effect_def effect_rtype effect_itype ZERO_def)
qed

lemma sext32_small: "IsInt 12 imm \<Longrightarrow> scast (ucast imm :: 32 word) = (imm :: intptr)"
proof (rule bit_word_eqI)
  fix i assume a: "IsInt 12 imm" "i < LENGTH(64)"
  then have "bit imm i = bit imm (min i 31)"
    using IsInt_bit [of 12 imm i] IsInt_bit [of 12 imm 31] by (simp add: min_def)
  with a(2) show "bit (scast (ucast imm :: 32 word) :: intptr) i = bit imm i"
    by (cases "i < 31") (simp_all add: bit_signed_iff bit_unsigned_iff)
qed

lemma li_addiw:
  assumes "itype imm ZERO ADDI rd OPIMM = Inr v"
  shows "\<exists>w. itype imm ZERO ADDI rd OPIMM32 = Inr w \<and> same_effect v w"
proof -
  have i: "IsInt 12 imm" "rd < 32"
    using assms by (auto simp: itype_def or_all_Inr EncodeITypeImm_def IsITypeImm_def EncodeRd_def encoders_Inr)
  then obtain w where w: "itype imm ZERO ADDI rd OPIMM32 = Inr w"
    using types_ok(1) [of imm ZERO ADDI rd OPIMM32] by (auto simp: rv_consts IsITypeImm_def)
  with assms i show ?thesis by (simp add: same_effect_def effect_itype ZERO_def sext32_small)
qed


end
