(* ===== verification/Riscv_Wrappers.thy ===== *)
theory Riscv_Wrappers
  imports Riscv_Assembler
begin

text \<open>
  The inline methods of the class \<open>Assembler\<close> (\<open>encoder/riscv64-assembler.h\<close>, \<open>XLEN = 64\<close>):
  pseudo-instructions and shorter argument lists.  A defaulted argument is an argument here;
  overloads that leave out the link register end in \<open>_ra\<close>, overloads on labels in \<open>_label\<close>.
  \<open>subiw\<close> calls \<open>addi\<close>, not \<open>addiw\<close>, as the header does.
\<close>

definition jal_ra_label :: "nat \<Rightarrow> bool \<Rightarrow> asm" where
  "jal_ra_label label near = jal_label RA label near"

definition j_label :: "nat \<Rightarrow> bool \<Rightarrow> asm" where
  "j_label label near = jal_label ZERO label near"

definition jalr_ra :: "reg \<Rightarrow> intptr \<Rightarrow> asm" where
  "jalr_ra rs1 offset = jalr RA rs1 offset"

definition jr :: "reg \<Rightarrow> intptr \<Rightarrow> asm" where
  "jr rs1 offset = jalr ZERO rs1 offset"

definition ret_insn :: "asm" where
  "ret_insn = jalr ZERO RA 0"

definition bgt_label :: "reg \<Rightarrow> reg \<Rightarrow> nat \<Rightarrow> asm" where
  "bgt_label rs1 rs2 label = blt_label rs2 rs1 label"

definition ble_label :: "reg \<Rightarrow> reg \<Rightarrow> nat \<Rightarrow> asm" where
  "ble_label rs1 rs2 label = bge_label rs2 rs1 label"

definition bgtu_label :: "reg \<Rightarrow> reg \<Rightarrow> nat \<Rightarrow> asm" where
  "bgtu_label rs1 rs2 label = bltu_label rs2 rs1 label"

definition bleu_label :: "reg \<Rightarrow> reg \<Rightarrow> nat \<Rightarrow> asm" where
  "bleu_label rs1 rs2 label = bgeu_label rs2 rs1 label"

definition jal_ra :: "intptr \<Rightarrow> asm" where
  "jal_ra offset = jal RA offset"

definition j_insn :: "intptr \<Rightarrow> asm" where
  "j_insn offset = jal ZERO offset"

definition bgt :: "reg \<Rightarrow> reg \<Rightarrow> intptr \<Rightarrow> asm" where
  "bgt rs1 rs2 offset = blt rs2 rs1 offset"

definition ble :: "reg \<Rightarrow> reg \<Rightarrow> intptr \<Rightarrow> asm" where
  "ble rs1 rs2 offset = bge rs2 rs1 offset"

definition bgtu :: "reg \<Rightarrow> reg \<Rightarrow> intptr \<Rightarrow> asm" where
  "bgtu rs1 rs2 offset = bltu rs2 rs1 offset"

definition bleu :: "reg \<Rightarrow> reg \<Rightarrow> intptr \<Rightarrow> asm" where
  "bleu rs1 rs2 offset = bgeu rs2 rs1 offset"

definition addi_big :: "reg \<Rightarrow> reg \<Rightarrow> intptr \<Rightarrow> asm" where
  "addi_big rd rs1 imm = addi rd rs1 imm True"

definition addi_normal :: "reg \<Rightarrow> reg \<Rightarrow> intptr \<Rightarrow> asm" where
  "addi_normal rd rs1 imm = addi rd rs1 imm False"

definition subi :: "reg \<Rightarrow> reg \<Rightarrow> intptr \<Rightarrow> asm" where
  "subi rd rs1 imm = addi rd rs1 (- imm) False"

definition fence_all :: "asm" where
  "fence_all = fence kAll kAll"

definition csrr :: "reg \<Rightarrow> 32 word \<Rightarrow> asm" where
  "csrr rd csr = csrrs rd csr ZERO"

definition csrw :: "32 word \<Rightarrow> reg \<Rightarrow> asm" where
  "csrw csr rs = csrrw ZERO csr rs"

definition csrs :: "32 word \<Rightarrow> reg \<Rightarrow> asm" where
  "csrs csr rs = csrrs ZERO csr rs"

definition csrc :: "32 word \<Rightarrow> reg \<Rightarrow> asm" where
  "csrc csr rs = csrrc ZERO csr rs"

definition csrwi :: "32 word \<Rightarrow> 32 word \<Rightarrow> asm" where
  "csrwi csr imm = csrrwi ZERO csr imm"

definition csrsi :: "32 word \<Rightarrow> 32 word \<Rightarrow> asm" where
  "csrsi csr imm = csrrsi ZERO csr imm"

definition csrci :: "32 word \<Rightarrow> 32 word \<Rightarrow> asm" where
  "csrci csr imm = csrrci ZERO csr imm"

definition nop :: "bool \<Rightarrow> asm" where
  "nop force_big = addi ZERO ZERO 0 force_big"

definition li :: "reg \<Rightarrow> intptr \<Rightarrow> asm" where
  "li rd imm = addi rd ZERO imm False"

definition mv :: "reg \<Rightarrow> reg \<Rightarrow> asm" where
  "mv rd rs = addi rd rs 0 False"

definition not_insn :: "reg \<Rightarrow> reg \<Rightarrow> asm" where
  "not_insn rd rs = xori rd rs (- 1)"

definition neg :: "reg \<Rightarrow> reg \<Rightarrow> asm" where
  "neg rd rs = sub rd ZERO rs"

definition snez :: "reg \<Rightarrow> reg \<Rightarrow> asm" where
  "snez rd rs = sltu rd ZERO rs"

definition seqz :: "reg \<Rightarrow> reg \<Rightarrow> asm" where
  "seqz rd rs = sltiu rd rs 1"

definition sltz :: "reg \<Rightarrow> reg \<Rightarrow> asm" where
  "sltz rd rs = slt rd rs ZERO"

definition sgtz :: "reg \<Rightarrow> reg \<Rightarrow> asm" where
  "sgtz rd rs = slt rd ZERO rs"

definition beqz_label :: "reg \<Rightarrow> nat \<Rightarrow> bool \<Rightarrow> asm" where
  "beqz_label rs label near = beq_label rs ZERO label near"

definition bnez_label :: "reg \<Rightarrow> nat \<Rightarrow> bool \<Rightarrow> asm" where
  "bnez_label rs label near = bne_label rs ZERO label near"

definition blez_label :: "reg \<Rightarrow> nat \<Rightarrow> asm" where
  "blez_label rs label = bge_label ZERO rs label"

definition bgez_label :: "reg \<Rightarrow> nat \<Rightarrow> asm" where
  "bgez_label rs label = bge_label rs ZERO label"

definition bltz_label :: "reg \<Rightarrow> nat \<Rightarrow> asm" where
  "bltz_label rs label = blt_label rs ZERO label"

definition bgtz_label :: "reg \<Rightarrow> nat \<Rightarrow> asm" where
  "bgtz_label rs label = blt_label ZERO rs label"

definition beqz :: "reg \<Rightarrow> intptr \<Rightarrow> asm" where
  "beqz rs offset = beq rs ZERO offset"

definition bnez :: "reg \<Rightarrow> intptr \<Rightarrow> asm" where
  "bnez rs offset = bne rs ZERO offset"

definition blez :: "reg \<Rightarrow> intptr \<Rightarrow> asm" where
  "blez rs offset = bge ZERO rs offset"

definition bgez :: "reg \<Rightarrow> intptr \<Rightarrow> asm" where
  "bgez rs offset = bge rs ZERO offset"

definition bltz :: "reg \<Rightarrow> intptr \<Rightarrow> asm" where
  "bltz rs offset = blt rs ZERO offset"

definition bgtz :: "reg \<Rightarrow> intptr \<Rightarrow> asm" where
  "bgtz rs offset = blt ZERO rs offset"

definition subiw :: "reg \<Rightarrow> reg \<Rightarrow> intptr \<Rightarrow> asm" where
  "subiw rd rs1 imm = addi rd rs1 (- imm) False"

definition negw :: "reg \<Rightarrow> reg \<Rightarrow> asm" where
  "negw rd rs = subw rd ZERO rs"

definition sextw :: "reg \<Rightarrow> reg \<Rightarrow> asm" where
  "sextw rd rs = addiw rd rs 0"

definition lx :: "reg \<Rightarrow> rv_address \<Rightarrow> asm" where
  "lx rd addr = ld rd addr"

definition sx :: "reg \<Rightarrow> rv_address \<Rightarrow> asm" where
  "sx rs2 addr = sd rs2 addr"

definition lr :: "reg \<Rightarrow> rv_address \<Rightarrow> memory_order \<Rightarrow> asm" where
  "lr rd addr order = lrd rd addr order"

definition sr :: "reg \<Rightarrow> reg \<Rightarrow> rv_address \<Rightarrow> memory_order \<Rightarrow> asm" where
  "sr rd rs2 addr order = scd rd rs2 addr order"

definition fmvs :: "reg \<Rightarrow> reg \<Rightarrow> asm" where
  "fmvs rd rs = fsgnjs rd rs rs"

definition fabss :: "reg \<Rightarrow> reg \<Rightarrow> asm" where
  "fabss rd rs = fsgnjxs rd rs rs"

definition fnegs :: "reg \<Rightarrow> reg \<Rightarrow> asm" where
  "fnegs rd rs = fsgnjns rd rs rs"

definition fmvd :: "reg \<Rightarrow> reg \<Rightarrow> asm" where
  "fmvd rd rs = fsgnjd rd rs rs"

definition fabsd :: "reg \<Rightarrow> reg \<Rightarrow> asm" where
  "fabsd rd rs = fsgnjxd rd rs rs"

definition fnegd :: "reg \<Rightarrow> reg \<Rightarrow> asm" where
  "fnegd rd rs = fsgnjnd rd rs rs"

end
