(* ===== verification/Riscv_Compression.thy ===== *)
theory Riscv_Compression
  imports Riscv_Compressed Riscv_Wrappers
begin

text \<open>
  Compressing preserves instructions: what a method emits on a target with compressed
  instructions has the effect of what it emits on one without.
\<close>

lemma emit_types:
  "EmitRType f7 rs2 rs1 f3 rd opc = Emit32 (rtype f7 rs2 rs1 f3 rd opc)"
  "EmitRType_shamt f7 imm rs1 f3 rd opc = Emit32 (shtype f7 imm rs1 f3 rd opc)"
  "EmitIType imm rs1 f3 rd opc = Emit32 (itype imm rs1 f3 rd opc)"
  "EmitIType_f imm rs1 f3 rd opc = Emit32 (itype imm rs1 f3 rd opc)"
  "EmitSType imm rs2 rs1 f3 opc = Emit32 (stype imm rs2 rs1 f3 opc)"
  "EmitSType_f imm rs2 rs1 f3 opc = Emit32 (stype imm rs2 rs1 f3 opc)"
  "EmitBranch rs1 rs2 imm f3 = Emit32 (btype imm rs2 rs1 f3 BRANCH)"
  "EmitUType imm rd opc = Emit32 (utype imm rd opc)"
  "EmitJump rd imm opc = Emit32 (jtype imm rd JAL)"
  by (simp_all add: rv_emits rtype_def shtype_def itype_def stype_def btype_def utype_def jtype_def EncodeFRd_def
      EncodeRd_def EncodeFRs2_def EncodeRs2_def)

lemma extension_cases: "RV_I \<in> {RV_I, RV_F, RV_D}" "RV_D \<in> {RV_I, RV_F, RV_D}"
  by simp_all

lemmas method_intros = compresses_method [OF extension_cases(1)] compresses_method [OF extension_cases(2)]

lemmas leaves = c_lwsp_leaf c_ldsp_leaf c_fldsp_leaf c_swsp_leaf c_sdsp_leaf c_fsdsp_leaf c_lw_leaf c_ld_leaf c_fld_leaf
  c_sw_leaf c_sd_leaf c_fsd_leaf


lemma loads_compress:
  assumes "Includes (extensions a) RV_C"
  shows "compresses_to (lw rd addr) (lw rd addr) a" "compresses_to (ld rd addr) (ld rd addr) a"
    "compresses_to (fld rd addr) (fld rd addr) a" "compresses_to (sw rd addr) (sw rd addr) a"
    "compresses_to (sd rd addr) (sd rd addr) a" "compresses_to (fsd rd addr) (fsd rd addr) a"
  by (rule method_intros, rule lw_def ld_def fld_def sw_def sd_def fsd_def, rule assms,
      auto simp: emit_types intro!: compresses_to_c leaves compresses_to_same)+

lemma constants_compress:
  assumes "Includes (extensions a) RV_C"
  shows "imm \<noteq> 0 \<or> rd \<in> {ZERO, SP} \<Longrightarrow> compresses_to (lui rd imm) (lui rd imm) a"
    "compresses_to (addi rd rs1 imm big) (addi rd rs1 imm big) a"
    "compresses_to (addiw rd rs1 imm) (addiw rd rs1 imm) a" "compresses_to (andi rd rs1 imm) (andi rd rs1 imm) a"
proof -
  show "imm \<noteq> 0 \<or> rd \<in> {ZERO, SP} \<Longrightarrow> compresses_to (lui rd imm) (lui rd imm) a"
    by (rule method_intros, rule lui_def, rule assms)
      (auto simp: emit_types intro!: compresses_to_c c_lui_leaf compresses_to_same)
  show "compresses_to (addi rd rs1 imm big) (addi rd rs1 imm big) a"
    by (rule method_intros, rule addi_def, rule assms)
      (auto simp: emit_types intro!: compresses_to_c compresses_to_same c_li_leaf c_addi_leaf c_addi16sp_leaf
        c_addi4spn_leaf c_nop_leaf stands_for_same_effect [OF c_mv_leaf move_itype])
  show "compresses_to (addiw rd rs1 imm) (addiw rd rs1 imm) a"
    by (rule method_intros, rule addiw_def, rule assms)
      (auto simp: emit_types intro!: compresses_to_c compresses_to_same c_addiw_leaf stands_for_same_effect [OF c_li_leaf li_addiw])
  show "compresses_to (andi rd rs1 imm) (andi rd rs1 imm) a"
    by (rule method_intros, rule andi_def, rule assms)
      (auto simp: emit_types intro!: compresses_to_c compresses_to_same c_andi_leaf)
qed

text \<open>The shifts assert the shift amount first.\<close>

lemma compresses_to_assert:
  assumes "m = andthen (ASSERT b t) n" and "b \<Longrightarrow> compresses_to n n a"
  shows "compresses_to m m a"
  using assms unfolding compresses_to_def emits_bytes_def by (auto simp: ASSERT_Inr)

lemma shifts_compress:
  assumes "Includes (extensions a) RV_C"
  shows "compresses_to (slli rd rs1 imm) (slli rd rs1 imm) a" "compresses_to (srli rd rs1 imm) (srli rd rs1 imm) a"
    "compresses_to (srai rd rs1 imm) (srai rd rs1 imm) a"
proof -
  show "compresses_to (slli rd rs1 imm) (slli rd rs1 imm) a"
    by (rule compresses_to_assert, rule slli_def, rule method_intros, rule refl, rule assms)
      (auto simp: emit_types intro!: compresses_to_c compresses_to_same c_slli_leaf)
  show "compresses_to (srli rd rs1 imm) (srli rd rs1 imm) a"
    by (rule compresses_to_assert, rule srli_def, rule method_intros, rule refl, rule assms)
      (auto simp: emit_types intro!: compresses_to_c compresses_to_same c_srli_leaf)
  show "compresses_to (srai rd rs1 imm) (srai rd rs1 imm) a"
    by (rule compresses_to_assert, rule srai_def, rule method_intros, rule refl, rule assms)
      (auto simp: emit_types intro!: compresses_to_c compresses_to_same c_srai_leaf)
qed

text \<open>Register-register instructions: the compressed forms overwrite their first operand, so an instruction
  that overwrites its second one is compressed with the operands exchanged.\<close>

lemma commuted_pairs:
  "(ADD, OP) \<in> {(ADD, OP), (XOR_f3, OP), (OR_f3, OP), (AND_f3, OP), (ADD, OP32)}"
  "(XOR_f3, OP) \<in> {(ADD, OP), (XOR_f3, OP), (OR_f3, OP), (AND_f3, OP), (ADD, OP32)}"
  "(OR_f3, OP) \<in> {(ADD, OP), (XOR_f3, OP), (OR_f3, OP), (AND_f3, OP), (ADD, OP32)}"
  "(AND_f3, OP) \<in> {(ADD, OP), (XOR_f3, OP), (OR_f3, OP), (AND_f3, OP), (ADD, OP32)}"
  "(ADD, OP32) \<in> {(ADD, OP), (XOR_f3, OP), (OR_f3, OP), (AND_f3, OP), (ADD, OP32)}"
  by simp_all

lemmas commuted_leaves = stands_for_same_effect [OF c_add_leaf commuted_rtype [OF commuted_pairs(1)]]
  stands_for_same_effect [OF c_xor_leaf commuted_rtype [OF commuted_pairs(2)]]
  stands_for_same_effect [OF c_or_leaf commuted_rtype [OF commuted_pairs(3)]]
  stands_for_same_effect [OF c_and_leaf commuted_rtype [OF commuted_pairs(4)]]
  stands_for_same_effect [OF c_addw_leaf commuted_rtype [OF commuted_pairs(5)]]

lemma registers_compress:
  assumes "Includes (extensions a) RV_C"
  shows "compresses_to (xor_insn rd rs1 rs2) (xor_insn rd rs1 rs2) a" "compresses_to (or_insn rd rs1 rs2) (or_insn rd rs1 rs2) a"
    "compresses_to (and_insn rd rs1 rs2) (and_insn rd rs1 rs2) a" "compresses_to (addw rd rs1 rs2) (addw rd rs1 rs2) a"
    "compresses_to (sub rd rs1 rs2) (sub rd rs1 rs2) a" "compresses_to (subw rd rs1 rs2) (subw rd rs1 rs2) a"
    "compresses_to (add rd rs1 rs2) (add rd rs1 rs2) a"
proof -
  show "compresses_to (add rd rs1 rs2) (add rd rs1 rs2) a"
    by (rule method_intros, rule add_def, rule assms)
      (auto simp: emit_types intro!: compresses_to_c compresses_to_same c_add_leaf commuted_leaves c_mv_leaf
        stands_for_same_effect [OF c_mv_leaf commuted_rtype [OF commuted_pairs(1)]])
qed (rule method_intros, rule xor_insn_def or_insn_def and_insn_def addw_def sub_def subw_def, rule assms,
    auto simp: emit_types intro!: compresses_to_c compresses_to_same c_xor_leaf c_or_leaf c_and_leaf c_addw_leaf
      c_sub_leaf c_subw_leaf commuted_leaves)+

lemma jumps_compress:
  assumes "Includes (extensions a) RV_C"
  shows "compresses_to (jal rd imm) (jal rd imm) a" "compresses_to (jalr rd rs1 imm) (jalr rd rs1 imm) a"
    "compresses_to (beq rs1 rs2 imm) (beq rs1 rs2 imm) a" "compresses_to (bne rs1 rs2 imm) (bne rs1 rs2 imm) a"
    "compresses_to ebreak ebreak a"
proof -
  have f: "BEQ \<in> {BEQ, BNE}" "BNE \<in> {BEQ, BNE}"
    "(c_beqz, C_BEQZ, BEQ) \<in> {(c_beqz, C_BEQZ, BEQ), (c_bnez, C_BNEZ, BNE)}"
    "(c_bnez, C_BNEZ, BNE) \<in> {(c_beqz, C_BEQZ, BEQ), (c_bnez, C_BNEZ, BNE)}" by simp_all
  note leaves = c_j_leaf c_jr_leaf c_jalr_leaf c_ebreak_leaf c_branch_leaf [OF f(3)] c_branch_leaf [OF f(4)]
    stands_for_same_effect [OF c_branch_leaf [OF f(3)] commuted_btype [OF f(1)]]
    stands_for_same_effect [OF c_branch_leaf [OF f(4)] commuted_btype [OF f(2)]]
  show "compresses_to (jal rd imm) (jal rd imm) a" "compresses_to (jalr rd rs1 imm) (jalr rd rs1 imm) a"
    "compresses_to (beq rs1 rs2 imm) (beq rs1 rs2 imm) a" "compresses_to (bne rs1 rs2 imm) (bne rs1 rs2 imm) a"
    "compresses_to ebreak ebreak a"
    by (rule method_intros, rule jal_def jalr_def beq_def bne_def ebreak_def, rule assms,
      auto simp: emit_types intro!: compresses_to_c compresses_to_same leaves)+
qed

section \<open>Properties\<close>

text \<open>The methods that have compressed forms, with operands that are not labels; \<open>lui\<close> of 0 only
  into \<open>ZERO\<close> and \<open>SP\<close>.\<close>

definition compressible :: "reg \<Rightarrow> reg \<Rightarrow> reg \<Rightarrow> intptr \<Rightarrow> rv_address \<Rightarrow> asm list" where
  "compressible rd rs1 rs2 imm addr =
     (if imm = 0 \<and> rd \<notin> {ZERO, SP} then [] else [lui rd imm])
     @ [jal rd imm, jalr rd rs1 imm, beq rs1 rs2 imm, bne rs1 rs2 imm, lw rd addr, ld rd addr, fld rd addr,
        sw rs2 addr, sd rs2 addr, fsd rs2 addr, addi rd rs1 imm False, addi rd rs1 imm True, addiw rd rs1 imm,
        andi rd rs1 imm, slli rd rs1 imm, srli rd rs1 imm, srai rd rs1 imm, add rd rs1 rs2, sub rd rs1 rs2,
        xor_insn rd rs1 rs2, or_insn rd rs1 rs2, and_insn rd rs1 rs2, addw rd rs1 rs2, subw rd rs1 rs2, ebreak]"

text \<open>C18: on a target with compressed instructions, whatever one of the methods \<open>lui\<close>, \<open>jal\<close>, \<open>jalr\<close>,
  \<open>beq\<close> and \<open>bne\<close> with an offset, \<open>lw\<close>, \<open>ld\<close>, \<open>fld\<close>, \<open>sw\<close>, \<open>sd\<close>, \<open>fsd\<close>, \<open>addi\<close>, \<open>addiw\<close>, \<open>andi\<close>, \<open>slli\<close>, \<open>srli\<close>,
  \<open>srai\<close>, \<open>add\<close>, \<open>sub\<close>, \<open>xor\<close>, \<open>or\<close>, \<open>and\<close>, \<open>addw\<close>, \<open>subw\<close> and \<open>ebreak\<close> emits, when it succeeds, is
  the instruction it emits on the same target without them, or a 16-bit instruction that stands for
  one with the same effect in every register file in which \<open>ZERO\<close> is 0.  Left out are \<open>lui\<close> of 0
  into a register other than \<open>ZERO\<close> and \<open>SP\<close>, the overloads that take a label, and \<open>trap\<close>.\<close>

theorem compression_preserves_instructions:
  assumes "Includes (extensions a) RV_C" and "m \<in> set (compressible rd rs1 rs2 imm addr)" and "m a = Inr ((), a')"
  shows "\<exists>p w b. code a' = code a @ p \<and> m (without_C a) = Inr ((), b) \<and> code b = code a @ bytes32 w
    \<and> (p = bytes32 w \<or> (\<exists>h v. p = bytes16 h \<and> expand h = Inr v \<and> same_effect v w))"
proof -
  have "compresses_to m m a"
    using assms(2) loads_compress [OF assms(1)] constants_compress [OF assms(1)] shifts_compress [OF assms(1)]
      registers_compress [OF assms(1)] jumps_compress [OF assms(1)]
    by (auto simp: compressible_def split: if_splits)
  with assms(3) show ?thesis
    unfolding compresses_to_def emits_bytes_def using without_C_simps(1) [of a] by metis
qed

lemma compression_preserves_instructions_witness:
  "\<exists>a' p w b. add 10 11 10 (Assembler RV_GC) = Inr ((), a') \<and> code a' = p
     \<and> add 10 11 10 (without_C (Assembler RV_GC)) = Inr ((), b) \<and> code b = bytes32 w
     \<and> (p = bytes32 w \<or> (\<exists>h v. p = bytes16 h \<and> expand h = Inr v \<and> same_effect v w))"
proof -
  have i: "Includes RV_GC RV_I" "Includes RV_GC RV_C"
    by (simp_all add: Includes_def RV_GC_def RV_G_def enum_set_def rv_consts)
  have "\<exists>a'. add 10 11 10 (Assembler RV_GC) = Inr ((), a')"
    using i by (simp add: add_def c_add_def run_simps Assembler_def EncodeCRd_def EncodeCRs2_def encode_reg_def check_def or_all.simps ZERO_def)
  then obtain a' where a: "add 10 11 10 (Assembler RV_GC) = Inr ((), a')" by blast
  have m: "add 10 11 10 \<in> set (compressible 10 11 10 0 \<lparr>addr_base = 0, addr_offset = 0\<rparr>)"
    by (simp add: compressible_def)
  from compression_preserves_instructions [OF _ m a] i(2) show ?thesis
    unfolding a by (auto simp: Assembler_def)
qed

text \<open>C20: every immediate that can be encoded is decoded to itself, in all seventeen immediate formats.\<close>

theorem immediates_roundtrip:
  "(EncodeITypeImm imm = Inr e \<longrightarrow> DecodeITypeImm e = imm) \<and> (EncodeSTypeImm imm = Inr e \<longrightarrow> DecodeSTypeImm e = imm)
   \<and> (EncodeBTypeImm imm = Inr e \<longrightarrow> DecodeBTypeImm e = imm) \<and> (EncodeUTypeImm imm = Inr e \<longrightarrow> DecodeUTypeImm e = imm)
   \<and> (EncodeJTypeImm imm = Inr e \<longrightarrow> DecodeJTypeImm e = imm)
   \<and> (EncodeCSPLoad4Imm imm = Inr e \<longrightarrow> DecodeCSPLoad4Imm e = imm) \<and> (EncodeCSPLoad8Imm imm = Inr e \<longrightarrow> DecodeCSPLoad8Imm e = imm)
   \<and> (EncodeCSPStore4Imm imm = Inr e \<longrightarrow> DecodeCSPStore4Imm e = imm) \<and> (EncodeCSPStore8Imm imm = Inr e \<longrightarrow> DecodeCSPStore8Imm e = imm)
   \<and> (EncodeCMem4Imm imm = Inr e \<longrightarrow> DecodeCMem4Imm e = imm) \<and> (EncodeCMem8Imm imm = Inr e \<longrightarrow> DecodeCMem8Imm e = imm)
   \<and> (EncodeCJImm imm = Inr e \<longrightarrow> DecodeCJImm e = imm) \<and> (EncodeCBImm imm = Inr e \<longrightarrow> DecodeCBImm e = imm)
   \<and> (EncodeCIImm imm = Inr e \<longrightarrow> DecodeCIImm e = imm) \<and> (EncodeCUImm imm = Inr e \<longrightarrow> DecodeCUImm e = imm)
   \<and> (EncodeCI16Imm imm = Inr e \<longrightarrow> DecodeCI16Imm e = imm) \<and> (EncodeCI4SPNImm imm = Inr e \<longrightarrow> DecodeCI4SPNImm e = imm)"
  using IType_roundtrip SType_roundtrip BType_roundtrip UType_roundtrip JType_roundtrip CSPLoad4_roundtrip
    CSPLoad8_roundtrip CSPStore4_roundtrip CSPStore8_roundtrip CMem4_roundtrip CMem8_roundtrip CJ_roundtrip
    CB_roundtrip CI_roundtrip CU_roundtrip CI16_roundtrip CI4SPN_roundtrip
  by auto

lemma immediates_roundtrip_witness:
  "\<exists>e. EncodeBTypeImm (- 4) = Inr e \<and> DecodeBTypeImm e = - 4"
proof -
  have "\<exists>e. EncodeBTypeImm (- 4) = Inr e"
    by (simp add: rv_codes IsInt_iff IsAligned_def)
  with immediates_roundtrip [of "- 4"] show ?thesis by blast
qed

text \<open>C21: an emitted 32-bit instruction is decoded to the operands and function codes it was emitted with,
  in the register, immediate, store, branch, upper-immediate and jump formats.\<close>

theorem instructions_decode:
  "(EmitRType f7 rs2 rs1 f3 rd opc a = Inr ((), a') \<longrightarrow> (\<exists>w. code a' = code a @ bytes32 w \<and> DecodeFunct7 w = f7
      \<and> DecodeRs2 w = rs2 \<and> DecodeRs1 w = rs1 \<and> DecodeFunct3 w = f3 \<and> DecodeRd w = rd \<and> DecodeOpcode w = opc))
   \<and> (EmitIType imm rs1 f3 rd opc a = Inr ((), a') \<longrightarrow> (\<exists>w. code a' = code a @ bytes32 w \<and> DecodeITypeImm w = imm
      \<and> DecodeRs1 w = rs1 \<and> DecodeFunct3 w = f3 \<and> DecodeRd w = rd \<and> DecodeOpcode w = opc))
   \<and> (EmitSType imm rs2 rs1 f3 opc a = Inr ((), a') \<longrightarrow> (\<exists>w. code a' = code a @ bytes32 w \<and> DecodeSTypeImm w = imm
      \<and> DecodeRs2 w = rs2 \<and> DecodeRs1 w = rs1 \<and> DecodeFunct3 w = f3 \<and> DecodeOpcode w = opc))
   \<and> (EmitBType imm rs2 rs1 f3 opc a = Inr ((), a') \<longrightarrow> (\<exists>w. code a' = code a @ bytes32 w \<and> DecodeBTypeImm w = imm
      \<and> DecodeRs2 w = rs2 \<and> DecodeRs1 w = rs1 \<and> DecodeFunct3 w = f3 \<and> DecodeOpcode w = opc))
   \<and> (EmitUType imm rd opc a = Inr ((), a') \<longrightarrow> (\<exists>w. code a' = code a @ bytes32 w \<and> DecodeUTypeImm w = imm
      \<and> DecodeRd w = rd \<and> DecodeOpcode w = opc))
   \<and> (EmitJType imm rd opc a = Inr ((), a') \<longrightarrow> (\<exists>w. code a' = code a @ bytes32 w \<and> DecodeJTypeImm w = imm
      \<and> DecodeRd w = rd \<and> DecodeOpcode w = opc))"
  unfolding emit_types EmitBType_def btype_def [symmetric] EmitJType_def jtype_def [symmetric] Emit32_Inr
  by (auto dest: rtype_fields itype_fields stype_fields btype_fields utype_fields jtype_fields)

lemma instructions_decode_witness:
  "\<exists>a' w. EmitRType SUB 12 11 ADD 10 OP (Assembler RV_G) = Inr ((), a') \<and> code a' = bytes32 w
     \<and> DecodeFunct7 w = SUB \<and> DecodeRs2 w = 12 \<and> DecodeRs1 w = 11 \<and> DecodeRd w = 10"
proof -
  have "\<exists>w. rtype SUB 12 11 ADD 10 OP = Inr w" by (intro types_ok) (simp_all add: rv_consts)
  then obtain a' where "EmitRType SUB 12 11 ADD 10 OP (Assembler RV_G) = Inr ((), a')"
    by (auto simp: emit_types Emit32_Inr)
  with instructions_decode [of SUB 12 11 ADD 10 OP "Assembler RV_G" a'] show ?thesis
    by (auto simp: Assembler_def)
qed

section \<open>Operands\<close>

lemma reserved_lui:
  assumes "C_opcode h = C_LUI" "DecodeCRd (ucast h) = rd" "DecodeCUImm (ucast h) = 0" "rd \<notin> {ZERO, SP}"
  shows "expand h = reserved"
  unfolding expand_def expand_alu_def expand_cr_def Let_def assms(1-3) using assms(4) by (simp add: rv_consts)

lemma lui_0_reserved:
  assumes "Includes (extensions a) RV_I" "Includes (extensions a) RV_C" "rd < 32" "rd \<notin> {ZERO, SP}"
  shows "\<exists>a' h. lui rd 0 a = Inr ((), a') \<and> code a' = code a @ bytes16 h \<and> expand h = reserved"
proof -
  have imm: "EncodeCUImm 0 = Inr 0" "IsCUImm 0"
    by (simp_all add: rv_codes IsInt_iff IsAligned_def put_def)
  let ?w = "C_LUI OR (push_bit 7 rd OR 0)"
  have "\<exists>a'. lui rd 0 a = Inr ((), a') \<and> code a' = code a @ bytes16 (ucast ?w)"
    using assms imm by (simp add: lui_def c_lui_def run_simps EncodeCRd_def encode_reg_def check_def or_all.simps)
  moreover have "expand (ucast ?w) = reserved"
    by (rule reserved_lui [where rd = rd]) (use cu_format [OF assms(3) imm(1)] assms(4) in simp_all)
  ultimately show ?thesis by blast
qed

lemma add_to_ZERO:
  assumes "Includes (extensions a) RV_I" "Includes (extensions a) RV_C" "rs < 32"
  shows "add ZERO ZERO rs a = Inl (Assertion_failed ''rd != ZERO'')"
    "add ZERO rs ZERO a = Inl (Assertion_failed ''rd != ZERO'')"
    "\<exists>b. add ZERO ZERO rs (without_C a) = Inr ((), b)" "\<exists>b. add ZERO rs ZERO (without_C a) = Inr ((), b)"
proof -
  note run = requires_def Supports_def ASSERT_def andthen_def bnd_def ret_def throw_def
  show "add ZERO ZERO rs a = Inl (Assertion_failed ''rd != ZERO'')"
    "add ZERO rs ZERO a = Inl (Assertion_failed ''rd != ZERO'')"
    using assms(1,2) by (simp_all add: add_def c_add_def c_mv_def run)
  have i: "Includes (extensions (without_C a)) RV_I" using without_C_simps(3) [of RV_I a] assms(1) by simp
  have "\<exists>w. rtype F7_0 rs ZERO ADD ZERO OP = Inr w" "\<exists>w. rtype F7_0 ZERO rs ADD ZERO OP = Inr w"
    by (intro types_ok; use assms(3) in \<open>simp add: rv_consts\<close>)+
  then show "\<exists>b. add ZERO ZERO rs (without_C a) = Inr ((), b)" "\<exists>b. add ZERO rs ZERO (without_C a) = Inr ((), b)"
    using i without_C_simps(2) [of a] by (auto simp: add_def emit_types run_simps)
qed

lemma load_to_ZERO:
  assumes "Includes (extensions a) RV_I" "Includes (extensions a) RV_C"
  defines "at \<equiv> \<lambda>n. \<lparr>addr_base = SP, addr_offset = n\<rparr>"
  shows "IsCSPLoad4Imm n \<Longrightarrow> lw ZERO (at n) a = Inl (Assertion_failed ''rd != ZERO'')"
    "IsCSPLoad8Imm n \<Longrightarrow> ld ZERO (at n) a = Inl (Assertion_failed ''rd != ZERO'')"
    "IsCSPLoad4Imm n \<Longrightarrow> \<exists>b. lw ZERO (at n) (without_C a) = Inr ((), b)"
    "IsCSPLoad8Imm n \<Longrightarrow> \<exists>b. ld ZERO (at n) (without_C a) = Inr ((), b)"
proof -
  note run = requires_def Supports_def ASSERT_def andthen_def bnd_def ret_def throw_def
  show "IsCSPLoad4Imm n \<Longrightarrow> lw ZERO (at n) a = Inl (Assertion_failed ''rd != ZERO'')"
    "IsCSPLoad8Imm n \<Longrightarrow> ld ZERO (at n) a = Inl (Assertion_failed ''rd != ZERO'')"
    using assms(1,2) by (simp_all add: at_def lw_def ld_def c_lwsp_def c_ldsp_def run)
  have i: "Includes (extensions (without_C a)) RV_I" using without_C_simps(3) [of RV_I a] assms(1) by simp
  have w: "\<exists>w. itype n SP f ZERO LOAD = Inr w" if "IsCSPLoad4Imm n \<or> IsCSPLoad8Imm n" "f \<in> {LW, LD}" for f
    using that by (intro types_ok) (auto simp: rv_codes rv_consts intro: IsUint_IsInt)
  show "IsCSPLoad4Imm n \<Longrightarrow> \<exists>b. lw ZERO (at n) (without_C a) = Inr ((), b)"
    "IsCSPLoad8Imm n \<Longrightarrow> \<exists>b. ld ZERO (at n) (without_C a) = Inr ((), b)"
    using i without_C_simps(2) [of a] w [of LW] w [of LD]
    by (auto simp: at_def lw_def ld_def emit_types run_simps)
qed

text \<open>C24: where a target with the base and the compressed instructions treats operands worse than
  the same target without the compressed ones.  \<open>lui\<close> of 0 into any register other than \<open>ZERO\<close> and
  \<open>SP\<close> succeeds and emits a reserved encoding.  \<open>add\<close> to \<open>ZERO\<close> aborts if \<open>ZERO\<close> is one of its
  operands, and \<open>lw\<close> and \<open>ld\<close> to \<open>ZERO\<close> from \<open>SP\<close> abort if the offset fits the compressed load,
  on the assertion \<open>rd != ZERO\<close>, although all of them emit an instruction on the target without.\<close>

theorem compression_mishandles_operands:
  assumes "Includes (extensions a) RV_I" "Includes (extensions a) RV_C" and "r < 32"
  shows "(r \<notin> {ZERO, SP} \<longrightarrow>
      (\<exists>a' h. lui r 0 a = Inr ((), a') \<and> code a' = code a @ bytes16 h \<and> expand h = reserved))
    \<and> (\<forall>m\<in>{add ZERO ZERO r, add ZERO r ZERO}
        \<union> (if IsCSPLoad4Imm n then {lw ZERO \<lparr>addr_base = SP, addr_offset = n\<rparr>} else {})
        \<union> (if IsCSPLoad8Imm n then {ld ZERO \<lparr>addr_base = SP, addr_offset = n\<rparr>} else {}).
      m a = Inl (Assertion_failed ''rd != ZERO'') \<and> (\<exists>b. m (without_C a) = Inr ((), b)))"
  using lui_0_reserved [OF assms] add_to_ZERO [OF assms] load_to_ZERO [OF assms(1,2), of n] by auto

lemma compression_mishandles_operands_witness:
  "(\<exists>a' h. lui T0 0 (Assembler RV_GC) = Inr ((), a') \<and> code a' = bytes16 h \<and> expand h = reserved)
   \<and> lw ZERO \<lparr>addr_base = SP, addr_offset = 8\<rparr> (Assembler RV_GC) = Inl (Assertion_failed ''rd != ZERO'')"
proof -
  have i: "Includes (extensions (Assembler RV_GC)) RV_I" "Includes (extensions (Assembler RV_GC)) RV_C"
    by (simp_all add: Assembler_def Includes_def RV_GC_def RV_G_def enum_set_def rv_consts)
  have t: "T0 < 32" "T0 \<notin> {ZERO, SP}" by (simp_all add: rv_consts)
  have n: "IsCSPLoad4Imm 8" by (simp add: IsCSPLoad4Imm_def IsUint_def IsAligned_def word_sle_eq)
  show ?thesis
    using compression_mishandles_operands [OF i t(1), of 8] t(2) n by (auto simp: Assembler_def)
qed

section \<open>Subtraction of an immediate\<close>

lemma bytes32_inject: "bytes32 v = bytes32 w \<Longrightarrow> v = w"
  using get_at_end(1) [of "[]" v] get_at_end(1) [of "[]" w] by simp

lemma addi_without_C:
  assumes "\<not> Includes (extensions a) RV_C" "addi rd rs1 imm big a = Inr ((), a')"
  shows "\<exists>w. code a' = code a @ bytes32 w \<and> (\<forall>x. effect w x = Some (Writes rd (x rs1 + imm)))"
  using assms by (auto simp: addi_def emit_types run_simps intro: effect_itype(1))

lemma addi_effect:
  assumes "addi rd rs1 imm big a = Inr ((), a')"
  shows "\<exists>p v. code a' = code a @ p \<and> (p = bytes32 v \<or> (\<exists>h. p = bytes16 h \<and> expand h = Inr v))
    \<and> (\<forall>x. x ZERO = 0 \<longrightarrow> effect v x = Some (Writes rd (x rs1 + imm)))"
proof (cases "Includes (extensions a) RV_C")
  case True
  obtain p w where p: "code a' = code a @ p" "emits_bytes (addi rd rs1 imm big) (without_C a) (bytes32 w)"
    "p = bytes32 w \<or> (\<exists>h v. p = bytes16 h \<and> expand h = Inr v \<and> same_effect v w)"
    using constants_compress(2) [OF True, of rd rs1 imm big] assms unfolding compresses_to_def by blast
  obtain b where b: "addi rd rs1 imm big (without_C a) = Inr ((), b)" "code b = code a @ bytes32 w"
    using p(2) by (auto simp: emits_bytes_def without_C_simps(1))
  have e: "effect w x = Some (Writes rd (x rs1 + imm))" for x
    using addi_without_C [OF without_C_simps(2) b(1)] b(2) by (auto simp: without_C_simps(1) dest: bytes32_inject)
  from p(3) show ?thesis
  proof (elim disjE exE conjE)
    assume "p = bytes32 w"
    then show ?thesis using p(1) e by blast
  next
    fix h v assume "p = bytes16 h" "expand h = Inr v" "same_effect v w"
    moreover from this(3) have "\<forall>x. x ZERO = 0 \<longrightarrow> effect v x = Some (Writes rd (x rs1 + imm))"
      using e by (auto simp: same_effect_def ZERO_def)
    ultimately show ?thesis using p(1) by blast
  qed
next
  case False
  from addi_without_C [OF False assms] show ?thesis by blast
qed

text \<open>C26: whenever \<open>subiw\<close> succeeds, on any target, it emits one instruction that writes all 64 bits of
  the difference; for a source other than \<open>ZERO\<close> there are register files in which that is not the
  sign-extended low half of the difference, which the instructions with a \<open>w\<close> compute.\<close>

theorem subiw_subtracts_64_bits:
  assumes "subiw rd rs1 imm a = Inr ((), a')"
  shows "\<exists>p v. code a' = code a @ p \<and> (p = bytes32 v \<or> (\<exists>h. p = bytes16 h \<and> expand h = Inr v))
    \<and> (\<forall>x. x ZERO = 0 \<longrightarrow> effect v x = Some (Writes rd (x rs1 - imm)))
    \<and> (rs1 \<noteq> ZERO \<longrightarrow> (\<exists>x. x ZERO = 0 \<and> effect v x \<noteq> Some (Writes rd (scast (ucast (x rs1 - imm) :: 32 word)))))"
proof -
  obtain p v where v: "code a' = code a @ p" "p = bytes32 v \<or> (\<exists>h. p = bytes16 h \<and> expand h = Inr v)"
    "\<forall>x. x ZERO = 0 \<longrightarrow> effect v x = Some (Writes rd (x rs1 - imm))"
    using addi_effect [of rd rs1 "- imm" False a a'] assms by (auto simp: subiw_def)
  have "\<exists>x. x ZERO = 0 \<and> effect v x \<noteq> Some (Writes rd (scast (ucast (x rs1 - imm) :: 32 word)))" if "rs1 \<noteq> ZERO"
  proof (rule exI [where x = "\<lambda>r. if r = ZERO then 0 else imm + 0x100000000"], rule conjI)
    let ?x = "\<lambda>r. if r = ZERO then 0 else imm + 0x100000000"
    show z: "?x ZERO = 0" by simp
    have "effect v ?x = Some (Writes rd (?x rs1 - imm))"
      by (rule mp [OF spec [where x = ?x, OF v(3)] z])
    then show "effect v ?x \<noteq> Some (Writes rd (scast (ucast (?x rs1 - imm) :: 32 word)))" using that by simp
  qed
  then show ?thesis using v by blast
qed

lemma subiw_subtracts_64_bits_witness:
  "\<exists>a' p v. subiw A0 A1 1 (Assembler RV_G) = Inr ((), a') \<and> code a' = p
     \<and> (p = bytes32 v \<or> (\<exists>h. p = bytes16 h \<and> expand h = Inr v))
     \<and> effect v (\<lambda>r. if r = A1 then 0x100000000 else 0) = Some (Writes A0 0xFFFFFFFF)"
proof -
  have i: "Includes RV_G RV_I" "\<not> Includes RV_G RV_C"
    by (simp_all add: Includes_def RV_G_def enum_set_def rv_consts)
  have "\<exists>w. itype (- 1) A1 ADDI A0 OPIMM = Inr w"
    by (intro types_ok) (simp_all add: rv_consts rv_codes IsInt_iff)
  with i have "\<exists>a'. subiw A0 A1 1 (Assembler RV_G) = Inr ((), a')"
    by (auto simp: subiw_def addi_def emit_types run_simps Assembler_def)
  then obtain a' where a: "subiw A0 A1 1 (Assembler RV_G) = Inr ((), a')" by blast
  let ?x = "\<lambda>r. if r = A1 then 0x100000000 else (0 :: 64 word)"
  have x: "?x ZERO = 0" "?x A1 - 1 = 0xFFFFFFFF" by (simp_all add: rv_consts)
  from subiw_subtracts_64_bits [OF a] obtain p v where "code a' = code (Assembler RV_G) @ p"
    "p = bytes32 v \<or> (\<exists>h. p = bytes16 h \<and> expand h = Inr v)"
    "\<forall>x. x ZERO = 0 \<longrightarrow> effect v x = Some (Writes A0 (x A1 - 1))"
    by blast
  with x a show ?thesis by (auto simp: Assembler_def)
qed

end
