(* ===== verification/Riscv_Instruction.thy ===== *)
theory Riscv_Instruction
  imports Riscv_Wrappers
begin

text \<open>
  The instructions of the RISC-V back end before register allocation
  (\<open>instruction-builder/register-operand.h\<close>, \<open>instruction.h\<close>, \<open>builder.h\<close>; the allocator is in
  theory \<open>Riscv_Allocator\<close>).  An operand is a 32-bit number: below 32 a RISC-V register, from 32
  a register of the guest, from 64 a virtual register; 63 is \<open>none_reg\<close>.  An instruction keeps
  a pointer to the assembler method that emits it; the pointer is a value of the type \<open>func\<close>,
  and one dispatch function per pointer type gives the method.  A builder method is a program
  on the list of instructions, with its name prefixed by \<open>b_\<close>.
\<close>

named_theorems rv_build \<open>definitions of the builder methods\<close>

section \<open>Operands\<close>

definition VIRTUAL_BASE :: reg where
  "VIRTUAL_BASE = 64"

definition FUNCTIONAL_BASE :: reg where
  "FUNCTIONAL_BASE = 32"

definition none_reg :: reg where
  "none_reg = VIRTUAL_BASE - 1"

definition is_virtual :: "reg \<Rightarrow> bool" where
  "is_virtual r = (r \<ge> VIRTUAL_BASE)"

definition is_functional :: "reg \<Rightarrow> bool" where
  "is_functional r = (r < VIRTUAL_BASE \<and> r \<ge> FUNCTIONAL_BASE)"

definition is_physical :: "reg \<Rightarrow> bool" where
  "is_physical r = (r < FUNCTIONAL_BASE)"

text \<open>\<open>RegisterOperand::allocate\<close>: the operand gets the encoding of a register.\<close>

definition allocate_operand :: "reg \<Rightarrow> reg \<Rightarrow> reg res" where
  "allocate_operand operand encoding =
     (if is_physical operand then Inl (Runtime_error ''trying to allocate non-vreg'')
      else if encoding > 31 then Inl (Runtime_error ''Allocating unavailable register at index'')
      else Inr encoding)"

section \<open>Instructions\<close>

datatype instruction_type =
  I_Dead | I_Imm | I_Label | I_RdImm | I_RdLabelNear | I_RdLabelFar | I_RdRs1Imm | I_Rs1Rs2LabelNear
  | I_Rs1Rs2LabelFar | I_Rs1Rs2Label | I_RdAddr | I_Rs2Addr | I_RdRs1Rs2 | I_None | I_RdAddrOrder
  | I_RdRs2AddrOrder | I_RdImmKeepRs1 | I_RdRs1ImmKeepRs2 | I_Noop

datatype imm_func =
  F_Align

datatype label_func =
  F_Bind

datatype rdimm_func =
  F_lui | F_auipc

datatype rdlabel_func =
  F_jal

datatype rdrs1imm_func =
  F_jalr | F_addi_big | F_addi_normal | F_slti | F_sltiu | F_xori | F_ori | F_andi | F_slli | F_srli
  | F_srai | F_addiw | F_slliw | F_srliw | F_sraiw

datatype rs1rs2labelbool_func =
  F_beq | F_bne

datatype rs1rs2label_func =
  F_blt | F_bge | F_bltu | F_bgeu

datatype rdaddr_func =
  F_lb | F_lh | F_lw | F_lbu | F_lhu | F_sb | F_sh | F_sw | F_lwu | F_ld | F_sd

datatype rdrs1rs2_func =
  F_add | F_sub | F_sll | F_slt | F_sltu | F_xor | F_srl | F_sra | F_or | F_and | F_addw | F_subw
  | F_sllw | F_srlw | F_sraw | F_mul | F_mulh | F_mulhsu | F_mulhu | F_div | F_divu | F_rem | F_remu
  | F_mulw | F_divw | F_divuw | F_remw | F_remuw

datatype none_func =
  F_fencei | F_ecall | F_ebreak | F_trap

datatype rdaddrorder_func =
  F_lrw | F_lrd

datatype rdrs2addrorder_func =
  F_scw | F_amoswapw | F_amoaddw | F_amoxorw | F_amoandw | F_amoorw | F_amominw | F_amomaxw | F_amominuw
  | F_amomaxuw | F_scd | F_amoswapd | F_amoaddd | F_amoxord | F_amoandd | F_amoord | F_amomind
  | F_amomaxd | F_amominud | F_amomaxud

datatype func =
  ImmFunc imm_func | LabelFunc label_func | RdImmFunc rdimm_func | RdLabelFunc rdlabel_func
  | RdRs1ImmFunc rdrs1imm_func | Rs1Rs2LabelBoolFunc rs1rs2labelbool_func
  | Rs1Rs2LabelFunc rs1rs2label_func | RdAddrFunc rdaddr_func | RdRs1Rs2Func rdrs1rs2_func
  | NoneFunc none_func | RdAddrOrderFunc rdaddrorder_func | RdRs2AddrOrderFunc rdrs2addrorder_func
  | Nullptr

record insn =
  i_type :: instruction_type
  i_func :: func
  i_rd :: reg
  i_rs1 :: reg
  i_rs2 :: reg
  i_imm :: intptr
  i_label :: nat
  i_order :: memory_order

definition instruction :: "instruction_type \<Rightarrow> func \<Rightarrow> insn" where
  "instruction t f = \<lparr>i_type = t, i_func = f, i_rd = none_reg, i_rs1 = none_reg, i_rs2 = none_reg,
     i_imm = 0, i_label = 0, i_order = memory_order_relaxed\<rparr>"

fun call_imm :: "imm_func \<Rightarrow> intptr \<Rightarrow> asm" where
  "call_imm F_Align = Align_default"

fun call_label :: "label_func \<Rightarrow> nat \<Rightarrow> asm" where
  "call_label F_Bind = Bind"

fun call_rdimm :: "rdimm_func \<Rightarrow> reg \<Rightarrow> intptr \<Rightarrow> asm" where
  "call_rdimm F_lui = lui"
| "call_rdimm F_auipc = auipc"

fun call_rdlabel :: "rdlabel_func \<Rightarrow> reg \<Rightarrow> nat \<Rightarrow> bool \<Rightarrow> asm" where
  "call_rdlabel F_jal = jal_label"

fun call_rdrs1imm :: "rdrs1imm_func \<Rightarrow> reg \<Rightarrow> reg \<Rightarrow> intptr \<Rightarrow> asm" where
  "call_rdrs1imm F_jalr = jalr"
| "call_rdrs1imm F_addi_big = addi_big"
| "call_rdrs1imm F_addi_normal = addi_normal"
| "call_rdrs1imm F_slti = slti"
| "call_rdrs1imm F_sltiu = sltiu"
| "call_rdrs1imm F_xori = xori"
| "call_rdrs1imm F_ori = ori"
| "call_rdrs1imm F_andi = andi"
| "call_rdrs1imm F_slli = slli"
| "call_rdrs1imm F_srli = srli"
| "call_rdrs1imm F_srai = srai"
| "call_rdrs1imm F_addiw = addiw"
| "call_rdrs1imm F_slliw = slliw"
| "call_rdrs1imm F_srliw = srliw"
| "call_rdrs1imm F_sraiw = sraiw"

fun call_rs1rs2labelbool :: "rs1rs2labelbool_func \<Rightarrow> reg \<Rightarrow> reg \<Rightarrow> nat \<Rightarrow> bool \<Rightarrow> asm" where
  "call_rs1rs2labelbool F_beq = beq_label"
| "call_rs1rs2labelbool F_bne = bne_label"

fun call_rs1rs2label :: "rs1rs2label_func \<Rightarrow> reg \<Rightarrow> reg \<Rightarrow> nat \<Rightarrow> asm" where
  "call_rs1rs2label F_blt = blt_label"
| "call_rs1rs2label F_bge = bge_label"
| "call_rs1rs2label F_bltu = bltu_label"
| "call_rs1rs2label F_bgeu = bgeu_label"

fun call_rdaddr :: "rdaddr_func \<Rightarrow> reg \<Rightarrow> rv_address \<Rightarrow> asm" where
  "call_rdaddr F_lb = lb"
| "call_rdaddr F_lh = lh"
| "call_rdaddr F_lw = lw"
| "call_rdaddr F_lbu = lbu"
| "call_rdaddr F_lhu = lhu"
| "call_rdaddr F_sb = sb"
| "call_rdaddr F_sh = sh"
| "call_rdaddr F_sw = sw"
| "call_rdaddr F_lwu = lwu"
| "call_rdaddr F_ld = ld"
| "call_rdaddr F_sd = sd"

fun call_rdrs1rs2 :: "rdrs1rs2_func \<Rightarrow> reg \<Rightarrow> reg \<Rightarrow> reg \<Rightarrow> asm" where
  "call_rdrs1rs2 F_add = add"
| "call_rdrs1rs2 F_sub = sub"
| "call_rdrs1rs2 F_sll = sll"
| "call_rdrs1rs2 F_slt = slt"
| "call_rdrs1rs2 F_sltu = sltu"
| "call_rdrs1rs2 F_xor = xor_insn"
| "call_rdrs1rs2 F_srl = srl"
| "call_rdrs1rs2 F_sra = sra"
| "call_rdrs1rs2 F_or = or_insn"
| "call_rdrs1rs2 F_and = and_insn"
| "call_rdrs1rs2 F_addw = addw"
| "call_rdrs1rs2 F_subw = subw"
| "call_rdrs1rs2 F_sllw = sllw"
| "call_rdrs1rs2 F_srlw = srlw"
| "call_rdrs1rs2 F_sraw = sraw"
| "call_rdrs1rs2 F_mul = mul"
| "call_rdrs1rs2 F_mulh = mulh"
| "call_rdrs1rs2 F_mulhsu = mulhsu"
| "call_rdrs1rs2 F_mulhu = mulhu"
| "call_rdrs1rs2 F_div = div_insn"
| "call_rdrs1rs2 F_divu = divu"
| "call_rdrs1rs2 F_rem = rem"
| "call_rdrs1rs2 F_remu = remu"
| "call_rdrs1rs2 F_mulw = mulw"
| "call_rdrs1rs2 F_divw = divw"
| "call_rdrs1rs2 F_divuw = divuw"
| "call_rdrs1rs2 F_remw = remw"
| "call_rdrs1rs2 F_remuw = remuw"

fun call_none :: "none_func \<Rightarrow> asm" where
  "call_none F_fencei = fencei"
| "call_none F_ecall = ecall"
| "call_none F_ebreak = ebreak"
| "call_none F_trap = trap"

fun call_rdaddrorder :: "rdaddrorder_func \<Rightarrow> reg \<Rightarrow> rv_address \<Rightarrow> memory_order \<Rightarrow> asm" where
  "call_rdaddrorder F_lrw = lrw"
| "call_rdaddrorder F_lrd = lrd"

fun call_rdrs2addrorder :: "rdrs2addrorder_func \<Rightarrow> reg \<Rightarrow> reg \<Rightarrow> rv_address \<Rightarrow> memory_order \<Rightarrow> asm" where
  "call_rdrs2addrorder F_scw = scw"
| "call_rdrs2addrorder F_amoswapw = amoswapw"
| "call_rdrs2addrorder F_amoaddw = amoaddw"
| "call_rdrs2addrorder F_amoxorw = amoxorw"
| "call_rdrs2addrorder F_amoandw = amoandw"
| "call_rdrs2addrorder F_amoorw = amoorw"
| "call_rdrs2addrorder F_amominw = amominw"
| "call_rdrs2addrorder F_amomaxw = amomaxw"
| "call_rdrs2addrorder F_amominuw = amominuw"
| "call_rdrs2addrorder F_amomaxuw = amomaxuw"
| "call_rdrs2addrorder F_scd = scd"
| "call_rdrs2addrorder F_amoswapd = amoswapd"
| "call_rdrs2addrorder F_amoaddd = amoaddd"
| "call_rdrs2addrorder F_amoxord = amoxord"
| "call_rdrs2addrorder F_amoandd = amoandd"
| "call_rdrs2addrorder F_amoord = amoord"
| "call_rdrs2addrorder F_amomind = amomind"
| "call_rdrs2addrorder F_amomaxd = amomaxd"
| "call_rdrs2addrorder F_amominud = amominud"
| "call_rdrs2addrorder F_amomaxud = amomaxud"


text \<open>Reading another member of the union of pointers than the one set is undefined behaviour.\<close>

definition inactive :: asm where
  "inactive = throw (Undefined_behaviour ''inactive member of a union'')"

definition label_align :: intptr where
  "label_align = 4"

definition emit_insn :: "insn \<Rightarrow> asm" where
  "emit_insn i =
     (let f = i_func i; rd = i_rd i; rs1 = i_rs1 i; rs2 = i_rs2 i; imm = i_imm i; l = i_label i in
      case i_type i of
        I_Label \<Rightarrow> andthen (Align_default label_align) ((case f of LabelFunc g \<Rightarrow> call_label g l | _ \<Rightarrow> inactive))
      | I_RdImm \<Rightarrow> (case f of RdImmFunc g \<Rightarrow> call_rdimm g rd imm | _ \<Rightarrow> inactive)
      | I_RdImmKeepRs1 \<Rightarrow> (case f of RdImmFunc g \<Rightarrow> call_rdimm g rd imm | _ \<Rightarrow> inactive)
      | I_RdLabelNear \<Rightarrow> (case f of RdLabelFunc g \<Rightarrow> call_rdlabel g rd l True | _ \<Rightarrow> inactive)
      | I_RdLabelFar \<Rightarrow> (case f of RdLabelFunc g \<Rightarrow> call_rdlabel g rd l False | _ \<Rightarrow> inactive)
      | I_RdRs1Imm \<Rightarrow> (case f of RdRs1ImmFunc g \<Rightarrow> call_rdrs1imm g rd rs1 imm | _ \<Rightarrow> inactive)
      | I_RdRs1ImmKeepRs2 \<Rightarrow> (case f of RdRs1ImmFunc g \<Rightarrow> call_rdrs1imm g rd rs1 imm | _ \<Rightarrow> inactive)
      | I_Rs1Rs2LabelNear \<Rightarrow> (case f of Rs1Rs2LabelBoolFunc g \<Rightarrow> call_rs1rs2labelbool g rs1 rs2 l True | _ \<Rightarrow> inactive)
      | I_Rs1Rs2LabelFar \<Rightarrow> (case f of Rs1Rs2LabelBoolFunc g \<Rightarrow> call_rs1rs2labelbool g rs1 rs2 l False | _ \<Rightarrow> inactive)
      | I_Rs1Rs2Label \<Rightarrow> (case f of Rs1Rs2LabelFunc g \<Rightarrow> call_rs1rs2label g rs1 rs2 l | _ \<Rightarrow> inactive)
      | I_RdAddr \<Rightarrow> (case f of RdAddrFunc g \<Rightarrow> call_rdaddr g rd \<lparr>addr_base = rs1, addr_offset = imm\<rparr> | _ \<Rightarrow> inactive)
      | I_Rs2Addr \<Rightarrow> (case f of RdAddrFunc g \<Rightarrow> call_rdaddr g rs2 \<lparr>addr_base = rs1, addr_offset = imm\<rparr> | _ \<Rightarrow> inactive)
      | I_RdRs1Rs2 \<Rightarrow> (case f of RdRs1Rs2Func g \<Rightarrow> call_rdrs1rs2 g rd rs1 rs2 | _ \<Rightarrow> inactive)
      | I_None \<Rightarrow> (case f of NoneFunc g \<Rightarrow> call_none g | _ \<Rightarrow> inactive)
      | I_RdAddrOrder \<Rightarrow>
          (case f of RdAddrOrderFunc g \<Rightarrow> call_rdaddrorder g rd \<lparr>addr_base = rs1, addr_offset = 0\<rparr> (i_order i) | _ \<Rightarrow> inactive)
      | I_RdRs2AddrOrder \<Rightarrow>
          (case f of RdRs2AddrOrderFunc g \<Rightarrow> call_rdrs2addrorder g rd rs2 \<lparr>addr_base = rs1, addr_offset = 0\<rparr> (i_order i) | _ \<Rightarrow> inactive)
      | I_Dead \<Rightarrow> ret ()
      | I_Noop \<Rightarrow> ret ()
      | I_Imm \<Rightarrow> (case f of ImmFunc g \<Rightarrow> call_imm g imm | _ \<Rightarrow> inactive))"

definition has_rd :: "insn \<Rightarrow> bool" where
  "has_rd i = (i_type i \<notin> {I_Dead, I_Imm, I_Label, I_Rs1Rs2LabelNear, I_Rs1Rs2LabelFar, I_Rs1Rs2Label,
     I_Rs2Addr, I_None})"

definition is_rd_use :: "insn \<Rightarrow> bool" where
  "is_rd_use i =
     (if i_type i \<in> {I_RdRs1Imm, I_RdAddr, I_RdAddrOrder, I_RdImmKeepRs1} then i_rd i = i_rs1 i
      else if i_type i \<in> {I_RdRs1Rs2, I_RdRs2AddrOrder, I_RdRs1ImmKeepRs2, I_Noop}
      then i_rd i = i_rs1 i \<or> i_rd i = i_rs2 i
      else False)"

definition kill :: "insn \<Rightarrow> insn" where
  "kill i = i\<lparr>i_type := I_Dead\<rparr>"

definition is_dead :: "insn \<Rightarrow> bool" where
  "is_dead i = (i_type i = I_Dead)"

definition is_mv :: "insn \<Rightarrow> bool" where
  "is_mv i =
     (i_type i \<in> {I_RdRs1ImmKeepRs2, I_RdRs1Imm} \<and> i_func i = RdRs1ImmFunc F_addi_normal \<and> i_imm i = 0 \<or>
      i_type i = I_RdRs1Rs2 \<and> i_func i = RdRs1Rs2Func F_add \<and> (i_rs1 i = ZERO \<or> i_rs2 i = ZERO))"

definition is_control_flow :: "insn \<Rightarrow> bool" where
  "is_control_flow i = (i_type i \<in> {I_Label, I_RdLabelNear, I_RdLabelFar, I_Rs1Rs2LabelNear,
     I_Rs1Rs2LabelFar, I_Rs1Rs2Label})"

section \<open>Instruction builder\<close>

text \<open>A \<open>Label *\<close> is a number that was never handed out before.\<close>

record instruction_builder =
  reg_allocator_index :: reg
  instructions :: "insn list"
  labels :: "nat list"
  next_label :: nat

type_synonym build = "(instruction_builder, unit) prog"

definition new_instruction_builder :: instruction_builder where
  "new_instruction_builder = \<lparr>reg_allocator_index = VIRTUAL_BASE, instructions = [], labels = [], next_label = 0\<rparr>"

text \<open>\<open>emplace_back\<close> runs the constructor of \<open>Instruction\<close> with its assertion.\<close>

definition emplace_back :: "insn \<Rightarrow> build" where
  "emplace_back i b =
     (if i_rd i = none_reg \<and> has_rd i then Inl (Assertion_failed ''!(!rd && has_rd())'')
      else Inr ((), b\<lparr>instructions := instructions b @ [i]\<rparr>))"

definition next_register :: "(instruction_builder, reg) prog" where
  "next_register b = Inr (reg_allocator_index b, b\<lparr>reg_allocator_index := reg_allocator_index b + 1\<rparr>)"

definition alloc_label :: "(instruction_builder, nat) prog" where
  "alloc_label b = Inr (next_label b, b\<lparr>labels := labels b @ [next_label b], next_label := next_label b + 1\<rparr>)"

definition reset_builder :: "instruction_builder \<Rightarrow> instruction_builder" where
  "reset_builder b = b\<lparr>reg_allocator_index := VIRTUAL_BASE, instructions := [], labels := []\<rparr>"

definition emit_instructions :: "insn list \<Rightarrow> asm" where
  "emit_instructions is = for_each is emit_insn"

definition b_Align :: "intptr \<Rightarrow> build" where [rv_build]:
  "b_Align alignByte = emplace_back ((instruction I_Imm (ImmFunc F_Align))
     \<lparr>i_imm := alignByte\<rparr>)"

definition b_Bind :: "nat \<Rightarrow> build" where [rv_build]:
  "b_Bind label = emplace_back ((instruction I_Label (LabelFunc F_Bind))
     \<lparr>i_label := label\<rparr>)"

definition b_lui :: "reg \<Rightarrow> intptr \<Rightarrow> build" where [rv_build]:
  "b_lui rd imm = emplace_back ((instruction I_RdImm (RdImmFunc F_lui))
     \<lparr>i_rd := rd, i_imm := imm\<rparr>)"

definition b_auipc :: "reg \<Rightarrow> intptr \<Rightarrow> build" where [rv_build]:
  "b_auipc rd imm = emplace_back ((instruction I_RdImm (RdImmFunc F_auipc))
     \<lparr>i_rd := rd, i_imm := imm\<rparr>)"

definition b_auipc_keep :: "reg \<Rightarrow> intptr \<Rightarrow> build" where [rv_build]:
  "b_auipc_keep rd imm = emplace_back ((instruction I_RdImmKeepRs1 (RdImmFunc F_auipc))
     \<lparr>i_rd := rd, i_rs1 := rd, i_imm := imm\<rparr>)"

definition b_jal :: "reg \<Rightarrow> nat \<Rightarrow> bool \<Rightarrow> build" where [rv_build]:
  "b_jal rd label near = emplace_back ((instruction (if near then I_RdLabelNear else I_RdLabelFar) (RdLabelFunc F_jal))
     \<lparr>i_rd := rd, i_label := label\<rparr>)"

definition b_jal_ra :: "nat \<Rightarrow> bool \<Rightarrow> build" where [rv_build]:
  "b_jal_ra label near = b_jal RA label near"

definition b_j :: "nat \<Rightarrow> bool \<Rightarrow> build" where [rv_build]:
  "b_j label near = b_jal ZERO label near"

definition b_jalr :: "reg \<Rightarrow> reg \<Rightarrow> intptr \<Rightarrow> build" where [rv_build]:
  "b_jalr rd rs1 offset = emplace_back ((instruction I_RdRs1Imm (RdRs1ImmFunc F_jalr))
     \<lparr>i_rd := rd, i_rs1 := rs1, i_imm := offset\<rparr>)"

definition b_jalr_ra :: "reg \<Rightarrow> intptr \<Rightarrow> build" where [rv_build]:
  "b_jalr_ra rs1 offset = b_jalr RA rs1 offset"

definition b_jr :: "reg \<Rightarrow> intptr \<Rightarrow> build" where [rv_build]:
  "b_jr rs1 offset = b_jalr ZERO rs1 offset"

definition b_ret :: "build" where [rv_build]:
  "b_ret = b_jalr ZERO RA 0"

definition b_beq :: "reg \<Rightarrow> reg \<Rightarrow> nat \<Rightarrow> bool \<Rightarrow> build" where [rv_build]:
  "b_beq rs1 rs2 label near = emplace_back ((instruction (if near then I_Rs1Rs2LabelNear else I_Rs1Rs2LabelFar) (Rs1Rs2LabelBoolFunc F_beq))
     \<lparr>i_rs1 := rs1, i_rs2 := rs2, i_label := label\<rparr>)"

definition b_bne :: "reg \<Rightarrow> reg \<Rightarrow> nat \<Rightarrow> bool \<Rightarrow> build" where [rv_build]:
  "b_bne rs1 rs2 label near = emplace_back ((instruction (if near then I_Rs1Rs2LabelNear else I_Rs1Rs2LabelFar) (Rs1Rs2LabelBoolFunc F_bne))
     \<lparr>i_rs1 := rs1, i_rs2 := rs2, i_label := label\<rparr>)"

definition b_blt :: "reg \<Rightarrow> reg \<Rightarrow> nat \<Rightarrow> build" where [rv_build]:
  "b_blt rs1 rs2 label = emplace_back ((instruction I_Rs1Rs2Label (Rs1Rs2LabelFunc F_blt))
     \<lparr>i_rs1 := rs1, i_rs2 := rs2, i_label := label\<rparr>)"

definition b_bge :: "reg \<Rightarrow> reg \<Rightarrow> nat \<Rightarrow> build" where [rv_build]:
  "b_bge rs1 rs2 label = emplace_back ((instruction I_Rs1Rs2Label (Rs1Rs2LabelFunc F_bge))
     \<lparr>i_rs1 := rs1, i_rs2 := rs2, i_label := label\<rparr>)"

definition b_bgt :: "reg \<Rightarrow> reg \<Rightarrow> nat \<Rightarrow> build" where [rv_build]:
  "b_bgt rs1 rs2 label = b_blt rs2 rs1 label"

definition b_ble :: "reg \<Rightarrow> reg \<Rightarrow> nat \<Rightarrow> build" where [rv_build]:
  "b_ble rs1 rs2 label = b_bge rs2 rs1 label"

definition b_bltu :: "reg \<Rightarrow> reg \<Rightarrow> nat \<Rightarrow> build" where [rv_build]:
  "b_bltu rs1 rs2 label = emplace_back ((instruction I_Rs1Rs2Label (Rs1Rs2LabelFunc F_bltu))
     \<lparr>i_rs1 := rs1, i_rs2 := rs2, i_label := label\<rparr>)"

definition b_bgeu :: "reg \<Rightarrow> reg \<Rightarrow> nat \<Rightarrow> build" where [rv_build]:
  "b_bgeu rs1 rs2 label = emplace_back ((instruction I_Rs1Rs2Label (Rs1Rs2LabelFunc F_bgeu))
     \<lparr>i_rs1 := rs1, i_rs2 := rs2, i_label := label\<rparr>)"

definition b_bgtu :: "reg \<Rightarrow> reg \<Rightarrow> nat \<Rightarrow> build" where [rv_build]:
  "b_bgtu rs1 rs2 label = b_bltu rs2 rs1 label"

definition b_bleu :: "reg \<Rightarrow> reg \<Rightarrow> nat \<Rightarrow> build" where [rv_build]:
  "b_bleu rs1 rs2 label = b_bgeu rs2 rs1 label"

definition b_lb :: "reg \<Rightarrow> rv_address \<Rightarrow> build" where [rv_build]:
  "b_lb rd addr = emplace_back ((instruction I_RdAddr (RdAddrFunc F_lb))
     \<lparr>i_rd := rd, i_rs1 := (addr_base addr), i_imm := (addr_offset addr)\<rparr>)"

definition b_lh :: "reg \<Rightarrow> rv_address \<Rightarrow> build" where [rv_build]:
  "b_lh rd addr = emplace_back ((instruction I_RdAddr (RdAddrFunc F_lh))
     \<lparr>i_rd := rd, i_rs1 := (addr_base addr), i_imm := (addr_offset addr)\<rparr>)"

definition b_lw :: "reg \<Rightarrow> rv_address \<Rightarrow> build" where [rv_build]:
  "b_lw rd addr = emplace_back ((instruction I_RdAddr (RdAddrFunc F_lw))
     \<lparr>i_rd := rd, i_rs1 := (addr_base addr), i_imm := (addr_offset addr)\<rparr>)"

definition b_lbu :: "reg \<Rightarrow> rv_address \<Rightarrow> build" where [rv_build]:
  "b_lbu rd addr = emplace_back ((instruction I_RdAddr (RdAddrFunc F_lbu))
     \<lparr>i_rd := rd, i_rs1 := (addr_base addr), i_imm := (addr_offset addr)\<rparr>)"

definition b_lhu :: "reg \<Rightarrow> rv_address \<Rightarrow> build" where [rv_build]:
  "b_lhu rd addr = emplace_back ((instruction I_RdAddr (RdAddrFunc F_lhu))
     \<lparr>i_rd := rd, i_rs1 := (addr_base addr), i_imm := (addr_offset addr)\<rparr>)"

definition b_sb :: "reg \<Rightarrow> rv_address \<Rightarrow> build" where [rv_build]:
  "b_sb rs2 addr = emplace_back ((instruction I_Rs2Addr (RdAddrFunc F_sb))
     \<lparr>i_rs1 := (addr_base addr), i_rs2 := rs2, i_imm := (addr_offset addr)\<rparr>)"

definition b_sh :: "reg \<Rightarrow> rv_address \<Rightarrow> build" where [rv_build]:
  "b_sh rs2 addr = emplace_back ((instruction I_Rs2Addr (RdAddrFunc F_sh))
     \<lparr>i_rs1 := (addr_base addr), i_rs2 := rs2, i_imm := (addr_offset addr)\<rparr>)"

definition b_sw :: "reg \<Rightarrow> rv_address \<Rightarrow> build" where [rv_build]:
  "b_sw rs2 addr = emplace_back ((instruction I_Rs2Addr (RdAddrFunc F_sw))
     \<lparr>i_rs1 := (addr_base addr), i_rs2 := rs2, i_imm := (addr_offset addr)\<rparr>)"

definition b_addi :: "reg \<Rightarrow> reg \<Rightarrow> intptr \<Rightarrow> bool \<Rightarrow> build" where [rv_build]:
  "b_addi rd rs1 imm force_big = emplace_back ((instruction I_RdRs1Imm (RdRs1ImmFunc (if force_big then F_addi_big else F_addi_normal)))
     \<lparr>i_rd := rd, i_rs1 := rs1, i_imm := imm\<rparr>)"

definition b_subi :: "reg \<Rightarrow> reg \<Rightarrow> intptr \<Rightarrow> build" where [rv_build]:
  "b_subi rd rs1 imm = b_addi rd rs1 (- imm) False"

definition b_slti :: "reg \<Rightarrow> reg \<Rightarrow> intptr \<Rightarrow> build" where [rv_build]:
  "b_slti rd rs1 imm = emplace_back ((instruction I_RdRs1Imm (RdRs1ImmFunc F_slti))
     \<lparr>i_rd := rd, i_rs1 := rs1, i_imm := imm\<rparr>)"

definition b_sltiu :: "reg \<Rightarrow> reg \<Rightarrow> intptr \<Rightarrow> build" where [rv_build]:
  "b_sltiu rd rs1 imm = emplace_back ((instruction I_RdRs1Imm (RdRs1ImmFunc F_sltiu))
     \<lparr>i_rd := rd, i_rs1 := rs1, i_imm := imm\<rparr>)"

definition b_xori :: "reg \<Rightarrow> reg \<Rightarrow> intptr \<Rightarrow> build" where [rv_build]:
  "b_xori rd rs1 imm = emplace_back ((instruction I_RdRs1Imm (RdRs1ImmFunc F_xori))
     \<lparr>i_rd := rd, i_rs1 := rs1, i_imm := imm\<rparr>)"

definition b_ori :: "reg \<Rightarrow> reg \<Rightarrow> intptr \<Rightarrow> build" where [rv_build]:
  "b_ori rd rs1 imm = emplace_back ((instruction I_RdRs1Imm (RdRs1ImmFunc F_ori))
     \<lparr>i_rd := rd, i_rs1 := rs1, i_imm := imm\<rparr>)"

definition b_andi :: "reg \<Rightarrow> reg \<Rightarrow> intptr \<Rightarrow> build" where [rv_build]:
  "b_andi rd rs1 imm = emplace_back ((instruction I_RdRs1Imm (RdRs1ImmFunc F_andi))
     \<lparr>i_rd := rd, i_rs1 := rs1, i_imm := imm\<rparr>)"

definition b_slli :: "reg \<Rightarrow> reg \<Rightarrow> intptr \<Rightarrow> build" where [rv_build]:
  "b_slli rd rs1 shamt = emplace_back ((instruction I_RdRs1Imm (RdRs1ImmFunc F_slli))
     \<lparr>i_rd := rd, i_rs1 := rs1, i_imm := shamt\<rparr>)"

definition b_srli :: "reg \<Rightarrow> reg \<Rightarrow> intptr \<Rightarrow> build" where [rv_build]:
  "b_srli rd rs1 shamt = emplace_back ((instruction I_RdRs1Imm (RdRs1ImmFunc F_srli))
     \<lparr>i_rd := rd, i_rs1 := rs1, i_imm := shamt\<rparr>)"

definition b_srai :: "reg \<Rightarrow> reg \<Rightarrow> intptr \<Rightarrow> build" where [rv_build]:
  "b_srai rd rs1 shamt = emplace_back ((instruction I_RdRs1Imm (RdRs1ImmFunc F_srai))
     \<lparr>i_rd := rd, i_rs1 := rs1, i_imm := shamt\<rparr>)"

definition b_add :: "reg \<Rightarrow> reg \<Rightarrow> reg \<Rightarrow> build" where [rv_build]:
  "b_add rd rs1 rs2 = emplace_back ((instruction I_RdRs1Rs2 (RdRs1Rs2Func F_add))
     \<lparr>i_rd := rd, i_rs1 := rs1, i_rs2 := rs2\<rparr>)"

definition b_sub :: "reg \<Rightarrow> reg \<Rightarrow> reg \<Rightarrow> build" where [rv_build]:
  "b_sub rd rs1 rs2 = emplace_back ((instruction I_RdRs1Rs2 (RdRs1Rs2Func F_sub))
     \<lparr>i_rd := rd, i_rs1 := rs1, i_rs2 := rs2\<rparr>)"

definition b_sll :: "reg \<Rightarrow> reg \<Rightarrow> reg \<Rightarrow> build" where [rv_build]:
  "b_sll rd rs1 rs2 = emplace_back ((instruction I_RdRs1Rs2 (RdRs1Rs2Func F_sll))
     \<lparr>i_rd := rd, i_rs1 := rs1, i_rs2 := rs2\<rparr>)"

definition b_slt :: "reg \<Rightarrow> reg \<Rightarrow> reg \<Rightarrow> build" where [rv_build]:
  "b_slt rd rs1 rs2 = emplace_back ((instruction I_RdRs1Rs2 (RdRs1Rs2Func F_slt))
     \<lparr>i_rd := rd, i_rs1 := rs1, i_rs2 := rs2\<rparr>)"

definition b_sltu :: "reg \<Rightarrow> reg \<Rightarrow> reg \<Rightarrow> build" where [rv_build]:
  "b_sltu rd rs1 rs2 = emplace_back ((instruction I_RdRs1Rs2 (RdRs1Rs2Func F_sltu))
     \<lparr>i_rd := rd, i_rs1 := rs1, i_rs2 := rs2\<rparr>)"

definition b_xor :: "reg \<Rightarrow> reg \<Rightarrow> reg \<Rightarrow> build" where [rv_build]:
  "b_xor rd rs1 rs2 = emplace_back ((instruction I_RdRs1Rs2 (RdRs1Rs2Func F_xor))
     \<lparr>i_rd := rd, i_rs1 := rs1, i_rs2 := rs2\<rparr>)"

definition b_srl :: "reg \<Rightarrow> reg \<Rightarrow> reg \<Rightarrow> build" where [rv_build]:
  "b_srl rd rs1 rs2 = emplace_back ((instruction I_RdRs1Rs2 (RdRs1Rs2Func F_srl))
     \<lparr>i_rd := rd, i_rs1 := rs1, i_rs2 := rs2\<rparr>)"

definition b_sra :: "reg \<Rightarrow> reg \<Rightarrow> reg \<Rightarrow> build" where [rv_build]:
  "b_sra rd rs1 rs2 = emplace_back ((instruction I_RdRs1Rs2 (RdRs1Rs2Func F_sra))
     \<lparr>i_rd := rd, i_rs1 := rs1, i_rs2 := rs2\<rparr>)"

definition b_or :: "reg \<Rightarrow> reg \<Rightarrow> reg \<Rightarrow> build" where [rv_build]:
  "b_or rd rs1 rs2 = emplace_back ((instruction I_RdRs1Rs2 (RdRs1Rs2Func F_or))
     \<lparr>i_rd := rd, i_rs1 := rs1, i_rs2 := rs2\<rparr>)"

definition b_and :: "reg \<Rightarrow> reg \<Rightarrow> reg \<Rightarrow> build" where [rv_build]:
  "b_and rd rs1 rs2 = emplace_back ((instruction I_RdRs1Rs2 (RdRs1Rs2Func F_and))
     \<lparr>i_rd := rd, i_rs1 := rs1, i_rs2 := rs2\<rparr>)"

definition b_fencei :: "build" where [rv_build]:
  "b_fencei = emplace_back (instruction I_None (NoneFunc F_fencei))"

definition b_ecall :: "build" where [rv_build]:
  "b_ecall = emplace_back (instruction I_None (NoneFunc F_ecall))"

definition b_ebreak :: "build" where [rv_build]:
  "b_ebreak = emplace_back (instruction I_None (NoneFunc F_ebreak))"

definition b_trap :: "build" where [rv_build]:
  "b_trap = emplace_back (instruction I_None (NoneFunc F_trap))"

definition b_nop :: "bool \<Rightarrow> build" where [rv_build]:
  "b_nop force_big = b_addi ZERO ZERO 0 force_big"

definition b_li :: "reg \<Rightarrow> intptr \<Rightarrow> build" where [rv_build]:
  "b_li rd imm = b_addi rd ZERO imm False"

definition b_mv :: "reg \<Rightarrow> reg \<Rightarrow> build" where [rv_build]:
  "b_mv rd rs = b_addi rd rs 0 False"

definition b_mv_keep :: "reg \<Rightarrow> reg \<Rightarrow> build" where [rv_build]:
  "b_mv_keep rd rs = emplace_back ((instruction I_RdRs1ImmKeepRs2 (RdRs1ImmFunc F_addi_normal))
     \<lparr>i_rd := rd, i_rs1 := rs, i_rs2 := rd\<rparr>)"

definition b_mv_liveness :: "reg \<Rightarrow> reg \<Rightarrow> build" where [rv_build]:
  "b_mv_liveness rd rs = emplace_back ((instruction I_Noop Nullptr)
     \<lparr>i_rd := rd, i_rs1 := rd, i_rs2 := rs\<rparr>)"

definition b_not :: "reg \<Rightarrow> reg \<Rightarrow> build" where [rv_build]:
  "b_not rd rs = b_xori rd rs (- 1)"

definition b_neg :: "reg \<Rightarrow> reg \<Rightarrow> build" where [rv_build]:
  "b_neg rd rs = b_sub rd ZERO rs"

definition b_snez :: "reg \<Rightarrow> reg \<Rightarrow> build" where [rv_build]:
  "b_snez rd rs = b_sltu rd ZERO rs"

definition b_seqz :: "reg \<Rightarrow> reg \<Rightarrow> build" where [rv_build]:
  "b_seqz rd rs = b_sltiu rd rs 1"

definition b_sltz :: "reg \<Rightarrow> reg \<Rightarrow> build" where [rv_build]:
  "b_sltz rd rs = b_slt rd rs ZERO"

definition b_sgtz :: "reg \<Rightarrow> reg \<Rightarrow> build" where [rv_build]:
  "b_sgtz rd rs = b_slt rd ZERO rs"

definition b_beqz :: "reg \<Rightarrow> nat \<Rightarrow> bool \<Rightarrow> build" where [rv_build]:
  "b_beqz rs label near = b_beq rs ZERO label near"

definition b_bnez :: "reg \<Rightarrow> nat \<Rightarrow> bool \<Rightarrow> build" where [rv_build]:
  "b_bnez rs label near = b_bne rs ZERO label near"

definition b_blez :: "reg \<Rightarrow> nat \<Rightarrow> build" where [rv_build]:
  "b_blez rs label = b_bge ZERO rs label"

definition b_bgez :: "reg \<Rightarrow> nat \<Rightarrow> build" where [rv_build]:
  "b_bgez rs label = b_bge rs ZERO label"

definition b_bltz :: "reg \<Rightarrow> nat \<Rightarrow> build" where [rv_build]:
  "b_bltz rs label = b_blt rs ZERO label"

definition b_bgtz :: "reg \<Rightarrow> nat \<Rightarrow> build" where [rv_build]:
  "b_bgtz rs label = b_blt ZERO rs label"

definition b_lwu :: "reg \<Rightarrow> rv_address \<Rightarrow> build" where [rv_build]:
  "b_lwu rd addr = emplace_back ((instruction I_RdAddr (RdAddrFunc F_lwu))
     \<lparr>i_rd := rd, i_rs1 := (addr_base addr), i_imm := (addr_offset addr)\<rparr>)"

definition b_ld :: "reg \<Rightarrow> rv_address \<Rightarrow> build" where [rv_build]:
  "b_ld rd addr = emplace_back ((instruction I_RdAddr (RdAddrFunc F_ld))
     \<lparr>i_rd := rd, i_rs1 := (addr_base addr), i_imm := (addr_offset addr)\<rparr>)"

definition b_sd :: "reg \<Rightarrow> rv_address \<Rightarrow> build" where [rv_build]:
  "b_sd rs2 addr = emplace_back ((instruction I_Rs2Addr (RdAddrFunc F_sd))
     \<lparr>i_rs1 := (addr_base addr), i_rs2 := rs2, i_imm := (addr_offset addr)\<rparr>)"

definition b_addiw :: "reg \<Rightarrow> reg \<Rightarrow> intptr \<Rightarrow> build" where [rv_build]:
  "b_addiw rd rs1 imm = emplace_back ((instruction I_RdRs1Imm (RdRs1ImmFunc F_addiw))
     \<lparr>i_rd := rd, i_rs1 := rs1, i_imm := imm\<rparr>)"

definition b_subiw :: "reg \<Rightarrow> reg \<Rightarrow> intptr \<Rightarrow> build" where [rv_build]:
  "b_subiw rd rs1 imm = b_addi rd rs1 (- imm) False"

definition b_slliw :: "reg \<Rightarrow> reg \<Rightarrow> intptr \<Rightarrow> build" where [rv_build]:
  "b_slliw rd rs1 shamt = emplace_back ((instruction I_RdRs1Imm (RdRs1ImmFunc F_slliw))
     \<lparr>i_rd := rd, i_rs1 := rs1, i_imm := shamt\<rparr>)"

definition b_srliw :: "reg \<Rightarrow> reg \<Rightarrow> intptr \<Rightarrow> build" where [rv_build]:
  "b_srliw rd rs1 shamt = emplace_back ((instruction I_RdRs1Imm (RdRs1ImmFunc F_srliw))
     \<lparr>i_rd := rd, i_rs1 := rs1, i_imm := shamt\<rparr>)"

definition b_sraiw :: "reg \<Rightarrow> reg \<Rightarrow> intptr \<Rightarrow> build" where [rv_build]:
  "b_sraiw rd rs1 shamt = emplace_back ((instruction I_RdRs1Imm (RdRs1ImmFunc F_sraiw))
     \<lparr>i_rd := rd, i_rs1 := rs1, i_imm := shamt\<rparr>)"

definition b_addw :: "reg \<Rightarrow> reg \<Rightarrow> reg \<Rightarrow> build" where [rv_build]:
  "b_addw rd rs1 rs2 = emplace_back ((instruction I_RdRs1Rs2 (RdRs1Rs2Func F_addw))
     \<lparr>i_rd := rd, i_rs1 := rs1, i_rs2 := rs2\<rparr>)"

definition b_subw :: "reg \<Rightarrow> reg \<Rightarrow> reg \<Rightarrow> build" where [rv_build]:
  "b_subw rd rs1 rs2 = emplace_back ((instruction I_RdRs1Rs2 (RdRs1Rs2Func F_subw))
     \<lparr>i_rd := rd, i_rs1 := rs1, i_rs2 := rs2\<rparr>)"

definition b_sllw :: "reg \<Rightarrow> reg \<Rightarrow> reg \<Rightarrow> build" where [rv_build]:
  "b_sllw rd rs1 rs2 = emplace_back ((instruction I_RdRs1Rs2 (RdRs1Rs2Func F_sllw))
     \<lparr>i_rd := rd, i_rs1 := rs1, i_rs2 := rs2\<rparr>)"

definition b_srlw :: "reg \<Rightarrow> reg \<Rightarrow> reg \<Rightarrow> build" where [rv_build]:
  "b_srlw rd rs1 rs2 = emplace_back ((instruction I_RdRs1Rs2 (RdRs1Rs2Func F_srlw))
     \<lparr>i_rd := rd, i_rs1 := rs1, i_rs2 := rs2\<rparr>)"

definition b_sraw :: "reg \<Rightarrow> reg \<Rightarrow> reg \<Rightarrow> build" where [rv_build]:
  "b_sraw rd rs1 rs2 = emplace_back ((instruction I_RdRs1Rs2 (RdRs1Rs2Func F_sraw))
     \<lparr>i_rd := rd, i_rs1 := rs1, i_rs2 := rs2\<rparr>)"

definition b_negw :: "reg \<Rightarrow> reg \<Rightarrow> build" where [rv_build]:
  "b_negw rd rs = b_subw rd ZERO rs"

definition b_sextw :: "reg \<Rightarrow> reg \<Rightarrow> build" where [rv_build]:
  "b_sextw rd rs = b_addiw rd rs 0"

definition b_lx :: "reg \<Rightarrow> rv_address \<Rightarrow> build" where [rv_build]:
  "b_lx rd addr = b_ld rd addr"

definition b_sx :: "reg \<Rightarrow> rv_address \<Rightarrow> build" where [rv_build]:
  "b_sx rs2 addr = b_sd rs2 addr"

definition b_mul :: "reg \<Rightarrow> reg \<Rightarrow> reg \<Rightarrow> build" where [rv_build]:
  "b_mul rd rs1 rs2 = emplace_back ((instruction I_RdRs1Rs2 (RdRs1Rs2Func F_mul))
     \<lparr>i_rd := rd, i_rs1 := rs1, i_rs2 := rs2\<rparr>)"

definition b_mulh :: "reg \<Rightarrow> reg \<Rightarrow> reg \<Rightarrow> build" where [rv_build]:
  "b_mulh rd rs1 rs2 = emplace_back ((instruction I_RdRs1Rs2 (RdRs1Rs2Func F_mulh))
     \<lparr>i_rd := rd, i_rs1 := rs1, i_rs2 := rs2\<rparr>)"

definition b_mulhsu :: "reg \<Rightarrow> reg \<Rightarrow> reg \<Rightarrow> build" where [rv_build]:
  "b_mulhsu rd rs1 rs2 = emplace_back ((instruction I_RdRs1Rs2 (RdRs1Rs2Func F_mulhsu))
     \<lparr>i_rd := rd, i_rs1 := rs1, i_rs2 := rs2\<rparr>)"

definition b_mulhu :: "reg \<Rightarrow> reg \<Rightarrow> reg \<Rightarrow> build" where [rv_build]:
  "b_mulhu rd rs1 rs2 = emplace_back ((instruction I_RdRs1Rs2 (RdRs1Rs2Func F_mulhu))
     \<lparr>i_rd := rd, i_rs1 := rs1, i_rs2 := rs2\<rparr>)"

definition b_div :: "reg \<Rightarrow> reg \<Rightarrow> reg \<Rightarrow> build" where [rv_build]:
  "b_div rd rs1 rs2 = emplace_back ((instruction I_RdRs1Rs2 (RdRs1Rs2Func F_div))
     \<lparr>i_rd := rd, i_rs1 := rs1, i_rs2 := rs2\<rparr>)"

definition b_divu :: "reg \<Rightarrow> reg \<Rightarrow> reg \<Rightarrow> build" where [rv_build]:
  "b_divu rd rs1 rs2 = emplace_back ((instruction I_RdRs1Rs2 (RdRs1Rs2Func F_divu))
     \<lparr>i_rd := rd, i_rs1 := rs1, i_rs2 := rs2\<rparr>)"

definition b_rem :: "reg \<Rightarrow> reg \<Rightarrow> reg \<Rightarrow> build" where [rv_build]:
  "b_rem rd rs1 rs2 = emplace_back ((instruction I_RdRs1Rs2 (RdRs1Rs2Func F_rem))
     \<lparr>i_rd := rd, i_rs1 := rs1, i_rs2 := rs2\<rparr>)"

definition b_remu :: "reg \<Rightarrow> reg \<Rightarrow> reg \<Rightarrow> build" where [rv_build]:
  "b_remu rd rs1 rs2 = emplace_back ((instruction I_RdRs1Rs2 (RdRs1Rs2Func F_remu))
     \<lparr>i_rd := rd, i_rs1 := rs1, i_rs2 := rs2\<rparr>)"

definition b_mulw :: "reg \<Rightarrow> reg \<Rightarrow> reg \<Rightarrow> build" where [rv_build]:
  "b_mulw rd rs1 rs2 = emplace_back ((instruction I_RdRs1Rs2 (RdRs1Rs2Func F_mulw))
     \<lparr>i_rd := rd, i_rs1 := rs1, i_rs2 := rs2\<rparr>)"

definition b_divw :: "reg \<Rightarrow> reg \<Rightarrow> reg \<Rightarrow> build" where [rv_build]:
  "b_divw rd rs1 rs2 = emplace_back ((instruction I_RdRs1Rs2 (RdRs1Rs2Func F_divw))
     \<lparr>i_rd := rd, i_rs1 := rs1, i_rs2 := rs2\<rparr>)"

definition b_divuw :: "reg \<Rightarrow> reg \<Rightarrow> reg \<Rightarrow> build" where [rv_build]:
  "b_divuw rd rs1 rs2 = emplace_back ((instruction I_RdRs1Rs2 (RdRs1Rs2Func F_divuw))
     \<lparr>i_rd := rd, i_rs1 := rs1, i_rs2 := rs2\<rparr>)"

definition b_remw :: "reg \<Rightarrow> reg \<Rightarrow> reg \<Rightarrow> build" where [rv_build]:
  "b_remw rd rs1 rs2 = emplace_back ((instruction I_RdRs1Rs2 (RdRs1Rs2Func F_remw))
     \<lparr>i_rd := rd, i_rs1 := rs1, i_rs2 := rs2\<rparr>)"

definition b_remuw :: "reg \<Rightarrow> reg \<Rightarrow> reg \<Rightarrow> build" where [rv_build]:
  "b_remuw rd rs1 rs2 = emplace_back ((instruction I_RdRs1Rs2 (RdRs1Rs2Func F_remuw))
     \<lparr>i_rd := rd, i_rs1 := rs1, i_rs2 := rs2\<rparr>)"

definition b_lrw :: "reg \<Rightarrow> rv_address \<Rightarrow> memory_order \<Rightarrow> build" where [rv_build]:
  "b_lrw rd addr order = emplace_back ((instruction I_RdAddrOrder (RdAddrOrderFunc F_lrw))
     \<lparr>i_rd := rd, i_rs1 := (addr_base addr), i_order := order\<rparr>)"

definition b_scw :: "reg \<Rightarrow> reg \<Rightarrow> rv_address \<Rightarrow> memory_order \<Rightarrow> build" where [rv_build]:
  "b_scw rd rs2 addr order = emplace_back ((instruction I_RdRs2AddrOrder (RdRs2AddrOrderFunc F_scw))
     \<lparr>i_rd := rd, i_rs1 := (addr_base addr), i_rs2 := rs2, i_order := order\<rparr>)"

definition b_amoswapw :: "reg \<Rightarrow> reg \<Rightarrow> rv_address \<Rightarrow> memory_order \<Rightarrow> build" where [rv_build]:
  "b_amoswapw rd rs2 addr order = emplace_back ((instruction I_RdRs2AddrOrder (RdRs2AddrOrderFunc F_amoswapw))
     \<lparr>i_rd := rd, i_rs1 := (addr_base addr), i_rs2 := rs2, i_order := order\<rparr>)"

definition b_amoaddw :: "reg \<Rightarrow> reg \<Rightarrow> rv_address \<Rightarrow> memory_order \<Rightarrow> build" where [rv_build]:
  "b_amoaddw rd rs2 addr order = emplace_back ((instruction I_RdRs2AddrOrder (RdRs2AddrOrderFunc F_amoaddw))
     \<lparr>i_rd := rd, i_rs1 := (addr_base addr), i_rs2 := rs2, i_order := order\<rparr>)"

definition b_amoxorw :: "reg \<Rightarrow> reg \<Rightarrow> rv_address \<Rightarrow> memory_order \<Rightarrow> build" where [rv_build]:
  "b_amoxorw rd rs2 addr order = emplace_back ((instruction I_RdRs2AddrOrder (RdRs2AddrOrderFunc F_amoxorw))
     \<lparr>i_rd := rd, i_rs1 := (addr_base addr), i_rs2 := rs2, i_order := order\<rparr>)"

definition b_amoandw :: "reg \<Rightarrow> reg \<Rightarrow> rv_address \<Rightarrow> memory_order \<Rightarrow> build" where [rv_build]:
  "b_amoandw rd rs2 addr order = emplace_back ((instruction I_RdRs2AddrOrder (RdRs2AddrOrderFunc F_amoandw))
     \<lparr>i_rd := rd, i_rs1 := (addr_base addr), i_rs2 := rs2, i_order := order\<rparr>)"

definition b_amoorw :: "reg \<Rightarrow> reg \<Rightarrow> rv_address \<Rightarrow> memory_order \<Rightarrow> build" where [rv_build]:
  "b_amoorw rd rs2 addr order = emplace_back ((instruction I_RdRs2AddrOrder (RdRs2AddrOrderFunc F_amoorw))
     \<lparr>i_rd := rd, i_rs1 := (addr_base addr), i_rs2 := rs2, i_order := order\<rparr>)"

definition b_amominw :: "reg \<Rightarrow> reg \<Rightarrow> rv_address \<Rightarrow> memory_order \<Rightarrow> build" where [rv_build]:
  "b_amominw rd rs2 addr order = emplace_back ((instruction I_RdRs2AddrOrder (RdRs2AddrOrderFunc F_amominw))
     \<lparr>i_rd := rd, i_rs1 := (addr_base addr), i_rs2 := rs2, i_order := order\<rparr>)"

definition b_amomaxw :: "reg \<Rightarrow> reg \<Rightarrow> rv_address \<Rightarrow> memory_order \<Rightarrow> build" where [rv_build]:
  "b_amomaxw rd rs2 addr order = emplace_back ((instruction I_RdRs2AddrOrder (RdRs2AddrOrderFunc F_amomaxw))
     \<lparr>i_rd := rd, i_rs1 := (addr_base addr), i_rs2 := rs2, i_order := order\<rparr>)"

definition b_amominuw :: "reg \<Rightarrow> reg \<Rightarrow> rv_address \<Rightarrow> memory_order \<Rightarrow> build" where [rv_build]:
  "b_amominuw rd rs2 addr order = emplace_back ((instruction I_RdRs2AddrOrder (RdRs2AddrOrderFunc F_amominuw))
     \<lparr>i_rd := rd, i_rs1 := (addr_base addr), i_rs2 := rs2, i_order := order\<rparr>)"

definition b_amomaxuw :: "reg \<Rightarrow> reg \<Rightarrow> rv_address \<Rightarrow> memory_order \<Rightarrow> build" where [rv_build]:
  "b_amomaxuw rd rs2 addr order = emplace_back ((instruction I_RdRs2AddrOrder (RdRs2AddrOrderFunc F_amomaxuw))
     \<lparr>i_rd := rd, i_rs1 := (addr_base addr), i_rs2 := rs2, i_order := order\<rparr>)"

definition b_lrd :: "reg \<Rightarrow> rv_address \<Rightarrow> memory_order \<Rightarrow> build" where [rv_build]:
  "b_lrd rd addr order = emplace_back ((instruction I_RdAddrOrder (RdAddrOrderFunc F_lrd))
     \<lparr>i_rd := rd, i_rs1 := (addr_base addr), i_order := order\<rparr>)"

definition b_scd :: "reg \<Rightarrow> reg \<Rightarrow> rv_address \<Rightarrow> memory_order \<Rightarrow> build" where [rv_build]:
  "b_scd rd rs2 addr order = emplace_back ((instruction I_RdRs2AddrOrder (RdRs2AddrOrderFunc F_scd))
     \<lparr>i_rd := rd, i_rs1 := (addr_base addr), i_rs2 := rs2, i_order := order\<rparr>)"

definition b_amoswapd :: "reg \<Rightarrow> reg \<Rightarrow> rv_address \<Rightarrow> memory_order \<Rightarrow> build" where [rv_build]:
  "b_amoswapd rd rs2 addr order = emplace_back ((instruction I_RdRs2AddrOrder (RdRs2AddrOrderFunc F_amoswapd))
     \<lparr>i_rd := rd, i_rs1 := (addr_base addr), i_rs2 := rs2, i_order := order\<rparr>)"

definition b_amoaddd :: "reg \<Rightarrow> reg \<Rightarrow> rv_address \<Rightarrow> memory_order \<Rightarrow> build" where [rv_build]:
  "b_amoaddd rd rs2 addr order = emplace_back ((instruction I_RdRs2AddrOrder (RdRs2AddrOrderFunc F_amoaddd))
     \<lparr>i_rd := rd, i_rs1 := (addr_base addr), i_rs2 := rs2, i_order := order\<rparr>)"

definition b_amoxord :: "reg \<Rightarrow> reg \<Rightarrow> rv_address \<Rightarrow> memory_order \<Rightarrow> build" where [rv_build]:
  "b_amoxord rd rs2 addr order = emplace_back ((instruction I_RdRs2AddrOrder (RdRs2AddrOrderFunc F_amoxord))
     \<lparr>i_rd := rd, i_rs1 := (addr_base addr), i_rs2 := rs2, i_order := order\<rparr>)"

definition b_amoandd :: "reg \<Rightarrow> reg \<Rightarrow> rv_address \<Rightarrow> memory_order \<Rightarrow> build" where [rv_build]:
  "b_amoandd rd rs2 addr order = emplace_back ((instruction I_RdRs2AddrOrder (RdRs2AddrOrderFunc F_amoandd))
     \<lparr>i_rd := rd, i_rs1 := (addr_base addr), i_rs2 := rs2, i_order := order\<rparr>)"

definition b_amoord :: "reg \<Rightarrow> reg \<Rightarrow> rv_address \<Rightarrow> memory_order \<Rightarrow> build" where [rv_build]:
  "b_amoord rd rs2 addr order = emplace_back ((instruction I_RdRs2AddrOrder (RdRs2AddrOrderFunc F_amoord))
     \<lparr>i_rd := rd, i_rs1 := (addr_base addr), i_rs2 := rs2, i_order := order\<rparr>)"

definition b_amomind :: "reg \<Rightarrow> reg \<Rightarrow> rv_address \<Rightarrow> memory_order \<Rightarrow> build" where [rv_build]:
  "b_amomind rd rs2 addr order = emplace_back ((instruction I_RdRs2AddrOrder (RdRs2AddrOrderFunc F_amomind))
     \<lparr>i_rd := rd, i_rs1 := (addr_base addr), i_rs2 := rs2, i_order := order\<rparr>)"

definition b_amomaxd :: "reg \<Rightarrow> reg \<Rightarrow> rv_address \<Rightarrow> memory_order \<Rightarrow> build" where [rv_build]:
  "b_amomaxd rd rs2 addr order = emplace_back ((instruction I_RdRs2AddrOrder (RdRs2AddrOrderFunc F_amomaxd))
     \<lparr>i_rd := rd, i_rs1 := (addr_base addr), i_rs2 := rs2, i_order := order\<rparr>)"

definition b_amominud :: "reg \<Rightarrow> reg \<Rightarrow> rv_address \<Rightarrow> memory_order \<Rightarrow> build" where [rv_build]:
  "b_amominud rd rs2 addr order = emplace_back ((instruction I_RdRs2AddrOrder (RdRs2AddrOrderFunc F_amominud))
     \<lparr>i_rd := rd, i_rs1 := (addr_base addr), i_rs2 := rs2, i_order := order\<rparr>)"

definition b_amomaxud :: "reg \<Rightarrow> reg \<Rightarrow> rv_address \<Rightarrow> memory_order \<Rightarrow> build" where [rv_build]:
  "b_amomaxud rd rs2 addr order = emplace_back ((instruction I_RdRs2AddrOrder (RdRs2AddrOrderFunc F_amomaxud))
     \<lparr>i_rd := rd, i_rs1 := (addr_base addr), i_rs2 := rs2, i_order := order\<rparr>)"

definition b_lr :: "reg \<Rightarrow> rv_address \<Rightarrow> memory_order \<Rightarrow> build" where [rv_build]:
  "b_lr rd addr order = b_lrd rd addr order"

definition b_sr :: "reg \<Rightarrow> reg \<Rightarrow> rv_address \<Rightarrow> memory_order \<Rightarrow> build" where [rv_build]:
  "b_sr rd rs2 addr order = b_scd rd rs2 addr order"

end
