(* ===== verification/Riscv_Allocator.thy ===== *)
theory Riscv_Allocator
  imports Riscv_Instruction
begin

text \<open>
  The register allocator of the RISC-V back end (\<open>InstructionBuilder::allocate\<close>,
  \<open>instruction-builder/builder.h\<close>): a linear scan from the last instruction to the first.
  The state holds the instructions, the free registers, the map from virtual and guest
  registers to RISC-V registers, and the move whose destination waits to be put into the
  instruction that computes its source (the pointer \<open>linked_instruction\<close> is an index).
  The C++ lambda calls itself for the waiting move, with \<open>linked_instruction\<close> cleared and
  \<open>set_linked\<close> false, so that the call cannot call itself again: the body is a definition
  over the function that handles the waiting move.
\<close>

record alloc_state =
  insns :: "insn list"
  avail_physregs :: "32 word"
  vreg_to_preg :: "reg \<Rightarrow> reg option"
  linked_instruction :: "nat option"
  link_reg :: reg

type_synonym alloc = "(alloc_state, insn) prog"

definition functional_map :: "reg \<Rightarrow> reg option" where
  "functional_map r =
     (if FUNCTIONAL_BASE \<le> r \<and> r < FUNCTIONAL_BASE + 8 then Some (r - FUNCTIONAL_BASE + 16) else None)"

definition initial_alloc :: "insn list \<Rightarrow> alloc_state" where
  "initial_alloc is = \<lparr>insns = is, avail_physregs = 0xFF00F2E8, vreg_to_preg = functional_map,
     linked_instruction = None, link_reg = none_reg\<rparr>"

text \<open>\<open>std::bitset<32>\<close>: \<open>_Find_next\<close> and \<open>_Find_first\<close> return 32 when there is no bit,
  \<open>flip\<close> throws for a position out of range.\<close>

definition find_next :: "32 word \<Rightarrow> nat \<Rightarrow> nat" where
  "find_next b n = (case filter (\<lambda>i. n < i \<and> bit b i) [0..<32] of [] \<Rightarrow> 32 | i # _ \<Rightarrow> i)"

definition find_first :: "32 word \<Rightarrow> nat" where
  "find_first b = (case filter (bit b) [0..<32] of [] \<Rightarrow> 32 | i # _ \<Rightarrow> i)"

definition choose_register :: "32 word \<Rightarrow> reg \<Rightarrow> nat" where
  "choose_register av preference =
     (if preference \<noteq> none_reg \<and> bit av (unat preference) then unat preference
      else if find_next av 7 = 32 then find_first av
      else find_next av 7)"

text \<open>The lambda \<open>allocate\<close>: the register for an operand.\<close>

definition allocate_use :: "reg \<Rightarrow> reg \<Rightarrow> (alloc_state, reg) prog" where
  "allocate_use operand preference st =
     (if is_physical operand then Inl (Runtime_error ''Trying to allocate non-virtual register operand'')
      else
        let a = choose_register (avail_physregs st) preference in
        if a \<ge> 32 then Inl Out_of_range
        else bnd (lift_res (allocate_operand operand (of_nat a))) ret
          (st\<lparr>avail_physregs := flip_bit a (avail_physregs st),
             vreg_to_preg := (vreg_to_preg st)(operand \<mapsto> of_nat a)\<rparr>))"

text \<open>\<open>avail_physregs.set(pri); vreg_to_preg.erase(alloc)\<close>\<close>

definition release :: "reg \<Rightarrow> reg \<Rightarrow> alloc_state \<Rightarrow> alloc_state" where
  "release vri pri st = st\<lparr>avail_physregs := set_bit (unat pri) (avail_physregs st),
     vreg_to_preg := (vreg_to_preg st)(vri := None)\<rparr>"

definition move_source :: "insn \<Rightarrow> reg" where
  "move_source i = (if i_rs1 i = ZERO then (if i_rs2 i \<noteq> none_reg then i_rs2 i else i_rs1 i) else i_rs1 i)"

text \<open>The definition of a waiting move's source takes over the destination of the move.\<close>

definition merge_linked :: "insn \<Rightarrow> alloc" where
  "merge_linked i st =
     (case linked_instruction st of
        Some j \<Rightarrow>
          if link_reg st = i_rd i then
            (let st1 = (case vreg_to_preg st (i_rd i) of Some pri \<Rightarrow> release (i_rd i) pri st | None \<Rightarrow> st);
                 m = insns st1 ! j in
             Inr (i\<lparr>i_rd := i_rd m\<rparr>,
               st1\<lparr>insns := (insns st1)[j := kill m], linked_instruction := None\<rparr>))
          else Inr (i, st)
      | None \<Rightarrow> Inr (i, st))"

definition links :: "bool \<Rightarrow> insn \<Rightarrow> alloc_state \<Rightarrow> bool" where
  "links set_linked i st \<longleftrightarrow>
     set_linked \<and> is_mv i \<and> i_rd i \<noteq> ZERO \<and> is_virtual (move_source i) \<and> vreg_to_preg st (move_source i) = None"

text \<open>The destination of an instruction that does not wait: its register, free from here
  upwards, or the instruction is dead.\<close>

definition allocate_def :: "insn \<Rightarrow> alloc" where
  "allocate_def i st =
     (case vreg_to_preg st (i_rd i) of
        Some pri \<Rightarrow>
          (let st1 = (if \<not> is_rd_use i \<and> \<not> is_functional (i_rd i) then release (i_rd i) pri st else st) in
           bnd (lift_res (allocate_operand (i_rd i) pri)) (\<lambda>r. ret (i\<lparr>i_rd := r\<rparr>)) st1)
      | None \<Rightarrow> Inr (kill i, st))"

type_synonym flush = "(alloc_state, unit) prog"

definition rd_step :: "flush \<Rightarrow> nat \<Rightarrow> bool \<Rightarrow> insn \<Rightarrow> alloc" where
  "rd_step flush k set_linked i st =
     (if i_rd i = none_reg then Inr (i, st)
      else if \<not> is_physical (i_rd i) then
        bnd (merge_linked i) (\<lambda>i1 st1.
          if links set_linked i1 st1 then
            andthen flush (\<lambda>st2. Inr (i1, st2\<lparr>link_reg := move_source i1, linked_instruction := Some k\<rparr>)) st1
          else
            andthen (case linked_instruction st1 of
                Some j \<Rightarrow> if i_rd i1 = i_rd (insns st1 ! j) then flush else ret ()
              | None \<Rightarrow> ret ())
              (allocate_def i1) st1) st
      else if (i_rd i = A0 \<or> i_rd i = A1) \<and> \<not> is_rd_use i
      then Inr (i, st\<lparr>avail_physregs := set_bit (unat (i_rd i)) (avail_physregs st)\<rparr>)
      else Inr (i, st))"

text \<open>One operand that is read, for the instruction at \<open>k\<close> with destination \<open>rd\<close>.\<close>

definition use_step :: "flush \<Rightarrow> nat \<Rightarrow> reg \<Rightarrow> reg \<Rightarrow> (alloc_state, reg) prog" where
  "use_step flush k rd operand st =
     (if operand = none_reg \<or> is_physical operand then Inr (operand, st)
      else
        andthen (case linked_instruction st of
            Some j \<Rightarrow> if (operand = link_reg st \<or> operand = i_rd (insns st ! j)) \<and> j \<noteq> k then flush else ret ()
          | None \<Rightarrow> ret ())
          (\<lambda>st1. case vreg_to_preg st1 operand of
              None \<Rightarrow> allocate_use operand (if is_physical rd then rd else none_reg) st1
            | Some pri \<Rightarrow> bnd (lift_res (allocate_operand operand pri)) ret st1) st)"

definition kill_move :: "insn \<Rightarrow> insn" where
  "kill_move i =
     (let op1 = i_rd i; op2 = move_source i in
      if is_mv i \<and> is_physical op1 \<and> is_physical op2 \<and> (op1 = op2 \<or> op1 = ZERO) then kill i else i)"

definition allocate_body :: "flush \<Rightarrow> nat \<Rightarrow> bool \<Rightarrow> (alloc_state, unit) prog" where
  "allocate_body flush k set_linked st =
     andthen (if is_control_flow (insns st ! k) then flush else ret ())
       (bnd (rd_step flush k set_linked (insns st ! k)) (\<lambda>i.
        if is_dead i then (\<lambda>st1. Inr ((), st1\<lparr>insns := (insns st1)[k := i]\<rparr>))
        else
          andthen (\<lambda>st1. Inr ((), st1\<lparr>insns := (insns st1)[k := i]\<rparr>))
            (bnd (use_step flush k (i_rd i) (i_rs1 i)) (\<lambda>r1.
             bnd (use_step flush k (i_rd i) (i_rs2 i)) (\<lambda>r2 st1.
               Inr ((), st1\<lparr>insns := (insns st1)[k := kill_move (i\<lparr>i_rs1 := r1, i_rs2 := r2\<rparr>)]\<rparr>)))))) st"

text \<open>The inner call: no move waits, and \<open>set_linked\<close> is false.\<close>

definition allocate_waiting :: "nat \<Rightarrow> (alloc_state, unit) prog" where
  "allocate_waiting j = allocate_body (ret ()) j False"

definition flush_linked :: flush where
  "flush_linked st =
     (case linked_instruction st of
        None \<Rightarrow> Inr ((), st)
      | Some j \<Rightarrow> allocate_waiting j (st\<lparr>linked_instruction := None\<rparr>))"

definition allocate_instruction :: "nat \<Rightarrow> (alloc_state, unit) prog" where
  "allocate_instruction k = allocate_body flush_linked k True"

definition allocate :: "insn list \<Rightarrow> insn list res" where
  "allocate is =
     (case for_each (rev [0..<length is]) allocate_instruction (initial_alloc is) of
        Inl e \<Rightarrow> Inl e
      | Inr (_, st) \<Rightarrow> Inr (insns st))"

end
