(* ===== verification/Riscv_Allocation.thy ===== *)
theory Riscv_Allocation
  imports Riscv_Allocator
begin

text \<open>
  Register allocation preserves the meaning of straight-line code.  The machine that runs the
  instructions is a parameter: \<open>sem\<close> gives, for a method of the assembler, an immediate and
  the values of the two operands, the result and the new state of memory.  Instructions before
  allocation run on a register file indexed by all operands, guest and virtual registers
  included; instructions after it run on the RISC-V registers.  The match relation is the
  allocator's map, and \<open>correct\<close> says that a suffix of the allocated code simulates the same
  suffix of the code it comes from.  While a move waits, the invariant of the allocator has two
  such facts: one for the code in which the move is allocated where it stands, one for the code
  in which it is gone and its source lives in the register of its destination.
\<close>

section \<open>Execution\<close>

type_synonym 'm rv_semantics =
  "func \<Rightarrow> intptr \<Rightarrow> memory_order \<Rightarrow> 64 word \<Rightarrow> 64 word \<Rightarrow> 'm \<Rightarrow> 64 word \<times> 'm"
type_synonym regs = "reg \<Rightarrow> 64 word"

definition reads1 :: "insn \<Rightarrow> bool" where
  "reads1 i = (i_type i \<in> {I_RdRs1Imm, I_RdRs1ImmKeepRs2, I_RdAddr, I_Rs2Addr, I_RdRs1Rs2, I_RdAddrOrder,
     I_RdRs2AddrOrder})"

definition reads2 :: "insn \<Rightarrow> bool" where
  "reads2 i = (i_type i \<in> {I_Rs2Addr, I_RdRs1Rs2, I_RdRs2AddrOrder})"

definition exec_insn :: "'m rv_semantics \<Rightarrow> insn \<Rightarrow> regs \<times> 'm \<Rightarrow> regs \<times> 'm" where
  "exec_insn sem i s =
     (if i_type i \<in> {I_Dead, I_Noop, I_Imm} then s
      else
        let r = sem (i_func i) (i_imm i) (i_order i) (if reads1 i then fst s (i_rs1 i) else 0)
                  (if reads2 i then fst s (i_rs2 i) else 0) (snd s) in
        (if has_rd i \<and> i_rd i \<noteq> ZERO then (fst s)(i_rd i := fst r) else fst s, snd r))"

fun exec_insns :: "'m rv_semantics \<Rightarrow> insn list \<Rightarrow> regs \<times> 'm \<Rightarrow> regs \<times> 'm" where
  "exec_insns sem [] s = s"
| "exec_insns sem (i # is) s = exec_insns sem is (exec_insn sem i s)"

text \<open>What the code relies on of the machine: moves move, and only stores, atomic accesses and
  instructions without operands change memory.\<close>

definition copies :: "'m rv_semantics \<Rightarrow> bool" where
  "copies sem \<longleftrightarrow> (\<forall>ord x y m. sem (RdRs1ImmFunc F_addi_normal) 0 ord x y m = (x, m))
     \<and> (\<forall>imm ord x y m. sem (RdRs1Rs2Func F_add) imm ord x y m = (x + y, m))"

fun pure_func :: "func \<Rightarrow> bool" where
  "pure_func (RdImmFunc f) = True"
| "pure_func (RdRs1ImmFunc f) = (f \<noteq> F_jalr)"
| "pure_func (RdAddrFunc f) = (f \<notin> {F_sb, F_sh, F_sw, F_sd})"
| "pure_func (RdRs1Rs2Func f) = True"
| "pure_func _ = False"

definition keeps_memory :: "'m rv_semantics \<Rightarrow> bool" where
  "keeps_memory sem \<longleftrightarrow> (\<forall>f imm ord x y m. pure_func f \<longrightarrow> snd (sem f imm ord x y m) = m)"

section \<open>Simulation\<close>

definition all_fixed :: "reg set" where
  "all_fixed = {ZERO, RA, SP, TP, FP, A0, A1}"

definition sim :: "reg set \<Rightarrow> (reg \<Rightarrow> reg option) \<Rightarrow> regs \<Rightarrow> regs \<Rightarrow> bool" where
  "sim F m Rv Rp \<longleftrightarrow> (\<forall>p\<in>F. Rp p = Rv p) \<and> (\<forall>v p. m v = Some p \<longrightarrow> Rp p = Rv v)"

definition correct ::
  "'m rv_semantics \<Rightarrow> reg set \<Rightarrow> (reg \<Rightarrow> reg option) \<Rightarrow> insn list \<Rightarrow> insn list \<Rightarrow> bool" where
  "correct sem F m S V \<longleftrightarrow>
     (\<forall>Rv Rp M. Rv ZERO = 0 \<longrightarrow> sim F m Rv Rp \<longrightarrow>
        (let sv = exec_insns sem V (Rv, M); sp = exec_insns sem S (Rp, M) in
         snd sp = snd sv \<and> sim all_fixed functional_map (fst sv) (fst sp)))"

lemma correctD:
  assumes "correct sem F m S V" "Rv ZERO = 0" "sim F m Rv Rp"
  shows "snd (exec_insns sem S (Rp, M)) = snd (exec_insns sem V (Rv, M))"
    and "sim all_fixed functional_map (fst (exec_insns sem V (Rv, M))) (fst (exec_insns sem S (Rp, M)))"
  using assms by (auto simp: correct_def Let_def)

lemma correct_Nil: "correct sem all_fixed functional_map [] []"
  by (simp add: correct_def)

text \<open>Where an operand is read: \<open>link\<close>.  Where a result is written: \<open>target\<close>.\<close>

definition link :: "reg set \<Rightarrow> (reg \<Rightarrow> reg option) \<Rightarrow> reg \<Rightarrow> reg \<Rightarrow> bool" where
  "link F M a b \<longleftrightarrow> a \<in> F \<and> b = a \<or> M a = Some b"

definition target :: "reg set \<Rightarrow> (reg \<Rightarrow> reg option) \<Rightarrow> reg \<Rightarrow> reg \<Rightarrow> bool" where
  "target F m w r \<longleftrightarrow>
     (if w \<in> F then r = w \<and> m w = None else r \<notin> F \<and> (m w = None \<or> m w = Some r))
     \<and> (\<forall>v q. v \<noteq> w \<longrightarrow> m v = Some q \<longrightarrow> q \<noteq> r)"

definition below :: "reg \<Rightarrow> (reg \<Rightarrow> reg option) \<Rightarrow> (reg \<Rightarrow> reg option) \<Rightarrow> bool" where
  "below w m M \<longleftrightarrow> (\<forall>v q. v \<noteq> w \<longrightarrow> m v = Some q \<longrightarrow> M v = Some q)"

lemma linkD: "link F M a b \<Longrightarrow> sim F M Rv Rp \<Longrightarrow> Rp b = Rv a"
  by (auto simp: link_def sim_def)

lemma sim_write:
  assumes s: "sim F M Rv Rp" and F: "F' - {w} \<subseteq> F" and b: "below w m M" and t: "target F' m w r"
  shows "sim F' m (Rv(w := x)) (Rp(r := x))"
  unfolding sim_def
proof (intro conjI ballI allI impI)
  fix p assume p: "p \<in> F'"
  show "(Rp(r := x)) p = (Rv(w := x)) p"
  proof (cases "p = w")
    case True
    then show ?thesis using t p by (simp add: target_def)
  next
    case False
    then have "p \<noteq> r" using t p by (auto simp: target_def split: if_splits)
    then show ?thesis using s F p False by (auto simp: sim_def)
  qed
next
  fix v p assume v: "m v = Some p"
  show "(Rp(r := x)) p = (Rv(w := x)) v"
  proof (cases "v = w")
    case True
    then show ?thesis using t v by (auto simp: target_def split: if_splits)
  next
    case False
    then have "p \<noteq> r" "M v = Some p" using t v b by (auto simp: target_def below_def)
    then show ?thesis using s False by (auto simp: sim_def)
  qed
qed

lemma sim_drop:
  assumes s: "sim F M Rv Rp" and F: "F' - {w} \<subseteq> F" and b: "below w m M" and d: "w \<notin> F'" "m w = None"
  shows "sim F' m (Rv(w := x)) Rp" "sim F' m Rv Rp"
proof -
  have "p \<in> F" "p \<noteq> w" if "p \<in> F'" for p using that F d by auto
  moreover have "v \<noteq> w" if "m v = Some q" for v q using that d by auto
  moreover have "M v = Some q" if "m v = Some q" for v q
    using that b d(2) unfolding below_def by (metis option.distinct(1))
  ultimately show "sim F' m (Rv(w := x)) Rp" "sim F' m Rv Rp" using s by (auto simp: sim_def)
qed

text \<open>One instruction that stays.\<close>

definition same_op :: "insn \<Rightarrow> insn \<Rightarrow> bool" where
  "same_op i i' \<longleftrightarrow> i_type i' = i_type i \<and> i_func i' = i_func i \<and> i_imm i' = i_imm i \<and> i_order i' = i_order i"

lemma correct_step:
  assumes c: "correct sem F' m S V" and z: "ZERO \<in> F'" "ZERO \<in> F"
    and F: "F' - {i_rd i} \<subseteq> F" and b: "below (i_rd i) m M"
    and op: "same_op i i'" and ty: "i_type i \<notin> {I_Dead, I_Noop}"
    and w: "if has_rd i then target F' m (i_rd i) (i_rd i') else i_rd i \<notin> F' \<and> m (i_rd i) = None"
    and r: "reads1 i \<Longrightarrow> link F M (i_rs1 i) (i_rs1 i')" "reads2 i \<Longrightarrow> link F M (i_rs2 i) (i_rs2 i')"
  shows "correct sem F M (i' # S) (i # V)"
  unfolding correct_def Let_def
proof (intro allI impI)
  fix Rv Rp :: regs and Mem
  assume Rz: "Rv ZERO = 0" and s: "sim F M Rv Rp"
  have t: "reads1 i' = reads1 i" "reads2 i' = reads2 i" "has_rd i' = has_rd i" "i_type i' = i_type i"
    using op by (simp_all add: same_op_def reads1_def reads2_def has_rd_def)
  show "snd (exec_insns sem (i' # S) (Rp, Mem)) = snd (exec_insns sem (i # V) (Rv, Mem))
     \<and> sim all_fixed functional_map (fst (exec_insns sem (i # V) (Rv, Mem))) (fst (exec_insns sem (i' # S) (Rp, Mem)))"
  proof (cases "i_type i = I_Imm")
    case True
    then have nr: "\<not> has_rd i" by (simp add: has_rd_def)
    have e: "exec_insn sem i x = x" "exec_insn sem i' x = x" for x
      using True t by (simp_all add: exec_insn_def)
    have "sim F' m Rv Rp" using sim_drop(2) [OF s F b] w nr by simp
    then show ?thesis using correctD [OF c, of Rv Rp Mem] Rz by (simp add: e)
  next
    case False
    define o1 where "o1 = (if reads1 i then Rv (i_rs1 i) else 0)"
    define o2 where "o2 = (if reads2 i then Rv (i_rs2 i) else 0)"
    define x where "x = sem (i_func i) (i_imm i) (i_order i) o1 o2 Mem"
    have ops: "(if reads1 i' then Rp (i_rs1 i') else 0) = o1" "(if reads2 i' then Rp (i_rs2 i') else 0) = o2"
      using linkD [OF r(1) s] linkD [OF r(2) s] by (auto simp: o1_def o2_def t)
    have ev: "exec_insn sem i (Rv, Mem) = (if has_rd i \<and> i_rd i \<noteq> ZERO then Rv(i_rd i := fst x) else Rv, snd x)"
      using False ty by (simp add: exec_insn_def o1_def o2_def x_def Let_def)
    have ep: "exec_insn sem i' (Rp, Mem) = (if has_rd i \<and> i_rd i' \<noteq> ZERO then Rp(i_rd i' := fst x) else Rp, snd x)"
      using False ty op unfolding exec_insn_def fst_conv snd_conv ops by (simp add: t x_def Let_def same_op_def)
    have "sim F' m (if has_rd i \<and> i_rd i \<noteq> ZERO then Rv(i_rd i := fst x) else Rv)
        (if has_rd i \<and> i_rd i' \<noteq> ZERO then Rp(i_rd i' := fst x) else Rp)"
    proof (cases "has_rd i")
      case hr: True
      then have tg: "target F' m (i_rd i) (i_rd i')" using w by simp
      show ?thesis
      proof (cases "i_rd i = ZERO")
        case True
        then have "i_rd i' = ZERO" "m ZERO = None" using tg z by (auto simp: target_def)
        moreover have "sim F' m Rv Rp"
          using s F b z True \<open>m ZERO = None\<close> unfolding sim_def below_def
          by (intro conjI ballI allI impI) (metis Diff_iff singletonD subsetD, metis option.distinct(1))
        ultimately show ?thesis using True by simp
      next
        case False
        then have "i_rd i' \<noteq> ZERO" using tg z by (auto simp: target_def split: if_splits)
        then show ?thesis using sim_write [OF s F b tg] False hr by simp
      qed
    next
      case False
      then show ?thesis using sim_drop(2) [OF s F b] w by simp
    qed
    moreover have "(if has_rd i \<and> i_rd i \<noteq> ZERO then Rv(i_rd i := fst x) else Rv) ZERO = 0" using Rz by simp
    ultimately show ?thesis
      using correctD [OF c] by (simp only: ev ep exec_insns.simps)
  qed
qed

text \<open>An instruction that is dropped because nobody reads its result.\<close>

lemma correct_dead:
  assumes c: "correct sem F' m S V" and F: "F' - {i_rd i} \<subseteq> F" and b: "below (i_rd i) m M"
    and d: "i_rd i \<notin> F'" "m (i_rd i) = None" and k: "keeps_memory sem" "pure_func (i_func i)" and "ZERO \<in> F'"
    and i': "is_dead i'"
  shows "correct sem F M (i' # S) (i # V)"
  unfolding correct_def Let_def
proof (intro allI impI)
  fix Rv Rp :: regs and Mem
  assume Rz: "Rv ZERO = 0" and s: "sim F M Rv Rp"
  have e: "exec_insn sem i' y = y" for y using i' by (simp add: exec_insn_def is_dead_def)
  have "\<exists>x. exec_insn sem i (Rv, Mem) \<in> {(Rv, Mem), (Rv(i_rd i := x), Mem)}"
    using k unfolding exec_insn_def keeps_memory_def Let_def by auto
  then obtain x where "exec_insn sem i (Rv, Mem) = (Rv, Mem) \<or> exec_insn sem i (Rv, Mem) = (Rv(i_rd i := x), Mem)"
    by blast
  moreover have "(Rv(i_rd i := x)) ZERO = 0" using Rz d(1) \<open>ZERO \<in> F'\<close> by auto
  ultimately show "snd (exec_insns sem (i' # S) (Rp, Mem)) = snd (exec_insns sem (i # V) (Rv, Mem))
     \<and> sim all_fixed functional_map (fst (exec_insns sem (i # V) (Rv, Mem))) (fst (exec_insns sem (i' # S) (Rp, Mem)))"
    using correctD [OF c, of Rv Rp Mem] correctD [OF c, of "Rv(i_rd i := x)" Rp Mem] Rz sim_drop [OF s F b d]
    by (auto simp: e)
qed

lemma correct_mono:
  assumes "correct sem F' m S V" "F' \<subseteq> F" "\<And>v q. m v = Some q \<Longrightarrow> M v = Some q"
  shows "correct sem F M S V"
  using assms unfolding correct_def sim_def Let_def by (meson subsetD)

section \<open>Straight-line blocks\<close>

definition always_fixed :: "reg set" where
  "always_fixed = {ZERO, RA, SP, TP, FP}"

definition guest :: "reg \<Rightarrow> bool" where
  "guest r \<longleftrightarrow> FUNCTIONAL_BASE \<le> r \<and> r < FUNCTIONAL_BASE + 8"

definition operand_ok :: "reg set \<Rightarrow> reg \<Rightarrow> bool" where
  "operand_ok D r \<longleftrightarrow> r \<in> always_fixed \<or> guest r \<or> is_virtual r \<and> r \<in> D"

text \<open>
  What the theorem asks of an instruction after the registers \<open>D\<close> have been written: no control
  flow; operands are fixed registers, the eight mapped guest registers and virtual registers
  that have been written; an instruction whose result may be found dead changes no memory; a
  move that keeps its destination alive does not move \<open>ZERO\<close>.
\<close>

definition insn_ok :: "reg set \<Rightarrow> insn \<Rightarrow> bool" where
  "insn_ok D i \<longleftrightarrow>
     i_type i \<in> {I_Imm, I_RdImm, I_RdRs1Imm, I_RdAddr, I_Rs2Addr, I_RdRs1Rs2, I_None, I_RdAddrOrder,
       I_RdRs2AddrOrder, I_RdImmKeepRs1, I_RdRs1ImmKeepRs2}
     \<and> (has_rd i \<longleftrightarrow> i_rd i \<noteq> none_reg)
     \<and> (has_rd i \<longrightarrow> i_rd i \<in> all_fixed \<or> (guest (i_rd i) \<or> is_virtual (i_rd i)) \<and> pure_func (i_func i))
     \<and> (if reads1 i then operand_ok D (i_rs1 i) else i_rs1 i = none_reg \<or> operand_ok D (i_rs1 i))
     \<and> (if reads2 i then operand_ok D (i_rs2 i) else i_rs2 i = none_reg \<or> operand_ok D (i_rs2 i))
     \<and> (i_type i = I_RdRs1Imm \<longrightarrow> i_rs2 i = none_reg)
     \<and> (i_type i = I_RdRs1ImmKeepRs2 \<longrightarrow> i_rs1 i \<noteq> ZERO)"

text \<open>\<open>A0\<close> and \<open>A1\<close> are the results of the block, written once each.\<close>

fun insns_ok :: "reg set \<Rightarrow> insn list \<Rightarrow> bool" where
  "insns_ok D [] = True"
| "insns_ok D (i # is) = (insn_ok D i \<and> (i_rd i \<in> {A0, A1} \<longrightarrow> (\<forall>j\<in>set is. i_rd j \<noteq> i_rd i))
     \<and> insns_ok (insert (i_rd i) D) is)"

definition straight_line :: "insn list \<Rightarrow> bool" where
  "straight_line is = insns_ok {} is"

lemma insns_ok_nth:
  "insns_ok D is \<Longrightarrow> k < length is \<Longrightarrow> insn_ok (D \<union> i_rd ` set (take k is)) (is ! k)"
proof (induction D "is" arbitrary: k rule: insns_ok.induct)
  case (2 D i "is")
  then show ?case by (cases k) auto
qed simp

lemma insns_ok_once:
  "insns_ok D is \<Longrightarrow> k < j \<Longrightarrow> j < length is \<Longrightarrow> i_rd (is ! k) \<in> {A0, A1} \<Longrightarrow> i_rd (is ! j) \<noteq> i_rd (is ! k)"
proof (induction D "is" arbitrary: k j rule: insns_ok.induct)
  case (2 D i "is")
  obtain j' where j: "j = Suc j'" using 2(3) by (cases j) simp_all
  show ?case
  proof (cases k)
    case 0
    then have "\<forall>x\<in>set is. i_rd x \<noteq> i_rd i" using 2(2,5) by auto
    then show ?thesis using 2(4) j 0 by simp
  next
    case (Suc k')
    then show ?thesis using 2(1) [of k' j'] 2(2-5) j by simp
  qed
qed simp

section \<open>The allocator's map\<close>

definition map_ok :: "reg set \<Rightarrow> 32 word \<Rightarrow> (reg \<Rightarrow> reg option) \<Rightarrow> bool" where
  "map_ok F av m \<longleftrightarrow> always_fixed \<subseteq> F \<and> F \<subseteq> all_fixed
     \<and> (\<forall>p\<in>F. \<not> bit av (unat p))
     \<and> (\<forall>v p. m v = Some p \<longrightarrow> (guest v \<or> is_virtual v) \<and> p < 32 \<and> \<not> bit av (unat p) \<and> p \<notin> F)
     \<and> (\<forall>v w p. m v = Some p \<longrightarrow> m w = Some p \<longrightarrow> v = w)
     \<and> (\<forall>v. guest v \<longrightarrow> m v = functional_map v)"

lemma map_okD:
  assumes "map_ok F av m"
  shows "ZERO \<in> F" "always_fixed \<subseteq> F" "F \<subseteq> all_fixed"
    and "m v = Some p \<Longrightarrow> guest v \<or> is_virtual v" "m v = Some p \<Longrightarrow> p < 32" "m v = Some p \<Longrightarrow> p \<notin> F"
    and "m v = Some p \<Longrightarrow> m w = Some p \<Longrightarrow> v = w" "m v = Some p \<Longrightarrow> \<not> bit av (unat p)"
    and "guest v \<Longrightarrow> m v = functional_map v" "p \<in> F \<Longrightarrow> \<not> bit av (unat p)"
  using assms by (auto simp: map_ok_def always_fixed_def)

lemma kinds_of_reg:
  "guest v \<Longrightarrow> \<not> is_physical v" "is_virtual v \<Longrightarrow> \<not> is_physical v" "\<not> is_physical none_reg" "\<not> guest none_reg"
  "\<not> is_virtual none_reg" "guest v \<Longrightarrow> is_functional v" "is_virtual v \<Longrightarrow> \<not> is_functional v" "\<not> (guest v \<and> is_virtual v)"
  by (auto simp: guest_def is_physical_def is_virtual_def none_reg_def is_functional_def VIRTUAL_BASE_def
      FUNCTIONAL_BASE_def word_le_nat_alt word_less_nat_alt)

lemma fixed_physical: "p \<in> all_fixed \<Longrightarrow> is_physical p \<and> p \<noteq> none_reg"
  by (auto simp: all_fixed_def is_physical_def none_reg_def VIRTUAL_BASE_def FUNCTIONAL_BASE_def rv_consts)

lemma below_32_physical: "p < 32 \<Longrightarrow> is_physical p"
  by (simp add: is_physical_def FUNCTIONAL_BASE_def)

lemma unat_eq: "unat (p :: reg) = unat q \<longleftrightarrow> p = q"
  by (simp add: word_unat_eq_iff)

lemma map_ok_release:
  assumes m: "map_ok F av m" and v: "m v = Some p" and g: "\<not> guest v"
  shows "map_ok F (set_bit (unat p) av) (m(v := None))"
proof -
  have "q \<noteq> p" if "m w = Some q" "w \<noteq> v" for w q
    using that v m by (simp add: map_ok_def) blast
  moreover have "q \<noteq> p" if "q \<in> F" for q
    using that v m by (simp add: map_ok_def) blast
  ultimately show ?thesis
    using m g unfolding map_ok_def by (auto simp: bit_set_bit_iff unat_eq)
qed

lemma map_ok_allocate:
  assumes m: "map_ok F av m" and v: "guest v \<or> is_virtual v" "m v = None" and a: "a < 32" "bit av a"
  shows "map_ok F (flip_bit a av) (m(v \<mapsto> of_nat a))"
proof -
  have u: "unat (of_nat a :: reg) = a" using a by (simp add: unat_of_nat)
  have q: "unat q \<noteq> a" if "q \<in> F \<or> m w = Some q" for q w
    using that m a(2) by (auto simp: map_ok_def)
  have "(of_nat a :: reg) < 32" using a by (simp add: word_less_nat_alt u)
  moreover have "(of_nat a :: reg) \<notin> F" "m w \<noteq> Some (of_nat a)" for w
    using q [of "of_nat a"] u by auto
  moreover have "\<not> guest v"
    using m v(2) by (auto simp: map_ok_def functional_map_def guest_def)
  ultimately show ?thesis
    using m v a q u unfolding map_ok_def by (auto simp: bit_flip_bit_iff)
qed

lemma map_ok_free:
  assumes m: "map_ok F av m" and A: "A \<in> {A0, A1}" "A \<in> F"
  shows "map_ok (F - {A}) (set_bit (unat A) av) m"
proof -
  have "A \<notin> always_fixed" using A by (auto simp: always_fixed_def rv_consts)
  then show ?thesis
    using m A(2) unfolding map_ok_def by (auto simp: bit_set_bit_iff unat_eq)
qed

lemma choose_register_free:
  assumes "choose_register av r < 32"
  shows "bit av (choose_register av r)"
proof -
  have hd: "P i" if "filter P xs = i # is" for P and i :: nat and xs "is"
    using arg_cong [OF that, of set] by auto
  have "bit av (find_next av n)" if "find_next av n \<noteq> 32" for n
    using that hd by (auto simp: find_next_def split: list.splits)
  moreover have "bit av (find_first av)" if "find_first av \<noteq> 32"
    using that hd by (auto simp: find_first_def split: list.splits)
  ultimately show ?thesis using assms unfolding choose_register_def by auto
qed

section \<open>Moves\<close>

definition move_shape :: "insn \<Rightarrow> bool" where
  "move_shape i \<longleftrightarrow> (i_type i = I_RdRs1Imm \<longrightarrow> i_rs2 i = none_reg) \<and> (i_type i = I_RdRs1ImmKeepRs2 \<longrightarrow> i_rs1 i \<noteq> ZERO)"

lemma ZERO_not_none: "ZERO \<noteq> none_reg"
  by (simp add: none_reg_def VIRTUAL_BASE_def rv_consts)

lemma exec_move:
  assumes mv: "is_mv i" and sh: "move_shape i" and n: "i_type i = I_RdRs1Rs2 \<longrightarrow> i_rs2 i \<noteq> none_reg"
    and c: "copies sem" and z: "R ZERO = 0"
  shows "exec_insn sem i (R, M) = (if i_rd i \<noteq> ZERO then R(i_rd i := R (move_source i)) else R, M)"
proof -
  consider (imm) "i_type i = I_RdRs1Imm \<or> i_type i = I_RdRs1ImmKeepRs2" "i_func i = RdRs1ImmFunc F_addi_normal" "i_imm i = 0"
    | (add) "i_type i = I_RdRs1Rs2" "i_func i = RdRs1Rs2Func F_add" "i_rs1 i = ZERO \<or> i_rs2 i = ZERO"
    using mv by (auto simp: is_mv_def)
  then show ?thesis
  proof cases
    case imm
    have "move_source i = i_rs1 i" using imm sh by (auto simp: move_source_def move_shape_def)
    then show ?thesis using imm c by (auto simp: exec_insn_def has_rd_def reads1_def copies_def)
  next
    case add
    have "fst (R, M) (i_rs1 i) + fst (R, M) (i_rs2 i) = R (move_source i)"
      using add(3) n add(1) z by (auto simp: move_source_def)
    then show ?thesis using add c by (auto simp: exec_insn_def has_rd_def reads1_def reads2_def copies_def)
  qed
qed

lemma exec_kill_move:
  assumes sh: "move_shape i" and n: "i_type i = I_RdRs1Rs2 \<longrightarrow> i_rs2 i \<noteq> none_reg"
    and c: "copies sem" and z: "R ZERO = 0"
  shows "exec_insn sem (kill_move i) (R, M) = exec_insn sem i (R, M)"
proof (cases "kill_move i = i")
  case False
  then have k: "is_mv i" "i_rd i = move_source i \<or> i_rd i = ZERO" "kill_move i = kill i"
    by (auto simp: kill_move_def Let_def split: if_splits)
  have "exec_insn sem i (R, M) = (R, M)"
    using exec_move [where R = R and M = M, OF k(1) sh n c z] k(2) by auto
  then show ?thesis using k(3) by (simp add: exec_insn_def kill_def)
qed simp

lemma exec_keeps_ZERO: "fst s ZERO = 0 \<Longrightarrow> fst (exec_insn sem i s) ZERO = 0"
  by (simp add: exec_insn_def Let_def)

lemma exec_insns_replace:
  assumes "\<And>R M. R ZERO = 0 \<Longrightarrow> exec_insn sem a (R, M) = exec_insn sem b (R, M)" and "fst s ZERO = 0"
  shows "exec_insns sem (xs[j := a]) s = exec_insns sem (xs[j := b]) s"
  using assms(2)
proof (induction xs arbitrary: j s)
  case (Cons x xs)
  show ?case
  proof (cases j)
    case 0
    have "exec_insn sem a s = exec_insn sem b s" using assms(1) [of "fst s" "snd s"] Cons.prems by simp
    then show ?thesis using 0 by simp
  next
    case (Suc j')
    then show ?thesis using Cons.IH [of "exec_insn sem x s" j'] exec_keeps_ZERO [OF Cons.prems] by simp
  qed
qed simp

lemma correct_replace:
  assumes c: "correct sem F m (xs[j := a]) V" and z: "ZERO \<in> F"
    and e: "\<And>R M. R ZERO = 0 \<Longrightarrow> exec_insn sem b (R, M) = exec_insn sem a (R, M)"
  shows "correct sem F m (xs[j := b]) V"
  unfolding correct_def Let_def
proof (intro allI impI)
  fix Rv Rp :: regs and Mem
  assume Rz: "Rv ZERO = 0" and s: "sim F m Rv Rp"
  then have "Rp ZERO = 0" using z by (auto simp: sim_def)
  then have "exec_insns sem (xs[j := b]) (Rp, Mem) = exec_insns sem (xs[j := a]) (Rp, Mem)"
    by (intro exec_insns_replace e) simp_all
  then show "snd (exec_insns sem (xs[j := b]) (Rp, Mem)) = snd (exec_insns sem V (Rv, Mem))
     \<and> sim all_fixed functional_map (fst (exec_insns sem V (Rv, Mem))) (fst (exec_insns sem (xs[j := b]) (Rp, Mem)))"
    using correctD [OF c Rz s, of Mem] by simp
qed

section \<open>Facts about the code behind an instruction\<close>

text \<open>While an instruction is being allocated, the fact to keep is \<open>ready\<close>: the code behind it is
  correct, for a map from which the current one differs only in the register the instruction
  defines.  \<open>stable\<close> facts survive the allocation of more registers and the removal of moves
  of a register to itself.\<close>

definition ready ::
  "'m rv_semantics \<Rightarrow> reg set \<Rightarrow> (reg \<Rightarrow> reg option) \<Rightarrow> insn \<Rightarrow> insn \<Rightarrow> insn list \<Rightarrow> insn list \<Rightarrow> bool" where
  "ready sem F M i i1 S V \<longleftrightarrow> (\<exists>F' m. correct sem F' m S V \<and> ZERO \<in> F' \<and> F' - {i_rd i} \<subseteq> F \<and> below (i_rd i) m M
     \<and> (if is_dead i1 then i_rd i \<notin> F' \<and> m (i_rd i) = None \<and> pure_func (i_func i)
        else if has_rd i then target F' m (i_rd i) (i_rd i1)
        else i_rd i \<notin> F' \<and> m (i_rd i) = None))"

definition stable :: "'m rv_semantics \<Rightarrow> ((reg \<Rightarrow> reg option) \<Rightarrow> insn list \<Rightarrow> bool) \<Rightarrow> bool" where
  "stable sem \<Phi> \<longleftrightarrow>
     (\<forall>M N S. \<Phi> M S \<longrightarrow> (\<forall>v q. M v = Some q \<longrightarrow> N v = Some q) \<longrightarrow> \<Phi> N S)
     \<and> (\<forall>M xs j a b. \<Phi> M (xs[j := a]) \<longrightarrow> (\<forall>R Mem. R ZERO = 0 \<longrightarrow> exec_insn sem b (R, Mem) = exec_insn sem a (R, Mem))
          \<longrightarrow> \<Phi> M (xs[j := b]))"

lemma stableD:
  assumes "stable sem \<Phi>"
  shows "\<Phi> M S \<Longrightarrow> (\<And>v q. M v = Some q \<Longrightarrow> N v = Some q) \<Longrightarrow> \<Phi> N S"
    and "\<Phi> M (xs[j := a]) \<Longrightarrow> (\<And>R Mem. R ZERO = 0 \<Longrightarrow> exec_insn sem b (R, Mem) = exec_insn sem a (R, Mem)) \<Longrightarrow> \<Phi> M (xs[j := b])"
  using assms unfolding stable_def by blast+

lemma stable_correct: "ZERO \<in> F \<Longrightarrow> stable sem (\<lambda>M S. correct sem F M S V)"
  unfolding stable_def by (auto intro: correct_mono correct_replace)

lemma stable_ready: "stable sem (\<lambda>M S. ready sem F M i i1 S V)"
  unfolding stable_def
proof (intro conjI allI impI)
  fix M N :: "reg \<Rightarrow> reg option" and S
  assume "ready sem F M i i1 S V" and "\<forall>v q. M v = Some q \<longrightarrow> N v = Some q"
  then show "ready sem F N i i1 S V" unfolding ready_def below_def by meson
next
  fix M :: "reg \<Rightarrow> reg option" and xs j a b
  assume "ready sem F M i i1 (xs[j := a]) V"
    and "\<forall>R Mem. R ZERO = 0 \<longrightarrow> exec_insn sem b (R, Mem) = exec_insn sem a (R, Mem)"
  then show "ready sem F M i i1 (xs[j := b]) V" unfolding ready_def using correct_replace by meson
qed

lemma ready_step:
  assumes r: "ready sem F M i i1 S V" and a: "\<not> is_dead i1" "ZERO \<in> F" "same_op i i'" "i_rd i' = i_rd i1"
    "i_type i \<notin> {I_Dead, I_Noop}"
    and l: "reads1 i \<Longrightarrow> link F M (i_rs1 i) (i_rs1 i')" "reads2 i \<Longrightarrow> link F M (i_rs2 i) (i_rs2 i')"
  shows "correct sem F M (i' # S) (i # V)"
proof -
  obtain F' m where c: "correct sem F' m S V" "ZERO \<in> F'" "F' - {i_rd i} \<subseteq> F" "below (i_rd i) m M"
    and t: "if has_rd i then target F' m (i_rd i) (i_rd i') else i_rd i \<notin> F' \<and> m (i_rd i) = None"
    using r a(1,4) by (auto simp: ready_def)
  show ?thesis
    by (rule correct_step [OF c(1,2) a(2) c(3,4) a(3,5) t l])
qed

lemma ready_dead:
  assumes r: "ready sem F M i i1 S V" and a: "is_dead i1" "is_dead i'" "keeps_memory sem"
  shows "correct sem F M (i' # S) (i # V)"
proof -
  obtain F' m where c: "correct sem F' m S V" "ZERO \<in> F'" "F' - {i_rd i} \<subseteq> F" "below (i_rd i) m M"
    and t: "i_rd i \<notin> F'" "m (i_rd i) = None" "pure_func (i_func i)"
    using r a(1) by (auto simp: ready_def)
  show ?thesis
    by (rule correct_dead [OF c(1,3,4) t(1,2) a(3) t(3) c(2) a(2)])
qed

section \<open>The state of the allocator\<close>

definition wait :: "(reg \<Rightarrow> reg option) \<Rightarrow> insn \<Rightarrow> insn" where
  "wait m i = (case m (i_rd i) of Some p \<Rightarrow> i\<lparr>i_rd := p\<rparr> | None \<Rightarrow> kill i)"

definition merged_map :: "(reg \<Rightarrow> reg option) \<Rightarrow> reg \<Rightarrow> reg \<Rightarrow> reg \<Rightarrow> reg option" where
  "merged_map m d l = (m(d := None))(l := (if l = d then None else m d))"

definition allocated :: "insn \<Rightarrow> bool" where
  "allocated i \<longleftrightarrow> is_dead i \<or> (\<forall>r\<in>{i_rd i, i_rs1 i, i_rs2 i}. r = none_reg \<or> is_physical r)"

definition waiting_move :: "insn \<Rightarrow> bool" where
  "waiting_move i \<longleftrightarrow> is_mv i \<and> move_shape i \<and> (i_type i = I_RdRs1Rs2 \<longrightarrow> i_rs2 i \<noteq> none_reg)
     \<and> (guest (i_rd i) \<or> is_virtual (i_rd i))
     \<and> (i_rs1 i = none_reg \<or> is_physical (i_rs1 i)) \<and> (i_rs2 i = none_reg \<or> is_physical (i_rs2 i))"

definition pending_rd :: "alloc_state \<Rightarrow> nat \<Rightarrow> reg" where
  "pending_rd st j = i_rd (insns st ! j)"

definition holds :: "((reg \<Rightarrow> reg option) \<Rightarrow> insn list \<Rightarrow> bool) \<Rightarrow> nat \<Rightarrow> alloc_state \<Rightarrow> bool" where
  "holds \<Phi> k st \<longleftrightarrow>
     (case linked_instruction st of
        None \<Rightarrow> \<Phi> (vreg_to_preg st) (drop k (insns st))
      | Some j \<Rightarrow> k \<le> j \<and> j < length (insns st) \<and> waiting_move (insns st ! j) \<and> is_virtual (link_reg st)
          \<and> vreg_to_preg st (link_reg st) \<noteq> None
          \<and> \<Phi> ((vreg_to_preg st)(pending_rd st j := None))
              (drop k ((insns st)[j := wait (vreg_to_preg st) (insns st ! j)]))
          \<and> \<Phi> (merged_map (vreg_to_preg st) (pending_rd st j) (link_reg st))
              (drop k ((insns st)[j := kill (insns st ! j)])))"

definition state_ok ::
  "((reg \<Rightarrow> reg option) \<Rightarrow> insn list \<Rightarrow> bool) \<Rightarrow> reg set \<Rightarrow> nat \<Rightarrow> alloc_state \<Rightarrow> bool" where
  "state_ok \<Phi> F k st \<longleftrightarrow> holds \<Phi> k st \<and> map_ok F (avail_physregs st) (vreg_to_preg st)
     \<and> (\<forall>x. k \<le> x \<longrightarrow> x < length (insns st) \<longrightarrow> linked_instruction st \<noteq> Some x \<longrightarrow> allocated (insns st ! x))"

definition live :: "alloc_state \<Rightarrow> reg set" where
  "live st = {v. is_virtual v \<and> vreg_to_preg st v \<noteq> None
     \<and> (\<forall>j. linked_instruction st = Some j \<longrightarrow> v \<noteq> pending_rd st j)}"

definition same_front :: "nat \<Rightarrow> alloc_state \<Rightarrow> alloc_state \<Rightarrow> bool" where
  "same_front k st st' \<longleftrightarrow> length (insns st') = length (insns st) \<and> take k (insns st') = take k (insns st)"

lemma same_front_trans: "same_front k a b \<Longrightarrow> same_front k b c \<Longrightarrow> same_front k a c"
  by (simp add: same_front_def)

lemma stable_drop:
  assumes "stable sem \<Phi>" "k \<le> j" "\<Phi> M (drop k (xs[j := a]))"
    and "\<And>R Mem. R ZERO = 0 \<Longrightarrow> exec_insn sem b (R, Mem) = exec_insn sem a (R, Mem)"
  shows "\<Phi> M (drop k (xs[j := b]))"
  using stableD(2) [OF assms(1) _ assms(4)] assms(2,3) by (simp add: drop_update_swap)

text \<open>Handling the waiting move.\<close>

definition flushed :: "alloc_state \<Rightarrow> nat \<Rightarrow> alloc_state" where
  "flushed st j =
     (let m = vreg_to_preg st; d = pending_rd st j; st1 = st\<lparr>linked_instruction := None\<rparr>;
          st2 = (case m d of Some p \<Rightarrow> if is_virtual d then release d p st1 else st1 | None \<Rightarrow> st1) in
      st2\<lparr>insns := (insns st)[j := kill_move (wait m (insns st ! j))]\<rparr>)"

lemma kill_move_dead: "is_dead i \<Longrightarrow> kill_move i = i"
  by (auto simp: kill_move_def is_dead_def is_mv_def Let_def)

lemma flush_linked_eq:
  assumes l: "linked_instruction st = Some j" and w: "waiting_move (insns st ! j)" and j: "j < length (insns st)"
    and m: "map_ok F (avail_physregs st) (vreg_to_preg st)"
  shows "flush_linked st = Inr ((), flushed st j)"
proof -
  let ?i = "insns st ! j" and ?m = "vreg_to_preg st"
  have mv: "is_mv ?i" and g: "guest (i_rd ?i) \<or> is_virtual (i_rd ?i)" using w by (simp_all add: waiting_move_def)
  have i: "\<not> is_control_flow ?i" "\<not> is_dead ?i"
    using mv by (auto simp: is_mv_def is_control_flow_def is_dead_def)
  have i2: "i_rd ?i \<noteq> none_reg" "\<not> is_physical (i_rd ?i)" "is_functional (i_rd ?i) \<longleftrightarrow> \<not> is_virtual (i_rd ?i)"
    using g kinds_of_reg by (metis, metis, metis)
  note i = i i2
  have nu: "\<not> is_rd_use ?i"
    using w i(3,4) by (auto simp: waiting_move_def is_rd_use_def)
  have u: "use_step f k r x st' = Inr (x, st')" if "x = none_reg \<or> is_physical x" for f k r x st'
    using that by (simp add: use_step_def)
  have ops: "i_rs1 ?i = none_reg \<or> is_physical (i_rs1 ?i)" "i_rs2 ?i = none_reg \<or> is_physical (i_rs2 ?i)"
    using w by (simp_all add: waiting_move_def)
  have p: "\<not> p > 31" if "?m v = Some p" for p v
    using map_okD(5) [OF m that] by (simp add: word_less_nat_alt word_le_nat_alt)
  show ?thesis
  proof (cases "?m (i_rd ?i)")
    case None
    then show ?thesis using l i j
      by (simp add: flush_linked_def allocate_waiting_def allocate_body_def andthen_def bnd_def ret_def rd_step_def
          merge_linked_def links_def allocate_def_def is_dead_def kill_def flushed_def pending_rd_def wait_def
          kill_move_dead Let_def)
  next
    case (Some p)
    have d: "\<not> is_dead (?i\<lparr>i_rd := p\<rparr>)" using i(2) by (simp add: is_dead_def)
    show ?thesis using l i j Some nu p [OF Some] d ops
      by (simp add: flush_linked_def allocate_waiting_def allocate_body_def andthen_def bnd_def ret_def rd_step_def
          merge_linked_def links_def allocate_def_def allocate_operand_def lift_res_def u flushed_def pending_rd_def
          wait_def release_def Let_def)
  qed
qed

lemma flush_ok:
  assumes s: "state_ok \<Phi> F k st" and st: "stable sem \<Phi>" and c: "copies sem"
  obtains st' where "flush_linked st = Inr ((), st')" "state_ok \<Phi> F k st'" "linked_instruction st' = None"
    "same_front k st st'" "live st' \<subseteq> live st"
    "\<And>v. (\<And>j. linked_instruction st = Some j \<Longrightarrow> v \<noteq> pending_rd st j) \<Longrightarrow> vreg_to_preg st' v = vreg_to_preg st v"
    "\<And>v q. vreg_to_preg st' v = Some q \<Longrightarrow> vreg_to_preg st v = Some q"
proof (cases "linked_instruction st")
  case None
  then show ?thesis using s by (intro that [of st]) (simp_all add: flush_linked_def same_front_def)
next
  case (Some j)
  let ?m = "vreg_to_preg st" and ?d = "pending_rd st j" and ?i = "insns st ! j"
  have h: "k \<le> j" "j < length (insns st)" "waiting_move ?i" "\<Phi> (?m(?d := None)) (drop k ((insns st)[j := wait ?m ?i]))"
    and m: "map_ok F (avail_physregs st) ?m"
    and a: "\<And>x. k \<le> x \<Longrightarrow> x < length (insns st) \<Longrightarrow> x \<noteq> j \<Longrightarrow> allocated (insns st ! x)"
    using s Some by (auto simp: state_ok_def holds_def)
  let ?s = "flushed st j"
  have mp: "vreg_to_preg ?s = (if is_virtual ?d then ?m(?d := None) else ?m)"
    by (auto simp: flushed_def release_def Let_def split: option.split)
  have ins: "insns ?s = (insns st)[j := kill_move (wait ?m ?i)]" "linked_instruction ?s = None"
    by (simp_all add: flushed_def release_def Let_def split: option.split)
  have mk: "map_ok F (avail_physregs ?s) (vreg_to_preg ?s)"
  proof (cases "is_virtual ?d \<and> ?m ?d \<noteq> None")
    case True
    then obtain p where p: "?m ?d = Some p" by auto
    have "\<not> guest ?d" using True kinds_of_reg(8) by blast
    then show ?thesis using map_ok_release [OF m p] True p by (simp add: flushed_def release_def Let_def)
  next
    case False
    then have "vreg_to_preg ?s = ?m" "avail_physregs ?s = avail_physregs st"
      by (auto simp: flushed_def release_def Let_def split: option.split)
    then show ?thesis using m by simp
  qed
  have ph: "\<Phi> (vreg_to_preg ?s) (drop k ((insns st)[j := wait ?m ?i]))"
    by (rule stableD(1) [OF st h(4)]) (auto simp: mp split: if_splits)
  have sh: "move_shape (wait ?m ?i)" "i_type (wait ?m ?i) = I_RdRs1Rs2 \<longrightarrow> i_rs2 (wait ?m ?i) \<noteq> none_reg"
    using h(3) by (auto simp: waiting_move_def move_shape_def wait_def kill_def split: option.split)
  have "\<Phi> (vreg_to_preg ?s) (drop k (insns ?s))"
    unfolding ins(1) by (rule stable_drop [OF st h(1) ph]) (rule exec_kill_move [OF sh c])
  moreover have al: "allocated (kill_move (wait ?m ?i))"
  proof (cases "?m (i_rd ?i)")
    case None
    then show ?thesis by (simp add: wait_def kill_move_dead is_dead_def kill_def allocated_def)
  next
    case (Some p)
    have "is_physical p" using map_okD(5) [OF m Some] by (rule below_32_physical)
    then have "allocated (?i\<lparr>i_rd := p\<rparr>)" using h(3) by (auto simp: allocated_def waiting_move_def)
    then show ?thesis using Some by (auto simp: wait_def kill_move_def Let_def allocated_def is_dead_def kill_def)
  qed
  ultimately have "state_ok \<Phi> F k ?s"
    using mk a h(2) by (auto simp: state_ok_def holds_def ins nth_list_update)
  moreover have "same_front k st ?s" using h(1) by (simp add: same_front_def ins)
  moreover have "live ?s \<subseteq> live st"
    using Some by (auto simp: live_def ins mp)
  ultimately show ?thesis
    by (intro that [OF flush_linked_eq [OF Some h(3,2) m]]) (auto simp: ins mp Some split: if_splits)
qed

end
