(* ===== verification/Riscv_Allocation_Correct.thy ===== *)
theory Riscv_Allocation_Correct
  imports Riscv_Allocation
begin

text \<open>
  The steps of the allocator keep its invariant, and the theorem about straight-line blocks.
\<close>

section \<open>Operands\<close>

lemma physical_less: "is_physical p \<longleftrightarrow> p < 32"
  by (simp add: is_physical_def FUNCTIONAL_BASE_def)

lemma holds_extend:
  assumes h: "holds \<Phi> k st" and st: "stable sem \<Phi>"
    and e: "insns st' = insns st" "linked_instruction st' = linked_instruction st" "link_reg st' = link_reg st"
    and v: "vreg_to_preg st' = (vreg_to_preg st)(x \<mapsto> p)" "vreg_to_preg st x = None"
    and n: "\<And>j. linked_instruction st = Some j \<Longrightarrow> x \<noteq> pending_rd st j"
  shows "holds \<Phi> k st'"
proof (cases "linked_instruction st")
  case None
  then have "\<Phi> (vreg_to_preg st) (drop k (insns st))" using h by (simp add: holds_def)
  then have "\<Phi> (vreg_to_preg st') (drop k (insns st))"
    by (rule stableD(1) [OF st]) (auto simp: v)
  then show ?thesis using None e by (simp add: holds_def)
next
  case (Some j)
  let ?m = "vreg_to_preg st" and ?d = "pending_rd st j"
  have d: "?d \<noteq> x" using n [OF Some] by simp
  have w: "wait (vreg_to_preg st') (insns st ! j) = wait ?m (insns st ! j)"
    using d v by (simp add: wait_def pending_rd_def)
  have h': "k \<le> j" "j < length (insns st)" "waiting_move (insns st ! j)" "is_virtual (link_reg st)" "?m (link_reg st) \<noteq> None"
    and A: "\<Phi> (?m(?d := None)) (drop k ((insns st)[j := wait ?m (insns st ! j)]))"
    and B: "\<Phi> (merged_map ?m ?d (link_reg st)) (drop k ((insns st)[j := kill (insns st ! j)]))"
    using h Some by (auto simp: holds_def)
  have x: "link_reg st \<noteq> x" using h'(5) v(2) by auto
  have "\<Phi> ((vreg_to_preg st')(?d := None)) (drop k ((insns st)[j := wait ?m (insns st ! j)]))"
    by (rule stableD(1) [OF st A]) (auto simp: v split: if_splits)
  moreover have "\<Phi> (merged_map (vreg_to_preg st') ?d (link_reg st)) (drop k ((insns st)[j := kill (insns st ! j)]))"
    by (rule stableD(1) [OF st B]) (use d x v in \<open>auto simp: merged_map_def split: if_splits\<close>)
  ultimately show ?thesis
    using h' Some e w x v by (simp add: holds_def pending_rd_def)
qed

lemma allocate_use_ok:
  assumes s: "state_ok \<Phi> F k st" and st: "stable sem \<Phi>"
    and x: "guest x \<or> is_virtual x" "vreg_to_preg st x = None"
    and n: "\<And>j. linked_instruction st = Some j \<Longrightarrow> x \<noteq> pending_rd st j"
    and r: "allocate_use x pref st = Inr (r, st')"
  shows "state_ok \<Phi> F k st'" "vreg_to_preg st' = (vreg_to_preg st)(x \<mapsto> r)" "r < 32" "insns st' = insns st"
    "linked_instruction st' = linked_instruction st" "link_reg st' = link_reg st"
proof -
  let ?a = "choose_register (avail_physregs st) pref"
  have np: "\<not> is_physical x" using x kinds_of_reg by blast
  have a: "?a < 32" using r np by (auto simp: allocate_use_def Let_def split: if_splits)
  have "r = of_nat ?a" and e: "st' = st\<lparr>avail_physregs := flip_bit ?a (avail_physregs st),
      vreg_to_preg := (vreg_to_preg st)(x \<mapsto> of_nat ?a)\<rparr>"
    using r np a by (auto simp: allocate_use_def Let_def bnd_def ret_def lift_res_def allocate_operand_def split: if_splits)
  then show v: "vreg_to_preg st' = (vreg_to_preg st)(x \<mapsto> r)" and i: "insns st' = insns st"
    "linked_instruction st' = linked_instruction st" "link_reg st' = link_reg st" by simp_all
  show "r < 32" using a \<open>r = of_nat ?a\<close> by (simp add: word_less_nat_alt unat_of_nat)
  have m: "map_ok F (avail_physregs st) (vreg_to_preg st)" using s by (simp add: state_ok_def)
  have "map_ok F (avail_physregs st') (vreg_to_preg st')"
    unfolding e using map_ok_allocate [OF m x a choose_register_free [OF a]] by simp
  moreover have "holds \<Phi> k st'"
    using s by (intro holds_extend [OF _ st i v x(2) n]) (simp_all add: state_ok_def)
  ultimately show "state_ok \<Phi> F k st'" using s by (simp add: state_ok_def i)
qed

lemma use_step_ok:
  assumes s: "state_ok \<Phi> F (Suc k) st" and st: "stable sem \<Phi>" and c: "copies sem"
    and x: "x = none_reg \<or> operand_ok D x"
    and r: "use_step flush_linked k rd x st = Inr (r, st')"
  shows "state_ok \<Phi> F (Suc k) st'" "same_front (Suc k) st st'" "r = none_reg \<or> is_physical r"
    "if x = none_reg then r = x else link F (vreg_to_preg st') x r"
    "linked_instruction st' = None \<or> linked_instruction st' = linked_instruction st \<and> link_reg st' = link_reg st \<and> insns st' = insns st"
    "\<And>j. linked_instruction st' = Some j \<Longrightarrow> x \<noteq> pending_rd st' j \<and> x \<noteq> link_reg st'"
    "live st' \<subseteq> live st \<union> {x}"
    "\<And>v q. vreg_to_preg st v = Some q \<Longrightarrow> (\<And>j. linked_instruction st = Some j \<Longrightarrow> v \<noteq> pending_rd st j) \<Longrightarrow> vreg_to_preg st' v = Some q"
proof -
  have m: "map_ok F (avail_physregs st) (vreg_to_preg st)" using s by (simp add: state_ok_def)
  have pend: "x' \<noteq> pending_rd st j" "x' \<noteq> link_reg st" if "linked_instruction st = Some j" "x' = none_reg \<or> is_physical x'" for x' j
    using that s kinds_of_reg by (auto simp: state_ok_def holds_def waiting_move_def pending_rd_def)
  consider (phys) "x = none_reg \<or> is_physical x" | (virt) "x \<noteq> none_reg" "\<not> is_physical x" "guest x \<or> is_virtual x"
    using x fixed_physical by (auto simp: operand_ok_def always_fixed_def all_fixed_def)
  then have "state_ok \<Phi> F (Suc k) st' \<and> same_front (Suc k) st st' \<and> (r = none_reg \<or> is_physical r)
    \<and> (if x = none_reg then r = x else link F (vreg_to_preg st') x r)
    \<and> (linked_instruction st' = None \<or> linked_instruction st' = linked_instruction st \<and> link_reg st' = link_reg st \<and> insns st' = insns st)
    \<and> (\<forall>j. linked_instruction st' = Some j \<longrightarrow> x \<noteq> pending_rd st' j \<and> x \<noteq> link_reg st')
    \<and> live st' \<subseteq> live st \<union> {x}
    \<and> (\<forall>v q. vreg_to_preg st v = Some q \<longrightarrow> (\<forall>j. linked_instruction st = Some j \<longrightarrow> v \<noteq> pending_rd st j) \<longrightarrow> vreg_to_preg st' v = Some q)"
  proof cases
    case phys
    then have "st' = st" "r = x" using r by (auto simp: use_step_def)
    moreover have "x \<in> F" if "x \<noteq> none_reg"
      using that x phys map_okD(2) [OF m] kinds_of_reg by (auto simp: operand_ok_def)
    ultimately show ?thesis using s phys pend by (auto simp: same_front_def link_def)
  next
    case virt
    define conflict where "conflict \<longleftrightarrow> (\<exists>j. linked_instruction st = Some j \<and> (x = link_reg st \<or> x = i_rd (insns st ! j)) \<and> j \<noteq> k)"
    have jk: "j \<noteq> k" if "linked_instruction st = Some j" for j
      using s that by (auto simp: state_ok_def holds_def)
    have "\<exists>st1. (if conflict then flush_linked else ret ()) st = Inr ((), st1) \<and> state_ok \<Phi> F (Suc k) st1 \<and> same_front (Suc k) st st1
       \<and> (linked_instruction st1 = None \<or> st1 = st \<and> \<not> conflict) \<and> live st1 \<subseteq> live st
       \<and> (\<forall>v. (\<forall>j. linked_instruction st = Some j \<longrightarrow> v \<noteq> pending_rd st j) \<longrightarrow> vreg_to_preg st1 v = vreg_to_preg st v)"
    proof (cases conflict)
      case True
      obtain st1 where "flush_linked st = Inr ((), st1)" "state_ok \<Phi> F (Suc k) st1" "linked_instruction st1 = None"
        "same_front (Suc k) st st1" "live st1 \<subseteq> live st"
        "\<And>v. (\<And>j. linked_instruction st = Some j \<Longrightarrow> v \<noteq> pending_rd st j) \<Longrightarrow> vreg_to_preg st1 v = vreg_to_preg st v"
        using flush_ok [OF s st c] by metis
      then show ?thesis using True by auto
    next
      case False
      then show ?thesis using s by (intro exI [of _ st]) (simp add: ret_def same_front_def)
    qed
    then obtain st1 where f: "(if conflict then flush_linked else ret ()) st = Inr ((), st1)" "state_ok \<Phi> F (Suc k) st1"
       "same_front (Suc k) st st1" "linked_instruction st1 = None \<or> st1 = st \<and> \<not> conflict" "live st1 \<subseteq> live st"
       "\<And>v. (\<And>j. linked_instruction st = Some j \<Longrightarrow> v \<noteq> pending_rd st j) \<Longrightarrow> vreg_to_preg st1 v = vreg_to_preg st v"
      by auto
    have nc: "x \<noteq> pending_rd st1 j \<and> x \<noteq> link_reg st1" if "linked_instruction st1 = Some j" for j
      using f(4) that jk by (auto simp: conflict_def pending_rd_def)
    have e: "use_step flush_linked k rd x st =
       (case vreg_to_preg st1 x of None \<Rightarrow> allocate_use x (if is_physical rd then rd else none_reg) st1
          | Some pri \<Rightarrow> bnd (lift_res (allocate_operand x pri)) ret st1)"
      using virt f(1) jk unfolding use_step_def andthen_def bnd_def conflict_def
      by (cases "linked_instruction st") (auto simp: ret_def split: if_splits)
    show ?thesis
    proof (cases "vreg_to_preg st1 x")
      case None
      have a: "allocate_use x (if is_physical rd then rd else none_reg) st1 = Inr (r, st')" using e r None by simp
      note k = allocate_use_ok [OF f(2) st virt(3) None _ a]
      have "state_ok \<Phi> F (Suc k) st'" "vreg_to_preg st' = (vreg_to_preg st1)(x \<mapsto> r)" "r < 32" "insns st' = insns st1"
        "linked_instruction st' = linked_instruction st1" "link_reg st' = link_reg st1"
        using k nc by blast+
      moreover have "live st' \<subseteq> live st1 \<union> {x}"
        using calculation by (auto simp: live_def pending_rd_def)
      ultimately show ?thesis
        using f nc virt None by (auto simp: link_def physical_less pending_rd_def same_front_def)
    next
      case (Some p)
      have m1: "map_ok F (avail_physregs st1) (vreg_to_preg st1)" using f(2) by (simp add: state_ok_def)
      have p: "p < 32" using map_okD(5) [OF m1 Some] .
      then have "st' = st1" "r = p"
        using e r Some virt by (auto simp: bnd_def lift_res_def ret_def allocate_operand_def split: if_splits)
      then show ?thesis using f nc Some p virt by (auto simp: link_def physical_less)
    qed
  qed
  then show "state_ok \<Phi> F (Suc k) st'" "same_front (Suc k) st st'" "r = none_reg \<or> is_physical r"
    "if x = none_reg then r = x else link F (vreg_to_preg st') x r"
    "linked_instruction st' = None \<or> linked_instruction st' = linked_instruction st \<and> link_reg st' = link_reg st \<and> insns st' = insns st"
    "\<And>j. linked_instruction st' = Some j \<Longrightarrow> x \<noteq> pending_rd st' j \<and> x \<noteq> link_reg st'"
    "live st' \<subseteq> live st \<union> {x}"
    "\<And>v q. vreg_to_preg st v = Some q \<Longrightarrow> (\<And>j. linked_instruction st = Some j \<Longrightarrow> v \<noteq> pending_rd st j) \<Longrightarrow> vreg_to_preg st' v = Some q"
    by blast+
qed

section \<open>Destinations\<close>

text \<open>The code behind an instruction that defines \<open>w\<close> in the original and \<open>d\<close> in the allocated
  code (\<open>w = d\<close>, or \<open>d\<close> was taken over from a waiting move): the map of the code has the
  register of \<open>d\<close> for \<open>w\<close>.\<close>

definition linking ::
  "'m rv_semantics \<Rightarrow> reg set \<Rightarrow> reg \<Rightarrow> reg \<Rightarrow> insn list \<Rightarrow> (reg \<Rightarrow> reg option) \<Rightarrow> insn list \<Rightarrow> bool" where
  "linking sem F d w V M S \<longleftrightarrow> (\<exists>m. correct sem F m S V \<and> (m w = None \<or> M d \<noteq> None \<and> m w = M d)
     \<and> (\<forall>v q. v \<noteq> w \<longrightarrow> m v = Some q \<longrightarrow> v \<noteq> d \<and> M v = Some q))"

lemma linking_same: "correct sem F M S V \<Longrightarrow> linking sem F d d V M S"
  unfolding linking_def by (rule exI [of _ M]) auto

lemma linking_ready:
  assumes l: "linking sem F d (i_rd i) V M S" and i: "has_rd i" "i_rd i \<notin> F" "ZERO \<in> F"
    and p: "M d = Some p" "p \<notin> F" "\<And>v q. v \<noteq> d \<Longrightarrow> M v = Some q \<Longrightarrow> q \<noteq> p"
    and M2: "\<And>v. v \<noteq> d \<Longrightarrow> M2 v = M v" and i1: "i_rd i1 = p" "\<not> is_dead i1"
  shows "ready sem F M2 i i1 S V"
proof -
  obtain m where m: "correct sem F m S V" "m (i_rd i) = None \<or> m (i_rd i) = Some p"
    "\<And>v q. v \<noteq> i_rd i \<Longrightarrow> m v = Some q \<Longrightarrow> v \<noteq> d \<and> M v = Some q"
    using l p(1) unfolding linking_def by auto
  have "target F m (i_rd i) p" using m(2) i(2) p(2) p(3) m(3) unfolding target_def by metis
  moreover have "below (i_rd i) m M2" unfolding below_def using m(3) M2 by metis
  ultimately show ?thesis
    unfolding ready_def using m(1) i i1 by (intro exI [of _ F] exI [of _ m]) auto
qed

lemma linking_ready_dead:
  assumes l: "linking sem F d (i_rd i) V M S" and i: "pure_func (i_func i)" "i_rd i \<notin> F" "ZERO \<in> F"
    and p: "M d = None" and M2: "\<And>v. v \<noteq> d \<Longrightarrow> M2 v = M v" and i1: "is_dead i1"
  shows "ready sem F M2 i i1 S V"
proof -
  obtain m where m: "correct sem F m S V" "m (i_rd i) = None"
    "\<And>v q. v \<noteq> i_rd i \<Longrightarrow> m v = Some q \<Longrightarrow> v \<noteq> d \<and> M v = Some q"
    using l p(1) unfolding linking_def by auto
  have "below (i_rd i) m M2" unfolding below_def using m(3) M2 by metis
  then show ?thesis
    unfolding ready_def using m(1,2) i i1 by (intro exI [of _ F] exI [of _ m]) auto
qed

lemma ready_fixed:
  assumes c: "correct sem F' M S V" and F: "ZERO \<in> F'" "F' - {i_rd i} \<subseteq> F" and i: "i_rd i \<in> F'" "has_rd i" "\<not> is_dead i"
    and M: "M (i_rd i) = None" "\<And>v q. M v = Some q \<Longrightarrow> q \<noteq> i_rd i"
  shows "ready sem F M i i S V"
  unfolding ready_def
  by (intro exI [of _ F'] exI [of _ M]) (use assms in \<open>auto simp: below_def target_def\<close>)

lemma ready_no_rd:
  assumes c: "correct sem F M S V" and F: "ZERO \<in> F" and i: "i_rd i \<notin> F" "\<not> has_rd i" "\<not> is_dead i"
    and M: "M (i_rd i) = None"
  shows "ready sem F M i i S V"
  unfolding ready_def
  by (intro exI [of _ F] exI [of _ M]) (use assms in \<open>auto simp: below_def\<close>)

text \<open>Replacing the fact and the map in all three places it is about.\<close>

lemma holds_change:
  assumes h: "holds \<Phi> k st" and e: "insns st' = insns st" "linked_instruction st' = linked_instruction st" "link_reg st' = link_reg st"
    and v: "\<And>v. v \<noteq> d \<Longrightarrow> vreg_to_preg st' v = vreg_to_preg st v"
    and n: "\<And>j. linked_instruction st = Some j \<Longrightarrow> d \<noteq> pending_rd st j \<and> d \<noteq> link_reg st"
    and t: "\<And>M M2 S. \<Phi> M S \<Longrightarrow> M d = vreg_to_preg st d \<Longrightarrow> M2 d = vreg_to_preg st' d \<Longrightarrow> (\<And>v. v \<noteq> d \<Longrightarrow> M2 v = M v) \<Longrightarrow>
        (\<And>v q. v \<noteq> d \<Longrightarrow> M v = Some q \<Longrightarrow> (\<exists>u. u \<noteq> d \<and> vreg_to_preg st u = Some q) \<and> vreg_to_preg st v \<noteq> None) \<Longrightarrow> \<Psi> M2 S"
  shows "holds \<Psi> k st'"
proof (cases "linked_instruction st")
  case None
  then have "\<Phi> (vreg_to_preg st) (drop k (insns st))" using h by (simp add: holds_def)
  then have "\<Psi> (vreg_to_preg st') (drop k (insns st))" by (rule t) (auto simp: v)
  then show ?thesis using None e by (simp add: holds_def)
next
  case (Some j)
  let ?m = "vreg_to_preg st" and ?m' = "vreg_to_preg st'" and ?d = "pending_rd st j" and ?l = "link_reg st"
  have d: "d \<noteq> ?d" "d \<noteq> ?l" using n [OF Some] by simp_all
  have h': "k \<le> j" "j < length (insns st)" "waiting_move (insns st ! j)" "is_virtual ?l" "?m ?l \<noteq> None"
    and A: "\<Phi> (?m(?d := None)) (drop k ((insns st)[j := wait ?m (insns st ! j)]))"
    and B: "\<Phi> (merged_map ?m ?d ?l) (drop k ((insns st)[j := kill (insns st ! j)]))"
    using h Some by (auto simp: holds_def)
  have w: "wait ?m' (insns st ! j) = wait ?m (insns st ! j)"
    using v [of ?d] d by (simp add: wait_def pending_rd_def)
  have "\<Psi> (?m'(?d := None)) (drop k ((insns st)[j := wait ?m (insns st ! j)]))"
    by (rule t [OF A]) (use d v in \<open>auto split: if_splits\<close>)
  moreover have "\<Psi> (merged_map ?m' ?d ?l) (drop k ((insns st)[j := kill (insns st ! j)]))"
  proof (rule t [OF B])
    fix u q assume u: "u \<noteq> d" "merged_map ?m ?d ?l u = Some q"
    then show "(\<exists>u. u \<noteq> d \<and> ?m u = Some q) \<and> ?m u \<noteq> None"
      using d h'(5) by (auto simp: merged_map_def split: if_splits)
  qed (use d v in \<open>auto simp: merged_map_def split: if_splits\<close>)
  ultimately show ?thesis
    using h' Some e w v [of ?l] d by (simp add: holds_def pending_rd_def)
qed

lemma allocate_def_ok:
  assumes s: "state_ok (linking sem F d (i_rd i) V) F (Suc k) st"
    and i: "has_rd i" "i_rd i \<notin> F" "pure_func (i_func i)" and i1: "i_rd i1 = d" "\<not> is_dead i1" and d: "guest d \<or> is_virtual d"
    and n: "\<And>j. linked_instruction st = Some j \<Longrightarrow> d \<noteq> pending_rd st j \<and> d \<noteq> link_reg st"
    and r: "allocate_def i1 st = Inr (i2, st2)"
  shows "state_ok (\<lambda>M S. ready sem F M i i2 S V) F (Suc k) st2" "insns st2 = insns st"
    "linked_instruction st2 = linked_instruction st" "link_reg st2 = link_reg st"
    "is_dead i2 \<or> (\<exists>p. is_physical p \<and> i2 = i1\<lparr>i_rd := p\<rparr>)"
    "live st2 \<subseteq> live st - {d} \<union> {r. r = d \<and> is_rd_use i1}"
proof -
  have m: "map_ok F (avail_physregs st) (vreg_to_preg st)" and h: "holds (linking sem F d (i_rd i) V) (Suc k) st"
    using s by (simp_all add: state_ok_def)
  note z = map_okD(1) [OF m]
  have np: "\<not> is_physical d" using d kinds_of_reg by blast
  have "state_ok (\<lambda>M S. ready sem F M i i2 S V) F (Suc k) st2 \<and> insns st2 = insns st \<and>
      linked_instruction st2 = linked_instruction st \<and> link_reg st2 = link_reg st \<and>
      (is_dead i2 \<or> (\<exists>p. is_physical p \<and> i2 = i1\<lparr>i_rd := p\<rparr>)) \<and>
      live st2 \<subseteq> live st - {d} \<union> {r. r = d \<and> is_rd_use i1}"
  proof (cases "vreg_to_preg st d")
    case None
    then have e: "i2 = kill i1" "st2 = st" using r i1 by (simp_all add: allocate_def_def)
    have dead: "is_dead (kill i1)" by (simp add: is_dead_def kill_def)
    have "holds (\<lambda>M S. ready sem F M i i2 S V) (Suc k) st"
    proof (rule holds_change [where st' = st and d = d, OF h _ _ _ _ n])
      fix M M2 :: "reg \<Rightarrow> reg option" and S
      assume "linking sem F d (i_rd i) V M S" "M d = vreg_to_preg st d" "\<And>v. v \<noteq> d \<Longrightarrow> M2 v = M v"
      then show "ready sem F M2 i i2 S V"
        using linking_ready_dead [OF _ i(3,2) z, of sem d V M S M2 i2] None by (simp add: e dead)
    qed simp_all
    then show ?thesis
      using s None by (auto simp: e dead state_ok_def live_def)
  next
    case (Some p)
    define st1 where "st1 = (if \<not> is_rd_use i1 \<and> \<not> is_functional d then release d p st else st)"
    have p: "p < 32" "p \<notin> F" using map_okD(5,6) [OF m Some] .
    then have e: "i2 = i1\<lparr>i_rd := p\<rparr>" "st2 = st1"
      using r i1 np Some by (auto simp: allocate_def_def st1_def bnd_def lift_res_def ret_def allocate_operand_def split: if_splits)
    have st1: "insns st1 = insns st" "linked_instruction st1 = linked_instruction st" "link_reg st1 = link_reg st"
      "\<And>v. v \<noteq> d \<Longrightarrow> vreg_to_preg st1 v = vreg_to_preg st v"
      by (simp_all add: st1_def release_def)
    have "holds (\<lambda>M S. ready sem F M i i2 S V) (Suc k) st1"
    proof (rule holds_change [OF h st1 n])
      fix M M2 :: "reg \<Rightarrow> reg option" and S
      assume a: "linking sem F d (i_rd i) V M S" "M d = vreg_to_preg st d" "\<And>v. v \<noteq> d \<Longrightarrow> M2 v = M v"
        "\<And>v q. v \<noteq> d \<Longrightarrow> M v = Some q \<Longrightarrow> (\<exists>u. u \<noteq> d \<and> vreg_to_preg st u = Some q) \<and> vreg_to_preg st v \<noteq> None"
      show "ready sem F M2 i i2 S V"
      proof (rule linking_ready [OF a(1) i(1,2) z _ p(2) _ a(3)])
        show "M d = Some p" using a(2) Some by simp
        show "q \<noteq> p" if "v \<noteq> d" "M v = Some q" for v q
          using a(4) [OF that] map_okD(7) [OF m Some] by blast
        show "\<not> is_dead i2" using i1 by (simp add: e is_dead_def)
      qed (simp_all add: e)
    qed
    moreover have "map_ok F (avail_physregs st1) (vreg_to_preg st1)"
    proof (cases "\<not> is_rd_use i1 \<and> \<not> is_functional d")
      case True
      then have "\<not> guest d" using kinds_of_reg(6) by blast
      then show ?thesis using map_ok_release [OF m Some] True by (simp add: st1_def release_def)
    qed (auto simp: st1_def m)
    moreover have "live st1 \<subseteq> live st - {d} \<union> {r. r = d \<and> is_rd_use i1}"
      using n kinds_of_reg(7) by (auto simp: live_def st1_def release_def pending_rd_def split: if_splits)
    ultimately show ?thesis
      using s p(1) by (auto simp: e state_ok_def st1 physical_less)
  qed
  then show "state_ok (\<lambda>M S. ready sem F M i i2 S V) F (Suc k) st2" "insns st2 = insns st"
    "linked_instruction st2 = linked_instruction st" "link_reg st2 = link_reg st"
    "is_dead i2 \<or> (\<exists>p. is_physical p \<and> i2 = i1\<lparr>i_rd := p\<rparr>)"
    "live st2 \<subseteq> live st - {d} \<union> {r. r = d \<and> is_rd_use i1}"
    by blast+
qed

end
