(* ===== verification/Riscv_Allocation_Blocks.thy ===== *)
theory Riscv_Allocation_Blocks
  imports Riscv_Allocation_Correct
begin

text \<open>
  The allocation of one instruction and of a straight-line block.
\<close>

section \<open>Merging and linking\<close>

lemma stable_linking: "ZERO \<in> F \<Longrightarrow> stable sem (linking sem F d w V)"
  unfolding stable_def
proof (intro conjI allI impI)
  fix M N :: "reg \<Rightarrow> reg option" and S
  assume "linking sem F d w V M S" and N: "\<forall>v q. M v = Some q \<longrightarrow> N v = Some q"
  then obtain m where m: "correct sem F m S V" "m w = None \<or> M d \<noteq> None \<and> m w = M d"
    "\<And>v q. v \<noteq> w \<Longrightarrow> m v = Some q \<Longrightarrow> v \<noteq> d \<and> M v = Some q"
    unfolding linking_def by blast
  have "m w = None \<or> N d \<noteq> None \<and> m w = N d" using m(2) N by force
  then show "linking sem F d w V N S" unfolding linking_def using m(1,3) N by blast
next
  fix M :: "reg \<Rightarrow> reg option" and xs j a b
  assume z: "ZERO \<in> F" and "linking sem F d w V M (xs[j := a])"
    and "\<forall>R Mem. R ZERO = 0 \<longrightarrow> exec_insn sem b (R, Mem) = exec_insn sem a (R, Mem)"
  then show "linking sem F d w V M (xs[j := b])" unfolding linking_def using correct_replace [OF _ z] by meson
qed

lemma state_ok_linking:
  assumes "state_ok (\<lambda>M S. correct sem F M S V) F k st"
  shows "state_ok (linking sem F d d V) F k st"
  using assms unfolding state_ok_def holds_def by (auto intro: linking_same split: option.splits)

lemma merge_linked_ok:
  assumes s: "state_ok (\<lambda>M S. correct sem F M S V) F (Suc k) st"
    and j: "linked_instruction st = Some j" "link_reg st = i_rd i"
    and r: "merge_linked i st = Inr (i1, st1)"
  shows "i1 = i\<lparr>i_rd := pending_rd st j\<rparr>" "linked_instruction st1 = None" "same_front (Suc k) st st1"
    "state_ok (linking sem F (pending_rd st j) (i_rd i) V) F (Suc k) st1"
    "live st1 \<subseteq> live st - {i_rd i} \<union> {pending_rd st j}" "guest (pending_rd st j) \<or> is_virtual (pending_rd st j)"
proof -
  let ?m = "vreg_to_preg st" and ?d = "pending_rd st j" and ?w = "i_rd i"
  have m: "map_ok F (avail_physregs st) ?m" using s by (simp add: state_ok_def)
  have h: "Suc k \<le> j" "j < length (insns st)" "waiting_move (insns st ! j)" "is_virtual ?w" "?m ?w \<noteq> None"
    and B: "correct sem F (merged_map ?m ?d ?w) (drop (Suc k) ((insns st)[j := kill (insns st ! j)])) V"
    and a: "\<And>x. Suc k \<le> x \<Longrightarrow> x < length (insns st) \<Longrightarrow> x \<noteq> j \<Longrightarrow> allocated (insns st ! x)"
    using s j by (auto simp: state_ok_def holds_def)
  obtain p where p: "?m ?w = Some p" using h(5) by auto
  have e: "st1 = (release ?w p st)\<lparr>insns := (insns st)[j := kill (insns st ! j)], linked_instruction := None\<rparr>"
    and i1: "i1 = i\<lparr>i_rd := ?d\<rparr>"
    using r j p by (auto simp: merge_linked_def release_def pending_rd_def Let_def)
  show "i1 = i\<lparr>i_rd := ?d\<rparr>" by (rule i1)
  show "linked_instruction st1 = None" by (simp add: e)
  show "same_front (Suc k) st st1" using h(1) by (simp add: same_front_def e)
  show "guest ?d \<or> is_virtual ?d" using h(3) by (simp add: waiting_move_def pending_rd_def)
  show "live st1 \<subseteq> live st - {?w} \<union> {?d}" using j by (auto simp: live_def e release_def)
  have ng: "\<not> guest ?w" using h(4) kinds_of_reg(8) by blast
  have "linking sem F ?d ?w V (?m(?w := None)) (drop (Suc k) ((insns st)[j := kill (insns st ! j)]))"
    unfolding linking_def by (intro exI [of _ "merged_map ?m ?d ?w"] conjI B) (auto simp: merged_map_def)
  then show "state_ok (linking sem F ?d ?w V) F (Suc k) st1"
    using map_ok_release [OF m p ng] a h(2)
    by (auto simp: state_ok_def holds_def e release_def nth_list_update allocated_def is_dead_def kill_def)
qed

section \<open>The destination of an instruction\<close>

lemma find_links:
  assumes "links True i st"
  shows "is_mv i" "is_virtual (move_source i)" "vreg_to_preg st (move_source i) = None"
  using assms by (simp_all add: links_def)

definition front_set :: "nat \<Rightarrow> insn \<Rightarrow> alloc_state \<Rightarrow> alloc_state" where
  "front_set k i st = st\<lparr>insns := (insns st)[k := i]\<rparr>"

text \<open>The three outcomes: dead, waiting, or with a register for its result.\<close>

definition settled ::
  "'m rv_semantics \<Rightarrow> reg set \<Rightarrow> nat \<Rightarrow> insn \<Rightarrow> insn list \<Rightarrow> alloc_state \<Rightarrow> insn \<Rightarrow> alloc_state \<Rightarrow> bool" where
  "settled sem F k i V st i2 st2 \<longleftrightarrow>
     state_ok (\<lambda>M S. ready sem F M i i2 S V) F (Suc k) st2 \<and> same_front (Suc k) st st2
     \<and> (is_dead i2 \<or> (\<exists>p. (p = none_reg \<or> is_physical p) \<and> i2 = i\<lparr>i_rd := p\<rparr>))
     \<and> live st2 \<subseteq> live st - {i_rd i} \<union> {i_rs1 i, i_rs2 i}
     \<and> (linked_instruction st2 = None \<or> linked_instruction st2 = linked_instruction st \<and> link_reg st2 = link_reg st
         \<and> link_reg st \<noteq> i_rd i)"

definition linked_up ::
  "'m rv_semantics \<Rightarrow> reg set \<Rightarrow> nat \<Rightarrow> insn \<Rightarrow> insn list \<Rightarrow> alloc_state \<Rightarrow> insn \<Rightarrow> alloc_state \<Rightarrow> bool" where
  "linked_up sem F k i V st i2 st2 \<longleftrightarrow> (\<exists>d. i2 = i\<lparr>i_rd := d\<rparr> \<and> (guest d \<or> is_virtual d)
     \<and> i_rd i \<notin> F \<and> pure_func (i_func i)
     \<and> is_mv i \<and> is_virtual (move_source i) \<and> vreg_to_preg st2 (move_source i) = None
     \<and> linked_instruction st2 = Some k \<and> link_reg st2 = move_source i
     \<and> same_front (Suc k) st st2
     \<and> state_ok (linking sem F d (i_rd i) V) F (Suc k) (st2\<lparr>linked_instruction := None\<rparr>)
     \<and> live (st2\<lparr>linked_instruction := None\<rparr>) \<subseteq> live st - {i_rd i} \<union> {d})"

lemma rd_update_simps:
  "is_mv (i\<lparr>i_rd := d\<rparr>) = is_mv i" "move_source (i\<lparr>i_rd := d\<rparr>) = move_source i" "is_dead (i\<lparr>i_rd := d\<rparr>) = is_dead i"
  "has_rd (i\<lparr>i_rd := d\<rparr>) = has_rd i"
  by (simp_all add: is_mv_def move_source_def is_dead_def has_rd_def)

lemma is_rd_use_reads: "is_rd_use i \<Longrightarrow> i_rd i = i_rs1 i \<or> i_rd i = i_rs2 i"
  by (auto simp: is_rd_use_def split: if_splits)

text \<open>After a possible merge: link the instruction, or give its result a register.\<close>

lemma link_or_allocate:
  assumes s: "state_ok (linking sem F d (i_rd i) V) F (Suc k) st1" and c: "copies sem"
    and l: "linked_instruction st1 = None \<or> d = i_rd i \<and> (\<forall>j. linked_instruction st1 = Some j \<longrightarrow> link_reg st1 \<noteq> d)"
    and d: "guest d \<or> is_virtual d" and i: "has_rd i" "i_rd i \<notin> F" "pure_func (i_func i)" "\<not> is_dead i"
    and st: "same_front (Suc k) st st1" "live st1 \<subseteq> live st - {i_rd i} \<union> {d} \<or> st1 = st \<and> d = i_rd i"
      "linked_instruction st1 = None \<or> linked_instruction st1 = linked_instruction st \<and> link_reg st1 = link_reg st"
    and r: "(if links True (i\<lparr>i_rd := d\<rparr>) st1 then
         andthen flush_linked (\<lambda>st2. Inr (i\<lparr>i_rd := d\<rparr>, st2\<lparr>link_reg := move_source (i\<lparr>i_rd := d\<rparr>), linked_instruction := Some k\<rparr>)) st1
       else andthen (case linked_instruction st1 of Some j \<Rightarrow> if i_rd (i\<lparr>i_rd := d\<rparr>) = i_rd (insns st1 ! j) then flush_linked else ret () | None \<Rightarrow> ret ())
              (allocate_def (i\<lparr>i_rd := d\<rparr>)) st1) = Inr (i2, st2)"
  shows "settled sem F k i V st i2 st2 \<or> linked_up sem F k i V st i2 st2"
proof -
  let ?i = "i\<lparr>i_rd := d\<rparr>"
  have z: "ZERO \<in> F" using s map_okD(1) by (auto simp: state_ok_def)
  have lv: "live st1 - {d} \<subseteq> live st - {i_rd i}" "live st1 \<subseteq> live st - {i_rd i} \<union> {d}"
    using st(2) by auto
  show ?thesis
  proof (cases "links True ?i st1")
    case True
    obtain st' where f: "flush_linked st1 = Inr ((), st')" "state_ok (linking sem F d (i_rd i) V) F (Suc k) st'"
      "linked_instruction st' = None" "same_front (Suc k) st1 st'" "live st' \<subseteq> live st1"
      "\<And>v q. vreg_to_preg st' v = Some q \<Longrightarrow> vreg_to_preg st1 v = Some q"
      using flush_ok [OF s stable_linking [OF z] c] by metis
    have e: "i2 = ?i" "st2 = st'\<lparr>link_reg := move_source i, linked_instruction := Some k\<rparr>"
      using r True f(1) by (simp_all add: andthen_def bnd_def rd_update_simps)
    have s0: "st2\<lparr>linked_instruction := None\<rparr> = st'\<lparr>link_reg := move_source i\<rparr>" using f(3) by (simp add: e)
    have "state_ok (linking sem F d (i_rd i) V) F (Suc k) (st2\<lparr>linked_instruction := None\<rparr>)"
      using f(2,3) unfolding s0 by (simp add: state_ok_def holds_def)
    moreover have "live (st2\<lparr>linked_instruction := None\<rparr>) \<subseteq> live st - {i_rd i} \<union> {d}"
      using f(5) lv unfolding s0 by (auto simp: live_def f(3))
    moreover have "vreg_to_preg st2 (move_source i) = None"
      using f(6) find_links(3) [OF True] by (cases "vreg_to_preg st' (move_source i)") (auto simp: e rd_update_simps)
    moreover have "same_front (Suc k) st st2"
      using same_front_trans [OF st(1) f(4)] by (simp add: e same_front_def)
    ultimately have "linked_up sem F k i V st i2 st2"
      unfolding linked_up_def using find_links(1,2) [OF True] d i(2,3)
      by (intro exI [of _ d]) (simp add: e rd_update_simps)
    then show ?thesis ..
  next
    case False
    have "\<exists>st'. (case linked_instruction st1 of Some j \<Rightarrow> if i_rd ?i = i_rd (insns st1 ! j) then flush_linked else ret () | None \<Rightarrow> ret ()) st1
        = Inr ((), st') \<and> state_ok (linking sem F d (i_rd i) V) F (Suc k) st' \<and> same_front (Suc k) st1 st' \<and> live st' \<subseteq> live st1
        \<and> (linked_instruction st' = None \<or> st' = st1 \<and> (\<forall>j. linked_instruction st1 = Some j \<longrightarrow> d \<noteq> pending_rd st1 j))"
    proof (cases "\<exists>j. linked_instruction st1 = Some j \<and> d = pending_rd st1 j")
      case True
      obtain st' where "flush_linked st1 = Inr ((), st')" "state_ok (linking sem F d (i_rd i) V) F (Suc k) st'"
        "linked_instruction st' = None" "same_front (Suc k) st1 st'" "live st' \<subseteq> live st1"
        using flush_ok [OF s stable_linking [OF z] c] by metis
      then show ?thesis using True by (auto simp: pending_rd_def)
    next
      case False
      then show ?thesis using s
        by (intro exI [of _ st1]) (auto simp: ret_def same_front_def pending_rd_def split: option.split)
    qed
    then obtain st' where f: "(case linked_instruction st1 of Some j \<Rightarrow> if i_rd ?i = i_rd (insns st1 ! j) then flush_linked else ret () | None \<Rightarrow> ret ()) st1
        = Inr ((), st')" "state_ok (linking sem F d (i_rd i) V) F (Suc k) st'" "same_front (Suc k) st1 st'" "live st' \<subseteq> live st1"
        "linked_instruction st' = None \<or> st' = st1 \<and> (\<forall>j. linked_instruction st1 = Some j \<longrightarrow> d \<noteq> pending_rd st1 j)"
      by blast
    have a: "allocate_def ?i st' = Inr (i2, st2)"
      using r False f(1) by (simp add: andthen_def bnd_def)
    have n: "d \<noteq> pending_rd st' j \<and> d \<noteq> link_reg st'" if "linked_instruction st' = Some j" for j
      using f(5) that l by auto
    have nd: "\<not> is_dead ?i" using i(4) by (simp add: rd_update_simps)
    note k = allocate_def_ok [OF f(2) i(1,2,3) _ nd d n a, simplified]
    have rd: "{r. r = d \<and> is_rd_use ?i} \<subseteq> {i_rs1 i, i_rs2 i}" using is_rd_use_reads [of ?i] by auto
    have "live st2 \<subseteq> live st - {i_rd i} \<union> {i_rs1 i, i_rs2 i}"
      using k(6) rd f(4) lv(1) by blast
    moreover have "same_front (Suc k) st st2"
      using same_front_trans [OF st(1) f(3)] k(2) by (simp add: same_front_def)
    moreover have "is_dead i2 \<or> (\<exists>p. (p = none_reg \<or> is_physical p) \<and> i2 = i\<lparr>i_rd := p\<rparr>)" using k(5) by auto
    moreover have "linked_instruction st2 = None \<or> linked_instruction st2 = linked_instruction st \<and> link_reg st2 = link_reg st
         \<and> link_reg st \<noteq> i_rd i"
      using k(3,4) f(5) st(3) l by (cases "linked_instruction st1") auto
    ultimately show ?thesis unfolding settled_def using k(1) by blast
  qed
qed

lemma insn_ok_simps:
  assumes "insn_ok D i"
  shows "\<not> is_dead i" "\<not> is_control_flow i" "i_type i \<notin> {I_Dead, I_Noop}" "has_rd i \<longleftrightarrow> i_rd i \<noteq> none_reg"
    "i_rs1 i = none_reg \<or> operand_ok D (i_rs1 i)" "i_rs2 i = none_reg \<or> operand_ok D (i_rs2 i)"
    "reads1 i \<Longrightarrow> operand_ok D (i_rs1 i)" "reads2 i \<Longrightarrow> operand_ok D (i_rs2 i)" "move_shape i"
    "i_rd i \<noteq> none_reg \<Longrightarrow> i_rd i \<in> all_fixed \<or> (guest (i_rd i) \<or> is_virtual (i_rd i)) \<and> pure_func (i_func i)"
proof -
  note a = assms [unfolded insn_ok_def]
  show "\<not> is_dead i" "\<not> is_control_flow i" "i_type i \<notin> {I_Dead, I_Noop}"
    using conjunct1 [OF a] by (auto simp: is_dead_def is_control_flow_def)
  show "move_shape i" using a by (simp add: move_shape_def)
  show "has_rd i \<longleftrightarrow> i_rd i \<noteq> none_reg" using a by simp
  then show "i_rd i \<noteq> none_reg \<Longrightarrow> i_rd i \<in> all_fixed \<or> (guest (i_rd i) \<or> is_virtual (i_rd i)) \<and> pure_func (i_func i)"
    using a by simp
  show "i_rs1 i = none_reg \<or> operand_ok D (i_rs1 i)" "i_rs2 i = none_reg \<or> operand_ok D (i_rs2 i)"
    using a by (metis, metis)
  show "reads1 i \<Longrightarrow> operand_ok D (i_rs1 i)" "reads2 i \<Longrightarrow> operand_ok D (i_rs2 i)"
    using a by simp_all
qed

lemma A_not_operand: "A \<in> {A0, A1} \<Longrightarrow> \<not> operand_ok D A" "A \<in> {A0, A1} \<Longrightarrow> A \<noteq> none_reg"
proof -
  assume A: "A \<in> {A0, A1}"
  then have "A \<in> all_fixed" by (auto simp: all_fixed_def)
  then have "is_physical A" "A \<noteq> none_reg" using fixed_physical by blast+
  moreover have "A \<notin> always_fixed" using A by (auto simp: always_fixed_def rv_consts)
  ultimately show "\<not> operand_ok D A" "A \<noteq> none_reg"
    using kinds_of_reg by (auto simp: operand_ok_def)
qed

lemma rd_step_ok:
  assumes s: "state_ok (\<lambda>M S. correct sem F M S V) F (Suc k) st" and c: "copies sem" and i: "insn_ok D i"
    and A: "i_rd i \<in> {A0, A1} \<Longrightarrow> i_rd i \<in> F" and r: "rd_step flush_linked k True i st = Inr (i2, st2)"
  shows "settled sem (F - ({A0, A1} \<inter> {i_rd i})) k i V st i2 st2 \<or> i_rd i \<notin> {A0, A1} \<and> linked_up sem F k i V st i2 st2"
proof -
  let ?w = "i_rd i"
  note ok = insn_ok_simps [OF i]
  have m: "map_ok F (avail_physregs st) (vreg_to_preg st)" and h: "holds (\<lambda>M S. correct sem F M S V) (Suc k) st"
    using s by (simp_all add: state_ok_def)
  note z = map_okD(1) [OF m]
  have pend: "x \<noteq> pending_rd st j" "x \<noteq> link_reg st" if "linked_instruction st = Some j" "x = none_reg \<or> is_physical x" for x j
    using that s kinds_of_reg by (auto simp: state_ok_def holds_def waiting_move_def pending_rd_def)
  have none: "vreg_to_preg st x = None" if "x = none_reg \<or> is_physical x" for x
  proof (cases "vreg_to_preg st x")
    case (Some q)
    then show ?thesis using map_okD(4) [OF m Some] that kinds_of_reg by blast
  qed
  have keep: "live st \<subseteq> live st - {x} \<union> R" if "x = none_reg \<or> is_physical x" for x R
    using that kinds_of_reg by (auto simp: live_def)
  have stay: "settled sem F2 k i V st i (st\<lparr>avail_physregs := av\<rparr>)"
    if w: "?w = none_reg \<or> is_physical ?w" and mk: "map_ok F2 av (vreg_to_preg st)"
      and rdy: "\<And>M S. correct sem F M S V \<Longrightarrow> M ?w = None \<Longrightarrow> (\<And>v q. M v = Some q \<Longrightarrow> \<exists>u. vreg_to_preg st u = Some q) \<Longrightarrow> ready sem F2 M i i S V"
    for F2 av
  proof -
    have "holds (\<lambda>M S. ready sem F2 M i i S V) (Suc k) (st\<lparr>avail_physregs := av\<rparr>)"
    proof (rule holds_change [where d = ?w, OF h])
      fix M M2 :: "reg \<Rightarrow> reg option" and S
      assume a: "correct sem F M S V" "M ?w = vreg_to_preg st ?w" "M2 ?w = vreg_to_preg (st\<lparr>avail_physregs := av\<rparr>) ?w"
        "\<And>v. v \<noteq> ?w \<Longrightarrow> M2 v = M v"
        "\<And>v q. v \<noteq> ?w \<Longrightarrow> M v = Some q \<Longrightarrow> (\<exists>u. u \<noteq> ?w \<and> vreg_to_preg st u = Some q) \<and> vreg_to_preg st v \<noteq> None"
      have "M2 v = M v" for v using a(2-4) by (cases "v = ?w") simp_all
      then have "M2 = M" by blast
      moreover have "\<exists>u. vreg_to_preg st u = Some q" if "M v = Some q" for v q
        using a(2) a(5) [OF _ that] none [OF w] that by (cases "v = ?w") auto
      ultimately show "ready sem F2 M2 i i S V" using rdy a(1,2) none [OF w] by simp
    qed (use pend w in simp_all)
    moreover have "linked_instruction st = None \<or> link_reg st \<noteq> ?w"
      using pend(2) [OF _ w] by (cases "linked_instruction st") auto
    moreover have "live (st\<lparr>avail_physregs := av\<rparr>) = live st" by (simp add: live_def pending_rd_def)
    ultimately show ?thesis
      using s mk w keep [OF w] unfolding settled_def state_ok_def same_front_def by (auto intro: exI [of _ ?w])
  qed
  consider (none) "?w = none_reg" | (fixed) "?w \<in> all_fixed" "?w \<notin> {A0, A1}" | (result) "?w \<in> {A0, A1}"
    | (mapped) "guest ?w \<or> is_virtual ?w" "pure_func (i_func i)"
    using ok(10) by blast
  then show ?thesis
  proof cases
    case none
    then have "i2 = i" "st2 = st" using r by (auto simp: rd_step_def)
    moreover have "settled sem F k i V st i (st\<lparr>avail_physregs := avail_physregs st\<rparr>)"
    proof (rule stay)
      have "none_reg \<notin> F" using map_okD(3) [OF m] fixed_physical by auto
      then show "ready sem F M i i S V" if "correct sem F M S V" "M ?w = None" for M S
        using that none ok by (intro ready_no_rd z) simp_all
    qed (use none m in simp_all)
    moreover have "{A0, A1} \<inter> {?w} = {}" using none A_not_operand(2) by auto
    ultimately show ?thesis by simp
  next
    case fixed
    have p: "is_physical ?w" "?w \<noteq> none_reg" using fixed_physical [OF fixed(1)] by simp_all
    have F: "?w \<in> F" using fixed map_okD(2) [OF m] by (auto simp: all_fixed_def always_fixed_def)
    have "i2 = i" "st2 = st" using r p fixed by (auto simp: rd_step_def)
    moreover have "settled sem F k i V st i (st\<lparr>avail_physregs := avail_physregs st\<rparr>)"
    proof (rule stay)
      show "ready sem F M i i S V" if "correct sem F M S V" "M ?w = None" "\<And>v q. M v = Some q \<Longrightarrow> \<exists>u. vreg_to_preg st u = Some q" for M S
      proof (rule ready_fixed [OF that(1) z _ F _ ok(1) that(2)])
        show "q \<noteq> ?w" if "M v = Some q" for v q
          using \<open>\<And>v q. M v = Some q \<Longrightarrow> \<exists>u. vreg_to_preg st u = Some q\<close> [OF that] map_okD(6) [OF m] F by auto
      qed (use ok p in auto)
    qed (use p m in simp_all)
    moreover have "{A0, A1} \<inter> {?w} = {}" using fixed by auto
    ultimately show ?thesis by simp
  next
    case result
    have p: "is_physical ?w" "?w \<noteq> none_reg" using result fixed_physical [of ?w] by (auto simp: all_fixed_def)
    have F: "?w \<in> F" using A result by blast
    have "\<not> is_rd_use i"
      using is_rd_use_reads [of i] ok(5,6) A_not_operand [OF result] by auto
    then have e: "i2 = i" "st2 = st\<lparr>avail_physregs := set_bit (unat ?w) (avail_physregs st)\<rparr>"
      using r p result by (auto simp: rd_step_def)
    have FA: "F - ({A0, A1} \<inter> {?w}) = F - {?w}" using result by auto
    have "settled sem (F - {?w}) k i V st i (st\<lparr>avail_physregs := set_bit (unat ?w) (avail_physregs st)\<rparr>)"
    proof (rule stay)
      show "ready sem (F - {?w}) M i i S V" if "correct sem F M S V" "M ?w = None" "\<And>v q. M v = Some q \<Longrightarrow> \<exists>u. vreg_to_preg st u = Some q" for M S
      proof (rule ready_fixed [OF that(1) z _ F _ ok(1) that(2)])
        show "q \<noteq> ?w" if "M v = Some q" for v q
          using \<open>\<And>v q. M v = Some q \<Longrightarrow> \<exists>u. vreg_to_preg st u = Some q\<close> [OF that] map_okD(6) [OF m] F by auto
      qed (use ok p in auto)
      show "map_ok (F - {?w}) (set_bit (unat ?w) (avail_physregs st)) (vreg_to_preg st)"
        by (rule map_ok_free [OF m result F])
    qed (use p in simp_all)
    then show ?thesis unfolding e FA by blast
  next
    case mapped
    have np: "\<not> is_physical ?w" "?w \<noteq> none_reg" using mapped kinds_of_reg by auto
    then have wF: "?w \<notin> F" using map_okD(3) [OF m] fixed_physical by blast
    have nA: "?w \<notin> {A0, A1}" using np fixed_physical [of ?w] by (auto simp: all_fixed_def)
    then have FA: "F - ({A0, A1} \<inter> {?w}) = F" by auto
    have hr: "has_rd i" using ok(4) np by simp
    have step: "bnd (merge_linked i) (\<lambda>i1 st1.
          if links True i1 st1 then
            andthen flush_linked (\<lambda>st2. Inr (i1, st2\<lparr>link_reg := move_source i1, linked_instruction := Some k\<rparr>)) st1
          else
            andthen (case linked_instruction st1 of
                Some j \<Rightarrow> if i_rd i1 = i_rd (insns st1 ! j) then flush_linked else ret ()
              | None \<Rightarrow> ret ())
              (allocate_def i1) st1) st = Inr (i2, st2)"
      using r np by (simp add: rd_step_def)
    have "settled sem F k i V st i2 st2 \<or> linked_up sem F k i V st i2 st2"
    proof (cases "\<exists>j. linked_instruction st = Some j \<and> link_reg st = ?w")
      case True
      then obtain j where j: "linked_instruction st = Some j" "link_reg st = ?w" by blast
      then obtain i1 st1 where r1: "merge_linked i st = Inr (i1, st1)"
        by (auto simp: merge_linked_def Let_def)
      note mo = merge_linked_ok [OF s j r1]
      show ?thesis
        by (rule link_or_allocate [OF mo(4) c _ mo(6) hr wF mapped(2) ok(1) mo(3)])
          (use mo(2,5) step r1 in \<open>simp_all add: bnd_def mo(1)\<close>)
    next
      case False
      then have r1: "merge_linked i st = Inr (i, st)"
        by (auto simp: merge_linked_def split: option.split)
      have i': "i\<lparr>i_rd := ?w\<rparr> = i" by simp
      show ?thesis
      proof (rule link_or_allocate [where d = ?w, OF _ c _ mapped(1) hr wF mapped(2) ok(1)])
        show "state_ok (linking sem F ?w ?w V) F (Suc k) st" by (rule state_ok_linking [OF s])
        show "linked_instruction st = None \<or> ?w = ?w \<and> (\<forall>j. linked_instruction st = Some j \<longrightarrow> link_reg st \<noteq> ?w)"
          using False by auto
      qed (unfold i', use step r1 in \<open>simp_all add: bnd_def same_front_def split del: if_split\<close>)
    qed
    then show ?thesis using nA unfolding FA by blast
  qed
qed

section \<open>One instruction\<close>

lemma drop_update_front:
  "k < length xs \<Longrightarrow> drop k (xs[k := y]) = y # drop (Suc k) xs"
  "k < length xs \<Longrightarrow> k < j \<Longrightarrow> drop k ((xs[k := y])[j := z]) = y # drop (Suc k) (xs[j := z])"
proof -
  have "drop k (ys[k := y]) = y # drop (Suc k) ys" if "k < length ys" for ys :: "'a list"
    using that by (subst Cons_nth_drop_Suc [symmetric]) simp_all
  then show "k < length xs \<Longrightarrow> drop k (xs[k := y]) = y # drop (Suc k) xs"
    "k < length xs \<Longrightarrow> k < j \<Longrightarrow> drop k ((xs[k := y])[j := z]) = y # drop (Suc k) (xs[j := z])"
    by (simp_all add: list_update_swap [of k j xs y z])
qed

lemma state_ok_front_set:
  assumes s: "state_ok \<Phi> F (Suc k) st"
  shows "state_ok \<Phi> F (Suc k) (front_set k y st)" "live (front_set k y st) = live st"
proof -
  have "linked_instruction st \<noteq> Some k" using s by (auto simp: state_ok_def holds_def)
  then show "live (front_set k y st) = live st"
    by (auto simp: live_def pending_rd_def front_set_def nth_list_update)
  show "state_ok \<Phi> F (Suc k) (front_set k y st)"
  proof (cases "linked_instruction st")
    case None
    then show ?thesis using s by (simp add: state_ok_def holds_def front_set_def)
  next
    case (Some j)
    then have "k < j" using s by (auto simp: state_ok_def holds_def)
    then show ?thesis using s Some
      by (simp add: state_ok_def holds_def front_set_def pending_rd_def list_update_swap [of k j])
  qed
qed

lemma finish:
  assumes s: "state_ok \<Phi> F (Suc k) st" and k: "k < length (insns st)" and y: "allocated y"
    and t: "\<And>M S. \<Phi> M S \<Longrightarrow> (\<And>v q. vreg_to_preg st v = Some q \<Longrightarrow>
         (\<And>j. linked_instruction st = Some j \<Longrightarrow> v \<noteq> pending_rd st j \<and> v \<noteq> link_reg st) \<Longrightarrow> M v = Some q) \<Longrightarrow> \<Psi> M (y # S)"
  shows "state_ok \<Psi> F k (front_set k y st)"
proof -
  have "holds \<Psi> k (front_set k y st)"
  proof (cases "linked_instruction st")
    case None
    then have "\<Phi> (vreg_to_preg st) (drop (Suc k) (insns st))" using s by (simp add: state_ok_def holds_def)
    then have "\<Psi> (vreg_to_preg st) (y # drop (Suc k) (insns st))" by (rule t) simp
    then show ?thesis using None k by (simp add: holds_def front_set_def drop_update_front)
  next
    case (Some j)
    let ?m = "vreg_to_preg st" and ?d = "pending_rd st j" and ?l = "link_reg st"
    have h: "Suc k \<le> j" "j < length (insns st)" "waiting_move (insns st ! j)" "is_virtual ?l" "?m ?l \<noteq> None"
      and A: "\<Phi> (?m(?d := None)) (drop (Suc k) ((insns st)[j := wait ?m (insns st ! j)]))"
      and B: "\<Phi> (merged_map ?m ?d ?l) (drop (Suc k) ((insns st)[j := kill (insns st ! j)]))"
      using s Some by (auto simp: state_ok_def holds_def)
    have "\<Psi> (?m(?d := None)) (y # drop (Suc k) ((insns st)[j := wait ?m (insns st ! j)]))"
      using A by (rule t) (use Some in auto)
    moreover have "\<Psi> (merged_map ?m ?d ?l) (y # drop (Suc k) ((insns st)[j := kill (insns st ! j)]))"
      using B by (rule t) (use Some in \<open>auto simp: merged_map_def\<close>)
    ultimately show ?thesis
      using h k Some by (simp add: holds_def front_set_def pending_rd_def drop_update_front)
  qed
  moreover have "allocated (insns (front_set k y st) ! x)"
    if "k \<le> x" "x < length (insns st)" "linked_instruction st \<noteq> Some x" for x
    using that y s by (cases "x = k") (simp_all add: front_set_def state_ok_def)
  ultimately show ?thesis using s by (simp add: state_ok_def front_set_def)
qed

text \<open>A result that nobody reads, written to a register that holds nothing.\<close>

lemma correct_garbage:
  assumes c: "correct sem F' m S V" and F: "F' - {i_rd i} \<subseteq> F" and b: "below (i_rd i) m M"
    and d: "i_rd i \<notin> F'" "m (i_rd i) = None" and k: "keeps_memory sem" "pure_func (i_func i)" "pure_func (i_func i')"
    and z: "ZERO \<in> F'" and r: "i_rd i' \<notin> F'" "\<And>v q. m v = Some q \<Longrightarrow> q \<noteq> i_rd i'"
  shows "correct sem F M (i' # S) (i # V)"
  unfolding correct_def Let_def
proof (intro allI impI)
  fix Rv Rp :: regs and Mem
  assume Rz: "Rv ZERO = 0" and s: "sim F M Rv Rp"
  have ex: "\<exists>x. exec_insn sem y (R, Mem) \<in> {(R, Mem), (R(i_rd y := x), Mem)}" if "pure_func (i_func y)" for y and R :: regs
    using that k(1) unfolding exec_insn_def keeps_memory_def Let_def by auto
  obtain R1 R2 where e: "exec_insn sem i (Rv, Mem) = (R1, Mem)" "exec_insn sem i' (Rp, Mem) = (R2, Mem)"
    and R1: "R1 = Rv \<or> (\<exists>x. R1 = Rv(i_rd i := x))" and R2: "R2 = Rp \<or> (\<exists>x. R2 = Rp(i_rd i' := x))"
    using ex [OF k(2), of Rv] ex [OF k(3), of Rp] by blast
  have "sim F' m R1 Rp" using R1 sim_drop [OF s F b d] by auto
  then have "sim F' m R1 R2" using R2 r unfolding sim_def by auto
  moreover have "R1 ZERO = 0" using R1 Rz d(1) z by auto
  ultimately show "snd (exec_insns sem (i' # S) (Rp, Mem)) = snd (exec_insns sem (i # V) (Rv, Mem))
     \<and> sim all_fixed functional_map (fst (exec_insns sem (i # V) (Rv, Mem))) (fst (exec_insns sem (i' # S) (Rp, Mem)))"
    using correctD [OF c, of R1 R2 Mem] by (simp add: e)
qed

text \<open>The fact to keep while the operands of a move that will wait are allocated.\<close>

definition link_fact ::
  "'m rv_semantics \<Rightarrow> reg set \<Rightarrow> reg \<Rightarrow> reg \<Rightarrow> reg \<Rightarrow> insn list \<Rightarrow> (reg \<Rightarrow> reg option) \<Rightarrow> insn list \<Rightarrow> bool" where
  "link_fact sem F d l w V M S \<longleftrightarrow> (\<exists>m. correct sem F m S V \<and> (m w = None \<or> (\<exists>p. m w = Some p \<and> M d = Some p) \<and> l \<noteq> d)
     \<and> (\<forall>v q. v \<noteq> w \<longrightarrow> m v = Some q \<longrightarrow> v \<noteq> d \<and> v \<noteq> l \<and> M v = Some q))"

lemma stable_link_fact: "ZERO \<in> F \<Longrightarrow> stable sem (link_fact sem F d l w V)"
  unfolding stable_def
proof (intro conjI allI impI)
  fix M N :: "reg \<Rightarrow> reg option" and S
  assume "link_fact sem F d l w V M S" and "\<forall>v q. M v = Some q \<longrightarrow> N v = Some q"
  then show "link_fact sem F d l w V N S" unfolding link_fact_def by meson
next
  fix M :: "reg \<Rightarrow> reg option" and xs j a b
  assume z: "ZERO \<in> F" and "link_fact sem F d l w V M (xs[j := a])"
    and "\<forall>R Mem. R ZERO = 0 \<longrightarrow> exec_insn sem b (R, Mem) = exec_insn sem a (R, Mem)"
  then show "link_fact sem F d l w V M (xs[j := b])" unfolding link_fact_def using correct_replace [OF _ z] by meson
qed

lemma link_fact_start:
  "linking sem F d w V M S \<Longrightarrow> M l = None \<Longrightarrow> link_fact sem F d l w V M S"
  unfolding linking_def link_fact_def by (metis not_None_eq)

lemma use_step_linked:
  assumes "linked_instruction st = Some k"
  shows "use_step f k rd x st = (case use_step f k rd x (st\<lparr>linked_instruction := None\<rparr>) of
      Inl e \<Rightarrow> Inl e | Inr (r, s) \<Rightarrow> Inr (r, s\<lparr>linked_instruction := Some k\<rparr>))"
proof -
  have e: "st = st\<lparr>linked_instruction := None\<rparr>\<lparr>linked_instruction := Some k\<rparr>" using assms by simp
  show ?thesis
    using assms e
    by (auto simp: use_step_def andthen_def bnd_def ret_def allocate_use_def lift_res_def allocate_operand_def Let_def
        split: option.split)
qed

lemma use_step_link_reg:
  assumes "use_step f k rd x st = Inr (r, st')" "linked_instruction st = None"
  shows "link_reg st' = link_reg st"
  using assms
  by (auto simp: use_step_def andthen_def bnd_def ret_def allocate_use_def lift_res_def allocate_operand_def Let_def
      split: option.splits if_splits sum.splits)

lemma linked_finish:
  assumes s: "state_ok (link_fact sem F d l (i_rd i) V) F (Suc k) s" and n: "linked_instruction s = None" "link_reg s = l"
    and lv: "vreg_to_preg s l \<noteq> None" "is_virtual l" "l = move_source i" and k: "k < length (insns s)"
    and i: "insn_ok D i" "is_mv i" "i_rd i \<notin> F" "pure_func (i_func i)" "i_rd i \<noteq> ZERO"
    and d: "guest d \<or> is_virtual d" and c: "copies sem" "keeps_memory sem"
    and r: "if i_rs1 i = none_reg then r1 = none_reg else link F (vreg_to_preg s) (i_rs1 i) r1"
      "if i_rs2 i = none_reg then r2 = none_reg else link F (vreg_to_preg s) (i_rs2 i) r2"
      "r1 = none_reg \<or> is_physical r1" "r2 = none_reg \<or> is_physical r2"
  shows "state_ok (\<lambda>M S. correct sem F M S (i # V)) F k
     (front_set k (i\<lparr>i_rd := d, i_rs1 := r1, i_rs2 := r2\<rparr>) (s\<lparr>linked_instruction := Some k\<rparr>))"
proof -
  let ?i = "i\<lparr>i_rd := d, i_rs1 := r1, i_rs2 := r2\<rparr>" and ?m = "vreg_to_preg s" and ?S = "drop (Suc k) (insns s)" and ?w = "i_rd i"
  have m: "map_ok F (avail_physregs s) ?m" using s by (simp add: state_ok_def)
  note z = map_okD(1) [OF m] and ok = insn_ok_simps [OF i(1)]
  have np: "?m x = None" if "is_physical x" for x
    using map_okD(4) [OF m, of x] that kinds_of_reg by (cases "?m x") auto
  have Zp: "is_physical ZERO" using fixed_physical [of ZERO] by (simp add: all_fixed_def)
  have lnk: "x = ZERO \<longleftrightarrow> y = ZERO" if "link F ?m x y" for x y
    using that np [OF Zp] map_okD(6) [OF m] z by (auto simp: link_def)
  have nn: "y \<noteq> none_reg" if "link F ?m x y" for x y
    using that map_okD(3,5) [OF m] fixed_physical kinds_of_reg(3) by (auto simp: link_def physical_less)
  have rd2: "i_type i = I_RdRs1Rs2 \<longrightarrow> i_rs2 i \<noteq> none_reg"
  proof
    assume "i_type i = I_RdRs1Rs2"
    then have "operand_ok D (i_rs2 i)" using ok(8) by (simp add: reads2_def)
    then show "i_rs2 i \<noteq> none_reg" using kinds_of_reg fixed_physical by (auto simp: operand_ok_def always_fixed_def all_fixed_def)
  qed
  have r1z: "i_rs1 i = ZERO \<longleftrightarrow> r1 = ZERO" and r2z: "i_rs2 i = ZERO \<longleftrightarrow> r2 = ZERO"
    using r(1,2) lnk ZERO_not_none by (metis, metis)
  have r2n: "i_rs2 i = none_reg \<longleftrightarrow> r2 = none_reg" using r(2) nn by metis
  have mv: "is_mv ?i" using i(2) r1z r2z by (simp add: is_mv_def)
  have wm: "waiting_move ?i"
    using mv ok(9) rd2 d r(3,4) r1z r2n by (simp add: waiting_move_def move_shape_def)
  obtain p where p: "?m l = Some p" using lv(1) by auto
  have "link_fact sem F d l ?w V ?m ?S" using s n by (simp add: state_ok_def holds_def)
  then obtain q where q: "correct sem F q ?S V" "q ?w = None \<or> (\<exists>p. q ?w = Some p \<and> ?m d = Some p) \<and> l \<noteq> d"
    "\<And>v p. v \<noteq> ?w \<Longrightarrow> q v = Some p \<Longrightarrow> v \<noteq> d \<and> v \<noteq> l \<and> ?m v = Some p"
    unfolding link_fact_def by blast
  have bA: "below ?w q (?m(d := None))" and bB: "below ?w q (merged_map ?m d l)"
    using q(3) by (auto simp: below_def merged_map_def)
  have F: "F - {?w} \<subseteq> F" by blast
  have A: "correct sem F (?m(d := None)) (wait ?m ?i # ?S) (i # V)"
  proof (cases "?m d")
    case None
    then have "q ?w = None" using q(2) by auto
    then show ?thesis
      using None by (intro correct_dead [OF q(1) F bA i(3) _ c(2) i(4) z]) (simp_all add: wait_def is_dead_def kill_def)
  next
    case (Some p')
    have w: "wait ?m ?i = i\<lparr>i_rd := p', i_rs1 := r1, i_rs2 := r2\<rparr>" using Some by (simp add: wait_def)
    have p'F: "p' \<notin> F" using map_okD(6) [OF m Some] .
    have free: "q v = Some u \<Longrightarrow> v \<noteq> ?w \<Longrightarrow> u \<noteq> p'" for v u
      using q(3) [of v u] map_okD(7) [OF m Some, of v] by auto
    show ?thesis
    proof (cases "q ?w = None")
      case True
      then show ?thesis unfolding w
        by (intro correct_garbage [OF q(1) F bA i(3) True c(2) i(4) _ z])
          (use i(4) p'F free in \<open>auto, metis option.distinct(1)\<close>)
    next
      case False
      then have qw: "q ?w = Some p'" and ld: "l \<noteq> d" using q(2) Some by auto
      have hr: "has_rd i" using i(2) by (auto simp: is_mv_def has_rd_def)
      have src: "x \<noteq> d" if "x = i_rs1 i \<and> reads1 i \<or> x = i_rs2 i \<and> reads2 i" for x
      proof -
        have "x = ZERO \<or> x = l"
          using that i(2) ok(9) lv(2,3) rd2 kinds_of_reg(2) [OF lv(2)] Zp kinds_of_reg(5)
          by (auto simp: is_mv_def move_source_def reads2_def move_shape_def split: if_splits)
        then show ?thesis using ld d Zp kinds_of_reg by auto
      qed
      have lk: "link F (?m(d := None)) x y" if "link F ?m x y" "x \<noteq> d" for x y
        using that by (auto simp: link_def)
      have o1: "i_rs1 i \<noteq> none_reg" if "reads1 i"
        using ok(7) [OF that] kinds_of_reg fixed_physical by (auto simp: operand_ok_def always_fixed_def all_fixed_def)
      have o2: "i_rs2 i \<noteq> none_reg" if "reads2 i"
        using ok(8) [OF that] kinds_of_reg fixed_physical by (auto simp: operand_ok_def always_fixed_def all_fixed_def)
      show ?thesis unfolding w
      proof (rule correct_step [OF q(1) z z F bA _ ok(3)])
        show "if has_rd i then target F q ?w (i_rd (i\<lparr>i_rd := p', i_rs1 := r1, i_rs2 := r2\<rparr>)) else ?w \<notin> F \<and> q ?w = None"
          using hr i(3) qw p'F free by (auto simp: target_def)
        show "link F (?m(d := None)) (i_rs1 i) (i_rs1 (i\<lparr>i_rd := p', i_rs1 := r1, i_rs2 := r2\<rparr>))" if "reads1 i"
          using lk r(1) o1 [OF that] src that by auto
        show "link F (?m(d := None)) (i_rs2 i) (i_rs2 (i\<lparr>i_rd := p', i_rs1 := r1, i_rs2 := r2\<rparr>))" if "reads2 i"
          using lk r(2) o2 [OF that] src that by auto
      qed (simp add: same_op_def)
    qed
  qed
  have B: "correct sem F (merged_map ?m d l) (kill ?i # ?S) (i # V)"
  proof (cases "q ?w = None")
    case True
    then show ?thesis
      by (intro correct_dead [OF q(1) F bB i(3) _ c(2) i(4) z]) (simp_all add: is_dead_def kill_def)
  next
    case False
    then obtain p' where p': "q ?w = Some p'" "?m d = Some p'" "l \<noteq> d" using q(2) by auto
    show ?thesis unfolding correct_def Let_def
    proof (intro allI impI)
      fix Rv Rp :: regs and Mem
      assume Rz: "Rv ZERO = 0" and sm: "sim F (merged_map ?m d l) Rv Rp"
      have e: "exec_insn sem i (Rv, Mem) = (Rv(?w := Rv l), Mem)"
        using exec_move [where R = Rv and M = Mem, OF i(2) ok(9) rd2 c(1) Rz] i(5) lv(3) by simp
      have k: "exec_insn sem (kill ?i) y = y" for y by (simp add: exec_insn_def kill_def)
      have "sim F q (Rv(?w := Rv l)) Rp" unfolding sim_def
      proof (intro conjI ballI allI impI)
        fix u assume "u \<in> F"
        then show "Rp u = (Rv(?w := Rv l)) u" using sm i(3) by (auto simp: sim_def)
      next
        fix v u assume v: "q v = Some u"
        show "Rp u = (Rv(?w := Rv l)) v"
        proof (cases "v = ?w")
          case True
          then have "merged_map ?m d l l = Some u" using v p' by (simp add: merged_map_def)
          then show ?thesis using sm True by (auto simp: sim_def)
        next
          case False
          then have "merged_map ?m d l v = Some u" using v bB by (auto simp: below_def)
          then show ?thesis using sm False by (auto simp: sim_def)
        qed
      qed
      moreover have "(Rv(?w := Rv l)) ZERO = 0" using Rz i(5) by simp
      ultimately show "snd (exec_insns sem (kill ?i # ?S) (Rp, Mem)) = snd (exec_insns sem (i # V) (Rv, Mem))
         \<and> sim all_fixed functional_map (fst (exec_insns sem (i # V) (Rv, Mem))) (fst (exec_insns sem (kill ?i # ?S) (Rp, Mem)))"
        using correctD [OF q(1), of "Rv(?w := Rv l)" Rp Mem] by (simp add: e k)
    qed
  qed
  let ?s = "front_set k ?i (s\<lparr>linked_instruction := Some k\<rparr>)"
  have nth: "insns ?s ! k = ?i" using k by (simp add: front_set_def)
  have upd: "drop k ((insns ?s)[k := y]) = y # ?S" for y using k by (simp add: front_set_def drop_update_front)
  have pr: "pending_rd ?s k = d" by (simp add: pending_rd_def nth)
  have es: "vreg_to_preg ?s = ?m" "linked_instruction ?s = Some k" "link_reg ?s = l"
    "length (insns ?s) = length (insns s)" by (simp_all add: front_set_def n)
  have "holds (\<lambda>M S. correct sem F M S (i # V)) k ?s"
    unfolding holds_def es option.case nth pr upd using A B wm lv k by simp
  moreover have "allocated (insns ?s ! x)" if "k \<le> x" "x < length (insns ?s)" "linked_instruction ?s \<noteq> Some x" for x
    using that s n by (auto simp: front_set_def state_ok_def)
  ultimately show ?thesis using m by (auto simp: state_ok_def front_set_def)
qed

section \<open>The invariant of the scan\<close>

definition inv ::
  "'m rv_semantics \<Rightarrow> insn list \<Rightarrow> reg set \<Rightarrow> nat \<Rightarrow> alloc_state \<Rightarrow> bool" where
  "inv sem is F k st \<longleftrightarrow> state_ok (\<lambda>M S. correct sem F M S (drop k is)) F k st
     \<and> length (insns st) = length is \<and> take k (insns st) = take k is
     \<and> live st \<subseteq> i_rd ` set (take k is)
     \<and> (linked_instruction st \<noteq> None \<longrightarrow> link_reg st \<in> i_rd ` set (take k is))"

lemma take_nth: "take (Suc k) xs = take (Suc k) ys \<Longrightarrow> k < length xs \<Longrightarrow> k < length ys \<Longrightarrow> xs ! k = ys ! k \<and> take k xs = take k ys"
  by (simp add: take_Suc_conv_app_nth)

lemma operand_live: "operand_ok D x \<Longrightarrow> is_virtual x \<Longrightarrow> x \<in> D"
proof -
  assume x: "operand_ok D x" "is_virtual x"
  have "x \<notin> always_fixed" using x(2) kinds_of_reg(2) fixed_physical [of x] by (auto simp: always_fixed_def all_fixed_def)
  then show "x \<in> D" using x kinds_of_reg(8) [of x] by (simp add: operand_ok_def)
qed

lemma uses_ok:
  assumes s: "state_ok \<Phi> F (Suc k) st" and st: "stable sem \<Phi>" and c: "copies sem"
    and x1: "x1 = none_reg \<or> operand_ok D x1" and x2: "x2 = none_reg \<or> operand_ok D x2"
    and r1: "use_step flush_linked k rd x1 st = Inr (r1, st1)" and r2: "use_step flush_linked k rd x2 st1 = Inr (r2, st2)"
  shows "state_ok \<Phi> F (Suc k) st2" "same_front (Suc k) st st2" "r1 = none_reg \<or> is_physical r1" "r2 = none_reg \<or> is_physical r2"
    "if x1 = none_reg then r1 = none_reg else link F (vreg_to_preg st2) x1 r1"
    "if x2 = none_reg then r2 = none_reg else link F (vreg_to_preg st2) x2 r2"
    "linked_instruction st2 = None \<or> linked_instruction st2 = linked_instruction st \<and> link_reg st2 = link_reg st"
    "\<And>j. linked_instruction st2 = Some j \<Longrightarrow> x1 \<noteq> pending_rd st2 j \<and> x1 \<noteq> link_reg st2 \<and> x2 \<noteq> pending_rd st2 j \<and> x2 \<noteq> link_reg st2"
    "live st2 \<subseteq> live st \<union> {x1, x2}"
proof -
  note a = use_step_ok [OF s st c x1 r1]
  note b = use_step_ok [OF a(1) st c x2 r2]
  have keep: "link F (vreg_to_preg st2) x1 r1" if "link F (vreg_to_preg st1) x1 r1"
    using that a(6) b(8) by (auto simp: link_def)
  show "state_ok \<Phi> F (Suc k) st2" "same_front (Suc k) st st2" "r1 = none_reg \<or> is_physical r1" "r2 = none_reg \<or> is_physical r2"
    by (fact b(1)) (use a(2) b(2) in \<open>rule same_front_trans\<close>, fact a(3), fact b(3))
  show "if x1 = none_reg then r1 = none_reg else link F (vreg_to_preg st2) x1 r1" using a(4) keep by (simp split: if_splits)
  show "if x2 = none_reg then r2 = none_reg else link F (vreg_to_preg st2) x2 r2" using b(4) by (simp split: if_splits)
  show "linked_instruction st2 = None \<or> linked_instruction st2 = linked_instruction st \<and> link_reg st2 = link_reg st"
    using a(5) b(5) by auto
  show "x1 \<noteq> pending_rd st2 j \<and> x1 \<noteq> link_reg st2 \<and> x2 \<noteq> pending_rd st2 j \<and> x2 \<noteq> link_reg st2"
    if "linked_instruction st2 = Some j" for j
    using that b(5) a(6) [of j] b(6) [OF that] by (auto simp: pending_rd_def)
  show "live st2 \<subseteq> live st \<union> {x1, x2}" using a(7) b(7) by blast
qed

lemma same_front_take:
  assumes "same_front (Suc k) a b"
  shows "take k (insns b) = take k (insns a)" "length (insns b) = length (insns a)"
proof -
  have "take k (take (Suc k) (insns b)) = take k (take (Suc k) (insns a))" using assms by (simp add: same_front_def)
  then show "take k (insns b) = take k (insns a)" by (simp add: min_def)
  show "length (insns b) = length (insns a)" using assms by (simp add: same_front_def)
qed

lemma front_set_take:
  "take k (insns (front_set k y st)) = take k (insns st)" "length (insns (front_set k y st)) = length (insns st)"
  by (simp_all add: front_set_def)

lemma body_ok:
  assumes I: "inv sem is F (Suc k) st" and k: "k < length is" and ok: "insn_ok (i_rd ` set (take k is)) (is ! k)"
    and A: "i_rd (is ! k) \<in> {A0, A1} \<Longrightarrow> i_rd (is ! k) \<in> F" and c: "copies sem" "keeps_memory sem"
    and r: "allocate_instruction k st = Inr ((), st')"
  shows "inv sem is (F - ({A0, A1} \<inter> {i_rd (is ! k)})) k st'"
proof -
  let ?i = "is ! k" and ?D = "i_rd ` set (take k is)"
  let ?F = "F - ({A0, A1} \<inter> {i_rd ?i})"
  let ?V = "drop (Suc k) is"
  have s: "state_ok (\<lambda>M S. correct sem F M S ?V) F (Suc k) st" and len: "length (insns st) = length is"
    and lv: "live st \<subseteq> insert (i_rd ?i) ?D" and lr: "linked_instruction st \<noteq> None \<Longrightarrow> link_reg st \<in> insert (i_rd ?i) ?D"
    and fr: "insns st ! k = ?i" "take k (insns st) = take k is"
    using I k take_nth [of k "insns st" "is"] by (auto simp: inv_def take_Suc_conv_app_nth)
  note okk = insn_ok_simps [OF ok]
  have V: "?i # ?V = drop k is" using k by (simp add: Cons_nth_drop_Suc)
  obtain i2 st2 where r2: "rd_step flush_linked k True ?i st = Inr (i2, st2)"
    and rest: "(if is_dead i2 then (\<lambda>st1. Inr ((), st1\<lparr>insns := (insns st1)[k := i2]\<rparr>))
        else
          andthen (\<lambda>st1. Inr ((), st1\<lparr>insns := (insns st1)[k := i2]\<rparr>))
            (bnd (use_step flush_linked k (i_rd i2) (i_rs1 i2)) (\<lambda>r1.
             bnd (use_step flush_linked k (i_rd i2) (i_rs2 i2)) (\<lambda>r2 st1.
               Inr ((), st1\<lparr>insns := (insns st1)[k := kill_move (i2\<lparr>i_rs1 := r1, i_rs2 := r2\<rparr>)]\<rparr>))))) st2 = Inr ((), st')"
    using r okk(2) fr(1)
    by (auto simp: allocate_instruction_def allocate_body_def andthen_def bnd_def ret_def split: sum.splits)
  have virt: "x \<in> ?D" if "is_virtual x" "x = i_rs1 ?i \<or> x = i_rs2 ?i" for x
    using that okk(5,6) operand_live kinds_of_reg(5) by metis
  have live_D: "live s \<subseteq> ?D" if "live s \<subseteq> live st - {i_rd ?i} \<union> {i_rs1 ?i, i_rs2 ?i}" for s
  proof
    fix x assume x: "x \<in> live s"
    then have "is_virtual x" by (simp add: live_def)
    then show "x \<in> ?D" using that lv virt x by blast
  qed
  consider (settled) "settled sem ?F k ?i ?V st i2 st2" | (linked) "i_rd ?i \<notin> {A0, A1}" "linked_up sem F k ?i ?V st i2 st2"
    using rd_step_ok [OF s c(1) ok A r2] by blast
  then show ?thesis
  proof cases
    case settled
    have S: "state_ok (\<lambda>M S. ready sem ?F M ?i i2 S ?V) ?F (Suc k) st2" and f2: "same_front (Suc k) st st2"
      and i2: "is_dead i2 \<or> (\<exists>p. (p = none_reg \<or> is_physical p) \<and> i2 = ?i\<lparr>i_rd := p\<rparr>)"
      and l2: "live st2 \<subseteq> live st - {i_rd ?i} \<union> {i_rs1 ?i, i_rs2 ?i}"
      and k2: "linked_instruction st2 = None \<or> linked_instruction st2 = linked_instruction st \<and> link_reg st2 = link_reg st \<and> link_reg st \<noteq> i_rd ?i"
      using settled unfolding settled_def by blast+
    have lk2: "linked_instruction st2 \<noteq> None \<longrightarrow> link_reg st2 \<in> ?D"
      using k2 lr by (metis insertE)
    have len2: "k < length (insns st2)" using f2 len k by (simp add: same_front_def)
    have z: "ZERO \<in> ?F" using S map_okD(1) by (auto simp: state_ok_def)
    show ?thesis
    proof (cases "is_dead i2")
      case True
      then have e: "st' = front_set k i2 st2" using rest by (simp add: front_set_def)
      have "state_ok (\<lambda>M S. correct sem ?F M S (?i # ?V)) ?F k (front_set k i2 st2)"
        by (rule finish [OF S len2]) (use True in \<open>auto simp: allocated_def intro: ready_dead c\<close>)
      moreover have "live st' \<subseteq> ?D" unfolding e state_ok_front_set(2) [OF S] by (rule live_D [OF l2])
      moreover have "take k (insns st') = take k is" "length (insns st') = length is"
        using same_front_take [OF f2] fr(2) len by (simp_all add: e front_set_take)
      moreover have "linked_instruction st' \<noteq> None \<longrightarrow> link_reg st' \<in> ?D" using lk2 by (simp add: e front_set_def)
      ultimately show ?thesis by (simp add: inv_def e V)
    next
      case False
      then obtain p where p: "p = none_reg \<or> is_physical p" "i2 = ?i\<lparr>i_rd := p\<rparr>" using i2 by blast
      let ?st3 = "front_set k i2 st2"
      obtain r1 st4 r2' st5 where u: "use_step flush_linked k (i_rd i2) (i_rs1 ?i) ?st3 = Inr (r1, st4)"
        "use_step flush_linked k (i_rd i2) (i_rs2 ?i) st4 = Inr (r2', st5)"
        and e: "st' = front_set k (kill_move (i2\<lparr>i_rs1 := r1, i_rs2 := r2'\<rparr>)) st5"
        using rest False p(2) by (auto simp: andthen_def bnd_def front_set_def split: sum.splits)
      note S3 = state_ok_front_set [OF S]
      note U = uses_ok [OF S3(1) stable_ready c(1) okk(5,6) u]
      let ?i3 = "i2\<lparr>i_rs1 := r1, i_rs2 := r2'\<rparr>"
      have len5: "k < length (insns st5)" using U(2) len2 by (simp add: same_front_def front_set_def)
      have m: "map_ok ?F (avail_physregs st5) (vreg_to_preg st5)" using U(1) by (simp add: state_ok_def)
      have nz: "y \<noteq> none_reg \<and> (x = ZERO \<longleftrightarrow> y = ZERO)" if "link ?F (vreg_to_preg st5) x y" for x y
      proof -
        have "vreg_to_preg st5 ZERO = None"
          using map_okD(4) [OF m, of ZERO] kinds_of_reg fixed_physical [of ZERO]
          by (cases "vreg_to_preg st5 ZERO") (auto simp: all_fixed_def)
        moreover have "vreg_to_preg st5 x \<noteq> Some ZERO" using map_okD(6) [OF m, of x ZERO] z by blast
        ultimately show ?thesis using that map_okD(3,5) [OF m] fixed_physical kinds_of_reg(3)
          by (auto simp: link_def physical_less)
      qed
      have opn: "x \<noteq> none_reg" if "operand_ok ?D x" for x
        using that kinds_of_reg fixed_physical by (auto simp: operand_ok_def always_fixed_def all_fixed_def)
      have sh: "move_shape ?i3" "i_type ?i3 = I_RdRs1Rs2 \<longrightarrow> i_rs2 ?i3 \<noteq> none_reg"
        using okk(9) U(5,6) nz opn okk(8) ZERO_not_none
        by (auto simp: move_shape_def p(2) reads2_def split: if_splits)
      have al: "allocated (kill_move ?i3)"
        using U(3,4) p by (auto simp: allocated_def kill_move_def Let_def is_dead_def kill_def)
      have "state_ok (\<lambda>M S. correct sem ?F M S (?i # ?V)) ?F k (front_set k (kill_move ?i3) st5)"
      proof (rule finish [OF U(1) len5 al])
        fix M S
        assume rd: "ready sem ?F M ?i i2 S ?V" and M: "\<And>v q. vreg_to_preg st5 v = Some q \<Longrightarrow>
          (\<And>j. linked_instruction st5 = Some j \<Longrightarrow> v \<noteq> pending_rd st5 j \<and> v \<noteq> link_reg st5) \<Longrightarrow> M v = Some q"
        have lk1: "link ?F M (i_rs1 ?i) r1" if "i_rs1 ?i \<noteq> none_reg"
          using U(5) that U(8) M by (auto simp: link_def)
        have lk2: "link ?F M (i_rs2 ?i) r2'" if "i_rs2 ?i \<noteq> none_reg"
          using U(6) that U(8) M by (auto simp: link_def)
        have "correct sem ?F M (?i3 # S) (?i # ?V)"
          by (rule ready_step [OF rd False z _ _ okk(3)])
            (use lk1 lk2 opn okk(7,8) p(2) in \<open>auto simp: same_op_def\<close>)
        then have "correct sem ?F M ((?i3 # S)[0 := ?i3]) (?i # ?V)" by simp
        then have "correct sem ?F M ((?i3 # S)[0 := kill_move ?i3]) (?i # ?V)"
          by (rule correct_replace [OF _ z]) (rule exec_kill_move [OF sh c(1)])
        then show "correct sem ?F M (kill_move ?i3 # S) (?i # ?V)" by simp
      qed
      moreover have "live st' \<subseteq> ?D"
        unfolding e state_ok_front_set(2) [OF U(1)]
        by (rule live_D) (use U(9) l2 in \<open>auto simp: S3(2)\<close>)
      moreover have "take k (insns st') = take k is" "length (insns st') = length is"
        using same_front_take [OF f2] same_front_take [OF U(2)] fr(2) len by (simp_all add: e front_set_take)
      moreover have "linked_instruction st' \<noteq> None \<longrightarrow> link_reg st' \<in> ?D"
        using U(7) lk2 by (auto simp: e front_set_def)
      ultimately show ?thesis by (simp add: inv_def e V)
    qed
  next
    case linked
    then have F: "?F = F" by auto
    obtain d where d: "i2 = ?i\<lparr>i_rd := d\<rparr>" "guest d \<or> is_virtual d"
      and w: "i_rd ?i \<notin> F" "pure_func (i_func ?i)" and mv: "is_mv ?i" "is_virtual (move_source ?i)"
      and n2: "vreg_to_preg st2 (move_source ?i) = None" "linked_instruction st2 = Some k" "link_reg st2 = move_source ?i"
      and f2: "same_front (Suc k) st st2"
      and S: "state_ok (linking sem F d (i_rd ?i) ?V) F (Suc k) (st2\<lparr>linked_instruction := None\<rparr>)"
      and l2: "live (st2\<lparr>linked_instruction := None\<rparr>) \<subseteq> live st - {i_rd ?i} \<union> {d}"
      using linked(2) unfolding linked_up_def by blast
    let ?l = "move_source ?i" and ?s0 = "st2\<lparr>linked_instruction := None\<rparr>"
    have nd: "\<not> is_dead i2" using okk(1) by (simp add: d(1) rd_update_simps)
    have z: "ZERO \<in> F" using S map_okD(1) by (auto simp: state_ok_def)
    have len2: "k < length (insns st2)" using f2 len k by (simp add: same_front_def)
    have S0: "state_ok (link_fact sem F d ?l (i_rd ?i) ?V) F (Suc k) ?s0"
      using S n2(1) unfolding state_ok_def holds_def by (auto intro: link_fact_start)
    note S3 = state_ok_front_set [OF S0, of i2]
    let ?s3 = "front_set k i2 ?s0"
    obtain r1 st4 r2' st5 where u: "use_step flush_linked k (i_rd i2) (i_rs1 ?i) (front_set k i2 st2) = Inr (r1, st4)"
        "use_step flush_linked k (i_rd i2) (i_rs2 ?i) st4 = Inr (r2', st5)"
        and e: "st' = front_set k (kill_move (i2\<lparr>i_rs1 := r1, i_rs2 := r2'\<rparr>)) st5"
      using rest nd d(1) by (auto simp: andthen_def bnd_def front_set_def split: sum.splits)
    have lk: "linked_instruction (front_set k i2 st2) = Some k" "(front_set k i2 st2)\<lparr>linked_instruction := None\<rparr> = ?s3"
      using n2 by (simp_all add: front_set_def)
    obtain s4 where s4: "use_step flush_linked k (i_rd i2) (i_rs1 ?i) ?s3 = Inr (r1, s4)" "st4 = s4\<lparr>linked_instruction := Some k\<rparr>"
      using u(1) unfolding use_step_linked [OF lk(1)] lk(2) by (auto split: sum.splits)
    have n4: "linked_instruction s4 = None"
      using use_step_ok(5) [OF S3(1) stable_link_fact [OF z] c(1) okk(5) s4(1)] by (auto simp: front_set_def)
    have e4: "st4\<lparr>linked_instruction := None\<rparr> = s4" using n4 by (simp add: s4(2))
    have lk4: "linked_instruction st4 = Some k" by (simp add: s4(2))
    obtain s5 where s5: "use_step flush_linked k (i_rd i2) (i_rs2 ?i) s4 = Inr (r2', s5)" "st5 = s5\<lparr>linked_instruction := Some k\<rparr>"
      using u(2) unfolding use_step_linked [OF lk4] e4 by (auto split: sum.splits)
    note U = uses_ok [OF S3(1) stable_link_fact [OF z] c(1) okk(5,6) s4(1) s5(1)]
    have n5: "linked_instruction s5 = None" using U(7) by (auto simp: front_set_def)
    let ?i3 = "i2\<lparr>i_rs1 := r1, i_rs2 := r2'\<rparr>"
    have dnp: "\<not> is_physical d" using d(2) kinds_of_reg by blast
    then have km: "kill_move ?i3 = ?i3" by (simp add: kill_move_def Let_def d(1))
    have len5: "k < length (insns s5)" using U(2) len2 by (simp add: same_front_def front_set_def)
    have lr5: "link_reg s5 = ?l"
      using use_step_link_reg [OF s4(1)] use_step_link_reg [OF s5(1) n4] n2(3) by (simp add: front_set_def)
    have src: "?l = i_rs1 ?i \<or> ?l = i_rs2 ?i" by (simp add: move_source_def)
    have lF: "?l \<notin> F"
    proof -
      have "map_ok F (avail_physregs s5) (vreg_to_preg s5)" using U(1) by (simp add: state_ok_def)
      then show ?thesis using map_okD(3) mv(2) kinds_of_reg(2) fixed_physical by blast
    qed
    have ln: "?l \<noteq> none_reg" using mv(2) kinds_of_reg(5) by auto
    have lv5: "vreg_to_preg s5 ?l \<noteq> None"
      using src U(5,6) lF ln by (auto simp: link_def split: if_splits)
    have wz: "i_rd ?i \<noteq> ZERO" using w(1) z by auto
    have e5: "st' = front_set k (?i\<lparr>i_rd := d, i_rs1 := r1, i_rs2 := r2'\<rparr>) (s5\<lparr>linked_instruction := Some k\<rparr>)"
      using e km s5(2) d(1) by simp
    have S5: "state_ok (\<lambda>M S. correct sem F M S (?i # ?V)) F k st'" unfolding e5
      by (rule linked_finish [OF U(1) n5 lr5 lv5 mv(2) refl len5 ok mv(1) w wz d(2) c U(5,6,3,4)])
    have "live st' \<subseteq> live s5 - {d}"
      using len5 n5 by (auto simp: e5 live_def pending_rd_def front_set_def)
    then have "live st' \<subseteq> ?D"
      using live_D [of st'] U(9) l2 S3(2) by blast
    moreover have "take k (insns st') = take k is" "length (insns st') = length is"
      using same_front_take [OF f2] same_front_take [OF U(2)] fr(2) len by (simp_all add: e5 front_set_take)
    moreover have "link_reg st' \<in> ?D"
      using virt [OF mv(2) src] lr5 by (simp add: e5 front_set_def)
    ultimately show ?thesis using S5 unfolding F by (simp add: inv_def V)
  qed
qed

end
