(* ===== verification/Riscv_Allocation_Room.thy ===== *)
theory Riscv_Allocation_Room
  imports Riscv_Allocation
begin

text \<open>
  The allocator does not spill: it throws when no register is free.  The allocatable registers
  are free or mapped at every moment, so a program with at most 17 virtual registers is always
  allocated, whatever its control flow.
\<close>

section \<open>Free or mapped\<close>

definition pool :: "reg set" where
  "pool = {3, 5, 6, 7, 9, 12, 13, 14, 15, 24, 25, 26, 27, 28, 29, 30, 31}"

definition covered :: "alloc_state \<Rightarrow> bool" where
  "covered st \<longleftrightarrow> (\<forall>p\<in>pool. bit (avail_physregs st) (unat p) \<or> (\<exists>v. vreg_to_preg st v = Some p))"

definition known :: "reg set \<Rightarrow> reg \<Rightarrow> bool" where
  "known V r \<longleftrightarrow> r = none_reg \<or> is_physical r \<or> guest r \<or> r \<in> V"

definition operands_known :: "reg set \<Rightarrow> insn \<Rightarrow> bool" where
  "operands_known V i \<longleftrightarrow> known V (i_rd i) \<and> known V (i_rs1 i) \<and> known V (i_rs2 i)"

definition mapped :: "reg set \<Rightarrow> (reg \<Rightarrow> reg option) \<Rightarrow> bool" where
  "mapped V m \<longleftrightarrow> (\<forall>v. guest v \<longrightarrow> m v = Some (v - 16))
     \<and> (\<forall>v p. m v = Some p \<longrightarrow> (guest v \<or> v \<in> V) \<and> p < 32)"

definition room :: "reg set \<Rightarrow> nat \<Rightarrow> alloc_state \<Rightarrow> bool" where
  "room V n st \<longleftrightarrow> length (insns st) = n \<and> covered st \<and> mapped V (vreg_to_preg st) \<and> list_all (operands_known V) (insns st)
     \<and> (\<forall>j. linked_instruction st = Some j \<longrightarrow>
         j < n \<and> link_reg st \<in> V \<and> \<not> is_physical (i_rd (insns st ! j)))"

text \<open>A program that returns, from every state with room for \<open>V\<close>, and keeps it.\<close>

definition returns :: "reg set \<Rightarrow> nat \<Rightarrow> (alloc_state, 'a) prog \<Rightarrow> ('a \<Rightarrow> bool) \<Rightarrow> bool" where
  "returns V n f Q \<longleftrightarrow> (\<forall>st. room V n st \<longrightarrow>
     (\<exists>r st'. f st = Inr (r, st') \<and> room V n st' \<and> linked_instruction st' \<in> {None, linked_instruction st} \<and> Q r))"

definition small :: "reg set \<Rightarrow> bool" where
  "small V \<longleftrightarrow> finite V \<and> card V \<le> 17 \<and> (\<forall>v\<in>V. is_virtual v)"

lemma returns_ret: "Q r \<Longrightarrow> returns V n (ret r) Q"
  by (simp add: returns_def ret_def)

lemma returns_bnd:
  "returns V n f P \<Longrightarrow> (\<And>r. P r \<Longrightarrow> returns V n (g r) Q) \<Longrightarrow> returns V n (bnd f g) Q"
  unfolding returns_def bnd_def by fastforce

lemma returns_andthen:
  "returns V n f P \<Longrightarrow> returns V n g Q \<Longrightarrow> returns V n (andthen f g) Q"
  unfolding andthen_def by (erule returns_bnd) simp

lemma returns_mono: "returns V n f P \<Longrightarrow> (\<And>r. P r \<Longrightarrow> Q r) \<Longrightarrow> returns V n f Q"
  unfolding returns_def by blast

lemma returnsD:
  assumes "returns V n f Q" "room V n st"
  obtains r st' where "f st = Inr (r, st')" "room V n st'" "linked_instruction st' \<in> {None, linked_instruction st}" "Q r"
  using assms unfolding returns_def by blast

lemma returns_unit:
  assumes "returns V n f Q" "room V n st"
  shows "\<exists>st'. f st = Inr ((), st') \<and> room V n st' \<and> linked_instruction st' \<in> {None, linked_instruction st}"
  using assms unfolding returns_def by auto

section \<open>Steps\<close>

lemma V_kinds:
  assumes "small V" "v \<in> V"
  shows "is_virtual v" "\<not> guest v" "\<not> is_physical v" "\<not> is_functional v" "v \<noteq> none_reg"
  using assms kinds_of_reg unfolding small_def by blast+

lemma unat_pool: "p \<in> pool \<Longrightarrow> p < 32" and pool_card: "card pool = 17"
  by (auto simp: pool_def)

lemma guest_not_pool: "guest v \<Longrightarrow> v - 16 \<notin> pool \<and> v - 16 < 32 \<and> v - 16 \<notin> {A0, A1}"
  unfolding guest_def FUNCTIONAL_BASE_def pool_def by (auto simp: rv_consts) (unat_arith+)?

lemma free_register:
  assumes V: "small V" and st: "covered st" "mapped V (vreg_to_preg st)" and v: "v \<in> V" "vreg_to_preg st v = None"
  shows "\<exists>a. a < 32 \<and> bit (avail_physregs st) a"
proof (rule ccontr)
  let ?m = "vreg_to_preg st"
  assume n: "\<not> ?thesis"
  have "p \<in> (\<lambda>v. the (?m v)) ` (V - {v})" if p: "p \<in> pool" for p
  proof -
    have "unat p < 32" using unat_pool [OF p] by (simp add: word_less_nat_alt)
    then obtain u where u: "?m u = Some p" using st(1) p n unfolding covered_def by blast
    have "\<not> guest u" using u guest_not_pool [of u] p st(2) by (auto simp: mapped_def)
    then have "u \<in> V - {v}" using u v st(2) by (auto simp: mapped_def)
    then show ?thesis using u by force
  qed
  then have "card pool \<le> card (V - {v})" using V by (meson small_def finite_Diff surj_card_le subsetI)
  also have "\<dots> < 17" using V v(1) card_Diff1_less [of V v] unfolding small_def by linarith
  finally show False by (simp add: pool_card)
qed

lemma choose_register_less:
  assumes "a < 32" "bit av a"
  shows "choose_register av r < 32"
proof -
  have mem: "i \<in> set xs" if "filter P xs = i # is" for P xs and i :: nat and "is"
    using arg_cong [OF that, of set] by auto
  have "find_next av n < 32 \<or> find_next av n = 32" for n
    using mem by (fastforce simp: find_next_def split: list.split)
  moreover have "find_first av < 32"
  proof -
    have "filter (bit av) [0..<32] \<noteq> []" using assms by (auto simp: filter_empty_conv)
    then show ?thesis using mem by (fastforce simp: find_first_def split: list.split)
  qed
  moreover have "unat r < 32" if "bit av (unat r)" using bit_imp_le_length [OF that] by simp
  ultimately show ?thesis by (auto simp: choose_register_def)
qed

lemma pool_less: "p \<in> pool \<Longrightarrow> unat p < 32"
  using unat_pool by (simp add: word_less_nat_alt)

lemma covered_release:
  assumes "covered st" "vreg_to_preg st v = Some p"
  shows "covered (release v p st)"
proof -
  have "bit (set_bit (unat p) (avail_physregs st)) (unat q) \<or> (\<exists>u. ((vreg_to_preg st)(v := None)) u = Some q)"
    if q: "q \<in> pool" for q
  proof (cases "q = p")
    case True
    then show ?thesis using pool_less [OF q] by (simp add: bit_set_bit_iff)
  next
    case False
    then have "bit (avail_physregs st) (unat q) \<or> (\<exists>u. u \<noteq> v \<and> vreg_to_preg st u = Some q)"
      using assms q unfolding covered_def by (metis option.inject)
    then show ?thesis by (auto simp: bit_set_bit_iff)
  qed
  then show ?thesis by (simp add: covered_def release_def)
qed

lemma room_release:
  assumes "room V n st" "vreg_to_preg st v = Some p" "v \<in> V" "small V"
  shows "room V n (release v p st)"
  using assms covered_release [OF _ assms(2)] V_kinds [OF assms(4,3)]
  by (auto simp: room_def release_def mapped_def)

lemma room_set_bit: "room V n st \<Longrightarrow> room V n (st\<lparr>avail_physregs := set_bit (unat r) (avail_physregs st)\<rparr>)"
  by (auto simp: room_def covered_def bit_set_bit_iff dest: pool_less)

lemma room_insns:
  assumes "room V n st" "operands_known V i" "linked_instruction st = Some k \<Longrightarrow> \<not> is_physical (i_rd i)"
  shows "room V n (st\<lparr>insns := (insns st)[k := i]\<rparr>)"
proof -
  have "list_all (operands_known V) ((insns st)[k := i])"
    using assms(1,2) by (auto simp: room_def list_all_iff dest!: subsetD [OF set_update_subset_insert])
  moreover have "\<not> is_physical (i_rd ((insns st)[k := i] ! j))" if "linked_instruction st = Some j" for j
    using assms(1,3) that by (cases "j = k") (auto simp: room_def)
  ultimately show ?thesis using assms(1) by (auto simp: room_def covered_def)
qed

lemma room_unlink: "room V n st \<Longrightarrow> room V n (st\<lparr>linked_instruction := None\<rparr>)"
  by (simp add: room_def covered_def)

lemma returns_allocate_use:
  assumes V: "small V" and v: "v \<in> V" and st: "room V n st" "vreg_to_preg st v = None"
  shows "\<exists>r st'. allocate_use v pref st = Inr (r, st') \<and> room V n st' \<and> linked_instruction st' = linked_instruction st \<and> is_physical r"
proof -
  let ?a = "choose_register (avail_physregs st) pref"
  obtain a where "a < 32" "bit (avail_physregs st) a"
    using free_register [OF V _ _ v st(2)] st(1) by (auto simp: room_def)
  then have a: "?a < 32" by (rule choose_register_less)
  have b: "bit (avail_physregs st) ?a" by (rule choose_register_free [OF a])
  have r: "(of_nat ?a :: reg) < 32" using a by (simp add: word_less_nat_alt unat_of_nat)
  note k = V_kinds [OF V v]
  let ?s = "st\<lparr>avail_physregs := flip_bit ?a (avail_physregs st), vreg_to_preg := (vreg_to_preg st)(v \<mapsto> of_nat ?a)\<rparr>"
  have "covered ?s"
  proof -
    have "bit (flip_bit ?a (avail_physregs st)) (unat q) \<or> (\<exists>u. ((vreg_to_preg st)(v \<mapsto> of_nat ?a)) u = Some q)"
      if q: "q \<in> pool" for q
    proof (cases "unat q = ?a")
      case True
      have "of_nat ?a = q" using True [symmetric] by simp
      then show ?thesis by auto
    next
      case False
      have "bit (avail_physregs st) (unat q) \<or> (\<exists>u. u \<noteq> v \<and> vreg_to_preg st u = Some q)"
        using st q unfolding room_def covered_def by (metis option.distinct(1))
      then show ?thesis using False pool_less [OF q] by (auto simp: bit_flip_bit_iff)
    qed
    then show ?thesis by (simp add: covered_def)
  qed
  then have "room V n ?s" using st v r k by (auto simp: room_def mapped_def)
  moreover have "allocate_use v pref st = Inr (of_nat ?a, ?s)"
    using a r k unfolding allocate_use_def Let_def
    by (simp add: bnd_def lift_res_def allocate_operand_def ret_def not_less word_less_nat_alt word_le_nat_alt)
  ultimately show ?thesis using r below_32_physical by auto
qed


lemma guest_or_V:
  assumes "known V x" "x \<noteq> none_reg" "\<not> is_physical x"
  shows "guest x \<or> x \<in> V"
  using assms by (auto simp: known_def)

lemma known_physical: "is_physical r \<Longrightarrow> known V r"
  by (simp add: known_def)

lemma returns_use_step:
  assumes V: "small V" and f: "returns V n f (\<lambda>_. True)" and x: "known V x"
  shows "returns V n (use_step f k rd x) (known V)"
  unfolding returns_def
proof (intro allI impI)
  fix st assume st: "room V n st"
  show "\<exists>r st'. use_step f k rd x st = Inr (r, st') \<and> room V n st' \<and> linked_instruction st' \<in> {None, linked_instruction st} \<and> known V r"
  proof (cases "x = none_reg \<or> is_physical x")
    case True
    then show ?thesis using st x by (simp add: use_step_def)
  next
    case False
    define g where "g = (case linked_instruction st of
            Some j \<Rightarrow> if (x = link_reg st \<or> x = i_rd (insns st ! j)) \<and> j \<noteq> k then f else ret ()
          | None \<Rightarrow> ret ())"
    have "returns V n g (\<lambda>_. True)"
      using f by (auto simp: g_def intro: returns_ret split: option.split)
    then obtain st1 where st1: "g st = Inr ((), st1)" "room V n st1" "linked_instruction st1 \<in> {None, linked_instruction st}"
      using st by (auto elim: returnsD)
    have e: "use_step f k rd x st = (case vreg_to_preg st1 x of
              None \<Rightarrow> allocate_use x (if is_physical rd then rd else none_reg) st1
            | Some pri \<Rightarrow> bnd (lift_res (allocate_operand x pri)) ret st1)"
      using False st1(1) unfolding use_step_def g_def [symmetric] by (simp add: andthen_def bnd_def)
    show ?thesis
    proof (cases "vreg_to_preg st1 x")
      case None
      then have "x \<in> V" using guest_or_V [OF x] False st1(2) by (auto simp: room_def mapped_def)
      from returns_allocate_use [OF V this st1(2) None]
      obtain r st' where "allocate_use x (if is_physical rd then rd else none_reg) st1 = Inr (r, st')" "room V n st'"
        "linked_instruction st' = linked_instruction st1" "is_physical r" by blast
      then show ?thesis using None known_physical st1(3) by (simp add: e)
    next
      case (Some p)
      then have p: "p < 32" using st1(2) by (auto simp: room_def mapped_def)
      then have "allocate_operand x p = Inr p" using False by (simp add: allocate_operand_def word_less_nat_alt word_le_nat_alt)
      then show ?thesis using Some st1(2,3) p known_physical below_32_physical by (simp add: e bnd_def lift_res_def ret_def)
    qed
  qed
qed

lemma operands_known_rd: "operands_known V i \<Longrightarrow> known V r \<Longrightarrow> operands_known V (i\<lparr>i_rd := r\<rparr>)"
  by (simp add: operands_known_def)

lemma operands_known_kill: "operands_known V i \<Longrightarrow> operands_known V (kill i)"
  by (simp add: operands_known_def kill_def)

lemma returns_merge_linked:
  assumes V: "small V" and i: "operands_known V i" "\<not> is_physical (i_rd i)"
  shows "returns V n (merge_linked i) (\<lambda>i'. operands_known V i' \<and> \<not> is_physical (i_rd i'))"
  unfolding returns_def
proof (intro allI impI)
  fix st assume st: "room V n st"
  show "\<exists>i' st'. merge_linked i st = Inr (i', st') \<and> room V n st' \<and> linked_instruction st' \<in> {None, linked_instruction st}
     \<and> operands_known V i' \<and> \<not> is_physical (i_rd i')"
  proof (cases "\<exists>j. linked_instruction st = Some j \<and> link_reg st = i_rd i")
    case False
    then show ?thesis using st i by (auto simp: merge_linked_def split: option.split)
  next
    case True
    then obtain j where j: "linked_instruction st = Some j" "link_reg st = i_rd i" "j < n" "i_rd i \<in> V"
      "\<not> is_physical (i_rd (insns st ! j))"
      using st by (auto simp: room_def)
    let ?st1 = "case vreg_to_preg st (i_rd i) of Some pri \<Rightarrow> release (i_rd i) pri st | None \<Rightarrow> st"
    have st1: "room V n ?st1" using st room_release [OF st _ j(4) V] by (simp split: option.split)
    have m: "operands_known V (insns st ! j)" using st j(3) by (simp add: room_def list_all_length)
    have "room V n (?st1\<lparr>insns := (insns ?st1)[j := kill (insns st ! j)], linked_instruction := None\<rparr>)"
      using room_unlink [OF room_insns [OF st1 operands_known_kill [OF m]]] j(5) by (simp add: kill_def)
    moreover have "insns ?st1 = insns st" by (simp add: release_def split: option.split)
    moreover have "operands_known V (i\<lparr>i_rd := i_rd (insns st ! j)\<rparr>)"
      using i m by (simp add: operands_known_def)
    ultimately show ?thesis using j by (simp add: merge_linked_def Let_def)
  qed
qed

lemma returns_allocate_def:
  assumes V: "small V" and i: "operands_known V i" "\<not> is_physical (i_rd i)"
  shows "returns V n (allocate_def i) (operands_known V)"
  unfolding returns_def
proof (intro allI impI)
  fix st assume st: "room V n st"
  show "\<exists>i' st'. allocate_def i st = Inr (i', st') \<and> room V n st' \<and> linked_instruction st' \<in> {None, linked_instruction st}
     \<and> operands_known V i'"
  proof (cases "vreg_to_preg st (i_rd i)")
    case None
    then show ?thesis using st i by (simp add: allocate_def_def operands_known_kill)
  next
    case (Some p)
    then have p: "p < 32" "guest (i_rd i) \<or> i_rd i \<in> V" using st by (auto simp: room_def mapped_def)
    have "room V n (release (i_rd i) p st)" if "\<not> is_functional (i_rd i)"
      using that p(2) kinds_of_reg(6) room_release [OF st Some _ V] by blast
    moreover have "allocate_operand (i_rd i) p = Inr p"
      using i p by (simp add: allocate_operand_def word_less_nat_alt word_le_nat_alt)
    moreover have "linked_instruction (release (i_rd i) p st) = linked_instruction st" by (simp add: release_def)
    ultimately show ?thesis
      using Some st i(1) p(1) by (simp add: allocate_def_def bnd_def lift_res_def ret_def operands_known_rd known_physical below_32_physical)
  qed
qed

section \<open>Instructions\<close>

lemma source_in_V:
  assumes "operands_known V i" "is_virtual (move_source i)"
  shows "move_source i \<in> V"
proof -
  have "known V (move_source i)" using assms(1) by (cases "i_rs1 i = ZERO") (simp_all add: operands_known_def move_source_def)
  then show ?thesis using assms(2) kinds_of_reg by (auto simp: known_def)
qed

lemma room_link:
  assumes "room V n st" "linked_instruction st = None" "k < n" "operands_known V i" "\<not> is_physical (i_rd i)" "l \<in> V"
  shows "room V n (st\<lparr>link_reg := l, linked_instruction := Some k, insns := (insns st)[k := i]\<rparr>)"
proof -
  have "room V n (st\<lparr>insns := (insns st)[k := i]\<rparr>)" using assms by (intro room_insns) simp_all
  then show ?thesis using assms by (auto simp: room_def covered_def)
qed

lemma returns_flush_if:
  "returns V n f (\<lambda>_. True) \<Longrightarrow>
    returns V n (case x of Some j \<Rightarrow> if P j then f else ret () | None \<Rightarrow> ret ()) (\<lambda>_. True)"
  by (auto intro: returns_ret split: option.split)

definition clears :: "flush \<Rightarrow> bool" where
  "clears f \<longleftrightarrow> (\<forall>s u s'. f s = Inr (u, s') \<longrightarrow> linked_instruction s' = None)"

lemma rd_step_returns:
  assumes V: "small V" and f: "returns V n f (\<lambda>_. True)" and i: "operands_known V i" and st: "room V n st"
    and k: "k < n" "linked_instruction st \<noteq> Some k" and cl: "sl \<longrightarrow> clears f"
  shows "\<exists>i' st'. rd_step f k sl i st = Inr (i', st') \<and> room V n (st'\<lparr>insns := (insns st')[k := i']\<rparr>) \<and> operands_known V i'
     \<and> (linked_instruction st' = Some k \<longrightarrow> \<not> is_physical (i_rd i'))
     \<and> linked_instruction st' \<in> {None, linked_instruction st} \<union> (if sl then {Some k} else {})"
proof -
  have plain: ?thesis if "rd_step f k sl i st = Inr (i', st')" "room V n st'" "operands_known V i'"
    "linked_instruction st' \<in> {None, linked_instruction st}" for i' st'
    using that k(2) room_insns [of V n st' i' k] by auto
  consider "i_rd i = none_reg" | "i_rd i \<noteq> none_reg" "is_physical (i_rd i)" | "i_rd i \<noteq> none_reg" "\<not> is_physical (i_rd i)" by blast
  then show ?thesis
  proof cases
    case 1
    then show ?thesis using plain [of i st] st i k by (simp add: rd_step_def)
  next
    case 2
    then show ?thesis
      using plain [of i st] plain [OF _ room_set_bit [OF st, of "i_rd i"] i] st i k by (auto simp: rd_step_def)
  next
    case 3
    obtain i1 st1 where m: "merge_linked i st = Inr (i1, st1)" "room V n st1" "linked_instruction st1 \<in> {None, linked_instruction st}"
      "operands_known V i1" "\<not> is_physical (i_rd i1)"
      using returnsD [OF returns_merge_linked [OF V i 3(2)] st] by metis
    show ?thesis
    proof (cases "links sl i1 st1")
      case True
      obtain st2 where f2: "f st1 = Inr ((), st2)" "room V n st2" using returnsD [OF f m(2)] by (metis unit.exhaust)
      have n2: "linked_instruction st2 = None" using cl f2(1) True by (auto simp: links_def clears_def)
      have l: "move_source i1 \<in> V" using source_in_V [OF m(4)] True by (simp add: links_def)
      have "rd_step f k sl i st = Inr (i1, st2\<lparr>link_reg := move_source i1, linked_instruction := Some k\<rparr>)"
        using 3 m(1) f2(1) True by (simp add: rd_step_def bnd_def andthen_def)
      moreover have "room V n (st2\<lparr>link_reg := move_source i1, linked_instruction := Some k\<rparr>
            \<lparr>insns := (insns (st2\<lparr>link_reg := move_source i1, linked_instruction := Some k\<rparr>))[k := i1]\<rparr>)"
        using room_link [OF f2(2) n2 k(1) m(4,5) l] by simp
      ultimately show ?thesis using m(4,5) True by (auto simp: links_def)
    next
      case False
      let ?g = "case linked_instruction st1 of
                Some j \<Rightarrow> if i_rd i1 = i_rd (insns st1 ! j) then f else ret () | None \<Rightarrow> ret ()"
      obtain i2 st2 where a: "andthen ?g (allocate_def i1) st1 = Inr (i2, st2)" "room V n st2"
        "linked_instruction st2 \<in> {None, linked_instruction st1}" "operands_known V i2"
        by (rule returnsD [OF returns_andthen [OF returns_flush_if [OF f] returns_allocate_def [OF V m(4,5)]] m(2)])
      have "rd_step f k sl i st = Inr (i2, st2)"
        using 3 m(1) a(1) False by (simp add: rd_step_def bnd_def)
      then show ?thesis using plain [of i2 st2] a(2,3,4) m(3) by auto
    qed
  qed
qed


lemma operands_known_uses:
  "operands_known V i \<Longrightarrow> known V r1 \<Longrightarrow> known V r2 \<Longrightarrow> operands_known V (kill_move (i\<lparr>i_rs1 := r1, i_rs2 := r2\<rparr>))"
  by (auto simp: operands_known_def kill_move_def kill_def Let_def)

lemma kill_move_rd: "i_rd (kill_move (i\<lparr>i_rs1 := r1, i_rs2 := r2\<rparr>)) = i_rd i"
  by (simp add: kill_move_def kill_def Let_def)

lemma body_returns:
  assumes V: "small V" and f: "returns V n f (\<lambda>_. True)" and k: "k < n"
    and cl: "sl \<longrightarrow> clears f"
    and st: "room V n st" "linked_instruction st \<noteq> Some k"
  shows "\<exists>st'. allocate_body f k sl st = Inr ((), st') \<and> room V n st'
     \<and> linked_instruction st' \<in> {None, linked_instruction st} \<union> (if sl then {Some k} else {})"
proof -
  let ?i = "insns st ! k"
  have ki: "operands_known V ?i" using st(1) k by (simp add: room_def list_all_length)
  obtain st1 where f1: "(if is_control_flow ?i then f else ret ()) st = Inr ((), st1)" "room V n st1"
    "linked_instruction st1 \<in> {None, linked_instruction st}"
  proof -
    have "returns V n (if is_control_flow ?i then f else ret ()) (\<lambda>_. True)" using f by (simp add: returns_ret)
    from returns_unit [OF this st(1)] show ?thesis by (elim exE conjE) (rule that)
  qed
  obtain i2 st2 where r2: "rd_step f k sl ?i st1 = Inr (i2, st2)" "room V n (st2\<lparr>insns := (insns st2)[k := i2]\<rparr>)"
    "operands_known V i2" "linked_instruction st2 = Some k \<longrightarrow> \<not> is_physical (i_rd i2)"
    "linked_instruction st2 \<in> {None, linked_instruction st1} \<union> (if sl then {Some k} else {})"
  proof -
    have "linked_instruction st1 \<noteq> Some k" using f1(3) st(2) by auto
    note R = rd_step_returns [OF V f ki f1(2) k this, where sl = sl]
    from R [OF cl] show ?thesis by (elim exE conjE) (rule that)
  qed
  let ?st3 = "st2\<lparr>insns := (insns st2)[k := i2]\<rparr>"
  have body: "allocate_body f k sl st = (if is_dead i2 then Inr ((), ?st3) else
      bnd (use_step f k (i_rd i2) (i_rs1 i2)) (\<lambda>r1. bnd (use_step f k (i_rd i2) (i_rs2 i2)) (\<lambda>r2 st1.
         Inr ((), st1\<lparr>insns := (insns st1)[k := kill_move (i2\<lparr>i_rs1 := r1, i_rs2 := r2\<rparr>)]\<rparr>))) ?st3)"
    using f1(1) r2(1) by (simp add: allocate_body_def andthen_def bnd_def)
  have l3: "linked_instruction ?st3 \<in> {None, linked_instruction st} \<union> (if sl then {Some k} else {})"
    using r2(5) f1(3) by auto
  show ?thesis
  proof (cases "is_dead i2")
    case True
    then show ?thesis using body r2(2) l3 by auto
  next
    case False
    have kn: "known V (i_rs1 i2)" "known V (i_rs2 i2)" using r2(3) by (simp_all add: operands_known_def)
    obtain r1 s4 where u1: "use_step f k (i_rd i2) (i_rs1 i2) ?st3 = Inr (r1, s4)" "room V n s4"
      "linked_instruction s4 \<in> {None, linked_instruction ?st3}" "known V r1"
      by (rule returnsD [OF returns_use_step [OF V f kn(1)] r2(2)])
    obtain r2' s5 where u2: "use_step f k (i_rd i2) (i_rs2 i2) s4 = Inr (r2', s5)" "room V n s5"
      "linked_instruction s5 \<in> {None, linked_instruction s4}" "known V r2'"
      by (rule returnsD [OF returns_use_step [OF V f kn(2)] u1(2)])
    have "room V n (s5\<lparr>insns := (insns s5)[k := kill_move (i2\<lparr>i_rs1 := r1, i_rs2 := r2'\<rparr>)]\<rparr>)"
      using u1(3) u2(3) r2(4) by (intro room_insns [OF u2(2) operands_known_uses [OF r2(3) u1(4) u2(4)]]) (auto simp: kill_move_rd)
    then show ?thesis using body False u1(1,3) u2(1,3) l3 by (auto simp: bnd_def)
  qed
qed

lemma returns_flush_linked:
  assumes V: "small V"
  shows "returns V n flush_linked (\<lambda>_. True)"
  unfolding returns_def
proof (intro allI impI)
  fix st assume st: "room V n st"
  show "\<exists>r st'. flush_linked st = Inr (r, st') \<and> room V n st' \<and> linked_instruction st' \<in> {None, linked_instruction st} \<and> True"
  proof (cases "linked_instruction st")
    case None
    then show ?thesis using st by (simp add: flush_linked_def)
  next
    case (Some j)
    have "returns V n (ret ()) (\<lambda>_. True)" by (rule returns_ret) simp
    from body_returns [OF V this _ _ room_unlink [OF st], of j False]
    show ?thesis using Some st by (auto simp: flush_linked_def allocate_waiting_def room_def)
  qed
qed

lemma waiting_stays_clear:
  assumes "linked_instruction s = None" "allocate_body (ret ()) j False s = Inr (u, s')"
  shows "linked_instruction s' = None"
proof -
  have u: "linked_instruction t' = None" if "use_step (ret ()) j rd x t = Inr (r, t')" "linked_instruction t = None" for rd x t r t'
    using that
    by (auto simp: use_step_def andthen_def bnd_def ret_def allocate_use_def lift_res_def allocate_operand_def Let_def
        split: option.splits if_splits sum.splits)
  have d: "linked_instruction t' = None" if "rd_step (ret ()) j False i t = Inr (i', t')" "linked_instruction t = None" for i t i' t'
    using that
    by (auto simp: rd_step_def andthen_def bnd_def ret_def merge_linked_def links_def allocate_def_def lift_res_def
        allocate_operand_def Let_def release_def split: option.splits if_splits sum.splits)
  show ?thesis
    using assms(2)
    by (auto simp: allocate_body_def andthen_def bnd_def ret_def split: sum.splits if_splits dest!: u d [OF _ assms(1)])
qed

lemma clears_flush_linked: "clears flush_linked"
  unfolding clears_def
proof (intro allI impI)
  fix s u s' assume f: "flush_linked s = Inr (u, s')"
  show "linked_instruction s' = None"
  proof (cases "linked_instruction s")
    case None
    then show ?thesis using f by (simp add: flush_linked_def)
  next
    case (Some j)
    have "linked_instruction (s\<lparr>linked_instruction := None\<rparr>) = None" by simp
    then show ?thesis
      by (rule waiting_stays_clear) (use f Some in \<open>simp add: flush_linked_def allocate_waiting_def\<close>)
  qed
qed

lemma scan_returns:
  assumes V: "small V"
  shows "k \<le> n \<Longrightarrow> room V n st \<Longrightarrow> (\<And>j. linked_instruction st = Some j \<Longrightarrow> k \<le> j) \<Longrightarrow>
    \<exists>st'. for_each (rev [0..<k]) allocate_instruction st = Inr ((), st') \<and> room V n st'"
proof (induction k arbitrary: st)
  case 0
  then show ?case by (simp add: ret_def)
next
  case (Suc k)
  have l: "linked_instruction st \<noteq> Some k" using Suc.prems(3) by fastforce
  obtain st1 where st1: "allocate_instruction k st = Inr ((), st1)" "room V n st1"
    "linked_instruction st1 \<in> {None, linked_instruction st} \<union> {Some k}"
    using body_returns [OF V returns_flush_linked [OF V] _ impI [OF clears_flush_linked] Suc.prems(2) l, of True] Suc.prems(1)
    by (auto simp: allocate_instruction_def)
  have "k \<le> j" if "linked_instruction st1 = Some j" for j using that st1(3) Suc.prems(3) [of j] by auto
  then show ?case using Suc.IH [OF _ st1(2)] st1(1) Suc.prems(1) by (auto simp: andthen_def bnd_def)
qed


section \<open>Blocks of the builder\<close>

definition built :: "build list \<Rightarrow> insn list" where
  "built ms = (case for_each ms id new_instruction_builder of Inr (_, b) \<Rightarrow> instructions b | Inl _ \<Rightarrow> [])"

definition load :: "reg \<Rightarrow> 64 word \<Rightarrow> build" where
  "load r off = b_ld r \<lparr>addr_base = FP, addr_offset = off\<rparr>"

text \<open>Virtual registers that are live at the same time.\<close>

definition live_block :: "reg list \<Rightarrow> insn list" where
  "live_block rs = built (map (\<lambda>r. load r 0) rs @ map (\<lambda>r. b_sd r \<lparr>addr_base = FP, addr_offset = 0\<rparr>) rs)"

definition seventeen :: "reg list" where
  "seventeen = [64, 65, 66, 67, 68, 69, 70, 71, 72, 73, 74, 75, 76, 77, 78, 79, 80]"

section \<open>Initial state\<close>

definition used_registers :: "insn list \<Rightarrow> reg set" where
  "used_registers is = (\<Union>i\<in>set is. {i_rd i, i_rs1 i, i_rs2 i})"

definition well_formed_operand :: "reg \<Rightarrow> bool" where
  "well_formed_operand r \<longleftrightarrow> r = none_reg \<or> is_physical r \<or> guest r \<or> is_virtual r"

lemma room_initial:
  assumes "\<forall>r\<in>used_registers is. well_formed_operand r"
  shows "room {r\<in>used_registers is. is_virtual r} (length is) (initial_alloc is)"
proof -
  have "covered (initial_alloc is)"
    by (simp add: covered_def initial_alloc_def pool_def)
  moreover have "mapped V functional_map" for V
    using guest_not_pool by (auto simp: mapped_def functional_map_def guest_def FUNCTIONAL_BASE_def)
  moreover have "list_all (operands_known {r\<in>used_registers is. is_virtual r}) is"
    using assms by (auto simp: list_all_iff operands_known_def known_def well_formed_operand_def used_registers_def)
  ultimately show ?thesis by (simp add: room_def initial_alloc_def)
qed

text \<open>C22: The allocator succeeds on every program, with any control flow, whose operands are RISC-V
  registers, mapped guest registers and at most 17 virtual registers: no register is asked for
  when none is free, no operand is allocated twice, and no instruction is added or removed.\<close>

theorem allocation_succeeds:
  assumes "\<forall>r\<in>used_registers is. well_formed_operand r"
    and "card {r\<in>used_registers is. is_virtual r} \<le> 17"
  shows "\<exists>is'. allocate is = Inr is' \<and> length is' = length is"
proof -
  let ?V = "{r\<in>used_registers is. is_virtual r}"
  have V: "small ?V" using assms(2) by (simp add: small_def used_registers_def)
  show ?thesis
    using scan_returns [OF V order.refl room_initial [OF assms(1)]]
    by (auto simp: allocate_def room_def initial_alloc_def)
qed


lemma virtual_list:
  "card {r\<in>used_registers is. is_virtual r}
     \<le> length (remdups (filter is_virtual (concat (map (\<lambda>i. [i_rd i, i_rs1 i, i_rs2 i]) is))))"
  (is "card ?S \<le> length ?l")
proof -
  have "?S = set ?l" by (auto simp: used_registers_def)
  then show ?thesis using card_length [of ?l] by simp
qed

lemma allocation_succeeds_witness:
  "\<exists>is'. allocate (live_block seventeen) = Inr is' \<and> length is' = 34"
proof -
  have "length (live_block seventeen) = 34" by code_simp
  moreover have "list_all (\<lambda>i. list_all well_formed_operand [i_rd i, i_rs1 i, i_rs2 i]) (live_block seventeen)"
    unfolding well_formed_operand_def guest_def by code_simp
  then have "\<forall>r\<in>used_registers (live_block seventeen). well_formed_operand r"
    by (auto simp: used_registers_def list_all_iff)
  moreover have "length (remdups (filter is_virtual (concat (map (\<lambda>i. [i_rd i, i_rs1 i, i_rs2 i]) (live_block seventeen))))) = 17"
    by code_simp
  then have "card {r\<in>used_registers (live_block seventeen). is_virtual r} \<le> 17"
    using virtual_list [of "live_block seventeen"] by simp
  ultimately show ?thesis using allocation_succeeds [of "live_block seventeen"] by simp
qed

text \<open>With no free register the allocator throws: it does not spill.\<close>

lemma no_register_throws:
  assumes "avail_physregs st = 0" "\<not> is_physical v"
  shows "allocate_use v preference st = Inl Out_of_range"
  using assms by (simp add: allocate_use_def choose_register_def find_next_def find_first_def)

end
