(* ===== verification/Riscv_Allocation_Unread.thy ===== *)
theory Riscv_Allocation_Unread
  imports Riscv_Allocation
begin

text \<open>
  What the allocator does with an instruction whose virtual destination no later instruction
  mentions.  The scan runs backwards, so there are two phases: before it reaches the
  instruction the register has no RISC-V register and is not the source of a waiting move;
  after it the instruction is dead and no move waits at its place.  Both are invariants of
  every step of the allocator that succeeds, whatever the control flow.
\<close>

section \<open>Invariants of programs that return\<close>

definition maintains :: "(alloc_state \<Rightarrow> bool) \<Rightarrow> (alloc_state, 'a) prog \<Rightarrow> ('a \<Rightarrow> bool) \<Rightarrow> bool" where
  "maintains P f Q \<longleftrightarrow> (\<forall>st r st'. P st \<longrightarrow> f st = Inr (r, st') \<longrightarrow> P st' \<and> Q r)"

lemma maintainsD: "maintains P f Q \<Longrightarrow> P st \<Longrightarrow> f st = Inr (r, st') \<Longrightarrow> P st' \<and> Q r"
  unfolding maintains_def by blast

lemma maintains_ret: "Q r \<Longrightarrow> maintains P (ret r) Q"
  by (simp add: maintains_def ret_def)

lemma maintains_bnd:
  assumes f: "maintains P f R" and g: "\<And>r. R r \<Longrightarrow> maintains P (g r) Q"
  shows "maintains P (bnd f g) Q"
  unfolding maintains_def
proof (intro allI impI)
  fix st y st' assume st: "P st" and b: "bnd f g st = Inr (y, st')"
  then obtain x st1 where x: "f st = Inr (x, st1)" "g x st1 = Inr (y, st')"
    by (auto simp: bnd_def split: sum.splits)
  then show "P st' \<and> Q y" using maintainsD [OF f st x(1)] maintainsD [OF g _ x(2)] by blast
qed

lemma maintains_andthen: "maintains P f R \<Longrightarrow> maintains P g Q \<Longrightarrow> maintains P (andthen f g) Q"
  unfolding andthen_def by (erule maintains_bnd) simp

lemma maintains_state: "(\<And>st. P st \<Longrightarrow> P (h st)) \<Longrightarrow> Q () \<Longrightarrow> maintains P (\<lambda>st. Inr ((), h st)) Q"
  by (simp add: maintains_def)

lemma maintains_for_each:
  "(\<And>x. x \<in> set xs \<Longrightarrow> maintains P (f x) (\<lambda>_. True)) \<Longrightarrow> maintains P (for_each xs f) (\<lambda>_. True)"
proof (induction xs)
  case Nil
  then show ?case by (simp add: maintains_ret)
next
  case (Cons x xs)
  have "maintains P (andthen (f x) (for_each xs f)) (\<lambda>_. True)"
    by (rule maintains_andthen [where R = "\<lambda>_. True"]) (use Cons in simp_all)
  then show ?case by simp
qed

lemma maintains_branch:
  assumes f: "\<And>st. maintains P (f st) Q" and e: "\<And>st. g st = f st st"
  shows "maintains P g Q"
  unfolding maintains_def
proof (intro allI impI)
  fix st y st' assume st: "P st" and g: "g st = Inr (y, st')"
  show "P st' \<and> Q y" by (rule maintainsD [OF f st]) (rule trans [OF e [symmetric] g])
qed

lemma maintains_if:
  assumes "maintains P f Q" "maintains P g Q"
  shows "maintains P (\<lambda>st. if b st then f st else g st) Q"
  unfolding maintains_def
proof (intro allI impI)
  fix st y st' assume st: "P st" and r: "(if b st then f st else g st) = Inr (y, st')"
  show "P st' \<and> Q y"
  proof (cases "b st")
    case True
    then show ?thesis using r by (intro maintainsD [OF assms(1) st]) simp
  next
    case False
    then show ?thesis using r by (intro maintainsD [OF assms(2) st]) simp
  qed
qed

lemma maintains_waits_then:
  assumes f: "maintains P f (\<lambda>_. True)" and g: "maintains P g Q"
  shows "maintains P (\<lambda>st. andthen (case linked_instruction st of Some j \<Rightarrow> if b st j then f else ret () | None \<Rightarrow> ret ()) g st) Q"
  unfolding maintains_def
proof (intro allI impI)
  fix st y st' assume st: "P st"
    and a: "andthen (case linked_instruction st of Some j \<Rightarrow> if b st j then f else ret () | None \<Rightarrow> ret ()) g st = Inr (y, st')"
  have "maintains P (case linked_instruction st of Some j \<Rightarrow> if b st j then f else ret () | None \<Rightarrow> ret ()) (\<lambda>_. True)"
    using f by (auto intro: maintains_ret split: option.split)
  from maintainsD [OF maintains_andthen [OF this g] st a] show "P st' \<and> Q y" .
qed

section \<open>Before the instruction\<close>

definition avoids :: "reg \<Rightarrow> insn \<Rightarrow> bool" where
  "avoids r i \<longleftrightarrow> i_rd i \<noteq> r \<and> i_rs1 i \<noteq> r \<and> i_rs2 i \<noteq> r"

definition unread :: "insn list \<Rightarrow> nat \<Rightarrow> reg \<Rightarrow> alloc_state \<Rightarrow> bool" where
  "unread is n r st \<longleftrightarrow> length (insns st) = length is \<and> insns st ! n = is ! n
     \<and> vreg_to_preg st r = None \<and> link_reg st \<noteq> r
     \<and> (\<forall>j. n < j \<longrightarrow> j < length is \<longrightarrow> avoids r (insns st ! j))
     \<and> (\<forall>j. linked_instruction st = Some j \<longrightarrow> n < j \<and> j < length is)"

lemma avoids_simps:
  "avoids r (kill i) = avoids r i"
  "avoids r i \<Longrightarrow> avoids r (kill_move i)"
  "avoids r i \<Longrightarrow> x \<noteq> r \<Longrightarrow> avoids r (i\<lparr>i_rd := x\<rparr>)"
  "avoids r i \<Longrightarrow> x \<noteq> r \<Longrightarrow> y \<noteq> r \<Longrightarrow> avoids r (i\<lparr>i_rs1 := x, i_rs2 := y\<rparr>)"
  "avoids r i \<Longrightarrow> move_source i \<noteq> r"
  by (auto simp: avoids_def kill_def kill_move_def move_source_def Let_def)

lemma allocate_operand_result:
  assumes "is_virtual r" "allocate_operand x p = Inr y"
  shows "y \<noteq> r"
proof -
  have "y \<le> 31" using assms(2) by (auto simp: allocate_operand_def split: if_splits)
  moreover have "64 \<le> r" using assms(1) by (simp add: is_virtual_def VIRTUAL_BASE_def)
  ultimately show ?thesis by (auto dest: order.trans)
qed

lemma unread_insns:
  assumes st: "unread is n r st" and k: "n < k" and i: "avoids r i"
  shows "unread is n r (st\<lparr>insns := (insns st)[k := i]\<rparr>)"
proof -
  have "avoids r ((insns st)[k := i] ! j)" if "n < j" "j < length is" for j
    using st i that by (cases "j = k") (auto simp: unread_def)
  then show ?thesis using st k by (simp add: unread_def)
qed

lemma unread_release: "unread is n r st \<Longrightarrow> unread is n r (release v p st)"
  by (simp add: unread_def release_def)

lemma unread_operand:
  "is_virtual r \<Longrightarrow> maintains (unread is n r) (bnd (lift_res (allocate_operand x p)) ret) (\<lambda>y. y \<noteq> r)"
  unfolding maintains_def bnd_def lift_res_def ret_def by (auto split: sum.splits dest: allocate_operand_result)

lemma unread_allocate_use:
  assumes r: "is_virtual r" and x: "x \<noteq> r"
  shows "maintains (unread is n r) (allocate_use x pref) (\<lambda>y. y \<noteq> r)"
  unfolding maintains_def
proof (intro allI impI)
  fix st y st' assume st: "unread is n r st" and u: "allocate_use x pref st = Inr (y, st')"
  let ?a = "choose_register (avail_physregs st) pref"
  let ?s = "st\<lparr>avail_physregs := flip_bit ?a (avail_physregs st), vreg_to_preg := (vreg_to_preg st)(x \<mapsto> of_nat ?a)\<rparr>"
  have "unread is n r ?s" using st x by (simp add: unread_def)
  moreover have "bnd (lift_res (allocate_operand x (of_nat ?a))) ret ?s = Inr (y, st')"
    using u by (auto simp: allocate_use_def Let_def split: if_splits)
  ultimately show "unread is n r st' \<and> y \<noteq> r" using maintainsD [OF unread_operand [OF r]] by blast
qed

lemma unread_use_step:
  assumes r: "is_virtual r" and f: "maintains (unread is n r) f (\<lambda>_. True)" and x: "x \<noteq> r"
  shows "maintains (unread is n r) (use_step f k rd x) (\<lambda>y. y \<noteq> r)"
proof -
  have a: "maintains (unread is n r) (\<lambda>st. (case vreg_to_preg st x of
              None \<Rightarrow> allocate_use x (if is_physical rd then rd else none_reg) st
            | Some pri \<Rightarrow> bnd (lift_res (allocate_operand x pri)) ret st)) (\<lambda>y. y \<noteq> r)"
  proof (rule maintains_branch [where f = "\<lambda>st. case vreg_to_preg st x of
              None \<Rightarrow> allocate_use x (if is_physical rd then rd else none_reg)
            | Some pri \<Rightarrow> bnd (lift_res (allocate_operand x pri)) ret"])
    show "maintains (unread is n r) (case vreg_to_preg st x of
              None \<Rightarrow> allocate_use x (if is_physical rd then rd else none_reg)
            | Some pri \<Rightarrow> bnd (lift_res (allocate_operand x pri)) ret) (\<lambda>y. y \<noteq> r)" for st
      using unread_allocate_use [OF r x] unread_operand [OF r] by (auto split: option.split)
  qed (simp split: option.split)
  note b = maintains_waits_then [OF f a,
      where b = "\<lambda>st j. (x = link_reg st \<or> x = i_rd (insns st ! j)) \<and> j \<noteq> k"]
  show ?thesis
    unfolding maintains_def
  proof (intro allI impI)
    fix st y st' assume st: "unread is n r st" and u: "use_step f k rd x st = Inr (y, st')"
    show "unread is n r st' \<and> y \<noteq> r"
    proof (cases "x = none_reg \<or> is_physical x")
      case True
      then show ?thesis using u st x by (simp add: use_step_def)
    next
      case False
      then show ?thesis
        using maintainsD [OF b st, of y st'] u by (simp add: use_step_def)
    qed
  qed
qed

lemma unread_merge_linked:
  assumes i: "avoids r i"
  shows "maintains (unread is n r) (merge_linked i) (avoids r)"
  unfolding maintains_def
proof (intro allI impI)
  fix st i' st' assume st: "unread is n r st" and m: "merge_linked i st = Inr (i', st')"
  show "unread is n r st' \<and> avoids r i'"
  proof (cases "\<exists>j. linked_instruction st = Some j \<and> link_reg st = i_rd i")
    case False
    then show ?thesis using m st i by (auto simp: merge_linked_def split: option.splits if_splits)
  next
    case True
    then obtain j where j: "linked_instruction st = Some j" "link_reg st = i_rd i" by blast
    define st1 where "st1 = (case vreg_to_preg st (i_rd i) of Some pri \<Rightarrow> release (i_rd i) pri st | None \<Rightarrow> st)"
    have st1: "unread is n r st1" "insns st1 = insns st"
      using st unread_release [OF st] by (simp_all add: st1_def release_def split: option.split)
    have n: "n < j" "avoids r (insns st ! j)" using st j(1) by (auto simp: unread_def)
    have "unread is n r (st1\<lparr>insns := (insns st1)[j := kill (insns st ! j)]\<rparr>)"
      using n by (intro unread_insns st1(1)) (simp_all add: avoids_simps)
    then have "unread is n r (st1\<lparr>insns := (insns st1)[j := kill (insns st ! j)], linked_instruction := None\<rparr>)"
      by (simp add: unread_def)
    moreover have "avoids r (i\<lparr>i_rd := i_rd (insns st ! j)\<rparr>)"
      using i n(2) by (simp add: avoids_def)
    ultimately show ?thesis using m j st1(2) by (simp add: merge_linked_def st1_def [symmetric] Let_def)
  qed
qed

lemma unread_allocate_def:
  assumes r: "is_virtual r" and i: "avoids r i"
  shows "maintains (unread is n r) (allocate_def i) (avoids r)"
  unfolding maintains_def
proof (intro allI impI)
  fix st i' st' assume st: "unread is n r st" and a: "allocate_def i st = Inr (i', st')"
  show "unread is n r st' \<and> avoids r i'"
  proof (cases "vreg_to_preg st (i_rd i)")
    case None
    then show ?thesis using a st i by (auto simp: allocate_def_def avoids_simps)
  next
    case (Some p)
    then show ?thesis
      using a i st unread_release [OF st] allocate_operand_result [OF r]
      by (auto simp: allocate_def_def bnd_def lift_res_def ret_def Let_def avoids_simps split: sum.splits if_splits)
  qed
qed

lemma unread_rd_step:
  assumes r: "is_virtual r" and f: "maintains (unread is n r) f (\<lambda>_. True)" and i: "avoids r i"
    and k: "n < k" "k < length is"
  shows "maintains (unread is n r) (rd_step f k sl i) (avoids r)"
proof -
  have link: "maintains (unread is n r) (andthen f (\<lambda>st2. Inr (i1, st2\<lparr>link_reg := move_source i1, linked_instruction := Some k\<rparr>))) (avoids r)"
    if "avoids r i1" for i1
  proof (rule maintains_andthen [OF f])
    show "maintains (unread is n r) (\<lambda>st2. Inr (i1, st2\<lparr>link_reg := move_source i1, linked_instruction := Some k\<rparr>)) (avoids r)"
      using that k by (auto simp: maintains_def unread_def avoids_simps)
  qed
  have alloc: "maintains (unread is n r) (\<lambda>st1. andthen (case linked_instruction st1 of
                Some j \<Rightarrow> if i_rd i1 = i_rd (insns st1 ! j) then f else ret ()
              | None \<Rightarrow> ret ()) (allocate_def i1) st1) (avoids r)" if "avoids r i1" for i1
    by (rule maintains_waits_then [OF f unread_allocate_def [OF r that]])
  have "maintains (unread is n r) (bnd (merge_linked i) (\<lambda>i1 st1.
          if links sl i1 st1 then
            andthen f (\<lambda>st2. Inr (i1, st2\<lparr>link_reg := move_source i1, linked_instruction := Some k\<rparr>)) st1
          else
            andthen (case linked_instruction st1 of
                Some j \<Rightarrow> if i_rd i1 = i_rd (insns st1 ! j) then f else ret ()
              | None \<Rightarrow> ret ())
              (allocate_def i1) st1)) (avoids r)"
  proof (rule maintains_bnd [OF unread_merge_linked [OF i]])
    fix i1 assume i1: "avoids r i1"
    show "maintains (unread is n r) (\<lambda>st1. if links sl i1 st1 then
            andthen f (\<lambda>st2. Inr (i1, st2\<lparr>link_reg := move_source i1, linked_instruction := Some k\<rparr>)) st1
          else
            andthen (case linked_instruction st1 of
                Some j \<Rightarrow> if i_rd i1 = i_rd (insns st1 ! j) then f else ret ()
              | None \<Rightarrow> ret ())
              (allocate_def i1) st1) (avoids r)"
      by (rule maintains_if [OF link [OF i1] alloc [OF i1]])
  qed
  note virt = maintainsD [OF this]
  show ?thesis
    unfolding maintains_def
  proof (intro allI impI)
    fix st i' st' assume st: "unread is n r st" and s: "rd_step f k sl i st = Inr (i', st')"
    show "unread is n r st' \<and> avoids r i'"
    proof (cases "i_rd i = none_reg \<or> is_physical (i_rd i)")
      case True
      then show ?thesis using s st i by (auto simp: rd_step_def unread_def split: if_splits)
    next
      case False
      then show ?thesis using s virt [OF st, of i' st'] by (simp add: rd_step_def)
    qed
  qed
qed

lemma unread_body:
  assumes r: "is_virtual r" and f: "maintains (unread is n r) f (\<lambda>_. True)" and k: "n < k" "k < length is"
  shows "maintains (unread is n r) (allocate_body f k sl) (\<lambda>_. True)"
  unfolding maintains_def
proof (intro allI impI)
  fix st u st' assume st: "unread is n r st" and b: "allocate_body f k sl st = Inr (u, st')"
  have i: "avoids r (insns st ! k)" using st k by (simp add: unread_def)
  have w: "maintains (unread is n r) (\<lambda>st1. Inr ((), st1\<lparr>insns := (insns st1)[k := i]\<rparr>)) (\<lambda>_. True)"
    if "avoids r i" for i
    by (rule maintains_state) (use k that in \<open>auto intro: unread_insns\<close>)
  have "maintains (unread is n r) (andthen (if is_control_flow (insns st ! k) then f else ret ())
       (bnd (rd_step f k sl (insns st ! k)) (\<lambda>i.
        if is_dead i then (\<lambda>st1. Inr ((), st1\<lparr>insns := (insns st1)[k := i]\<rparr>))
        else
          andthen (\<lambda>st1. Inr ((), st1\<lparr>insns := (insns st1)[k := i]\<rparr>))
            (bnd (use_step f k (i_rd i) (i_rs1 i)) (\<lambda>r1.
             bnd (use_step f k (i_rd i) (i_rs2 i)) (\<lambda>r2 st1.
               Inr ((), st1\<lparr>insns := (insns st1)[k := kill_move (i\<lparr>i_rs1 := r1, i_rs2 := r2\<rparr>)]\<rparr>))))))) (\<lambda>_. True)"
  proof (rule maintains_andthen)
    show "maintains (unread is n r) (if is_control_flow (insns st ! k) then f else ret ()) (\<lambda>_. True)"
      using f by (simp add: maintains_ret)
  next
    show "maintains (unread is n r) (bnd (rd_step f k sl (insns st ! k)) (\<lambda>i.
        if is_dead i then (\<lambda>st1. Inr ((), st1\<lparr>insns := (insns st1)[k := i]\<rparr>))
        else
          andthen (\<lambda>st1. Inr ((), st1\<lparr>insns := (insns st1)[k := i]\<rparr>))
            (bnd (use_step f k (i_rd i) (i_rs1 i)) (\<lambda>r1.
             bnd (use_step f k (i_rd i) (i_rs2 i)) (\<lambda>r2 st1.
               Inr ((), st1\<lparr>insns := (insns st1)[k := kill_move (i\<lparr>i_rs1 := r1, i_rs2 := r2\<rparr>)]\<rparr>)))))) (\<lambda>_. True)"
    proof (rule maintains_bnd [OF unread_rd_step [OF r f i k]])
      fix i assume i: "avoids r i"
      have x: "i_rs1 i \<noteq> r" "i_rs2 i \<noteq> r" using i by (simp_all add: avoids_def)
      have m: "maintains (unread is n r) (\<lambda>st1. Inr ((), st1\<lparr>insns := (insns st1)[k := kill_move (i\<lparr>i_rs1 := r1, i_rs2 := r2\<rparr>)]\<rparr>)) (\<lambda>_. True)"
        if "r1 \<noteq> r" "r2 \<noteq> r" for r1 r2
        by (rule w) (use i that in \<open>simp add: avoids_simps\<close>)
      have "maintains (unread is n r) (andthen (\<lambda>st1. Inr ((), st1\<lparr>insns := (insns st1)[k := i]\<rparr>))
            (bnd (use_step f k (i_rd i) (i_rs1 i)) (\<lambda>r1.
             bnd (use_step f k (i_rd i) (i_rs2 i)) (\<lambda>r2 st1.
               Inr ((), st1\<lparr>insns := (insns st1)[k := kill_move (i\<lparr>i_rs1 := r1, i_rs2 := r2\<rparr>)]\<rparr>))))) (\<lambda>_. True)"
        by (intro maintains_andthen [OF w [OF i]] maintains_bnd [OF unread_use_step [OF r f]] x m)
      then show "maintains (unread is n r) (if is_dead i then (\<lambda>st1. Inr ((), st1\<lparr>insns := (insns st1)[k := i]\<rparr>))
        else
          andthen (\<lambda>st1. Inr ((), st1\<lparr>insns := (insns st1)[k := i]\<rparr>))
            (bnd (use_step f k (i_rd i) (i_rs1 i)) (\<lambda>r1.
             bnd (use_step f k (i_rd i) (i_rs2 i)) (\<lambda>r2 st1.
               Inr ((), st1\<lparr>insns := (insns st1)[k := kill_move (i\<lparr>i_rs1 := r1, i_rs2 := r2\<rparr>)]\<rparr>))))) (\<lambda>_. True)"
        using w [OF i] by simp
    qed
  qed
  from maintainsD [OF this st] b show "unread is n r st' \<and> True" by (simp add: allocate_body_def)
qed

lemma unread_flush:
  assumes r: "is_virtual r"
  shows "maintains (unread is n r) flush_linked (\<lambda>_. True)"
  unfolding maintains_def
proof (intro allI impI)
  fix st u st' assume st: "unread is n r st" and f: "flush_linked st = Inr (u, st')"
  show "unread is n r st' \<and> True"
  proof (cases "linked_instruction st")
    case None
    then show ?thesis using st f by (simp add: flush_linked_def)
  next
    case (Some j)
    then have j: "n < j" "j < length is" and s: "unread is n r (st\<lparr>linked_instruction := None\<rparr>)"
      using st by (simp_all add: unread_def)
    have "maintains (unread is n r) (allocate_waiting j) (\<lambda>_. True)"
      unfolding allocate_waiting_def by (rule unread_body [OF r maintains_ret j]) simp
    from maintainsD [OF this s] show ?thesis using f Some by (simp add: flush_linked_def)
  qed
qed

section \<open>At the instruction\<close>

definition gone :: "nat \<Rightarrow> nat \<Rightarrow> alloc_state \<Rightarrow> bool" where
  "gone l n st \<longleftrightarrow> length (insns st) = l \<and> is_dead (insns st ! n) \<and> linked_instruction st \<noteq> Some n"

lemma unread_dies:
  assumes r: "is_virtual r" "i_rd (is ! n) = r" and mv: "\<not> is_mv (is ! n)" and n: "n < length is"
    and st: "unread is n r st" and a: "allocate_instruction n st = Inr (u, st')"
  shows "gone (length is) n st'"
proof -
  let ?i = "is ! n"
  have i: "insns st ! n = ?i" using st by (simp add: unread_def)
  have rn: "i_rd ?i \<noteq> none_reg" "\<not> is_physical (i_rd ?i)" using r kinds_of_reg by (metis, metis)
  have k: "maintains (unread is n r) (if is_control_flow ?i then flush_linked else ret ()) (\<lambda>_. True)"
    using unread_flush [OF r(1)] by (simp add: maintains_ret)
  obtain st1 where st1: "(if is_control_flow ?i then flush_linked else ret ()) st = Inr ((), st1)"
    using a i by (auto simp: allocate_instruction_def allocate_body_def andthen_def bnd_def split: sum.splits)
  have u1: "unread is n r st1" using maintainsD [OF k st st1] by simp
  have m: "merge_linked ?i st1 = Inr (?i, st1)"
    using u1 r(2) by (auto simp: merge_linked_def unread_def split: option.split)
  have w: "(case linked_instruction st1 of
                Some j \<Rightarrow> if i_rd ?i = i_rd (insns st1 ! j) then flush_linked else ret ()
              | None \<Rightarrow> ret ()) = ret ()"
    using u1 r(2) by (auto simp: unread_def avoids_def split: option.split)
  have d: "allocate_def ?i st1 = Inr (kill ?i, st1)"
    using u1 r(2) by (simp add: allocate_def_def unread_def)
  have "rd_step flush_linked n True ?i st1 = Inr (kill ?i, st1)"
    using rn mv by (simp add: rd_step_def bnd_def m links_def w andthen_def ret_def d)
  moreover have "is_dead (kill ?i)" by (simp add: is_dead_def kill_def)
  ultimately have "st' = st1\<lparr>insns := (insns st1)[n := kill ?i]\<rparr>"
    using a i st1 by (simp add: allocate_instruction_def allocate_body_def andthen_def bnd_def)
  moreover have "linked_instruction st1 \<noteq> Some n" "length (insns st1) = length is"
    using u1 by (auto simp: unread_def)
  ultimately show ?thesis using n by (simp add: gone_def is_dead_def kill_def)
qed

section \<open>After the instruction\<close>

lemma gone_insns:
  "gone l n st \<Longrightarrow> k \<noteq> n \<Longrightarrow> gone l n (st\<lparr>insns := (insns st)[k := i]\<rparr>)"
  by (simp add: gone_def)

lemma gone_release: "gone l n (release v p st) = gone l n st"
  by (simp add: gone_def release_def)

lemma gone_operand: "maintains (gone l n) (bnd (lift_res x) ret) (\<lambda>_. True)"
  by (auto simp: maintains_def bnd_def lift_res_def ret_def split: sum.splits)

lemma gone_allocate_use: "maintains (gone l n) (allocate_use x pref) (\<lambda>_. True)"
  unfolding maintains_def
proof (intro allI impI)
  fix st y st' assume st: "gone l n st" and u: "allocate_use x pref st = Inr (y, st')"
  let ?a = "choose_register (avail_physregs st) pref"
  let ?s = "st\<lparr>avail_physregs := flip_bit ?a (avail_physregs st), vreg_to_preg := (vreg_to_preg st)(x \<mapsto> of_nat ?a)\<rparr>"
  have g: "gone l n ?s" using st by (simp add: gone_def)
  have b: "bnd (lift_res (allocate_operand x (of_nat ?a))) ret ?s = Inr (y, st')"
    using u by (auto simp: allocate_use_def Let_def split: if_splits)
  from maintainsD [OF gone_operand g b] show "gone l n st' \<and> True" .
qed

lemma gone_use_step:
  assumes f: "maintains (gone l n) f (\<lambda>_. True)"
  shows "maintains (gone l n) (use_step f k rd x) (\<lambda>_. True)"
proof -
  have a: "maintains (gone l n) (\<lambda>st. (case vreg_to_preg st x of
              None \<Rightarrow> allocate_use x (if is_physical rd then rd else none_reg) st
            | Some pri \<Rightarrow> bnd (lift_res (allocate_operand x pri)) ret st)) (\<lambda>_. True)"
  proof (rule maintains_branch [where f = "\<lambda>st. case vreg_to_preg st x of
              None \<Rightarrow> allocate_use x (if is_physical rd then rd else none_reg)
            | Some pri \<Rightarrow> bnd (lift_res (allocate_operand x pri)) ret"])
    show "maintains (gone l n) (case vreg_to_preg st x of
              None \<Rightarrow> allocate_use x (if is_physical rd then rd else none_reg)
            | Some pri \<Rightarrow> bnd (lift_res (allocate_operand x pri)) ret) (\<lambda>_. True)" for st
      using gone_allocate_use gone_operand by (auto split: option.split)
  qed (simp split: option.split)
  have "maintains (gone l n) (\<lambda>st. Inr (x, st)) (\<lambda>_. True)" by (simp add: maintains_def)
  from maintains_if [OF this maintains_waits_then [OF f a, where b = "\<lambda>st j. (x = link_reg st \<or> x = i_rd (insns st ! j)) \<and> j \<noteq> k"],
      where b = "\<lambda>_. x = none_reg \<or> is_physical x"]
  show ?thesis by (simp add: use_step_def [abs_def])
qed

lemma gone_merge_linked: "maintains (gone l n) (merge_linked i) (\<lambda>_. True)"
  unfolding maintains_def
proof (intro allI impI)
  fix st i' st' assume st: "gone l n st" and m: "merge_linked i st = Inr (i', st')"
  define st1 where "st1 = (case vreg_to_preg st (i_rd i) of Some pri \<Rightarrow> release (i_rd i) pri st | None \<Rightarrow> st)"
  have st1: "gone l n st1" using st by (simp add: st1_def gone_release split: option.split)
  show "gone l n st' \<and> True"
  proof (cases "\<exists>j. linked_instruction st = Some j \<and> link_reg st = i_rd i")
    case False
    then show ?thesis using m st by (auto simp: merge_linked_def split: option.splits if_splits)
  next
    case True
    then obtain j where j: "linked_instruction st = Some j" "link_reg st = i_rd i" by blast
    then have "j \<noteq> n" using st by (simp add: gone_def)
    then have "gone l n (st1\<lparr>insns := (insns st1)[j := kill (insns st1 ! j)], linked_instruction := None\<rparr>)"
      using st1 by (simp add: gone_def)
    then show ?thesis using m j by (auto simp: merge_linked_def st1_def [symmetric] Let_def)
  qed
qed

lemma gone_allocate_def: "maintains (gone l n) (allocate_def i) (\<lambda>_. True)"
  by (auto simp: maintains_def allocate_def_def bnd_def lift_res_def ret_def Let_def gone_release split: option.splits sum.splits if_splits)

lemma gone_rd_step:
  assumes f: "maintains (gone l n) f (\<lambda>_. True)" and k: "k \<noteq> n"
  shows "maintains (gone l n) (rd_step f k sl i) (\<lambda>_. True)"
proof -
  have link: "maintains (gone l n) (andthen f (\<lambda>st2. Inr (i1, st2\<lparr>link_reg := move_source i1, linked_instruction := Some k\<rparr>))) (\<lambda>_. True)" for i1
    by (rule maintains_andthen [OF f]) (use k in \<open>simp add: maintains_def gone_def\<close>)
  have virt: "maintains (gone l n) (bnd (merge_linked i) (\<lambda>i1 st1.
          if links sl i1 st1 then
            andthen f (\<lambda>st2. Inr (i1, st2\<lparr>link_reg := move_source i1, linked_instruction := Some k\<rparr>)) st1
          else
            andthen (case linked_instruction st1 of
                Some j \<Rightarrow> if i_rd i1 = i_rd (insns st1 ! j) then f else ret ()
              | None \<Rightarrow> ret ())
              (allocate_def i1) st1)) (\<lambda>_. True)"
    by (intro maintains_bnd [OF gone_merge_linked] maintains_if link maintains_waits_then [OF f gone_allocate_def])
  show ?thesis
    unfolding maintains_def
  proof (intro allI impI)
    fix st i' st' assume st: "gone l n st" and s: "rd_step f k sl i st = Inr (i', st')"
    show "gone l n st' \<and> True"
    proof (cases "i_rd i = none_reg \<or> is_physical (i_rd i)")
      case True
      then show ?thesis using s st by (auto simp: rd_step_def gone_def split: if_splits)
    next
      case False
      then show ?thesis using s maintainsD [OF virt st, of i' st'] by (simp add: rd_step_def)
    qed
  qed
qed

lemma gone_body:
  assumes f: "maintains (gone l n) f (\<lambda>_. True)" and k: "k \<noteq> n"
  shows "maintains (gone l n) (allocate_body f k sl) (\<lambda>_. True)"
proof -
  have w: "maintains (gone l n) (\<lambda>st1. Inr ((), st1\<lparr>insns := (insns st1)[k := i]\<rparr>)) (\<lambda>_. True)" for i
    by (rule maintains_state) (use k in \<open>auto intro: gone_insns\<close>)
  have t: "maintains (gone l n) (if is_control_flow i then f else ret ()) (\<lambda>_. True)" for i
    using f by (simp add: maintains_ret)
  have e: "maintains (gone l n) (if is_dead i then (\<lambda>st1. Inr ((), st1\<lparr>insns := (insns st1)[k := i]\<rparr>))
        else
          andthen (\<lambda>st1. Inr ((), st1\<lparr>insns := (insns st1)[k := i]\<rparr>))
            (bnd (use_step f k (i_rd i) (i_rs1 i)) (\<lambda>r1.
             bnd (use_step f k (i_rd i) (i_rs2 i)) (\<lambda>r2 st1.
               Inr ((), st1\<lparr>insns := (insns st1)[k := kill_move (i\<lparr>i_rs1 := r1, i_rs2 := r2\<rparr>)]\<rparr>))))) (\<lambda>_. True)" for i
    by (simp add: w) (intro impI maintains_andthen [OF w] maintains_bnd [OF gone_use_step [OF f]] w)
  show ?thesis
    by (rule maintains_branch [OF maintains_andthen [OF t maintains_bnd [OF gone_rd_step [OF f k] e]]])
      (simp add: allocate_body_def)
qed

lemma gone_instruction:
  assumes k: "k \<noteq> n"
  shows "maintains (gone l n) (allocate_instruction k) (\<lambda>_. True)"
proof -
  have "maintains (gone l n) flush_linked (\<lambda>_. True)"
    unfolding maintains_def
  proof (intro allI impI)
    fix st u st' assume st: "gone l n st" and f: "flush_linked st = Inr (u, st')"
    show "gone l n st' \<and> True"
    proof (cases "linked_instruction st")
      case None
      then show ?thesis using st f by (simp add: flush_linked_def)
    next
      case (Some j)
      then have j: "j \<noteq> n" and s: "gone l n (st\<lparr>linked_instruction := None\<rparr>)"
        using st by (simp_all add: gone_def)
      have "maintains (gone l n) (allocate_waiting j) (\<lambda>_. True)"
        unfolding allocate_waiting_def by (rule gone_body [OF maintains_ret j]) simp
      from maintainsD [OF this s] show ?thesis using f Some by (simp add: flush_linked_def)
    qed
  qed
  from gone_body [OF this k] show ?thesis unfolding allocate_instruction_def .
qed

section \<open>The scan\<close>

lemma for_each_append: "for_each (xs @ ys) f = andthen (for_each xs f) (for_each ys f)"
  by (induction xs) (simp_all add: andthen_def bnd_def ret_def fun_eq_iff split: sum.split)

lemma unread_is_dead:
  assumes a: "allocate is = Inr is'" and n: "n < length is" and v: "is_virtual (i_rd (is ! n))" "\<not> is_mv (is ! n)"
    and u: "\<And>j. n < j \<Longrightarrow> j < length is \<Longrightarrow> avoids (i_rd (is ! n)) (is ! j)"
  shows "is_dead (is' ! n)"
proof -
  let ?r = "i_rd (is ! n)"
  have "[0..<length is] = [0..<n] @ n # [Suc n..<length is]"
    using n upt_add_eq_append [of 0 n "length is - n"] by (simp add: upt_conv_Cons)
  then have s: "rev [0..<length is] = rev [Suc n..<length is] @ n # rev [0..<n]" by simp
  obtain st1 st2 st3 where
    st1: "for_each (rev [Suc n..<length is]) allocate_instruction (initial_alloc is) = Inr ((), st1)" and
    st2: "allocate_instruction n st1 = Inr ((), st2)" and
    st3: "for_each (rev [0..<n]) allocate_instruction st2 = Inr ((), st3)" "is' = insns st3"
    using a unfolding allocate_def s for_each_append
    by (auto simp: andthen_def bnd_def split: sum.splits)
  have "\<not> guest ?r" "?r \<noteq> none_reg" using v(1) kinds_of_reg by (metis, metis)
  then have i: "unread is n ?r (initial_alloc is)"
    using u by (simp add: unread_def initial_alloc_def functional_map_def guest_def)
  have "maintains (unread is n ?r) (for_each (rev [Suc n..<length is]) allocate_instruction) (\<lambda>_. True)"
    unfolding allocate_instruction_def
    by (rule maintains_for_each) (auto intro: unread_body [OF v(1) unread_flush [OF v(1)]])
  from maintainsD [OF this i st1] have "unread is n ?r st1" ..
  then have g: "gone (length is) n st2" by (rule unread_dies [OF v(1) refl v(2) n _ st2])
  have "maintains (gone (length is) n) (for_each (rev [0..<n]) allocate_instruction) (\<lambda>_. True)"
    by (rule maintains_for_each) (auto intro: gone_instruction)
  from maintainsD [OF this g st3(1)] have "gone (length is) n st3" ..
  then show ?thesis by (simp add: gone_def st3(2))
qed

end
