(* ===== verification/Riscv_Allocation_Theorems.thy ===== *)
theory Riscv_Allocation_Theorems
  imports Riscv_Allocation_Blocks Riscv_Allocation_Room Riscv_Allocation_Unread
begin

text \<open>
  The whole scan, the theorem on blocks of straight-line code, and what the allocator does
  outside of that class.
\<close>

section \<open>The scan\<close>

definition results_fixed :: "insn list \<Rightarrow> nat \<Rightarrow> reg set \<Rightarrow> bool" where
  "results_fixed is k F \<longleftrightarrow>
     (\<forall>A\<in>{A0, A1}. (\<forall>j. k \<le> j \<longrightarrow> j < length is \<longrightarrow> i_rd (is ! j) \<noteq> A) \<longrightarrow> A \<in> F)"

lemma results_fixed_at:
  assumes f: "results_fixed is (Suc k) F" and ok: "insns_ok {} is" and k: "k < length is"
  shows "i_rd (is ! k) \<in> {A0, A1} \<Longrightarrow> i_rd (is ! k) \<in> F"
    and "results_fixed is k (F - ({A0, A1} \<inter> {i_rd (is ! k)}))"
proof -
  assume A: "i_rd (is ! k) \<in> {A0, A1}"
  have "i_rd (is ! j) \<noteq> i_rd (is ! k)" if "Suc k \<le> j" "j < length is" for j
    using insns_ok_once [OF ok _ that(2) A] that(1) by simp
  then show "i_rd (is ! k) \<in> F" using f A unfolding results_fixed_def by blast
next
  show "results_fixed is k (F - ({A0, A1} \<inter> {i_rd (is ! k)}))"
    unfolding results_fixed_def
  proof (intro ballI impI)
    fix A assume A: "A \<in> {A0, A1}" and n: "\<forall>j. k \<le> j \<longrightarrow> j < length is \<longrightarrow> i_rd (is ! j) \<noteq> A"
    have "A \<in> F" using f A n unfolding results_fixed_def by (meson Suc_leD)
    moreover have "i_rd (is ! k) \<noteq> A" using n k by blast
    ultimately show "A \<in> F - ({A0, A1} \<inter> {i_rd (is ! k)})" by auto
  qed
qed

lemma scan_ok:
  assumes ok: "insns_ok {} is" and c: "copies sem" "keeps_memory sem"
  shows "k \<le> length is \<Longrightarrow> inv sem is F k st \<Longrightarrow> results_fixed is k F \<Longrightarrow>
    for_each (rev [0..<k]) allocate_instruction st = Inr ((), st') \<Longrightarrow> \<exists>F'. inv sem is F' 0 st'"
proof (induction k arbitrary: F st)
  case 0
  then show ?case by (auto simp: ret_def)
next
  case (Suc k)
  have k: "k < length is" using Suc.prems(1) by simp
  obtain st1 where r: "allocate_instruction k st = Inr ((), st1)"
    "for_each (rev [0..<k]) allocate_instruction st1 = Inr ((), st')"
    using Suc.prems(4) by (auto simp: andthen_def bnd_def split: sum.splits)
  have i: "insn_ok (i_rd ` set (take k is)) (is ! k)" using insns_ok_nth [OF ok k] by simp
  note f = results_fixed_at [OF Suc.prems(3) ok k]
  have "inv sem is (F - ({A0, A1} \<inter> {i_rd (is ! k)})) k st1"
    by (rule body_ok [OF Suc.prems(2) k i f(1) c r(1)])
  then show ?case using Suc.IH [OF _ _ f(2) r(2)] k by simp
qed

section \<open>The initial state\<close>

lemma guest_cases:
  assumes "guest v" obtains n where "n < 8" "v = 32 + of_nat n"
proof
  have "32 \<le> v" "v < 40" using assms by (simp_all add: guest_def FUNCTIONAL_BASE_def)
  then show "unat (v - 32) < 8" "v = 32 + of_nat (unat (v - 32))"
    by (auto simp: word_le_nat_alt word_less_nat_alt unat_sub)
qed

lemma functional_map_guest: "functional_map v = (if guest v then Some (v - 16) else None)"
  by (simp add: functional_map_def guest_def FUNCTIONAL_BASE_def)

lemma functional_map_range:
  assumes "functional_map v = Some p"
  shows "guest v" "p < 32" "\<not> bit (0xFF00F2E8 :: 32 word) (unat p)" "p \<notin> all_fixed"
proof -
  show g: "guest v" using assms by (simp add: functional_map_guest split: if_splits)
  obtain n where n: "n < 8" "v = 32 + of_nat n" using guest_cases [OF g] .
  have p: "p = 16 + of_nat n" using assms g n(2) by (simp add: functional_map_guest)
  have "n \<in> {0,1,2,3,4,5,6,7}" using n(1) by auto
  then show "p < 32" "\<not> bit (0xFF00F2E8 :: 32 word) (unat p)" "p \<notin> all_fixed"
    by (auto simp: p all_fixed_def rv_consts)
qed

lemma map_ok_initial: "map_ok all_fixed 0xFF00F2E8 functional_map"
proof -
  have "functional_map v = Some p \<Longrightarrow> functional_map u = Some p \<Longrightarrow> v = u" for v u p
    by (auto simp: functional_map_guest split: if_splits)
  moreover have "\<forall>p\<in>all_fixed. \<not> bit (0xFF00F2E8 :: 32 word) (unat p)"
    by (simp add: all_fixed_def rv_consts)
  ultimately show ?thesis
    using functional_map_range unfolding map_ok_def by (auto simp: always_fixed_def all_fixed_def)
qed

lemma guest_not_virtual: "guest v \<Longrightarrow> \<not> is_virtual v"
  using kinds_of_reg(8) by blast

lemma inv_initial: "inv sem is all_fixed (length is) (initial_alloc is)"
  using map_ok_initial correct_Nil
  by (auto simp: inv_def state_ok_def holds_def initial_alloc_def live_def functional_map_guest split: if_splits dest: guest_not_virtual)

section \<open>Blocks\<close>

text \<open>C4: Register allocation preserves the meaning of a \<open>straight_line\<close> block: when
  \<open>allocate\<close> returns, the allocated instructions, run on RISC-V registers that hold the mapped guest
  registers and the fixed registers, compute the same memory, the same guest registers and the
  same results in \<open>A0\<close> and \<open>A1\<close> as the instructions over virtual registers, and every
  instruction that is left has RISC-V registers only.  A block is \<open>straight_line\<close> if it has no
  label, branch, direct jump, dead or no-op instruction; destinations are \<open>ZERO\<close>, \<open>RA\<close>, \<open>SP\<close>, \<open>TP\<close>,
  \<open>FP\<close>, \<open>A0\<close>, \<open>A1\<close>, the eight mapped guest registers and virtual registers; an instruction with
  a guest or virtual destination is no atomic access, no \<open>jalr\<close> and no store (a
  \<open>jalr\<close> that links to a fixed register counts as an instruction that computes that register); operands
  are \<open>ZERO\<close>, \<open>RA\<close>, \<open>SP\<close>, \<open>TP\<close>, \<open>FP\<close>, mapped guest registers and virtual registers
  written before, so \<open>A0\<close> and \<open>A1\<close> are not read; each of \<open>A0\<close> and \<open>A1\<close> is written at most
  once; an instruction with one operand and an immediate names no second operand; and no move
  that keeps its destination moves \<open>ZERO\<close>.  Of the machine it is assumed that \<open>addi\<close> of 0
  copies and \<open>add\<close> adds, that loads and arithmetic leave memory alone, and
  that \<open>ZERO\<close> holds 0.\<close>

theorem allocation_preserves_execution:
  fixes sem :: "'m rv_semantics"
  assumes a: "allocate is = Inr is'" and "straight_line is" and c: "copies sem" "keeps_memory sem"
    and z: "Rv ZERO = 0" and s: "sim all_fixed functional_map Rv Rp"
  shows "snd (exec_insns sem is' (Rp, M)) = snd (exec_insns sem is (Rv, M))
    \<and> sim all_fixed functional_map (fst (exec_insns sem is (Rv, M))) (fst (exec_insns sem is' (Rp, M)))
    \<and> list_all allocated is'"
proof -
  have ok: "insns_ok {} is" using assms(2) by (simp add: straight_line_def)
  obtain st where st: "for_each (rev [0..<length is]) allocate_instruction (initial_alloc is) = Inr ((), st)" "is' = insns st"
    using a by (auto simp: allocate_def split: sum.splits)
  have "results_fixed is (length is) all_fixed" by (simp add: results_fixed_def all_fixed_def)
  then obtain F where I: "inv sem is F 0 st"
    using scan_ok [OF ok c _ inv_initial _ st(1)] by auto
  have n: "linked_instruction st = None" and lv: "live st = {}" using I by (auto simp: inv_def)
  have m: "map_ok F (avail_physregs st) (vreg_to_preg st)" and co: "correct sem F (vreg_to_preg st) is' is"
    and al: "\<forall>x<length is'. allocated (is' ! x)"
    using I n by (auto simp: inv_def state_ok_def holds_def st(2))
  have "functional_map v = Some p" if "vreg_to_preg st v = Some p" for v p
  proof -
    have "\<not> is_virtual v" using that lv n by (auto simp: live_def)
    then have "guest v" using map_okD(4) [OF m that] by simp
    then show ?thesis using map_okD(9) [OF m] that by simp
  qed
  then have "sim F (vreg_to_preg st) Rv Rp" using s map_okD(3) [OF m] by (auto simp: sim_def)
  then show ?thesis
    using correctD [where Rv = Rv and Rp = Rp and M = M, OF co z] al by (simp add: list_all_length)
qed


text \<open>A machine with a memory of double words.\<close>

definition sample_sem :: "(64 word \<Rightarrow> 64 word) rv_semantics" where
  "sample_sem f imm order x y m =
     (case f of
        RdRs1ImmFunc F_addi_normal \<Rightarrow> (x + imm, m)
      | RdRs1Rs2Func F_add \<Rightarrow> (x + y, m)
      | RdAddrFunc F_ld \<Rightarrow> (m (x + imm), m)
      | RdAddrFunc F_sd \<Rightarrow> (0, m(x + imm := y))
      | _ \<Rightarrow> (0, m))"

lemma sample_sem_ok: "copies sample_sem" "keeps_memory sample_sem"
proof -
  show "copies sample_sem" by (simp add: copies_def sample_sem_def)
  have "pure_func f \<Longrightarrow> snd (sample_sem f imm order x y m) = m" for f imm order x y m
    by (cases f) (auto simp: sample_sem_def split: rdrs1imm_func.splits rdrs1rs2_func.splits rdaddr_func.splits)
  then show "keeps_memory sample_sem" by (simp add: keeps_memory_def)
qed

text \<open>Two guest registers are read from the context, their sum is stored and moved to a third.\<close>

definition add_block :: "insn list" where
  "add_block = built [load 64 0, load 65 8, b_add 66 64 65, b_sd 66 \<lparr>addr_base = FP, addr_offset = 16\<rparr>, b_mv 32 66, b_mv A0 65]"

definition sample_regs :: "regs" where
  "sample_regs r = (if r = FP then 4096 else if guest r then ucast r else 0)"

definition sample_machine :: "regs" where
  "sample_machine r = (if r < 16 then sample_regs r else sample_regs (r + 16))"

definition shape :: "insn list \<Rightarrow> (instruction_type \<times> reg \<times> reg \<times> reg) list" where
  "shape is = map (\<lambda>i. (i_type i, i_rd i, i_rs1 i, i_rs2 i)) is"

definition csel_block :: "insn list" where
  "csel_block = built [load 64 0, load 65 8, load 66 16, b_beqz 64 0 False, b_mv 67 65, b_j 1 False,
     b_Bind 0, b_mv_keep 67 66, b_Bind 1, b_mv 32 67]"

definition amo_block :: "insn list" where
  "amo_block = built [load 64 0, b_amoaddd 65 64 \<lparr>addr_base = FP, addr_offset = 0\<rparr> memory_order_acq_rel]"

definition zero_block :: "insn list" where
  "zero_block = built [load 64 0, b_addi 65 ZERO 1 False, b_beqz 64 0 False, b_mv_keep 65 ZERO, b_Bind 0, b_mv 32 65]"


section \<open>Evaluated blocks\<close>

lemma add_block_allocated:
  "map_sum id shape (allocate add_block) = Inr
     [(I_RdAddr, 9, FP, none_reg), (I_RdAddr, A0, FP, none_reg), (I_RdRs1Rs2, 9, 9, A0), (I_Rs2Addr, none_reg, FP, 9),
      (I_RdRs1Imm, 16, 9, none_reg), (I_Dead, A0, A0, none_reg)]"
  by code_simp

lemma sample_sim: "sim all_fixed functional_map sample_regs sample_machine"
proof -
  have "sample_machine p = sample_regs v" if "functional_map v = Some p" for v p
  proof -
    have g: "guest v" and p: "p = v - 16" using that by (simp_all add: functional_map_guest split: if_splits)
    obtain n where n: "n < 8" "v = 32 + of_nat n" using guest_cases [OF g] .
    then have "n \<in> {0,1,2,3,4,5,6,7}" by auto
    then show ?thesis by (auto simp: p n(2) sample_machine_def)
  qed
  moreover have "\<forall>p\<in>all_fixed. sample_machine p = sample_regs p"
    by (simp add: all_fixed_def sample_machine_def rv_consts)
  ultimately show ?thesis by (simp add: sim_def)
qed

lemma allocation_preserves_execution_witness:
  "\<exists>is'. allocate add_block = Inr is' \<and> (\<exists>i\<in>set is'. is_dead i)
     \<and> snd (exec_insns sample_sem is' (sample_machine, \<lambda>a. a)) = snd (exec_insns sample_sem add_block (sample_regs, \<lambda>a. a))"
proof -
  obtain is' where a: "allocate add_block = Inr is'" "shape is' =
     [(I_RdAddr, 9, FP, none_reg), (I_RdAddr, A0, FP, none_reg), (I_RdRs1Rs2, 9, 9, A0), (I_Rs2Addr, none_reg, FP, 9),
      (I_RdRs1Imm, 16, 9, none_reg), (I_Dead, A0, A0, none_reg)]"
    using add_block_allocated by (cases "allocate add_block") auto
  have s: "straight_line add_block" by code_simp
  have z: "sample_regs ZERO = 0" by (simp add: sample_regs_def guest_def FUNCTIONAL_BASE_def rv_consts)
  have "I_Dead \<in> set (map fst (shape is'))" unfolding a(2) by simp
  then have "\<exists>i\<in>set is'. is_dead i" by (force simp: shape_def is_dead_def)
  then show ?thesis
    using allocation_preserves_execution [where M = "\<lambda>a. a", OF a(1) s sample_sem_ok z sample_sim] a(1) by blast
qed


lemma csel_allocated:
  "map_sum id shape (allocate csel_block) = Inr
     [(I_RdAddr, 13, FP, none_reg), (I_RdAddr, 9, FP, none_reg), (I_RdAddr, 12, FP, none_reg),
      (I_Rs1Rs2LabelFar, none_reg, 13, ZERO), (I_Dead, 67, 9, none_reg), (I_RdLabelFar, ZERO, none_reg, none_reg),
      (I_Label, none_reg, none_reg, none_reg), (I_RdRs1ImmKeepRs2, 9, 12, 9), (I_Label, none_reg, none_reg, none_reg),
      (I_RdRs1Imm, 16, 9, none_reg)]"
  by code_simp

lemma zero_allocated:
  "map_sum id shape (allocate zero_block) = Inr
     [(I_RdAddr, 12, FP, none_reg), (I_RdRs1Imm, 9, ZERO, none_reg), (I_Rs1Rs2LabelFar, none_reg, 12, ZERO),
      (I_Dead, 9, ZERO, 9), (I_Label, none_reg, none_reg, none_reg), (I_RdRs1Imm, 16, 9, none_reg)]"
  by code_simp

lemma amo_allocated:
  "map_sum id shape (allocate amo_block) = Inr [(I_Dead, 64, FP, none_reg), (I_Dead, 65, FP, 64)]"
  by code_simp

text \<open>Outside of the class, \<open>csel_allocated\<close> is the code of a conditional select: the move of the
  true arm is killed, because the move of the false arm, which has to keep the register alive,
  waits until the label and by then no longer reads its destination.  In \<open>zero_allocated\<close> a
  move of \<open>ZERO\<close> that keeps its destination is killed as a move to itself.  In \<open>amo_allocated\<close>
  an atomic addition is killed, for which there is a general theorem.\<close>

text \<open>C27: When \<open>allocate\<close> returns, an instruction that is not a move and whose destination is a
  virtual register that no later instruction of the list names, as destination or operand, has
  been removed, whatever else it does and whatever the control flow: the assembler emits nothing
  in its place, and what is left in its place changes no register and no memory on any machine.
  For an atomic access whose old value is not used this drops the update of memory.\<close>

theorem unread_results_are_dropped:
  fixes sem :: "'m rv_semantics"
  assumes "allocate is = Inr is'" and "n < length is" and "is_virtual (i_rd (is ! n))" and "\<not> is_mv (is ! n)"
    and "\<forall>j. n < j \<longrightarrow> j < length is \<longrightarrow> i_rd (is ! n) \<notin> {i_rd (is ! j), i_rs1 (is ! j), i_rs2 (is ! j)}"
  shows "emit_insn (is' ! n) = ret () \<and> exec_insn sem (is' ! n) s = s"
proof -
  have "is_dead (is' ! n)"
    by (rule unread_is_dead [OF assms(1-4)]) (use assms(5) in \<open>auto simp: avoids_def\<close>)
  then show ?thesis by (simp add: is_dead_def emit_insn_def exec_insn_def Let_def)
qed

text \<open>A machine whose atomic additions add.\<close>

definition amo_sem :: "(64 word \<Rightarrow> 64 word) rv_semantics" where
  "amo_sem f imm order x y m =
     (case f of RdRs2AddrOrderFunc F_amoaddd \<Rightarrow> (m x, m(x := m x + y)) | _ \<Rightarrow> (0, m))"

lemma unread_results_are_dropped_witness:
  "\<exists>is'. allocate amo_block = Inr is' \<and> emit_insn (is' ! 1) = ret ()
     \<and> exec_insn amo_sem (is' ! 1) (\<lambda>r. 1, \<lambda>a. 0) = (\<lambda>r. 1, \<lambda>a. 0)
     \<and> exec_insn amo_sem (amo_block ! 1) (\<lambda>r. 1, \<lambda>a. 0) \<noteq> (\<lambda>r. 1, \<lambda>a. 0)"
proof -
  obtain is' where a: "allocate amo_block = Inr is'" using amo_allocated by (cases "allocate amo_block") auto
  have l: "length amo_block = 2" by code_simp
  have v: "is_virtual (i_rd (amo_block ! 1))" "\<not> is_mv (amo_block ! 1)" by code_simp+
  have i: "i_type (amo_block ! 1) = I_RdRs2AddrOrder" "i_func (amo_block ! 1) = RdRs2AddrOrderFunc F_amoaddd"
    by code_simp+
  have "snd (exec_insn amo_sem (amo_block ! 1) (\<lambda>r. 1, \<lambda>a. 0)) 1 = 1"
    by (simp add: exec_insn_def Let_def amo_sem_def i [unfolded One_nat_def] reads1_def reads2_def)
  then have "exec_insn amo_sem (amo_block ! 1) (\<lambda>r. 1, \<lambda>a. 0) \<noteq> (\<lambda>r. 1, \<lambda>a. 0)" by force
  moreover have "emit_insn (is' ! 1) = ret () \<and> exec_insn amo_sem (is' ! 1) (\<lambda>r. 1, \<lambda>a. 0) = (\<lambda>r. 1, \<lambda>a. 0)"
    by (rule unread_results_are_dropped [OF a _ v]) (simp_all add: l)
  ultimately show ?thesis using a by blast
qed

end
