(* ===== verification/Spec2Isabelle.thy ===== *)
theory Spec2Isabelle
  imports
    Front_Properties
    Opt_Properties
    X86_Execution_Theorems
    Machine_Code
    Riscv_Bind
    Riscv_Align
    Riscv_Compression
    Riscv_Allocation_Theorems
begin

text \<open>
  Arancini is a binary translator for x86-64 programs.  A front end turns decoded x86
  instructions into a graph of nodes, the IR; the static path gives the IR to LLVM, the dynamic
  path (the DBT) optimises one basic block, lowers it to the instructions of the host and writes
  the machine code into an arena.  This development models the front end, the IR with its
  optimisation, the meaning the LLVM engine gives to the IR, and the RISC-V back end down to the
  bytes in memory.

  Conventions.  Code that can throw is a program of the state-and-exception monad of theory
  \<open>Prelude\<close>; the exceptions are values of the type \<open>exn\<close>, and so are undefined behaviour of C++
  and failed assertions.  Machine integers are words of their width.  Objects that the C++ code
  shares by pointers (nodes, ports, labels, typed registers) are numbers that index an explicit
  store.  Definitions keep the names of the source; a name that is taken has a suffix, the
  methods of the instruction builder have the prefix \<open>b_\<close>.

  The parts, with the theories that model them and the theories that prove something about them:

  \<^item> IR (\<open>inc/arancini/ir\<close>, \<open>src/ir\<close>): \<open>Value_Type\<close> (types of values), \<open>Registers\<close> (the guest
    register file), \<open>IR_Node\<close> (nodes, ports and their checks), \<open>IR_Visitor\<close> (the default visitor),
    \<open>IR_Builder\<close> (chunks, packets and the insert functions).  \<open>Builder_Invariant\<close> states when a heap
    of nodes is well formed and proves that every builder operation keeps it.
  \<^item> x86 front end (\<open>src/input/x86\<close>): \<open>X86_Translator\<close> (operands, addresses, flags, conditions),
    \<open>X86_Binop\<close>, \<open>X86_Shifts\<close>, \<open>X86_Mov\<close>, \<open>X86_Control_Flow\<close>, \<open>X86_Vector\<close>, \<open>X86_Fpu\<close> (one translator per class
    of instructions), \<open>X86_Internal_Functions\<close> (calls into the runtime), \<open>X86_Input_Arch\<close> (dispatch
    and the loop over a block).  The decoder XED is the parameter \<open>decode\<close>.  \<open>X86_Translator_Safe\<close>,
    \<open>X86_Integer_Safe\<close>, \<open>X86_Vector_Safe\<close>, \<open>X86_Fpu_Safe\<close> and \<open>X86_Safe\<close> carry the invariant of the
    builder through every translator; \<open>Front_Properties\<close> states it for chunks.
  \<^item> Meaning of the IR (\<open>src/output/static/llvm\<close>): \<open>LLVM_Lowering\<close> follows the static engine, one
    definition per class of ports, and runs packets; \<open>Chunk_Execution\<close> is the function the engine
    builds from a chunk (\<open>lower_chunk\<close>): the blocks of its packets, the switch on the PC, calls and
    returns.  \<open>IR_Semantics\<close>, \<open>IR_Rules\<close> and \<open>IR_Execution\<close>
    are a calculus over it: one rule per insert function gives the meaning of the new port from
    the meaning of its operands.  \<open>X86_Operand_Meaning\<close>, \<open>X86_Arith_Meaning\<close>, \<open>X86_Binop_Meaning\<close>,
    \<open>X86_Execution\<close>, \<open>X86_Execution_Theorems\<close>, \<open>X86_Chunks\<close> and \<open>X86_Blocks\<close> use it to prove that
    translated instructions, and basic blocks of them, do what the architecture says.  A basic
    block runs its packets in order, as the dynamic path does.
  \<^item> Dead-flags optimisation (\<open>inc/arancini/ir/opt.h\<close>): \<open>Dead_Flags\<close> is the pass.  \<open>Snapshot\<close>,
    \<open>Dead_Flags_Correct\<close> and \<open>Opt_Properties\<close> prove that it preserves the execution of a chunk, jumps
    between packets included, when packets have no jumps inside, read registers before they write
    them and share no nodes, and every flag is live behind every packet that transfers control;
    every basic block satisfies the last condition, a whole symbol may not.  \<open>Dead_Flags_Theorems\<close>
    says what the pass keeps and counts; \<open>dead_flags_breaks_xadd\<close> is an instruction that it breaks.
  \<^item> Code memory (\<open>machine-code-writer.h\<close>, \<open>machine-code-allocator.h\<close>, \<open>chain.h\<close>): \<open>Machine_Code\<close>.  The
    locale \<open>resizable_code\<close> states what the writer needs of an allocator, \<open>code_allocator\<close> what makes
    translations keep their code; the arena and the chaining allocator are interpretations.
  \<^item> RISC-V encoder (\<open>output/dynamic/riscv64/encoder\<close>): \<open>Riscv_Constants\<close> (fields and immediates),
    \<open>Riscv_Assembler\<close> and \<open>Riscv_Wrappers\<close> (one program per method, over the buffer, the labels and
    the extensions of the target).  \<open>Riscv_Compressed\<close> and \<open>Riscv_Compression\<close> compare compressed
    with full instructions and state which operands only the full ones accept, \<open>Riscv_Bind\<close> proves
    what binding a label does, \<open>Riscv_Align\<close> at which positions \<open>Align\<close> succeeds.
  \<^item> RISC-V instruction builder (\<open>output/dynamic/riscv64/instruction-builder\<close>): \<open>Riscv_Instruction\<close>
    (operands, instructions, builder methods, emission) and \<open>Riscv_Allocator\<close> (the reverse linear
    scan).  \<open>Riscv_Allocation\<close>, \<open>Riscv_Allocation_Correct\<close>, \<open>Riscv_Allocation_Blocks\<close> and
    \<open>Riscv_Allocation_Theorems\<close> prove that it preserves straight-line code for every semantics of the
    instructions in which moves move and only stores, atomic accesses and instructions without
    operands change memory; \<open>Riscv_Allocation_Room\<close> proves that it succeeds with 17 virtual registers,
    \<open>Riscv_Allocation_Unread\<close> that it removes an instruction whose virtual result is not named again.
  Fuel and bounds.  Loops that end on every input are total functions with a termination proof
  (the loop over a block, the search for the offset of a label with the size of the buffer as
  its bound).  Fuel is used for IR control flow inside one packet and for the jumps between the
  packets of a chunk, which may go on for ever: a packet of straight-line actions needs one unit
  per action and one more, and the theorem on chunks says that an execution that ends, with any
  fuel, ends the same way with the same fuel after the pass.

  Hypotheses.  The decoder answers with instructions of non-zero length; the semantics of host
  instructions is a parameter with the two properties \<open>copies\<close> and \<open>keeps_memory\<close>; the arena is
  large enough for the translations written.  Every property with a hypothesis has a witness.

  Not modelled.  Values of floating-point nodes, and atomicity (the packets run on one thread).
  The RISC-V translation context, which lowers IR nodes to calls of the instruction builder.
  The ARM64 and x86 back ends: the first encodes through the Keystone assembler, which takes
  text, the second through FADEC, and neither library is part of the repository.  The helper
  passes over LLVM IR, the linker driver and the command line of the static translator, the ELF
  reader, the native-library parser (generated by flex and bison), the execution context with its
  system calls and signal handlers: code whose effects are those of the operating system or of
  libraries.  Dot graphs, debug printing and logging.
\<close>

end
